(* ===== verification/Prelude.thy ===== *)
theory Prelude
  imports Main "HOL-Library.Char_ord" "HOL-Library.List_Lexorder" "HOL-Library.Word"
begin

text \<open>
  What every component shares: the Rust string operations on UTF-8 bytes (a \<open>string\<close> is the
  list of the bytes of a Rust \<open>String\<close>), the ordered sets and maps of the standard library
  (\<open>BTreeSet\<close>, \<open>BTreeMap\<close>) as sorted lists behind locales, results with \<open>io::Error\<close>, and
  state-passing computations that may fail. The collections \<open>str_simps\<close> and \<open>io_simps\<close> hold
  the rewrite rules the component proofs use.
\<close>

named_theorems str_simps
named_theorems io_simps

section \<open>Strings as UTF-8 bytes\<close>

subsection \<open>Prefixes, suffixes, substrings\<close>

text \<open>\<open>str::starts_with\<close>, \<open>str::ends_with\<close> and \<open>str::contains\<close> compare bytes.\<close>

fun starts_with :: "string \<Rightarrow> string \<Rightarrow> bool" where
  "starts_with s [] = True"
| "starts_with [] (p # ps) = False"
| "starts_with (c # s) (p # ps) = (c = p \<and> starts_with s ps)"

definition ends_with :: "string \<Rightarrow> string \<Rightarrow> bool" where
  "ends_with s p = starts_with (rev s) (rev p)"

fun str_contains :: "string \<Rightarrow> string \<Rightarrow> bool" where
  "str_contains [] p = (p = [])"
| "str_contains (c # s) p = (starts_with (c # s) p \<or> str_contains s p)"

lemma starts_with_iff [str_simps]: "starts_with s p \<longleftrightarrow> (\<exists>r. s = p @ r)"
  by (induction s p rule: starts_with.induct) auto

lemma starts_with_append [simp]: "starts_with (p @ r) p"
  by (auto simp: starts_with_iff)

lemma starts_with_refl [simp]: "starts_with s s"
  by (induction s) auto

lemma starts_with_trans: "starts_with a b \<Longrightarrow> starts_with b c \<Longrightarrow> starts_with a c"
  by (auto simp: starts_with_iff)

lemma ends_with_iff [str_simps]: "ends_with s p \<longleftrightarrow> (\<exists>r. s = r @ p)"
  by (auto simp: ends_with_def starts_with_iff) (metis rev_append rev_rev_ident)

lemma str_contains_iff [str_simps]: "str_contains s p \<longleftrightarrow> (\<exists>a b. s = a @ p @ b)"
proof (induction s)
  case Nil
  then show ?case by auto
next
  case (Cons c s)
  have "(\<exists>a b. c # s = a @ p @ b) \<longleftrightarrow> (\<exists>b. c # s = p @ b) \<or> (\<exists>a b. s = a @ p @ b)"
    by (metis append_Cons append_eq_Cons_conv append_self_conv2)
  with Cons show ?case by (simp add: starts_with_iff)
qed

lemma str_contains_infix: "str_contains (a @ p @ b) p"
  by (auto simp: str_contains_iff)

lemma str_contains_append: "str_contains s p \<Longrightarrow> str_contains (a @ s @ b) p"
  unfolding str_contains_iff by (metis append.assoc)

text \<open>\<open>str::strip_prefix\<close>.\<close>

fun strip_prefix :: "string \<Rightarrow> string \<Rightarrow> string option" where
  "strip_prefix s [] = Some s"
| "strip_prefix [] (p # ps) = None"
| "strip_prefix (c # s) (p # ps) = (if c = p then strip_prefix s ps else None)"

lemma strip_prefix_Some: "strip_prefix s p = Some r \<longleftrightarrow> s = p @ r"
  by (induction s p rule: strip_prefix.induct) auto

subsection \<open>ASCII case and slashes\<close>

text \<open>\<open>str::to_ascii_lowercase\<close> changes the bytes \<open>A\<close> to \<open>Z\<close> and no other byte.\<close>

definition ascii_lower_char :: "char \<Rightarrow> char" where
  "ascii_lower_char c =
     (let n = of_char c :: nat in if 65 \<le> n \<and> n \<le> 90 then char_of (n + 32) else c)"

definition to_ascii_lowercase :: "string \<Rightarrow> string" where
  "to_ascii_lowercase s = map ascii_lower_char s"

text \<open>\<open>s.replace('\', "/")\<close>, the path normalisation used throughout the kernel.\<close>

definition slash_char :: "char \<Rightarrow> char" where
  "slash_char c = (if c = CHR 0x5C then CHR ''/'' else c)"

definition fwd_slashes :: "string \<Rightarrow> string" where
  "fwd_slashes s = map slash_char s"

lemma fwd_slashes_no_backslash: "CHR 0x5C \<notin> set (fwd_slashes s)"
  by (auto simp: fwd_slashes_def slash_char_def)

lemma fwd_slashes_id: "CHR 0x5C \<notin> set s \<Longrightarrow> fwd_slashes s = s"
  by (induction s) (auto simp: fwd_slashes_def slash_char_def)

lemma fwd_slashes_idem [simp]: "fwd_slashes (fwd_slashes s) = fwd_slashes s"
  by (simp add: fwd_slashes_id fwd_slashes_no_backslash)

lemma fwd_slashes_Nil [simp]: "fwd_slashes [] = []" "(fwd_slashes s = []) = (s = [])"
  by (simp_all add: fwd_slashes_def)

lemma fwd_slashes_append: "fwd_slashes (a @ b) = fwd_slashes a @ fwd_slashes b"
  by (simp add: fwd_slashes_def)

definition is_ascii_alphanumeric :: "char \<Rightarrow> bool" where
  "is_ascii_alphanumeric c =
     (let n = of_char c :: nat in
      (48 \<le> n \<and> n \<le> 57) \<or> (65 \<le> n \<and> n \<le> 90) \<or> (97 \<le> n \<and> n \<le> 122))"

subsection \<open>Trimming\<close>

text \<open>
  \<open>str::trim\<close> removes the characters with the Unicode property \<open>White_Space\<close>. These are the
  UTF-8 encodings of all of them, so that trimming works on the bytes: the ASCII ones, U+0085,
  U+00A0, U+1680, U+2000 to U+200A, U+2028, U+2029, U+202F, U+205F and U+3000.
\<close>

definition ws_seqs :: "string list" where
  "ws_seqs =
     [[CHR 0x20], [CHR 0x09], [CHR 0x0A], [CHR 0x0B], [CHR 0x0C], [CHR 0x0D],
      [CHR 0xC2, CHR 0x85], [CHR 0xC2, CHR 0xA0], [CHR 0xE1, CHR 0x9A, CHR 0x80],
      [CHR 0xE2, CHR 0x80, CHR 0x80], [CHR 0xE2, CHR 0x80, CHR 0x81],
      [CHR 0xE2, CHR 0x80, CHR 0x82], [CHR 0xE2, CHR 0x80, CHR 0x83],
      [CHR 0xE2, CHR 0x80, CHR 0x84], [CHR 0xE2, CHR 0x80, CHR 0x85],
      [CHR 0xE2, CHR 0x80, CHR 0x86], [CHR 0xE2, CHR 0x80, CHR 0x87],
      [CHR 0xE2, CHR 0x80, CHR 0x88], [CHR 0xE2, CHR 0x80, CHR 0x89],
      [CHR 0xE2, CHR 0x80, CHR 0x8A], [CHR 0xE2, CHR 0x80, CHR 0xA8],
      [CHR 0xE2, CHR 0x80, CHR 0xA9], [CHR 0xE2, CHR 0x80, CHR 0xAF],
      [CHR 0xE2, CHR 0x81, CHR 0x9F], [CHR 0xE3, CHR 0x80, CHR 0x80]]"

text \<open>The length of the white-space character the string starts with, 0 for none.\<close>

fun ws_len :: "string list \<Rightarrow> string \<Rightarrow> nat" where
  "ws_len [] s = 0"
| "ws_len (w # ws) s = (if starts_with s w then length w else ws_len ws s)"

lemma ws_len_le: "ws_len ws s \<le> length s"
  by (induction ws) (auto simp: starts_with_iff)

function strip_ws :: "string list \<Rightarrow> string \<Rightarrow> string" where
  "strip_ws ws s = (if ws_len ws s = 0 then s else strip_ws ws (drop (ws_len ws s) s))"
  by pat_completeness auto
termination
proof (relation "measure (\<lambda>(ws, s). length s)")
  fix ws s
  assume "ws_len ws s \<noteq> 0"
  with ws_len_le [of ws s] show "((ws, drop (ws_len ws s) s), ws, s) \<in> measure (\<lambda>(ws, s). length s)"
    by simp
qed simp

declare strip_ws.simps [simp del]

definition trim_start :: "string \<Rightarrow> string" where
  "trim_start s = strip_ws ws_seqs s"

definition trim_end :: "string \<Rightarrow> string" where
  "trim_end s = rev (strip_ws (map rev ws_seqs) (rev s))"

definition trim :: "string \<Rightarrow> string" where
  "trim s = trim_end (trim_start s)"

lemma strip_ws_suffix: "\<exists>p. s = p @ strip_ws ws s"
proof (induction ws s rule: strip_ws.induct)
  case (1 ws s)
  show ?case
  proof (cases "ws_len ws s = 0")
    case True
    then show ?thesis by (simp add: strip_ws.simps)
  next
    case False
    with 1 obtain p where "drop (ws_len ws s) s = p @ strip_ws ws s"
      by (auto simp: strip_ws.simps [of ws s])
    then have "s = (take (ws_len ws s) s @ p) @ strip_ws ws s"
      by (metis append.assoc append_take_drop_id)
    then show ?thesis ..
  qed
qed

lemma strip_ws_done: "ws_len ws (strip_ws ws s) = 0"
proof (induction ws s rule: strip_ws.induct)
  case (1 ws s)
  then show ?case by (cases "ws_len ws s = 0") (simp_all add: strip_ws.simps [of ws s])
qed

lemma trim_infix: "\<exists>a b. s = a @ trim s @ b"
proof -
  obtain a where a: "s = a @ trim_start s"
    using strip_ws_suffix [of s ws_seqs] by (auto simp: trim_start_def)
  obtain p where p: "rev (trim_start s) = p @ strip_ws (map rev ws_seqs) (rev (trim_start s))"
    using strip_ws_suffix by blast
  then have "trim_start s = trim s @ rev p"
    by (simp add: trim_def trim_end_def) (metis rev_append rev_rev_ident)
  with a show ?thesis by metis
qed

lemma set_trim: "set (trim s) \<subseteq> set s"
  using trim_infix [of s] by (metis le_sup_iff set_append subset_refl sup.coboundedI1 sup.coboundedI2)

lemma strip_ws_Nil [simp]: "strip_ws ws [] = []"
  using strip_ws_suffix [of "[]" ws] by simp

lemma trim_Nil [simp]: "trim [] = []"
  by (simp add: trim_def trim_start_def trim_end_def)

lemma strip_ws_id: "ws_len ws s = 0 \<Longrightarrow> strip_ws ws s = s"
  by (subst strip_ws.simps) simp

lemma ws_len_prefix: "ws_len ws (a @ b) = 0 \<Longrightarrow> ws_len ws a = 0"
  by (induction ws) (auto simp: starts_with_iff split: if_splits)

lemma strip_ws_blank:
  "strip_ws ws s = [] \<Longrightarrow> s \<noteq> [] \<Longrightarrow> \<exists>w p. w \<in> set ws \<and> w \<noteq> [] \<and> s = p @ w"
proof (induction ws s rule: strip_ws.induct)
  case (1 ws s)
  have found: "\<exists>w r. w \<in> set ws \<and> w \<noteq> [] \<and> s = w @ r \<and> ws_len ws s = length w" if "ws_len ws s \<noteq> 0"
    using that by (induction ws) (auto simp: starts_with_iff split: if_splits)
  show ?case
  proof (cases "ws_len ws s = 0")
    case True
    with "1.prems" show ?thesis by (simp add: strip_ws_id)
  next
    case False
    then obtain w r where w: "w \<in> set ws" "w \<noteq> []" "s = w @ r" "ws_len ws s = length w"
      using found by blast
    have "strip_ws ws s = strip_ws ws (drop (ws_len ws s) s)"
      using False by (subst strip_ws.simps) simp
    with "1.prems" w have "strip_ws ws r = []" by simp
    show ?thesis
    proof (cases "r = []")
      case True
      with w show ?thesis by auto
    next
      case nonempty: False
      with False w \<open>strip_ws ws r = []\<close> "1.IH"
      obtain w' p where "w' \<in> set ws" "w' \<noteq> []" "r = p @ w'" by auto
      with w show ?thesis by (metis append.assoc)
    qed
  qed
qed

lemma trim_idem [simp]: "trim (trim s) = trim s"
proof -
  obtain b where b: "trim_start s = trim s @ b"
  proof -
    obtain p where "rev (trim_start s) = p @ strip_ws (map rev ws_seqs) (rev (trim_start s))"
      using strip_ws_suffix by blast
    then have "trim_start s = trim s @ rev p"
      by (simp add: trim_def trim_end_def) (metis rev_append rev_rev_ident)
    then show thesis by (rule that)
  qed
  have "ws_len ws_seqs (trim_start s) = 0" by (simp add: trim_start_def strip_ws_done)
  then have "ws_len ws_seqs (trim s) = 0" unfolding b by (rule ws_len_prefix)
  then have "trim_start (trim s) = trim s" by (simp add: trim_start_def strip_ws_id)
  moreover have "trim_end (trim s) = trim s"
    by (simp add: trim_def trim_end_def strip_ws_id strip_ws_done)
  ultimately show ?thesis by (simp add: trim_def [of "trim s"])
qed

text \<open>A string that starts with a visible character is not blank.\<close>

lemma trim_visible: "ws_len ws_seqs s = 0 \<Longrightarrow> s \<noteq> [] \<Longrightarrow> trim s \<noteq> []"
proof
  assume vis: "ws_len ws_seqs s = 0" and ne: "s \<noteq> []" and blank: "trim s = []"
  then have "strip_ws (map rev ws_seqs) (rev s) = []"
    by (simp add: trim_def trim_end_def trim_start_def strip_ws_id)
  with ne obtain w p where w: "w \<in> set ws_seqs" "w \<noteq> []" "rev s = p @ rev w"
    using strip_ws_blank [of "map rev ws_seqs" "rev s"] by auto
  then have "s = w @ rev p" by (metis rev_append rev_rev_ident)
  moreover have "w \<in> set ws \<Longrightarrow> [] \<notin> set ws \<Longrightarrow> ws_len ws (w @ q) \<noteq> 0" for ws q
    by (induction ws) (auto simp: starts_with_iff)
  moreover have "[] \<notin> set ws_seqs" by (simp add: ws_seqs_def)
  ultimately show False using vis w by blast
qed

text \<open>\<open>trim_matches\<close>, \<open>trim_start_matches\<close> and \<open>trim_end_matches\<close> with a single byte.\<close>

definition trim_start_char :: "char \<Rightarrow> string \<Rightarrow> string" where
  "trim_start_char c s = dropWhile (\<lambda>x. x = c) s"

definition trim_end_char :: "char \<Rightarrow> string \<Rightarrow> string" where
  "trim_end_char c s = rev (dropWhile (\<lambda>x. x = c) (rev s))"

lemma trim_end_char_noop: "s = [] \<or> last s \<noteq> c \<Longrightarrow> trim_end_char c s = s"
  by (cases s rule: rev_cases) (auto simp: trim_end_char_def)

text \<open>\<open>trim_start_matches(p)\<close> with a string pattern removes \<open>p\<close> as often as it occurs.\<close>

function trim_start_str :: "string \<Rightarrow> string \<Rightarrow> string" where
  "trim_start_str p s =
     (if p \<noteq> [] \<and> starts_with s p then trim_start_str p (drop (length p) s) else s)"
  by pat_completeness auto
termination
  by (relation "measure (\<lambda>(p, s). length s)") (auto simp: starts_with_iff)

declare trim_start_str.simps [simp del]

subsection \<open>Splitting, joining, numbers\<close>

text \<open>\<open>s.split(c)\<close> for a byte, and \<open>parts.join(sep)\<close>.\<close>

fun split_char :: "char \<Rightarrow> string \<Rightarrow> string list" where
  "split_char c [] = [[]]"
| "split_char c (x # s) =
     (if x = c then [] # split_char c s
      else (case split_char c s of [] \<Rightarrow> [[x]] | p # ps \<Rightarrow> (x # p) # ps))"

fun join :: "string \<Rightarrow> string list \<Rightarrow> string" where
  "join sep [] = []"
| "join sep [p] = p"
| "join sep (p # q # ps) = p @ sep @ join sep (q # ps)"

lemma split_char_nonempty [simp]: "split_char c s \<noteq> []"
  by (cases s) (auto split: list.splits)

lemma split_char_no_sep: "p \<in> set (split_char c s) \<Longrightarrow> c \<notin> set p"
proof (induction s arbitrary: p)
  case Nil
  then show ?case by simp
next
  case (Cons x s)
  obtain q ps where q: "split_char c s = q # ps"
    using split_char_nonempty by (meson neq_Nil_conv)
  with Cons.IH have "\<forall>r \<in> set (q # ps). c \<notin> set r" by simp
  with Cons.prems q show ?case by (cases "x = c") auto
qed

lemma join_split_char: "join [c] (split_char c s) = s"
proof (induction s)
  case Nil
  then show ?case by simp
next
  case (Cons x s)
  obtain q ps where q: "split_char c s = q # ps"
    using split_char_nonempty by (meson neq_Nil_conv)
  with Cons show ?case by (cases ps) simp_all
qed

lemma split_char_append:
  "c \<notin> set p \<Longrightarrow> split_char c (p @ c # s) = p # split_char c s"
  by (induction p) auto

lemma split_char_single: "c \<notin> set p \<Longrightarrow> split_char c p = [p]"
  by (induction p) auto

lemma split_char_join:
  assumes "ps \<noteq> []" and "\<forall>p \<in> set ps. c \<notin> set p"
  shows "split_char c (join [c] ps) = ps"
  using assms
  by (induction "[c]" ps rule: join.induct) (auto simp: split_char_append split_char_single)

definition digit_char :: "nat \<Rightarrow> char" where
  "digit_char n = ''0123456789abcdef'' ! n"

text \<open>\<open>n.to_string()\<close> and \<open>{n:016x}\<close>.\<close>

fun dec :: "nat \<Rightarrow> string" where
  "dec n = (if n < 10 then [digit_char n] else dec (n div 10) @ [digit_char (n mod 10)])"

declare dec.simps [simp del]

fun hex_digits :: "nat \<Rightarrow> nat \<Rightarrow> string" where
  "hex_digits 0 n = []"
| "hex_digits (Suc k) n = hex_digits k (n div 16) @ [digit_char (n mod 16)]"

definition hex16 :: "64 word \<Rightarrow> string" where
  "hex16 w = hex_digits 16 (unat w)"

lemma hex_digits_numeral [simp]:
  "hex_digits (numeral k) n = hex_digits (pred_numeral k) (n div 16) @ [digit_char (n mod 16)]"
  using hex_digits.simps(2) [of "pred_numeral k" n] by (simp only: numeral_eq_Suc [symmetric])

lemma length_hex_digits [simp]: "length (hex_digits k n) = k"
  by (induction k arbitrary: n) auto

lemma digit_char_inj: "m < 16 \<Longrightarrow> n < 16 \<Longrightarrow> digit_char m = digit_char n \<Longrightarrow> m = n"
  using nth_eq_iff_index_eq [of "''0123456789abcdef''" m n] unfolding digit_char_def by simp

lemma hex_digits_inj:
  "m < 16 ^ k \<Longrightarrow> n < 16 ^ k \<Longrightarrow> hex_digits k m = hex_digits k n \<Longrightarrow> m = n"
proof (induction k arbitrary: m n)
  case 0
  then show ?case by simp
next
  case (Suc k)
  from Suc.prems have "m div 16 = n div 16"
    by (intro Suc.IH) (auto simp: less_mult_imp_div_less mult.commute)
  moreover from Suc.prems have "m mod 16 = n mod 16"
    by (intro digit_char_inj) auto
  ultimately show ?case by (metis div_mult_mod_eq)
qed

lemma hex16_inj: "hex16 a = hex16 b \<longleftrightarrow> a = b"
proof
  assume "hex16 a = hex16 b"
  moreover have "unat a < 16 ^ 16" "unat b < 16 ^ 16"
    using unsigned_less [of a, where ?'a = nat] unsigned_less [of b, where ?'a = nat] by simp_all
  ultimately show "a = b" unfolding hex16_def by (metis hex_digits_inj word_unat_eq_iff)
qed simp

section \<open>Numbers and characters\<close>

text \<open>\<open>str::parse::<u64>\<close>: an optional plus sign and decimal digits that fit.\<close>

definition is_digit :: "char \<Rightarrow> bool" where
  "is_digit c \<longleftrightarrow> (let n = of_char c :: nat in 48 \<le> n \<and> n \<le> 57)"

fun digits_value :: "nat \<Rightarrow> string \<Rightarrow> nat" where
  "digits_value n [] = n"
| "digits_value n (c # cs) = digits_value (10 * n + (of_char c - 48)) cs"

definition parse_u64 :: "string \<Rightarrow> 64 word option" where
  "parse_u64 s =
     (let ds = (case s of c # cs \<Rightarrow> if c = CHR ''+'' then cs else s | [] \<Rightarrow> s)
      in if ds \<noteq> [] \<and> list_all is_digit ds \<and> digits_value 0 ds < 2 ^ 64
         then Some (word_of_nat (digits_value 0 ds)) else None)"

text \<open>\<open>str::parse::<i64>\<close>: an optional sign and decimal digits that fit.\<close>

definition parse_i64 :: "string \<Rightarrow> int option" where
  "parse_i64 s =
     (let minus = (s \<noteq> [] \<and> hd s = CHR ''-'');
          ds = (if s \<noteq> [] \<and> hd s \<in> {CHR ''+'', CHR ''-''} then tl s else s)
      in if ds = [] \<or> \<not> list_all is_digit ds then None
         else if minus then (if digits_value 0 ds \<le> 2 ^ 63 then Some (- int (digits_value 0 ds)) else None)
         else if digits_value 0 ds < 2 ^ 63 then Some (int (digits_value 0 ds)) else None)"

text \<open>The bytes of a UTF-8 string that continue a character; the others begin one.\<close>

definition is_continuation :: "char \<Rightarrow> bool" where
  "is_continuation c = (let n = of_char c :: nat in 128 \<le> n \<and> n < 192)"

end
