(* ===== verification/Btree.thy ===== *)
theory Btree
  imports Prelude
begin

text \<open>
  The ordered collections of the Rust standard library. A \<open>BTreeSet\<close> is a strictly sorted list
  (iteration order is the order of the list), a \<open>BTreeMap\<close> an association list with strictly
  sorted keys. The locales \<open>ordered_set\<close> and \<open>ordered_map\<close> state what clients rely on; both are
  interpreted on the model's own operations. Rust compares \<open>String\<close> by its bytes, which is the
  lexicographic order on lists of characters.
\<close>

section \<open>Sets\<close>

locale ordered_set =
  fixes ins :: "'a::linorder \<Rightarrow> 'a list \<Rightarrow> 'a list"
  assumes ins_set: "set (ins x s) = insert x (set s)"
    and ins_sorted: "sorted_wrt (<) s \<Longrightarrow> sorted_wrt (<) (ins x s)"
begin

lemma fold_ins_set: "set (fold ins xs s) = set xs \<union> set s"
  by (induction xs arbitrary: s) (auto simp: ins_set)

lemma fold_ins_sorted: "sorted_wrt (<) s \<Longrightarrow> sorted_wrt (<) (fold ins xs s)"
  by (induction xs arbitrary: s) (auto simp: ins_sorted)

text \<open>Collecting forgets order and duplicates: it is determined by the elements.\<close>

lemma collect_eqI: "set xs = set ys \<Longrightarrow> fold ins xs [] = fold ins ys []"
  by (rule strict_sorted_equal) (simp_all add: fold_ins_sorted fold_ins_set)

end

fun bset_insert :: "'a::linorder \<Rightarrow> 'a list \<Rightarrow> 'a list" where
  "bset_insert x [] = [x]"
| "bset_insert x (y # ys) =
     (if x < y then x # y # ys else if x = y then y # ys else y # bset_insert x ys)"

lemma set_bset_insert [simp]: "set (bset_insert x s) = insert x (set s)"
  by (induction s) auto

lemma sorted_bset_insert: "sorted_wrt (<) s \<Longrightarrow> sorted_wrt (<) (bset_insert x s)"
  by (induction s) (auto dest: less_trans)

interpretation bset: ordered_set bset_insert
  by unfold_locales (simp_all add: sorted_bset_insert)

text \<open>\<open>iter.collect::<BTreeSet<_>>()\<close>.\<close>

definition bset_collect :: "'a::linorder list \<Rightarrow> 'a list" where
  "bset_collect xs = fold bset_insert xs []"

lemma set_bset_collect [simp]: "set (bset_collect xs) = set xs"
  by (simp add: bset_collect_def bset.fold_ins_set)

lemma sorted_bset_collect: "sorted_wrt (<) (bset_collect xs)"
  by (simp add: bset_collect_def bset.fold_ins_sorted)

lemma distinct_bset_collect: "distinct (bset_collect xs)"
  using sorted_bset_collect [of xs] by (simp add: strict_sorted_iff)

lemma bset_collect_cong: "set xs = set ys \<Longrightarrow> bset_collect xs = bset_collect ys"
  unfolding bset_collect_def by (rule bset.collect_eqI)

lemma bset_collect_Nil_iff [simp]: "bset_collect xs = [] \<longleftrightarrow> xs = []"
  by (metis set_bset_collect set_empty)

text \<open>
  The idiom \<open>seen.insert(x)\<close> in a filter keeps the first occurrence of each element; the set
  \<open>seen\<close> is only used for membership.
\<close>

fun keep_first :: "'a list \<Rightarrow> 'a list \<Rightarrow> 'a list" where
  "keep_first seen [] = []"
| "keep_first seen (x # xs) =
     (if x \<in> set seen then keep_first seen xs else x # keep_first (x # seen) xs)"

lemma set_keep_first: "set (keep_first seen xs) = set xs - set seen"
  by (induction xs arbitrary: seen) auto

lemma distinct_keep_first: "distinct (keep_first seen xs)"
  by (induction xs arbitrary: seen) (auto simp: set_keep_first)

lemma keep_first_id: "distinct xs \<Longrightarrow> set xs \<inter> set seen = {} \<Longrightarrow> keep_first seen xs = xs"
  by (induction xs arbitrary: seen) auto

lemma keep_first_idem: "keep_first [] (keep_first [] xs) = keep_first [] xs"
  by (rule keep_first_id) (simp_all add: distinct_keep_first)

section \<open>Maps\<close>

locale ordered_map =
  fixes put :: "'k::linorder \<Rightarrow> 'v \<Rightarrow> 'm \<Rightarrow> 'm"
    and get :: "'m \<Rightarrow> 'k \<Rightarrow> 'v option"
    and entries :: "'m \<Rightarrow> ('k \<times> 'v) list"
    and ok :: "'m \<Rightarrow> bool"
  assumes get_put: "ok m \<Longrightarrow> get (put k v m) = (get m)(k \<mapsto> v)"
    and ok_put: "ok m \<Longrightarrow> ok (put k v m)"
    and get_entries: "ok m \<Longrightarrow> get m k = Some v \<longleftrightarrow> (k, v) \<in> set (entries m)"
begin

lemma fold_put_ok: "ok m \<Longrightarrow> ok (fold (\<lambda>(k, v). put k v) kvs m)"
  by (induction kvs arbitrary: m) (auto simp: ok_put)

text \<open>Inserting a sequence of pairs leaves the last value for each key.\<close>

lemma fold_put_get:
  "ok m \<Longrightarrow> get (fold (\<lambda>(k, v). put k v) kvs m) = get m ++ map_of (rev kvs)"
proof (induction kvs arbitrary: m)
  case Nil
  then show ?case by simp
next
  case (Cons kv kvs)
  obtain k v where kv: "kv = (k, v)" by (cases kv)
  have "get (fold (\<lambda>(k, v). put k v) kvs (put k v m)) = (get m)(k \<mapsto> v) ++ map_of (rev kvs)"
    using Cons.IH [OF ok_put [OF Cons.prems]] get_put [OF Cons.prems] by metis
  moreover have "(get m)(k \<mapsto> v) ++ map_of (rev kvs) = get m ++ map_of (rev (kv # kvs))"
    by (simp add: kv map_add_def fun_eq_iff split: option.splits)
  ultimately show ?case by (simp only: kv fold_simps prod.case)
qed

end

fun bmap_insert :: "'k::linorder \<Rightarrow> 'v \<Rightarrow> ('k \<times> 'v) list \<Rightarrow> ('k \<times> 'v) list" where
  "bmap_insert k v [] = [(k, v)]"
| "bmap_insert k v ((k', v') # m) =
     (if k < k' then (k, v) # (k', v') # m
      else if k = k' then (k, v) # m
      else (k', v') # bmap_insert k v m)"

definition bmap_ok :: "('k::linorder \<times> 'v) list \<Rightarrow> bool" where
  "bmap_ok m = sorted_wrt (<) (map fst m)"

lemma map_of_bmap_insert: "map_of (bmap_insert k v m) = (map_of m)(k \<mapsto> v)"
  if "bmap_ok m"
  using that by (induction m rule: bmap_insert.induct) (auto simp: bmap_ok_def fun_eq_iff)

lemma set_fst_bmap_insert: "fst ` set (bmap_insert k v m) = insert k (fst ` set m)"
  by (induction k v m rule: bmap_insert.induct) auto

lemma bmap_ok_insert: "bmap_ok m \<Longrightarrow> bmap_ok (bmap_insert k v m)"
proof (induction k v m rule: bmap_insert.induct)
  case (2 k v k' v' m)
  then show ?case
    using set_fst_bmap_insert [of k v m] by (auto simp: bmap_ok_def dest: less_trans)
qed (simp add: bmap_ok_def)

lemma bmap_ok_distinct: "bmap_ok m \<Longrightarrow> distinct (map fst m)"
  by (simp add: bmap_ok_def strict_sorted_iff)

lemma bmap_ok_Nil [simp]: "bmap_ok []"
  by (simp add: bmap_ok_def)

text \<open>\<open>BTreeMap::remove\<close>.\<close>

definition bmap_remove :: "'k::linorder \<Rightarrow> ('k \<times> 'v) list \<Rightarrow> ('k \<times> 'v) list" where
  "bmap_remove k m = filter (\<lambda>(k', _). k' \<noteq> k) m"

lemma set_fst_bmap_remove: "fst ` set (bmap_remove k m) = fst ` set m - {k}"
  by (auto simp: bmap_remove_def)

lemma bmap_ok_remove: "bmap_ok m \<Longrightarrow> bmap_ok (bmap_remove k m)"
proof -
  have "map fst (bmap_remove k m) = filter (\<lambda>k'. k' \<noteq> k) (map fst m)"
    by (simp add: bmap_remove_def filter_map o_def split_beta')
  then show "bmap_ok m \<Longrightarrow> bmap_ok (bmap_remove k m)"
    by (simp add: bmap_ok_def sorted_wrt_filter)
qed

interpretation bmap: ordered_map bmap_insert map_of "\<lambda>m. m" bmap_ok
  by unfold_locales
    (auto simp: map_of_bmap_insert bmap_ok_insert map_of_eq_Some_iff dest: bmap_ok_distinct)

text \<open>A map built by inserting into an empty one.\<close>

lemma bmap_collect:
  "bmap_ok (fold (\<lambda>(k, v). bmap_insert k v) kvs [])"
  "map_of (fold (\<lambda>(k, v). bmap_insert k v) kvs []) = map_of (rev kvs)"
  by (rule bmap.fold_put_ok [OF bmap_ok_Nil]) (simp add: bmap.fold_put_get)

text \<open>Sorting and removing adjacent duplicates (\<open>v.sort(); v.dedup()\<close>).\<close>

definition sort_dedup :: "'a::linorder list \<Rightarrow> 'a list" where
  "sort_dedup xs = remdups_adj (sort xs)"

lemma set_sort_dedup [simp]: "set (sort_dedup xs) = set xs"
  by (simp add: sort_dedup_def)

lemma sorted_sort_dedup: "sorted_wrt (<) (sort_dedup xs)"
proof -
  have "distinct (remdups_adj zs)" if "sorted zs" for zs :: "'a list"
    using that by (induction zs rule: remdups_adj.induct) (auto simp: less_le)
  then show ?thesis by (simp add: sort_dedup_def sorted_remdups_adj strict_sorted_iff)
qed

end
