(* ===== verification/Json.thy ===== *)
theory Json
  imports Btree
begin

text \<open>
  \<open>serde_json::Value\<close> and the accessors the sources use. A number keeps its 64 bits: a
  non-negative integer, a negative integer, or a float (its IEEE bits, which no modelled code
  reads). An object is an association list with sorted keys; \<open>jobj\<close> is the \<open>json!\<close> macro on an
  object literal.
\<close>

datatype json_number = PosInt "64 word" | NegInt "64 word" | Float "64 word"

datatype json = Null | Bool bool | Number json_number | JString string
  | Array "json list" | Object "(string \<times> json) list"

definition jobj :: "(string \<times> json) list \<Rightarrow> json" where
  "jobj kvs = Object (fold (\<lambda>(k, v). bmap_insert k v) kvs [])"

fun jget :: "json \<Rightarrow> string \<Rightarrow> json option" where
  "jget (Object m) k = map_of m k"
| "jget _ k = None"

fun as_str :: "json \<Rightarrow> string option" where
  "as_str (JString s) = Some s"
| "as_str _ = None"

fun as_bool :: "json \<Rightarrow> bool option" where
  "as_bool (Bool b) = Some b"
| "as_bool _ = None"

fun as_u64 :: "json \<Rightarrow> 64 word option" where
  "as_u64 (Number (PosInt n)) = Some n"
| "as_u64 _ = None"

fun as_array :: "json \<Rightarrow> json list option" where
  "as_array (Array xs) = Some xs"
| "as_array _ = None"

lemma jget_jobj [simp]: "jget (jobj kvs) k = map_of (rev kvs) k"
  using bmap.fold_put_get [of "[]" kvs] by (simp add: jobj_def)

lemma as_str_iff: "as_str v = Some s \<longleftrightarrow> v = JString s"
  by (cases v) auto

lemma as_array_iff: "as_array v = Some xs \<longleftrightarrow> v = Array xs"
  by (cases v) auto

text \<open>\<open>Option::unwrap_or\<close>, \<open>Option::or_else\<close> and the chains \<open>get(k).and_then(as_str)\<close>.\<close>

definition unwrap_or :: "'a \<Rightarrow> 'a option \<Rightarrow> 'a" where
  "unwrap_or d x = (case x of None \<Rightarrow> d | Some y \<Rightarrow> y)"

definition or_else :: "'a option \<Rightarrow> 'a option \<Rightarrow> 'a option" where
  "or_else a b = (case a of None \<Rightarrow> b | Some x \<Rightarrow> Some x)"

lemma unwrap_or_simps [simp]: "unwrap_or d None = d" "unwrap_or d (Some x) = x"
  by (simp_all add: unwrap_or_def)

lemma or_else_simps [simp]: "or_else None b = b" "or_else (Some x) b = Some x"
  by (simp_all add: or_else_def)

definition get_str :: "json \<Rightarrow> string \<Rightarrow> string option" where
  "get_str v k = Option.bind (jget v k) as_str"

definition get_array :: "json \<Rightarrow> string \<Rightarrow> json list option" where
  "get_array v k = Option.bind (jget v k) as_array"

definition get_bool :: "json \<Rightarrow> string \<Rightarrow> bool option" where
  "get_bool v k = Option.bind (jget v k) as_bool"

definition get_u64 :: "json \<Rightarrow> string \<Rightarrow> 64 word option" where
  "get_u64 v k = Option.bind (jget v k) as_u64"

lemma get_jobj [simp]:
  "get_str (jobj kvs) k = Option.bind (map_of (rev kvs) k) as_str"
  "get_array (jobj kvs) k = Option.bind (map_of (rev kvs) k) as_array"
  "get_bool (jobj kvs) k = Option.bind (map_of (rev kvs) k) as_bool"
  "get_u64 (jobj kvs) k = Option.bind (map_of (rev kvs) k) as_u64"
  by (simp_all add: get_str_def get_array_def get_bool_def get_u64_def)

text \<open>\<open>items.iter().filter_map(Value::as_str)\<close>, and a list of strings as a JSON array.\<close>

definition strings_of :: "json list \<Rightarrow> string list" where
  "strings_of items = List.map_filter as_str items"

definition jstrings :: "string list \<Rightarrow> json" where
  "jstrings ss = Array (map JString ss)"

lemma strings_of_JString [simp]: "strings_of (map JString ss) = ss"
  by (induction ss) (simp_all add: strings_of_def)

lemma set_strings_of: "s \<in> set (strings_of items) \<longleftrightarrow> JString s \<in> set items"
  by (induction items) (auto simp: strings_of_def as_str_iff List.map_filter_simps split: option.splits)

lemma as_array_jstrings [simp]: "as_array (jstrings ss) = Some (map JString ss)"
  by (simp add: jstrings_def)

text \<open>An optional string field: \<open>null\<close> when absent.\<close>

definition jopt :: "string option \<Rightarrow> json" where
  "jopt x = (case x of None \<Rightarrow> Null | Some s \<Rightarrow> JString s)"

lemma as_str_jopt [simp]: "as_str (jopt x) = x"
  by (cases x) (simp_all add: jopt_def)

text \<open>The printers and the parser of \<open>serde_json\<close>, parameters of the models that use them.\<close>

record serde =
  to_string :: "json \<Rightarrow> string"
  to_pretty :: "json \<Rightarrow> string"

record json_codec = serde +
  from_str :: "string \<Rightarrow> json option"

end
