(* ===== verification/Io_Result.thy ===== *)
theory Io_Result
  imports Prelude
begin

text \<open>
  \<open>io::Error\<close> values, results, and operations on a state that may fail: a computation maps a
  state to a result and the next state. A Rust \<open>?\<close> is \<open>io_bind\<close>: an error stops the rest and
  keeps the state reached so far, as the code's side effects stay. The operations do not depend on
  the type of errors: the process kernel uses \<open>io::Error\<close>, the product runtime's stores
  \<open>rusqlite::Error\<close>.
\<close>

datatype io_kind = NotFound | PermissionDenied | InvalidInput | InvalidData | TimedOut
  | Interrupted | WouldBlock | ConnectionReset | ConnectionAborted | ConnectionRefused
  | BrokenPipe | UnexpectedEof | AlreadyExists | Unsupported | OtherKind

datatype io_error = IoError (err_kind: io_kind) (err_msg: string)

type_synonym 'a res = "io_error + 'a"

type_synonym ('s, 'e, 'a) fallible = "'s \<Rightarrow> ('e + 'a) \<times> 's"

type_synonym ('s, 'a) io = "('s, io_error, 'a) fallible"

definition io_return :: "'a \<Rightarrow> ('s, 'e, 'a) fallible" where
  "io_return x = (\<lambda>s. (Inr x, s))"

definition io_fail :: "'e \<Rightarrow> ('s, 'e, 'a) fallible" where
  "io_fail e = (\<lambda>s. (Inl e, s))"

definition io_bind :: "('s, 'e, 'a) fallible \<Rightarrow> ('a \<Rightarrow> ('s, 'e, 'b) fallible) \<Rightarrow> ('s, 'e, 'b) fallible" where
  "io_bind m f = (\<lambda>s. case m s of (Inl e, s') \<Rightarrow> (Inl e, s') | (Inr x, s') \<Rightarrow> f x s')"

text \<open>A pure result in the middle of a computation, and a read of the state.\<close>

definition io_lift :: "'e + 'a \<Rightarrow> ('s, 'e, 'a) fallible" where
  "io_lift r = (\<lambda>s. (r, s))"

definition io_get :: "('s, 'e, 's) fallible" where
  "io_get = (\<lambda>s. (Inr s, s))"

lemma io_return_apply [io_simps]: "io_return x s = (Inr x, s)"
  by (simp add: io_return_def)

lemma io_fail_apply [io_simps]: "io_fail e s = (Inl e, s)"
  by (simp add: io_fail_def)

lemma io_lift_apply [io_simps]: "io_lift r s = (r, s)"
  by (simp add: io_lift_def)

lemma io_get_apply [io_simps]: "io_get s = (Inr s, s)"
  by (simp add: io_get_def)

lemma io_bind_Inl [io_simps]: "m s = (Inl e, s') \<Longrightarrow> io_bind m f s = (Inl e, s')"
  by (simp add: io_bind_def)

lemma io_bind_Inr [io_simps]: "m s = (Inr x, s') \<Longrightarrow> io_bind m f s = f x s'"
  by (simp add: io_bind_def)

lemma io_bind_return [simp]: "io_bind (io_return x) f = f x"
  by (simp add: io_bind_def io_return_def fun_eq_iff)

lemma io_bind_fail [simp]: "io_bind (io_fail e) f = io_fail e"
  by (simp add: io_bind_def io_fail_def fun_eq_iff)

lemma io_bind_return_right [simp]: "io_bind m io_return = m"
  by (auto simp: io_bind_def io_return_def fun_eq_iff split: prod.splits sum.splits)

lemma io_bind_assoc: "io_bind (io_bind m f) g = io_bind m (\<lambda>x. io_bind (f x) g)"
  by (auto simp: io_bind_def fun_eq_iff split: prod.splits sum.splits)

lemma io_bind_success:
  "io_bind m f s = (Inr y, s'') \<longleftrightarrow> (\<exists>x s'. m s = (Inr x, s') \<and> f x s' = (Inr y, s''))"
  by (auto simp: io_bind_def split: prod.splits sum.splits)

lemma io_bindE:
  assumes "io_bind m f s = (Inr y, s'')"
  obtains x s' where "m s = (Inr x, s')" "f x s' = (Inr y, s'')"
  using assms by (auto simp: io_bind_success)

text \<open>
  A property of the state that every step keeps: the shape of an invariant proof over a chain of
  fallible steps, whether or not the chain ends in an error.
\<close>

definition io_keeps :: "('s \<Rightarrow> 's \<Rightarrow> bool) \<Rightarrow> ('s, 'e, 'a) fallible \<Rightarrow> bool" where
  "io_keeps R m = (\<forall>s. R s (snd (m s)))"

lemma io_keepsD: "io_keeps R m \<Longrightarrow> m s = (r, s') \<Longrightarrow> R s s'"
  unfolding io_keeps_def by (metis snd_conv)

lemma io_keeps_pure:
  assumes "reflp R"
  shows "io_keeps R (io_return x)" "io_keeps R (io_fail e)" "io_keeps R (io_lift r)" "io_keeps R io_get"
  using assms by (auto simp: io_keeps_def io_simps reflp_def)

lemma io_keeps_bind:
  assumes "transp R" and m: "io_keeps R m" and f: "\<And>x. io_keeps R (f x)"
  shows "io_keeps R (io_bind m f)"
  unfolding io_keeps_def
proof
  fix s
  obtain r s' where ms: "m s = (r, s')" by (cases "m s")
  with m have s': "R s s'" by (rule io_keepsD)
  show "R s (snd (io_bind m f s))"
  proof (cases r)
    case (Inl e)
    with ms s' show ?thesis by (simp add: io_bind_def)
  next
    case (Inr x)
    have "R s' (snd (f x s'))" using f by (simp add: io_keeps_def)
    with assms(1) s' have "R s (snd (f x s'))" by (blast dest: transpD)
    with ms Inr show ?thesis by (simp add: io_bind_def)
  qed
qed

lemma io_keeps_if:
  "(b \<Longrightarrow> io_keeps R m) \<Longrightarrow> (\<not> b \<Longrightarrow> io_keeps R n) \<Longrightarrow> io_keeps R (if b then m else n)"
  by simp

end
