(* ===== verification/Workspace_Guard.thy ===== *)
theory Workspace_Guard
  imports Prelude
begin

text \<open>
  Path boundaries: \<open>WorkspaceGuard::resolve_workspace_path\<close>, the blob and archive resolvers of
  \<open>process_kernel/src/lib.rs\<close>. A path is a list of components; a \<open>PathBuf\<close> below a root is the
  list of the names pushed on it. The resolvers are defined on an arbitrary list of components,
  so they cover the component grammars of both Unix and Windows; \<open>unix_components\<close> is the
  standard library's grammar on Unix.
\<close>

datatype path_component = Prefix | RootDir | CurDir | ParentDir | Normal string

type_synonym path = "string list"

definition unix_part :: "string \<Rightarrow> path_component list" where
  "unix_part p =
     (if p = [] \<or> p = ''.'' then [] else if p = ''..'' then [ParentDir] else [Normal p])"

definition unix_components :: "string \<Rightarrow> path_component list" where
  "unix_components s =
     (case split_char CHR ''/'' s of
        [] \<Rightarrow> []
      | p # ps \<Rightarrow>
          (if p = [] \<and> s \<noteq> [] then [RootDir]
           else if p = ''.'' then [CurDir] else unix_part p)
          @ concat (map unix_part ps))"

definition is_absolute :: "path_component list \<Rightarrow> bool" where
  "is_absolute cs = (RootDir \<in> set cs)"

text \<open>\<open>Path::starts_with\<close> compares whole components.\<close>

fun path_starts_with :: "path \<Rightarrow> path \<Rightarrow> bool" where
  "path_starts_with p [] = True"
| "path_starts_with [] (r # rs) = False"
| "path_starts_with (c # p) (r # rs) = (c = r \<and> path_starts_with p rs)"

lemma path_starts_with_iff: "path_starts_with p r \<longleftrightarrow> (\<exists>q. p = r @ q)"
  by (induction p r rule: path_starts_with.induct) auto

section \<open>The workspace guard\<close>

text \<open>
  The loop of \<open>resolve_workspace_path\<close>: the first argument is the workspace root, the second the
  path built so far. \<open>PathBuf::pop\<close> fails only on a path without a parent.
\<close>

fun resolve_loop :: "path \<Rightarrow> path \<Rightarrow> path_component list \<Rightarrow> string + path" where
  "resolve_loop root resolved [] =
     (if \<not> path_starts_with resolved root
      then Inl ''resolved path leaves workspace boundary'' else Inr resolved)"
| "resolve_loop root resolved (CurDir # cs) = resolve_loop root resolved cs"
| "resolve_loop root resolved (Normal part # cs) = resolve_loop root (resolved @ [part]) cs"
| "resolve_loop root resolved (ParentDir # cs) =
     (if resolved = root \<or> resolved = []
      then Inl ''path traversal leaves workspace boundary''
      else if \<not> path_starts_with (butlast resolved) root
      then Inl ''path traversal leaves workspace boundary''
      else resolve_loop root (butlast resolved) cs)"
| "resolve_loop root resolved (_ # cs) =
     Inl ''rooted paths are not workspace-scoped capability inputs''"

definition resolve_workspace_path :: "path \<Rightarrow> path_component list \<Rightarrow> string + path" where
  "resolve_workspace_path root cs =
     (if is_absolute cs
      then Inl ''absolute paths are not workspace-scoped capability inputs''
      else resolve_loop root root cs)"

text \<open>
  What the guard promises: reading the components on an empty stack, a name pushes, \<open>..\<close> pops
  and must not find the stack empty.
\<close>

fun walk_spec :: "path \<Rightarrow> path_component list \<Rightarrow> path option" where
  "walk_spec st [] = Some st"
| "walk_spec st (CurDir # cs) = walk_spec st cs"
| "walk_spec st (Normal part # cs) = walk_spec (st @ [part]) cs"
| "walk_spec st (ParentDir # cs) = (if st = [] then None else walk_spec (butlast st) cs)"
| "walk_spec st (_ # cs) = None"

lemma resolve_loop_spec:
  "resolve_loop root (root @ st) cs = Inr p \<longleftrightarrow> (\<exists>q. walk_spec st cs = Some q \<and> p = root @ q)"
proof (induction st cs rule: walk_spec.induct)
  case (4 st cs)
  then show ?case
    by (cases st rule: rev_cases) (auto simp: path_starts_with_iff butlast_append)
qed (auto simp: path_starts_with_iff)

lemma walk_spec_not_rooted: "walk_spec st cs = Some q \<Longrightarrow> \<not> is_absolute cs"
  by (induction st cs rule: walk_spec.induct) (auto simp: is_absolute_def split: if_splits)

lemma resolve_refines_walk:
  "resolve_workspace_path root cs = Inr p \<longleftrightarrow> (\<exists>q. walk_spec [] cs = Some q \<and> p = root @ q)"
  using resolve_loop_spec [of root "[]" cs p] walk_spec_not_rooted [of "[]" cs]
  by (auto simp: resolve_workspace_path_def)

lemma walk_spec_names:
  "walk_spec st cs = Some q \<Longrightarrow> p \<in> set q \<Longrightarrow> p \<in> set st \<or> Normal p \<in> set cs"
proof (induction st cs rule: walk_spec.induct)
  case (4 st cs)
  then show ?case by (auto split: if_splits dest: in_set_butlastD)
qed auto

lemma walk_spec_append:
  "walk_spec st (cs @ ds) = Option.bind (walk_spec st cs) (\<lambda>st'. walk_spec st' ds)"
  by (induction st cs rule: walk_spec.induct) auto

lemma walk_spec_base: "walk_spec [] cs = Some q \<Longrightarrow> walk_spec st cs = Some (st @ q)"
proof -
  have "walk_spec st' cs = Some q \<Longrightarrow> walk_spec (st @ st') cs = Some (st @ q)" for st'
    by (induction st' cs rule: walk_spec.induct) (auto simp: butlast_append split: if_splits)
  from this [of "[]"] show "walk_spec [] cs = Some q \<Longrightarrow> walk_spec st cs = Some (st @ q)" by simp
qed

lemma walk_spec_normals: "walk_spec st (map Normal names) = Some (st @ names)"
  by (induction names arbitrary: st) auto

section \<open>Resolvers that refuse every parent component\<close>

text \<open>
  \<open>resolve_blob_ref\<close>, \<open>restore_tx_backup\<close> and \<open>resolve_archive_entry\<close> share one loop: names are
  pushed, \<open>.\<close> is skipped, anything else leaves the boundary. \<open>None\<close> stands for that error; the
  final \<open>starts_with\<close> test is kept.
\<close>

fun push_names :: "path \<Rightarrow> path_component list \<Rightarrow> path option" where
  "push_names resolved [] = Some resolved"
| "push_names resolved (Normal part # cs) = push_names (resolved @ [part]) cs"
| "push_names resolved (CurDir # cs) = push_names resolved cs"
| "push_names resolved (_ # cs) = None"

definition resolve_below :: "path \<Rightarrow> path_component list \<Rightarrow> path option" where
  "resolve_below root cs =
     (case push_names root cs of
        None \<Rightarrow> None
      | Some p \<Rightarrow> if path_starts_with p root then Some p else None)"

definition normals :: "path_component list \<Rightarrow> string list" where
  "normals cs = List.map_filter (\<lambda>c. case c of Normal p \<Rightarrow> Some p | _ \<Rightarrow> None) cs"

lemma set_normals: "set (normals cs) = {p. Normal p \<in> set cs}"
  by (induction cs) (auto simp: normals_def List.map_filter_simps split: path_component.splits)

lemma push_names_iff:
  "push_names r cs = Some p \<longleftrightarrow> (\<forall>c \<in> set cs. c = CurDir \<or> (\<exists>n. c = Normal n)) \<and> p = r @ normals cs"
  by (induction r cs rule: push_names.induct)
    (auto simp: normals_def List.map_filter_simps)

lemma resolve_below_iff:
  "resolve_below r cs = Some p \<longleftrightarrow>
     (\<forall>c \<in> set cs. c = CurDir \<or> (\<exists>n. c = Normal n)) \<and> p = r @ normals cs"
proof (cases "push_names r cs")
  case None
  then show ?thesis using push_names_iff [of r cs p] by (simp add: resolve_below_def)
next
  case (Some q)
  then show ?thesis
    using push_names_iff [of r cs p] push_names_iff [of r cs q]
    by (auto simp: resolve_below_def path_starts_with_iff)
qed

lemma resolve_below_walk: "resolve_below r cs = Some p \<Longrightarrow> walk_spec r cs = Some p"
proof -
  have "push_names r cs = Some p \<Longrightarrow> walk_spec r cs = Some p"
    by (induction r cs rule: push_names.induct) auto
  then show "resolve_below r cs = Some p \<Longrightarrow> walk_spec r cs = Some p"
    by (auto simp: resolve_below_def split: option.splits if_splits)
qed

section \<open>Names that survive the Unix grammar\<close>

definition plain_name :: "string \<Rightarrow> bool" where
  "plain_name p \<longleftrightarrow> p \<noteq> [] \<and> p \<noteq> ''.'' \<and> p \<noteq> ''..'' \<and> CHR ''/'' \<notin> set p"

lemma unix_part_plain [simp]: "plain_name p \<Longrightarrow> unix_part p = [Normal p]"
  by (simp add: unix_part_def plain_name_def)

lemma unix_components_join:
  assumes "names \<noteq> []" and "\<forall>p \<in> set names. plain_name p"
  shows "unix_components (join ''/'' names) = map Normal names"
proof -
  have sp: "split_char CHR ''/'' (join ''/'' names) = names"
    using assms by (intro split_char_join) (auto simp: plain_name_def)
  obtain p ps where n: "names = p # ps" using assms(1) by (cases names) auto
  have "concat (map unix_part ps) = map Normal ps"
    using assms(2) n by (induction ps arbitrary: names) auto
  moreover have "plain_name p" using assms(2) n by simp
  ultimately show ?thesis
    using sp by (simp add: unix_components_def n plain_name_def)
qed

lemma unix_components_not_prefix: "Prefix \<notin> set (unix_components s)"
  by (auto simp: unix_components_def unix_part_def split: list.splits if_splits)

lemma unix_part_plain_iff: "Normal p \<in> set (unix_part q) \<Longrightarrow> p = q \<and> q \<noteq> [] \<and> q \<noteq> ''.'' \<and> q \<noteq> ''..''"
  by (auto simp: unix_part_def split: if_splits)

lemma unix_components_plain: "Normal p \<in> set (unix_components s) \<Longrightarrow> plain_name p"
proof -
  assume n: "Normal p \<in> set (unix_components s)"
  obtain q qs where q: "split_char CHR ''/'' s = q # qs" by (cases "split_char CHR ''/'' s") auto
  with n have "p \<in> set (q # qs) \<and> p \<noteq> [] \<and> p \<noteq> ''.'' \<and> p \<noteq> ''..''"
    by (auto simp: unix_components_def dest!: unix_part_plain_iff split: if_splits)
  with q have "p \<in> set (split_char CHR ''/'' s) \<and> p \<noteq> [] \<and> p \<noteq> ''.'' \<and> p \<noteq> ''..''" by simp
  then show ?thesis using split_char_no_sep by (auto simp: plain_name_def)
qed

section \<open>The guard's promise\<close>

text \<open>
  The workspace guard resolves exactly the paths that stay inside. A component list resolves if
  and only if reading it on an empty stack never finds \<open>..\<close> on the empty stack nor a rooted
  component, and the result is the root followed by the names left on the stack.
\<close>

theorem resolve_workspace_path_exact:
  "resolve_workspace_path root cs = Inr p \<longleftrightarrow> (\<exists>q. walk_spec [] cs = Some q \<and> p = root @ q)"
  by (rule resolve_refines_walk)

text \<open>
  What the guard resolves is a path below the root made of plain names only, and resolving those
  names again gives the same path, so a resolved path can be handed back to the guard.
\<close>

theorem resolved_paths_are_stable:
  assumes "resolve_workspace_path root (unix_components s) = Inr p"
  shows "\<exists>q. p = root @ q \<and> list_all plain_name q \<and>
     resolve_workspace_path root (map Normal q) = Inr p \<and>
     (q = [] \<or> resolve_workspace_path root (unix_components (join ''/'' q)) = Inr p)"
proof -
  from assms obtain q where q: "walk_spec [] (unix_components s) = Some q" "p = root @ q"
    by (auto simp: resolve_refines_walk)
  from walk_spec_names [OF q(1)] have plain: "\<forall>n \<in> set q. plain_name n"
    using unix_components_plain by fastforce
  have again: "resolve_workspace_path root (map Normal q) = Inr p"
    by (simp add: resolve_refines_walk walk_spec_normals q(2))
  then have "q = [] \<or> resolve_workspace_path root (unix_components (join ''/'' q)) = Inr p"
    by (cases "q = []") (simp_all add: unix_components_join [OF _ plain])
  with q(2) plain again show ?thesis by (auto simp: list_all_iff)
qed

theorem resolved_paths_are_stable_witness:
  "\<exists>q. resolve_workspace_path [''ws''] (unix_components ''docs/../src/./a.rs'') = Inr ([''ws''] @ q) \<and>
     list_all plain_name q \<and> q \<noteq> []"
proof -
  have r: "resolve_workspace_path [''ws''] (unix_components ''docs/../src/./a.rs'') = Inr [''ws'', ''src'', ''a.rs'']"
    by code_simp
  from resolved_paths_are_stable [OF r] r show ?thesis by auto
qed

end
