(* ===== verification/Process_Truth.thy ===== *)
theory Process_Truth
  imports Json Io_Result Workspace_Guard
begin

text \<open>
  The process-truth store of \<open>process_kernel/src/lib.rs\<close>: its SQLite tables, the event log, job
  registry, checkpoints and blobs, and the replay of a job from its events. The database holds the
  rows of every job; a store value carries the id of its own job, the first argument here. SQL
  statements act on the tables as lists of rows. Every database or file operation asks the
  environment (\<open>w_fault\<close>) whether it fails, and a failed one changes nothing; every reading of
  the system clock takes the next value of an arbitrary sequence (\<open>w_clock\<close>).
\<close>

section \<open>State\<close>

record process_event =
  event_id :: nat
  timestamp_ms :: nat
  ev_job_id :: string
  ev_pid :: "string option"
  event_type :: string
  data :: json

record agent_job =
  aj_job_id :: string
  aj_user_goal :: string
  aj_workspace_root :: string
  aj_status :: string
  aj_root_pid :: string

record agent_process =
  ap_pid :: string
  ap_ppid :: "string option"
  ap_job_id :: string
  ap_process_type :: string
  ap_state :: string
  ap_input_refs :: "string list"
  ap_output_refs :: "string list"
  ap_capability_tokens :: "string list"
  ap_budget_ms :: "64 word option"
  ap_exit_code :: "32 word option"

record task_agent_runtime_record =
  tr_runtime_id :: string
  tr_job_id :: string
  tr_root_pid :: string
  tr_state :: string
  tr_checkpoint_refs :: "string list"

record checkpoint_ref =
  cr_checkpoint_id :: string
  cr_job_id :: string
  cr_pid :: string
  cr_runtime_id :: "string option"
  cr_kind :: string
  cr_state_ref :: string

record checkpoint_record =
  cp_checkpoint_id :: string
  cp_job_id :: string
  cp_pid :: string
  cp_runtime_id :: "string option"
  cp_kind :: string
  cp_state_ref :: string
  cp_input_refs :: "string list"
  cp_output_refs :: "string list"
  cp_created_event_id :: nat

text \<open>What a capability answers.\<close>

record capability_receipt =
  rc_capability_id :: string
  rc_job_id :: string
  rc_pid :: string
  rc_status :: string
  rc_data :: json

definition receipt_json :: "capability_receipt \<Rightarrow> json" where
  "receipt_json r = jobj
     [(''capability_id'', JString (rc_capability_id r)), (''job_id'', JString (rc_job_id r)),
      (''pid'', JString (rc_pid r)), (''status'', JString (rc_status r)), (''data'', rc_data r)]"

text \<open>
  A row of the tables \<open>jobs\<close>, \<open>processes\<close> and \<open>task_agent_runtimes\<close>: its primary key, the job,
  the status or state column, and the record stored in \<open>data_json\<close>.
\<close>

record 'a reg_row =
  row_key :: string
  row_job :: string
  row_status :: string
  row_data :: 'a

record world =
  w_events :: "process_event list"
  w_jobs :: "agent_job reg_row list"
  w_processes :: "agent_process reg_row list"
  w_runtimes :: "task_agent_runtime_record reg_row list"
  w_checkpoints :: "checkpoint_record list"
  w_files :: "path \<Rightarrow> string option"
  w_clock :: "nat \<Rightarrow> nat"
  w_ticks :: nat
  w_fault :: "nat \<Rightarrow> bool"
  w_ops :: nat

definition now_ms :: "(world, nat) io" where
  "now_ms = (\<lambda>w. (Inr (w_clock w (w_ticks w)), w\<lparr>w_ticks := Suc (w_ticks w)\<rparr>))"

definition sys_op :: "(world, unit) io" where
  "sys_op = (\<lambda>w.
     let w' = w\<lparr>w_ops := Suc (w_ops w)\<rparr>
     in if w_fault w (w_ops w) then (Inl (IoError OtherKind ''system operation failed''), w')
        else (Inr (), w'))"

definition put_world :: "(world \<Rightarrow> world) \<Rightarrow> (world, unit) io" where
  "put_world f = (\<lambda>w. (Inr (), f w))"

lemma put_world_apply [io_simps]: "put_world f w = (Inr (), f w)"
  by (simp add: put_world_def)

section \<open>Events\<close>

text \<open>\<open>SELECT COALESCE(MAX(event_id), 0) + 1 FROM events WHERE job_id = ?1\<close>.\<close>

definition next_event_id :: "string \<Rightarrow> process_event list \<Rightarrow> nat" where
  "next_event_id job rows =
     Suc (foldr max (map event_id (filter (\<lambda>r. ev_job_id r = job) rows)) 0)"

text \<open>\<open>INSERT INTO events\<close> with the primary key \<open>(job_id, event_id)\<close>.\<close>

definition event_key :: "process_event \<Rightarrow> string \<times> nat" where
  "event_key e = (ev_job_id e, event_id e)"

definition insert_event :: "process_event \<Rightarrow> process_event list \<Rightarrow> process_event list option" where
  "insert_event e rows =
     (if event_key e \<in> event_key ` set rows then None else Some (rows @ [e]))"

text \<open>
  \<open>append_event\<close> is two statements on the database: the selection of the next id, with which the event is
  built, and the insertion of the event. Another connection may write between them.
\<close>

definition append_select :: "string \<Rightarrow> string option \<Rightarrow> string \<Rightarrow> json \<Rightarrow> (world, process_event) io" where
  "append_select job pid ty d =
     io_bind sys_op (\<lambda>_. io_bind io_get (\<lambda>w.
       let next_id = next_event_id job (w_events w)
       in io_bind now_ms (\<lambda>ts.
          io_return \<lparr>event_id = next_id, timestamp_ms = ts, ev_job_id = job,
                     ev_pid = pid, event_type = ty, data = d\<rparr>)))"

definition append_insert :: "process_event \<Rightarrow> (world, process_event) io" where
  "append_insert event =
     io_bind sys_op (\<lambda>_. io_bind io_get (\<lambda>w.
       case insert_event event (w_events w) of
         None \<Rightarrow> io_fail (IoError OtherKind ''UNIQUE constraint failed'')
       | Some rows \<Rightarrow>
           io_bind (put_world (\<lambda>w. w\<lparr>w_events := rows\<rparr>)) (\<lambda>_. io_return event)))"

definition append_event :: "string \<Rightarrow> string option \<Rightarrow> string \<Rightarrow> json \<Rightarrow> (world, process_event) io" where
  "append_event job pid ty d = io_bind (append_select job pid ty d) append_insert"

text \<open>\<open>SELECT ... WHERE job_id = ?1 ORDER BY event_id ASC\<close>, and \<open>stream_events\<close>.\<close>

definition job_events :: "string \<Rightarrow> process_event list \<Rightarrow> process_event list" where
  "job_events job rows = sort_key event_id (filter (\<lambda>r. ev_job_id r = job) rows)"

definition read_events :: "string \<Rightarrow> (world, process_event list) io" where
  "read_events job =
     io_bind sys_op (\<lambda>_. io_bind io_get (\<lambda>w. io_return (job_events job (w_events w))))"

definition stream_events :: "string \<Rightarrow> nat \<Rightarrow> nat \<Rightarrow> (world, process_event list) io" where
  "stream_events job after_id lim =
     io_bind sys_op (\<lambda>_. io_bind io_get (\<lambda>w.
       io_return (take lim (filter (\<lambda>e. after_id < event_id e) (job_events job (w_events w))))))"

section \<open>The registry\<close>

definition JOB_STATUSES :: "string list" where
  "JOB_STATUSES =
     [''created'', ''running'', ''waiting_user'', ''waiting_approval'', ''blocked'', ''failed'',
      ''interrupted'', ''completed'', ''cancelled'']"

text \<open>\<open>INSERT OR REPLACE\<close> on the primary key.\<close>

definition replace_row :: "'a reg_row \<Rightarrow> 'a reg_row list \<Rightarrow> 'a reg_row list" where
  "replace_row r rows = filter (\<lambda>x. row_key x \<noteq> row_key r) rows @ [r]"

definition invalid_status :: "string \<Rightarrow> io_error" where
  "invalid_status st = IoError InvalidInput (''invalid job status: '' @ st)"

definition register_job :: "agent_job \<Rightarrow> (world, unit) io" where
  "register_job job =
     (if aj_status job \<notin> set JOB_STATUSES then io_fail (invalid_status (aj_status job))
      else io_bind sys_op (\<lambda>_. put_world (\<lambda>w. w\<lparr>w_jobs := replace_row
        \<lparr>row_key = aj_job_id job, row_job = aj_job_id job, row_status = aj_status job,
         row_data = job\<rparr> (w_jobs w)\<rparr>)))"

definition register_process :: "agent_process \<Rightarrow> (world, unit) io" where
  "register_process p =
     io_bind sys_op (\<lambda>_. put_world (\<lambda>w. w\<lparr>w_processes := replace_row
       \<lparr>row_key = ap_pid p, row_job = ap_job_id p, row_status = ap_state p,
        row_data = p\<rparr> (w_processes w)\<rparr>))"

definition register_task_agent_runtime :: "task_agent_runtime_record \<Rightarrow> (world, unit) io" where
  "register_task_agent_runtime r =
     io_bind sys_op (\<lambda>_. put_world (\<lambda>w. w\<lparr>w_runtimes := replace_row
       \<lparr>row_key = tr_runtime_id r, row_job = tr_job_id r, row_status = tr_state r,
        row_data = r\<rparr> (w_runtimes w)\<rparr>))"

text \<open>\<open>UPDATE t SET status = ?1, data_json = json_set(data_json, ...) WHERE job_id = ?2\<close>.\<close>

definition update_rows :: "('a \<Rightarrow> 'a) \<Rightarrow> string \<Rightarrow> string \<Rightarrow> 'a reg_row list \<Rightarrow> 'a reg_row list" where
  "update_rows set_field st job rows =
     map (\<lambda>r. if row_job r = job then r\<lparr>row_status := st, row_data := set_field (row_data r)\<rparr> else r) rows"

definition update_job_status :: "string \<Rightarrow> string \<Rightarrow> (world, unit) io" where
  "update_job_status job st =
     (if st \<notin> set JOB_STATUSES then io_fail (invalid_status st)
      else
       io_bind sys_op (\<lambda>_. io_bind (put_world (\<lambda>w. w\<lparr>w_jobs :=
         update_rows (\<lambda>j. j\<lparr>aj_status := st\<rparr>) st job (w_jobs w)\<rparr>)) (\<lambda>_.
       io_bind sys_op (\<lambda>_. io_bind (put_world (\<lambda>w. w\<lparr>w_processes :=
         update_rows (\<lambda>p. p\<lparr>ap_state := st\<rparr>) st job (w_processes w)\<rparr>)) (\<lambda>_.
       io_bind sys_op (\<lambda>_. io_bind (put_world (\<lambda>w. w\<lparr>w_runtimes :=
         update_rows (\<lambda>r. r\<lparr>tr_state := st\<rparr>) st job (w_runtimes w)\<rparr>)) (\<lambda>_.
       io_bind (append_event job None ''job_status_changed'' (jobj [(''status'', JString st)])) (\<lambda>_.
       io_return ()))))))))"

text \<open>\<open>registry_snapshot\<close> reads the stored records.\<close>

definition registry_snapshot ::
  "string \<Rightarrow> (world, agent_job list \<times> agent_process list \<times> task_agent_runtime_record list) io" where
  "registry_snapshot job =
     io_bind sys_op (\<lambda>_. io_bind io_get (\<lambda>w. io_return
       (map row_data (filter (\<lambda>r. row_job r = job) (w_jobs w)),
        map row_data (sort_key row_key (filter (\<lambda>r. row_job r = job) (w_processes w))),
        map row_data (sort_key row_key (filter (\<lambda>r. row_job r = job) (w_runtimes w))))))"

section \<open>Files\<close>

text \<open>Reading and writing a whole file below the state root or the workspace.\<close>

definition read_file :: "path \<Rightarrow> (world, string) io" where
  "read_file p = io_bind sys_op (\<lambda>_. io_bind io_get (\<lambda>w.
     case w_files w p of None \<Rightarrow> io_fail (IoError NotFound ''file not found'') | Some s \<Rightarrow> io_return s))"

definition write_file :: "path \<Rightarrow> string \<Rightarrow> (world, unit) io" where
  "write_file p content = io_bind sys_op (\<lambda>_. put_world (\<lambda>w. w\<lparr>w_files := (w_files w)(p \<mapsto> content)\<rparr>))"

section \<open>Blobs and checkpoints\<close>

text \<open>
  \<open>write_blob\<close>: the file is below \<open>blobs/<job>\<close> of the state root, at the components of the name.
  Creating the directories and writing the file are two operations that may fail.
\<close>

definition blob_root :: "string \<Rightarrow> path" where
  "blob_root job = [''blobs'', job]"

definition write_blob :: "string \<Rightarrow> string \<Rightarrow> string \<Rightarrow> (world, string) io" where
  "write_blob job name content =
     io_bind sys_op (\<lambda>_. io_bind sys_op (\<lambda>_. io_bind (put_world (\<lambda>w.
       w\<lparr>w_files := (w_files w)(blob_root job @ normals (unix_components name) \<mapsto> content)\<rparr>)) (\<lambda>_.
     io_return (''blob://'' @ job @ ''/'' @ fwd_slashes name))))"

definition resolve_blob_ref :: "string \<Rightarrow> string \<Rightarrow> path res" where
  "resolve_blob_ref job blob_ref =
     (case strip_prefix blob_ref (''blob://'' @ job @ ''/'') of
        None \<Rightarrow> Inl (IoError InvalidInput ''blob ref does not belong to this job'')
      | Some relative \<Rightarrow>
          if relative = [] then Inl (IoError InvalidInput ''blob ref has no relative path'')
          else (case resolve_below (blob_root job) (unix_components relative) of
                  None \<Rightarrow> Inl (IoError InvalidInput ''blob ref leaves blob store boundary'')
                | Some p \<Rightarrow> Inr p))"

text \<open>
  \<open>save_checkpoint\<close>; \<open>render\<close> is \<open>serde_json::to_vec\<close>. The checkpoint id is the primary key of its
  table, so a second checkpoint of the job in the same millisecond is refused by the database,
  after its event has been written.
\<close>

definition save_checkpoint ::
  "(json \<Rightarrow> string) \<Rightarrow> string \<Rightarrow> string \<Rightarrow> string option \<Rightarrow> string \<Rightarrow> json \<Rightarrow>
   string list \<Rightarrow> string list \<Rightarrow> (world, checkpoint_ref) io" where
  "save_checkpoint render job pid runtime_id kind state input_refs output_refs =
     io_bind now_ms (\<lambda>ts.
     let checkpoint_id = ''ckpt_'' @ job @ ''_'' @ dec ts
     in io_bind (write_blob job (''checkpoints/'' @ checkpoint_id @ ''.json'') (render state)) (\<lambda>state_ref.
     io_bind (append_event job (Some pid) ''checkpoint_saved''
       (jobj [(''checkpoint_id'', JString checkpoint_id),
              (''runtime_id'', jopt runtime_id),
              (''kind'', JString kind),
              (''state_ref'', JString state_ref),
              (''input_refs'', jstrings input_refs),
              (''output_refs'', jstrings output_refs)])) (\<lambda>event.
     let rec = \<lparr>cp_checkpoint_id = checkpoint_id, cp_job_id = job, cp_pid = pid,
                cp_runtime_id = runtime_id, cp_kind = kind, cp_state_ref = state_ref,
                cp_input_refs = input_refs, cp_output_refs = output_refs,
                cp_created_event_id = event_id event\<rparr>
     in io_bind sys_op (\<lambda>_. io_bind io_get (\<lambda>w.
        if checkpoint_id \<in> cp_checkpoint_id ` set (w_checkpoints w)
        then io_fail (IoError OtherKind ''UNIQUE constraint failed'')
        else io_bind (put_world (\<lambda>w. w\<lparr>w_checkpoints := w_checkpoints w @ [rec]\<rparr>)) (\<lambda>_.
             io_return \<lparr>cr_checkpoint_id = checkpoint_id, cr_job_id = job, cr_pid = pid,
                        cr_runtime_id = runtime_id, cr_kind = kind, cr_state_ref = state_ref\<rparr>))))))"

definition list_checkpoints :: "string \<Rightarrow> (world, checkpoint_record list) io" where
  "list_checkpoints job =
     io_bind sys_op (\<lambda>_. io_bind io_get (\<lambda>w. io_return
       (sort_key cp_created_event_id (filter (\<lambda>c. cp_job_id c = job) (w_checkpoints w)))))"

section \<open>Creating a job\<close>

text \<open>The JSON of the registered records, as \<open>serde\<close> derives it.\<close>

definition jopt_num :: "'a::len word option \<Rightarrow> json" where
  "jopt_num x = (case x of None \<Rightarrow> Null | Some n \<Rightarrow> Number (PosInt (ucast n)))"

definition agent_job_json :: "agent_job \<Rightarrow> json" where
  "agent_job_json j = jobj
     [(''job_id'', JString (aj_job_id j)), (''user_goal'', JString (aj_user_goal j)),
      (''workspace_root'', JString (aj_workspace_root j)), (''status'', JString (aj_status j)),
      (''root_pid'', JString (aj_root_pid j))]"

definition exit_code_json :: "32 word option \<Rightarrow> json" where
  "exit_code_json x =
     (case x of None \<Rightarrow> Null
      | Some n \<Rightarrow> Number (if sint n < 0 then NegInt (scast n) else PosInt (ucast n)))"

definition agent_process_json :: "agent_process \<Rightarrow> json" where
  "agent_process_json p = jobj
     [(''pid'', JString (ap_pid p)), (''ppid'', jopt (ap_ppid p)), (''job_id'', JString (ap_job_id p)),
      (''process_type'', JString (ap_process_type p)), (''state'', JString (ap_state p)),
      (''input_refs'', jstrings (ap_input_refs p)), (''output_refs'', jstrings (ap_output_refs p)),
      (''capability_tokens'', jstrings (ap_capability_tokens p)),
      (''budget_ms'', jopt_num (ap_budget_ms p)), (''exit_code'', exit_code_json (ap_exit_code p))]"

definition task_agent_runtime_json :: "task_agent_runtime_record \<Rightarrow> json" where
  "task_agent_runtime_json r = jobj
     [(''runtime_id'', JString (tr_runtime_id r)), (''job_id'', JString (tr_job_id r)),
      (''root_pid'', JString (tr_root_pid r)), (''state'', JString (tr_state r)),
      (''checkpoint_refs'', jstrings (tr_checkpoint_refs r))]"

text \<open>
  \<open>create_agent_job_with_state_root\<close>, from the first clock reading on: the workspace root is the
  canonical path the guard was made with, and the store's schema exists.
\<close>

definition create_agent_job ::
  "string \<Rightarrow> string \<Rightarrow> (world, agent_job \<times> agent_process \<times> string) io" where
  "create_agent_job workspace_root user_goal =
     io_bind now_ms (\<lambda>suffix.
     let job_id = ''job_'' @ dec suffix;
         root_pid = ''pid_'' @ dec suffix;
         job = \<lparr>aj_job_id = job_id, aj_user_goal = user_goal, aj_workspace_root = workspace_root,
                aj_status = ''created'', aj_root_pid = root_pid\<rparr>;
         process = \<lparr>ap_pid = root_pid, ap_ppid = None, ap_job_id = job_id,
                    ap_process_type = ''root_agent_process'', ap_state = ''running'',
                    ap_input_refs = [], ap_output_refs = [],
                    ap_capability_tokens = [''token_'' @ dec suffix], ap_budget_ms = None,
                    ap_exit_code = None\<rparr>;
         runtime = \<lparr>tr_runtime_id = ''tar_'' @ dec suffix, tr_job_id = job_id,
                    tr_root_pid = root_pid, tr_state = ''running'', tr_checkpoint_refs = []\<rparr>
     in io_bind (register_job job) (\<lambda>_.
        io_bind (append_event job_id (Some root_pid) ''job_created'' (agent_job_json job)) (\<lambda>_.
        io_bind (update_job_status job_id ''running'') (\<lambda>_.
        io_bind (register_process process) (\<lambda>_.
        io_bind (register_task_agent_runtime runtime) (\<lambda>_.
        io_bind (append_event job_id (Some root_pid) ''process_started''
          (agent_process_json process)) (\<lambda>_.
        io_bind (append_event job_id (Some root_pid) ''task_agent_runtime_started''
          (task_agent_runtime_json runtime)) (\<lambda>_.
        io_return (job\<lparr>aj_status := ''running''\<rparr>, process, job_id)))))))))"

end
