(* ===== verification/Truth_Log.thy ===== *)
theory Truth_Log
  imports Process_Truth
begin

text \<open>
  The laws of the event log. The locale \<open>event_log\<close> is what every other component relies on: a
  successful append adds exactly one event at the end of its job's log, a failed one adds none, and
  no append touches another job. It is interpreted on \<open>append_event\<close> and \<open>job_events\<close>. The last
  section drops the assumption of one writer: the two statements of an append run as separate
  steps of any number of connections.
\<close>

section \<open>The interface\<close>

locale event_log =
  fixes log_of :: "'w \<Rightarrow> string \<Rightarrow> process_event list"
    and add :: "string \<Rightarrow> string option \<Rightarrow> string \<Rightarrow> json \<Rightarrow> ('w, process_event) io"
  assumes add_ok: "add job pid ty d w = (Inr e, w') \<Longrightarrow>
      log_of w' job = log_of w job @ [e] \<and> event_type e = ty \<and> data e = d \<and> ev_pid e = pid"
    and add_err: "add job pid ty d w = (Inl x, w') \<Longrightarrow> log_of w' job = log_of w job"
    and add_other: "add job pid ty d w = (r, w') \<Longrightarrow> other \<noteq> job \<Longrightarrow> log_of w' other = log_of w other"
begin

text \<open>\<open>extends w w'\<close>: every job's log in \<open>w'\<close> continues its log in \<open>w\<close>.\<close>

definition extends :: "'w \<Rightarrow> 'w \<Rightarrow> bool" where
  "extends w w' = (\<forall>job. \<exists>tail. log_of w' job = log_of w job @ tail)"

lemma extends_refl: "extends w w"
  by (simp add: extends_def)

lemma extends_trans: "extends a b \<Longrightarrow> extends b c \<Longrightarrow> extends a c"
  unfolding extends_def by (metis append.assoc)

lemma extends_reflp: "reflp extends" and extends_transp: "transp extends"
  using extends_refl extends_trans by (auto simp: reflp_def transp_def)

lemma add_extends: "add job pid ty d w = (r, w') \<Longrightarrow> extends w w'"
proof -
  assume a: "add job pid ty d w = (r, w')"
  have "\<exists>tail. log_of w' j = log_of w j @ tail" for j
  proof (cases "j = job")
    case True
    with a show ?thesis by (cases r) (auto dest: add_ok add_err)
  next
    case False
    with add_other [OF a] show ?thesis by simp
  qed
  then show "extends w w'" by (simp add: extends_def)
qed

lemma add_keeps: "io_keeps extends (add job pid ty d)"
  unfolding io_keeps_def by (metis add_extends prod.collapse)

text \<open>What has been recorded stays recorded.\<close>

lemma extends_recorded:
  "extends w w' \<Longrightarrow> e \<in> set (log_of w job) \<Longrightarrow> e \<in> set (log_of w' job)"
  unfolding extends_def by (metis Un_iff set_append)

lemma extends_exists:
  "extends w w' \<Longrightarrow> list_ex P (log_of w job) \<Longrightarrow> list_ex P (log_of w' job)"
  by (auto simp: list_ex_iff dest: extends_recorded)

end

section \<open>The store's append\<close>

lemma next_event_id_gt: "r \<in> set rows \<Longrightarrow> ev_job_id r = job \<Longrightarrow> event_id r < next_event_id job rows"
proof -
  assume "r \<in> set rows" "ev_job_id r = job"
  then have "event_id r \<in> set (map event_id (filter (\<lambda>r. ev_job_id r = job) rows))" by auto
  moreover have "n \<in> set ns \<Longrightarrow> n \<le> foldr max ns 0" for n :: nat and ns
    by (induction ns) auto
  ultimately show ?thesis unfolding next_event_id_def by (metis le_imp_less_Suc)
qed

lemma insert_next_event:
  "event_id e = next_event_id (ev_job_id e) rows \<Longrightarrow> insert_event e rows = Some (rows @ [e])"
  using next_event_id_gt by (fastforce simp: insert_event_def event_key_def)

text \<open>The three outcomes of an append: the first or the second statement fails, or both succeed.\<close>

definition fault_error :: io_error where
  "fault_error = IoError OtherKind ''system operation failed''"

lemma append_event_eq:
  "append_event job pid ty d w =
    (if w_fault w (w_ops w) then (Inl fault_error, w\<lparr>w_ops := Suc (w_ops w)\<rparr>)
     else if w_fault w (Suc (w_ops w))
     then (Inl fault_error, w\<lparr>w_ticks := Suc (w_ticks w), w_ops := Suc (Suc (w_ops w))\<rparr>)
     else (let e = \<lparr>event_id = next_event_id job (w_events w), timestamp_ms = w_clock w (w_ticks w),
                    ev_job_id = job, ev_pid = pid, event_type = ty, data = d\<rparr>
           in (Inr e, w\<lparr>w_events := w_events w @ [e], w_ticks := Suc (w_ticks w),
                        w_ops := Suc (Suc (w_ops w))\<rparr>)))"
  by (simp add: append_event_def append_select_def append_insert_def io_bind_def io_get_def io_fail_def io_return_def put_world_def
      sys_op_def now_ms_def Let_def insert_next_event fault_error_def)

lemma append_event_cases:
  assumes "append_event job pid ty d w = (r, w')"
  obtains (fails) "r = Inl fault_error" "w_events w' = w_events w"
    | (appended) e where "r = Inr e" "w_events w' = w_events w @ [e]"
      "event_id e = next_event_id job (w_events w)" "ev_job_id e = job" "ev_pid e = pid"
      "event_type e = ty" "data e = d" "timestamp_ms e = w_clock w (w_ticks w)"
proof (cases "w_fault w (w_ops w) \<or> w_fault w (Suc (w_ops w))")
  case True
  with assms have "r = Inl fault_error" "w_events w' = w_events w"
    by (auto simp: append_event_eq split: if_split_asm)
  then show thesis by (rule fails)
next
  case False
  with assms show thesis by (intro appended) (auto simp: append_event_eq Let_def)
qed

text \<open>An append writes the events table only.\<close>

lemma append_event_frame:
  assumes "append_event job pid ty d w = (r, w')"
  shows "w_jobs w' = w_jobs w" "w_processes w' = w_processes w" "w_runtimes w' = w_runtimes w"
    "w_checkpoints w' = w_checkpoints w" "w_files w' = w_files w" "w_clock w' = w_clock w"
    "w_fault w' = w_fault w"
  using assms by (auto simp: append_event_eq Let_def split: if_split_asm)

lemma sort_key_snoc:
  assumes "\<forall>x \<in> set xs. f x \<le> f a"
  shows "sort_key f (xs @ [a]) = sort_key f xs @ [a]"
proof -
  have ins: "insort_key f x (ys @ [a]) = insort_key f x ys @ [a]" if "f x \<le> f a" for x ys
    using that by (induction ys) auto
  from assms show ?thesis by (induction xs) (simp_all add: ins)
qed

lemma job_events_snoc:
  "event_id e = next_event_id (ev_job_id e) rows \<Longrightarrow>
   job_events (ev_job_id e) (rows @ [e]) = job_events (ev_job_id e) rows @ [e]"
  unfolding job_events_def using next_event_id_gt
  by (fastforce simp: less_imp_le intro!: sort_key_snoc)

lemma job_events_snoc_other: "ev_job_id e \<noteq> job \<Longrightarrow> job_events job (rows @ [e]) = job_events job rows"
  by (simp add: job_events_def)

interpretation truth: event_log "\<lambda>w job. job_events job (w_events w)" append_event
proof
  fix job pid ty d w e w'
  assume "append_event job pid ty d w = (Inr e, w')"
  then show "job_events job (w_events w') = job_events job (w_events w) @ [e] \<and>
      event_type e = ty \<and> data e = d \<and> ev_pid e = pid"
    by (cases rule: append_event_cases) (auto simp: job_events_snoc)
next
  fix job pid ty d w x w'
  assume "append_event job pid ty d w = (Inl x, w')"
  then show "job_events job (w_events w') = job_events job (w_events w)"
    by (cases rule: append_event_cases) auto
next
  fix job pid ty d w r w' other
  assume "append_event job pid ty d w = (r, w')" "other \<noteq> job"
  then show "job_events other (w_events w') = job_events other (w_events w)"
    by (cases rule: append_event_cases) (auto simp: job_events_snoc_other)
qed

text \<open>Reading a log returns it and changes no table.\<close>

lemma read_events_result:
  "read_events job w = (Inr events, w') \<Longrightarrow>
     events = job_events job (w_events w) \<and> w_events w' = w_events w"
  by (auto simp: read_events_def io_bind_def sys_op_def io_get_def io_return_def Let_def
      split: if_splits prod.splits sum.splits)

lemma read_events_world: "read_events job w = (r, w') \<Longrightarrow> w_events w' = w_events w"
  by (auto simp: read_events_def io_bind_def sys_op_def io_get_def io_return_def Let_def
      split: if_splits prod.splits sum.splits)

section \<open>The log invariant\<close>

text \<open>The ids of each job's events are 1, 2, 3, ... in the order they were written.\<close>

definition log_ok :: "process_event list \<Rightarrow> bool" where
  "log_ok rows =
     (\<forall>job. map event_id (filter (\<lambda>r. ev_job_id r = job) rows)
            = [1..<Suc (length (filter (\<lambda>r. ev_job_id r = job) rows))])"

lemma foldr_max_upt: "foldr max [1..<Suc n] 0 = n"
proof (rule antisym)
  have up: "(\<forall>x \<in> set ns. x \<le> k) \<Longrightarrow> foldr max ns 0 \<le> k" for ns and k :: nat
    by (induction ns) auto
  show "foldr max [1..<Suc n] 0 \<le> n" by (rule up) auto
  have "x \<in> set ns \<Longrightarrow> x \<le> foldr max ns 0" for ns and x :: nat
    by (induction ns) auto
  from this [of n "[1..<Suc n]"] show "n \<le> foldr max [1..<Suc n] 0" by (cases n) auto
qed

lemma next_event_id_ok:
  "log_ok rows \<Longrightarrow> next_event_id job rows = Suc (length (filter (\<lambda>r. ev_job_id r = job) rows))"
  unfolding next_event_id_def log_ok_def by (metis foldr_max_upt)

lemma log_ok_snoc:
  assumes "log_ok rows" and "event_id e = next_event_id (ev_job_id e) rows"
  shows "log_ok (rows @ [e])"
  using assms next_event_id_ok [OF assms(1)] by (auto simp: log_ok_def)

lemma job_events_ok:
  assumes "log_ok rows"
  shows "job_events job rows = filter (\<lambda>r. ev_job_id r = job) rows"
proof -
  have "sorted (map event_id (filter (\<lambda>r. ev_job_id r = job) rows))"
    using assms unfolding log_ok_def by (metis sorted_upt)
  then show ?thesis by (simp add: job_events_def sort_key_id_if_sorted)
qed

lemma log_ok_append_event:
  "append_event job pid ty d w = (r, w') \<Longrightarrow> log_ok (w_events w) \<Longrightarrow> log_ok (w_events w')"
  by (erule append_event_cases) (auto intro: log_ok_snoc)

text \<open>Under the invariant the reader of a stream that has seen \<open>n\<close> events gets the next ones.\<close>

lemma filter_after_ok:
  assumes "log_ok rows"
  shows "filter (\<lambda>e. n < event_id e) (job_events job rows) = drop n (job_events job rows)"
proof -
  have "filter (\<lambda>e. n < event_id e) es = drop (n - k) es"
    if "map event_id es = [Suc k..<Suc k + length es]" for es k
    using that
  proof (induction es arbitrary: k)
    case Nil
    then show ?case by simp
  next
    case (Cons e es)
    then have e: "event_id e = Suc k" and es: "map event_id es = [Suc (Suc k)..<Suc (Suc k) + length es]"
      by (auto simp: upt_rec)
    show ?case
    proof (cases "n \<le> k")
      case True
      then have "n - Suc k = 0" by simp
      with Cons.IH [OF es] True e show ?thesis by simp
    next
      case False
      then have "n - k = Suc (n - Suc k)" by simp
      with Cons.IH [OF es] False e show ?thesis by simp
    qed
  qed
  from this [of "job_events job rows" 0] assms show ?thesis
    by (simp add: job_events_ok) (simp add: log_ok_def)
qed

section \<open>Several connections\<close>

text \<open>
  \<open>append_event\<close> runs its two statements without a transaction, so another connection (another
  process of the workbench on the same database) may write between them. A state is the world and,
  for each connection between its two statements, the event it is about to insert; a step runs one of
  the two halves of \<open>append_event\<close>, whatever comes of it. An insert that meets its primary key is refused.
\<close>

type_synonym appends_state = "world \<times> (nat \<Rightarrow> process_event option)"

inductive append_step :: "appends_state \<Rightarrow> appends_state \<Rightarrow> bool" where
  select_done: "pend c = None \<Longrightarrow> append_select job pid ty d w = (Inr e, w') \<Longrightarrow>
     append_step (w, pend) (w', pend(c := Some e))"
| select_failed: "pend c = None \<Longrightarrow> append_select job pid ty d w = (Inl x, w') \<Longrightarrow>
     append_step (w, pend) (w', pend)"
| insert_run: "pend c = Some e \<Longrightarrow> append_insert e w = (r, w') \<Longrightarrow>
     append_step (w, pend) (w', pend(c := None))"

inductive appends_reachable :: "appends_state \<Rightarrow> bool" where
  appends_start: "w_events w = [] \<Longrightarrow> appends_reachable (w, \<lambda>c. None)"
| appends_next: "appends_reachable s \<Longrightarrow> append_step s t \<Longrightarrow> appends_reachable t"

inductive_cases append_stepE: "append_step (w, pend) t"

text \<open>The halves on the table: the selection leaves it and takes the next id, the insertion adds the event or nothing.\<close>

lemma append_select_result:
  assumes "append_select job pid ty d w = (r, w')"
  shows "w_events w' = w_events w \<and> (\<forall>e. r = Inr e \<longrightarrow>
    event_id e = next_event_id job (w_events w) \<and> ev_job_id e = job \<and> event_type e = ty \<and> data e = d \<and> ev_pid e = pid)"
  using assms
  by (auto simp: append_select_def io_bind_def sys_op_def io_get_def now_ms_def io_return_def Let_def split: if_splits)

lemma append_insert_result:
  assumes "append_insert e w = (r, w')"
  shows "(\<exists>x. r = Inl x) \<and> w_events w' = w_events w \<or>
    r = Inr e \<and> insert_event e (w_events w) = Some (w_events w')"
  using assms
  by (auto simp: append_insert_def io_bind_def sys_op_def io_get_def io_fail_def put_world_def io_return_def Let_def
      split: if_splits option.splits)

definition pending_ok :: "appends_state \<Rightarrow> bool" where
  "pending_ok s = (\<forall>c e. snd s c = Some e \<longrightarrow>
     0 < event_id e \<and>
     event_id e \<le> Suc (length (filter (\<lambda>r. ev_job_id r = ev_job_id e) (w_events (fst s)))))"

lemma log_ok_member:
  assumes "log_ok rows" and "0 < n" and "n \<le> length (filter (\<lambda>r. ev_job_id r = job) rows)"
  shows "(job, n) \<in> event_key ` set rows"
proof -
  from assms(2,3) have "n \<in> set [1..<Suc (length (filter (\<lambda>r. ev_job_id r = job) rows))]" by auto
  with assms(1) have "n \<in> set (map event_id (filter (\<lambda>r. ev_job_id r = job) rows))"
    by (simp add: log_ok_def)
  then show ?thesis by (force simp: event_key_def)
qed

text \<open>A pending event that is still insertable has the next id, so that its insertion keeps the numbering.\<close>

lemma insert_pending:
  assumes "log_ok rows" and "0 < event_id e" and "event_id e \<le> Suc (length (filter (\<lambda>r. ev_job_id r = ev_job_id e) rows))"
    and "insert_event e rows = Some rows'"
  shows "rows' = rows @ [e]" and "event_id e = next_event_id (ev_job_id e) rows" and "log_ok rows'"
proof -
  from assms(4) have rows': "rows' = rows @ [e]" and fresh: "event_key e \<notin> event_key ` set rows"
    by (auto simp: insert_event_def split: if_splits)
  show id: "event_id e = next_event_id (ev_job_id e) rows"
    using fresh assms(1-3) log_ok_member [of rows "event_id e" "ev_job_id e"]
    by (force simp: next_event_id_ok event_key_def le_Suc_eq)
  show "rows' = rows @ [e]" by (rule rows')
  with assms(1) id show "log_ok rows'" by (simp add: log_ok_snoc)
qed

lemma append_step_ok:
  assumes "append_step s t" and "log_ok (w_events (fst s))" and "pending_ok s"
  shows "log_ok (w_events (fst t)) \<and> pending_ok t"
  using assms
proof (induction rule: append_step.induct)
  case (select_done pend c job pid ty d w e w')
  with append_select_result [OF select_done.hyps(2)] show ?case by (auto simp: pending_ok_def next_event_id_ok)
next
  case (select_failed pend c job pid ty d w x w')
  with append_select_result [OF select_failed.hyps(2)] show ?case by (auto simp: pending_ok_def)
next
  case (insert_run pend c e w r w')
  from insert_run have b: "0 < event_id e" "event_id e \<le> Suc (length (filter (\<lambda>r. ev_job_id r = ev_job_id e) (w_events w)))"
    by (auto simp: pending_ok_def)
  from append_insert_result [OF insert_run.hyps(2)] show ?case
  proof
    assume "(\<exists>x. r = Inl x) \<and> w_events w' = w_events w"
    with insert_run.prems show ?thesis by (auto simp: pending_ok_def)
  next
    assume "r = Inr e \<and> insert_event e (w_events w) = Some (w_events w')"
    then have i: "insert_event e (w_events w) = Some (w_events w')" by simp
    have "log_ok (w_events w)" using insert_run.prems(1) by simp
    note insert_pending [OF this b i]
    with insert_run.prems(2) show ?thesis by (fastforce simp: pending_ok_def)
  qed
qed

lemma appends_reachable_ok: "appends_reachable s \<Longrightarrow> log_ok (w_events (fst s)) \<and> pending_ok s"
proof (induction rule: appends_reachable.induct)
  case (appends_start w)
  then show ?case by (simp add: log_ok_def pending_ok_def)
next
  case (appends_next s t)
  then show ?case using append_step_ok by blast
qed

text \<open>A run of \<open>append_event\<close> that no other connection interrupts is two steps.\<close>

lemma append_event_reachable:
  assumes "appends_reachable (w, pend)" and "pend c = None" and "append_event job pid ty d w = (r, w')"
  shows "appends_reachable (w', pend)"
proof (cases "append_select job pid ty d w")
  case (Pair x w1)
  show ?thesis
  proof (cases x)
    case (Inl e)
    with Pair assms(3) have "w' = w1" by (simp add: append_event_def io_bind_def)
    with Pair Inl assms(1,2) show ?thesis by (auto intro: appends_next select_failed)
  next
    case (Inr e)
    with Pair assms(3) have "append_insert e w1 = (r, w')" by (simp add: append_event_def io_bind_def)
    then have "append_step (w1, pend(c := Some e)) (w', (pend(c := Some e))(c := None))" by (intro insert_run [where e = e]) simp_all
    moreover have "append_step (w, pend) (w1, pend(c := Some e))" using Pair Inr assms(2) by (auto intro: select_done)
    moreover have "(pend(c := Some e))(c := None) = pend" using assms(2) by (auto simp: fun_eq_iff)
    ultimately show ?thesis using assms(1) by (metis appends_next)
  qed
qed

end
