(* ===== verification/Replay.thy ===== *)
theory Replay
  imports Truth_Log "HOL-Library.Product_Lexorder"
begin

text \<open>
  \<open>ProcessTruthStore::replay\<close>: the state of a job as a fold over its events. A receipt is found
  either directly in an event's data or under its \<open>data\<close> key.
\<close>

record artifact_provenance =
  pv_event_id :: nat
  pv_capability_id :: string
  pv_artifact_ref :: string
  pv_artifact_path :: string
  pv_tx_id :: "string option"
  pv_source_refs :: "string list"

record replay_state =
  rp_job_id :: string
  rp_status :: string
  rp_event_count :: nat
  rp_artifact_refs :: "string list"
  rp_artifact_provenance :: "artifact_provenance list"

definition event_payloads :: "process_event \<Rightarrow> json list" where
  "event_payloads e =
     data e # (case jget (data e) ''data'' of None \<Rightarrow> [] | Some d \<Rightarrow> [d])"

text \<open>\<open>push_artifact_ref\<close> appends the trimmed, slash-normalised path unless it is empty.\<close>

definition push_artifact_ref :: "string list \<Rightarrow> string \<Rightarrow> string list" where
  "push_artifact_ref refs path =
     (let normalized = fwd_slashes (trim path) in if normalized \<noteq> [] then refs @ [normalized] else refs)"

definition provenance_source_keys :: "string list" where
  "provenance_source_keys =
     [''source_path'', ''source_set_ref'', ''dataset_ref'', ''left_path'', ''right_path'',
      ''before_path'', ''after_path'']"

definition artifact_provenance_from_event :: "process_event \<Rightarrow> json \<Rightarrow> artifact_provenance option" where
  "artifact_provenance_from_event e payload =
     (case Option.bind (or_else (jget (data e) ''capability_id'') (jget payload ''capability_id'')) as_str of
        None \<Rightarrow> None
      | Some capability_id \<Rightarrow>
        (case Option.bind (or_else (or_else (jget payload ''artifact_path'') (jget payload ''archive_path''))
                (jget payload ''destination_path'')) as_str of
           None \<Rightarrow> None
         | Some artifact_path \<Rightarrow>
           if trim artifact_path = [] then None
           else Some
             \<lparr>pv_event_id = event_id e,
              pv_capability_id = capability_id,
              pv_artifact_ref = unwrap_or (''artifact://'' @ fwd_slashes artifact_path)
                (get_str payload ''artifact_ref''),
              pv_artifact_path = fwd_slashes artifact_path,
              pv_tx_id = get_str payload ''tx_id'',
              pv_source_refs = sort_dedup (List.map_filter (get_str payload) provenance_source_keys)\<rparr>))"

text \<open>The body of the loop over the payloads of an event.\<close>

definition replay_payload ::
  "process_event \<Rightarrow> string list \<times> artifact_provenance list \<Rightarrow> json \<Rightarrow>
   string list \<times> artifact_provenance list" where
  "replay_payload e acc payload =
     (case acc of (refs, prov) \<Rightarrow>
       let refs1 = (case get_array payload ''artifacts'' of
                      None \<Rightarrow> refs | Some items \<Rightarrow> foldl push_artifact_ref refs (strings_of items));
           refs2 = (case get_str payload ''artifact_path'' of
                      None \<Rightarrow> refs1 | Some path \<Rightarrow> push_artifact_ref refs1 path);
           refs3 = (case get_str payload ''archive_path'' of
                      None \<Rightarrow> refs2 | Some path \<Rightarrow> push_artifact_ref refs2 path)
       in (case artifact_provenance_from_event e payload of
             None \<Rightarrow> (refs3, prov)
           | Some p \<Rightarrow> (push_artifact_ref refs3 (pv_artifact_path p), prov @ [p])))"

text \<open>The match on the event type that sets the status.\<close>

definition replay_status :: "string \<Rightarrow> process_event \<Rightarrow> string" where
  "replay_status st e =
     (if event_type e = ''job_completed'' then ''completed''
      else if event_type e = ''job_blocked'' then ''blocked''
      else if event_type e = ''job_failed'' then ''failed''
      else if event_type e = ''job_interrupted_by_model_protocol_error'' then ''interrupted''
      else if event_type e = ''job_status_changed'' then unwrap_or st (get_str (data e) ''status'')
      else st)"

definition replay_step ::
  "string \<times> string list \<times> artifact_provenance list \<Rightarrow> process_event \<Rightarrow>
   string \<times> string list \<times> artifact_provenance list" where
  "replay_step acc e =
     (case acc of (st, refs, prov) \<Rightarrow>
        (replay_status st e, foldl (replay_payload e) (refs, prov) (event_payloads e)))"

definition replay_events :: "string \<Rightarrow> process_event list \<Rightarrow> replay_state" where
  "replay_events job events =
     (case foldl replay_step (''created'', [], []) events of (st, refs, prov) \<Rightarrow>
        \<lparr>rp_job_id = job, rp_status = st, rp_event_count = length events,
         rp_artifact_refs = sort_dedup refs,
         rp_artifact_provenance = sort_key (\<lambda>p. (pv_artifact_path p, pv_event_id p)) prov\<rparr>)"

definition replay :: "string \<Rightarrow> (world, replay_state) io" where
  "replay job = io_bind (read_events job) (\<lambda>events. io_return (replay_events job events))"

definition replay_artifact_provenance :: "string \<Rightarrow> (world, artifact_provenance list) io" where
  "replay_artifact_provenance job =
     io_bind (replay job) (\<lambda>st. io_return (rp_artifact_provenance st))"

record replay_session =
  rs_replay_id :: string
  rs_job_id :: string
  rs_state :: replay_state
  rs_events :: "process_event list"

definition replay_session_of :: "string \<Rightarrow> (world, replay_session) io" where
  "replay_session_of job =
     io_bind (read_events job) (\<lambda>events. io_bind (replay job) (\<lambda>st. io_bind now_ms (\<lambda>ts.
       io_return \<lparr>rs_replay_id = ''replay_'' @ dec ts, rs_job_id = job, rs_state = st,
                  rs_events = events\<rparr>)))"

section \<open>What a replay collects\<close>

text \<open>The references one payload contributes, as a set.\<close>

definition norm_ref :: "string \<Rightarrow> string" where
  "norm_ref path = fwd_slashes (trim path)"

definition payload_paths :: "process_event \<Rightarrow> json \<Rightarrow> string set" where
  "payload_paths e payload =
     (case get_array payload ''artifacts'' of None \<Rightarrow> {} | Some items \<Rightarrow> set (strings_of items))
     \<union> set_option (get_str payload ''artifact_path'')
     \<union> set_option (get_str payload ''archive_path'')
     \<union> pv_artifact_path ` set_option (artifact_provenance_from_event e payload)"

definition event_refs :: "process_event \<Rightarrow> string set" where
  "event_refs e = norm_ref ` (\<Union>payload \<in> set (event_payloads e). payload_paths e payload) - {[]}"

lemma set_push_artifact_ref: "set (push_artifact_ref refs path) = set refs \<union> ({norm_ref path} - {[]})"
  by (auto simp: push_artifact_ref_def norm_ref_def Let_def)

lemma set_foldl_push:
  "set (foldl push_artifact_ref refs paths) = set refs \<union> (norm_ref ` set paths - {[]})"
  by (induction paths arbitrary: refs) (auto simp: set_push_artifact_ref)

lemma set_fst_replay_payload:
  "set (fst (replay_payload e acc payload)) = set (fst acc) \<union> (norm_ref ` payload_paths e payload - {[]})"
  by (cases acc)
    (auto simp: replay_payload_def payload_paths_def Let_def set_foldl_push set_push_artifact_ref
      split: option.splits)

lemma set_fst_foldl_payload:
  "set (fst (foldl (replay_payload e) acc payloads)) =
     set (fst acc) \<union> (norm_ref ` (\<Union>p \<in> set payloads. payload_paths e p) - {[]})"
  by (induction payloads arbitrary: acc) (auto simp: set_fst_replay_payload)

lemma replay_step_simps:
  "fst (replay_step acc e) = replay_status (fst acc) e"
  "set (fst (snd (replay_step acc e))) = set (fst (snd acc)) \<union> event_refs e"
  by (cases acc; simp add: replay_step_def set_fst_foldl_payload event_refs_def)+

lemma replay_fold_status: "fst (foldl replay_step acc events) = foldl replay_status (fst acc) events"
  by (induction events arbitrary: acc) (simp_all add: replay_step_simps)

lemma replay_fold_refs:
  "set (fst (snd (foldl replay_step acc events))) = set (fst (snd acc)) \<union> (\<Union>e \<in> set events. event_refs e)"
  by (induction events arbitrary: acc) (auto simp: replay_step_simps)

lemma replay_events_simps:
  "rp_status (replay_events job events) = foldl replay_status ''created'' events"
  "set (rp_artifact_refs (replay_events job events)) = (\<Union>e \<in> set events. event_refs e)"
  "sorted_wrt (<) (rp_artifact_refs (replay_events job events))"
  "rp_event_count (replay_events job events) = length events"
  using replay_fold_status [of "(''created'', [], [])" events]
    replay_fold_refs [of "(''created'', [], [])" events]
  by (auto simp: replay_events_def sorted_sort_dedup split: prod.splits)

text \<open>The provenance list is the payloads' provenance in event order, sorted by path and id.\<close>

lemma snd_foldl_payload:
  "snd (foldl (replay_payload e) acc payloads) =
     snd acc @ List.map_filter (artifact_provenance_from_event e) payloads"
  by (induction payloads arbitrary: acc)
    (auto simp: replay_payload_def Let_def List.map_filter_simps split: option.splits prod.splits)

lemma replay_fold_provenance:
  "snd (snd (foldl replay_step acc events)) =
     snd (snd acc) @ concat (map (\<lambda>e. List.map_filter (artifact_provenance_from_event e) (event_payloads e)) events)"
proof (induction events arbitrary: acc)
  case Nil
  then show ?case by simp
next
  case (Cons e events)
  have "snd (snd (replay_step acc e)) =
      snd (snd acc) @ List.map_filter (artifact_provenance_from_event e) (event_payloads e)"
    by (cases acc) (simp add: replay_step_def snd_foldl_payload)
  with Cons show ?case by simp
qed

lemma replay_events_provenance:
  "rp_artifact_provenance (replay_events job events) =
     sort_key (\<lambda>p. (pv_artifact_path p, pv_event_id p))
       (concat (map (\<lambda>e. List.map_filter (artifact_provenance_from_event e) (event_payloads e)) events))"
  using replay_fold_provenance [of "(''created'', [], [])" events]
  by (auto simp: replay_events_def split: prod.splits)

text \<open>An event sets the status when its type is one of the five and it carries one.\<close>

definition status_of_event :: "process_event \<Rightarrow> string option" where
  "status_of_event e =
     (if event_type e = ''job_completed'' then Some ''completed''
      else if event_type e = ''job_blocked'' then Some ''blocked''
      else if event_type e = ''job_failed'' then Some ''failed''
      else if event_type e = ''job_interrupted_by_model_protocol_error'' then Some ''interrupted''
      else if event_type e = ''job_status_changed'' then get_str (data e) ''status''
      else None)"

lemma replay_status_eq: "replay_status st e = unwrap_or st (status_of_event e)"
  by (simp add: replay_status_def status_of_event_def)

lemma foldl_replay_status:
  "foldl replay_status st events = last (st # List.map_filter status_of_event events)"
  by (induction events arbitrary: st)
    (simp_all add: replay_status_eq List.map_filter_simps split: option.splits)

end
