(* ===== verification/Hashing.thy ===== *)
theory Hashing
  imports Prelude
begin

text \<open>
  The hashes of \<open>process_kernel/src/lib.rs\<close>: 64-bit FNV-1a (also inlined in
  \<open>approval_scope_hash\<close> and, reading in blocks, in \<open>file_fingerprint\<close>) and the bitwise CRC-32 of
  the archive writer. Arithmetic wraps at the word's width, as \<open>wrapping_mul\<close> does.
\<close>

unbundle bit_operations_syntax

definition byte_of :: "char \<Rightarrow> 'a::len word" where
  "byte_of c = word_of_nat (of_char c)"

definition fnv_step :: "64 word \<Rightarrow> char \<Rightarrow> 64 word" where
  "fnv_step h b = (h XOR byte_of b) * 0x100000001b3"

definition fnv_init :: "64 word" where
  "fnv_init = 0xcbf29ce484222325"

definition fnv1a64 :: "string \<Rightarrow> 64 word" where
  "fnv1a64 bytes = foldl fnv_step fnv_init bytes"

text \<open>\<open>file_fingerprint\<close>: the file arrives in the blocks the reads return, an empty one at the end.\<close>

fun hash_blocks :: "64 word \<Rightarrow> string list \<Rightarrow> 64 word" where
  "hash_blocks h [] = h"
| "hash_blocks h (block # blocks) = (if block = [] then h else hash_blocks (foldl fnv_step h block) blocks)"

definition file_fingerprint :: "string list \<Rightarrow> string" where
  "file_fingerprint blocks = ''fnv1a64:'' @ hex16 (hash_blocks fnv_init blocks)"

text \<open>The fingerprint does not depend on how the reads cut the file.\<close>

lemma hash_blocks_concat:
  "\<forall>b \<in> set blocks. b \<noteq> [] \<Longrightarrow> hash_blocks h blocks = foldl fnv_step h (concat blocks)"
  by (induction blocks arbitrary: h) auto

text \<open>One FNV step is a bijection of the hash, so equal-length continuations never merge states.\<close>

lemma fnv_prime_inverse: "(0x100000001b3 :: 64 word) * 0xce965057aff6957b = 1"
  by simp

lemma fnv_step_inj: "fnv_step a c = fnv_step b c \<Longrightarrow> a = b"
proof -
  assume "fnv_step a c = fnv_step b c"
  then have "(a XOR byte_of c) * 0x100000001b3 * 0xce965057aff6957b =
      (b XOR byte_of c) * 0x100000001b3 * 0xce965057aff6957b"
    by (simp only: fnv_step_def)
  then have "a XOR byte_of c = b XOR byte_of c"
    by (simp only: mult.assoc fnv_prime_inverse mult_1_right)
  then have "(a XOR byte_of c) XOR byte_of c = (b XOR byte_of c) XOR byte_of c" by simp
  then show "a = b" by (simp add: xor.assoc)
qed

lemma foldl_fnv_inj: "foldl fnv_step a bs = foldl fnv_step b bs \<Longrightarrow> a = b"
  by (induction bs arbitrary: a b) (auto dest: fnv_step_inj)

text \<open>CRC-32: eight shifts per byte, then complement.\<close>

definition crc_bit :: "32 word \<Rightarrow> 32 word" where
  "crc_bit crc = (let mask = 0 - (crc AND 1) in drop_bit 1 crc XOR (0xedb88320 AND mask))"

definition crc_byte :: "32 word \<Rightarrow> char \<Rightarrow> 32 word" where
  "crc_byte crc b = (crc_bit ^^ 8) (crc XOR byte_of b)"

definition crc32 :: "string \<Rightarrow> 32 word" where
  "crc32 bytes = NOT (foldl crc_byte 0xffffffff bytes)"

section \<open>Properties of the fingerprint\<close>

lemma hash_blocks_end: "\<forall>b \<in> set blocks. b \<noteq> [] \<Longrightarrow> hash_blocks h (blocks @ [] # rest) = foldl fnv_step h (concat blocks)"
  by (induction blocks arbitrary: h) auto

text \<open>
  The fingerprint of a file is the 64-bit FNV-1a hash of its bytes, however the reads cut the
  file into blocks, and nothing after the first empty read is looked at.
\<close>

theorem fingerprint_ignores_block_cuts:
  assumes "\<forall>b \<in> set blocks. b \<noteq> []"
  shows "file_fingerprint blocks = ''fnv1a64:'' @ hex16 (fnv1a64 (concat blocks)) \<and>
     file_fingerprint (blocks @ [] # rest) = file_fingerprint blocks"
  using assms by (simp add: file_fingerprint_def hash_blocks_end hash_blocks_concat fnv1a64_def)

theorem fingerprint_ignores_block_cuts_witness:
  "file_fingerprint [''ab'', ''c''] = file_fingerprint [''a'', ''bc'', [], ''d'']"
  using fingerprint_ignores_block_cuts [of "[''ab'', ''c'']" "[]"]
    fingerprint_ignores_block_cuts [of "[''a'', ''bc'']" "[''d'']"] by simp

lemma unat_byte_of: "unat (byte_of b :: 64 word) = of_char b"
proof -
  have "(of_char b :: nat) < 2 ^ 64" using nat_of_char_less_256 [of b] by (rule less_trans) simp
  then show ?thesis by (simp add: byte_of_def unat_of_nat)
qed

lemma fnv_step_byte_inj: "fnv_step h b = fnv_step h c \<Longrightarrow> b = c"
proof -
  assume "fnv_step h b = fnv_step h c"
  then have "(h XOR byte_of b) * 0x100000001b3 * 0xce965057aff6957b =
      (h XOR byte_of c) * 0x100000001b3 * 0xce965057aff6957b"
    by (simp only: fnv_step_def)
  then have "h XOR byte_of b = h XOR byte_of c"
    by (simp only: mult.assoc fnv_prime_inverse mult_1_right)
  then have "h XOR (h XOR byte_of b) = h XOR (h XOR byte_of c)" by simp
  then have "(byte_of b :: 64 word) = byte_of c" by (simp flip: xor.assoc)
  then have "unat (byte_of b :: 64 word) = unat (byte_of c :: 64 word)" by simp
  then have "of_char b = (of_char c :: nat)" by (simp only: unat_byte_of)
  then show "b = c" by simp
qed

text \<open>
  Changing one byte of a file always changes its fingerprint: two contents that differ in
  exactly one position have different hashes, although the hash has only 64 bits.
\<close>

theorem fingerprint_detects_one_byte:
  assumes "file_fingerprint [p @ b # s] = file_fingerprint [p @ c # s]"
  shows "b = c"
proof -
  from assms have "hex16 (fnv1a64 (p @ b # s)) = hex16 (fnv1a64 (p @ c # s))"
    by (simp add: file_fingerprint_def fnv1a64_def)
  then have "fnv1a64 (p @ b # s) = fnv1a64 (p @ c # s)" by (simp only: hex16_inj)
  then have "fnv_step (fnv1a64 p) b = fnv_step (fnv1a64 p) c"
    by (auto simp: fnv1a64_def dest: foldl_fnv_inj)
  then show ?thesis by (rule fnv_step_byte_inj)
qed

theorem fingerprint_detects_one_byte_witness:
  "file_fingerprint [''a'' @ CHR ''b'' # ''d''] \<noteq> file_fingerprint [''a'' @ CHR ''c'' # ''d'']"
proof
  assume "file_fingerprint [''a'' @ CHR ''b'' # ''d''] = file_fingerprint [''a'' @ CHR ''c'' # ''d'']"
  then have "CHR ''b'' = CHR ''c''" by (rule fingerprint_detects_one_byte)
  then show False by simp
qed

end
