(* ===== verification/Approval_Runtime.thy ===== *)
theory Approval_Runtime
  imports Replay Hashing
begin

text \<open>
  \<open>process_kernel/src/approval_runtime.rs\<close>: preview transactions, the approval tokens issued for
  them, their validation and consumption. Everything is recorded in the process-truth log and read
  back from it; the runtime keeps no state of its own. The serializer of \<open>serde_json\<close> is a
  parameter: \<open>to_string\<close> (compact) and \<open>to_pretty\<close>.
\<close>

record executable_preview_operation =
  op_capability_id :: string
  op_arguments :: json
  op_target_paths :: "string list"
  op_human_description :: string
  op_rollback_policy :: "string option"

record preview_tx =
  px_tx_id :: string
  px_preview_id :: string
  px_preview_ref :: string
  px_human_preview_markdown :: string
  px_executable_operations :: "executable_preview_operation list"
  px_proposed_actions :: "string list"
  px_target_paths :: "string list"
  px_risk_level :: string
  px_rollback_plan_ref :: "string option"

record approval_token_record =
  at_approval_token_id :: string
  at_tx_id :: string
  at_preview_id :: string
  at_approved_operation_scope :: "string list"
  at_approved_action_scope :: "string list"
  at_approved_path_scope :: "string list"
  at_allowed_ops_hash :: string
  at_expires_at_ms :: nat
  at_approval_note :: string

section \<open>Scopes\<close>

text \<open>\<open>normalize_preview_scope\<close>: the loop and the final test.\<close>

fun scope_loop :: "string \<Rightarrow> string list \<Rightarrow> string list \<Rightarrow> string list res" where
  "scope_loop field seen [] = Inr []"
| "scope_loop field seen (item # items) =
     (let v = trim (fwd_slashes item) in
      if v = ''*''
      then Inl (IoError InvalidInput (''preview tx '' @ field @ '' cannot contain wildcard scope''))
      else if v = [] \<or> v \<in> set seen then scope_loop field seen items
      else (case scope_loop field (v # seen) items of Inl e \<Rightarrow> Inl e | Inr vs \<Rightarrow> Inr (v # vs)))"

definition normalize_preview_scope :: "string \<Rightarrow> string list \<Rightarrow> string list res" where
  "normalize_preview_scope field items =
     (case scope_loop field [] items of
        Inl e \<Rightarrow> Inl e
      | Inr normalized \<Rightarrow>
          if normalized = [] then Inl (IoError InvalidInput (''preview tx '' @ field @ '' cannot be empty''))
          else Inr normalized)"

text \<open>\<open>values_to_strings\<close>: the strings of an array, slash-normalised, blank ones dropped.\<close>

definition values_to_strings :: "json list \<Rightarrow> string list" where
  "values_to_strings items = filter (\<lambda>s. trim s \<noteq> []) (map fwd_slashes (strings_of items))"

section \<open>Operations of a preview\<close>

definition normalize_operation ::
  "executable_preview_operation \<Rightarrow> executable_preview_operation res" where
  "normalize_operation operation =
     (let cid = trim (op_capability_id operation) in
      if cid = [] \<or> cid = ''*''
      then Inl (IoError InvalidInput
        ''preview tx executable_operations capability_id cannot be empty or wildcard'')
      else (case normalize_preview_scope ''executable_operations.target_paths'' (op_target_paths operation) of
              Inl e \<Rightarrow> Inl e
            | Inr paths \<Rightarrow> Inr (operation\<lparr>
                op_capability_id := cid, op_target_paths := paths,
                op_human_description :=
                  (if trim (op_human_description operation) = [] then cid
                   else op_human_description operation)\<rparr>)))"

fun normalize_operations_loop ::
  "executable_preview_operation list \<Rightarrow> executable_preview_operation list res" where
  "normalize_operations_loop [] = Inr []"
| "normalize_operations_loop (operation # operations) =
     (case normalize_operation operation of
        Inl e \<Rightarrow> Inl e
      | Inr n \<Rightarrow> (case normalize_operations_loop operations of
                   Inl e \<Rightarrow> Inl e | Inr ns \<Rightarrow> Inr (n # ns)))"

definition normalize_executable_operations ::
  "executable_preview_operation list \<Rightarrow> executable_preview_operation list res" where
  "normalize_executable_operations operations =
     (if operations = []
      then Inl (IoError InvalidInput ''preview tx executable_operations cannot be empty'')
      else normalize_operations_loop operations)"

text \<open>\<open>operation_capability_ids\<close> and \<open>operation_target_paths\<close>.\<close>

definition operation_capability_ids :: "executable_preview_operation list \<Rightarrow> string list" where
  "operation_capability_ids operations =
     keep_first [] (filter (\<lambda>c. c \<noteq> []) (map (\<lambda>p. trim (op_capability_id p)) operations))"

definition operation_target_paths :: "executable_preview_operation list \<Rightarrow> string list" where
  "operation_target_paths operations =
     (case normalize_preview_scope ''target_paths'' (concat (map op_target_paths operations)) of
        Inl e \<Rightarrow> [] | Inr paths \<Rightarrow> paths)"

text \<open>\<open>preview_operations\<close>: parsing the operations back; one without a string id refuses them all.\<close>

definition preview_operation :: "json \<Rightarrow> executable_preview_operation option" where
  "preview_operation operation =
     (case get_str operation ''capability_id'' of
        None \<Rightarrow> None
      | Some capability_id \<Rightarrow> Some
          \<lparr>op_capability_id = capability_id,
           op_arguments = unwrap_or Null (jget operation ''arguments''),
           op_target_paths = unwrap_or [] (map_option values_to_strings (get_array operation ''target_paths'')),
           op_human_description = unwrap_or capability_id (get_str operation ''human_description''),
           op_rollback_policy = get_str operation ''rollback_policy''\<rparr>)"

definition preview_operations :: "json \<Rightarrow> executable_preview_operation list option" where
  "preview_operations d =
     (case get_array d ''executable_operations'' of
        None \<Rightarrow> None
      | Some operations \<Rightarrow> those (map preview_operation operations))"

definition preview_operation_capability_ids :: "json \<Rightarrow> string list option" where
  "preview_operation_capability_ids d =
     (let fallback = map_option values_to_strings (get_array d ''proposed_actions'') in
      case preview_operations d of
        None \<Rightarrow> fallback
      | Some operations \<Rightarrow>
          (let ids = operation_capability_ids operations in if ids \<noteq> [] then Some ids else fallback))"

definition preview_operation_target_paths :: "json \<Rightarrow> string list option" where
  "preview_operation_target_paths d =
     (let fallback = map_option values_to_strings (get_array d ''target_paths'') in
      case preview_operations d of
        None \<Rightarrow> fallback
      | Some operations \<Rightarrow>
          (let paths = operation_target_paths operations in if paths \<noteq> [] then Some paths else fallback))"

definition approval_scope_hash :: "serde \<Rightarrow> json \<Rightarrow> string" where
  "approval_scope_hash sd v = hex16 (fnv1a64 (to_string sd v))"

text \<open>
  \<open>safe_blob_name\<close> works on characters: each one that is not an ASCII letter, digit, dot, dash or
  underscore becomes one underscore, so the continuation bytes of UTF-8 disappear.
\<close>

definition safe_char :: "char \<Rightarrow> char" where
  "safe_char c = (if is_ascii_alphanumeric c \<or> c \<in> {CHR ''.'', CHR ''-'', CHR ''_''} then c else CHR ''_'')"

definition safe_blob_name :: "string \<Rightarrow> string" where
  "safe_blob_name v = map safe_char (filter (\<lambda>c. \<not> is_continuation c) (fwd_slashes v))"

section \<open>JSON of the records\<close>

definition operation_json :: "executable_preview_operation \<Rightarrow> json" where
  "operation_json p = jobj
     [(''capability_id'', JString (op_capability_id p)), (''arguments'', op_arguments p),
      (''target_paths'', jstrings (op_target_paths p)),
      (''human_description'', JString (op_human_description p)),
      (''rollback_policy'', jopt (op_rollback_policy p))]"

definition operations_json :: "executable_preview_operation list \<Rightarrow> json" where
  "operations_json ps = Array (map operation_json ps)"

definition preview_tx_json :: "preview_tx \<Rightarrow> json" where
  "preview_tx_json p = jobj
     [(''tx_id'', JString (px_tx_id p)), (''preview_id'', JString (px_preview_id p)),
      (''preview_ref'', JString (px_preview_ref p)),
      (''human_preview_markdown'', JString (px_human_preview_markdown p)),
      (''executable_operations'', operations_json (px_executable_operations p)),
      (''proposed_actions'', jstrings (px_proposed_actions p)),
      (''target_paths'', jstrings (px_target_paths p)), (''risk_level'', JString (px_risk_level p)),
      (''rollback_plan_ref'', jopt (px_rollback_plan_ref p))]"

text \<open>\<open>to_json_value(&token)\<close>: a \<open>u128\<close> that does not fit 64 bits is an error of the serializer.\<close>

definition token_json :: "approval_token_record \<Rightarrow> json res" where
  "token_json t =
     (if at_expires_at_ms t < 2 ^ 64
      then Inr (jobj
        [(''approval_token_id'', JString (at_approval_token_id t)), (''tx_id'', JString (at_tx_id t)),
         (''preview_id'', JString (at_preview_id t)),
         (''approved_operation_scope'', jstrings (at_approved_operation_scope t)),
         (''approved_action_scope'', jstrings (at_approved_action_scope t)),
         (''approved_path_scope'', jstrings (at_approved_path_scope t)),
         (''allowed_ops_hash'', JString (at_allowed_ops_hash t)),
         (''expires_at_ms'', Number (PosInt (word_of_nat (at_expires_at_ms t)))),
         (''approval_note'', JString (at_approval_note t))])
      else Inl (IoError InvalidData ''number out of range''))"

section \<open>The runtime\<close>

text \<open>The two events a new preview is recorded with.\<close>

definition record_preview :: "string \<Rightarrow> string \<Rightarrow> preview_tx \<Rightarrow> (world, preview_tx) io" where
  "record_preview job pid preview =
     io_bind (append_event job (Some pid) ''preview_tx_created'' (preview_tx_json preview)) (\<lambda>_.
     io_bind (append_event job (Some pid) ''preview_created'' (jobj
       [(''preview_id'', JString (px_preview_id preview)),
        (''preview_ref'', JString (px_preview_ref preview)),
        (''human_preview_markdown'', JString (px_human_preview_markdown preview)),
        (''executable_operations'', operations_json (px_executable_operations preview)),
        (''proposed_actions'', jstrings (px_proposed_actions preview)),
        (''target_paths'', jstrings (px_target_paths preview)),
        (''risk_level'', JString (px_risk_level preview)),
        (''rollback_plan_ref'', jopt (px_rollback_plan_ref preview)),
        (''approval_required'', Bool True)])) (\<lambda>_.
     io_return preview))"

definition create_preview_tx ::
  "serde \<Rightarrow> string \<Rightarrow> string \<Rightarrow> string \<Rightarrow> executable_preview_operation list \<Rightarrow> string \<Rightarrow>
   (world, preview_tx) io" where
  "create_preview_tx sd job pid preview_markdown operations risk_level =
     io_bind (io_lift (normalize_executable_operations operations)) (\<lambda>executable_operations.
     let proposed_actions = operation_capability_ids executable_operations;
         target_paths = operation_target_paths executable_operations
     in io_bind now_ms (\<lambda>t1. io_bind now_ms (\<lambda>t2.
     let preview_id = ''preview_'' @ dec t1;
         tx_id = ''preview_tx_'' @ dec t2
     in io_bind (write_blob job (''previews/'' @ safe_blob_name preview_id @ ''_preview.md'') preview_markdown)
          (\<lambda>preview_ref.
        io_bind (write_blob job (''previews/'' @ safe_blob_name preview_id @ ''_rollback_plan.json'')
          (to_pretty sd (jobj
            [(''tx_id'', JString tx_id), (''preview_id'', JString preview_id),
             (''rollback_strategy'',
              JString ''runtime capability tx rollback refs are recorded after mutation''),
             (''target_paths'', jstrings target_paths),
             (''executable_operations'', operations_json executable_operations)])))
          (\<lambda>rollback_plan_ref.
        record_preview job pid \<lparr>px_tx_id = tx_id, px_preview_id = preview_id,
          px_preview_ref = preview_ref, px_human_preview_markdown = preview_markdown,
          px_executable_operations = executable_operations,
          px_proposed_actions = proposed_actions, px_target_paths = target_paths,
          px_risk_level = risk_level, px_rollback_plan_ref = Some rollback_plan_ref\<rparr>)))))"

definition closed_or_approved_tx :: "process_event list \<Rightarrow> string list" where
  "closed_or_approved_tx events = bset_collect (List.map_filter (\<lambda>e. get_str (data e) ''tx_id'')
     (filter (\<lambda>e. event_type e \<in> {''preview_tx_closed'', ''preview_tx_approved'', ''approval_token_issued''})
       events))"

definition preview_selected :: "string option \<Rightarrow> string list \<Rightarrow> process_event \<Rightarrow> bool" where
  "preview_selected approval_id closed e =
     (event_type e = ''preview_tx_created'' \<and>
      (let tx_id = unwrap_or [] (get_str (data e) ''tx_id'');
           preview_id = unwrap_or [] (get_str (data e) ''preview_id'')
       in (case approval_id of None \<Rightarrow> True | Some selected \<Rightarrow> selected = tx_id \<or> selected = preview_id)
          \<and> tx_id \<notin> set closed))"

definition trimmed_selection :: "string option \<Rightarrow> string option" where
  "trimmed_selection approval_id =
     (case approval_id of None \<Rightarrow> None | Some s \<Rightarrow> if trim s = [] then None else Some (trim s))"

definition nonempty :: "'a list option \<Rightarrow> 'a list option" where
  "nonempty x = (case x of None \<Rightarrow> None | Some items \<Rightarrow> if items = [] then None else Some items)"

definition ok_or :: "io_error \<Rightarrow> 'a option \<Rightarrow> ('s, 'a) io" where
  "ok_or e x = (case x of None \<Rightarrow> io_fail e | Some y \<Rightarrow> io_return y)"

text \<open>\<open>now_ms().saturating_add(24 * 60 * 60 * 1000)\<close> on \<open>u128\<close>.\<close>

definition token_expiry :: "nat \<Rightarrow> nat" where
  "token_expiry now = min (now + 24 * 60 * 60 * 1000) (2 ^ 128 - 1)"

text \<open>The two events a token is recorded with; its JSON is built between them.\<close>

definition record_token ::
  "string \<Rightarrow> string \<Rightarrow> approval_token_record \<Rightarrow> (world, approval_token_record) io" where
  "record_token job pid token =
     io_bind (append_event job (Some pid) ''preview_tx_approved'' (jobj
       [(''tx_id'', JString (at_tx_id token)), (''preview_id'', JString (at_preview_id token)),
        (''approval_token_id'', JString (at_approval_token_id token)),
        (''approval_note'', JString (at_approval_note token)), (''status'', JString ''approved'')])) (\<lambda>_.
     io_bind (io_lift (token_json token)) (\<lambda>token_value.
     io_bind (append_event job (Some pid) ''approval_token_issued'' token_value) (\<lambda>_.
     io_return token)))"

definition issue_token_for_preview_selection ::
  "serde \<Rightarrow> string \<Rightarrow> string \<Rightarrow> string option \<Rightarrow> string \<Rightarrow> (world, approval_token_record) io" where
  "issue_token_for_preview_selection sd job pid selection approval_note =
     io_bind (read_events job) (\<lambda>events.
     let closed = closed_or_approved_tx events;
         approval_id = trimmed_selection selection
     in io_bind (ok_or (IoError NotFound
            (case approval_id of
               Some i \<Rightarrow> ''no open preview tx to approve for approval_id: '' @ i
             | None \<Rightarrow> ''no preview tx to approve''))
          (find (preview_selected approval_id closed) (rev events))) (\<lambda>preview.
     let preview_id = unwrap_or ''preview_unknown'' (get_str (data preview) ''preview_id'');
         tx_id = unwrap_or preview_id (get_str (data preview) ''tx_id'')
     in io_bind (ok_or (IoError InvalidData
          ''preview tx cannot be approved without explicit executable_operations capability_id scope'')
          (nonempty (preview_operation_capability_ids (data preview)))) (\<lambda>approved_operations.
        io_bind (ok_or (IoError InvalidData
          ''preview tx cannot be approved without explicit target_paths'')
          (nonempty (preview_operation_target_paths (data preview)))) (\<lambda>target_paths.
        io_bind now_ms (\<lambda>t1. io_bind now_ms (\<lambda>t2.
        record_token job pid
          \<lparr>at_approval_token_id = ''approval_'' @ safe_blob_name preview_id @ ''_'' @ dec t1,
           at_tx_id = tx_id, at_preview_id = preview_id,
           at_approved_operation_scope = approved_operations,
           at_approved_action_scope = approved_operations,
           at_approved_path_scope = target_paths,
           at_allowed_ops_hash = approval_scope_hash sd (data preview),
           at_expires_at_ms = token_expiry t2,
           at_approval_note = approval_note\<rparr>))))))"

definition issue_token_for_latest_preview ::
  "serde \<Rightarrow> string \<Rightarrow> string \<Rightarrow> string \<Rightarrow> (world, approval_token_record) io" where
  "issue_token_for_latest_preview sd job pid note = issue_token_for_preview_selection sd job pid None note"

definition issue_token_for_preview ::
  "serde \<Rightarrow> string \<Rightarrow> string \<Rightarrow> string \<Rightarrow> string \<Rightarrow> (world, approval_token_record) io" where
  "issue_token_for_preview sd job pid approval_id note =
     issue_token_for_preview_selection sd job pid (Some approval_id) note"

definition token_is_consumed :: "process_event list \<Rightarrow> string \<Rightarrow> bool" where
  "token_is_consumed events token_id = list_ex (\<lambda>e.
     event_type e \<in> {''approval_token_consumed'', ''approval_token_used''} \<and>
     get_str (data e) ''approval_token_id'' = Some token_id) events"

text \<open>A target is in scope when it is a scope entry or lies below one.\<close>

definition path_in_scope :: "string list \<Rightarrow> string \<Rightarrow> bool" where
  "path_in_scope paths target = list_ex (\<lambda>scope.
     scope = target \<or> starts_with target (trim_end_char CHR ''/'' scope @ ''/'')) paths"

definition issues_token :: "string \<Rightarrow> process_event \<Rightarrow> bool" where
  "issues_token token_id e =
     (event_type e = ''approval_token_issued'' \<and> get_str (data e) ''approval_token_id'' = Some token_id)"

definition preview_hash_ok :: "serde \<Rightarrow> process_event list \<Rightarrow> process_event \<Rightarrow> bool" where
  "preview_hash_ok sd events e = list_ex (\<lambda>p.
     event_type p = ''preview_tx_created'' \<and>
     unwrap_or [] (get_str (data p) ''tx_id'') = unwrap_or [] (get_str (data e) ''tx_id'') \<and>
     unwrap_or [] (get_str (data e) ''allowed_ops_hash'') = approval_scope_hash sd (data p)) (rev events)"

definition token_actions :: "json \<Rightarrow> string list" where
  "token_actions d = unwrap_or [] (map_option values_to_strings (Option.bind
     (or_else (jget d ''approved_operation_scope'') (jget d ''approved_action_scope'')) as_array))"

definition token_paths :: "json \<Rightarrow> string list" where
  "token_paths d = unwrap_or [] (map_option values_to_strings (get_array d ''approved_path_scope''))"

definition validate_token ::
  "serde \<Rightarrow> string \<Rightarrow> string \<Rightarrow> string \<Rightarrow> string list \<Rightarrow> (world, bool) io" where
  "validate_token sd job token_id capability_id target_paths =
     (if trim token_id = [] then io_return False
      else io_bind (read_events job) (\<lambda>events.
        let normalized_targets = map fwd_slashes target_paths in
        case find (issues_token token_id) (rev events) of
          None \<Rightarrow> io_return False
        | Some e \<Rightarrow>
            if token_is_consumed events token_id then io_return False
            else
             (let action_ok = list_ex (\<lambda>a. a = capability_id) (token_actions (data e));
                  path_ok = list_all (path_in_scope (token_paths (data e))) normalized_targets
              in io_bind
                   (case get_u64 (data e) ''expires_at_ms'' of
                      None \<Rightarrow> io_return True
                    | Some expires \<Rightarrow> io_bind now_ms (\<lambda>now. io_return (now \<le> unat expires)))
                   (\<lambda>expires_ok. io_return
                      (action_ok \<and> path_ok \<and> expires_ok \<and> preview_hash_ok sd events e)))))"

text \<open>The appends of \<open>mark_token_used\<close>; the token's transaction is closed when it is known.\<close>

definition record_token_use ::
  "string \<Rightarrow> string \<Rightarrow> string \<Rightarrow> string \<Rightarrow> string list \<Rightarrow> string \<Rightarrow> string \<Rightarrow> (world, unit) io" where
  "record_token_use job pid token_id capability_id normalized_targets tx_id preview_id =
     io_bind (append_event job (Some pid) ''approval_token_consumed'' (jobj
       [(''approval_token_id'', JString token_id), (''tx_id'', JString tx_id),
        (''preview_id'', JString preview_id), (''capability_id'', JString capability_id),
        (''target_paths'', jstrings normalized_targets), (''status'', JString ''consumed'')])) (\<lambda>_.
     io_bind (if tx_id \<noteq> [] then io_bind (append_event job (Some pid) ''preview_tx_applied'' (jobj
       [(''tx_id'', JString tx_id), (''preview_id'', JString preview_id),
        (''approval_token_id'', JString token_id), (''capability_id'', JString capability_id),
        (''target_paths'', jstrings normalized_targets), (''status'', JString ''applied'')]))
          (\<lambda>_. io_return ()) else io_return ()) (\<lambda>_.
     io_bind (append_event job (Some pid) ''approval_token_used'' (jobj
       [(''approval_token_id'', JString token_id), (''tx_id'', JString tx_id),
        (''preview_id'', JString preview_id), (''capability_id'', JString capability_id),
        (''target_paths'', jstrings normalized_targets)])) (\<lambda>_.
     if tx_id \<noteq> [] then io_bind (append_event job (Some pid) ''preview_tx_closed'' (jobj
       [(''tx_id'', JString tx_id), (''preview_id'', JString preview_id),
        (''approval_token_id'', JString token_id), (''status'', JString ''applied'')]))
          (\<lambda>_. io_return ()) else io_return ())))"

definition mark_token_used ::
  "string \<Rightarrow> string \<Rightarrow> string \<Rightarrow> string \<Rightarrow> string list \<Rightarrow> (world, unit) io" where
  "mark_token_used job pid token_id capability_id target_paths =
     io_bind (read_events job) (\<lambda>events.
     let token_event = find (issues_token token_id) (rev events);
         tx_id = unwrap_or [] (Option.bind token_event (\<lambda>e. get_str (data e) ''tx_id''));
         preview_id = unwrap_or [] (Option.bind token_event (\<lambda>e. get_str (data e) ''preview_id''))
     in record_token_use job pid token_id capability_id (map fwd_slashes target_paths) tx_id preview_id)"

end
