(* ===== verification/Fault_Free.thy ===== *)
theory Fault_Free
  imports Truth_Log
begin

text \<open>
  Runs in which no database, file or clock operation fails: the computations that then succeed, and
  a small empty world for witnesses.
\<close>

abbreviation log_of :: "world \<Rightarrow> string \<Rightarrow> process_event list" where
  "log_of w job \<equiv> job_events job (w_events w)"

section \<open>Runs without faults\<close>

definition no_faults :: "world \<Rightarrow> bool" where
  "no_faults w = (\<forall>n. \<not> w_fault w n)"

lemma append_no_faults:
  assumes "no_faults w"
  obtains e w' where "append_event job pid ty d w = (Inr e, w')" "log_of w' job = log_of w job @ [e]"
    "event_type e = ty" "data e = d" "no_faults w'" "w_clock w' = w_clock w"
proof -
  obtain e w' where a: "append_event job pid ty d w = (Inr e, w')"
    using assms by (simp add: append_event_eq no_faults_def Let_def)
  note frame = append_event_frame [OF a]
  from assms frame have "no_faults w'" "w_clock w' = w_clock w" by (simp_all add: no_faults_def)
  with truth.add_ok [OF a] show thesis by (intro that [OF a]) auto
qed

lemma read_no_faults:
  "no_faults w \<Longrightarrow> read_events job w = (Inr (log_of w job), w\<lparr>w_ops := Suc (w_ops w)\<rparr>)"
  by (simp add: no_faults_def read_events_def io_bind_def sys_op_def io_get_def io_return_def Let_def)

lemma write_blob_no_faults:
  assumes "no_faults w"
  obtains r w' where "write_blob job name c w = (Inr r, w')" "no_faults w'" "w_clock w' = w_clock w"
    "w_events w' = w_events w" "w_ticks w' = w_ticks w"
  using assms by (simp add: write_blob_def io_bind_def sys_op_def put_world_def io_return_def
      no_faults_def Let_def)

lemma now_no_faults:
  assumes "no_faults w"
  obtains w' where "now_ms w = (Inr (w_clock w (w_ticks w)), w')" "no_faults w'"
    "w_clock w' = w_clock w" "w_events w' = w_events w" "w_ticks w' = Suc (w_ticks w)"
  using assms by (simp add: now_ms_def no_faults_def)

section \<open>Computations that only fail with the system\<close>

definition runs :: "(world, 'a) io \<Rightarrow> bool" where
  "runs m \<longleftrightarrow> (\<forall>w. no_faults w \<longrightarrow> (\<exists>x w'. m w = (Inr x, w') \<and> no_faults w' \<and> w_clock w' = w_clock w))"

lemma runsE:
  assumes "runs m" and "no_faults w"
  obtains x w' where "m w = (Inr x, w')" "no_faults w'" "w_clock w' = w_clock w"
  using assms unfolding runs_def by blast

lemma runs_bind: "runs m \<Longrightarrow> (\<And>x. runs (f x)) \<Longrightarrow> runs (io_bind m f)"
proof -
  assume m: "runs m" and f: "\<And>x. runs (f x)"
  have "\<exists>x w'. io_bind m f w = (Inr x, w') \<and> no_faults w' \<and> w_clock w' = w_clock w" if "no_faults w" for w
  proof -
    from m that obtain x w1 where 1: "m w = (Inr x, w1)" "no_faults w1" "w_clock w1 = w_clock w" by (rule runsE)
    from f 1(2) obtain y w2 where "f x w1 = (Inr y, w2)" "no_faults w2" "w_clock w2 = w_clock w1" by (rule runsE)
    with 1 show ?thesis by (simp add: io_bind_Inr)
  qed
  then show "runs (io_bind m f)" by (simp add: runs_def)
qed

lemma runs_basic: "runs (io_return x)" "runs now_ms" "runs (read_events job)"
  by (auto simp: runs_def io_return_def now_ms_def no_faults_def read_no_faults)

lemma runs_append: "runs (append_event job pid ty d)"
  unfolding runs_def by (metis append_no_faults)

lemma runs_if: "(b \<Longrightarrow> runs m) \<Longrightarrow> (\<not> b \<Longrightarrow> runs n) \<Longrightarrow> runs (if b then m else n)"
  by simp

lemmas runs_intros = runs_bind runs_basic runs_append runs_if

lemma runs_sys_op: "runs sys_op"
  by (auto simp: runs_def sys_op_def no_faults_def Let_def)

lemma runs_write_blob: "runs (write_blob job name c)"
  unfolding runs_def by (metis write_blob_no_faults)

section \<open>A world for witnesses\<close>

text \<open>An empty store whose operations all succeed.\<close>

definition demo_world :: world where
  "demo_world = \<lparr>w_events = [], w_jobs = [], w_processes = [], w_runtimes = [], w_checkpoints = [],
     w_files = (\<lambda>_. None), w_clock = (\<lambda>_. 5), w_ticks = 0, w_fault = (\<lambda>_. False), w_ops = 0\<rparr>"

lemma demo_no_faults: "no_faults demo_world" and demo_clock: "w_clock demo_world n = 5"
  and demo_log: "log_of demo_world job = []"
  by (simp_all add: demo_world_def no_faults_def job_events_def)

lemma demo_clock_bound: "\<forall>n. w_clock demo_world n + 24 * 60 * 60 * 1000 < 2 ^ 64"
  by (simp add: demo_clock)

end
