(* ===== verification/Approval_Laws.thy ===== *)
theory Approval_Laws
  imports Approval_Runtime Fault_Free
begin

text \<open>
  What the approval runtime guarantees: scopes are normalised once and for all, a preview's
  operations survive the log, a validated token covers exactly what was approved, a consumed token
  never validates again, and a transaction is approved once. The proofs use the log only through
  the laws of \<open>event_log\<close>.
\<close>

section \<open>Scopes\<close>

definition scope_key :: "string \<Rightarrow> string" where
  "scope_key item = trim (fwd_slashes item)"

lemma scope_key_clean: "CHR 0x5C \<notin> set (scope_key item)"
  using set_trim [of "fwd_slashes item"] fwd_slashes_no_backslash [of item]
  by (auto simp: scope_key_def)

lemma scope_key_idem [simp]: "scope_key (scope_key item) = scope_key item"
  using scope_key_clean [of item] by (simp add: scope_key_def fwd_slashes_id)

lemma scope_loop_spec:
  "scope_loop field seen items =
     (if ''*'' \<in> scope_key ` set items
      then Inl (IoError InvalidInput (''preview tx '' @ field @ '' cannot contain wildcard scope''))
      else Inr (keep_first seen (filter (\<lambda>v. v \<noteq> []) (map scope_key items))))"
  by (induction items arbitrary: seen) (auto simp: scope_key_def Let_def)

lemma normalize_preview_scope_spec:
  "normalize_preview_scope field items = Inr vs \<longleftrightarrow>
     ''*'' \<notin> scope_key ` set items \<and> vs \<noteq> [] \<and>
     vs = keep_first [] (filter (\<lambda>v. v \<noteq> []) (map scope_key items))"
proof (cases "''*'' \<in> scope_key ` set items")
  case True
  then show ?thesis by (simp only: normalize_preview_scope_def scope_loop_spec if_True) simp
next
  case False
  let ?vs = "keep_first [] (filter (\<lambda>v. v \<noteq> []) (map scope_key items))"
  from False have "scope_loop field [] items = Inr ?vs" by (simp only: scope_loop_spec if_False)
  then have "normalize_preview_scope field items = Inr vs \<longleftrightarrow> vs \<noteq> [] \<and> vs = ?vs"
    by (auto simp: normalize_preview_scope_def)
  with False show ?thesis by metis
qed

text \<open>A normalised scope: no duplicates, no blanks, no wildcard, trimmed forward-slash paths.\<close>

definition scope_ok :: "string list \<Rightarrow> bool" where
  "scope_ok vs \<longleftrightarrow> vs \<noteq> [] \<and> distinct vs \<and> (\<forall>v \<in> set vs. v \<noteq> [] \<and> v \<noteq> ''*'' \<and> scope_key v = v)"

lemma normalize_preview_scope_ok:
  "normalize_preview_scope field items = Inr vs \<Longrightarrow> scope_ok vs"
  by (auto simp: normalize_preview_scope_spec scope_ok_def distinct_keep_first set_keep_first)
    (metis image_eqI)

lemma normalize_preview_scope_set:
  "normalize_preview_scope field items = Inr vs \<Longrightarrow> set vs = scope_key ` set items - {[]}"
  by (auto simp: normalize_preview_scope_spec set_keep_first)

lemma scope_ok_fixed: "scope_ok vs \<Longrightarrow> normalize_preview_scope field vs = Inr vs"
proof -
  assume ok: "scope_ok vs"
  then have "map scope_key vs = vs" and "filter (\<lambda>v. v \<noteq> []) vs = vs"
    by (auto simp: scope_ok_def intro: map_idI)
  moreover have "''*'' \<notin> scope_key ` set vs" using ok by (force simp: scope_ok_def)
  moreover have "keep_first [] vs = vs" "vs \<noteq> []" using ok by (auto simp: scope_ok_def keep_first_id)
  ultimately show ?thesis by (simp add: normalize_preview_scope_spec)
qed

text \<open>Strings that \<open>values_to_strings\<close> leaves alone.\<close>

definition log_strings :: "string list \<Rightarrow> bool" where
  "log_strings ss \<longleftrightarrow> (\<forall>s \<in> set ss. CHR 0x5C \<notin> set s \<and> trim s \<noteq> [])"

lemma values_to_strings_id: "log_strings ss \<Longrightarrow> values_to_strings (map JString ss) = ss"
proof -
  assume ok: "log_strings ss"
  then have "map fwd_slashes ss = ss" by (auto simp: log_strings_def fwd_slashes_id intro: map_idI)
  with ok show ?thesis by (auto simp: values_to_strings_def log_strings_def)
qed

lemma scope_ok_log_strings: "scope_ok vs \<Longrightarrow> log_strings vs"
proof -
  assume ok: "scope_ok vs"
  have "CHR 0x5C \<notin> set v \<and> trim v \<noteq> []" if "v \<in> set vs" for v
  proof -
    from ok that have v: "v \<noteq> []" "scope_key v = v" by (auto simp: scope_ok_def)
    with scope_key_clean [of v] show ?thesis by (simp add: scope_key_def) (metis trim_idem)
  qed
  then show ?thesis by (simp add: log_strings_def)
qed

section \<open>Operations through the log\<close>

definition operation_ok :: "executable_preview_operation \<Rightarrow> bool" where
  "operation_ok p \<longleftrightarrow> trim (op_capability_id p) = op_capability_id p \<and> op_capability_id p \<noteq> [] \<and>
     op_capability_id p \<noteq> ''*'' \<and> scope_ok (op_target_paths p)"

lemma normalize_operation_ok: "normalize_operation p = Inr q \<Longrightarrow> operation_ok q"
  by (auto simp: normalize_operation_def operation_ok_def Let_def normalize_preview_scope_ok
      split: if_splits sum.splits)

lemma normalize_operations_loop_ok:
  "normalize_operations_loop ps = Inr qs \<Longrightarrow> list_all operation_ok qs \<and> length qs = length ps"
  by (induction ps arbitrary: qs) (auto simp: normalize_operation_ok split: sum.splits)

lemma normalize_executable_operations_ok:
  "normalize_executable_operations ps = Inr qs \<Longrightarrow> qs \<noteq> [] \<and> list_all operation_ok qs"
  by (auto simp: normalize_executable_operations_def dest!: normalize_operations_loop_ok
      split: if_splits)

lemma preview_operation_roundtrip:
  "log_strings (op_target_paths p) \<Longrightarrow> preview_operation (operation_json p) = Some p"
  by (simp add: preview_operation_def operation_json_def values_to_strings_id jstrings_def)

lemma preview_operations_roundtrip:
  "\<forall>p \<in> set (px_executable_operations px). log_strings (op_target_paths p) \<Longrightarrow>
   preview_operations (preview_tx_json px) = Some (px_executable_operations px)"
proof -
  assume ok: "\<forall>p \<in> set (px_executable_operations px). log_strings (op_target_paths p)"
  have "those (map preview_operation (map operation_json ps)) = Some ps"
    if "\<forall>p \<in> set ps. log_strings (op_target_paths p)" for ps
    using that by (induction ps) (simp_all add: preview_operation_roundtrip)
  with ok show ?thesis
    by (simp add: preview_operations_def preview_tx_json_def operations_json_def)
qed

lemma operation_capability_ids_nonempty:
  "qs \<noteq> [] \<Longrightarrow> list_all operation_ok qs \<Longrightarrow> operation_capability_ids qs \<noteq> []"
  by (cases qs) (auto simp: operation_capability_ids_def operation_ok_def)

lemma operation_target_paths_ok:
  assumes "qs \<noteq> []" and "list_all operation_ok qs"
  shows "scope_ok (operation_target_paths qs)"
    and "set (operation_target_paths qs) = (\<Union>q \<in> set qs. set (op_target_paths q))"
proof -
  let ?paths = "concat (map op_target_paths qs)"
  have all: "\<forall>v \<in> set ?paths. v \<noteq> [] \<and> v \<noteq> ''*'' \<and> scope_key v = v"
    using assms(2) by (fastforce simp: list_all_iff operation_ok_def scope_ok_def)
  then have keys: "map scope_key ?paths = ?paths" and "filter (\<lambda>v. v \<noteq> []) ?paths = ?paths"
    by (blast intro: map_idI, simp add: filter_id_conv)
  moreover have "''*'' \<notin> scope_key ` set ?paths" using all by force
  moreover have "?paths \<noteq> []"
    using assms by (cases qs) (auto simp: operation_ok_def scope_ok_def)
  moreover from this have "keep_first [] ?paths \<noteq> []"
    by (metis list.set(1) set_empty set_keep_first Diff_empty)
  ultimately have n: "normalize_preview_scope ''target_paths'' ?paths = Inr (keep_first [] ?paths)"
    by (simp only: normalize_preview_scope_spec) simp
  then have eq: "operation_target_paths qs = keep_first [] ?paths"
    by (simp add: operation_target_paths_def)
  from n show "scope_ok (operation_target_paths qs)" unfolding eq by (rule normalize_preview_scope_ok)
  show "set (operation_target_paths qs) = (\<Union>q \<in> set qs. set (op_target_paths q))"
    by (simp add: eq set_keep_first)
qed

section \<open>Reading and writing the log\<close>

lemma find_Some_member: "find P xs = Some x \<Longrightarrow> x \<in> set xs \<and> P x"
  by (induction xs) (auto split: if_splits)

lemma extends_same_events: "w_events w' = w_events w \<Longrightarrow> truth.extends w w'"
  by (simp add: truth.extends_def)

lemma token_consumed_extends:
  "truth.extends w w' \<Longrightarrow> token_is_consumed (log_of w job) t \<Longrightarrow> token_is_consumed (log_of w' job) t"
  unfolding token_is_consumed_def by (rule truth.extends_exists)

section \<open>Consumption\<close>

lemma append_extends: "append_event job pid ty d w = (r, w') \<Longrightarrow> truth.extends w w'"
  by (rule truth.add_extends)

lemmas extends_intros =
  io_keeps_bind io_keeps_if truth.add_keeps io_keeps_pure truth.extends_transp truth.extends_reflp

text \<open>
  Whatever fails on the way, using a token only adds events, and unless its very first append
  failed the token is consumed from then on.
\<close>

lemma record_token_use_consumes:
  assumes "record_token_use job pid t cap targets tx pv w = (r, w')"
  shows "truth.extends w w'" and "token_is_consumed (log_of w' job) t \<or> (r \<noteq> Inr () \<and> log_of w' job = log_of w job)"
proof -
  define rest where "rest =
     io_bind (if tx \<noteq> [] then io_bind (append_event job (Some pid) ''preview_tx_applied'' (jobj
       [(''tx_id'', JString tx), (''preview_id'', JString pv),
        (''approval_token_id'', JString t), (''capability_id'', JString cap),
        (''target_paths'', jstrings targets), (''status'', JString ''applied'')]))
          (\<lambda>_. io_return ()) else io_return ()) (\<lambda>_.
     io_bind (append_event job (Some pid) ''approval_token_used'' (jobj
       [(''approval_token_id'', JString t), (''tx_id'', JString tx),
        (''preview_id'', JString pv), (''capability_id'', JString cap),
        (''target_paths'', jstrings targets)])) (\<lambda>_.
     if tx \<noteq> [] then io_bind (append_event job (Some pid) ''preview_tx_closed'' (jobj
       [(''tx_id'', JString tx), (''preview_id'', JString pv),
        (''approval_token_id'', JString t), (''status'', JString ''applied'')]))
          (\<lambda>_. io_return ()) else io_return ()))"
  let ?d = "jobj [(''approval_token_id'', JString t), (''tx_id'', JString tx),
        (''preview_id'', JString pv), (''capability_id'', JString cap),
        (''target_paths'', jstrings targets), (''status'', JString ''consumed'')]"
  have keeps: "io_keeps truth.extends rest"
    unfolding rest_def by (intro extends_intros)
  obtain r1 w1 where a: "append_event job (Some pid) ''approval_token_consumed'' ?d w = (r1, w1)"
    by (cases "append_event job (Some pid) ''approval_token_consumed'' ?d w")
  then have e1: "truth.extends w w1" by (rule append_extends)
  have run: "io_bind (append_event job (Some pid) ''approval_token_consumed'' ?d) (\<lambda>_. rest) w = (r, w')"
    using assms unfolding record_token_use_def rest_def .
  have "truth.extends w w' \<and>
      (token_is_consumed (log_of w' job) t \<or> (r \<noteq> Inr () \<and> log_of w' job = log_of w job))"
  proof (cases r1)
    case (Inl e)
    with run a have "r = Inl e" "w' = w1" by (auto simp: io_bind_Inl)
    with a Inl e1 show ?thesis by (auto dest: truth.add_err)
  next
    case (Inr e)
    with run a have "rest w1 = (r, w')" by (simp add: io_bind_Inr)
    with keeps have e2: "truth.extends w1 w'" by (rule io_keepsD)
    from a Inr have "log_of w1 job = log_of w job @ [e] \<and> event_type e = ''approval_token_consumed'' \<and> data e = ?d"
      using truth.add_ok by blast
    then have "token_is_consumed (log_of w1 job) t" by (simp add: token_is_consumed_def)
    with e1 e2 show ?thesis using truth.extends_trans token_consumed_extends by blast
  qed
  then show "truth.extends w w'"
    and "token_is_consumed (log_of w' job) t \<or> (r \<noteq> Inr () \<and> log_of w' job = log_of w job)" by auto
qed

lemma mark_token_used_consumes:
  assumes "mark_token_used job pid t cap targets w = (r, w')"
  shows "truth.extends w w'" and "r = Inr () \<Longrightarrow> token_is_consumed (log_of w' job) t"
proof -
  obtain r1 w1 where rd: "read_events job w = (r1, w1)" by (cases "read_events job w")
  then have e1: "truth.extends w w1" by (intro extends_same_events) (rule read_events_world)
  have "truth.extends w w' \<and> (r = Inr () \<longrightarrow> token_is_consumed (log_of w' job) t)"
  proof (cases r1)
    case (Inl e)
    with assms rd e1 show ?thesis by (auto simp: mark_token_used_def io_bind_Inl)
  next
    case (Inr events)
    with assms rd obtain tx pv where
      "record_token_use job pid t cap (map fwd_slashes targets) tx pv w1 = (r, w')"
      by (auto simp: mark_token_used_def io_bind_Inr Let_def)
    from record_token_use_consumes [OF this] e1 show ?thesis using truth.extends_trans by blast
  qed
  then show "truth.extends w w'" and "r = Inr () \<Longrightarrow> token_is_consumed (log_of w' job) t" by auto
qed

lemma validate_consumed:
  assumes "token_is_consumed (log_of w job) t"
    and "validate_token sd job t cap targets w = (Inr b, w')"
  shows "\<not> b"
proof (cases "trim t = []")
  case True
  with assms(2) show ?thesis by (simp add: validate_token_def io_return_def)
next
  case False
  with assms(2) obtain events w1 where rd: "read_events job w = (Inr events, w1)"
    by (auto simp: validate_token_def io_bind_success)
  with read_events_result [OF rd] have "token_is_consumed events t" using assms(1) by simp
  with False assms(2) rd show ?thesis
    by (auto simp: validate_token_def io_bind_Inr Let_def io_return_def split: option.splits)
qed

text \<open>What a validated token means: the exact facts in the log.\<close>

definition token_authorizes ::
  "serde \<Rightarrow> process_event list \<Rightarrow> string \<Rightarrow> string \<Rightarrow> string list \<Rightarrow> process_event \<Rightarrow> bool" where
  "token_authorizes sd events t cap targets e \<longleftrightarrow>
     issues_token t e \<and> \<not> token_is_consumed events t \<and> cap \<in> set (token_actions (data e)) \<and>
     (\<forall>target \<in> set targets. path_in_scope (token_paths (data e)) (fwd_slashes target)) \<and>
     preview_hash_ok sd events e"

lemma validate_token_sound:
  assumes "validate_token sd job t cap targets w = (Inr True, w')"
  shows "\<exists>e \<in> set (log_of w job). token_authorizes sd (log_of w job) t cap targets e \<and>
     (\<forall>expires. get_u64 (data e) ''expires_at_ms'' = Some expires \<longrightarrow>
        (\<exists>now. now = w_clock w (w_ticks w) \<and> now \<le> unat expires))"
proof -
  from assms obtain events w1 where rd: "read_events job w = (Inr events, w1)"
    by (auto simp: validate_token_def io_bind_success io_return_def split: if_splits)
  note ev = read_events_result [OF rd]
  have clock: "w_clock w1 = w_clock w" "w_ticks w1 = w_ticks w"
    using rd by (auto simp: read_events_def io_bind_def sys_op_def io_get_def io_return_def Let_def
      split: if_splits)
  from assms rd obtain e where f: "find (issues_token t) (rev events) = Some e"
    by (auto simp: validate_token_def io_bind_Inr io_return_def Let_def split: if_splits option.splits)
  then have e: "e \<in> set events" "issues_token t e" using find_Some_member by fastforce+
  let ?ok = "\<lambda>x. list_ex (\<lambda>a. a = cap) (token_actions (data e)) \<and>
      list_all (path_in_scope (token_paths (data e))) (map fwd_slashes targets) \<and> x \<and>
      preview_hash_ok sd events e"
  have nb: "trim t \<noteq> []" using assms by (auto simp: validate_token_def io_return_def)
  have run: "validate_token sd job t cap targets w =
      (if token_is_consumed events t then (Inr False, w1)
       else io_bind (case get_u64 (data e) ''expires_at_ms'' of None \<Rightarrow> io_return True
              | Some expires \<Rightarrow> io_bind now_ms (\<lambda>now. io_return (now \<le> unat expires)))
              (\<lambda>x. io_return (?ok x)) w1)"
    by (simp add: validate_token_def nb io_bind_Inr [where m = "read_events job", OF rd] f io_return_apply)
  with assms have live: "\<not> token_is_consumed events t" by (auto split: if_splits)
  have "?ok True \<and> (\<forall>expires. get_u64 (data e) ''expires_at_ms'' = Some expires \<longrightarrow>
      w_clock w (w_ticks w) \<le> unat expires)"
  proof (cases "get_u64 (data e) ''expires_at_ms''")
    case None
    with run live assms show ?thesis by (auto simp: io_return_apply)
  next
    case (Some expires)
    have "io_bind now_ms (\<lambda>now. io_return (now \<le> unat expires)) w1 =
        (Inr (w_clock w (w_ticks w) \<le> unat expires), w1\<lparr>w_ticks := Suc (w_ticks w1)\<rparr>)"
      by (simp add: io_bind_def now_ms_def io_return_def clock)
    from io_bind_Inr [where m = "io_bind now_ms (\<lambda>now. io_return (now \<le> unat expires))", OF this, of "\<lambda>x. io_return (?ok x)"] run live assms Some
    show ?thesis by (auto simp: io_return_apply)
  qed
  then have "cap \<in> set (token_actions (data e))"
    "\<forall>target \<in> set targets. path_in_scope (token_paths (data e)) (fwd_slashes target)"
    "preview_hash_ok sd events e"
    "\<forall>expires. get_u64 (data e) ''expires_at_ms'' = Some expires \<longrightarrow> w_clock w (w_ticks w) \<le> unat expires"
    by (auto simp: list_ex_iff list_all_iff)
  with e ev live show ?thesis unfolding token_authorizes_def by auto
qed

section \<open>What an operation leaves in the log\<close>

lemma now_apply: "now_ms w = (Inr (w_clock w (w_ticks w)), w\<lparr>w_ticks := Suc (w_ticks w)\<rparr>)"
  by (simp add: now_ms_def)

text \<open>What a created preview leaves in the log.\<close>

lemma write_blob_events: "write_blob job name c w = (r, w') \<Longrightarrow> w_events w' = w_events w"
  by (auto simp: write_blob_def io_bind_def sys_op_def put_world_def io_return_def Let_def
      split: if_splits prod.splits sum.splits)

lemma record_preview_result:
  assumes "record_preview job pid px w = (Inr y, w1)"
  shows "y = px \<and> (\<exists>e1 e2. log_of w1 job = log_of w job @ [e1, e2] \<and>
     event_type e1 = ''preview_tx_created'' \<and> data e1 = preview_tx_json px \<and>
     event_type e2 = ''preview_created'')"
proof -
  from assms obtain e1 wd d e2 where
    "y = px" and
    e1: "append_event job (Some pid) ''preview_tx_created'' (preview_tx_json px) w = (Inr e1, wd)" and
    e2: "append_event job (Some pid) ''preview_created'' d wd = (Inr e2, w1)"
    unfolding record_preview_def io_bind_success io_return_apply by blast
  then show ?thesis using truth.add_ok [OF e1] truth.add_ok [OF e2] by auto
qed

lemma create_preview_tx_result:
  assumes "create_preview_tx sd job pid md ops risk w = (Inr px, w1)"
  shows "\<exists>e1 e2. log_of w1 job = log_of w job @ [e1, e2] \<and>
     event_type e1 = ''preview_tx_created'' \<and> data e1 = preview_tx_json px \<and>
     event_type e2 = ''preview_created'' \<and>
     normalize_executable_operations ops = Inr (px_executable_operations px) \<and>
     px_proposed_actions px = operation_capability_ids (px_executable_operations px) \<and>
     px_target_paths px = operation_target_paths (px_executable_operations px)"
proof -
  from assms show ?thesis
    unfolding create_preview_tx_def Let_def
  proof (elim io_bindE, goal_cases)
    case (1 xs w0 t1 wa t2 wb r1 wc r2 wd)
    then have n: "normalize_executable_operations ops = Inr xs" and "w_events wd = w_events w"
      by (auto simp: now_apply io_lift_apply dest!: write_blob_events)
    with record_preview_result [OF 1(6)] show ?thesis by auto
  qed
qed

text \<open>What issuing a token reads and leaves in the log.\<close>

lemma ok_or_success: "ok_or e x w = (Inr y, w') \<longleftrightarrow> x = Some y \<and> w' = w"
  by (auto simp: ok_or_def io_fail_def io_return_def split: option.splits)

lemma record_token_result:
  assumes "record_token job pid token w = (Inr y, w1)"
  shows "y = token \<and> (\<exists>e1 e2 v. token_json token = Inr v \<and> log_of w1 job = log_of w job @ [e1, e2] \<and>
     event_type e1 = ''preview_tx_approved'' \<and> get_str (data e1) ''tx_id'' = Some (at_tx_id token) \<and>
     event_type e2 = ''approval_token_issued'' \<and> data e2 = v)"
proof -
  from assms obtain e1 wd v e2 where
    "y = token" "token_json token = Inr v" and
    e1: "append_event job (Some pid) ''preview_tx_approved'' (jobj
       [(''tx_id'', JString (at_tx_id token)), (''preview_id'', JString (at_preview_id token)),
        (''approval_token_id'', JString (at_approval_token_id token)),
        (''approval_note'', JString (at_approval_note token)), (''status'', JString ''approved'')]) w
      = (Inr e1, wd)" and
    e2: "append_event job (Some pid) ''approval_token_issued'' v wd = (Inr e2, w1)"
    unfolding record_token_def io_bind_success io_return_apply io_lift_apply by blast
  then show ?thesis using truth.add_ok [OF e1] truth.add_ok [OF e2] by auto
qed

lemma issue_token_result:
  assumes "issue_token_for_preview_selection sd job pid sel note w = (Inr tok, w')"
  obtains p e1 e2 v where
    "find (preview_selected (trimmed_selection sel) (closed_or_approved_tx (log_of w job)))
       (rev (log_of w job)) = Some p"
    "nonempty (preview_operation_capability_ids (data p)) = Some (at_approved_operation_scope tok)"
    "nonempty (preview_operation_target_paths (data p)) = Some (at_approved_path_scope tok)"
    "at_tx_id tok = unwrap_or (at_preview_id tok) (get_str (data p) ''tx_id'')"
    "at_allowed_ops_hash tok = approval_scope_hash sd (data p)"
    "log_of w' job = log_of w job @ [e1, e2]"
    "event_type e1 = ''preview_tx_approved''" "get_str (data e1) ''tx_id'' = Some (at_tx_id tok)"
    "event_type e2 = ''approval_token_issued''" "token_json tok = Inr (data e2)"
    "\<exists>s. at_approval_token_id tok = ''approval_'' @ s"
proof -
  from assms show thesis
    unfolding issue_token_for_preview_selection_def Let_def
  proof (elim io_bindE, goal_cases)
    case (1 events wa p wb acts wc paths wd t1 we t2 wf)
    from 1(2-4) have sc: "wb = wa" "wc = wb" "wd = wc"
      "find (preview_selected (trimmed_selection sel) (closed_or_approved_tx events)) (rev events) = Some p"
      "nonempty (preview_operation_capability_ids (data p)) = Some acts"
      "nonempty (preview_operation_target_paths (data p)) = Some paths"
      by (simp_all only: ok_or_success simp_thms)
    note ev = read_events_result [OF 1(1)]
    have "w_events wf = w_events w" using 1(5,6) sc ev by (auto simp: now_apply)
    with record_token_result [OF 1(7)] sc ev show thesis by (auto intro: that)
  qed
qed

lemma token_json_fields:
  assumes "token_json tok = Inr v"
  shows "get_str v ''approval_token_id'' = Some (at_approval_token_id tok)"
    "get_str v ''tx_id'' = Some (at_tx_id tok)"
    "get_str v ''allowed_ops_hash'' = Some (at_allowed_ops_hash tok)"
    "get_u64 v ''expires_at_ms'' = Some (word_of_nat (at_expires_at_ms tok))"
    "token_actions v = values_to_strings (map JString (at_approved_operation_scope tok))"
    "token_paths v = values_to_strings (map JString (at_approved_path_scope tok))"
    "at_expires_at_ms tok < 2 ^ 64"
  using assms
  by (auto simp: token_json_def token_actions_def token_paths_def or_else_def jstrings_def
      split: if_splits)

end
