(* ===== verification/Approval_Claims.thy ===== *)
theory Approval_Claims
  imports Approval_Laws
begin

text \<open>
  The properties of the approval runtime, from a preview over its token to the use of the token,
  and witnesses on a small world in which every operation succeeds.
\<close>

section \<open>From a preview to a valid token\<close>

lemma operations_ok_log_strings:
  "list_all operation_ok ops \<Longrightarrow> \<forall>p \<in> set ops. log_strings (op_target_paths p)"
  by (auto simp: list_all_iff operation_ok_def intro: scope_ok_log_strings)

text \<open>What is approved is exactly what the preview listed.\<close>

lemma preview_scopes:
  assumes n: "normalize_executable_operations ops = Inr (px_executable_operations px)"
  shows "nonempty (preview_operation_capability_ids (preview_tx_json px)) =
      Some (operation_capability_ids (px_executable_operations px))"
    and "nonempty (preview_operation_target_paths (preview_tx_json px)) =
      Some (operation_target_paths (px_executable_operations px))"
proof -
  let ?qs = "px_executable_operations px"
  from normalize_executable_operations_ok [OF n] have qs: "?qs \<noteq> []" "list_all operation_ok ?qs"
    by auto
  have "preview_operations (preview_tx_json px) = Some ?qs"
    by (rule preview_operations_roundtrip) (rule operations_ok_log_strings [OF qs(2)])
  moreover have "operation_capability_ids ?qs \<noteq> []" using qs by (rule operation_capability_ids_nonempty)
  moreover have "operation_target_paths ?qs \<noteq> []"
    using operation_target_paths_ok(1) [OF qs] by (simp add: scope_ok_def)
  ultimately show "nonempty (preview_operation_capability_ids (preview_tx_json px)) =
      Some (operation_capability_ids ?qs)"
    and "nonempty (preview_operation_target_paths (preview_tx_json px)) =
      Some (operation_target_paths ?qs)"
    by (simp_all add: preview_operation_capability_ids_def preview_operation_target_paths_def
        nonempty_def Let_def)
qed

lemma trimmed_selection_None [simp]: "trimmed_selection None = None"
  by (simp add: trimmed_selection_def)

lemma preview_tx_id [simp]: "get_str (preview_tx_json px) ''tx_id'' = Some (px_tx_id px)"
  and preview_preview_id [simp]: "get_str (preview_tx_json px) ''preview_id'' = Some (px_preview_id px)"
  by (simp_all add: preview_tx_json_def)

lemma closed_snoc_preview:
  assumes "event_type e1 = ''preview_tx_created''" and "event_type e2 = ''preview_created''"
  shows "closed_or_approved_tx (es @ [e1, e2]) = closed_or_approved_tx es"
  using assms by (simp add: closed_or_approved_tx_def)

lemma latest_preview_found:
  assumes "event_type e1 = ''preview_tx_created''" "data e1 = preview_tx_json px"
    and "event_type e2 = ''preview_created''"
    and "px_tx_id px \<notin> set (closed_or_approved_tx es)"
  shows "find (preview_selected None (closed_or_approved_tx (es @ [e1, e2]))) (rev (es @ [e1, e2])) = Some e1"
  using assms by (simp add: closed_snoc_preview preview_selected_def)

lemma trim_approval_id: "trim (''approval_'' @ s) \<noteq> []"
  by (rule trim_visible) (simp_all add: ws_seqs_def starts_with_iff)

lemma issued_for_created:
  assumes c: "create_preview_tx sd job pid md ops risk w = (Inr px, w1)"
    and fresh: "px_tx_id px \<notin> set (closed_or_approved_tx (log_of w job))"
    and i: "issue_token_for_latest_preview sd job pid nt w1 = (Inr tok, w2)"
  obtains e1 e2 e3 e4 where "log_of w2 job = log_of w job @ [e1, e2, e3, e4]"
    "event_type e1 = ''preview_tx_created''" "data e1 = preview_tx_json px"
    "event_type e2 = ''preview_created''" "event_type e3 = ''preview_tx_approved''"
    "event_type e4 = ''approval_token_issued''" "token_json tok = Inr (data e4)"
    "at_approved_operation_scope tok = operation_capability_ids (px_executable_operations px)"
    "at_approved_path_scope tok = operation_target_paths (px_executable_operations px)"
    "at_tx_id tok = px_tx_id px" "at_allowed_ops_hash tok = approval_scope_hash sd (preview_tx_json px)"
    "normalize_executable_operations ops = Inr (px_executable_operations px)"
    "trim (at_approval_token_id tok) \<noteq> []"
proof -
  from create_preview_tx_result [OF c] obtain e1 e2 where
    log1: "log_of w1 job = log_of w job @ [e1, e2]" and
    e1: "event_type e1 = ''preview_tx_created''" "data e1 = preview_tx_json px" and
    e2: "event_type e2 = ''preview_created''" and
    n: "normalize_executable_operations ops = Inr (px_executable_operations px)" by blast
  from issue_token_result [OF i [unfolded issue_token_for_latest_preview_def]] obtain p e3 e4 where
    p: "find (preview_selected (trimmed_selection None) (closed_or_approved_tx (log_of w1 job)))
       (rev (log_of w1 job)) = Some p"
    "nonempty (preview_operation_capability_ids (data p)) = Some (at_approved_operation_scope tok)"
    "nonempty (preview_operation_target_paths (data p)) = Some (at_approved_path_scope tok)"
    "at_tx_id tok = unwrap_or (at_preview_id tok) (get_str (data p) ''tx_id'')"
    "at_allowed_ops_hash tok = approval_scope_hash sd (data p)" and
    log2: "log_of w2 job = log_of w1 job @ [e3, e4]" and
    e3: "event_type e3 = ''preview_tx_approved''" and
    e4: "event_type e4 = ''approval_token_issued''" "token_json tok = Inr (data e4)" and
    id: "\<exists>s. at_approval_token_id tok = ''approval_'' @ s" by metis
  then have nb: "trim (at_approval_token_id tok) \<noteq> []" using trim_approval_id by metis
  from p(1) latest_preview_found [OF e1 e2 fresh] have "p = e1" unfolding log1 by simp
  with p(2-5) e1(2) preview_scopes [OF n] show thesis
    by (intro that [OF _ e1 e2 e3 e4]) (simp_all add: log1 log2 n nb)
qed

lemma values_to_strings_member:
  "s \<in> set ss \<Longrightarrow> CHR 0x5C \<notin> set s \<Longrightarrow> trim s \<noteq> [] \<Longrightarrow> s \<in> set (values_to_strings (map JString ss))"
  by (force simp: values_to_strings_def fwd_slashes_id)

lemma operation_capability_ids_member:
  "s \<in> set (operation_capability_ids qs) \<Longrightarrow> list_all operation_ok qs \<Longrightarrow> trim s \<noteq> []"
  by (auto simp: operation_capability_ids_def set_keep_first list_all_iff operation_ok_def)

lemma validate_latest_token:
  assumes nf: "no_faults w" and nb: "trim t \<noteq> []"
    and log: "log_of w job = es @ [e]" and e: "issues_token t e"
    and live: "\<not> token_is_consumed (log_of w job) t"
    and ex: "get_u64 (data e) ''expires_at_ms'' = Some expires"
    and now: "w_clock w (w_ticks w) \<le> unat expires"
    and cap: "cap \<in> set (token_actions (data e))"
    and targets: "\<forall>target \<in> set targets. path_in_scope (token_paths (data e)) (fwd_slashes target)"
    and hash: "preview_hash_ok sd (log_of w job) e"
  shows "fst (validate_token sd job t cap targets w) = Inr True"
proof -
  let ?w1 = "w\<lparr>w_ops := Suc (w_ops w)\<rparr>"
  have f: "find (issues_token t) (rev (log_of w job)) = Some e" using e by (simp add: log)
  have clk: "io_bind now_ms (\<lambda>now. io_return (now \<le> unat expires)) ?w1 =
      (Inr True, ?w1\<lparr>w_ticks := Suc (w_ticks ?w1)\<rparr>)"
    using now by (simp add: io_bind_def now_ms_def io_return_def)
  show ?thesis
    using nb live cap targets hash
    by (simp add: validate_token_def io_bind_Inr [where m = "read_events job", OF read_no_faults [OF nf]]
        f ex io_bind_Inr [where m = "io_bind now_ms (\<lambda>now. io_return (now \<le> unat expires))", OF clk]
        clk io_return_apply list_ex_iff list_all_iff)
qed

lemma operations_path_scope:
  assumes "normalize_executable_operations ops = Inr qs"
  shows "values_to_strings (map JString (operation_target_paths qs)) = operation_target_paths qs"
proof -
  from normalize_executable_operations_ok [OF assms] have "scope_ok (operation_target_paths qs)"
    by (intro operation_target_paths_ok) auto
  then show ?thesis by (intro values_to_strings_id scope_ok_log_strings)
qed

lemma created_token_validates:
  assumes c: "create_preview_tx sd job pid md ops risk w = (Inr px, w1)"
    and fresh: "px_tx_id px \<notin> set (closed_or_approved_tx (log_of w job))"
    and i: "issue_token_for_latest_preview sd job pid nt w1 = (Inr tok, w2)"
    and nf: "no_faults w2"
    and unused: "\<not> token_is_consumed (log_of w2 job) (at_approval_token_id tok)"
    and now: "w_clock w2 (w_ticks w2) \<le> at_expires_at_ms tok"
    and cap: "cap \<in> set (operation_capability_ids (px_executable_operations px))" "CHR 0x5C \<notin> set cap"
    and targets: "\<forall>target \<in> set targets.
       path_in_scope (operation_target_paths (px_executable_operations px)) (fwd_slashes target)"
  shows "fst (validate_token sd job (at_approval_token_id tok) cap targets w2) = Inr True"
proof -
  from issued_for_created [OF c fresh i] obtain e1 e2 e3 e4 where
    log: "log_of w2 job = log_of w job @ [e1, e2, e3, e4]" and
    e1: "event_type e1 = ''preview_tx_created''" "data e1 = preview_tx_json px" and
    e4: "event_type e4 = ''approval_token_issued''" and v: "token_json tok = Inr (data e4)" and
    tok: "at_approved_operation_scope tok = operation_capability_ids (px_executable_operations px)"
      "at_approved_path_scope tok = operation_target_paths (px_executable_operations px)"
      "at_tx_id tok = px_tx_id px" "at_allowed_ops_hash tok = approval_scope_hash sd (preview_tx_json px)" and
    n: "normalize_executable_operations ops = Inr (px_executable_operations px)" and
    nb: "trim (at_approval_token_id tok) \<noteq> []" .
  note f = token_json_fields [OF v]
  note qs = normalize_executable_operations_ok [OF n]
  show ?thesis
  proof (rule validate_latest_token [OF nf nb _ _ unused f(4)])
    show "log_of w2 job = (log_of w job @ [e1, e2, e3]) @ [e4]" by (simp add: log)
    show "issues_token (at_approval_token_id tok) e4" by (simp add: issues_token_def e4 f)
    show "w_clock w2 (w_ticks w2) \<le> unat (word_of_nat (at_expires_at_ms tok) :: 64 word)"
      using now f(7) by (simp add: unat_of_nat)
    show "cap \<in> set (token_actions (data e4))"
      using cap qs by (simp add: f tok values_to_strings_member operation_capability_ids_member)
    show "\<forall>target \<in> set targets. path_in_scope (token_paths (data e4)) (fwd_slashes target)"
      using targets by (simp add: f tok operations_path_scope [OF n])
    show "preview_hash_ok sd (log_of w2 job) e4"
      by (simp add: preview_hash_ok_def log e1 f tok)
  qed
qed

text \<open>
  C1: a token issued for a preview that is still open authorizes that preview. For every
  capability of the preview's normalised operations and any targets at or below its target paths,
  validation answers yes in the state the token was issued in, as long as the token is unused, not
  expired and the log can be read. (A capability id with a backslash would be rewritten by the
  reader of the log; the shipped ids have none.)
\<close>

theorem approved_preview_validates:
  assumes c: "create_preview_tx sd job pid md ops risk w = (Inr px, w1)"
    and fresh: "px_tx_id px \<notin> set (closed_or_approved_tx (job_events job (w_events w)))"
    and i: "issue_token_for_latest_preview sd job pid nt w1 = (Inr tok, w2)"
    and nf: "no_faults w2"
    and unused: "\<not> token_is_consumed (job_events job (w_events w2)) (at_approval_token_id tok)"
    and now: "w_clock w2 (w_ticks w2) \<le> at_expires_at_ms tok"
    and cap: "cap \<in> set (operation_capability_ids (px_executable_operations px))" "CHR 0x5C \<notin> set cap"
    and targets: "\<forall>target \<in> set targets.
       path_in_scope (operation_target_paths (px_executable_operations px)) (fwd_slashes target)"
  shows "fst (validate_token sd job (at_approval_token_id tok) cap targets w2) = Inr True"
  using assms by (rule created_token_validates)

text \<open>
  C2: using a token consumes it for good. After \<open>mark_token_used\<close> has succeeded, no later state of
  the log, whatever events are appended to it, validates that token again, for no capability and
  no targets.
\<close>

theorem used_token_never_validates:
  assumes "mark_token_used job pid t cap targets w = (Inr (), w1)"
    and "truth.extends w1 w2"
    and "validate_token sd job t cap' targets' w2 = (Inr b, w3)"
  shows "\<not> b"
proof -
  from mark_token_used_consumes(2) [OF assms(1)] have "token_is_consumed (log_of w1 job) t" by simp
  with assms(2) have "token_is_consumed (log_of w2 job) t" by (rule token_consumed_extends)
  then show ?thesis using assms(3) by (rule validate_consumed)
qed

text \<open>
  C3: a validation that answers yes has found, in the job's own log, the event that issued this
  very token; the capability is one the token lists, every target is at or below one of its paths,
  the token has not been consumed, its hash is that of a logged preview of the same transaction,
  and it had not expired at the clock reading of the check.
\<close>

theorem validated_token_is_authorized:
  assumes "validate_token sd job t cap targets w = (Inr True, w')"
  shows "\<exists>e \<in> set (job_events job (w_events w)).
     token_authorizes sd (job_events job (w_events w)) t cap targets e \<and>
     (case get_u64 (data e) ''expires_at_ms'' of
        None \<Rightarrow> True | Some expires \<Rightarrow> w_clock w (w_ticks w) \<le> unat expires)"
  using validate_token_sound [OF assms] by (auto split: option.splits)

section \<open>A transaction is approved once\<close>

lemma closed_or_approved_member:
  "t \<in> set (closed_or_approved_tx es) \<longleftrightarrow> (\<exists>e \<in> set es. get_str (data e) ''tx_id'' = Some t \<and>
     event_type e \<in> {''preview_tx_closed'', ''preview_tx_approved'', ''approval_token_issued''})"
  unfolding closed_or_approved_tx_def set_bset_collect map_filter_def by (force simp: image_iff)

text \<open>
  No preview transaction is approved twice. When a token has been issued and later, after any
  further events, another one is issued in the same job for a preview that carries its transaction
  id, the two tokens are for different transactions, whichever selection the approver made.
\<close>

theorem transaction_approved_once:
  assumes "issue_token_for_preview_selection sd job pid sel note w = (Inr tok, w1)"
    and "truth.extends w1 w2"
    and "issue_token_for_preview_selection sd job pid' sel' note' w2 = (Inr tok', w3)"
    and "\<forall>e \<in> set (job_events job (w_events w2)). event_type e = ''preview_tx_created'' \<longrightarrow>
       get_str (data e) ''tx_id'' \<noteq> None"
  shows "at_tx_id tok' \<noteq> at_tx_id tok"
proof -
  from issue_token_result [OF assms(1)] obtain e1 where
    e1: "e1 \<in> set (log_of w1 job)" "event_type e1 = ''preview_tx_approved''"
      "get_str (data e1) ''tx_id'' = Some (at_tx_id tok)"
    by (metis in_set_conv_decomp append_Cons)
  from e1(1) have "e1 \<in> set (log_of w2 job)" by (rule truth.extends_recorded [OF assms(2)])
  with e1 have closed: "at_tx_id tok \<in> set (closed_or_approved_tx (log_of w2 job))"
    by (auto simp: closed_or_approved_member)
  from issue_token_result [OF assms(3)] obtain p where
    p: "find (preview_selected (trimmed_selection sel') (closed_or_approved_tx (log_of w2 job)))
       (rev (log_of w2 job)) = Some p"
    "at_tx_id tok' = unwrap_or (at_preview_id tok') (get_str (data p) ''tx_id'')" by metis
  then have p': "p \<in> set (log_of w2 job)"
    "preview_selected (trimmed_selection sel') (closed_or_approved_tx (log_of w2 job)) p"
    using find_Some_member by fastforce+
  then obtain tx where "get_str (data p) ''tx_id'' = Some tx" "tx \<notin> set (closed_or_approved_tx (log_of w2 job))"
    using assms(4) by (auto simp: preview_selected_def Let_def)
  with p(2) closed show ?thesis by auto
qed

section \<open>Scopes\<close>

text \<open>
  A scope is normalised once and for all. What \<open>normalize_preview_scope\<close> accepts is never
  empty, has no duplicate, blank or wildcard entry, holds exactly the trimmed forward-slash forms
  of the non-blank items, and is a fixed point of the function under every field name; it rejects
  exactly the lists with a wildcard or with nothing but blanks.
\<close>

theorem preview_scope_normal_form:
  "case normalize_preview_scope field items of
     Inl e \<Rightarrow> err_kind e = InvalidInput \<and>
       ((\<exists>item \<in> set items. scope_key item = ''*'') \<or> list_all (\<lambda>item. scope_key item = []) items)
   | Inr vs \<Rightarrow> scope_ok vs \<and> set vs = scope_key ` set items - {[]} \<and>
       normalize_preview_scope other_field vs = Inr vs"
proof (cases "normalize_preview_scope field items")
  case (Inr vs)
  then show ?thesis
    using normalize_preview_scope_ok normalize_preview_scope_set scope_ok_fixed by auto
next
  case (Inl e)
  then have "err_kind e = InvalidInput"
    by (auto simp: normalize_preview_scope_def scope_loop_spec split: if_splits sum.splits)
  moreover have "list_all (\<lambda>item. scope_key item = []) items" if w: "''*'' \<notin> scope_key ` set items"
  proof -
    let ?xs = "filter (\<lambda>v. v \<noteq> []) (map scope_key items)"
    from Inl w have "keep_first [] ?xs = []"
      using normalize_preview_scope_spec [of field items "keep_first [] ?xs"] by (metis Inl_Inr_False)
    then have "set ?xs = {}" using set_keep_first [of "[]" ?xs] by simp
    then show ?thesis by (auto simp: filter_empty_conv list_all_iff)
  qed
  ultimately show ?thesis unfolding Inl by (simp add: image_iff) metis
qed

section \<open>Runs without faults succeed\<close>

lemma record_preview_no_faults:
  assumes "no_faults w"
  obtains w' where "record_preview job pid px w = (Inr px, w')" "no_faults w'" "w_clock w' = w_clock w"
proof -
  from append_no_faults [OF assms] obtain e1 w1 where
    a1: "append_event job (Some pid) ''preview_tx_created'' (preview_tx_json px) w = (Inr e1, w1)"
    and w1: "no_faults w1" "w_clock w1 = w_clock w" by metis
  let ?d = "jobj
       [(''preview_id'', JString (px_preview_id px)), (''preview_ref'', JString (px_preview_ref px)),
        (''human_preview_markdown'', JString (px_human_preview_markdown px)),
        (''executable_operations'', operations_json (px_executable_operations px)),
        (''proposed_actions'', jstrings (px_proposed_actions px)),
        (''target_paths'', jstrings (px_target_paths px)), (''risk_level'', JString (px_risk_level px)),
        (''rollback_plan_ref'', jopt (px_rollback_plan_ref px)), (''approval_required'', Bool True)]"
  from append_no_faults [OF w1(1)] obtain e2 w2 where
    a2: "append_event job (Some pid) ''preview_created'' ?d w1 = (Inr e2, w2)"
    and w2: "no_faults w2" "w_clock w2 = w_clock w1" by metis
  have "record_preview job pid px w = (Inr px, w2)"
    unfolding record_preview_def io_bind_success
    by (intro exI conjI, rule a1, rule a2, rule io_return_apply)
  with w1 w2 show thesis by (simp add: that)
qed

lemma create_preview_tx_no_faults:
  assumes nf: "no_faults w" and n: "normalize_executable_operations ops = Inr qs"
  obtains px w' where "create_preview_tx sd job pid md ops risk w = (Inr px, w')" "no_faults w'"
    "w_clock w' = w_clock w" "px_tx_id px = ''preview_tx_'' @ dec (w_clock w (Suc (w_ticks w)))"
    "px_executable_operations px = qs"
proof -
  from now_no_faults [OF nf] obtain w1 where
    n1: "now_ms w = (Inr (w_clock w (w_ticks w)), w1)" "no_faults w1" "w_clock w1 = w_clock w"
      "w_ticks w1 = Suc (w_ticks w)" by metis
  from now_no_faults [OF n1(2)] obtain w2 where
    n2: "now_ms w1 = (Inr (w_clock w (Suc (w_ticks w))), w2)" "no_faults w2" "w_clock w2 = w_clock w"
    by (metis n1(3,4))
  define rest where "rest p_id t_id a b = record_preview job pid
      \<lparr>px_tx_id = t_id, px_preview_id = p_id, px_preview_ref = a, px_human_preview_markdown = md,
       px_executable_operations = qs, px_proposed_actions = operation_capability_ids qs,
       px_target_paths = operation_target_paths qs, px_risk_level = risk,
       px_rollback_plan_ref = Some b\<rparr>" for p_id t_id a b
  have run: "\<exists>px w'. io_bind (write_blob job n c) (\<lambda>a. io_bind (write_blob job n' c') (rest p_id t_id a)) w2
       = (Inr px, w') \<and> no_faults w' \<and> w_clock w' = w_clock w \<and> px_tx_id px = t_id \<and>
         px_executable_operations px = qs" for n c n' c' p_id t_id
  proof -
    from write_blob_no_faults [OF n2(2)] obtain a w3 where
      b1: "write_blob job n c w2 = (Inr a, w3)" "no_faults w3" "w_clock w3 = w_clock w2" by metis
    from write_blob_no_faults [OF b1(2)] obtain b w4 where
      b2: "write_blob job n' c' w3 = (Inr b, w4)" "no_faults w4" "w_clock w4 = w_clock w3" by metis
    from record_preview_no_faults [OF b2(2)] obtain w5 where
      "rest p_id t_id a b w4 = (Inr \<lparr>px_tx_id = t_id, px_preview_id = p_id, px_preview_ref = a,
         px_human_preview_markdown = md, px_executable_operations = qs,
         px_proposed_actions = operation_capability_ids qs, px_target_paths = operation_target_paths qs,
         px_risk_level = risk, px_rollback_plan_ref = Some b\<rparr>, w5)"
      "no_faults w5" "w_clock w5 = w_clock w4"
      unfolding rest_def by metis
    then show ?thesis
      using b1 b2 n2 by (simp add: io_bind_Inr [where m = "write_blob job n c", OF b1(1)]
          io_bind_Inr [where m = "write_blob job n' c'", OF b2(1)])
  qed
  show thesis
    using run that
    unfolding create_preview_tx_def n Let_def
    by (simp add: io_bind_Inr [where m = "io_lift (Inr qs)", OF io_lift_apply]
        io_bind_Inr [where m = now_ms, OF n1(1)] io_bind_Inr [where m = now_ms, OF n2(1)]
        rest_def [abs_def]) blast
qed

lemma record_token_no_faults:
  assumes nf: "no_faults w" and v: "token_json token = Inr v"
  obtains w' where "record_token job pid token w = (Inr token, w')" "no_faults w'" "w_clock w' = w_clock w"
proof -
  let ?d = "jobj
       [(''tx_id'', JString (at_tx_id token)), (''preview_id'', JString (at_preview_id token)),
        (''approval_token_id'', JString (at_approval_token_id token)),
        (''approval_note'', JString (at_approval_note token)), (''status'', JString ''approved'')]"
  from append_no_faults [OF nf] obtain e1 w1 where
    a1: "append_event job (Some pid) ''preview_tx_approved'' ?d w = (Inr e1, w1)"
    and w1: "no_faults w1" "w_clock w1 = w_clock w" by metis
  from append_no_faults [OF w1(1)] obtain e2 w2 where
    a2: "append_event job (Some pid) ''approval_token_issued'' v w1 = (Inr e2, w2)"
    and w2: "no_faults w2" "w_clock w2 = w_clock w1" by metis
  have lv: "io_lift (token_json token) w1 = (Inr v, w1)" by (simp add: v io_lift_apply)
  have "record_token job pid token w = (Inr token, w2)"
    unfolding record_token_def io_bind_success
    by (intro exI conjI, rule a1, rule lv, rule a2, rule io_return_apply)
  with w1 w2 show thesis by (simp add: that)
qed

lemma ok_or_Some: "ok_or e (Some x) w = (Inr x, w)"
  by (simp add: ok_or_def io_return_def)

lemma issue_token_no_faults:
  assumes nf: "no_faults w"
    and p: "find (preview_selected (trimmed_selection sel) (closed_or_approved_tx (log_of w job)))
       (rev (log_of w job)) = Some p"
    and acts: "nonempty (preview_operation_capability_ids (data p)) = Some acts"
    and paths: "nonempty (preview_operation_target_paths (data p)) = Some paths"
    and clock: "w_clock w (Suc (w_ticks w)) + 24 * 60 * 60 * 1000 < 2 ^ 64"
  obtains tok w' where "issue_token_for_preview_selection sd job pid sel note w = (Inr tok, w')"
    "no_faults w'" "w_clock w' = w_clock w"
    "at_expires_at_ms tok = w_clock w (Suc (w_ticks w)) + 24 * 60 * 60 * 1000"
proof -
  let ?wr = "w\<lparr>w_ops := Suc (w_ops w)\<rparr>"
  have nr: "no_faults ?wr" using nf by (simp add: no_faults_def)
  from now_no_faults [OF nr] obtain w1 where
    n1: "now_ms ?wr = (Inr (w_clock w (w_ticks w)), w1)" "no_faults w1" "w_clock w1 = w_clock w"
      "w_ticks w1 = Suc (w_ticks w)" by auto
  from now_no_faults [OF n1(2)] obtain w2 where
    n2: "now_ms w1 = (Inr (w_clock w (Suc (w_ticks w))), w2)" "no_faults w2" "w_clock w2 = w_clock w"
    by (metis n1(3,4))
  define pv where "pv = unwrap_or ''preview_unknown'' (get_str (data p) ''preview_id'')"
  define tok where "tok =
      \<lparr>at_approval_token_id = ''approval_'' @ safe_blob_name pv @ ''_'' @ dec (w_clock w (w_ticks w)),
       at_tx_id = unwrap_or pv (get_str (data p) ''tx_id''), at_preview_id = pv,
       at_approved_operation_scope = acts, at_approved_action_scope = acts,
       at_approved_path_scope = paths, at_allowed_ops_hash = approval_scope_hash sd (data p),
       at_expires_at_ms = token_expiry (w_clock w (Suc (w_ticks w))), at_approval_note = note\<rparr>"
  have ex: "at_expires_at_ms tok = w_clock w (Suc (w_ticks w)) + 24 * 60 * 60 * 1000"
    using clock by (simp add: tok_def token_expiry_def)
  then have "\<exists>v. token_json tok = Inr v" using clock by (simp add: token_json_def)
  then obtain w3 where r: "record_token job pid tok w2 = (Inr tok, w3)" "no_faults w3" "w_clock w3 = w_clock w2"
    using record_token_no_faults [OF n2(2)] by metis
  have "issue_token_for_preview_selection sd job pid sel note w = (Inr tok, w3)"
    unfolding issue_token_for_preview_selection_def Let_def
      io_bind_Inr [where m = "read_events job", OF read_no_faults [OF nf]] p acts
      io_bind_Inr [where m = "ok_or e (Some x)" for e x, OF ok_or_Some] paths
      io_bind_Inr [where m = now_ms, OF n1(1)] io_bind_Inr [where m = now_ms, OF n2(1)]
    using r(1) unfolding tok_def pv_def .
  with r n2 ex show thesis by (intro that [of tok w3]) simp_all
qed

lemma preview_then_approval:
  assumes nf: "no_faults w"
    and fresh: "''preview_tx_'' @ dec (w_clock w (Suc (w_ticks w)))
       \<notin> set (closed_or_approved_tx (log_of w job))"
    and clock: "\<forall>n. w_clock w n + 24 * 60 * 60 * 1000 < 2 ^ 64"
    and Inr: "normalize_executable_operations ops = Inr qs"
  obtains px w1 tok w2 n where "create_preview_tx sd job pid md ops risk w = (Inr px, w1)"
    "issue_token_for_latest_preview sd job pid nt w1 = (Inr tok, w2)" "no_faults w2"
    "px_tx_id px \<notin> set (closed_or_approved_tx (log_of w job))"
    "px_executable_operations px = qs" "w_clock w2 = w_clock w"
    "at_expires_at_ms tok = w_clock w n + 24 * 60 * 60 * 1000"
proof -
  from create_preview_tx_no_faults [OF nf Inr] obtain px w1 where
    c: "create_preview_tx sd job pid md ops risk w = (Inr px, w1)" and
    w1: "no_faults w1" "w_clock w1 = w_clock w"
      "px_tx_id px = ''preview_tx_'' @ dec (w_clock w (Suc (w_ticks w)))"
      "px_executable_operations px = qs" by metis
  from create_preview_tx_result [OF c] obtain e1 e2 where
    log: "log_of w1 job = log_of w job @ [e1, e2]" and
    e: "event_type e1 = ''preview_tx_created''" "data e1 = preview_tx_json px"
      "event_type e2 = ''preview_created''" and
    n: "normalize_executable_operations ops = Inr (px_executable_operations px)" by blast
  have fresh': "px_tx_id px \<notin> set (closed_or_approved_tx (log_of w job))" using fresh w1 by simp
  have f: "find (preview_selected (trimmed_selection None) (closed_or_approved_tx (log_of w1 job)))
      (rev (log_of w1 job)) = Some e1"
    using latest_preview_found [OF e fresh'] by (simp only: log trimmed_selection_None)
  note sc = preview_scopes [OF n, folded e(2)]
  from clock w1 have cl: "w_clock w1 (Suc (w_ticks w1)) + 24 * 60 * 60 * 1000 < 2 ^ 64" by simp
  from issue_token_no_faults [OF w1(1) f sc cl] obtain tok w2 where
    i: "issue_token_for_latest_preview sd job pid nt w1 = (Inr tok, w2)" and
    w2: "no_faults w2" "w_clock w2 = w_clock w1" "at_expires_at_ms tok = w_clock w1 (Suc (w_ticks w1)) + 24 * 60 * 60 * 1000"
    unfolding issue_token_for_latest_preview_def by metis
  from that [OF c i w2(1) fresh' w1(4)] w2 w1 show thesis by auto
qed

text \<open>
  C33: creating a preview rejects bad operations before it touches anything, and otherwise, when no
  system operation fails, it is created and can at once be approved: the latest-preview approval
  returns a token for this very transaction, whose operation and path scopes are those of the
  normalised operations, which expires 24 hours after the clock reading it was made at.
\<close>

theorem preview_then_approval_succeeds:
  assumes nf: "no_faults w"
    and fresh: "''preview_tx_'' @ dec (w_clock w (Suc (w_ticks w)))
       \<notin> set (closed_or_approved_tx (job_events job (w_events w)))"
    and clock: "\<forall>n. w_clock w n + 24 * 60 * 60 * 1000 < 2 ^ 64"
  shows "case normalize_executable_operations ops of
      Inl e \<Rightarrow> create_preview_tx sd job pid md ops risk w = (Inl e, w)
    | Inr qs \<Rightarrow> \<exists>px w1 tok w2 n. create_preview_tx sd job pid md ops risk w = (Inr px, w1) \<and>
        issue_token_for_latest_preview sd job pid nt w1 = (Inr tok, w2) \<and>
        at_tx_id tok = px_tx_id px \<and> px_executable_operations px = qs \<and>
        at_approved_operation_scope tok = operation_capability_ids qs \<and>
        at_approved_path_scope tok = operation_target_paths qs \<and>
        at_expires_at_ms tok = w_clock w n + 24 * 60 * 60 * 1000 \<and> no_faults w2"
proof (cases "normalize_executable_operations ops")
  case (Inl e)
  then show ?thesis by (simp add: create_preview_tx_def io_bind_def io_lift_def)
next
  case (Inr qs)
  from preview_then_approval [OF nf fresh clock Inr] obtain px w1 tok w2 n where
    c: "create_preview_tx sd job pid md ops risk w = (Inr px, w1)" and
    i: "issue_token_for_latest_preview sd job pid nt w1 = (Inr tok, w2)" and
    fresh': "px_tx_id px \<notin> set (closed_or_approved_tx (log_of w job))" and
    r: "px_executable_operations px = qs" "no_faults w2"
      "at_expires_at_ms tok = w_clock w n + 24 * 60 * 60 * 1000" by metis
  from issued_for_created [OF c fresh' i] have
    "at_tx_id tok = px_tx_id px" "at_approved_operation_scope tok = operation_capability_ids qs"
    "at_approved_path_scope tok = operation_target_paths qs" by (metis r(1))+
  with c i r Inr show ?thesis by auto
qed

section \<open>Using and checking a token only fails with the system\<close>

lemma runs_mark_token_used: "runs (mark_token_used job pid t cap targets)"
  unfolding mark_token_used_def record_token_use_def Let_def by (intro runs_intros)

lemma runs_validate_token: "runs (validate_token sd job t cap targets)"
proof -
  have "runs (case get_u64 (data e) ''expires_at_ms'' of None \<Rightarrow> io_return True
      | Some expires \<Rightarrow> io_bind now_ms (\<lambda>now. io_return (now \<le> unat expires)))" for e
    by (cases "get_u64 (data e) ''expires_at_ms''") (auto intro: runs_intros)
  then have check: "runs (case x of None \<Rightarrow> io_return False | Some e \<Rightarrow>
      if b then io_return False else io_bind (case get_u64 (data e) ''expires_at_ms'' of None \<Rightarrow> io_return True
      | Some expires \<Rightarrow> io_bind now_ms (\<lambda>now. io_return (now \<le> unat expires))) (\<lambda>ok. io_return (f e ok)))"
    for x b and f :: "process_event \<Rightarrow> bool \<Rightarrow> bool"
    by (cases x) (auto intro!: runs_intros)
  then show ?thesis unfolding validate_token_def Let_def
    by (intro runs_if runs_bind [OF runs_basic(3)] runs_basic(1) check)
qed

section \<open>Witnesses\<close>

text \<open>A preview of one operation on \<open>docs\<close>.\<close>

definition demo_serde :: serde where
  "demo_serde = \<lparr>to_string = (\<lambda>v. ''{}''), to_pretty = (\<lambda>v. ''{}'')\<rparr>"

definition demo_operation :: executable_preview_operation where
  "demo_operation = \<lparr>op_capability_id = ''workspace.delete'', op_arguments = Null,
     op_target_paths = [''docs''], op_human_description = ''delete'', op_rollback_policy = None\<rparr>"

lemma demo_normalized: "normalize_executable_operations [demo_operation] = Inr [demo_operation]"
  unfolding demo_operation_def by code_simp

lemma demo_capability: "''workspace.delete'' \<in> set (operation_capability_ids [demo_operation])"
  unfolding demo_operation_def by code_simp

lemma demo_target: "path_in_scope (operation_target_paths [demo_operation]) (fwd_slashes ''docs/a'')"
  unfolding demo_operation_def by code_simp

lemma demo_fresh: "t \<notin> set (closed_or_approved_tx (log_of demo_world job))"
  by (simp add: demo_log closed_or_approved_member)

lemma demo_run:
  obtains px w1 tok w2 where
    "create_preview_tx demo_serde ''j'' ''p'' ''md'' [demo_operation] ''high'' demo_world = (Inr px, w1)"
    "issue_token_for_latest_preview demo_serde ''j'' ''p'' ''ok'' w1 = (Inr tok, w2)"
    "px_tx_id px \<notin> set (closed_or_approved_tx (log_of demo_world ''j''))"
    "px_executable_operations px = [demo_operation]" "no_faults w2"
    "\<not> token_is_consumed (log_of w2 ''j'') (at_approval_token_id tok)"
    "w_clock w2 (w_ticks w2) \<le> at_expires_at_ms tok"
proof -
  from preview_then_approval [OF demo_no_faults demo_fresh demo_clock_bound demo_normalized, where job = "''j''"
      and sd = demo_serde and pid = "''p''" and md = "''md''" and risk = "''high''" and nt = "''ok''"]
  obtain px w1 tok w2 n where
    c: "create_preview_tx demo_serde ''j'' ''p'' ''md'' [demo_operation] ''high'' demo_world = (Inr px, w1)" and
    i: "issue_token_for_latest_preview demo_serde ''j'' ''p'' ''ok'' w1 = (Inr tok, w2)" and
    r: "px_tx_id px \<notin> set (closed_or_approved_tx (log_of demo_world ''j''))"
      "px_executable_operations px = [demo_operation]" "no_faults w2" "w_clock w2 = w_clock demo_world"
      "at_expires_at_ms tok = w_clock demo_world n + 24 * 60 * 60 * 1000"
    by metis
  from issued_for_created [OF c r(1) i] obtain e1 e2 e3 e4 where
    "log_of w2 ''j'' = [e1, e2, e3, e4]" "event_type e1 = ''preview_tx_created''"
    "event_type e2 = ''preview_created''" "event_type e3 = ''preview_tx_approved''"
    "event_type e4 = ''approval_token_issued''" by (metis demo_log append_Nil)
  then have "\<not> token_is_consumed (log_of w2 ''j'') (at_approval_token_id tok)"
    by (simp add: token_is_consumed_def)
  with that [OF c i r(1-3)] r(4,5) show thesis by (simp add: demo_clock)
qed

theorem approved_preview_validates_witness:
  "\<exists>px w1 tok w2. create_preview_tx demo_serde ''j'' ''p'' ''md'' [demo_operation] ''high'' demo_world = (Inr px, w1) \<and>
     issue_token_for_latest_preview demo_serde ''j'' ''p'' ''ok'' w1 = (Inr tok, w2) \<and>
     fst (validate_token demo_serde ''j'' (at_approval_token_id tok) ''workspace.delete'' [''docs/a''] w2) = Inr True"
proof -
  obtain px w1 tok w2 where r:
    "create_preview_tx demo_serde ''j'' ''p'' ''md'' [demo_operation] ''high'' demo_world = (Inr px, w1)"
    "issue_token_for_latest_preview demo_serde ''j'' ''p'' ''ok'' w1 = (Inr tok, w2)"
    "px_tx_id px \<notin> set (closed_or_approved_tx (log_of demo_world ''j''))"
    "px_executable_operations px = [demo_operation]" "no_faults w2"
    "\<not> token_is_consumed (log_of w2 ''j'') (at_approval_token_id tok)"
    "w_clock w2 (w_ticks w2) \<le> at_expires_at_ms tok" by (rule demo_run)
  have "fst (validate_token demo_serde ''j'' (at_approval_token_id tok) ''workspace.delete'' [''docs/a''] w2) = Inr True"
    by (rule approved_preview_validates [OF r(1,3,2,5,6,7)])
      (use demo_capability demo_target in \<open>simp_all add: r(4)\<close>)
  with r show ?thesis by blast
qed

theorem used_token_never_validates_witness:
  "\<exists>px w1 tok w2 w3 b w4. create_preview_tx demo_serde ''j'' ''p'' ''md'' [demo_operation] ''high'' demo_world = (Inr px, w1) \<and>
     issue_token_for_latest_preview demo_serde ''j'' ''p'' ''ok'' w1 = (Inr tok, w2) \<and>
     mark_token_used ''j'' ''p'' (at_approval_token_id tok) ''workspace.delete'' [''docs/a''] w2 = (Inr (), w3) \<and>
     validate_token demo_serde ''j'' (at_approval_token_id tok) ''workspace.delete'' [''docs/a''] w3 = (Inr b, w4) \<and> \<not> b"
proof -
  obtain px w1 tok w2 where r:
    "create_preview_tx demo_serde ''j'' ''p'' ''md'' [demo_operation] ''high'' demo_world = (Inr px, w1)"
    "issue_token_for_latest_preview demo_serde ''j'' ''p'' ''ok'' w1 = (Inr tok, w2)" "no_faults w2"
    by (rule demo_run)
  obtain u w3 where m: "mark_token_used ''j'' ''p'' (at_approval_token_id tok) ''workspace.delete'' [''docs/a''] w2
      = (Inr u, w3)" "no_faults w3" using runsE [OF runs_mark_token_used r(3)] by metis
  obtain b w4 where v: "validate_token demo_serde ''j'' (at_approval_token_id tok) ''workspace.delete''
      [''docs/a''] w3 = (Inr b, w4)" using runsE [OF runs_validate_token m(2)] by metis
  have "\<not> b" using m(1) by (intro used_token_never_validates [OF _ truth.extends_refl v]) simp
  with r m v show ?thesis by (metis old.unit.exhaust)
qed

theorem validated_token_is_authorized_witness:
  "\<exists>(tok :: approval_token_record) (w2 :: world). \<exists>e \<in> set (job_events ''j'' (w_events w2)).
     token_authorizes demo_serde (job_events ''j'' (w_events w2)) (at_approval_token_id tok)
       ''workspace.delete'' [''docs/a''] e"
proof -
  obtain px w1 tok w2 where r:
    "create_preview_tx demo_serde ''j'' ''p'' ''md'' [demo_operation] ''high'' demo_world = (Inr px, w1)"
    "issue_token_for_latest_preview demo_serde ''j'' ''p'' ''ok'' w1 = (Inr tok, w2)"
    "px_tx_id px \<notin> set (closed_or_approved_tx (log_of demo_world ''j''))"
    "px_executable_operations px = [demo_operation]" "no_faults w2"
    "\<not> token_is_consumed (log_of w2 ''j'') (at_approval_token_id tok)"
    "w_clock w2 (w_ticks w2) \<le> at_expires_at_ms tok" by (rule demo_run)
  have "fst (validate_token demo_serde ''j'' (at_approval_token_id tok) ''workspace.delete'' [''docs/a''] w2) = Inr True"
    by (rule created_token_validates [OF r(1,3,2,5,6,7)])
      (use demo_capability demo_target in \<open>simp_all add: r(4)\<close>)
  then obtain w3 where "validate_token demo_serde ''j'' (at_approval_token_id tok) ''workspace.delete''
      [''docs/a''] w2 = (Inr True, w3)" by (metis prod.collapse)
  from validated_token_is_authorized [OF this] show ?thesis by blast
qed

text \<open>A log with two open previews, approved one after the other.\<close>

definition demo_preview :: "nat \<Rightarrow> string \<Rightarrow> process_event" where
  "demo_preview n tx = \<lparr>event_id = n, timestamp_ms = 1, ev_job_id = ''j'', ev_pid = None,
     event_type = ''preview_tx_created'',
     data = preview_tx_json \<lparr>px_tx_id = tx, px_preview_id = tx, px_preview_ref = [],
       px_human_preview_markdown = [], px_executable_operations = [demo_operation],
       px_proposed_actions = [], px_target_paths = [], px_risk_level = [], px_rollback_plan_ref = None\<rparr>\<rparr>"

definition demo_two :: world where
  "demo_two = demo_world\<lparr>w_events := [demo_preview 1 ''a'', demo_preview 2 ''b'']\<rparr>"

lemma demo_preview_scopes:
  "nonempty (preview_operation_capability_ids (data (demo_preview n tx))) =
     Some (operation_capability_ids [demo_operation])"
  "nonempty (preview_operation_target_paths (data (demo_preview n tx))) =
     Some (operation_target_paths [demo_operation])"
  unfolding demo_preview_def process_event.select_convs
  by (subst preview_scopes [where ops = "[demo_operation]"], simp_all add: demo_normalized)+

lemma demo_two_log: "log_of demo_two ''j'' = [demo_preview 1 ''a'', demo_preview 2 ''b'']"
  by (simp add: demo_two_def demo_preview_def job_events_def)

lemma demo_preview_fields: "event_type (demo_preview n tx) = ''preview_tx_created''"
  "get_str (data (demo_preview n tx)) ''tx_id'' = Some tx"
  by (simp_all add: demo_preview_def)

lemma trimmed_selection_ab: "trimmed_selection (Some ''a'') = Some ''a''"
  "trimmed_selection (Some ''b'') = Some ''b''"
  by code_simp+

lemma demo_two_selected:
  "find (preview_selected (trimmed_selection (Some ''a'')) (closed_or_approved_tx (log_of demo_two ''j'')))
      (rev (log_of demo_two ''j'')) = Some (demo_preview 1 ''a'')"
proof -
  have "get_str (data (demo_preview 2 ''b'')) ''preview_id'' = Some ''b''" by (simp add: demo_preview_def)
  then show ?thesis
    by (simp add: demo_two_log preview_selected_def demo_preview_fields trimmed_selection_ab
        closed_or_approved_member)
qed

theorem transaction_approved_once_witness:
  "\<exists>tok w1 tok' w2.
     issue_token_for_preview_selection demo_serde ''j'' ''p'' (Some ''a'') ''ok'' demo_two = (Inr tok, w1) \<and>
     issue_token_for_preview_selection demo_serde ''j'' ''p'' (Some ''b'') ''ok'' w1 = (Inr tok', w2) \<and>
     at_tx_id tok' \<noteq> at_tx_id tok"
proof -
  have two: "no_faults demo_two" "\<forall>n. w_clock demo_two n = 5"
    by (simp_all add: demo_two_def demo_world_def no_faults_def)
  then have cl: "w_clock demo_two n + 24 * 60 * 60 * 1000 < 2 ^ 64" for n by simp
  from issue_token_no_faults [OF two(1) demo_two_selected demo_preview_scopes cl] obtain tok w1 where
    i: "issue_token_for_preview_selection demo_serde ''j'' ''p'' (Some ''a'') ''ok'' demo_two = (Inr tok, w1)"
    and w1: "no_faults w1" "w_clock w1 = w_clock demo_two" by metis
  from issue_token_result [OF i] obtain p e1 e2 where
    p: "find (preview_selected (trimmed_selection (Some ''a'')) (closed_or_approved_tx (log_of demo_two ''j'')))
      (rev (log_of demo_two ''j'')) = Some p"
      "at_tx_id tok = unwrap_or (at_preview_id tok) (get_str (data p) ''tx_id'')" and
    log: "log_of w1 ''j'' = log_of demo_two ''j'' @ [e1, e2]" and
    e: "event_type e1 = ''preview_tx_approved''" "get_str (data e1) ''tx_id'' = Some (at_tx_id tok)"
      "event_type e2 = ''approval_token_issued''" "token_json tok = Inr (data e2)" by metis
  from p(1) demo_two_selected have "p = demo_preview 1 ''a''" by simp
  with p(2) have a: "at_tx_id tok = ''a''" by (simp add: demo_preview_fields)
  have "find (preview_selected (trimmed_selection (Some ''b'')) (closed_or_approved_tx (log_of w1 ''j'')))
      (rev (log_of w1 ''j'')) = Some (demo_preview 2 ''b'')"
    using e token_json_fields(2) [OF e(4)] a
    by (simp add: log demo_two_log preview_selected_def demo_preview_fields trimmed_selection_ab
        closed_or_approved_member)
  from issue_token_no_faults [OF w1(1) this demo_preview_scopes] cl w1(2) obtain tok' w2 where
    i': "issue_token_for_preview_selection demo_serde ''j'' ''p'' (Some ''b'') ''ok'' w1 = (Inr tok', w2)"
    by metis
  have "at_tx_id tok' \<noteq> at_tx_id tok"
    by (rule transaction_approved_once [OF i truth.extends_refl i'])
      (use e in \<open>auto simp: log demo_two_log demo_preview_fields\<close>)
  with i i' show ?thesis by blast
qed

theorem preview_then_approval_succeeds_witness:
  "\<exists>px w1 tok w2. create_preview_tx demo_serde ''j'' ''p'' ''md'' [demo_operation] ''high'' demo_world = (Inr px, w1) \<and>
     issue_token_for_latest_preview demo_serde ''j'' ''p'' ''ok'' w1 = (Inr tok, w2) \<and>
     at_approved_path_scope tok = [''docs'']"
proof -
  have "operation_target_paths [demo_operation] = [''docs'']" unfolding demo_operation_def by code_simp
  moreover from preview_then_approval_succeeds [OF demo_no_faults demo_fresh demo_clock_bound, where job = "''j''"
      and sd = demo_serde and pid = "''p''" and md = "''md''" and risk = "''high''" and nt = "''ok''"
      and ops = "[demo_operation]"]
  have "\<exists>px w1 tok w2. create_preview_tx demo_serde ''j'' ''p'' ''md'' [demo_operation] ''high'' demo_world = (Inr px, w1) \<and>
     issue_token_for_latest_preview demo_serde ''j'' ''p'' ''ok'' w1 = (Inr tok, w2) \<and>
     at_approved_path_scope tok = operation_target_paths [demo_operation]"
    unfolding demo_normalized sum.case by blast
  ultimately show ?thesis by simp
qed

end
