(* ===== verification/Truth_Claims.thy ===== *)
theory Truth_Claims
  imports Replay Fault_Free "HOL-Library.Multiset"
begin

text \<open>
  The properties of the process-truth store: the event log alone and under several writers, the
  stream, the replay, the registry, blobs and checkpoints.
\<close>

section \<open>Events\<close>

text \<open>
  C25: appending an event keeps the log of every job numbered 1, 2, 3, ... without gaps. A
  successful append adds exactly that event at the end of its own job's log, under the next number;
  a failed one leaves all logs as they were; the logs of other jobs never change.
\<close>

theorem append_event_numbers_log:
  assumes "append_event job pid ty d w = (r, w')" and "log_ok (w_events w)"
  shows "log_ok (w_events w') \<and>
     (case r of
        Inl x \<Rightarrow> w_events w' = w_events w
      | Inr e \<Rightarrow> job_events job (w_events w') = job_events job (w_events w) @ [e] \<and>
          event_id e = Suc (length (job_events job (w_events w))) \<and>
          event_type e = ty \<and> data e = d \<and> ev_pid e = pid) \<and>
     list_all (\<lambda>other. other = job \<or> job_events other (w_events w') = job_events other (w_events w)) others"
proof -
  have "log_ok (w_events w')" using assms by (rule log_ok_append_event)
  moreover have "case r of
        Inl x \<Rightarrow> w_events w' = w_events w
      | Inr e \<Rightarrow> job_events job (w_events w') = job_events job (w_events w) @ [e] \<and>
          event_id e = Suc (length (job_events job (w_events w))) \<and>
          event_type e = ty \<and> data e = d \<and> ev_pid e = pid"
    using assms(1)
  proof (cases rule: append_event_cases)
    case fails
    then show ?thesis by simp
  next
    case (appended e)
    with truth.add_ok [OF assms(1) [unfolded appended(1)]] assms(2) show ?thesis
      by (simp add: next_event_id_ok job_events_ok)
  qed
  moreover have "list_all (\<lambda>other. other = job \<or>
      job_events other (w_events w') = job_events other (w_events w)) others"
    using truth.add_other [OF assms(1)] by (auto simp: list_all_iff)
  ultimately show ?thesis by simp
qed

text \<open>
  C26: the ids of a job's events are 1, 2, 3, ... in writing order even when several connections
  append at once: \<open>append_event\<close> selects the next id and inserts the event in two statements, and in every
  state that the halves of any number of appends reach in any order, faults included, the log is numbered
  without gaps. An insert that is run in such a state either fails and changes no log or adds its event
  at the end of its job's log, under the number after the last; so does a whole \<open>append_event\<close>.
\<close>

theorem interleaved_appends_keep_ids:
  assumes "appends_reachable (w, pend)"
  shows "map event_id (job_events job (w_events w)) = [1..<Suc (length (job_events job (w_events w)))] \<and>
    (\<forall>c e r w'. pend c = Some e \<and> append_insert e w = (r, w') \<longrightarrow>
      (case r of Inl x \<Rightarrow> w_events w' = w_events w
       | Inr e' \<Rightarrow> e' = e \<and> job_events (ev_job_id e) (w_events w') = job_events (ev_job_id e) (w_events w) @ [e] \<and>
           event_id e = Suc (length (job_events (ev_job_id e) (w_events w))))) \<and>
    (\<forall>c pid ty d r w'. pend c = None \<and> append_event job pid ty d w = (r, w') \<longrightarrow> appends_reachable (w', pend) \<and>
      (case r of Inl x \<Rightarrow> w_events w' = w_events w
       | Inr e \<Rightarrow> job_events job (w_events w') = job_events job (w_events w) @ [e]))"
proof (intro conjI allI impI)
  from appends_reachable_ok [OF assms] have ok: "log_ok (w_events w)" and p: "pending_ok (w, pend)" by simp_all
  then show "map event_id (job_events job (w_events w)) = [1..<Suc (length (job_events job (w_events w)))]"
    unfolding job_events_ok [OF ok] log_ok_def by blast
  fix c e r w'
  assume "pend c = Some e \<and> append_insert e w = (r, w')"
  then have b: "0 < event_id e" "event_id e \<le> Suc (length (filter (\<lambda>r. ev_job_id r = ev_job_id e) (w_events w)))"
    and i: "append_insert e w = (r, w')" using p by (auto simp: pending_ok_def)
  show "case r of Inl x \<Rightarrow> w_events w' = w_events w
       | Inr e' \<Rightarrow> e' = e \<and> job_events (ev_job_id e) (w_events w') = job_events (ev_job_id e) (w_events w) @ [e] \<and>
           event_id e = Suc (length (job_events (ev_job_id e) (w_events w)))"
    using append_insert_result [OF i] insert_pending [OF ok b] ok
    by (auto simp: next_event_id_ok job_events_ok)
next
  fix c pid ty d r w'
  assume "pend c = None \<and> append_event job pid ty d w = (r, w')"
  then have c: "pend c = None" and a: "append_event job pid ty d w = (r, w')" by simp_all
  show "appends_reachable (w', pend)" by (rule append_event_reachable [OF assms c a])
  show "case r of Inl x \<Rightarrow> w_events w' = w_events w
       | Inr e \<Rightarrow> job_events job (w_events w') = job_events job (w_events w) @ [e]"
    using a by (cases rule: append_event_cases) (use truth.add_ok [of job pid ty d w _ w'] a in auto)
qed

lemma sys_op_success: "sys_op w = (Inr u, w') \<Longrightarrow> w' = w\<lparr>w_ops := Suc (w_ops w)\<rparr>"
  by (auto simp: sys_op_def Let_def split: if_splits)

lemma sys_op_fails: "sys_op w = (Inl e, w') \<Longrightarrow> w' = w\<lparr>w_ops := Suc (w_ops w)\<rparr>"
  by (auto simp: sys_op_def Let_def split: if_splits)

text \<open>
  The stream resumes where its reader stopped: on a log the store has written, asking for the
  events after number \<open>n\<close> returns the next ones, at most the limit, none lost and none repeated.
\<close>

theorem stream_events_resumes:
  assumes "log_ok (w_events w)" and "stream_events job n lim w = (Inr es, w')"
  shows "es = take lim (drop n (job_events job (w_events w)))"
  using assms(2) filter_after_ok [OF assms(1)] unfolding stream_events_def
  by (elim io_bindE) (auto simp: io_get_apply io_return_apply dest: sys_op_success)

section \<open>Replay\<close>

definition provenance_key :: "artifact_provenance \<Rightarrow> string \<times> nat" where
  "provenance_key p = (pv_artifact_path p, pv_event_id p)"

text \<open>
  C27: a replay is a function of the job's log. The status is the one the last status-setting event
  set, \<open>created\<close> before any; the artifact references are exactly the non-empty normalised paths that
  some event's receipts mention, in strictly ascending order; the provenance list is a permutation
  of the receipts that name an artifact and its capability, ordered by path and event.
\<close>

theorem replay_reads_the_log:
  assumes "replay job w = (Inr st, w')"
  shows "rp_status st = last (''created'' # List.map_filter status_of_event (job_events job (w_events w))) \<and>
     set (rp_artifact_refs st) = \<Union> (event_refs ` set (job_events job (w_events w))) \<and>
     sorted_wrt (<) (rp_artifact_refs st) \<and>
     rp_event_count st = length (job_events job (w_events w)) \<and>
     mset (rp_artifact_provenance st) = mset (concat (map (\<lambda>e.
        List.map_filter (artifact_provenance_from_event e) (event_payloads e)) (job_events job (w_events w)))) \<and>
     sorted (map provenance_key (rp_artifact_provenance st)) \<and> w_events w' = w_events w"
proof -
  from assms obtain events w1 where rd: "read_events job w = (Inr events, w1)"
    and run: "io_return (replay_events job events) w1 = (Inr st :: replay_state res, w')"
    unfolding replay_def by (rule io_bindE)
  from read_events_result [OF rd] run have st: "st = replay_events job (job_events job (w_events w))"
    and w': "w_events w' = w_events w" by (auto simp: io_return_apply)
  have k: "(\<lambda>p. (pv_artifact_path p, pv_event_id p)) = provenance_key"
    by (simp add: provenance_key_def fun_eq_iff)
  show ?thesis
    using replay_events_simps [of job "job_events job (w_events w)"] w'
    by (simp add: st replay_events_provenance k foldl_replay_status)
qed

section \<open>The registry\<close>

lemma update_rows_updated:
  "(\<And>d. get (f d) = st) \<Longrightarrow>
   list_all (\<lambda>r. row_job r = job \<longrightarrow> row_status r = st \<and> get (row_data r) = st) (update_rows f st job rows)"
  by (induction rows) (simp_all add: update_rows_def)

lemma update_rows_other:
  "filter (\<lambda>r. row_job r \<noteq> job) (update_rows f st job rows) = filter (\<lambda>r. row_job r \<noteq> job) rows"
  by (induction rows) (auto simp: update_rows_def)

lemma job_status_changed_status:
  "event_type e = ''job_status_changed'' \<Longrightarrow> data e = jobj [(''status'', JString st)] \<Longrightarrow>
   status_of_event e = Some st"
  by (simp add: status_of_event_def)

lemma update_job_status_result:
  assumes "update_job_status job st w = (Inr u, w')"
  shows "st \<in> set JOB_STATUSES"
    and "w_jobs w' = update_rows (\<lambda>j. j\<lparr>aj_status := st\<rparr>) st job (w_jobs w)"
    and "w_processes w' = update_rows (\<lambda>p. p\<lparr>ap_state := st\<rparr>) st job (w_processes w)"
    and "w_runtimes w' = update_rows (\<lambda>r. r\<lparr>tr_state := st\<rparr>) st job (w_runtimes w)"
    and "\<exists>e. job_events job (w_events w') = job_events job (w_events w) @ [e] \<and>
      event_type e = ''job_status_changed'' \<and> status_of_event e = Some st"
proof -
  have ok: "st \<in> set JOB_STATUSES"
    using assms by (auto simp: update_job_status_def io_fail_apply split: if_split_asm)
  have "w_jobs w' = update_rows (\<lambda>j. j\<lparr>aj_status := st\<rparr>) st job (w_jobs w) \<and>
    w_processes w' = update_rows (\<lambda>p. p\<lparr>ap_state := st\<rparr>) st job (w_processes w) \<and>
    w_runtimes w' = update_rows (\<lambda>r. r\<lparr>tr_state := st\<rparr>) st job (w_runtimes w) \<and>
    (\<exists>e. job_events job (w_events w') = job_events job (w_events w) @ [e] \<and>
      event_type e = ''job_status_changed'' \<and> status_of_event e = Some st)"
    using assms unfolding update_job_status_def
  proof (simp only: ok not_True_eq_False if_False, elim io_bindE, goal_cases)
    case (1 u1 w1 u2 w2 u3 w3 u4 w4 u5 w5 u6 w6 e w7)
    then have w6: "w6 = w\<lparr>w_ops := w_ops w6,
        w_jobs := update_rows (\<lambda>j. j\<lparr>aj_status := st\<rparr>) st job (w_jobs w),
        w_processes := update_rows (\<lambda>p. p\<lparr>ap_state := st\<rparr>) st job (w_processes w),
        w_runtimes := update_rows (\<lambda>r. r\<lparr>tr_state := st\<rparr>) st job (w_runtimes w)\<rparr>"
      by (auto simp: put_world_apply dest!: sys_op_success)
    have w7: "w7 = w'" using 1 by (simp add: io_return_apply)
    have a: "append_event job None ''job_status_changed'' (jobj [(''status'', JString st)]) w6 = (Inr e, w')"
      using 1 w7 by simp
    have jobs: "w_jobs w6 = update_rows (\<lambda>j. j\<lparr>aj_status := st\<rparr>) st job (w_jobs w)"
      "w_processes w6 = update_rows (\<lambda>p. p\<lparr>ap_state := st\<rparr>) st job (w_processes w)"
      "w_runtimes w6 = update_rows (\<lambda>r. r\<lparr>tr_state := st\<rparr>) st job (w_runtimes w)"
      "w_events w6 = w_events w"
      by (subst w6, simp)+
    show ?case
      using append_event_frame [OF a] truth.add_ok [OF a] jobs by (auto intro: job_status_changed_status)
  qed
  with ok show "st \<in> set JOB_STATUSES"
    and "w_jobs w' = update_rows (\<lambda>j. j\<lparr>aj_status := st\<rparr>) st job (w_jobs w)"
    and "w_processes w' = update_rows (\<lambda>p. p\<lparr>ap_state := st\<rparr>) st job (w_processes w)"
    and "w_runtimes w' = update_rows (\<lambda>r. r\<lparr>tr_state := st\<rparr>) st job (w_runtimes w)"
    and "\<exists>e. job_events job (w_events w') = job_events job (w_events w) @ [e] \<and>
      event_type e = ''job_status_changed'' \<and> status_of_event e = Some st" by auto
qed

text \<open>
  C28: after a successful status change the registry and the log agree. The status is one of the
  nine; every row of the job in the three tables carries it, in its column and in the stored record;
  the rows of other jobs are untouched; and replaying the job's log gives the same status.
\<close>

theorem status_change_agrees_with_replay:
  assumes "update_job_status job st w = (Inr u, w')"
  shows "st \<in> set JOB_STATUSES \<and>
     list_all (\<lambda>r. row_job r \<noteq> job \<or> row_status r = st \<and> aj_status (row_data r) = st) (w_jobs w') \<and>
     list_all (\<lambda>r. row_job r \<noteq> job \<or> row_status r = st \<and> ap_state (row_data r) = st) (w_processes w') \<and>
     list_all (\<lambda>r. row_job r \<noteq> job \<or> row_status r = st \<and> tr_state (row_data r) = st) (w_runtimes w') \<and>
     filter (\<lambda>r. row_job r \<noteq> job) (w_jobs w') = filter (\<lambda>r. row_job r \<noteq> job) (w_jobs w) \<and>
     filter (\<lambda>r. row_job r \<noteq> job) (w_processes w') = filter (\<lambda>r. row_job r \<noteq> job) (w_processes w) \<and>
     filter (\<lambda>r. row_job r \<noteq> job) (w_runtimes w') = filter (\<lambda>r. row_job r \<noteq> job) (w_runtimes w) \<and>
     rp_status (replay_events job (job_events job (w_events w'))) = st"
proof -
  note r = update_job_status_result [OF assms]
  from r(5) have "rp_status (replay_events job (job_events job (w_events w'))) = st"
    by (auto simp: replay_events_simps(1) replay_status_eq simp del: foldl_replay_status)
  with r(1) show ?thesis
    unfolding r(2-4) update_rows_other by (simp add: update_rows_updated disj_not1)
qed

text \<open>
  A status outside the nine is refused before any row or event is written.
\<close>

theorem invalid_status_refused:
  assumes "st \<notin> set JOB_STATUSES"
  shows "update_job_status job st w = (Inl (invalid_status st), w) \<and>
     register_job (j\<lparr>aj_status := st\<rparr>) w = (Inl (invalid_status st), w)"
  using assms by (simp add: update_job_status_def register_job_def io_fail_def)

section \<open>Blobs\<close>

lemma write_blob_result:
  assumes "write_blob job name content w = (Inr r, w')"
  shows "r = ''blob://'' @ job @ ''/'' @ fwd_slashes name"
    and "w_files w' = (w_files w)(blob_root job @ normals (unix_components name) \<mapsto> content)"
    and "w_events w' = w_events w"
  using assms unfolding write_blob_def
  by (elim io_bindE; auto simp: put_world_apply io_return_apply dest!: sys_op_success)+

lemma normals_map [simp]: "normals (map Normal names) = names"
  by (induction names) (simp_all add: normals_def List.map_filter_simps)

lemma join_plain_nonempty:
  "names \<noteq> [] \<Longrightarrow> \<forall>p \<in> set names. plain_name p \<Longrightarrow> join ''/'' names \<noteq> []"
  by (induction names rule: induct_list012) (simp_all add: plain_name_def)

lemma blob_written_found:
  assumes "names \<noteq> []" and "\<forall>p \<in> set names. plain_name p \<and> CHR 0x5C \<notin> set p"
    and "write_blob job (join ''/'' names) content w = (Inr r, w')"
  shows "resolve_blob_ref job r = Inr (blob_root job @ names) \<and>
     w_files w' (blob_root job @ names) = Some content \<and>
     w_files w' = (w_files w)(blob_root job @ names \<mapsto> content)"
proof -
  have plain: "\<forall>p \<in> set names. plain_name p" using assms(2) by simp
  note c = unix_components_join [OF assms(1) plain]
  have "CHR 0x5C \<notin> set (join ''/'' names)"
    using assms(2) by (induction names rule: induct_list012) auto
  then have f: "fwd_slashes (join ''/'' names) = join ''/'' names" by (rule fwd_slashes_id)
  note wr = write_blob_result [OF assms(3)]
  have "strip_prefix r (''blob://'' @ job @ ''/'') = Some (join ''/'' names)"
    by (simp add: wr(1) f strip_prefix_Some)
  moreover have "resolve_below (blob_root job) (map Normal names) = Some (blob_root job @ names)"
    by (simp add: resolve_below_iff)
  ultimately have "resolve_blob_ref job r = Inr (blob_root job @ names)"
    using join_plain_nonempty [OF assms(1) plain] by (simp add: resolve_blob_ref_def c)
  then show ?thesis by (simp add: wr(2) c)
qed

text \<open>
  A blob is found again under the reference its writing returned. For a name made of plain
  path components, without a backslash, the reference resolves, inside the job's blob directory, to
  a file that holds exactly the content written; no other file has changed.
\<close>

theorem blob_round_trip:
  assumes "names \<noteq> []" and "\<forall>p \<in> set names. plain_name p \<and> CHR 0x5C \<notin> set p"
    and "write_blob job (join ''/'' names) content w = (Inr r, w')"
  shows "resolve_blob_ref job r = Inr (blob_root job @ names) \<and>
     w_files w' (blob_root job @ names) = Some content \<and>
     w_files w' = (w_files w)(blob_root job @ names \<mapsto> content)"
  using assms by (rule blob_written_found)

text \<open>
  A blob reference never leads out of the job's blob directory. Whatever string is resolved,
  a path that comes out is the directory followed by plain component names, so no \<open>..\<close>, no empty
  and no rooted component is left in it; the reference has the job's own prefix.
\<close>

theorem blob_refs_stay_in_job:
  assumes "resolve_blob_ref job r = Inr p"
  shows "\<exists>names. p = blob_root job @ names \<and> list_all plain_name names \<and>
     (\<exists>rest. r = ''blob://'' @ job @ ''/'' @ rest \<and> rest \<noteq> [])"
proof -
  from assms obtain rest where rest: "strip_prefix r (''blob://'' @ job @ ''/'') = Some rest" "rest \<noteq> []"
    and p: "resolve_below (blob_root job) (unix_components rest) = Some p"
    by (auto simp: resolve_blob_ref_def split: option.splits if_splits)
  from p have "p = blob_root job @ normals (unix_components rest)" by (simp only: resolve_below_iff)
  moreover have "list_all plain_name (normals (unix_components rest))"
    by (auto simp: list_all_iff set_normals intro: unix_components_plain)
  moreover from rest have "r = ''blob://'' @ job @ ''/'' @ rest" by (simp add: strip_prefix_Some)
  ultimately show ?thesis using rest(2) by blast
qed

section \<open>Checkpoints\<close>

definition checkpoint_name :: "string \<Rightarrow> nat \<Rightarrow> string" where
  "checkpoint_name job ts = ''ckpt_'' @ job @ ''_'' @ dec ts"

lemma dec_chars: "c \<in> set (dec n) \<Longrightarrow> \<exists>k < 10. c = digit_char k"
proof (induction n rule: dec.induct)
  case (1 n)
  show ?case
  proof (cases "n < 10")
    case True
    with "1.prems" show ?thesis by (auto simp: dec.simps [of n])
  next
    case False
    with "1.prems" have "c \<in> set (dec (n div 10)) \<or> c = digit_char (n mod 10)"
      by (auto simp: dec.simps [of n])
    with "1.IH" [OF False] show ?thesis by (auto intro: exI [of _ "n mod 10"])
  qed
qed

lemma dec_clean: "CHR 0x5C \<notin> set (dec n)" "CHR ''/'' \<notin> set (dec n)"
proof -
  have "digit_char k \<noteq> CHR 0x5C \<and> digit_char k \<noteq> CHR ''/''" if "k < 10" for k
  proof -
    from that have "k \<in> {0, 1, 2, 3, 4, 5, 6, 7, 8, 9}" by auto
    then show ?thesis by (elim insertE emptyE) (simp_all add: digit_char_def)
  qed
  then show "CHR 0x5C \<notin> set (dec n)" "CHR ''/'' \<notin> set (dec n)" using dec_chars by metis+
qed

lemma checkpoint_blob:
  assumes "plain_name job" and "CHR 0x5C \<notin> set job"
    and "write_blob job (''checkpoints/'' @ checkpoint_name job ts @ ''.json'') content w = (Inr r, w')"
  shows "resolve_blob_ref job r = Inr (blob_root job @ [''checkpoints'', checkpoint_name job ts @ ''.json'']) \<and>
    w_files w' (blob_root job @ [''checkpoints'', checkpoint_name job ts @ ''.json'']) = Some content"
proof -
  have d: "CHR 0x5C \<notin> set (dec ts)" "CHR ''/'' \<notin> set (dec ts)" by (rule dec_clean)+
  have "join ''/'' [''checkpoints'', checkpoint_name job ts @ ''.json''] =
      ''checkpoints/'' @ checkpoint_name job ts @ ''.json''" by simp
  with assms(3) have wr: "write_blob job (join ''/'' [''checkpoints'', checkpoint_name job ts @ ''.json'']) content w = (Inr r, w')"
    by simp
  show ?thesis
    by (rule blob_written_found [OF _ _ wr, THEN conjunct1, THEN conjI [OF _ blob_written_found [OF _ _ wr, THEN conjunct2, THEN conjunct1]]])
      (use assms d in \<open>auto simp: plain_name_def checkpoint_name_def\<close>)
qed

text \<open>What the parts of \<open>save_checkpoint\<close> leave alone.\<close>

lemma append_event_keeps_files: "append_event job pid ty d w = (r, w') \<Longrightarrow> w_files w' = w_files w"
  by (rule append_event_frame(5))

lemma write_blob_checkpoints: "write_blob job name c w = (r, w') \<Longrightarrow> w_checkpoints w' = w_checkpoints w"
  by (auto simp: write_blob_def io_bind_def sys_op_def put_world_def io_return_def Let_def
      split: if_splits prod.splits sum.splits)

lemma write_blob_log: "write_blob job name c w = (r, w') \<Longrightarrow> w_events w' = w_events w"
  by (auto simp: write_blob_def io_bind_def sys_op_def put_world_def io_return_def Let_def
      split: if_splits prod.splits sum.splits)

text \<open>
  A saved checkpoint is complete. Its id was not in use, its record is the one row added to the
  table, the record names the number of the \<open>checkpoint_saved\<close> event that ends the job's log, and
  its state reference resolves, inside the job's blobs, to the rendered state.
\<close>

theorem saved_checkpoint_is_complete:
  assumes "save_checkpoint render job pid rt kind state ins outs w = (Inr c, w')"
    and "plain_name job" and "CHR 0x5C \<notin> set job"
  shows "cr_checkpoint_id c \<notin> cp_checkpoint_id ` set (w_checkpoints w) \<and>
     (\<exists>e p. w_checkpoints w' = w_checkpoints w @ [\<lparr>cp_checkpoint_id = cr_checkpoint_id c,
          cp_job_id = job, cp_pid = pid, cp_runtime_id = rt, cp_kind = kind,
          cp_state_ref = cr_state_ref c, cp_input_refs = ins, cp_output_refs = outs,
          cp_created_event_id = event_id e\<rparr>] \<and>
        job_events job (w_events w') = job_events job (w_events w) @ [e] \<and>
        event_type e = ''checkpoint_saved'' \<and>
        resolve_blob_ref job (cr_state_ref c) = Inr p \<and> w_files w' p = Some (render state))"
  using assms(1) unfolding save_checkpoint_def Let_def
proof (elim io_bindE, goal_cases)
  case (1 ts w1 r w2 e w3 u w4 wg w5)
  let ?id = "''ckpt_'' @ job @ ''_'' @ dec ts"
  note wb = 1(2) and ev = 1(3)
  have w1: "w_checkpoints w1 = w_checkpoints w" "w_events w1 = w_events w"
    using 1(1) by (auto simp: now_ms_def)
  have w45: "w4 = w3\<lparr>w_ops := Suc (w_ops w3)\<rparr>" "wg = w4" "w5 = w4"
    using 1(4,5) by (auto simp: io_get_apply dest: sys_op_success)
  have fin: "?id \<notin> cp_checkpoint_id ` set (w_checkpoints w4)"
    "c = \<lparr>cr_checkpoint_id = ?id, cr_job_id = job, cr_pid = pid, cr_runtime_id = rt, cr_kind = kind,
       cr_state_ref = r\<rparr>"
    "w' = w4\<lparr>w_checkpoints := w_checkpoints w4 @ [\<lparr>cp_checkpoint_id = ?id,
          cp_job_id = job, cp_pid = pid, cp_runtime_id = rt, cp_kind = kind,
          cp_state_ref = r, cp_input_refs = ins, cp_output_refs = outs,
          cp_created_event_id = event_id e\<rparr>]\<rparr>"
    using 1(6) w45 by (auto simp: io_fail_apply io_return_apply put_world_apply io_bind_Inr
        elim!: io_bindE split: if_split_asm)
  have ck: "w_checkpoints w4 = w_checkpoints w"
    using append_event_frame(4) [OF ev] write_blob_checkpoints [OF wb] w1 w45 by simp
  have lg: "job_events job (w_events w4) = job_events job (w_events w) @ [e]" "event_type e = ''checkpoint_saved''"
    using truth.add_ok [OF ev] write_blob_log [OF wb] w1 w45 by auto
  have "w_files w4 = w_files w2" using append_event_keeps_files [OF ev] w45 by simp
  with checkpoint_blob [OF assms(2,3) wb [folded checkpoint_name_def]]
  show ?case unfolding fin(2,3) using fin(1) ck lg by auto
qed

text \<open>
  Two checkpoints of a job in one millisecond share their id, and the second is refused by the
  database only after its event has been written: the call fails, the table is unchanged, and the
  log still gains a \<open>checkpoint_saved\<close> event that names the id of the first.
\<close>

theorem checkpoint_collision_leaves_event:
  assumes "\<forall>n. \<not> w_fault w n"
    and "''ckpt_'' @ job @ ''_'' @ dec (w_clock w (w_ticks w)) \<in> cp_checkpoint_id ` set (w_checkpoints w)"
  shows "\<exists>w' e. save_checkpoint render job pid rt kind state ins outs w
       = (Inl (IoError OtherKind ''UNIQUE constraint failed''), w') \<and>
     w_checkpoints w' = w_checkpoints w \<and>
     job_events job (w_events w') = job_events job (w_events w) @ [e] \<and>
     event_type e = ''checkpoint_saved'' \<and>
     get_str (data e) ''checkpoint_id'' = Some (''ckpt_'' @ job @ ''_'' @ dec (w_clock w (w_ticks w)))"
proof -
  let ?id = "''ckpt_'' @ job @ ''_'' @ dec (w_clock w (w_ticks w))"
  let ?name = "''checkpoints/'' @ ?id @ ''.json''"
  define w1 where "w1 = w\<lparr>w_ticks := Suc (w_ticks w)\<rparr>"
  have n: "now_ms w = (Inr (w_clock w (w_ticks w)), w1)" by (simp add: now_ms_def w1_def)
  obtain r w2 where wb: "write_blob job ?name (render state) w1 = (Inr r, w2)"
    and w2: "w_fault w2 = w_fault w" "w_events w2 = w_events w" "w_checkpoints w2 = w_checkpoints w"
    using assms(1) by (simp add: write_blob_def io_bind_def sys_op_def put_world_def io_return_def Let_def w1_def)
  let ?d = "jobj [(''checkpoint_id'', JString ?id), (''runtime_id'', jopt rt), (''kind'', JString kind),
     (''state_ref'', JString r), (''input_refs'', jstrings ins), (''output_refs'', jstrings outs)]"
  obtain e w3 where ev: "append_event job (Some pid) ''checkpoint_saved'' ?d w2 = (Inr e, w3)"
    using assms(1) by (simp add: append_event_eq w2 Let_def)
  note frame = append_event_frame [OF ev]
  have s: "sys_op w3 = (Inr (), w3\<lparr>w_ops := Suc (w_ops w3)\<rparr>)"
    using assms(1) by (simp add: sys_op_def frame w2)
  have "save_checkpoint render job pid rt kind state ins outs w =
      (Inl (IoError OtherKind ''UNIQUE constraint failed''), w3\<lparr>w_ops := Suc (w_ops w3)\<rparr>)"
    unfolding save_checkpoint_def Let_def io_bind_Inr [where m = now_ms, OF n]
      io_bind_Inr [where m = "write_blob job ?name (render state)", OF wb]
      io_bind_Inr [where m = "append_event job (Some pid) ''checkpoint_saved'' ?d", OF ev]
      io_bind_Inr [where m = sys_op, OF s] io_bind_Inr [where m = io_get, OF io_get_apply]
    using assms(2) by (simp add: frame w2 io_fail_apply)
  moreover have "job_events job (w_events w3) = job_events job (w_events w) @ [e]"
    "event_type e = ''checkpoint_saved''" "data e = ?d"
    using truth.add_ok [OF ev] w2 by auto
  ultimately show ?thesis by (simp add: frame w2)
qed

section \<open>Creating a job\<close>

definition job_rows :: "string \<Rightarrow> 'a reg_row list \<Rightarrow> 'a list" where
  "job_rows job rows = map row_data (filter (\<lambda>r. row_job r = job) rows)"

lemma job_rows_replace:
  "job_rows job rows = [] \<Longrightarrow> job_rows job (replace_row r rows) = (if row_job r = job then [row_data r] else [])"
  by (auto simp: job_rows_def replace_row_def filter_empty_conv)

lemma job_rows_update: "job_rows job (update_rows f st job rows) = map f (job_rows job rows)"
  by (induction rows) (auto simp: job_rows_def update_rows_def)

lemma register_results:
  "register_job j w = (Inr u, w') \<Longrightarrow> \<exists>n. w' = w\<lparr>w_ops := n, w_jobs := replace_row
     \<lparr>row_key = aj_job_id j, row_job = aj_job_id j, row_status = aj_status j, row_data = j\<rparr> (w_jobs w)\<rparr>"
  "register_process p w = (Inr u, w') \<Longrightarrow> \<exists>n. w' = w\<lparr>w_ops := n, w_processes := replace_row
     \<lparr>row_key = ap_pid p, row_job = ap_job_id p, row_status = ap_state p, row_data = p\<rparr> (w_processes w)\<rparr>"
  "register_task_agent_runtime r w = (Inr u, w') \<Longrightarrow> \<exists>n. w' = w\<lparr>w_ops := n, w_runtimes := replace_row
     \<lparr>row_key = tr_runtime_id r, row_job = tr_job_id r, row_status = tr_state r, row_data = r\<rparr> (w_runtimes w)\<rparr>"
  unfolding register_job_def register_process_def register_task_agent_runtime_def
  by (auto simp: put_world_apply io_fail_apply dest!: sys_op_success elim!: io_bindE split: if_split_asm)

text \<open>
  A job that was created is registered as running and its log says how. Under an id no row of
  the registry uses, creation leaves exactly one row of the job in each of the three tables, the job
  with status \<open>running\<close>; its log gains the four events in order, and a replay of a fresh log
  gives the status \<open>running\<close>.
\<close>

theorem created_job_is_registered:
  assumes "create_agent_job root goal w = (Inr (job, process, jid), w')"
    and "job_rows jid (w_jobs w) = []" "job_rows jid (w_processes w) = []" "job_rows jid (w_runtimes w) = []"
  shows "job_rows jid (w_jobs w') = [job] \<and> aj_status job = ''running'' \<and> aj_job_id job = jid \<and>
     aj_user_goal job = goal \<and> aj_workspace_root job = root \<and> aj_root_pid job = ap_pid process \<and>
     job_rows jid (w_processes w') = [process] \<and> ap_state process = ''running'' \<and>
     map tr_state (job_rows jid (w_runtimes w')) = [''running''] \<and>
     (\<exists>es. job_events jid (w_events w') = job_events jid (w_events w) @ es \<and>
        map event_type es = [''job_created'', ''job_status_changed'', ''process_started'',
          ''task_agent_runtime_started'']) \<and>
     rp_status (replay_events jid (job_events jid (w_events w'))) = ''running''"
  using assms(1) unfolding create_agent_job_def Let_def
proof (elim io_bindE, goal_cases)
  case (1 n w1 u w2 e1 w3 u' w4 u'' w5 u''' w6 e2 w7 e3 w8)
  have jid: "jid = ''job_'' @ dec n" and w8: "w8 = w'"
    and job: "job = \<lparr>aj_job_id = jid, aj_user_goal = goal, aj_workspace_root = root,
      aj_status = ''running'', aj_root_pid = ''pid_'' @ dec n\<rparr>"
    and process: "process = \<lparr>ap_pid = ''pid_'' @ dec n, ap_ppid = None, ap_job_id = jid,
      ap_process_type = ''root_agent_process'', ap_state = ''running'', ap_input_refs = [],
      ap_output_refs = [], ap_capability_tokens = [''token_'' @ dec n], ap_budget_ms = None,
      ap_exit_code = None\<rparr>"
    using 1(9) by (auto simp: io_return_apply)
  note r1 = register_results(1) [OF 1(2)] and r2 = register_results(2) [OF 1(5)]
    and r3 = register_results(3) [OF 1(6)]
  note a1 = truth.add_ok [OF 1(3)] and a2 = truth.add_ok [OF 1(7)] and a3 = truth.add_ok [OF 1(8)]
  note f1 = append_event_frame [OF 1(3)] and f2 = append_event_frame [OF 1(7)]
    and f3 = append_event_frame [OF 1(8)]
  note up = update_job_status_result [OF 1(4)]
  have w1: "w_jobs w1 = w_jobs w" "w_processes w1 = w_processes w" "w_runtimes w1 = w_runtimes w"
    "w_events w1 = w_events w" using 1(1) by (auto simp: now_ms_def)
  have jobs: "job_rows jid (w_jobs w') = [job]"
    using r1 r2 r3 f1 f2 f3 up(2) w1 assms(2)
    by (auto simp: w8 job_rows_update job_rows_replace job jid)
  have procs: "job_rows jid (w_processes w') = [process]"
    using r1 r2 r3 f1 f2 f3 up(3) w1 assms(3)
    by (auto simp: w8 job_rows_update job_rows_replace process jid)
  have rts: "map tr_state (job_rows jid (w_runtimes w')) = [''running'']"
    using r1 r2 r3 f1 f2 f3 up(4) w1 assms(4)
    by (auto simp: w8 job_rows_update job_rows_replace jid)
  obtain es where es: "job_events jid (w_events w') = job_events jid (w_events w) @ [e1, es, e2, e3]"
    "event_type e1 = ''job_created''" "event_type es = ''job_status_changed''"
    "status_of_event es = Some ''running''" "event_type e2 = ''process_started''"
    "event_type e3 = ''task_agent_runtime_started''"
    using r1 r2 r3 a1 a2 a3 up(5) w1 by (auto simp: w8 jid)
  then have "rp_status (replay_events jid (job_events jid (w_events w'))) = ''running''"
    by (simp add: replay_events_simps(1) replay_status_eq del: foldl_replay_status)
      (simp add: status_of_event_def)
  with jobs procs rts es show ?case by (simp add: job process)
qed

section \<open>Witnesses\<close>

lemma runs_put_world:
  "(\<And>w. w_fault (f w) = w_fault w \<and> w_clock (f w) = w_clock w) \<Longrightarrow> runs (put_world f)"
  by (simp add: runs_def put_world_def no_faults_def)

lemma runs_update_job_status: "st \<in> set JOB_STATUSES \<Longrightarrow> runs (update_job_status job st)"
  by (auto simp: update_job_status_def intro!: runs_intros runs_sys_op runs_put_world)

lemma runs_registers: "aj_status j \<in> set JOB_STATUSES \<Longrightarrow> runs (register_job j)"
  "runs (register_process p)" "runs (register_task_agent_runtime r)"
  by (auto simp: register_job_def register_process_def register_task_agent_runtime_def
      intro!: runs_intros runs_sys_op runs_put_world)

lemma runs_create_agent_job: "runs (create_agent_job root goal)"
  unfolding create_agent_job_def Let_def
  by (intro runs_intros runs_registers runs_update_job_status) (simp_all add: JOB_STATUSES_def)

theorem append_event_numbers_log_witness:
  "\<exists>r w'. append_event ''j'' None ''job_created'' Null demo_world = (r, w') \<and> log_ok (w_events w') \<and>
     job_events ''j'' (w_events w') \<noteq> []"
proof -
  obtain e w' where a: "append_event ''j'' None ''job_created'' Null demo_world = (Inr e, w')"
    using runsE [OF runs_append demo_no_faults] by metis
  have "log_ok (w_events demo_world)" by (simp add: demo_world_def log_ok_def)
  from append_event_numbers_log [OF a this] a show ?thesis by auto
qed

text \<open>Two connections that computed the same id: the first insert wins, the second is refused.\<close>

definition racing_event :: "string \<Rightarrow> process_event" where
  "racing_event ty = \<lparr>event_id = 1, timestamp_ms = 5, ev_job_id = ''j'', ev_pid = None,
     event_type = ty, data = Null\<rparr>"

lemma racing_select:
  assumes "no_faults w" and "w_events w = []" and "\<forall>n. w_clock w n = 5"
  shows "append_select ''j'' None ty Null w = (Inr (racing_event ty), w\<lparr>w_ops := Suc (w_ops w), w_ticks := Suc (w_ticks w)\<rparr>)"
  using assms by (simp add: append_select_def io_bind_def sys_op_def io_get_def now_ms_def io_return_def no_faults_def
      racing_event_def next_event_id_def Let_def)

lemma racing_run:
  obtains w where "appends_reachable (w, (\<lambda>_. None)(1 := Some (racing_event ''b'')))"
    and "w_events w = [racing_event ''a'']" and "no_faults w"
proof -
  let ?a = "racing_event ''a''" and ?b = "racing_event ''b''"
  let ?w1 = "demo_world\<lparr>w_ops := 1, w_ticks := 1\<rparr>" and ?w2 = "demo_world\<lparr>w_ops := 2, w_ticks := 2\<rparr>"
  let ?w3 = "?w2\<lparr>w_ops := 3, w_events := [?a]\<rparr>"
  have s: "append_select ''j'' None ''a'' Null demo_world = (Inr ?a, ?w1)" "append_select ''j'' None ''b'' Null ?w1 = (Inr ?b, ?w2)"
    by (subst racing_select; simp add: demo_world_def no_faults_def)+
  have i: "append_insert ?a ?w2 = (Inr ?a, ?w3)"
    by (simp add: append_insert_def io_bind_def sys_op_def io_get_def put_world_def io_return_def demo_world_def
        insert_event_def Let_def)
  have "appends_reachable (demo_world, \<lambda>_. None)" by (rule appends_start) (simp add: demo_world_def)
  then have "appends_reachable (?w1, (\<lambda>_. None)(0 := Some ?a))"
    by (rule appends_next) (rule select_done [OF _ s(1)], simp)
  then have "appends_reachable (?w2, (\<lambda>_. None)(0 := Some ?a, 1 := Some ?b))"
    by (rule appends_next) (rule select_done [OF _ s(2)], simp)
  then have "appends_reachable (?w3, ((\<lambda>_. None)(0 := Some ?a, 1 := Some ?b))(0 := None))"
    by (rule appends_next) (rule insert_run [OF _ i], simp)
  moreover have "((\<lambda>_. None)(0 :: nat := Some ?a, 1 := Some ?b))(0 := None) = (\<lambda>_. None)(1 := Some ?b)"
    by (simp add: fun_eq_iff)
  ultimately show ?thesis by (intro that [of ?w3]) (simp_all add: demo_world_def no_faults_def)
qed

theorem interleaved_appends_keep_ids_witness:
  "\<exists>w w'. w_events w = [racing_event ''a''] \<and>
     append_insert (racing_event ''b'') w = (Inl (IoError OtherKind ''UNIQUE constraint failed''), w') \<and> w_events w' = w_events w \<and>
     map event_id (job_events ''j'' (w_events w)) = [1]"
proof -
  obtain w where r: "appends_reachable (w, (\<lambda>_. None)(1 := Some (racing_event ''b'')))" "w_events w = [racing_event ''a'']" "no_faults w"
    by (rule racing_run)
  have i: "append_insert (racing_event ''b'') w =
      (Inl (IoError OtherKind ''UNIQUE constraint failed''), w\<lparr>w_ops := Suc (w_ops w)\<rparr>)"
    using r(2,3) by (simp add: append_insert_def io_bind_def sys_op_def io_get_def io_fail_def no_faults_def insert_event_def
        event_key_def racing_event_def Let_def)
  note t = interleaved_appends_keep_ids [OF r(1), of "''j''"]
  have "length (job_events ''j'' (w_events w)) = 1" by (simp add: r(2) job_events_def racing_event_def)
  with t have "map event_id (job_events ''j'' (w_events w)) = [1]" by simp
  with r(2) i show ?thesis
    by (intro exI [of _ w] exI [of _ "w\<lparr>w_ops := Suc (w_ops w)\<rparr>"]) simp
qed

text \<open>A log of two events, the second a status change.\<close>

definition demo_event :: "nat \<Rightarrow> string \<Rightarrow> json \<Rightarrow> process_event" where
  "demo_event n ty d = \<lparr>event_id = n, timestamp_ms = n, ev_job_id = ''j'', ev_pid = None,
     event_type = ty, data = d\<rparr>"

definition demo_logged :: world where
  "demo_logged = demo_world\<lparr>w_events := [demo_event 1 ''job_created'' Null,
     demo_event 2 ''job_status_changed'' (jobj [(''status'', JString ''blocked'')])]\<rparr>"

lemma demo_logged_facts: "no_faults demo_logged" "log_ok (w_events demo_logged)"
  "job_events ''j'' (w_events demo_logged) = w_events demo_logged"
  by (simp_all add: demo_logged_def demo_world_def no_faults_def demo_event_def log_ok_def job_events_def)

theorem stream_events_resumes_witness:
  "\<exists>es w'. stream_events ''j'' 1 5 demo_logged = (Inr es, w') \<and>
     es = [demo_event 2 ''job_status_changed'' (jobj [(''status'', JString ''blocked'')])]"
proof -
  have "runs (stream_events ''j'' 1 5)" unfolding stream_events_def
    by (intro runs_intros runs_sys_op) (simp add: runs_def io_get_apply)
  then obtain es w' where r: "stream_events ''j'' 1 5 demo_logged = (Inr es, w')"
    using demo_logged_facts(1) by (rule runsE)
  from stream_events_resumes [OF demo_logged_facts(2) r] have
    "es = [demo_event 2 ''job_status_changed'' (jobj [(''status'', JString ''blocked'')])]"
    by (simp add: demo_logged_facts(3)) (simp add: demo_logged_def)
  with r show ?thesis by blast
qed

theorem replay_reads_the_log_witness:
  "\<exists>st w'. replay ''j'' demo_logged = (Inr st, w') \<and> rp_status st = ''blocked''"
proof -
  have "runs (replay ''j'')" unfolding replay_def by (intro runs_intros)
  then obtain st w' where r: "replay ''j'' demo_logged = (Inr st, w')"
    using demo_logged_facts(1) by (rule runsE)
  have "List.map_filter status_of_event (w_events demo_logged) = [''blocked'']"
    by (simp add: demo_logged_def demo_event_def status_of_event_def List.map_filter_simps)
  with replay_reads_the_log [OF r] r show ?thesis by (simp add: demo_logged_facts(3))
qed

theorem status_change_agrees_with_replay_witness:
  "\<exists>w'. update_job_status ''j'' ''blocked'' demo_world = (Inr (), w') \<and>
     rp_status (replay_events ''j'' (job_events ''j'' (w_events w'))) = ''blocked''"
proof -
  have "runs (update_job_status ''j'' ''blocked'')"
    by (rule runs_update_job_status) (simp add: JOB_STATUSES_def)
  then obtain u w' where r: "update_job_status ''j'' ''blocked'' demo_world = (Inr u, w')"
    using demo_no_faults by (rule runsE)
  from status_change_agrees_with_replay [OF r] r show ?thesis by (auto simp: unit_eq)
qed

theorem invalid_status_refused_witness:
  "fst (update_job_status ''j'' ''done'' demo_world) = Inl (invalid_status ''done'')"
  using invalid_status_refused [of "''done''"] by (simp add: JOB_STATUSES_def)

theorem blob_round_trip_witness:
  "\<exists>r w'. write_blob ''j'' (join ''/'' [''previews'', ''a.md'']) ''text'' demo_world = (Inr r, w') \<and>
     resolve_blob_ref ''j'' r = Inr [''blobs'', ''j'', ''previews'', ''a.md''] \<and>
     w_files w' [''blobs'', ''j'', ''previews'', ''a.md''] = Some ''text''"
proof -
  obtain r w' where wr: "write_blob ''j'' (join ''/'' [''previews'', ''a.md'']) ''text'' demo_world = (Inr r, w')"
    using runsE [OF runs_write_blob demo_no_faults] by metis
  from blob_round_trip [OF _ _ wr] wr show ?thesis by (auto simp: plain_name_def blob_root_def)
qed

theorem blob_refs_stay_in_job_witness:
  "\<exists>names. resolve_blob_ref ''j'' ''blob://j/a/./b'' = Inr (blob_root ''j'' @ names) \<and>
     list_all plain_name names"
proof -
  have "resolve_blob_ref ''j'' ''blob://j/a/./b'' = Inr [''blobs'', ''j'', ''a'', ''b'']" by code_simp
  from blob_refs_stay_in_job [OF this] this show ?thesis by auto
qed

theorem saved_checkpoint_is_complete_witness:
  "\<exists>c w' p. save_checkpoint (\<lambda>v. ''{}'') ''j'' ''p'' None ''task'' Null [] [] demo_world = (Inr c, w') \<and>
     resolve_blob_ref ''j'' (cr_state_ref c) = Inr p \<and> w_files w' p = Some ''{}''"
proof -
  have n: "now_ms demo_world = (Inr 5, demo_world\<lparr>w_ticks := 1\<rparr>)" by (simp add: now_ms_def demo_world_def)
  have nf: "no_faults (demo_world\<lparr>w_ticks := 1\<rparr>)" by (simp add: no_faults_def demo_world_def)
  obtain r w2 where wb: "write_blob ''j'' (''checkpoints/'' @ (''ckpt_'' @ ''j'' @ ''_'' @ dec 5) @ ''.json'') ''{}''
      (demo_world\<lparr>w_ticks := 1\<rparr>) = (Inr r, w2)" "no_faults w2"
    using runsE [OF runs_write_blob nf] by metis
  have ck2: "w_checkpoints w2 = []" using write_blob_checkpoints [OF wb(1)] by (simp add: demo_world_def)
  let ?d = "jobj [(''checkpoint_id'', JString (''ckpt_'' @ ''j'' @ ''_'' @ dec 5)), (''runtime_id'', jopt None),
     (''kind'', JString ''task''), (''state_ref'', JString r), (''input_refs'', jstrings []),
     (''output_refs'', jstrings [])]"
  obtain e w3 where ev: "append_event ''j'' (Some ''p'') ''checkpoint_saved'' ?d w2 = (Inr e, w3)" "no_faults w3"
    using runsE [OF runs_append wb(2)] by metis
  have ck3: "w_checkpoints w3 = []" using append_event_frame(4) [OF ev(1)] ck2 by simp
  have s: "sys_op w3 = (Inr (), w3\<lparr>w_ops := Suc (w_ops w3)\<rparr>)"
    using ev(2) by (simp add: sys_op_def no_faults_def)
  have "\<exists>c w'. save_checkpoint (\<lambda>v. ''{}'') ''j'' ''p'' None ''task'' Null [] [] demo_world = (Inr c, w')"
    unfolding save_checkpoint_def Let_def io_bind_Inr [where m = now_ms, OF n]
      io_bind_Inr [where m = "write_blob j n c" for j n c, OF wb(1)]
      io_bind_Inr [where m = "append_event j p t d" for j p t d, OF ev(1)]
      io_bind_Inr [where m = sys_op, OF s] io_bind_Inr [where m = io_get, OF io_get_apply]
    by (simp add: ck3 io_bind_Inr [where m = "put_world f" for f, OF put_world_apply] io_return_apply)
  then obtain c w' where r: "save_checkpoint (\<lambda>v. ''{}'') ''j'' ''p'' None ''task'' Null [] [] demo_world = (Inr c, w')"
    by blast
  from saved_checkpoint_is_complete [OF r] r show ?thesis by (auto simp: plain_name_def)
qed

definition demo_checkpointed :: world where
  "demo_checkpointed = demo_world\<lparr>w_checkpoints := [\<lparr>cp_checkpoint_id = ''ckpt_j_5'', cp_job_id = ''j'',
     cp_pid = ''p'', cp_runtime_id = None, cp_kind = ''task'', cp_state_ref = ''blob://j/x'',
     cp_input_refs = [], cp_output_refs = [], cp_created_event_id = 1\<rparr>]\<rparr>"

theorem checkpoint_collision_leaves_event_witness:
  "\<exists>w'. save_checkpoint (\<lambda>v. ''{}'') ''j'' ''p'' None ''task'' Null [] [] demo_checkpointed
       = (Inl (IoError OtherKind ''UNIQUE constraint failed''), w') \<and>
     length (w_checkpoints w') = 1 \<and> length (job_events ''j'' (w_events w')) = 1"
proof -
  have "\<forall>n. \<not> w_fault demo_checkpointed n" "w_clock demo_checkpointed n = 5"
    "job_events ''j'' (w_events demo_checkpointed) = []" "length (w_checkpoints demo_checkpointed) = 1" for n
    by (simp_all add: demo_checkpointed_def demo_world_def job_events_def)
  moreover have "''ckpt_'' @ ''j'' @ ''_'' @ dec 5 \<in> cp_checkpoint_id ` set (w_checkpoints demo_checkpointed)"
    by (simp add: demo_checkpointed_def dec.simps digit_char_def)
  ultimately show ?thesis
    using checkpoint_collision_leaves_event [of demo_checkpointed "''j''" "\<lambda>v. ''{}''" "''p''" None
      "''task''" Null "[]" "[]"] by auto
qed

theorem created_job_is_registered_witness:
  "\<exists>job p jid w'. create_agent_job ''/ws'' ''goal'' demo_world = (Inr (job, p, jid), w') \<and>
     job_rows jid (w_jobs w') = [job] \<and> aj_status job = ''running''"
proof -
  obtain x w' where "create_agent_job ''/ws'' ''goal'' demo_world = (Inr x, w')"
    using runs_create_agent_job demo_no_faults by (rule runsE)
  then obtain job p jid where r: "create_agent_job ''/ws'' ''goal'' demo_world = (Inr (job, p, jid), w')"
    by (metis prod_cases3)
  from created_job_is_registered [OF r] r show ?thesis by (simp add: demo_world_def job_rows_def)
qed

end
