(* ===== verification/Approval_Policy.thy ===== *)
theory Approval_Policy
  imports Prelude
begin

text \<open>
  The approval policies of \<open>process_kernel/src/capability_kernel.rs\<close> and the classification of
  capabilities by id: which run uncontrolled, which create artifacts, which mutate the workspace.
\<close>

datatype capability_approval_policy = PolicyNone | ReadOnly | PreviewOnly | WorkspaceMutation
  | PreviewBoundMutation | ArtifactCreate | TerminalUnknownSideEffect
  | SourceMutationRequired | PreviewBoundArtifact

fun policy_as_str :: "capability_approval_policy \<Rightarrow> string" where
  "policy_as_str PolicyNone = ''none''"
| "policy_as_str ReadOnly = ''read_only''"
| "policy_as_str PreviewOnly = ''preview_only''"
| "policy_as_str WorkspaceMutation = ''workspace_mutation''"
| "policy_as_str PreviewBoundMutation = ''preview_bound_mutation''"
| "policy_as_str ArtifactCreate = ''artifact_create''"
| "policy_as_str TerminalUnknownSideEffect = ''terminal_unknown_side_effect''"
| "policy_as_str SourceMutationRequired = ''source_mutation_required''"
| "policy_as_str PreviewBoundArtifact = ''preview_bound_artifact''"

definition policy_from_descriptor :: "string \<Rightarrow> capability_approval_policy" where
  "policy_from_descriptor value =
     (let v = to_ascii_lowercase (trim value) in
      if v \<in> {'''', ''none''} then PolicyNone
      else if v = ''read_only'' then ReadOnly
      else if v = ''preview_only'' then PreviewOnly
      else if v \<in> {''workspace_mutation'', ''source_mutation_required''} then WorkspaceMutation
      else if v \<in> {''preview_bound_mutation'', ''preview_bound_artifact''} then PreviewBoundMutation
      else if v = ''artifact_create'' then ArtifactCreate
      else if v \<in> {''terminal_unknown_side_effect'', ''dynamic_terminal_mutation''}
      then TerminalUnknownSideEffect
      else if v = ''dynamic_write_kind'' then PolicyNone
      else PolicyNone)"

fun canonical :: "capability_approval_policy \<Rightarrow> capability_approval_policy" where
  "canonical SourceMutationRequired = WorkspaceMutation"
| "canonical PreviewBoundArtifact = PreviewBoundMutation"
| "canonical p = p"

definition is_uncontrolled :: "capability_approval_policy \<Rightarrow> bool" where
  "is_uncontrolled p \<longleftrightarrow> canonical p \<in> {PolicyNone, ReadOnly, PreviewOnly}"

lemma canonical_idem [simp]: "canonical (canonical p) = canonical p"
  by (cases p) simp_all

lemma is_uncontrolled_canonical [simp]: "is_uncontrolled (canonical p) = is_uncontrolled p"
  by (simp add: is_uncontrolled_def)

lemma lower_trim_policy_str: "to_ascii_lowercase (trim (policy_as_str p)) = policy_as_str p"
  by (cases p; simp only: policy_as_str.simps; code_simp)

lemma policy_roundtrip: "policy_from_descriptor (policy_as_str p) = canonical p"
  unfolding policy_from_descriptor_def lower_trim_policy_str by (cases p) simp_all

definition workspace_mutation_capability :: "string \<Rightarrow> bool" where
  "workspace_mutation_capability capability_id \<longleftrightarrow> capability_id \<in>
     {''workspace.apply_organize_tx'', ''workspace.rename_batch_apply'',
      ''os.write_source_mutation_apply'', ''os.move_path'', ''os.rename_path'', ''os.delete_path'',
      ''office.docx.rewrite_in_place''}"

definition preview_only_capability :: "string \<Rightarrow> bool" where
  "preview_only_capability capability_id \<longleftrightarrow> capability_id \<in>
     {''workspace.plan_organize'', ''workspace.rename_batch_preview'',
      ''os.write_source_mutation_preview'', ''office.docx.rewrite_in_place_preview''}"

definition artifact_create_capability :: "string \<Rightarrow> string list \<Rightarrow> bool" where
  "artifact_create_capability capability_id side_effects \<longleftrightarrow>
     ''write'' \<in> set side_effects \<and> capability_id \<in>
     {''os.write_artifact'', ''os.write_temp_dataset'', ''os.copy_path'', ''os.unzip'', ''os.zip'',
      ''workspace.tree_index'', ''workspace.perf_inventory'', ''dataset.export_csv'',
      ''dataset.export_markdown'', ''artifact.copy_source_set'', ''office.docx.create'',
      ''office.docx.rewrite_save_as'', ''package.build_zip''}"

definition descriptor_approval_policy :: "string \<Rightarrow> string list \<Rightarrow> string" where
  "descriptor_approval_policy capability_id side_effects =
     (if capability_id = ''os.write_file'' then ''dynamic_write_kind''
      else if capability_id = ''terminal.run_command'' then policy_as_str TerminalUnknownSideEffect
      else if preview_only_capability capability_id then policy_as_str PreviewOnly
      else if workspace_mutation_capability capability_id then policy_as_str WorkspaceMutation
      else if artifact_create_capability capability_id side_effects then policy_as_str ArtifactCreate
      else policy_as_str ReadOnly)"

end
