(* ===== verification/Capability_Registry.thy ===== *)
theory Capability_Registry
  imports Approval_Policy
begin

text \<open>
  The capability registry of \<open>process_kernel/src/lib.rs\<close>: the descriptor record, the functions that
  derive its fields from the capability id, and the table of the registered capabilities in the
  code's order (in seven parts), with the verifier registry computed from it.
\<close>

record capability_descriptor =
  cd_capability_id :: string
  cd_input_schema :: string
  cd_output_schema :: string
  cd_preconditions :: "string list"
  cd_side_effects :: "string list"
  cd_required_permissions :: "string list"
  cd_receipt_schema :: string
  cd_verifier :: string
  cd_rollback :: string
  cd_derivation_type :: string
  cd_is_lossless :: bool
  cd_source_refs_required :: bool
  cd_coverage_required :: bool
  cd_verification_required :: bool
  cd_fallback_allowed :: bool
  cd_drilldown_supported :: bool
  cd_approval_policy :: string
  cd_target_path_schema :: string
  cd_artifact_role :: string
  cd_rollback_policy :: string

definition target_path_schema_for_capability :: "string \<Rightarrow> string" where
  "target_path_schema_for_capability c =
     (if c \<in> {''os.copy_path'', ''os.move_path'', ''os.rename_path''} then ''source_path + destination_path''
      else if c = ''os.delete_path'' then ''path''
      else if c \<in> {''os.write_file'', ''os.write_artifact'', ''os.write_temp_dataset'',
                   ''os.write_source_mutation_preview'', ''os.write_source_mutation_apply''} then ''path''
      else if c = ''os.zip'' then ''destination_zip_path''
      else if c = ''os.unzip'' then ''archive_path + destination_dir''
      else if c = ''workspace.plan_organize'' then ''organize_plan_ref target_paths''
      else if c \<in> {''workspace.rename_batch_preview'', ''workspace.rename_batch_apply''}
      then ''rename_plan_ref target_paths''
      else if c = ''workspace.apply_organize_tx'' then ''organize_plan_ref target_paths''
      else if c = ''workspace.tree_index'' then ''tree_path''
      else if c = ''workspace.perf_inventory'' then ''output_path''
      else if c \<in> {''dataset.export_csv'', ''dataset.export_markdown''} then ''output_path''
      else if c = ''artifact.copy_source_set'' then ''destination_dir''
      else if c \<in> {''office.docx.create'', ''office.docx.rewrite_save_as''} then ''output_path''
      else if c \<in> {''office.docx.rewrite_in_place_preview'', ''office.docx.rewrite_in_place''} then ''input_path''
      else if c = ''package.build_zip''
      then ''destination_zip_path + manifest_path + checksums_path + perf_notes_path''
      else if c = ''terminal.run_command'' then ''explicit target_paths required for mutation commands''
      else if c \<in> {''process.preview.create'', ''process.request_preview''}
      then ''operations[].capability_id + operations[].target_paths + human_description''
      else ''none'')"

definition artifact_role_for_capability :: "string \<Rightarrow> string" where
  "artifact_role_for_capability c =
     (if c = ''workspace.perf_inventory'' then ''supporting_artifact''
      else if c = ''package.build_zip'' then ''compound_artifact''
      else if c \<in> {''os.write_artifact'', ''dataset.export_csv'', ''dataset.export_markdown'',
                   ''artifact.copy_source_set'', ''office.docx.create'',
                   ''office.docx.rewrite_save_as'', ''workspace.tree_index''}
      then ''required_user_artifact''
      else if c = ''os.write_temp_dataset'' then ''temporary_artifact''
      else if c = ''os.write_source_mutation_apply'' then ''source_mutation''
      else if c \<in> {''source_set.coverage_verify'', ''dataset.coverage_verify'',
                   ''artifact.verify_coverage'', ''artifact.source_coverage_verify'',
                   ''artifact.verify_typed'', ''artifact.audit_quality'', ''model.audit_artifact''}
      then ''audit_artifact''
      else ''none'')"

definition derivation_type_for_capability :: "string \<Rightarrow> string" where
  "derivation_type_for_capability c =
     (if starts_with c ''model.synthesize'' \<or> c = ''model.generate_artifact'' \<or> c = ''model.summarize''
         \<or> c = ''model.summarize_dataset'' \<or> c = ''model.rewrite''
      then ''abstractive''
      else if starts_with c ''model.extract'' \<or> c = ''office.docx.batch_extract_metadata''
      then ''extractive''
      else if str_contains c ''hash'' \<or> str_contains c ''duplicates'' \<or> str_contains c ''recent_changes''
         \<or> str_contains c ''inventory'' \<or> starts_with c ''source_set.''
      then ''metadata''
      else ''raw'')"

definition is_lossless_capability :: "string \<Rightarrow> bool" where
  "is_lossless_capability c \<longleftrightarrow> c \<in>
     {''os.read_file'', ''os.write_artifact'', ''os.write_temp_dataset'',
      ''os.write_source_mutation_apply'', ''os.copy_path'', ''os.move_path'', ''os.rename_path'',
      ''office.docx.read_text'', ''office.workbook.read_cells'', ''office.workbook.read_text'',
      ''data.csv.read_dataset'', ''document.pdf.extract_text'', ''office.docx.batch_read_text''}"

definition source_refs_required_for_capability :: "string \<Rightarrow> bool" where
  "source_refs_required_for_capability c \<longleftrightarrow>
     starts_with c ''model.'' \<or> starts_with c ''dataset.'' \<or> starts_with c ''data.''
     \<or> starts_with c ''document.'' \<or> starts_with c ''artifact.'' \<or> starts_with c ''package.''
     \<or> starts_with c ''office.docx.batch''"

definition coverage_required_for_capability :: "string \<Rightarrow> bool" where
  "coverage_required_for_capability c \<longleftrightarrow>
     starts_with c ''source_set.'' \<or> starts_with c ''dataset.'' \<or> starts_with c ''data.''
     \<or> starts_with c ''document.'' \<or> starts_with c ''office.docx.batch'' \<or> starts_with c ''workspace.''
     \<or> starts_with c ''package.'' \<or> c = ''artifact.verify_coverage'' \<or> c = ''artifact.verify_typed''"

definition drilldown_supported_for_capability :: "string \<Rightarrow> bool" where
  "drilldown_supported_for_capability c \<longleftrightarrow>
     starts_with c ''source_set.'' \<or> starts_with c ''dataset.'' \<or> starts_with c ''office.docx.batch''
     \<or> starts_with c ''workspace.'' \<or> starts_with c ''model.extract''"

definition descriptor ::
  "string \<Rightarrow> string \<Rightarrow> string \<Rightarrow> string list \<Rightarrow> string list \<Rightarrow> string \<Rightarrow> string \<Rightarrow> capability_descriptor" where
  "descriptor capability_id input_schema output_schema permissions side_effects verifier rollback =
     \<lparr>cd_capability_id = capability_id,
      cd_input_schema = input_schema,
      cd_output_schema = output_schema,
      cd_preconditions = [''valid_capability_token'', ''workspace_boundary_checked''],
      cd_side_effects = side_effects,
      cd_required_permissions = permissions,
      cd_receipt_schema = capability_id @ ''.receipt.v2'',
      cd_verifier = verifier,
      cd_rollback = rollback,
      cd_derivation_type = derivation_type_for_capability capability_id,
      cd_is_lossless = is_lossless_capability capability_id,
      cd_source_refs_required = source_refs_required_for_capability capability_id,
      cd_coverage_required = coverage_required_for_capability capability_id,
      cd_verification_required = True,
      cd_fallback_allowed = False,
      cd_drilldown_supported = drilldown_supported_for_capability capability_id,
      cd_approval_policy = descriptor_approval_policy capability_id side_effects,
      cd_target_path_schema = target_path_schema_for_capability capability_id,
      cd_artifact_role = artifact_role_for_capability capability_id,
      cd_rollback_policy = rollback\<rparr>"

section \<open>The table\<close>

definition registry_part_1 :: "capability_descriptor list" where
  "registry_part_1 = [
     descriptor ''os.list_tree''
       ''workspace root''
       ''SourceSetRef'' [''fs:read''] [''read'']
       ''source_set_verifier'' ''none'',
     descriptor ''os.workspace_inventory''
       ''workspace root + max_depth''
       ''WorkspaceInventoryRefs'' [''fs:read''] [''read'']
       ''workspace_inventory_verifier'' ''none'',
     descriptor ''source_set.create''
       ''root_path + include/exclude filters''
       ''SourceSetRef'' [''fs:read''] [''read'']
       ''source_set_verifier'' ''none'',
     descriptor ''source_set.read_page''
       ''SourceSetRef + offset + limit''
       ''SourceSetPageRef'' [''fs:read''] [''read'']
       ''source_set_page_verifier'' ''none'',
     descriptor ''dataset.read_page''
       ''DataSetRef + offset + limit''
       ''DataSetPageRef'' [''fs:read''] [''read'']
       ''dataset_page_verifier'' ''none'',
     descriptor ''data.csv.read_dataset''
       ''CsvPath + has_header + max_rows''
       ''DataSetRef'' [''fs:read''] [''read'']
       ''csv_dataset_verifier'' ''none'',
     descriptor ''source_set.coverage_verify''
       ''SourceSetRef''
       ''SourceSetCoverageReceipt'' [''fs:read''] [''read'']
       ''source_set_coverage_verifier'' ''none'',
     descriptor ''workspace.batch_hash''
       ''SourceSetRef''
       ''DataSetRef'' [''fs:read''] [''read'']
       ''dataset_ref_verifier'' ''none'',
     descriptor ''workspace.find_duplicates''
       ''SourceSetRef''
       ''DuplicateDataSetRef'' [''fs:read''] [''read'']
       ''duplicate_dataset_verifier'' ''none'',
     descriptor ''workspace.recent_changes''
       ''SourceSetRef + days''
       ''RecentChangesDataSetRef'' [''fs:read''] [''read'']
       ''recent_changes_dataset_verifier'' ''none'',
     descriptor ''workspace.plan_organize''
       ''SourceSetRef + destination_root''
       ''WorkspaceOrganizePlanRef'' [''fs:read''] [''read'']
       ''organize_plan_verifier'' ''none'',
     descriptor ''workspace.apply_organize_tx''
       ''WorkspaceOrganizePlanRef + approval_id''
       ''WorkspaceMutationTxReceipt'' [''fs:read'', ''fs:write''] [''write'']
       ''workspace_mutation_tx_verifier'' ''tx_rollback'',
     descriptor ''workspace.rename_batch_preview''
       ''RenameMappings''
       ''WorkspaceRenamePreviewRef'' [''fs:read''] [''read'']
       ''rename_preview_verifier'' ''none'',
     descriptor ''workspace.rename_batch_apply''
       ''RenameMappings + approval_id''
       ''WorkspaceMutationTxReceipt'' [''fs:read'', ''fs:write''] [''write'']
       ''workspace_mutation_tx_verifier'' ''tx_rollback'',
     descriptor ''workspace.tree_index''
       ''SourceSetRef + optional tree_path''
       ''TreeIndexArtifactRef'' [''fs:read'', ''fs:write''] [''write'']
       ''tree_index_verifier'' ''delete_artifact'']"

definition registry_part_2 :: "capability_descriptor list" where
  "registry_part_2 = [
     descriptor ''workspace.perf_inventory''
       ''SourceSetRef + optional output_path''
       ''PerfNotesArtifactRef'' [''fs:read'', ''fs:write''] [''write'']
       ''perf_inventory_verifier'' ''delete_artifact'',
     descriptor ''workspace.recent_changes_snapshot''
       ''SourceSetRef + days''
       ''RecentChangesDataSetRef'' [''fs:read''] [''read'']
       ''recent_changes_dataset_verifier'' ''none'',
     descriptor ''dataset.export_csv''
       ''DataSetRef + ArtifactPath''
       ''ArtifactRef'' [''fs:read'', ''fs:write''] [''write'']
       ''artifact_verifier'' ''delete_artifact'',
     descriptor ''dataset.export_markdown''
       ''DataSetRef + ArtifactPath''
       ''ArtifactRef'' [''fs:read'', ''fs:write''] [''write'']
       ''artifact_verifier'' ''delete_artifact'',
     descriptor ''dataset.coverage_verify''
       ''DataSetRef''
       ''DataSetCoverageReceipt'' [''fs:read''] [''read'']
       ''dataset_coverage_verifier'' ''none'',
     descriptor ''artifact.inspect''
       ''ArtifactPath''
       ''ArtifactInspectionReceipt'' [''fs:read''] [''read'']
       ''artifact_inspection_verifier'' ''none'',
     descriptor ''artifact.audit_readonly''
       ''ArtifactPath''
       ''ArtifactReadonlyAuditReceipt'' [''fs:read''] [''read'']
       ''artifact_readonly_audit_verifier'' ''none'',
     descriptor ''client_env.scan_overview''
       ''ClientEnvScanOptions''
       ''ClientEnvSnapshotRef'' [''client_env:read''] [''read'']
       ''client_env_snapshot_verifier'' ''none'',
     descriptor ''client_env.scan_device''
       ''ClientEnvScanOptions''
       ''ClientEnvSnapshotRef'' [''client_env:read''] [''read'']
       ''client_env_snapshot_verifier'' ''none'',
     descriptor ''client_env.scan_storage''
       ''ClientEnvScanOptions''
       ''ClientEnvSnapshotRef'' [''client_env:read''] [''read'']
       ''client_env_snapshot_verifier'' ''none'',
     descriptor ''client_env.scan_network''
       ''ClientEnvScanOptions''
       ''ClientEnvSnapshotRef'' [''client_env:read''] [''read'']
       ''client_env_snapshot_verifier'' ''none'',
     descriptor ''client_env.scan_runtimes''
       ''ClientEnvScanOptions''
       ''ClientEnvSnapshotRef'' [''client_env:read''] [''read'']
       ''client_env_snapshot_verifier'' ''none'',
     descriptor ''client_env.read_snapshot''
       ''ClientEnvSnapshotRef + offset + limit''
       ''ClientEnvSnapshotPageRef'' [''client_env:read''] [''read'']
       ''client_env_snapshot_verifier'' ''none'',
     descriptor ''client_env.request_sensitive_disclosure''
       ''requested_fields + reason''
       ''ClientEnvDisclosureRequestReceipt'' [''client_env:read''] [''read'']
       ''client_env_disclosure_verifier'' ''none'',
     descriptor ''artifact.copy_source_set''
       ''SourceSetRef + DestinationDir''
       ''ArtifactTreeRef'' [''fs:read'', ''fs:write''] [''write'']
       ''artifact_tree_verifier'' ''delete_artifact'']"

definition registry_part_3 :: "capability_descriptor list" where
  "registry_part_3 = [
     descriptor ''os.write_artifact''
       ''artifact ref + bytes''
       ''ArtifactRef'' [''fs:write''] [''write'']
       ''artifact_verifier'' ''delete_artifact'',
     descriptor ''os.write_temp_dataset''
       ''WorkspaceTempPath + bytes''
       ''TempDataSetArtifactRef'' [''fs:write''] [''write'']
       ''temp_dataset_verifier'' ''delete_artifact'',
     descriptor ''os.stat_path''
       ''WorkspacePath''
       ''PathStatReceipt'' [''fs:read''] [''read'']
       ''path_stat_verifier'' ''none'',
     descriptor ''os.read_file''
       ''WorkspaceFilePath''
       ''DataSetRef'' [''fs:read''] [''read'']
       ''dataset_ref_verifier'' ''none'',
     descriptor ''os.write_file''
       ''WorkspaceFilePath + bytes + write_kind''
       ''MutationReceipt'' [''fs:write''] [''write'']
       ''mutation_receipt_verifier'' ''tx_rollback'',
     descriptor ''os.write_source_mutation_preview''
       ''WorkspaceFilePath + bytes''
       ''PreviewOnlyReceipt'' [''fs:write''] [''preview'']
       ''preview_tx_verifier'' ''none'',
     descriptor ''os.write_source_mutation_apply''
       ''WorkspaceFilePath + bytes + approval_id''
       ''MutationReceipt'' [''fs:write''] [''write'']
       ''mutation_receipt_verifier'' ''tx_rollback'',
     descriptor ''os.copy_path''
       ''SourcePath + DestinationPath''
       ''MutationReceipt'' [''fs:read'', ''fs:write''] [''write'']
       ''mutation_receipt_verifier'' ''tx_rollback'',
     descriptor ''os.move_path''
       ''SourcePath + DestinationPath''
       ''MutationReceipt'' [''fs:read'', ''fs:write''] [''write'']
       ''mutation_receipt_verifier'' ''tx_rollback'',
     descriptor ''os.rename_path''
       ''SourcePath + DestinationPath''
       ''MutationReceipt'' [''fs:read'', ''fs:write''] [''write'']
       ''mutation_receipt_verifier'' ''tx_rollback'',
     descriptor ''os.delete_path''
       ''WorkspacePath''
       ''MutationReceipt'' [''fs:write''] [''write'']
       ''mutation_receipt_verifier'' ''tx_rollback'',
     descriptor ''os.hash_path''
       ''WorkspacePath''
       ''HashReceipt'' [''fs:read''] [''read'']
       ''hash_receipt_verifier'' ''none'',
     descriptor ''os.zip''
       ''WorkspacePaths + DestinationZipPath''
       ''ArchiveReceipt'' [''fs:read'', ''fs:write''] [''write'']
       ''archive_receipt_verifier'' ''tx_rollback'',
     descriptor ''os.unzip''
       ''ArchivePath + DestinationDir''
       ''ArchiveReceipt'' [''fs:read'', ''fs:write''] [''write'']
       ''archive_receipt_verifier'' ''tx_rollback'',
     descriptor ''os.diff''
       ''LeftPath + RightPath''
       ''DiffRef'' [''fs:read''] [''read'']
       ''diff_receipt_verifier'' ''none'']"

definition registry_part_4 :: "capability_descriptor list" where
  "registry_part_4 = [
     descriptor ''os.rollback_tx''
       ''TxId''
       ''RollbackReceipt'' [''fs:write''] [''write'']
       ''rollback_receipt_verifier'' ''none'',
     descriptor ''os.verify_artifact''
       ''ArtifactRef''
       ''VerifyReceipt'' [''fs:read''] [''read'']
       ''verify_receipt_verifier'' ''none'',
     descriptor ''process.read_ref''
       ''TypedRef''
       ''RefReadReceipt'' [''process:control''] [''read_process_truth'']
       ''ref_read_receipt_verifier'' ''none'',
     descriptor ''tool.result.page''
       ''RawResultRef + offset + limit_bytes''
       ''RawResultPageReceipt'' [''process:control''] [''read_process_truth'']
       ''raw_result_page_verifier'' ''none'',
     descriptor ''tool.result.search''
       ''RawResultRef + query + max_matches''
       ''RawResultSearchReceipt'' [''process:control''] [''read_process_truth'']
       ''raw_result_search_verifier'' ''none'',
     descriptor ''tool.result.inspect_schema''
       ''RawResultRef''
       ''RawResultSchemaReceipt'' [''process:control''] [''read_process_truth'']
       ''raw_result_schema_verifier'' ''none'',
     descriptor ''process.query_events''
       ''EventQuery''
       ''ProcessTruthEventsReceipt'' [''process:control''] [''read_process_truth'']
       ''process_truth_query_verifier'' ''none'',
     descriptor ''process.toolset.select''
       ''ToolsetGroupSelection''
       ''ProviderToolsetSelectionReceipt'' [''process:control''] [''read_process_truth'']
       ''provider_toolset_selection_verifier'' ''none'',
     descriptor ''process.fork_child''
       ''ChildProcessSpec + typed refs''
       ''ChildProcessReceipt'' [''process:control''] [''process'']
       ''child_process_receipt_verifier'' ''none'',
     descriptor ''process.request_preview''
       ''PreviewSpec + executable_operations[] + artifact refs''
       ''PreviewReceipt'' [''process:control''] [''append_process_truth'']
       ''preview_receipt_verifier'' ''none'',
     descriptor ''process.preview.create''
       ''PreviewTxSpec + executable_operations[]''
       ''PreviewTxReceipt'' [''process:control''] [''append_process_truth'']
       ''preview_tx_verifier'' ''none'',
     descriptor ''process.approval.record''
       ''PreviewTxRef + approval note''
       ''ApprovalToken'' [''process:control''] [''append_process_truth'']
       ''approval_token_verifier'' ''none'',
     descriptor ''process.pending_approvals''
       ''ProcessTruthQuery''
       ''PendingApprovalsReceipt'' [''process:control''] [''read_process_truth'']
       ''pending_approval_verifier'' ''none'',
     descriptor ''chat.answer''
       ''AssistantContent + cited refs''
       ''ChatAnswerControlReceipt'' [''chat:control''] [''append_chat_truth'']
       ''chat_answer_control_verifier'' ''none'',
     descriptor ''chat.clarify''
       ''ClarificationQuestion + missing fact''
       ''ChatClarificationControlReceipt'' [''chat:control''] [''append_chat_truth'']
       ''chat_clarification_control_verifier'' ''none'']"

definition registry_part_5 :: "capability_descriptor list" where
  "registry_part_5 = [
     descriptor ''chat.needs_task''
       ''SuggestedTaskGoal + context pack id''
       ''ChatNeedsTaskControlReceipt'' [''chat:control''] [''append_chat_truth'']
       ''chat_needs_task_control_verifier'' ''none'',
     descriptor ''process.clarify''
       ''ClarificationRequest''
       ''ClarificationReceipt'' [''process:control''] [''append_process_truth'']
       ''clarification_receipt_verifier'' ''none'',
     descriptor ''process.complete''
       ''CompletionStatement + claimed_artifacts + hard-boundary facts''
       ''CompletionReceipt'' [''process:control''] [''append_process_truth'']
       ''completion_receipt_verifier'' ''none'',
     descriptor ''process.fail''
       ''FailureEvidenceRefs''
       ''FailureReceipt'' [''process:control''] [''append_process_truth'']
       ''failure_receipt_verifier'' ''none'',
     descriptor ''terminal.run_command''
       ''argv + explicit timeout_ms''
       ''CommandReceipt'' [''terminal:execute''] [''process'']
       ''command_receipt_verifier'' ''policy_tx'',
     descriptor ''terminal.start_service''
       ''service_id + argv + startup_timeout_ms + optional health_check''
       ''ServiceReceipt'' [''terminal:execute''] [''process'']
       ''service_receipt_verifier'' ''service_stop'',
     descriptor ''terminal.stop_service''
       ''service_id + reason''
       ''ServiceReceipt'' [''terminal:execute''] [''process'']
       ''service_receipt_verifier'' ''none'',
     descriptor ''terminal.service_status''
       ''service_id''
       ''ServiceReceipt'' [''terminal:execute''] [''read'']
       ''service_receipt_verifier'' ''none'',
     descriptor ''model.invoke''
       ''ModelAction + refs''
       ''ModelCallReceipt'' [''model:invoke''] [''network'']
       ''model_ledger_verifier'' ''none'',
     descriptor ''model.decide_next_action''
       ''ModelAction + observation refs''
       ''ModelCallReceipt'' [''model:invoke''] [''network'']
       ''model_ledger_verifier'' ''none'',
     descriptor ''model.chat_turn''
       ''ChatTurnAction + chat/context refs''
       ''ModelCallReceipt'' [''model:invoke''] [''network'']
       ''model_chat_turn_verifier'' ''none'',
     descriptor ''model.compact_container_context''
       ''ContainerContextCompactionInput''
       ''ContainerContextCompactionSummary'' [''model:invoke''] [''network'']
       ''container_context_compaction_verifier'' ''none'',
     descriptor ''model.compact_chat_context''
       ''ChatContextCompactionInput''
       ''ChatContextCompactionSummary'' [''model:invoke''] [''network'']
       ''chat_context_compaction_verifier'' ''none'',
     descriptor ''model.compact_task_context''
       ''TaskContextCompactionInput''
       ''TaskContextCompactionSummary'' [''model:invoke''] [''network'']
       ''task_context_compaction_verifier'' ''none'',
     descriptor ''model.extract_json''
       ''ModelAction + typed refs + output schema''
       ''ModelCallReceipt'' [''model:invoke''] [''network'']
       ''model_schema_verifier'' ''none'']"

definition registry_part_6 :: "capability_descriptor list" where
  "registry_part_6 = [
     descriptor ''model.extract_dataset''
       ''ModelAction + RawDocumentSet/DataSet refs + output schema''
       ''CandidateDataSetRef'' [''model:invoke''] [''network'']
       ''model_dataset_schema_verifier'' ''none'',
     descriptor ''model.summarize_dataset''
       ''ModelAction + DataSetRef''
       ''ModelCallReceipt'' [''model:invoke''] [''network'']
       ''model_source_grounding_verifier'' ''none'',
     descriptor ''model.synthesize_artifact_from_dataset''
       ''ModelAction + DataSetRef + artifact instruction''
       ''ModelCallReceipt'' [''model:invoke''] [''network'']
       ''model_artifact_generation_verifier'' ''none'',
     descriptor ''model.audit_artifact''
       ''model_audit_agent ArtifactAuditAction + artifact path + source/coverage refs''
       ''ArtifactModelAuditReceipt'' [''model:invoke''] [''network'', ''append_process_truth'']
       ''model_artifact_audit_schema_verifier'' ''none'',
     descriptor ''model.audit_artifact_quality''
       ''model_audit_agent ArtifactAuditAction + artifact path + source/coverage refs''
       ''ArtifactModelAuditReceipt'' [''model:invoke''] [''network'', ''append_process_truth'']
       ''model_artifact_audit_schema_verifier'' ''none'',
     descriptor ''model.summarize''
       ''ModelAction + source refs''
       ''ModelCallReceipt'' [''model:invoke''] [''network'']
       ''model_source_grounding_verifier'' ''none'',
     descriptor ''model.rewrite''
       ''ModelAction + source refs + rewrite constraints''
       ''ModelCallReceipt'' [''model:invoke''] [''network'']
       ''model_rewrite_verifier'' ''none'',
     descriptor ''model.generate_artifact''
       ''ModelAction + source refs + artifact schema''
       ''ModelCallReceipt'' [''model:invoke''] [''network'']
       ''model_artifact_generation_verifier'' ''none'',
     descriptor ''model.audit''
       ''ModelAction + artifact refs + audit schema''
       ''ModelCallReceipt'' [''model:invoke''] [''network'']
       ''model_audit_verifier'' ''none'',
     descriptor ''model.render_entity_reply''
       ''EntityRenderAction + context refs''
       ''ModelCallReceipt'' [''model:invoke''] [''network'']
       ''model_entity_reply_verifier'' ''none'',
     descriptor ''office.docx.read_text''
       ''DocxRef''
       ''DocxExtractionReceipt'' [''office:read''] [''read'']
       ''openxml_docx_verifier'' ''none'',
     descriptor ''office.inspect_workbook''
       ''WorkbookPath''
       ''WorkbookInspectionReceipt'' [''office:read''] [''read'']
       ''workbook_inspection_verifier'' ''none'',
     descriptor ''office.workbook.read_cells''
       ''WorkbookPath + sheet + max_rows''
       ''WorkbookCellsReceipt'' [''office:read''] [''read'']
       ''openxml_workbook_verifier'' ''none'',
     descriptor ''office.workbook.read_text''
       ''WorkbookPath + sheet + max_rows''
       ''WorkbookTextReceipt'' [''office:read''] [''read'']
       ''openxml_workbook_verifier'' ''none'',
     descriptor ''document.pdf.extract_text''
       ''PdfPath''
       ''PdfTextExtractionReceipt'' [''fs:read''] [''read'']
       ''pdf_text_layer_verifier'' ''none'']"

definition registry_part_7 :: "capability_descriptor list" where
  "registry_part_7 = [
     descriptor ''office.docx.batch_read_text''
       ''SourceSetRef''
       ''RawDocumentSetRef'' [''office:read''] [''read'']
       ''openxml_batch_docx_verifier'' ''none'',
     descriptor ''office.docx.batch_extract_metadata''
       ''SourceSetRef''
       ''DocxMetadataDataSetRef'' [''office:read''] [''read'']
       ''openxml_batch_metadata_verifier'' ''none'',
     descriptor ''office.docx.batch_validate''
       ''SourceSetRef''
       ''OpenXmlBatchValidationReceipt'' [''office:read''] [''read'']
       ''openxml_batch_validation_verifier'' ''none'',
     descriptor ''office.docx.create''
       ''DocxArtifactSpec + TextRef''
       ''OfficeArtifactReceipt'' [''office:write''] [''write'']
       ''openxml_validation_verifier'' ''tx_rollback'',
     descriptor ''office.docx.rewrite_save_as''
       ''DocxRef + OutputPath + RewrittenTextRef''
       ''OfficeArtifactReceipt'' [''office:write''] [''write'']
       ''openxml_validation_verifier'' ''tx_rollback'',
     descriptor ''office.docx.rewrite_preview''
       ''DocxRef + RewrittenTextRef''
       ''OfficePreviewReceipt'' [''office:read''] [''read'']
       ''office_preview_verifier'' ''none'',
     descriptor ''office.docx.rewrite_in_place_preview''
       ''DocxRef + RewrittenTextRef''
       ''OfficePreviewReceipt'' [''office:read''] [''read'']
       ''office_preview_verifier'' ''none'',
     descriptor ''office.docx.rewrite_in_place''
       ''DocxRef + RewrittenTextRef + ApprovalToken''
       ''OfficeMutationReceipt'' [''office:write''] [''write'']
       ''openxml_validation_verifier'' ''tx_rollback'',
     descriptor ''office.docx.diff_summary''
       ''BeforeDocxRef + AfterDocxRef''
       ''OfficeDiffReceipt'' [''office:read''] [''read'']
       ''office_diff_verifier'' ''none'',
     descriptor ''office.docx.validate''
       ''DocxRef''
       ''OpenXmlValidationReceipt'' [''office:read''] [''read'']
       ''openxml_validation_verifier'' ''none'',
     descriptor ''package.build_zip''
       ''SourceSetRef + package output paths + exclude rules''
       ''PackageReceipt'' [''fs:read'', ''fs:write''] [''write'']
       ''package_receipt_verifier'' ''delete_artifact'',
     descriptor ''artifact.verify_coverage''
       ''ArtifactPath + SourceSetRef/DataSetRef''
       ''ArtifactCoverageReceipt'' [''fs:read''] [''read'']
       ''artifact_coverage_verifier'' ''none'',
     descriptor ''artifact.source_coverage_verify''
       ''ArtifactPath + SourceSetRef/DataSetRef''
       ''ArtifactCoverageReceipt'' [''fs:read''] [''read'']
       ''artifact_coverage_verifier'' ''none'',
     descriptor ''artifact.verify_typed''
       ''ArtifactPath''
       ''TypedArtifactVerifierReceipt'' [''fs:read''] [''read'']
       ''typed_artifact_verifier'' ''none'',
     descriptor ''artifact.audit_quality''
       ''ArtifactPath + quality policy''
       ''ArtifactQualityReceipt'' [''fs:read''] [''read'']
       ''artifact_quality_verifier'' ''none'']"

definition default_capability_registry :: "capability_descriptor list" where
  "default_capability_registry =
     registry_part_1 @ registry_part_2 @ registry_part_3 @ registry_part_4 @ registry_part_5
     @ registry_part_6 @ registry_part_7"

record verifier_spec =
  vs_verifier_id :: string
  vs_target_id :: string
  vs_input_refs :: "string list"
  vs_checks :: "string list"
  vs_failure_policy :: string

definition default_verifier_registry :: "verifier_spec list" where
  "default_verifier_registry = map (\<lambda>d.
     \<lparr>vs_verifier_id = cd_verifier d,
      vs_target_id = cd_capability_id d,
      vs_input_refs = [''capability_receipt_ref'', ''process_truth_event_ref''],
      vs_checks = [''schema_valid'', ''workspace_boundary_valid'', ''no_silent_fallback''],
      vs_failure_policy = ''fail_closed''\<rparr>) default_capability_registry"

section \<open>Facts about the table\<close>

lemmas registry_table =
  default_capability_registry_def registry_part_1_def registry_part_2_def registry_part_3_def
  registry_part_4_def registry_part_5_def registry_part_6_def registry_part_7_def

definition controlled :: "capability_descriptor \<Rightarrow> bool" where
  "controlled d = (\<not> is_uncontrolled (policy_from_descriptor (cd_approval_policy d)))"

lemmas policy_sets =
  preview_only_capability_def workspace_mutation_capability_def artifact_create_capability_def

lemma controlled_descriptor:
  "controlled (descriptor c ins outs perms effs ver rb) \<longleftrightarrow>
     c = ''terminal.run_command'' \<or> workspace_mutation_capability c \<or> artifact_create_capability c effs"
proof -
  have dyn: "policy_from_descriptor ''dynamic_write_kind'' = PolicyNone" by code_simp
  have "preview_only_capability c \<Longrightarrow>
      \<not> workspace_mutation_capability c \<and> \<not> artifact_create_capability c effs \<and> c \<noteq> ''terminal.run_command''"
    unfolding preview_only_capability_def by (elim insertE emptyE) (simp_all add: policy_sets)
  moreover have "\<not> workspace_mutation_capability ''os.write_file''"
    "\<not> artifact_create_capability ''os.write_file'' effs" by (simp_all add: policy_sets)
  moreover have "controlled (descriptor c ins outs perms effs ver rb) \<longleftrightarrow>
     c \<noteq> ''os.write_file'' \<and>
     (c = ''terminal.run_command'' \<or>
      \<not> preview_only_capability c \<and> (workspace_mutation_capability c \<or> artifact_create_capability c effs))"
    by (simp add: dyn controlled_def descriptor_def descriptor_approval_policy_def policy_roundtrip
        is_uncontrolled_def del: policy_as_str.simps)
  ultimately show ?thesis by auto
qed

lemma descriptor_sel [simp]:
  "cd_capability_id (descriptor c ins outs perms effs ver rb) = c"
  "cd_side_effects (descriptor c ins outs perms effs ver rb) = effs"
  "cd_required_permissions (descriptor c ins outs perms effs ver rb) = perms"
  "cd_rollback (descriptor c ins outs perms effs ver rb) = rb"
  "cd_target_path_schema (descriptor c ins outs perms effs ver rb) = target_path_schema_for_capability c"
  "cd_fallback_allowed (descriptor c ins outs perms effs ver rb) = False"
  "cd_verification_required (descriptor c ins outs perms effs ver rb) = True"
  by (simp_all add: descriptor_def)

text \<open>
  Every registered capability has its own id, so looking a descriptor up by id is unambiguous; the ids stay
  apart when their dots are written as underscores, as the names of the provider's tools do.
\<close>

fun dots_to_underscores :: "string \<Rightarrow> string" where
  "dots_to_underscores [] = []"
| "dots_to_underscores (c # cs) = (if c = CHR ''.'' then CHR ''_'' else c) # dots_to_underscores cs"

lemma underscored_ids_distinct: "distinct (map dots_to_underscores (map cd_capability_id default_capability_registry))"
  by (simp add: registry_table)

theorem registry_ids_distinct: "distinct (map cd_capability_id default_capability_registry)"
  by (rule distinct_map [THEN iffD1, THEN conjunct1, OF underscored_ids_distinct])

text \<open>The uncontrolled writers and the controlled capabilities, part by part.\<close>

definition uncontrolled_writers :: "capability_descriptor list \<Rightarrow> string list" where
  "uncontrolled_writers ds = map cd_capability_id
     (filter (\<lambda>d. \<not> controlled d) (filter (\<lambda>d. ''write'' \<in> set (cd_side_effects d)) ds))"

definition unscoped_controlled :: "capability_descriptor list \<Rightarrow> capability_descriptor list" where
  "unscoped_controlled ds =
     filter (\<lambda>d. cd_target_path_schema d = ''none'' \<or> cd_rollback d = ''none'') (filter controlled ds)"

lemma part_append:
  "uncontrolled_writers (ds @ es) = uncontrolled_writers ds @ uncontrolled_writers es"
  "unscoped_controlled (ds @ es) = unscoped_controlled ds @ unscoped_controlled es"
  by (simp_all add: uncontrolled_writers_def unscoped_controlled_def)

lemma uncontrolled_writers_1: "uncontrolled_writers registry_part_1 = []"
  by (simp add: uncontrolled_writers_def registry_part_1_def controlled_descriptor policy_sets
      del: filter_filter)

lemma unscoped_controlled_1: "unscoped_controlled registry_part_1 = []"
  by (simp add: unscoped_controlled_def registry_part_1_def controlled_descriptor policy_sets
      target_path_schema_for_capability_def del: filter_filter)

lemma uncontrolled_writers_2: "uncontrolled_writers registry_part_2 = []"
  by (simp add: uncontrolled_writers_def registry_part_2_def controlled_descriptor policy_sets
      del: filter_filter)

lemma unscoped_controlled_2: "unscoped_controlled registry_part_2 = []"
  by (simp add: unscoped_controlled_def registry_part_2_def controlled_descriptor policy_sets
      target_path_schema_for_capability_def del: filter_filter)

lemma uncontrolled_writers_3: "uncontrolled_writers registry_part_3 = [''os.write_file'']"
  by (simp add: uncontrolled_writers_def registry_part_3_def controlled_descriptor policy_sets
      del: filter_filter)

lemma unscoped_controlled_3: "unscoped_controlled registry_part_3 = []"
  by (simp add: unscoped_controlled_def registry_part_3_def controlled_descriptor policy_sets
      target_path_schema_for_capability_def del: filter_filter)

lemma uncontrolled_writers_4: "uncontrolled_writers registry_part_4 = [''os.rollback_tx'']"
  by (simp add: uncontrolled_writers_def registry_part_4_def controlled_descriptor policy_sets
      del: filter_filter)

lemma unscoped_controlled_4: "unscoped_controlled registry_part_4 = []"
  by (simp add: unscoped_controlled_def registry_part_4_def controlled_descriptor policy_sets
      target_path_schema_for_capability_def del: filter_filter)

lemma uncontrolled_writers_5: "uncontrolled_writers registry_part_5 = []"
  by (simp add: uncontrolled_writers_def registry_part_5_def controlled_descriptor policy_sets
      del: filter_filter)

lemma unscoped_controlled_5: "unscoped_controlled registry_part_5 = []"
  by (simp add: unscoped_controlled_def registry_part_5_def controlled_descriptor policy_sets
      target_path_schema_for_capability_def del: filter_filter)

lemma uncontrolled_writers_6: "uncontrolled_writers registry_part_6 = []"
  by (simp add: uncontrolled_writers_def registry_part_6_def controlled_descriptor policy_sets
      del: filter_filter)

lemma unscoped_controlled_6: "unscoped_controlled registry_part_6 = []"
  by (simp add: unscoped_controlled_def registry_part_6_def controlled_descriptor policy_sets
      target_path_schema_for_capability_def del: filter_filter)

lemma uncontrolled_writers_7: "uncontrolled_writers registry_part_7 = []"
  by (simp add: uncontrolled_writers_def registry_part_7_def controlled_descriptor policy_sets
      del: filter_filter)

lemma unscoped_controlled_7: "unscoped_controlled registry_part_7 = []"
  by (simp add: unscoped_controlled_def registry_part_7_def controlled_descriptor policy_sets
      target_path_schema_for_capability_def del: filter_filter)

text \<open>
  Of the registered capabilities with a \<open>write\<close> side effect, exactly two carry a static policy
  that the approval layer leaves uncontrolled: \<open>os.write_file\<close>, whose policy is resolved from its
  arguments, and \<open>os.rollback_tx\<close>.
\<close>

theorem registry_uncontrolled_writers:
  "map cd_capability_id
     (filter (\<lambda>d. ''write'' \<in> set (cd_side_effects d) \<and> \<not> controlled d) default_capability_registry)
   = [''os.write_file'', ''os.rollback_tx'']"
proof -
  have "uncontrolled_writers default_capability_registry = [''os.write_file'', ''os.rollback_tx'']"
    unfolding default_capability_registry_def part_append
    by (simp add: uncontrolled_writers_1 uncontrolled_writers_2 uncontrolled_writers_3
        uncontrolled_writers_4 uncontrolled_writers_5 uncontrolled_writers_6 uncontrolled_writers_7)
  then show ?thesis by (simp add: uncontrolled_writers_def)
qed

text \<open>
  Every registered capability whose descriptor policy is controlled declares where its target
  paths are found in its arguments and how it is rolled back: none of them has the target path
  schema \<open>none\<close> or the rollback \<open>none\<close>.
\<close>

theorem registry_controlled_scoped:
  "filter (\<lambda>d. controlled d \<and> (cd_target_path_schema d = ''none'' \<or> cd_rollback d = ''none''))
     default_capability_registry = []"
proof -
  have "unscoped_controlled default_capability_registry = []"
    unfolding default_capability_registry_def part_append
    by (simp add: unscoped_controlled_1 unscoped_controlled_2 unscoped_controlled_3
        unscoped_controlled_4 unscoped_controlled_5 unscoped_controlled_6 unscoped_controlled_7)
  then show ?thesis by (simp add: unscoped_controlled_def filter_filter)
qed

end
