(* ===== verification/Closure_Gate.thy ===== *)
theory Closure_Gate
  imports Approval_Runtime
begin

text \<open>
  \<open>process_kernel/src/closure_gate.rs\<close>: the gate a task passes before it may complete. It reads the
  job's events and the claimed artifacts and sorts what it finds into hard blocks, advisory findings
  and completion facts. What the file system says about a path, and the serializer, are parameters.
\<close>

section \<open>Data\<close>

record closure_block =
  cb_code :: string
  cb_source :: string
  cb_message :: string
  cb_artifact_path :: "string option"

record closure_finding =
  cf_category :: string
  cf_source :: string
  cf_message :: string
  cf_artifact_path :: "string option"
  cf_severity :: string

record closure_fact =
  ct_fact_type :: string
  ct_source :: string
  ct_message :: string

record artifact_role_evidence =
  ar_artifact_path :: string
  ar_role :: string
  ar_expected_verifier :: string

record closure_gate_result =
  cg_can_complete :: bool
  cg_hard_blocks :: "closure_block list"
  cg_advisory_findings :: "closure_finding list"
  cg_completion_facts :: "closure_fact list"
  cg_artifact_roles :: "artifact_role_evidence list"
  cg_missing_artifacts :: "string list"
  cg_failed_verifications :: "string list"
  cg_pending_mutations :: "string list"
  cg_pending_approvals :: "string list"
  cg_coverage_gaps :: "string list"
  cg_audit_gaps :: "string list"
  cg_model_audit_gaps :: "string list"
  cg_typed_artifact_verifier_gaps :: "string list"
  cg_unresolved_required_failures :: "string list"
  cg_human_review_required :: bool

definition closure_pass :: closure_gate_result where
  "closure_pass = \<lparr>cg_can_complete = True, cg_hard_blocks = [], cg_advisory_findings = [],
     cg_completion_facts = [], cg_artifact_roles = [], cg_missing_artifacts = [],
     cg_failed_verifications = [], cg_pending_mutations = [], cg_pending_approvals = [],
     cg_coverage_gaps = [], cg_audit_gaps = [], cg_model_audit_gaps = [],
     cg_typed_artifact_verifier_gaps = [], cg_unresolved_required_failures = [],
     cg_human_review_required = False\<rparr>"

text \<open>What \<open>exists\<close>, \<open>is_file\<close>, \<open>File::open\<close>, \<open>is_dir\<close> and \<open>read_dir\<close> answer for a path.\<close>

record file_probe =
  fp_exists :: "path \<Rightarrow> bool"
  fp_is_file :: "path \<Rightarrow> bool"
  fp_opens :: "path \<Rightarrow> bool"
  fp_is_dir :: "path \<Rightarrow> bool"
  fp_lists :: "path \<Rightarrow> bool"

section \<open>Reading events\<close>

text \<open>The gate's \<open>event_payloads\<close> (the replay has another one) and \<open>payload_value\<close>.\<close>

definition gate_payloads :: "process_event \<Rightarrow> json list" where
  "gate_payloads e =
     (if jget (data e) ''capability_id'' \<noteq> None then [data e]
      else (case jget (data e) ''receipt'' of None \<Rightarrow> [] | Some receipt \<Rightarrow> [receipt]))"

definition all_payloads :: "process_event list \<Rightarrow> json list" where
  "all_payloads events = concat (map gate_payloads events)"

definition payload_value :: "json \<Rightarrow> string \<Rightarrow> json option" where
  "payload_value payload key =
     or_else (jget payload key) (Option.bind (jget payload ''data'') (\<lambda>d. jget d key))"

abbreviation payload_str :: "json \<Rightarrow> string \<Rightarrow> string option" where
  "payload_str payload key \<equiv> Option.bind (payload_value payload key) as_str"

definition artifact_path_from_message :: "string \<Rightarrow> string option" where
  "artifact_path_from_message message =
     (case split_char CHR '':'' message of
        _ # part # _ \<Rightarrow>
          (let candidate = trim part in
           if candidate \<noteq> [] \<and> candidate \<noteq> ''<unknown_artifact>'' \<and>
              (str_contains candidate ''/'' \<or> str_contains candidate ''.'' \<or> starts_with candidate ''blob://'')
           then Some candidate else None)
      | _ \<Rightarrow> None)"

section \<open>Paths and their roles\<close>

definition is_internal_ref :: "string \<Rightarrow> bool" where
  "is_internal_ref v =
     (let lower = to_ascii_lowercase (trim v) in
      starts_with lower ''blob://'' \<or> starts_with lower ''dataset://'' \<or>
      starts_with lower ''artifact://'' \<or> starts_with lower ''artifact_ref://'' \<or>
      starts_with lower ''source_set://'' \<or> starts_with lower ''raw_document_set://'')"

definition artifact_scope_set :: "string list \<Rightarrow> string list" where
  "artifact_scope_set artifact_refs =
     bset_collect (filter (\<lambda>item. item \<noteq> []) (map (\<lambda>item. fwd_slashes (trim item)) artifact_refs))"

definition artifact_role_for_path :: "string \<Rightarrow> string" where
  "artifact_role_for_path path =
     (let lower = to_ascii_lowercase (fwd_slashes path) in
      if starts_with lower ''previews/'' \<or> str_contains lower ''/previews/'' \<or>
         starts_with lower ''audit/'' \<or> str_contains lower ''/audit/'' \<or>
         str_contains lower ''artifact_quality_review''
      then ''audit_artifact''
      else if starts_with lower ''tmp/'' \<or> starts_with lower ''temp/'' \<or>
         str_contains lower ''/tmp/'' \<or> str_contains lower ''/temp/'' \<or> ends_with lower ''.preview.md''
      then ''temporary_artifact''
      else if ends_with lower ''perf_notes.json'' \<or> ends_with lower ''sha256sums.txt'' \<or>
         ends_with lower ''pack_manifest.md'' \<or> ends_with lower ''command_receipts.json'' \<or>
         ends_with lower ''model_call_ledger.json''
      then ''supporting_artifact''
      else ''required_user_artifact'')"

definition requires_semantic_audit :: "string \<Rightarrow> bool" where
  "requires_semantic_audit path =
     (if artifact_role_for_path path \<noteq> ''required_user_artifact'' then False
      else (let lower = to_ascii_lowercase path in
        ends_with lower ''.md'' \<or> ends_with lower ''.txt'' \<or> ends_with lower ''.csv'' \<or>
        ends_with lower ''.docx''))"

definition requires_coverage_verification :: "string \<Rightarrow> bool" where
  "requires_coverage_verification path =
     (if artifact_role_for_path path \<noteq> ''required_user_artifact'' then False
      else (let lower = to_ascii_lowercase path in
        ends_with lower ''.md'' \<or> ends_with lower ''.txt'' \<or> ends_with lower ''.csv'' \<or>
        ends_with lower ''.docx''))"

definition expected_verifier_for_path :: "string \<Rightarrow> string" where
  "expected_verifier_for_path path =
     (let lower = to_ascii_lowercase path in
      if ends_with lower ''.zip'' then ''zip_verifier''
      else if ends_with lower ''sha256sums.txt'' then ''checksum_verifier''
      else if ends_with lower ''perf_notes.json'' then ''perf_json_schema_verifier''
      else if ends_with lower ''pack_manifest.md'' then ''package_manifest_verifier''
      else if ends_with lower ''.docx'' then ''openxml_validation_plus_quality_audit''
      else if requires_semantic_audit path then ''artifact_quality_and_model_audit''
      else ''os_verify_artifact'')"

definition artifact_role_evidence_of :: "string list \<Rightarrow> artifact_role_evidence list" where
  "artifact_role_evidence_of artifacts = map (\<lambda>path.
     \<lparr>ar_artifact_path = path, ar_role = artifact_role_for_path path,
      ar_expected_verifier = expected_verifier_for_path path\<rparr>) artifacts"

section \<open>Missing artifacts\<close>

text \<open>The body of the loop of \<open>missing_artifacts\<close>: what is pushed for one reference.\<close>

definition unreadable :: "file_probe \<Rightarrow> path \<Rightarrow> bool" where
  "unreadable fs p \<longleftrightarrow> \<not> fp_exists fs p \<or> (fp_is_file fs p \<and> \<not> fp_opens fs p) \<or>
     (fp_is_dir fs p \<and> \<not> fp_lists fs p)"

definition missing_artifact :: "path \<Rightarrow> file_probe \<Rightarrow> string \<Rightarrow> string option" where
  "missing_artifact root fs artifact_path =
     (let trimmed = trim artifact_path in
      if trimmed = [] \<or> is_internal_ref trimmed then Some artifact_path
      else (case resolve_workspace_path root (unix_components trimmed) of
              Inl err \<Rightarrow> Some (trimmed @ '':'' @ err)
            | Inr p \<Rightarrow> if unreadable fs p then Some trimmed else None))"

definition missing_artifacts :: "path \<Rightarrow> file_probe \<Rightarrow> string list \<Rightarrow> string list" where
  "missing_artifacts root fs artifact_refs = List.map_filter (missing_artifact root fs) artifact_refs"

section \<open>Verification receipts\<close>

record verification_failure =
  vf_capability_id :: string
  vf_artifact_path :: string
  vf_status :: string
  vf_issues :: "string list"

definition is_hard_artifact_issue :: "string \<Rightarrow> bool" where
  "is_hard_artifact_issue issue =
     (let lower = to_ascii_lowercase issue in
      str_contains lower ''does not exist'' \<or> str_contains lower ''unreadable'' \<or>
      str_contains lower ''internal blob'' \<or> str_contains lower ''internal source ref'' \<or>
      str_contains lower ''blob/dataset'' \<or> str_contains lower ''dataset refs'' \<or>
      str_contains lower ''json/schema wrapper'' \<or> str_contains lower ''structured model'')"

definition is_hard_verification_failure :: "verification_failure \<Rightarrow> bool" where
  "is_hard_verification_failure failure =
     (if vf_capability_id failure = ''os.verify_artifact'' then True
      else list_ex is_hard_artifact_issue (vf_issues failure))"

definition verifier_capability :: "string \<Rightarrow> bool" where
  "verifier_capability capability_id \<longleftrightarrow> capability_id \<in>
     {''os.verify_artifact'', ''artifact.verify_coverage'', ''artifact.source_coverage_verify'',
      ''artifact.verify_typed'', ''artifact.audit_quality''}"

text \<open>The map key and the record of one receipt, for the receipts of a verifier.\<close>

definition verification_entry :: "json \<Rightarrow> (string \<times> verification_failure) option" where
  "verification_entry payload =
     (case get_str payload ''capability_id'' of
        None \<Rightarrow> None
      | Some capability_id \<Rightarrow>
        if \<not> verifier_capability capability_id then None
        else
         (let st = unwrap_or [] (get_str payload ''status'');
              path = fwd_slashes (unwrap_or ''<unknown_artifact>'' (payload_str payload ''artifact_path''));
              issues = unwrap_or [] (map_option strings_of (Option.bind
                (if capability_id = ''artifact.audit_quality'' then payload_value payload ''hard_risk_issues''
                 else payload_value payload ''blocking_issues'') as_array))
          in Some (capability_id @ '':'' @ path,
               \<lparr>vf_capability_id = capability_id, vf_artifact_path = path, vf_status = st,
                vf_issues = issues\<rparr>)))"

definition latest_verifications :: "process_event list \<Rightarrow> (string \<times> verification_failure) list" where
  "latest_verifications events =
     fold (\<lambda>(k, v). bmap_insert k v) (List.map_filter verification_entry (all_payloads events)) []"

definition verification_failures :: "process_event list \<Rightarrow> verification_failure list" where
  "verification_failures events =
     filter (\<lambda>failure. vf_status failure = ''failed'' \<or> vf_status failure = ''blocked'')
       (map snd (latest_verifications events))"

definition hard_failed_verifications :: "process_event list \<Rightarrow> string list" where
  "hard_failed_verifications events = map (\<lambda>f. vf_capability_id f @ '':'' @ vf_artifact_path f @ '':'' @
       vf_status f @ '':'' @ join ''|'' (vf_issues f))
     (filter is_hard_verification_failure (verification_failures events))"

definition verification_advisory_findings :: "process_event list \<Rightarrow> closure_finding list" where
  "verification_advisory_findings events = map (\<lambda>f.
     \<lparr>cf_category = ''verification'', cf_source = vf_capability_id f,
      cf_message = vf_capability_id f @ '':'' @ vf_artifact_path f @ '':'' @
        (if vf_issues f = [] then vf_status f else vf_status f @ '':'' @ join ''|'' (vf_issues f)),
      cf_artifact_path = Some (vf_artifact_path f), cf_severity = ''advisory''\<rparr>)
     (filter (\<lambda>f. \<not> is_hard_verification_failure f) (verification_failures events))"

section \<open>Model audits\<close>

definition latest_model_artifact_audits :: "process_event list \<Rightarrow> (string \<times> json) list" where
  "latest_model_artifact_audits events =
     fold (\<lambda>(k, v). bmap_insert k v)
       (List.map_filter (\<lambda>e. map_option (\<lambda>path. (fwd_slashes path, data e))
            (payload_str (data e) ''artifact_path''))
          (filter (\<lambda>e. event_type e = ''artifact_model_audit_receipt'') events)) []"

fun audit_issue :: "serde \<Rightarrow> json \<Rightarrow> string option" where
  "audit_issue sd (JString s) = Some s"
| "audit_issue sd (Object m) = Some (to_string sd (Object m))"
| "audit_issue sd _ = None"

definition model_audit_issue_strings :: "serde \<Rightarrow> json \<Rightarrow> string list" where
  "model_audit_issue_strings sd audit = concat (map (\<lambda>key.
     (case Option.bind (or_else (payload_value audit key)
             (Option.bind (payload_value audit ''audit_output'') (\<lambda>output. jget output key))) as_array of
        None \<Rightarrow> [] | Some items \<Rightarrow> List.map_filter (audit_issue sd) items))
     [''blocking_issues'', ''factual_risks'', ''coverage_risks'', ''deliverability_risks'',
      ''findings'', ''schema_errors''])"

definition hard_model_audit_failures :: "serde \<Rightarrow> process_event list \<Rightarrow> string list" where
  "hard_model_audit_failures sd events = concat (map (\<lambda>(path, audit).
     map (\<lambda>issue. ''model.audit_artifact_quality:'' @ path @ '':hard:'' @ issue)
       (filter is_hard_artifact_issue (model_audit_issue_strings sd audit)))
     (latest_model_artifact_audits events))"

section \<open>Approvals, mutations and required calls\<close>

definition events_of :: "string list \<Rightarrow> process_event list \<Rightarrow> process_event list" where
  "events_of types events = filter (\<lambda>e. event_type e \<in> set types) events"

definition data_strs :: "string \<Rightarrow> process_event list \<Rightarrow> string list" where
  "data_strs key events = List.map_filter (\<lambda>e. get_str (data e) key) events"

definition pending_approvals :: "process_event list \<Rightarrow> string list" where
  "pending_approvals events =
     (let preview_ids = bset_collect (data_strs ''preview_id'' (events_of [''preview_tx_created''] events));
          approved = bset_collect (data_strs ''preview_id'' (events_of [''approval_token_issued''] events));
          closed = bset_collect (data_strs ''preview_id'' (events_of [''preview_tx_closed''] events))
      in filter (\<lambda>i. i \<notin> set closed) (filter (\<lambda>i. i \<notin> set approved) preview_ids))"

text \<open>The loop over the issued tokens: a token stays pending until it is consumed and its transaction closed.\<close>

definition pending_token :: "string list \<Rightarrow> string list \<Rightarrow> process_event \<Rightarrow> string option" where
  "pending_token consumed_tokens closed_txs e =
     (let token_id = unwrap_or [] (get_str (data e) ''approval_token_id'');
          tx_id = unwrap_or [] (get_str (data e) ''tx_id'') in
      if token_id = [] then None
      else if token_id \<notin> set consumed_tokens \<or> (tx_id \<noteq> [] \<and> tx_id \<notin> set closed_txs)
      then Some (''approved preview tx not consumed or closed: token='' @ token_id @ '' tx='' @ tx_id)
      else None)"

definition policy_blocked :: "process_event \<Rightarrow> bool" where
  "policy_blocked e = unwrap_or False
     (Option.bind (Option.bind (jget (data e) ''data'') (\<lambda>d. jget d ''mutation_policy_blocked'')) as_bool)"

definition pending_mutations :: "process_event list \<Rightarrow> string list" where
  "pending_mutations events =
     (let consumed_tokens = bset_collect (data_strs ''approval_token_id''
            (events_of [''approval_token_consumed'', ''approval_token_used''] events));
          closed_txs = bset_collect (data_strs ''tx_id'' (events_of [''preview_tx_closed''] events))
      in data_strs ''capability_id'' (filter policy_blocked (events_of [''capability_blocked''] events))
         @ List.map_filter (pending_token consumed_tokens closed_txs)
             (events_of [''approval_token_issued''] events))"

definition last_success_event_id :: "process_event list \<Rightarrow> nat" where
  "last_success_event_id events = foldr max (map event_id (events_of [''model_call_completed''] events)) 0"

definition required_failure :: "nat \<Rightarrow> process_event \<Rightarrow> string option" where
  "required_failure last_success e =
     (if event_type e \<noteq> ''model_call_failed'' then None
      else if event_id e < last_success then None
      else if unwrap_or True (get_bool (data e) ''required'')
      then Some (unwrap_or ''model'' (get_str (data e) ''capability_id'') @ '':'' @
        unwrap_or ''model_call_failed''
          (Option.bind (Option.bind (jget (data e) ''error'') (\<lambda>err. jget err ''error_code'')) as_str))
      else None)"

definition unresolved_required_failures :: "process_event list \<Rightarrow> string list" where
  "unresolved_required_failures events =
     List.map_filter (required_failure (last_success_event_id events)) events"

section \<open>Advisory gaps\<close>

definition materializes :: "json \<Rightarrow> bool" where
  "materializes payload \<longleftrightarrow> get_str payload ''capability_id'' \<in> Some `
     {''os.write_file'', ''os.write_artifact'', ''os.zip'', ''dataset.export_csv'',
      ''dataset.export_markdown'', ''artifact.copy_source_set'', ''package.build_zip'',
      ''office.docx.create'', ''office.docx.rewrite_save_as'', ''office.docx.rewrite_in_place'',
      ''workspace.tree_index'', ''workspace.perf_inventory''}"

definition materialized_paths :: "json \<Rightarrow> string list" where
  "materialized_paths payload =
     (if \<not> materializes payload then []
      else map fwd_slashes
        ((case Option.bind (or_else (payload_value payload ''artifact_path'') (payload_value payload ''archive_path'')) as_str of
            None \<Rightarrow> [] | Some p \<Rightarrow> [p])
         @ (case Option.bind (payload_value payload ''artifacts'') as_array of
              None \<Rightarrow> [] | Some items \<Rightarrow> strings_of items)))"

definition materialized_artifact_refs :: "process_event list \<Rightarrow> string list" where
  "materialized_artifact_refs events = bset_collect (concat (map materialized_paths (all_payloads events)))"

definition locally_audited :: "json \<Rightarrow> string option" where
  "locally_audited payload =
     (if get_str payload ''capability_id'' \<noteq> Some ''artifact.audit_quality'' then None
      else if unwrap_or [] (get_str payload ''status'') \<notin> {''success'', ''failed''} then None
      else if \<not> unwrap_or True (Option.bind (payload_value payload ''local_mechanical_audit_completed'') as_bool)
      then None
      else map_option fwd_slashes (payload_str payload ''artifact_path''))"

definition completed_local_artifact_audits :: "process_event list \<Rightarrow> string list" where
  "completed_local_artifact_audits events =
     bset_collect (List.map_filter locally_audited (all_payloads events))"

definition audit_gaps :: "process_event list \<Rightarrow> string list \<Rightarrow> string list" where
  "audit_gaps events artifact_refs =
     (let materialized = materialized_artifact_refs events;
          audited = completed_local_artifact_audits events
      in map (\<lambda>p. ''artifact lacks completed local mechanical artifact.audit_quality receipt: '' @ p)
           (filter (\<lambda>p. fwd_slashes p \<notin> set audited)
             (filter requires_semantic_audit
               (filter (\<lambda>p. fwd_slashes p \<in> set materialized) artifact_refs))))"

fun bool_str :: "bool \<Rightarrow> string" where
  "bool_str True = ''true''"
| "bool_str False = ''false''"

definition model_audit_gap :: "serde \<Rightarrow> (string \<times> json) list \<Rightarrow> string \<Rightarrow> string option" where
  "model_audit_gap sd audited p =
     (case map_of audited (fwd_slashes p) of
        None \<Rightarrow> Some (''artifact lacks successful model-backed artifact audit receipt: '' @ p)
      | Some audit \<Rightarrow>
        (let st = unwrap_or [] (get_str audit ''status'') in
         if st \<noteq> ''success''
         then Some (''artifact model-backed audit did not succeed: '' @ p @ '':'' @ st)
         else if list_ex is_hard_artifact_issue (model_audit_issue_strings sd audit) then None
         else
          (let quality_pass = unwrap_or False (Option.bind (payload_value audit ''quality_pass'') as_bool);
               human_acceptance_pass = unwrap_or False
                 (Option.bind (payload_value audit ''human_acceptance_pass'') as_bool);
               blocking_issue_count = unwrap_or
                 (unwrap_or 0 (map_option (\<lambda>items. word_of_nat (length items))
                    (Option.bind (Option.bind (payload_value audit ''audit_output'')
                       (\<lambda>output. jget output ''blocking_issues'')) as_array)))
                 (Option.bind (payload_value audit ''blocking_issue_count'') as_u64)
           in if \<not> quality_pass \<or> \<not> human_acceptance_pass \<or> blocking_issue_count > 0
              then Some (''artifact has unresolved model audit findings: '' @ p @ '':quality_pass='' @
                bool_str quality_pass @ '':human_acceptance_pass='' @ bool_str human_acceptance_pass @
                '':blocking_issues='' @ dec (unat blocking_issue_count))
              else None)))"

definition model_audit_gaps :: "serde \<Rightarrow> process_event list \<Rightarrow> string list \<Rightarrow> string list" where
  "model_audit_gaps sd events artifact_refs =
     (let materialized = materialized_artifact_refs events;
          audited = latest_model_artifact_audits events
      in List.map_filter (model_audit_gap sd audited)
           (filter requires_semantic_audit
             (filter (\<lambda>p. fwd_slashes p \<in> set materialized) artifact_refs)))"

definition typed_verified :: "json \<Rightarrow> string option" where
  "typed_verified payload =
     (if get_str payload ''status'' \<noteq> Some ''success'' then None
      else if get_str payload ''capability_id'' \<noteq> Some ''artifact.verify_typed'' then None
      else map_option fwd_slashes (Option.bind
        (or_else (payload_value payload ''artifact_path'') (payload_value payload ''archive_path'')) as_str))"

definition typed_verified_artifacts :: "process_event list \<Rightarrow> string list" where
  "typed_verified_artifacts events = bset_collect (List.map_filter typed_verified (all_payloads events))"

definition typed_artifact_verifier_gaps :: "process_event list \<Rightarrow> string list \<Rightarrow> string list" where
  "typed_artifact_verifier_gaps events artifacts =
     (let verified = typed_verified_artifacts events
      in map (\<lambda>p. ''artifact lacks typed verifier evidence: '' @ p @ '' requires '' @ expected_verifier_for_path p)
           (filter (\<lambda>p. fwd_slashes p \<notin> set verified)
             (filter (\<lambda>p. expected_verifier_for_path p \<in>
                {''zip_verifier'', ''checksum_verifier'', ''perf_json_schema_verifier'', ''package_manifest_verifier''})
               artifacts)))"

definition from_sources :: "json \<Rightarrow> bool" where
  "from_sources payload \<longleftrightarrow> payload_value payload ''source_set_ref'' \<noteq> None \<or>
     payload_value payload ''dataset_ref'' \<noteq> None \<or> payload_value payload ''raw_document_set_ref'' \<noteq> None"

definition coverage_verified :: "json \<Rightarrow> string option" where
  "coverage_verified payload =
     (if get_str payload ''capability_id'' \<in> Some ` {''os.verify_artifact'', ''artifact.verify_coverage'',
           ''artifact.source_coverage_verify'', ''artifact.audit_quality''} \<and>
         get_str payload ''status'' = Some ''success''
      then map_option fwd_slashes (payload_str payload ''artifact_path'') else None)"

definition coverage_gaps :: "process_event list \<Rightarrow> string list \<Rightarrow> string list" where
  "coverage_gaps events artifact_refs =
     (let materialized = materialized_artifact_refs events;
          candidates = (if materialized = [] then []
            else filter requires_coverage_verification
              (filter (\<lambda>p. fwd_slashes p \<in> set materialized) artifact_refs));
          verified = bset_collect (List.map_filter coverage_verified (all_payloads events))
      in if candidates = [] then []
         else if \<not> list_ex from_sources (all_payloads events) then []
         else map (\<lambda>p. ''artifact lacks successful runtime verification: '' @ p)
           (filter (\<lambda>p. fwd_slashes p \<notin> set verified)
             (filter (\<lambda>p. \<not> starts_with p ''blob://'') candidates)))"

section \<open>The gate\<close>

definition hard_blocks :: "closure_gate_result \<Rightarrow> closure_block list" where
  "hard_blocks gate =
     map (\<lambda>item. \<lparr>cb_code = (if is_internal_ref item then ''internal_ref_not_user_artifact''
            else ''artifact_missing_or_unreadable''),
          cb_source = ''artifact_ref'', cb_message = item, cb_artifact_path = Some item\<rparr>)
       (cg_missing_artifacts gate)
   @ map (\<lambda>item. \<lparr>cb_code = ''pending_approval'', cb_source = ''approval_runtime'',
          cb_message = item, cb_artifact_path = None\<rparr>) (cg_pending_approvals gate)
   @ map (\<lambda>item. \<lparr>cb_code = ''pending_mutation'', cb_source = ''capability_kernel'',
          cb_message = item, cb_artifact_path = None\<rparr>) (cg_pending_mutations gate)
   @ map (\<lambda>item. \<lparr>cb_code = ''hard_verification_failure'', cb_source = ''runtime_verifier'',
          cb_message = item, cb_artifact_path = artifact_path_from_message item\<rparr>)
       (cg_failed_verifications gate)
   @ map (\<lambda>item. \<lparr>cb_code = ''unresolved_required_failure'', cb_source = ''required_capability'',
          cb_message = item, cb_artifact_path = None\<rparr>) (cg_unresolved_required_failures gate)"

definition extend_findings ::
  "closure_finding list \<Rightarrow> string \<Rightarrow> string \<Rightarrow> string \<Rightarrow> string list \<Rightarrow> closure_finding list" where
  "extend_findings findings category source severity messages = findings @ map (\<lambda>message.
     \<lparr>cf_category = category, cf_source = source, cf_message = message,
      cf_artifact_path = artifact_path_from_message message, cf_severity = severity\<rparr>) messages"

definition advisory_findings :: "closure_gate_result \<Rightarrow> process_event list \<Rightarrow> closure_finding list" where
  "advisory_findings gate events =
     (let f1 = extend_findings [] ''coverage'' ''coverage_verifier'' ''advisory'' (cg_coverage_gaps gate);
          f2 = extend_findings f1 ''local_audit'' ''artifact.audit_quality'' ''advisory'' (cg_audit_gaps gate);
          f3 = extend_findings f2 ''model_audit'' ''model.audit_artifact_quality'' ''advisory''
                 (cg_model_audit_gaps gate);
          f4 = extend_findings f3 ''typed_verifier'' ''artifact.verify_typed'' ''advisory''
                 (cg_typed_artifact_verifier_gaps gate)
      in f4 @ verification_advisory_findings events)"

definition completion_facts :: "closure_gate_result \<Rightarrow> string list \<Rightarrow> closure_fact list" where
  "completion_facts gate artifacts =
     \<lparr>ct_fact_type = ''artifact_count'', ct_source = ''process_truth_replay'',
      ct_message = dec (length artifacts)\<rparr> #
     (if cg_human_review_required gate then
        [\<lparr>ct_fact_type = ''human_review_required'', ct_source = ''closure_gate'',
          ct_message = ''user-facing artifacts are present; final acceptance remains a runner/human review concern''\<rparr>]
      else [])"

text \<open>The gate after the events have been read, field by field in the code's order.\<close>

definition gate_on_events ::
  "path \<Rightarrow> file_probe \<Rightarrow> serde \<Rightarrow> process_event list \<Rightarrow> string list \<Rightarrow> closure_gate_result" where
  "gate_on_events root fs sd events artifact_refs =
     (let scoped = artifact_scope_set artifact_refs;
          r1 = closure_pass
            \<lparr>cg_artifact_roles := artifact_role_evidence_of scoped,
             cg_missing_artifacts := missing_artifacts root fs artifact_refs,
             cg_failed_verifications := hard_failed_verifications events @ hard_model_audit_failures sd events,
             cg_pending_approvals := pending_approvals events,
             cg_pending_mutations := pending_mutations events,
             cg_unresolved_required_failures := unresolved_required_failures events,
             cg_coverage_gaps := coverage_gaps events artifact_refs,
             cg_audit_gaps := audit_gaps events artifact_refs,
             cg_model_audit_gaps := model_audit_gaps sd events artifact_refs,
             cg_typed_artifact_verifier_gaps := typed_artifact_verifier_gaps events scoped,
             cg_human_review_required := scoped \<noteq> []\<rparr>;
          r2 = r1\<lparr>cg_hard_blocks := hard_blocks r1\<rparr>;
          r3 = r2\<lparr>cg_advisory_findings := advisory_findings r2 events\<rparr>;
          r4 = r3\<lparr>cg_completion_facts := completion_facts r3 scoped\<rparr>
      in r4\<lparr>cg_can_complete := cg_hard_blocks r4 = []\<rparr>)"

definition check_closure_gate_for_artifacts ::
  "path \<Rightarrow> file_probe \<Rightarrow> serde \<Rightarrow> string \<Rightarrow> string list \<Rightarrow> (world, closure_gate_result) io" where
  "check_closure_gate_for_artifacts root fs sd job artifact_refs =
     io_bind (read_events job) (\<lambda>events. io_return (gate_on_events root fs sd events artifact_refs))"

definition check_closure_gate ::
  "path \<Rightarrow> file_probe \<Rightarrow> serde \<Rightarrow> string \<Rightarrow> replay_state \<Rightarrow> (world, closure_gate_result) io" where
  "check_closure_gate root fs sd job st =
     check_closure_gate_for_artifacts root fs sd job (rp_artifact_refs st)"

definition check_closure_gate_for_claimed_artifacts ::
  "path \<Rightarrow> file_probe \<Rightarrow> serde \<Rightarrow> string \<Rightarrow> string list \<Rightarrow> (world, closure_gate_result) io" where
  "check_closure_gate_for_claimed_artifacts root fs sd job claimed =
     check_closure_gate_for_artifacts root fs sd job claimed"

section \<open>The receipt of a refused completion\<close>

definition closure_block_json :: "closure_block \<Rightarrow> json" where
  "closure_block_json b = jobj [(''code'', JString (cb_code b)), (''source'', JString (cb_source b)),
     (''message'', JString (cb_message b)), (''artifact_path'', jopt (cb_artifact_path b))]"

definition closure_finding_json :: "closure_finding \<Rightarrow> json" where
  "closure_finding_json f = jobj [(''category'', JString (cf_category f)), (''source'', JString (cf_source f)),
     (''message'', JString (cf_message f)), (''artifact_path'', jopt (cf_artifact_path f)),
     (''severity'', JString (cf_severity f))]"

definition closure_fact_json :: "closure_fact \<Rightarrow> json" where
  "closure_fact_json f = jobj [(''fact_type'', JString (ct_fact_type f)), (''source'', JString (ct_source f)),
     (''message'', JString (ct_message f))]"

definition artifact_role_json :: "artifact_role_evidence \<Rightarrow> json" where
  "artifact_role_json a = jobj [(''artifact_path'', JString (ar_artifact_path a)),
     (''role'', JString (ar_role a)), (''expected_verifier'', JString (ar_expected_verifier a))]"

definition closure_block_receipt :: "string \<Rightarrow> string \<Rightarrow> closure_gate_result \<Rightarrow> capability_receipt" where
  "closure_block_receipt job_id pid gate = \<lparr>rc_capability_id = ''process.complete'', rc_job_id = job_id,
     rc_pid = pid, rc_status = ''blocked'', rc_data = jobj
       [(''reason'', JString ''closure_gate_failed''), (''completion_recoverable'', Bool True),
        (''hard_blocks'', Array (map closure_block_json (cg_hard_blocks gate))),
        (''advisory_findings'', Array (map closure_finding_json (cg_advisory_findings gate))),
        (''completion_facts'', Array (map closure_fact_json (cg_completion_facts gate))),
        (''artifact_roles'', Array (map artifact_role_json (cg_artifact_roles gate))),
        (''missing_artifacts'', jstrings (cg_missing_artifacts gate)),
        (''failed_verifications'', jstrings (cg_failed_verifications gate)),
        (''pending_mutations'', jstrings (cg_pending_mutations gate)),
        (''pending_approvals'', jstrings (cg_pending_approvals gate)),
        (''coverage_gaps'', jstrings (cg_coverage_gaps gate)),
        (''audit_gaps'', jstrings (cg_audit_gaps gate)),
        (''model_audit_gaps'', jstrings (cg_model_audit_gaps gate)),
        (''typed_artifact_verifier_gaps'', jstrings (cg_typed_artifact_verifier_gaps gate)),
        (''unresolved_required_failures'', jstrings (cg_unresolved_required_failures gate)),
        (''runtime_note'', JString ''closure gate blocks only hard safety/execution facts; advisory findings are evidence for TaskAgent judgment, not runtime strategy'')]\<rparr>"

end
