(* ===== verification/Closure_Claims.thy ===== *)
theory Closure_Claims
  imports Closure_Gate Approval_Claims
begin

text \<open>
  What the closure gate decides. The specification of the decision is stated on the log: which
  receipt is the latest of its kind, which previews and tokens are open, which artifacts a user can
  read. The gate is proved to decide exactly that, and tied to the approval runtime: an approved
  mutation keeps a task open until its token is used.
\<close>

section \<open>What the lists hold\<close>

lemma map_filter_Nil: "List.map_filter f xs = [] \<longleftrightarrow> (\<forall>x \<in> set xs. f x = None)"
  by (induction xs) (auto simp: List.map_filter_simps split: option.splits)

lemma set_map_filter: "y \<in> set (List.map_filter f xs) \<longleftrightarrow> (\<exists>x \<in> set xs. f x = Some y)"
  by (induction xs) (auto simp: List.map_filter_simps split: option.splits)

lemma hard_blocks_Nil:
  "hard_blocks g = [] \<longleftrightarrow> cg_missing_artifacts g = [] \<and> cg_pending_approvals g = [] \<and>
     cg_pending_mutations g = [] \<and> cg_failed_verifications g = [] \<and> cg_unresolved_required_failures g = []"
  by (simp add: hard_blocks_def)

lemma gate_fields:
  "cg_can_complete (gate_on_events root fs sd es refs) \<longleftrightarrow>
     missing_artifacts root fs refs = [] \<and> pending_approvals es = [] \<and> pending_mutations es = [] \<and>
     hard_failed_verifications es = [] \<and> hard_model_audit_failures sd es = [] \<and>
     unresolved_required_failures es = []"
  by (auto simp: gate_on_events_def Let_def hard_blocks_Nil)

text \<open>An artifact the user can read: a workspace path, not an internal reference, that exists and opens.\<close>

definition artifact_present :: "path \<Rightarrow> file_probe \<Rightarrow> string \<Rightarrow> bool" where
  "artifact_present root fs a \<longleftrightarrow> trim a \<noteq> [] \<and> \<not> is_internal_ref (trim a) \<and>
     (case walk_spec [] (unix_components (trim a)) of None \<Rightarrow> False
      | Some q \<Rightarrow> \<not> unreadable fs (root @ q))"

lemma missing_artifact_None: "missing_artifact root fs a = None \<longleftrightarrow> artifact_present root fs a"
proof (cases "resolve_workspace_path root (unix_components (trim a))")
  case (Inl e)
  then have "walk_spec [] (unix_components (trim a)) = None"
    using resolve_refines_walk [of root "unix_components (trim a)"] by (metis Inl_Inr_False not_None_eq)
  with Inl show ?thesis by (simp add: missing_artifact_def artifact_present_def Let_def)
next
  case (Inr p)
  with resolve_refines_walk [of root "unix_components (trim a)" p] show ?thesis
    by (auto simp: missing_artifact_def artifact_present_def Let_def split: if_splits)
qed

text \<open>The latest receipt of a verifier for an artifact, and the latest model audit of one.\<close>

definition latest_verification :: "process_event list \<Rightarrow> string \<Rightarrow> verification_failure option" where
  "latest_verification es k = map_of (rev (List.map_filter verification_entry (all_payloads es))) k"

lemma latest_verifications_ok:
  "bmap_ok (latest_verifications es) \<and> map_of (latest_verifications es) = latest_verification es"
  by (simp add: latest_verifications_def latest_verification_def fun_eq_iff bmap_collect)

lemma verification_failures_iff:
  "v \<in> set (verification_failures es) \<longleftrightarrow>
     (\<exists>k. latest_verification es k = Some v) \<and> (vf_status v = ''failed'' \<or> vf_status v = ''blocked'')"
proof -
  have "v \<in> snd ` set (latest_verifications es) \<longleftrightarrow> (\<exists>k. map_of (latest_verifications es) k = Some v)"
    using latest_verifications_ok [of es] bmap.get_entries [of "latest_verifications es"] by force
  then show ?thesis
    using latest_verifications_ok [of es] by (auto simp: verification_failures_def)
qed

definition latest_audit :: "process_event list \<Rightarrow> string \<Rightarrow> json option" where
  "latest_audit es p = map_of (rev (List.map_filter (\<lambda>e. map_option (\<lambda>path. (fwd_slashes path, data e))
     (payload_str (data e) ''artifact_path''))
     (filter (\<lambda>e. event_type e = ''artifact_model_audit_receipt'') es))) p"

lemma latest_audits_ok:
  "bmap_ok (latest_model_artifact_audits es) \<and> map_of (latest_model_artifact_audits es) = latest_audit es"
  by (simp add: latest_model_artifact_audits_def latest_audit_def fun_eq_iff bmap_collect)

lemma hard_model_audit_failures_Nil:
  "hard_model_audit_failures sd es = [] \<longleftrightarrow> (\<forall>p audit. latest_audit es p = Some audit \<longrightarrow>
     \<not> list_ex is_hard_artifact_issue (model_audit_issue_strings sd audit))"
proof -
  have key: "latest_audit es p = Some audit \<longleftrightarrow> (p, audit) \<in> set (latest_model_artifact_audits es)" for p audit
    using latest_audits_ok [of es] bmap.get_entries [of "latest_model_artifact_audits es"] by metis
  show ?thesis
    unfolding hard_model_audit_failures_def concat_eq_Nil_conv key list_ex_iff
    by (auto simp: filter_empty_conv split: prod.splits)
qed

text \<open>Open previews and open tokens.\<close>

definition names_preview :: "string list \<Rightarrow> process_event list \<Rightarrow> string \<Rightarrow> bool" where
  "names_preview types es i \<longleftrightarrow>
     (\<exists>e \<in> set es. event_type e \<in> set types \<and> get_str (data e) ''preview_id'' = Some i)"

lemma set_data_strs:
  "s \<in> set (data_strs key (events_of types es)) \<longleftrightarrow>
     (\<exists>e \<in> set es. event_type e \<in> set types \<and> get_str (data e) key = Some s)"
  by (auto simp: data_strs_def events_of_def set_map_filter)

lemma set_pending_approvals:
  "i \<in> set (pending_approvals es) \<longleftrightarrow> names_preview [''preview_tx_created''] es i \<and>
     \<not> names_preview [''approval_token_issued'', ''preview_tx_closed''] es i"
  by (auto simp: pending_approvals_def Let_def set_data_strs names_preview_def)

definition token_open :: "process_event list \<Rightarrow> process_event \<Rightarrow> bool" where
  "token_open es e \<longleftrightarrow> event_type e = ''approval_token_issued'' \<and>
     (\<exists>t. get_str (data e) ''approval_token_id'' = Some t \<and> t \<noteq> [] \<and>
        (\<not> token_is_consumed es t \<or>
         (\<exists>tx. get_str (data e) ''tx_id'' = Some tx \<and> tx \<noteq> [] \<and>
            \<not> list_ex (\<lambda>c. event_type c = ''preview_tx_closed'' \<and> get_str (data c) ''tx_id'' = Some tx) es)))"

lemma pending_token_open:
  assumes "event_type e = ''approval_token_issued''"
  shows "pending_token
      (bset_collect (data_strs ''approval_token_id'' (events_of [''approval_token_consumed'', ''approval_token_used''] es)))
      (bset_collect (data_strs ''tx_id'' (events_of [''preview_tx_closed''] es))) e \<noteq> None \<longleftrightarrow> token_open es e"
proof -
  have "t \<in> set (data_strs ''approval_token_id'' (events_of [''approval_token_consumed'', ''approval_token_used''] es))
      \<longleftrightarrow> token_is_consumed es t" for t
    by (auto simp: set_data_strs token_is_consumed_def list_ex_iff)
  moreover have "tx \<in> set (data_strs ''tx_id'' (events_of [''preview_tx_closed''] es)) \<longleftrightarrow>
      list_ex (\<lambda>c. event_type c = ''preview_tx_closed'' \<and> get_str (data c) ''tx_id'' = Some tx) es" for tx
    by (auto simp: set_data_strs list_ex_iff)
  ultimately show ?thesis
    using assms
    by (cases "get_str (data e) ''approval_token_id''"; cases "get_str (data e) ''tx_id''")
      (simp_all add: pending_token_def token_open_def Let_def)
qed

lemma pending_mutations_Nil:
  "pending_mutations es = [] \<longleftrightarrow> (\<forall>e \<in> set es. \<not> token_open es e \<and>
     \<not> (event_type e = ''capability_blocked'' \<and> policy_blocked e \<and> get_str (data e) ''capability_id'' \<noteq> None))"
proof -
  let ?pending = "pending_token
      (bset_collect (data_strs ''approval_token_id'' (events_of [''approval_token_consumed'', ''approval_token_used''] es)))
      (bset_collect (data_strs ''tx_id'' (events_of [''preview_tx_closed''] es)))"
  have "event_type e = ''approval_token_issued'' \<Longrightarrow> ?pending e = None \<longleftrightarrow> \<not> token_open es e" for e
    using pending_token_open [of e es] by metis
  moreover have "token_open es e \<Longrightarrow> event_type e = ''approval_token_issued''" for e
    by (simp add: token_open_def)
  moreover have "set (events_of [''approval_token_issued''] es) = {e \<in> set es. event_type e = ''approval_token_issued''}"
    by (simp add: events_of_def)
  ultimately have "(\<forall>e \<in> set (events_of [''approval_token_issued''] es). ?pending e = None)
      \<longleftrightarrow> (\<forall>e \<in> set es. \<not> token_open es e)" by blast
  moreover have "data_strs ''capability_id'' (filter policy_blocked (events_of [''capability_blocked''] es)) = [] \<longleftrightarrow>
      (\<forall>e \<in> set es. \<not> (event_type e = ''capability_blocked'' \<and> policy_blocked e \<and>
         get_str (data e) ''capability_id'' \<noteq> None))"
    by (auto simp: data_strs_def events_of_def map_filter_Nil)
  ultimately show ?thesis unfolding pending_mutations_def Let_def append_is_Nil_conv map_filter_Nil
    by blast
qed

section \<open>The decision\<close>

definition required_failure_open :: "process_event list \<Rightarrow> process_event \<Rightarrow> bool" where
  "required_failure_open es e \<longleftrightarrow> event_type e = ''model_call_failed'' \<and>
     get_bool (data e) ''required'' \<noteq> Some False \<and>
     list_all (\<lambda>c. event_type c \<noteq> ''model_call_completed'' \<or> event_id c \<le> event_id e) es"

lemma foldr_max_le: "foldr max ns 0 \<le> k \<longleftrightarrow> (\<forall>n \<in> set ns. n \<le> k)" for k :: nat
  by (induction ns) auto

lemma unresolved_required_failures_Nil:
  "unresolved_required_failures es = [] \<longleftrightarrow> (\<forall>e \<in> set es. \<not> required_failure_open es e)"
proof -
  have "event_id e < last_success_event_id es \<longleftrightarrow>
      \<not> list_all (\<lambda>c. event_type c \<noteq> ''model_call_completed'' \<or> event_id c \<le> event_id e) es" for e
    using foldr_max_le [of "map event_id (events_of [''model_call_completed''] es)" "event_id e"]
    by (auto simp: last_success_event_id_def events_of_def list_all_iff not_less [symmetric])
  then have "required_failure (last_success_event_id es) e = None \<longleftrightarrow> \<not> required_failure_open es e" for e
    by (cases "get_bool (data e) ''required''")
      (auto simp: required_failure_def required_failure_open_def)
  then show ?thesis by (simp add: unresolved_required_failures_def map_filter_Nil)
qed

definition verification_passes :: "process_event list \<Rightarrow> bool" where
  "verification_passes es \<longleftrightarrow> (\<forall>k v. latest_verification es k = Some v \<longrightarrow>
     vf_status v \<noteq> ''failed'' \<and> vf_status v \<noteq> ''blocked'' \<or> \<not> is_hard_verification_failure v)"

definition audits_pass :: "serde \<Rightarrow> process_event list \<Rightarrow> bool" where
  "audits_pass sd es \<longleftrightarrow> (\<forall>p audit. latest_audit es p = Some audit \<longrightarrow>
     \<not> list_ex is_hard_artifact_issue (model_audit_issue_strings sd audit))"

definition nothing_open :: "process_event list \<Rightarrow> bool" where
  "nothing_open es \<longleftrightarrow>
     (\<forall>i. names_preview [''preview_tx_created''] es i \<longrightarrow>
        names_preview [''approval_token_issued'', ''preview_tx_closed''] es i) \<and>
     (\<forall>e \<in> set es. \<not> token_open es e \<and>
        \<not> (event_type e = ''capability_blocked'' \<and> policy_blocked e \<and> get_str (data e) ''capability_id'' \<noteq> None) \<and>
        \<not> required_failure_open es e)"

lemma hard_failed_verifications_Nil: "hard_failed_verifications es = [] \<longleftrightarrow> verification_passes es"
  using verification_failures_iff [of _ es]
  by (auto simp: hard_failed_verifications_def filter_empty_conv verification_passes_def)

lemma pending_approvals_Nil: "pending_approvals es = [] \<longleftrightarrow>
   (\<forall>i. names_preview [''preview_tx_created''] es i \<longrightarrow>
      names_preview [''approval_token_issued'', ''preview_tx_closed''] es i)"
proof -
  have "pending_approvals es = [] \<longleftrightarrow> (\<forall>i. i \<notin> set (pending_approvals es))"
    by (cases "pending_approvals es") auto
  then show ?thesis unfolding set_pending_approvals by blast
qed

lemma gate_decision:
  "cg_can_complete (gate_on_events root fs sd es refs) \<longleftrightarrow>
     list_all (artifact_present root fs) refs \<and> verification_passes es \<and> audits_pass sd es \<and> nothing_open es"
  unfolding gate_fields pending_approvals_Nil pending_mutations_Nil hard_failed_verifications_Nil
    hard_model_audit_failures_Nil unresolved_required_failures_Nil
  by (auto simp: missing_artifacts_def map_filter_Nil missing_artifact_None list_all_iff
      audits_pass_def nothing_open_def)

text \<open>
  C4: the gate lets a task complete exactly when nothing hard is left: every claimed artifact is a
  readable workspace path and no internal reference, the latest receipt of every verifier is no hard
  failure, the latest model audit of every artifact reports no hard issue, every preview has been
  approved or closed, every issued token has been consumed and its transaction closed, no capability
  is blocked on the mutation policy, and no required model call has failed since the last success.
  Coverage, local audit, typed verifier and soft findings have no say.
\<close>

theorem gate_decides_hard_facts:
  assumes "check_closure_gate_for_artifacts root fs sd job refs w = (Inr g, w')"
  shows "w_events w' = w_events w \<and>
     (cg_can_complete g \<longleftrightarrow> list_all (artifact_present root fs) refs \<and>
        verification_passes (job_events job (w_events w)) \<and> audits_pass sd (job_events job (w_events w)) \<and>
        nothing_open (job_events job (w_events w)))"
proof -
  from assms obtain events w1 where rd: "read_events job w = (Inr events, w1)"
    and "g = gate_on_events root fs sd events refs" "w' = w1"
    unfolding check_closure_gate_for_artifacts_def by (elim io_bindE) (auto simp: io_return_apply)
  with read_events_result [OF rd] show ?thesis by (simp add: gate_decision)
qed

section \<open>Later receipts\<close>

definition vf_key :: "verification_failure \<Rightarrow> string" where
  "vf_key v = vf_capability_id v @ '':'' @ vf_artifact_path v"

lemma verification_entry_key: "verification_entry payload = Some (k, v) \<Longrightarrow> k = vf_key v"
  by (auto simp: verification_entry_def vf_key_def Let_def split: option.splits if_splits)

lemma latest_verification_key: "latest_verification es k = Some v \<Longrightarrow> k = vf_key v"
proof -
  assume "latest_verification es k = Some v"
  then have "(k, v) \<in> set (rev (List.map_filter verification_entry (all_payloads es)))"
    unfolding latest_verification_def by (rule map_of_SomeD)
  then show ?thesis by (auto simp: set_map_filter dest: verification_entry_key)
qed

lemma map_filter_append: "List.map_filter f (xs @ ys) = List.map_filter f xs @ List.map_filter f ys"
  by (induction xs) (auto simp: List.map_filter_simps split: option.splits)

lemma latest_verification_snoc:
  "latest_verification (es @ [e]) k =
     (case map_of (rev (List.map_filter verification_entry (gate_payloads e))) k of
        None \<Rightarrow> latest_verification es k | Some v \<Rightarrow> Some v)"
  by (simp add: latest_verification_def all_payloads_def map_filter_append map_add_def split: option.split)

text \<open>
  The latest receipt of a verifier wins. A receipt for an artifact that is neither failed nor
  blocked removes exactly the failures of the same verifier on the same artifact, whatever they
  reported, and touches no other failure.
\<close>

theorem later_success_clears_failure:
  assumes "gate_payloads e = [payload]" and "verification_entry payload = Some (k, v)"
    and "vf_status v \<noteq> ''failed''" and "vf_status v \<noteq> ''blocked''"
  shows "set (verification_failures (es @ [e])) =
     {f \<in> set (verification_failures es). vf_capability_id f @ '':'' @ vf_artifact_path f \<noteq> k}"
proof -
  have snoc: "latest_verification (es @ [e]) k' = (if k' = k then Some v else latest_verification es k')" for k'
    by (simp add: latest_verification_snoc assms List.map_filter_simps)
  have "f \<in> set (verification_failures (es @ [e])) \<longleftrightarrow>
      f \<in> set (verification_failures es) \<and> vf_key f \<noteq> k" for f
    unfolding verification_failures_iff snoc using assms(3,4) latest_verification_key by auto
  then show ?thesis by (auto simp: vf_key_def)
qed

definition soft_event :: "process_event \<Rightarrow> bool" where
  "soft_event e \<longleftrightarrow> event_type e \<notin> {''preview_tx_created'', ''approval_token_issued'', ''capability_blocked'',
     ''model_call_failed'', ''artifact_model_audit_receipt''} \<and>
   list_all (\<lambda>payload. case verification_entry payload of None \<Rightarrow> True
     | Some (k, v) \<Rightarrow> vf_status v \<noteq> ''failed'' \<and> vf_status v \<noteq> ''blocked'' \<or> \<not> is_hard_verification_failure v)
     (gate_payloads e)"

lemma soft_verification_passes:
  assumes "verification_passes es" and "soft_event e"
  shows "verification_passes (es @ [e])"
  unfolding verification_passes_def
proof (intro allI impI)
  fix k v
  assume l: "latest_verification (es @ [e]) k = Some v"
  show "vf_status v \<noteq> ''failed'' \<and> vf_status v \<noteq> ''blocked'' \<or> \<not> is_hard_verification_failure v"
  proof (cases "map_of (rev (List.map_filter verification_entry (gate_payloads e))) k")
    case None
    with l assms(1) show ?thesis by (simp add: latest_verification_snoc verification_passes_def)
  next
    case (Some v')
    with l have "map_of (rev (List.map_filter verification_entry (gate_payloads e))) k = Some v"
      by (simp add: latest_verification_snoc)
    then have "(k, v) \<in> set (List.map_filter verification_entry (gate_payloads e))"
      by (auto dest: map_of_SomeD)
    then obtain payload where "payload \<in> set (gate_payloads e)" "verification_entry payload = Some (k, v)"
      by (auto simp: set_map_filter)
    with assms(2) show ?thesis by (force simp: soft_event_def list_all_iff)
  qed
qed

lemma soft_nothing_open:
  assumes "nothing_open es" and "soft_event e"
  shows "nothing_open (es @ [e])"
proof -
  have ty: "event_type e \<noteq> ''preview_tx_created''" "event_type e \<noteq> ''approval_token_issued''"
    "event_type e \<noteq> ''capability_blocked''" "event_type e \<noteq> ''model_call_failed''"
    using assms(2) by (simp_all add: soft_event_def)
  have "token_is_consumed es t \<Longrightarrow> token_is_consumed (es @ [e]) t" for t
    by (simp add: token_is_consumed_def)
  then have tok: "token_open (es @ [e]) x \<Longrightarrow> token_open es x" for x
    by (auto simp: token_open_def)
  have req: "required_failure_open (es @ [e]) x \<Longrightarrow> required_failure_open es x" for x
    by (simp add: required_failure_open_def)
  have created: "names_preview [''preview_tx_created''] (es @ [e]) i \<Longrightarrow> names_preview [''preview_tx_created''] es i" for i
    using ty by (auto simp: names_preview_def)
  have named: "names_preview tys es i \<Longrightarrow> names_preview tys (es @ [e]) i" for tys i
    by (auto simp: names_preview_def)
  have "\<not> token_open es e" "\<not> required_failure_open es e"
    using ty by (simp_all add: token_open_def required_failure_open_def)
  with assms(1) tok req created named ty show ?thesis unfolding nothing_open_def by auto
qed

text \<open>
  Soft findings never stop a task. Appending an event that opens no preview, token, blocked
  mutation, failed model call or model audit, and whose receipts are no hard verification failure,
  leaves a task that could complete able to complete.
\<close>

theorem soft_events_never_block:
  assumes "cg_can_complete (gate_on_events root fs sd es refs)" and "soft_event e"
  shows "cg_can_complete (gate_on_events root fs sd (es @ [e]) refs)"
proof -
  have "latest_audit (es @ [e]) = latest_audit es"
    using assms(2) by (simp add: latest_audit_def soft_event_def fun_eq_iff)
  with assms show ?thesis
    by (simp add: gate_decision soft_verification_passes soft_nothing_open audits_pass_def)
qed

section \<open>The gate and the approval runtime\<close>

lemma issued_token_open:
  assumes "issue_token_for_preview_selection sd job pid sel note w = (Inr tok, w1)"
    and "truth.extends w1 w2"
    and "\<not> token_is_consumed (log_of w2 job) (at_approval_token_id tok)"
  shows "\<exists>e \<in> set (log_of w2 job). token_open (log_of w2 job) e"
proof -
  from issue_token_result [OF assms(1)] obtain e1 e2 where
    "log_of w1 job = log_of w job @ [e1, e2]" and
    e2: "event_type e2 = ''approval_token_issued''" "token_json tok = Inr (data e2)" and
    id: "\<exists>s. at_approval_token_id tok = ''approval_'' @ s" by metis
  then have "e2 \<in> set (log_of w1 job)" by simp
  then have "e2 \<in> set (log_of w2 job)" by (rule truth.extends_recorded [OF assms(2)])
  moreover have "get_str (data e2) ''approval_token_id'' = Some (at_approval_token_id tok)"
    using e2(2) by (rule token_json_fields)
  with e2 id assms(3) have "token_open (log_of w2 job) e2" by (auto simp: token_open_def)
  ultimately show ?thesis by blast
qed

text \<open>
  C31: an approved mutation keeps its task open. From the moment a token has been issued, in every
  later state of the log in which the token is not consumed, the gate refuses completion, whatever
  artifacts are claimed.
\<close>

theorem unused_token_blocks_completion:
  assumes "issue_token_for_preview_selection sd job pid sel note w = (Inr tok, w1)"
    and "truth.extends w1 w2"
    and "\<not> token_is_consumed (job_events job (w_events w2)) (at_approval_token_id tok)"
  shows "\<not> cg_can_complete (gate_on_events root fs sd' (job_events job (w_events w2)) refs)"
  using issued_token_open [OF assms] by (auto simp: gate_decision nothing_open_def)

lemma record_token_use_closes:
  assumes "record_token_use job pid t cap targets tx pv w = (Inr u, w')" and "tx \<noteq> []"
  shows "list_ex (\<lambda>c. event_type c = ''preview_tx_closed'' \<and> get_str (data c) ''tx_id'' = Some tx) (log_of w' job)"
  using assms(1) unfolding record_token_use_def
proof (elim io_bindE, goal_cases)
  case (1 x1 w1 x2 w2 x3 w3)
  from 1(4) obtain e where
    a: "append_event job (Some pid) ''preview_tx_closed'' (jobj
       [(''tx_id'', JString tx), (''preview_id'', JString pv),
        (''approval_token_id'', JString t), (''status'', JString ''applied'')]) w3 = (Inr e, w')"
    using assms(2) by (auto simp: io_return_apply elim!: io_bindE)
  from truth.add_ok [OF a] show ?case by simp
qed

text \<open>
  Using a token lets its task go. After \<open>mark_token_used\<close> has succeeded, the event that issued
  the token is no reason for the gate to refuse: the token is consumed and its transaction closed.
\<close>

theorem used_token_releases_gate:
  assumes "mark_token_used job pid t cap targets w = (Inr u, w')"
    and "find (issues_token t) (rev (job_events job (w_events w))) = Some e"
  shows "\<not> token_open (job_events job (w_events w')) e"
proof -
  from assms(1) obtain events w1 where rd: "read_events job w = (Inr events, w1)" and
    run: "record_token_use job pid t cap (map fwd_slashes targets)
        (unwrap_or [] (Option.bind (find (issues_token t) (rev events)) (\<lambda>e. get_str (data e) ''tx_id'')))
        (unwrap_or [] (Option.bind (find (issues_token t) (rev events)) (\<lambda>e. get_str (data e) ''preview_id'')))
        w1 = (Inr u, w')"
    unfolding mark_token_used_def Let_def by (rule io_bindE)
  have f: "find (issues_token t) (rev events) = Some e" using read_events_result [OF rd] assms(2) by simp
  have c: "token_is_consumed (log_of w' job) t" using mark_token_used_consumes(2) [OF assms(1)] by simp
  have e: "get_str (data e) ''approval_token_id'' = Some t"
    using find_Some_member [OF f] by (simp add: issues_token_def)
  have "list_ex (\<lambda>c. event_type c = ''preview_tx_closed'' \<and> get_str (data c) ''tx_id'' = Some tx) (log_of w' job)"
    if "get_str (data e) ''tx_id'' = Some tx" "tx \<noteq> []" for tx
    using record_token_use_closes [OF run] that f by simp
  with c e show ?thesis by (auto simp: token_open_def)
qed

section \<open>Witnesses\<close>

definition demo_probe :: file_probe where
  "demo_probe = \<lparr>fp_exists = (\<lambda>_. True), fp_is_file = (\<lambda>_. True), fp_opens = (\<lambda>_. True),
     fp_is_dir = (\<lambda>_. False), fp_lists = (\<lambda>_. False)\<rparr>"

lemma demo_artifact_present: "artifact_present [''ws''] demo_probe ''docs/a.md''"
  unfolding artifact_present_def demo_probe_def unreadable_def by code_simp

lemma empty_log_open: "verification_passes []" "audits_pass sd []" "nothing_open []"
  by (simp_all add: verification_passes_def audits_pass_def nothing_open_def latest_verification_def
      latest_audit_def all_payloads_def names_preview_def)

theorem gate_decides_hard_facts_witness:
  "\<exists>g w'. check_closure_gate_for_artifacts [''ws''] demo_probe demo_serde ''j'' [''docs/a.md''] demo_world = (Inr g, w')
     \<and> cg_can_complete g"
proof -
  have "\<exists>g w'. check_closure_gate_for_artifacts [''ws''] demo_probe demo_serde ''j'' [''docs/a.md''] demo_world = (Inr g, w')"
    by (simp add: check_closure_gate_for_artifacts_def io_return_apply
        io_bind_Inr [where m = "read_events ''j''", OF read_no_faults [OF demo_no_faults]])
  then obtain g w' where r: "check_closure_gate_for_artifacts [''ws''] demo_probe demo_serde ''j'' [''docs/a.md''] demo_world
      = (Inr g, w')" by blast
  from gate_decides_hard_facts [OF r] r demo_artifact_present empty_log_open show ?thesis
    by (auto simp: demo_log)
qed

definition demo_receipt :: "nat \<Rightarrow> string \<Rightarrow> process_event" where
  "demo_receipt n st = \<lparr>event_id = n, timestamp_ms = n, ev_job_id = ''j'', ev_pid = None,
     event_type = ''capability_result'', data = jobj [(''capability_id'', JString ''os.verify_artifact''),
       (''status'', JString st), (''artifact_path'', JString ''a.md'')]\<rparr>"

lemma demo_receipt_payloads: "gate_payloads (demo_receipt n st) = [data (demo_receipt n st)]"
  by (simp add: gate_payloads_def demo_receipt_def)

lemma demo_receipt_entry: "verification_entry (data (demo_receipt n st)) = Some (''os.verify_artifact:a.md'',
   \<lparr>vf_capability_id = ''os.verify_artifact'', vf_artifact_path = ''a.md'', vf_status = st, vf_issues = []\<rparr>)"
  by (simp add: demo_receipt_def verification_entry_def verifier_capability_def payload_value_def
      Let_def fwd_slashes_def slash_char_def)

theorem later_success_clears_failure_witness:
  "verification_failures [demo_receipt 1 ''failed''] \<noteq> [] \<and>
   verification_failures [demo_receipt 1 ''failed'', demo_receipt 2 ''success''] = []"
proof
  show f: "verification_failures [demo_receipt 1 ''failed''] \<noteq> []"
    by (simp add: verification_failures_def latest_verifications_def all_payloads_def
        demo_receipt_payloads demo_receipt_entry List.map_filter_simps)
  have "set (verification_failures ([demo_receipt 1 ''failed''] @ [demo_receipt 2 ''success''])) =
      {f \<in> set (verification_failures [demo_receipt 1 ''failed'']).
         vf_capability_id f @ '':'' @ vf_artifact_path f \<noteq> ''os.verify_artifact:a.md''}"
    by (rule later_success_clears_failure [OF demo_receipt_payloads demo_receipt_entry]) simp_all
  moreover have "set (verification_failures [demo_receipt 1 ''failed'']) \<subseteq>
      {\<lparr>vf_capability_id = ''os.verify_artifact'', vf_artifact_path = ''a.md'', vf_status = ''failed'', vf_issues = []\<rparr>}"
    by (simp add: verification_failures_def latest_verifications_def all_payloads_def
        demo_receipt_payloads demo_receipt_entry List.map_filter_simps)
  ultimately show "verification_failures [demo_receipt 1 ''failed'', demo_receipt 2 ''success''] = []"
    by (auto simp flip: set_empty2)
qed

theorem soft_events_never_block_witness:
  "cg_can_complete (gate_on_events [''ws''] demo_probe demo_serde ([] @ [demo_receipt 1 ''success'']) [''docs/a.md''])"
  by (rule soft_events_never_block)
    (simp_all add: gate_decision demo_artifact_present empty_log_open soft_event_def demo_receipt_payloads
      demo_receipt_entry, simp add: demo_receipt_def)

text \<open>The demo run: a preview is created and approved; the token is then used.\<close>

lemma demo_issued:
  obtains w1 tok w2 e where
    "issue_token_for_preview_selection demo_serde ''j'' ''p'' None ''ok'' w1 = (Inr tok, w2)" "no_faults w2"
    "\<not> token_is_consumed (log_of w2 ''j'') (at_approval_token_id tok)"
    "find (issues_token (at_approval_token_id tok)) (rev (log_of w2 ''j'')) = Some e"
proof -
  obtain px w1 tok w2 where
    i: "issue_token_for_latest_preview demo_serde ''j'' ''p'' ''ok'' w1 = (Inr tok, w2)" and
    r: "no_faults w2" "\<not> token_is_consumed (log_of w2 ''j'') (at_approval_token_id tok)"
    by (rule demo_run)
  then have i': "issue_token_for_preview_selection demo_serde ''j'' ''p'' None ''ok'' w1 = (Inr tok, w2)"
    by (simp add: issue_token_for_latest_preview_def)
  from issue_token_result [OF i'] obtain e1 e2 where
    "log_of w2 ''j'' = log_of w1 ''j'' @ [e1, e2]" "event_type e2 = ''approval_token_issued''"
    "token_json tok = Inr (data e2)" by metis
  then have "find (issues_token (at_approval_token_id tok)) (rev (log_of w2 ''j'')) = Some e2"
    using token_json_fields(1) [of tok "data e2"] by (simp add: issues_token_def)
  with i' r show thesis by (rule that)
qed

theorem unused_token_blocks_completion_witness:
  "\<exists>w1 tok w2. issue_token_for_preview_selection demo_serde ''j'' ''p'' None ''ok'' w1 = (Inr tok, w2) \<and>
     \<not> cg_can_complete (gate_on_events [''ws''] demo_probe demo_serde (job_events ''j'' (w_events w2)) [])"
proof -
  obtain w1 tok w2 where i: "issue_token_for_preview_selection demo_serde ''j'' ''p'' None ''ok'' w1 = (Inr tok, w2)"
    and u: "\<not> token_is_consumed (log_of w2 ''j'') (at_approval_token_id tok)" by (rule demo_issued)
  from unused_token_blocks_completion [OF i truth.extends_refl u] i show ?thesis by blast
qed

theorem used_token_releases_gate_witness:
  "\<exists>tok w2 u w3 e. mark_token_used ''j'' ''p'' (at_approval_token_id (tok :: approval_token_record))
       ''workspace.delete'' [''docs/a''] w2 = (Inr u, w3) \<and> e \<in> set (job_events ''j'' (w_events w2)) \<and>
     \<not> token_open (job_events ''j'' (w_events w3)) e"
proof -
  obtain tok :: approval_token_record and w2 e where r: "no_faults w2"
    "find (issues_token (at_approval_token_id tok)) (rev (log_of w2 ''j'')) = Some e" by (rule demo_issued)
  obtain u w3 where m: "mark_token_used ''j'' ''p'' (at_approval_token_id tok) ''workspace.delete'' [''docs/a''] w2
      = (Inr u, w3)" using runs_mark_token_used r(1) by (rule runsE)
  from used_token_releases_gate [OF m r(2)] have "\<not> token_open (log_of w3 ''j'') e" .
  moreover have "e \<in> set (log_of w2 ''j'')" using find_Some_member [OF r(2)] by simp
  ultimately show ?thesis using m by blast
qed

end
