(* ===== verification/Terminal_Policy.thy ===== *)
theory Terminal_Policy
  imports Json
begin

text \<open>
  The pure part of \<open>process_kernel/src/terminal_runtime.rs\<close>: which command lines count as
  mutations, which of them leave the workspace, and the comparison of the workspace snapshots taken
  before and after a command. Spawning the process is not modelled.
\<close>

section \<open>Command lines\<close>

definition mutation_patterns :: "string list" where
  "mutation_patterns = [''remove-item'', '' rm '', '' del '', ''erase '', ''move-item'', ''copy-item'',
     ''rename-item'', ''new-item'', ''set-content'', ''add-content'', ''out-file'', ''mkdir'', ''rmdir'',
     ''touch '', '' > '', ''>>'']"

definition is_mutation_command :: "string list \<Rightarrow> bool" where
  "is_mutation_command argv =
     (let joined = to_ascii_lowercase (join '' '' argv)
      in list_ex (str_contains joined) mutation_patterns)"

definition terminal_command_mutation_detected :: "string list \<Rightarrow> bool" where
  "terminal_command_mutation_detected argv = is_mutation_command argv"

definition backslash_parent :: string where
  "backslash_parent = [CHR ''.'', CHR ''.'', CHR 0x5C]"

definition looks_like_absolute_or_parent_path :: "string \<Rightarrow> bool" where
  "looks_like_absolute_or_parent_path v =
     (let trimmed = trim_end_char CHR 0x27 (trim_start_char CHR 0x27
            (trim_end_char CHR 0x22 (trim_start_char CHR 0x22 v))) in
      if str_contains trimmed ''../'' \<or> str_contains trimmed backslash_parent then True
      else if starts_with trimmed ''/'' \<or> starts_with trimmed ''~'' then True
      else length trimmed \<ge> 3 \<and> trimmed ! 1 = CHR '':'' \<and> (trimmed ! 2 = CHR 0x5C \<or> trimmed ! 2 = CHR ''/''))"

definition terminal_workspace_boundary_violation :: "string list \<Rightarrow> string option \<Rightarrow> string option" where
  "terminal_workspace_boundary_violation argv script =
     (let joined = (case script of Some s \<Rightarrow> join '' '' argv @ '' '' @ s | None \<Rightarrow> join '' '' argv);
          lower = to_ascii_lowercase joined in
      if str_contains lower backslash_parent \<or> str_contains lower ''../'' \<or> str_contains lower '' .. ''
      then Some ''terminal mutation references a parent directory and cannot be approved''
      else if str_contains lower '' > /'' \<or> str_contains lower '' >/'' \<or> str_contains lower '' >> /'' \<or>
         str_contains lower ''>>/'' \<or> str_contains lower '' > ~'' \<or> str_contains lower '' > %userprofile%'' \<or>
         str_contains lower '' > $home''
      then Some ''terminal mutation writes outside the workspace boundary and cannot be approved''
      else if list_ex looks_like_absolute_or_parent_path (drop 1 argv)
      then Some ''terminal mutation contains a non-workspace-scoped path and cannot be approved''
      else None)"

text \<open>The check \<open>run_command\<close> makes before it starts the process.\<close>

definition run_command_hard_block :: "string list \<Rightarrow> string option \<Rightarrow> string option" where
  "run_command_hard_block argv script =
     (let mutation_detected = is_mutation_command argv in
      if mutation_detected then terminal_workspace_boundary_violation argv script else None)"

section \<open>Snapshots\<close>

record workspace_entry_state =
  we_kind :: string
  we_size_bytes :: "64 word"
  we_fingerprint :: string

record workspace_diff =
  wd_added_files :: "string list"
  wd_removed_files :: "string list"
  wd_changed_files :: "string list"
  wd_added_dirs :: "string list"
  wd_removed_dirs :: "string list"

type_synonym snapshot = "(string \<times> workspace_entry_state) list"

definition is_dir_entry :: "snapshot \<Rightarrow> string \<Rightarrow> bool" where
  "is_dir_entry s path \<longleftrightarrow> map_option we_kind (map_of s path) = Some ''dir''"

definition changed_entry :: "snapshot \<Rightarrow> snapshot \<Rightarrow> string \<Rightarrow> bool" where
  "changed_entry before after path =
     (case (map_of before path, map_of after path) of
        (Some old, Some new) \<Rightarrow> we_kind old = ''file'' \<and> we_kind new = ''file'' \<and> old \<noteq> new
      | _ \<Rightarrow> False)"

text \<open>The key sets are collected first; \<open>difference\<close> and \<open>intersection\<close> keep the order of the first.\<close>

definition diff_workspace_snapshots :: "snapshot \<Rightarrow> snapshot \<Rightarrow> workspace_diff" where
  "diff_workspace_snapshots before after =
     (let before_keys = bset_collect (map fst before);
          after_keys = bset_collect (map fst after);
          added = filter (\<lambda>p. p \<notin> set before_keys) after_keys;
          removed = filter (\<lambda>p. p \<notin> set after_keys) before_keys
      in \<lparr>wd_added_files = filter (\<lambda>p. \<not> is_dir_entry after p) added,
          wd_removed_files = filter (\<lambda>p. \<not> is_dir_entry before p) removed,
          wd_changed_files = filter (changed_entry before after)
            (filter (\<lambda>p. p \<in> set after_keys) before_keys),
          wd_added_dirs = filter (is_dir_entry after) added,
          wd_removed_dirs = filter (is_dir_entry before) removed\<rparr>)"

section \<open>Properties\<close>

lemma map_of_None_iff: "map_of s p = None \<longleftrightarrow> p \<notin> fst ` set s"
  by (rule map_of_eq_None_iff)

text \<open>
  The workspace diff is exact on additions, removals and changed files. A path is listed as
  added or removed, as a directory or as a file, exactly when it is in one snapshot only, and as
  changed exactly when it is a file in both with a different size or fingerprint; every list is in
  strictly ascending order.
\<close>

theorem workspace_diff_exact:
  "set (wd_added_files (diff_workspace_snapshots b a)) =
     {p. map_of b p = None \<and> map_of a p \<noteq> None \<and> \<not> is_dir_entry a p} \<and>
   set (wd_added_dirs (diff_workspace_snapshots b a)) = {p. map_of b p = None \<and> is_dir_entry a p} \<and>
   set (wd_removed_files (diff_workspace_snapshots b a)) =
     {p. map_of a p = None \<and> map_of b p \<noteq> None \<and> \<not> is_dir_entry b p} \<and>
   set (wd_removed_dirs (diff_workspace_snapshots b a)) = {p. map_of a p = None \<and> is_dir_entry b p} \<and>
   set (wd_changed_files (diff_workspace_snapshots b a)) = {p. changed_entry b a p} \<and>
   list_all (sorted_wrt (<)) [wd_added_files (diff_workspace_snapshots b a),
     wd_added_dirs (diff_workspace_snapshots b a), wd_removed_files (diff_workspace_snapshots b a),
     wd_removed_dirs (diff_workspace_snapshots b a), wd_changed_files (diff_workspace_snapshots b a)]"
proof -
  have dir: "is_dir_entry s p \<Longrightarrow> p \<in> fst ` set s" for s p
    using map_of_None_iff [of s p] by (auto simp: is_dir_entry_def)
  have ch: "changed_entry b a p \<Longrightarrow> p \<in> fst ` set b \<and> p \<in> fst ` set a" for p
    using map_of_None_iff [of a p] map_of_None_iff [of b p]
    by (auto simp: changed_entry_def split: option.splits)
  have "sorted_wrt (<) (filter P (filter Q (bset_collect xs)))" for P Q and xs :: "string list"
    by (intro sorted_wrt_filter sorted_bset_collect)
  then show ?thesis
    using dir ch by (auto simp: diff_workspace_snapshots_def Let_def map_of_None_iff)
qed

lemma str_contains_context: "str_contains x p \<Longrightarrow> str_contains (a @ x @ b) p"
  by (auto simp: str_contains_iff) (metis append.assoc)

text \<open>
  A command that passes the boundary check names no parent directory: neither its joined text
  nor its script contains a \<open>..\<close> step, and no argument after the program is an absolute, home or
  drive path once its quotes are stripped.
\<close>

theorem boundary_check_rejects_escapes:
  assumes "terminal_workspace_boundary_violation argv script = None"
  shows "\<not> str_contains (to_ascii_lowercase (join '' '' argv)) ''../'' \<and>
     (case script of None \<Rightarrow> True | Some s \<Rightarrow> \<not> str_contains (to_ascii_lowercase s) ''../'') \<and>
     list_all (\<lambda>arg. \<not> looks_like_absolute_or_parent_path arg) (drop 1 argv)"
proof -
  let ?j = "case script of Some s \<Rightarrow> join '' '' argv @ '' '' @ s | None \<Rightarrow> join '' '' argv"
  from assms have j: "\<not> str_contains (to_ascii_lowercase ?j) ''../''"
    and args: "\<not> list_ex looks_like_absolute_or_parent_path (drop 1 argv)"
    unfolding terminal_workspace_boundary_violation_def Let_def by (simp_all split: if_splits)
  have "str_contains (to_ascii_lowercase (join '' '' argv)) ''../'' \<Longrightarrow> str_contains (to_ascii_lowercase ?j) ''../''"
    using str_contains_context [of "to_ascii_lowercase (join '' '' argv)" "''../''" "[]"]
    by (cases script) (simp_all add: to_ascii_lowercase_def)
  moreover have "str_contains (to_ascii_lowercase s) ''../'' \<Longrightarrow> str_contains (to_ascii_lowercase ?j) ''../''"
    if "script = Some s" for s
    using str_contains_context [of "to_ascii_lowercase s" "''../''" "to_ascii_lowercase (join '' '' argv @ '' '')" "[]"] that
    by (simp add: to_ascii_lowercase_def)
  ultimately show ?thesis using j args by (auto simp: list_all_iff list_ex_iff split: option.splits)
qed

theorem boundary_check_rejects_escapes_witness:
  "terminal_workspace_boundary_violation [''touch'', ''docs/a.md''] None = None \<and>
   \<not> looks_like_absolute_or_parent_path ''docs/a.md''"
proof -
  have c: "terminal_workspace_boundary_violation [''touch'', ''docs/a.md''] None = None" by code_simp
  from boundary_check_rejects_escapes [OF c] c show ?thesis by simp
qed

text \<open>
  The boundary check guards recognised mutations only, and a program called by its bare name is
  not recognised: the patterns \<open>rm\<close> and \<open>del\<close> ask for a space on either side, but the joined
  arguments start with the program. So a recursive removal of a parent directory runs unchecked,
  although the check itself would refuse it; with any word before it the same command is stopped.
\<close>

theorem bare_removal_skips_boundary_check:
  "run_command_hard_block [''rm'', ''-rf'', ''../x''] None = None \<and>
   terminal_workspace_boundary_violation [''rm'', ''-rf'', ''../x''] None \<noteq> None \<and>
   run_command_hard_block [''sudo'', ''rm'', ''-rf'', ''../x''] None \<noteq> None"
  by code_simp

end
