(* ===== verification/Capability_Kernel.thy ===== *)
theory Capability_Kernel
  imports Capability_Registry Approval_Claims Terminal_Policy
begin

text \<open>
  \<open>process_kernel/src/capability_kernel.rs\<close>: how a capability call is turned into an approval
  request (its effective policy and its target paths), what the kernel does with the request, and
  how previews are scoped. The existence of files and the JSON parser are parameters; the files the
  plans are read from are the blobs of the world.
\<close>

section \<open>Requests\<close>

record capability_approval_request =
  ra_capability_id :: string
  ra_policy :: capability_approval_policy
  ra_target_paths :: "string list"
  ra_target_path_schema :: string
  ra_explicit_approval_id :: "string option"

record capability_approval_guard =
  ga_approval_token_id :: string
  ga_capability_id :: string
  ga_target_paths :: "string list"
  ga_policy :: capability_approval_policy
  ga_binding :: string

fun scope_items_loop :: "string list \<Rightarrow> string list \<Rightarrow> string list" where
  "scope_items_loop seen [] = []"
| "scope_items_loop seen (item # items) =
     (let v = trim (fwd_slashes item) in
      if v = [] \<or> v = ''*'' \<or> v \<in> set seen then scope_items_loop seen items
      else v # scope_items_loop (v # seen) items)"

definition normalize_scope_items :: "string list \<Rightarrow> string list" where
  "normalize_scope_items items = scope_items_loop [] items"

definition normalize_path_string :: "string \<Rightarrow> string" where
  "normalize_path_string p = trim_start_str ''./'' (trim (fwd_slashes p))"

definition json_string_array :: "json \<Rightarrow> string \<Rightarrow> string list" where
  "json_string_array d key =
     unwrap_or [] (map_option strings_of (Option.bind
       (or_else (jget d key) (Option.bind (jget d ''data'') (\<lambda>inner. jget inner key))) as_array))"

definition has_any_path :: "json \<Rightarrow> string list \<Rightarrow> bool" where
  "has_any_path arguments keys =
     list_ex (\<lambda>key. case get_str arguments key of None \<Rightarrow> False | Some v \<Rightarrow> trim v \<noteq> []) keys"

definition high_risk_patterns :: "string list" where
  "high_risk_patterns = ['' remove-item '', '' rm '', '' del '', '' erase '', '' rmdir '', '' move-item '',
     '' move '', '' mv '', '' rename-item '', '' ren '', '' icacls '', '' chmod '', '' chown '',
     '' takeown '', '' set-acl '', '' reg '', '' reg.exe '', '' set-executionpolicy '', '' new-service '',
     '' sc.exe '']"

definition terminal_command_high_risk_detected :: "string list \<Rightarrow> bool" where
  "terminal_command_high_risk_detected argv =
     (let joined = '' '' @ to_ascii_lowercase (join '' '' argv) @ '' ''
      in list_ex (str_contains joined) high_risk_patterns)"

definition effective_approval_policy :: "capability_descriptor \<Rightarrow> json \<Rightarrow> capability_approval_policy" where
  "effective_approval_policy d arguments =
     (if cd_capability_id d = ''os.write_file''
      then (case get_str arguments ''write_kind'' of
              None \<Rightarrow> ReadOnly
            | Some k \<Rightarrow>
                if k = ''source_mutation'' then WorkspaceMutation
                else if k = ''temp_dataset'' then ArtifactCreate
                else if k = ''artifact'' then ArtifactCreate
                else ReadOnly)
      else if cd_capability_id d = ''terminal.run_command''
      then (let argv = unwrap_or [] (map_option strings_of (get_array arguments ''argv'')) in
            if terminal_command_mutation_detected argv
            then (let target_paths = json_string_array arguments ''target_paths'' in
                  if target_paths = [] \<or> terminal_command_high_risk_detected argv
                  then TerminalUnknownSideEffect else ArtifactCreate)
            else ReadOnly)
      else canonical (policy_from_descriptor (cd_approval_policy d)))"

definition source_keys :: "string list" where
  "source_keys = [''source_path'', ''input_path'', ''archive_path'', ''before_path'']"

definition target_keys :: "string list" where
  "target_keys = [''path'', ''artifact_path'', ''output_path'', ''destination_path'', ''destination_zip_path'',
     ''destination_dir'', ''tree_path'', ''manifest_path'', ''checksums_path'', ''perf_notes_path'', ''after_path'']"

definition source_target_overlap :: "json \<Rightarrow> bool" where
  "source_target_overlap arguments =
     (let sources = bset_collect (map normalize_path_string (List.map_filter (get_str arguments) source_keys)) in
      if sources = [] then False
      else list_ex (\<lambda>target. target \<in> set sources)
        (map normalize_path_string (List.map_filter (get_str arguments) target_keys)))"

text \<open>\<open>approval_target_path_keys\<close>, arm by arm; the guarded arms come before the plain ones.\<close>

definition approval_target_path_keys :: "string \<Rightarrow> capability_approval_policy \<Rightarrow> string list" where
  "approval_target_path_keys c p =
     (if c = ''office.docx.rewrite_save_as'' then [''output_path'']
      else if c \<in> {''office.docx.rewrite_in_place'', ''office.docx.rewrite_in_place_preview''} then [''input_path'']
      else if c = ''office.docx.create'' then [''output_path'']
      else if c = ''os.copy_path'' \<and> p \<in> {ArtifactCreate, PreviewBoundMutation} then [''destination_path'']
      else if c = ''os.unzip'' \<and> p \<in> {ArtifactCreate, PreviewBoundMutation} then [''destination_dir'']
      else if c \<in> {''os.copy_path'', ''os.move_path'', ''os.rename_path''} then [''source_path'', ''destination_path'']
      else if c = ''os.delete_path'' then [''path'']
      else if c \<in> {''os.write_file'', ''os.write_artifact'', ''os.write_temp_dataset'',
             ''os.write_source_mutation_preview'', ''os.write_source_mutation_apply''}
      then [''path'', ''artifact_path'']
      else if c = ''os.zip'' then [''destination_zip_path'']
      else if c = ''os.unzip'' then [''archive_path'', ''destination_dir'']
      else if c = ''artifact.copy_source_set'' then [''destination_dir'']
      else if c = ''workspace.tree_index'' then [''tree_path'']
      else if c = ''workspace.perf_inventory'' then [''output_path'']
      else if c \<in> {''dataset.export_csv'', ''dataset.export_markdown''} then [''output_path'']
      else if c = ''package.build_zip''
      then [''destination_zip_path'', ''manifest_path'', ''checksums_path'', ''perf_notes_path'']
      else if p \<in> {ArtifactCreate, PreviewBoundMutation} then target_keys
      else [''path'', ''artifact_path'', ''output_path'', ''destination_path'', ''destination_zip_path'',
            ''destination_dir'', ''tree_path'', ''manifest_path'', ''checksums_path'', ''perf_notes_path'',
            ''archive_path'', ''input_path'', ''source_path'', ''before_path'', ''after_path''])"

text \<open>The parser of \<open>serde_json\<close>: \<open>None\<close> when the text is no JSON value.\<close>

definition operation_paths :: "json \<Rightarrow> string list" where
  "operation_paths p = List.map_filter (get_str p) [''source_path'', ''destination_path'']"

definition plan_target_paths :: "(string \<Rightarrow> json option) \<Rightarrow> string \<Rightarrow> string \<Rightarrow> (world, string list) io" where
  "plan_target_paths parse job plan_ref =
     io_bind (io_lift (resolve_blob_ref job plan_ref)) (\<lambda>p.
     io_bind (read_file p) (\<lambda>s.
     io_bind (ok_or (IoError InvalidData ''invalid json'') (parse s)) (\<lambda>v.
     io_return (case get_array v ''operations'' of
        None \<Rightarrow> [] | Some operations \<Rightarrow> concat (map operation_paths operations)))))"

definition plan_paths :: "(string \<Rightarrow> json option) \<Rightarrow> string \<Rightarrow> json \<Rightarrow> string \<Rightarrow> (world, string list) io" where
  "plan_paths parse job arguments key =
     (case get_str arguments key of None \<Rightarrow> io_return [] | Some plan_ref \<Rightarrow> plan_target_paths parse job plan_ref)"

definition default_target_paths :: "string \<Rightarrow> json \<Rightarrow> string list" where
  "default_target_paths c arguments =
     (if c = ''workspace.tree_index'' \<and> \<not> has_any_path arguments [''tree_path'', ''path''] then [''TREE.md'']
      else if c = ''workspace.perf_inventory'' \<and> \<not> has_any_path arguments [''output_path'', ''path'']
      then [''PERF_NOTES.json'']
      else if c = ''package.build_zip''
      then (if get_str arguments ''manifest_path'' = None then [''PACK_MANIFEST.md''] else [])
         @ (if get_str arguments ''checksums_path'' = None then [''SHA256SUMS.txt''] else [])
         @ (if get_str arguments ''perf_notes_path'' = None then [''PERF_NOTES.json''] else [])
      else [])"

definition extract_approval_target_paths ::
  "(string \<Rightarrow> json option) \<Rightarrow> string \<Rightarrow> capability_descriptor \<Rightarrow> json \<Rightarrow> capability_approval_policy \<Rightarrow>
   (world, string list) io" where
  "extract_approval_target_paths parse job d arguments policy =
     (if is_uncontrolled policy then io_return []
      else
       (let paths = json_string_array arguments ''target_paths''
              @ List.map_filter (get_str arguments) (approval_target_path_keys (cd_capability_id d) policy)
        in io_bind (plan_paths parse job arguments ''organize_plan_ref'') (\<lambda>organize.
           io_bind (plan_paths parse job arguments ''rename_plan_ref'') (\<lambda>rename.
           io_return (normalize_scope_items
             (paths @ organize @ rename @ default_target_paths (cd_capability_id d) arguments))))))"

text \<open>The loop over the targets: the first one that does not resolve is an error, the first that exists upgrades.\<close>

fun any_target_exists :: "path \<Rightarrow> (path \<Rightarrow> bool) \<Rightarrow> string list \<Rightarrow> bool res" where
  "any_target_exists root exists [] = Inr False"
| "any_target_exists root exists (target # targets) =
     (if trim target = [] then any_target_exists root exists targets
      else (case resolve_workspace_path root (unix_components target) of
              Inl err \<Rightarrow> Inl (IoError PermissionDenied err)
            | Inr p \<Rightarrow> if exists p then Inr True else any_target_exists root exists targets))"

definition upgrade_artifact_create_policy_for_existing_targets ::
  "path \<Rightarrow> (path \<Rightarrow> bool) \<Rightarrow> capability_descriptor \<Rightarrow> json \<Rightarrow> string list \<Rightarrow> capability_approval_policy \<Rightarrow>
   (world, capability_approval_policy) io" where
  "upgrade_artifact_create_policy_for_existing_targets root exists d arguments target_paths policy =
     (if policy \<noteq> ArtifactCreate then io_return policy
      else if source_target_overlap arguments then io_return PreviewBoundMutation
      else io_bind sys_op (\<lambda>_. io_bind (io_lift (any_target_exists root exists target_paths)) (\<lambda>found.
        if found then io_return PreviewBoundMutation
        else if cd_capability_id d = ''office.docx.rewrite_save_as'' \<and>
          list_ex (\<lambda>p. case get_str arguments ''input_path'' of None \<Rightarrow> False
            | Some input \<Rightarrow> normalize_path_string input = normalize_path_string p) target_paths
        then io_return PreviewBoundMutation
        else io_return policy)))"

definition build_capability_approval_request ::
  "path \<Rightarrow> (path \<Rightarrow> bool) \<Rightarrow> (string \<Rightarrow> json option) \<Rightarrow> string \<Rightarrow> capability_descriptor \<Rightarrow> json \<Rightarrow>
   string option \<Rightarrow> (world, capability_approval_request) io" where
  "build_capability_approval_request root exists parse job d arguments explicit_approval_id =
     (let policy = effective_approval_policy d arguments in
      io_bind (extract_approval_target_paths parse job d arguments policy) (\<lambda>target_paths.
      io_bind (upgrade_artifact_create_policy_for_existing_targets root exists d arguments target_paths policy)
        (\<lambda>policy. io_return
          \<lparr>ra_capability_id = cd_capability_id d, ra_policy = policy, ra_target_paths = target_paths,
           ra_target_path_schema = cd_target_path_schema d, ra_explicit_approval_id = explicit_approval_id\<rparr>)))"

section \<open>Preparing and finalising\<close>

text \<open>
  \<open>prepare_capability_approval\<close>: the inner result is a blocking receipt or the guard to finalise.
  In this release it only records that the approval flow was bypassed.
\<close>

definition prepare_capability_approval ::
  "string \<Rightarrow> string \<Rightarrow> capability_approval_request \<Rightarrow>
   (world, capability_receipt + capability_approval_guard option) io" where
  "prepare_capability_approval job token_pid request0 =
     (let request = request0\<lparr>ra_policy := canonical (ra_policy request0),
            ra_target_paths := normalize_scope_items (ra_target_paths request0)\<rparr> in
      io_bind
        (if \<not> is_uncontrolled (ra_policy request) \<or> ra_policy request = ArtifactCreate
         then io_bind (append_event job (Some token_pid) ''capability_approval_bypassed'' (jobj
           [(''capability_id'', JString (ra_capability_id request)),
            (''approval_policy'', JString (policy_as_str (ra_policy request))),
            (''target_paths'', jstrings (ra_target_paths request)),
            (''target_path_schema'', JString (ra_target_path_schema request)),
            (''provided_approval_id'', jopt (ra_explicit_approval_id request)),
            (''mode'', JString ''rc0_run_through''),
            (''runtime_note'', JString ''Preview/approve/reject/edit blocking flow is disabled; capability execution proceeds through normal Kernel hard boundaries, runtime receipts, and rollback evidence.'')]))
           (\<lambda>_. io_return ())
         else io_return ())
        (\<lambda>_. io_return (Inr None)))"

definition finalize_capability_approval ::
  "string \<Rightarrow> string \<Rightarrow> capability_approval_guard option \<Rightarrow> capability_receipt \<Rightarrow> (world, unit) io" where
  "finalize_capability_approval job pid guard receipt =
     (case guard of
        None \<Rightarrow> io_return ()
      | Some g \<Rightarrow>
          if rc_status receipt \<noteq> ''success'' then io_return ()
          else io_bind (mark_token_used job pid (ga_approval_token_id g) (ga_capability_id g) (ga_target_paths g))
            (\<lambda>_. io_bind (append_event job (Some pid) ''capability_approval_finalized'' (jobj
              [(''approval_token_id'', JString (ga_approval_token_id g)),
               (''capability_id'', JString (ga_capability_id g)),
               (''target_paths'', jstrings (ga_target_paths g)),
               (''approval_policy'', JString (policy_as_str (ga_policy g))),
               (''binding'', JString (ga_binding g)),
               (''receipt_status'', JString (rc_status receipt))])) (\<lambda>_. io_return ())))"

definition bind_preview_capability_receipt_to_tx ::
  "string \<Rightarrow> string \<Rightarrow> capability_descriptor \<Rightarrow> capability_receipt \<Rightarrow> (world, preview_tx option) io" where
  "bind_preview_capability_receipt_to_tx job pid d receipt =
     (if canonical (policy_from_descriptor (cd_approval_policy d)) \<noteq> PreviewOnly \<or> rc_status receipt \<noteq> ''success''
      then io_return None
      else io_bind (append_event job (Some pid) ''capability_preview_tx_bypassed'' (jobj
        [(''capability_id'', JString (rc_capability_id receipt)),
         (''receipt_status'', JString (rc_status receipt)),
         (''preview_disabled'', Bool True), (''no_preview_created'', Bool True),
         (''approval_required'', Bool False), (''waiting_for_approval'', Bool False),
         (''kernel_wrapper'', JString ''capability_preview_tx''),
         (''runtime_note'', JString ''Preview/approve/reject/edit blocking flow is disabled for RC0 run-through. Preview-only receipts no longer create approval transactions.'')]))
        (\<lambda>_. io_return None))"

section \<open>Scoping previews\<close>

definition expand_preview_target_paths_for_actions :: "string list \<Rightarrow> string list \<Rightarrow> string list" where
  "expand_preview_target_paths_for_actions proposed_actions target_paths =
     (let paths = normalize_scope_items target_paths;
          actions = bset_collect (map trim proposed_actions);
          expanded = (if ''package.build_zip'' \<in> set actions
            then foldl (\<lambda>ps implicit. if list_ex (\<lambda>p. normalize_path_string p = implicit) ps then ps else ps @ [implicit])
              paths [''PACK_MANIFEST.md'', ''SHA256SUMS.txt'', ''PERF_NOTES.json'']
            else paths)
      in normalize_scope_items expanded)"

definition looks_like_canonical_capability_id :: "string \<Rightarrow> bool" where
  "looks_like_canonical_capability_id v0 =
     (let v = trim v0 in v \<noteq> [] \<and> v \<noteq> ''*'' \<and> str_contains v ''.'' \<and>
        list_all (\<lambda>c. is_ascii_alphanumeric c \<or> c \<in> {CHR ''.'', CHR ''_'', CHR ''-''}) v)"

fun scope_operations_loop ::
  "(string \<Rightarrow> executable_preview_operation) \<Rightarrow> string list \<Rightarrow> string list \<Rightarrow> executable_preview_operation list" where
  "scope_operations_loop mk seen [] = []"
| "scope_operations_loop mk seen (action # actions) =
     (let cid = trim action in
      if \<not> looks_like_canonical_capability_id cid \<or> cid \<in> set seen
      then scope_operations_loop mk seen actions
      else mk cid # scope_operations_loop mk (cid # seen) actions)"

definition executable_preview_operations_from_scope ::
  "string list \<Rightarrow> string list \<Rightarrow> string option \<Rightarrow> json \<Rightarrow> string option \<Rightarrow> executable_preview_operation list" where
  "executable_preview_operations_from_scope proposed_actions target_paths human_description arguments rollback_policy =
     (let paths = normalize_scope_items target_paths in
      if paths = [] then []
      else scope_operations_loop (\<lambda>cid.
        \<lparr>op_capability_id = cid, op_arguments = arguments, op_target_paths = paths,
         op_human_description = unwrap_or cid human_description, op_rollback_policy = rollback_policy\<rparr>)
        [] proposed_actions)"

definition payload_generates :: "string \<Rightarrow> json \<Rightarrow> bool" where
  "payload_generates normalized payload =
     (if get_str payload ''status'' = Some ''blocked'' then False
      else if (case Option.bind (or_else (or_else (jget payload ''artifact_path'') (jget payload ''archive_path''))
                 (jget payload ''destination_path'')) as_str of
               None \<Rightarrow> False | Some p \<Rightarrow> normalize_path_string p = normalized)
      then True
      else (case get_array payload ''artifacts'' of
              None \<Rightarrow> False
            | Some items \<Rightarrow> list_ex (\<lambda>p. normalize_path_string p = normalized) (strings_of items)))"

definition artifact_path_generated_by_current_job :: "string \<Rightarrow> string \<Rightarrow> (world, bool) io" where
  "artifact_path_generated_by_current_job job artifact_path =
     (let normalized = normalize_path_string artifact_path in
      io_bind (read_events job) (\<lambda>events. io_return
        (list_ex (\<lambda>e. list_ex (payload_generates normalized) (event_payloads e)) events)))"

end
