(* ===== verification/Kernel_Claims.thy ===== *)
theory Kernel_Claims
  imports Capability_Kernel Closure_Claims
begin

text \<open>
  The properties of the capability kernel: what a request covers, when creating an artifact needs a
  bound preview, that scoped operations pass the approval runtime unchanged, and what the present
  release does with a request.
\<close>

section \<open>Scopes\<close>

lemma scope_items_loop_spec:
  "scope_items_loop seen items = keep_first seen (filter (\<lambda>v. v \<noteq> [] \<and> v \<noteq> ''*'') (map scope_key items))"
  by (induction items arbitrary: seen) (auto simp: scope_key_def Let_def)

lemma set_normalize_scope_items:
  "set (normalize_scope_items items) = scope_key ` set items - {[], ''*''}"
  by (auto simp: normalize_scope_items_def scope_items_loop_spec set_keep_first)

lemma distinct_normalize: "distinct (normalize_scope_items items)"
  by (simp add: normalize_scope_items_def scope_items_loop_spec distinct_keep_first)

lemma normalize_scope_items_ok: "normalize_scope_items items \<noteq> [] \<Longrightarrow> scope_ok (normalize_scope_items items)"
  using set_normalize_scope_items [of items]
  by (auto simp: scope_ok_def normalize_scope_items_def scope_items_loop_spec distinct_keep_first)

lemma any_target_exists_False:
  "any_target_exists root exists targets = Inr False \<Longrightarrow> target \<in> set targets \<Longrightarrow> trim target \<noteq> [] \<Longrightarrow>
   \<exists>p. resolve_workspace_path root (unix_components target) = Inr p \<and> \<not> exists p"
  by (induction root exists targets rule: any_target_exists.induct) (auto split: if_splits sum.splits)

lemma upgrade_result:
  assumes "upgrade_artifact_create_policy_for_existing_targets root exists d arguments targets policy w = (Inr policy', w')"
    and "policy' = ArtifactCreate"
  shows "policy = ArtifactCreate \<and> \<not> source_target_overlap arguments \<and>
     any_target_exists root exists targets = Inr False"
  using assms unfolding upgrade_artifact_create_policy_for_existing_targets_def
  by (auto simp: io_return_apply io_lift_apply elim!: io_bindE split: if_split_asm)

text \<open>
  The paths a call names, read off its arguments, the plans its arguments refer to and the files its
  capability writes when it is given no name for them.
\<close>

definition argument_targets :: "capability_descriptor \<Rightarrow> json \<Rightarrow> string set" where
  "argument_targets d arguments = set (json_string_array arguments ''target_paths'') \<union>
     {x. \<exists>k \<in> set (approval_target_path_keys (cd_capability_id d) (effective_approval_policy d arguments)).
        get_str arguments k = Some x}"

definition plan_names :: "(string \<Rightarrow> json option) \<Rightarrow> string \<Rightarrow> world \<Rightarrow> string \<Rightarrow> string set" where
  "plan_names parse job w plan_ref =
     {x. \<exists>p s v ops op k. resolve_blob_ref job plan_ref = Inr p \<and> w_files w p = Some s \<and> parse s = Some v \<and>
        get_array v ''operations'' = Some ops \<and> op \<in> set ops \<and> k \<in> {''source_path'', ''destination_path''} \<and>
        get_str op k = Some x}"

definition plan_targets :: "(string \<Rightarrow> json option) \<Rightarrow> string \<Rightarrow> world \<Rightarrow> json \<Rightarrow> string set" where
  "plan_targets parse job w arguments =
     {x. \<exists>key plan_ref. key \<in> {''organize_plan_ref'', ''rename_plan_ref''} \<and> get_str arguments key = Some plan_ref \<and>
        x \<in> plan_names parse job w plan_ref}"

definition unnamed_targets :: "string \<Rightarrow> json \<Rightarrow> string set" where
  "unnamed_targets c arguments =
     {x. c = ''workspace.tree_index'' \<and> x = ''TREE.md'' \<and> \<not> has_any_path arguments [''tree_path'', ''path''] \<or>
       c = ''workspace.perf_inventory'' \<and> x = ''PERF_NOTES.json'' \<and> \<not> has_any_path arguments [''output_path'', ''path''] \<or>
       c = ''package.build_zip'' \<and> (\<exists>k. get_str arguments k = None \<and> (k, x) \<in>
         {(''manifest_path'', ''PACK_MANIFEST.md''), (''checksums_path'', ''SHA256SUMS.txt''), (''perf_notes_path'', ''PERF_NOTES.json'')})}"

lemma operation_paths_set: "set (operation_paths op) = {x. \<exists>k \<in> {''source_path'', ''destination_path''}. get_str op k = Some x}"
  by (rule set_eqI) (simp only: operation_paths_def set_map_filter mem_Collect_eq list.set)

lemma plan_target_paths_result:
  assumes "plan_target_paths parse job plan_ref w = (Inr paths, w')"
  shows "w_files w' = w_files w" and "set paths = plan_names parse job w plan_ref"
proof -
  from assms obtain p s v w1 where p: "resolve_blob_ref job plan_ref = Inr p" and r: "read_file p w = (Inr s, w1)" and
    v: "parse s = Some v" and
    q: "paths = (case get_array v ''operations'' of None \<Rightarrow> [] | Some operations \<Rightarrow> concat (map operation_paths operations))" "w' = w1"
    unfolding plan_target_paths_def
    by (elim io_bindE) (auto simp: io_lift_def io_return_def ok_or_def io_fail_def split: option.splits)
  from r have f: "w_files w1 = w_files w" "w_files w p = Some s"
    by (auto simp: read_file_def io_bind_def sys_op_def io_get_def io_fail_def io_return_def Let_def
        split: if_splits option.splits)
  show "w_files w' = w_files w" using q f by simp
  show "set paths = plan_names parse job w plan_ref"
  proof (cases "get_array v ''operations''")
    case None
    with p v f q show ?thesis by (simp add: plan_names_def)
  next
    case (Some ops)
    then have "x \<in> set paths \<longleftrightarrow> (\<exists>op \<in> set ops. x \<in> set (operation_paths op))" for x by (simp add: q)
    then have "set paths = {x. \<exists>op \<in> set ops. \<exists>k \<in> {''source_path'', ''destination_path''}. get_str op k = Some x}"
      by (simp only: operation_paths_set mem_Collect_eq set_eq_iff) simp
    moreover have "plan_names parse job w plan_ref =
        {x. \<exists>op \<in> set ops. \<exists>k \<in> {''source_path'', ''destination_path''}. get_str op k = Some x}"
      unfolding plan_names_def set_eq_iff mem_Collect_eq
      by (intro allI) (simp add: p v f Some del: insert_iff, blast)
    ultimately show ?thesis by simp
  qed
qed

lemma plan_paths_result:
  assumes "plan_paths parse job arguments key w = (Inr paths, w')"
  shows "w_files w' = w_files w" and
    "set paths = {x. \<exists>plan_ref. get_str arguments key = Some plan_ref \<and> x \<in> plan_names parse job w plan_ref}"
proof -
  have "w_files w' = w_files w \<and>
    set paths = {x. \<exists>plan_ref. get_str arguments key = Some plan_ref \<and> x \<in> plan_names parse job w plan_ref}"
  proof (cases "get_str arguments key")
    case None
    with assms show ?thesis by (simp add: plan_paths_def io_return_def)
  next
    case (Some plan_ref)
    with assms have "plan_target_paths parse job plan_ref w = (Inr paths, w')" by (simp add: plan_paths_def)
    from plan_target_paths_result [OF this] Some show ?thesis by simp
  qed
  then show "w_files w' = w_files w"
    "set paths = {x. \<exists>plan_ref. get_str arguments key = Some plan_ref \<and> x \<in> plan_names parse job w plan_ref}" by blast+
qed

lemma default_target_paths_set: "set (default_target_paths c arguments) = unnamed_targets c arguments"
proof -
  consider "c = ''workspace.tree_index''" | "c = ''workspace.perf_inventory''" | "c = ''package.build_zip''"
    | "c \<noteq> ''workspace.tree_index''" "c \<noteq> ''workspace.perf_inventory''" "c \<noteq> ''package.build_zip''" by blast
  then show ?thesis
  proof cases
    case 1
    then show ?thesis by (simp add: default_target_paths_def unnamed_targets_def)
  next
    case 2
    then show ?thesis by (simp add: default_target_paths_def unnamed_targets_def)
  next
    case 3
    have "x \<in> set (default_target_paths c arguments) \<longleftrightarrow> x \<in> unnamed_targets c arguments" for x
      by (simp add: 3 default_target_paths_def unnamed_targets_def) blast
    then show ?thesis by blast
  next
    case 4
    then show ?thesis by (simp add: default_target_paths_def unnamed_targets_def)
  qed
qed

lemma extract_result:
  assumes "extract_approval_target_paths parse job d arguments (effective_approval_policy d arguments) w = (Inr paths, w')"
  shows "(is_uncontrolled (effective_approval_policy d arguments) \<longrightarrow> paths = []) \<and>
    (\<not> is_uncontrolled (effective_approval_policy d arguments) \<longrightarrow> (\<exists>items. paths = normalize_scope_items items \<and>
       set items = argument_targets d arguments \<union> plan_targets parse job w arguments \<union> unnamed_targets (cd_capability_id d) arguments))"
proof (cases "is_uncontrolled (effective_approval_policy d arguments)")
  case True
  with assms show ?thesis by (simp add: extract_approval_target_paths_def io_return_apply)
next
  case False
  let ?keys = "approval_target_path_keys (cd_capability_id d) (effective_approval_policy d arguments)"
  from assms False obtain organize rename w1 w2 where
    o1: "plan_paths parse job arguments ''organize_plan_ref'' w = (Inr organize, w1)" and
    o2: "plan_paths parse job arguments ''rename_plan_ref'' w1 = (Inr rename, w2)" and
    p: "paths = normalize_scope_items (json_string_array arguments ''target_paths'' @ List.map_filter (get_str arguments) ?keys @
      organize @ rename @ default_target_paths (cd_capability_id d) arguments)"
    unfolding extract_approval_target_paths_def Let_def by (auto simp: io_return_apply elim!: io_bindE)
  have "plan_targets parse job w arguments = set organize \<union> set rename"
  proof -
    have "plan_names parse job w1 = plan_names parse job w"
      by (simp add: fun_eq_iff plan_names_def plan_paths_result(1) [OF o1])
    moreover have "plan_targets parse job w arguments =
        {x. \<exists>plan_ref. get_str arguments ''organize_plan_ref'' = Some plan_ref \<and> x \<in> plan_names parse job w plan_ref} \<union>
        {x. \<exists>plan_ref. get_str arguments ''rename_plan_ref'' = Some plan_ref \<and> x \<in> plan_names parse job w plan_ref}"
      unfolding plan_targets_def by blast
    ultimately show ?thesis by (simp only: plan_paths_result(2) [OF o1] plan_paths_result(2) [OF o2])
  qed
  moreover have "set (json_string_array arguments ''target_paths'' @ List.map_filter (get_str arguments) ?keys) = argument_targets d arguments"
    by (force simp: argument_targets_def set_map_filter)
  ultimately show ?thesis using False p default_target_paths_set
    by (intro conjI impI exI [of _ "json_string_array arguments ''target_paths'' @ List.map_filter (get_str arguments) ?keys @
      organize @ rename @ default_target_paths (cd_capability_id d) arguments"]) auto
qed

text \<open>
  C32: an approval request covers what the call names, and nothing else. For a controlled call the
  request's target paths are, without repetition and in normal form, exactly the explicit target paths, the path
  arguments of the capability, the sources and destinations of the operations in the organize and rename plans the
  arguments refer to, and the files the capability writes under a fixed name when none is given, blanks and
  wildcards apart; they are a scope of the approval runtime or empty. An uncontrolled call has no target. A request
  that stays \<open>artifact_create\<close> creates something new: no target exists and none leaves the workspace, and no
  source of the call is one of its targets.
\<close>

theorem request_covers_call:
  assumes "build_capability_approval_request root exists parse job d arguments approval w = (Inr r, w')"
  shows "(if is_uncontrolled (effective_approval_policy d arguments) then ra_target_paths r = []
      else distinct (ra_target_paths r) \<and> set (ra_target_paths r) =
        scope_key ` (argument_targets d arguments \<union> plan_targets parse job w arguments \<union>
          unnamed_targets (cd_capability_id d) arguments) - {[], ''*''}) \<and>
     (ra_target_paths r = [] \<or> scope_ok (ra_target_paths r)) \<and>
     (ra_policy r = ArtifactCreate \<longrightarrow> \<not> source_target_overlap arguments \<and>
       (\<forall>target \<in> set (ra_target_paths r). \<exists>p.
          resolve_workspace_path root (unix_components target) = Inr p \<and> \<not> exists p))"
proof -
  let ?p0 = "effective_approval_policy d arguments"
  from assms obtain targets w1 policy where
    x: "extract_approval_target_paths parse job d arguments ?p0 w = (Inr targets, w1)" and
    u: "upgrade_artifact_create_policy_for_existing_targets root exists d arguments targets ?p0 w1 = (Inr policy, w')" and
    r: "ra_target_paths r = targets" "ra_policy r = policy"
    unfolding build_capability_approval_request_def Let_def
    by (elim io_bindE) (auto simp: io_return_apply)
  have t: "if is_uncontrolled ?p0 then targets = [] else distinct targets \<and> set targets =
        scope_key ` (argument_targets d arguments \<union> plan_targets parse job w arguments \<union>
          unnamed_targets (cd_capability_id d) arguments) - {[], ''*''}"
    using extract_result [OF x] set_normalize_scope_items distinct_normalize by (metis (no_types))
  have "targets = [] \<or> scope_ok targets" using extract_result [OF x] normalize_scope_items_ok by blast
  moreover from this have "trim target \<noteq> []" if "target \<in> set targets" for target
    using that scope_ok_log_strings [of targets] by (auto simp: log_strings_def)
  then have "policy = ArtifactCreate \<longrightarrow> \<not> source_target_overlap arguments \<and>
       (\<forall>target \<in> set targets. \<exists>p. resolve_workspace_path root (unix_components target) = Inr p \<and> \<not> exists p)"
    using upgrade_result [OF u] any_target_exists_False [of root exists targets] by blast
  ultimately show ?thesis using t unfolding r by blast
qed

section \<open>Operations for the approval runtime\<close>

lemma scope_operations_loop_members:
  "p \<in> set (scope_operations_loop mk seen actions) \<Longrightarrow>
   \<exists>cid. p = mk cid \<and> looks_like_canonical_capability_id cid \<and> trim cid = cid"
  by (induction mk seen actions rule: scope_operations_loop.induct) (auto simp: Let_def split: if_splits)

lemma normalize_operations_loop_id:
  "\<forall>p \<in> set ps. normalize_operation p = Inr p \<Longrightarrow> normalize_operations_loop ps = Inr ps"
  by (induction ps) auto

text \<open>
  What the kernel scopes, the approval runtime accepts as it is. The operations built from
  proposed actions and target paths, if there are any, pass \<open>normalize_executable_operations\<close>
  unchanged: ids are trimmed and no wildcards, paths are a normalised scope, descriptions are not
  blank (as long as the given description is not).
\<close>

theorem scoped_operations_are_normal:
  assumes "qs = executable_preview_operations_from_scope actions targets description arguments rollback"
    and "qs \<noteq> []" and "description = None \<or> (\<exists>s. description = Some s \<and> trim s \<noteq> [])"
  shows "normalize_executable_operations qs = Inr qs"
proof -
  let ?paths = "normalize_scope_items targets"
  have ne: "?paths \<noteq> []"
    using assms(1,2) by (auto simp: executable_preview_operations_from_scope_def Let_def)
  then have paths: "normalize_preview_scope f ?paths = Inr ?paths" for f
    by (intro scope_ok_fixed normalize_scope_items_ok)
  have "normalize_operation p = Inr p" if p: "p \<in> set qs" for p
  proof -
    from p assms(1) ne obtain cid where
      "p = \<lparr>op_capability_id = cid, op_arguments = arguments, op_target_paths = ?paths,
         op_human_description = unwrap_or cid description, op_rollback_policy = rollback\<rparr>"
      "looks_like_canonical_capability_id cid" "trim cid = cid"
      by (auto simp: executable_preview_operations_from_scope_def Let_def dest: scope_operations_loop_members)
    with assms(3) show ?thesis
      by (auto simp: normalize_operation_def looks_like_canonical_capability_id_def Let_def paths)
  qed
  with assms(2) show ?thesis
    by (simp add: normalize_executable_operations_def normalize_operations_loop_id)
qed

section \<open>The approval flow of this release\<close>

text \<open>
  No request is ever blocked. In this release \<open>prepare_capability_approval\<close> answers, whenever
  the log can be written, that the call may run and that there is no guard to finalise, whatever
  the policy, the targets and the approval; a controlled call leaves one
  \<open>capability_approval_bypassed\<close> event, any other call leaves none.
\<close>

theorem prepare_never_blocks:
  assumes "prepare_capability_approval job token_pid request w = (Inr answer, w')"
  shows "answer = Inr None \<and>
     (if is_uncontrolled (ra_policy request) then w' = w
      else \<exists>e. job_events job (w_events w') = job_events job (w_events w) @ [e] \<and>
        event_type e = ''capability_approval_bypassed'' \<and>
        get_str (data e) ''approval_policy'' = Some (policy_as_str (canonical (ra_policy request))))"
proof (cases "is_uncontrolled (ra_policy request)")
  case True
  then have "canonical (ra_policy request) \<noteq> ArtifactCreate" by (auto simp: is_uncontrolled_def)
  with True assms show ?thesis
    by (auto simp: prepare_capability_approval_def Let_def io_return_apply elim!: io_bindE)
next
  case False
  let ?d = "jobj [(''capability_id'', JString (ra_capability_id request)),
            (''approval_policy'', JString (policy_as_str (canonical (ra_policy request)))),
            (''target_paths'', jstrings (normalize_scope_items (ra_target_paths request))),
            (''target_path_schema'', JString (ra_target_path_schema request)),
            (''provided_approval_id'', jopt (ra_explicit_approval_id request)),
            (''mode'', JString ''rc0_run_through''),
            (''runtime_note'', JString ''Preview/approve/reject/edit blocking flow is disabled; capability execution proceeds through normal Kernel hard boundaries, runtime receipts, and rollback evidence.'')]"
  from assms False obtain e where "answer = Inr None" and
    a: "append_event job (Some token_pid) ''capability_approval_bypassed'' ?d w = (Inr e, w')"
    by (auto simp: prepare_capability_approval_def Let_def io_return_apply elim!: io_bindE)
  with truth.add_ok [OF a] False show ?thesis by auto
qed

lemma prepare_keeps_unconsumed:
  assumes "prepare_capability_approval job token_pid request w = (Inr answer, w')"
    and "\<not> token_is_consumed (log_of w job) t"
  shows "\<not> token_is_consumed (log_of w' job) t \<and> truth.extends w w'"
proof (cases "is_uncontrolled (ra_policy request)")
  case True
  then have "canonical (ra_policy request) \<noteq> ArtifactCreate" by (auto simp: is_uncontrolled_def)
  with True assms have "w' = w"
    by (auto simp: prepare_capability_approval_def Let_def io_return_apply elim!: io_bindE)
  with assms(2) show ?thesis by (simp add: truth.extends_refl)
next
  case False
  with assms(1) obtain d e where
    a: "append_event job (Some token_pid) ''capability_approval_bypassed'' d w = (Inr e, w')"
    by (auto simp: prepare_capability_approval_def Let_def io_return_apply elim!: io_bindE)
  with truth.add_ok [OF a] truth.add_extends [OF a] assms(2) show ?thesis
    by (simp add: token_is_consumed_def)
qed

lemma prepare_no_guard:
  "prepare_capability_approval job token_pid request w = (Inr answer, w') \<Longrightarrow> answer = Inr None"
  by (auto simp: prepare_capability_approval_def Let_def io_return_apply elim!: io_bindE)

text \<open>
  So an approval that was given can no longer be spent. After a token has been issued, running
  the approved call through the kernel, from \<open>prepare_capability_approval\<close> to
  \<open>finalize_capability_approval\<close> with any receipt, leaves the token unconsumed, and the closure gate
  refuses to complete the task, whatever the receipt says.
\<close>

theorem approved_call_leaves_task_blocked:
  assumes "issue_token_for_preview_selection sd job pid sel note w = (Inr tok, w1)"
    and "truth.extends w1 w2"
    and "\<not> token_is_consumed (job_events job (w_events w2)) (at_approval_token_id tok)"
    and "prepare_capability_approval job pid request w2 = (Inr (Inr guard), w3)"
    and "finalize_capability_approval job pid guard receipt w3 = (Inr u, w4)"
  shows "\<not> token_is_consumed (job_events job (w_events w4)) (at_approval_token_id tok) \<and>
     \<not> cg_can_complete (gate_on_events root fs sd' (job_events job (w_events w4)) refs)"
proof -
  from prepare_no_guard [OF assms(4)] assms(5) have w4: "w4 = w3"
    by (simp add: finalize_capability_approval_def io_return_apply)
  from prepare_keeps_unconsumed [OF assms(4,3)] assms(2) have
    live: "\<not> token_is_consumed (log_of w4 job) (at_approval_token_id tok)" and ext: "truth.extends w1 w4"
    unfolding w4 using truth.extends_trans by blast+
  from issued_token_open [OF assms(1) ext live] show ?thesis using live by (auto simp: gate_decision nothing_open_def)
qed

section \<open>Witnesses\<close>

definition write_descriptor :: capability_descriptor where
  "write_descriptor = (default_capability_registry ! 0)\<lparr>cd_capability_id := ''os.write_file'',
     cd_target_path_schema := ''path''\<rparr>"

definition write_arguments :: json where
  "write_arguments = jobj [(''path'', JString ''docs/new.md''), (''write_kind'', JString ''artifact'')]"

lemma write_policy: "effective_approval_policy write_descriptor write_arguments = ArtifactCreate"
  by (simp add: effective_approval_policy_def write_descriptor_def write_arguments_def)

lemma write_request:
  "\<exists>r w'. build_capability_approval_request [''ws''] (\<lambda>_. False) (\<lambda>_. None) ''j'' write_descriptor
     write_arguments None demo_world = (Inr r, w') \<and> ra_policy r = ArtifactCreate \<and>
     ra_target_paths r = [''docs/new.md'']"
proof -
  have s: "sys_op demo_world = (Inr (), demo_world\<lparr>w_ops := 1\<rparr>)"
    by (simp add: sys_op_def demo_world_def)
  have n: "normalize_scope_items [''docs/new.md''] = [''docs/new.md'']" by code_simp
  have x: "extract_approval_target_paths (\<lambda>_. None) ''j'' write_descriptor write_arguments ArtifactCreate demo_world
      = (Inr [''docs/new.md''], demo_world)"
    by (simp add: extract_approval_target_paths_def is_uncontrolled_def json_string_array_def
        write_descriptor_def write_arguments_def approval_target_path_keys_def plan_paths_def
        default_target_paths_def List.map_filter_simps n io_return_apply)
  have o: "\<not> source_target_overlap write_arguments"
    by (simp add: source_target_overlap_def source_keys_def write_arguments_def List.map_filter_simps)
  have a: "any_target_exists [''ws''] (\<lambda>_. False) [''docs/new.md''] = Inr False" by code_simp
  have "upgrade_artifact_create_policy_for_existing_targets [''ws''] (\<lambda>_. False) write_descriptor
      write_arguments [''docs/new.md''] ArtifactCreate demo_world = (Inr ArtifactCreate, demo_world\<lparr>w_ops := 1\<rparr>)"
    by (simp add: upgrade_artifact_create_policy_for_existing_targets_def o a
        io_bind_Inr [where m = sys_op, OF s] io_bind_Inr [where m = "io_lift r" for r, OF io_lift_apply]
        io_return_apply write_descriptor_def del: any_target_exists.simps)
  then show ?thesis
    by (simp add: build_capability_approval_request_def write_policy
        io_bind_Inr [where m = "extract_approval_target_paths p j d a c" for p j d a c, OF x]
        io_bind_Inr [where m = "upgrade_artifact_create_policy_for_existing_targets r e d a t c" for r e d a t c]
        io_return_apply)
qed

theorem request_covers_call_witness:
  "\<exists>r w'. build_capability_approval_request [''ws''] (\<lambda>_. False) (\<lambda>_. None) ''j'' write_descriptor
     write_arguments None demo_world = (Inr r, w') \<and> ra_policy r = ArtifactCreate \<and>
     (\<forall>target \<in> set (ra_target_paths r). \<exists>p.
          resolve_workspace_path [''ws''] (unix_components target) = Inr p)"
proof -
  from write_request obtain r w' where r: "build_capability_approval_request [''ws''] (\<lambda>_. False) (\<lambda>_. None) ''j''
      write_descriptor write_arguments None demo_world = (Inr r, w')" "ra_policy r = ArtifactCreate" by blast
  from request_covers_call [OF r(1)] r show ?thesis by blast
qed

theorem scoped_operations_are_normal_witness:
  "\<exists>qs. qs = executable_preview_operations_from_scope [''os.delete_path'', ''bad''] [''docs''] None Null None \<and>
     qs \<noteq> [] \<and> normalize_executable_operations qs = Inr qs"
proof -
  have ne: "executable_preview_operations_from_scope [''os.delete_path'', ''bad''] [''docs''] None Null None \<noteq> []"
    by code_simp
  from scoped_operations_are_normal [OF refl ne] ne show ?thesis by simp
qed

definition move_request :: capability_approval_request where
  "move_request = \<lparr>ra_capability_id = ''os.move_path'', ra_policy = WorkspaceMutation,
     ra_target_paths = [''docs''], ra_target_path_schema = ''path'', ra_explicit_approval_id = None\<rparr>"

lemma runs_prepare: "runs (prepare_capability_approval job token_pid request)"
  unfolding prepare_capability_approval_def Let_def by (intro runs_intros)

theorem prepare_never_blocks_witness:
  "\<exists>w'. prepare_capability_approval ''j'' ''p'' move_request demo_world = (Inr (Inr None), w') \<and>
     length (job_events ''j'' (w_events w')) = 1"
proof -
  obtain x w' where r: "prepare_capability_approval ''j'' ''p'' move_request demo_world = (Inr x, w')"
    using runs_prepare demo_no_faults by (rule runsE)
  have "\<not> is_uncontrolled (ra_policy move_request)" by (simp add: move_request_def is_uncontrolled_def)
  with prepare_never_blocks [OF r] r show ?thesis by (auto simp: demo_log)
qed

definition moved_receipt :: capability_receipt where
  "moved_receipt = \<lparr>rc_capability_id = ''os.move_path'', rc_job_id = ''j'', rc_pid = ''p'',
     rc_status = ''success'', rc_data = Null\<rparr>"

theorem approved_call_leaves_task_blocked_witness:
  "\<exists>w1 tok w2 w3 w4. issue_token_for_preview_selection demo_serde ''j'' ''p'' None ''ok'' w1 = (Inr tok, w2) \<and>
     prepare_capability_approval ''j'' ''p'' move_request w2 = (Inr (Inr None), w3) \<and>
     finalize_capability_approval ''j'' ''p'' None moved_receipt w3 = (Inr (), w4) \<and>
     \<not> cg_can_complete (gate_on_events [''ws''] demo_probe demo_serde (job_events ''j'' (w_events w4)) [])"
proof -
  obtain w1 tok w2 where i: "issue_token_for_preview_selection demo_serde ''j'' ''p'' None ''ok'' w1 = (Inr tok, w2)"
    and w2: "no_faults w2" "\<not> token_is_consumed (log_of w2 ''j'') (at_approval_token_id tok)" by (rule demo_issued)
  obtain x w3 where p: "prepare_capability_approval ''j'' ''p'' move_request w2 = (Inr x, w3)"
    using runs_prepare w2(1) by (rule runsE)
  note p' = p [unfolded prepare_no_guard [OF p]]
  have f: "finalize_capability_approval ''j'' ''p'' None moved_receipt w3 = (Inr (), w3)"
    by (simp add: finalize_capability_approval_def io_return_apply)
  from approved_call_leaves_task_blocked [OF i truth.extends_refl w2(2) p' f] i p' f show ?thesis by blast
qed

end
