(* ===== verification/Store_Zip.thy ===== *)
theory Store_Zip
  imports Fault_Free Hashing
begin

text \<open>
  The stored-zip writer and reader of \<open>process_kernel/src/lib.rs\<close>, on bytes. What is collected is
  read from a tree of files; what is extracted is written to the files of the world. The reader
  trusts only the local headers, as the code does.
\<close>

section \<open>Little-endian integers\<close>

fun le_bytes :: "nat \<Rightarrow> nat \<Rightarrow> string" where
  "le_bytes 0 n = []"
| "le_bytes (Suc k) n = char_of (n mod 256) # le_bytes k (n div 256)"

fun from_le :: "string \<Rightarrow> nat" where
  "from_le [] = 0"
| "from_le (b # bs) = of_char b + 256 * from_le bs"

definition write_u16_le :: "16 word \<Rightarrow> string" where
  "write_u16_le v = le_bytes 2 (unat v)"

definition write_u32_le :: "32 word \<Rightarrow> string" where
  "write_u32_le v = le_bytes 4 (unat v)"

definition unexpected_end :: io_error where
  "unexpected_end = IoError InvalidData ''unexpected end of zip data''"

definition read_u16_le :: "string \<Rightarrow> nat \<Rightarrow> 16 word res" where
  "read_u16_le bytes offset =
     (if offset + 2 \<le> length bytes then Inr (word_of_nat (from_le (take 2 (drop offset bytes))))
      else Inl unexpected_end)"

definition read_u32_le :: "string \<Rightarrow> nat \<Rightarrow> 32 word res" where
  "read_u32_le bytes offset =
     (if offset + 4 \<le> length bytes then Inr (word_of_nat (from_le (take 4 (drop offset bytes))))
      else Inl unexpected_end)"

lemma length_le_bytes [simp]: "length (le_bytes k n) = k"
  by (induction k arbitrary: n) auto

lemma from_le_bytes: "n < 256 ^ k \<Longrightarrow> from_le (le_bytes k n) = n"
  by (induction k arbitrary: n) (auto simp: less_mult_imp_div_less mult.commute)

section \<open>Writing\<close>

record zip_entry_data =
  ze_name :: string
  ze_bytes :: string
  ze_crc32 :: "32 word"
  ze_local_offset :: "32 word"

text \<open>A file tree; \<open>rel\<close> is the path below the workspace root.\<close>

datatype file_node = FileNode string | DirNode "(string \<times> file_node) list"

definition RUNTIME_DIR_NAME :: string where
  "RUNTIME_DIR_NAME = ''.supernova_v2''"

fun collect_zip_entries :: "path \<Rightarrow> file_node \<Rightarrow> zip_entry_data list"
  and collect_children :: "path \<Rightarrow> (string \<times> file_node) list \<Rightarrow> (string \<times> zip_entry_data list) list" where
  "collect_zip_entries rel (FileNode bytes) =
     [\<lparr>ze_name = fwd_slashes (join ''/'' rel), ze_bytes = bytes, ze_crc32 = crc32 bytes, ze_local_offset = 0\<rparr>]"
| "collect_zip_entries rel (DirNode children) = concat (map snd (sort_key fst (collect_children rel children)))"
| "collect_children rel [] = []"
| "collect_children rel ((name, node) # children) =
     (if name = RUNTIME_DIR_NAME then collect_children rel children
      else (name, collect_zip_entries (rel @ [name]) node) # collect_children rel children)"

text \<open>\<open>dedup_by\<close> on the names removes an entry that follows one of the same name.\<close>

fun dedup_names :: "zip_entry_data list \<Rightarrow> zip_entry_data list" where
  "dedup_names (e # f # es) =
     (if ze_name e = ze_name f then dedup_names (e # es) else e # dedup_names (f # es))"
| "dedup_names es = es"

definition local_header :: "zip_entry_data \<Rightarrow> string" where
  "local_header e =
     write_u32_le 0x04034b50 @ write_u16_le 20 @ write_u16_le 0x0800 @ write_u16_le 0 @ write_u16_le 0 @
     write_u16_le 0 @ write_u32_le (ze_crc32 e) @ write_u32_le (word_of_nat (length (ze_bytes e))) @
     write_u32_le (word_of_nat (length (ze_bytes e))) @ write_u16_le (word_of_nat (length (ze_name e))) @
     write_u16_le 0"

fun write_locals :: "string \<Rightarrow> zip_entry_data list \<Rightarrow> string \<times> zip_entry_data list" where
  "write_locals output [] = (output, [])"
| "write_locals output (entry # entries) =
     (let e = entry\<lparr>ze_local_offset := word_of_nat (length output)\<rparr>;
          (out, written) = write_locals (output @ local_header e @ ze_name e @ ze_bytes e) entries
      in (out, e # written))"

definition central_header :: "zip_entry_data \<Rightarrow> string" where
  "central_header e =
     write_u32_le 0x02014b50 @ write_u16_le 20 @ write_u16_le 20 @ write_u16_le 0x0800 @ write_u16_le 0 @
     write_u16_le 0 @ write_u16_le 0 @ write_u32_le (ze_crc32 e) @
     write_u32_le (word_of_nat (length (ze_bytes e))) @ write_u32_le (word_of_nat (length (ze_bytes e))) @
     write_u16_le (word_of_nat (length (ze_name e))) @ write_u16_le 0 @ write_u16_le 0 @ write_u16_le 0 @
     write_u16_le 0 @ write_u32_le 0 @ write_u32_le (ze_local_offset e) @ ze_name e"

text \<open>The archive of a list of entries that is already sorted: locals, directory, trailer.\<close>

definition zip_bytes :: "zip_entry_data list \<Rightarrow> string" where
  "zip_bytes entries =
     (let (locals, written) = write_locals [] entries;
          central_offset = word_of_nat (length locals);
          output = locals @ concat (map central_header written);
          central_size = word_of_nat (length output) - central_offset
      in output @ write_u32_le 0x06054b50 @ write_u16_le 0 @ write_u16_le 0 @
         write_u16_le (word_of_nat (length written)) @ write_u16_le (word_of_nat (length written)) @
         write_u32_le central_size @ write_u32_le central_offset @ write_u16_le 0)"

definition write_store_zip :: "(path \<times> file_node) list \<Rightarrow> path \<Rightarrow> (world, nat) io" where
  "write_store_zip sources destination =
     (let entries = concat (map (\<lambda>(rel, node). collect_zip_entries rel node) sources);
          sorted_entries = dedup_names (sort_key ze_name entries)
      in io_bind sys_op (\<lambda>_. io_bind (write_file destination (zip_bytes sorted_entries)) (\<lambda>_.
         io_return (length sorted_entries))))"

section \<open>Reading\<close>

definition is_cont :: "char \<Rightarrow> bool" where
  "is_cont c \<longleftrightarrow> (let n = of_char c :: nat in 0x80 \<le> n \<and> n \<le> 0xBF)"

text \<open>\<open>String::from_utf8\<close>: the well-formed sequences of one to four bytes.\<close>

fun valid_utf8 :: "string \<Rightarrow> bool" where
  "valid_utf8 [] = True"
| "valid_utf8 (a # s) =
     (let n = of_char a :: nat in
      if n < 0x80 then valid_utf8 s
      else if 0xC2 \<le> n \<and> n \<le> 0xDF then
        (case s of b # t \<Rightarrow> is_cont b \<and> valid_utf8 t | _ \<Rightarrow> False)
      else if 0xE0 \<le> n \<and> n \<le> 0xEF then
        (case s of b # c # t \<Rightarrow> is_cont b \<and> is_cont c \<and> (n = 0xE0 \<longrightarrow> 0xA0 \<le> (of_char b :: nat)) \<and>
             (n = 0xED \<longrightarrow> (of_char b :: nat) \<le> 0x9F) \<and> valid_utf8 t
         | _ \<Rightarrow> False)
      else if 0xF0 \<le> n \<and> n \<le> 0xF4 then
        (case s of b # c # d # t \<Rightarrow> is_cont b \<and> is_cont c \<and> is_cont d \<and>
             (n = 0xF0 \<longrightarrow> 0x90 \<le> (of_char b :: nat)) \<and> (n = 0xF4 \<longrightarrow> (of_char b :: nat) \<le> 0x8F) \<and> valid_utf8 t
         | _ \<Rightarrow> False)
      else False)"

definition res_bind :: "'a res \<Rightarrow> ('a \<Rightarrow> 'b res) \<Rightarrow> 'b res" where
  "res_bind r f = (case r of Inl e \<Rightarrow> Inl e | Inr x \<Rightarrow> f x)"

text \<open>
  One turn of the loop up to the decoded name: \<open>None\<close> at the central directory or the trailer,
  otherwise the name, the data and the offset behind it.
\<close>

definition read_local_entry :: "string \<Rightarrow> nat \<Rightarrow> (string \<times> string \<times> nat) option res" where
  "read_local_entry bytes offset =
     res_bind (read_u32_le bytes offset) (\<lambda>signature.
     if signature = 0x02014b50 \<or> signature = 0x06054b50 then Inr None
     else if signature \<noteq> 0x04034b50 then Inl (IoError InvalidData ''unsupported zip local header'')
     else res_bind (read_u16_le bytes (offset + 8)) (\<lambda>compression.
     if compression \<noteq> 0 then Inl (IoError InvalidData ''only store-method zip entries are supported'')
     else res_bind (read_u32_le bytes (offset + 18)) (\<lambda>size.
     res_bind (read_u16_le bytes (offset + 26)) (\<lambda>name_length.
     res_bind (read_u16_le bytes (offset + 28)) (\<lambda>extra_length.
     let name_start = offset + 30;
         name_end = name_start + unat name_length;
         data_start = name_end + unat extra_length;
         data_end = data_start + unat size
     in if data_end > length bytes then Inl (IoError InvalidData ''zip entry exceeds archive bounds'')
        else
         (let name = take (name_end - name_start) (drop name_start bytes) in
          if \<not> valid_utf8 name then Inl (IoError InvalidData ''invalid utf-8 sequence'')
          else Inr (Some (name, take (data_end - data_start) (drop data_start bytes), data_end))))))))"

definition resolve_archive_entry :: "path \<Rightarrow> string \<Rightarrow> path res" where
  "resolve_archive_entry destination name =
     (case resolve_below destination (unix_components name) of
        None \<Rightarrow> Inl (IoError InvalidData ''zip entry path leaves destination boundary'')
      | Some p \<Rightarrow> Inr p)"

text \<open>Creating the parent directories may fail on its own.\<close>

definition extract_entry :: "path \<Rightarrow> string \<Rightarrow> string \<Rightarrow> (world, unit) io" where
  "extract_entry destination name content =
     io_bind (io_lift (resolve_archive_entry destination name)) (\<lambda>target.
     io_bind (if target \<noteq> [] then sys_op else io_return ()) (\<lambda>_. write_file target content))"

lemma read_local_entry_bounds:
  "read_local_entry bytes offset = Inr (Some (name, content, data_end)) \<Longrightarrow>
   offset < data_end \<and> data_end \<le> length bytes"
  by (auto simp: read_local_entry_def res_bind_def Let_def split: sum.splits if_splits)

function read_zip_loop :: "string \<Rightarrow> path \<Rightarrow> nat \<Rightarrow> nat \<Rightarrow> (world, nat) io" where
  "read_zip_loop bytes destination offset count =
     (if offset + 4 \<le> length bytes
      then (case read_local_entry bytes offset of
              Inl e \<Rightarrow> io_fail e
            | Inr None \<Rightarrow> io_return count
            | Inr (Some (name, content, data_end)) \<Rightarrow>
                io_bind (extract_entry destination name content)
                  (\<lambda>_. read_zip_loop bytes destination data_end (Suc count)))
      else io_return count)"
  by pat_completeness auto
termination
  by (relation "measure (\<lambda>(bytes, _, offset, _). length bytes - offset)")
    (auto dest!: read_local_entry_bounds)

declare read_zip_loop.simps [simp del]

definition read_store_zip :: "path \<Rightarrow> path \<Rightarrow> (world, nat) io" where
  "read_store_zip archive destination =
     io_bind (read_file archive) (\<lambda>bytes. read_zip_loop bytes destination 0 0)"

section \<open>Reading back what was written\<close>

lemma length_write_le [simp]: "length (write_u16_le a) = 2" "length (write_u32_le b) = 4"
  by (simp_all add: write_u16_le_def write_u32_le_def)

lemma read_write_u16: "drop n bytes = write_u16_le v @ q \<Longrightarrow> read_u16_le bytes n = Inr v"
proof -
  assume d: "drop n bytes = write_u16_le v @ q"
  then have "length (drop n bytes) = 2 + length q" by simp
  then have "n + 2 \<le> length bytes" by simp
  moreover have "unat v < 256 ^ 2" using unsigned_less [of v] by simp
  ultimately show ?thesis
    by (simp add: read_u16_le_def d from_le_bytes write_u16_le_def)
qed

lemma read_write_u32: "drop n bytes = write_u32_le v @ q \<Longrightarrow> read_u32_le bytes n = Inr v"
proof -
  assume d: "drop n bytes = write_u32_le v @ q"
  then have "length (drop n bytes) = 4 + length q" by simp
  then have "n + 4 \<le> length bytes" by simp
  moreover have "unat v < 256 ^ 4" using unsigned_less [of v] by simp
  ultimately show ?thesis
    by (simp add: read_u32_le_def d from_le_bytes write_u32_le_def)
qed

definition entry_bytes :: "zip_entry_data \<Rightarrow> string" where
  "entry_bytes e = local_header e @ ze_name e @ ze_bytes e"

definition entry_fits :: "zip_entry_data \<Rightarrow> bool" where
  "entry_fits e \<longleftrightarrow> length (ze_name e) < 2 ^ 16 \<and> length (ze_bytes e) < 2 ^ 32 \<and> valid_utf8 (ze_name e)"

lemma length_local_header [simp]: "length (local_header e) = 30"
  by (simp add: local_header_def)

lemma unat_fits:
  "n < 2 ^ 16 \<Longrightarrow> unat (word_of_nat n :: 16 word) = n"
  "n < 2 ^ 32 \<Longrightarrow> unat (word_of_nat n :: 32 word) = n"
  by (simp_all add: unat_of_nat)

lemma read_written_entry:
  assumes "entry_fits e" and b: "bytes = pre @ entry_bytes e @ post"
  shows "read_local_entry bytes (length pre) =
    Inr (Some (ze_name e, ze_bytes e, length (pre @ entry_bytes e)))"
proof -
  have d: "drop (length pre + k) bytes = drop k (entry_bytes e @ post)" for k
    by (simp add: b)
  have fields: "read_u32_le bytes (length pre) = Inr 0x04034b50"
    "read_u16_le bytes (length pre + 8) = Inr 0"
    "read_u32_le bytes (length pre + 18) = Inr (word_of_nat (length (ze_bytes e)))"
    "read_u16_le bytes (length pre + 26) = Inr (word_of_nat (length (ze_name e)))"
    "read_u16_le bytes (length pre + 28) = Inr 0"
    using d [of 0]
    by (auto intro!: read_write_u16 read_write_u32 simp: d entry_bytes_def local_header_def)
  have name: "take (length (ze_name e)) (drop (length pre + 30) bytes) = ze_name e"
    by (simp add: d entry_bytes_def)
  have content: "take (length (ze_bytes e)) (drop (length pre + (30 + length (ze_name e))) bytes) = ze_bytes e"
    by (simp only: d) (simp add: entry_bytes_def)
  have "length pre + 30 + length (ze_name e) + length (ze_bytes e) \<le> length bytes"
    by (simp add: b entry_bytes_def)
  with fields name content assms(1) show ?thesis
    by (simp add: read_local_entry_def res_bind_def Let_def unat_fits entry_fits_def entry_bytes_def add.assoc)
qed

text \<open>The shape of an archive: the entries, then a signature that stops the reader.\<close>

lemma write_locals_shape:
  "\<exists>written. write_locals out es = (out @ concat (map entry_bytes es), written) \<and> length written = length es"
proof (induction es arbitrary: out)
  case Nil
  then show ?case by simp
next
  case (Cons e es)
  let ?e = "e\<lparr>ze_local_offset := word_of_nat (length out)\<rparr>"
  from Cons.IH [of "out @ local_header ?e @ ze_name ?e @ ze_bytes ?e"] obtain written where
    "write_locals (out @ local_header ?e @ ze_name ?e @ ze_bytes ?e) es =
      ((out @ local_header ?e @ ze_name ?e @ ze_bytes ?e) @ concat (map entry_bytes es), written)"
    "length written = length es" by blast
  moreover have "entry_bytes e = local_header ?e @ ze_name ?e @ ze_bytes ?e"
    by (simp add: entry_bytes_def local_header_def)
  ultimately show ?case by (simp add: Let_def)
qed

definition stops :: "string \<Rightarrow> bool" where
  "stops tail \<longleftrightarrow> (\<exists>q. tail = write_u32_le 0x02014b50 @ q \<or> tail = write_u32_le 0x06054b50 @ q)"

lemma zip_bytes_shape: "\<exists>tail. zip_bytes es = concat (map entry_bytes es) @ tail \<and> stops tail"
proof -
  from write_locals_shape [of "[]" es] obtain written where
    w: "write_locals [] es = (concat (map entry_bytes es), written)" by auto
  show ?thesis
  proof (cases written)
    case Nil
    with w show ?thesis by (auto simp: zip_bytes_def Let_def stops_def)
  next
    case (Cons e rest)
    with w show ?thesis by (auto simp: zip_bytes_def Let_def stops_def central_header_def)
  qed
qed

lemma read_stops:
  assumes "stops tail"
  shows "read_zip_loop (pre @ tail) dest (length pre) count = io_return count"
proof -
  from assms obtain q v where t: "tail = write_u32_le v @ q" and v: "v = 0x02014b50 \<or> v = 0x06054b50"
    by (auto simp: stops_def)
  have "read_u32_le (pre @ tail) (length pre) = Inr v" by (rule read_write_u32) (simp add: t)
  with v have "read_local_entry (pre @ tail) (length pre) = Inr None"
    by (auto simp: read_local_entry_def res_bind_def)
  moreover have "length pre + 4 \<le> length (pre @ tail)" by (simp add: t)
  ultimately show ?thesis by (simp add: read_zip_loop.simps)
qed

text \<open>An entry that extracts: its name is a path of plain components.\<close>

definition entry_path :: "zip_entry_data \<Rightarrow> path" where
  "entry_path e = normals (unix_components (ze_name e))"

definition entry_ok :: "zip_entry_data \<Rightarrow> bool" where
  "entry_ok e \<longleftrightarrow> entry_fits e \<and> (\<exists>names. names \<noteq> [] \<and> ze_name e = join ''/'' names \<and> list_all plain_name names)"

lemma normals_map_Normal: "normals (map Normal names) = names"
  by (induction names) (simp_all add: normals_def List.map_filter_simps)

lemma entry_ok_components:
  assumes "entry_ok e"
  shows "unix_components (ze_name e) = map Normal (entry_path e)" "entry_path e \<noteq> []"
    "ze_name e = join ''/'' (entry_path e)"
proof -
  from assms obtain names where n: "names \<noteq> []" "ze_name e = join ''/'' names" "\<forall>p \<in> set names. plain_name p"
    by (auto simp: entry_ok_def list_all_iff)
  then have c: "unix_components (ze_name e) = map Normal names" by (simp add: unix_components_join)
  then have "entry_path e = names" by (simp add: entry_path_def normals_map_Normal)
  with n c show "unix_components (ze_name e) = map Normal (entry_path e)" "entry_path e \<noteq> []"
    "ze_name e = join ''/'' (entry_path e)" by simp_all
qed

lemma sys_op_no_faults: "no_faults w \<Longrightarrow> sys_op w = (Inr (), w\<lparr>w_ops := Suc (w_ops w)\<rparr>)"
  by (simp add: sys_op_def no_faults_def)

lemma write_file_no_faults:
  "no_faults w \<Longrightarrow> write_file p c w =
     (Inr (), w\<lparr>w_ops := Suc (w_ops w), w_files := (w_files w)(p \<mapsto> c)\<rparr>)"
  by (simp add: write_file_def put_world_apply
      io_bind_Inr [where m = sys_op, OF sys_op_no_faults])

lemma extract_entry_no_faults:
  assumes "no_faults w" and "entry_ok e"
  shows "\<exists>w'. extract_entry dest (ze_name e) (ze_bytes e) w = (Inr (), w') \<and> no_faults w' \<and>
     w_files w' = (w_files w)(dest @ entry_path e \<mapsto> ze_bytes e)"
proof -
  have r: "resolve_archive_entry dest (ze_name e) = Inr (dest @ entry_path e)"
  proof -
    have "resolve_below dest (map Normal (entry_path e)) = Some (dest @ entry_path e)"
      by (simp add: resolve_below_iff normals_map_Normal)
    then show ?thesis
      by (simp only: resolve_archive_entry_def entry_ok_components(1) [OF assms(2)] option.case)
  qed
  have nf: "no_faults (w\<lparr>w_ops := Suc (w_ops w)\<rparr>)" using assms(1) by (simp add: no_faults_def)
  show ?thesis
    using entry_ok_components(2) [OF assms(2)] assms(1)
    by (simp add: extract_entry_def r io_bind_Inr [where m = "io_lift x" for x, OF io_lift_apply]
        io_bind_Inr [where m = sys_op, OF sys_op_no_faults [OF assms(1)]] write_file_no_faults [OF nf])
      (simp add: no_faults_def)
qed

definition extracted :: "path \<Rightarrow> zip_entry_data list \<Rightarrow> (path \<Rightarrow> string option) \<Rightarrow> path \<Rightarrow> string option" where
  "extracted dest es files = fold (\<lambda>e m. m(dest @ entry_path e \<mapsto> ze_bytes e)) es files"

lemma read_zip_loop_entries:
  assumes "no_faults w" and "\<forall>e \<in> set es. entry_ok e" and "stops tail"
  shows "\<exists>w'. read_zip_loop (pre @ concat (map entry_bytes es) @ tail) dest (length pre) count w
      = (Inr (count + length es), w') \<and> w_files w' = extracted dest es (w_files w)"
  using assms(1,2)
proof (induction es arbitrary: pre count w)
  case Nil
  then show ?case by (simp add: read_stops [OF assms(3)] io_return_apply extracted_def)
next
  case (Cons e es)
  let ?bytes = "pre @ concat (map entry_bytes (e # es)) @ tail"
  from Cons.prems have ok: "entry_ok e" by simp
  then have "entry_fits e" by (simp add: entry_ok_def)
  then have r: "read_local_entry ?bytes (length pre) =
      Inr (Some (ze_name e, ze_bytes e, length (pre @ entry_bytes e)))"
    by (rule read_written_entry [where post = "concat (map entry_bytes es) @ tail"]) simp
  have l: "length pre + 4 \<le> length ?bytes" by (simp add: entry_bytes_def)
  from extract_entry_no_faults [OF Cons.prems(1) ok] obtain w1 where
    x: "extract_entry dest (ze_name e) (ze_bytes e) w = (Inr (), w1)" "no_faults w1"
    "w_files w1 = (w_files w)(dest @ entry_path e \<mapsto> ze_bytes e)" by blast
  have "read_zip_loop ?bytes dest (length pre) count w =
      read_zip_loop ?bytes dest (length (pre @ entry_bytes e)) (Suc count) w1"
    using l r x(1) by (subst read_zip_loop.simps) (simp add: io_bind_Inr [where m = "extract_entry d n c" for d n c])
  moreover from Cons.IH [of w1 "pre @ entry_bytes e" "Suc count"] Cons.prems(2) x(2)
  obtain w' where "read_zip_loop ((pre @ entry_bytes e) @ concat (map entry_bytes es) @ tail) dest
      (length (pre @ entry_bytes e)) (Suc count) w1 = (Inr (Suc count + length es), w')"
    "w_files w' = extracted dest es (w_files w1)" by auto
  ultimately show ?case by (simp add: x(3) extracted_def)
qed

lemma extracted_Cons:
  "extracted dest (f # es) files = extracted dest es (files(dest @ entry_path f \<mapsto> ze_bytes f))"
  by (simp add: extracted_def)

lemma extracted_other: "\<forall>e \<in> set es. dest @ entry_path e \<noteq> p \<Longrightarrow> extracted dest es files p = files p"
  unfolding extracted_def by (induction es arbitrary: files) auto

lemma extracted_entry:
  "e \<in> set es \<Longrightarrow> distinct (map entry_path es) \<Longrightarrow> extracted dest es files (dest @ entry_path e) = Some (ze_bytes e)"
proof (induction es arbitrary: files)
  case Nil
  then show ?case by simp
next
  case (Cons f es)
  let ?files = "files(dest @ entry_path f \<mapsto> ze_bytes f)"
  show ?case
  proof (cases "e = f")
    case True
    from Cons.prems(2) have "entry_path f \<notin> entry_path ` set es" by simp
    then have "\<forall>g \<in> set es. dest @ entry_path g \<noteq> dest @ entry_path f" by (auto simp: image_iff)
    from extracted_other [OF this, of ?files] True show ?thesis by (simp only: extracted_Cons) simp
  next
    case False
    with Cons.prems have "e \<in> set es" "distinct (map entry_path es)" by auto
    from Cons.IH [OF this, of ?files] show ?thesis by (simp only: extracted_Cons)
  qed
qed

section \<open>Round trip and containment\<close>

lemma sorted_dedup_names:
  "sorted (map ze_name es) \<Longrightarrow> sorted_wrt (<) (map ze_name (dedup_names es)) \<and>
     set (dedup_names es) \<subseteq> set es \<and> (\<forall>e \<in> set es. ze_name (hd es) \<le> ze_name e)"
proof (induction es rule: dedup_names.induct)
  case (1 e f es)
  show ?case
  proof (cases "ze_name e = ze_name f")
    case True
    with 1 show ?thesis by auto
  next
    case False
    with "1.prems" have lt: "ze_name e < ze_name f" and le: "\<forall>g \<in> set (f # es). ze_name f \<le> ze_name g"
      by (auto simp: less_le)
    from 1 False have IH: "sorted_wrt (<) (map ze_name (dedup_names (f # es)))"
      "set (dedup_names (f # es)) \<subseteq> set (f # es)" by auto
    then have "\<forall>g \<in> set (dedup_names (f # es)). ze_name e < ze_name g" using lt le by (blast intro: less_le_trans)
    with IH False "1.prems" show ?thesis by auto
  qed
qed auto

text \<open>The entries an archive of the sources holds.\<close>

definition archive_entries :: "(path \<times> file_node) list \<Rightarrow> zip_entry_data list" where
  "archive_entries sources =
     dedup_names (sort_key ze_name (concat (map (\<lambda>(rel, node). collect_zip_entries rel node) sources)))"

lemma archive_entries_distinct:
  assumes "\<forall>e \<in> set (archive_entries sources). entry_ok e"
  shows "distinct (map entry_path (archive_entries sources))"
proof -
  have "distinct (map ze_name (archive_entries sources))"
    using sorted_dedup_names [of "sort_key ze_name (concat (map (\<lambda>(rel, node). collect_zip_entries rel node) sources))"]
    by (simp add: archive_entries_def strict_sorted_iff)
  moreover have "ze_name x = ze_name y"
    if "x \<in> set (archive_entries sources)" "y \<in> set (archive_entries sources)" "entry_path x = entry_path y" for x y
    using assms that entry_ok_components(3) by metis
  ultimately show ?thesis
    unfolding distinct_map inj_on_def by blast
qed

lemma write_store_zip_no_faults:
  assumes "no_faults w"
  shows "\<exists>w'. write_store_zip sources archive w = (Inr (length (archive_entries sources)), w') \<and> no_faults w' \<and>
     w_files w' = (w_files w)(archive \<mapsto> zip_bytes (archive_entries sources))"
proof -
  let ?w = "w\<lparr>w_ops := Suc (w_ops w)\<rparr>"
  have nf: "no_faults ?w" using assms by (simp add: no_faults_def)
  have "write_store_zip sources archive w = (Inr (length (archive_entries sources)),
      ?w\<lparr>w_ops := Suc (w_ops ?w), w_files := (w_files ?w)(archive \<mapsto> zip_bytes (archive_entries sources))\<rparr>)"
    by (simp only: write_store_zip_def Let_def archive_entries_def
        io_bind_Inr [where m = sys_op, OF sys_op_no_faults [OF assms]]
        io_bind_Inr [where m = "write_file p c" for p c, OF write_file_no_faults [OF nf]] io_return_apply)
  then show ?thesis using assms by (simp add: no_faults_def)
qed

lemma read_store_zip_no_faults:
  assumes "no_faults w" and "w_files w archive = Some (zip_bytes es)" and "\<forall>e \<in> set es. entry_ok e"
  shows "\<exists>w'. read_store_zip archive dest w = (Inr (length es), w') \<and> w_files w' = extracted dest es (w_files w)"
proof -
  from zip_bytes_shape [of es] obtain tail where
    z: "zip_bytes es = [] @ concat (map entry_bytes es) @ tail" "stops tail" by auto
  define wr where "wr = w\<lparr>w_ops := Suc (w_ops w)\<rparr>"
  have rf: "read_file archive w = (Inr (zip_bytes es), wr)"
    by (simp add: read_file_def io_bind_Inr [where m = sys_op, OF sys_op_no_faults [OF assms(1)]]
        io_bind_Inr [where m = io_get, OF io_get_apply] assms(2) io_return_apply wr_def)
  have "no_faults wr" using assms(1) by (simp add: no_faults_def wr_def)
  from read_zip_loop_entries [OF this assms(3) z(2), of "[]" dest 0] show ?thesis
    by (auto simp: read_store_zip_def io_bind_Inr [where m = "read_file archive", OF rf] z(1) wr_def)
qed

text \<open>
  C34: an archive reads back as it was written. When no system operation fails, extracting an archive
  the writer made restores every entry it holds: as many files as were written, each below the
  destination at the components of its name with exactly its bytes, and nothing else. (Every entry
  has a name of plain components in valid UTF-8 shorter than 64 KiB and a content below 4 GiB.)
\<close>

theorem archive_round_trip:
  assumes "no_faults w" and "\<forall>e \<in> set (archive_entries sources). entry_ok e"
  shows "\<exists>w1 w2. write_store_zip sources archive w = (Inr (length (archive_entries sources)), w1) \<and>
     read_store_zip archive dest w1 = (Inr (length (archive_entries sources)), w2) \<and>
     (\<forall>e \<in> set (archive_entries sources). w_files w2 (dest @ entry_path e) = Some (ze_bytes e)) \<and>
     (\<forall>p. p \<notin> (\<lambda>e. dest @ entry_path e) ` set (archive_entries sources) \<longrightarrow> w_files w2 p = w_files w1 p)"
proof -
  let ?es = "archive_entries sources"
  from write_store_zip_no_faults [OF assms(1)] obtain w1 where
    w: "write_store_zip sources archive w = (Inr (length ?es), w1)" "no_faults w1"
    "w_files w1 archive = Some (zip_bytes ?es)" by (metis fun_upd_same)
  from read_store_zip_no_faults [OF w(2,3) assms(2)] obtain w2 where
    r: "read_store_zip archive dest w1 = (Inr (length ?es), w2)" "w_files w2 = extracted dest ?es (w_files w1)" by blast
  have "\<forall>e \<in> set ?es. w_files w2 (dest @ entry_path e) = Some (ze_bytes e)"
    using extracted_entry archive_entries_distinct [OF assms(2)] r(2) by simp
  moreover have "\<forall>p. p \<notin> (\<lambda>e. dest @ entry_path e) ` set ?es \<longrightarrow> w_files w2 p = w_files w1 p"
    using r(2) by (auto intro!: extracted_other)
  ultimately show ?thesis using w(1) r(1) by blast
qed

text \<open>The archive of a small tree.\<close>

definition demo_tree :: "(path \<times> file_node) list" where
  "demo_tree = [([''docs''], DirNode [(''b'', FileNode ''yz''), (''a'', FileNode ''x'')])]"

lemma demo_tree_entries:
  obtains e1 e2 where "archive_entries demo_tree = [e1, e2]" "entry_ok e1" "entry_ok e2"
    "entry_path e1 = [''docs'', ''a'']" "ze_bytes e1 = ''x''"
    "entry_path e2 = [''docs'', ''b'']" "ze_bytes e2 = ''yz''"
proof -
  have "map (\<lambda>e. (ze_name e, ze_bytes e)) (archive_entries demo_tree) = [(''docs/a'', ''x''), (''docs/b'', ''yz'')]"
    by code_simp
  then obtain e1 e2 where es: "archive_entries demo_tree = [e1, e2]" "ze_name e1 = ''docs/a''" "ze_bytes e1 = ''x''"
    "ze_name e2 = ''docs/b''" "ze_bytes e2 = ''yz''"
    by (auto simp: map_eq_Cons_conv)
  have p: "entry_path e1 = [''docs'', ''a'']" "entry_path e2 = [''docs'', ''b'']"
    unfolding entry_path_def es by code_simp+
  have ok: "entry_ok e1" "entry_ok e2"
    unfolding entry_ok_def entry_fits_def es
    by (auto intro: exI [of _ "[''docs'', ''a'']"] exI [of _ "[''docs'', ''b'']"] simp: plain_name_def)
  from es(1) ok p(1) es(3) p(2) es(5) show ?thesis by (rule that)
qed

theorem archive_round_trip_witness:
  "\<exists>w1 w2. write_store_zip demo_tree [''out''] demo_world = (Inr 2, w1) \<and>
     read_store_zip [''out''] [''to''] w1 = (Inr 2, w2) \<and>
     w_files w2 [''to'', ''docs'', ''a''] = Some ''x'' \<and> w_files w2 [''to'', ''docs'', ''b''] = Some ''yz''"
proof -
  obtain e1 e2 where e: "archive_entries demo_tree = [e1, e2]" "entry_ok e1" "entry_ok e2"
    "entry_path e1 = [''docs'', ''a'']" "ze_bytes e1 = ''x''"
    "entry_path e2 = [''docs'', ''b'']" "ze_bytes e2 = ''yz''" by (rule demo_tree_entries)
  from e(1-3) have "\<forall>e \<in> set (archive_entries demo_tree). entry_ok e" by simp
  from archive_round_trip [OF demo_no_faults this, of "[''out'']" "[''to'']"] show ?thesis
    by (simp add: e(1,4-7) numeral_2_eq_2) metis
qed

text \<open>What may change while an archive is extracted: the files below the destination.\<close>

definition below :: "path \<Rightarrow> path \<Rightarrow> bool" where
  "below dest p \<longleftrightarrow> (\<exists>names. p = dest @ names \<and> list_all plain_name names)"

definition changes_below :: "path \<Rightarrow> world \<Rightarrow> world \<Rightarrow> bool" where
  "changes_below dest w w' \<longleftrightarrow> (\<forall>p. w_files w' p \<noteq> w_files w p \<longrightarrow> below dest p)"

lemma changes_below_refl: "reflp (changes_below dest)"
  by (simp add: reflp_def changes_below_def)

lemma changes_below_trans: "transp (changes_below dest)"
  by (rule transpI) (metis changes_below_def)

lemmas changes_below_pure = io_keeps_pure [OF changes_below_refl]
lemmas changes_below_bind = io_keeps_bind [OF changes_below_trans]

lemma sys_op_changes_below: "io_keeps (changes_below dest) sys_op"
  by (simp add: io_keeps_def sys_op_def Let_def changes_below_def)

lemma write_file_changes_below: "below dest p \<Longrightarrow> io_keeps (changes_below dest) (write_file p c)"
  unfolding write_file_def
  by (intro changes_below_bind sys_op_changes_below)
    (simp add: io_keeps_def put_world_apply changes_below_def)

lemma read_file_changes_below: "io_keeps (changes_below dest) (read_file p)"
  unfolding read_file_def
  by (intro changes_below_bind sys_op_changes_below changes_below_pure)
    (simp add: io_keeps_def io_simps changes_below_def split: option.split)

lemma resolve_archive_entry_below: "resolve_archive_entry dest name = Inr p \<Longrightarrow> below dest p"
  by (auto simp: resolve_archive_entry_def resolve_below_iff below_def list_all_iff set_normals
      intro: unix_components_plain split: option.splits)

lemma extract_entry_changes_below: "io_keeps (changes_below dest) (extract_entry dest name content)"
proof (cases "resolve_archive_entry dest name")
  case (Inl e)
  then show ?thesis
    by (simp add: extract_entry_def io_keeps_def io_bind_def io_lift_def changes_below_def)
next
  case (Inr p)
  then have "extract_entry dest name content =
      io_bind (if p \<noteq> [] then sys_op else io_return ()) (\<lambda>_. write_file p content)"
    by (simp add: extract_entry_def io_bind_def io_lift_def fun_eq_iff)
  with resolve_archive_entry_below [OF Inr] show ?thesis
    by (simp only:) (intro changes_below_bind io_keeps_if sys_op_changes_below changes_below_pure
        write_file_changes_below)
qed

lemma read_zip_loop_changes_below: "io_keeps (changes_below dest) (read_zip_loop bytes dest offset count)"
proof (induction bytes dest offset count rule: read_zip_loop.induct)
  case (1 bytes dest offset count)
  then show ?case
    by (subst read_zip_loop.simps)
      (auto intro!: changes_below_bind changes_below_pure extract_entry_changes_below split: sum.split option.split)
qed

text \<open>
  C35: extraction never writes outside its destination. Whatever bytes the archive holds and however
  the extraction ends, every file that differs afterwards lies at the destination followed by plain
  path components: no \<open>..\<close>, no rooted and no empty component.
\<close>

theorem extraction_stays_below_destination:
  assumes "read_store_zip archive dest w = (r, w')" and "w_files w' p \<noteq> w_files w p"
  shows "\<exists>names. p = dest @ names \<and> list_all plain_name names"
proof -
  have "io_keeps (changes_below dest) (read_store_zip archive dest)"
    unfolding read_store_zip_def
    by (intro changes_below_bind read_file_changes_below read_zip_loop_changes_below)
  from io_keepsD [OF this assms(1)] assms(2) show ?thesis by (simp add: changes_below_def below_def)
qed

theorem extraction_stays_below_destination_witness:
  "\<exists>(w1 :: world) w2. read_store_zip [''out''] [''to''] w1 = (Inr 2, w2) \<and>
     w_files w2 [''to'', ''docs'', ''a''] \<noteq> w_files w1 [''to'', ''docs'', ''a''] \<and>
     (\<exists>names. [''to'', ''docs'', ''a''] = [''to''] @ names \<and> list_all plain_name names)"
proof -
  obtain e1 e2 where e: "archive_entries demo_tree = [e1, e2]" "entry_ok e1" "entry_ok e2"
    "entry_path e1 = [''docs'', ''a'']" "ze_bytes e1 = ''x''"
    "entry_path e2 = [''docs'', ''b'']" "ze_bytes e2 = ''yz''" by (rule demo_tree_entries)
  from write_store_zip_no_faults [OF demo_no_faults, of demo_tree "[''out'']"] obtain w1 where
    w: "no_faults w1" "w_files w1 = (w_files demo_world)([''out''] \<mapsto> zip_bytes [e1, e2])"
    unfolding e(1) by blast
  from e(2,3) have ok: "\<forall>e \<in> set [e1, e2]. entry_ok e" by simp
  have "w_files w1 [''out''] = Some (zip_bytes [e1, e2])" using w(2) by simp
  from read_store_zip_no_faults [OF w(1) this ok, of "[''to'']"] obtain w2 where
    r: "read_store_zip [''out''] [''to''] w1 = (Inr 2, w2)" "w_files w2 = extracted [''to''] [e1, e2] (w_files w1)"
    by (auto simp: numeral_2_eq_2)
  have d: "w_files w2 [''to'', ''docs'', ''a''] \<noteq> w_files w1 [''to'', ''docs'', ''a'']"
    using r(2) w(2) by (simp add: extracted_def e(4-7) demo_world_def)
  from r(1) d extraction_stays_below_destination [OF r(1) d] show ?thesis by blast
qed

end
