(* ===== verification/Transcript_Protocol.thy ===== *)
theory Transcript_Protocol
  imports Json
begin

text \<open>
  The provider transcript as a list of messages: the tool-call protocol validator of
  \<open>process_kernel/src/context_compaction.rs\<close> and the cut that keeps the live suffix of a transcript
  (\<open>live_suffix_start_index\<close> of \<open>process_kernel/src/provider_transcript.rs\<close>). The declarative
  protocol is \<open>protocol_ok\<close>; the validator is proved to decide it.
\<close>

section \<open>Messages\<close>

record provider_tool_call =
  tc_id :: string
  tc_type :: string
  tc_function :: json

record transcript_message =
  tm_role :: string
  tm_content :: "string option"
  tm_reasoning_content :: "string option"
  tm_tool_calls :: "provider_tool_call list"
  tm_tool_call_id :: "string option"

record provider_assistant_message =
  pa_role :: string
  pa_content :: "string option"
  pa_reasoning_content :: "string option"
  pa_tool_calls :: "provider_tool_call list"

record model_provider_response =
  mr_output_text :: string
  mr_assistant_message :: "provider_assistant_message option"
  mr_reasoning_content :: "string option"
  mr_tool_calls :: "provider_tool_call list"
  mr_usage :: json
  mr_finish_reason :: "string option"
  mr_raw :: json
  mr_sampling_ignored_by_provider :: bool
  mr_streaming :: bool
  mr_first_token_ms :: "nat option"
  mr_chunks_count :: "32 word"
  mr_stream_event_count :: "32 word"
  mr_first_byte_timeout_ms :: "64 word option"
  mr_idle_timeout_ms :: "64 word option"
  mr_max_wall_time_ms :: "64 word option"

record tool_call_state =
  ts_provider_tool_call_id :: string
  ts_provider_name :: "string option"
  ts_status :: string
  ts_assistant_message_ref :: "string option"
  ts_tool_result_ref :: "string option"

section \<open>The validator\<close>

text \<open>The errors so far, the open calls with the index of their message, the answered calls.\<close>

record validation_state =
  vs_errors :: "string list"
  vs_pending :: "(string \<times> nat) list"
  vs_completed :: "string list"

definition add_error :: "string \<Rightarrow> validation_state \<Rightarrow> validation_state" where
  "add_error e s = s\<lparr>vs_errors := vs_errors s @ [e]\<rparr>"

definition validate_tool_call :: "nat \<Rightarrow> provider_tool_call \<Rightarrow> validation_state \<Rightarrow> validation_state" where
  "validate_tool_call index tool_call s =
     (if trim (tc_id tool_call) = []
      then add_error (''assistant tool_call at index '' @ dec index @ '' has empty id'') s
      else if tc_id tool_call \<in> fst ` set (vs_pending s) \<or> tc_id tool_call \<in> set (vs_completed s)
      then add_error (''duplicate tool_call_id '' @ tc_id tool_call) s
      else s\<lparr>vs_pending := bmap_insert (tc_id tool_call) index (vs_pending s)\<rparr>)"

definition validate_assistant :: "nat \<Rightarrow> transcript_message \<Rightarrow> validation_state \<Rightarrow> validation_state" where
  "validate_assistant index message s =
     fold (validate_tool_call index) (tm_tool_calls message)
       (if tm_tool_call_id message \<noteq> None
        then add_error (''assistant message at index '' @ dec index @ '' must not carry tool_call_id'') s
        else s)"

definition validate_tool :: "nat \<Rightarrow> transcript_message \<Rightarrow> validation_state \<Rightarrow> validation_state" where
  "validate_tool index message s =
     (case tm_tool_call_id message of
        None \<Rightarrow> add_error (''tool message at index '' @ dec index @ '' missing tool_call_id'') s
      | Some tool_call_id \<Rightarrow>
         (let s = (if tool_call_id \<notin> fst ` set (vs_pending s)
                   then add_error (''orphan tool message for '' @ tool_call_id) s
                   else s\<lparr>vs_pending := bmap_remove tool_call_id (vs_pending s),
                          vs_completed := bset_insert tool_call_id (vs_completed s)\<rparr>)
          in if tm_tool_calls message \<noteq> []
             then add_error (''tool message at index '' @ dec index @ '' must not contain nested tool_calls'') s
             else s))"

definition validate_message :: "nat \<Rightarrow> transcript_message \<Rightarrow> validation_state \<Rightarrow> validation_state" where
  "validate_message index message s =
     (if tm_role message = ''assistant'' then validate_assistant index message s
      else if tm_role message = ''tool'' then validate_tool index message s
      else if tm_role message = ''system'' \<or> tm_role message = ''user'' then
        (if tm_tool_call_id message \<noteq> None \<or> tm_tool_calls message \<noteq> []
         then add_error (tm_role message @ '' message at index '' @ dec index @ '' must not carry tool-call fields'') s
         else s)
      else add_error (''unsupported provider transcript role '' @ tm_role message) s)"

fun validate_messages :: "nat \<Rightarrow> transcript_message list \<Rightarrow> validation_state \<Rightarrow> validation_state" where
  "validate_messages index [] s = s"
| "validate_messages index (m # ms) s = validate_messages (Suc index) ms (validate_message index m s)"

record validation_receipt =
  vr_provider :: string
  vr_protocol :: string
  vr_valid :: bool
  vr_message_count :: nat
  vr_pending_tool_call_ids :: "string list"
  vr_errors :: "string list"

definition validation_start :: validation_state where
  "validation_start = \<lparr>vs_errors = [], vs_pending = [], vs_completed = []\<rparr>"

definition validate_deepseek_native_messages :: "transcript_message list \<Rightarrow> validation_receipt" where
  "validate_deepseek_native_messages messages =
     (let s = validate_messages 0 messages validation_start
      in \<lparr>vr_provider = ''deepseek'', vr_protocol = ''deepseek_chat_completions'',
          vr_valid = (vs_errors s = [] \<and> vs_pending s = []),
          vr_message_count = length messages,
          vr_pending_tool_call_ids = map fst (vs_pending s),
          vr_errors = vs_errors s\<rparr>)"

section \<open>The live suffix\<close>

text \<open>\<open>Iterator::position\<close> and \<open>rposition\<close> on a slice.\<close>

definition position :: "('a \<Rightarrow> bool) \<Rightarrow> 'a list \<Rightarrow> nat option" where
  "position P xs = find (\<lambda>i. P (xs ! i)) [0..<length xs]"

definition rposition :: "('a \<Rightarrow> bool) \<Rightarrow> 'a list \<Rightarrow> nat option" where
  "rposition P xs = find (\<lambda>i. P (xs ! i)) (rev [0..<length xs])"

definition calls_tool :: "string \<Rightarrow> transcript_message \<Rightarrow> bool" where
  "calls_tool call_id m \<longleftrightarrow> tm_role m = ''assistant'' \<and> list_ex (\<lambda>tc. tc_id tc = call_id) (tm_tool_calls m)"

definition answers_tool :: "string \<Rightarrow> transcript_message \<Rightarrow> bool" where
  "answers_tool call_id m \<longleftrightarrow> tm_role m = ''tool'' \<and> tm_tool_call_id m = Some call_id"

definition keep_pending :: "transcript_message list \<Rightarrow> tool_call_state \<Rightarrow> nat \<Rightarrow> nat" where
  "keep_pending messages pending start =
     (case position (calls_tool (ts_provider_tool_call_id pending)) messages of
        None \<Rightarrow> start
      | Some index \<Rightarrow> min start index)"

text \<open>One turn of the inner loop; the state is \<open>(start, changed)\<close>.\<close>

definition pull_assistant :: "transcript_message list \<Rightarrow> nat \<Rightarrow> nat \<times> bool \<Rightarrow> nat \<times> bool" where
  "pull_assistant messages index st =
     (if tm_role (messages ! index) = ''tool'' then
        (case tm_tool_call_id (messages ! index) of
           None \<Rightarrow> st
         | Some tool_call_id \<Rightarrow>
            (case rposition (calls_tool tool_call_id) (take index messages) of
               None \<Rightarrow> st
             | Some assistant_index \<Rightarrow> if assistant_index < fst st then (assistant_index, True) else st))
      else st)"

definition pull_call :: "transcript_message list \<Rightarrow> nat \<Rightarrow> provider_tool_call \<Rightarrow> nat \<times> bool \<Rightarrow> nat \<times> bool" where
  "pull_call messages index tool_call st =
     (case position (answers_tool (tc_id tool_call)) (drop (index + 1) messages) of
        None \<Rightarrow> st
      | Some tool_index \<Rightarrow> if index + 1 + tool_index < fst st then (index, True) else st)"

definition pull_message :: "transcript_message list \<Rightarrow> nat \<Rightarrow> nat \<times> bool \<Rightarrow> nat \<times> bool" where
  "pull_message messages index st =
     (let st = pull_assistant messages index st
      in if tm_role (messages ! index) = ''assistant'' \<and> tm_tool_calls (messages ! index) \<noteq> []
         then fold (pull_call messages index) (tm_tool_calls (messages ! index)) st
         else st)"

definition pull_round :: "transcript_message list \<Rightarrow> nat \<Rightarrow> nat \<times> bool" where
  "pull_round messages start = fold (pull_message messages) [start..<length messages] (start, False)"

lemma position_Some: "position P xs = Some i \<Longrightarrow> i < length xs \<and> P (xs ! i)"
  by (auto simp: position_def find_Some_iff)

lemma position_None: "position P xs = None \<Longrightarrow> i < length xs \<Longrightarrow> \<not> P (xs ! i)"
  by (auto simp: position_def find_None_iff)

lemma rposition_Some: "rposition P xs = Some i \<Longrightarrow> i < length xs \<and> P (xs ! i)"
  by (auto simp: rposition_def find_Some_iff rev_nth)

lemma rposition_None: "rposition P xs = None \<Longrightarrow> i < length xs \<Longrightarrow> \<not> P (xs ! i)"
  by (auto simp: rposition_def find_None_iff)

text \<open>A turn only moves the start down, and reports it.\<close>

definition pulled :: "nat \<times> bool \<Rightarrow> nat \<times> bool \<Rightarrow> bool" where
  "pulled st st' \<longleftrightarrow> fst st' \<le> fst st \<and> (snd st \<longrightarrow> snd st') \<and> (st' = st \<or> snd st' \<and> fst st' < fst st)"

lemma pulled_refl [simp]: "pulled st st"
  by (simp add: pulled_def)

lemma pulled_trans: "pulled a b \<Longrightarrow> pulled b c \<Longrightarrow> pulled a c"
  by (auto simp: pulled_def)

lemma pulled_fold: "(\<And>x st. pulled st (f x st)) \<Longrightarrow> pulled st (fold f xs st)"
proof (induction xs arbitrary: st)
  case (Cons x xs)
  have "pulled st (f x st)" "pulled (f x st) (fold f xs (f x st))" using Cons by blast+
  then show ?case by (simp add: pulled_trans)
qed simp

lemma pulled_same: "pulled (start, False) st \<Longrightarrow> \<not> snd st \<Longrightarrow> st = (start, False)"
  by (auto simp: pulled_def)

lemma pull_assistant_pulled: "pulled st (pull_assistant messages index st)"
  by (auto simp: pull_assistant_def pulled_def split: option.split)

lemma pull_call_pulled: "pulled st (pull_call messages index tc st)"
  by (auto simp: pull_call_def pulled_def split: option.split)

lemma pull_message_pulled: "pulled st (pull_message messages index st)"
  unfolding pull_message_def Let_def
  by (auto intro: pull_assistant_pulled pulled_fold pull_call_pulled pulled_trans)

lemma pull_round_pulled: "pulled (start, False) (pull_round messages start)"
  unfolding pull_round_def by (rule pulled_fold) (rule pull_message_pulled)

text \<open>The outer loop.\<close>

function close_suffix :: "transcript_message list \<Rightarrow> nat \<Rightarrow> nat" where
  "close_suffix messages start =
     (case pull_round messages start of
        (start', changed) \<Rightarrow> if changed then close_suffix messages start' else start')"
  by pat_completeness auto
termination
proof (relation "measure snd", goal_cases)
  case 1
  then show ?case by simp
next
  case (2 messages start start' changed)
  with pull_round_pulled [of start messages] show ?case
    by (cases "pull_round messages start") (auto simp: pulled_def)
qed

declare close_suffix.simps [simp del]

definition live_suffix_start_index :: "transcript_message list \<Rightarrow> tool_call_state list \<Rightarrow> nat \<Rightarrow> nat" where
  "live_suffix_start_index messages pending_tool_calls min_live_suffix_turns =
     (if messages = [] then 0
      else
       (let keep_messages = max (min (min_live_suffix_turns * 2) (2 ^ 64 - 1)) 1;
            start = length messages - keep_messages
        in close_suffix messages (fold (keep_pending messages) pending_tool_calls start)))"

lemma close_suffix_le: "close_suffix messages start \<le> start"
proof (induction messages start rule: close_suffix.induct)
  case (1 messages start)
  obtain s c where r: "pull_round messages start = (s, c)" by (cases "pull_round messages start") auto
  with pull_round_pulled [of start messages] have "s \<le> start" by (simp add: pulled_def)
  with "1.IH" [OF r [symmetric]] show ?case
    by (subst close_suffix.simps) (auto simp: r intro: order_trans)
qed

lemma close_suffix_fixed: "pull_round messages (close_suffix messages start) = (close_suffix messages start, False)"
proof (induction messages start rule: close_suffix.induct)
  case (1 messages start)
  obtain s c where r: "pull_round messages start = (s, c)" by (cases "pull_round messages start") auto
  show ?case
  proof (cases c)
    case True
    with r have "close_suffix messages start = close_suffix messages s" by (subst close_suffix.simps) simp
    with "1.IH" [OF r [symmetric] True] show ?thesis by simp
  next
    case False
    with r pull_round_pulled [of start messages] have "s = start" by (auto simp: pulled_def)
    moreover from r False have "close_suffix messages start = s" by (subst close_suffix.simps) simp
    ultimately show ?thesis using r False by simp
  qed
qed

text \<open>A round that changes nothing changed nothing at any message.\<close>

lemma fold_unchanged:
  assumes "\<And>x st. pulled st (f x st)" and "\<not> snd (fold f xs (start, False))" and "x \<in> set xs"
  shows "f x (start, False) = (start, False)"
  using assms(2,3)
proof (induction xs)
  case (Cons y ys)
  have p: "pulled (start, False) (f y (start, False))" by (rule assms(1))
  have "pulled (f y (start, False)) (fold f (y # ys) (start, False))" by (simp add: pulled_fold assms(1))
  with Cons.prems(1) have "\<not> snd (f y (start, False))" by (auto simp: pulled_def)
  with p have y: "f y (start, False) = (start, False)" by (rule pulled_same)
  then show ?case using Cons by auto
qed simp

lemma suffix_closed:
  assumes "start = close_suffix messages start0" and "start \<le> j" "j < length messages"
    and "answers_tool c (messages ! j)" and "i < j" and "calls_tool c (messages ! i)"
  shows "\<exists>k. start \<le> k \<and> k < j \<and> calls_tool c (messages ! k)"
proof -
  have "\<not> snd (fold (pull_message messages) [start..<length messages] (start, False))"
    using close_suffix_fixed [of messages start0] by (simp add: assms(1) pull_round_def)
  from fold_unchanged [OF pull_message_pulled this, of j] assms(2,3)
  have same: "pull_message messages j (start, False) = (start, False)" by simp
  have role: "tm_role (messages ! j) = ''tool''" "tm_tool_call_id (messages ! j) = Some c"
    using assms(4) by (auto simp: answers_tool_def)
  obtain k where k: "rposition (calls_tool c) (take j messages) = Some k"
  proof (cases "rposition (calls_tool c) (take j messages)")
    case None
    from rposition_None [OF None, of i] assms(3,5,6) show ?thesis by simp
  qed
  from rposition_Some [OF k] assms(3) have "k < j" "calls_tool c (messages ! k)" by auto
  moreover from same role k have "\<not> k < start"
    by (auto simp: pull_message_def pull_assistant_def split: if_splits)
  ultimately show ?thesis using not_less by blast
qed

section \<open>The protocol\<close>

text \<open>The calls the assistant made and the answers the tools gave, in order.\<close>

definition message_calls :: "transcript_message \<Rightarrow> string list" where
  "message_calls m = (if tm_role m = ''assistant'' then map tc_id (tm_tool_calls m) else [])"

definition message_answers :: "transcript_message \<Rightarrow> string list" where
  "message_answers m =
     (if tm_role m = ''tool'' then (case tm_tool_call_id m of None \<Rightarrow> [] | Some c \<Rightarrow> [c]) else [])"

definition call_ids :: "transcript_message list \<Rightarrow> string list" where
  "call_ids ms = concat (map message_calls ms)"

definition answer_ids :: "transcript_message list \<Rightarrow> string list" where
  "answer_ids ms = concat (map message_answers ms)"

definition message_ok :: "transcript_message \<Rightarrow> bool" where
  "message_ok m \<longleftrightarrow>
     (if tm_role m = ''assistant''
      then tm_tool_call_id m = None \<and> (\<forall>tc \<in> set (tm_tool_calls m). trim (tc_id tc) \<noteq> [])
      else if tm_role m = ''tool'' then tm_tool_call_id m \<noteq> None \<and> tm_tool_calls m = []
      else tm_role m \<in> {''system'', ''user''} \<and> tm_tool_call_id m = None \<and> tm_tool_calls m = [])"

text \<open>Every call has its own id, is answered at most once, and only after it was made.\<close>

definition protocol_ok :: "transcript_message list \<Rightarrow> bool" where
  "protocol_ok ms \<longleftrightarrow> list_all message_ok ms \<and> distinct (call_ids ms) \<and> distinct (answer_ids ms) \<and>
     (\<forall>k \<in> set [0..<Suc (length ms)]. set (answer_ids (take k ms)) \<subseteq> set (call_ids (take k ms)))"

definition open_calls :: "transcript_message list \<Rightarrow> string list" where
  "open_calls ms = filter (\<lambda>c. c \<notin> set (answer_ids ms)) (call_ids ms)"

lemma ids_simps [simp]:
  "call_ids [] = []" "answer_ids [] = []"
  "call_ids (m # ms) = message_calls m @ call_ids ms" "answer_ids (m # ms) = message_answers m @ answer_ids ms"
  "call_ids (ms @ ns) = call_ids ms @ call_ids ns" "answer_ids (ms @ ns) = answer_ids ms @ answer_ids ns"
  by (simp_all add: call_ids_def answer_ids_def)

lemma message_calls_iff: "c \<in> set (message_calls m) \<longleftrightarrow> calls_tool c m"
  by (auto simp: message_calls_def calls_tool_def list_ex_iff)

lemma message_answers_iff: "c \<in> set (message_answers m) \<longleftrightarrow> answers_tool c m"
proof (cases "tm_tool_call_id m")
  case None
  then have "message_answers m = []" by (simp add: message_answers_def)
  with None show ?thesis by (simp add: answers_tool_def)
next
  case (Some d)
  then have "message_answers m = (if tm_role m = ''tool'' then [d] else [])" by (simp add: message_answers_def)
  with Some show ?thesis by (auto simp: answers_tool_def)
qed

lemma call_ids_iff: "c \<in> set (call_ids ms) \<longleftrightarrow> (\<exists>i < length ms. calls_tool c (ms ! i))"
  by (auto simp: call_ids_def message_calls_iff set_conv_nth [of ms])

lemma answer_ids_iff: "c \<in> set (answer_ids ms) \<longleftrightarrow> (\<exists>i < length ms. answers_tool c (ms ! i))"
  by (auto simp: answer_ids_def message_answers_iff set_conv_nth [of ms])

lemma protocol_ok_prefix: "protocol_ok ms \<Longrightarrow> set (answer_ids (take k ms)) \<subseteq> set (call_ids (take k ms))"
proof -
  assume ok: "protocol_ok ms"
  have "min k (length ms) \<in> set [0..<Suc (length ms)]" by auto
  with ok have "set (answer_ids (take (min k (length ms)) ms)) \<subseteq> set (call_ids (take (min k (length ms)) ms))"
    unfolding protocol_ok_def by blast
  then show ?thesis by (cases "k \<le> length ms") (simp_all add: min_def)
qed

lemma protocol_okI:
  assumes "list_all message_ok ms" and "distinct (call_ids ms)" and "distinct (answer_ids ms)"
    and "\<And>k. set (answer_ids (take k ms)) \<subseteq> set (call_ids (take k ms))"
  shows "protocol_ok ms"
  using assms by (simp add: protocol_ok_def)

lemma protocol_ok_Nil [simp]: "protocol_ok []"
  by (simp add: protocol_ok_def)

lemma protocol_ok_answers: "protocol_ok ms \<Longrightarrow> set (answer_ids ms) \<subseteq> set (call_ids ms)"
  using protocol_ok_prefix [of ms "length ms"] by simp

text \<open>One more message.\<close>

lemma protocol_ok_snoc:
  "protocol_ok (ms @ [m]) \<longleftrightarrow> protocol_ok ms \<and> message_ok m \<and> distinct (message_calls m) \<and>
     set (message_calls m) \<inter> set (call_ids ms) = {} \<and>
     set (message_answers m) \<subseteq> set (open_calls ms)"
proof -
  have e: "message_answers m = [] \<or> message_calls m = []" by (auto simp: message_answers_def message_calls_def)
  have d: "distinct (message_answers m)" by (auto simp: message_answers_def split: option.split)
  have s: "set [0..<Suc (length (ms @ [m]))] = insert (Suc (length ms)) (set [0..<Suc (length ms)])" by auto
  have "(\<forall>k \<in> set [0..<Suc (length (ms @ [m]))]. set (answer_ids (take k (ms @ [m]))) \<subseteq> set (call_ids (take k (ms @ [m])))) \<longleftrightarrow>
      (\<forall>k \<in> set [0..<Suc (length ms)]. set (answer_ids (take k ms)) \<subseteq> set (call_ids (take k ms))) \<and>
      set (answer_ids (ms @ [m])) \<subseteq> set (call_ids (ms @ [m]))"
    unfolding s by auto
  with d e protocol_ok_answers [of ms] show ?thesis
    by (auto simp: protocol_ok_def open_calls_def)
qed

section \<open>The validator decides the protocol\<close>

abbreviation pending_ids :: "validation_state \<Rightarrow> string set" where
  "pending_ids s \<equiv> fst ` set (vs_pending s)"

lemma add_error_simps [simp]:
  "vs_errors (add_error e s) = vs_errors s @ [e]" "vs_pending (add_error e s) = vs_pending s"
  "vs_completed (add_error e s) = vs_completed s"
  by (simp_all add: add_error_def)

lemma validate_messages_append:
  "validate_messages i (ms @ ns) s = validate_messages (i + length ms) ns (validate_messages i ms s)"
  by (induction i ms s rule: validate_messages.induct) simp_all

text \<open>Errors are never taken back.\<close>

lemma fold_tool_calls_errors: "vs_errors s \<noteq> [] \<Longrightarrow> vs_errors (fold (validate_tool_call i) tcs s) \<noteq> []"
  by (induction tcs arbitrary: s) (auto simp: validate_tool_call_def)

lemma validate_message_errors: "vs_errors s \<noteq> [] \<Longrightarrow> vs_errors (validate_message i m s) \<noteq> []"
  by (auto simp: validate_message_def validate_assistant_def validate_tool_def Let_def
      intro!: fold_tool_calls_errors split: option.split)

text \<open>What one assistant message adds.\<close>

lemma fold_tool_calls:
  assumes "vs_errors s = []"
  shows "(vs_errors (fold (validate_tool_call i) tcs s) = [] \<longleftrightarrow>
       (\<forall>tc \<in> set tcs. trim (tc_id tc) \<noteq> []) \<and> distinct (map tc_id tcs) \<and>
       tc_id ` set tcs \<inter> (pending_ids s \<union> set (vs_completed s)) = {}) \<and>
     (vs_errors (fold (validate_tool_call i) tcs s) = [] \<longrightarrow>
       pending_ids (fold (validate_tool_call i) tcs s) = pending_ids s \<union> tc_id ` set tcs \<and>
       vs_completed (fold (validate_tool_call i) tcs s) = vs_completed s)"
  using assms
proof (induction tcs arbitrary: s)
  case (Cons tc tcs)
  let ?s = "validate_tool_call i tc s"
  show ?case
  proof (cases "vs_errors ?s = []")
    case True
    with Cons.prems have ok: "trim (tc_id tc) \<noteq> []" "tc_id tc \<notin> pending_ids s" "tc_id tc \<notin> set (vs_completed s)"
      by (auto simp: validate_tool_call_def split: if_splits)
    then have "pending_ids ?s = insert (tc_id tc) (pending_ids s)" "vs_completed ?s = vs_completed s"
      by (auto simp: validate_tool_call_def set_fst_bmap_insert)
    with Cons.IH [OF True] ok show ?thesis by auto
  next
    case False
    with Cons.prems have "trim (tc_id tc) = [] \<or> tc_id tc \<in> pending_ids s \<or> tc_id tc \<in> set (vs_completed s)"
      by (auto simp: validate_tool_call_def split: if_splits)
    with fold_tool_calls_errors [OF False] show ?thesis by auto
  qed
qed simp

text \<open>The state after a prefix that follows the protocol.\<close>

definition tracks :: "transcript_message list \<Rightarrow> validation_state \<Rightarrow> bool" where
  "tracks ms s \<longleftrightarrow> vs_errors s = [] \<and> pending_ids s = set (open_calls ms) \<and> set (vs_completed s) = set (answer_ids ms)"

lemma validate_message_tracks:
  assumes "tracks ms s" and "protocol_ok ms"
  shows "(vs_errors (validate_message i m s) = [] \<longleftrightarrow> protocol_ok (ms @ [m])) \<and>
     (protocol_ok (ms @ [m]) \<longrightarrow> tracks (ms @ [m]) (validate_message i m s))"
proof -
  have e: "vs_errors s = []" and p: "pending_ids s = set (open_calls ms)"
    and c: "set (vs_completed s) = set (answer_ids ms)" using assms(1) by (auto simp: tracks_def)
  have all: "set (open_calls ms) \<union> set (answer_ids ms) = set (call_ids ms)"
    using protocol_ok_answers [OF assms(2)] by (auto simp: open_calls_def)
  consider (assistant) "tm_role m = ''assistant''" | (tool) "tm_role m = ''tool''"
    | (other) "tm_role m \<noteq> ''assistant''" "tm_role m \<noteq> ''tool''" by blast
  then show ?thesis
  proof cases
    case assistant
    then show ?thesis
      using fold_tool_calls [OF e, of i "tm_tool_calls m"] fold_tool_calls_errors [of "add_error x s" for x] all assms(2)
      by (cases "tm_tool_call_id m")
        (auto simp: validate_message_def validate_assistant_def protocol_ok_snoc message_ok_def
          message_calls_def message_answers_def tracks_def p c open_calls_def)
  next
    case tool
    then show ?thesis
      using e all assms(2)
      by (cases "tm_tool_call_id m")
        (auto simp: validate_message_def validate_tool_def protocol_ok_snoc message_ok_def Let_def
          message_calls_def message_answers_def tracks_def p c open_calls_def set_fst_bmap_remove)
  next
    case other
    then show ?thesis
      using e assms
      by (auto simp: validate_message_def protocol_ok_snoc message_ok_def
          message_calls_def message_answers_def tracks_def open_calls_def)
  qed
qed

lemma validate_messages_tracks:
  "(vs_errors (validate_messages 0 ms validation_start) = [] \<longleftrightarrow> protocol_ok ms) \<and>
   (protocol_ok ms \<longrightarrow> tracks ms (validate_messages 0 ms validation_start))"
proof (induction ms rule: rev_induct)
  case Nil
  then show ?case by (simp add: tracks_def validation_start_def open_calls_def)
next
  case (snoc m ms)
  show ?case
  proof (cases "protocol_ok ms")
    case True
    with snoc validate_message_tracks [of ms _ "length ms" m] show ?thesis
      by (simp add: validate_messages_append)
  next
    case False
    with snoc validate_message_errors have "vs_errors (validate_messages 0 (ms @ [m]) validation_start) \<noteq> []"
      by (simp add: validate_messages_append)
    with False show ?thesis by (auto simp: protocol_ok_snoc)
  qed
qed

lemma validator_exact:
  "vr_errors (validate_deepseek_native_messages ms) = [] \<longleftrightarrow> protocol_ok ms"
  "vr_valid (validate_deepseek_native_messages ms) \<longleftrightarrow> protocol_ok ms \<and> open_calls ms = []"
  "protocol_ok ms \<Longrightarrow> set (vr_pending_tool_call_ids (validate_deepseek_native_messages ms)) = set (open_calls ms)"
  using validate_messages_tracks [of ms]
  by (auto simp: validate_deepseek_native_messages_def Let_def tracks_def)

section \<open>Cutting a transcript\<close>

lemma take_drop_ids:
  "call_ids ms = call_ids (take s ms) @ call_ids (drop s ms)"
  "answer_ids ms = answer_ids (take s ms) @ answer_ids (drop s ms)"
  by (metis append_take_drop_id ids_simps(5), metis append_take_drop_id ids_simps(6))

lemma keep_pending_le: "keep_pending ms p start \<le> start"
  by (simp add: keep_pending_def split: option.split)

lemma fold_keep_pending_le: "fold (keep_pending ms) ps start \<le> start"
  by (induction ps arbitrary: start) (auto intro: order_trans keep_pending_le)

lemma keep_pending_found:
  "p \<in> set ps \<Longrightarrow> position (calls_tool (ts_provider_tool_call_id p)) ms = Some i \<Longrightarrow> fold (keep_pending ms) ps start \<le> i"
proof (induction ps arbitrary: start)
  case (Cons q ps)
  show ?case
  proof (cases "q = p")
    case True
    with Cons.prems have "keep_pending ms q start \<le> i" by (simp add: keep_pending_def)
    then show ?thesis using fold_keep_pending_le order_trans by simp blast
  next
    case False
    with Cons show ?thesis by simp
  qed
qed simp

text \<open>The suffix from a closed start follows the protocol.\<close>

lemma suffix_protocol_ok:
  assumes ok: "protocol_ok ms" and s: "s = close_suffix ms s0"
  shows "protocol_ok (drop s ms)"
proof (rule protocol_okI)
  show "list_all message_ok (drop s ms)"
    using ok by (auto simp: protocol_ok_def list_all_iff dest: in_set_dropD)
  show "distinct (call_ids (drop s ms))" "distinct (answer_ids (drop s ms))"
    using ok take_drop_ids [of ms s] by (auto simp: protocol_ok_def)
  show "set (answer_ids (take k (drop s ms))) \<subseteq> set (call_ids (take k (drop s ms)))" for k
  proof
    fix c
    assume "c \<in> set (answer_ids (take k (drop s ms)))"
    then obtain j where j: "j < k" "s + j < length ms" "answers_tool c (ms ! (s + j))"
      by (auto simp: answer_ids_iff)
    have "c \<in> set (answer_ids (take (Suc (s + j)) ms))" using j(2,3) by (auto simp: answer_ids_iff)
    with protocol_ok_prefix [OF ok] have "c \<in> set (call_ids (take (Suc (s + j)) ms))" by blast
    then obtain i where i: "i < Suc (s + j)" "i < length ms" "calls_tool c (ms ! i)" by (auto simp: call_ids_iff)
    from i(3) j(3) have "i \<noteq> s + j" by (auto simp: calls_tool_def answers_tool_def)
    with i(1) have "i < s + j" by simp
    from suffix_closed [OF s _ j(2,3) this i(3)] obtain a where
      "s \<le> a" "a < s + j" "calls_tool c (ms ! a)" by auto
    then show "c \<in> set (call_ids (take k (drop s ms)))"
      using j(1,2) by (auto simp: call_ids_iff intro!: exI [of _ "a - s"])
  qed
qed

lemma open_calls_drop:
  assumes "protocol_ok ms"
  shows "set (open_calls (drop s ms)) = set (open_calls ms) \<inter> set (call_ids (drop s ms))"
  using assms protocol_ok_prefix [OF assms, of s] take_drop_ids [of ms s]
  by (auto simp: open_calls_def protocol_ok_def)

lemma protocol_ok_plain_Cons:
  assumes "message_ok m" and "tm_role m = ''user'' \<or> tm_role m = ''system''"
  shows "protocol_ok (m # ms) \<longleftrightarrow> protocol_ok ms" "open_calls (m # ms) = open_calls ms"
proof -
  have e: "message_calls m = []" "message_answers m = []"
    using assms(2) by (auto simp: message_calls_def message_answers_def)
  have "(\<forall>k \<in> set [0..<Suc (length (m # ms))]. set (answer_ids (take k (m # ms))) \<subseteq> set (call_ids (take k (m # ms)))) \<longleftrightarrow>
      (\<forall>k \<in> set [0..<Suc (length ms)]. set (answer_ids (take k ms)) \<subseteq> set (call_ids (take k ms)))" (is "?l \<longleftrightarrow> ?r")
  proof -
    have u: "set [0..<Suc (length (m # ms))] = insert 0 (Suc ` set [0..<Suc (length ms)])"
      by (simp add: image_Suc_atLeastLessThan atLeast0_lessThan_Suc_eq_insert_0 del: upt_Suc)
    show ?thesis unfolding u using e by (simp del: upt_Suc set_upt)
  qed
  with e assms(1) show "protocol_ok (m # ms) \<longleftrightarrow> protocol_ok ms" by (simp add: protocol_ok_def)
  from e show "open_calls (m # ms) = open_calls ms" by (simp add: open_calls_def)
qed

text \<open>The message that stands for what was cut off.\<close>

definition summary_message :: "string \<Rightarrow> transcript_message" where
  "summary_message summary_text =
     \<lparr>tm_role = ''user'', tm_content = Some summary_text, tm_reasoning_content = None, tm_tool_calls = [],
      tm_tool_call_id = None\<rparr>"

definition replacement_messages :: "string \<Rightarrow> transcript_message list \<Rightarrow> tool_call_state list \<Rightarrow> nat \<Rightarrow> transcript_message list" where
  "replacement_messages summary_text messages pending_tool_calls min_live_suffix_turns =
     summary_message summary_text #
     drop (live_suffix_start_index messages pending_tool_calls min_live_suffix_turns) messages"

lemma replacement_ok:
  assumes "protocol_ok ms"
  shows "protocol_ok (replacement_messages t ms ps k)"
    and "set (open_calls (replacement_messages t ms ps k)) \<subseteq> set (open_calls ms)"
proof -
  have m: "message_ok (summary_message t)" "tm_role (summary_message t) = ''user''"
    by (simp_all add: message_ok_def summary_message_def)
  have "protocol_ok (drop (live_suffix_start_index ms ps k) ms)"
    using suffix_protocol_ok [OF assms refl] by (simp add: live_suffix_start_index_def Let_def)
  then show "protocol_ok (replacement_messages t ms ps k)"
    using m by (simp add: replacement_messages_def protocol_ok_plain_Cons)
  show "set (open_calls (replacement_messages t ms ps k)) \<subseteq> set (open_calls ms)"
    using m open_calls_drop [OF assms] by (simp add: replacement_messages_def protocol_ok_plain_Cons)
qed

lemma replacement_keeps_pending:
  assumes "protocol_ok ms" and "p \<in> set ps" and "ts_provider_tool_call_id p \<in> set (open_calls ms)"
  shows "ts_provider_tool_call_id p \<in> set (open_calls (replacement_messages t ms ps k))"
proof -
  let ?c = "ts_provider_tool_call_id p"
  let ?s = "live_suffix_start_index ms ps k"
  have m: "message_ok (summary_message t)" "tm_role (summary_message t) = ''user''"
    by (simp_all add: message_ok_def summary_message_def)
  from assms(3) obtain i where "i < length ms" "calls_tool ?c (ms ! i)"
    by (auto simp: open_calls_def call_ids_iff)
  then obtain a where a: "position (calls_tool ?c) ms = Some a"
    using position_None by (cases "position (calls_tool ?c) ms") auto
  then have "ms \<noteq> []" by (auto dest: position_Some)
  then have "?s \<le> a"
    by (auto simp: live_suffix_start_index_def Let_def
        intro: order_trans [OF close_suffix_le keep_pending_found [OF assms(2) a]])
  with position_Some [OF a] have "?c \<in> set (call_ids (drop ?s ms))"
    by (auto simp: call_ids_iff intro!: exI [of _ "a - ?s"])
  with open_calls_drop [OF assms(1)] assms(3) show ?thesis
    using m by (simp add: replacement_messages_def protocol_ok_plain_Cons)
qed

lemma replacement_length:
  "length (replacement_messages t ms ps k) \<ge> Suc (min (length ms) (max (min (k * 2) (2 ^ 64 - 1)) 1))"
proof (cases "ms = []")
  case False
  let ?keep = "max (min (k * 2) (2 ^ 64 - 1)) (1 :: nat)"
  have "live_suffix_start_index ms ps k \<le> length ms - ?keep"
    unfolding live_suffix_start_index_def Let_def
    using False close_suffix_le [of ms "fold (keep_pending ms) ps (length ms - ?keep)"]
      fold_keep_pending_le [of ms ps "length ms - ?keep"] by auto
  then show ?thesis by (simp add: replacement_messages_def)
qed (simp add: replacement_messages_def)

end
