(* ===== verification/Model_Budget.thy ===== *)
theory Model_Budget
  imports Json
begin

text \<open>
  Budgets of model calls: \<open>process_kernel/src/model_retry.rs\<close> (retry policy and backoff),
  \<open>process_kernel/src/context_budget.rs\<close> (context profiles and the budgets they give) and the token
  estimate of \<open>model_config.rs\<close>. Machine integers keep their width; the environment variables and
  the clock are arguments.
\<close>

section \<open>Saturating arithmetic\<close>

definition sat_add :: "'a::len word \<Rightarrow> 'a word \<Rightarrow> 'a word" where
  "sat_add a b = (if unat a + unat b < 2 ^ LENGTH('a) then a + b else - 1)"

definition sat_sub :: "'a::len word \<Rightarrow> 'a word \<Rightarrow> 'a word" where
  "sat_sub a b = (if b \<le> a then a - b else 0)"

definition sat_mul :: "'a::len word \<Rightarrow> 'a word \<Rightarrow> 'a word" where
  "sat_mul a b = (if unat a * unat b < 2 ^ LENGTH('a) then a * b else - 1)"

definition sat_pow :: "'a::len word \<Rightarrow> nat \<Rightarrow> 'a word" where
  "sat_pow a n = (if unat a ^ n < 2 ^ LENGTH('a) then a ^ n else - 1)"

lemma unat_max: "unat (- 1 :: 'a::len word) = 2 ^ LENGTH('a) - 1"
  by (simp add: unsigned_minus_1_eq_mask mask_eq_exp_minus_1)

lemma unat_sat_add: "unat (sat_add a b) = min (unat a + unat b) (2 ^ LENGTH('a) - 1)"
  for a b :: "'a::len word"
  by (simp add: sat_add_def unat_max unat_word_ariths(1) min_def) arith

lemma unat_sat_sub: "unat (sat_sub a b) = unat a - unat b"
  by (auto simp: sat_sub_def unat_sub word_le_nat_alt)

lemma unat_sat_mul: "unat (sat_mul a b) = min (unat a * unat b) (2 ^ LENGTH('a) - 1)"
  for a b :: "'a::len word"
proof (cases "unat a * unat b < 2 ^ LENGTH('a)")
  case True
  then show ?thesis by (simp add: sat_mul_def unat_word_ariths(2))
next
  case False
  then have "2 ^ LENGTH('a) - 1 \<le> unat a * unat b" by simp
  with False show ?thesis by (simp add: sat_mul_def unat_max min_absorb2)
qed

section \<open>Retries\<close>

record model_budget =
  mb_max_input_bytes :: "64 word"
  mb_max_output_tokens :: "32 word"
  mb_timeout_ms :: "64 word"
  mb_max_retries :: "32 word"

definition default_budget :: model_budget where
  "default_budget = \<lparr>mb_max_input_bytes = 1024 * 1024, mb_max_output_tokens = 65536,
     mb_timeout_ms = 120000, mb_max_retries = 1\<rparr>"

record model_provider_failure =
  mf_error_code :: string
  mf_message :: string
  mf_retryable :: bool

record retry_policy =
  rp_max_attempts :: "32 word"
  rp_initial_backoff_ms :: "64 word"
  rp_max_backoff_ms :: "64 word"
  rp_jitter_ms :: "64 word"

definition env_u64 :: "(string \<Rightarrow> string option) \<Rightarrow> string \<Rightarrow> 64 word \<Rightarrow> 64 word" where
  "env_u64 env name def = unwrap_or def (Option.bind (env name) (\<lambda>v. parse_u64 (trim v)))"

definition policy_from_budget :: "(string \<Rightarrow> string option) \<Rightarrow> model_budget \<Rightarrow> retry_policy" where
  "policy_from_budget env budget =
     \<lparr>rp_max_attempts = max (sat_add (mb_max_retries budget) 1) 1,
      rp_initial_backoff_ms = env_u64 env ''SUPERNOVA_MODEL_RETRY_INITIAL_BACKOFF_MS'' 500,
      rp_max_backoff_ms = env_u64 env ''SUPERNOVA_MODEL_RETRY_MAX_BACKOFF_MS'' 4000,
      rp_jitter_ms = env_u64 env ''SUPERNOVA_MODEL_RETRY_JITTER_MS'' 250\<rparr>"

definition should_retry :: "retry_policy \<Rightarrow> 32 word \<Rightarrow> model_provider_failure \<Rightarrow> bool" where
  "should_retry policy attempt failure \<longleftrightarrow> mf_retryable failure \<and> attempt < rp_max_attempts policy"

definition retry_jitter :: "retry_policy \<Rightarrow> 64 word \<Rightarrow> 64 word" where
  "retry_jitter policy now = (if rp_jitter_ms policy = 0 then 0 else now mod rp_jitter_ms policy)"

definition backoff_ms :: "retry_policy \<Rightarrow> 64 word \<Rightarrow> 32 word \<Rightarrow> 64 word" where
  "backoff_ms policy now completed_attempt =
     (if rp_initial_backoff_ms policy = 0 then 0
      else
       (let exponent = unat (min (sat_sub completed_attempt 1) 20);
            base = sat_mul (rp_initial_backoff_ms policy) (sat_pow 2 exponent)
        in sat_add (min base (rp_max_backoff_ms policy)) (retry_jitter policy now)))"

definition transport_markers :: "string list" where
  "transport_markers = [''timed out'', ''timeout'', ''connection reset'', ''connection aborted'',
     ''connection refused'', ''connection closed'', ''broken pipe'', ''temporarily unavailable'',
     ''would block'', ''10060'', ''10054'', ''10053'', ''eof'']"

definition retryable_transport_message :: "string \<Rightarrow> bool" where
  "retryable_transport_message message =
     list_ex (str_contains (to_ascii_lowercase message)) transport_markers"

text \<open>The kinds of \<open>io::Error\<close> the classification names; \<open>OtherTransport\<close> is any other.\<close>

datatype transport_kind = TimedOut | Interrupted | WouldBlock | ConnectionReset | ConnectionAborted
  | BrokenPipe | UnexpectedEof | OtherTransport

definition classify_io_transport_retryable :: "transport_kind \<Rightarrow> string \<Rightarrow> bool" where
  "classify_io_transport_retryable kind message \<longleftrightarrow>
     kind \<in> {TimedOut, Interrupted, WouldBlock, ConnectionReset, ConnectionAborted, BrokenPipe, UnexpectedEof}
     \<or> retryable_transport_message message"

section \<open>Context profiles\<close>

datatype model_operation = ChatTurn | DecideNextAction | CompactContainerContext | CompactChatContext
  | CompactTaskContext | ExtractJson | Summarize | Rewrite | GenerateArtifact | Audit | RenderEntityReply

fun operation_as_str :: "model_operation \<Rightarrow> string" where
  "operation_as_str ChatTurn = ''chat_turn''"
| "operation_as_str DecideNextAction = ''decide_next_action''"
| "operation_as_str CompactContainerContext = ''compact_container_context''"
| "operation_as_str CompactChatContext = ''compact_chat_context''"
| "operation_as_str CompactTaskContext = ''compact_task_context''"
| "operation_as_str ExtractJson = ''extract_json''"
| "operation_as_str Summarize = ''summarize''"
| "operation_as_str Rewrite = ''rewrite''"
| "operation_as_str GenerateArtifact = ''generate_artifact''"
| "operation_as_str Audit = ''audit''"
| "operation_as_str RenderEntityReply = ''render_entity_reply''"

fun operation_capability_id :: "model_operation \<Rightarrow> string" where
  "operation_capability_id ChatTurn = ''model.chat_turn''"
| "operation_capability_id DecideNextAction = ''model.decide_next_action''"
| "operation_capability_id CompactContainerContext = ''model.compact_container_context''"
| "operation_capability_id CompactChatContext = ''model.compact_chat_context''"
| "operation_capability_id CompactTaskContext = ''model.compact_task_context''"
| "operation_capability_id ExtractJson = ''model.extract_json''"
| "operation_capability_id Summarize = ''model.summarize''"
| "operation_capability_id Rewrite = ''model.rewrite''"
| "operation_capability_id GenerateArtifact = ''model.generate_artifact''"
| "operation_capability_id Audit = ''model.audit''"
| "operation_capability_id RenderEntityReply = ''model.render_entity_reply''"

record model_context_profile =
  cx_provider :: string
  cx_model :: string
  cx_max_context_tokens :: "32 word"
  cx_max_decision_input_bytes :: "64 word"
  cx_max_generation_input_bytes :: "64 word"
  cx_max_dataset_input_bytes :: "64 word"
  cx_default_output_tokens :: "32 word"
  cx_long_output_tokens :: "32 word"

definition input_bytes_for_window :: "32 word \<Rightarrow> 32 word \<Rightarrow> 64 word" where
  "input_bytes_for_window max_context_tokens output_tokens =
     (if max_context_tokens > output_tokens then ucast (max_context_tokens - output_tokens) else 1) * 4"

definition profile_for :: "string \<Rightarrow> string \<Rightarrow> model_context_profile" where
  "profile_for provider_name model =
     (if str_contains (to_ascii_lowercase provider_name) ''deepseek'' \<or>
         str_contains (to_ascii_lowercase model) ''deepseek''
      then \<lparr>cx_provider = provider_name, cx_model = model, cx_max_context_tokens = 1000000,
            cx_max_decision_input_bytes = input_bytes_for_window 1000000 65536,
            cx_max_generation_input_bytes = input_bytes_for_window 1000000 65536,
            cx_max_dataset_input_bytes = input_bytes_for_window 1000000 65536,
            cx_default_output_tokens = 65536, cx_long_output_tokens = 65536\<rparr>
      else \<lparr>cx_provider = provider_name, cx_model = model, cx_max_context_tokens = 128000,
            cx_max_decision_input_bytes = input_bytes_for_window 128000 8192,
            cx_max_generation_input_bytes = input_bytes_for_window 128000 16384,
            cx_max_dataset_input_bytes = input_bytes_for_window 128000 8192,
            cx_default_output_tokens = 8192, cx_long_output_tokens = 16384\<rparr>)"

definition budget_for :: "model_context_profile \<Rightarrow> model_operation \<Rightarrow> model_budget" where
  "budget_for profile operation =
     (if operation \<in> {DecideNextAction, ChatTurn, CompactContainerContext, CompactChatContext, CompactTaskContext}
      then default_budget\<lparr>mb_max_input_bytes := cx_max_decision_input_bytes profile,
             mb_max_output_tokens := cx_default_output_tokens profile, mb_timeout_ms := 90000\<rparr>
      else if operation \<in> {ExtractJson, Summarize, Audit}
      then default_budget\<lparr>mb_max_input_bytes := cx_max_dataset_input_bytes profile,
             mb_max_output_tokens := cx_default_output_tokens profile, mb_timeout_ms := 180000\<rparr>
      else if operation \<in> {Rewrite, GenerateArtifact}
      then default_budget\<lparr>mb_max_input_bytes := cx_max_generation_input_bytes profile,
             mb_max_output_tokens := cx_long_output_tokens profile, mb_timeout_ms := 300000\<rparr>
      else default_budget\<lparr>mb_max_input_bytes := cx_max_decision_input_bytes profile,
             mb_max_output_tokens := cx_default_output_tokens profile, mb_timeout_ms := 120000\<rparr>)"

definition clamp_budget_to_context_window :: "model_context_profile \<Rightarrow> model_budget \<Rightarrow> model_budget" where
  "clamp_budget_to_context_window profile budget =
     (let output = (if mb_max_output_tokens budget \<ge> cx_max_context_tokens profile
                    then max (sat_sub (cx_max_context_tokens profile) 1) 1
                    else mb_max_output_tokens budget);
          max_input_bytes = input_bytes_for_window (cx_max_context_tokens profile) output
      in budget\<lparr>mb_max_output_tokens := output,
                mb_max_input_bytes := min (mb_max_input_bytes budget) max_input_bytes\<rparr>)"

definition context_window_tokens_for_budget :: "model_budget \<Rightarrow> 64 word" where
  "context_window_tokens_for_budget budget =
     max (sat_add (mb_max_input_bytes budget div 4) (ucast (mb_max_output_tokens budget))) 1"

section \<open>Token estimates\<close>

definition char_count :: "string \<Rightarrow> nat" where
  "char_count s = length (filter (\<lambda>c. \<not> is_continuation c) s)"

definition estimate_text_tokens_conservative :: "string \<Rightarrow> nat" where
  "estimate_text_tokens_conservative text =
     (if text = [] then 0 else max (char_count text) ((length text + 3) div 4))"

section \<open>Backoff\<close>

lemma min_word_unat: "unat (min a b) = min (unat a) (unat b)" for a b :: "'a::len word"
  by (simp add: min_def word_le_nat_alt)

lemma max_word_unat: "unat (max a b) = max (unat a) (unat b)" for a b :: "'a::len word"
  by (simp add: max_def word_le_nat_alt)

lemma unat_sat_pow2: "n \<le> 20 \<Longrightarrow> unat (sat_pow (2 :: 64 word) n) = 2 ^ n"
proof -
  assume n: "n \<le> 20"
  then have "(2 :: nat) ^ n \<le> 2 ^ 20" by (rule power_increasing) simp
  then have l: "(2 :: nat) ^ n < 2 ^ 64" by simp
  have "(2 :: 64 word) ^ n = word_of_nat (2 ^ n)" by simp
  with l have "unat ((2 :: 64 word) ^ n) = 2 ^ n" by (simp only: unat_of_nat) simp
  with l show ?thesis by (simp add: sat_pow_def)
qed

text \<open>The backoff as a number: the doubled start, capped, plus the jitter.\<close>

lemma backoff_value:
  assumes "rp_initial_backoff_ms policy \<noteq> 0"
  shows "unat (backoff_ms policy now attempt) =
    min (min (unat (rp_initial_backoff_ms policy) * 2 ^ min (unat attempt - 1) 20) (unat (rp_max_backoff_ms policy))
          + unat (retry_jitter policy now)) (2 ^ 64 - 1)"
proof -
  let ?n = "unat (min (sat_sub attempt 1) (20 :: 32 word))"
  have n: "?n = min (unat attempt - 1) 20" by (simp add: min_word_unat unat_sat_sub)
  then have "unat (sat_pow (2 :: 64 word) ?n) = 2 ^ min (unat attempt - 1) 20" by (simp add: unat_sat_pow2)
  moreover have "unat (rp_max_backoff_ms policy) \<le> 2 ^ 64 - 1"
    using unsigned_less [of "rp_max_backoff_ms policy", where 'a = nat] by simp
  ultimately show ?thesis
    using assms by (simp add: backoff_ms_def Let_def unat_sat_add unat_sat_mul min_word_unat min.assoc)
qed

lemma jitter_less: "rp_jitter_ms policy \<noteq> 0 \<Longrightarrow> unat (retry_jitter policy now) < unat (rp_jitter_ms policy)"
  by (simp add: retry_jitter_def unat_mod_distrib unat_gt_0)

section \<open>Properties\<close>

text \<open>
  The backoff doubles, is capped and never shrinks. With room for the jitter below 2^64 ms the
  wait after an attempt is exactly the initial backoff doubled once per earlier attempt (20 times at
  most), cut at the maximum, plus a jitter below the configured one; so it lies between the two
  bounds, and at the same clock a later attempt never waits less.
\<close>

theorem backoff_exact:
  assumes "rp_initial_backoff_ms policy \<noteq> 0"
    and "unat (rp_max_backoff_ms policy) + unat (rp_jitter_ms policy) < 2 ^ 64"
  shows "unat (backoff_ms policy now attempt) =
       min (unat (rp_initial_backoff_ms policy) * 2 ^ min (unat attempt - 1) 20) (unat (rp_max_backoff_ms policy))
         + unat (retry_jitter policy now) \<and>
     unat (backoff_ms policy now attempt) \<le> unat (rp_max_backoff_ms policy) + (unat (rp_jitter_ms policy) - 1) \<and>
     (attempt \<le> later \<longrightarrow> backoff_ms policy now attempt \<le> backoff_ms policy now later)"
proof -
  let ?base = "\<lambda>k. min (unat (rp_initial_backoff_ms policy) * 2 ^ min (unat k - 1) 20) (unat (rp_max_backoff_ms policy))"
  have j: "unat (retry_jitter policy now) \<le> unat (rp_jitter_ms policy) - 1"
    using jitter_less [of policy now] by (cases "rp_jitter_ms policy = 0") (simp_all add: retry_jitter_def)
  have val: "unat (backoff_ms policy now k) = ?base k + unat (retry_jitter policy now)" for k
    using assms(2) j by (simp add: backoff_value [OF assms(1)])
  have "?base attempt \<le> ?base later" if "attempt \<le> later"
  proof -
    from that have "min (unat attempt - 1) 20 \<le> min (unat later - 1) 20" by (auto simp: word_le_nat_alt)
    then have "(2 :: nat) ^ min (unat attempt - 1) 20 \<le> 2 ^ min (unat later - 1) 20" by (rule power_increasing) simp
    then show ?thesis by (intro min.mono mult_left_mono) auto
  qed
  with j show ?thesis by (simp only: val word_le_nat_alt) auto
qed

theorem backoff_exact_witness:
  "let policy = policy_from_budget (\<lambda>_. None) default_budget
   in unat (backoff_ms policy 1234 3) = 2000 + 1234 mod 250 \<and> unat (backoff_ms policy 1234 3) \<le> 4249 \<and>
      backoff_ms policy 1234 3 \<le> backoff_ms policy 1234 9"
proof -
  let ?p = "policy_from_budget (\<lambda>_. None) default_budget"
  have p: "rp_initial_backoff_ms ?p = 500" "rp_max_backoff_ms ?p = 4000" "rp_jitter_ms ?p = 250"
    by (simp_all add: policy_from_budget_def env_u64_def)
  have "rp_initial_backoff_ms ?p \<noteq> 0" "unat (rp_max_backoff_ms ?p) + unat (rp_jitter_ms ?p) < 2 ^ 64"
    by (simp_all add: p)
  from backoff_exact [OF this, of 1234 3 9] show ?thesis
    by (simp add: p retry_jitter_def Let_def unat_mod_distrib)
qed

text \<open>
  A clamped budget fits the context window. For a window of at least two tokens, the tokens of
  the largest input the clamped budget allows (four bytes each) and its output tokens together do not
  exceed the window; clamping raises neither bound and changes nothing the second time.
\<close>

theorem clamped_budget_fits:
  assumes "2 \<le> cx_max_context_tokens profile"
  shows "unat (context_window_tokens_for_budget (clamp_budget_to_context_window profile budget))
         \<le> unat (cx_max_context_tokens profile) \<and>
     mb_max_input_bytes (clamp_budget_to_context_window profile budget) \<le> mb_max_input_bytes budget \<and>
     mb_max_output_tokens (clamp_budget_to_context_window profile budget) \<le> mb_max_output_tokens budget \<and>
     clamp_budget_to_context_window profile (clamp_budget_to_context_window profile budget) =
       clamp_budget_to_context_window profile budget"
proof -
  let ?win = "cx_max_context_tokens profile"
  let ?b = "clamp_budget_to_context_window profile budget"
  let ?out = "mb_max_output_tokens ?b"
  have w2: "2 \<le> unat ?win" using assms by (simp add: word_le_nat_alt)
  have out: "unat ?out = (if unat ?win \<le> unat (mb_max_output_tokens budget) then unat ?win - 1
      else unat (mb_max_output_tokens budget))"
    using w2 by (auto simp: clamp_budget_to_context_window_def Let_def max_word_unat unat_sat_sub word_le_nat_alt)
  then have less: "?out < ?win" using w2 by (simp add: word_less_nat_alt)
  have inp: "mb_max_input_bytes ?b = min (mb_max_input_bytes budget) (input_bytes_for_window ?win ?out)"
    by (simp add: clamp_budget_to_context_window_def Let_def)
  have "unat (?win - ?out) = unat ?win - unat ?out" using less by (simp add: unat_sub order_less_imp_le)
  moreover have "unat (?win - ?out) < 2 ^ 32" using unsigned_less [of "?win - ?out", where 'a = nat] by simp
  ultimately have bytes: "unat (input_bytes_for_window ?win ?out) = (unat ?win - unat ?out) * 4"
    using less by (simp add: input_bytes_for_window_def unat_word_ariths(2) unsigned_ucast_eq take_bit_nat_eq_self)
  have "unat (mb_max_input_bytes ?b) \<le> (unat ?win - unat ?out) * 4" by (simp add: inp min_word_unat bytes)
  then have "unat (mb_max_input_bytes ?b div 4) \<le> unat ?win - unat ?out"
    by (simp add: unat_div_distrib)
  moreover have "unat (ucast ?out :: 64 word) = unat ?out"
    using unsigned_less [of ?out, where 'a = nat] by (simp add: unsigned_ucast_eq take_bit_nat_eq_self)
  ultimately have fits: "unat (context_window_tokens_for_budget ?b) \<le> unat ?win"
    using less w2 by (simp add: context_window_tokens_for_budget_def max_word_unat unat_sat_add word_less_nat_alt)
  have again: "clamp_budget_to_context_window profile ?b = ?b"
  proof -
    from less have "\<not> ?win \<le> ?out" by simp
    then have "clamp_budget_to_context_window profile ?b =
        ?b\<lparr>mb_max_output_tokens := ?out, mb_max_input_bytes := min (mb_max_input_bytes ?b) (input_bytes_for_window ?win ?out)\<rparr>"
      unfolding clamp_budget_to_context_window_def [of profile ?b] by (simp only: if_False Let_def)
    then show ?thesis by (simp add: inp)
  qed
  have "?out \<le> mb_max_output_tokens budget" using out w2 by (auto simp: word_le_nat_alt)
  with fits again inp show ?thesis by simp
qed

theorem clamped_budget_fits_witness:
  "let profile = profile_for ''openai'' ''gpt'';
       budget = clamp_budget_to_context_window profile (budget_for profile GenerateArtifact\<lparr>mb_max_output_tokens := 200000\<rparr>)
   in mb_max_output_tokens budget = 127999 \<and> mb_max_input_bytes budget = 4 \<and>
      unat (context_window_tokens_for_budget budget) \<le> 128000"
proof -
  let ?p = "profile_for ''openai'' ''gpt''"
  have c: "cx_max_context_tokens ?p = 128000" "mb_max_output_tokens (clamp_budget_to_context_window ?p
      (budget_for ?p GenerateArtifact\<lparr>mb_max_output_tokens := 200000\<rparr>)) = 127999"
    "mb_max_input_bytes (clamp_budget_to_context_window ?p
      (budget_for ?p GenerateArtifact\<lparr>mb_max_output_tokens := 200000\<rparr>)) = 4"
    by code_simp+
  have "2 \<le> cx_max_context_tokens ?p" by (simp add: c)
  from clamped_budget_fits [OF this, of "budget_for ?p GenerateArtifact\<lparr>mb_max_output_tokens := 200000\<rparr>"] c
  show ?thesis by (simp add: Let_def)
qed

end
