(* ===== verification/Provider_Transcript.thy ===== *)
theory Provider_Transcript
  imports Transcript_Protocol Model_Budget Approval_Runtime
begin

text \<open>
  \<open>process_kernel/src/provider_transcript.rs\<close>: the transcript of a job with a model provider. The
  messages are a JSON blob of the job, the log holds which blob is current, and the calls still
  waiting for a tool's answer are replayed from the log. The serializer and the parser of
  \<open>serde_json\<close> are parameters; the derived \<open>Serialize\<close> and \<open>Deserialize\<close> of the messages are
  written out. The optional debug trace is taken to be off.
\<close>

definition jnat :: "nat \<Rightarrow> json" where
  "jnat n = Number (PosInt (word_of_nat n))"

section \<open>Messages as JSON\<close>

definition tool_call_json :: "provider_tool_call \<Rightarrow> json" where
  "tool_call_json tc = jobj [(''id'', JString (tc_id tc)), (''type'', JString (tc_type tc)), (''function'', tc_function tc)]"

definition opt_field :: "string \<Rightarrow> string option \<Rightarrow> (string \<times> json) list" where
  "opt_field k x = (case x of None \<Rightarrow> [] | Some s \<Rightarrow> [(k, JString s)])"

definition message_json :: "transcript_message \<Rightarrow> json" where
  "message_json m = jobj ([(''role'', JString (tm_role m)), (''content'', jopt (tm_content m))]
     @ opt_field ''reasoning_content'' (tm_reasoning_content m)
     @ (if tm_tool_calls m = [] then [] else [(''tool_calls'', Array (map tool_call_json (tm_tool_calls m)))])
     @ opt_field ''tool_call_id'' (tm_tool_call_id m))"

definition messages_json :: "transcript_message list \<Rightarrow> json" where
  "messages_json ms = Array (map message_json ms)"

text \<open>A missing or \<open>null\<close> optional string is \<open>None\<close>; any other value that is no string is an error.\<close>

definition opt_str_of :: "json option \<Rightarrow> string option option" where
  "opt_str_of v = (case v of None \<Rightarrow> Some None | Some Null \<Rightarrow> Some None | Some (JString s) \<Rightarrow> Some (Some s) | _ \<Rightarrow> None)"

definition tool_call_of_json :: "json \<Rightarrow> provider_tool_call option" where
  "tool_call_of_json v =
     Option.bind (get_str v ''id'') (\<lambda>i. Option.bind (get_str v ''type'') (\<lambda>t.
     Option.bind (jget v ''function'') (\<lambda>f. Some \<lparr>tc_id = i, tc_type = t, tc_function = f\<rparr>)))"

definition message_of_json :: "json \<Rightarrow> transcript_message option" where
  "message_of_json v =
     Option.bind (get_str v ''role'') (\<lambda>role.
     Option.bind (opt_str_of (jget v ''content'')) (\<lambda>content.
     Option.bind (opt_str_of (jget v ''reasoning_content'')) (\<lambda>reasoning.
     Option.bind (case jget v ''tool_calls'' of None \<Rightarrow> Some []
         | Some calls \<Rightarrow> Option.bind (as_array calls) (\<lambda>xs. those (map tool_call_of_json xs))) (\<lambda>calls.
     Option.bind (opt_str_of (jget v ''tool_call_id'')) (\<lambda>call_id.
     Some \<lparr>tm_role = role, tm_content = content, tm_reasoning_content = reasoning, tm_tool_calls = calls,
           tm_tool_call_id = call_id\<rparr>)))))"

definition messages_of_json :: "json \<Rightarrow> transcript_message list option" where
  "messages_of_json v = Option.bind (as_array v) (\<lambda>xs. those (map message_of_json xs))"

lemma those_map_Some: "(\<And>x. x \<in> set xs \<Longrightarrow> f (g x) = Some x) \<Longrightarrow> those (map f (map g xs)) = Some xs"
  by (induction xs) auto

lemma opt_str_of_simps [simp]:
  "opt_str_of None = Some None" "opt_str_of (Some (JString s)) = Some (Some s)" "opt_str_of (Some (jopt x)) = Some x"
  by (cases x; simp add: opt_str_of_def jopt_def)+

lemma tool_call_round_trip: "tool_call_of_json (tool_call_json tc) = Some tc"
  by (simp add: tool_call_of_json_def tool_call_json_def)

lemma message_round_trip: "message_of_json (message_json m) = Some m"
proof -
  have "those (map tool_call_of_json (map tool_call_json (tm_tool_calls m))) = Some (tm_tool_calls m)"
    by (rule those_map_Some) (rule tool_call_round_trip)
  then show ?thesis
    by (cases m; cases "tm_reasoning_content m"; cases "tm_tool_call_id m"; cases "tm_tool_calls m = []")
      (simp_all add: message_of_json_def message_json_def opt_field_def)
qed

lemma messages_round_trip: "messages_of_json (messages_json ms) = Some ms"
  unfolding messages_of_json_def messages_json_def
  by (simp add: those_map_Some message_round_trip del: map_map)

section \<open>The state replayed from the log\<close>

record provider_transcript_token_estimate =
  te_input_tokens_estimated :: nat
  te_output_tokens_reserved :: nat
  te_reasoning_tokens_reserved :: nat
  te_total_context_limit :: nat

record provider_transcript_state =
  pt_provider :: string
  pt_protocol :: string
  pt_transcript_id :: string
  pt_messages_ref :: string
  pt_summary_ref :: "string option"
  pt_latest_assistant_message_ref :: "string option"
  pt_pending_tool_calls :: "tool_call_state list"
  pt_reasoning_content_refs :: "string list"
  pt_token_estimate :: provider_transcript_token_estimate
  pt_updated_event_id :: nat

text \<open>The local variables of the replay loop.\<close>

record transcript_replay =
  rt_messages_ref :: "string option"
  rt_summary_ref :: "string option"
  rt_latest_assistant_message_ref :: "string option"
  rt_reasoning_content_refs :: "string list"
  rt_pending_tool_calls :: "tool_call_state list"
  rt_updated_event_id :: nat

definition requested_call :: "json \<Rightarrow> tool_call_state option" where
  "requested_call d = map_option (\<lambda>tool_call_id.
     \<lparr>ts_provider_tool_call_id = tool_call_id, ts_provider_name = get_str d ''provider_tool_name'',
      ts_status = ''requested'', ts_assistant_message_ref = get_str d ''assistant_message_ref'',
      ts_tool_result_ref = None\<rparr>) (get_str d ''provider_tool_call_id'')"

definition complete_call :: "json \<Rightarrow> tool_call_state \<Rightarrow> tool_call_state" where
  "complete_call d item =
     (if get_str d ''provider_tool_call_id'' = Some (ts_provider_tool_call_id item)
      then item\<lparr>ts_status := ''completed'', ts_tool_result_ref := get_str d ''tool_result_ref''\<rparr>
      else item)"

definition replay_transcript_event :: "transcript_replay \<Rightarrow> process_event \<Rightarrow> transcript_replay" where
  "replay_transcript_event s e =
     (if event_type e = ''provider_transcript_appended'' \<or> event_type e = ''provider_transcript_compacted'' then
        s\<lparr>rt_messages_ref := or_else (get_str (data e) ''messages_ref'') (rt_messages_ref s),
          rt_summary_ref := or_else (get_str (data e) ''summary_ref'') (rt_summary_ref s),
          rt_latest_assistant_message_ref :=
            or_else (get_str (data e) ''latest_assistant_message_ref'') (rt_latest_assistant_message_ref s),
          rt_updated_event_id := event_id e\<rparr>
      else if event_type e = ''provider_reasoning_content_recorded'' then
        (case get_str (data e) ''reasoning_content_ref'' of None \<Rightarrow> s
         | Some r \<Rightarrow> s\<lparr>rt_reasoning_content_refs := rt_reasoning_content_refs s @ [r]\<rparr>)
      else if event_type e = ''provider_tool_call_requested'' then
        (case requested_call (data e) of None \<Rightarrow> s
         | Some item \<Rightarrow> s\<lparr>rt_pending_tool_calls := rt_pending_tool_calls s @ [item]\<rparr>)
      else if event_type e = ''provider_tool_result_recorded'' then
        s\<lparr>rt_pending_tool_calls := map (complete_call (data e)) (rt_pending_tool_calls s)\<rparr>
      else s)"

definition transcript_event :: "string \<Rightarrow> string \<Rightarrow> string \<Rightarrow> process_event \<Rightarrow> bool" where
  "transcript_event provider protocol transcript_id e \<longleftrightarrow>
     get_str (data e) ''provider'' = Some provider \<and> get_str (data e) ''protocol'' = Some protocol \<and>
     get_str (data e) ''transcript_id'' = Some transcript_id"

definition replay_start :: transcript_replay where
  "replay_start = \<lparr>rt_messages_ref = None, rt_summary_ref = None, rt_latest_assistant_message_ref = None,
     rt_reasoning_content_refs = [], rt_pending_tool_calls = [], rt_updated_event_id = 0\<rparr>"

definition replay_transcript :: "string \<Rightarrow> string \<Rightarrow> string \<Rightarrow> process_event list \<Rightarrow> transcript_replay" where
  "replay_transcript provider protocol transcript_id events =
     foldl (\<lambda>s e. if transcript_event provider protocol transcript_id e then replay_transcript_event s e else s)
       replay_start events"

definition replay_provider_transcript_state_from_events ::
  "string \<Rightarrow> string \<Rightarrow> string \<Rightarrow> process_event list \<Rightarrow> provider_transcript_state option" where
  "replay_provider_transcript_state_from_events provider protocol transcript_id events =
     (let s = replay_transcript provider protocol transcript_id events
      in map_option (\<lambda>messages_ref.
        \<lparr>pt_provider = provider, pt_protocol = protocol, pt_transcript_id = transcript_id,
         pt_messages_ref = messages_ref, pt_summary_ref = rt_summary_ref s,
         pt_latest_assistant_message_ref = rt_latest_assistant_message_ref s,
         pt_pending_tool_calls = filter (\<lambda>item. ts_status item \<noteq> ''completed'') (rt_pending_tool_calls s),
         pt_reasoning_content_refs = rt_reasoning_content_refs s,
         pt_token_estimate = \<lparr>te_input_tokens_estimated = 0, te_output_tokens_reserved = 0,
           te_reasoning_tokens_reserved = 0, te_total_context_limit = 1000000\<rparr>,
         pt_updated_event_id = rt_updated_event_id s\<rparr>) (rt_messages_ref s))"

definition transcript_id_for :: "string \<Rightarrow> string \<Rightarrow> string" where
  "transcript_id_for job provider = ''ptr_'' @ safe_blob_name job @ ''_'' @ safe_blob_name provider"

definition replay_provider_transcript_state ::
  "string \<Rightarrow> string \<Rightarrow> string \<Rightarrow> (world, provider_transcript_state option) io" where
  "replay_provider_transcript_state job provider protocol =
     io_bind (read_events job) (\<lambda>events. io_return
       (replay_provider_transcript_state_from_events provider protocol (transcript_id_for job provider) events))"

section \<open>Reading and storing the messages\<close>

definition parse_messages :: "json_codec \<Rightarrow> string \<Rightarrow> transcript_message list res" where
  "parse_messages cd bytes =
     (case Option.bind (from_str cd bytes) messages_of_json of
        None \<Rightarrow> Inl (IoError InvalidData ''invalid provider transcript'')
      | Some ms \<Rightarrow> Inr ms)"

definition read_provider_messages ::
  "json_codec \<Rightarrow> string \<Rightarrow> provider_transcript_state \<Rightarrow> (world, transcript_message list) io" where
  "read_provider_messages cd job st =
     io_bind (io_lift (resolve_blob_ref job (pt_messages_ref st))) (\<lambda>p.
     io_bind (read_file p) (\<lambda>bytes. io_lift (parse_messages cd bytes)))"

definition read_messages_from_state ::
  "json_codec \<Rightarrow> string \<Rightarrow> provider_transcript_state option \<Rightarrow> (world, transcript_message list) io" where
  "read_messages_from_state cd job st =
     (case st of Some s \<Rightarrow> read_provider_messages cd job s | None \<Rightarrow> io_return [])"

definition compacted_reasoning :: string where
  "compacted_reasoning = ''[compacted: non-tool-call reasoning omitted]''"

definition compact_message :: "transcript_message \<Rightarrow> transcript_message" where
  "compact_message m =
     (if tm_role m = ''assistant'' \<and> tm_tool_calls m = [] \<and> tm_reasoning_content m \<noteq> None
      then m\<lparr>tm_reasoning_content := Some compacted_reasoning\<rparr> else m)"

definition compact_non_mandatory_reasoning :: "transcript_message list \<Rightarrow> transcript_message list" where
  "compact_non_mandatory_reasoning ms = map compact_message ms"

definition estimate_messages_tokens :: "json_codec \<Rightarrow> transcript_message list \<Rightarrow> nat" where
  "estimate_messages_tokens cd ms =
     sum_list (map (\<lambda>m. estimate_text_tokens_conservative (to_string cd (message_json m))) ms)"

definition transcript_dir :: "string \<Rightarrow> string" where
  "transcript_dir transcript_id = ''provider_transcripts/'' @ safe_blob_name transcript_id @ ''/''"

definition over_threshold :: "json_codec \<Rightarrow> transcript_message list \<Rightarrow> bool" where
  "over_threshold cd ms \<longleftrightarrow> length ms > 64 \<or> estimate_messages_tokens cd ms > 160000"

text \<open>The fields every event of a transcript carries.\<close>

definition transcript_fields :: "string \<Rightarrow> string \<Rightarrow> string \<Rightarrow> (string \<times> json) list" where
  "transcript_fields provider protocol transcript_id =
     [(''provider'', JString provider), (''protocol'', JString protocol), (''transcript_id'', JString transcript_id)]"

definition create_if_missing ::
  "string \<Rightarrow> string \<Rightarrow> string \<Rightarrow> string \<Rightarrow> string \<Rightarrow> provider_transcript_state option \<Rightarrow> (world, unit) io" where
  "create_if_missing job pid provider protocol transcript_id previous =
     (if previous = None
      then io_bind (append_event job (Some pid) ''provider_transcript_created''
             (jobj (transcript_fields provider protocol transcript_id))) (\<lambda>_. io_return ())
      else io_return ())"

text \<open>
  The common middle of the recording functions: compact when the transcript is long, write the
  messages, and record the compaction. The result is the messages written, their reference, and
  whether they were compacted.
\<close>

definition store_messages ::
  "json_codec \<Rightarrow> string \<Rightarrow> string \<Rightarrow> string \<Rightarrow> string \<Rightarrow> string \<Rightarrow> transcript_message list \<Rightarrow>
   (world, transcript_message list \<times> string \<times> bool) io" where
  "store_messages cd job pid provider protocol transcript_id pushed =
     (let compacted = over_threshold cd pushed;
          messages = (if compacted then compact_non_mandatory_reasoning pushed else pushed)
      in io_bind (write_blob job (transcript_dir transcript_id @ ''messages.json'') (to_pretty cd (messages_json messages)))
           (\<lambda>messages_ref.
         io_bind (if compacted
           then io_bind (append_event job (Some pid) ''provider_transcript_compacted''
                  (jobj (transcript_fields provider protocol transcript_id @
                    [(''messages_ref'', JString messages_ref),
                     (''compaction_policy'', JString ''drop_non_tool_call_reasoning_content''),
                     (''message_count'', jnat (length messages))]))) (\<lambda>_. io_return ())
           else io_return ())
         (\<lambda>_. io_return (messages, messages_ref, compacted))))"

definition token_estimate_json :: "provider_transcript_token_estimate \<Rightarrow> json" where
  "token_estimate_json t = jobj
     [(''input_tokens_estimated'', jnat (te_input_tokens_estimated t)),
      (''output_tokens_reserved'', jnat (te_output_tokens_reserved t)),
      (''reasoning_tokens_reserved'', jnat (te_reasoning_tokens_reserved t)),
      (''total_context_limit'', jnat (te_total_context_limit t))]"

text \<open>\<open>ProviderTranscriptSummary\<close> and its blob.\<close>

definition summary_json ::
  "string \<Rightarrow> string \<Rightarrow> string \<Rightarrow> string \<Rightarrow> nat \<Rightarrow> string option \<Rightarrow> nat \<Rightarrow> string list \<Rightarrow>
   provider_transcript_token_estimate \<Rightarrow> bool \<Rightarrow> nat \<Rightarrow> json" where
  "summary_json provider protocol transcript_id messages_ref message_count latest pending_count reasoning_refs
     estimate compacted updated_at_ms = jobj (transcript_fields provider protocol transcript_id @
       [(''messages_ref'', JString messages_ref), (''message_count'', jnat message_count),
        (''latest_assistant_message_ref'', jopt latest), (''pending_tool_call_count'', jnat pending_count),
        (''reasoning_content_refs'', jstrings reasoning_refs), (''token_estimate'', token_estimate_json estimate),
        (''compacted'', Bool compacted), (''updated_at_ms'', jnat updated_at_ms)])"

definition write_summary ::
  "json_codec \<Rightarrow> string \<Rightarrow> string \<Rightarrow> string \<Rightarrow> string \<Rightarrow> string \<Rightarrow> string \<Rightarrow> transcript_message list \<Rightarrow>
   string option \<Rightarrow> nat \<Rightarrow> string list \<Rightarrow> nat \<Rightarrow> bool \<Rightarrow> (world, string) io" where
  "write_summary cd job file provider protocol transcript_id messages_ref messages latest pending_count
     reasoning_refs context_limit compacted =
     (let estimate = \<lparr>te_input_tokens_estimated = estimate_messages_tokens cd messages,
            te_output_tokens_reserved = 0, te_reasoning_tokens_reserved = length reasoning_refs,
            te_total_context_limit = context_limit\<rparr>
      in io_bind now_ms (\<lambda>ts.
         write_blob job (transcript_dir transcript_id @ file)
           (to_pretty cd (summary_json provider protocol transcript_id messages_ref (length messages) latest
              pending_count reasoning_refs estimate compacted ts))))"

section \<open>Recording\<close>

record provider_transcript_record =
  pr_transcript_id :: string
  pr_messages_ref :: string
  pr_summary_ref :: string
  pr_assistant_message_ref :: "string option"
  pr_reasoning_content_ref :: "string option"
  pr_message_index :: nat

text \<open>The message of a response: its own, or one made from the output.\<close>

definition response_message :: "model_provider_response \<Rightarrow> provider_assistant_message option" where
  "response_message response =
     (case mr_assistant_message response of
        Some assistant \<Rightarrow> Some assistant
      | None \<Rightarrow>
          if mr_output_text response = [] \<and> mr_reasoning_content response = None \<and> mr_tool_calls response = []
          then None
          else Some \<lparr>pa_role = ''assistant'',
            pa_content = (if mr_output_text response = [] then None else Some (mr_output_text response)),
            pa_reasoning_content = mr_reasoning_content response, pa_tool_calls = mr_tool_calls response\<rparr>)"

definition assistant_transcript_message :: "provider_assistant_message \<Rightarrow> transcript_message" where
  "assistant_transcript_message assistant =
     \<lparr>tm_role = ''assistant'', tm_content = pa_content assistant,
      tm_reasoning_content = pa_reasoning_content assistant, tm_tool_calls = pa_tool_calls assistant,
      tm_tool_call_id = None\<rparr>"

definition record_reasoning ::
  "string \<Rightarrow> string \<Rightarrow> string \<Rightarrow> string \<Rightarrow> string \<Rightarrow> string \<Rightarrow> provider_assistant_message \<Rightarrow> bool \<Rightarrow> nat \<Rightarrow>
   (world, string option) io" where
  "record_reasoning job pid provider protocol transcript_id model_call_id assistant store_reasoning_content message_index =
     (case pa_reasoning_content assistant of
        None \<Rightarrow> io_return None
      | Some reasoning \<Rightarrow>
          if reasoning = [] \<or> \<not> store_reasoning_content \<and> pa_tool_calls assistant = [] then io_return None
          else
            io_bind (write_blob job (transcript_dir transcript_id @ ''reasoning_'' @ dec message_index @ ''.txt'') reasoning)
              (\<lambda>reasoning_ref.
            io_bind (append_event job (Some pid) ''provider_reasoning_content_recorded''
              (jobj (transcript_fields provider protocol transcript_id @
                [(''model_call_id'', JString model_call_id), (''reasoning_content_ref'', JString reasoning_ref),
                 (''reasoning_content_tokens_estimated'', jnat (estimate_text_tokens_conservative reasoning)),
                 (''mandatory_provider_replay'', Bool (pa_tool_calls assistant \<noteq> [])),
                 (''retention_policy'', JString ''job_local_provider_protocol_evidence''),
                 (''default_export_contains_raw_reasoning'', Bool False),
                 (''task_portfolio_contains_raw_reasoning'', Bool False),
                 (''long_term_memory_promotion_allowed'', Bool False)]))) (\<lambda>_.
            io_return (Some reasoning_ref))))"

definition request_event :: "string \<Rightarrow> string \<Rightarrow> string \<Rightarrow> string \<Rightarrow> string \<Rightarrow> string \<Rightarrow> provider_tool_call \<Rightarrow> json" where
  "request_event provider protocol transcript_id model_call_id assistant_message_ref messages_ref tool_call =
     jobj (transcript_fields provider protocol transcript_id @
       [(''model_call_id'', JString model_call_id), (''provider_tool_call_id'', JString (tc_id tool_call)),
        (''provider_tool_name'', jopt (get_str (tc_function tool_call) ''name'')),
        (''assistant_message_ref'', JString assistant_message_ref), (''messages_ref'', JString messages_ref)])"

fun append_all :: "string \<Rightarrow> string \<Rightarrow> string \<Rightarrow> json list \<Rightarrow> (world, unit) io" where
  "append_all job pid ty [] = io_return ()"
| "append_all job pid ty (d # ds) = io_bind (append_event job (Some pid) ty d) (\<lambda>_. append_all job pid ty ds)"

definition old_state :: "(provider_transcript_state \<Rightarrow> 'a list) \<Rightarrow> provider_transcript_state option \<Rightarrow> 'a list" where
  "old_state f previous = (case previous of None \<Rightarrow> [] | Some st \<Rightarrow> f st)"

definition record_provider_assistant_response ::
  "json_codec \<Rightarrow> string \<Rightarrow> string \<Rightarrow> string \<Rightarrow> string \<Rightarrow> string \<Rightarrow> model_provider_response \<Rightarrow> bool \<Rightarrow>
   (world, provider_transcript_record option) io" where
  "record_provider_assistant_response cd job pid provider protocol model_call_id response store_reasoning_content =
     (case response_message response of
        None \<Rightarrow> io_return None
      | Some assistant \<Rightarrow>
       (let transcript_id = transcript_id_for job provider in
        io_bind (replay_provider_transcript_state job provider protocol) (\<lambda>previous.
        io_bind (create_if_missing job pid provider protocol transcript_id previous) (\<lambda>_.
        io_bind (read_messages_from_state cd job previous) (\<lambda>old_messages.
        let message_index = length old_messages in
        io_bind (record_reasoning job pid provider protocol transcript_id model_call_id assistant
          store_reasoning_content message_index) (\<lambda>reasoning_content_ref.
        io_bind (write_blob job (transcript_dir transcript_id @ ''assistant_'' @ dec message_index @ ''.json'')
          (to_pretty cd (message_json (assistant_transcript_message assistant)))) (\<lambda>assistant_message_ref.
        io_bind (store_messages cd job pid provider protocol transcript_id
          (old_messages @ [assistant_transcript_message assistant])) (\<lambda>(messages, messages_ref, compacted).
        let reasoning_refs = old_state pt_reasoning_content_refs previous @
              (case reasoning_content_ref of None \<Rightarrow> [] | Some r \<Rightarrow> [r]);
            pending_count = length (old_state pt_pending_tool_calls previous) + length (pa_tool_calls assistant)
        in
        io_bind (write_summary cd job ''summary.json'' provider protocol transcript_id messages_ref messages
          (Some assistant_message_ref) pending_count reasoning_refs 1000000 compacted) (\<lambda>summary_ref.
        io_bind (append_event job (Some pid) ''provider_transcript_appended''
          (jobj (transcript_fields provider protocol transcript_id @
            [(''model_call_id'', JString model_call_id), (''messages_ref'', JString messages_ref),
             (''summary_ref'', JString summary_ref),
             (''latest_assistant_message_ref'', JString assistant_message_ref),
             (''reasoning_content_ref'', jopt reasoning_content_ref),
             (''message_index'', jnat message_index), (''message_count'', jnat (length messages)),
             (''pending_tool_call_count'', jnat pending_count), (''compacted'', Bool compacted)]))) (\<lambda>_.
        io_bind (append_event job (Some pid) ''provider_assistant_message_recorded''
          (jobj (transcript_fields provider protocol transcript_id @
            [(''model_call_id'', JString model_call_id), (''assistant_message_ref'', JString assistant_message_ref),
             (''messages_ref'', JString messages_ref), (''reasoning_content_ref'', jopt reasoning_content_ref),
             (''tool_call_count'', jnat (length (pa_tool_calls assistant))),
             (''message_index'', jnat message_index)]))) (\<lambda>_.
        io_bind (append_all job pid ''provider_tool_call_requested''
          (map (request_event provider protocol transcript_id model_call_id assistant_message_ref messages_ref)
            (pa_tool_calls assistant))) (\<lambda>_.
        io_return (Some \<lparr>pr_transcript_id = transcript_id, pr_messages_ref = messages_ref,
          pr_summary_ref = summary_ref, pr_assistant_message_ref = Some assistant_message_ref,
          pr_reasoning_content_ref = reasoning_content_ref, pr_message_index = message_index\<rparr>)))))))))))))"

record provider_tool_result_metadata =
  rm_provider_tool_call_index :: "nat option"
  rm_provider_tool_batch_id :: "string option"

record provider_tool_result_record =
  tr_transcript_id :: string
  tr_messages_ref :: string
  tr_summary_ref :: string
  tr_tool_message_ref :: string
  tr_provider_tool_call_id :: string
  tr_provider_tool_call_index :: "nat option"
  tr_provider_tool_batch_id :: "string option"
  tr_message_index :: nat

definition provider_tool_result_content :: "json_codec \<Rightarrow> json \<Rightarrow> string" where
  "provider_tool_result_content cd tool_result =
     (case tool_result of JString text \<Rightarrow> text | _ \<Rightarrow> to_string cd tool_result)"

definition tool_transcript_message :: "json_codec \<Rightarrow> string \<Rightarrow> json \<Rightarrow> transcript_message" where
  "tool_transcript_message cd provider_tool_call_id tool_result =
     \<lparr>tm_role = ''tool'', tm_content = Some (provider_tool_result_content cd tool_result),
      tm_reasoning_content = None, tm_tool_calls = [], tm_tool_call_id = Some provider_tool_call_id\<rparr>"

text \<open>\<open>iter_mut().find(...)\<close>: the first item is updated in place, \<open>None\<close> when there is none.\<close>

fun update_first :: "('a \<Rightarrow> bool) \<Rightarrow> ('a \<Rightarrow> 'a) \<Rightarrow> 'a list \<Rightarrow> 'a list option" where
  "update_first P f [] = None"
| "update_first P f (x # xs) = (if P x then Some (f x # xs) else map_option ((#) x) (update_first P f xs))"

definition jopt_nat :: "nat option \<Rightarrow> json" where
  "jopt_nat x = (case x of None \<Rightarrow> Null | Some n \<Rightarrow> jnat n)"

definition no_transcript :: io_error where
  "no_transcript = IoError InvalidInput ''provider transcript does not exist for tool result''"

definition not_pending :: io_error where
  "not_pending = IoError InvalidInput ''provider tool result does not match a pending tool call''"

definition record_provider_tool_result_with_metadata ::
  "json_codec \<Rightarrow> string \<Rightarrow> string \<Rightarrow> string \<Rightarrow> string \<Rightarrow> string \<Rightarrow> json \<Rightarrow> provider_tool_result_metadata \<Rightarrow>
   (world, provider_tool_result_record) io" where
  "record_provider_tool_result_with_metadata cd job pid provider protocol call_id tool_result metadata =
     (let transcript_id = transcript_id_for job provider in
      io_bind (replay_provider_transcript_state job provider protocol) (\<lambda>replayed.
      case replayed of None \<Rightarrow> io_fail no_transcript | Some previous \<Rightarrow>
      (if \<not> list_ex (\<lambda>item. ts_provider_tool_call_id item = call_id) (pt_pending_tool_calls previous)
       then io_fail not_pending
       else
        io_bind (read_provider_messages cd job previous) (\<lambda>old_messages.
        let message_index = length old_messages;
            tool_message = tool_transcript_message cd call_id tool_result
        in
        io_bind (write_blob job (transcript_dir transcript_id @ ''tool_'' @ safe_blob_name call_id @ ''.json'')
          (to_pretty cd (message_json tool_message))) (\<lambda>tool_message_ref.
        let pending_tool_calls = unwrap_or [] (update_first (\<lambda>item. ts_provider_tool_call_id item = call_id)
              (\<lambda>item. item\<lparr>ts_status := ''completed'', ts_tool_result_ref := Some tool_message_ref\<rparr>)
              (pt_pending_tool_calls previous))
        in
        io_bind (store_messages cd job pid provider protocol transcript_id (old_messages @ [tool_message]))
          (\<lambda>(messages, messages_ref, compacted).
        let active = filter (\<lambda>item. ts_status item \<noteq> ''completed'') pending_tool_calls
        in
        io_bind (write_summary cd job ''summary.json'' provider protocol transcript_id messages_ref messages
          (pt_latest_assistant_message_ref previous) (length active) (pt_reasoning_content_refs previous)
          1000000 compacted) (\<lambda>summary_ref.
        io_bind (append_event job (Some pid) ''provider_tool_result_recorded''
          (jobj (transcript_fields provider protocol transcript_id @
            [(''provider_tool_call_id'', JString call_id),
             (''provider_tool_call_index'', jopt_nat (rm_provider_tool_call_index metadata)),
             (''provider_tool_batch_id'', jopt (rm_provider_tool_batch_id metadata)),
             (''tool_result_ref'', JString tool_message_ref), (''messages_ref'', JString messages_ref),
             (''summary_ref'', JString summary_ref), (''message_index'', jnat message_index)]))) (\<lambda>_.
        io_bind (append_event job (Some pid) ''provider_transcript_appended''
          (jobj (transcript_fields provider protocol transcript_id @
            [(''append_kind'', JString ''tool_result''), (''messages_ref'', JString messages_ref),
             (''summary_ref'', JString summary_ref),
             (''latest_assistant_message_ref'', jopt (pt_latest_assistant_message_ref previous)),
             (''latest_tool_message_ref'', JString tool_message_ref),
             (''provider_tool_call_id'', JString call_id),
             (''provider_tool_call_index'', jopt_nat (rm_provider_tool_call_index metadata)),
             (''provider_tool_batch_id'', jopt (rm_provider_tool_batch_id metadata)),
             (''message_index'', jnat message_index), (''message_count'', jnat (length messages)),
             (''pending_tool_call_count'', jnat (length active)), (''compacted'', Bool compacted)]))) (\<lambda>_.
        io_return \<lparr>tr_transcript_id = transcript_id, tr_messages_ref = messages_ref, tr_summary_ref = summary_ref,
          tr_tool_message_ref = tool_message_ref, tr_provider_tool_call_id = call_id,
          tr_provider_tool_call_index = rm_provider_tool_call_index metadata,
          tr_provider_tool_batch_id = rm_provider_tool_batch_id metadata,
          tr_message_index = message_index\<rparr>)))))))))"

definition record_provider_tool_result ::
  "json_codec \<Rightarrow> string \<Rightarrow> string \<Rightarrow> string \<Rightarrow> string \<Rightarrow> string \<Rightarrow> json \<Rightarrow> (world, provider_tool_result_record) io" where
  "record_provider_tool_result cd job pid provider protocol call_id tool_result =
     record_provider_tool_result_with_metadata cd job pid provider protocol call_id tool_result
       \<lparr>rm_provider_tool_call_index = None, rm_provider_tool_batch_id = None\<rparr>"

record provider_user_message_record =
  ur_transcript_id :: string
  ur_messages_ref :: string
  ur_summary_ref :: string
  ur_user_message_ref :: string
  ur_message_index :: nat

text \<open>A user message with the given text.\<close>

definition user_transcript_message :: "string \<Rightarrow> transcript_message" where
  "user_transcript_message content =
     \<lparr>tm_role = ''user'', tm_content = Some content, tm_reasoning_content = None, tm_tool_calls = [],
      tm_tool_call_id = None\<rparr>"

definition record_provider_user_message ::
  "json_codec \<Rightarrow> string \<Rightarrow> string \<Rightarrow> string \<Rightarrow> string \<Rightarrow> string \<Rightarrow> string \<Rightarrow> (world, provider_user_message_record) io" where
  "record_provider_user_message cd job pid provider protocol model_call_id content =
     (let transcript_id = transcript_id_for job provider in
      io_bind (replay_provider_transcript_state job provider protocol) (\<lambda>previous.
      io_bind (create_if_missing job pid provider protocol transcript_id previous) (\<lambda>_.
      io_bind (read_messages_from_state cd job previous) (\<lambda>old_messages.
      let message_index = length old_messages in
      io_bind (write_blob job (transcript_dir transcript_id @ ''user_'' @ dec message_index @ ''.json'')
        (to_pretty cd (message_json (user_transcript_message content)))) (\<lambda>user_message_ref.
      io_bind (store_messages cd job pid provider protocol transcript_id (old_messages @ [user_transcript_message content]))
        (\<lambda>(messages, messages_ref, compacted).
      let latest = Option.bind previous pt_latest_assistant_message_ref;
          pending_count = length (old_state pt_pending_tool_calls previous)
      in
      io_bind (write_summary cd job ''summary.json'' provider protocol transcript_id messages_ref messages latest
        pending_count (old_state pt_reasoning_content_refs previous) 1000000 compacted) (\<lambda>summary_ref.
      io_bind (append_event job (Some pid) ''provider_user_message_recorded''
        (jobj (transcript_fields provider protocol transcript_id @
          [(''model_call_id'', JString model_call_id), (''user_message_ref'', JString user_message_ref),
           (''messages_ref'', JString messages_ref), (''summary_ref'', JString summary_ref),
           (''message_index'', jnat message_index)]))) (\<lambda>_.
      io_bind (append_event job (Some pid) ''provider_transcript_appended''
        (jobj (transcript_fields provider protocol transcript_id @
          [(''append_kind'', JString ''user_message''), (''model_call_id'', JString model_call_id),
           (''messages_ref'', JString messages_ref), (''summary_ref'', JString summary_ref),
           (''latest_assistant_message_ref'', jopt latest),
           (''latest_user_message_ref'', JString user_message_ref),
           (''message_index'', jnat message_index), (''message_count'', jnat (length messages)),
           (''pending_tool_call_count'', jnat pending_count), (''compacted'', Bool compacted)]))) (\<lambda>_.
      io_return \<lparr>ur_transcript_id = transcript_id, ur_messages_ref = messages_ref, ur_summary_ref = summary_ref,
        ur_user_message_ref = user_message_ref, ur_message_index = message_index\<rparr>)))))))))"

record provider_user_control_message_record =
  uc_transcript_id :: string
  uc_messages_ref :: string
  uc_summary_ref :: string
  uc_control_message_ref :: string
  uc_message_index :: nat

definition record_provider_user_control_message ::
  "json_codec \<Rightarrow> string \<Rightarrow> string \<Rightarrow> string \<Rightarrow> string \<Rightarrow> string \<Rightarrow> json \<Rightarrow>
   (world, provider_user_control_message_record option) io" where
  "record_provider_user_control_message cd job pid provider protocol control_kind control_message =
     (let transcript_id = transcript_id_for job provider;
          content = provider_tool_result_content cd control_message in
      io_bind (replay_provider_transcript_state job provider protocol) (\<lambda>replayed.
      case replayed of None \<Rightarrow> io_return None | Some previous \<Rightarrow>
      io_bind (read_provider_messages cd job previous) (\<lambda>old_messages.
      let message_index = length old_messages in
      io_bind (write_blob job (transcript_dir transcript_id @ ''user_control_'' @ dec message_index @ ''.json'')
        (to_pretty cd (message_json (user_transcript_message content)))) (\<lambda>control_message_ref.
      io_bind (store_messages cd job pid provider protocol transcript_id (old_messages @ [user_transcript_message content]))
        (\<lambda>(messages, messages_ref, compacted).
      let pending_count = length (pt_pending_tool_calls previous) in
      io_bind (write_summary cd job ''summary.json'' provider protocol transcript_id messages_ref messages
        (pt_latest_assistant_message_ref previous) pending_count (pt_reasoning_content_refs previous) 1000000 compacted)
        (\<lambda>summary_ref.
      io_bind (append_event job (Some pid) ''provider_user_control_message_recorded''
        (jobj (transcript_fields provider protocol transcript_id @
          [(''control_kind'', JString control_kind), (''control_message_ref'', JString control_message_ref),
           (''messages_ref'', JString messages_ref), (''summary_ref'', JString summary_ref),
           (''preview_id'', jopt (get_str control_message ''preview_id'')),
           (''approval_token_id'', jopt (get_str control_message ''approval_token_id'')),
           (''message_index'', jnat message_index)]))) (\<lambda>_.
      io_bind (append_event job (Some pid) ''provider_transcript_appended''
        (jobj (transcript_fields provider protocol transcript_id @
          [(''append_kind'', JString ''user_control''), (''control_kind'', JString control_kind),
           (''messages_ref'', JString messages_ref), (''summary_ref'', JString summary_ref),
           (''latest_assistant_message_ref'', jopt (pt_latest_assistant_message_ref previous)),
           (''latest_user_control_message_ref'', JString control_message_ref),
           (''message_index'', jnat message_index), (''message_count'', jnat (length messages)),
           (''pending_tool_call_count'', jnat pending_count), (''compacted'', Bool compacted)]))) (\<lambda>_.
      io_return (Some \<lparr>uc_transcript_id = transcript_id, uc_messages_ref = messages_ref,
        uc_summary_ref = summary_ref, uc_control_message_ref = control_message_ref,
        uc_message_index = message_index\<rparr>)))))))))"

section \<open>Replacing the visible transcript\<close>

record provider_transcript_replacement_record =
  pp_transcript_id :: string
  pp_old_transcript_ref :: string
  pp_new_transcript_ref :: string
  pp_summary_ref :: string
  pp_live_suffix_ref :: string
  pp_compacted_until_message_index :: nat
  pp_message_count :: nat
  pp_pending_tool_call_count :: nat

definition replacement_rejected :: "string list \<Rightarrow> io_error" where
  "replacement_rejected errors =
     IoError InvalidData (''provider transcript replacement rejected before commit: '' @ join ''; '' errors)"

definition replacement_refused :: "string \<Rightarrow> string \<Rightarrow> transcript_message list \<Rightarrow> bool" where
  "replacement_refused provider protocol messages \<longleftrightarrow>
     provider = ''deepseek'' \<and> protocol = ''deepseek_chat_completions'' \<and>
     \<not> vr_valid (validate_deepseek_native_messages messages)"

definition replace_provider_visible_transcript_with_summary ::
  "json_codec \<Rightarrow> string \<Rightarrow> string \<Rightarrow> string \<Rightarrow> string \<Rightarrow> string \<Rightarrow> nat \<Rightarrow> string \<Rightarrow>
   (world, provider_transcript_replacement_record option) io" where
  "replace_provider_visible_transcript_with_summary cd job pid provider protocol summary_text
     min_live_suffix_turns compaction_reason =
     (let transcript_id = transcript_id_for job provider in
      io_bind (replay_provider_transcript_state job provider protocol) (\<lambda>replayed.
      case replayed of None \<Rightarrow> io_return None | Some previous \<Rightarrow>
      io_bind (read_provider_messages cd job previous) (\<lambda>messages.
      if messages = [] then io_return None
      else
       (let live_suffix_start = live_suffix_start_index messages (pt_pending_tool_calls previous) min_live_suffix_turns;
            live_suffix = drop live_suffix_start messages;
            replacement = summary_message summary_text # live_suffix;
            pending_count = length (pt_pending_tool_calls previous)
        in if replacement_refused provider protocol replacement
           then io_fail (replacement_rejected (vr_errors (validate_deepseek_native_messages replacement)))
           else
            io_bind now_ms (\<lambda>stamp.
            io_bind (write_blob job (transcript_dir transcript_id @ ''live_suffix_'' @ dec stamp @ ''.json'')
              (to_pretty cd (messages_json live_suffix))) (\<lambda>live_suffix_ref.
            io_bind (write_blob job (transcript_dir transcript_id @ ''messages_compacted_'' @ dec stamp @ ''.json'')
              (to_pretty cd (messages_json replacement))) (\<lambda>messages_ref.
            io_bind (write_summary cd job (''summary_compacted_'' @ dec stamp @ ''.json'') provider protocol transcript_id
              messages_ref replacement (pt_latest_assistant_message_ref previous) pending_count
              (pt_reasoning_content_refs previous) (te_total_context_limit (pt_token_estimate previous)) True)
              (\<lambda>summary_ref.
            io_bind (append_event job (Some pid) ''provider_transcript_compacted''
              (jobj (transcript_fields provider protocol transcript_id @
                [(''old_transcript_ref'', JString (pt_messages_ref previous)),
                 (''messages_ref'', JString messages_ref), (''summary_ref'', JString summary_ref),
                 (''live_suffix_ref'', JString live_suffix_ref),
                 (''compacted_until_message_index'', jnat (live_suffix_start - 1)),
                 (''message_count'', jnat (length replacement)),
                 (''pending_tool_call_count'', jnat pending_count),
                 (''compaction_policy'', JString ''context_window_summary_live_suffix''),
                 (''compaction_reason'', JString compaction_reason)]))) (\<lambda>_.
            io_return (Some \<lparr>pp_transcript_id = transcript_id, pp_old_transcript_ref = pt_messages_ref previous,
              pp_new_transcript_ref = messages_ref, pp_summary_ref = summary_ref,
              pp_live_suffix_ref = live_suffix_ref,
              pp_compacted_until_message_index = live_suffix_start - 1,
              pp_message_count = length replacement, pp_pending_tool_call_count = pending_count\<rparr>))))))))))"

end
