(* ===== verification/Transcript_Laws.thy ===== *)
theory Transcript_Laws
  imports Provider_Transcript Truth_Claims
begin

text \<open>
  What the recording functions of a provider transcript leave behind: their effect on the log of the
  job and on its files, and the invariant that ties the stored messages to the calls the log replays
  as pending.
\<close>

section \<open>The log and the files a job sees\<close>

definition job_view :: "string \<Rightarrow> world \<Rightarrow> (string \<times> json) list \<times> (path \<Rightarrow> string option)" where
  "job_view job w = (map (\<lambda>e. (event_type e, data e)) (log_of w job), w_files w)"

definition blob_path :: "string \<Rightarrow> string \<Rightarrow> path" where
  "blob_path job name = blob_root job @ normals (unix_components name)"

definition blob_ref :: "string \<Rightarrow> string \<Rightarrow> string" where
  "blob_ref job name = ''blob://'' @ job @ ''/'' @ fwd_slashes name"

lemma append_event_view:
  "append_event job pid ty d w = (Inr e, w') \<Longrightarrow> job_view job w' = (fst (job_view job w) @ [(ty, d)], w_files w)"
  using truth.add_ok append_event_frame(5) by (fastforce simp: job_view_def)

lemma write_blob_view:
  "write_blob job name c w = (Inr r, w') \<Longrightarrow>
     r = blob_ref job name \<and> job_view job w' = (fst (job_view job w), (w_files w)(blob_path job name \<mapsto> c))"
  using write_blob_result [of job name c w r w'] by (simp add: job_view_def blob_ref_def blob_path_def)

lemma read_events_view:
  "read_events job w = (Inr es, w') \<Longrightarrow> es = log_of w job \<and> job_view job w' = job_view job w"
  using read_events_result [of job w es w']
  by (auto simp: job_view_def read_events_def io_bind_def sys_op_def io_get_def io_return_def Let_def
      split: if_splits prod.splits sum.splits)

lemma now_ms_view: "now_ms w = (Inr t, w') \<Longrightarrow> job_view job w' = job_view job w"
  by (auto simp: now_ms_def job_view_def)

lemma read_file_view:
  "read_file p w = (Inr s, w') \<Longrightarrow> w_files w p = Some s \<and> job_view job w' = job_view job w"
  unfolding read_file_def
  by (elim io_bindE) (auto simp: io_get_apply io_return_apply io_fail_apply job_view_def
      dest!: sys_op_success split: option.splits)

lemma job_view_files [simp]: "snd (job_view job w) = w_files w"
  by (simp add: job_view_def)

section \<open>The replay from the view\<close>

definition view_event :: "string \<Rightarrow> string \<Rightarrow> string \<Rightarrow> string option \<times> tool_call_state list \<Rightarrow> string \<times> json \<Rightarrow>
    string option \<times> tool_call_state list" where
  "view_event provider protocol transcript_id s e =
     (case (s, e) of ((r, pend), (ty, d)) \<Rightarrow>
       if \<not> (get_str d ''provider'' = Some provider \<and> get_str d ''protocol'' = Some protocol \<and>
             get_str d ''transcript_id'' = Some transcript_id) then (r, pend)
       else if ty = ''provider_transcript_appended'' \<or> ty = ''provider_transcript_compacted''
       then (or_else (get_str d ''messages_ref'') r, pend)
       else if ty = ''provider_tool_call_requested''
       then (r, pend @ (case requested_call d of None \<Rightarrow> [] | Some item \<Rightarrow> [item]))
       else if ty = ''provider_tool_result_recorded'' then (r, map (complete_call d) pend)
       else (r, pend))"

definition view_replay :: "string \<Rightarrow> string \<Rightarrow> string \<Rightarrow> (string \<times> json) list \<Rightarrow> string option \<times> tool_call_state list" where
  "view_replay provider protocol transcript_id es = foldl (view_event provider protocol transcript_id) (None, []) es"

lemma view_replay_append:
  "view_replay p q t (es @ fs) = foldl (view_event p q t) (view_replay p q t es) fs"
  by (simp add: view_replay_def)

lemma replay_view:
  "(rt_messages_ref (replay_transcript p q t es), rt_pending_tool_calls (replay_transcript p q t es)) =
     view_replay p q t (map (\<lambda>e. (event_type e, data e)) es)"
proof (induction es rule: rev_induct)
  case Nil
  then show ?case by (simp add: replay_transcript_def view_replay_def replay_start_def)
next
  case (snoc e es)
  let ?s = "replay_transcript p q t es"
  have "replay_transcript p q t (es @ [e]) =
      (if transcript_event p q t e then replay_transcript_event ?s e else ?s)"
    by (simp add: replay_transcript_def)
  moreover have "view_replay p q t (map (\<lambda>e. (event_type e, data e)) (es @ [e])) =
      view_event p q t (rt_messages_ref ?s, rt_pending_tool_calls ?s) (event_type e, data e)"
    by (simp add: view_replay_append snoc)
  ultimately show ?case
    by (auto simp: view_event_def transcript_event_def replay_transcript_event_def split: option.split)
qed

text \<open>The state every recording function starts from.\<close>

definition replayed_state :: "string \<Rightarrow> string \<Rightarrow> string \<Rightarrow> world \<Rightarrow> provider_transcript_state option" where
  "replayed_state job provider protocol w =
     replay_provider_transcript_state_from_events provider protocol (transcript_id_for job provider) (log_of w job)"

definition transcript_replay_of :: "string \<Rightarrow> string \<Rightarrow> string \<Rightarrow> world \<Rightarrow> string option \<times> tool_call_state list" where
  "transcript_replay_of job provider protocol w =
     view_replay provider protocol (transcript_id_for job provider) (fst (job_view job w))"

definition active_calls :: "tool_call_state list \<Rightarrow> tool_call_state list" where
  "active_calls items = filter (\<lambda>item. ts_status item \<noteq> ''completed'') items"

lemma replayed_state_None: "replayed_state job p q w = None \<longleftrightarrow> fst (transcript_replay_of job p q w) = None"
  using replay_view [of p q "transcript_id_for job p" "log_of w job"]
  by (auto simp: replayed_state_def replay_provider_transcript_state_from_events_def Let_def
      transcript_replay_of_def job_view_def prod_eq_iff)

lemma replayed_state_Some:
  assumes "replayed_state job p q w = Some st"
  shows "fst (transcript_replay_of job p q w) = Some (pt_messages_ref st)"
    "pt_pending_tool_calls st = active_calls (snd (transcript_replay_of job p q w))"
  using assms replay_view [of p q "transcript_id_for job p" "log_of w job"]
  by (auto simp: replayed_state_def replay_provider_transcript_state_from_events_def Let_def
      transcript_replay_of_def job_view_def prod_eq_iff active_calls_def)

lemma replay_state_view:
  "replay_provider_transcript_state job p q w = (Inr previous, w') \<Longrightarrow>
     previous = replayed_state job p q w \<and> job_view job w' = job_view job w"
  unfolding replay_provider_transcript_state_def replayed_state_def
  by (elim io_bindE) (auto simp: io_return_apply dest!: read_events_view)

section \<open>The visible messages\<close>

definition visible_messages :: "json_codec \<Rightarrow> string \<Rightarrow> string \<Rightarrow> string \<Rightarrow> world \<Rightarrow> transcript_message list option" where
  "visible_messages cd job provider protocol w =
     (case fst (transcript_replay_of job provider protocol w) of
        None \<Rightarrow> Some []
      | Some r \<Rightarrow>
         (case resolve_blob_ref job r of
            Inl _ \<Rightarrow> None
          | Inr p \<Rightarrow>
             (case w_files w p of
                None \<Rightarrow> None
              | Some bytes \<Rightarrow> (case parse_messages cd bytes of Inl _ \<Rightarrow> None | Inr ms \<Rightarrow> Some ms))))"

lemma read_provider_messages_view:
  assumes "read_provider_messages cd job st w = (Inr ms, w')" and "replayed_state job p q w0 = Some st"
    and "w_files w = w_files w0"
  shows "visible_messages cd job p q w0 = Some ms \<and> job_view job w' = job_view job w"
  using assms(1) unfolding read_provider_messages_def
proof (elim io_bindE, goal_cases)
  case (1 path w1 bytes w2)
  from 1(1) have path: "resolve_blob_ref job (pt_messages_ref st) = Inr path" "w1 = w" by (auto simp: io_lift_apply)
  from 1(3) have parse: "parse_messages cd bytes = Inr ms" "w' = w2" by (auto simp: io_lift_apply)
  from read_file_view [OF 1(2), of job] path have written: "w_files w path = Some bytes" "job_view job w2 = job_view job w"
    by auto
  with assms(3) path parse replayed_state_Some(1) [OF assms(2)] show ?case by (simp add: visible_messages_def)
qed

lemma read_messages_view:
  assumes "read_messages_from_state cd job (replayed_state job p q w0) w = (Inr ms, w')"
    and "w_files w = w_files w0"
  shows "visible_messages cd job p q w0 = Some ms \<and> job_view job w' = job_view job w"
proof (cases "replayed_state job p q w0")
  case None
  with assms(1) replayed_state_None [of job p q w0] show ?thesis
    by (simp add: read_messages_from_state_def io_return_apply visible_messages_def)
next
  case (Some st)
  with assms show ?thesis
    by (intro read_provider_messages_view [OF _ Some]) (simp_all add: read_messages_from_state_def)
qed

section \<open>Effects of the steps\<close>

lemma append_event_replay:
  "append_event job pid ty d w = (Inr e, w') \<Longrightarrow>
     transcript_replay_of job p q w' = view_event p q (transcript_id_for job p) (transcript_replay_of job p q w) (ty, d) \<and>
     w_files w' = w_files w"
  using append_event_view [of job pid ty d w e w'] append_event_frame(5) [of job pid ty d w "Inr e" w']
  by (simp add: transcript_replay_of_def view_replay_append)

lemma write_blob_replay:
  "write_blob job name c w = (Inr r, w') \<Longrightarrow>
     r = blob_ref job name \<and> transcript_replay_of job p q w' = transcript_replay_of job p q w \<and>
     w_files w' = (w_files w)(blob_path job name \<mapsto> c)"
  using write_blob_view [of job name c w r w'] write_blob_result(2) [of job name c w r w']
  by (simp add: transcript_replay_of_def blob_path_def)

lemma same_view:
  "job_view job w' = job_view job w \<Longrightarrow>
     transcript_replay_of job p q w' = transcript_replay_of job p q w \<and> w_files w' = w_files w"
  by (metis transcript_replay_of_def job_view_files)

text \<open>An event of the transcript itself.\<close>

lemma view_event_own:
  "view_event p q t (r, pend) (ty, jobj (transcript_fields p q t @ kvs)) =
     (if {''provider'', ''protocol'', ''transcript_id''} \<inter> fst ` set kvs = {} then
        (if ty = ''provider_transcript_appended'' \<or> ty = ''provider_transcript_compacted''
         then (or_else (Option.bind (map_of (rev kvs) ''messages_ref'') as_str) r, pend)
         else if ty = ''provider_tool_call_requested''
         then (r, pend @ (case requested_call (jobj (transcript_fields p q t @ kvs)) of None \<Rightarrow> [] | Some item \<Rightarrow> [item]))
         else if ty = ''provider_tool_result_recorded''
         then (r, map (complete_call (jobj (transcript_fields p q t @ kvs))) pend)
         else (r, pend))
      else view_event p q t (r, pend) (ty, jobj (transcript_fields p q t @ kvs)))"
proof -
  have m: "map_of (rev (transcript_fields p q t @ kvs)) k = map_of (rev (transcript_fields p q t)) k"
    if "k \<notin> fst ` set kvs" for k
  proof -
    from that have "map_of (rev kvs) k = None" by (simp add: map_of_eq_None_iff image_iff)
    then show ?thesis by (simp add: map_add_def)
  qed
  have k: "map_of (rev (transcript_fields p q t)) ''provider'' = Some (JString p)"
    "map_of (rev (transcript_fields p q t)) ''protocol'' = Some (JString q)"
    "map_of (rev (transcript_fields p q t)) ''transcript_id'' = Some (JString t)"
    "map_of (rev (transcript_fields p q t)) ''messages_ref'' = None"
    by (simp_all add: transcript_fields_def)
  have r: "map_of (rev (transcript_fields p q t @ kvs)) ''messages_ref'' = map_of (rev kvs) ''messages_ref''"
    using k(4) by (simp add: map_add_def split: option.split)
  show ?thesis
    using m [of "''provider''"] m [of "''protocol''"] m [of "''transcript_id''"] k r
    by (simp add: view_event_def del: rev_append)
qed

text \<open>The messages as they are stored.\<close>

definition stored_form :: "json_codec \<Rightarrow> transcript_message list \<Rightarrow> transcript_message list" where
  "stored_form cd pushed = (if over_threshold cd pushed then compact_non_mandatory_reasoning pushed else pushed)"

abbreviation messages_file :: "string \<Rightarrow> string" where
  "messages_file t \<equiv> transcript_dir t @ ''messages.json''"

lemma io_unit: "io_bind m (\<lambda>_. io_return ()) w = (Inr u, w') \<Longrightarrow> \<exists>x. m w = (Inr x, w')"
  by (elim io_bindE) (auto simp: io_return_apply)

lemma store_messages_effect:
  assumes "store_messages cd job pid p q (transcript_id_for job p) pushed w = (Inr (ms, r, c), w')"
  shows "ms = stored_form cd pushed \<and> r = blob_ref job (messages_file (transcript_id_for job p)) \<and>
     c = over_threshold cd pushed \<and>
     transcript_replay_of job p q w' =
       (if c then Some r else fst (transcript_replay_of job p q w), snd (transcript_replay_of job p q w)) \<and>
     w_files w' = (w_files w)(blob_path job (messages_file (transcript_id_for job p)) \<mapsto> to_pretty cd (messages_json ms))"
proof -
  obtain r0 pend where v: "transcript_replay_of job p q w = (r0, pend)" by (cases "transcript_replay_of job p q w") auto
  have f: "stored_form cd pushed = (if over_threshold cd pushed then compact_non_mandatory_reasoning pushed else pushed)"
    by (simp add: stored_form_def)
  show ?thesis
    using assms unfolding store_messages_def Let_def f [symmetric]
  proof (elim io_bindE, goal_cases)
    case (1 r1 w1 u w2)
    note b = write_blob_replay [OF 1(1), of p q]
    from 1(3) have eq: "ms = stored_form cd pushed" "r = r1" "c = over_threshold cd pushed" "w' = w2"
      by (auto simp: io_return_apply)
    show ?case
    proof (cases c)
      case True
      with 1(2) eq obtain e where "append_event job (Some pid) ''provider_transcript_compacted''
          (jobj (transcript_fields p q (transcript_id_for job p) @ [(''messages_ref'', JString r),
            (''compaction_policy'', JString ''drop_non_tool_call_reasoning_content''),
            (''message_count'', jnat (length ms))])) w1 = (Inr e, w')"
        by (auto dest!: io_unit)
      from append_event_replay [OF this, of p q] b v eq True show ?thesis
        by (simp add: view_event_own)
    next
      case False
      with 1(2) eq b v show ?thesis by (auto simp: io_return_apply)
    qed
  qed
qed

lemma write_summary_effect:
  "write_summary cd job name p q t mref ms latest n refs lim c w = (Inr s, w') \<Longrightarrow>
     transcript_replay_of job p q w' = transcript_replay_of job p q w \<and>
     (\<forall>path. path \<noteq> blob_path job (transcript_dir t @ name) \<longrightarrow> w_files w' path = w_files w path)"
  unfolding write_summary_def Let_def
proof (elim io_bindE, goal_cases)
  case (1 ts w1)
  from same_view [OF now_ms_view [OF 1(1)], where job=job and p=p and q=q] write_blob_replay [OF 1(2), of p q] show ?case by auto
qed

lemma create_if_missing_effect:
  assumes "create_if_missing job pid p q (transcript_id_for job p) previous w = (Inr u, w')"
  shows "transcript_replay_of job p q w' = transcript_replay_of job p q w \<and> w_files w' = w_files w"
proof (cases "previous = None")
  case True
  obtain r0 pend where v: "transcript_replay_of job p q w = (r0, pend)" by (cases "transcript_replay_of job p q w") auto
  from True assms obtain e where a: "append_event job (Some pid) ''provider_transcript_created''
      (jobj (transcript_fields p q (transcript_id_for job p))) w = (Inr e, w')"
    by (auto simp: create_if_missing_def dest!: io_unit)
  from append_event_replay [OF a, of p q] view_event_own [of p q "transcript_id_for job p" r0 pend _ "[]"] v
  show ?thesis by simp
next
  case False
  with assms show ?thesis by (simp add: create_if_missing_def io_return_apply)
qed

section \<open>Blob names\<close>

lemma safe_blob_name_plain: "c \<in> set (safe_blob_name s) \<Longrightarrow> c \<noteq> CHR ''/'' \<and> c \<noteq> CHR 0x5C"
  by (auto simp: safe_blob_name_def safe_char_def is_ascii_alphanumeric_def Let_def)

lemma safe_transcript_id: "safe_blob_name (transcript_id_for job p) = CHR ''p'' # CHR ''t'' # CHR ''r'' # CHR ''_'' # safe_blob_name (safe_blob_name job @ ''_'' @ safe_blob_name p)"
  by (simp add: transcript_id_for_def safe_blob_name_def fwd_slashes_def slash_char_def safe_char_def
      is_continuation_def is_ascii_alphanumeric_def)

definition transcript_names :: "string \<Rightarrow> string \<Rightarrow> string \<Rightarrow> string list" where
  "transcript_names job p name = [''provider_transcripts'', safe_blob_name (transcript_id_for job p), name]"

lemma transcript_names_join: "transcript_dir (transcript_id_for job p) @ name = join ''/'' (transcript_names job p name)"
  by (simp add: transcript_dir_def transcript_names_def)

lemma transcript_names_plain:
  assumes "plain_name name" and "CHR 0x5C \<notin> set name"
  shows "\<forall>n \<in> set (transcript_names job p name). plain_name n \<and> CHR 0x5C \<notin> set n"
  using assms safe_blob_name_plain [of _ "transcript_id_for job p"]
  by (auto simp: transcript_names_def plain_name_def safe_transcript_id)

lemma transcript_blob_path:
  assumes "plain_name name" and "CHR 0x5C \<notin> set name"
  shows "blob_path job (transcript_dir (transcript_id_for job p) @ name) = blob_root job @ transcript_names job p name"
proof -
  have "transcript_names job p name \<noteq> []" by (simp add: transcript_names_def)
  from unix_components_join [OF this] transcript_names_plain [OF assms, of job p]
  have "unix_components (join ''/'' (transcript_names job p name)) = map Normal (transcript_names job p name)" by blast
  then show ?thesis by (simp only: blob_path_def transcript_names_join normals_map)
qed

lemma transcript_blob_ref:
  assumes "plain_name name" and "CHR 0x5C \<notin> set name"
  shows "resolve_blob_ref job (blob_ref job (transcript_dir (transcript_id_for job p) @ name)) =
    Inr (blob_path job (transcript_dir (transcript_id_for job p) @ name))"
proof -
  let ?names = "transcript_names job p name"
  obtain r w' where w: "write_blob job (join ''/'' ?names) [] demo_world = (Inr r, w')"
    using runsE [OF runs_write_blob demo_no_faults] by metis
  have "r = blob_ref job (join ''/'' ?names)" using write_blob_result(1) [OF w] by (simp add: blob_ref_def)
  moreover have "?names \<noteq> []" by (simp add: transcript_names_def)
  ultimately show ?thesis
    using blob_written_found [OF _ transcript_names_plain [OF assms] w]
    by (simp only: transcript_blob_path [OF assms, unfolded transcript_names_join] transcript_names_join) blast
qed

lemma fixed_names_plain:
  "plain_name ''messages.json'' \<and> CHR 0x5C \<notin> set ''messages.json''"
  "plain_name ''summary.json'' \<and> CHR 0x5C \<notin> set ''summary.json''"
  by (simp_all add: plain_name_def)

section \<open>The codec\<close>

text \<open>What is relied on of \<open>serde_json\<close>: a list of messages it has printed parses to the value printed.\<close>

definition codec_reads_back :: "json_codec \<Rightarrow> bool" where
  "codec_reads_back cd \<longleftrightarrow> (\<forall>ms. from_str cd (to_pretty cd (messages_json ms)) = Some (messages_json ms))"

lemma parse_stored: "codec_reads_back cd \<Longrightarrow> parse_messages cd (to_pretty cd (messages_json ms)) = Inr ms"
  by (simp add: codec_reads_back_def parse_messages_def messages_round_trip)

text \<open>After messages were stored under a name and the log points to it, they are the visible ones.\<close>

lemma visible_stored:
  assumes "codec_reads_back cd" and "plain_name name" and "CHR 0x5C \<notin> set name"
    and "fst (transcript_replay_of job p q w) = Some (blob_ref job (transcript_dir (transcript_id_for job p) @ name))"
    and "w_files w (blob_path job (transcript_dir (transcript_id_for job p) @ name)) = Some (to_pretty cd (messages_json ms))"
  shows "visible_messages cd job p q w = Some ms"
  by (simp add: visible_messages_def assms(4,5) transcript_blob_ref [OF assms(2,3)] parse_stored [OF assms(1)])

section \<open>The recording functions\<close>


lemma view_of_events:
  assumes "append_event job pid ty (jobj (transcript_fields p q (transcript_id_for job p) @ kvs)) w = (Inr e, w')"
    and "{''provider'', ''protocol'', ''transcript_id''} \<inter> fst ` set kvs = {}"
    and "ty \<noteq> ''provider_tool_call_requested''" and "ty \<noteq> ''provider_tool_result_recorded''"
    and "ty \<noteq> ''provider_transcript_compacted''"
  shows "transcript_replay_of job p q w' =
      (if ty = ''provider_transcript_appended''
       then or_else (Option.bind (map_of (rev kvs) ''messages_ref'') as_str) (fst (transcript_replay_of job p q w))
       else fst (transcript_replay_of job p q w), snd (transcript_replay_of job p q w))" "w_files w' = w_files w"
  using append_event_replay [OF assms(1), of p q] assms(2-)
    view_event_own [of p q "transcript_id_for job p" "fst (transcript_replay_of job p q w)" "snd (transcript_replay_of job p q w)" ty kvs]
  by simp_all

text \<open>The summary is not the messages.\<close>

lemma summary_elsewhere:
  "blob_path job (transcript_dir (transcript_id_for job p) @ ''summary.json'') \<noteq>
     blob_path job (messages_file (transcript_id_for job p))"
  using transcript_blob_path [of "''summary.json''" job p] transcript_blob_path [of "''messages.json''" job p]
    fixed_names_plain
  by (simp only: simp_thms) (simp add: transcript_names_def)

text \<open>The end of every recording function, and its beginning.\<close>

lemma commit_effect:
  assumes "codec_reads_back cd"
    and "store_messages cd job pid p q (transcript_id_for job p) pushed w4 = (Inr (ms, mref, c), w5)"
    and "write_summary cd job ''summary.json'' p q (transcript_id_for job p) mref ms latest n refs lim c w5 = (Inr s, w6)"
  shows "fst (transcript_replay_of job p q w') = Some mref \<Longrightarrow> w_files w' = w_files w6 \<Longrightarrow>
       visible_messages cd job p q w' = Some (stored_form cd pushed)"
    and "snd (transcript_replay_of job p q w6) = snd (transcript_replay_of job p q w4)"
    and "mref = blob_ref job (messages_file (transcript_id_for job p))"
proof -
  note st = store_messages_effect [OF assms(2)] and su = write_summary_effect [OF assms(3)]
  from st show "mref = blob_ref job (messages_file (transcript_id_for job p))" by simp
  from st su show "snd (transcript_replay_of job p q w6) = snd (transcript_replay_of job p q w4)" by simp
  assume r: "fst (transcript_replay_of job p q w') = Some mref" and f: "w_files w' = w_files w6"
  from st su summary_elsewhere [of job p]
  have "w_files w6 (blob_path job (messages_file (transcript_id_for job p))) = Some (to_pretty cd (messages_json ms))"
    by (metis fun_upd_same)
  with r f st show "visible_messages cd job p q w' = Some (stored_form cd pushed)"
    using visible_stored [OF assms(1), of "''messages.json''" job p q w' ms] fixed_names_plain by simp
qed

lemma open_effect:
  assumes "replay_provider_transcript_state job p q w = (Inr previous, w1)"
    and "create_if_missing job pid p q (transcript_id_for job p) previous w1 = (Inr u, w2)"
    and "read_messages_from_state cd job previous w2 = (Inr old, w3)"
  shows "visible_messages cd job p q w = Some old \<and> transcript_replay_of job p q w3 = transcript_replay_of job p q w"
proof -
  note r = replay_state_view [OF assms(1)] and c = create_if_missing_effect [OF assms(2)]
  from r have s: "transcript_replay_of job p q w1 = transcript_replay_of job p q w \<and> w_files w1 = w_files w"
    by (intro same_view) simp
  with c have "w_files w2 = w_files w" by simp
  with assms(3) r have "visible_messages cd job p q w = Some old \<and> job_view job w3 = job_view job w2"
    by (intro read_messages_view) simp_all
  with same_view [of job w3 w2 p q] c s show ?thesis by simp
qed

text \<open>The same beginning for the functions that need an existing transcript.\<close>

lemma reopen_effect:
  assumes "replay_provider_transcript_state job p q w = (Inr (Some previous), w1)"
    and "read_provider_messages cd job previous w1 = (Inr old, w2)"
  shows "visible_messages cd job p q w = Some old \<and> transcript_replay_of job p q w2 = transcript_replay_of job p q w \<and>
     replayed_state job p q w = Some previous"
proof -
  from replay_state_view [OF assms(1)] have r: "replayed_state job p q w = Some previous" "job_view job w1 = job_view job w"
    by (metis, metis)
  have s: "transcript_replay_of job p q w1 = transcript_replay_of job p q w \<and> w_files w1 = w_files w"
    by (rule same_view) (rule r(2))
  then have "visible_messages cd job p q w = Some old \<and> job_view job w2 = job_view job w1"
    by (intro read_provider_messages_view [OF assms(2) r(1)]) simp
  with same_view [of job w2 w1 p q] s r show ?thesis by simp
qed

lemma record_user_effect:
  assumes "record_provider_user_message cd job pid p q mc content w = (Inr res, w')" and "codec_reads_back cd"
  shows "\<exists>ms. visible_messages cd job p q w = Some ms \<and>
     visible_messages cd job p q w' = Some (stored_form cd (ms @ [user_transcript_message content])) \<and>
     fst (transcript_replay_of job p q w') = Some (blob_ref job (messages_file (transcript_id_for job p))) \<and>
     snd (transcript_replay_of job p q w') = snd (transcript_replay_of job p q w)"
  using assms(1) unfolding record_provider_user_message_def Let_def
proof (elim io_bindE, goal_cases)
  case (1 previous w1 u w2 old w3 uref w4 st w5)
  obtain ms mref c where st: "st = (ms, mref, c)" by (cases st)
  note start = open_effect [OF 1(1,2,3)] and b = write_blob_replay [OF 1(4), of p q]
  note store = 1(5) [unfolded st]
  from 1(6) [unfolded st prod.case] show ?case
  proof (elim io_bindE, goal_cases)
    case (1 sref w6 e1 w7 e2 w8)
    note c = commit_effect [OF assms(2) store 1(1)]
    note e1 = view_of_events [OF 1(2)] and e2 = view_of_events [OF 1(3)]
    from 1(4) have "w' = w8" by (simp add: io_return_apply)
    with e1 e2 b start c(2) c(3) c(1) [of w'] show ?case by simp
  qed
qed

lemma record_control_effect:
  assumes "record_provider_user_control_message cd job pid p q kind control w = (Inr (Some res), w')"
    and "codec_reads_back cd"
  shows "\<exists>ms. visible_messages cd job p q w = Some ms \<and>
     visible_messages cd job p q w' =
       Some (stored_form cd (ms @ [user_transcript_message (provider_tool_result_content cd control)])) \<and>
     snd (transcript_replay_of job p q w') = snd (transcript_replay_of job p q w)"
  using assms(1) unfolding record_provider_user_control_message_def Let_def
proof (elim io_bindE, goal_cases)
  case (1 replayed w1)
  then obtain previous where p: "replayed = Some previous" by (cases replayed) (auto simp: io_return_apply)
  note start = 1(1) [unfolded p]
  from 1(2) [unfolded p option.case] show ?case
  proof (elim io_bindE, goal_cases)
    case (1 old w2 cref w3 st w4)
    obtain ms mref c where st: "st = (ms, mref, c)" by (cases st)
    note opened = reopen_effect [OF start 1(1)] and b = write_blob_replay [OF 1(2), of p q]
    note store = 1(3) [unfolded st]
    from 1(4) [unfolded st prod.case] show ?case
    proof (elim io_bindE, goal_cases)
      case (1 sref w5 e1 w6 e2 w7)
      note c = commit_effect [OF assms(2) store 1(1)]
      note e1 = view_of_events [OF 1(2)] and e2 = view_of_events [OF 1(3)]
      from 1(4) have "w' = w7" by (simp add: io_return_apply)
      with e1 e2 b opened c(2) c(1) [of w'] show ?case by simp
    qed
  qed
qed

text \<open>The calls an assistant message requests.\<close>

definition request_item :: "string \<Rightarrow> provider_tool_call \<Rightarrow> tool_call_state" where
  "request_item assistant_message_ref tc =
     \<lparr>ts_provider_tool_call_id = tc_id tc, ts_provider_name = get_str (tc_function tc) ''name'',
      ts_status = ''requested'', ts_assistant_message_ref = Some assistant_message_ref, ts_tool_result_ref = None\<rparr>"

lemma append_requests_effect:
  "append_all job pid ''provider_tool_call_requested''
       (map (request_event p q (transcript_id_for job p) mc aref mref) tcs) w = (Inr u, w') \<Longrightarrow>
     transcript_replay_of job p q w' =
       (fst (transcript_replay_of job p q w), snd (transcript_replay_of job p q w) @ map (request_item aref) tcs) \<and>
     w_files w' = w_files w"
proof (induction tcs arbitrary: w)
  case Nil
  then show ?case by (simp add: io_return_apply prod_eq_iff)
next
  case (Cons tc tcs)
  let ?d = "request_event p q (transcript_id_for job p) mc aref mref tc"
  from Cons.prems obtain e w1 where a: "append_event job (Some pid) ''provider_tool_call_requested'' ?d w = (Inr e, w1)"
    and rest: "append_all job pid ''provider_tool_call_requested''
       (map (request_event p q (transcript_id_for job p) mc aref mref) tcs) w1 = (Inr u, w')"
    by (auto elim!: io_bindE)
  have item: "requested_call ?d = Some (request_item aref tc)"
    by (simp add: requested_call_def request_event_def request_item_def transcript_fields_def)
  then have "transcript_replay_of job p q w1 =
      (fst (transcript_replay_of job p q w), snd (transcript_replay_of job p q w) @ [request_item aref tc]) \<and> w_files w1 = w_files w"
    using append_event_replay [OF a, of p q]
      view_event_own [of p q "transcript_id_for job p" "fst (transcript_replay_of job p q w)" "snd (transcript_replay_of job p q w)" "''provider_tool_call_requested''"
        "[(''model_call_id'', JString mc), (''provider_tool_call_id'', JString (tc_id tc)),
        (''provider_tool_name'', jopt (get_str (tc_function tc) ''name'')),
        (''assistant_message_ref'', JString aref), (''messages_ref'', JString mref)]"]
    by (simp add: request_event_def)
  with Cons.IH [OF rest] show ?case by simp
qed

lemma record_reasoning_effect:
  assumes "record_reasoning job pid p q (transcript_id_for job p) mc assistant keep i w = (Inr r, w')"
  shows "transcript_replay_of job p q w' = transcript_replay_of job p q w"
proof (cases "pa_reasoning_content assistant")
  case None
  with assms show ?thesis by (simp add: record_reasoning_def io_return_apply)
next
  case (Some reasoning)
  show ?thesis
  proof (cases "reasoning = [] \<or> \<not> keep \<and> pa_tool_calls assistant = []")
    case True
    with assms Some show ?thesis by (auto simp: record_reasoning_def io_return_apply)
  next
    case False
    with assms Some have "io_bind (write_blob job (transcript_dir (transcript_id_for job p) @ ''reasoning_'' @ dec i @ ''.txt'') reasoning)
        (\<lambda>reasoning_ref. io_bind (append_event job (Some pid) ''provider_reasoning_content_recorded''
          (jobj (transcript_fields p q (transcript_id_for job p) @
            [(''model_call_id'', JString mc), (''reasoning_content_ref'', JString reasoning_ref),
             (''reasoning_content_tokens_estimated'', jnat (estimate_text_tokens_conservative reasoning)),
             (''mandatory_provider_replay'', Bool (pa_tool_calls assistant \<noteq> [])),
             (''retention_policy'', JString ''job_local_provider_protocol_evidence''),
             (''default_export_contains_raw_reasoning'', Bool False),
             (''task_portfolio_contains_raw_reasoning'', Bool False),
             (''long_term_memory_promotion_allowed'', Bool False)]))) (\<lambda>_. io_return (Some reasoning_ref))) w = (Inr r, w')"
      by (simp add: record_reasoning_def)
    then show ?thesis
    proof (elim io_bindE, goal_cases)
      case (1 ref w1 e w2)
      note b = write_blob_replay [OF 1(1), of p q] and e = view_of_events [OF 1(2)]
      from 1(3) have "w' = w2" by (simp add: io_return_apply)
      with b e show ?case by simp
    qed
  qed
qed

lemma record_assistant_effect:
  assumes "record_provider_assistant_response cd job pid p q mc response keep w = (Inr (Some res), w')"
    and "codec_reads_back cd"
  shows "\<exists>ms assistant aref. response_message response = Some assistant \<and> visible_messages cd job p q w = Some ms \<and>
     visible_messages cd job p q w' = Some (stored_form cd (ms @ [assistant_transcript_message assistant])) \<and>
     fst (transcript_replay_of job p q w') = Some (blob_ref job (messages_file (transcript_id_for job p))) \<and>
     snd (transcript_replay_of job p q w') =
       snd (transcript_replay_of job p q w) @ map (request_item aref) (pa_tool_calls assistant)"
proof -
  from assms(1) obtain assistant where a: "response_message response = Some assistant"
    by (cases "response_message response") (auto simp: record_provider_assistant_response_def io_return_apply)
  show ?thesis
    using assms(1) unfolding record_provider_assistant_response_def Let_def a option.case
  proof (elim io_bindE, goal_cases)
    case (1 previous w1 u w2 old w3 rref w4 aref w5 st w6)
    obtain ms mref c where st: "st = (ms, mref, c)" by (cases st)
    note start = open_effect [OF 1(1,2,3)] and rr = record_reasoning_effect [OF 1(4)]
      and b = write_blob_replay [OF 1(5), of p q]
    note store = 1(6) [unfolded st]
    from 1(7) [unfolded st prod.case] show ?case
    proof (elim io_bindE, goal_cases)
      case (1 sref w7 e1 w8 e2 w9 u2 w10)
      note c = commit_effect [OF assms(2) store 1(1)]
      note e1 = view_of_events [OF 1(2)] and e2 = view_of_events [OF 1(3)] and rq = append_requests_effect [OF 1(4)]
      from 1(5) have w': "w' = w10" by (simp add: io_return_apply)
      have "fst (transcript_replay_of job p q w') = Some mref" "w_files w' = w_files w7"
        using e1 e2 rq w' by simp_all
      from c(1) [OF this] start a e1 e2 rq w' c(2,3) b rr show ?case by auto
    qed
  qed
qed

text \<open>A tool's answer completes every pending item with its id.\<close>

definition complete_items :: "string \<Rightarrow> string option \<Rightarrow> tool_call_state list \<Rightarrow> tool_call_state list" where
  "complete_items call_id result_ref items =
     map (\<lambda>item. if ts_provider_tool_call_id item = call_id
       then item\<lparr>ts_status := ''completed'', ts_tool_result_ref := result_ref\<rparr> else item) items"

lemma result_event_effect:
  assumes "append_event job pid ''provider_tool_result_recorded'' (jobj (transcript_fields p q (transcript_id_for job p) @ kvs)) w = (Inr e, w')"
    and "{''provider'', ''protocol'', ''transcript_id''} \<inter> fst ` set kvs = {}"
    and "map_of (rev kvs) ''provider_tool_call_id'' = Some (JString call_id)"
    and "map_of (rev kvs) ''tool_result_ref'' = Some (JString tref)"
  shows "transcript_replay_of job p q w' =
      (fst (transcript_replay_of job p q w), complete_items call_id (Some tref) (snd (transcript_replay_of job p q w)))"
    "w_files w' = w_files w"
proof -
  let ?d = "jobj (transcript_fields p q (transcript_id_for job p) @ kvs)"
  have "get_str ?d ''provider_tool_call_id'' = Some call_id" "get_str ?d ''tool_result_ref'' = Some tref"
    using assms(3,4) by (simp_all add: map_add_def)
  then have "map (complete_call ?d) items = complete_items call_id (Some tref) items" for items
    unfolding complete_items_def by (intro map_cong refl) (auto simp: complete_call_def simp del: get_jobj)
  with append_event_replay [OF assms(1), of p q] assms(2)
    view_event_own [of p q "transcript_id_for job p" "fst (transcript_replay_of job p q w)" "snd (transcript_replay_of job p q w)" "''provider_tool_result_recorded''" kvs]
  show "transcript_replay_of job p q w' =
      (fst (transcript_replay_of job p q w), complete_items call_id (Some tref) (snd (transcript_replay_of job p q w)))"
    "w_files w' = w_files w"
    by simp_all
qed

lemma record_tool_effect:
  assumes "record_provider_tool_result_with_metadata cd job pid p q call_id result md w = (Inr res, w')"
    and "codec_reads_back cd"
  shows "\<exists>ms st tref. visible_messages cd job p q w = Some ms \<and> replayed_state job p q w = Some st \<and>
     call_id \<in> ts_provider_tool_call_id ` set (pt_pending_tool_calls st) \<and>
     visible_messages cd job p q w' = Some (stored_form cd (ms @ [tool_transcript_message cd call_id result])) \<and>
     snd (transcript_replay_of job p q w') = complete_items call_id tref (snd (transcript_replay_of job p q w))"
  using assms(1) unfolding record_provider_tool_result_with_metadata_def Let_def
proof (elim io_bindE, goal_cases)
  case (1 replayed w1)
  then obtain previous where p: "replayed = Some previous" by (cases replayed) (auto simp: io_fail_apply)
  note start = 1(1) [unfolded p]
  have listed: "list_ex (\<lambda>item. ts_provider_tool_call_id item = call_id) (pt_pending_tool_calls previous)"
    using 1(2) by (auto simp: p io_fail_apply split: if_splits)
  then have not_fail: "(\<not> list_ex (\<lambda>item. ts_provider_tool_call_id item = call_id) (pt_pending_tool_calls previous)) = False"
    by simp
  from 1(2) [unfolded p option.case not_fail if_False] show ?case
  proof (elim io_bindE, goal_cases)
    case (1 old w2 tref w3 st w4)
    obtain ms mref c where st: "st = (ms, mref, c)" by (cases st)
    note opened = reopen_effect [OF start 1(1)] and b = write_blob_replay [OF 1(2), of p q]
    note store = 1(3) [unfolded st]
    from 1(4) [unfolded st prod.case] show ?case
    proof (elim io_bindE, goal_cases)
      case (1 sref w5 e1 w6 e2 w7)
      note c = commit_effect [OF assms(2) store 1(1)]
      have e1: "transcript_replay_of job p q w6 =
          (fst (transcript_replay_of job p q w5), complete_items call_id (Some tref) (snd (transcript_replay_of job p q w5)))"
        "w_files w6 = w_files w5"
        by (rule result_event_effect [OF 1(2)]; simp)+
      note e2 = view_of_events [OF 1(3)]
      from 1(4) have w': "w' = w7" by (simp add: io_return_apply)
      have "fst (transcript_replay_of job p q w') = Some mref" "w_files w' = w_files w5"
        using e1 e2 w' by simp_all
      note vis = c(1) [OF this]
      have "snd (transcript_replay_of job p q w') = complete_items call_id (Some tref) (snd (transcript_replay_of job p q w))"
        using e1 e2 w' c(2) b opened by simp
      with vis opened listed show ?case by (auto simp: list_ex_iff)
    qed
  qed
qed

end
