(* ===== verification/Json_Codec.thy ===== *)
theory Json_Codec
  imports Store_Zip Provider_Transcript
begin

text \<open>
  A concrete printer and parser of JSON values, a stack program over bytes, to instantiate the codec
  parameter of the transcript in examples. Every value it prints it parses back.
\<close>

datatype stack_item = SValue json | SText string | SValues "json list" | SFields "(string \<times> json) list"

fun text_code :: "string \<Rightarrow> string" where
  "text_code [] = ''s''"
| "text_code (c # cs) = text_code cs @ [CHR ''c'', c]"

definition number_code :: "json_number \<Rightarrow> string" where
  "number_code n = (case n of
     PosInt w \<Rightarrow> text_code (le_bytes 8 (unat w)) @ ''p''
   | NegInt w \<Rightarrow> text_code (le_bytes 8 (unat w)) @ ''m''
   | Float w \<Rightarrow> text_code (le_bytes 8 (unat w)) @ ''d'')"

fun json_code :: "json \<Rightarrow> string" where
  "json_code Null = ''n''"
| "json_code (Bool b) = (if b then ''t'' else ''f'')"
| "json_code (Number n) = number_code n"
| "json_code (JString s) = text_code s @ ''q''"
| "json_code (Array vs) = ''a'' @ concat (map (\<lambda>v. json_code v @ ''e'') vs) @ ''A''"
| "json_code (Object kvs) = ''o'' @ concat (map (\<lambda>(k, v). text_code k @ json_code v @ ''k'') kvs) @ ''O''"

text \<open>The operations of the stack program.\<close>

fun stack_op :: "char \<Rightarrow> stack_item list \<Rightarrow> stack_item list" where
  "stack_op op st =
     (if op = CHR ''n'' then SValue Null # st
      else if op = CHR ''t'' then SValue (Bool True) # st
      else if op = CHR ''f'' then SValue (Bool False) # st
      else if op = CHR ''s'' then SText [] # st
      else if op = CHR ''a'' then SValues [] # st
      else if op = CHR ''o'' then SFields [] # st
      else
       (case st of
          SText s # rest \<Rightarrow>
            (if op = CHR ''q'' then SValue (JString s) # rest
             else if op = CHR ''p'' then SValue (Number (PosInt (word_of_nat (from_le s)))) # rest
             else if op = CHR ''m'' then SValue (Number (NegInt (word_of_nat (from_le s)))) # rest
             else SValue (Number (Float (word_of_nat (from_le s)))) # rest)
        | SValue v # SValues vs # rest \<Rightarrow> SValues (vs @ [v]) # rest
        | SValue v # SText k # SFields kvs # rest \<Rightarrow> SFields (kvs @ [(k, v)]) # rest
        | SValues vs # rest \<Rightarrow> SValue (Array vs) # rest
        | SFields kvs # rest \<Rightarrow> SValue (Object kvs) # rest
        | _ \<Rightarrow> st))"

fun run_code :: "string \<Rightarrow> stack_item list \<Rightarrow> stack_item list" where
  "run_code (op # rest) st =
     (if op = CHR ''c'' then
        (case rest of
           c # ops \<Rightarrow> run_code ops (case st of SText s # items \<Rightarrow> SText (c # s) # items | _ \<Rightarrow> st)
         | [] \<Rightarrow> st)
      else run_code rest (stack_op op st))"
| "run_code [] st = st"

declare stack_op.simps [simp del]

lemma run_text: "run_code (text_code s @ rest) st = run_code rest (SText s # st)"
proof (induction s arbitrary: rest)
  case Nil
  then show ?case by (simp add: stack_op.simps)
next
  case (Cons c s)
  from Cons.IH [of "CHR ''c'' # c # rest"] show ?case by simp
qed

lemma from_le_word: "word_of_nat (from_le (le_bytes 8 (unat w))) = (w :: 64 word)"
proof -
  have "unat w < 256 ^ 8" using unsigned_less [of w, where 'a = nat] by simp
  then show ?thesis by (simp add: from_le_bytes)
qed

lemma run_number: "run_code (number_code n @ rest) st = run_code rest (SValue (Number n) # st)"
  by (cases n) (simp_all add: number_code_def run_text stack_op.simps from_le_word)

lemma run_json: "run_code (json_code v @ rest) st = run_code rest (SValue v # st)"
proof (induction v arbitrary: rest st)
  case (Array vs)
  have "run_code (concat (map (\<lambda>v. json_code v @ ''e'') us) @ rest) (SValues ds # st) =
      run_code rest (SValues (ds @ us) # st)" if "set us \<subseteq> set vs" for us ds rest
    using that
  proof (induction us arbitrary: ds)
    case (Cons u us)
    then have "run_code (json_code u @ r) s = run_code r (SValue u # s)" for r s using Array.IH by auto
    then show ?case using Cons.IH [of "ds @ [u]"] Cons.prems by (simp add: stack_op.simps)
  qed simp
  from this [of vs "''A'' @ rest" "[]"] show ?case by (simp add: stack_op.simps)
next
  case (Object kvs)
  have "run_code (concat (map (\<lambda>(k, v). text_code k @ json_code v @ ''k'') us) @ rest) (SFields ds # st) =
      run_code rest (SFields (ds @ us) # st)" if "set us \<subseteq> set kvs" for us ds rest
    using that
  proof (induction us arbitrary: ds)
    case (Cons u us)
    obtain k v where u: "u = (k, v)" by (cases u)
    with Cons.prems have "(k, v) \<in> set kvs" by simp
    then have "run_code (json_code v @ r) s = run_code r (SValue v # s)" for r s
      using Object.IH [of "(k, v)" v r s] by (simp add: snds.simps)
    then show ?case using Cons.IH [of "ds @ [u]"] Cons.prems by (simp add: u run_text stack_op.simps)
  qed simp
  from this [of kvs "''O'' @ rest" "[]"] show ?case by (simp add: stack_op.simps)
qed (simp_all add: stack_op.simps run_number run_text)

definition demo_codec :: json_codec where
  "demo_codec = \<lparr>to_string = json_code, to_pretty = json_code,
     from_str = (\<lambda>s. case run_code s [] of [SValue v] \<Rightarrow> Some v | _ \<Rightarrow> None)\<rparr>"

lemma demo_codec_reads: "from_str demo_codec (to_pretty demo_codec v) = Some v"
  using run_json [of v "[]" "[]"] by (simp add: demo_codec_def)

end
