(* ===== verification/Transcript_Claims.thy ===== *)
theory Transcript_Claims
  imports Transcript_Laws Json_Codec
begin

text \<open>
  The properties of the provider transcript: the validator decides the tool-call protocol, a live
  suffix follows it, and every sequence of recordings keeps the visible messages of a job in it and
  the calls the log replays as pending equal to the calls without an answer. What an interrupted
  recording leaves behind is stated as well.
\<close>

section \<open>The messages as stored\<close>

text \<open>Compaction rewrites reasoning only.\<close>

lemma compact_message_same:
  "message_ok (compact_message m) = message_ok m" "message_calls (compact_message m) = message_calls m"
  "message_answers (compact_message m) = message_answers m"
  by (simp_all add: compact_message_def message_ok_def message_calls_def message_answers_def)

lemma compact_ids:
  "call_ids (compact_non_mandatory_reasoning ms) = call_ids ms"
  "answer_ids (compact_non_mandatory_reasoning ms) = answer_ids ms"
  by (simp_all add: call_ids_def answer_ids_def compact_non_mandatory_reasoning_def compact_message_same comp_def)

lemma compact_protocol: "protocol_ok (compact_non_mandatory_reasoning ms) = protocol_ok ms"
proof -
  have "take k (compact_non_mandatory_reasoning ms) = compact_non_mandatory_reasoning (take k ms)" for k
    by (simp add: compact_non_mandatory_reasoning_def take_map)
  moreover have "length (compact_non_mandatory_reasoning ms) = length ms" "list_all message_ok (compact_non_mandatory_reasoning ms) = list_all message_ok ms"
    by (simp_all add: compact_non_mandatory_reasoning_def list_all_iff compact_message_same)
  ultimately show ?thesis by (simp add: protocol_ok_def compact_ids)
qed

lemma stored_form_same:
  "protocol_ok (stored_form cd ms) = protocol_ok ms" "open_calls (stored_form cd ms) = open_calls ms"
  "call_ids (stored_form cd ms) = call_ids ms" "length (stored_form cd ms) = length ms"
  by (simp_all add: stored_form_def compact_protocol open_calls_def compact_ids)
    (simp add: compact_non_mandatory_reasoning_def)

section \<open>Replacing the visible transcript\<close>

lemma stamped_name_plain:
  assumes "plain_name name" and "CHR 0x5C \<notin> set name" and "length name > 2"
  shows "plain_name (name @ dec n @ ''.json'') \<and> CHR 0x5C \<notin> set (name @ dec n @ ''.json'')"
proof -
  have "c \<noteq> CHR ''/'' \<and> c \<noteq> CHR 0x5C" if "c \<in> set (dec n)" for c
  proof -
    from dec_chars [OF that] obtain d where "d < 10" "c = digit_char d" by blast
    moreover from \<open>d < 10\<close> have "d \<in> {0,1,2,3,4,5,6,7,8,9}" by auto
    ultimately show ?thesis by (auto simp: digit_char_def)
  qed
  then show ?thesis using assms by (auto simp: plain_name_def)
qed

text \<open>A list that keeps all open calls keeps them in order.\<close>

lemma open_calls_kept:
  assumes "protocol_ok ms" and "set (open_calls ms) \<subseteq> set (call_ids (drop s ms))"
  shows "open_calls (drop s ms) = open_calls ms"
proof -
  note ids = take_drop_ids [of ms s]
  have d: "distinct (call_ids ms)" using assms(1) by (simp add: protocol_ok_def)
  have before: "set (answer_ids (take s ms)) \<subseteq> set (call_ids (take s ms))"
    using protocol_ok_prefix [OF assms(1)] .
  have none: "filter (\<lambda>c. c \<notin> set (answer_ids ms)) (call_ids (take s ms)) = []"
    using assms(2) d ids(1) by (auto simp: open_calls_def filter_empty_conv)
  have same: "c \<in> set (answer_ids ms) \<longleftrightarrow> c \<in> set (answer_ids (drop s ms))" if "c \<in> set (call_ids (drop s ms))" for c
    using that d before ids by auto
  have "open_calls ms = filter (\<lambda>c. c \<notin> set (answer_ids ms)) (call_ids (drop s ms))"
    unfolding open_calls_def ids(1) filter_append none by simp
  also have "\<dots> = open_calls (drop s ms)" unfolding open_calls_def by (rule filter_cong) (use same in auto)
  finally show ?thesis by simp
qed

lemma replacement_open_calls:
  assumes "protocol_ok ms" and "set (open_calls ms) \<subseteq> ts_provider_tool_call_id ` set ps"
  shows "open_calls (replacement_messages t ms ps k) = open_calls ms"
proof -
  let ?s = "live_suffix_start_index ms ps k"
  have m: "message_ok (summary_message t)" "tm_role (summary_message t) = ''user''"
    by (simp_all add: message_ok_def summary_message_def)
  then have e: "open_calls (replacement_messages t ms ps k) = open_calls (drop ?s ms)"
    by (simp add: replacement_messages_def protocol_ok_plain_Cons)
  have "set (open_calls ms) \<subseteq> set (open_calls (drop ?s ms))"
    using replacement_keeps_pending [OF assms(1), of _ ps t k] assms(2) unfolding e by blast
  then have "set (open_calls ms) \<subseteq> set (call_ids (drop ?s ms))" by (auto simp: open_calls_def)
  from open_calls_kept [OF assms(1) this] e show ?thesis by simp
qed

lemma record_replace_effect:
  assumes "replace_provider_visible_transcript_with_summary cd job pid p q text k reason w = (Inr (Some res), w')"
    and "codec_reads_back cd"
  shows "\<exists>ms st. visible_messages cd job p q w = Some ms \<and> replayed_state job p q w = Some st \<and> ms \<noteq> [] \<and>
     \<not> replacement_refused p q (replacement_messages text ms (pt_pending_tool_calls st) k) \<and>
     visible_messages cd job p q w' = Some (replacement_messages text ms (pt_pending_tool_calls st) k) \<and>
     snd (transcript_replay_of job p q w') = snd (transcript_replay_of job p q w)"
  using assms(1) unfolding replace_provider_visible_transcript_with_summary_def Let_def
    replacement_messages_def [symmetric]
proof (elim io_bindE, goal_cases)
  case (1 replayed w1)
  then obtain st where p: "replayed = Some st" by (cases replayed) (auto simp: io_return_apply)
  note start = 1(1) [unfolded p]
  from 1(2) [unfolded p option.case] show ?case
  proof (elim io_bindE, goal_cases)
    case (1 ms w2)
    let ?rep = "replacement_messages text ms (pt_pending_tool_calls st) k"
    from 1(2) have ne: "ms \<noteq> []" and ok: "\<not> replacement_refused p q ?rep"
      by (auto simp: io_return_apply io_fail_apply split: if_splits)
    note opened = reopen_effect [OF start 1(1)]
    from ne ok have nn: "(ms = []) = False" "replacement_refused p q ?rep = False" by simp_all
    from 1(2) [unfolded nn if_False] show ?case
    proof (elim io_bindE, goal_cases)
      case (1 stamp w3 lref w4 mref w5 sref w6 e w7)
      let ?t = "transcript_id_for job p"
      let ?name = "''messages_compacted_'' @ dec stamp @ ''.json''"
      have names: "plain_name ?name \<and> CHR 0x5C \<notin> set ?name"
        "plain_name (''summary_compacted_'' @ dec stamp @ ''.json'') \<and>
         CHR 0x5C \<notin> set (''summary_compacted_'' @ dec stamp @ ''.json'')"
        by (rule stamped_name_plain; simp add: plain_name_def)+
      note n = same_view [OF now_ms_view [OF 1(1)], of job p q] and b1 = write_blob_replay [OF 1(2), of p q]
        and b2 = write_blob_replay [OF 1(3), of p q] and su = write_summary_effect [OF 1(4)]
        and ev = append_event_replay [OF 1(5), of p q]
      from 1(6) have w': "w' = w7" by (simp add: io_return_apply)
      have apart: "blob_path job (transcript_dir ?t @ ''summary_compacted_'' @ dec stamp @ ''.json'') \<noteq>
          blob_path job (transcript_dir ?t @ ?name)"
        using transcript_blob_path [of ?name job p]
          transcript_blob_path [of "''summary_compacted_'' @ dec stamp @ ''.json''" job p] names
        by (simp only: simp_thms) (simp add: transcript_names_def)
      have stored: "w_files w' (blob_path job (transcript_dir ?t @ ?name)) = Some (to_pretty cd (messages_json ?rep))"
        using w' ev su apart b2 by (metis fun_upd_same)
      have "transcript_replay_of job p q w6 = transcript_replay_of job p q w2"
        using su b2 b1 n by simp
      with ev opened w' have rep: "fst (transcript_replay_of job p q w') = Some mref"
        "snd (transcript_replay_of job p q w') = snd (transcript_replay_of job p q w)"
        by (cases "transcript_replay_of job p q w"; simp add: view_event_own)+
      from visible_stored [OF assms(2), of ?name job p q w' ?rep] names rep(1) stored b2
      have "visible_messages cd job p q w' = Some ?rep" by simp
      with rep(2) opened ne ok show ?case by blast
    qed
  qed
qed

section \<open>Recordings on a system without faults\<close>

lemma replay_step:
  assumes "no_faults w"
  obtains w' where "replay_provider_transcript_state job p q w = (Inr (replayed_state job p q w), w')" "no_faults w'"
    "w_clock w' = w_clock w" "w_files w' = w_files w" "job_view job w' = job_view job w"
proof (rule that)
  let ?w = "w\<lparr>w_ops := Suc (w_ops w)\<rparr>"
  show "replay_provider_transcript_state job p q w = (Inr (replayed_state job p q w), ?w)"
    using read_no_faults [OF assms, of job]
    by (simp add: replay_provider_transcript_state_def io_bind_Inr io_return_apply replayed_state_def)
qed (use assms in \<open>simp_all add: no_faults_def job_view_def\<close>)

lemma read_file_step:
  assumes "no_faults w" and "w_files w path = Some s"
  obtains w' where "read_file path w = (Inr s, w')" "no_faults w'" "w_clock w' = w_clock w"
proof (rule that)
  show "read_file path w = (Inr s, w\<lparr>w_ops := Suc (w_ops w)\<rparr>)"
    using assms by (simp add: read_file_def io_bind_def sys_op_def io_get_def io_return_def no_faults_def Let_def)
qed (use assms in \<open>simp_all add: no_faults_def\<close>)

lemma read_provider_messages_step:
  assumes "no_faults w" and "visible_messages cd job p q w0 = Some ms" and "replayed_state job p q w0 = Some st"
    and "w_files w = w_files w0"
  obtains w' where "read_provider_messages cd job st w = (Inr ms, w')" "no_faults w'" "w_clock w' = w_clock w"
proof -
  from replayed_state_Some(1) [OF assms(3)] assms(2) obtain path bytes where
    "resolve_blob_ref job (pt_messages_ref st) = Inr path" and f: "w_files w path = Some bytes"
    and "parse_messages cd bytes = Inr ms"
    by (auto simp: visible_messages_def assms(4) split: sum.splits option.splits)
  moreover from read_file_step [OF assms(1) f] obtain w' where
    "read_file path w = (Inr bytes, w')" "no_faults w'" "w_clock w' = w_clock w" .
  ultimately show thesis by (intro that [of w']) (simp_all add: read_provider_messages_def io_bind_def io_lift_apply)
qed

lemma read_messages_step:
  assumes "no_faults w" and "visible_messages cd job p q w0 = Some ms" and "w_files w = w_files w0"
  obtains w' where "read_messages_from_state cd job (replayed_state job p q w0) w = (Inr ms, w')" "no_faults w'"
    "w_clock w' = w_clock w"
proof (cases "replayed_state job p q w0")
  case None
  with assms(2) replayed_state_None [of job p q w0] have "ms = []" by (simp add: visible_messages_def)
  with None assms(1) show ?thesis by (intro that [of w]) (simp_all add: read_messages_from_state_def io_return_apply)
next
  case (Some st)
  from read_provider_messages_step [OF assms(1,2) Some assms(3)] obtain w' where
    "read_provider_messages cd job st w = (Inr ms, w')" "no_faults w'" "w_clock w' = w_clock w" .
  with Some show ?thesis by (intro that [of w']) (simp_all add: read_messages_from_state_def)
qed

lemma runs_store: "runs (store_messages cd job pid p q t ms)"
  unfolding store_messages_def Let_def by (intro runs_intros runs_write_blob)

lemma runs_summary: "runs (write_summary cd job name p q t r ms l n refs lim c)"
  unfolding write_summary_def Let_def by (intro runs_intros runs_write_blob)

lemma runs_append_all: "runs (append_all job pid ty ds)"
  by (induction ds) (auto intro: runs_intros)

lemma runs_create: "runs (create_if_missing job pid p q t previous)"
  unfolding create_if_missing_def by (intro runs_intros)

lemma runs_reasoning: "runs (record_reasoning job pid p q t mc a keep i)"
  unfolding record_reasoning_def by (auto split: option.split intro!: runs_intros runs_write_blob)

lemmas runs_recording = runs_intros runs_write_blob runs_store runs_summary runs_append_all runs_create runs_reasoning

lemma runs_case_prod: "(\<And>a b c. st = (a, b, c) \<Longrightarrow> runs (f a b c)) \<Longrightarrow> runs (case st of (a, b, c) \<Rightarrow> f a b c)"
  by (cases st) simp

lemma runs_at: "runs m \<Longrightarrow> no_faults w \<Longrightarrow> \<exists>x w'. m w = (Inr x, w') \<and> no_faults w'"
  by (erule runsE) auto

text \<open>The beginning of a recording that may start a transcript.\<close>

lemma opening_succeeds:
  assumes "no_faults w" and "visible_messages cd job p q w = Some ms"
    and rest: "\<And>previous. runs (f previous ms)"
  shows "\<exists>x w'. io_bind (replay_provider_transcript_state job p q) (\<lambda>previous.
      io_bind (create_if_missing job pid p q (transcript_id_for job p) previous) (\<lambda>_.
      io_bind (read_messages_from_state cd job previous) (f previous))) w = (Inr x, w') \<and> no_faults w'"
proof -
  from replay_step [OF assms(1), of job p q] obtain w1 where
    1: "replay_provider_transcript_state job p q w = (Inr (replayed_state job p q w), w1)" "no_faults w1"
    "w_files w1 = w_files w" by metis
  from runsE [OF runs_create 1(2)] obtain u w2 where
    2: "create_if_missing job pid p q (transcript_id_for job p) (replayed_state job p q w) w1 = (Inr u, w2)" "no_faults w2"
    by metis
  from create_if_missing_effect [OF 2(1)] 1(3) have "w_files w2 = w_files w" by simp
  from read_messages_step [OF 2(2) assms(2) this] obtain w3 where
    3: "read_messages_from_state cd job (replayed_state job p q w) w2 = (Inr ms, w3)" "no_faults w3" by metis
  from runs_at [OF rest 3(2), of "replayed_state job p q w"] 1 2 3 show ?thesis by (simp add: io_bind_Inr)
qed

lemma record_user_succeeds:
  assumes "no_faults w" and "visible_messages cd job p q w = Some ms"
  shows "\<exists>res w'. record_provider_user_message cd job pid p q mc content w = (Inr res, w') \<and> no_faults w'"
  unfolding record_provider_user_message_def Let_def
  by (rule opening_succeeds [OF assms]) (intro runs_recording runs_case_prod)

lemma record_assistant_succeeds:
  assumes "no_faults w" and "visible_messages cd job p q w = Some ms" and "response_message response = Some assistant"
  shows "\<exists>res w'. record_provider_assistant_response cd job pid p q mc response keep w = (Inr (Some res), w') \<and> no_faults w'"
proof -
  have "\<exists>x w'. record_provider_assistant_response cd job pid p q mc response keep w = (Inr x, w') \<and> no_faults w'"
    unfolding record_provider_assistant_response_def Let_def assms(3) option.case
    by (rule opening_succeeds [OF assms(1,2)]) (intro runs_recording runs_case_prod)
  moreover have "x \<noteq> None" if "record_provider_assistant_response cd job pid p q mc response keep w = (Inr x, w')" for x w'
    using that unfolding record_provider_assistant_response_def Let_def assms(3) option.case
    by (auto simp: io_return_apply elim!: io_bindE split: prod.splits)
  ultimately show ?thesis by (metis option.exhaust)
qed

lemma record_tool_succeeds:
  assumes "no_faults w" and "visible_messages cd job p q w = Some ms" and "replayed_state job p q w = Some st"
    and "call_id \<in> ts_provider_tool_call_id ` set (pt_pending_tool_calls st)"
  shows "\<exists>res w'. record_provider_tool_result_with_metadata cd job pid p q call_id result md w = (Inr res, w') \<and> no_faults w'"
proof -
  from replay_step [OF assms(1), of job p q] obtain w1 where
    1: "replay_provider_transcript_state job p q w = (Inr (Some st), w1)" "no_faults w1" "w_files w1 = w_files w"
    by (metis assms(3))
  from read_provider_messages_step [OF 1(2) assms(2,3) 1(3)] obtain w2 where
    2: "read_provider_messages cd job st w1 = (Inr ms, w2)" "no_faults w2" by metis
  have listed: "(\<not> list_ex (\<lambda>item. ts_provider_tool_call_id item = call_id) (pt_pending_tool_calls st)) = False"
    using assms(4) by (auto simp: list_ex_iff)
  show ?thesis
    unfolding record_provider_tool_result_with_metadata_def Let_def io_bind_Inr [where m = "replay_provider_transcript_state job p q", OF 1(1)]
      option.case listed if_False io_bind_Inr [where m = "read_provider_messages cd job st", OF 2(1)]
    by (rule runs_at [OF _ 2(2)]) (intro runs_recording runs_case_prod)
qed

section \<open>The log and the messages agree\<close>

text \<open>
  What a transcript promises between recordings: the visible messages follow the protocol, and the
  calls the log replays as not completed are exactly the calls without an answer, in order.
\<close>

definition transcript_ok :: "json_codec \<Rightarrow> string \<Rightarrow> string \<Rightarrow> string \<Rightarrow> world \<Rightarrow> bool" where
  "transcript_ok cd job provider protocol w \<longleftrightarrow>
     (\<exists>ms. visible_messages cd job provider protocol w = Some ms \<and> protocol_ok ms \<and>
        map ts_provider_tool_call_id (active_calls (snd (transcript_replay_of job provider protocol w))) = open_calls ms)"

lemma transcript_ok_empty: "log_of w job = [] \<Longrightarrow> transcript_ok cd job p q w"
  by (simp add: transcript_ok_def visible_messages_def transcript_replay_of_def view_replay_def job_view_def
      active_calls_def open_calls_def)

lemma transcript_okI:
  assumes "visible_messages cd job p q w = Some ms" and "protocol_ok ms"
    and "map ts_provider_tool_call_id (active_calls (snd (transcript_replay_of job p q w))) = open_calls ms"
  shows "transcript_ok cd job p q w"
  using assms by (auto simp: transcript_ok_def)

lemma transcript_okE:
  assumes "transcript_ok cd job p q w" and "visible_messages cd job p q w = Some ms"
  shows "protocol_ok ms"
    and "map ts_provider_tool_call_id (active_calls (snd (transcript_replay_of job p q w))) = open_calls ms"
  using assms by (auto simp: transcript_ok_def)

lemma plain_message:
  "message_ok (user_transcript_message c)" "message_calls (user_transcript_message c) = []"
  "message_answers (user_transcript_message c) = []"
  by (simp_all add: message_ok_def message_calls_def message_answers_def user_transcript_message_def)

lemma open_calls_plain: "message_calls m = [] \<Longrightarrow> message_answers m = [] \<Longrightarrow> open_calls (ms @ [m]) = open_calls ms"
  by (simp add: open_calls_def)

text \<open>A plain message.\<close>

lemma plain_keeps_ok:
  assumes "transcript_ok cd job p q w" and "visible_messages cd job p q w = Some ms"
    and "visible_messages cd job p q w' = Some (stored_form cd (ms @ [user_transcript_message c]))"
    and "snd (transcript_replay_of job p q w') = snd (transcript_replay_of job p q w)"
  shows "transcript_ok cd job p q w'"
  using transcript_okE [OF assms(1,2)] assms(4) plain_message [of c]
  by (intro transcript_okI [OF assms(3)]) (simp_all add: stored_form_same protocol_ok_snoc open_calls_plain)

text \<open>An assistant message with fresh calls.\<close>

definition fresh_calls :: "transcript_message list \<Rightarrow> provider_assistant_message \<Rightarrow> bool" where
  "fresh_calls ms assistant \<longleftrightarrow>
     distinct (map tc_id (pa_tool_calls assistant)) \<and>
     (\<forall>tc \<in> set (pa_tool_calls assistant). trim (tc_id tc) \<noteq> [] \<and> tc_id tc \<notin> set (call_ids ms))"

lemma assistant_keeps_ok:
  assumes "transcript_ok cd job p q w" and "visible_messages cd job p q w = Some ms" and "fresh_calls ms a"
    and "visible_messages cd job p q w' = Some (stored_form cd (ms @ [assistant_transcript_message a]))"
    and "snd (transcript_replay_of job p q w') = snd (transcript_replay_of job p q w) @ map (request_item aref) (pa_tool_calls a)"
  shows "transcript_ok cd job p q w'"
proof -
  note ok = transcript_okE [OF assms(1,2)]
  let ?a = "assistant_transcript_message a"
  have m: "message_ok ?a" "message_calls ?a = map tc_id (pa_tool_calls a)" "message_answers ?a = []"
    using assms(3)
    by (simp_all add: fresh_calls_def message_ok_def message_calls_def message_answers_def assistant_transcript_message_def)
  have fresh: "set (map tc_id (pa_tool_calls a)) \<inter> set (answer_ids ms) = {}"
    using assms(3) protocol_ok_answers [OF ok(1)] by (auto simp: fresh_calls_def)
  then have "open_calls (ms @ [?a]) = open_calls ms @ map tc_id (pa_tool_calls a)"
    by (auto simp: open_calls_def m intro!: filter_True)
  moreover have "active_calls (map (request_item aref) tcs) = map (request_item aref) tcs" for tcs
    by (simp add: active_calls_def request_item_def filter_map comp_def)
  then have "map ts_provider_tool_call_id (active_calls (snd (transcript_replay_of job p q w'))) =
      open_calls ms @ map tc_id (pa_tool_calls a)"
    using ok(2) assms(5) by (simp add: active_calls_def request_item_def comp_def)
  moreover have "protocol_ok (ms @ [?a])"
    using ok(1) m assms(3) by (auto simp: protocol_ok_snoc fresh_calls_def)
  ultimately show ?thesis by (intro transcript_okI [OF assms(4)]) (simp_all add: stored_form_same)
qed

text \<open>A tool's answer to a pending call.\<close>

lemma active_complete:
  "active_calls (complete_items c r items) = filter (\<lambda>item. ts_provider_tool_call_id item \<noteq> c) (active_calls items)"
  by (induction items) (auto simp: active_calls_def complete_items_def)

lemma tool_message:
  "message_ok (tool_transcript_message cd c result)" "message_calls (tool_transcript_message cd c result) = []"
  "message_answers (tool_transcript_message cd c result) = [c]"
  by (simp_all add: message_ok_def message_calls_def message_answers_def tool_transcript_message_def)

lemma tool_keeps_ok:
  assumes "transcript_ok cd job p q w" and "visible_messages cd job p q w = Some ms" and "c \<in> set (open_calls ms)"
    and "visible_messages cd job p q w' = Some (stored_form cd (ms @ [tool_transcript_message cd c result]))"
    and "snd (transcript_replay_of job p q w') = complete_items c tref (snd (transcript_replay_of job p q w))"
  shows "transcript_ok cd job p q w'"
proof -
  note ok = transcript_okE [OF assms(1,2)]
  have "map ts_provider_tool_call_id (active_calls (snd (transcript_replay_of job p q w'))) =
      filter (\<lambda>x. x \<noteq> c) (open_calls ms)"
    unfolding assms(5) active_complete ok(2) [symmetric] by (simp add: filter_map comp_def)
  also have "\<dots> = open_calls (ms @ [tool_transcript_message cd c result])"
    by (simp add: open_calls_def tool_message filter_filter) (rule filter_cong; auto)
  finally show ?thesis
    using ok(1) assms(3) by (intro transcript_okI [OF assms(4)]) (simp_all add: stored_form_same protocol_ok_snoc tool_message)
qed

text \<open>The replacement by a summary and a live suffix.\<close>

lemma replace_keeps_ok:
  assumes "transcript_ok cd job p q w" and "visible_messages cd job p q w = Some ms"
    and "replayed_state job p q w = Some st"
    and "visible_messages cd job p q w' = Some (replacement_messages text ms (pt_pending_tool_calls st) k)"
    and "snd (transcript_replay_of job p q w') = snd (transcript_replay_of job p q w)"
  shows "transcript_ok cd job p q w'"
proof -
  note ok = transcript_okE [OF assms(1,2)]
  have "map ts_provider_tool_call_id (pt_pending_tool_calls st) = open_calls ms"
    using ok(2) replayed_state_Some(2) [OF assms(3)] by simp
  then have "set (open_calls ms) \<subseteq> ts_provider_tool_call_id ` set (pt_pending_tool_calls st)"
    by (metis list.set_map subset_refl)
  from replacement_open_calls [OF ok(1) this] replacement_ok(1) [OF ok(1)] ok(2) assms(5) show ?thesis
    by (intro transcript_okI [OF assms(4)]) simp_all
qed

lemma pending_iff_open:
  assumes "transcript_ok cd job p q w" and "visible_messages cd job p q w = Some ms"
  shows "(\<exists>st. replayed_state job p q w = Some st \<and> c \<in> ts_provider_tool_call_id ` set (pt_pending_tool_calls st)) \<longleftrightarrow>
     c \<in> set (open_calls ms)"
proof (cases "replayed_state job p q w")
  case None
  with assms(2) replayed_state_None [of job p q w] have "ms = []" by (simp add: visible_messages_def)
  with None show ?thesis by (simp add: open_calls_def)
next
  case (Some st)
  from replayed_state_Some(2) [OF Some] transcript_okE(2) [OF assms]
  have "map ts_provider_tool_call_id (pt_pending_tool_calls st) = open_calls ms" by simp
  then have "ts_provider_tool_call_id ` set (pt_pending_tool_calls st) = set (open_calls ms)" by (metis list.set_map)
  with Some show ?thesis by simp
qed

section \<open>Sequences of recordings\<close>

text \<open>
  What happens to the transcript of a job: successful recordings, where the provider names the calls
  of an assistant message freshly, and anything else in the system, which adds to the log no event of
  this transcript and leaves the file of its messages alone.
\<close>

definition untouched :: "string \<Rightarrow> string \<Rightarrow> string \<Rightarrow> world \<Rightarrow> world \<Rightarrow> bool" where
  "untouched job p q w w' \<longleftrightarrow>
     (\<exists>es. log_of w' job = log_of w job @ es \<and> list_all (\<lambda>e. \<not> transcript_event p q (transcript_id_for job p) e) es) \<and>
     (\<forall>r path. fst (transcript_replay_of job p q w) = Some r \<longrightarrow> resolve_blob_ref job r = Inr path \<longrightarrow>
        w_files w' path = w_files w path)"

inductive transcript_step :: "json_codec \<Rightarrow> string \<Rightarrow> string \<Rightarrow> string \<Rightarrow> world \<Rightarrow> world \<Rightarrow> bool"
  for cd job p q where
  user: "record_provider_user_message cd job pid p q mc content w = (Inr res, w') \<Longrightarrow> transcript_step cd job p q w w'"
| control: "record_provider_user_control_message cd job pid p q kind control w = (Inr (Some cres), w') \<Longrightarrow>
    transcript_step cd job p q w w'"
| assistant: "record_provider_assistant_response cd job pid p q mc response keep w = (Inr (Some ares), w') \<Longrightarrow>
    response_message response = Some a \<Longrightarrow> visible_messages cd job p q w = Some ms \<Longrightarrow> fresh_calls ms a \<Longrightarrow>
    transcript_step cd job p q w w'"
| tool: "record_provider_tool_result_with_metadata cd job pid p q call_id result md w = (Inr tres, w') \<Longrightarrow>
    transcript_step cd job p q w w'"
| replace: "replace_provider_visible_transcript_with_summary cd job pid p q summary_text min_turns reason w = (Inr (Some pres), w') \<Longrightarrow>
    transcript_step cd job p q w w'"
| elsewhere: "untouched job p q w w' \<Longrightarrow> transcript_step cd job p q w w'"

abbreviation transcript_steps :: "json_codec \<Rightarrow> string \<Rightarrow> string \<Rightarrow> string \<Rightarrow> world \<Rightarrow> world \<Rightarrow> bool" where
  "transcript_steps cd job p q \<equiv> (transcript_step cd job p q)\<^sup>*\<^sup>*"

lemma view_event_other:
  assumes "\<not> transcript_event p q t e"
  shows "view_event p q t s (event_type e, data e) = s"
  using assms by (cases s) (auto simp: view_event_def transcript_event_def)

lemma untouched_view:
  assumes "untouched job p q w w'"
  shows "transcript_replay_of job p q w' = transcript_replay_of job p q w"
    and "visible_messages cd job p q w' = visible_messages cd job p q w"
proof -
  from assms obtain es where es: "log_of w' job = log_of w job @ es"
    "list_all (\<lambda>e. \<not> transcript_event p q (transcript_id_for job p) e) es"
    by (auto simp: untouched_def)
  have "foldl (view_event p q (transcript_id_for job p)) s (map (\<lambda>e. (event_type e, data e)) es) = s" for s
    using es(2) by (induction es arbitrary: s) (simp_all add: view_event_other)
  with es(1) show same: "transcript_replay_of job p q w' = transcript_replay_of job p q w"
    by (simp add: transcript_replay_of_def job_view_def view_replay_append)
  with assms show "visible_messages cd job p q w' = visible_messages cd job p q w"
    by (auto simp: visible_messages_def untouched_def split: option.split sum.split)
qed

lemma transcript_step_ok:
  assumes "codec_reads_back cd" and "transcript_step cd job p q w w'" and "transcript_ok cd job p q w"
  shows "transcript_ok cd job p q w'"
  using assms(2)
proof cases
  case (user pid mc content res)
  from record_user_effect [OF this assms(1)] show ?thesis using plain_keeps_ok [OF assms(3)] by blast
next
  case (control pid kind control res)
  from record_control_effect [OF this assms(1)] show ?thesis using plain_keeps_ok [OF assms(3)] by blast
next
  case (assistant pid mc response keep res a ms)
  from record_assistant_effect [OF assistant(1) assms(1)] assistant(2,3) obtain aref where
    "visible_messages cd job p q w' = Some (stored_form cd (ms @ [assistant_transcript_message a]))"
    "snd (transcript_replay_of job p q w') = snd (transcript_replay_of job p q w) @ map (request_item aref) (pa_tool_calls a)"
    by auto
  with assistant_keeps_ok [OF assms(3) assistant(3,4)] show ?thesis by blast
next
  case (tool pid call_id result md res)
  from record_tool_effect [OF this assms(1)] obtain ms st tref where
    v: "visible_messages cd job p q w = Some ms" and p: "replayed_state job p q w = Some st"
      "call_id \<in> ts_provider_tool_call_id ` set (pt_pending_tool_calls st)"
    and r: "visible_messages cd job p q w' = Some (stored_form cd (ms @ [tool_transcript_message cd call_id result]))"
      "snd (transcript_replay_of job p q w') = complete_items call_id tref (snd (transcript_replay_of job p q w))"
    by blast
  from pending_iff_open [OF assms(3) v] p have "call_id \<in> set (open_calls ms)" by blast
  from tool_keeps_ok [OF assms(3) v this r] show ?thesis .
next
  case (replace pid summary k reason res)
  from record_replace_effect [OF this assms(1)] show ?thesis using replace_keeps_ok [OF assms(3)] by blast
next
  case elsewhere
  from untouched_view [OF this] assms(3) show ?thesis by (simp add: transcript_ok_def)
qed

lemma transcript_steps_ok:
  assumes "codec_reads_back cd" and "transcript_steps cd job p q w w'" and "transcript_ok cd job p q w"
  shows "transcript_ok cd job p q w'"
  using assms(2,3) by (induction rule: rtranclp_induct) (auto intro: transcript_step_ok [OF assms(1)])

section \<open>The properties\<close>

text \<open>
  C29: the validator of native DeepSeek messages decides the tool-call protocol. It reports no error
  exactly when every message is well-formed for its role, every call has its own id, and every tool
  message answers a call made before it and not answered yet; it calls the messages valid exactly
  when, besides, no call is left without an answer.
\<close>

theorem validator_decides_protocol:
  "(vr_errors (validate_deepseek_native_messages ms) = [] \<longleftrightarrow> protocol_ok ms) \<and>
   (vr_valid (validate_deepseek_native_messages ms) \<longleftrightarrow> protocol_ok ms \<and> open_calls ms = [])"
  by (simp only: validator_exact simp_thms)

text \<open>
  C30: replacing the visible transcript by a summary and a live suffix never breaks the protocol. When
  the messages follow it and the pending calls are those without an answer, the summary and the
  suffix follow it too, leave exactly the same calls open, and keep at least the requested number of
  turns; the validator accepts them exactly when no call was open, so for DeepSeek the replacement
  is refused whenever a call is pending, although the suffix was chosen to keep it.
\<close>

theorem live_suffix_follows_protocol:
  assumes "protocol_ok ms" and "map ts_provider_tool_call_id ps = open_calls ms"
  shows "protocol_ok (replacement_messages text ms ps k) \<and>
     open_calls (replacement_messages text ms ps k) = open_calls ms \<and>
     Suc (min (length ms) (max (min (k * 2) (2 ^ 64 - 1)) 1)) \<le> length (replacement_messages text ms ps k) \<and>
     (replacement_refused ''deepseek'' ''deepseek_chat_completions'' (replacement_messages text ms ps k) \<longleftrightarrow> ps \<noteq> [])"
proof -
  have "set (open_calls ms) \<subseteq> ts_provider_tool_call_id ` set ps" by (metis assms(2) list.set_map subset_refl)
  note r = replacement_ok(1) [OF assms(1)] replacement_open_calls [OF assms(1) this] replacement_length
  moreover have "open_calls ms = [] \<longleftrightarrow> ps = []" by (metis assms(2) map_is_Nil_conv)
  ultimately show ?thesis by (simp add: replacement_refused_def validator_exact(2))
qed

fun close_suffix_rounds :: "nat \<Rightarrow> transcript_message list \<Rightarrow> nat \<Rightarrow> nat option" where
  "close_suffix_rounds 0 messages start = None"
| "close_suffix_rounds (Suc n) messages start =
     (case pull_round messages start of
        (start', changed) \<Rightarrow> if changed then close_suffix_rounds n messages start' else Some start')"

text \<open>
  The loop that closes the live suffix ends. Each round that changes the start moves it down, so
  from a start \<open>s\<close> at most \<open>s + 1\<close> rounds are run; with that much fuel the loop that stops when a
  round changes nothing gives the start \<open>close_suffix\<close> gives.
\<close>

theorem live_suffix_loop_ends:
  "close_suffix_rounds (Suc start) messages start = Some (close_suffix messages start)"
proof -
  have "close_suffix_rounds (Suc n) messages start = Some (close_suffix messages start)" if "start \<le> n" for n
    using that
  proof (induction n arbitrary: start)
    case 0
    with pull_round_pulled [of 0 messages] show ?case
      by (subst close_suffix.simps) (auto simp: pulled_def split: prod.split)
  next
    case (Suc n)
    show ?case
    proof (cases "snd (pull_round messages start)")
      case True
      with pull_round_pulled [of start messages] have "fst (pull_round messages start) < start" by (auto simp: pulled_def)
      with Suc have "close_suffix_rounds (Suc n) messages (fst (pull_round messages start)) =
          Some (close_suffix messages (fst (pull_round messages start)))" by simp
      with True show ?thesis by (subst close_suffix.simps) (simp add: case_prod_beta del: close_suffix_rounds.simps(2), simp add: case_prod_beta)
    next
      case False
      then show ?thesis by (subst close_suffix.simps) (simp add: case_prod_beta)
    qed
  qed
  then show ?thesis by simp
qed

text \<open>
  C21: the transcript invariant. From a job without events, every sequence of successful recordings
  (user and control messages, assistant messages whose calls have fresh names, tool results,
  replacements by a summary), interleaved with whatever the rest of the system does, leaves visible
  messages that follow the tool-call protocol, and the calls replayed from the log as pending are the
  calls those messages leave open, in order. So the validator accepts them exactly when nothing is
  pending.
\<close>

theorem recordings_keep_protocol:
  assumes "codec_reads_back cd" and "log_of w0 job = []" and "transcript_steps cd job p q w0 w"
  shows "\<exists>ms. visible_messages cd job p q w = Some ms \<and> protocol_ok ms \<and>
     map ts_provider_tool_call_id (active_calls (snd (transcript_replay_of job p q w))) = open_calls ms \<and>
     (vr_valid (validate_deepseek_native_messages ms) \<longleftrightarrow>
        active_calls (snd (transcript_replay_of job p q w)) = [])"
proof -
  from transcript_steps_ok [OF assms(1,3) transcript_ok_empty [OF assms(2)]] obtain ms where
    v: "visible_messages cd job p q w = Some ms" "protocol_ok ms" and
    o: "map ts_provider_tool_call_id (active_calls (snd (transcript_replay_of job p q w))) = open_calls ms"
    by (auto simp: transcript_ok_def)
  have "vr_valid (validate_deepseek_native_messages ms) \<longleftrightarrow> active_calls (snd (transcript_replay_of job p q w)) = []"
    using v(2) by (simp only: validator_exact(2) o [symmetric] map_is_Nil_conv) simp
  with v o show ?thesis by blast
qed

text \<open>
  C40: a tool result is recorded exactly for a pending call. In a consistent transcript, on a system
  where no operation fails, the recording succeeds if and only if the call is open in the visible
  messages; otherwise it is refused, and neither the log nor any file has changed.
\<close>

theorem result_needs_pending_call:
  assumes "transcript_ok cd job p q w" and "no_faults w"
  shows "(\<exists>ms. visible_messages cd job p q w = Some ms \<and>
       ((\<exists>res w'. record_provider_tool_result cd job pid p q call_id result w = (Inr res, w')) \<longleftrightarrow>
        call_id \<in> set (open_calls ms))) \<and>
     (\<forall>e w'. record_provider_tool_result cd job pid p q call_id result w = (Inl e, w') \<longrightarrow>
        e \<in> {no_transcript, not_pending} \<and> w_events w' = w_events w \<and> w_files w' = w_files w)"
proof -
  from assms(1) obtain ms where v: "visible_messages cd job p q w = Some ms" by (auto simp: transcript_ok_def)
  note iff = pending_iff_open [OF assms(1) v, of call_id]
  let ?run = "record_provider_tool_result cd job pid p q call_id result w"
  have wr: "replay_provider_transcript_state job p q w = (Inr (replayed_state job p q w), w\<lparr>w_ops := Suc (w_ops w)\<rparr>)"
    using read_no_faults [OF assms(2), of job]
    by (simp add: replay_provider_transcript_state_def io_bind_Inr io_return_apply replayed_state_def)
  show ?thesis
  proof (cases "call_id \<in> set (open_calls ms)")
    case True
    with iff obtain st where "replayed_state job p q w = Some st" "call_id \<in> ts_provider_tool_call_id ` set (pt_pending_tool_calls st)"
      by blast
    from record_tool_succeeds [OF assms(2) v this, of pid result
        "\<lparr>rm_provider_tool_call_index = None, rm_provider_tool_batch_id = None\<rparr>"]
    obtain res w' where "?run = (Inr res, w')" by (auto simp: record_provider_tool_result_def)
    with v True show ?thesis by auto
  next
    case False
    have "\<exists>e. e \<in> {no_transcript, not_pending} \<and> ?run = (Inl e, w\<lparr>w_ops := Suc (w_ops w)\<rparr>)"
    proof (cases "replayed_state job p q w")
      case None
      with wr show ?thesis
        by (simp add: record_provider_tool_result_def record_provider_tool_result_with_metadata_def Let_def
            io_bind_Inr io_fail_apply)
    next
      case (Some st)
      with False iff have "\<not> list_ex (\<lambda>item. ts_provider_tool_call_id item = call_id) (pt_pending_tool_calls st)"
        by (auto simp: list_ex_iff)
      with wr Some show ?thesis
        by (simp add: record_provider_tool_result_def record_provider_tool_result_with_metadata_def Let_def
            io_bind_Inr io_fail_apply)
    qed
    with v False show ?thesis by auto
  qed
qed

section \<open>An interrupted recording\<close>

text \<open>One operation of the system fails: the one with the given number.\<close>

definition one_fault :: "nat \<Rightarrow> world \<Rightarrow> world" where
  "one_fault n w = w\<lparr>w_fault := (\<lambda>k. k = n)\<rparr>"

definition after_faults :: "world \<Rightarrow> world" where
  "after_faults w = w\<lparr>w_fault := (\<lambda>_. False)\<rparr>"

lemma write_blob_step:
  assumes "\<not> w_fault w (w_ops w)" and "\<not> w_fault w (Suc (w_ops w))"
  shows "write_blob job name c w =
    (Inr (blob_ref job name), w\<lparr>w_ops := w_ops w + 2, w_files := (w_files w)(blob_path job name \<mapsto> c)\<rparr>)"
  using assms
  by (simp add: write_blob_def io_bind_def sys_op_def put_world_def io_return_def Let_def blob_ref_def blob_path_def)

lemma write_blob_fails:
  "w_fault w (w_ops w) \<Longrightarrow> write_blob job name c w = (Inl fault_error, w\<lparr>w_ops := Suc (w_ops w)\<rparr>)"
  by (simp add: write_blob_def io_bind_def sys_op_def Let_def fault_error_def)

lemma view_same_log:
  "w_events w' = w_events w \<Longrightarrow>
     transcript_replay_of job p q w' = transcript_replay_of job p q w \<and> replayed_state job p q w' = replayed_state job p q w"
  by (simp add: transcript_replay_of_def job_view_def replayed_state_def)

text \<open>
  The sixth operation after the replay fails: the tool's message and the new messages are written,
  the summary is not, and nothing is in the log.
\<close>

lemma interrupted_tool_run:
  assumes "visible_messages cd job p q w = Some ms" and "replayed_state job p q w = Some st"
    and "call_id \<in> ts_provider_tool_call_id ` set (pt_pending_tool_calls st)"
    and "\<not> over_threshold cd (ms @ [tool_transcript_message cd call_id result])"
  obtains w' where
    "record_provider_tool_result_with_metadata cd job pid p q call_id result md (one_fault (w_ops w + 6) w) = (Inl fault_error, w')"
    "w_events w' = w_events w"
    "w_files w' (blob_path job (messages_file (transcript_id_for job p))) =
       Some (to_pretty cd (messages_json (ms @ [tool_transcript_message cd call_id result])))"
proof -
  let ?w = "one_fault (w_ops w + 6) w"
  let ?w1 = "?w\<lparr>w_ops := w_ops w + 1\<rparr>"
  let ?w2 = "?w\<lparr>w_ops := w_ops w + 2\<rparr>"
  let ?t = "transcript_id_for job p"
  let ?m = "tool_transcript_message cd call_id result"
  have start: "replay_provider_transcript_state job p q ?w = (Inr (Some st), ?w1)"
    using assms(2) by (simp add: replay_provider_transcript_state_def read_events_def io_bind_def sys_op_def io_get_def
        io_return_def Let_def one_fault_def replayed_state_def)
  from replayed_state_Some(1) [OF assms(2)] assms(1) obtain path bytes where
    "resolve_blob_ref job (pt_messages_ref st) = Inr path" "w_files w path = Some bytes" "parse_messages cd bytes = Inr ms"
    by (auto simp: visible_messages_def split: sum.splits option.splits)
  then have read: "read_provider_messages cd job st ?w1 = (Inr ms, ?w2)"
    by (simp add: read_provider_messages_def io_bind_def io_lift_apply read_file_def sys_op_def io_get_def io_return_def
        Let_def one_fault_def)
  have listed: "(\<not> list_ex (\<lambda>item. ts_provider_tool_call_id item = call_id) (pt_pending_tool_calls st)) = False"
    using assms(3) by (auto simp: list_ex_iff)
  let ?f3 = "(w_files w)(blob_path job (transcript_dir ?t @ ''tool_'' @ safe_blob_name call_id @ ''.json'') \<mapsto>
      to_pretty cd (message_json ?m))"
  let ?w3 = "?w\<lparr>w_ops := w_ops w + 4, w_files := ?f3\<rparr>"
  have blob: "write_blob job (transcript_dir ?t @ ''tool_'' @ safe_blob_name call_id @ ''.json'') (to_pretty cd (message_json ?m)) ?w2 =
      (Inr (blob_ref job (transcript_dir ?t @ ''tool_'' @ safe_blob_name call_id @ ''.json'')), ?w3)"
    by (subst write_blob_step) (simp_all add: one_fault_def)
  let ?f4 = "?f3(blob_path job (messages_file ?t) \<mapsto> to_pretty cd (messages_json (ms @ [?m])))"
  let ?w4 = "?w\<lparr>w_ops := w_ops w + 6, w_files := ?f4\<rparr>"
  have store: "store_messages cd job pid p q ?t (ms @ [?m]) ?w3 = (Inr (ms @ [?m], blob_ref job (messages_file ?t), False), ?w4)"
    unfolding store_messages_def Let_def using assms(4)
    by (simp add: io_bind_def write_blob_step io_return_def one_fault_def)
  have summary: "write_summary cd job ''summary.json'' p q ?t r l a n refs lim c ?w4 =
      (Inl fault_error, ?w4\<lparr>w_ticks := Suc (w_ticks w), w_ops := w_ops w + 7\<rparr>)" for r l a n refs lim c
    by (simp add: write_summary_def Let_def io_bind_def now_ms_def write_blob_fails one_fault_def)
  have "record_provider_tool_result_with_metadata cd job pid p q call_id result md ?w =
      (Inl fault_error, ?w4\<lparr>w_ticks := Suc (w_ticks w), w_ops := w_ops w + 7\<rparr>)"
    unfolding record_provider_tool_result_with_metadata_def Let_def
      io_bind_Inr [where m = "replay_provider_transcript_state job p q", OF start]
      option.case listed if_False io_bind_Inr [where m = "read_provider_messages cd job st", OF read]
      io_bind_Inr [where m = "write_blob job (transcript_dir ?t @ ''tool_'' @ safe_blob_name call_id @ ''.json'') (to_pretty cd (message_json ?m))", OF blob]
      io_bind_Inr [where m = "store_messages cd job pid p q ?t (ms @ [?m])", OF store] prod.case
    by (rule io_bind_Inl) (rule summary)
  then show thesis by (rule that) (simp_all add: one_fault_def)
qed

text \<open>
  A recording that is interrupted leaves its message in the visible transcript, and repeating it
  breaks the protocol. The messages are overwritten in place before the log is: when the write of the
  summary fails, the log is unchanged and the call still pending, yet the visible messages already end
  with the answer. If the recording is then repeated, it succeeds and the call is answered twice, so
  the visible messages violate the tool-call protocol.
\<close>

theorem interrupted_result_repeats:
  assumes "codec_reads_back cd" and "transcript_ok cd job p q w" and "visible_messages cd job p q w = Some ms"
    and "call_id \<in> set (open_calls ms)"
    and "fst (transcript_replay_of job p q w) = Some (blob_ref job (messages_file (transcript_id_for job p)))"
    and "\<not> over_threshold cd (ms @ [tool_transcript_message cd call_id result])"
  shows "\<exists>e w1. record_provider_tool_result cd job pid p q call_id result (one_fault (w_ops w + 6) w) = (Inl e, w1) \<and>
     log_of w1 job = log_of w job \<and>
     visible_messages cd job p q w1 = Some (ms @ [tool_transcript_message cd call_id result]) \<and>
     (\<exists>res w2 ms2. record_provider_tool_result cd job pid p q call_id result (after_faults w1) = (Inr res, w2) \<and>
        visible_messages cd job p q w2 = Some ms2 \<and> \<not> protocol_ok ms2)"
proof -
  let ?m = "tool_transcript_message cd call_id result"
  from pending_iff_open [OF assms(2,3), of call_id] assms(4) obtain st where
    st: "replayed_state job p q w = Some st" "call_id \<in> ts_provider_tool_call_id ` set (pt_pending_tool_calls st)" by blast
  from interrupted_tool_run [OF assms(3) st assms(6)] obtain w1 where
    run: "record_provider_tool_result cd job pid p q call_id result (one_fault (w_ops w + 6) w) = (Inl fault_error, w1)"
    and events: "w_events w1 = w_events w"
    and files: "w_files w1 (blob_path job (messages_file (transcript_id_for job p))) = Some (to_pretty cd (messages_json (ms @ [?m])))"
    unfolding record_provider_tool_result_def by blast
  note same = view_same_log [OF events, of job p q]
  have v1: "visible_messages cd job p q w1 = Some (ms @ [?m])"
    using visible_stored [OF assms(1), of "''messages.json''" job p q w1 "ms @ [?m]"] fixed_names_plain same assms(5) files
    by simp
  let ?w = "after_faults w1"
  have same2: "w_events ?w = w_events w" "w_files ?w = w_files w1" "no_faults ?w"
    using events by (simp_all add: after_faults_def no_faults_def)
  note view = view_same_log [OF same2(1), of job p q]
  have v: "visible_messages cd job p q ?w = Some (ms @ [?m])"
    using visible_stored [OF assms(1), of "''messages.json''" job p q ?w "ms @ [?m]"] fixed_names_plain view assms(5) files same2(2)
    by simp
  have p: "replayed_state job p q ?w = Some st" using st(1) view by simp
  from record_tool_succeeds [OF same2(3) v p st(2), of pid result
      "\<lparr>rm_provider_tool_call_index = None, rm_provider_tool_batch_id = None\<rparr>"]
  obtain res w2 where again: "record_provider_tool_result cd job pid p q call_id result ?w = (Inr res, w2)"
    by (auto simp: record_provider_tool_result_def)
  from record_tool_effect [OF again [unfolded record_provider_tool_result_def] assms(1)] v
  have "visible_messages cd job p q w2 = Some (stored_form cd ((ms @ [?m]) @ [?m]))" by auto
  moreover have "\<not> protocol_ok (stored_form cd ((ms @ [?m]) @ [?m]))"
    by (simp only: stored_form_same protocol_ok_snoc) (simp add: tool_message open_calls_def)
  moreover have "log_of w1 job = log_of w job" using events by simp
  ultimately show ?thesis using run v1 again by blast
qed

section \<open>Witnesses\<close>

lemma demo_codec_reads_back: "codec_reads_back demo_codec"
  by (simp add: codec_reads_back_def demo_codec_reads)

definition demo_call :: provider_tool_call where
  "demo_call = \<lparr>tc_id = ''c1'', tc_type = ''function'', tc_function = Null\<rparr>"

definition demo_assistant :: provider_assistant_message where
  "demo_assistant = \<lparr>pa_role = ''assistant'', pa_content = None, pa_reasoning_content = None, pa_tool_calls = [demo_call]\<rparr>"

definition demo_response :: model_provider_response where
  "demo_response = \<lparr>mr_output_text = [], mr_assistant_message = Some demo_assistant, mr_reasoning_content = None,
     mr_tool_calls = [], mr_usage = Null, mr_finish_reason = None, mr_raw = Null, mr_sampling_ignored_by_provider = False,
     mr_streaming = False, mr_first_token_ms = None, mr_chunks_count = 0, mr_stream_event_count = 0,
     mr_first_byte_timeout_ms = None, mr_idle_timeout_ms = None, mr_max_wall_time_ms = None\<rparr>"

definition demo_messages :: "transcript_message list" where
  "demo_messages = [assistant_transcript_message demo_assistant]"

lemma estimate_le: "estimate_text_tokens_conservative s \<le> length s"
proof (cases "s = []")
  case False
  then have "(length s + 3) div 4 \<le> length s" by (cases s) simp_all
  then show ?thesis by (simp add: estimate_text_tokens_conservative_def char_count_def)
qed (simp add: estimate_text_tokens_conservative_def)

lemma demo_short_messages:
  "length (json_code (message_json (assistant_transcript_message demo_assistant))) \<le> 1000"
  "length (json_code (message_json (tool_transcript_message demo_codec ''c1'' Null))) \<le> 1000"
  by (simp_all add: message_json_def assistant_transcript_message_def demo_assistant_def demo_call_def jobj_def
      opt_field_def jopt_def tool_call_json_def tool_transcript_message_def provider_tool_result_content_def demo_codec_def)

lemma demo_short:
  "\<not> over_threshold demo_codec demo_messages"
  "\<not> over_threshold demo_codec (demo_messages @ [tool_transcript_message demo_codec ''c1'' Null])"
proof -
  have e: "to_string demo_codec = json_code" by (simp add: demo_codec_def)
  note short = order_trans [OF estimate_le demo_short_messages(1)] order_trans [OF estimate_le demo_short_messages(2)]
  show "\<not> over_threshold demo_codec demo_messages"
    "\<not> over_threshold demo_codec (demo_messages @ [tool_transcript_message demo_codec ''c1'' Null])"
    using short by (simp_all add: over_threshold_def estimate_messages_tokens_def demo_messages_def e)
qed

lemma demo_fresh_calls: "fresh_calls [] demo_assistant"
proof -
  have "trim ''c1'' \<noteq> []" by code_simp
  then show ?thesis by (simp add: fresh_calls_def demo_assistant_def demo_call_def)
qed

lemma demo_empty: "visible_messages cd job p q demo_world = Some []"
  by (simp add: visible_messages_def transcript_replay_of_def view_replay_def job_view_def demo_log)

lemma demo_open: "open_calls demo_messages = [''c1'']"
  by (simp add: demo_messages_def demo_assistant_def demo_call_def open_calls_def message_calls_def message_answers_def
      assistant_transcript_message_def)

text \<open>A transcript with one open call.\<close>

lemma demo_transcript:
  obtains w where "transcript_steps demo_codec ''j'' ''deepseek'' q demo_world w" "no_faults w"
    "transcript_ok demo_codec ''j'' ''deepseek'' q w"
    "visible_messages demo_codec ''j'' ''deepseek'' q w = Some demo_messages"
    "fst (transcript_replay_of ''j'' ''deepseek'' q w) = Some (blob_ref ''j'' (messages_file (transcript_id_for ''j'' ''deepseek'')))"
proof -
  have r: "response_message demo_response = Some demo_assistant" by (simp add: response_message_def demo_response_def)
  from record_assistant_succeeds [OF demo_no_faults demo_empty r] obtain res w where
    run: "record_provider_assistant_response demo_codec ''j'' ''p'' ''deepseek'' q ''m'' demo_response True demo_world =
      (Inr (Some res), w)" and nf: "no_faults w" by metis
  have step: "transcript_step demo_codec ''j'' ''deepseek'' q demo_world w"
    by (rule transcript_step.assistant [OF run r demo_empty demo_fresh_calls])
  from record_assistant_effect [OF run demo_codec_reads_back] r demo_empty [of demo_codec "''j''" "''deepseek''" "q"]
  have v: "visible_messages demo_codec ''j'' ''deepseek'' q w = Some (stored_form demo_codec demo_messages)"
    "fst (transcript_replay_of ''j'' ''deepseek'' q w) = Some (blob_ref ''j'' (messages_file (transcript_id_for ''j'' ''deepseek'')))"
    by (auto simp: demo_messages_def)
  from v(1) demo_short(1) have "visible_messages demo_codec ''j'' ''deepseek'' q w = Some demo_messages"
    by (simp add: stored_form_def)
  then show thesis
    using that [OF _ nf _ _ v(2)] step transcript_step_ok [OF demo_codec_reads_back step transcript_ok_empty [OF demo_log]]
    by blast
qed

theorem recordings_keep_protocol_witness:
  "\<exists>w. transcript_steps demo_codec ''j'' ''deepseek'' ''q'' demo_world w \<and>
     map ts_provider_tool_call_id (active_calls (snd (transcript_replay_of ''j'' ''deepseek'' ''q'' w))) = [''c1'']"
proof -
  obtain w where w: "transcript_steps demo_codec ''j'' ''deepseek'' ''q'' demo_world w"
    "visible_messages demo_codec ''j'' ''deepseek'' ''q'' w = Some demo_messages" by (rule demo_transcript)
  from recordings_keep_protocol [OF demo_codec_reads_back demo_log w(1)] w(2) demo_open w(1) show ?thesis by auto
qed

theorem result_needs_pending_call_witness:
  "\<exists>w res w' e w''. record_provider_tool_result demo_codec ''j'' ''p'' ''deepseek'' ''q'' ''c1'' Null w = (Inr res, w') \<and>
     record_provider_tool_result demo_codec ''j'' ''p'' ''deepseek'' ''q'' ''c2'' Null w = (Inl e, w'') \<and>
     w_events w'' = w_events w"
proof -
  obtain w where w: "no_faults w" "transcript_ok demo_codec ''j'' ''deepseek'' ''q'' w"
    "visible_messages demo_codec ''j'' ''deepseek'' ''q'' w = Some demo_messages" by (rule demo_transcript)
  have c: "''c1'' \<in> set (open_calls demo_messages)" "''c2'' \<notin> set (open_calls demo_messages)" by (simp_all add: demo_open)
  from result_needs_pending_call [OF w(2,1), of "''p''" "''c1''" Null] w(3) c(1) obtain res w' where
    "record_provider_tool_result demo_codec ''j'' ''p'' ''deepseek'' ''q'' ''c1'' Null w = (Inr res, w')"
    by (metis option.inject)
  moreover obtain r w'' where r: "record_provider_tool_result demo_codec ''j'' ''p'' ''deepseek'' ''q'' ''c2'' Null w = (r, w'')"
    by (cases "record_provider_tool_result demo_codec ''j'' ''p'' ''deepseek'' ''q'' ''c2'' Null w")
  moreover from result_needs_pending_call [OF w(2,1), of "''p''" "''c2''" Null] w(3) c(2) r obtain e where
    "r = Inl e" "w_events w'' = w_events w"
    by (cases r) (metis option.inject, metis option.inject)
  ultimately show ?thesis by blast
qed

theorem interrupted_result_repeats_witness:
  "\<exists>w e w1. transcript_ok demo_codec ''j'' ''deepseek'' ''q'' w \<and>
     record_provider_tool_result demo_codec ''j'' ''p'' ''deepseek'' ''q'' ''c1'' Null (one_fault (w_ops w + 6) w) = (Inl e, w1) \<and>
     log_of w1 ''j'' = log_of w ''j'' \<and>
     visible_messages demo_codec ''j'' ''deepseek'' ''q'' w1 =
       Some (demo_messages @ [tool_transcript_message demo_codec ''c1'' Null])"
proof -
  obtain w where w: "transcript_ok demo_codec ''j'' ''deepseek'' ''q'' w"
    "visible_messages demo_codec ''j'' ''deepseek'' ''q'' w = Some demo_messages"
    "fst (transcript_replay_of ''j'' ''deepseek'' ''q'' w) = Some (blob_ref ''j'' (messages_file (transcript_id_for ''j'' ''deepseek'')))"
    by (rule demo_transcript)
  have "''c1'' \<in> set (open_calls demo_messages)" by (simp add: demo_open)
  from interrupted_result_repeats [OF demo_codec_reads_back w(1,2) this w(3) demo_short(2), of "''p''"] w(1) show ?thesis by blast
qed

theorem live_suffix_follows_protocol_witness:
  "protocol_ok (replacement_messages ''s'' demo_messages [request_item ''r'' demo_call] 0) \<and>
   open_calls (replacement_messages ''s'' demo_messages [request_item ''r'' demo_call] 0) = [''c1'']"
proof -
  obtain w where w: "transcript_ok demo_codec ''j'' ''deepseek'' ''q'' w"
    "visible_messages demo_codec ''j'' ''deepseek'' ''q'' w = Some demo_messages" by (rule demo_transcript)
  have "map ts_provider_tool_call_id [request_item ''r'' demo_call] = open_calls demo_messages"
    by (simp add: demo_open request_item_def demo_call_def)
  from live_suffix_follows_protocol [OF transcript_okE(1) [OF w] this] demo_open show ?thesis by simp
qed

end
