(* ===== verification/Product_Db.thy ===== *)
theory Product_Db
  imports Json Io_Result "HOL-Library.List_Lexorder"
begin

text \<open>
  The state of the product runtime (\<open>crates/product_runtime\<close>): the tables of its SQLite database
  that hold runs, runtime events and projection shards, the shard databases, the processes of its
  workers, and the environment it runs in. Opening a connection and executing a statement ask the
  environment (\<open>pd_fault\<close>) whether they fail and with which error; a failed one changes nothing,
  and a transaction takes effect at its commit. The clock is an arbitrary sequence of readings, and
  sleeping is counted. The retry loop of \<open>services/run_manager.rs\<close> is here as well.
\<close>

section \<open>Rows and state\<close>

text \<open>\<open>rusqlite::Error\<close>, as far as the code tells errors apart.\<close>

datatype sql_error = DatabaseBusy | DatabaseLocked | QueryReturnedNoRows | InvalidParameterName string
  | SqliteFailure string

text \<open>\<open>RunRecord\<close> of the local runtime protocol, a row of \<open>run_registry\<close>.\<close>

record run_record =
  rr_run_id :: string
  rr_workspace_uid :: string
  rr_container_id :: string
  rr_run_kind :: string
  rr_chat_thread_id :: "string option"
  rr_task_id :: "string option"
  rr_job_id :: "string option"
  rr_worker_id :: string
  rr_status :: string
  rr_cancel_requested :: bool
  rr_heartbeat_at_ms :: "nat option"
  rr_started_at_ms :: nat
  rr_updated_at_ms :: nat
  rr_error_message :: "string option"

text \<open>A row of \<open>runtime_event_log\<close>, and the record read from it.\<close>

record event_row =
  er_event_id :: string
  er_workspace_uid :: string
  er_partition_key :: string
  er_container_id :: "string option"
  er_run_id :: "string option"
  er_task_id :: "string option"
  er_chat_thread_id :: "string option"
  er_event_type :: string
  er_payload_json :: string
  er_created_at_ms :: nat
  er_cursor_seq :: int
  er_projection_status :: string

record runtime_event_record =
  re_event_id :: string
  re_workspace_uid :: string
  re_partition_key :: string
  re_container_id :: "string option"
  re_run_id :: "string option"
  re_task_id :: "string option"
  re_chat_thread_id :: "string option"
  re_event_type :: string
  re_payload :: json
  re_created_at_ms :: nat
  re_cursor_seq :: int
  re_projection_status :: string

text \<open>A row of \<open>projection_shards\<close>, and a row of \<open>runtime_events\<close> in a shard's own database.\<close>

record projection_shard_record =
  sh_shard_id :: string
  sh_workspace_uid :: string
  sh_container_id :: string
  sh_shard_kind :: string
  sh_chat_thread_id :: "string option"
  sh_task_id :: "string option"
  sh_job_id :: "string option"
  sh_relative_db_path :: string
  sh_status :: string
  sh_created_at_ms :: nat
  sh_updated_at_ms :: nat

record shard_event_row =
  se_event_id :: string
  se_event_type :: string
  se_payload_json :: string
  se_created_at_ms :: nat
  se_cursor_seq :: int

text \<open>A row of a \<open>messages\<close> table, in the product database or in a shard.\<close>

record message_row =
  mg_message_id :: string
  mg_workspace_uid :: string
  mg_container_id :: string
  mg_lane :: string
  mg_role :: string
  mg_message_type :: string
  mg_status :: string
  mg_title :: "string option"
  mg_body_text :: "string option"
  mg_body_json :: string
  mg_card_json :: string
  mg_chat_thread_id :: "string option"
  mg_task_id :: "string option"
  mg_job_id :: "string option"
  mg_source_kind :: string
  mg_source_ref :: string
  mg_source_seq :: "int option"
  mg_created_at_ms :: nat
  mg_updated_at_ms :: nat
  mg_sort_key :: string

text \<open>The database of a shard; \<open>run_state\<close> rows are run id, status and time.\<close>

record shard_db =
  sd_messages :: "message_row list"
  sd_events :: "shard_event_row list"
  sd_run_state :: "(string \<times> string \<times> nat) list"

text \<open>
  \<open>pd_shard_dbs\<close> maps the path of a shard database, relative to the state root, to its tables;
  \<open>pd_active\<close> holds the runs with a registered worker process, \<open>pd_killed\<close> the runs whose process
  was sent a kill.
\<close>

record product =
  pd_workspace_uid :: string
  pd_runs :: "run_record list"
  pd_events :: "event_row list"
  pd_shards :: "projection_shard_record list"
  pd_messages :: "message_row list"
  pd_shard_dbs :: "string \<Rightarrow> shard_db option"
  pd_run_counter :: nat
  pd_worker_counter :: nat
  pd_message_counter :: nat
  pd_active :: "string list"
  pd_killed :: "string list"
  pd_slept :: nat
  pd_clock :: "nat \<Rightarrow> nat"
  pd_ticks :: nat
  pd_fault :: "nat \<Rightarrow> sql_error option"
  pd_ops :: nat

type_synonym 'a sql = "(product, sql_error, 'a) fallible"

section \<open>Statements\<close>

definition sql_now :: "(product, 'e, nat) fallible" where
  "sql_now = (\<lambda>w. (Inr (pd_clock w (pd_ticks w)), w\<lparr>pd_ticks := Suc (pd_ticks w)\<rparr>))"

definition put_product :: "(product \<Rightarrow> product) \<Rightarrow> (product, 'e, unit) fallible" where
  "put_product f = (\<lambda>w. (Inr (), f w))"

definition sql_step :: "unit sql" where
  "sql_step = (\<lambda>w.
     let w' = w\<lparr>pd_ops := Suc (pd_ops w)\<rparr>
     in case pd_fault w (pd_ops w) of Some e \<Rightarrow> (Inl e, w') | None \<Rightarrow> (Inr (), w'))"

text \<open>A connection and one statement: a query, or an update of the tables.\<close>

definition sql_query :: "(product \<Rightarrow> 'a) \<Rightarrow> 'a sql" where
  "sql_query f = io_bind sql_step (\<lambda>_. io_bind sql_step (\<lambda>_. io_bind io_get (\<lambda>w. io_return (f w))))"

definition sql_execute :: "(product \<Rightarrow> product) \<Rightarrow> unit sql" where
  "sql_execute f = io_bind sql_step (\<lambda>_. io_bind sql_step (\<lambda>_. put_product f))"

lemma put_product_apply [io_simps]: "put_product f w = (Inr (), f w)"
  by (simp add: put_product_def)

lemma sql_now_apply [io_simps]: "sql_now w = (Inr (pd_clock w (pd_ticks w)), w\<lparr>pd_ticks := Suc (pd_ticks w)\<rparr>)"
  by (simp add: sql_now_def)

text \<open>What a step can change, whether it fails or not: the counters of the environment.\<close>

definition env_of :: "product \<Rightarrow> product" where
  "env_of w = w\<lparr>pd_ops := 0, pd_ticks := 0, pd_slept := 0\<rparr>"

definition same_store :: "product \<Rightarrow> product \<Rightarrow> bool" where
  "same_store w w' \<longleftrightarrow> env_of w' = env_of w"

lemma same_store_refl [simp]: "same_store w w"
  by (simp add: same_store_def)

lemma same_store_trans: "same_store w w' \<Longrightarrow> same_store w' w'' \<Longrightarrow> same_store w w''"
  by (simp add: same_store_def)

lemma same_store_fields:
  assumes "same_store w w'"
  shows "pd_runs w' = pd_runs w" "pd_events w' = pd_events w" "pd_shards w' = pd_shards w"
    "pd_shard_dbs w' = pd_shard_dbs w" "pd_messages w' = pd_messages w"
    "pd_message_counter w' = pd_message_counter w" "pd_run_counter w' = pd_run_counter w"
    "pd_worker_counter w' = pd_worker_counter w" "pd_active w' = pd_active w" "pd_killed w' = pd_killed w"
    "pd_workspace_uid w' = pd_workspace_uid w" "pd_clock w' = pd_clock w" "pd_fault w' = pd_fault w"
  using assms by (cases w; cases w'; simp add: same_store_def env_of_def)+

lemma same_store_step: "sql_step w = (r, w') \<Longrightarrow> same_store w w'"
  by (auto simp: sql_step_def same_store_def env_of_def Let_def split: option.splits)

lemma same_store_now: "sql_now w = (r, w') \<Longrightarrow> same_store w w'"
  by (auto simp: sql_now_def same_store_def env_of_def)

lemma sql_query_cases:
  assumes "sql_query f w = (r, w')"
  shows "same_store w w' \<and> (\<forall>x. r = Inr x \<longrightarrow> (\<exists>v. same_store w v \<and> x = f v))"
proof -
  obtain r1 w1 where 1: "sql_step w = (r1, w1)" by (cases "sql_step w")
  obtain r2 w2 where 2: "sql_step w1 = (r2, w2)" by (cases "sql_step w1")
  note s = same_store_step [OF 1] same_store_trans [OF same_store_step [OF 1] same_store_step [OF 2]]
  from assms 1 2 s show ?thesis
    by (cases r1; cases r2) (auto simp: sql_query_def io_bind_def io_get_apply io_return_apply)
qed

lemma sql_execute_cases:
  assumes "sql_execute f w = (r, w')"
  shows "(r = Inr () \<and> (\<exists>v. same_store w v \<and> w' = f v)) \<or> (\<exists>e. r = Inl e \<and> same_store w w')"
proof -
  obtain r1 w1 where 1: "sql_step w = (r1, w1)" by (cases "sql_step w")
  obtain r2 w2 where 2: "sql_step w1 = (r2, w2)" by (cases "sql_step w1")
  note s = same_store_step [OF 1] same_store_trans [OF same_store_step [OF 1] same_store_step [OF 2]]
  from assms 1 2 s show ?thesis
    by (cases r1; cases r2) (auto simp: sql_execute_def io_bind_def put_product_apply)
qed

text \<open>\<open>SELECT ... WHERE\<close> on a primary key, and \<open>ORDER BY updated_at_ms DESC, key DESC\<close>.\<close>

definition query_row :: "('r \<Rightarrow> bool) \<Rightarrow> 'r list \<Rightarrow> sql_error + 'r" where
  "query_row P rows = (case find P rows of None \<Rightarrow> Inl QueryReturnedNoRows | Some r \<Rightarrow> Inr r)"

definition newest_first :: "('r \<Rightarrow> nat) \<Rightarrow> ('r \<Rightarrow> string) \<Rightarrow> 'r list \<Rightarrow> 'r list" where
  "newest_first updated key rows = rev (sort_key updated (sort_key key rows))"

lemma set_newest_first [simp]: "set (newest_first updated key rows) = set rows"
  by (simp add: newest_first_def)

section \<open>Retrying a busy database\<close>

definition is_sqlite_lock_error :: "sql_error \<Rightarrow> bool" where
  "is_sqlite_lock_error e \<longleftrightarrow> e = DatabaseBusy \<or> e = DatabaseLocked"

definition sleep_ms :: "nat \<Rightarrow> product \<Rightarrow> product" where
  "sleep_ms delay w = w\<lparr>pd_slept := pd_slept w + delay\<rparr>"

fun retry_loop :: "nat \<Rightarrow> nat \<Rightarrow> sql_error option \<Rightarrow> 'a sql \<Rightarrow> 'a sql" where
  "retry_loop 0 delay last_busy action =
     io_fail (unwrap_or (InvalidParameterName ''sqlite busy retry exhausted'') last_busy)"
| "retry_loop (Suc n) delay last_busy action = (\<lambda>w.
     case action w of
       (Inr x, w') \<Rightarrow> (Inr x, w')
     | (Inl e, w') \<Rightarrow>
         if is_sqlite_lock_error e then retry_loop n (min (delay * 2) 400) (Some e) action (sleep_ms delay w')
         else (Inl e, w'))"

definition retry_sqlite_busy :: "'a sql \<Rightarrow> 'a sql" where
  "retry_sqlite_busy action = retry_loop 8 25 None action"

text \<open>The attempts a retried action makes: the state each one starts from.\<close>

fun busy_state :: "'a sql \<Rightarrow> nat \<Rightarrow> product \<Rightarrow> nat \<Rightarrow> product" where
  "busy_state action delay w 0 = w"
| "busy_state action delay w (Suc k) = busy_state action (min (delay * 2) 400) (sleep_ms delay (snd (action w))) k"

definition busy_at :: "'a sql \<Rightarrow> product \<Rightarrow> bool" where
  "busy_at action w \<longleftrightarrow> (\<exists>e. fst (action w) = Inl e \<and> is_sqlite_lock_error e)"

lemma retry_loop_first:
  assumes "k < n" and "\<forall>j < k. busy_at action (busy_state action delay w j)" and "\<not> busy_at action (busy_state action delay w k)"
  shows "retry_loop n delay l action w = action (busy_state action delay w k)"
  using assms
proof (induction k arbitrary: n delay w l)
  case 0
  then obtain m where "n = Suc m" by (cases n) auto
  with 0 show ?case by (cases "action w") (auto simp: busy_at_def split: sum.split)
next
  case (Suc k)
  then obtain m where n: "n = Suc m" by (cases n) auto
  from Suc.prems(2) have "busy_at action (busy_state action delay w 0)" by blast
  then obtain e w' where a: "action w = (Inl e, w')" "is_sqlite_lock_error e"
    by (cases "action w") (auto simp: busy_at_def)
  let ?d = "min (delay * 2) 400" and ?w = "sleep_ms delay w'"
  have "\<forall>j < k. busy_at action (busy_state action ?d ?w j)" using Suc.prems(2) a by fastforce
  with Suc.IH [of m ?d ?w "Some e"] Suc.prems(1,3) a n show ?case by simp
qed

lemma retry_loop_exhausted:
  assumes "\<forall>j < n. busy_at action (busy_state action delay w j)"
  shows "\<exists>e. retry_loop n delay l action w = (Inl e, busy_state action delay w n) \<and>
     (n > 0 \<longrightarrow> is_sqlite_lock_error e)"
  using assms
proof (induction n arbitrary: delay w l)
  case 0
  then show ?case by (simp add: io_fail_apply)
next
  case (Suc n)
  from Suc.prems have "busy_at action (busy_state action delay w 0)" by blast
  then obtain e w' where a: "action w = (Inl e, w')" "is_sqlite_lock_error e"
    by (cases "action w") (auto simp: busy_at_def)
  let ?d = "min (delay * 2) 400" and ?w = "sleep_ms delay w'"
  have "\<forall>j < n. busy_at action (busy_state action ?d ?w j)" using Suc.prems a by fastforce
  from Suc.IH [OF this, of "Some e"] a show ?case by (cases n) (auto simp: io_fail_apply)
qed

text \<open>The time slept before an attempt, when the action itself does not sleep.\<close>

fun busy_sleep :: "nat \<Rightarrow> nat \<Rightarrow> nat" where
  "busy_sleep delay 0 = 0"
| "busy_sleep delay (Suc k) = delay + busy_sleep (min (delay * 2) 400) k"

lemma busy_state_slept:
  assumes "\<And>w. pd_slept (snd (action w)) = pd_slept w"
  shows "pd_slept (busy_state action delay w k) = pd_slept w + busy_sleep delay k"
  by (induction k arbitrary: delay w) (simp_all add: assms sleep_ms_def)

lemma busy_sleep_mono: "j \<le> k \<Longrightarrow> busy_sleep delay j \<le> busy_sleep delay k"
proof (induction k arbitrary: delay j)
  case (Suc k)
  then show ?case by (cases j) auto
qed simp

lemma busy_sleep_8: "busy_sleep 25 8 = 1975"
  by code_simp

text \<open>A relation every attempt keeps is kept by the retries, when sleeping keeps it too.\<close>

lemma retry_keeps:
  assumes "\<And>w d. R w (sleep_ms d w)" and "transp R" and "reflp R" and "io_keeps R action"
  shows "io_keeps R (retry_sqlite_busy action)"
proof -
  have "R w (snd (retry_loop n delay l action w))" for n delay l w
  proof (induction n arbitrary: delay l w)
    case 0
    from \<open>reflp R\<close> show ?case by (simp add: io_fail_apply reflp_def)
  next
    case (Suc n)
    obtain r w' where a: "action w = (r, w')" by (cases "action w")
    with assms(4) have 1: "R w w'" by (metis io_keepsD)
    show ?case
    proof (cases r)
      case (Inl e)
      let ?w = "sleep_ms delay w'"
      have "R w (snd (retry_loop n (min (delay * 2) 400) (Some e) action ?w))"
        using 1 assms(1) [of w' delay] Suc.IH [where delay = "min (delay * 2) 400" and l = "Some e" and w = ?w] \<open>transp R\<close> by (meson transpD)
      with 1 a Inl show ?thesis by simp
    next
      case (Inr x)
      with 1 a show ?thesis by simp
    qed
  qed
  then show ?thesis by (simp add: io_keeps_def retry_sqlite_busy_def)
qed

text \<open>What a retried action returns is what one of its runs returned.\<close>

lemma retry_success:
  assumes "retry_sqlite_busy action w = (Inr x, w')"
  shows "\<exists>k < 8. action (busy_state action 25 w k) = (Inr x, w') \<and> (\<forall>j < k. busy_at action (busy_state action 25 w j))"
proof (cases "\<forall>j < 8. busy_at action (busy_state action 25 w j)")
  case True
  from retry_loop_exhausted [OF this, of None] assms show ?thesis by (auto simp: retry_sqlite_busy_def)
next
  case False
  then obtain k where "k < 8" "\<not> busy_at action (busy_state action 25 w k)" by blast
  define m where "m = (LEAST k. \<not> busy_at action (busy_state action 25 w k))"
  have m: "\<not> busy_at action (busy_state action 25 w m)" "\<forall>j < m. busy_at action (busy_state action 25 w j)"
    unfolding m_def using False by (metis (mono_tags, lifting) LeastI, metis (mono_tags, lifting) not_less_Least)
  with \<open>k < 8\<close> \<open>\<not> busy_at action (busy_state action 25 w k)\<close> have "m < 8"
    by (metis not_less_iff_gr_or_eq order.strict_trans)
  from retry_loop_first [OF this m(2,1), of None] assms m \<open>m < 8\<close> show ?thesis by (auto simp: retry_sqlite_busy_def)
qed

end
