(* ===== verification/Paging.thy ===== *)
theory Paging
  imports Main
begin

text \<open>
  Reading a feed page by page: a page holds the rows after a cursor, at most a limit of them (the store may bound it), and
  the cursor of its last row is where the next page starts. The locale states what a store promises
  of its pages; the reader that follows the cursors then reads every row once.
\<close>

fun read_pages :: "(int \<Rightarrow> nat \<Rightarrow> 'r list) \<Rightarrow> ('r \<Rightarrow> int) \<Rightarrow> nat \<Rightarrow> int \<Rightarrow> nat \<Rightarrow> 'r list" where
  "read_pages page cursor 0 after lim = []"
| "read_pages page cursor (Suc k) after lim =
     (let rows = page after lim
      in if rows = [] then [] else rows @ read_pages page cursor k (cursor (last rows)) lim)"

locale cursor_feed =
  fixes ok :: "'s \<Rightarrow> bool" and feed :: "'s \<Rightarrow> 'r list" and cursor :: "'r \<Rightarrow> int"
    and page :: "'s \<Rightarrow> int \<Rightarrow> nat \<Rightarrow> 'r list" and bound :: "nat \<Rightarrow> nat"
  assumes increasing: "ok s \<Longrightarrow> sorted_wrt (\<lambda>a b. cursor a < cursor b) (feed s)"
    and page_rows: "ok s \<Longrightarrow> page s after lim = take (bound lim) (filter (\<lambda>r. after < cursor r) (feed s))"
begin

lemma after_last:
  "sorted_wrt (\<lambda>a b. cursor a < cursor b) (us @ v # vs) \<Longrightarrow>
     filter (\<lambda>r. cursor v < cursor r) (us @ v # vs) = vs"
  by (force simp: sorted_wrt_append filter_empty_conv filter_id_conv)

lemma next_rows:
  assumes "ok s" and "rows = page s after lim" and "rows \<noteq> []"
  shows "filter (\<lambda>r. after < cursor r) (feed s) = rows @ filter (\<lambda>r. cursor (last rows) < cursor r) (feed s)"
proof -
  let ?xs = "filter (\<lambda>r. after < cursor r) (feed s)"
  have sorted: "sorted_wrt (\<lambda>a b. cursor a < cursor b) ?xs"
    using increasing [OF assms(1)] by (rule sorted_wrt_filter)
  from assms page_rows [OF assms(1)] have "rows = take (bound lim) ?xs" by simp
  then have split: "?xs = butlast rows @ last rows # drop (bound lim) ?xs"
    using assms(3) by (metis append_Cons append_Nil append_assoc append_butlast_last_id append_take_drop_id)
  then have "last rows \<in> set ?xs" by (metis in_set_conv_decomp)
  then have after: "after < cursor (last rows)" by simp
  have "filter (\<lambda>r. cursor (last rows) < cursor r) (feed s) = filter (\<lambda>r. cursor (last rows) < cursor r) ?xs"
    unfolding filter_filter using after by (intro filter_cong) auto
  also have "\<dots> = drop (bound lim) ?xs" using after_last [of "butlast rows" "last rows" "drop (bound lim) ?xs"] sorted split by simp
  finally show ?thesis using split assms(3) by (metis append_Cons append_Nil append_assoc append_butlast_last_id)
qed

lemma pages_read_all:
  assumes "ok s" and "0 < bound lim" and "length (filter (\<lambda>r. after < cursor r) (feed s)) \<le> k"
  shows "read_pages (page s) cursor k after lim = filter (\<lambda>r. after < cursor r) (feed s)"
  using assms(3)
proof (induction k arbitrary: after)
  case (Suc k)
  let ?rows = "page s after lim"
  show ?case
  proof (cases "?rows = []")
    case True
    with page_rows [OF assms(1), of after lim] assms(2) show ?thesis by (simp add: Let_def)
  next
    case False
    note n = next_rows [OF assms(1) refl False]
    have "length (filter (\<lambda>r. after < cursor r) (feed s)) =
        length ?rows + length (filter (\<lambda>r. cursor (last ?rows) < cursor r) (feed s))"
      by (subst n) simp
    moreover from False have "length ?rows > 0" by simp
    ultimately have "length (filter (\<lambda>r. cursor (last ?rows) < cursor r) (feed s)) \<le> k"
      using Suc.prems by linarith
    from Suc.IH [OF this] n False show ?thesis by (simp add: Let_def)
  qed
qed simp

end

end
