(* ===== verification/Run_Registry.thy ===== *)
theory Run_Registry
  imports Product_Db Paging
begin

text \<open>
  \<open>state/run_registry.rs\<close> and \<open>state/runtime_event_log.rs\<close> of the product runtime: the registry of
  chat and task runs and the append-only log of runtime events, with the invariants of both tables.
\<close>

section \<open>The registry of runs\<close>

definition FINISHED_STATUSES :: "string list" where
  "FINISHED_STATUSES = [''completed'', ''failed'', ''blocked'', ''cancelled'']"

record new_run =
  nr_container_id :: string
  nr_run_kind :: string
  nr_chat_thread_id :: "string option"
  nr_task_id :: "string option"
  nr_job_id :: "string option"
  nr_worker_id :: string

definition get_run :: "string \<Rightarrow> run_record sql" where
  "get_run run_id = io_bind (sql_query (\<lambda>w. query_row (\<lambda>r. rr_run_id r = run_id) (pd_runs w))) io_lift"

definition next_run_id :: "string sql" where
  "next_run_id = io_bind sql_now (\<lambda>now. io_bind io_get (\<lambda>w.
     io_bind (put_product (\<lambda>w. w\<lparr>pd_run_counter := Suc (pd_run_counter w)\<rparr>)) (\<lambda>_.
     io_return (''run_'' @ dec now @ ''_'' @ dec (pd_run_counter w)))))"

text \<open>\<open>INSERT INTO run_registry\<close>: the run id is the primary key.\<close>

definition insert_run :: "new_run \<Rightarrow> run_record sql" where
  "insert_run run =
     io_bind next_run_id (\<lambda>run_id. io_bind sql_now (\<lambda>now. io_bind sql_step (\<lambda>_. io_bind sql_step (\<lambda>_.
     io_bind io_get (\<lambda>w.
     if run_id \<in> rr_run_id ` set (pd_runs w)
     then io_fail (SqliteFailure ''UNIQUE constraint failed: run_registry.run_id'')
     else
      io_bind (put_product (\<lambda>w. w\<lparr>pd_runs := pd_runs w @
        [\<lparr>rr_run_id = run_id, rr_workspace_uid = pd_workspace_uid w, rr_container_id = nr_container_id run,
          rr_run_kind = nr_run_kind run, rr_chat_thread_id = nr_chat_thread_id run, rr_task_id = nr_task_id run,
          rr_job_id = nr_job_id run, rr_worker_id = nr_worker_id run, rr_status = ''queued'',
          rr_cancel_requested = False, rr_heartbeat_at_ms = None, rr_started_at_ms = now,
          rr_updated_at_ms = now, rr_error_message = None\<rparr>]\<rparr>)) (\<lambda>_.
      get_run run_id))))))"

definition list_runs :: "string option \<Rightarrow> run_record list sql" where
  "list_runs container_id = sql_query (\<lambda>w. newest_first rr_updated_at_ms rr_run_id
     (case container_id of None \<Rightarrow> pd_runs w
      | Some c \<Rightarrow> filter (\<lambda>r. rr_container_id r = c) (pd_runs w)))"

text \<open>\<open>UPDATE run_registry SET ... WHERE ...\<close>, and the number of rows it changed.\<close>

definition update_runs :: "(run_record \<Rightarrow> bool) \<Rightarrow> (run_record \<Rightarrow> run_record) \<Rightarrow> run_record list \<Rightarrow> run_record list" where
  "update_runs P f rows = map (\<lambda>r. if P r then f r else r) rows"

definition execute_update :: "(run_record \<Rightarrow> bool) \<Rightarrow> (run_record \<Rightarrow> run_record) \<Rightarrow> nat sql" where
  "execute_update P f =
     io_bind sql_step (\<lambda>_. io_bind sql_step (\<lambda>_. io_bind io_get (\<lambda>w.
     io_bind (put_product (\<lambda>w. w\<lparr>pd_runs := update_runs P f (pd_runs w)\<rparr>)) (\<lambda>_.
     io_return (length (filter P (pd_runs w)))))))"

definition update_run_status :: "string \<Rightarrow> string \<Rightarrow> string option \<Rightarrow> run_record sql" where
  "update_run_status run_id status error_message =
     io_bind sql_now (\<lambda>now.
     io_bind (execute_update (\<lambda>r. rr_run_id r = run_id)
       (\<lambda>r. r\<lparr>rr_status := status, rr_updated_at_ms := now, rr_error_message := error_message\<rparr>)) (\<lambda>_.
     get_run run_id))"

definition update_run_worker :: "string \<Rightarrow> string \<Rightarrow> run_record sql" where
  "update_run_worker run_id worker_id =
     io_bind sql_now (\<lambda>now.
     io_bind (execute_update (\<lambda>r. rr_run_id r = run_id)
       (\<lambda>r. r\<lparr>rr_worker_id := worker_id, rr_updated_at_ms := now\<rparr>)) (\<lambda>_.
     get_run run_id))"

definition heartbeat_run :: "string \<Rightarrow> run_record option sql" where
  "heartbeat_run run_id =
     io_bind sql_now (\<lambda>now.
     io_bind (execute_update (\<lambda>r. rr_run_id r = run_id)
       (\<lambda>r. r\<lparr>rr_heartbeat_at_ms := Some now, rr_updated_at_ms := now\<rparr>)) (\<lambda>changed.
     if changed = 0 then io_return None else io_bind (get_run run_id) (\<lambda>r. io_return (Some r))))"

definition bind_run_task :: "string \<Rightarrow> string \<Rightarrow> string \<Rightarrow> run_record sql" where
  "bind_run_task run_id task_id job_id =
     io_bind sql_now (\<lambda>now.
     io_bind (execute_update (\<lambda>r. rr_run_id r = run_id)
       (\<lambda>r. r\<lparr>rr_task_id := Some task_id, rr_job_id := Some job_id, rr_updated_at_ms := now\<rparr>)) (\<lambda>_.
     get_run run_id))"

section \<open>Cancellation\<close>

definition cancellable :: "run_record \<Rightarrow> bool" where
  "cancellable r \<longleftrightarrow> rr_status r \<notin> set FINISHED_STATUSES"

definition cancel_row :: "nat \<Rightarrow> run_record \<Rightarrow> run_record" where
  "cancel_row now r = r\<lparr>rr_cancel_requested := True, rr_status := ''cancel_requested'', rr_updated_at_ms := now\<rparr>"

definition request_cancel_run :: "string \<Rightarrow> run_record option sql" where
  "request_cancel_run run_id =
     io_bind sql_now (\<lambda>now.
     io_bind (execute_update (\<lambda>r. rr_run_id r = run_id \<and> cancellable r) (cancel_row now)) (\<lambda>changed.
     if changed = 0
     then io_bind sql_step (\<lambda>_. io_bind io_get (\<lambda>w. io_return (find (\<lambda>r. rr_run_id r = run_id) (pd_runs w))))
     else io_bind (get_run run_id) (\<lambda>r. io_return (Some r))))"

definition request_cancel_runs_by :: "(run_record \<Rightarrow> string option) \<Rightarrow> string \<Rightarrow> run_record list sql" where
  "request_cancel_runs_by column v =
     io_bind sql_now (\<lambda>now.
     io_bind (execute_update (\<lambda>r. column r = Some v \<and> cancellable r) (cancel_row now)) (\<lambda>_.
     io_bind sql_step (\<lambda>_. io_bind io_get (\<lambda>w.
     io_return (newest_first rr_updated_at_ms rr_run_id (filter (\<lambda>r. column r = Some v) (pd_runs w)))))))"

definition request_cancel_task_runs :: "string \<Rightarrow> run_record list sql" where
  "request_cancel_task_runs task_id = request_cancel_runs_by rr_task_id task_id"

definition request_cancel_chat_runs :: "string \<Rightarrow> run_record list sql" where
  "request_cancel_chat_runs chat_thread_id = request_cancel_runs_by rr_chat_thread_id chat_thread_id"

section \<open>Repair\<close>

text \<open>\<open>lower(COALESCE(error_message, '')) LIKE '%database is locked%'\<close>.\<close>

definition locked_error :: "run_record \<Rightarrow> bool" where
  "locked_error r \<longleftrightarrow> str_contains (to_ascii_lowercase (unwrap_or [] (rr_error_message r))) ''database is locked''"

definition repair_row :: "string \<Rightarrow> string option \<Rightarrow> nat \<Rightarrow> run_record \<Rightarrow> run_record" where
  "repair_row terminal_status terminal_error now r =
     r\<lparr>rr_status := terminal_status, rr_cancel_requested := False, rr_updated_at_ms := now,
       rr_error_message := terminal_error\<rparr>"

definition repair_database_locked_task_runs :: "string \<Rightarrow> string \<Rightarrow> string \<Rightarrow> string option \<Rightarrow> nat sql" where
  "repair_database_locked_task_runs task_id job_id terminal_status terminal_error =
     io_bind sql_now (\<lambda>now.
     execute_update (\<lambda>r. (rr_task_id r = Some task_id \<or> rr_job_id r = Some job_id) \<and> rr_status r = ''failed'' \<and> locked_error r)
       (repair_row terminal_status terminal_error now))"

definition repair_stale_active_task_runs :: "string \<Rightarrow> string \<Rightarrow> string \<Rightarrow> string option \<Rightarrow> nat sql" where
  "repair_stale_active_task_runs task_id job_id terminal_status terminal_error =
     io_bind sql_now (\<lambda>now.
     execute_update (\<lambda>r. (rr_task_id r = Some task_id \<or> rr_job_id r = Some job_id) \<and>
         rr_status r \<in> {''queued'', ''running'', ''waiting_approval'', ''waiting_user'', ''cancel_requested''})
       (repair_row terminal_status terminal_error now))"

definition repair_database_locked_chat_runs :: "string \<Rightarrow> string \<Rightarrow> string option \<Rightarrow> nat sql" where
  "repair_database_locked_chat_runs chat_thread_id terminal_status terminal_error =
     io_bind sql_now (\<lambda>now.
     execute_update (\<lambda>r. rr_chat_thread_id r = Some chat_thread_id \<and> rr_status r = ''failed'' \<and> locked_error r)
       (repair_row terminal_status terminal_error now))"

section \<open>The runtime event log\<close>

definition row_to_runtime_event :: "json_codec \<Rightarrow> event_row \<Rightarrow> runtime_event_record" where
  "row_to_runtime_event cd r =
     \<lparr>re_event_id = er_event_id r, re_workspace_uid = er_workspace_uid r, re_partition_key = er_partition_key r,
      re_container_id = er_container_id r, re_run_id = er_run_id r, re_task_id = er_task_id r,
      re_chat_thread_id = er_chat_thread_id r, re_event_type = er_event_type r,
      re_payload = unwrap_or (Object []) (from_str cd (er_payload_json r)),
      re_created_at_ms = er_created_at_ms r, re_cursor_seq = er_cursor_seq r,
      re_projection_status = er_projection_status r\<rparr>"

text \<open>\<open>SELECT COALESCE(MAX(cursor_seq), 0) + 1\<close>.\<close>

definition next_cursor :: "('r \<Rightarrow> int) \<Rightarrow> 'r list \<Rightarrow> int" where
  "next_cursor cursor rows = (if rows = [] then 0 else Max (set (map cursor rows))) + 1"

text \<open>
  One transaction: begin, look the event up, and either commit and return it, or number, insert and
  read back a new row, and commit.
\<close>

definition append_runtime_event ::
  "json_codec \<Rightarrow> string \<Rightarrow> string \<Rightarrow> string option \<Rightarrow> string option \<Rightarrow> string option \<Rightarrow> string option \<Rightarrow> string \<Rightarrow>
   json \<Rightarrow> runtime_event_record sql" where
  "append_runtime_event cd event_id partition_key container_id run_id task_id chat_thread_id event_type payload =
     io_bind sql_step (\<lambda>_. io_bind sql_step (\<lambda>_. io_bind sql_step (\<lambda>_. io_bind io_get (\<lambda>w.
     case find (\<lambda>r. er_event_id r = event_id) (pd_events w) of
       Some existing \<Rightarrow> io_bind sql_step (\<lambda>_. io_return (row_to_runtime_event cd existing))
     | None \<Rightarrow>
        io_bind sql_step (\<lambda>_.
        let cursor_seq = next_cursor er_cursor_seq (pd_events w) in
        io_bind sql_now (\<lambda>created_at_ms.
        let row = \<lparr>er_event_id = event_id, er_workspace_uid = pd_workspace_uid w, er_partition_key = partition_key,
              er_container_id = container_id, er_run_id = run_id, er_task_id = task_id,
              er_chat_thread_id = chat_thread_id, er_event_type = event_type,
              er_payload_json = to_string cd payload, er_created_at_ms = created_at_ms,
              er_cursor_seq = cursor_seq, er_projection_status = ''pending''\<rparr>
        in
        io_bind sql_step (\<lambda>_. io_bind sql_step (\<lambda>_. io_bind sql_step (\<lambda>_.
        io_bind (put_product (\<lambda>w. w\<lparr>pd_events := pd_events w @ [row]\<rparr>)) (\<lambda>_.
        io_return (row_to_runtime_event cd row)))))))))))"

definition normalize_message_page_limit :: "nat option \<Rightarrow> nat" where
  "normalize_message_page_limit lim = min (unwrap_or 1000 lim) 1000"

text \<open>Without a cursor the newest rows are selected and put in order again.\<close>

definition events_page :: "event_row list \<Rightarrow> int option \<Rightarrow> nat \<Rightarrow> event_row list" where
  "events_page rows after lim =
     (case after of
        Some cursor \<Rightarrow> take lim (sort_key er_cursor_seq (filter (\<lambda>r. cursor < er_cursor_seq r) rows))
      | None \<Rightarrow> sort_key er_cursor_seq (take lim (rev (sort_key er_cursor_seq rows))))"

definition list_runtime_events_page :: "json_codec \<Rightarrow> int option \<Rightarrow> nat option \<Rightarrow> runtime_event_record list sql" where
  "list_runtime_events_page cd after_event_id lim =
     sql_query (\<lambda>w. map (row_to_runtime_event cd)
       (events_page (pd_events w) after_event_id (normalize_message_page_limit lim)))"

definition cursor_for_runtime_events :: "runtime_event_record list \<Rightarrow> int option" where
  "cursor_for_runtime_events events = (if events = [] then None else Some (re_cursor_seq (last events)))"

section \<open>Invariants of the tables\<close>

definition RUN_STATUSES :: "string list" where
  "RUN_STATUSES = [''queued'', ''running'', ''cancel_requested'', ''waiting_approval'', ''waiting_user''] @ FINISHED_STATUSES"

text \<open>
  Run ids are unique and every status is one of the nine.
\<close>

definition runs_ok :: "run_record list \<Rightarrow> bool" where
  "runs_ok rows \<longleftrightarrow> distinct (map rr_run_id rows) \<and> list_all (\<lambda>r. rr_status r \<in> set RUN_STATUSES) rows"

text \<open>
  A log table: the ids of its rows are unique, and the rows are numbered 1, 2, 3, ... in the order they
  were appended.
\<close>

definition numbered :: "('r \<Rightarrow> string) \<Rightarrow> ('r \<Rightarrow> int) \<Rightarrow> 'r list \<Rightarrow> bool" where
  "numbered key cursor rows \<longleftrightarrow> distinct (map key rows) \<and> map cursor rows = map int [1..<Suc (length rows)]"

abbreviation events_ok :: "event_row list \<Rightarrow> bool" where
  "events_ok \<equiv> numbered er_event_id er_cursor_seq"

lemma numbered_Nil [simp]: "numbered key cursor []"
  by (simp add: numbered_def)

lemma next_cursor_ok: "numbered key cursor rows \<Longrightarrow> next_cursor cursor rows = int (Suc (length rows))"
proof -
  assume ok: "numbered key cursor rows"
  have "Max (set (map cursor rows)) = int (length rows)" if "rows \<noteq> []"
    using ok that by (intro Max_eqI) (auto simp: numbered_def Suc_le_eq)
  with ok show ?thesis by (cases "rows = []") (simp_all add: next_cursor_def)
qed

lemma numbered_snoc:
  "numbered key cursor rows \<Longrightarrow> key r \<notin> key ` set rows \<Longrightarrow> cursor r = next_cursor cursor rows \<Longrightarrow>
   numbered key cursor (rows @ [r])"
  by (simp add: next_cursor_ok) (simp add: numbered_def)

lemma numbered_sorted:
  assumes "numbered key cursor rows"
  shows "sorted_wrt (\<lambda>a b. cursor a < cursor b) rows" and "sort_key cursor rows = rows"
proof -
  have s: "sorted_wrt (<) (map cursor rows)"
    using assms by (simp add: numbered_def sorted_wrt_map del: upt_Suc)
  then show "sorted_wrt (\<lambda>a b. cursor a < cursor b) rows" by (simp add: sorted_wrt_map)
  from s have "sorted (map cursor rows)" by (rule strict_sorted_imp_sorted)
  then show "sort_key cursor rows = rows" by (intro sort_key_id_if_sorted)
qed

lemma numbered_filter_sorted:
  assumes "numbered key cursor rows"
  shows "sort_key cursor (filter P rows) = filter P rows"
  using numbered_sorted(2) [OF assms] by (simp add: filter_sort [symmetric])

interpretation event_pages: cursor_feed events_ok "\<lambda>rows. rows" er_cursor_seq
  "\<lambda>rows after lim. events_page rows (Some after) (normalize_message_page_limit (Some lim))"
  "\<lambda>lim. normalize_message_page_limit (Some lim)"
  by unfold_locales (simp_all add: numbered_sorted events_page_def numbered_filter_sorted)

lemma runs_ok_update:
  assumes "runs_ok rows" and "\<And>r. rr_run_id (f r) = rr_run_id r"
    and "\<And>r. P r \<Longrightarrow> rr_status r \<in> set RUN_STATUSES \<Longrightarrow> rr_status (f r) \<in> set RUN_STATUSES"
  shows "runs_ok (update_runs P f rows)"
proof -
  have "map rr_run_id (update_runs P f rows) = map rr_run_id rows"
    by (simp add: update_runs_def assms(2))
  moreover have "list_all (\<lambda>r. rr_status r \<in> set RUN_STATUSES) (update_runs P f rows)"
    using assms(1,3) by (auto simp: runs_ok_def update_runs_def list_all_iff)
  ultimately show ?thesis using assms(1) by (simp add: runs_ok_def)
qed

end
