(* ===== verification/Message_Feed.thy ===== *)
theory Message_Feed
  imports Run_Registry
begin

text \<open>
  \<open>state/message_feed.rs\<close> of the product runtime, and the merging of pages of
  \<open>state/projection_shards.rs\<close>: messages and their rows, the cursor of a message, and the pages a
  client reads, computed from the messages the selections of the database return (\<open>Message_Pages\<close>).
\<close>

section \<open>Messages\<close>

datatype message_lane = LaneChat | LaneTask | LaneRuntime

datatype message_role = RoleUser | RoleAssistant | RoleAgent | RoleTool | RoleSystem

datatype message_type = TypeText | TypeReasoning | TypeToolCall | TypeToolResult | TypeApproval
  | TypeArtifact | TypePhase | TypeError

record container_message =
  cm_message_id :: string
  cm_workspace_uid :: string
  cm_container_id :: string
  cm_lane :: message_lane
  cm_role :: message_role
  cm_message_type :: message_type
  cm_status :: string
  cm_title :: "string option"
  cm_body_text :: "string option"
  cm_body_json :: json
  cm_card_json :: json
  cm_chat_thread_id :: "string option"
  cm_task_id :: "string option"
  cm_job_id :: "string option"
  cm_source_kind :: string
  cm_source_ref :: string
  cm_source_seq :: "int option"
  cm_created_at_ms :: nat
  cm_updated_at_ms :: nat
  cm_sort_key :: string

fun lane_str :: "message_lane \<Rightarrow> string" where
  "lane_str LaneChat = ''chat''"
| "lane_str LaneTask = ''task''"
| "lane_str LaneRuntime = ''runtime''"

fun role_str :: "message_role \<Rightarrow> string" where
  "role_str RoleUser = ''user''"
| "role_str RoleAssistant = ''assistant''"
| "role_str RoleAgent = ''agent''"
| "role_str RoleTool = ''tool''"
| "role_str RoleSystem = ''system''"

fun message_type_str :: "message_type \<Rightarrow> string" where
  "message_type_str TypeText = ''text''"
| "message_type_str TypeReasoning = ''reasoning''"
| "message_type_str TypeToolCall = ''tool_call''"
| "message_type_str TypeToolResult = ''tool_result''"
| "message_type_str TypeApproval = ''approval''"
| "message_type_str TypeArtifact = ''artifact''"
| "message_type_str TypePhase = ''phase''"
| "message_type_str TypeError = ''error''"

definition parse_lane :: "string \<Rightarrow> message_lane" where
  "parse_lane v = (if v = ''task'' then LaneTask else if v = ''runtime'' then LaneRuntime else LaneChat)"

definition parse_role :: "string \<Rightarrow> message_role" where
  "parse_role v =
     (if v = ''assistant'' then RoleAssistant else if v = ''agent'' then RoleAgent
      else if v = ''tool'' then RoleTool else if v = ''system'' then RoleSystem else RoleUser)"

definition parse_message_type :: "string \<Rightarrow> message_type" where
  "parse_message_type v =
     (if v = ''reasoning'' then TypeReasoning else if v = ''tool_call'' then TypeToolCall
      else if v = ''tool_result'' then TypeToolResult else if v = ''approval'' then TypeApproval
      else if v = ''artifact'' then TypeArtifact else if v = ''phase'' then TypePhase
      else if v = ''error'' then TypeError else TypeText)"

definition parse_json :: "json_codec \<Rightarrow> string \<Rightarrow> json" where
  "parse_json cd raw = unwrap_or (Object []) (from_str cd raw)"

text \<open>The parameters of \<open>INSERT OR REPLACE INTO messages\<close>, and the record read from a row.\<close>

definition message_to_row :: "json_codec \<Rightarrow> container_message \<Rightarrow> message_row" where
  "message_to_row cd m =
     \<lparr>mg_message_id = cm_message_id m, mg_workspace_uid = cm_workspace_uid m, mg_container_id = cm_container_id m,
      mg_lane = lane_str (cm_lane m), mg_role = role_str (cm_role m),
      mg_message_type = message_type_str (cm_message_type m), mg_status = cm_status m, mg_title = cm_title m,
      mg_body_text = cm_body_text m, mg_body_json = to_string cd (cm_body_json m),
      mg_card_json = to_string cd (cm_card_json m), mg_chat_thread_id = cm_chat_thread_id m,
      mg_task_id = cm_task_id m, mg_job_id = cm_job_id m, mg_source_kind = cm_source_kind m,
      mg_source_ref = cm_source_ref m, mg_source_seq = cm_source_seq m, mg_created_at_ms = cm_created_at_ms m,
      mg_updated_at_ms = cm_updated_at_ms m, mg_sort_key = cm_sort_key m\<rparr>"

definition row_to_message :: "json_codec \<Rightarrow> message_row \<Rightarrow> container_message" where
  "row_to_message cd r =
     \<lparr>cm_message_id = mg_message_id r, cm_workspace_uid = mg_workspace_uid r, cm_container_id = mg_container_id r,
      cm_lane = parse_lane (mg_lane r), cm_role = parse_role (mg_role r),
      cm_message_type = parse_message_type (mg_message_type r), cm_status = mg_status r, cm_title = mg_title r,
      cm_body_text = mg_body_text r, cm_body_json = parse_json cd (mg_body_json r),
      cm_card_json = parse_json cd (mg_card_json r), cm_chat_thread_id = mg_chat_thread_id r,
      cm_task_id = mg_task_id r, cm_job_id = mg_job_id r, cm_source_kind = mg_source_kind r,
      cm_source_ref = mg_source_ref r, cm_source_seq = mg_source_seq r, cm_created_at_ms = mg_created_at_ms r,
      cm_updated_at_ms = mg_updated_at_ms r, cm_sort_key = mg_sort_key r\<rparr>"

lemma parse_str_simps [simp]:
  "parse_lane (lane_str l) = l" "parse_role (role_str r) = r" "parse_message_type (message_type_str t) = t"
proof -
  show "parse_lane (lane_str l) = l" by (cases l) (simp_all add: parse_lane_def)
  show "parse_role (role_str r) = r" by (cases r) (simp_all add: parse_role_def)
  show "parse_message_type (message_type_str t) = t" by (cases t) (simp_all add: parse_message_type_def)
qed

section \<open>Appending\<close>

text \<open>
  A message without times gets the current one; a message whose id is known keeps its first creation
  time, its latest update and its place in the feed.
\<close>

definition timed_message :: "nat \<Rightarrow> container_message \<Rightarrow> container_message" where
  "timed_message now m =
     m\<lparr>cm_created_at_ms := (if cm_created_at_ms m = 0 then now else cm_created_at_ms m),
       cm_updated_at_ms := (if cm_updated_at_ms m = 0 then now else cm_updated_at_ms m)\<rparr>"

definition merged_message :: "message_row list \<Rightarrow> container_message \<Rightarrow> container_message" where
  "merged_message rows m =
     (case find (\<lambda>r. mg_message_id r = cm_message_id m) rows of
        None \<Rightarrow> m
      | Some r \<Rightarrow> m\<lparr>cm_created_at_ms := min (mg_created_at_ms r) (cm_created_at_ms m),
          cm_updated_at_ms := max (mg_updated_at_ms r) (cm_updated_at_ms m), cm_sort_key := mg_sort_key r\<rparr>)"

definition replace_message :: "message_row \<Rightarrow> message_row list \<Rightarrow> message_row list" where
  "replace_message r rows = filter (\<lambda>x. mg_message_id x \<noteq> mg_message_id r) rows @ [r]"

definition append_message :: "json_codec \<Rightarrow> container_message \<Rightarrow> container_message sql" where
  "append_message cd message =
     io_bind sql_now (\<lambda>now. io_bind sql_step (\<lambda>_. io_bind sql_step (\<lambda>_. io_bind io_get (\<lambda>w.
     let m = merged_message (pd_messages w) (timed_message now message)
     in io_bind sql_step (\<lambda>_.
        io_bind (put_product (\<lambda>w. w\<lparr>pd_messages := replace_message (message_to_row cd m) (pd_messages w)\<rparr>)) (\<lambda>_.
        io_return m))))))"

definition zero_padded :: "nat \<Rightarrow> nat \<Rightarrow> string" where
  "zero_padded width n = replicate (width - length (dec n)) CHR ''0'' @ dec n"

definition new_message ::
  "string \<Rightarrow> string \<Rightarrow> message_lane \<Rightarrow> message_role \<Rightarrow> message_type \<Rightarrow> string option \<Rightarrow> string option \<Rightarrow>
   (product, 'e, container_message) fallible" where
  "new_message workspace_uid container_id lane role ty body_text chat_thread_id =
     io_bind sql_now (\<lambda>now. io_bind io_get (\<lambda>w.
     let seq = pd_message_counter w; message_id = ''msg_'' @ dec now @ ''_'' @ dec seq
     in io_bind (put_product (\<lambda>w. w\<lparr>pd_message_counter := Suc (pd_message_counter w)\<rparr>)) (\<lambda>_.
     io_return \<lparr>cm_message_id = message_id, cm_workspace_uid = workspace_uid, cm_container_id = container_id,
       cm_lane = lane, cm_role = role, cm_message_type = ty, cm_status = ''completed'', cm_title = None,
       cm_body_text = body_text, cm_body_json = Object [], cm_card_json = Object [],
       cm_chat_thread_id = chat_thread_id, cm_task_id = None, cm_job_id = None,
       cm_source_kind = ''product_runtime'', cm_source_ref = message_id, cm_source_seq = None,
       cm_created_at_ms = now, cm_updated_at_ms = now,
       cm_sort_key = zero_padded 20 now @ ''_'' @ zero_padded 10 seq\<rparr>)))"

section \<open>Cursors\<close>

text \<open>\<open>i64\<close> arithmetic that saturates.\<close>

definition sat_i64 :: "int \<Rightarrow> int" where
  "sat_i64 x = max (- (2 ^ 63)) (min x (2 ^ 63 - 1))"

definition clamp_seq :: "int \<Rightarrow> int" where
  "clamp_seq x = max 0 (min x 999999)"

definition cursor_of :: "int \<Rightarrow> int \<Rightarrow> int" where
  "cursor_of millis seq = sat_i64 (sat_i64 (millis * 1000000) + clamp_seq seq)"

definition as_i64 :: "json \<Rightarrow> int option" where
  "as_i64 v =
     (case v of
        Number (PosInt n) \<Rightarrow> if uint n < 2 ^ 63 then Some (uint n) else None
      | Number (NegInt n) \<Rightarrow> Some (sint n)
      | _ \<Rightarrow> None)"

definition feed_cursor_seq :: "container_message \<Rightarrow> int option" where
  "feed_cursor_seq m = Option.bind (jget (cm_body_json m) ''_feed_cursor_seq'') as_i64"

definition sort_key_to_cursor :: "string \<Rightarrow> int option" where
  "sort_key_to_cursor key =
     (case split_char CHR ''_'' key of
        [] \<Rightarrow> None
      | first # rest \<Rightarrow> Option.bind (parse_i64 first) (\<lambda>millis.
          let seq = (case rest of [] \<Rightarrow> 0 | second # _ \<Rightarrow> unwrap_or 0 (parse_i64 second))
          in Some (cursor_of millis seq)))"

text \<open>The later of the two cursors; the second always exists.\<close>

definition message_cursor_event_id :: "container_message \<Rightarrow> int" where
  "message_cursor_event_id m =
     (let updated_at = (if int (cm_updated_at_ms m) < 2 ^ 63 then int (cm_updated_at_ms m) else (2 ^ 63 - 1) div 1000000);
          updated_cursor = cursor_of updated_at (unwrap_or 0 (or_else (feed_cursor_seq m) (cm_source_seq m)))
      in case sort_key_to_cursor (cm_sort_key m) of
           None \<Rightarrow> updated_cursor
         | Some sort_cursor \<Rightarrow> max sort_cursor updated_cursor)"

definition advance_message_cursor :: "container_message \<Rightarrow> (product, 'e, container_message) fallible" where
  "advance_message_cursor m =
     io_bind sql_now (\<lambda>now. io_bind io_get (\<lambda>w.
     io_bind (put_product (\<lambda>w. w\<lparr>pd_message_counter := Suc (pd_message_counter w)\<rparr>)) (\<lambda>_.
     io_return (m\<lparr>cm_updated_at_ms := now,
       cm_body_json := (case cm_body_json m of
          Object body \<Rightarrow> Object (bmap_insert ''_feed_cursor_seq'' (Number (PosInt (word_of_nat (pd_message_counter w)))) body)
        | v \<Rightarrow> v)\<rparr>))))"

section \<open>Pages\<close>

text \<open>\<open>sort_by\<close> is stable: by sort key, then cursor, then id.\<close>

definition sort_messages_for_display_page :: "container_message list \<Rightarrow> container_message list" where
  "sort_messages_for_display_page ms =
     sort_key cm_sort_key (sort_key message_cursor_event_id (sort_key cm_message_id ms))"

definition last_messages :: "nat \<Rightarrow> 'm list \<Rightarrow> 'm list" where
  "last_messages lim ms = (if length ms > lim then drop (length ms - lim) ms else ms)"

definition filter_messages_after :: "container_message list \<Rightarrow> int option \<Rightarrow> nat option \<Rightarrow> container_message list" where
  "filter_messages_after messages after lim =
     (let bounded_limit = normalize_message_page_limit lim;
          filtered = filter (\<lambda>m. case after of None \<Rightarrow> True | Some a \<Rightarrow> a < message_cursor_event_id m) messages
      in if after \<noteq> None \<or> length filtered \<le> bounded_limit then take bounded_limit filtered
         else drop (length filtered - bounded_limit) filtered)"

definition page_cursor_for_messages :: "container_message list \<Rightarrow> int option" where
  "page_cursor_for_messages messages = (if messages = [] then None else Some (message_cursor_event_id (last messages)))"

text \<open>
  The map of the merge: one message per id, the first of those with the greatest cursor. The order of
  the values of a \<open>HashMap\<close> does not matter, they are sorted afterwards.
\<close>

definition dedup_message :: "int option \<Rightarrow> container_message \<Rightarrow> (string \<times> container_message) list \<Rightarrow> (string \<times> container_message) list" where
  "dedup_message after m deduped =
     (if (case after of None \<Rightarrow> False | Some a \<Rightarrow> message_cursor_event_id m \<le> a) then deduped
      else
       (case map_of deduped (cm_message_id m) of
          Some existing \<Rightarrow>
            if message_cursor_event_id m \<le> message_cursor_event_id existing then deduped
            else bmap_insert (cm_message_id m) m deduped
        | None \<Rightarrow> bmap_insert (cm_message_id m) m deduped))"

definition merge_projected_messages :: "container_message list \<Rightarrow> int option \<Rightarrow> nat option \<Rightarrow> container_message list" where
  "merge_projected_messages candidates after lim =
     (let bounded_limit = normalize_message_page_limit lim;
          messages = sort_messages_for_display_page (map snd (fold (dedup_message after) candidates []))
      in if after \<noteq> None then take bounded_limit messages else last_messages bounded_limit messages)"

end
