(* ===== verification/Projection_Shards.thy ===== *)
theory Projection_Shards
  imports Message_Feed
begin

text \<open>
  \<open>state/projection_shards.rs\<close> of the product runtime: a chat thread or a task job has a database of
  its own for its messages and events, found through the table \<open>projection_shards\<close>. Opening a shard
  creates its tables; a shard that was never opened has no file.
\<close>

section \<open>Shard records\<close>

definition safe_shard_char :: "char \<Rightarrow> char" where
  "safe_shard_char c = (if is_ascii_alphanumeric c \<or> c \<in> {CHR ''-'', CHR ''_''} then c else CHR ''_'')"

definition safe_shard_name :: "string \<Rightarrow> string" where
  "safe_shard_name v =
     (let out = map safe_shard_char (filter (\<lambda>c. \<not> is_continuation c) v)
      in if out = [] then ''shard'' else out)"

definition task_job_record :: "string \<Rightarrow> string \<Rightarrow> string \<Rightarrow> string \<Rightarrow> (product, 'e, projection_shard_record) fallible" where
  "task_job_record workspace_uid container_id task_id job_id =
     io_bind sql_now (\<lambda>now. io_return
       \<lparr>sh_shard_id = ''task_job:'' @ job_id, sh_workspace_uid = workspace_uid, sh_container_id = container_id,
        sh_shard_kind = ''task_job'', sh_chat_thread_id = None, sh_task_id = Some task_id, sh_job_id = Some job_id,
        sh_relative_db_path = ''projection_shards/task/'' @ safe_shard_name job_id @ ''.sqlite3'',
        sh_status = ''active'', sh_created_at_ms = now, sh_updated_at_ms = now\<rparr>)"

definition chat_thread_record :: "string \<Rightarrow> string \<Rightarrow> string \<Rightarrow> (product, 'e, projection_shard_record) fallible" where
  "chat_thread_record workspace_uid container_id chat_thread_id =
     io_bind sql_now (\<lambda>now. io_return
       \<lparr>sh_shard_id = ''chat_thread:'' @ chat_thread_id, sh_workspace_uid = workspace_uid, sh_container_id = container_id,
        sh_shard_kind = ''chat_thread'', sh_chat_thread_id = Some chat_thread_id, sh_task_id = None, sh_job_id = None,
        sh_relative_db_path = ''projection_shards/chat/'' @ safe_shard_name chat_thread_id @ ''.sqlite3'',
        sh_status = ''active'', sh_created_at_ms = now, sh_updated_at_ms = now\<rparr>)"

definition get_projection_shard :: "string \<Rightarrow> projection_shard_record sql" where
  "get_projection_shard shard_id =
     io_bind (sql_query (\<lambda>w. query_row (\<lambda>r. sh_shard_id r = shard_id) (pd_shards w))) io_lift"

text \<open>\<open>INSERT ... ON CONFLICT(shard_id) DO UPDATE\<close>: everything but the creation time is replaced.\<close>

definition upsert_shard_row :: "projection_shard_record \<Rightarrow> projection_shard_record list \<Rightarrow> projection_shard_record list" where
  "upsert_shard_row r rows =
     (if sh_shard_id r \<in> sh_shard_id ` set rows
      then map (\<lambda>x. if sh_shard_id x = sh_shard_id r then r\<lparr>sh_created_at_ms := sh_created_at_ms x\<rparr> else x) rows
      else rows @ [r])"

definition upsert_projection_shard :: "projection_shard_record \<Rightarrow> projection_shard_record sql" where
  "upsert_projection_shard r =
     io_bind sql_now (\<lambda>now.
     io_bind (sql_execute (\<lambda>w. w\<lparr>pd_shards := upsert_shard_row (r\<lparr>sh_updated_at_ms := now\<rparr>) (pd_shards w)\<rparr>)) (\<lambda>_.
     get_projection_shard (sh_shard_id r)))"

text \<open>\<open>SELECT ... ORDER BY updated_at_ms DESC LIMIT 1\<close>; among equals the first row found.\<close>

fun newest_shard :: "projection_shard_record list \<Rightarrow> projection_shard_record option" where
  "newest_shard [] = None"
| "newest_shard (r # rs) =
     (case newest_shard rs of
        None \<Rightarrow> Some r
      | Some x \<Rightarrow> if sh_updated_at_ms x \<le> sh_updated_at_ms r then Some r else Some x)"

definition projection_shard_for_task_job :: "string \<Rightarrow> projection_shard_record option sql" where
  "projection_shard_for_task_job job_id =
     sql_query (\<lambda>w. newest_shard (filter (\<lambda>r. sh_job_id r = Some job_id) (pd_shards w)))"

definition projection_shard_for_chat_thread :: "string \<Rightarrow> projection_shard_record option sql" where
  "projection_shard_for_chat_thread chat_thread_id =
     sql_query (\<lambda>w. newest_shard (filter (\<lambda>r. sh_chat_thread_id r = Some chat_thread_id) (pd_shards w)))"

definition list_container_projection_shards :: "string \<Rightarrow> projection_shard_record list sql" where
  "list_container_projection_shards container_id =
     sql_query (\<lambda>w. newest_first sh_updated_at_ms sh_shard_id (filter (\<lambda>r. sh_container_id r = container_id) (pd_shards w)))"

section \<open>Shard databases\<close>

definition empty_shard :: shard_db where
  "empty_shard = \<lparr>sd_messages = [], sd_events = [], sd_run_state = []\<rparr>"

text \<open>\<open>ProjectionShardDb::open\<close>: a connection, and \<open>CREATE TABLE IF NOT EXISTS\<close>; the result is the path.\<close>

definition open_shard_db :: "string \<Rightarrow> string sql" where
  "open_shard_db path =
     io_bind (sql_execute (\<lambda>w. if pd_shard_dbs w path = None
       then w\<lparr>pd_shard_dbs := (pd_shard_dbs w)(path \<mapsto> empty_shard)\<rparr> else w)) (\<lambda>_. io_return path)"

definition open_shard :: "projection_shard_record \<Rightarrow> string sql" where
  "open_shard r = open_shard_db (sh_relative_db_path r)"

definition open_existing_shard :: "projection_shard_record \<Rightarrow> string option sql" where
  "open_existing_shard r = io_bind io_get (\<lambda>w.
     if pd_shard_dbs w (sh_relative_db_path r) = None then io_return None
     else io_bind (open_shard_db (sh_relative_db_path r)) (\<lambda>path. io_return (Some path)))"

definition ensure_chat_projection_shard :: "string \<Rightarrow> string \<Rightarrow> string sql" where
  "ensure_chat_projection_shard container_id chat_thread_id =
     io_bind io_get (\<lambda>w. io_bind (chat_thread_record (pd_workspace_uid w) container_id chat_thread_id) (\<lambda>r.
     io_bind (upsert_projection_shard r) open_shard))"

definition ensure_task_projection_shard :: "string \<Rightarrow> string \<Rightarrow> string \<Rightarrow> string sql" where
  "ensure_task_projection_shard container_id task_id job_id =
     io_bind io_get (\<lambda>w. io_bind (task_job_record (pd_workspace_uid w) container_id task_id job_id) (\<lambda>r.
     io_bind (upsert_projection_shard r) open_shard))"

text \<open>The tables at a path, and an update of them.\<close>

definition shard_at :: "string \<Rightarrow> product \<Rightarrow> shard_db" where
  "shard_at path w = unwrap_or empty_shard (pd_shard_dbs w path)"

definition set_shard :: "string \<Rightarrow> (shard_db \<Rightarrow> shard_db) \<Rightarrow> product \<Rightarrow> product" where
  "set_shard path f w = w\<lparr>pd_shard_dbs := (pd_shard_dbs w)(path \<mapsto> f (shard_at path w))\<rparr>"

definition shard_append_message :: "json_codec \<Rightarrow> string \<Rightarrow> container_message \<Rightarrow> container_message sql" where
  "shard_append_message cd path message =
     io_bind sql_now (\<lambda>now. io_bind sql_step (\<lambda>_. io_bind sql_step (\<lambda>_. io_bind io_get (\<lambda>w.
     let m = merged_message (sd_messages (shard_at path w)) (timed_message now message)
     in io_bind sql_step (\<lambda>_.
        io_bind (put_product (set_shard path (\<lambda>d. d\<lparr>sd_messages := replace_message (message_to_row cd m) (sd_messages d)\<rparr>))) (\<lambda>_.
        io_return m))))))"

definition upsert_run_state_row :: "string \<Rightarrow> string \<Rightarrow> nat \<Rightarrow> (string \<times> string \<times> nat) list \<Rightarrow> (string \<times> string \<times> nat) list" where
  "upsert_run_state_row run_id status at rows =
     (if run_id \<in> fst ` set rows then map (\<lambda>x. if fst x = run_id then (run_id, status, at) else x) rows
      else rows @ [(run_id, status, at)])"

definition upsert_run_state :: "string \<Rightarrow> string \<Rightarrow> string \<Rightarrow> nat \<Rightarrow> unit sql" where
  "upsert_run_state path run_id status updated_at_ms =
     sql_execute (set_shard path (\<lambda>d. d\<lparr>sd_run_state := upsert_run_state_row run_id status updated_at_ms (sd_run_state d)\<rparr>))"

text \<open>The same transaction as for the product's own event log, on a smaller table.\<close>

definition shard_append_runtime_event :: "json_codec \<Rightarrow> string \<Rightarrow> string \<Rightarrow> string \<Rightarrow> json \<Rightarrow> unit sql" where
  "shard_append_runtime_event cd path event_id event_type payload =
     io_bind sql_step (\<lambda>_. io_bind sql_step (\<lambda>_. io_bind sql_step (\<lambda>_. io_bind io_get (\<lambda>w.
     if event_id \<in> se_event_id ` set (sd_events (shard_at path w)) then sql_step
     else
      io_bind sql_step (\<lambda>_.
      let cursor_seq = next_cursor se_cursor_seq (sd_events (shard_at path w)) in
      io_bind sql_now (\<lambda>created_at_ms.
      let row = \<lparr>se_event_id = event_id, se_event_type = event_type, se_payload_json = to_string cd payload,
            se_created_at_ms = created_at_ms, se_cursor_seq = cursor_seq\<rparr>
      in io_bind sql_step (\<lambda>_. io_bind sql_step (\<lambda>_.
         put_product (set_shard path (\<lambda>d. d\<lparr>sd_events := sd_events d @ [row]\<rparr>))))))))))"

end
