(* ===== verification/Run_Manager.thy ===== *)
theory Run_Manager
  imports Projection_Shards
begin

text \<open>
  \<open>services/run_manager.rs\<close> of the product runtime: the life of a run, from its start in the registry
  over the events of its worker process to its end. The worker process is given: the lines it writes,
  how it exits, and the errors of talking to it. The caller's callback and \<open>serde\<close>'s decoding of the
  results of a worker are parameters. Locks are not poisoned, and waiting for a process succeeds.
\<close>

section \<open>Status changes\<close>

definition run_terminal_status :: "string \<Rightarrow> string" where
  "run_terminal_status status =
     (if status = ''completed'' then ''completed''
      else if status = ''cancelled'' \<or> status = ''canceled'' then ''cancelled''
      else if status = ''blocked'' then ''blocked''
      else if status \<in> {''waiting_approval'', ''waiting_user'', ''running''} then status
      else ''failed'')"

text \<open>\<open>serde_json::to_value(run)\<close>: a \<open>u128\<close> beyond 64 bits is an error, and \<open>{}\<close> is used instead.\<close>

definition run_json :: "run_record \<Rightarrow> json" where
  "run_json r =
     (if rr_started_at_ms r < 2 ^ 64 \<and> rr_updated_at_ms r < 2 ^ 64 \<and> unwrap_or 0 (rr_heartbeat_at_ms r) < 2 ^ 64
      then jobj [(''run_id'', JString (rr_run_id r)), (''workspace_uid'', JString (rr_workspace_uid r)),
        (''container_id'', JString (rr_container_id r)), (''run_kind'', JString (rr_run_kind r)),
        (''chat_thread_id'', jopt (rr_chat_thread_id r)), (''task_id'', jopt (rr_task_id r)),
        (''job_id'', jopt (rr_job_id r)), (''worker_id'', JString (rr_worker_id r)),
        (''status'', JString (rr_status r)), (''cancel_requested'', Bool (rr_cancel_requested r)),
        (''heartbeat_at_ms'', case rr_heartbeat_at_ms r of None \<Rightarrow> Null | Some t \<Rightarrow> Number (PosInt (word_of_nat t))),
        (''started_at_ms'', Number (PosInt (word_of_nat (rr_started_at_ms r)))),
        (''updated_at_ms'', Number (PosInt (word_of_nat (rr_updated_at_ms r)))),
        (''error_message'', jopt (rr_error_message r))]
      else Object [])"

text \<open>A result whose error is dropped when it is a lock error.\<close>

definition ignore_lock :: "'a \<Rightarrow> ('a \<Rightarrow> 'a) \<Rightarrow> 'a sql \<Rightarrow> 'a sql" where
  "ignore_lock x f m = (\<lambda>w.
     case m w of
       (Inr y, w') \<Rightarrow> (Inr (f y), w')
     | (Inl e, w') \<Rightarrow> if is_sqlite_lock_error e then (Inr x, w') else (Inl e, w'))"

definition discard :: "'a sql \<Rightarrow> unit sql" where
  "discard m = io_bind m (\<lambda>_. io_return ())"

definition append_run_event :: "json_codec \<Rightarrow> run_record \<Rightarrow> string \<Rightarrow> run_record sql" where
  "append_run_event cd run event_type =
     io_bind (ignore_lock () id (discard (retry_sqlite_busy
       (append_runtime_event cd (event_type @ '':'' @ rr_run_id run @ '':'' @ dec (rr_updated_at_ms run))
          (rr_workspace_uid run @ ''/'' @ rr_container_id run) (Some (rr_container_id run)) (Some (rr_run_id run))
          (rr_task_id run) (rr_chat_thread_id run) event_type (run_json run)))))
     (\<lambda>_. io_return run)"

definition mark_running :: "json_codec \<Rightarrow> string \<Rightarrow> run_record sql" where
  "mark_running cd run_id =
     io_bind (retry_sqlite_busy (update_run_status run_id ''running'' None)) (\<lambda>run.
     io_bind (retry_sqlite_busy (heartbeat_run run_id)) (\<lambda>_.
     append_run_event cd run ''run.running''))"

definition initial_worker_id :: "bool \<Rightarrow> nat \<Rightarrow> string" where
  "initial_worker_id process_worker pid =
     (if process_worker then ''process:pending'' else ''in_process:'' @ dec pid)"

definition start_chat_run :: "json_codec \<Rightarrow> bool \<Rightarrow> nat \<Rightarrow> string \<Rightarrow> string \<Rightarrow> run_record sql" where
  "start_chat_run cd process_worker pid container_id chat_thread_id =
     io_bind (insert_run \<lparr>nr_container_id = container_id, nr_run_kind = ''chat'', nr_chat_thread_id = Some chat_thread_id,
       nr_task_id = None, nr_job_id = None, nr_worker_id = initial_worker_id process_worker pid\<rparr>) (\<lambda>run.
     mark_running cd (rr_run_id run))"

definition start_task_run :: "json_codec \<Rightarrow> bool \<Rightarrow> nat \<Rightarrow> string \<Rightarrow> run_record sql" where
  "start_task_run cd process_worker pid container_id =
     io_bind (insert_run \<lparr>nr_container_id = container_id, nr_run_kind = ''task'', nr_chat_thread_id = None,
       nr_task_id = None, nr_job_id = None, nr_worker_id = initial_worker_id process_worker pid\<rparr>) (\<lambda>run.
     mark_running cd (rr_run_id run))"

definition bind_task_run :: "json_codec \<Rightarrow> string \<Rightarrow> string \<Rightarrow> string \<Rightarrow> run_record sql" where
  "bind_task_run cd run_id task_id job_id =
     io_bind (retry_sqlite_busy (bind_run_task run_id task_id job_id)) (\<lambda>run. append_run_event cd run ''run.bound'')"

definition complete_run :: "json_codec \<Rightarrow> string \<Rightarrow> string \<Rightarrow> run_record sql" where
  "complete_run cd run_id status =
     (let status = run_terminal_status status in
      io_bind (retry_sqlite_busy (update_run_status run_id status None)) (\<lambda>run.
      append_run_event cd run (if status = ''cancelled'' then ''run.cancelled'' else ''run.completed'')))"

definition fail_run :: "json_codec \<Rightarrow> string \<Rightarrow> string \<Rightarrow> run_record sql" where
  "fail_run cd run_id error_text =
     io_bind (retry_sqlite_busy (update_run_status run_id ''failed'' (Some error_text))) (\<lambda>run.
     append_run_event cd run ''run.failed'')"

section \<open>Cancellation\<close>

text \<open>The kill of the registered process of a run; its result is not used by the callers.\<close>

definition kill_run_process :: "string \<Rightarrow> unit sql" where
  "kill_run_process run_id = put_product (\<lambda>w.
     if run_id \<in> set (pd_active w) then w\<lparr>pd_killed := pd_killed w @ [run_id]\<rparr> else w)"

fun cancel_each :: "json_codec \<Rightarrow> run_record list \<Rightarrow> unit sql" where
  "cancel_each cd [] = io_return ()"
| "cancel_each cd (run # runs) =
     io_bind (kill_run_process (rr_run_id run)) (\<lambda>_.
     io_bind (append_run_event cd run ''run.cancel_requested'') (\<lambda>_. cancel_each cd runs))"

definition request_cancel_task_run :: "json_codec \<Rightarrow> string \<Rightarrow> run_record list sql" where
  "request_cancel_task_run cd task_id =
     io_bind (retry_sqlite_busy (request_cancel_task_runs task_id)) (\<lambda>runs.
     io_bind (cancel_each cd runs) (\<lambda>_. io_return runs))"

definition request_cancel_chat_run :: "json_codec \<Rightarrow> string \<Rightarrow> run_record list sql" where
  "request_cancel_chat_run cd chat_thread_id =
     io_bind (retry_sqlite_busy (request_cancel_chat_runs chat_thread_id)) (\<lambda>runs.
     io_bind (cancel_each cd runs) (\<lambda>_. io_return runs))"

section \<open>Events of a worker\<close>

record kernel_worker_event =
  kw_schema_version :: string
  kw_run_id :: string
  kw_event_type :: string
  kw_payload :: json

definition worker_event_of_json :: "json \<Rightarrow> kernel_worker_event option" where
  "worker_event_of_json v =
     Option.bind (get_str v ''schema_version'') (\<lambda>schema.
     Option.bind (get_str v ''run_id'') (\<lambda>run_id.
     Option.bind (get_str v ''event_type'') (\<lambda>ty.
     Option.bind (jget v ''payload'') (\<lambda>payload. Some
       \<lparr>kw_schema_version = schema, kw_run_id = run_id, kw_event_type = ty, kw_payload = payload\<rparr>))))"

definition projection_shard_for_run :: "run_record \<Rightarrow> string option sql" where
  "projection_shard_for_run run =
     io_bind (case rr_chat_thread_id run of None \<Rightarrow> io_return None | Some c \<Rightarrow> projection_shard_for_chat_thread c) (\<lambda>chat.
     case chat of
       Some r \<Rightarrow> open_existing_shard r
     | None \<Rightarrow>
        io_bind (case rr_job_id run of None \<Rightarrow> io_return None | Some j \<Rightarrow> projection_shard_for_task_job j) (\<lambda>job.
        case job of Some r \<Rightarrow> open_existing_shard r | None \<Rightarrow> io_return None))"

definition next_worker_event_seq :: "nat sql" where
  "next_worker_event_seq = io_bind io_get (\<lambda>w.
     io_bind (put_product (\<lambda>w. w\<lparr>pd_worker_counter := Suc (pd_worker_counter w)\<rparr>)) (\<lambda>_. io_return (pd_worker_counter w)))"

text \<open>\<open>Result::ok\<close>.\<close>

definition sql_ok :: "'a sql \<Rightarrow> 'a option sql" where
  "sql_ok m = (\<lambda>w. case m w of (Inr x, w') \<Rightarrow> (Inr (Some x), w') | (Inl _, w') \<Rightarrow> (Inr None, w'))"

definition append_worker_event :: "json_codec \<Rightarrow> string \<Rightarrow> kernel_worker_event \<Rightarrow> unit sql" where
  "append_worker_event cd run_id event =
     io_bind (sql_ok (get_run run_id)) (\<lambda>run.
     io_bind next_worker_event_seq (\<lambda>seq.
     let event_id = kw_event_type event @ '':'' @ run_id @ '':'' @ dec seq in
     io_bind (case run of None \<Rightarrow> io_return None | Some r \<Rightarrow> projection_shard_for_run r) (\<lambda>shard.
     case shard of
       Some path \<Rightarrow> shard_append_runtime_event cd path event_id (kw_event_type event) (kw_payload event)
     | None \<Rightarrow> discard (append_runtime_event cd event_id
         (case run of None \<Rightarrow> ''worker/event'' | Some r \<Rightarrow> rr_workspace_uid r @ ''/'' @ rr_container_id r)
         (map_option rr_container_id run) (Some run_id) (Option.bind run rr_task_id)
         (Option.bind run rr_chat_thread_id) (kw_event_type event) (kw_payload event)))))"

definition append_finished_worker_stderr :: "json_codec \<Rightarrow> string \<Rightarrow> string option \<Rightarrow> unit sql" where
  "append_finished_worker_stderr cd run_id stderr_text =
     (case stderr_text of None \<Rightarrow> io_return ()
      | Some text \<Rightarrow>
         if trim text = [] then io_return ()
         else io_bind next_worker_event_seq (\<lambda>seq.
           discard (sql_ok (append_runtime_event cd (''worker.stderr:'' @ run_id @ '':'' @ dec seq) ''worker/stderr''
             None (Some run_id) None None ''worker.stderr'' (jobj [(''stderr'', JString text)])))))"

section \<open>Running a worker\<close>

datatype process_worker_event = WorkerStarted nat | Heartbeat | TaskStarted string string | StreamDelta json

datatype worker_terminal = TerminalTask json | TerminalChat json | TerminalProbe

text \<open>
  A worker process and what is given of it: whether starting it and writing its command succeed, the
  lines it writes, what its standard error holds, whether it is gone after its terminal event, and
  how it exits. \<open>wp_decodes\<close> tells whether \<open>serde\<close> decodes a payload of an event of a type.
\<close>

record worker_process =
  wp_spawn :: "io_error option"
  wp_pid :: nat
  wp_stdin :: "io_error option"
  wp_lines :: "(io_error + string) list"
  wp_stderr :: "string option"
  wp_gone :: bool
  wp_success :: bool
  wp_code :: "int option"
  wp_decodes :: "string \<Rightarrow> json \<Rightarrow> bool"

text \<open>The texts of errors of the database and of \<open>serde_json\<close>.\<close>

record error_texts =
  et_sql :: "sql_error \<Rightarrow> string"
  et_json :: "string \<Rightarrow> string"

definition sqlite_err :: "error_texts \<Rightarrow> sql_error \<Rightarrow> io_error" where
  "sqlite_err et e = IoError OtherKind (et_sql et e)"

definition json_err :: "error_texts \<Rightarrow> string \<Rightarrow> io_error" where
  "json_err et s = IoError InvalidData (et_json et s)"

definition as_io :: "error_texts \<Rightarrow> 'a sql \<Rightarrow> (product, 'a) io" where
  "as_io et m = (\<lambda>w. case m w of (Inr x, w') \<Rightarrow> (Inr x, w') | (Inl e, w') \<Rightarrow> (Inl (sqlite_err et e), w'))"

type_synonym worker_callback = "process_worker_event \<Rightarrow> (product, unit) io"

definition decode_event :: "json_codec \<Rightarrow> error_texts \<Rightarrow> string \<Rightarrow> kernel_worker_event res" where
  "decode_event cd et line =
     (case Option.bind (from_str cd line) worker_event_of_json of
        None \<Rightarrow> Inl (json_err et line) | Some e \<Rightarrow> Inr e)"

text \<open>
  One event: the terminal result when the event ends the loop, and the worker's error so far.
\<close>

definition handle_event ::
  "error_texts \<Rightarrow> string \<Rightarrow> worker_callback \<Rightarrow> (string \<Rightarrow> json \<Rightarrow> bool) \<Rightarrow> kernel_worker_event \<Rightarrow> string option \<Rightarrow>
   (product, worker_terminal option \<times> string option) io" where
  "handle_event et run_id on_event decodes event worker_error =
     (let ty = kw_event_type event; payload = kw_payload event;
          terminal = (\<lambda>t. if decodes ty payload then io_return (Some t, worker_error) else io_fail (json_err et ty))
      in if ty = ''worker.heartbeat'' then
           io_bind (as_io et (ignore_lock () id (discard (retry_sqlite_busy (heartbeat_run run_id))))) (\<lambda>_.
           io_bind (on_event Heartbeat) (\<lambda>_. io_return (None, worker_error)))
         else if ty = ''task.started'' then
          (case get_str payload ''job_id'' of
             None \<Rightarrow> io_fail (IoError InvalidData ''task.started missing job_id'')
           | Some job_id \<Rightarrow>
              io_bind (on_event (TaskStarted job_id (unwrap_or [] (get_str payload ''root_pid'')))) (\<lambda>_.
              io_return (None, worker_error)))
         else if ty = ''model.stream_delta'' then
          (if decodes ty payload then io_bind (on_event (StreamDelta payload)) (\<lambda>_. io_return (None, worker_error))
           else io_fail (json_err et ty))
         else if ty = ''task.completed'' then terminal (TerminalTask payload)
         else if ty = ''chat.completed'' then terminal (TerminalChat payload)
         else if ty = ''probe.completed'' then io_return (Some TerminalProbe, worker_error)
         else if ty = ''worker.failed'' then
           io_return (None, Some (unwrap_or ''worker failed'' (get_str payload ''error'')))
         else io_return (None, worker_error))"

fun read_worker_lines ::
  "json_codec \<Rightarrow> error_texts \<Rightarrow> string \<Rightarrow> worker_callback \<Rightarrow> (string \<Rightarrow> json \<Rightarrow> bool) \<Rightarrow> (io_error + string) list \<Rightarrow>
   string option \<Rightarrow> (product, worker_terminal option \<times> string option) io" where
  "read_worker_lines cd et run_id on_event decodes [] worker_error = io_return (None, worker_error)"
| "read_worker_lines cd et run_id on_event decodes (line # lines) worker_error =
     io_bind (io_lift line) (\<lambda>text.
     if trim text = [] then read_worker_lines cd et run_id on_event decodes lines worker_error
     else
      io_bind (io_lift (decode_event cd et text)) (\<lambda>event.
      io_bind (as_io et (ignore_lock () id (append_worker_event cd run_id event))) (\<lambda>_.
      io_bind (handle_event et run_id on_event decodes event worker_error) (\<lambda>(terminal, worker_error).
      if terminal \<noteq> None then io_return (terminal, worker_error)
      else read_worker_lines cd et run_id on_event decodes lines worker_error))))"

definition interrupted :: "string \<Rightarrow> string \<Rightarrow> io_error" where
  "interrupted run_id how = IoError Interrupted (''worker '' @ run_id @ how)"

text \<open>A finished worker whose run was asked to cancel ends the run as cancelled.\<close>

definition unless_cancelled ::
  "json_codec \<Rightarrow> error_texts \<Rightarrow> string \<Rightarrow> string \<Rightarrow> (product, 'a) io \<Rightarrow> (product, 'a) io" where
  "unless_cancelled cd et run_id how continue =
     io_bind (as_io et (retry_sqlite_busy (get_run run_id))) (\<lambda>run.
     if rr_cancel_requested run
     then io_bind (as_io et (complete_run cd run_id ''cancelled'')) (\<lambda>_. io_fail (interrupted run_id how))
     else continue)"

definition remove_active :: "string \<Rightarrow> (product, unit) io" where
  "remove_active run_id = put_product (\<lambda>w. w\<lparr>pd_active := removeAll run_id (pd_active w)\<rparr>)"

definition int_text :: "int \<Rightarrow> string" where
  "int_text i = (if i < 0 then ''-'' @ dec (nat (- i)) else dec (nat i))"

definition finish_worker ::
  "json_codec \<Rightarrow> error_texts \<Rightarrow> string \<Rightarrow> worker_process \<Rightarrow> worker_terminal option \<times> string option \<Rightarrow>
   (product, worker_terminal) io" where
  "finish_worker cd et run_id wp outcome =
     (case outcome of
        (Some terminal, _) \<Rightarrow>
          io_bind (remove_active run_id) (\<lambda>_.
          io_bind (if wp_gone wp then as_io et (append_finished_worker_stderr cd run_id (wp_stderr wp)) else io_return ()) (\<lambda>_.
          unless_cancelled cd et run_id '' completed after cancellation was requested'' (io_return terminal)))
      | (None, worker_error) \<Rightarrow>
          io_bind (remove_active run_id) (\<lambda>_.
          io_bind (as_io et (append_finished_worker_stderr cd run_id (wp_stderr wp))) (\<lambda>_.
          if wp_success wp
          then unless_cancelled cd et run_id '' completed after cancellation was requested''
            (io_fail (IoError InvalidData ''worker exited successfully without a terminal event''))
          else unless_cancelled cd et run_id '' was cancelled''
           (let message = unwrap_or (''worker process exited with status '' @
                  (case wp_code wp of None \<Rightarrow> ''terminated'' | Some code \<Rightarrow> int_text code)) worker_error
            in io_bind (as_io et (fail_run cd run_id message)) (\<lambda>_. io_fail (IoError OtherKind message))))))"

definition fail_if :: "io_error option \<Rightarrow> (product, unit) io" where
  "fail_if e = (case e of None \<Rightarrow> io_return () | Some e \<Rightarrow> io_fail e)"

definition run_worker_command ::
  "json_codec \<Rightarrow> error_texts \<Rightarrow> bool \<Rightarrow> string \<Rightarrow> worker_process \<Rightarrow> worker_callback \<Rightarrow> (product, worker_terminal) io" where
  "run_worker_command cd et process_worker run_id wp on_event =
     (if \<not> process_worker then io_fail (IoError Unsupported ''process kernel worker is not configured'')
      else
       io_bind (fail_if (wp_spawn wp)) (\<lambda>_.
       io_bind (as_io et (retry_sqlite_busy (update_run_worker run_id (''process:'' @ dec (wp_pid wp))))) (\<lambda>_.
       io_bind (fail_if (wp_stdin wp)) (\<lambda>_.
       io_bind (put_product (\<lambda>w. w\<lparr>pd_active := run_id # removeAll run_id (pd_active w)\<rparr>)) (\<lambda>_.
       io_bind (on_event (WorkerStarted (wp_pid wp))) (\<lambda>_.
       io_bind (read_worker_lines cd et run_id on_event (wp_decodes wp) (wp_lines wp) None) (\<lambda>outcome.
       finish_worker cd et run_id wp outcome)))))))"

definition unexpected_terminal :: "string \<Rightarrow> io_error" where
  "unexpected_terminal shown = IoError InvalidData (''worker returned unexpected terminal event: '' @ shown)"

text \<open>The \<open>Debug\<close> text of an unexpected terminal event is a parameter.\<close>

definition run_task_in_process_worker ::
  "json_codec \<Rightarrow> error_texts \<Rightarrow> (worker_terminal \<Rightarrow> string) \<Rightarrow> bool \<Rightarrow> string \<Rightarrow> worker_process \<Rightarrow> worker_callback \<Rightarrow> (product, json) io" where
  "run_task_in_process_worker cd et shown process_worker run_id wp on_event =
     io_bind (run_worker_command cd et process_worker run_id wp on_event) (\<lambda>terminal.
     case terminal of TerminalTask result \<Rightarrow> io_return result | other \<Rightarrow> io_fail (unexpected_terminal (shown other)))"

definition run_chat_in_process_worker ::
  "json_codec \<Rightarrow> error_texts \<Rightarrow> (worker_terminal \<Rightarrow> string) \<Rightarrow> bool \<Rightarrow> string \<Rightarrow> worker_process \<Rightarrow> worker_callback \<Rightarrow> (product, json) io" where
  "run_chat_in_process_worker cd et shown process_worker run_id wp on_event =
     io_bind (run_worker_command cd et process_worker run_id wp on_event) (\<lambda>terminal.
     case terminal of TerminalChat result \<Rightarrow> io_return result | other \<Rightarrow> io_fail (unexpected_terminal (shown other)))"

end
