(* ===== verification/Run_Laws.thy ===== *)
theory Run_Laws
  imports Run_Manager
begin

text \<open>
  What the operations of the product runtime's stores do to their tables: a transaction happens or
  changes nothing, every operation keeps the tables well-formed whatever fails, and cancelling marks
  exactly the runs that are not finished.
\<close>

section \<open>Steps as rules\<close>

lemma sql_stepE:
  assumes "io_bind sql_step f w = (r, w')"
  obtains (failed) e where "r = Inl e" "same_store w w'" | (passed) v where "same_store w v" "f () v = (r, w')"
proof -
  obtain r1 w1 where s: "sql_step w = (r1, w1)" by (cases "sql_step w")
  note same = same_store_step [OF s]
  show thesis
  proof (cases r1)
    case (Inl e)
    with assms s same show thesis by (intro failed [of e]) (auto simp: io_bind_Inl)
  next
    case (Inr u)
    with assms s same show thesis by (intro passed [of w1]) (auto simp: io_bind_Inr)
  qed
qed

lemma sql_nowE:
  assumes "io_bind sql_now f w = (r, w')"
  obtains t v where "same_store w v" "t = pd_clock w (pd_ticks w)" "f t v = (r, w')"
proof -
  have "same_store w (w\<lparr>pd_ticks := Suc (pd_ticks w)\<rparr>)" by (simp add: same_store_def env_of_def)
  with assms show thesis by (intro that) (auto simp: io_bind_def sql_now_def)
qed

lemma io_bind_get [simp]: "io_bind io_get f w = f w w"
  by (simp add: io_bind_def io_get_def)

lemma io_bind_put [simp]: "io_bind (put_product g) f w = f () (g w)"
  by (simp add: io_bind_def put_product_def)

lemma same_store_events: "same_store w v \<Longrightarrow> same_store (w\<lparr>pd_events := x\<rparr>) (v\<lparr>pd_events := x\<rparr>)"
  by (cases w; cases v) (simp add: same_store_def env_of_def)

section \<open>The event log\<close>

lemma append_runtime_event_cases:
  assumes "append_runtime_event cd event_id pk c run t chat ty payload w = (r, w')"
  obtains (failed) e where "r = Inl e" "same_store w w'"
  | (known) row where "find (\<lambda>r. er_event_id r = event_id) (pd_events w) = Some row"
      "r = Inr (row_to_runtime_event cd row)" "same_store w w'"
  | (appended) row where "event_id \<notin> er_event_id ` set (pd_events w)"
      "r = Inr (row_to_runtime_event cd row)" "same_store (w\<lparr>pd_events := pd_events w @ [row]\<rparr>) w'"
      "er_event_id row = event_id" "er_event_type row = ty" "er_payload_json row = to_string cd payload"
      "er_run_id row = run" "er_cursor_seq row = next_cursor er_cursor_seq (pd_events w)"
  using assms unfolding append_runtime_event_def
proof (elim sql_stepE, goal_cases)
  case (4 v1 v2 v3)
  then have s: "same_store w v3" by (meson same_store_trans)
  note ev = same_store_fields(2) [OF s]
  from 4 have run: "(case find (\<lambda>r. er_event_id r = event_id) (pd_events v3) of
       Some existing \<Rightarrow> io_bind sql_step (\<lambda>_. io_return (row_to_runtime_event cd existing))
     | None \<Rightarrow>
        io_bind sql_step (\<lambda>_.
        let cursor_seq = next_cursor er_cursor_seq (pd_events v3) in
        io_bind sql_now (\<lambda>created_at_ms.
        let row = \<lparr>er_event_id = event_id, er_workspace_uid = pd_workspace_uid v3, er_partition_key = pk,
              er_container_id = c, er_run_id = run, er_task_id = t,
              er_chat_thread_id = chat, er_event_type = ty,
              er_payload_json = to_string cd payload, er_created_at_ms = created_at_ms,
              er_cursor_seq = cursor_seq, er_projection_status = ''pending''\<rparr>
        in
        io_bind sql_step (\<lambda>_. io_bind sql_step (\<lambda>_. io_bind sql_step (\<lambda>_.
        io_bind (put_product (\<lambda>w. w\<lparr>pd_events := pd_events w @ [row]\<rparr>)) (\<lambda>_.
        io_return (row_to_runtime_event cd row)))))))) v3 = (r, w')" by simp
  show ?case
  proof (cases "find (\<lambda>r. er_event_id r = event_id) (pd_events v3)")
    case (Some row)
    from run [unfolded Some option.case] show ?thesis
    proof (elim sql_stepE, goal_cases)
      case (1 e)
      with s show ?thesis by (intro failed) (simp_all add: same_store_def)
    next
      case (2 v)
      with s ev Some show ?thesis by (intro known) (auto simp: io_return_apply same_store_def)
    qed
  next
    case None
    then have fresh: "event_id \<notin> er_event_id ` set (pd_events w)" using ev by (auto simp: find_None_iff)
    from run [unfolded None option.case Let_def] show ?thesis
    proof (elim sql_stepE sql_nowE, goal_cases)
      case (1 e)
      with s show ?thesis by (intro failed) (simp_all add: same_store_def)
    next
      case (2 v ts v' e)
      with s show ?thesis by (intro failed) (simp_all add: same_store_def)
    next
      case (3 v ts v' v'' e)
      with s show ?thesis by (intro failed) (simp_all add: same_store_def)
    next
      case (4 v ts v' v'' v''' e)
      with s show ?thesis by (intro failed) (simp_all add: same_store_def)
    next
      case (5 v ts v' v1 v2 v4)
      then have sv: "same_store w v4" using s by (meson same_store_trans)
      let ?row = "\<lparr>er_event_id = event_id, er_workspace_uid = pd_workspace_uid v3, er_partition_key = pk,
              er_container_id = c, er_run_id = run, er_task_id = t,
              er_chat_thread_id = chat, er_event_type = ty,
              er_payload_json = to_string cd payload, er_created_at_ms = ts,
              er_cursor_seq = next_cursor er_cursor_seq (pd_events v3), er_projection_status = ''pending''\<rparr>"
      from 5(7) have "r = Inr (row_to_runtime_event cd ?row)" "w' = v4\<lparr>pd_events := pd_events v4 @ [?row]\<rparr>"
        by (simp_all add: io_return_apply)
      with same_store_events [OF sv, of "pd_events w @ [?row]"] sv ev fresh show ?thesis
        by (intro appended [of ?row]) (simp_all add: same_store_fields)
    qed
  qed
qed (auto simp: same_store_def)

section \<open>The tables stay well-formed\<close>

definition shards_ok :: "(string \<Rightarrow> shard_db option) \<Rightarrow> bool" where
  "shards_ok dbs \<longleftrightarrow> (\<forall>path d. dbs path = Some d \<longrightarrow> numbered se_event_id se_cursor_seq (sd_events d))"

definition product_ok :: "product \<Rightarrow> bool" where
  "product_ok w \<longleftrightarrow> runs_ok (pd_runs w) \<and> events_ok (pd_events w) \<and> shards_ok (pd_shard_dbs w)"

definition stays_ok :: "product \<Rightarrow> product \<Rightarrow> bool" where
  "stays_ok w w' \<longleftrightarrow> (product_ok w \<longrightarrow> product_ok w')"

lemma stays_ok_transp: "transp stays_ok" and stays_ok_reflp: "reflp stays_ok"
  by (auto simp: stays_ok_def transp_def reflp_def)

lemma product_ok_same: "same_store w w' \<Longrightarrow> product_ok w' = product_ok w"
  by (simp add: product_ok_def same_store_fields)

lemma stays_ok_same: "same_store w w' \<Longrightarrow> stays_ok w w'"
  by (simp add: stays_ok_def product_ok_same)

abbreviation keeps_ok :: "(product, 'e, 'a) fallible \<Rightarrow> bool" where
  "keeps_ok m \<equiv> io_keeps stays_ok m"

lemma keeps_ok_bind: "keeps_ok m \<Longrightarrow> (\<And>x. keeps_ok (f x)) \<Longrightarrow> keeps_ok (io_bind m f)"
  by (rule io_keeps_bind [OF stays_ok_transp])

lemmas keeps_ok_pure = io_keeps_pure [OF stays_ok_reflp]

lemma keeps_ok_step: "keeps_ok sql_step" "keeps_ok sql_now"
  unfolding io_keeps_def by (metis prod.collapse same_store_step stays_ok_same, metis prod.collapse same_store_now stays_ok_same)

lemma keeps_ok_query: "keeps_ok (sql_query f)"
  unfolding io_keeps_def by (metis prod.collapse sql_query_cases stays_ok_same)

lemma keeps_ok_put:
  assumes "\<And>w. product_ok w \<Longrightarrow> product_ok (f w)"
  shows "keeps_ok (put_product f)"
  using assms by (simp add: io_keeps_def put_product_def stays_ok_def)

lemma keeps_ok_get: "(\<And>w. keeps_ok (f w)) \<Longrightarrow> keeps_ok (io_bind io_get f)"
  by (simp add: io_keeps_def)

lemma keeps_ok_retry: "keeps_ok m \<Longrightarrow> keeps_ok (retry_sqlite_busy m)"
  by (rule retry_keeps [OF _ stays_ok_transp stays_ok_reflp])
    (simp_all add: stays_ok_def product_ok_def sleep_ms_def)

lemma keeps_ok_case: "keeps_ok m \<Longrightarrow> (\<And>w x. m w = x \<Longrightarrow> fst (g x) = fst (g x) \<and> snd (g x) = snd x) \<Longrightarrow> keeps_ok (\<lambda>w. g (m w))"
  by (simp add: io_keeps_def)

lemma keeps_ok_wrappers:
  assumes "keeps_ok m"
  shows "keeps_ok (ignore_lock x f m)" "keeps_ok (discard m)" "keeps_ok (sql_ok m)" "keeps_ok (as_io et m)"
proof -
  show "keeps_ok (discard m)" unfolding discard_def by (intro keeps_ok_bind assms keeps_ok_pure)
  have s: "stays_ok w (snd (m w))" for w using assms by (simp add: io_keeps_def)
  show "keeps_ok (ignore_lock x f m)" unfolding io_keeps_def ignore_lock_def
    using s by (auto split: prod.split sum.split) (metis snd_conv)+
  show "keeps_ok (sql_ok m)" unfolding io_keeps_def sql_ok_def
    using s by (auto split: prod.split sum.split) (metis snd_conv)+
  show "keeps_ok (as_io et m)" unfolding io_keeps_def as_io_def
    using s by (auto split: prod.split sum.split) (metis snd_conv)+
qed

lemmas keeps_ok_intros = keeps_ok_bind keeps_ok_pure keeps_ok_step keeps_ok_query keeps_ok_get keeps_ok_retry
  keeps_ok_wrappers io_keeps_if

lemma keeps_ok_option: "(\<And>x. o' = Some x \<Longrightarrow> keeps_ok (f x)) \<Longrightarrow> keeps_ok m \<Longrightarrow> keeps_ok (case o' of None \<Rightarrow> m | Some x \<Rightarrow> f x)"
  by (cases o') simp_all

lemma keeps_ok_events: "keeps_ok (append_runtime_event cd event_id pk c run t chat ty payload)"
  unfolding io_keeps_def
proof
  fix w
  obtain r w' where a: "append_runtime_event cd event_id pk c run t chat ty payload w = (r, w')"
    by (cases "append_runtime_event cd event_id pk c run t chat ty payload w")
  from a have "stays_ok w w'"
  proof (cases rule: append_runtime_event_cases)
    case (appended row)
    have "product_ok w \<Longrightarrow> product_ok (w\<lparr>pd_events := pd_events w @ [row]\<rparr>)"
      using appended(1,4,8) by (auto simp: product_ok_def intro: numbered_snoc)
    then show ?thesis using product_ok_same [OF appended(3)] by (simp add: stays_ok_def)
  qed (simp_all add: stays_ok_same)
  with a show "stays_ok w (snd (append_runtime_event cd event_id pk c run t chat ty payload w))" by simp
qed

text \<open>An update of runs that keeps ids and sets a known status.\<close>

definition sets_status :: "(run_record \<Rightarrow> run_record) \<Rightarrow> bool" where
  "sets_status f \<longleftrightarrow> (\<forall>r. rr_run_id (f r) = rr_run_id r) \<and>
     (\<forall>r. rr_status r \<in> set RUN_STATUSES \<longrightarrow> rr_status (f r) \<in> set RUN_STATUSES)"

lemma keeps_ok_update: "sets_status f \<Longrightarrow> keeps_ok (execute_update P f)"
  unfolding execute_update_def
  by (intro keeps_ok_intros keeps_ok_put)
    (auto simp: product_ok_def sets_status_def intro!: runs_ok_update)

lemma keeps_ok_get_run: "keeps_ok (get_run run_id)"
  unfolding get_run_def by (intro keeps_ok_intros)

lemma keeps_ok_status:
  assumes "status \<in> set RUN_STATUSES"
  shows "keeps_ok (update_run_status run_id status e)"
  using assms unfolding update_run_status_def
  by (intro keeps_ok_intros keeps_ok_update keeps_ok_get_run) (simp add: sets_status_def)

lemma keeps_ok_others:
  "keeps_ok (update_run_worker run_id worker_id)" "keeps_ok (heartbeat_run run_id)"
  "keeps_ok (bind_run_task run_id task_id job_id)"
  unfolding update_run_worker_def heartbeat_run_def bind_run_task_def
  by (intro keeps_ok_intros keeps_ok_update keeps_ok_get_run; simp add: sets_status_def)+

lemma cancel_row_status: "sets_status (cancel_row now)"
  by (simp add: sets_status_def cancel_row_def RUN_STATUSES_def)

lemma keeps_ok_cancel:
  "keeps_ok (request_cancel_runs_by column v)" "keeps_ok (request_cancel_run run_id)"
  unfolding request_cancel_runs_by_def request_cancel_run_def
  by (intro keeps_ok_intros keeps_ok_update keeps_ok_get_run cancel_row_status)+

text \<open>A step that reads the tables and writes what it computed from them.\<close>

lemma keeps_ok_get_at: "(\<And>w. stays_ok w (snd (f w w))) \<Longrightarrow> keeps_ok (io_bind io_get f)"
  by (simp add: io_keeps_def)

lemma stays_ok_put: "(product_ok w \<Longrightarrow> product_ok (g w)) \<Longrightarrow> keeps_ok (f ()) \<Longrightarrow> stays_ok w (snd (io_bind (put_product g) f w))"
  by (simp add: stays_ok_def io_keeps_def)

lemma runs_ok_snoc:
  "runs_ok rows \<Longrightarrow> rr_run_id r \<notin> rr_run_id ` set rows \<Longrightarrow> rr_status r \<in> set RUN_STATUSES \<Longrightarrow> runs_ok (rows @ [r])"
  by (simp add: runs_ok_def)

lemma keeps_ok_counter:
  "keeps_ok (put_product (\<lambda>w. w\<lparr>pd_run_counter := f w\<rparr>))" "keeps_ok (put_product (\<lambda>w. w\<lparr>pd_worker_counter := f w\<rparr>))"
  "keeps_ok (put_product (\<lambda>w. w\<lparr>pd_active := g w\<rparr>))"
  by (intro keeps_ok_put; simp add: product_ok_def)+

lemma keeps_ok_next_id: "keeps_ok next_run_id"
  unfolding next_run_id_def by (intro keeps_ok_intros keeps_ok_counter)

lemma keeps_ok_insert: "keeps_ok (insert_run run)"
  unfolding insert_run_def
proof (rule keeps_ok_bind [OF keeps_ok_next_id], rule keeps_ok_bind [OF keeps_ok_step(2)],
    rule keeps_ok_bind [OF keeps_ok_step(1)], rule keeps_ok_bind [OF keeps_ok_step(1)], rule keeps_ok_get_at, goal_cases)
  case (1 run_id now u v w)
  show ?case
  proof (cases "run_id \<in> rr_run_id ` set (pd_runs w)")
    case True
    then show ?thesis by (simp add: io_fail_apply stays_ok_def)
  next
    case False
    then show ?thesis
      by (simp only: if_False)
        (rule stays_ok_put [OF _ keeps_ok_get_run], auto simp: product_ok_def RUN_STATUSES_def intro!: runs_ok_snoc)
  qed
qed

section \<open>The manager's operations\<close>

lemma terminal_status_known: "run_terminal_status status \<in> set RUN_STATUSES"
  by (simp add: run_terminal_status_def RUN_STATUSES_def FINISHED_STATUSES_def)

lemma keeps_ok_run_event: "keeps_ok (append_run_event cd run ty)"
  unfolding append_run_event_def by (intro keeps_ok_intros keeps_ok_events)

lemma keeps_ok_manager:
  "keeps_ok (mark_running cd run_id)" "keeps_ok (bind_task_run cd run_id task_id job_id)"
  "keeps_ok (complete_run cd run_id status)" "keeps_ok (fail_run cd run_id text)"
  unfolding mark_running_def bind_task_run_def complete_run_def fail_run_def Let_def
  by (intro keeps_ok_intros keeps_ok_status keeps_ok_others keeps_ok_run_event terminal_status_known;
      simp add: RUN_STATUSES_def FINISHED_STATUSES_def)+

lemma keeps_ok_start:
  "keeps_ok (start_chat_run cd pw pid container chat)" "keeps_ok (start_task_run cd pw pid container)"
  unfolding start_chat_run_def start_task_run_def
  by (intro keeps_ok_intros keeps_ok_insert keeps_ok_manager)+

lemma keeps_ok_kill: "keeps_ok (kill_run_process run_id)"
  unfolding kill_run_process_def by (rule keeps_ok_put) (simp add: product_ok_def)

lemma keeps_ok_cancel_each: "keeps_ok (cancel_each cd runs)"
  by (induction runs) (auto intro!: keeps_ok_intros keeps_ok_kill keeps_ok_run_event)

lemma keeps_ok_cancel_requests:
  "keeps_ok (request_cancel_task_run cd task_id)" "keeps_ok (request_cancel_chat_run cd chat_id)"
  unfolding request_cancel_task_run_def request_cancel_chat_run_def request_cancel_task_runs_def request_cancel_chat_runs_def
  by (intro keeps_ok_intros keeps_ok_cancel keeps_ok_cancel_each)+

lemma shards_ok_set:
  "shards_ok dbs \<Longrightarrow> numbered se_event_id se_cursor_seq (sd_events d) \<Longrightarrow> shards_ok (dbs(path \<mapsto> d))"
  by (simp add: shards_ok_def)

lemma shards_ok_at: "product_ok w \<Longrightarrow> numbered se_event_id se_cursor_seq (sd_events (shard_at path w))"
  by (cases "pd_shard_dbs w path") (auto simp: product_ok_def shards_ok_def shard_at_def empty_shard_def)

lemma keeps_ok_execute: "(\<And>w. product_ok w \<Longrightarrow> product_ok (f w)) \<Longrightarrow> keeps_ok (sql_execute f)"
  unfolding sql_execute_def by (intro keeps_ok_intros keeps_ok_put)

lemma keeps_ok_open: "keeps_ok (open_shard_db path)"
  unfolding open_shard_db_def
  by (intro keeps_ok_intros keeps_ok_execute) (auto simp: product_ok_def empty_shard_def intro!: shards_ok_set)

lemma keeps_ok_open_existing: "keeps_ok (open_existing_shard r)"
  unfolding open_existing_shard_def by (intro keeps_ok_intros keeps_ok_open)

lemma keeps_ok_shard_event: "keeps_ok (shard_append_runtime_event cd path event_id ty payload)"
  unfolding io_keeps_def
proof
  fix w
  obtain r w' where a: "shard_append_runtime_event cd path event_id ty payload w = (r, w')"
    by (cases "shard_append_runtime_event cd path event_id ty payload w")
  have "stays_ok w w'"
    using a unfolding shard_append_runtime_event_def
  proof (elim sql_stepE, goal_cases)
    case (4 v1 v2 v3)
    then have s: "same_store w v3" by (simp add: same_store_def)
    from 4 have run: "(if event_id \<in> se_event_id ` set (sd_events (shard_at path v3)) then sql_step
       else io_bind sql_step (\<lambda>_.
        let cursor_seq = next_cursor se_cursor_seq (sd_events (shard_at path v3)) in
        io_bind sql_now (\<lambda>created_at_ms.
        let row = \<lparr>se_event_id = event_id, se_event_type = ty, se_payload_json = to_string cd payload,
            se_created_at_ms = created_at_ms, se_cursor_seq = cursor_seq\<rparr>
        in io_bind sql_step (\<lambda>_. io_bind sql_step (\<lambda>_.
           put_product (set_shard path (\<lambda>d. d\<lparr>sd_events := sd_events d @ [row]\<rparr>))))))) v3 = (r, w')" by simp
    show ?case
    proof (cases "event_id \<in> se_event_id ` set (sd_events (shard_at path v3))")
      case True
      with run s show ?thesis by (auto intro!: stays_ok_same dest!: same_store_step simp: same_store_def)
    next
      case False
      then have nf: "(event_id \<in> se_event_id ` set (sd_events (shard_at path v3))) = False" by simp
      from run [unfolded nf if_False Let_def] show ?thesis
      proof (elim sql_stepE sql_nowE, goal_cases)
        case (4 v t v' v'' v4)
        then have sv: "same_store w v4" "shard_at path v4 = shard_at path v3"
          using s by (auto simp: same_store_def) (metis same_store_def same_store_fields(4) shard_at_def)
        have "product_ok w'" if ok: "product_ok v4"
          using 4(6) False sv(2) ok shards_ok_at [OF ok, of path]
          by (auto simp: put_product_apply set_shard_def product_ok_def intro!: shards_ok_set numbered_snoc)
        with product_ok_same [OF sv(1)] show ?thesis by (simp add: stays_ok_def)
      qed (use s in \<open>auto intro!: stays_ok_same simp: same_store_def\<close>)
    qed
  qed (auto intro!: stays_ok_same simp: same_store_def)
  with a show "stays_ok w (snd (shard_append_runtime_event cd path event_id ty payload w))" by simp
qed

lemma keeps_ok_seq: "keeps_ok next_worker_event_seq"
  unfolding next_worker_event_seq_def by (intro keeps_ok_intros keeps_ok_counter)

lemma keeps_ok_shard_for_run: "keeps_ok (projection_shard_for_run run)"
  unfolding projection_shard_for_run_def projection_shard_for_chat_thread_def projection_shard_for_task_job_def
  by (intro keeps_ok_intros keeps_ok_option keeps_ok_open_existing)

lemma keeps_ok_worker_event: "keeps_ok (append_worker_event cd run_id event)"
  unfolding append_worker_event_def Let_def
  by (intro keeps_ok_intros keeps_ok_option keeps_ok_get_run keeps_ok_seq keeps_ok_shard_for_run keeps_ok_shard_event keeps_ok_events)

lemma keeps_ok_stderr: "keeps_ok (append_finished_worker_stderr cd run_id text)"
  unfolding append_finished_worker_stderr_def
  by (intro keeps_ok_intros keeps_ok_option keeps_ok_seq keeps_ok_events)

text \<open>A worker run keeps them when its caller's callback does.\<close>

lemma keeps_ok_handle:
  assumes "\<And>e. keeps_ok (on_event e)"
  shows "keeps_ok (handle_event et run_id on_event decodes event worker_error)"
  unfolding handle_event_def Let_def
  by (intro keeps_ok_intros keeps_ok_option keeps_ok_others assms)

lemma keeps_ok_lines:
  assumes "\<And>e. keeps_ok (on_event e)"
  shows "keeps_ok (read_worker_lines cd et run_id on_event decodes lines worker_error)"
proof (induction lines arbitrary: worker_error)
  case Nil
  then show ?case by (simp add: keeps_ok_pure)
next
  case (Cons line lines)
  have "keeps_ok (case x of (terminal, worker_error) \<Rightarrow>
      if terminal \<noteq> None then io_return (terminal, worker_error)
      else read_worker_lines cd et run_id on_event decodes lines worker_error)" for x
    using Cons.IH by (cases x) (simp add: keeps_ok_pure)
  then show ?case
    unfolding read_worker_lines.simps
    by (intro keeps_ok_intros keeps_ok_handle keeps_ok_worker_event assms Cons.IH)
qed

lemma keeps_ok_unless_cancelled: "keeps_ok m \<Longrightarrow> keeps_ok (unless_cancelled cd et run_id how m)"
  unfolding unless_cancelled_def by (intro keeps_ok_intros keeps_ok_get_run keeps_ok_manager)

lemma keeps_ok_finish: "keeps_ok (finish_worker cd et run_id wp outcome)"
  unfolding finish_worker_def remove_active_def Let_def
  by (cases outcome; cases "fst outcome")
    (auto intro!: keeps_ok_intros keeps_ok_counter keeps_ok_stderr keeps_ok_unless_cancelled keeps_ok_manager)

lemma keeps_ok_fail_if: "keeps_ok (fail_if e)"
  unfolding fail_if_def by (intro keeps_ok_option keeps_ok_pure)

lemma keeps_ok_worker:
  assumes "\<And>e. keeps_ok (on_event e)"
  shows "keeps_ok (run_worker_command cd et pw run_id wp on_event)"
  unfolding run_worker_command_def
  by (intro keeps_ok_intros keeps_ok_fail_if keeps_ok_others keeps_ok_counter assms keeps_ok_lines keeps_ok_finish)

section \<open>Cancelling\<close>

text \<open>What is marked, over any number of attempts.\<close>

definition cancelled_by :: "(run_record \<Rightarrow> string option) \<Rightarrow> string \<Rightarrow> nat \<Rightarrow> run_record list \<Rightarrow> run_record list" where
  "cancelled_by column v now rows = update_runs (\<lambda>r. column r = Some v \<and> cancellable r) (cancel_row now) rows"

definition cancels :: "(run_record \<Rightarrow> string option) \<Rightarrow> string \<Rightarrow> product \<Rightarrow> product \<Rightarrow> bool" where
  "cancels column v w w' \<longleftrightarrow> pd_runs w' = pd_runs w \<or> (\<exists>now. pd_runs w' = cancelled_by column v now (pd_runs w))"

definition stable_column :: "(run_record \<Rightarrow> string option) \<Rightarrow> bool" where
  "stable_column column \<longleftrightarrow> (\<forall>now r. column (cancel_row now r) = column r)"

lemma stable_columns: "stable_column rr_task_id" "stable_column rr_chat_thread_id"
  by (simp_all add: stable_column_def cancel_row_def)

lemma cancellable_cancelled: "cancellable (cancel_row now r)"
  by (simp add: cancellable_def cancel_row_def FINISHED_STATUSES_def)

lemma cancelled_by_twice:
  assumes "stable_column column"
  shows "cancelled_by column v now (cancelled_by column v before rows) = cancelled_by column v now rows"
proof -
  let ?P = "\<lambda>r. column r = Some v \<and> cancellable r"
  have c: "cancel_row now (cancel_row before r) = cancel_row now r" for r by (simp add: cancel_row_def)
  have "(if ?P (if ?P r then cancel_row before r else r) then cancel_row now (if ?P r then cancel_row before r else r)
      else (if ?P r then cancel_row before r else r)) = (if ?P r then cancel_row now r else r)" for r
    using assms by (auto simp: stable_column_def cancellable_cancelled c)
  then show ?thesis by (simp add: cancelled_by_def update_runs_def)
qed

lemma cancels_transp: "stable_column column \<Longrightarrow> transp (cancels column v)"
  unfolding transp_def cancels_def by (metis cancelled_by_twice)

lemma execute_update_cases:
  assumes "execute_update P f w = (r, w')"
  obtains (failed) e where "r = Inl e" "same_store w w'"
  | (updated) v where "same_store w v" "w' = v\<lparr>pd_runs := update_runs P f (pd_runs w)\<rparr>"
      "r = Inr (length (filter P (pd_runs w)))"
  using assms unfolding execute_update_def
proof (elim sql_stepE, goal_cases)
  case (3 v v')
  then have s: "same_store w v'" by (simp add: same_store_def)
  with 3 show ?case by (intro updated [of v']) (auto simp: io_return_apply same_store_fields)
qed (auto simp: same_store_def)

lemma request_cancel_runs_by_effect:
  assumes "request_cancel_runs_by column v w = (r, w')"
  shows "pd_events w' = pd_events w \<and> pd_active w' = pd_active w \<and> pd_killed w' = pd_killed w \<and> cancels column v w w' \<and>
     (\<forall>runs. r = Inr runs \<longrightarrow> (\<exists>now. pd_runs w' = cancelled_by column v now (pd_runs w)) \<and>
        runs = newest_first rr_updated_at_ms rr_run_id (filter (\<lambda>r. column r = Some v) (pd_runs w')))"
  using assms unfolding request_cancel_runs_by_def
proof (elim sql_nowE, goal_cases)
  case (1 now u)
  obtain r1 w1 where e: "execute_update (\<lambda>r. column r = Some v \<and> cancellable r) (cancel_row now) u = (r1, w1)"
    by (cases "execute_update (\<lambda>r. column r = Some v \<and> cancellable r) (cancel_row now) u")
  note u = same_store_fields [OF 1(1)]
  from e show ?case
  proof (cases rule: execute_update_cases)
    case (failed x)
    with 1(3) e u show ?thesis by (auto simp: io_bind_Inl same_store_fields cancels_def)
  next
    case (updated x)
    note x = same_store_fields [OF updated(1)]
    from 1(3) e updated(3) have "io_bind sql_step (\<lambda>_. io_bind io_get (\<lambda>w. io_return
        (newest_first rr_updated_at_ms rr_run_id (filter (\<lambda>r. column r = Some v) (pd_runs w))))) w1 = (r, w')"
      by (simp add: io_bind_Inr)
    then show ?thesis
    proof (elim sql_stepE, goal_cases)
      case (1 e)
      with updated(2) x u show ?case by (auto simp: same_store_fields cancels_def cancelled_by_def)
    next
      case (2 y)
      with updated(2) x u show ?case by (auto simp: same_store_fields cancels_def cancelled_by_def io_return_apply)
    qed
  qed
qed

end
