(* ===== verification/Run_Claims.thy ===== *)
theory Run_Claims
  imports Run_Laws
begin

text \<open>
  The properties of runs and their events: retries are bounded, cancelling marks exactly the unfinished
  runs, a worker that ends after a cancellation ends its run as cancelled, the tables stay well-formed
  over every sequence of operations, and appending an event twice is appending it once.
\<close>

section \<open>Attempts and relations\<close>

lemma busy_state_keeps:
  assumes "transp R" and "reflp R" and "\<And>w d. R w (sleep_ms d w)" and "io_keeps R action"
  shows "R w (busy_state action delay w k)"
proof (induction k arbitrary: delay w)
  case 0
  from \<open>reflp R\<close> show ?case by (simp add: reflp_def)
next
  case (Suc k)
  have "R w (snd (action w))" using assms(4) by (simp add: io_keeps_def)
  moreover have "R (snd (action w)) (sleep_ms delay (snd (action w)))" by (rule assms(3))
  moreover have "R (sleep_ms delay (snd (action w))) (busy_state action (min (delay * 2) 400) (sleep_ms delay (snd (action w))) k)"
    by (rule Suc.IH)
  ultimately show ?case using \<open>transp R\<close> by (simp only: busy_state.simps) (meson transpD)
qed

text \<open>Operations that leave runs and processes alone.\<close>

definition same_runs :: "product \<Rightarrow> product \<Rightarrow> bool" where
  "same_runs w w' \<longleftrightarrow> pd_runs w' = pd_runs w \<and> pd_active w' = pd_active w \<and> pd_killed w' = pd_killed w"

lemma same_runs_rel: "transp same_runs" "reflp same_runs"
  by (auto simp: same_runs_def transp_def reflp_def)

lemma same_runs_store: "same_store w w' \<Longrightarrow> same_runs w w'"
  by (simp add: same_runs_def same_store_fields)

lemma same_runs_sleep: "same_runs w (sleep_ms d w)"
  by (simp add: same_runs_def sleep_ms_def)

lemma same_runs_events: "io_keeps same_runs (append_runtime_event cd i pk c run t chat ty payload)"
  unfolding io_keeps_def
proof
  fix w
  obtain r w' where a: "append_runtime_event cd i pk c run t chat ty payload w = (r, w')"
    by (cases "append_runtime_event cd i pk c run t chat ty payload w")
  from a have "same_runs w w'"
  proof (cases rule: append_runtime_event_cases)
    case (appended row)
    from same_runs_store [OF appended(3)] show ?thesis by (simp add: same_runs_def)
  qed (simp_all add: same_runs_store)
  with a show "same_runs w (snd (append_runtime_event cd i pk c run t chat ty payload w))" by simp
qed

lemma append_run_event_runs:
  "append_run_event cd run ty w = (r, w') \<Longrightarrow> same_runs w w' \<and> (\<forall>x. r = Inr x \<longrightarrow> x = run)"
proof -
  assume a: "append_run_event cd run ty w = (r, w')"
  define m where "m = append_runtime_event cd (ty @ '':'' @ rr_run_id run @ '':'' @ dec (rr_updated_at_ms run))
          (rr_workspace_uid run @ ''/'' @ rr_container_id run) (Some (rr_container_id run)) (Some (rr_run_id run))
          (rr_task_id run) (rr_chat_thread_id run) ty (run_json run)"
  have k: "io_keeps same_runs (retry_sqlite_busy m)"
    unfolding m_def by (rule retry_keeps [where R = same_runs, OF same_runs_sleep same_runs_rel same_runs_events])
  obtain r1 w1 where 1: "retry_sqlite_busy m w = (r1, w1)" by (cases "retry_sqlite_busy m w")
  with k have "same_runs w w1" by (metis io_keepsD)
  moreover from a 1 have "w' = w1 \<and> (\<forall>x. r = Inr x \<longrightarrow> x = run)"
    unfolding append_run_event_def m_def [symmetric]
    by (auto simp: io_bind_def ignore_lock_def discard_def io_return_def split: sum.splits if_splits)
  ultimately show ?thesis by simp
qed

section \<open>Retries\<close>

text \<open>
  C36: retrying a busy database ends. The action is run at most eight times: the result is that of the
  first run that does not find the database locked, after sleeping 25, 50, 100, 200 and then 400
  milliseconds between the runs, or, when all eight find it locked, a lock error after 1975
  milliseconds of sleep. Any other error is returned at once.
\<close>

theorem retry_ends:
  assumes "\<And>w. pd_slept (snd (action w)) = pd_slept w"
  shows "(\<exists>k < 8. (\<forall>j < k. busy_at action (busy_state action 25 w j)) \<and>
       \<not> busy_at action (busy_state action 25 w k) \<and>
       retry_sqlite_busy action w = action (busy_state action 25 w k) \<and>
       pd_slept (snd (retry_sqlite_busy action w)) = pd_slept w + busy_sleep 25 k) \<or>
     (\<forall>j < 8. busy_at action (busy_state action 25 w j)) \<and>
     (\<exists>e. is_sqlite_lock_error e \<and> fst (retry_sqlite_busy action w) = Inl e \<and>
       pd_slept (snd (retry_sqlite_busy action w)) = pd_slept w + 1975)"
proof (cases "\<forall>j < 8. busy_at action (busy_state action 25 w j)")
  case True
  from retry_loop_exhausted [OF True, of None] obtain e where
    "retry_sqlite_busy action w = (Inl e, busy_state action 25 w 8)" "is_sqlite_lock_error e"
    by (auto simp: retry_sqlite_busy_def)
  with True busy_state_slept [of action 25 w 8, OF assms] busy_sleep_8 show ?thesis by simp
next
  case False
  define m where "m = (LEAST k. \<not> busy_at action (busy_state action 25 w k))"
  from False obtain k where k: "k < 8" "\<not> busy_at action (busy_state action 25 w k)" by blast
  have m: "\<not> busy_at action (busy_state action 25 w m)" "\<forall>j < m. busy_at action (busy_state action 25 w j)" "m \<le> k"
    unfolding m_def using k(2) by (rule LeastI, blast dest: not_less_Least, rule Least_le)
  with k(1) have "m < 8" by simp
  from retry_loop_first [OF this m(2,1), of None] have
    r: "retry_sqlite_busy action w = action (busy_state action 25 w m)" by (simp add: retry_sqlite_busy_def)
  have "pd_slept (snd (action (busy_state action 25 w m))) = pd_slept w + busy_sleep 25 m"
    using assms busy_state_slept [of action 25 w m, OF assms] by simp
  with r m \<open>m < 8\<close> show ?thesis by auto
qed

section \<open>Cancellation\<close>

lemma cancel_each_effect:
  "cancel_each cd runs w = (Inr u, w') \<Longrightarrow>
     pd_runs w' = pd_runs w \<and> pd_active w' = pd_active w \<and>
     pd_killed w' = pd_killed w @ filter (\<lambda>i. i \<in> set (pd_active w)) (map rr_run_id runs)"
proof (induction runs arbitrary: w)
  case Nil
  then show ?case by (simp add: io_return_apply)
next
  case (Cons run runs)
  let ?k = "if rr_run_id run \<in> set (pd_active w) then w\<lparr>pd_killed := pd_killed w @ [rr_run_id run]\<rparr> else w"
  from Cons.prems have "io_bind (append_run_event cd run ''run.cancel_requested'') (\<lambda>_. cancel_each cd runs) ?k = (Inr u, w')"
    by (simp add: kill_run_process_def)
  then obtain x w1 where a: "append_run_event cd run ''run.cancel_requested'' ?k = (Inr x, w1)"
    and rest: "cancel_each cd runs w1 = (Inr u, w')" by (auto elim: io_bindE)
  from append_run_event_runs [OF a] Cons.IH [OF rest] show ?case by (auto simp: same_runs_def)
qed

lemma request_cancel_retry:
  assumes "stable_column column" and "retry_sqlite_busy (request_cancel_runs_by column v) w = (Inr runs, w')"
  shows "(\<exists>now. pd_runs w' = cancelled_by column v now (pd_runs w)) \<and> pd_active w' = pd_active w \<and> pd_killed w' = pd_killed w \<and>
     runs = newest_first rr_updated_at_ms rr_run_id (filter (\<lambda>r. column r = Some v) (pd_runs w'))"
proof -
  let ?m = "request_cancel_runs_by column v"
  let ?R = "\<lambda>a b. cancels column v a b \<and> pd_active b = pd_active a \<and> pd_killed b = pd_killed a"
  have R: "transp ?R" "reflp ?R"
    using cancels_transp [OF assms(1), of v] by (auto simp: transp_def reflp_def cancels_def)
  have keeps: "io_keeps ?R ?m"
    unfolding io_keeps_def by (metis prod.collapse request_cancel_runs_by_effect)
  have sleep: "?R a (sleep_ms d a)" for a d by (simp add: cancels_def sleep_ms_def)
  from retry_success [OF assms(2)] obtain k where k: "?m (busy_state ?m 25 w k) = (Inr runs, w')" by blast
  let ?b = "busy_state ?m 25 w k"
  have b: "?R w ?b" by (rule busy_state_keeps [where R = ?R, OF R sleep keeps])
  note e = request_cancel_runs_by_effect [OF k]
  from e obtain now where n: "pd_runs w' = cancelled_by column v now (pd_runs ?b)" by blast
  from b have "pd_runs w' = cancelled_by column v now (pd_runs w)"
    unfolding n cancels_def using cancelled_by_twice [OF assms(1)] by auto
  with e b show ?thesis by auto
qed

text \<open>
  C22: a cancellation marks the unfinished runs of its task and nothing else. When the request of a
  task's cancellation succeeds, after any number of attempts at a busy database, every run of the task
  whose status is not completed, failed, blocked or cancelled has its flag set and the status
  \<open>cancel_requested\<close>; every finished run and every run of another task is as it was. All runs of the
  task are returned, the newest first, and exactly the registered processes among them are killed.
\<close>

theorem cancel_marks_unfinished_runs:
  assumes "request_cancel_task_run cd task_id w = (Inr runs, w')"
  shows "(\<exists>now. pd_runs w' = map (\<lambda>r. if rr_task_id r = Some task_id \<and>
            rr_status r \<notin> {''completed'', ''failed'', ''blocked'', ''cancelled''} then cancel_row now r else r) (pd_runs w)) \<and>
     runs = newest_first rr_updated_at_ms rr_run_id (filter (\<lambda>r. rr_task_id r = Some task_id) (pd_runs w')) \<and>
     pd_killed w' = pd_killed w @ filter (\<lambda>i. i \<in> set (pd_active w)) (map rr_run_id runs)"
proof -
  from assms obtain w1 u where
    r: "retry_sqlite_busy (request_cancel_runs_by rr_task_id task_id) w = (Inr runs, w1)"
    and c: "cancel_each cd runs w1 = (Inr u, w')"
    unfolding request_cancel_task_run_def request_cancel_task_runs_def
    by (auto elim!: io_bindE simp: io_return_apply)
  from request_cancel_retry [OF stable_columns(1) r] cancel_each_effect [OF c] show ?thesis
    by (simp add: cancelled_by_def update_runs_def cancellable_def FINISHED_STATUSES_def)
qed

section \<open>Every sequence of operations\<close>

inductive product_step :: "json_codec \<Rightarrow> product \<Rightarrow> product \<Rightarrow> bool" for cd where
  start_chat: "start_chat_run cd pw pid container_id chat_thread_id w = (r, w') \<Longrightarrow> product_step cd w w'"
| start_task: "start_task_run cd pw pid container_id w = (r, w') \<Longrightarrow> product_step cd w w'"
| bind_task: "bind_task_run cd run_id task_id job_id w = (r, w') \<Longrightarrow> product_step cd w w'"
| complete: "complete_run cd run_id status w = (r, w') \<Longrightarrow> product_step cd w w'"
| fail: "fail_run cd run_id error_text w = (r, w') \<Longrightarrow> product_step cd w w'"
| cancel_task: "request_cancel_task_run cd task_id w = (rs, w') \<Longrightarrow> product_step cd w w'"
| cancel_chat: "request_cancel_chat_run cd chat_thread_id w = (rs, w') \<Longrightarrow> product_step cd w w'"
| cancel_run: "request_cancel_run run_id w = (opt, w') \<Longrightarrow> product_step cd w w'"
| event: "append_runtime_event cd event_id pk c run t chat ty payload w = (e, w') \<Longrightarrow> product_step cd w w'"
| worker: "run_worker_command cd et pw run_id wp on_event w = (t', w') \<Longrightarrow> (\<And>e. keeps_ok (on_event e)) \<Longrightarrow>
    product_step cd w w'"

lemma product_step_ok: "product_step cd w w' \<Longrightarrow> product_ok w \<Longrightarrow> product_ok w'"
proof (induction rule: product_step.induct)
  case (worker et pw run_id wp on_event w t' w')
  from io_keepsD [OF keeps_ok_worker [of on_event] worker(1)] worker(2,3) show ?case by (simp add: stays_ok_def)
qed (auto simp: stays_ok_def dest!: io_keepsD [OF keeps_ok_start(1)] io_keepsD [OF keeps_ok_start(2)]
    io_keepsD [OF keeps_ok_manager(2)] io_keepsD [OF keeps_ok_manager(3)] io_keepsD [OF keeps_ok_manager(4)]
    io_keepsD [OF keeps_ok_cancel_requests(1)] io_keepsD [OF keeps_ok_cancel_requests(2)]
    io_keepsD [OF keeps_ok_cancel(2)] io_keepsD [OF keeps_ok_events])

text \<open>
  C24: the tables of the product runtime are well-typed after every sequence of operations, whatever
  fails. From well-formed tables, starting, binding, completing, failing and cancelling runs, appending
  events and running workers leave run ids unique and every status one of the nine known ones (also
  when a worker reports an unknown status), event ids unique, and the rows of the event log and of
  every shard's log numbered 1, 2, 3, ... in order.
\<close>

theorem product_tables_stay_well_formed:
  assumes "(product_step cd)\<^sup>*\<^sup>* w w'"
    and "distinct (map rr_run_id (pd_runs w)) \<and> list_all (\<lambda>r. rr_status r \<in> set RUN_STATUSES) (pd_runs w)"
    and "numbered er_event_id er_cursor_seq (pd_events w)"
    and "shards_ok (pd_shard_dbs w)"
  shows "distinct (map rr_run_id (pd_runs w')) \<and> list_all (\<lambda>r. rr_status r \<in> set RUN_STATUSES) (pd_runs w') \<and>
     numbered er_event_id er_cursor_seq (pd_events w') \<and> shards_ok (pd_shard_dbs w')"
proof -
  have "product_ok w" using assms(2-4) by (simp add: product_ok_def runs_ok_def)
  with assms(1) have "product_ok w'" by (induction rule: rtranclp_induct) (auto intro: product_step_ok)
  then show ?thesis by (simp add: product_ok_def runs_ok_def)
qed

section \<open>Events\<close>

lemma find_snoc_new: "x \<notin> key ` set rows \<Longrightarrow> key r = x \<Longrightarrow> find (\<lambda>r. key r = x) (rows @ [r]) = Some r"
  by (induction rows) auto

text \<open>
  Appending a runtime event is idempotent by its id. On a well-formed log a successful append of a
  new id adds one row, at the end, numbered one more than the rows there are, and returns its payload;
  appending the same id again, with any other content, returns the first row and changes nothing.
\<close>

theorem event_append_idempotent:
  assumes "numbered er_event_id er_cursor_seq (pd_events w)"
    and "append_runtime_event cd event_id pk c run t chat ty payload w = (Inr e1, w1)"
    and "append_runtime_event cd event_id pk' c' run' t' chat' ty' payload' w1 = (Inr e2, w2)"
  shows "e2 = e1 \<and> pd_events w2 = pd_events w1 \<and>
     (if event_id \<in> er_event_id ` set (pd_events w) then pd_events w1 = pd_events w
      else (\<exists>row. pd_events w1 = pd_events w @ [row] \<and> er_cursor_seq row = int (length (pd_events w)) + 1 \<and>
        e1 = row_to_runtime_event cd row \<and> re_event_type e1 = ty \<and>
        (from_str cd (to_string cd payload) = Some payload \<longrightarrow> re_payload e1 = payload)))"
proof -
  have again: "e2 = row_to_runtime_event cd row \<and> pd_events w2 = pd_events w1"
    if "find (\<lambda>r. er_event_id r = event_id) (pd_events w1) = Some row" for row
    using assms(3)
  proof (cases rule: append_runtime_event_cases)
    case (known row')
    with that show ?thesis by (simp add: same_store_fields)
  next
    case (appended row')
    from that have "event_id \<in> er_event_id ` set (pd_events w1)" by (auto simp: find_Some_iff image_iff)
    with appended(1) show ?thesis by simp
  qed auto
  from assms(2) show ?thesis
  proof (cases rule: append_runtime_event_cases)
    case (known row)
    then have "pd_events w1 = pd_events w" by (simp add: same_store_fields)
    moreover from known(1) have "event_id \<in> er_event_id ` set (pd_events w)" by (auto simp: find_Some_iff image_iff)
    ultimately show ?thesis using known(1,2) again [of row] by simp
  next
    case (appended row)
    then have ev: "pd_events w1 = pd_events w @ [row]" using same_store_fields(2) [OF appended(3)] by simp
    have "find (\<lambda>r. er_event_id r = event_id) (pd_events w @ [row]) = Some row"
      by (rule find_snoc_new [where key = er_event_id]) (simp_all add: appended)
    with ev have f: "find (\<lambda>r. er_event_id r = event_id) (pd_events w1) = Some row" by simp
    from again [OF f] ev appended next_cursor_ok [OF assms(1)] show ?thesis
      by (auto simp: row_to_runtime_event_def)
  qed auto
qed

section \<open>The end of a worker\<close>

definition no_db_faults :: "product \<Rightarrow> bool" where
  "no_db_faults w \<longleftrightarrow> (\<forall>n. pd_fault w n = None)"

text \<open>A computation that only fails with the database, and what it does to the runs.\<close>

definition succeeds :: "'a sql \<Rightarrow> product \<Rightarrow> 'a \<Rightarrow> (run_record list \<Rightarrow> bool) \<Rightarrow> bool" where
  "succeeds m w x Q \<longleftrightarrow> (\<exists>w'. m w = (Inr x, w') \<and> no_db_faults w' \<and> Q (pd_runs w'))"

lemma step_no_fault: "no_db_faults w \<Longrightarrow> sql_step w = (Inr (), w\<lparr>pd_ops := Suc (pd_ops w)\<rparr>)"
  by (simp add: sql_step_def no_db_faults_def Let_def)

lemma no_db_faults_ops: "no_db_faults (w\<lparr>pd_ops := n\<rparr>) = no_db_faults w"
  by (simp add: no_db_faults_def)

lemmas step_simps = io_bind_def step_no_fault no_db_faults_ops io_return_apply

lemma query_no_fault:
  assumes "no_db_faults w"
  obtains w' where "sql_query f w = (Inr (f w'), w')" "same_store w w'" "no_db_faults w'"
proof (rule that)
  let ?w = "w\<lparr>pd_ops := Suc (Suc (pd_ops w))\<rparr>"
  show "sql_query f w = (Inr (f ?w), ?w)" using assms by (simp add: sql_query_def step_simps io_get_apply)
  show "same_store w ?w" by (simp add: same_store_def env_of_def)
  show "no_db_faults ?w" using assms by (simp add: no_db_faults_ops)
qed

lemma get_run_no_fault:
  assumes "no_db_faults w" and "find (\<lambda>r. rr_run_id r = run_id) (pd_runs w) = Some r"
  obtains w' where "get_run run_id w = (Inr r, w')" "same_store w w'" "no_db_faults w'"
proof -
  from query_no_fault [OF assms(1), of "\<lambda>w. query_row (\<lambda>r. rr_run_id r = run_id) (pd_runs w)"] obtain w' where
    w': "sql_query (\<lambda>w. query_row (\<lambda>r. rr_run_id r = run_id) (pd_runs w)) w =
      (Inr (query_row (\<lambda>r. rr_run_id r = run_id) (pd_runs w')), w')" "same_store w w'" "no_db_faults w'" .
  with assms(2) show thesis
    by (intro that [of w']) (auto simp: get_run_def io_bind_def io_lift_apply query_row_def same_store_fields)
qed

lemma retry_no_fault: "fst (m w) = Inr x \<Longrightarrow> retry_sqlite_busy m w = m w"
  by (cases "m w") (simp add: retry_sqlite_busy_def numeral_eq_Suc)

lemma find_update:
  assumes "find (\<lambda>r. rr_run_id r = run_id) rows = Some r" and "\<And>r. rr_run_id (f r) = rr_run_id r"
  shows "find (\<lambda>r. rr_run_id r = run_id) (update_runs (\<lambda>r. rr_run_id r = run_id) f rows) = Some (f r)"
  using assms by (induction rows) (auto simp: update_runs_def split: if_splits)

lemma update_no_fault:
  assumes "no_db_faults w"
  obtains w' where "execute_update P f w = (Inr (length (filter P (pd_runs w))), w')" "no_db_faults w'"
    "pd_runs w' = update_runs P f (pd_runs w)"
proof (rule that)
  let ?w = "w\<lparr>pd_runs := update_runs P f (pd_runs w), pd_ops := Suc (Suc (pd_ops w))\<rparr>"
  show "execute_update P f w = (Inr (length (filter P (pd_runs w))), ?w)"
    using assms by (simp add: execute_update_def step_simps io_get_apply put_product_apply)
  show "no_db_faults ?w" using assms by (simp add: no_db_faults_def)
qed simp

lemma status_no_fault:
  assumes "no_db_faults w" and "find (\<lambda>r. rr_run_id r = run_id) (pd_runs w) = Some r"
  obtains now r' w' where "update_run_status run_id status e w = (Inr r', w')" "no_db_faults w'"
    "r' = r\<lparr>rr_status := status, rr_updated_at_ms := now, rr_error_message := e\<rparr>"
    "find (\<lambda>r. rr_run_id r = run_id) (pd_runs w') = Some r'"
proof -
  let ?now = "pd_clock w (pd_ticks w)" and ?w0 = "w\<lparr>pd_ticks := Suc (pd_ticks w)\<rparr>"
  let ?f = "\<lambda>r. r\<lparr>rr_status := status, rr_updated_at_ms := ?now, rr_error_message := e\<rparr>"
  have nf: "no_db_faults ?w0" using assms(1) by (simp add: no_db_faults_def)
  from update_no_fault [OF nf, of "\<lambda>r. rr_run_id r = run_id" ?f] obtain w1 where
    u: "execute_update (\<lambda>r. rr_run_id r = run_id) ?f ?w0 = (Inr (length (filter (\<lambda>r. rr_run_id r = run_id) (pd_runs ?w0))), w1)"
      "no_db_faults w1" "pd_runs w1 = update_runs (\<lambda>r. rr_run_id r = run_id) ?f (pd_runs ?w0)" .
  have f: "find (\<lambda>r. rr_run_id r = run_id) (pd_runs w1) = Some (?f r)"
    unfolding u(3) using assms(2) by (intro find_update) simp_all
  from get_run_no_fault [OF u(2) f] obtain w2 where
    g: "get_run run_id w1 = (Inr (?f r), w2)" "same_store w1 w2" "no_db_faults w2" .
  show thesis
    using f by (intro that [of "?f r" w2 ?now])
      (simp_all add: update_run_status_def io_bind_def sql_now_apply u(1) g same_store_fields(1) [OF g(2)])
qed

lemma event_no_fault:
  assumes "no_db_faults w"
  shows "\<exists>e w'. append_runtime_event cd i pk c run t chat ty payload w = (Inr e, w') \<and> no_db_faults w'"
proof (cases "find (\<lambda>r. er_event_id r = i) (pd_events w)")
  case None
  with assms show ?thesis
    by (simp add: append_runtime_event_def step_simps io_get_apply Let_def sql_now_apply put_product_apply no_db_faults_def)
next
  case (Some row)
  with assms show ?thesis by (simp add: append_runtime_event_def step_simps io_get_apply no_db_faults_def)
qed

lemma run_event_no_fault:
  assumes "no_db_faults w"
  obtains w' where "append_run_event cd run ty w = (Inr run, w')" "no_db_faults w'" "pd_runs w' = pd_runs w"
proof -
  define m where "m = append_runtime_event cd (ty @ '':'' @ rr_run_id run @ '':'' @ dec (rr_updated_at_ms run))
          (rr_workspace_uid run @ ''/'' @ rr_container_id run) (Some (rr_container_id run)) (Some (rr_run_id run))
          (rr_task_id run) (rr_chat_thread_id run) ty (run_json run)"
  from event_no_fault [OF assms] obtain e w' where m: "m w = (Inr e, w')" "no_db_faults w'" unfolding m_def by blast
  have "retry_sqlite_busy m w = (Inr e, w')" using retry_no_fault [of m w e] m by simp
  then have a: "append_run_event cd run ty w = (Inr run, w')"
    unfolding append_run_event_def m_def [symmetric]
    by (simp add: io_bind_def ignore_lock_def discard_def io_return_def)
  from append_run_event_runs [OF a] that [OF a m(2)] show thesis by (simp add: same_runs_def)
qed

text \<open>Ending a run on a database that works.\<close>

lemma complete_no_fault:
  assumes "no_db_faults w" and "find (\<lambda>r. rr_run_id r = run_id) (pd_runs w) = Some r"
  obtains r' w' where "complete_run cd run_id status w = (Inr r', w')" "rr_status r' = run_terminal_status status"
    "find (\<lambda>r. rr_run_id r = run_id) (pd_runs w') = Some r'"
proof -
  from status_no_fault [OF assms, of "run_terminal_status status" None] obtain now r' w1 where
    s: "update_run_status run_id (run_terminal_status status) None w = (Inr r', w1)" "no_db_faults w1"
      "r' = r\<lparr>rr_status := run_terminal_status status, rr_updated_at_ms := now, rr_error_message := None\<rparr>"
      "find (\<lambda>r. rr_run_id r = run_id) (pd_runs w1) = Some r'" .
  have rt: "retry_sqlite_busy (update_run_status run_id (run_terminal_status status) None) w = (Inr r', w1)"
    using retry_no_fault s(1) by (metis fst_conv)
  from run_event_no_fault [OF s(2)] obtain w2 where
    e: "append_run_event cd r' (if run_terminal_status status = ''cancelled'' then ''run.cancelled'' else ''run.completed'') w1 =
      (Inr r', w2)" "pd_runs w2 = pd_runs w1" by metis
  show thesis
  proof (rule that)
    show "complete_run cd run_id status w = (Inr r', w2)"
      unfolding complete_run_def Let_def using rt e(1) by (simp add: io_bind_def)
    show "rr_status r' = run_terminal_status status" using s(3) by simp
    show "find (\<lambda>r. rr_run_id r = run_id) (pd_runs w2) = Some r'" using s(4) e(2) by simp
  qed
qed

lemma fail_no_fault:
  assumes "no_db_faults w" and "find (\<lambda>r. rr_run_id r = run_id) (pd_runs w) = Some r"
  obtains r' w' where "fail_run cd run_id text w = (Inr r', w')" "rr_status r' = ''failed''" "rr_error_message r' = Some text"
    "find (\<lambda>r. rr_run_id r = run_id) (pd_runs w') = Some r'"
proof -
  from status_no_fault [OF assms, of "''failed''" "Some text"] obtain now r' w1 where
    s: "update_run_status run_id ''failed'' (Some text) w = (Inr r', w1)" "no_db_faults w1"
      "r' = r\<lparr>rr_status := ''failed'', rr_updated_at_ms := now, rr_error_message := Some text\<rparr>"
      "find (\<lambda>r. rr_run_id r = run_id) (pd_runs w1) = Some r'" .
  have rt: "retry_sqlite_busy (update_run_status run_id ''failed'' (Some text)) w = (Inr r', w1)"
    using retry_no_fault s(1) by (metis fst_conv)
  from run_event_no_fault [OF s(2)] obtain w2 where
    e: "append_run_event cd r' ''run.failed'' w1 = (Inr r', w2)" "pd_runs w2 = pd_runs w1" by metis
  show thesis
  proof (rule that)
    show "fail_run cd run_id text w = (Inr r', w2)" unfolding fail_run_def using rt e(1) by (simp add: io_bind_def)
    show "rr_status r' = ''failed''" "rr_error_message r' = Some text" using s(3) by simp_all
    show "find (\<lambda>r. rr_run_id r = run_id) (pd_runs w2) = Some r'" using s(4) e(2) by simp
  qed
qed

lemma stderr_no_fault:
  assumes "no_db_faults w"
  obtains w' where "append_finished_worker_stderr cd run_id text w = (Inr (), w')" "no_db_faults w'" "pd_runs w' = pd_runs w"
proof (cases "text = None \<or> trim (the text) = []")
  case True
  with assms show thesis
    by (intro that [of w]) (auto simp: append_finished_worker_stderr_def io_return_apply split: option.split)
next
  case False
  then obtain t where t: "text = Some t" "trim t \<noteq> []" by auto
  let ?w0 = "w\<lparr>pd_worker_counter := Suc (pd_worker_counter w)\<rparr>"
  define m where "m = append_runtime_event cd (''worker.stderr:'' @ run_id @ '':'' @ dec (pd_worker_counter w)) ''worker/stderr''
     None (Some run_id) None None ''worker.stderr'' (jobj [(''stderr'', JString t)])"
  have "no_db_faults ?w0" using assms by (simp add: no_db_faults_def)
  from event_no_fault [OF this] obtain e w1 where m: "m ?w0 = (Inr e, w1)" "no_db_faults w1" unfolding m_def by blast
  have runs: "pd_runs w1 = pd_runs w"
    using io_keepsD [OF same_runs_events m(1) [unfolded m_def]] by (simp add: same_runs_def)
  have "append_finished_worker_stderr cd run_id text w = (Inr (), w1)"
    using t m(1) unfolding append_finished_worker_stderr_def m_def
    by (simp add: next_worker_event_seq_def io_bind_def io_get_apply put_product_apply io_return_apply discard_def sql_ok_def)
  from that [OF this m(2) runs] show thesis .
qed

lemma unless_cancelled_no_fault:
  assumes "no_db_faults w" and "find (\<lambda>r. rr_run_id r = run_id) (pd_runs w) = Some r"
  obtains (cancelled) r' w' where "rr_cancel_requested r"
      "unless_cancelled cd et run_id how m w = (Inl (interrupted run_id how), w')"
      "find (\<lambda>r. rr_run_id r = run_id) (pd_runs w') = Some r'" "rr_status r' = ''cancelled''"
  | (continues) w' where "\<not> rr_cancel_requested r" "unless_cancelled cd et run_id how m w = m w'"
      "no_db_faults w'" "pd_runs w' = pd_runs w"
proof -
  from get_run_no_fault [OF assms] obtain w1 where g: "get_run run_id w = (Inr r, w1)" "same_store w w1" "no_db_faults w1" .
  then have rt: "retry_sqlite_busy (get_run run_id) w = (Inr r, w1)" using retry_no_fault by (metis fst_conv)
  have f: "find (\<lambda>r. rr_run_id r = run_id) (pd_runs w1) = Some r" using assms(2) g(2) by (simp add: same_store_fields)
  show thesis
  proof (cases "rr_cancel_requested r")
    case True
    from complete_no_fault [OF g(3) f, of cd "''cancelled''"] obtain r' w2 where
      "complete_run cd run_id ''cancelled'' w1 = (Inr r', w2)" "rr_status r' = run_terminal_status ''cancelled''"
      "find (\<lambda>r. rr_run_id r = run_id) (pd_runs w2) = Some r'" .
    with True rt show thesis
      by (intro cancelled [of w2 r'])
        (simp_all add: unless_cancelled_def as_io_def io_bind_def io_fail_apply run_terminal_status_def)
  next
    case False
    with rt g show thesis
      by (intro continues [of w1]) (simp_all add: unless_cancelled_def as_io_def io_bind_def same_store_fields)
  qed
qed

text \<open>
  C23: how a worker's end ends its run. On a database that works, when the run was asked to cancel by
  then, the result of the worker is dropped, whatever it is: the caller gets an \<open>Interrupted\<close> error
  and the run ends as cancelled. Otherwise a terminal event is returned and the runs are untouched, for
  the caller to complete; an exit without one is an error, and a failed exit also fails the run with
  the last error the worker reported.
\<close>

theorem worker_end_ends_run:
  assumes "no_db_faults w" and "find (\<lambda>r. rr_run_id r = run_id) (pd_runs w) = Some r"
    and "finish_worker cd et run_id wp (terminal, worker_error) w = (res, w')"
  shows "if rr_cancel_requested r
     then (\<exists>how r'. res = Inl (interrupted run_id how) \<and>
        find (\<lambda>r. rr_run_id r = run_id) (pd_runs w') = Some r' \<and> rr_status r' = ''cancelled'')
     else (case terminal of
        Some t \<Rightarrow> res = Inr t \<and> pd_runs w' = pd_runs w
      | None \<Rightarrow>
          if wp_success wp
          then res = Inl (IoError InvalidData ''worker exited successfully without a terminal event'') \<and> pd_runs w' = pd_runs w
          else (\<exists>text r'. res = Inl (IoError OtherKind text) \<and>
             (\<forall>e. worker_error = Some e \<longrightarrow> text = e) \<and>
             find (\<lambda>r. rr_run_id r = run_id) (pd_runs w') = Some r' \<and> rr_status r' = ''failed'' \<and>
             rr_error_message r' = Some text))"
proof -
  let ?w0 = "w\<lparr>pd_active := removeAll run_id (pd_active w)\<rparr>"
  have w0: "no_db_faults ?w0" "pd_runs ?w0 = pd_runs w" using assms(1) by (simp_all add: no_db_faults_def)
  obtain w1 where s: "append_finished_worker_stderr cd run_id (wp_stderr wp) ?w0 = (Inr (), w1)" "no_db_faults w1"
    "pd_runs w1 = pd_runs ?w0" by (rule stderr_no_fault [OF w0(1)])
  have f1: "find (\<lambda>r. rr_run_id r = run_id) (pd_runs w1) = Some r"
    and f0: "find (\<lambda>r. rr_run_id r = run_id) (pd_runs ?w0) = Some r" using s(3) w0(2) assms(2) by simp_all
  show ?thesis
  proof (cases terminal)
    case (Some t)
    define w2 where "w2 = (if wp_gone wp then w1 else ?w0)"
    have w2: "no_db_faults w2" "find (\<lambda>r. rr_run_id r = run_id) (pd_runs w2) = Some r" "pd_runs w2 = pd_runs w"
      using s w0 f0 f1 by (simp_all add: w2_def)
    have run: "unless_cancelled cd et run_id '' completed after cancellation was requested'' (io_return t) w2 = (res, w')"
      using assms(3) s(1) by (simp add: Some finish_worker_def remove_active_def as_io_def io_bind_def put_product_apply
          io_return_apply w2_def split: if_splits)
    from unless_cancelled_no_fault [OF w2(1,2), of cd et "'' completed after cancellation was requested''" "io_return t"] run w2(3) Some
    show ?thesis by cases (auto simp: io_return_apply)
  next
    case None
    show ?thesis
    proof (cases "wp_success wp")
      case True
      let ?m = "io_fail (IoError InvalidData ''worker exited successfully without a terminal event'') :: (product, worker_terminal) io"
      have run: "unless_cancelled cd et run_id '' completed after cancellation was requested'' ?m w1 = (res, w')"
        using assms(3) s(1) True by (simp add: None finish_worker_def remove_active_def as_io_def io_bind_def put_product_apply)
      from unless_cancelled_no_fault [OF s(2) f1, of cd et "'' completed after cancellation was requested''" ?m]
        run s(3) None True
      show ?thesis by cases (auto simp: io_fail_apply)
    next
      case False
      define reason where "reason = unwrap_or (''worker process exited with status '' @
          (case wp_code wp of None \<Rightarrow> ''terminated'' | Some code \<Rightarrow> int_text code)) worker_error"
      let ?m = "io_bind (as_io et (fail_run cd run_id reason)) (\<lambda>_. io_fail (IoError OtherKind reason)) :: (product, worker_terminal) io"
      have run: "unless_cancelled cd et run_id '' was cancelled'' ?m w1 = (res, w')"
        using assms(3) s(1) False
        by (simp add: None finish_worker_def remove_active_def as_io_def io_bind_def put_product_apply reason_def Let_def)
      from unless_cancelled_no_fault [OF s(2) f1, of cd et "'' was cancelled''" ?m] show ?thesis
      proof cases
        case (1 r' w2)
        with run show ?thesis by auto
      next
        case (2 w2)
        have f2: "find (\<lambda>r. rr_run_id r = run_id) (pd_runs w2) = Some r" using 2(4) f1 by simp
        from fail_no_fault [OF 2(3) f2, of cd reason] obtain r' w3 where
          "fail_run cd run_id reason w2 = (Inr r', w3)" "rr_status r' = ''failed''" "rr_error_message r' = Some reason"
          "find (\<lambda>r. rr_run_id r = run_id) (pd_runs w3) = Some r'" .
        with 2 run None False show ?thesis
          by (auto simp: as_io_def io_bind_def io_fail_apply reason_def)
      qed
    qed
  qed
qed

section \<open>Pages of the event log\<close>

text \<open>
  C37: following the cursors reads the event log once. On a well-formed log, a client that asks for pages
  of any positive limit, each after the cursor of the last event it saw, gets exactly the events after
  its first cursor, in order, each once, also where the store cuts the limit to a thousand.
\<close>

theorem event_pages_read_log:
  assumes "numbered er_event_id er_cursor_seq rows" and "0 < lim"
  shows "read_pages (\<lambda>after lim. events_page rows (Some after) (normalize_message_page_limit (Some lim))) er_cursor_seq
      (length rows) after lim = filter (\<lambda>r. after < er_cursor_seq r) rows"
  using assms by (intro event_pages.pages_read_all) (simp_all add: normalize_message_page_limit_def)

section \<open>Witnesses\<close>

definition plain_codec :: json_codec where
  "plain_codec = \<lparr>to_string = (\<lambda>_. ''{}''), to_pretty = (\<lambda>_. ''{}''), from_str = (\<lambda>_. Some (Object []))\<rparr>"

definition demo_run :: "string \<Rightarrow> string \<Rightarrow> bool \<Rightarrow> run_record" where
  "demo_run run_id status cancel =
     \<lparr>rr_run_id = run_id, rr_workspace_uid = ''ws'', rr_container_id = ''c'', rr_run_kind = ''task'',
      rr_chat_thread_id = None, rr_task_id = Some ''t'', rr_job_id = Some ''j'', rr_worker_id = ''process:1'',
      rr_status = status, rr_cancel_requested = cancel, rr_heartbeat_at_ms = None, rr_started_at_ms = 1,
      rr_updated_at_ms = 1, rr_error_message = None\<rparr>"

definition demo_product :: "run_record list \<Rightarrow> (nat \<Rightarrow> sql_error option) \<Rightarrow> product" where
  "demo_product runs fault =
     \<lparr>pd_workspace_uid = ''ws'', pd_runs = runs, pd_events = [], pd_shards = [], pd_messages = [],
      pd_shard_dbs = (\<lambda>_. None), pd_run_counter = 1, pd_worker_counter = 1, pd_message_counter = 1,
      pd_active = [''r1''], pd_killed = [], pd_slept = 0, pd_clock = (\<lambda>_. 7), pd_ticks = 0, pd_fault = fault, pd_ops = 0\<rparr>"

definition demo_runs :: "run_record list" where
  "demo_runs = [demo_run ''r1'' ''running'' False, demo_run ''r2'' ''completed'' False]"

lemma demo_product_faults: "no_db_faults (demo_product runs (\<lambda>_. None))"
  by (simp add: demo_product_def no_db_faults_def)

lemma cancel_each_no_fault: "no_db_faults w \<Longrightarrow> \<exists>w'. cancel_each cd runs w = (Inr (), w')"
proof (induction runs arbitrary: w)
  case (Cons run runs)
  let ?k = "if rr_run_id run \<in> set (pd_active w) then w\<lparr>pd_killed := pd_killed w @ [rr_run_id run]\<rparr> else w"
  from Cons.prems have "no_db_faults ?k" by (simp add: no_db_faults_def)
  from run_event_no_fault [OF this, of cd run "''run.cancel_requested''"] obtain w1 where
    "append_run_event cd run ''run.cancel_requested'' ?k = (Inr run, w1)" "no_db_faults w1" by metis
  with Cons.IH [of w1] show ?case by (auto simp: kill_run_process_def io_bind_Inr)
qed (simp add: io_return_apply)

lemma cancel_no_fault:
  assumes "no_db_faults w"
  shows "\<exists>runs w'. request_cancel_task_run cd task_id w = (Inr runs, w')"
proof -
  let ?w0 = "w\<lparr>pd_ticks := Suc (pd_ticks w)\<rparr>"
  have nf: "no_db_faults ?w0" using assms by (simp add: no_db_faults_def)
  obtain n w1 where u: "execute_update (\<lambda>r. rr_task_id r = Some task_id \<and> cancellable r) (cancel_row (pd_clock w (pd_ticks w))) ?w0 = (Inr n, w1)"
    "no_db_faults w1"
    by (rule update_no_fault [OF nf, of "\<lambda>r. rr_task_id r = Some task_id \<and> cancellable r" "cancel_row (pd_clock w (pd_ticks w))"]) blast
  then obtain runs where "request_cancel_task_runs task_id w = (Inr runs, w1\<lparr>pd_ops := Suc (pd_ops w1)\<rparr>)"
    by (simp add: request_cancel_task_runs_def request_cancel_runs_by_def io_bind_def sql_now_apply step_no_fault io_get_apply io_return_apply)
  then have "retry_sqlite_busy (request_cancel_task_runs task_id) w = (Inr runs, w1\<lparr>pd_ops := Suc (pd_ops w1)\<rparr>)"
    using retry_no_fault by (metis fst_conv)
  moreover obtain w2 where "cancel_each cd runs (w1\<lparr>pd_ops := Suc (pd_ops w1)\<rparr>) = (Inr (), w2)"
    using cancel_each_no_fault u(2) by (metis no_db_faults_ops)
  ultimately show ?thesis
    by (auto simp: request_cancel_task_run_def io_bind_def io_return_apply)
qed

theorem cancel_marks_unfinished_runs_witness:
  "\<exists>runs w'. request_cancel_task_run plain_codec ''t'' (demo_product demo_runs (\<lambda>_. None)) = (Inr runs, w') \<and>
     (\<exists>now. pd_runs w' = [cancel_row now (demo_run ''r1'' ''running'' False), demo_run ''r2'' ''completed'' False])"
proof -
  obtain runs w' where r: "request_cancel_task_run plain_codec ''t'' (demo_product demo_runs (\<lambda>_. None)) = (Inr runs, w')"
    using cancel_no_fault [OF demo_product_faults] by blast
  from cancel_marks_unfinished_runs [OF r] obtain now where
    "pd_runs w' = [cancel_row now (demo_run ''r1'' ''running'' False), demo_run ''r2'' ''completed'' False]"
    by (auto simp: demo_product_def demo_runs_def demo_run_def)
  with r show ?thesis by blast
qed

theorem product_tables_stay_well_formed_witness:
  "\<exists>r w'. fail_run plain_codec ''r1'' ''x'' (demo_product demo_runs (\<lambda>_. None)) = (r, w') \<and>
     list_all (\<lambda>r. rr_status r \<in> set RUN_STATUSES) (pd_runs w')"
proof -
  obtain r w' where f: "fail_run plain_codec ''r1'' ''x'' (demo_product demo_runs (\<lambda>_. None)) = (r, w')"
    by (cases "fail_run plain_codec ''r1'' ''x'' (demo_product demo_runs (\<lambda>_. None))")
  have "distinct (map rr_run_id demo_runs) \<and> list_all (\<lambda>r. rr_status r \<in> set RUN_STATUSES) demo_runs"
    by (simp add: demo_runs_def demo_run_def RUN_STATUSES_def FINISHED_STATUSES_def)
  then show ?thesis
    using product_tables_stay_well_formed [OF r_into_rtranclp [of "product_step plain_codec", OF product_step.fail [OF f]]] f
    by (simp add: demo_product_def shards_ok_def)
qed

theorem event_append_idempotent_witness:
  "\<exists>e w1 w2. append_runtime_event plain_codec ''e'' ''p'' None None None None ''run.failed'' Null (demo_product [] (\<lambda>_. None)) = (Inr e, w1) \<and>
     append_runtime_event plain_codec ''e'' ''p'' None None None None ''run.bound'' Null w1 = (Inr e, w2) \<and>
     re_event_type e = ''run.failed'' \<and> pd_events w2 = pd_events w1"
proof -
  from event_no_fault [OF demo_product_faults, of plain_codec "''e''" "''p''" None None None None "''run.failed''" Null "[]"]
  obtain e w1 where 1: "append_runtime_event plain_codec ''e'' ''p'' None None None None ''run.failed'' Null
      (demo_product [] (\<lambda>_. None)) = (Inr e, w1)" "no_db_faults w1" by blast
  from event_no_fault [OF 1(2), of plain_codec "''e''" "''p''" None None None None "''run.bound''" Null]
  obtain e2 w2 where 2: "append_runtime_event plain_codec ''e'' ''p'' None None None None ''run.bound'' Null w1 = (Inr e2, w2)"
    by blast
  have "numbered er_event_id er_cursor_seq (pd_events (demo_product [] (\<lambda>_. None)))" by (simp add: demo_product_def)
  from event_append_idempotent [OF this 1(1) 2] 1 2 show ?thesis by (auto simp: demo_product_def)
qed

definition demo_texts :: error_texts where
  "demo_texts = \<lparr>et_sql = (\<lambda>_. ''busy''), et_json = (\<lambda>s. s)\<rparr>"

theorem worker_end_ends_run_witness:
  "\<exists>how w'. finish_worker plain_codec demo_texts ''r1'' \<lparr>wp_spawn = None, wp_pid = 1, wp_stdin = None, wp_lines = [],
       wp_stderr = None, wp_gone = True, wp_success = True, wp_code = Some 0, wp_decodes = (\<lambda>_ _. True)\<rparr>
     (Some TerminalProbe, None) (demo_product [demo_run ''r1'' ''cancel_requested'' True] (\<lambda>_. None)) =
     (Inl (interrupted ''r1'' how), w')"
proof -
  let ?w = "demo_product [demo_run ''r1'' ''cancel_requested'' True] (\<lambda>_. None)"
  let ?wp = "\<lparr>wp_spawn = None, wp_pid = 1, wp_stdin = None, wp_lines = [],
       wp_stderr = None, wp_gone = True, wp_success = True, wp_code = Some 0, wp_decodes = (\<lambda>_ _. True)\<rparr>"
  obtain res w' where r: "finish_worker plain_codec demo_texts ''r1'' ?wp (Some TerminalProbe, None) ?w = (res, w')"
    by (cases "finish_worker plain_codec demo_texts ''r1'' ?wp (Some TerminalProbe, None) ?w")
  have "find (\<lambda>r. rr_run_id r = ''r1'') (pd_runs ?w) = Some (demo_run ''r1'' ''cancel_requested'' True)"
    by (simp add: demo_product_def demo_run_def)
  from worker_end_ends_run [OF demo_product_faults this r] r show ?thesis by (auto simp: demo_run_def)
qed

lemma get_run_slept: "pd_slept (snd (get_run run_id w)) = pd_slept w"
  by (auto simp: get_run_def sql_query_def sql_step_def io_bind_def io_get_def io_return_def io_lift_def Let_def
      split: option.split)

lemma get_run_busy: "pd_fault w = (\<lambda>_. Some DatabaseBusy) \<Longrightarrow>
    busy_at (get_run run_id) w \<and> pd_fault (snd (get_run run_id w)) = (\<lambda>_. Some DatabaseBusy)"
  by (simp add: busy_at_def is_sqlite_lock_error_def get_run_def sql_query_def sql_step_def io_bind_def Let_def)

theorem retry_ends_witness:
  "\<exists>e w'. is_sqlite_lock_error e \<and>
     retry_sqlite_busy (get_run ''r1'') (demo_product demo_runs (\<lambda>_. Some DatabaseBusy)) = (Inl e, w') \<and> pd_slept w' = 1975"
proof -
  let ?w = "demo_product demo_runs (\<lambda>_. Some DatabaseBusy)"
  have f: "pd_fault (busy_state (get_run ''r1'') d w k) = (\<lambda>_. Some DatabaseBusy)"
    if "pd_fault w = (\<lambda>_. Some DatabaseBusy)" for d k w
    using that by (induction k arbitrary: d w) (simp_all add: sleep_ms_def get_run_busy)
  have "busy_at (get_run ''r1'') (busy_state (get_run ''r1'') 25 ?w k)" for k
    using get_run_busy [OF f] by (simp add: demo_product_def)
  with retry_ends [of "get_run ''r1''" ?w, OF get_run_slept] show ?thesis
    by (cases "retry_sqlite_busy (get_run ''r1'') ?w") (auto simp: demo_product_def)
qed

theorem event_pages_read_log_witness:
  "\<exists>rows. length rows = 3 \<and> read_pages (\<lambda>after lim. events_page rows (Some after) (normalize_message_page_limit (Some lim)))
      er_cursor_seq 3 0 2 = rows"
proof -
  define row where "row n = \<lparr>er_event_id = dec n, er_workspace_uid = [], er_partition_key = [], er_container_id = None,
    er_run_id = None, er_task_id = None, er_chat_thread_id = None, er_event_type = [], er_payload_json = [],
    er_created_at_ms = 0, er_cursor_seq = int n, er_projection_status = []\<rparr>" for n
  let ?rows = "map row [1, 2, 3]"
  have "numbered er_event_id er_cursor_seq ?rows"
    by (simp add: numbered_def row_def dec.simps digit_char_def upt_rec)
  note read = event_pages_read_log [OF this, of 2 0]
  have l: "length ?rows = 3" and f: "filter (\<lambda>r. 0 < er_cursor_seq r) ?rows = ?rows" by (simp_all add: row_def)
  from read have "read_pages (\<lambda>after lim. events_page ?rows (Some after) (normalize_message_page_limit (Some lim)))
      er_cursor_seq 3 0 2 = ?rows" unfolding l f by simp
  with l show ?thesis by blast
qed

end
