(* ===== verification/Message_Pages.thy ===== *)
theory Message_Pages
  imports Projection_Shards
begin

text \<open>
  The pages of messages as the product runtime selects them (\<open>state/message_feed.rs\<close>,
  \<open>state/projection_shards.rs\<close>): one SQL selection with a limit on the product's own table and one on each
  active shard, then the merge. The cursor of the selections is an expression of the database,
  \<open>MESSAGE_CURSOR_SQL\<close>; its integers are unbounded here, since values that leave 64 bits become reals that
  compare with a cursor in the same way. A body that is no JSON, which the program never stores, has no
  sequence number. The argument \<open>fi\<close> is the conversion of a real to an integer.
\<close>

section \<open>The cursor of the database\<close>

fun leading_digits :: "int \<Rightarrow> string \<Rightarrow> int" where
  "leading_digits n [] = n"
| "leading_digits n (c # s) = (if is_digit c then leading_digits (10 * n + (of_char c - 48)) s else n)"

text \<open>\<open>CAST(text AS INTEGER)\<close>: the longest numeric prefix, or 0, within 64 bits.\<close>

definition cast_integer :: "string \<Rightarrow> int" where
  "cast_integer s =
     (case dropWhile (\<lambda>c. c \<in> {CHR '' '', CHR 0x09, CHR 0x0A, CHR 0x0B, CHR 0x0C, CHR 0x0D}) s of
        [] \<Rightarrow> 0
      | c # r \<Rightarrow>
          if c = CHR ''-'' then sat_i64 (- leading_digits 0 r)
          else if c = CHR ''+'' then sat_i64 (leading_digits 0 r)
          else sat_i64 (leading_digits 0 (c # r)))"

text \<open>\<open>substr(text, start, n)\<close> counts characters, from 1.\<close>

fun sql_drop_chars :: "nat \<Rightarrow> string \<Rightarrow> string" where
  "sql_drop_chars 0 s = s"
| "sql_drop_chars (Suc n) [] = []"
| "sql_drop_chars (Suc n) (c # s) = sql_drop_chars n (dropWhile is_continuation s)"

fun sql_take_chars :: "nat \<Rightarrow> string \<Rightarrow> string" where
  "sql_take_chars 0 s = []"
| "sql_take_chars (Suc n) [] = []"
| "sql_take_chars (Suc n) (c # s) = c # takeWhile is_continuation s @ sql_take_chars n (dropWhile is_continuation s)"

definition sql_substr :: "string \<Rightarrow> nat \<Rightarrow> nat \<Rightarrow> string" where
  "sql_substr s start n = sql_take_chars n (sql_drop_chars (start - 1) s)"

text \<open>The integer of a value that \<open>json_extract\<close> has found; null is no value, the text of an array or object has no digits in front.\<close>

definition extracted_integer :: "(64 word \<Rightarrow> int) \<Rightarrow> json \<Rightarrow> int option" where
  "extracted_integer fi v =
     (case v of
        Null \<Rightarrow> None
      | Bool b \<Rightarrow> Some (if b then 1 else 0)
      | Number (PosInt n) \<Rightarrow> Some (sat_i64 (uint n))
      | Number (NegInt n) \<Rightarrow> Some (sint n)
      | Number (Float x) \<Rightarrow> Some (fi x)
      | JString s \<Rightarrow> Some (cast_integer s)
      | _ \<Rightarrow> Some 0)"

definition row_sequence :: "(64 word \<Rightarrow> int) \<Rightarrow> json_codec \<Rightarrow> message_row \<Rightarrow> int" where
  "row_sequence fi cd r =
     (case Option.bind (Option.bind (from_str cd (mg_body_json r)) (\<lambda>body. jget body ''_feed_cursor_seq'')) (extracted_integer fi) of
        Some n \<Rightarrow> n
      | None \<Rightarrow> unwrap_or 0 (mg_source_seq r))"

definition MESSAGE_CURSOR_SQL :: "(64 word \<Rightarrow> int) \<Rightarrow> json_codec \<Rightarrow> message_row \<Rightarrow> int" where
  "MESSAGE_CURSOR_SQL fi cd r =
     max (cast_integer (sql_substr (mg_sort_key r) 1 20) * 1000000 + cast_integer (sql_substr (mg_sort_key r) 22 10))
       (int (mg_updated_at_ms r) * 1000000 + max 0 (min (row_sequence fi cd r) 999999))"

section \<open>Selections\<close>

text \<open>
  \<open>WHERE ... AND cursor > after ORDER BY sort_key LIMIT n\<close>; without a cursor the last \<open>n\<close> rows of the order.
  Rows with the same key are in the order of the table.
\<close>

definition select_page ::
  "(message_row \<Rightarrow> int) \<Rightarrow> (message_row \<Rightarrow> bool) \<Rightarrow> int option \<Rightarrow> nat \<Rightarrow> message_row list \<Rightarrow> message_row list" where
  "select_page cursor P after n rows =
     (case after of
        Some a \<Rightarrow> take n (sort_key mg_sort_key (filter (\<lambda>r. P r \<and> a < cursor r) rows))
      | None \<Rightarrow> sort_key mg_sort_key (take n (rev (sort_key mg_sort_key (filter P rows)))))"

definition in_lane :: "message_lane option \<Rightarrow> message_row \<Rightarrow> bool" where
  "in_lane lane r \<longleftrightarrow> (case lane of None \<Rightarrow> True | Some l \<Rightarrow> mg_lane r = lane_str l)"

definition selected_messages ::
  "(64 word \<Rightarrow> int) \<Rightarrow> json_codec \<Rightarrow> (message_row \<Rightarrow> bool) \<Rightarrow> int option \<Rightarrow> nat option \<Rightarrow> message_row list \<Rightarrow> container_message list" where
  "selected_messages fi cd P after lim rows =
     map (row_to_message cd) (select_page (MESSAGE_CURSOR_SQL fi cd) P after (normalize_message_page_limit lim) rows)"

text \<open>\<open>list_messages_page\<close>: the scope column is one of three.\<close>

definition list_messages_page ::
  "(64 word \<Rightarrow> int) \<Rightarrow> json_codec \<Rightarrow> string \<Rightarrow> string \<Rightarrow> message_lane option \<Rightarrow> int option \<Rightarrow> nat option \<Rightarrow> container_message list sql" where
  "list_messages_page fi cd scope_column scope_value lane after lim =
     (let page = (\<lambda>scope. sql_query (\<lambda>w. selected_messages fi cd (\<lambda>r. scope r \<and> in_lane lane r) after lim (pd_messages w)))
      in if scope_column = ''container_id'' then page (\<lambda>r. mg_container_id r = scope_value)
         else if scope_column = ''chat_thread_id'' then page (\<lambda>r. mg_chat_thread_id r = Some scope_value)
         else if scope_column = ''task_id'' then page (\<lambda>r. mg_task_id r = Some scope_value)
         else io_fail (InvalidParameterName (''unsupported message page scope: '' @ scope_column)))"

definition list_container_messages_page_for_lane ::
  "(64 word \<Rightarrow> int) \<Rightarrow> json_codec \<Rightarrow> string \<Rightarrow> message_lane option \<Rightarrow> int option \<Rightarrow> nat option \<Rightarrow> container_message list sql" where
  "list_container_messages_page_for_lane fi cd container_id lane after lim =
     list_messages_page fi cd ''container_id'' container_id lane after lim"

definition list_chat_messages_page ::
  "(64 word \<Rightarrow> int) \<Rightarrow> json_codec \<Rightarrow> string \<Rightarrow> int option \<Rightarrow> nat option \<Rightarrow> container_message list sql" where
  "list_chat_messages_page fi cd chat_thread_id after lim =
     list_messages_page fi cd ''chat_thread_id'' chat_thread_id None after lim"

definition list_task_messages_page ::
  "(64 word \<Rightarrow> int) \<Rightarrow> json_codec \<Rightarrow> string \<Rightarrow> int option \<Rightarrow> nat option \<Rightarrow> container_message list sql" where
  "list_task_messages_page fi cd task_id after lim = list_messages_page fi cd ''task_id'' task_id None after lim"

definition list_runtime_messages_page ::
  "(64 word \<Rightarrow> int) \<Rightarrow> json_codec \<Rightarrow> int option \<Rightarrow> nat option \<Rightarrow> container_message list sql" where
  "list_runtime_messages_page fi cd after lim =
     sql_query (\<lambda>w. selected_messages fi cd (\<lambda>r. True) after lim (pd_messages w))"

text \<open>The selection of a shard has no scope but the lane.\<close>

definition shard_messages_page_for_lane ::
  "(64 word \<Rightarrow> int) \<Rightarrow> json_codec \<Rightarrow> string \<Rightarrow> message_lane option \<Rightarrow> int option \<Rightarrow> nat option \<Rightarrow> container_message list sql" where
  "shard_messages_page_for_lane fi cd path lane after lim =
     sql_query (\<lambda>w. selected_messages fi cd (in_lane lane) after lim (sd_messages (shard_at path w)))"

section \<open>Merged pages\<close>

definition MAX_CONTAINER_AGGREGATED_SHARDS :: nat where
  "MAX_CONTAINER_AGGREGATED_SHARDS = 64"

text \<open>What is kept of the messages of a shard.\<close>

definition of_container :: "string \<Rightarrow> message_lane option \<Rightarrow> container_message \<Rightarrow> bool" where
  "of_container container_id lane m \<longleftrightarrow> cm_container_id m = container_id \<and>
     (case lane of None \<Rightarrow> True | Some expected \<Rightarrow> cm_lane m = expected)"

fun shard_candidates ::
  "(64 word \<Rightarrow> int) \<Rightarrow> json_codec \<Rightarrow> string \<Rightarrow> message_lane option \<Rightarrow> int option \<Rightarrow> nat option \<Rightarrow>
   projection_shard_record list \<Rightarrow> container_message list \<Rightarrow> container_message list sql" where
  "shard_candidates fi cd container_id lane after lim [] candidates = io_return candidates"
| "shard_candidates fi cd container_id lane after lim (record # records) candidates =
     io_bind (open_existing_shard record) (\<lambda>shard.
     case shard of
       None \<Rightarrow> shard_candidates fi cd container_id lane after lim records candidates
     | Some path \<Rightarrow>
         io_bind (shard_messages_page_for_lane fi cd path lane after lim) (\<lambda>page.
         shard_candidates fi cd container_id lane after lim records (candidates @ filter (of_container container_id lane) page)))"

definition list_projected_container_messages_page_for_lane ::
  "(64 word \<Rightarrow> int) \<Rightarrow> json_codec \<Rightarrow> string \<Rightarrow> message_lane option \<Rightarrow> int option \<Rightarrow> nat option \<Rightarrow> container_message list sql" where
  "list_projected_container_messages_page_for_lane fi cd container_id lane after lim =
     io_bind (list_container_messages_page_for_lane fi cd container_id lane after lim) (\<lambda>candidates.
     io_bind (list_container_projection_shards container_id) (\<lambda>records.
     io_bind (shard_candidates fi cd container_id lane after lim
       (take MAX_CONTAINER_AGGREGATED_SHARDS (filter (\<lambda>r. sh_status r = ''active'') records)) candidates) (\<lambda>candidates.
     io_return (merge_projected_messages candidates after lim))))"

text \<open>The messages of one shard, if it is active and has a database.\<close>

definition shard_page_of ::
  "(64 word \<Rightarrow> int) \<Rightarrow> json_codec \<Rightarrow> projection_shard_record option \<Rightarrow> int option \<Rightarrow> nat option \<Rightarrow> container_message list sql" where
  "shard_page_of fi cd found after lim =
     (case found of
        None \<Rightarrow> io_return []
      | Some record \<Rightarrow>
          if sh_status record \<noteq> ''active'' then io_return []
          else io_bind (open_existing_shard record) (\<lambda>shard.
            case shard of
              None \<Rightarrow> io_return []
            | Some path \<Rightarrow> shard_messages_page_for_lane fi cd path None after lim))"

definition list_projected_chat_messages_page ::
  "(64 word \<Rightarrow> int) \<Rightarrow> json_codec \<Rightarrow> string \<Rightarrow> int option \<Rightarrow> nat option \<Rightarrow> container_message list sql" where
  "list_projected_chat_messages_page fi cd chat_thread_id after lim =
     io_bind (list_chat_messages_page fi cd chat_thread_id after lim) (\<lambda>candidates.
     io_bind (projection_shard_for_chat_thread chat_thread_id) (\<lambda>found.
     io_bind (shard_page_of fi cd found after lim) (\<lambda>page.
     io_return (merge_projected_messages
       (candidates @ filter (\<lambda>m. cm_chat_thread_id m = Some chat_thread_id) page) after lim))))"

text \<open>\<open>task_job\<close> is the job of the task, if its row can be read and has one.\<close>

definition list_projected_task_messages_page ::
  "(64 word \<Rightarrow> int) \<Rightarrow> json_codec \<Rightarrow> string option \<Rightarrow> string \<Rightarrow> int option \<Rightarrow> nat option \<Rightarrow> container_message list sql" where
  "list_projected_task_messages_page fi cd task_job task_id after lim =
     io_bind (list_task_messages_page fi cd task_id after lim) (\<lambda>candidates.
     io_bind (case task_job of None \<Rightarrow> io_return None | Some job_id \<Rightarrow> projection_shard_for_task_job job_id) (\<lambda>found.
     io_bind (shard_page_of fi cd found after lim) (\<lambda>page.
     io_return (merge_projected_messages (candidates @ filter (\<lambda>m. cm_task_id m = Some task_id) page) after lim))))"

end
