(* ===== verification/Message_Claims.thy ===== *)
theory Message_Claims
  imports Run_Claims Message_Pages "HOL-Library.Multiset"
begin

text \<open>
  The properties of the message feed: a message stored again keeps its place, merged pages hold one
  message per id, and following the cursors of pages reads every message exactly when the cursors
  follow the order of the feed; a message updated out of that order hides others.
\<close>

section \<open>Storing a message\<close>

lemma row_round_trip:
  assumes "from_str cd (to_string cd (cm_body_json m)) = Some (cm_body_json m)"
    and "from_str cd (to_string cd (cm_card_json m)) = Some (cm_card_json m)"
  shows "row_to_message cd (message_to_row cd m) = m"
  using assms by (cases m) (simp add: row_to_message_def message_to_row_def parse_json_def)

text \<open>
  A message stored again keeps its place in the feed. A successful append leaves one row with the
  message's id, which reads back as the message returned, and every other row as it was. A new message
  is stored with its times filled in; for a known id the row keeps the sort key it had, its earliest
  creation time and its latest update time.
\<close>

theorem append_keeps_place:
  assumes "append_message cd message w = (Inr m, w')"
    and "from_str cd (to_string cd (cm_body_json message)) = Some (cm_body_json message)"
    and "from_str cd (to_string cd (cm_card_json message)) = Some (cm_card_json message)"
  shows "filter (\<lambda>r. mg_message_id r \<noteq> cm_message_id message) (pd_messages w') =
       filter (\<lambda>r. mg_message_id r \<noteq> cm_message_id message) (pd_messages w) \<and>
     map (row_to_message cd) (filter (\<lambda>r. mg_message_id r = cm_message_id message) (pd_messages w')) = [m] \<and>
     (case find (\<lambda>r. mg_message_id r = cm_message_id message) (pd_messages w) of
        None \<Rightarrow> (\<exists>now. m = timed_message now message)
      | Some r \<Rightarrow> cm_sort_key m = mg_sort_key r \<and> cm_created_at_ms m \<le> mg_created_at_ms r \<and>
          mg_updated_at_ms r \<le> cm_updated_at_ms m)"
  using assms(1) unfolding append_message_def
proof (elim sql_nowE sql_stepE, goal_cases)
  case (3 now v v1 v2)
  then have s: "same_store w v2" by (simp add: same_store_def)
  note old = same_store_fields(5) [OF s]
  let ?m = "merged_message (pd_messages w) (timed_message now message)"
  from 3(5) have "io_bind sql_step (\<lambda>_.
        io_bind (put_product (\<lambda>w. w\<lparr>pd_messages := replace_message (message_to_row cd ?m) (pd_messages w)\<rparr>)) (\<lambda>_.
        io_return ?m)) v2 = (Inr m, w')" by (simp add: Let_def old)
  then show ?case
  proof (elim sql_stepE, goal_cases)
    case (2 v3)
    from same_store_fields(5) [OF 2(1)] old 2(2) have
      m: "m = ?m" and rows: "pd_messages w' = replace_message (message_to_row cd ?m) (pd_messages w)"
      by (auto simp: io_return_apply)
    have i: "cm_message_id ?m = cm_message_id message" "cm_body_json ?m = cm_body_json message"
        "cm_card_json ?m = cm_card_json message"
      by (simp_all add: merged_message_def timed_message_def split: option.split)
    have "mg_message_id (message_to_row cd ?m) = cm_message_id message" by (simp add: message_to_row_def i)
    then have f: "filter (\<lambda>r. mg_message_id r \<noteq> cm_message_id message) (pd_messages w') =
         filter (\<lambda>r. mg_message_id r \<noteq> cm_message_id message) (pd_messages w)"
      "filter (\<lambda>r. mg_message_id r = cm_message_id message) (pd_messages w') = [message_to_row cd ?m]"
      by (simp_all add: rows replace_message_def)
    moreover have "case find (\<lambda>r. mg_message_id r = cm_message_id message) (pd_messages w) of
        None \<Rightarrow> (\<exists>now. m = timed_message now message)
      | Some r \<Rightarrow> cm_sort_key m = mg_sort_key r \<and> cm_created_at_ms m \<le> mg_created_at_ms r \<and>
          mg_updated_at_ms r \<le> cm_updated_at_ms m"
      by (cases "find (\<lambda>r. mg_message_id r = cm_message_id message) (pd_messages w)")
        (auto simp: m merged_message_def timed_message_def)
    ultimately show ?case using row_round_trip [of cd ?m] assms(2,3) m i by simp
  qed simp
qed simp_all

section \<open>Merging pages\<close>

definition past :: "int option \<Rightarrow> container_message \<Rightarrow> bool" where
  "past after m \<longleftrightarrow> (case after of None \<Rightarrow> True | Some a \<Rightarrow> a < message_cursor_event_id m)"

lemma past_iff: "(case after of None \<Rightarrow> False | Some a \<Rightarrow> message_cursor_event_id m \<le> a) \<longleftrightarrow> \<not> past after m"
  by (auto simp: past_def split: option.split)

definition deduped :: "int option \<Rightarrow> container_message list \<Rightarrow> (string \<times> container_message) list \<Rightarrow> bool" where
  "deduped after ms d \<longleftrightarrow> bmap_ok d \<and>
     (\<forall>i x. map_of d i = Some x \<longrightarrow> cm_message_id x = i \<and> x \<in> set ms \<and> past after x) \<and>
     (\<forall>m \<in> set ms. past after m \<longrightarrow>
        (\<exists>x. map_of d (cm_message_id m) = Some x \<and> message_cursor_event_id m \<le> message_cursor_event_id x))"

lemma deduped_value:
  "deduped after ms d \<Longrightarrow> map_of d i = Some x \<Longrightarrow> cm_message_id x = i \<and> x \<in> set ms \<and> past after x"
  by (simp add: deduped_def)

lemma deduped_latest:
  assumes "deduped after ms d" and "m \<in> set ms" and "past after m"
  obtains x where "map_of d (cm_message_id m) = Some x" and "message_cursor_event_id m \<le> message_cursor_event_id x"
proof -
  from assms have "\<exists>x. map_of d (cm_message_id m) = Some x \<and> message_cursor_event_id m \<le> message_cursor_event_id x"
    by (simp add: deduped_def)
  with that show thesis by (elim exE conjE)
qed

lemma deduped_distinct: "deduped after ms d \<Longrightarrow> distinct (map fst d)"
  by (intro bmap_ok_distinct) (simp add: deduped_def)

lemma dedup_step:
  assumes "deduped after ms d"
  shows "deduped after (ms @ [m]) (dedup_message after m d)"
proof (cases "past after m")
  case False
  with assms show ?thesis by (auto simp: dedup_message_def past_iff deduped_def)
next
  case True
  have ok: "bmap_ok d" and v: "\<And>i x. map_of d i = Some x \<Longrightarrow> cm_message_id x = i \<and> x \<in> set ms \<and> past after x"
    and c: "\<And>m. m \<in> set ms \<Longrightarrow> past after m \<Longrightarrow>
      \<exists>x. map_of d (cm_message_id m) = Some x \<and> message_cursor_event_id m \<le> message_cursor_event_id x"
    using assms by (auto simp: deduped_def)
  show ?thesis
  proof (cases "map_of d (cm_message_id m)")
    case None
    with True have e: "dedup_message after m d = bmap_insert (cm_message_id m) m d"
      by (simp add: dedup_message_def past_iff)
    show ?thesis unfolding e deduped_def
      using ok v True c None by (auto simp: bmap_ok_insert map_of_bmap_insert) force+
  next
    case (Some x)
    show ?thesis
    proof (cases "message_cursor_event_id m \<le> message_cursor_event_id x")
      case True
      with Some \<open>past after m\<close> have e: "dedup_message after m d = d" by (simp add: dedup_message_def past_iff)
      show ?thesis unfolding e deduped_def using ok v c Some True by auto
    next
      case False
      with Some \<open>past after m\<close> have e: "dedup_message after m d = bmap_insert (cm_message_id m) m d"
        by (simp add: dedup_message_def past_iff)
      have "\<exists>y. map_of (bmap_insert (cm_message_id m) m d) (cm_message_id k) = Some y \<and>
          message_cursor_event_id k \<le> message_cursor_event_id y" if "k \<in> set ms" "past after k" for k
      proof (cases "cm_message_id k = cm_message_id m")
        case True
        from c [OF that] Some True have "message_cursor_event_id k \<le> message_cursor_event_id x" by simp
        with False True show ?thesis by (simp add: map_of_bmap_insert [OF ok])
      next
        case False
        with c [OF that] show ?thesis by (simp add: map_of_bmap_insert [OF ok])
      qed
      then show ?thesis unfolding e deduped_def
        using ok v \<open>past after m\<close> by (auto simp: bmap_ok_insert map_of_bmap_insert split: if_splits)
    qed
  qed
qed

lemma dedup_all: "deduped after ms (fold (dedup_message after) ms [])"
proof (induction ms rule: rev_induct)
  case Nil
  then show ?case by (simp add: deduped_def)
next
  case (snoc m ms)
  from dedup_step [OF snoc] show ?case by simp
qed

lemma dedup_values:
  assumes "deduped after ms d"
  shows "x \<in> set (map snd d) \<longleftrightarrow> map_of d (cm_message_id x) = Some x" and "map cm_message_id (map snd d) = map fst d"
proof -
  have d: "distinct (map fst d)" using assms by (rule deduped_distinct)
  have i: "cm_message_id y = k" if "(k, y) \<in> set d" for k y
    using assms that d by (auto simp: deduped_def)
  show "x \<in> set (map snd d) \<longleftrightarrow> map_of d (cm_message_id x) = Some x"
  proof
    assume "x \<in> set (map snd d)"
    then obtain k where "(k, x) \<in> set d" by (metis image_iff list.set_map prod.collapse)
    with i [OF this] d show "map_of d (cm_message_id x) = Some x" by simp
  next
    assume "map_of d (cm_message_id x) = Some x"
    from map_of_SomeD [OF this] show "x \<in> set (map snd d)" by force
  qed
  show "map cm_message_id (map snd d) = map fst d" using i by (auto intro!: map_cong)
qed

lemma set_sort_messages [simp]: "set (sort_messages_for_display_page ms) = set ms"
  by (simp add: sort_messages_for_display_page_def)

lemma mset_sort_messages [simp]: "mset (sort_messages_for_display_page ms) = mset ms"
  by (simp add: sort_messages_for_display_page_def)

lemma sorted_sort_messages: "sorted (map cm_sort_key (sort_messages_for_display_page ms))"
  by (simp add: sort_messages_for_display_page_def)

lemma take_last_messages: "\<exists>n. last_messages lim ms = drop n ms"
  by (cases "length ms > lim") (auto simp: last_messages_def intro: exI [of _ 0])

text \<open>A page is part of the sorted values of the map.\<close>

lemma merged_part:
  "\<exists>n k. merge_projected_messages cands after lim =
     take n (drop k (sort_messages_for_display_page (map snd (fold (dedup_message after) cands []))))"
proof (cases "after = None")
  case True
  obtain k where "last_messages (normalize_message_page_limit lim) (sort_messages_for_display_page (map snd (fold (dedup_message after) cands []))) =
      drop k (sort_messages_for_display_page (map snd (fold (dedup_message after) cands [])))"
    using take_last_messages by blast
  with True show ?thesis
    by (intro exI [of _ "length (sort_messages_for_display_page (map snd (fold (dedup_message after) cands [])))"] exI [of _ k])
      (simp add: merge_projected_messages_def Let_def)
next
  case False
  then show ?thesis
    by (intro exI [of _ "normalize_message_page_limit lim"] exI [of _ 0]) (simp add: merge_projected_messages_def Let_def)
qed

text \<open>
  A merged page holds one message per id, the latest. Whatever the candidates (the product's own
  messages and those of several shards, with copies of a message in different states), a page has at
  most a thousand messages, ordered by sort key, with distinct ids; each is a candidate past the
  client's cursor, and no candidate with its id has a later cursor.
\<close>

theorem merged_page_latest:
  "length (merge_projected_messages cands after lim) \<le> 1000 \<and>
   distinct (map cm_message_id (merge_projected_messages cands after lim)) \<and>
   sorted (map cm_sort_key (merge_projected_messages cands after lim)) \<and>
   list_all (\<lambda>m. m \<in> set cands \<and> past after m \<and>
       list_all (\<lambda>c. message_cursor_event_id c \<le> message_cursor_event_id m)
         (filter (\<lambda>c. cm_message_id c = cm_message_id m) cands))
     (merge_projected_messages cands after lim)"
proof -
  let ?d = "fold (dedup_message after) cands []"
  let ?all = "sort_messages_for_display_page (map snd ?d)"
  let ?page = "merge_projected_messages cands after lim"
  note d = dedup_all [of after cands]
  obtain n k where page: "?page = take n (drop k ?all)" using merged_part by blast
  have len: "length ?page \<le> 1000"
    by (simp add: merge_projected_messages_def Let_def last_messages_def normalize_message_page_limit_def min_def)
  have "distinct (map fst ?d)" using d by (rule deduped_distinct)
  then have "distinct (map cm_message_id (map snd ?d))" by (simp only: dedup_values(2) [OF d])
  moreover have "mset (map cm_message_id ?all) = mset (map cm_message_id (map snd ?d))"
    by (simp only: mset_map mset_sort_messages)
  ultimately have "distinct (map cm_message_id ?all)" by (metis mset_eq_imp_distinct_iff)
  then have dist: "distinct (map cm_message_id ?page)"
    unfolding page take_map [symmetric] drop_map [symmetric] by (intro distinct_take distinct_drop)
  have "sorted (map cm_sort_key ?page)"
    unfolding page take_map [symmetric] drop_map [symmetric] by (intro sorted_wrt_take sorted_wrt_drop sorted_sort_messages)
  moreover have "list_all (\<lambda>m. m \<in> set cands \<and> past after m \<and>
       list_all (\<lambda>c. message_cursor_event_id c \<le> message_cursor_event_id m)
         (filter (\<lambda>c. cm_message_id c = cm_message_id m) cands)) ?page"
    unfolding list_all_iff
  proof (intro ballI conjI impI)
    fix m
    assume "m \<in> set ?page"
    then have "m \<in> set ?all" unfolding page by (metis in_set_dropD in_set_takeD)
    then have m: "map_of ?d (cm_message_id m) = Some m" using dedup_values(1) [OF d, of m] by simp
    from deduped_value [OF d this] show "m \<in> set cands" "past after m" by simp_all
    fix c
    assume "c \<in> set (filter (\<lambda>c. cm_message_id c = cm_message_id m) cands)"
    then have c: "c \<in> set cands" "cm_message_id c = cm_message_id m" by simp_all
    show "message_cursor_event_id c \<le> message_cursor_event_id m"
    proof (cases "past after c")
      case True
      from deduped_latest [OF d c(1) this] c(2) m show ?thesis by (metis option.inject)
    next
      case False
      with \<open>past after m\<close> show ?thesis by (auto simp: past_def split: option.splits)
    qed
  qed
  ultimately show ?thesis using len dist by blast
qed

section \<open>Reading the feed page by page\<close>

lemma sort_messages_cong:
  assumes "mset xs = mset ys" and "distinct (map cm_message_id xs)"
  shows "sort_messages_for_display_page xs = sort_messages_for_display_page ys"
proof -
  have "sort_key cm_message_id xs = sort_key cm_message_id ys"
    using assms by (intro sort_key_inj_key_eq) (simp_all add: distinct_map)
  then show ?thesis by (simp add: sort_messages_for_display_page_def)
qed

lemma filter_sort_messages:
  "filter P (sort_messages_for_display_page ms) = sort_messages_for_display_page (filter P ms)"
  by (simp add: sort_messages_for_display_page_def filter_sort)

lemma merged_distinct:
  assumes "distinct (map cm_message_id ms)"
  shows "sort_messages_for_display_page (map snd (fold (dedup_message after) ms [])) =
     filter (past after) (sort_messages_for_display_page ms)"
proof -
  let ?d = "fold (dedup_message after) ms []"
  note d = dedup_all [of after ms]
  have inj: "inj_on cm_message_id (set ms)" using assms by (simp add: distinct_map)
  have "x \<in> set (map snd ?d) \<longleftrightarrow> x \<in> set ms \<and> past after x" for x
  proof
    assume "x \<in> set (map snd ?d)"
    with dedup_values(1) [OF d, of x] have "map_of ?d (cm_message_id x) = Some x" by simp
    from deduped_value [OF d this] show "x \<in> set ms \<and> past after x" by simp
  next
    assume x: "x \<in> set ms \<and> past after x"
    then obtain y where y: "map_of ?d (cm_message_id x) = Some y" by (metis deduped_latest [OF d])
    from deduped_value [OF d this] inj x have "y = x" by (simp add: inj_on_def)
    with y dedup_values(1) [OF d, of x] show "x \<in> set (map snd ?d)" by simp
  qed
  then have "set (map snd ?d) = set (filter (past after) ms)" by auto
  moreover have "distinct (map fst ?d)" using d by (rule deduped_distinct)
  then have ids: "distinct (map cm_message_id (map snd ?d))" by (simp only: dedup_values(2) [OF d])
  then have "distinct (map snd ?d)" by (simp only: distinct_map)
  moreover have "distinct (filter (past after) ms)" using assms by (simp add: distinct_map)
  ultimately have "mset (map snd ?d) = mset (filter (past after) ms)" by (metis set_eq_iff_mset_eq_distinct)
  then have "sort_messages_for_display_page (map snd ?d) = sort_messages_for_display_page (filter (past after) ms)"
    using ids by (rule sort_messages_cong)
  then show ?thesis by (simp add: filter_sort_messages)
qed

section \<open>Selections that are cut\<close>

lemma insort_beyond:
  assumes "sorted (map k zs)" and "n \<le> length (filter (\<lambda>z. k z < k y) zs)"
  shows "take n (insort_key k y zs) = take n zs"
  using assms
proof (induction zs arbitrary: n)
  case (Cons z zs)
  show ?case
  proof (cases "k y \<le> k z")
    case True
    with Cons.prems(1) have "filter (\<lambda>z. k z < k y) (z # zs) = []" by (auto simp: filter_empty_conv)
    with Cons.prems(2) show ?thesis by simp
  next
    case False
    then have "k z < k y" by simp
    with False Cons.prems Cons.IH [of "n - 1"] show ?thesis by (cases n) auto
  qed
qed simp

text \<open>What comes after \<open>n\<close> rows of a selection does not matter for its first \<open>n\<close> rows.\<close>

lemma take_sort_beyond:
  assumes "\<forall>y \<in> set ys. n \<le> length (filter (\<lambda>z. k z < k y) zs)"
  shows "take n (sort_key k (ys @ zs)) = take n (sort_key k zs)"
  using assms
proof (induction ys)
  case (Cons y ys)
  have "length (filter (\<lambda>z. k z < k y) zs) \<le> length (filter (\<lambda>z. k z < k y) (sort_key k (ys @ zs)))"
    by (simp add: filter_sort)
  with Cons.prems have "n \<le> length (filter (\<lambda>z. k z < k y) (sort_key k (ys @ zs)))" by fastforce
  with Cons show ?case by (simp add: insort_beyond)
qed simp

lemma sort_key_perm: "mset xs = mset ys \<Longrightarrow> distinct (map k xs) \<Longrightarrow> sort_key k xs = sort_key k ys"
  by (rule sort_key_inj_key_eq) (simp_all add: distinct_map)

lemma take_sort_part:
  assumes "distinct (map k (xs @ ys))"
  shows "take n (sort_key k (take n (sort_key k xs) @ ys)) = take n (sort_key k (xs @ ys))"
proof -
  let ?a = "take n (sort_key k xs)" and ?b = "drop n (sort_key k xs)"
  have d: "distinct (map k (sort_key k xs))" using assms by (simp add: distinct_map)
  then have "sorted_wrt (<) (map k (sort_key k xs))" by (simp add: strict_sorted_iff)
  then have "sorted_wrt (<) (map k (?a @ ?b))" by (simp only: append_take_drop_id)
  then have lt: "k a < k b" if "a \<in> set ?a" "b \<in> set ?b" for a b
    using that by (simp only: map_append sorted_wrt_append) force
  have "n \<le> length (filter (\<lambda>z. k z < k y) (?a @ ys))" if "y \<in> set ?b" for y
  proof -
    from that have "?b \<noteq> []" by auto
    then have "length ?a = n" by simp
    moreover have "filter (\<lambda>z. k z < k y) ?a = ?a" using lt that by (simp add: filter_id_conv)
    ultimately show ?thesis by simp
  qed
  then have "take n (sort_key k (?b @ ?a @ ys)) = take n (sort_key k (?a @ ys))"
    by (intro take_sort_beyond) blast
  moreover have "mset (?b @ ?a @ ys) = mset (xs @ ys)"
    by (metis add.commute append_take_drop_id mset_append mset_sort union_assoc)
  ultimately show ?thesis using sort_key_perm [of "xs @ ys" "?b @ ?a @ ys" k] assms by metis
qed

lemma parts_distinct:
  assumes "distinct (map k (concat xss))"
  shows "distinct (map k (concat (map (\<lambda>xs. take n (sort_key k xs)) xss))) \<and>
    set (concat (map (\<lambda>xs. take n (sort_key k xs)) xss)) \<subseteq> set (concat xss)"
  using assms
proof (induction xss)
  case (Cons xs xss)
  let ?t = "take n (sort_key k xs)" and ?c = "concat (map (\<lambda>xs. take n (sort_key k xs)) xss)"
  from Cons have c: "distinct (map k ?c)" "set ?c \<subseteq> set (concat xss)" by auto
  have t: "set ?t \<subseteq> set xs" by (metis set_sort set_take_subset)
  have "distinct (map k ?t)" using Cons.prems by (auto simp: take_map [symmetric] distinct_map)
  moreover have "k ` set xs \<inter> k ` set (concat xss) = {}" using Cons.prems by simp
  then have "k ` set ?t \<inter> k ` set ?c = {}" using t c(2) by blast
  ultimately show ?case using c t by auto
qed simp

text \<open>The first \<open>n\<close> of several lists together are the first \<open>n\<close> of the first \<open>n\<close> of each.\<close>

lemma take_sort_parts:
  assumes "distinct (map k (concat xss @ ys))"
  shows "take n (sort_key k (concat (map (\<lambda>xs. take n (sort_key k xs)) xss) @ ys)) = take n (sort_key k (concat xss @ ys))"
  using assms
proof (induction xss arbitrary: ys)
  case (Cons xs xss)
  let ?c = "concat (map (\<lambda>xs. take n (sort_key k xs)) xss)"
  have c: "distinct (map k ?c)" "set ?c \<subseteq> set (concat xss)"
    using Cons.prems parts_distinct [of k xss n] by auto
  have "k ` set xs \<inter> k ` set (concat xss) = {}" "k ` set ys \<inter> k ` set (concat xss) = {}"
    using Cons.prems by (simp_all only: concat.simps map_append distinct_append set_map set_append image_Un) blast+
  then have "k ` set xs \<inter> k ` set ?c = {}" "k ` set ys \<inter> k ` set ?c = {}" using c(2) by blast+
  moreover have "distinct (map k xs)" "distinct (map k ys)" "k ` set xs \<inter> k ` set ys = {}"
    using Cons.prems by (simp_all only: concat.simps map_append distinct_append set_map set_append image_Un) blast+
  ultimately have d: "distinct (map k (xs @ ?c @ ys))" "distinct (map k (?c @ xs @ ys))"
    using c(1) by (simp_all only: map_append distinct_append set_map set_append image_Un) blast+
  have p: "distinct (map k (concat xss @ xs @ ys))"
    using Cons.prems by (simp_all only: concat.simps map_append distinct_append set_map set_append image_Un) blast
  have "take n (sort_key k (concat (map (\<lambda>xs. take n (sort_key k xs)) (xs # xss)) @ ys)) = take n (sort_key k (xs @ ?c @ ys))"
    using take_sort_part [OF d(1)] by simp
  also have "sort_key k (xs @ ?c @ ys) = sort_key k (?c @ xs @ ys)"
    using d(1) by (intro sort_key_perm) (simp_all add: ac_simps)
  also have "take n (sort_key k (?c @ xs @ ys)) = take n (sort_key k (concat xss @ xs @ ys))"
    by (rule Cons.IH [OF p])
  also have "sort_key k (concat xss @ xs @ ys) = sort_key k (concat (xs # xss) @ ys)"
    using p by (intro sort_key_perm) (simp_all add: ac_simps)
  finally show ?case .
qed simp

section \<open>The pages of a container\<close>

text \<open>The feed of a container: its rows in the product's table and the rows of its active shards.\<close>

definition shard_rows :: "product \<Rightarrow> projection_shard_record \<Rightarrow> message_row list" where
  "shard_rows w s = sd_messages (shard_at (sh_relative_db_path s) w)"

definition active_shards :: "string \<Rightarrow> product \<Rightarrow> projection_shard_record list" where
  "active_shards container_id w = filter (\<lambda>s. sh_status s = ''active'')
     (newest_first sh_updated_at_ms sh_shard_id (filter (\<lambda>s. sh_container_id s = container_id) (pd_shards w)))"

definition feed_sources :: "string \<Rightarrow> message_lane option \<Rightarrow> product \<Rightarrow> message_row list list" where
  "feed_sources container_id lane w =
     filter (\<lambda>r. mg_container_id r = container_id \<and> in_lane lane r) (pd_messages w) #
     map (\<lambda>s. filter (in_lane lane) (shard_rows w s)) (active_shards container_id w)"

definition feed_messages :: "json_codec \<Rightarrow> string \<Rightarrow> message_lane option \<Rightarrow> product \<Rightarrow> container_message list" where
  "feed_messages cd container_id lane w = map (row_to_message cd) (concat (feed_sources container_id lane w))"

text \<open>
  When the pages are complete: the container has no more shards than are read, its shards hold messages of no other
  container, ids and sort keys are distinct, the cursor of the database is that of the program, and the cursors grow in
  the order of the feed.
\<close>

definition feed_ok :: "(64 word \<Rightarrow> int) \<Rightarrow> json_codec \<Rightarrow> string \<Rightarrow> message_lane option \<Rightarrow> product \<Rightarrow> bool" where
  "feed_ok fi cd container_id lane w \<longleftrightarrow>
     length (active_shards container_id w) \<le> MAX_CONTAINER_AGGREGATED_SHARDS \<and>
     (\<forall>s \<in> set (active_shards container_id w). \<forall>r \<in> set (shard_rows w s). mg_container_id r = container_id) \<and>
     distinct (map cm_message_id (feed_messages cd container_id lane w)) \<and>
     distinct (map cm_sort_key (feed_messages cd container_id lane w)) \<and>
     (\<forall>r \<in> set (concat (feed_sources container_id lane w)).
        MESSAGE_CURSOR_SQL fi cd r = message_cursor_event_id (row_to_message cd r)) \<and>
     sorted_wrt (\<lambda>a b. message_cursor_event_id a < message_cursor_event_id b)
       (sort_messages_for_display_page (feed_messages cd container_id lane w))"

definition page_candidates ::
  "(64 word \<Rightarrow> int) \<Rightarrow> json_codec \<Rightarrow> string \<Rightarrow> message_lane option \<Rightarrow> int option \<Rightarrow> nat option \<Rightarrow> product \<Rightarrow> container_message list" where
  "page_candidates fi cd container_id lane after lim w =
     selected_messages fi cd (\<lambda>r. mg_container_id r = container_id \<and> in_lane lane r) after lim (pd_messages w) @
     concat (map (\<lambda>s. filter (of_container container_id lane) (selected_messages fi cd (in_lane lane) after lim (shard_rows w s)))
       (take MAX_CONTAINER_AGGREGATED_SHARDS (active_shards container_id w)))"

text \<open>A page reads the tables and leaves them.\<close>

definition same_feed :: "product \<Rightarrow> product \<Rightarrow> bool" where
  "same_feed w w' \<longleftrightarrow> pd_messages w' = pd_messages w \<and> pd_shards w' = pd_shards w \<and> pd_shard_dbs w' = pd_shard_dbs w"

lemma same_feed_facts:
  assumes "same_feed w w'"
  shows "shard_rows w' = shard_rows w" "active_shards c w' = active_shards c w" "feed_sources c lane w' = feed_sources c lane w"
    "feed_messages cd c lane w' = feed_messages cd c lane w" "page_candidates fi cd c lane after lim w' = page_candidates fi cd c lane after lim w"
    "feed_ok fi cd c lane w' = feed_ok fi cd c lane w" "shard_at p w' = shard_at p w"
  using assms
  by (simp_all add: same_feed_def fun_eq_iff shard_rows_def shard_at_def active_shards_def feed_sources_def feed_messages_def
      page_candidates_def feed_ok_def)

lemma sql_query_feed:
  assumes "sql_query f w = (Inr x, w')"
  obtains v where "x = f v" "same_feed w v" "same_feed w w'"
  using assms
  by (auto simp: sql_query_def io_bind_def sql_step_def io_get_def io_return_def same_feed_def Let_def split: option.splits)

lemma open_existing_feed:
  assumes "open_existing_shard s w = (Inr found, w')"
  shows "same_feed w w' \<and> (found = None \<and> shard_rows w s = [] \<or> found = Some (sh_relative_db_path s))"
  using assms
  by (auto simp: open_existing_shard_def open_shard_db_def sql_execute_def put_product_def io_bind_def sql_step_def io_get_def
      io_return_def same_feed_def shard_rows_def shard_at_def empty_shard_def unwrap_or_def Let_def split: option.splits if_splits)

lemma no_selected [simp]: "selected_messages fi cd P after lim [] = []"
  by (simp add: selected_messages_def select_page_def split: option.split)

lemma shard_candidates_result:
  assumes "shard_candidates fi cd c lane after lim ss cs w = (Inr ms, w')"
  shows "same_feed w w' \<and> ms = cs @ concat (map (\<lambda>s. filter (of_container c lane)
    (selected_messages fi cd (in_lane lane) after lim (shard_rows w s))) ss)"
  using assms
proof (induction ss arbitrary: cs w)
  case Nil
  then show ?case by (simp add: io_return_def same_feed_def)
next
  case (Cons s ss)
  from Cons.prems obtain found w1 where 1: "open_existing_shard s w = (Inr found, w1)"
    and 2: "(case found of None \<Rightarrow> shard_candidates fi cd c lane after lim ss cs
      | Some path \<Rightarrow> io_bind (shard_messages_page_for_lane fi cd path lane after lim) (\<lambda>page.
          shard_candidates fi cd c lane after lim ss (cs @ filter (of_container c lane) page))) w1 = (Inr ms, w')"
    by (auto elim: io_bindE)
  note o = open_existing_feed [OF 1]
  show ?case
  proof (cases found)
    case None
    with 2 Cons.IH [of cs w1] o show ?thesis
      by (auto simp: same_feed_facts(1) [of w w1]) (auto simp: same_feed_def)
  next
    case (Some path)
    with o have path: "path = sh_relative_db_path s" and f1: "same_feed w w1" by auto
    from 2 Some obtain page w2 where q: "shard_messages_page_for_lane fi cd path lane after lim w1 = (Inr page, w2)"
      and r: "shard_candidates fi cd c lane after lim ss (cs @ filter (of_container c lane) page) w2 = (Inr ms, w')"
      by (auto elim: io_bindE)
    from q obtain v where v: "page = selected_messages fi cd (in_lane lane) after lim (sd_messages (shard_at path v))" "same_feed w1 v" "same_feed w1 w2"
      unfolding shard_messages_page_for_lane_def by (rule sql_query_feed)
    have rows: "sd_messages (shard_at path v) = shard_rows w s"
      using v(2) f1 by (simp add: same_feed_facts(7) shard_rows_def path)
    have f2: "same_feed w w2" using f1 v(3) by (simp add: same_feed_def)
    from Cons.IH [OF r] show ?thesis
      using f2 by (auto simp: v(1) rows same_feed_facts(1) [OF f2] same_feed_def)
  qed
qed

lemma container_page_result:
  assumes "list_projected_container_messages_page_for_lane fi cd c lane after lim w = (Inr ms, w')"
  shows "same_feed w w' \<and> ms = merge_projected_messages (page_candidates fi cd c lane after lim w) after lim"
proof -
  from assms obtain own w1 records w2 cands where
    1: "list_container_messages_page_for_lane fi cd c lane after lim w = (Inr own, w1)" and
    2: "list_container_projection_shards c w1 = (Inr records, w2)" and
    3: "shard_candidates fi cd c lane after lim (take MAX_CONTAINER_AGGREGATED_SHARDS (filter (\<lambda>r. sh_status r = ''active'') records)) own w2 =
      (Inr cands, w')" and ms: "ms = merge_projected_messages cands after lim"
    unfolding list_projected_container_messages_page_for_lane_def by (auto simp: io_return_def elim!: io_bindE)
  from 1 obtain v1 where v1: "own = selected_messages fi cd (\<lambda>r. mg_container_id r = c \<and> in_lane lane r) after lim (pd_messages v1)"
    "same_feed w v1" "same_feed w w1"
    unfolding list_container_messages_page_for_lane_def list_messages_page_def Let_def
    by (simp only: if_True simp_thms) (erule sql_query_feed, blast)
  from 2 obtain v2 where v2: "records = newest_first sh_updated_at_ms sh_shard_id (filter (\<lambda>s. sh_container_id s = c) (pd_shards v2))"
    "same_feed w1 v2" "same_feed w1 w2"
    unfolding list_container_projection_shards_def by (rule sql_query_feed)
  have f2: "same_feed w w2" using v1(3) v2(3) by (simp add: same_feed_def)
  have "filter (\<lambda>r. sh_status r = ''active'') records = active_shards c w"
    using v1(3) v2(2) by (simp add: v2(1) active_shards_def same_feed_def)
  moreover have "pd_messages v1 = pd_messages w" using v1(2) by (simp add: same_feed_def)
  ultimately show ?thesis
    using shard_candidates_result [OF 3] f2 by (simp add: ms page_candidates_def v1(1) same_feed_facts(1) [OF f2]) (simp add: same_feed_def)
qed

section \<open>A page is the next part of the feed\<close>

lemma map_sort_key: "map g (sort_key (k \<circ> g) xs) = sort_key k (map g xs)"
proof -
  have "map g (insort_key (k \<circ> g) x ys) = insort_key k (g x) (map g ys)" for x ys
    by (induction ys) simp_all
  then show ?thesis by (induction xs) simp_all
qed

lemma sort_messages_simple:
  assumes "distinct (map cm_sort_key ms)"
  shows "sort_messages_for_display_page ms = sort_key cm_sort_key ms"
  unfolding sort_messages_for_display_page_def
proof (rule sort_key_perm)
  have "distinct (map cm_sort_key xs)" if "mset xs = mset ms" for xs
    using assms that by (metis mset_eq_imp_distinct_iff mset_map)
  then show "distinct (map cm_sort_key (sort_key message_cursor_event_id (sort_key cm_message_id ms)))" by simp
qed simp

lemma selected_after:
  assumes "\<forall>r \<in> set rows. P r \<longrightarrow> MESSAGE_CURSOR_SQL fi cd r = message_cursor_event_id (row_to_message cd r)"
  shows "selected_messages fi cd P (Some a) lim rows =
    take (normalize_message_page_limit lim) (sort_key cm_sort_key (filter (past (Some a)) (map (row_to_message cd) (filter P rows))))"
proof -
  have k: "mg_sort_key = cm_sort_key \<circ> row_to_message cd" by (simp add: fun_eq_iff row_to_message_def)
  have "filter (\<lambda>r. P r \<and> a < MESSAGE_CURSOR_SQL fi cd r) rows = filter (past (Some a) \<circ> row_to_message cd) (filter P rows)"
    using assms by (auto simp: past_def intro!: filter_cong)
  then show ?thesis
    unfolding selected_messages_def select_page_def option.case k
    by (simp only: take_map [symmetric] map_sort_key filter_map)
qed

lemma of_container_rows:
  assumes "\<forall>r \<in> set rows. mg_container_id r = c"
  shows "filter (of_container c lane) (selected_messages fi cd (in_lane lane) (Some a) lim rows) =
    selected_messages fi cd (in_lane lane) (Some a) lim rows"
  using assms
  by (auto simp: filter_id_conv selected_messages_def select_page_def of_container_def in_lane_def row_to_message_def
      dest!: in_set_takeD split: option.splits)

lemma container_page_is_next:
  assumes "feed_ok fi cd c lane w"
  shows "merge_projected_messages (page_candidates fi cd c lane (Some a) lim w) (Some a) lim =
    take (normalize_message_page_limit lim) (filter (past (Some a)) (sort_messages_for_display_page (feed_messages cd c lane w)))"
proof -
  let ?n = "normalize_message_page_limit lim" and ?g = "row_to_message cd" and ?p = "past (Some a)"
  let ?parts = "map (\<lambda>rows. filter ?p (map ?g rows)) (feed_sources c lane w)"
  let ?cut = "\<lambda>xs. take ?n (sort_key cm_sort_key xs)"
  have agree: "\<forall>rows \<in> set (feed_sources c lane w). \<forall>r \<in> set rows. MESSAGE_CURSOR_SQL fi cd r = message_cursor_event_id (?g r)"
    using assms by (simp add: feed_ok_def)
  have few: "take MAX_CONTAINER_AGGREGATED_SHARDS (active_shards c w) = active_shards c w" using assms by (simp add: feed_ok_def)
  have shards: "filter (of_container c lane) (selected_messages fi cd (in_lane lane) (Some a) lim (shard_rows w s)) =
      ?cut (filter ?p (map ?g (filter (in_lane lane) (shard_rows w s))))" if "s \<in> set (active_shards c w)" for s
  proof -
    have "filter (in_lane lane) (shard_rows w s) \<in> set (feed_sources c lane w)" using that by (simp add: feed_sources_def)
    with agree have "\<forall>r \<in> set (shard_rows w s). in_lane lane r \<longrightarrow> MESSAGE_CURSOR_SQL fi cd r = message_cursor_event_id (?g r)"
      by fastforce
    moreover have "\<forall>r \<in> set (shard_rows w s). mg_container_id r = c" using assms that by (simp add: feed_ok_def)
    ultimately show ?thesis using of_container_rows [of "shard_rows w s" c lane fi cd a lim]
        selected_after [of "shard_rows w s" "in_lane lane" fi cd a lim] by simp
  qed
  have own: "selected_messages fi cd (\<lambda>r. mg_container_id r = c \<and> in_lane lane r) (Some a) lim (pd_messages w) =
      ?cut (filter ?p (map ?g (filter (\<lambda>r. mg_container_id r = c \<and> in_lane lane r) (pd_messages w))))"
    using agree by (intro selected_after) (auto simp: feed_sources_def)
  let ?cands = "page_candidates fi cd c lane (Some a) lim w"
  have cands: "?cands = concat (map ?cut ?parts)"
    unfolding page_candidates_def few own using shards by (simp add: feed_sources_def cong: map_cong)
  have parts: "concat ?parts = filter ?p (feed_messages cd c lane w)"
    by (simp add: feed_messages_def filter_concat map_concat o_def)
  have ids: "distinct (map cm_message_id (concat ?parts))" and keys: "distinct (map cm_sort_key (concat ?parts))"
    using assms by (simp_all add: parts feed_ok_def distinct_map inj_on_def)
  have cut_keys: "distinct (map cm_sort_key ?cands)" and sub: "set ?cands \<subseteq> set (concat ?parts)"
    using parts_distinct [OF keys, of ?n] by (simp_all only: cands)
  have "distinct ?cands" using cut_keys by (simp only: distinct_map)
  moreover have "inj_on cm_message_id (set (concat ?parts))" using ids by (simp only: distinct_map)
  then have "inj_on cm_message_id (set ?cands)" using sub by (rule inj_on_subset)
  ultimately have cut_ids: "distinct (map cm_message_id ?cands)" by (simp only: distinct_map simp_thms)
  have all: "filter ?p (sort_messages_for_display_page ?cands) = sort_messages_for_display_page ?cands"
    using sub by (auto simp: filter_id_conv parts)
  have "merge_projected_messages ?cands (Some a) lim = take ?n (sort_key cm_sort_key ?cands)"
    unfolding merge_projected_messages_def Let_def merged_distinct [OF cut_ids] all by (simp add: sort_messages_simple [OF cut_keys])
  also have "\<dots> = take ?n (sort_key cm_sort_key (concat (map ?cut ?parts)))" by (simp only: cands)
  also have "\<dots> = take ?n (sort_key cm_sort_key (concat ?parts))"
    using take_sort_parts [of cm_sort_key ?parts "[]" ?n] keys by simp
  also have "sort_key cm_sort_key (concat ?parts) = filter ?p (sort_messages_for_display_page (feed_messages cd c lane w))"
    using sort_messages_simple [OF keys] by (simp only: parts filter_sort_messages)
  finally show ?thesis .
qed

interpretation feed_pages: cursor_feed "feed_ok fi cd c lane" "\<lambda>w. sort_messages_for_display_page (feed_messages cd c lane w)"
  message_cursor_event_id "\<lambda>w after lim. merge_projected_messages (page_candidates fi cd c lane (Some after) (Some lim) w) (Some after) (Some lim)"
  "\<lambda>lim. normalize_message_page_limit (Some lim)" for fi cd c lane
proof
  fix w after lim
  assume ok: "feed_ok fi cd c lane w"
  then show "sorted_wrt (\<lambda>a b. message_cursor_event_id a < message_cursor_event_id b)
      (sort_messages_for_display_page (feed_messages cd c lane w))" by (simp add: feed_ok_def)
  have "past (Some after) = (\<lambda>r. after < message_cursor_event_id r)" by (simp add: past_def fun_eq_iff)
  with container_page_is_next [OF ok]
  show "merge_projected_messages (page_candidates fi cd c lane (Some after) (Some lim) w) (Some after) (Some lim) =
      take (normalize_message_page_limit (Some lim))
        (filter (\<lambda>r. after < message_cursor_event_id r) (sort_messages_for_display_page (feed_messages cd c lane w)))" by simp
qed

text \<open>A client that asks for page after page, each after the cursor of the last message it got, until a page is empty.\<close>

fun read_feed ::
  "(64 word \<Rightarrow> int) \<Rightarrow> json_codec \<Rightarrow> string \<Rightarrow> message_lane option \<Rightarrow> nat \<Rightarrow> int \<Rightarrow> nat \<Rightarrow> container_message list sql" where
  "read_feed fi cd c lane 0 after lim = io_return []"
| "read_feed fi cd c lane (Suc k) after lim =
     io_bind (list_projected_container_messages_page_for_lane fi cd c lane (Some after) (Some lim)) (\<lambda>ms.
     if ms = [] then io_return []
     else io_bind (read_feed fi cd c lane k (message_cursor_event_id (last ms)) lim) (\<lambda>more. io_return (ms @ more)))"

lemma read_feed_pages:
  assumes "read_feed fi cd c lane k after lim w = (Inr ms, w')"
  shows "ms = read_pages (\<lambda>after lim. merge_projected_messages (page_candidates fi cd c lane (Some after) (Some lim) w) (Some after) (Some lim))
    message_cursor_event_id k after lim"
  using assms
proof (induction k arbitrary: after w ms)
  case 0
  then show ?case by (simp add: io_return_def)
next
  case (Suc k)
  from Suc.prems obtain page w1 where p: "list_projected_container_messages_page_for_lane fi cd c lane (Some after) (Some lim) w = (Inr page, w1)"
    and r: "(if page = [] then io_return [] else io_bind (read_feed fi cd c lane k (message_cursor_event_id (last page)) lim)
      (\<lambda>more. io_return (page @ more))) w1 = (Inr ms, w')"
    by (auto elim: io_bindE)
  from container_page_result [OF p] have f: "same_feed w w1"
    and page: "page = merge_projected_messages (page_candidates fi cd c lane (Some after) (Some lim) w) (Some after) (Some lim)" by simp_all
  show ?case
  proof (cases "page = []")
    case True
    with r show ?thesis by (simp add: io_return_def page [symmetric])
  next
    case False
    with r obtain more where m: "read_feed fi cd c lane k (message_cursor_event_id (last page)) lim w1 = (Inr more, w')" "ms = page @ more"
      by (auto simp: io_return_def elim: io_bindE)
    from Suc.IH [OF m(1)] m(2) False show ?thesis
      by (simp add: page [symmetric] same_feed_facts(5) [OF f] Let_def)
  qed
qed

text \<open>
  C38: following the cursors reads the feed of a container once. The feed is what the product's table and the
  active shards of the container hold of it, in one lane or in all. Each page is what the program computes: a
  selection of the database on every table, cut at the limit, and the merge of what was selected. When ids and sort keys
  are distinct, the cursors grow along the feed and are computed alike by the database and the program, and the container
  has at most 64 active shards with messages of its own, a client that asks page by page, each after the
  cursor of the last message it got, gets exactly the messages after its first cursor, in the order of the feed, each
  once, provided no statement fails.
\<close>

theorem feed_pages_read_all:
  assumes "feed_ok fi cd container_id lane w" and "0 < lim" and "length (feed_messages cd container_id lane w) \<le> k"
    and "read_feed fi cd container_id lane k after lim w = (Inr ms, w')"
  shows "ms = filter (\<lambda>m. after < message_cursor_event_id m)
    (sort_messages_for_display_page (feed_messages cd container_id lane w))"
  unfolding read_feed_pages [OF assms(4)]
proof (rule feed_pages.pages_read_all [OF assms(1)])
  show "0 < normalize_message_page_limit (Some lim)" using assms(2) by (simp add: normalize_message_page_limit_def)
  have "length (sort_messages_for_display_page (feed_messages cd container_id lane w)) = length (feed_messages cd container_id lane w)"
    by (metis mset_sort_messages size_mset)
  then show "length (filter (\<lambda>r. after < message_cursor_event_id r)
      (sort_messages_for_display_page (feed_messages cd container_id lane w))) \<le> k"
    using assms(3) by (metis length_filter_le order_trans)
qed

section \<open>Reading without faults\<close>

definition db_runs :: "'a sql \<Rightarrow> bool" where
  "db_runs m \<longleftrightarrow> (\<forall>w. no_db_faults w \<longrightarrow> (\<exists>x w'. m w = (Inr x, w') \<and> no_db_faults w'))"

lemma db_runs_bind: "db_runs m \<Longrightarrow> (\<And>x. db_runs (f x)) \<Longrightarrow> db_runs (io_bind m f)"
  unfolding db_runs_def by (metis io_bind_Inr)

lemma db_runs_basic: "db_runs (io_return x)" "db_runs (sql_query f)" "db_runs (open_existing_shard s)"
  by (auto simp: db_runs_def io_return_def sql_query_def open_existing_shard_def open_shard_db_def sql_execute_def
      put_product_def io_bind_def sql_step_def io_get_def no_db_faults_def Let_def)

lemma db_runs_container_page: "db_runs (list_projected_container_messages_page_for_lane fi cd c lane after lim)"
proof -
  have "db_runs (shard_candidates fi cd c lane after lim ss cs)" for ss cs
    by (induction ss arbitrary: cs)
      (auto simp: shard_messages_page_for_lane_def intro!: db_runs_bind db_runs_basic split: option.split)
  then show ?thesis
    by (auto simp: list_projected_container_messages_page_for_lane_def list_container_messages_page_for_lane_def
        list_messages_page_def list_container_projection_shards_def Let_def intro!: db_runs_bind db_runs_basic)
qed

lemma db_runs_read_feed: "db_runs (read_feed fi cd c lane k after lim)"
  by (induction k arbitrary: after) (auto intro!: db_runs_bind db_runs_basic db_runs_container_page)

section \<open>An update hides other messages\<close>

definition demo_message :: "string \<Rightarrow> nat \<Rightarrow> string \<Rightarrow> container_message" where
  "demo_message message_id updated key =
     \<lparr>cm_message_id = message_id, cm_workspace_uid = ''ws'', cm_container_id = ''c'', cm_lane = LaneChat,
      cm_role = RoleUser, cm_message_type = TypeText, cm_status = ''completed'', cm_title = None, cm_body_text = None,
      cm_body_json = Object [], cm_card_json = Object [], cm_chat_thread_id = None, cm_task_id = None,
      cm_job_id = None, cm_source_kind = ''k'', cm_source_ref = ''r'', cm_source_seq = None,
      cm_created_at_ms = 1, cm_updated_at_ms = updated, cm_sort_key = key\<rparr>"

lemma demo_message_fields [simp]:
  "cm_message_id (demo_message i u k) = i" "cm_sort_key (demo_message i u k) = k"
  "cm_body_json (demo_message i u k) = Object []" "cm_card_json (demo_message i u k) = Object []"
  "demo_message i u k = demo_message i' u' k' \<longleftrightarrow> i = i' \<and> u = u' \<and> k = k'"
  by (simp_all add: demo_message_def)

lemma demo_cursors:
  "message_cursor_event_id (demo_message i 2 ''1'') = 2000000"
  "message_cursor_event_id (demo_message i 3 ''3'') = 3000000"
  "message_cursor_event_id (demo_message i 100 ''2'') = 100000000"
  by (simp_all add: message_cursor_event_id_def demo_message_def sort_key_to_cursor_def parse_i64_def is_digit_def
      cursor_of_def sat_i64_def clamp_seq_def feed_cursor_seq_def jget.simps Let_def)

text \<open>A product with messages of its own and one shard, both of the container \<open>c\<close>.\<close>

definition demo_feed_product :: "container_message list \<Rightarrow> container_message list \<Rightarrow> product" where
  "demo_feed_product own other = (demo_product [] (\<lambda>_. None))\<lparr>
     pd_messages := map (message_to_row plain_codec) own,
     pd_shards := [\<lparr>sh_shard_id = ''s'', sh_workspace_uid = ''ws'', sh_container_id = ''c'', sh_shard_kind = ''chat_thread'',
        sh_chat_thread_id = Some ''t'', sh_task_id = None, sh_job_id = None, sh_relative_db_path = ''p'',
        sh_status = ''active'', sh_created_at_ms = 1, sh_updated_at_ms = 1\<rparr>],
     pd_shard_dbs := [''p'' \<mapsto> \<lparr>sd_messages = map (message_to_row plain_codec) other, sd_events = [], sd_run_state = []\<rparr>]\<rparr>"

lemma demo_rows:
  "row_to_message plain_codec (message_to_row plain_codec (demo_message i u k)) = demo_message i u k"
  "mg_container_id (message_to_row plain_codec (demo_message i u k)) = ''c''"
  "mg_sort_key (message_to_row plain_codec (demo_message i u k)) = k" "cm_container_id (demo_message i u k) = ''c''"
  by (rule row_round_trip; simp add: plain_codec_def) (simp_all add: message_to_row_def demo_message_def)

lemma demo_sql_cursors:
  "MESSAGE_CURSOR_SQL fi plain_codec (message_to_row plain_codec (demo_message i 2 ''1'')) = 2000000"
  "MESSAGE_CURSOR_SQL fi plain_codec (message_to_row plain_codec (demo_message i 3 ''3'')) = 3000000"
  "MESSAGE_CURSOR_SQL fi plain_codec (message_to_row plain_codec (demo_message i 100 ''2'')) = 100000000"
proof -
  have "cast_integer (sql_substr ''1'' 1 20) = 1" "cast_integer (sql_substr ''2'' 1 20) = 2" "cast_integer (sql_substr ''3'' 1 20) = 3"
    "cast_integer (sql_substr ''1'' 22 10) = 0" "cast_integer (sql_substr ''2'' 22 10) = 0" "cast_integer (sql_substr ''3'' 22 10) = 0"
    by code_simp+
  then show "MESSAGE_CURSOR_SQL fi plain_codec (message_to_row plain_codec (demo_message i 2 ''1'')) = 2000000"
    "MESSAGE_CURSOR_SQL fi plain_codec (message_to_row plain_codec (demo_message i 3 ''3'')) = 3000000"
    "MESSAGE_CURSOR_SQL fi plain_codec (message_to_row plain_codec (demo_message i 100 ''2'')) = 100000000"
    by (simp_all add: MESSAGE_CURSOR_SQL_def row_sequence_def message_to_row_def demo_message_def plain_codec_def)
qed

lemma demo_feed_messages:
  assumes "\<forall>m \<in> set (own @ other). \<exists>i u k. m = demo_message i u k"
  shows "feed_messages plain_codec ''c'' None (demo_feed_product own other) = own @ other"
    and "feed_sources ''c'' None (demo_feed_product own other) =
      [map (message_to_row plain_codec) own, map (message_to_row plain_codec) other]"
    and "length (active_shards ''c'' (demo_feed_product own other)) = 1"
    and "s \<in> set (active_shards ''c'' (demo_feed_product own other)) \<Longrightarrow>
      shard_rows (demo_feed_product own other) s = map (message_to_row plain_codec) other"
proof -
  have c: "\<forall>m \<in> set ms. mg_container_id (message_to_row plain_codec m) = ''c'' \<and> row_to_message plain_codec (message_to_row plain_codec m) = m"
    if "set ms \<subseteq> set (own @ other)" for ms
  proof
    fix m
    assume "m \<in> set ms"
    with that assms obtain i u k where "m = demo_message i u k" by blast
    then show "mg_container_id (message_to_row plain_codec m) = ''c'' \<and> row_to_message plain_codec (message_to_row plain_codec m) = m"
      by (simp add: demo_rows)
  qed
  have own: "filter (\<lambda>r. mg_container_id r = ''c'' \<and> in_lane None r) (map (message_to_row plain_codec) own) = map (message_to_row plain_codec) own"
    using c [of own] by (auto simp: filter_id_conv in_lane_def)
  show s: "feed_sources ''c'' None (demo_feed_product own other) =
      [map (message_to_row plain_codec) own, map (message_to_row plain_codec) other]"
    unfolding feed_sources_def using own
    by (simp add: demo_feed_product_def active_shards_def newest_first_def shard_rows_def shard_at_def unwrap_or_def in_lane_def)
  show "feed_messages plain_codec ''c'' None (demo_feed_product own other) = own @ other"
    unfolding feed_messages_def s using c [of own] c [of other] by (simp add: map_idI)
  show "length (active_shards ''c'' (demo_feed_product own other)) = 1"
    by (simp add: demo_feed_product_def active_shards_def newest_first_def)
  show "s \<in> set (active_shards ''c'' (demo_feed_product own other)) \<Longrightarrow>
      shard_rows (demo_feed_product own other) s = map (message_to_row plain_codec) other"
    by (simp add: demo_feed_product_def active_shards_def newest_first_def shard_rows_def shard_at_def unwrap_or_def)
qed

lemma demo_feed_runs:
  obtains ms w' where "read_feed fi plain_codec ''c'' None k after lim (demo_feed_product own other) = (Inr ms, w')"
proof -
  have "no_db_faults (demo_feed_product own other)"
    by (simp add: demo_feed_product_def demo_product_def no_db_faults_def)
  with db_runs_read_feed that show ?thesis unfolding db_runs_def by metis
qed

text \<open>
  An update of one message can hide others from a client that follows the pages. Pages are ordered
  by sort key, but the cursor of a message also grows when it is updated, and the next page is asked for
  after the cursor of the last message of a page. There is a feed of three messages with distinct ids and keys,
  on whose cursors the database and the program agree, in which the second was updated late: a client that reads pages
  of two from the beginning never gets the third, however many pages it asks for.
\<close>

definition demo_feed :: product where
  "demo_feed = demo_feed_product [demo_message ''a'' 2 ''1'', demo_message ''b'' 100 ''2''] [demo_message ''c'' 3 ''3'']"

lemma demo_feed_candidates:
  "page_candidates fi plain_codec ''c'' None (Some 0) (Some 2) demo_feed =
     [demo_message ''a'' 2 ''1'', demo_message ''b'' 100 ''2'', demo_message ''c'' 3 ''3'']"
  "page_candidates fi plain_codec ''c'' None (Some 100000000) (Some 2) demo_feed = []"
  by (simp_all add: page_candidates_def demo_feed_def demo_feed_product_def active_shards_def newest_first_def shard_rows_def
      shard_at_def unwrap_or_def selected_messages_def select_page_def in_lane_def demo_rows demo_sql_cursors of_container_def
      MAX_CONTAINER_AGGREGATED_SHARDS_def normalize_message_page_limit_def)

theorem updated_message_hides_others:
  "\<exists>w c. distinct (map cm_message_id (feed_messages plain_codec ''c'' None w)) \<and>
     distinct (map cm_sort_key (feed_messages plain_codec ''c'' None w)) \<and>
     c \<in> set (feed_messages plain_codec ''c'' None w) \<and> 0 < message_cursor_event_id c \<and>
     (\<forall>k. \<exists>ms w'. read_feed fi plain_codec ''c'' None k 0 2 w = (Inr ms, w') \<and> c \<notin> set ms)"
proof (intro exI [of _ demo_feed] exI [of _ "demo_message ''c'' 3 ''3''"] conjI allI)
  have f: "feed_messages plain_codec ''c'' None demo_feed =
      [demo_message ''a'' 2 ''1'', demo_message ''b'' 100 ''2'', demo_message ''c'' 3 ''3'']"
    unfolding demo_feed_def by (subst demo_feed_messages(1)) auto
  show "distinct (map cm_message_id (feed_messages plain_codec ''c'' None demo_feed))"
    "distinct (map cm_sort_key (feed_messages plain_codec ''c'' None demo_feed))"
    "demo_message ''c'' 3 ''3'' \<in> set (feed_messages plain_codec ''c'' None demo_feed)" by (simp_all add: f)
  show "0 < message_cursor_event_id (demo_message ''c'' 3 ''3'')" by (simp add: demo_cursors)
  fix k :: nat
  let ?page = "\<lambda>after lim. merge_projected_messages (page_candidates fi plain_codec ''c'' None (Some after) (Some lim) demo_feed) (Some after) (Some lim)"
  have sorted: "sort_messages_for_display_page [demo_message ''a'' 2 ''1'', demo_message ''b'' 100 ''2'', demo_message ''c'' 3 ''3''] =
      [demo_message ''a'' 2 ''1'', demo_message ''b'' 100 ''2'', demo_message ''c'' 3 ''3'']"
    by (simp add: sort_messages_for_display_page_def demo_cursors)
  have ids: "distinct (map cm_message_id [demo_message ''a'' 2 ''1'', demo_message ''b'' 100 ''2'', demo_message ''c'' 3 ''3''])" by simp
  have p: "?page 0 2 = [demo_message ''a'' 2 ''1'', demo_message ''b'' 100 ''2'']"
    unfolding demo_feed_candidates merge_projected_messages_def Let_def merged_distinct [OF ids] sorted
    by (simp add: past_def demo_cursors normalize_message_page_limit_def)
  moreover have "?page 100000000 2 = []"
    unfolding demo_feed_candidates by (simp add: merge_projected_messages_def sort_messages_for_display_page_def Let_def)
  ultimately have p: "?page 0 2 = [demo_message ''a'' 2 ''1'', demo_message ''b'' 100 ''2'']" "?page 100000000 2 = []" by blast+
  have n: "read_pages ?page message_cursor_event_id j 100000000 2 = []" for j
    by (cases j) (simp_all add: p)
  have "demo_message ''c'' 3 ''3'' \<notin> set (read_pages ?page message_cursor_event_id k 0 2)"
    by (cases k) (simp_all add: Let_def p demo_cursors n)
  moreover obtain ms w' where r: "read_feed fi plain_codec ''c'' None k 0 2 demo_feed = (Inr ms, w')"
    unfolding demo_feed_def by (rule demo_feed_runs)
  ultimately show "\<exists>ms w'. read_feed fi plain_codec ''c'' None k 0 2 demo_feed = (Inr ms, w') \<and> demo_message ''c'' 3 ''3'' \<notin> set ms"
    using read_feed_pages [OF r] by (simp only: r) blast
qed

section \<open>Witnesses\<close>

theorem append_keeps_place_witness:
  "\<exists>m w'. append_message plain_codec (demo_message ''a'' 5 ''9'')
       ((demo_product [] (\<lambda>_. None))\<lparr>pd_messages := [message_to_row plain_codec (demo_message ''a'' 2 ''1'')]\<rparr>) = (Inr m, w') \<and>
     cm_sort_key m = ''1'' \<and> map (row_to_message plain_codec) (pd_messages w') = [m]"
proof -
  let ?w = "(demo_product [] (\<lambda>_. None))\<lparr>pd_messages := [message_to_row plain_codec (demo_message ''a'' 2 ''1'')]\<rparr>"
  obtain m w' where a: "append_message plain_codec (demo_message ''a'' 5 ''9'') ?w = (Inr m, w')"
    by (simp add: append_message_def io_bind_def sql_now_def sql_step_def demo_product_def Let_def io_get_apply
        put_product_apply io_return_apply)
  have c: "from_str plain_codec (to_string plain_codec (cm_body_json (demo_message ''a'' 5 ''9''))) =
       Some (cm_body_json (demo_message ''a'' 5 ''9''))"
    "from_str plain_codec (to_string plain_codec (cm_card_json (demo_message ''a'' 5 ''9''))) =
       Some (cm_card_json (demo_message ''a'' 5 ''9''))"
    by (simp_all add: plain_codec_def)
  have f: "filter (\<lambda>r. mg_message_id r \<noteq> ''a'') (pd_messages w') = []"
    and k: "map (row_to_message plain_codec) (filter (\<lambda>r. mg_message_id r = ''a'') (pd_messages w')) = [m]"
    and s: "cm_sort_key m = ''1''"
    using append_keeps_place [OF a c] by (simp_all add: message_to_row_def)
  from f have "filter (\<lambda>r. mg_message_id r = ''a'') (pd_messages w') = pd_messages w'"
    by (simp add: filter_empty_conv filter_id_conv)
  with a k s show ?thesis by auto
qed

theorem feed_pages_read_all_witness:
  "\<forall>fi. \<exists>w'. read_feed fi plain_codec ''c'' None 2 0 1 (demo_feed_product [demo_message ''c'' 3 ''3''] [demo_message ''a'' 2 ''1'']) =
     (Inr [demo_message ''a'' 2 ''1'', demo_message ''c'' 3 ''3''], w')"
proof
  fix fi
  let ?own = "[demo_message ''c'' 3 ''3'']" and ?other = "[demo_message ''a'' 2 ''1'']"
  let ?w = "demo_feed_product ?own ?other"
  have d: "\<forall>m \<in> set (?own @ ?other). \<exists>i u k. m = demo_message i u k" by auto
  note f = demo_feed_messages [OF d]
  have s: "sort_messages_for_display_page (?own @ ?other) = [demo_message ''a'' 2 ''1'', demo_message ''c'' 3 ''3'']"
    by (simp add: sort_messages_for_display_page_def demo_cursors)
  have ok: "feed_ok fi plain_codec ''c'' None ?w"
    unfolding feed_ok_def f(1,2) s
    by (simp add: f(3,4) MAX_CONTAINER_AGGREGATED_SHARDS_def demo_rows demo_sql_cursors demo_cursors)
  obtain ms w' where r: "read_feed fi plain_codec ''c'' None 2 0 1 ?w = (Inr ms, w')" by (rule demo_feed_runs)
  have "ms = filter (\<lambda>m. 0 < message_cursor_event_id m) (sort_messages_for_display_page (feed_messages plain_codec ''c'' None ?w))"
    by (rule feed_pages_read_all [OF ok _ _ r]) (simp_all add: f(1))
  also have "\<dots> = [demo_message ''a'' 2 ''1'', demo_message ''c'' 3 ''3'']" unfolding f(1) s by (simp add: demo_cursors)
  finally show "\<exists>w'. read_feed fi plain_codec ''c'' None 2 0 1 ?w = (Inr [demo_message ''a'' 2 ''1'', demo_message ''c'' 3 ''3''], w')"
    using r by blast
qed

end
