(* ===== verification/File_Tree.thy ===== *)
theory File_Tree
  imports Store_Zip
begin

text \<open>
  The file system as a tree of directories, and what the standard library does to it. The tree is
  the representation the recursive helpers of \<open>process_kernel/src/lib.rs\<close> walk; its meaning is the
  function \<open>view\<close> from paths to entries, on which each operation has a one-line specification.
\<close>

section \<open>Trees and views\<close>

definition set_child :: "string \<Rightarrow> file_node option \<Rightarrow> (string \<times> file_node) list \<Rightarrow> (string \<times> file_node) list" where
  "set_child x v children =
     filter (\<lambda>c. fst c \<noteq> x) children @ (case v of None \<Rightarrow> [] | Some n \<Rightarrow> [(x, n)])"

fun look :: "file_node option \<Rightarrow> path \<Rightarrow> file_node option" where
  "look t [] = t"
| "look (Some (DirNode children)) (x # p) = look (map_of children x) p"
| "look _ (x # p) = None"

text \<open>The entry at a path is changed when its parent is a directory.\<close>

fun alter :: "path \<Rightarrow> (file_node option \<Rightarrow> file_node option) \<Rightarrow> file_node option \<Rightarrow> file_node option" where
  "alter [] f t = f t"
| "alter (x # p) f (Some (DirNode children)) =
     Some (DirNode (set_child x (alter p f (map_of children x)) children))"
| "alter (x # p) f t = t"

text \<open>\<open>create_dir_all\<close>: \<open>None\<close> when a component of the path is a file.\<close>

fun mkdirs :: "path \<Rightarrow> file_node option \<Rightarrow> file_node option" where
  "mkdirs [] None = Some (DirNode [])"
| "mkdirs [] (Some (DirNode children)) = Some (DirNode children)"
| "mkdirs [] (Some (FileNode b)) = None"
| "mkdirs (x # p) (Some (FileNode b)) = None"
| "mkdirs (x # p) (Some (DirNode children)) =
     map_option (\<lambda>n. DirNode (set_child x (Some n) children)) (mkdirs p (map_of children x))"
| "mkdirs (x # p) None = map_option (\<lambda>n. DirNode [(x, n)]) (mkdirs p None)"

text \<open>What is at a path: nothing, a directory, or a file with its bytes.\<close>

datatype file_entry = Directory | Bytes string

definition entry_of :: "file_node option \<Rightarrow> file_entry option" where
  "entry_of t = (case t of None \<Rightarrow> None | Some (FileNode b) \<Rightarrow> Some (Bytes b) | Some (DirNode c) \<Rightarrow> Some Directory)"

definition view :: "file_node option \<Rightarrow> path \<Rightarrow> file_entry option" where
  "view t p = entry_of (look t p)"

definition path_exists :: "file_node option \<Rightarrow> path \<Rightarrow> bool" where
  "path_exists t p \<longleftrightarrow> view t p \<noteq> None"

definition is_dir :: "file_node option \<Rightarrow> path \<Rightarrow> bool" where
  "is_dir t p \<longleftrightarrow> view t p = Some Directory"

definition is_file :: "file_node option \<Rightarrow> path \<Rightarrow> bool" where
  "is_file t p \<longleftrightarrow> (case view t p of Some (Bytes b) \<Rightarrow> True | _ \<Rightarrow> False)"

text \<open>The names \<open>read_dir\<close> lists, sorted; a directory holds a name once.\<close>

definition child_names :: "file_node option \<Rightarrow> path \<Rightarrow> string list" where
  "child_names t p =
     (case look t p of Some (DirNode children) \<Rightarrow> sort (remdups (map fst children)) | _ \<Rightarrow> [])"

section \<open>Laws\<close>

lemma entry_of_simps [simp]:
  "entry_of None = None" "entry_of (Some (FileNode b)) = Some (Bytes b)" "entry_of (Some (DirNode c)) = Some Directory"
  by (simp_all add: entry_of_def)

lemma entry_of_iff:
  "entry_of t = None \<longleftrightarrow> t = None"
  "entry_of t = Some (Bytes b) \<longleftrightarrow> t = Some (FileNode b)"
  "entry_of t = Some Directory \<longleftrightarrow> (\<exists>c. t = Some (DirNode c))"
  by (auto simp: entry_of_def split: option.splits file_node.splits)

lemma map_of_set_child [simp]: "map_of (set_child x v children) = (map_of children)(x := v)"
proof
  fix k
  have f: "map_of (filter (\<lambda>c. fst c \<noteq> x) children) k = (if k = x then None else map_of children k)"
    by (induction children) auto
  show "map_of (set_child x v children) k = ((map_of children)(x := v)) k"
    by (cases v) (auto simp: set_child_def map_add_def f split: option.split)
qed

lemma look_None [simp]: "look None p = (if p = [] then None else None)"
  by (cases p) simp_all

lemma look_append: "look t (p @ q) = look (look t p) q"
  by (induction t p rule: look.induct) simp_all

lemma look_FileNode: "look (Some (FileNode b)) p = (if p = [] then Some (FileNode b) else None)"
  by (cases p) simp_all

lemma view_Nil [simp]: "view t [] = entry_of t"
  by (simp add: view_def)

lemma view_append: "view t (p @ q) = view (look t p) q"
  by (simp add: view_def look_append)

lemma view_None [simp]: "view None p = None"
  by (simp add: view_def)

lemma view_below_file: "view t p = Some (Bytes b) \<Longrightarrow> q \<noteq> [] \<Longrightarrow> view t (p @ q) = None"
  by (simp add: view_def look_append entry_of_iff look_FileNode)

lemma view_parent:
  assumes "view t (p @ q) \<noteq> None" and "q \<noteq> []"
  shows "view t p = Some Directory"
proof (cases "look t p")
  case None
  with assms show ?thesis by (simp add: view_append)
next
  case (Some n)
  with assms show ?thesis by (cases n) (auto simp: view_def look_append look_FileNode)
qed

text \<open>Two paths neither of which is below the other.\<close>

definition apart :: "path \<Rightarrow> path \<Rightarrow> bool" where
  "apart p q \<longleftrightarrow> \<not> path_starts_with p q \<and> \<not> path_starts_with q p"

lemma apart_sym: "apart p q \<longleftrightarrow> apart q p"
  by (auto simp: apart_def)

lemma apart_simps [simp]:
  "\<not> apart [] q" "\<not> apart p []" "apart (x # p) (y # q) \<longleftrightarrow> x \<noteq> y \<or> apart p q"
  by (cases p; cases q; auto simp: apart_def)+

lemma apart_append: "apart p q \<Longrightarrow> apart (p @ r) q" "apart p q \<Longrightarrow> apart p (q @ r)"
proof -
  show "apart p q \<Longrightarrow> apart (p @ r) q"
  proof (induction p arbitrary: q)
    case (Cons x p)
    then show ?case by (cases q) auto
  qed simp
  then show "apart p q \<Longrightarrow> apart p (q @ r)"
  proof (induction p arbitrary: q)
    case (Cons x p)
    then show ?case by (cases q) auto
  qed simp
qed

lemma apart_cases:
  obtains (below) r where "q = p @ r" | (above) r where "p = q @ r" "r \<noteq> []" | (apart) "apart p q"
proof (cases "apart p q")
  case False
  then consider "path_starts_with p q" | "path_starts_with q p" by (auto simp: apart_def)
  then show thesis
  proof cases
    case 1
    then obtain r where "p = q @ r" by (auto simp: path_starts_with_iff)
    with below [of r] above [of r] show thesis by (cases "r = []") auto
  next
    case 2
    then obtain r where "q = p @ r" by (auto simp: path_starts_with_iff)
    then show thesis by (rule below)
  qed
qed

lemma look_alter_apart: "apart p q \<Longrightarrow> look (alter p f t) q = look t q"
proof (induction p f t arbitrary: q rule: alter.induct)
  case (2 x p f children)
  then show ?case by (cases q) auto
qed auto

lemma look_alter:
  "view t p = Some Directory \<Longrightarrow> look (alter (p @ [x]) f t) (p @ x # r) = look (f (look t (p @ [x]))) r"
proof (induction p arbitrary: t)
  case Nil
  then show ?case by (auto simp: entry_of_iff)
next
  case (Cons y p)
  from Cons.prems obtain c where "t = Some (DirNode c)"
    by (cases "(t, y # p)" rule: look.cases) (auto simp: view_def)
  with Cons show ?case by (simp add: view_def)
qed

lemma view_alter_above: "r \<noteq> [] \<Longrightarrow> view (alter (p @ r) f t) p = view t p"
proof (induction p arbitrary: t)
  case Nil
  then obtain x r' where "r = x # r'" by (cases r) auto
  then show ?case by (cases "(x # r', f, t)" rule: alter.cases) auto
next
  case (Cons y p)
  then show ?case by (cases "(y # p @ r, f, t)" rule: alter.cases) (auto simp: view_def)
qed

text \<open>A change at \<open>p\<close>, in terms of views: what is below \<open>p\<close> is replaced, all else stays.\<close>

lemma view_alter:
  assumes "view t (butlast p) = Some Directory" and "p \<noteq> []"
  shows "view (alter p f t) q =
     (if path_starts_with q p then view (f (look t p)) (drop (length p) q) else view t q)"
proof -
  obtain p' x where p: "p = p' @ [x]" using assms(2) by (metis append_butlast_last_id)
  show ?thesis
  proof (cases rule: apart_cases [of q p])
    case (below r)
    with assms(1) p look_alter [of t p' x f r] show ?thesis by (auto simp: view_def path_starts_with_iff)
  next
    case (above r)
    then have "\<not> path_starts_with q p" by (auto simp: path_starts_with_iff)
    with above view_alter_above show ?thesis by simp
  next
    case apart
    then have "\<not> path_starts_with q p" by (simp add: apart_def)
    with look_alter_apart [OF apart] show ?thesis by (simp add: view_def)
  qed
qed

text \<open>Making directories adds the missing ones on the way.\<close>

lemma mkdirs_None: "\<exists>n. mkdirs p None = Some n"
  by (induction p) auto

lemma view_mkdirs:
  "mkdirs p t = Some n \<Longrightarrow>
     view (Some n) q = (if path_starts_with p q \<and> view t q = None then Some Directory else view t q)"
proof (induction p t arbitrary: n q rule: mkdirs.induct)
  case 1
  then show ?case by (cases q) (auto simp: view_def)
next
  case (2 children)
  then show ?case by (cases q) auto
next
  case (5 x p children)
  then obtain m where m: "mkdirs p (map_of children x) = Some m" "n = DirNode (set_child x (Some m) children)" by auto
  show ?case
  proof (cases q)
    case (Cons y q')
    with m 5(1) [OF m(1), of q'] show ?thesis by (auto simp: view_def)
  qed (auto simp: m)
next
  case (6 x p)
  then obtain m where m: "mkdirs p None = Some m" "n = DirNode [(x, m)]" by auto
  show ?case
  proof (cases q)
    case (Cons y q')
    with m 6(1) [OF m(1), of q'] show ?thesis by (auto simp: view_def)
  qed (auto simp: m)
qed auto

lemma mkdirs_blocked: "mkdirs p t = None \<longleftrightarrow> (\<exists>q b. path_starts_with p q \<and> view t q = Some (Bytes b))"
proof (induction p t rule: mkdirs.induct)
  case 1
  then show ?case by auto
next
  case (2 children)
  then show ?case by (auto simp: path_starts_with_iff)
next
  case (3 b)
  then show ?case by (auto simp: path_starts_with_iff)
next
  case (4 x p b)
  have "\<exists>q ba. path_starts_with (x # p) q \<and> view (Some (FileNode b)) q = Some (Bytes ba)"
    by (intro exI [of _ "[]"] exI [of _ b]) simp
  then show ?case by simp
next
  case (5 x p children)
  show ?case
  proof
    assume "mkdirs (x # p) (Some (DirNode children)) = None"
    then have "mkdirs p (map_of children x) = None" by simp
    with 5 obtain q b where "path_starts_with p q" "view (map_of children x) q = Some (Bytes b)" by auto
    then have "path_starts_with (x # p) (x # q) \<and> view (Some (DirNode children)) (x # q) = Some (Bytes b)"
      by (simp add: view_def)
    then show "\<exists>q b. path_starts_with (x # p) q \<and> view (Some (DirNode children)) q = Some (Bytes b)" by blast
  next
    assume "\<exists>q b. path_starts_with (x # p) q \<and> view (Some (DirNode children)) q = Some (Bytes b)"
    then obtain q b where q: "path_starts_with (x # p) q" "view (Some (DirNode children)) q = Some (Bytes b)" by blast
    then obtain q' where "q = x # q'" by (cases q) auto
    with q 5 show "mkdirs (x # p) (Some (DirNode children)) = None" by (auto simp: view_def)
  qed
next
  case (6 x p)
  with mkdirs_None [of "x # p"] show ?case by auto
qed

lemma child_names_iff: "x \<in> set (child_names t p) \<longleftrightarrow> view t (p @ [x]) \<noteq> None"
proof (cases "look t p")
  case (Some n)
  then show ?thesis
  proof (cases n)
    case (DirNode c)
    with Some show ?thesis by (auto simp: child_names_def view_def look_append entry_of_iff map_of_eq_None_iff)
  qed (simp add: child_names_def view_append, simp add: view_def look_FileNode)
qed (simp add: child_names_def view_append)

lemma distinct_child_names [simp]: "distinct (child_names t p)"
  by (simp add: child_names_def split: option.split file_node.split)

end
