(* ===== verification/Os_Files.thy ===== *)
theory Os_Files
  imports File_Tree Approval_Runtime Hashing Capability_Kernel
begin

text \<open>
  What the OS runtime works on: the store of the process truth, the file system as one tree with
  absolute paths, and the process-wide transaction counter; and the file helpers of
  \<open>process_kernel/src/lib.rs\<close> it calls. Every system call asks \<open>w_fault\<close> whether it fails. A failed
  write or recursive removal may leave anything at its path (\<open>os_torn\<close>); other failed calls change
  nothing.
\<close>

section \<open>State and system calls\<close>

record os_state =
  os_world :: world
  os_tree :: "file_node option"
  os_tx_counter :: "64 word"
  os_torn :: "nat \<Rightarrow> file_node option \<Rightarrow> file_node option"

definition on_world :: "(world, 'a) io \<Rightarrow> (os_state, 'a) io" where
  "on_world m = (\<lambda>s. case m (os_world s) of (r, w) \<Rightarrow> (r, s\<lparr>os_world := w\<rparr>))"

definition put_tree :: "file_node option \<Rightarrow> (os_state, unit) io" where
  "put_tree t = (\<lambda>s. (Inr (), s\<lparr>os_tree := t\<rparr>))"

text \<open>A change of the node at a path that a failure may leave half done.\<close>

definition tree_op :: "path \<Rightarrow> (file_node option \<Rightarrow> file_node option) \<Rightarrow> (os_state, unit) io" where
  "tree_op p f = (\<lambda>s.
     let w = os_world s in
     case sys_op w of
       (Inl e, w') \<Rightarrow> (Inl e, s\<lparr>os_world := w', os_tree := alter p (os_torn s (w_ops w)) (os_tree s)\<rparr>)
     | (Inr _, w') \<Rightarrow> (Inr (), s\<lparr>os_world := w', os_tree := alter p f (os_tree s)\<rparr>))"

definition fs_create_dir_all :: "path \<Rightarrow> (os_state, unit) io" where
  "fs_create_dir_all p =
     io_bind (on_world sys_op) (\<lambda>_. io_bind io_get (\<lambda>s.
       case mkdirs p (os_tree s) of
         None \<Rightarrow> io_fail (IoError AlreadyExists ''File exists'')
       | Some n \<Rightarrow> put_tree (Some n)))"

text \<open>\<open>if let Some(parent) = path.parent()\<close>.\<close>

definition create_parent :: "path \<Rightarrow> (os_state, unit) io" where
  "create_parent p = (if p = [] then io_return () else fs_create_dir_all (butlast p))"

definition fs_read :: "path \<Rightarrow> (os_state, string) io" where
  "fs_read p =
     io_bind (on_world sys_op) (\<lambda>_. io_bind io_get (\<lambda>s.
       case view (os_tree s) p of
         None \<Rightarrow> io_fail (IoError NotFound ''No such file or directory'')
       | Some Directory \<Rightarrow> io_fail (IoError OtherKind ''Is a directory'')
       | Some (Bytes b) \<Rightarrow> io_return b))"

definition fs_write :: "path \<Rightarrow> string \<Rightarrow> (os_state, unit) io" where
  "fs_write p content =
     io_bind io_get (\<lambda>s.
       if is_dir (os_tree s) p then io_fail (IoError OtherKind ''Is a directory'')
       else if \<not> is_dir (os_tree s) (butlast p) then io_fail (IoError NotFound ''No such file or directory'')
       else tree_op p (\<lambda>_. Some (FileNode content)))"

text \<open>\<open>fs::copy\<close> truncates the target before it reads, so a file copied onto itself is emptied.\<close>

definition fs_copy :: "path \<Rightarrow> path \<Rightarrow> (os_state, unit) io" where
  "fs_copy source destination =
     io_bind (fs_read source) (\<lambda>b. fs_write destination (if source = destination then [] else b))"

definition fs_read_dir :: "path \<Rightarrow> (os_state, string list) io" where
  "fs_read_dir p =
     io_bind (on_world sys_op) (\<lambda>_. io_bind io_get (\<lambda>s.
       if is_dir (os_tree s) p then io_return (child_names (os_tree s) p)
       else io_fail (IoError NotFound ''No such file or directory'')))"

definition fs_remove_file :: "path \<Rightarrow> (os_state, unit) io" where
  "fs_remove_file p =
     io_bind (on_world sys_op) (\<lambda>_. io_bind io_get (\<lambda>s.
       if is_file (os_tree s) p then put_tree (alter p (\<lambda>_. None) (os_tree s))
       else io_fail (IoError NotFound ''No such file or directory'')))"

definition fs_remove_dir_all :: "path \<Rightarrow> (os_state, unit) io" where
  "fs_remove_dir_all p = tree_op p (\<lambda>_. None)"

text \<open>\<open>OpenOptions::new().write(true).create_new(true).open(p)\<close>: whether this call made the file.\<close>

definition fs_create_new :: "path \<Rightarrow> (os_state, bool) io" where
  "fs_create_new p =
     io_bind (on_world sys_op) (\<lambda>_. io_bind io_get (\<lambda>s.
       if path_exists (os_tree s) p then io_return False
       else if \<not> is_dir (os_tree s) (butlast p) then io_fail (IoError NotFound ''No such file or directory'')
       else io_bind (put_tree (alter p (\<lambda>_. Some (FileNode [])) (os_tree s))) (\<lambda>_. io_return True)))"

text \<open>The loop \<open>for x in xs { f(x)?; }\<close>.\<close>

fun io_each :: "('a \<Rightarrow> ('s, 'e, unit) fallible) \<Rightarrow> 'a list \<Rightarrow> ('s, 'e, unit) fallible" where
  "io_each f [] = io_return ()"
| "io_each f (x # xs) = io_bind (f x) (\<lambda>_. io_each f xs)"

section \<open>Whole paths\<close>

definition remove_path_any :: "path \<Rightarrow> (os_state, unit) io" where
  "remove_path_any p =
     io_bind io_get (\<lambda>s.
       if is_dir (os_tree s) p then fs_remove_dir_all p
       else if path_exists (os_tree s) p then fs_remove_file p
       else io_return ())"

text \<open>
  The first argument bounds the depth of the recursion: it stands for the longest path the system
  accepts, which is what ends the copy of a directory into itself.
\<close>

fun copy_path_recursive :: "nat \<Rightarrow> path \<Rightarrow> path \<Rightarrow> (os_state, unit) io" where
  "copy_path_recursive 0 source destination = io_fail (IoError OtherKind ''File name too long'')"
| "copy_path_recursive (Suc n) source destination =
     io_bind io_get (\<lambda>s.
       if is_dir (os_tree s) source then
         io_bind (fs_create_dir_all destination) (\<lambda>_.
         io_bind (fs_read_dir source) (\<lambda>names.
         io_each (\<lambda>name. copy_path_recursive n (source @ [name]) (destination @ [name])) names))
       else if is_file (os_tree s) source then
         io_bind (create_parent destination) (\<lambda>_. fs_copy source destination)
       else io_fail (IoError InvalidInput ''unsupported path type''))"

text \<open>The path of a child below the workspace root, as it is shown.\<close>

definition shown_below :: "path \<Rightarrow> path \<Rightarrow> string" where
  "shown_below root p =
     fwd_slashes (if path_starts_with p root then join ''/'' (drop (length root) p) else CHR ''/'' # join ''/'' p)"

text \<open>
  \<open>walk_workspace\<close>, with the number of levels left instead of the two counters \<open>depth\<close> and
  \<open>max_depth\<close>: it is called with \<open>max_depth + 1\<close>.
\<close>

definition io_collect :: "('a \<Rightarrow> ('s, 'e, 'b list) fallible) \<Rightarrow> 'a list \<Rightarrow> ('s, 'e, 'b list) fallible" where
  "io_collect f xs = foldr (\<lambda>x rest. io_bind (f x) (\<lambda>ys. io_bind rest (\<lambda>zs. io_return (ys @ zs)))) xs (io_return [])"

fun walk_workspace :: "nat \<Rightarrow> path \<Rightarrow> path \<Rightarrow> (os_state, string list) io" where
  "walk_workspace 0 root p = io_return []"
| "walk_workspace (Suc levels) root p =
     io_bind (fs_read_dir p) (\<lambda>names.
     io_collect (\<lambda>name. io_bind io_get (\<lambda>s.
         if is_dir (os_tree s) (p @ [name])
         then io_bind (walk_workspace levels root (p @ [name])) (\<lambda>rest. io_return (shown_below root (p @ [name]) # rest))
         else io_return [shown_below root (p @ [name])]))
       (filter (\<lambda>name. name \<noteq> RUNTIME_DIR_NAME) names))"

definition path_kind :: "file_node option \<Rightarrow> path \<Rightarrow> string option" where
  "path_kind t p =
     (case view t p of None \<Rightarrow> None | Some (Bytes b) \<Rightarrow> Some ''file'' | Some Directory \<Rightarrow> Some ''dir'')"

text \<open>Sizes and fingerprints read a tree that does not change; the reads are one system call here.\<close>

fun node_size :: "file_node \<Rightarrow> 64 word"
  and children_size :: "(string \<times> file_node) list \<Rightarrow> 64 word" where
  "node_size (FileNode b) = word_of_nat (length b)"
| "node_size (DirNode children) = children_size children"
| "children_size [] = 0"
| "children_size ((name, node) # children) =
     (if name = RUNTIME_DIR_NAME then 0 else node_size node) + children_size children"

definition path_size :: "path \<Rightarrow> (os_state, 64 word) io" where
  "path_size p =
     io_bind (on_world sys_op) (\<lambda>_. io_bind io_get (\<lambda>s.
       io_return (case look (os_tree s) p of None \<Rightarrow> 0 | Some n \<Rightarrow> node_size n)))"

fun node_parts :: "path \<Rightarrow> path \<Rightarrow> file_node \<Rightarrow> string list"
  and children_parts :: "path \<Rightarrow> path \<Rightarrow> (string \<times> file_node) list \<Rightarrow> (string \<times> string list) list" where
  "node_parts root p (FileNode b) = [shown_below root p @ '':'' @ file_fingerprint [b]]"
| "node_parts root p (DirNode children) =
     (shown_below root p @ '':dir'') # concat (map snd (sort_key fst (children_parts root p children)))"
| "children_parts root p [] = []"
| "children_parts root p ((name, node) # children) =
     (if name = RUNTIME_DIR_NAME then children_parts root p children
      else (name, node_parts root (p @ [name]) node) # children_parts root p children)"

definition collect_path_fingerprints :: "path \<Rightarrow> path \<Rightarrow> (string \<times> file_node) list \<Rightarrow> string list" where
  "collect_path_fingerprints root p children = concat (map snd (sort_key fst (children_parts root p children)))"

definition path_fingerprint :: "path \<Rightarrow> path \<Rightarrow> (os_state, string) io" where
  "path_fingerprint root p =
     io_bind (on_world sys_op) (\<lambda>_. io_bind io_get (\<lambda>s. io_return
       (case look (os_tree s) p of
          Some (FileNode b) \<Rightarrow> file_fingerprint [b]
        | Some (DirNode children) \<Rightarrow>
            ''dir-fnv1a64:'' @ hex16 (fnv1a64 (join [CHR 0x0A] (collect_path_fingerprints root p children)))
        | None \<Rightarrow> ''other'')))"

section \<open>Transactions and diffs\<close>

definition new_tx_id :: "string \<Rightarrow> (os_state, string) io" where
  "new_tx_id prefix = (\<lambda>s.
     let sequence = os_tx_counter s
     in io_bind (on_world now_ms) (\<lambda>ms. io_return (prefix @ ''_'' @ dec ms @ ''_'' @ dec (unat sequence)))
          (s\<lparr>os_tx_counter := sequence + 1\<rparr>))"

definition is_valid_write_kind :: "string \<Rightarrow> bool" where
  "is_valid_write_kind k \<longleftrightarrow> k \<in> {''artifact'', ''source_mutation'', ''temp_dataset''}"

definition restore_tx_backup :: "nat \<Rightarrow> string \<Rightarrow> path \<Rightarrow> string \<Rightarrow> path \<Rightarrow> (os_state, unit) io" where
  "restore_tx_backup depth truth_job state_root backup_ref destination =
     (case strip_prefix backup_ref (''txbackup://'' @ truth_job @ ''/'') of
        None \<Rightarrow> io_fail (IoError InvalidInput ''tx backup ref does not belong to this job'')
      | Some relative \<Rightarrow>
          (case resolve_below (state_root @ [''tx_backups'', truth_job]) (unix_components relative) of
             None \<Rightarrow> io_fail (IoError InvalidInput ''tx backup ref leaves backup boundary'')
           | Some backup_path \<Rightarrow> copy_path_recursive depth backup_path destination))"

text \<open>\<open>String::from_utf8_lossy\<close>: the longest valid start of a bad sequence becomes U+FFFD.\<close>

definition replacement_char :: string where
  "replacement_char = [CHR 0xEF, CHR 0xBF, CHR 0xBD]"

definition second_ok :: "nat \<Rightarrow> char \<Rightarrow> bool" where
  "second_ok a c \<longleftrightarrow> is_cont c \<and>
     (a = 0xE0 \<longrightarrow> 0xA0 \<le> (of_char c :: nat)) \<and> (a = 0xED \<longrightarrow> (of_char c :: nat) \<le> 0x9F) \<and>
     (a = 0xF0 \<longrightarrow> 0x90 \<le> (of_char c :: nat)) \<and> (a = 0xF4 \<longrightarrow> (of_char c :: nat) \<le> 0x8F)"

text \<open>The length of the next chunk of a non-empty string and whether it is a character.\<close>

definition utf8_chunk :: "string \<Rightarrow> nat \<times> bool" where
  "utf8_chunk s =
     (let a = of_char (hd s) :: nat;
          need = (if a < 0x80 then 1 else if 0xC2 \<le> a \<and> a \<le> 0xDF then 2
                  else if 0xE0 \<le> a \<and> a \<le> 0xEF then 3 else if 0xF0 \<le> a \<and> a \<le> 0xF4 then 4 else 0);
          found = (if need < 2 then 1
                   else if tl s = [] \<or> \<not> second_ok a (hd (tl s)) then 1
                   else 2 + length (takeWhile is_cont (take (need - 2) (drop 2 s))))
      in (found, found = need))"

function from_utf8_lossy :: "string \<Rightarrow> string" where
  "from_utf8_lossy s =
     (if s = [] then []
      else (let (n, good) = utf8_chunk s
            in (if good then take n s else replacement_char) @ from_utf8_lossy (drop n s)))"
  by pat_completeness auto
termination
  by (relation "measure length") (auto simp: utf8_chunk_def Let_def split: if_splits)

declare from_utf8_lossy.simps [simp del]

text \<open>\<open>str::lines\<close>: a final empty line does not count; a line that ends in LF loses one CR before it.\<close>

definition strip_cr :: "string \<Rightarrow> string" where
  "strip_cr l = (if l \<noteq> [] \<and> last l = CHR 0x0D then butlast l else l)"

definition str_lines :: "string \<Rightarrow> string list" where
  "str_lines s =
     (let parts = split_char CHR 0x0A s
      in map strip_cr (butlast parts) @ (if last parts = [] then [] else [last parts]))"

fun diff_lines :: "string list \<Rightarrow> string list \<Rightarrow> string" where
  "diff_lines (l # ls) (r # rs) =
     (if l = r then '' '' @ l @ [CHR 0x0A] else ''-'' @ l @ [CHR 0x0A] @ ''+'' @ r @ [CHR 0x0A]) @ diff_lines ls rs"
| "diff_lines (l # ls) [] = ''-'' @ l @ [CHR 0x0A] @ diff_lines ls []"
| "diff_lines [] (r # rs) = ''+'' @ r @ [CHR 0x0A] @ diff_lines [] rs"
| "diff_lines [] [] = []"

definition text_file_diff :: "path \<Rightarrow> path \<Rightarrow> (os_state, string) io" where
  "text_file_diff left right =
     io_bind (fs_read left) (\<lambda>l. io_bind (fs_read right) (\<lambda>r.
     io_return (diff_lines (str_lines (from_utf8_lossy l)) (str_lines (from_utf8_lossy r)))))"

end
