(* ===== verification/Os_Runtime.thy ===== *)
theory Os_Runtime
  imports Os_Files
begin

text \<open>
  The OS runtime (\<open>process_kernel/src/os_runtime.rs\<close>): the capabilities that read and change the
  workspace, the backups and records from which a change is rolled back, and the lock files that
  keep two runs from changing one path. \<open>oe_job\<close> is the job of the token and \<open>oe_truth_job\<close> that of
  the store; ids of jobs and transactions are single names in paths.
\<close>

record os_env =
  oe_root :: path
  oe_state_root :: path
  oe_job :: string
  oe_pid :: string
  oe_capabilities :: "string list"
  oe_truth_job :: string
  oe_emit_events :: bool
  oe_codec :: json_codec
  oe_max_depth :: nat

section \<open>Transaction records\<close>

record os_tx_record =
  ox_tx_id :: string
  ox_operation :: string
  ox_source_path :: "string option"
  ox_destination_path :: "string option"
  ox_write_kind :: "string option"
  ox_source_before_exists :: bool
  ox_destination_before_exists :: bool
  ox_source_backup_ref :: "string option"
  ox_destination_backup_ref :: "string option"

definition os_tx_record_json :: "os_tx_record \<Rightarrow> json" where
  "os_tx_record_json r = jobj
     [(''tx_id'', JString (ox_tx_id r)), (''operation'', JString (ox_operation r)),
      (''source_path'', jopt (ox_source_path r)), (''destination_path'', jopt (ox_destination_path r)),
      (''write_kind'', jopt (ox_write_kind r)),
      (''source_before_exists'', Bool (ox_source_before_exists r)),
      (''destination_before_exists'', Bool (ox_destination_before_exists r)),
      (''source_backup_ref'', jopt (ox_source_backup_ref r)),
      (''destination_backup_ref'', jopt (ox_destination_backup_ref r))]"

text \<open>The derived \<open>Deserialize\<close>: an absent or null optional field is \<open>None\<close>.\<close>

definition opt_str_field :: "json \<Rightarrow> string \<Rightarrow> string option option" where
  "opt_str_field v k =
     (case jget v k of None \<Rightarrow> Some None | Some Null \<Rightarrow> Some None | Some (JString s) \<Rightarrow> Some (Some s) | _ \<Rightarrow> None)"

definition os_tx_record_of_json :: "json \<Rightarrow> os_tx_record option" where
  "os_tx_record_of_json v =
     Option.bind (get_str v ''tx_id'') (\<lambda>tx_id. Option.bind (get_str v ''operation'') (\<lambda>operation.
     Option.bind (opt_str_field v ''source_path'') (\<lambda>source_path.
     Option.bind (opt_str_field v ''destination_path'') (\<lambda>destination_path.
     Option.bind (opt_str_field v ''write_kind'') (\<lambda>write_kind.
     Option.bind (get_bool v ''source_before_exists'') (\<lambda>source_before.
     Option.bind (get_bool v ''destination_before_exists'') (\<lambda>destination_before.
     Option.bind (opt_str_field v ''source_backup_ref'') (\<lambda>source_backup.
     Option.bind (opt_str_field v ''destination_backup_ref'') (\<lambda>destination_backup.
     Some \<lparr>ox_tx_id = tx_id, ox_operation = operation, ox_source_path = source_path,
           ox_destination_path = destination_path, ox_write_kind = write_kind,
           ox_source_before_exists = source_before, ox_destination_before_exists = destination_before,
           ox_source_backup_ref = source_backup, ox_destination_backup_ref = destination_backup\<rparr>)))))))))"

section \<open>Receipts\<close>

definition os_receipt :: "os_env \<Rightarrow> string \<Rightarrow> string \<Rightarrow> (string \<times> json) list \<Rightarrow> capability_receipt" where
  "os_receipt v capability_id status kvs =
     \<lparr>rc_capability_id = capability_id, rc_job_id = oe_job v, rc_pid = oe_pid v, rc_status = status,
      rc_data = jobj kvs\<rparr>"

definition jsize :: "nat \<Rightarrow> json" where
  "jsize n = Number (PosInt (word_of_nat n))"

definition os_append :: "os_env \<Rightarrow> string \<Rightarrow> json \<Rightarrow> (os_state, unit) io" where
  "os_append v ty d =
     io_bind (on_world (append_event (oe_truth_job v) (Some (oe_pid v)) ty d)) (\<lambda>_. io_return ())"

definition emit_receipt :: "os_env \<Rightarrow> string \<Rightarrow> capability_receipt \<Rightarrow> (os_state, unit) io" where
  "emit_receipt v ty receipt = (if oe_emit_events v then os_append v ty (receipt_json receipt) else io_return ())"

text \<open>\<open>let _ = m\<close> and the destructors that run on every exit of a block.\<close>

definition ignore_error :: "('s, 'e, 'a) fallible \<Rightarrow> ('s, 'e, unit) fallible" where
  "ignore_error m = (\<lambda>s. (Inr (), snd (m s)))"

definition finally_do :: "('s, 'e, 'a) fallible \<Rightarrow> ('s, 'e, unit) fallible \<Rightarrow> ('s, 'e, 'a) fallible" where
  "finally_do m c = (\<lambda>s. case m s of (r, s') \<Rightarrow> (r, snd (c s')))"

definition blocked_receipt_with_data ::
  "os_env \<Rightarrow> string \<Rightarrow> (string \<times> json) list \<Rightarrow> (os_state, capability_receipt) io" where
  "blocked_receipt_with_data v capability_id kvs =
     (let receipt = os_receipt v capability_id ''blocked'' kvs in
      io_bind (if oe_emit_events v
               then io_bind (ignore_error (os_append v ''capability_blocked'' (receipt_json receipt))) (\<lambda>_.
                    ignore_error (os_append v ''capability_receipt'' (receipt_json receipt)))
               else io_return ()) (\<lambda>_. io_return receipt))"

definition blocked_receipt :: "os_env \<Rightarrow> string \<Rightarrow> string \<Rightarrow> (os_state, capability_receipt) io" where
  "blocked_receipt v capability_id reason = blocked_receipt_with_data v capability_id [(''reason'', JString reason)]"

text \<open>\<open>if let Some(receipt) = self.ensure_capability(id) { return Ok(receipt); }\<close> before the rest.\<close>

definition ensure_capability ::
  "os_env \<Rightarrow> string \<Rightarrow> (os_state, capability_receipt) io \<Rightarrow> (os_state, capability_receipt) io" where
  "ensure_capability v capability_id rest =
     (if capability_id \<in> set (oe_capabilities v) then rest
      else blocked_receipt v capability_id (capability_id @ '' not granted''))"

definition resolve_path :: "os_env \<Rightarrow> string \<Rightarrow> (os_state, path) io" where
  "resolve_path v relative_path =
     (case resolve_workspace_path (oe_root v) (unix_components relative_path) of
        Inl e \<Rightarrow> io_fail (IoError PermissionDenied e) | Inr p \<Rightarrow> io_return p)"

section \<open>Locks\<close>

definition lock_dir :: "os_env \<Rightarrow> path" where
  "lock_dir v = oe_state_root v @ [''workspace_file_locks'']"

definition lock_path :: "os_env \<Rightarrow> string \<Rightarrow> path" where
  "lock_path v normalized_path = lock_dir v @ [safe_blob_name normalized_path @ ''.lock'']"

definition lock_text :: "os_env \<Rightarrow> string \<Rightarrow> string" where
  "lock_text v normalized_path =
     to_string (oe_codec v) (jobj [(''schema_version'', JString ''supernova.workspace_file_lock.v1''),
       (''job_id'', JString (oe_job v)), (''path'', JString normalized_path)]) @ [CHR 0x0A]"

definition try_acquire :: "os_env \<Rightarrow> string \<Rightarrow> (os_state, path option) io" where
  "try_acquire v normalized_path =
     io_bind (fs_create_dir_all (lock_dir v)) (\<lambda>_.
     io_bind (fs_create_new (lock_path v normalized_path)) (\<lambda>made.
       if made then io_bind (fs_write (lock_path v normalized_path) (lock_text v normalized_path)) (\<lambda>_.
         io_return (Some (lock_path v normalized_path)))
       else io_return None))"

definition release_locks :: "path list \<Rightarrow> (os_state, unit) io" where
  "release_locks locks = io_each (\<lambda>p. ignore_error (fs_remove_file p)) locks"

text \<open>
  The loop of \<open>acquire_mutation_locks\<close>: the path in conflict, or the locks. The locks taken so far
  are dropped on a conflict and on an error.
\<close>

fun acquire_locks :: "os_env \<Rightarrow> string list \<Rightarrow> path list \<Rightarrow> (os_state, string + path list) io" where
  "acquire_locks v [] locks = io_return (Inr locks)"
| "acquire_locks v (p # ps) locks = (\<lambda>s.
     case try_acquire v p s of
       (Inl e, s1) \<Rightarrow> (Inl e, snd (release_locks locks s1))
     | (Inr None, s1) \<Rightarrow> (Inr (Inl p), snd (release_locks locks s1))
     | (Inr (Some l), s1) \<Rightarrow> acquire_locks v ps (locks @ [l]) s1)"

definition with_mutation_locks ::
  "os_env \<Rightarrow> string \<Rightarrow> string list \<Rightarrow> (os_state, capability_receipt) io \<Rightarrow> (os_state, capability_receipt) io" where
  "with_mutation_locks v capability_id normalized_paths rest =
     (let lock_paths = sort_dedup normalized_paths in
      io_bind (acquire_locks v lock_paths []) (\<lambda>r. case r of
        Inl conflict \<Rightarrow> blocked_receipt_with_data v capability_id
          [(''reason'', JString ''workspace_file_lock_conflict''),
           (''message'', JString ''target path is locked by another active run''),
           (''target_paths'', jstrings lock_paths), (''conflict_path'', JString conflict),
           (''no_file_written'', Bool True), (''recoverable_by_task_agent'', Bool True)]
      | Inr locks \<Rightarrow> finally_do rest (release_locks locks)))"

section \<open>Backups, records and rollback\<close>

definition backup_workspace_path ::
  "os_env \<Rightarrow> string \<Rightarrow> string \<Rightarrow> path \<Rightarrow> (os_state, bool \<times> string option) io" where
  "backup_workspace_path v tx_id slot p =
     io_bind io_get (\<lambda>s.
       if \<not> path_exists (os_tree s) p then io_return (False, None)
       else
        (let backup_root = oe_state_root v @ [''tx_backups'', oe_job v, tx_id];
             backup_path = backup_root @ [slot]
         in io_bind (fs_create_dir_all backup_root) (\<lambda>_. io_bind io_get (\<lambda>s1.
            io_bind (if path_exists (os_tree s1) backup_path then remove_path_any backup_path else io_return ()) (\<lambda>_.
            io_bind (copy_path_recursive (oe_max_depth v) p backup_path) (\<lambda>_.
            io_return (True, Some (''txbackup://'' @ oe_job v @ ''/'' @ tx_id @ ''/'' @ fwd_slashes slot))))))))"

definition record_tx :: "os_env \<Rightarrow> os_tx_record \<Rightarrow> (os_state, string) io" where
  "record_tx v record =
     io_bind (on_world (write_blob (oe_truth_job v) (''tx/'' @ safe_blob_name (ox_tx_id record) @ ''.json'')
       (to_string (oe_codec v) (os_tx_record_json record)))) (\<lambda>tx_ref.
     io_bind (if oe_emit_events v
       then os_append v ''tx_recorded'' (jobj [(''tx_id'', JString (ox_tx_id record)),
         (''operation'', JString (ox_operation record)), (''tx_ref'', JString tx_ref)])
       else io_return ()) (\<lambda>_. io_return tx_ref))"

text \<open>One side of \<open>restore_tx_record\<close>: the path is removed and, where there is a backup, copied back.\<close>

definition restore_side :: "os_env \<Rightarrow> string option \<Rightarrow> bool \<Rightarrow> string option \<Rightarrow> (os_state, unit) io" where
  "restore_side v side_path before_exists backup_ref =
     (case side_path of
        None \<Rightarrow> io_return ()
      | Some rel \<Rightarrow>
          io_bind (resolve_path v rel) (\<lambda>p. io_bind io_get (\<lambda>s.
          io_bind (if path_exists (os_tree s) p then remove_path_any p else io_return ()) (\<lambda>_.
          if before_exists
          then (case backup_ref of
                  None \<Rightarrow> io_return ()
                | Some r \<Rightarrow> restore_tx_backup (oe_max_depth v) (oe_truth_job v) (oe_state_root v) r p)
          else io_return ()))))"

definition restore_tx_record :: "os_env \<Rightarrow> os_tx_record \<Rightarrow> (os_state, unit) io" where
  "restore_tx_record v r =
     io_bind (restore_side v (ox_destination_path r) (ox_destination_before_exists r) (ox_destination_backup_ref r))
       (\<lambda>_. restore_side v (ox_source_path r) (ox_source_before_exists r) (ox_source_backup_ref r))"

definition rollback_tx :: "os_env \<Rightarrow> string \<Rightarrow> (os_state, capability_receipt) io" where
  "rollback_tx v tx_id =
     ensure_capability v ''os.rollback_tx''
      (io_bind (io_lift (resolve_blob_ref (oe_truth_job v)
          (''blob://'' @ oe_job v @ ''/tx/'' @ safe_blob_name tx_id @ ''.json''))) (\<lambda>tx_path.
       io_bind io_get (\<lambda>s.
       if w_files (os_world s) tx_path = None
       then blocked_receipt v ''os.rollback_tx'' ''tx record does not exist''
       else
        io_bind (on_world (Process_Truth.read_file tx_path)) (\<lambda>text.
        case Option.bind (from_str (oe_codec v) text) os_tx_record_of_json of
          None \<Rightarrow> io_fail (IoError InvalidData ''invalid tx record'')
        | Some record \<Rightarrow>
            io_bind (restore_tx_record v record) (\<lambda>_.
            let receipt = os_receipt v ''os.rollback_tx'' ''success''
                  [(''tx_id'', JString tx_id), (''rolled_back_operation'', JString (ox_operation record))]
            in io_bind (emit_receipt v ''tx_rollback'' receipt) (\<lambda>_.
               io_bind (emit_receipt v ''capability_receipt'' receipt) (\<lambda>_. io_return receipt)))))))"

section \<open>Changing the workspace\<close>

text \<open>The success receipt of a capability, emitted.\<close>

definition os_success :: "os_env \<Rightarrow> string \<Rightarrow> (string \<times> json) list \<Rightarrow> (os_state, capability_receipt) io" where
  "os_success v capability_id kvs =
     (let receipt = os_receipt v capability_id ''success'' kvs
      in io_bind (emit_receipt v ''capability_receipt'' receipt) (\<lambda>_. io_return receipt))"

definition accepted_write_kinds :: json where
  "accepted_write_kinds = jstrings [''artifact'', ''source_mutation'', ''temp_dataset'']"

definition artifact_revision_count :: "os_env \<Rightarrow> string \<Rightarrow> (os_state, nat) io" where
  "artifact_revision_count v artifact_path =
     io_bind (on_world (read_events (oe_truth_job v))) (\<lambda>events. io_return (length (filter (\<lambda>e.
       event_type e = ''artifact_version_tx'' \<and>
       map_option fwd_slashes (get_str (data e) ''artifact_path'') = Some (fwd_slashes artifact_path)) events)))"

definition record_version ::
  "os_env \<Rightarrow> string \<Rightarrow> string \<Rightarrow> string \<Rightarrow> string option \<Rightarrow> string option \<Rightarrow> (os_state, string) io" where
  "record_version v capability_id normalized_path tx_id previous_hash new_hash =
     io_bind (artifact_revision_count v normalized_path) (\<lambda>count.
     let version_index = count + 1;
         common = [(''artifact_path'', JString normalized_path), (''previous_hash'', jopt previous_hash),
           (''new_hash'', jopt new_hash), (''revision_index'', jsize version_index),
           (''producer_capability'', JString capability_id), (''tx_id'', JString tx_id)]
     in io_bind (on_world (write_blob (oe_truth_job v)
          (''artifact_versions/'' @ safe_blob_name normalized_path @ ''_'' @ dec version_index @ ''_diff_summary.json'')
          (to_pretty (oe_codec v) (jobj (common @ [(''summary'', JString
            ''artifact content was rewritten by the same AgentJob; this is recorded as an artifact version transaction, not a user source mutation'')])))))
        (\<lambda>diff_summary_ref.
        io_bind (if oe_emit_events v
          then os_append v ''artifact_version_tx'' (jobj (common @ [(''source_refs'', Array []),
            (''diff_summary_ref'', JString diff_summary_ref), (''status'', JString ''recorded'')]))
          else io_return ()) (\<lambda>_. io_return diff_summary_ref)))"

definition path_hash :: "path \<Rightarrow> (os_state, string) io" where
  "path_hash p = io_bind (fs_read p) (\<lambda>b. io_return (file_fingerprint [b]))"

text \<open>An optional step of a computation, and its result.\<close>

definition io_when :: "bool \<Rightarrow> ('s, 'e, 'a) fallible \<Rightarrow> ('s, 'e, 'a option) fallible" where
  "io_when b m = (if b then io_bind m (\<lambda>x. io_return (Some x)) else io_return None)"

definition write_locked ::
  "os_env \<Rightarrow> string \<Rightarrow> path \<Rightarrow> string \<Rightarrow> string \<Rightarrow> string \<Rightarrow> (os_state, capability_receipt) io" where
  "write_locked v capability_id p normalized_path content write_kind =
     io_bind (new_tx_id ''os_write'') (\<lambda>tx_id. io_bind io_get (\<lambda>s.
     io_bind (if write_kind = ''artifact'' \<and> path_exists (os_tree s) p
              then on_world (artifact_path_generated_by_current_job (oe_truth_job v) normalized_path)
              else io_return False) (\<lambda>is_artifact_revision.
     io_bind (io_when is_artifact_revision (path_hash p)) (\<lambda>previous_hash.
     io_bind (backup_workspace_path v tx_id ''destination'' p) (\<lambda>destination_backup.
     io_bind (create_parent p) (\<lambda>_.
     io_bind (fs_write p content) (\<lambda>_.
     io_bind (io_when is_artifact_revision (path_hash p)) (\<lambda>new_hash.
     io_bind (record_tx v \<lparr>ox_tx_id = tx_id, ox_operation = capability_id, ox_source_path = None,
        ox_destination_path = Some normalized_path, ox_write_kind = Some write_kind,
        ox_source_before_exists = False, ox_destination_before_exists = fst destination_backup,
        ox_source_backup_ref = None, ox_destination_backup_ref = snd destination_backup\<rparr>) (\<lambda>tx_ref.
     io_bind (io_when is_artifact_revision
       (record_version v capability_id normalized_path tx_id previous_hash new_hash)) (\<lambda>version_tx_ref.
     os_success v capability_id
       [(''artifact_ref'', JString (''artifact://'' @ normalized_path)), (''artifact_path'', JString normalized_path),
        (''size_bytes'', jsize (length content)), (''write_kind'', JString write_kind), (''tx_id'', JString tx_id),
        (''tx_ref'', JString tx_ref), (''artifact_version_tx_ref'', jopt version_tx_ref)]))))))))))"

definition write_file_with_capability ::
  "os_env \<Rightarrow> string \<Rightarrow> string \<Rightarrow> string \<Rightarrow> string \<Rightarrow> (os_state, capability_receipt) io" where
  "write_file_with_capability v capability_id relative_path content write_kind =
     ensure_capability v capability_id
      (if \<not> is_valid_write_kind write_kind then
         blocked_receipt_with_data v capability_id
           [(''reason'', JString ''invalid_write_kind''),
            (''message'', JString ''write_kind must be artifact, source_mutation, or temp_dataset''),
            (''schema_error'', Bool True), (''recoverable_by_task_agent'', Bool True),
            (''received_write_kind'', JString write_kind), (''accepted_write_kinds'', accepted_write_kinds),
            (''no_file_written'', Bool True)]
       else io_bind (resolve_path v relative_path) (\<lambda>p.
         let normalized_path = fwd_slashes relative_path in
         with_mutation_locks v capability_id [normalized_path]
           (write_locked v capability_id p normalized_path content write_kind)))"

definition write_artifact :: "os_env \<Rightarrow> string \<Rightarrow> string \<Rightarrow> (os_state, capability_receipt) io" where
  "write_artifact v relative_path content =
     write_file_with_capability v ''os.write_artifact'' relative_path content ''artifact''"

definition write_temp_dataset :: "os_env \<Rightarrow> string \<Rightarrow> string \<Rightarrow> (os_state, capability_receipt) io" where
  "write_temp_dataset v relative_path content =
     write_file_with_capability v ''os.write_temp_dataset'' relative_path content ''temp_dataset''"

definition write_source_mutation_apply :: "os_env \<Rightarrow> string \<Rightarrow> string \<Rightarrow> (os_state, capability_receipt) io" where
  "write_source_mutation_apply v relative_path content =
     write_file_with_capability v ''os.write_source_mutation_apply'' relative_path content ''source_mutation''"

definition os_write_file :: "os_env \<Rightarrow> string \<Rightarrow> string \<Rightarrow> string \<Rightarrow> (os_state, capability_receipt) io" where
  "os_write_file v relative_path content write_kind =
     write_file_with_capability v ''os.write_file'' relative_path content write_kind"

definition copy_locked ::
  "os_env \<Rightarrow> string \<Rightarrow> path \<Rightarrow> path \<Rightarrow> string \<Rightarrow> string \<Rightarrow> bool \<Rightarrow> (os_state, capability_receipt) io" where
  "copy_locked v capability_id source destination normalized_source normalized_destination remove_source =
     io_bind (new_tx_id ''os_mutation'') (\<lambda>tx_id.
     io_bind (backup_workspace_path v tx_id ''source'' source) (\<lambda>source_backup.
     io_bind (backup_workspace_path v tx_id ''destination'' destination) (\<lambda>destination_backup.
     io_bind (create_parent destination) (\<lambda>_. io_bind io_get (\<lambda>s.
     io_bind (if path_exists (os_tree s) destination then remove_path_any destination else io_return ()) (\<lambda>_.
     io_bind (copy_path_recursive (oe_max_depth v) source destination) (\<lambda>_.
     io_bind (if remove_source then remove_path_any source else io_return ()) (\<lambda>_.
     io_bind (record_tx v \<lparr>ox_tx_id = tx_id, ox_operation = capability_id,
        ox_source_path = Some normalized_source, ox_destination_path = Some normalized_destination,
        ox_write_kind = Some ''source_mutation'', ox_source_before_exists = fst source_backup,
        ox_destination_before_exists = fst destination_backup, ox_source_backup_ref = snd source_backup,
        ox_destination_backup_ref = snd destination_backup\<rparr>) (\<lambda>tx_ref.
     os_success v capability_id
       [(''source_path'', JString normalized_source), (''destination_path'', JString normalized_destination),
        (''tx_id'', JString tx_id), (''tx_ref'', JString tx_ref)])))))))))"

definition copy_like ::
  "os_env \<Rightarrow> string \<Rightarrow> string \<Rightarrow> string \<Rightarrow> bool \<Rightarrow> (os_state, capability_receipt) io" where
  "copy_like v capability_id source_path destination_path remove_source =
     ensure_capability v capability_id
      (io_bind (resolve_path v source_path) (\<lambda>source. io_bind (resolve_path v destination_path) (\<lambda>destination.
       io_bind io_get (\<lambda>s.
       if \<not> path_exists (os_tree s) source then blocked_receipt v capability_id ''source path does not exist''
       else
        with_mutation_locks v capability_id [fwd_slashes source_path, fwd_slashes destination_path]
          (copy_locked v capability_id source destination (fwd_slashes source_path)
             (fwd_slashes destination_path) remove_source)))))"

definition copy_path :: "os_env \<Rightarrow> string \<Rightarrow> string \<Rightarrow> (os_state, capability_receipt) io" where
  "copy_path v source_path destination_path = copy_like v ''os.copy_path'' source_path destination_path False"

definition move_path :: "os_env \<Rightarrow> string \<Rightarrow> string \<Rightarrow> (os_state, capability_receipt) io" where
  "move_path v source_path destination_path = copy_like v ''os.move_path'' source_path destination_path True"

definition rename_path :: "os_env \<Rightarrow> string \<Rightarrow> string \<Rightarrow> (os_state, capability_receipt) io" where
  "rename_path v source_path destination_path = copy_like v ''os.rename_path'' source_path destination_path True"

definition delete_locked :: "os_env \<Rightarrow> path \<Rightarrow> string \<Rightarrow> (os_state, capability_receipt) io" where
  "delete_locked v p normalized_path =
     io_bind (new_tx_id ''os_delete'') (\<lambda>tx_id.
     io_bind (backup_workspace_path v tx_id ''source'' p) (\<lambda>source_backup.
     io_bind (remove_path_any p) (\<lambda>_.
     io_bind (record_tx v \<lparr>ox_tx_id = tx_id, ox_operation = ''os.delete_path'',
        ox_source_path = Some normalized_path, ox_destination_path = None,
        ox_write_kind = Some ''source_mutation'', ox_source_before_exists = fst source_backup,
        ox_destination_before_exists = False, ox_source_backup_ref = snd source_backup,
        ox_destination_backup_ref = None\<rparr>) (\<lambda>tx_ref.
     os_success v ''os.delete_path''
       [(''target_path'', JString normalized_path), (''tx_id'', JString tx_id), (''tx_ref'', JString tx_ref)]))))"

definition delete_path :: "os_env \<Rightarrow> string \<Rightarrow> (os_state, capability_receipt) io" where
  "delete_path v relative_path =
     ensure_capability v ''os.delete_path''
      (io_bind (resolve_path v relative_path) (\<lambda>p. io_bind io_get (\<lambda>s.
       if \<not> path_exists (os_tree s) p then blocked_receipt v ''os.delete_path'' ''delete target does not exist''
       else with_mutation_locks v ''os.delete_path'' [fwd_slashes relative_path]
              (delete_locked v p (fwd_slashes relative_path)))))"

section \<open>Archives\<close>

text \<open>
  \<open>write_store_zip\<close> and \<open>read_store_zip\<close> on the tree. A source that does not exist adds no entry.
\<close>

definition os_write_store_zip :: "path \<Rightarrow> path list \<Rightarrow> path \<Rightarrow> (os_state, nat) io" where
  "os_write_store_zip root sources destination =
     io_bind (on_world sys_op) (\<lambda>_. io_bind io_get (\<lambda>s.
     let entries = concat (map (\<lambda>p. case look (os_tree s) p of
            None \<Rightarrow> [] | Some node \<Rightarrow> collect_zip_entries (drop (length root) p) node) sources);
         sorted_entries = dedup_names (sort_key ze_name entries)
     in io_bind (fs_write destination (zip_bytes sorted_entries)) (\<lambda>_. io_return (length sorted_entries))))"

fun resolve_all :: "os_env \<Rightarrow> string list \<Rightarrow> (os_state, path list) io" where
  "resolve_all v [] = io_return []"
| "resolve_all v (p # ps) =
     io_bind (resolve_path v p) (\<lambda>q. io_bind (resolve_all v ps) (\<lambda>qs. io_return (q # qs)))"

definition zip_paths :: "os_env \<Rightarrow> string list \<Rightarrow> string \<Rightarrow> (os_state, capability_receipt) io" where
  "zip_paths v source_paths destination_zip_path =
     ensure_capability v ''os.zip''
      (io_bind (new_tx_id ''os_zip'') (\<lambda>tx_id.
       io_bind (resolve_path v destination_zip_path) (\<lambda>destination.
       io_bind (backup_workspace_path v tx_id ''destination'' destination) (\<lambda>destination_backup.
       io_bind (resolve_all v source_paths) (\<lambda>sources.
       io_bind (create_parent destination) (\<lambda>_.
       io_bind (os_write_store_zip (oe_root v) sources destination) (\<lambda>entry_count.
       io_bind (record_tx v \<lparr>ox_tx_id = tx_id, ox_operation = ''os.zip'', ox_source_path = None,
          ox_destination_path = Some (fwd_slashes destination_zip_path), ox_write_kind = Some ''artifact'',
          ox_source_before_exists = False, ox_destination_before_exists = fst destination_backup,
          ox_source_backup_ref = None, ox_destination_backup_ref = snd destination_backup\<rparr>) (\<lambda>tx_ref.
       os_success v ''os.zip''
         [(''archive_path'', JString (fwd_slashes destination_zip_path)), (''entry_count'', jsize entry_count),
          (''tx_id'', JString tx_id), (''tx_ref'', JString tx_ref)]))))))))"

definition os_extract_entry :: "path \<Rightarrow> string \<Rightarrow> string \<Rightarrow> (os_state, unit) io" where
  "os_extract_entry destination name content =
     io_bind (io_lift (resolve_archive_entry destination name)) (\<lambda>target.
     io_bind (create_parent target) (\<lambda>_. fs_write target content))"

function os_read_zip_loop :: "string \<Rightarrow> path \<Rightarrow> nat \<Rightarrow> nat \<Rightarrow> (os_state, nat) io" where
  "os_read_zip_loop bytes destination offset count =
     (if offset + 4 \<le> length bytes
      then (case read_local_entry bytes offset of
              Inl e \<Rightarrow> io_fail e
            | Inr None \<Rightarrow> io_return count
            | Inr (Some (name, content, data_end)) \<Rightarrow>
                io_bind (os_extract_entry destination name content)
                  (\<lambda>_. os_read_zip_loop bytes destination data_end (Suc count)))
      else io_return count)"
  by pat_completeness auto
termination
  by (relation "measure (\<lambda>(bytes, _, offset, _). length bytes - offset)")
    (auto dest!: read_local_entry_bounds)

declare os_read_zip_loop.simps [simp del]

definition os_read_store_zip :: "path \<Rightarrow> path \<Rightarrow> (os_state, nat) io" where
  "os_read_store_zip archive destination =
     io_bind (fs_read archive) (\<lambda>bytes. os_read_zip_loop bytes destination 0 0)"

definition unzip_archive :: "os_env \<Rightarrow> string \<Rightarrow> string \<Rightarrow> (os_state, capability_receipt) io" where
  "unzip_archive v archive_path destination_dir =
     ensure_capability v ''os.unzip''
      (io_bind (resolve_path v archive_path) (\<lambda>archive. io_bind (resolve_path v destination_dir) (\<lambda>destination.
       io_bind io_get (\<lambda>s.
       if \<not> is_file (os_tree s) archive then blocked_receipt v ''os.unzip'' ''archive target is not a file''
       else
        io_bind (new_tx_id ''os_unzip'') (\<lambda>tx_id.
        io_bind (backup_workspace_path v tx_id ''destination'' destination) (\<lambda>destination_backup.
        io_bind (fs_create_dir_all destination) (\<lambda>_.
        io_bind (os_read_store_zip archive destination) (\<lambda>entry_count.
        io_bind (record_tx v \<lparr>ox_tx_id = tx_id, ox_operation = ''os.unzip'',
           ox_source_path = Some (fwd_slashes archive_path), ox_destination_path = Some (fwd_slashes destination_dir),
           ox_write_kind = Some ''artifact'', ox_source_before_exists = True,
           ox_destination_before_exists = fst destination_backup, ox_source_backup_ref = None,
           ox_destination_backup_ref = snd destination_backup\<rparr>) (\<lambda>tx_ref.
        os_success v ''os.unzip''
          [(''archive_path'', JString (fwd_slashes archive_path)),
           (''destination_dir'', JString (fwd_slashes destination_dir)), (''entry_count'', jsize entry_count),
           (''tx_id'', JString tx_id), (''tx_ref'', JString tx_ref)])))))))))"

section \<open>Reading the workspace\<close>

definition list_tree :: "os_env \<Rightarrow> nat \<Rightarrow> (os_state, capability_receipt) io" where
  "list_tree v max_depth =
     ensure_capability v ''os.list_tree''
      (io_bind (walk_workspace (Suc max_depth) (oe_root v) (oe_root v)) (\<lambda>entries.
       io_bind (on_world (write_blob (oe_truth_job v) ''source_set_tree.txt'' (join [CHR 0x0A] entries))) (\<lambda>source_set_ref.
       os_success v ''os.list_tree''
         [(''source_set_ref'', JString source_set_ref), (''entry_count'', jsize (length entries)),
          (''max_depth'', jsize max_depth)])))"

fun take_chars :: "nat \<Rightarrow> string \<Rightarrow> string" where
  "take_chars n [] = []"
| "take_chars n (c # s) =
     (if is_continuation c then c # take_chars n s
      else (case n of 0 \<Rightarrow> [] | Suc m \<Rightarrow> c # take_chars m s))"

definition bool_text :: "bool \<Rightarrow> string" where
  "bool_text b = (if b then ''true'' else ''false'')"

definition preview_markdown :: "string \<Rightarrow> bool \<Rightarrow> string \<Rightarrow> string" where
  "preview_markdown normalized_path target_exists content =
     (let nl = [CHR 0x0A]; tick = [CHR 0x60]
      in ''# Source Mutation Preview'' @ nl @ nl @ ''- target_path: '' @ tick @ normalized_path @ tick @ nl @
         ''- target_exists: '' @ tick @ bool_text target_exists @ tick @ nl @
         ''- content_bytes: '' @ tick @ dec (length content) @ tick @ nl @ nl @
         tick @ tick @ tick @ ''text'' @ nl @ take_chars 4000 (from_utf8_lossy content) @ nl @
         tick @ tick @ tick @ nl)"

definition write_source_mutation_preview :: "os_env \<Rightarrow> string \<Rightarrow> string \<Rightarrow> (os_state, capability_receipt) io" where
  "write_source_mutation_preview v relative_path content =
     (let capability_id = ''os.write_source_mutation_preview''; normalized_path = fwd_slashes relative_path in
      ensure_capability v capability_id
       (case resolve_workspace_path (oe_root v) (unix_components relative_path) of
          Inl e \<Rightarrow> blocked_receipt_with_data v capability_id
            [(''reason'', JString ''workspace_boundary_violation''), (''message'', JString e),
             (''path'', JString normalized_path), (''no_file_written'', Bool True)]
        | Inr p \<Rightarrow>
            io_bind (on_world (write_blob (oe_truth_job v)
              (''source_mutation_previews/'' @ safe_blob_name normalized_path @ ''_content.bin'') content)) (\<lambda>content_ref.
            io_bind io_get (\<lambda>s.
            let target_exists = path_exists (os_tree s) p in
            io_bind (on_world (write_blob (oe_truth_job v)
              (''source_mutation_previews/'' @ safe_blob_name normalized_path @ ''_preview.md'')
              (preview_markdown normalized_path target_exists content))) (\<lambda>preview_ref.
            os_success v capability_id
              [(''path'', JString normalized_path), (''target_paths'', jstrings [normalized_path]),
               (''proposed_actions'', jstrings [''os.write_source_mutation_apply'']),
               (''content_ref'', JString content_ref), (''preview_ref'', JString preview_ref),
               (''content_bytes'', jsize (length content)), (''target_exists'', Bool target_exists),
               (''no_file_written'', Bool True),
               (''runtime_note'', JString ''preview only; TaskAgent must wait for the user decision. Kernel-owned approval execution will run the original pending mutation after approval and return the tool result to the model.'')])))))"

definition stat_path :: "os_env \<Rightarrow> string \<Rightarrow> (os_state, capability_receipt) io" where
  "stat_path v relative_path =
     ensure_capability v ''os.stat_path''
      (io_bind (resolve_path v relative_path) (\<lambda>p. io_bind io_get (\<lambda>s.
       let found = path_exists (os_tree s) p in
       io_bind (if found then path_size p else io_return 0) (\<lambda>size_bytes.
       io_bind (io_when found (path_fingerprint (oe_root v) p)) (\<lambda>fingerprint.
       let receipt = os_receipt v ''os.stat_path'' (if found then ''success'' else ''failed'')
             [(''path'', JString (fwd_slashes relative_path)), (''exists'', Bool found),
              (''kind'', jopt (path_kind (os_tree s) p)), (''size_bytes'', Number (PosInt size_bytes)),
              (''fingerprint'', jopt fingerprint)]
       in io_bind (emit_receipt v ''capability_receipt'' receipt) (\<lambda>_. io_return receipt))))))"

definition os_read_file :: "os_env \<Rightarrow> string \<Rightarrow> (os_state, capability_receipt) io" where
  "os_read_file v relative_path =
     ensure_capability v ''os.read_file''
      (io_bind (resolve_path v relative_path) (\<lambda>p. io_bind io_get (\<lambda>s.
       if \<not> is_file (os_tree s) p then
         blocked_receipt_with_data v ''os.read_file''
           [(''reason'', JString ''read target is not a file''), (''path'', JString (fwd_slashes relative_path)),
            (''exists'', Bool (path_exists (os_tree s) p)), (''target_kind'', jopt (path_kind (os_tree s) p)),
            (''recoverable'', Bool True),
            (''recommended_capabilities'', jstrings [''os.list_tree'', ''os.stat_path'', ''source_set.create'', ''source_set.read_page'']),
            (''corrective_instruction'', JString ''Use os.list_tree or os.stat_path for directories. For project-scale source inspection, create a source set and read pages instead of repeatedly calling os.read_file on directories.'')]
       else
        io_bind (fs_read p) (\<lambda>content.
        io_bind (on_world (write_blob (oe_truth_job v) (''datasets/'' @ safe_blob_name relative_path) content)) (\<lambda>dataset_ref.
        io_bind (path_hash p) (\<lambda>fingerprint.
        os_success v ''os.read_file''
          [(''source_path'', JString (fwd_slashes relative_path)), (''dataset_ref'', JString dataset_ref),
           (''size_bytes'', jsize (length content)), (''fingerprint'', JString fingerprint)]))))))"

definition looks_like_temp_dataset_path :: "string \<Rightarrow> bool" where
  "looks_like_temp_dataset_path p =
     (let lowered = to_ascii_lowercase p
      in str_contains lowered ''tmp/'' \<or> str_contains lowered ''temp/'' \<or> str_contains lowered ''dataset'' \<or>
         ends_with lowered ''.jsonl'')"

definition write_file_missing_write_kind :: "os_env \<Rightarrow> string \<Rightarrow> (os_state, capability_receipt) io" where
  "write_file_missing_write_kind v relative_path =
     ensure_capability v ''os.write_file''
      (let normalized_path = fwd_slashes relative_path;
           example = (\<lambda>capability_id. jobj [(''capability_id'', JString capability_id),
             (''arguments'', jobj [(''path'', JString normalized_path), (''content'', JString ''...'')])])
       in blocked_receipt_with_data v ''os.write_file''
         [(''reason'', JString ''missing_write_kind''), (''schema_error'', Bool True),
          (''recoverable_by_task_agent'', Bool True), (''target_path'', JString normalized_path),
          (''accepted_write_kinds'', accepted_write_kinds),
          (''detected_intent'', JString (if looks_like_temp_dataset_path normalized_path
             then ''temp_dataset_candidate'' else ''artifact_candidate'')),
          (''no_file_written'', Bool True),
          (''minimal_valid_examples'', jobj [(''artifact'', example ''os.write_artifact''),
             (''temp_dataset'', example ''os.write_temp_dataset''),
             (''source_mutation'', example ''os.write_source_mutation_preview'')]),
          (''runtime_note'', JString ''os.write_file is compatibility-only; prefer explicit write capabilities'')])"

definition hash_path :: "os_env \<Rightarrow> string \<Rightarrow> (os_state, capability_receipt) io" where
  "hash_path v relative_path =
     ensure_capability v ''os.hash_path''
      (io_bind (resolve_path v relative_path) (\<lambda>p. io_bind io_get (\<lambda>s.
       if \<not> path_exists (os_tree s) p then blocked_receipt v ''os.hash_path'' ''hash target does not exist''
       else
        io_bind (path_fingerprint (oe_root v) p) (\<lambda>hash.
        io_bind (on_world (write_blob (oe_truth_job v) (''hash/'' @ safe_blob_name relative_path @ ''.txt'') hash)) (\<lambda>hash_ref.
        os_success v ''os.hash_path''
          [(''path'', JString (fwd_slashes relative_path)), (''hash'', JString hash), (''hash_ref'', JString hash_ref)])))))"

definition diff_files :: "os_env \<Rightarrow> string \<Rightarrow> string \<Rightarrow> (os_state, capability_receipt) io" where
  "diff_files v left_path right_path =
     ensure_capability v ''os.diff''
      (io_bind (resolve_path v left_path) (\<lambda>left. io_bind (resolve_path v right_path) (\<lambda>right. io_bind io_get (\<lambda>s.
       if \<not> is_file (os_tree s) left \<or> \<not> is_file (os_tree s) right
       then blocked_receipt v ''os.diff'' ''diff targets must both be files''
       else
        io_bind (text_file_diff left right) (\<lambda>diff.
        io_bind (on_world (write_blob (oe_truth_job v)
          (''diff/'' @ safe_blob_name left_path @ ''_to_'' @ safe_blob_name right_path @ ''.diff'') diff)) (\<lambda>diff_ref.
        os_success v ''os.diff''
          [(''left_path'', JString (fwd_slashes left_path)), (''right_path'', JString (fwd_slashes right_path)),
           (''diff_ref'', JString diff_ref)]))))))"

definition verify_artifact :: "os_env \<Rightarrow> string \<Rightarrow> (os_state, capability_receipt) io" where
  "verify_artifact v relative_path =
     ensure_capability v ''os.verify_artifact''
      (io_bind (resolve_path v relative_path) (\<lambda>p. io_bind io_get (\<lambda>s.
       io_bind (case view (os_tree s) p of
                  Some (Bytes b) \<Rightarrow> io_bind (on_world sys_op) (\<lambda>_. io_return (length b))
                | _ \<Rightarrow> io_return 0) (\<lambda>size_bytes.
       let found = path_exists (os_tree s) p;
           receipt = os_receipt v ''os.verify_artifact'' (if found then ''success'' else ''failed'')
             [(''artifact_path'', JString relative_path), (''exists'', Bool found), (''size_bytes'', jsize size_bytes)]
       in io_bind (emit_receipt v ''verify_event'' receipt) (\<lambda>_. io_return receipt)))))"

end
