(* ===== verification/Os_Laws.thy ===== *)
theory Os_Laws
  imports Os_Runtime
begin

text \<open>
  What the operations on the tree do to its view when no system call fails: directories are made,
  subtrees removed and copied. On these rest the laws of backup and rollback.
\<close>

section \<open>Runs without faults\<close>

definition quiet :: "os_state \<Rightarrow> bool" where
  "quiet s \<longleftrightarrow> no_faults (os_world s)"

definition tick :: "os_state \<Rightarrow> os_state" where
  "tick s = s\<lparr>os_world := (os_world s)\<lparr>w_ops := Suc (w_ops (os_world s))\<rparr>\<rparr>"

lemma tick_simps [simp]:
  "os_tree (tick s) = os_tree s" "os_tx_counter (tick s) = os_tx_counter s" "os_torn (tick s) = os_torn s"
  "quiet (tick s) = quiet s"
  by (simp_all add: tick_def quiet_def no_faults_def)

lemma sys_op_quiet [io_simps]: "quiet s \<Longrightarrow> on_world sys_op s = (Inr (), tick s)"
  by (simp add: on_world_def sys_op_def quiet_def no_faults_def tick_def Let_def)

lemma tree_op_quiet: "quiet s \<Longrightarrow> tree_op p f s = (Inr (), (tick s)\<lparr>os_tree := alter p f (os_tree s)\<rparr>)"
  by (simp add: tree_op_def sys_op_def quiet_def no_faults_def tick_def Let_def)

lemma put_tree_apply [io_simps]: "put_tree t s = (Inr (), s\<lparr>os_tree := t\<rparr>)"
  by (simp add: put_tree_def)

text \<open>Only the tree and the count of system calls change.\<close>

definition tree_only :: "os_state \<Rightarrow> os_state \<Rightarrow> bool" where
  "tree_only s s' \<longleftrightarrow> (\<exists>n t. s' = s\<lparr>os_world := (os_world s)\<lparr>w_ops := n\<rparr>, os_tree := t\<rparr>)"

lemma tree_only_refl [simp]: "tree_only s s"
  unfolding tree_only_def by (rule exI [of _ "w_ops (os_world s)"], rule exI [of _ "os_tree s"]) simp

lemma tree_onlyI: "tree_only s (s\<lparr>os_world := (os_world s)\<lparr>w_ops := n\<rparr>, os_tree := t\<rparr>)"
  by (auto simp: tree_only_def)

lemma tree_only_trans: "tree_only s t \<Longrightarrow> tree_only t u \<Longrightarrow> tree_only s u"
  unfolding tree_only_def [of s t] tree_only_def [of t u] by (elim exE) (simp, rule tree_onlyI)

lemma tree_only_tick [simp]: "tree_only s (tick s)" "tree_only s ((tick s)\<lparr>os_tree := t\<rparr>)"
proof -
  have "tick s = s\<lparr>os_world := (os_world s)\<lparr>w_ops := Suc (w_ops (os_world s))\<rparr>, os_tree := os_tree s\<rparr>"
    by (simp add: tick_def)
  then show "tree_only s (tick s)" unfolding tree_only_def by blast
  show "tree_only s ((tick s)\<lparr>os_tree := t\<rparr>)" by (auto simp: tree_only_def tick_def)
qed

lemma tree_onlyD:
  assumes "tree_only s s'"
  shows "quiet s' = quiet s" "w_files (os_world s') = w_files (os_world s)" "w_events (os_world s') = w_events (os_world s)"
    "w_clock (os_world s') = w_clock (os_world s)" "w_ticks (os_world s') = w_ticks (os_world s)"
    "os_tx_counter s' = os_tx_counter s"
  using assms by (auto simp: tree_only_def quiet_def no_faults_def)

text \<open>A computation succeeds, with a result and a view of the tree.\<close>

definition gives :: "(os_state, 'a) io \<Rightarrow> os_state \<Rightarrow> 'a \<Rightarrow> (path \<Rightarrow> file_entry option) \<Rightarrow> bool" where
  "gives m s x V \<longleftrightarrow> (\<exists>s'. m s = (Inr x, s') \<and> tree_only s s' \<and> view (os_tree s') = V)"

abbreviation sees :: "os_state \<Rightarrow> path \<Rightarrow> file_entry option" where
  "sees s \<equiv> view (os_tree s)"

lemma givesE:
  assumes "gives m s x V"
  obtains s' where "m s = (Inr x, s')" "tree_only s s'" "sees s' = V"
  using assms by (auto simp: gives_def)

lemma gives_return [simp]: "gives (io_return x) s x (sees s)"
  by (auto simp: gives_def io_simps)

lemma gives_bind:
  assumes "gives m s x V" and "\<And>s'. tree_only s s' \<Longrightarrow> sees s' = V \<Longrightarrow> gives (f x) s' y V'"
  shows "gives (io_bind m f) s y V'"
proof -
  from assms(1) obtain s' where s': "m s = (Inr x, s')" "tree_only s s'" "sees s' = V" by (rule givesE)
  from assms(2) [OF s'(2,3)] obtain s'' where "f x s' = (Inr y, s'')" "tree_only s' s''" "sees s'' = V'" by (rule givesE)
  with s' show ?thesis by (auto simp: gives_def io_simps intro: tree_only_trans)
qed

section \<open>Changes of views\<close>

definition with_dirs :: "path \<Rightarrow> (path \<Rightarrow> file_entry option) \<Rightarrow> path \<Rightarrow> file_entry option" where
  "with_dirs p W q = (if path_starts_with p q \<and> W q = None then Some Directory else W q)"

definition without :: "path \<Rightarrow> (path \<Rightarrow> file_entry option) \<Rightarrow> path \<Rightarrow> file_entry option" where
  "without p W q = (if path_starts_with q p then None else W q)"

definition copied :: "path \<Rightarrow> path \<Rightarrow> (path \<Rightarrow> file_entry option) \<Rightarrow> path \<Rightarrow> file_entry option" where
  "copied source destination W q =
     (if path_starts_with q destination then W (source @ drop (length destination) q)
      else with_dirs destination W q)"

text \<open>No file stands in the way of a path.\<close>

definition clear :: "path \<Rightarrow> (path \<Rightarrow> file_entry option) \<Rightarrow> bool" where
  "clear p W \<longleftrightarrow> (\<forall>q b. path_starts_with p q \<longrightarrow> W q \<noteq> Some (Bytes b))"

definition depth_below :: "nat \<Rightarrow> path \<Rightarrow> (path \<Rightarrow> file_entry option) \<Rightarrow> bool" where
  "depth_below n p W \<longleftrightarrow> (\<forall>q. W (p @ q) \<noteq> None \<longrightarrow> length q < n)"

lemma path_starts_with_refl [simp]: "path_starts_with p p"
  by (auto simp: path_starts_with_iff)

lemma path_starts_with_append [simp]: "path_starts_with (p @ q) p"
  by (auto simp: path_starts_with_iff)

lemma path_starts_with_trans: "path_starts_with p q \<Longrightarrow> path_starts_with q r \<Longrightarrow> path_starts_with p r"
  by (auto simp: path_starts_with_iff)

lemma path_starts_with_antisym: "path_starts_with p q \<Longrightarrow> path_starts_with q p \<Longrightarrow> p = q"
  by (auto simp: path_starts_with_iff)

lemma path_starts_with_snoc: "path_starts_with (p @ [x]) q \<longleftrightarrow> q = p @ [x] \<or> path_starts_with p q"
proof
  assume "path_starts_with (p @ [x]) q"
  then obtain r where r: "p @ [x] = q @ r" by (auto simp: path_starts_with_iff)
  then show "q = p @ [x] \<or> path_starts_with p q"
    by (cases r rule: rev_cases) auto
qed (auto simp: path_starts_with_iff)

lemma path_starts_with_butlast: "p \<noteq> [] \<Longrightarrow> path_starts_with p q \<longleftrightarrow> q = p \<or> path_starts_with (butlast p) q"
  by (cases p rule: rev_cases) (auto simp: path_starts_with_snoc)

lemma proper_above: "p \<noteq> [] \<Longrightarrow> path_starts_with (butlast p) q \<Longrightarrow> path_starts_with p q \<and> q \<noteq> p"
  by (cases p rule: rev_cases) (auto simp: path_starts_with_iff)

lemma sees_above: "view t p \<noteq> None \<Longrightarrow> path_starts_with p q \<Longrightarrow> q \<noteq> p \<Longrightarrow> view t q = Some Directory"
  by (auto simp: path_starts_with_iff intro: view_parent)

lemma sees_below: "view t q = None \<Longrightarrow> path_starts_with p q \<Longrightarrow> view t p = None"
proof (rule ccontr)
  assume "view t q = None" "path_starts_with p q" "view t p \<noteq> None"
  with sees_above [of t p q] show False by (cases "q = p") simp_all
qed

lemma clear_existing: "view t p = Some Directory \<Longrightarrow> clear p (view t)"
  unfolding clear_def using sees_above [of t p] by (metis file_entry.distinct(1) option.distinct(1) option.inject)

lemma mkdirs_clear: "clear p (view t) \<Longrightarrow> \<exists>n. mkdirs p t = Some n"
  using mkdirs_blocked [of p t] by (auto simp: clear_def)

lemma gives_create_dir_all:
  assumes "quiet s" and "clear p (sees s)"
  shows "gives (fs_create_dir_all p) s () (with_dirs p (sees s))"
proof -
  from mkdirs_clear [OF assms(2)] obtain n where n: "mkdirs p (os_tree s) = Some n" ..
  then have "fs_create_dir_all p s = (Inr (), (tick s)\<lparr>os_tree := Some n\<rparr>)"
    using assms(1) by (simp add: fs_create_dir_all_def io_simps)
  moreover have "view (Some n) = with_dirs p (sees s)"
    by (rule ext) (simp add: view_mkdirs [OF n] with_dirs_def)
  ultimately show ?thesis by (auto simp: gives_def)
qed

lemma with_dirs_existing: "view t p = Some Directory \<Longrightarrow> with_dirs p (view t) = view t"
  using sees_above [of t p] by (auto simp: with_dirs_def fun_eq_iff)

lemma gives_remove:
  assumes "quiet s" and "sees s p \<noteq> None" and "p \<noteq> []"
  shows "gives (remove_path_any p) s () (without p (sees s))"
proof -
  have parent: "sees s (butlast p) = Some Directory"
    using assms(2,3) sees_above [of "os_tree s" p "butlast p"]
    by (cases p rule: rev_cases) auto
  have v: "view (alter p (\<lambda>_. None) (os_tree s)) = without p (sees s)"
    by (rule ext) (simp add: view_alter [OF parent assms(3)] without_def)
  show ?thesis
  proof (cases "is_dir (os_tree s) p")
    case True
    then have "remove_path_any p s = (Inr (), (tick s)\<lparr>os_tree := alter p (\<lambda>_. None) (os_tree s)\<rparr>)"
      using assms(1) by (simp add: remove_path_any_def fs_remove_dir_all_def io_simps tree_op_quiet)
    with v show ?thesis by (auto simp: gives_def)
  next
    case False
    with assms(2) have "path_exists (os_tree s) p" "is_file (os_tree s) p"
      by (auto simp: is_dir_def is_file_def path_exists_def split: file_entry.splits option.splits)
    with False have "remove_path_any p s = (Inr (), (tick s)\<lparr>os_tree := alter p (\<lambda>_. None) (os_tree s)\<rparr>)"
      using assms(1) by (simp add: remove_path_any_def fs_remove_file_def io_simps)
    with v show ?thesis by (auto simp: gives_def)
  qed
qed

lemma view_FileNode: "view (Some (FileNode b)) r = (if r = [] then Some (Bytes b) else None)"
  by (simp add: view_def look_FileNode)

lemma gives_write:
  assumes "quiet s" and "sees s p \<noteq> Some Directory" and "sees s (butlast p) = Some Directory"
  shows "gives (fs_write p content) s () ((sees s)(p := Some (Bytes content)))"
proof -
  have ne: "p \<noteq> []" using assms by auto
  have below: "sees s q = None" if "path_starts_with q p" "q \<noteq> p" for q
    using that assms(2) sees_above [of "os_tree s" q p] by (cases "sees s q") simp_all
  have "view (alter p (\<lambda>_. Some (FileNode content)) (os_tree s)) = (sees s)(p := Some (Bytes content))"
  proof
    fix q
    show "view (alter p (\<lambda>_. Some (FileNode content)) (os_tree s)) q = ((sees s)(p := Some (Bytes content))) q"
      using below [of q] by (auto simp: view_alter [OF assms(3) ne] view_FileNode path_starts_with_iff)
  qed
  moreover have "fs_write p content s = (Inr (), (tick s)\<lparr>os_tree := alter p (\<lambda>_. Some (FileNode content)) (os_tree s)\<rparr>)"
    using assms by (simp add: fs_write_def io_simps is_dir_def tree_op_quiet)
  ultimately show ?thesis by (auto simp: gives_def)
qed

lemma gives_read: "quiet s \<Longrightarrow> sees s p = Some (Bytes b) \<Longrightarrow> gives (fs_read p) s b (sees s)"
  unfolding gives_def by (intro exI [of _ "tick s"]) (simp add: fs_read_def io_simps)

lemma gives_read_dir:
  "quiet s \<Longrightarrow> sees s p = Some Directory \<Longrightarrow> gives (fs_read_dir p) s (child_names (os_tree s) p) (sees s)"
  unfolding gives_def by (intro exI [of _ "tick s"]) (simp add: fs_read_dir_def io_simps is_dir_def)

section \<open>Copies\<close>

lemma apart_not_below: "apart p q \<Longrightarrow> \<not> path_starts_with (p @ r) q" "apart p q \<Longrightarrow> \<not> path_starts_with q (p @ r)"
  using apart_append(1) [of p q r] by (auto simp: apart_def)

text \<open>The loop over the children, given that each child is copied.\<close>

lemma copy_children:
  assumes each: "\<And>s source destination. quiet s \<Longrightarrow> apart source destination \<Longrightarrow> sees s source \<noteq> None \<Longrightarrow>
      sees s destination = None \<Longrightarrow> clear destination (sees s) \<Longrightarrow> depth_below n source (sees s) \<Longrightarrow>
      gives (copy_path_recursive n source destination) s () (copied source destination (sees s))"
    and "quiet s" and "apart source destination" and "sees s destination = Some Directory"
    and "distinct names" and "\<forall>x \<in> set names. sees s (source @ [x]) \<noteq> None \<and> sees s (destination @ [x]) = None"
    and "\<forall>x. depth_below n (source @ [x]) (sees s)"
  shows "gives (io_each (\<lambda>name. copy_path_recursive n (source @ [name]) (destination @ [name])) names) s ()
     (\<lambda>q. if \<exists>x \<in> set names. path_starts_with q (destination @ [x]) then sees s (source @ drop (length destination) q)
          else sees s q)"
  using assms(2-)
proof (induction names arbitrary: s)
  case Nil
  then show ?case by simp
next
  case (Cons x xs)
  let ?s = "source @ [x]" and ?d = "destination @ [x]"
  have ap: "apart ?s ?d" using Cons.prems(2) by (blast intro: apart_append)
  have above: "sees s q = Some Directory" if "path_starts_with destination q" for q
    using that Cons.prems(3) sees_above [of "os_tree s" destination q] by (cases "q = destination") auto
  have cl: "clear ?d (sees s)"
    using above Cons.prems(5) by (auto simp: clear_def path_starts_with_snoc)
  have step: "gives (copy_path_recursive n ?s ?d) s () (copied ?s ?d (sees s))"
    using Cons.prems ap cl by (intro each) auto
  have view: "copied ?s ?d (sees s) q =
      (if path_starts_with q ?d then sees s (source @ drop (length destination) q) else sees s q)" for q
  proof (cases "path_starts_with q ?d")
    case True
    then show ?thesis by (auto simp: copied_def path_starts_with_iff)
  next
    case False
    then have "path_starts_with ?d q \<Longrightarrow> sees s q = Some Directory"
      using above by (auto simp: path_starts_with_snoc)
    with False show ?thesis by (auto simp: copied_def with_dirs_def)
  qed
  have src: "copied ?s ?d (sees s) (source @ r) = sees s (source @ r)" for r
  proof -
    have "apart source ?d" using Cons.prems(2) by (rule apart_append)
    then have "\<not> path_starts_with (source @ r) ?d" by (rule apart_not_below)
    then show ?thesis by (simp add: view)
  qed
  show ?case unfolding io_each.simps
  proof (rule gives_bind [OF step])
    fix s'
    assume t: "tree_only s s'" and v: "sees s' = copied ?s ?d (sees s)"
    have src': "sees s' (source @ r) = sees s (source @ r)" for r by (simp add: v src)
    have "gives (io_each (\<lambda>name. copy_path_recursive n (source @ [name]) (destination @ [name])) xs) s' ()
       (\<lambda>q. if \<exists>y \<in> set xs. path_starts_with q (destination @ [y]) then sees s' (source @ drop (length destination) q)
          else sees s' q)"
    proof (rule Cons.IH)
      show "quiet s'" using t Cons.prems(1) by (simp add: tree_onlyD)
      show "apart source destination" by (rule Cons.prems(2))
      have "\<not> path_starts_with destination ?d" by (auto simp: path_starts_with_iff)
      then show "sees s' destination = Some Directory" using Cons.prems(3) by (simp add: v view)
      show "distinct xs" using Cons.prems(4) by simp
      have "\<not> path_starts_with (destination @ [y]) ?d" if "y \<in> set xs" for y
        using that Cons.prems(4) by (auto simp: path_starts_with_iff)
      then show "\<forall>y \<in> set xs. sees s' (source @ [y]) \<noteq> None \<and> sees s' (destination @ [y]) = None"
        using Cons.prems(5) src by (auto simp: v view)
      show "\<forall>y. depth_below n (source @ [y]) (sees s')"
        using Cons.prems(6) src by (simp add: depth_below_def v)
    qed
    moreover have "(\<lambda>q. if \<exists>y \<in> set xs. path_starts_with q (destination @ [y])
         then sees s' (source @ drop (length destination) q) else sees s' q) =
      (\<lambda>q. if \<exists>y \<in> set (x # xs). path_starts_with q (destination @ [y])
         then sees s (source @ drop (length destination) q) else sees s q)"
      unfolding src' by (rule ext) (auto simp: v view)
    ultimately show "gives (io_each (\<lambda>name. copy_path_recursive n (source @ [name]) (destination @ [name])) xs) s' ()
      (\<lambda>q. if \<exists>y \<in> set (x # xs). path_starts_with q (destination @ [y])
         then sees s (source @ drop (length destination) q) else sees s q)" by simp
  qed
qed

lemma gives_create_parent:
  assumes "quiet s" and "clear p (sees s)" and "sees s p \<noteq> Some Directory" and "p \<noteq> []"
  shows "gives (create_parent p) s () (with_dirs (butlast p) (sees s))"
    and "with_dirs (butlast p) (sees s) (butlast p) = Some Directory"
    and "with_dirs (butlast p) (sees s) q = (if q = p then sees s p else with_dirs p (sees s) q)"
proof -
  have "clear (butlast p) (sees s)"
    using assms(2,4) by (auto simp: clear_def path_starts_with_butlast)
  with assms(1) have "gives (fs_create_dir_all (butlast p)) s () (with_dirs (butlast p) (sees s))"
    by (rule gives_create_dir_all)
  with assms(4) show "gives (create_parent p) s () (with_dirs (butlast p) (sees s))"
    by (simp add: create_parent_def)
  from \<open>clear (butlast p) (sees s)\<close> have "sees s (butlast p) = None \<or> sees s (butlast p) = Some Directory"
    by (cases "sees s (butlast p)") (auto simp: clear_def intro: file_entry.exhaust)
  then show "with_dirs (butlast p) (sees s) (butlast p) = Some Directory"
    by (auto simp: with_dirs_def)
  have "\<not> path_starts_with (butlast p) p"
    using assms(4) by (cases p rule: rev_cases) (auto simp: path_starts_with_iff)
  then show "with_dirs (butlast p) (sees s) q = (if q = p then sees s p else with_dirs p (sees s) q)"
    using assms(4) by (auto simp: with_dirs_def path_starts_with_butlast)
qed

lemma gives_copy_file:
  assumes "quiet s" and ap: "apart source destination" and "sees s source = Some (Bytes b)"
    and "sees s destination = None" and "clear destination (sees s)"
  shows "gives (copy_path_recursive (Suc n) source destination) s () (copied source destination (sees s))"
proof -
  from ap have ne: "destination \<noteq> []" "source \<noteq> destination" by (auto simp: apart_def)
  let ?V = "with_dirs (butlast destination) (sees s)"
  have "sees s destination \<noteq> Some Directory" using assms(4) by simp
  note parent = gives_create_parent [OF assms(1,5) this ne(1)]
  have "gives (io_bind (create_parent destination) (\<lambda>_. fs_copy source destination)) s ()
     (?V(destination := Some (Bytes b)))"
  proof (rule gives_bind [OF parent(1)])
    fix s1
    assume t: "tree_only s s1" and v: "sees s1 = ?V"
    have q: "quiet s1" using t assms(1) by (simp add: tree_onlyD)
    have "sees s1 source = Some (Bytes b)" by (simp add: v with_dirs_def assms(3))
    note r = gives_read [OF q this]
    show "gives (fs_copy source destination) s1 () (?V(destination := Some (Bytes b)))"
      unfolding fs_copy_def
    proof (rule gives_bind [OF r])
      fix s2
      assume t2: "tree_only s1 s2" and v2: "sees s2 = sees s1"
      have "quiet s2" using t2 q by (simp add: tree_onlyD)
      then have "gives (fs_write destination b) s2 () ((sees s2)(destination := Some (Bytes b)))"
        by (rule gives_write) (simp_all add: v2 v parent(2) parent(3) [of destination] assms(4))
      then show "gives (fs_write destination (if source = destination then [] else b)) s2 ()
          (?V(destination := Some (Bytes b)))" by (simp add: ne(2) v v2)
    qed
  qed
  moreover have "?V(destination := Some (Bytes b)) = copied source destination (sees s)"
  proof
    fix q
    show "(?V(destination := Some (Bytes b))) q = copied source destination (sees s) q"
    proof (cases "path_starts_with q destination")
      case True
      then obtain r where r: "q = destination @ r" by (auto simp: path_starts_with_iff)
      show ?thesis
      proof (cases "r = []")
        case False
        with assms(3) have "sees s (source @ r) = None" by (rule view_below_file)
        moreover have "sees s q = None" using assms(4) True by (rule sees_below)
        moreover have "\<not> path_starts_with destination q" using r False by (auto simp: path_starts_with_iff)
        moreover have "with_dirs destination (sees s) q = sees s q" using calculation by (simp add: with_dirs_def)
        ultimately show ?thesis using r False by (simp add: copied_def parent(3))
      qed (simp add: r copied_def assms(3))
    next
      case False
      then show ?thesis by (auto simp: copied_def parent(3))
    qed
  qed
  ultimately show ?thesis
    using assms(3) by (simp add: is_dir_def is_file_def gives_def io_simps)
qed

lemma gives_copy_dir:
  assumes each: "\<And>s source destination. quiet s \<Longrightarrow> apart source destination \<Longrightarrow> sees s source \<noteq> None \<Longrightarrow>
      sees s destination = None \<Longrightarrow> clear destination (sees s) \<Longrightarrow> depth_below n source (sees s) \<Longrightarrow>
      gives (copy_path_recursive n source destination) s () (copied source destination (sees s))"
    and "quiet s" and ap: "apart source destination" and dir: "sees s source = Some Directory"
    and free: "sees s destination = None" and "clear destination (sees s)" and depth: "depth_below (Suc n) source (sees s)"
  shows "gives (copy_path_recursive (Suc n) source destination) s () (copied source destination (sees s))"
proof -
  let ?V = "with_dirs destination (sees s)"
  have src: "?V (source @ r) = sees s (source @ r)" for r
    using apart_not_below(2) [OF ap] by (simp add: with_dirs_def)
  have below: "?V (destination @ [x]) = None" for x
    using sees_below [of "os_tree s" destination "destination @ [x]"] free
    by (auto simp: with_dirs_def path_starts_with_iff)
  let ?f = "\<lambda>names. io_each (\<lambda>name. copy_path_recursive n (source @ [name]) (destination @ [name])) names"
  have "gives (io_bind (fs_create_dir_all destination) (\<lambda>_. io_bind (fs_read_dir source) ?f)) s ()
     (copied source destination (sees s))"
  proof (rule gives_bind [OF gives_create_dir_all [OF assms(2,6)]])
    fix s1
    assume t: "tree_only s s1" and v: "sees s1 = ?V"
    have q: "quiet s1" using t assms(2) by (simp add: tree_onlyD)
    have dir1: "sees s1 source = Some Directory" using src [of "[]"] dir by (simp add: v)
    let ?names = "child_names (os_tree s1) source"
    show "gives (io_bind (fs_read_dir source) ?f) s1 () (copied source destination (sees s))"
    proof (rule gives_bind [OF gives_read_dir [OF q dir1]])
      fix s2
      assume t2: "tree_only s1 s2" and v2: "sees s2 = sees s1"
      have v2': "sees s2 = ?V" by (simp add: v v2)
      have names: "x \<in> set ?names \<longleftrightarrow> sees s (source @ [x]) \<noteq> None" for x
        by (simp add: child_names_iff v src)
      have "gives (?f ?names) s2 () (\<lambda>q. if \<exists>x \<in> set ?names. path_starts_with q (destination @ [x])
          then sees s2 (source @ drop (length destination) q) else sees s2 q)"
      proof (rule copy_children [OF each])
        show "quiet s2" using t2 q by (simp add: tree_onlyD)
        show "sees s2 destination = Some Directory" by (simp add: v2' with_dirs_def free)
        show "\<forall>x \<in> set ?names. sees s2 (source @ [x]) \<noteq> None \<and> sees s2 (destination @ [x]) = None"
          using names by (simp add: v2' src below)
        show "\<forall>x. depth_below n (source @ [x]) (sees s2)"
          using depth by (auto simp: v2' depth_below_def src dest: spec [of _ "_ # _"])
      qed (auto simp: ap)
      moreover have "(if \<exists>x \<in> set ?names. path_starts_with q (destination @ [x])
          then sees s2 (source @ drop (length destination) q) else sees s2 q) = copied source destination (sees s) q" for q
      proof (cases "path_starts_with q destination")
        case True
        then obtain r where r: "q = destination @ r" by (auto simp: path_starts_with_iff)
        show ?thesis
        proof (cases r)
          case Nil
          then show ?thesis using free dir by (simp add: r v2' copied_def with_dirs_def path_starts_with_iff)
        next
          case (Cons x r')
          have ex: "(\<exists>y \<in> set ?names. path_starts_with q (destination @ [y])) \<longleftrightarrow> sees s (source @ [x]) \<noteq> None"
            using names by (auto simp: r Cons path_starts_with_iff)
          have none: "sees s (source @ r) = None" if "sees s (source @ [x]) = None"
            using that by (rule sees_below) (simp add: Cons path_starts_with_iff)
          have "?V q = None"
            using sees_below [OF free, of q] by (auto simp: r Cons with_dirs_def path_starts_with_iff)
          then show ?thesis using ex none True by (auto simp: v2' r copied_def src)
        qed
      next
        case False
        then have "\<not> (\<exists>x \<in> set ?names. path_starts_with q (destination @ [x]))"
          by (auto simp: path_starts_with_iff)
        with False show ?thesis by (simp add: v2' copied_def)
      qed
      ultimately show "gives (?f ?names) s2 () (copied source destination (sees s))" by simp
    qed
  qed
  then show ?thesis
    using dir by (simp add: is_dir_def gives_def io_simps)
qed

lemma gives_copy:
  "quiet s \<Longrightarrow> apart source destination \<Longrightarrow> sees s source \<noteq> None \<Longrightarrow> sees s destination = None \<Longrightarrow>
   clear destination (sees s) \<Longrightarrow> depth_below n source (sees s) \<Longrightarrow>
   gives (copy_path_recursive n source destination) s () (copied source destination (sees s))"
proof (induction n arbitrary: s source destination)
  case 0
  from 0(6) 0(3) have False by (auto simp: depth_below_def dest: spec [of _ "[]"])
  then show ?case ..
next
  case (Suc n)
  show ?case
  proof (cases "sees s source")
    case None
    with Suc.prems(3) show ?thesis by simp
  next
    case (Some e)
    show ?thesis
    proof (cases e)
      case (Bytes b)
      with Some Suc.prems show ?thesis by (intro gives_copy_file) auto
    next
      case Directory
      with Some Suc.prems Suc.IH show ?thesis by (intro gives_copy_dir) auto
    qed
  qed
qed

end
