(* ===== verification/Os_Locks.thy ===== *)
theory Os_Locks
  imports Os_Laws
begin

text \<open>
  Total correctness of fallible steps without faults (\<open>yields\<close>), and the laws of the lock files:
  taking them, finding one taken, and dropping them.
\<close>

section \<open>Total correctness\<close>

definition yields :: "(os_state, 'a) io \<Rightarrow> os_state \<Rightarrow> ('a \<Rightarrow> os_state \<Rightarrow> bool) \<Rightarrow> bool" where
  "yields m s P \<longleftrightarrow> (\<exists>x s'. m s = (Inr x, s') \<and> quiet s' \<and> P x s')"

lemma yields_return: "quiet s \<Longrightarrow> P x s \<Longrightarrow> yields (io_return x) s P"
  by (simp add: yields_def io_simps)

lemma yields_bind:
  assumes "yields m s P" and "\<And>x s'. quiet s' \<Longrightarrow> P x s' \<Longrightarrow> yields (f x) s' Q"
  shows "yields (io_bind m f) s Q"
proof -
  from assms(1) obtain x s' where m: "m s = (Inr x, s')" "quiet s'" "P x s'" by (auto simp: yields_def)
  from assms(2) [OF m(2,3)] m(1) show ?thesis by (auto simp: yields_def io_simps)
qed

lemma yields_get: "yields (f s) s Q \<Longrightarrow> yields (io_bind io_get f) s Q"
  by (simp add: yields_def io_simps)

lemma yields_gives:
  assumes "gives m s x V" and "quiet s"
  shows "yields m s (\<lambda>y s'. y = x \<and> tree_only s s' \<and> sees s' = V)"
proof -
  from assms(1) obtain s' where "m s = (Inr x, s')" "tree_only s s'" "sees s' = V" by (rule givesE)
  with assms(2) show ?thesis by (auto simp: yields_def tree_onlyD)
qed

lemma yields_weaken: "yields m s P \<Longrightarrow> (\<And>x s'. quiet s' \<Longrightarrow> P x s' \<Longrightarrow> Q x s') \<Longrightarrow> yields m s Q"
  by (auto simp: yields_def)

lemma gives_after: "m s = (Inr x, s1) \<Longrightarrow> tree_only s s1 \<Longrightarrow> gives (f x) s1 y V \<Longrightarrow> gives (io_bind m f) s y V"
  unfolding gives_def by (auto simp: io_bind_Inr [of m s x s1] intro: tree_only_trans)

section \<open>Lock files\<close>

lemma lock_path_below: "lock_path v p = lock_dir v @ [safe_blob_name p @ ''.lock'']"
  by (simp add: lock_path_def)

lemma gives_try_acquire:
  assumes "quiet s" and "clear (lock_dir v) (sees s)" and free: "sees s (lock_path v p) = None"
  shows "gives (try_acquire v p) s (Some (lock_path v p))
     ((with_dirs (lock_dir v) (sees s))(lock_path v p := Some (Bytes (lock_text v p))))"
  unfolding try_acquire_def
proof (rule gives_bind [OF gives_create_dir_all [OF assms(1,2)]])
  fix s1
  assume t: "tree_only s s1" and view: "sees s1 = with_dirs (lock_dir v) (sees s)"
  have q: "quiet s1" using t assms(1) by (simp add: tree_onlyD)
  have "\<not> path_starts_with (lock_dir v) (lock_path v p)" by (auto simp: lock_path_below path_starts_with_iff)
  with free have free1: "sees s1 (lock_path v p) = None" by (simp add: view with_dirs_def)
  have "sees s (lock_dir v) = None \<or> sees s (lock_dir v) = Some Directory"
    using assms(2) by (cases "sees s (lock_dir v)") (auto simp: clear_def intro: file_entry.exhaust)
  then have dir: "sees s1 (lock_dir v) = Some Directory" by (auto simp: view with_dirs_def)
  have ne: "lock_path v p \<noteq> []" "butlast (lock_path v p) = lock_dir v" by (simp_all add: lock_path_below)
  let ?s2 = "(tick s1)\<lparr>os_tree := alter (lock_path v p) (\<lambda>_. Some (FileNode [])) (os_tree s1)\<rparr>"
  have made: "fs_create_new (lock_path v p) s1 = (Inr True, ?s2)"
    using q free1 dir by (simp add: fs_create_new_def io_simps path_exists_def is_dir_def ne)
  have view2: "view (alter (lock_path v p) (\<lambda>_. Some (FileNode [])) (os_tree s1)) = (sees s1)(lock_path v p := Some (Bytes []))"
  proof
    fix q
    have "sees s1 q = None" if "path_starts_with q (lock_path v p)"
      using free1 that by (rule sees_below)
    then show "view (alter (lock_path v p) (\<lambda>_. Some (FileNode [])) (os_tree s1)) q =
        ((sees s1)(lock_path v p := Some (Bytes []))) q"
      using dir ne by (auto simp: view_alter view_FileNode path_starts_with_iff)
  qed
  have q2: "quiet ?s2" using q by (simp add: quiet_def tick_def no_faults_def)
  have "gives (fs_write (lock_path v p) (lock_text v p)) ?s2 ()
     ((sees ?s2)(lock_path v p := Some (Bytes (lock_text v p))))"
  proof (rule gives_write [OF q2])
    show "sees ?s2 (lock_path v p) \<noteq> Some Directory" by (simp add: view2)
    have "lock_dir v \<noteq> lock_path v p" by (simp add: lock_path_below)
    then show "sees ?s2 (butlast (lock_path v p)) = Some Directory" using dir by (simp add: view2 ne)
  qed
  then have written: "gives (io_bind (fs_write (lock_path v p) (lock_text v p)) (\<lambda>_. io_return (Some (lock_path v p)))) ?s2
     (Some (lock_path v p)) ((sees s1)(lock_path v p := Some (Bytes (lock_text v p))))"
    by (rule gives_bind) (simp add: view2 gives_def io_simps)
  show "gives (io_bind (fs_create_new (lock_path v p)) (\<lambda>made.
       if made then io_bind (fs_write (lock_path v p) (lock_text v p)) (\<lambda>_. io_return (Some (lock_path v p)))
       else io_return None)) s1 (Some (lock_path v p))
     ((with_dirs (lock_dir v) (sees s))(lock_path v p := Some (Bytes (lock_text v p))))"
    by (rule gives_after [where m = "fs_create_new (lock_path v p)", OF made]) (simp_all add: written flip: view)
qed

lemma gives_try_acquire_taken:
  assumes "quiet s" and "sees s (lock_path v p) \<noteq> None"
  shows "gives (try_acquire v p) s None (sees s)"
  unfolding try_acquire_def
proof -
  have dir: "sees s (lock_dir v) = Some Directory"
    using assms(2) sees_above [of "os_tree s" "lock_path v p" "lock_dir v"] by (simp add: lock_path_below)
  have "gives (fs_create_dir_all (lock_dir v)) s () (sees s)"
    using gives_create_dir_all [OF assms(1) clear_existing [OF dir]] by (simp add: with_dirs_existing [OF dir])
  then show "gives (io_bind (fs_create_dir_all (lock_dir v)) (\<lambda>_.
     io_bind (fs_create_new (lock_path v p)) (\<lambda>made.
       if made then io_bind (fs_write (lock_path v p) (lock_text v p)) (\<lambda>_. io_return (Some (lock_path v p)))
       else io_return None))) s None (sees s)"
  proof (rule gives_bind)
    fix s1
    assume t: "tree_only s s1" and view: "sees s1 = sees s"
    then have "quiet s1" "path_exists (os_tree s1) (lock_path v p)"
      using assms by (simp_all add: tree_onlyD path_exists_def)
    then have made: "fs_create_new (lock_path v p) s1 = (Inr False, tick s1)"
      by (simp add: fs_create_new_def io_simps)
    show "gives (io_bind (fs_create_new (lock_path v p)) (\<lambda>made.
       if made then io_bind (fs_write (lock_path v p) (lock_text v p)) (\<lambda>_. io_return (Some (lock_path v p)))
       else io_return None)) s1 None (sees s)"
      unfolding gives_def by (intro exI [of _ "tick s1"])
        (simp add: io_bind_Inr [where m = "fs_create_new (lock_path v p)", OF made] io_simps view)
  qed
qed

text \<open>Dropping locks removes their files and nothing else.\<close>

lemma view_removed_file:
  assumes "view t p = Some (Bytes b)" and ne: "p \<noteq> []"
  shows "view (alter p (\<lambda>_. None) t) = (view t)(p := None)"
proof
  fix q
  have "view t (butlast p) = Some Directory"
    using assms sees_above [of t p "butlast p"] by (cases p rule: rev_cases) auto
  moreover have "view t q = None" if "path_starts_with q p" "q \<noteq> p"
  proof -
    from that obtain r where "q = p @ r" "r \<noteq> []" by (auto simp: path_starts_with_iff)
    with view_below_file [OF assms(1), of r] show ?thesis by simp
  qed
  ultimately show "view (alter p (\<lambda>_. None) t) q = ((view t)(p := None)) q"
    using ne by (auto simp: view_alter)
qed

lemma gives_release:
  assumes "quiet s" and "\<forall>p \<in> set locks. p \<noteq> [] \<and> sees s p \<noteq> Some Directory"
  shows "gives (release_locks locks) s () (\<lambda>q. if q \<in> set locks then None else sees s q)"
  using assms unfolding release_locks_def
proof (induction locks arbitrary: s)
  case Nil
  then show ?case by simp
next
  case (Cons l ls)
  have step: "gives (ignore_error (fs_remove_file l)) s () ((sees s)(l := None))"
  proof (cases "sees s l")
    case None
    then have "(sees s)(l := None) = sees s" by (simp add: fun_eq_iff)
    with None Cons.prems(1) show ?thesis unfolding gives_def
      by (intro exI [of _ "tick s"]) (simp add: ignore_error_def fs_remove_file_def io_simps is_file_def)
  next
    case (Some e)
    with Cons.prems(2) obtain b where b: "sees s l = Some (Bytes b)" by (cases e) auto
    have ne: "l \<noteq> []" using Cons.prems(2) by simp
    from b Cons.prems(1) view_removed_file [OF b ne] show ?thesis unfolding gives_def
      by (intro exI [of _ "(tick s)\<lparr>os_tree := alter l (\<lambda>_. None) (os_tree s)\<rparr>"])
        (simp add: ignore_error_def fs_remove_file_def io_simps is_file_def)
  qed
  show ?case unfolding io_each.simps
  proof (rule gives_bind [OF step])
    fix s'
    assume t: "tree_only s s'" and view: "sees s' = (sees s)(l := None)"
    have "gives (io_each (\<lambda>p. ignore_error (fs_remove_file p)) ls) s' ()
       (\<lambda>q. if q \<in> set ls then None else sees s' q)"
      using Cons.prems t by (intro Cons.IH) (auto simp: view tree_onlyD)
    moreover have "(\<lambda>q. if q \<in> set ls then None else sees s' q) = (\<lambda>q. if q \<in> set (l # ls) then None else sees s q)"
      by (auto simp: view)
    ultimately show "gives (io_each (\<lambda>p. ignore_error (fs_remove_file p)) ls) s' ()
       (\<lambda>q. if q \<in> set (l # ls) then None else sees s q)" by simp
  qed
qed

lemma with_dirs_idem: "with_dirs p (with_dirs p W) = with_dirs p W"
  by (simp add: with_dirs_def fun_eq_iff)

lemma acquire_free:
  assumes "quiet s" and "clear (lock_dir v) (sees s)" and "\<forall>p \<in> set ps. sees s (lock_path v p) = None"
    and "distinct (map (lock_path v) ps)"
  shows "\<exists>s'. acquire_locks v ps locks s = (Inr (Inr (locks @ map (lock_path v) ps)), s') \<and> tree_only s s' \<and>
     (\<forall>l \<in> set (map (lock_path v) ps). \<exists>b. sees s' l = Some (Bytes b)) \<and>
     (\<forall>q. q \<notin> set (map (lock_path v) ps) \<longrightarrow> sees s' q = (if ps = [] then sees s q else with_dirs (lock_dir v) (sees s) q))"
  using assms
proof (induction ps arbitrary: s locks)
  case Nil
  then show ?case by (simp add: io_simps)
next
  case (Cons p ps)
  from Cons.prems have "sees s (lock_path v p) = None" by simp
  with gives_try_acquire [OF Cons.prems(1,2)] obtain s1 where s1: "try_acquire v p s = (Inr (Some (lock_path v p)), s1)"
    "tree_only s s1" "sees s1 = (with_dirs (lock_dir v) (sees s))(lock_path v p := Some (Bytes (lock_text v p)))"
    by (auto elim: givesE)
  have off: "\<not> path_starts_with (lock_dir v) (lock_path v r)" for r by (auto simp: lock_path_below path_starts_with_iff)
  have "quiet s1" using s1(2) Cons.prems(1) by (simp add: tree_onlyD)
  moreover have "clear (lock_dir v) (sees s1)"
    using Cons.prems(2) off by (auto simp: clear_def s1(3) with_dirs_def split: if_splits)
  moreover have "\<forall>r \<in> set ps. sees s1 (lock_path v r) = None"
  proof
    fix r
    assume r: "r \<in> set ps"
    then have "lock_path v r \<noteq> lock_path v p" using Cons.prems(4) by (metis distinct.simps(2) image_eqI list.set_map list.simps(9))
    with r Cons.prems(3) off show "sees s1 (lock_path v r) = None" by (simp add: s1(3) with_dirs_def)
  qed
  moreover have "distinct (map (lock_path v) ps)" using Cons.prems(4) by simp
  ultimately obtain s' where s': "acquire_locks v ps (locks @ [lock_path v p]) s1 =
      (Inr (Inr ((locks @ [lock_path v p]) @ map (lock_path v) ps)), s')" "tree_only s1 s'"
    "\<forall>l \<in> set (map (lock_path v) ps). \<exists>b. sees s' l = Some (Bytes b)"
    "\<forall>q. q \<notin> set (map (lock_path v) ps) \<longrightarrow> sees s' q = (if ps = [] then sees s1 q else with_dirs (lock_dir v) (sees s1) q)"
    using Cons.IH by blast
  have held: "sees s' (lock_path v p) = Some (Bytes (lock_text v p))"
    using s'(4) Cons.prems(4) off by (auto simp: s1(3) with_dirs_def)
  have others: "sees s' q = with_dirs (lock_dir v) (sees s) q" if "q \<notin> set (map (lock_path v) (p # ps))" for q
  proof -
    have "with_dirs (lock_dir v) (sees s1) q = with_dirs (lock_dir v) (sees s) q"
      using that by (auto simp: s1(3) with_dirs_def)
    with that s'(4) show ?thesis by (auto simp: s1(3))
  qed
  show ?case
    by (rule exI [of _ s']) (use s1(1,2) s'(1-3) held others in \<open>auto intro: tree_only_trans\<close>)
qed

text \<open>
  The bracket: a body that leaves the lock directory alone runs with the locks held, and afterwards
  the locks are gone.
\<close>

lemma yields_locked:
  assumes q: "quiet s" and cl: "clear (lock_dir v) (sees s)"
    and free: "\<forall>p \<in> set paths. sees s (lock_path v p) = None"
    and dist: "distinct (map (lock_path v) (sort_dedup paths))" and ne: "paths \<noteq> []"
    and body: "\<And>s1. quiet s1 \<Longrightarrow> tree_only s s1 \<Longrightarrow>
       (\<And>q. \<not> path_starts_with q (lock_dir v) \<Longrightarrow> sees s1 q = with_dirs (lock_dir v) (sees s) q) \<Longrightarrow>
       sees s1 (lock_dir v) = Some Directory \<Longrightarrow>
       yields rest s1 (\<lambda>r s2. P r s2 \<and> (\<forall>q. path_starts_with q (lock_dir v) \<longrightarrow> sees s2 q = sees s1 q))"
    and stable: "\<And>r s2 s3. P r s2 \<Longrightarrow> tree_only s2 s3 \<Longrightarrow>
       (\<And>q. \<not> path_starts_with q (lock_dir v) \<Longrightarrow> sees s3 q = sees s2 q) \<Longrightarrow> P r s3"
  shows "yields (with_mutation_locks v capability_id paths rest) s
     (\<lambda>r s'. P r s' \<and> (\<forall>p \<in> set paths. sees s' (lock_path v p) = None))"
proof -
  let ?ps = "sort_dedup paths"
  have ps: "?ps \<noteq> []" "set ?ps = set paths" using ne by (auto simp flip: set_empty)
  from acquire_free [OF q cl _ dist, of "[]"] free ps obtain s1 where s1:
    "acquire_locks v ?ps [] s = (Inr (Inr (map (lock_path v) ?ps)), s1)" "tree_only s s1"
    "\<forall>l \<in> set (map (lock_path v) ?ps). \<exists>b. sees s1 l = Some (Bytes b)"
    "\<forall>q. q \<notin> set (map (lock_path v) ?ps) \<longrightarrow> sees s1 q = with_dirs (lock_dir v) (sees s) q"
    by auto
  have below: "path_starts_with (lock_path v p) (lock_dir v)" for p by (simp add: lock_path_below)
  have q1: "quiet s1" using s1(2) q by (simp add: tree_onlyD)
  have outside: "sees s1 q = with_dirs (lock_dir v) (sees s) q" if "\<not> path_starts_with q (lock_dir v)" for q
  proof -
    have "q \<notin> set (map (lock_path v) ?ps)" using that below by auto
    with s1(4) show ?thesis by blast
  qed
  have "lock_dir v \<notin> set (map (lock_path v) ?ps)" by (auto simp: lock_path_below)
  then have "sees s1 (lock_dir v) = with_dirs (lock_dir v) (sees s) (lock_dir v)" using s1(4) by blast
  moreover have "sees s (lock_dir v) = None \<or> sees s (lock_dir v) = Some Directory"
    using cl by (cases "sees s (lock_dir v)") (auto simp: clear_def intro: file_entry.exhaust)
  ultimately have "sees s1 (lock_dir v) = Some Directory" by (auto simp: with_dirs_def)
  from body [OF q1 s1(2) outside this] obtain r s2 where s2: "rest s1 = (Inr r, s2)" "quiet s2" "P r s2"
    "\<forall>q. path_starts_with q (lock_dir v) \<longrightarrow> sees s2 q = sees s1 q" by (auto simp: yields_def)
  have "\<forall>l \<in> set (map (lock_path v) ?ps). l \<noteq> [] \<and> sees s2 l \<noteq> Some Directory"
  proof
    fix l
    assume l: "l \<in> set (map (lock_path v) ?ps)"
    then obtain b where "sees s1 l = Some (Bytes b)" using s1(3) by blast
    moreover have "sees s2 l = sees s1 l" using l s2(4) below by auto
    ultimately show "l \<noteq> [] \<and> sees s2 l \<noteq> Some Directory" using l by (auto simp: lock_path_below)
  qed
  from gives_release [OF s2(2) this] obtain s3 where s3: "release_locks (map (lock_path v) ?ps) s2 = (Inr (), s3)"
    "tree_only s2 s3" "sees s3 = (\<lambda>q. if q \<in> set (map (lock_path v) ?ps) then None else sees s2 q)" by (rule givesE)
  have "P r s3"
  proof (rule stable [OF s2(3) s3(2)])
    fix q
    assume "\<not> path_starts_with q (lock_dir v)"
    then show "sees s3 q = sees s2 q" using below by (auto simp: s3(3))
  qed
  moreover have "with_mutation_locks v capability_id paths rest s = (Inr r, s3)"
    using s1(1) s2(1) s3(1) by (simp add: with_mutation_locks_def finally_do_def Let_def io_simps)
  moreover have "quiet s3" using s3(2) s2(2) by (simp add: tree_onlyD)
  moreover have "\<forall>p \<in> set paths. sees s3 (lock_path v p) = None" using ps(2) by (auto simp: s3(3))
  ultimately show ?thesis by (auto simp: yields_def)
qed

end
