(* ===== verification/Os_Rollback.thy ===== *)
theory Os_Rollback
  imports Os_Locks Truth_Claims
begin

text \<open>
  The laws of backups, transaction records and rollback, in runs without faults.
\<close>

section \<open>Replacing a subtree by another\<close>

definition replaced :: "path \<Rightarrow> path \<Rightarrow> (path \<Rightarrow> file_entry option) \<Rightarrow> path \<Rightarrow> file_entry option" where
  "replaced source destination W q =
     (if path_starts_with q destination then W (source @ drop (length destination) q)
      else with_dirs (butlast destination) W q)"

lemma replaced_simps:
  "replaced source destination W (destination @ r) = W (source @ r)"
  "\<not> path_starts_with q destination \<Longrightarrow> replaced source destination W q = with_dirs (butlast destination) W q"
  by (simp_all add: replaced_def)

lemma without_simps:
  "without p W (p @ r) = None" "\<not> path_starts_with q p \<Longrightarrow> without p W q = W q"
  by (simp_all add: without_def)

lemma with_dirs_off: "\<not> path_starts_with p q \<Longrightarrow> with_dirs p W q = W q"
  by (simp add: with_dirs_def)

lemma gives_remove_if:
  assumes "quiet s" and "p \<noteq> []"
  shows "gives (if path_exists (os_tree s) p then remove_path_any p else io_return ()) s () (without p (sees s))"
proof (cases "sees s p = None")
  case True
  then have "without p (sees s) = sees s"
    using sees_below [OF True] by (auto simp: without_def fun_eq_iff)
  with True show ?thesis by (simp add: path_exists_def)
next
  case False
  with gives_remove [OF assms(1) False assms(2)] show ?thesis by (simp add: path_exists_def)
qed

lemma gives_copy_over:
  assumes "quiet s" and ap: "apart source destination" and "sees s source \<noteq> None" and v: "sees s = without destination W"
    and "clear (butlast destination) W" and "depth_below n source W"
  shows "gives (copy_path_recursive n source destination) s () (replaced source destination W)"
proof -
  have ne: "destination \<noteq> []" using ap by auto
  have src: "sees s (source @ r) = W (source @ r)" for r
    using apart_not_below(1) [OF ap] by (simp add: v without_def)
  have "clear destination (sees s)"
    using assms(5) ne by (auto simp: v clear_def without_def path_starts_with_butlast)
  moreover have "depth_below n source (sees s)" using assms(6) by (simp add: depth_below_def src)
  moreover have "sees s destination = None" by (simp add: v without_def)
  ultimately have "gives (copy_path_recursive n source destination) s () (copied source destination (sees s))"
    using assms by (intro gives_copy)
  moreover have "copied source destination (sees s) = replaced source destination W"
  proof
    fix q
    have "\<not> path_starts_with q destination \<Longrightarrow>
        path_starts_with destination q \<longleftrightarrow> path_starts_with (butlast destination) q"
      using ne by (auto simp: path_starts_with_butlast)
    then show "copied source destination (sees s) q = replaced source destination W q"
      by (simp add: copied_def replaced_def src with_dirs_def) (simp add: v without_def)
  qed
  ultimately show ?thesis by simp
qed

lemma gives_get: "gives (f s) s x V \<Longrightarrow> gives (io_bind io_get f) s x V"
  by (simp add: gives_def io_simps)

section \<open>Backups\<close>

definition backup_dir :: "os_env \<Rightarrow> string \<Rightarrow> path" where
  "backup_dir v tx_id = oe_state_root v @ [''tx_backups'', oe_job v, tx_id]"

definition backup_path :: "os_env \<Rightarrow> string \<Rightarrow> string \<Rightarrow> path" where
  "backup_path v tx_id slot = backup_dir v tx_id @ [slot]"

definition backup_ref :: "os_env \<Rightarrow> string \<Rightarrow> string \<Rightarrow> string" where
  "backup_ref v tx_id slot = ''txbackup://'' @ oe_job v @ ''/'' @ tx_id @ ''/'' @ slot"

lemma backup_path_below: "path_starts_with (backup_path v tx slot @ r) (oe_state_root v)"
  by (auto simp: backup_path_def backup_dir_def path_starts_with_iff)

lemma apart_backup: "apart p (oe_state_root v) \<Longrightarrow> apart p (backup_path v tx slot)"
  unfolding backup_path_def backup_dir_def append_assoc by (rule apart_append(2))

lemma backup_parent [simp]: "butlast (backup_path v tx slot) = backup_dir v tx" "backup_path v tx slot \<noteq> []"
  by (simp_all add: backup_path_def)

lemma gives_backup:
  assumes "quiet s" and "sees s p \<noteq> None" and ap: "apart p (oe_state_root v)"
    and cl: "clear (backup_dir v tx) (sees s)" and "depth_below (oe_max_depth v) p (sees s)" and slot: "fwd_slashes slot = slot"
  shows "gives (backup_workspace_path v tx slot p) s (True, Some (backup_ref v tx slot))
     (replaced p (backup_path v tx slot) (sees s))"
proof -
  let ?bk = "backup_path v tx slot" and ?W = "with_dirs (backup_dir v tx) (sees s)"
  have apb: "apart p ?bk" using ap by (rule apart_backup)
  have off: "\<not> path_starts_with (backup_dir v tx) (p @ r)" for r
  proof
    assume "path_starts_with (backup_dir v tx) (p @ r)"
    then have "path_starts_with ?bk (p @ r)" by (auto simp: backup_path_def path_starts_with_iff)
    with apart_not_below(2) [OF apb, of r] show False by simp
  qed
  have final: "replaced p ?bk ?W = replaced p ?bk (sees s)"
    by (rule ext) (simp add: replaced_def with_dirs_idem with_dirs_off [OF off])
  have dirs: "oe_state_root v @ [''tx_backups'', oe_job v, tx] = backup_dir v tx" "backup_dir v tx @ [slot] = ?bk"
    by (simp_all add: backup_dir_def backup_path_def)
  have ref: "''txbackup://'' @ oe_job v @ ''/'' @ tx @ ''/'' @ fwd_slashes slot = backup_ref v tx slot"
    by (simp add: backup_ref_def slot)
  have "gives (io_bind (fs_create_dir_all (backup_dir v tx)) (\<lambda>_. io_bind io_get (\<lambda>s1.
      io_bind (if path_exists (os_tree s1) ?bk then remove_path_any ?bk else io_return ()) (\<lambda>_.
      io_bind (copy_path_recursive (oe_max_depth v) p ?bk) (\<lambda>_. io_return (True, Some (backup_ref v tx slot))))))) s
    (True, Some (backup_ref v tx slot)) (replaced p ?bk (sees s))"
  proof (rule gives_bind [OF gives_create_dir_all [OF assms(1) cl]])
    fix s1
    assume t1: "tree_only s s1" and v1: "sees s1 = ?W"
    have q1: "quiet s1" using t1 assms(1) by (simp add: tree_onlyD)
    have "gives (io_bind (if path_exists (os_tree s1) ?bk then remove_path_any ?bk else io_return ()) (\<lambda>_.
      io_bind (copy_path_recursive (oe_max_depth v) p ?bk) (\<lambda>_. io_return (True, Some (backup_ref v tx slot))))) s1
      (True, Some (backup_ref v tx slot)) (replaced p ?bk (sees s))"
    proof (rule gives_bind [OF gives_remove_if [OF q1]])
      fix s2
      assume t2: "tree_only s1 s2" and v2: "sees s2 = without ?bk (sees s1)"
      have "gives (copy_path_recursive (oe_max_depth v) p ?bk) s2 () (replaced p ?bk ?W)"
      proof (rule gives_copy_over)
        show "quiet s2" using t2 q1 by (simp add: tree_onlyD)
        show "apart p ?bk" by (rule apb)
        show "sees s2 p \<noteq> None" using assms(2) apart_not_below(1) [OF apb, of "[]"] off [of "[]"]
          by (simp add: v2 v1 without_def with_dirs_def)
        show "sees s2 = without ?bk ?W" by (simp add: v2 v1)
        show "clear (butlast ?bk) ?W" using cl by (auto simp: clear_def with_dirs_def)
        show "depth_below (oe_max_depth v) p ?W" using assms(5) by (simp add: depth_below_def with_dirs_off [OF off])
      qed
      then show "gives (io_bind (copy_path_recursive (oe_max_depth v) p ?bk) (\<lambda>_. io_return (True, Some (backup_ref v tx slot)))) s2
        (True, Some (backup_ref v tx slot)) (replaced p ?bk (sees s))"
        by (rule gives_bind) (simp add: gives_def io_simps final)
    qed simp
    then show "gives (io_bind io_get (\<lambda>s1.
      io_bind (if path_exists (os_tree s1) ?bk then remove_path_any ?bk else io_return ()) (\<lambda>_.
      io_bind (copy_path_recursive (oe_max_depth v) p ?bk) (\<lambda>_. io_return (True, Some (backup_ref v tx slot)))))) s1
      (True, Some (backup_ref v tx slot)) (replaced p ?bk (sees s))"
      by (simp add: gives_def io_simps)
  qed
  moreover have "\<not> (\<not> path_exists (os_tree s) p)" using assms(2) by (simp add: path_exists_def)
  ultimately show ?thesis
    unfolding backup_workspace_path_def Let_def dirs ref by (intro gives_get) (simp only: if_False)
qed

lemma gives_backup_none:
  "sees s p = None \<Longrightarrow> gives (backup_workspace_path v tx slot p) s (False, None) (sees s)"
  by (simp add: backup_workspace_path_def path_exists_def gives_def io_simps)

text \<open>Both cases: what is backed up, and the view.\<close>

definition backup_result :: "os_env \<Rightarrow> string \<Rightarrow> string \<Rightarrow> path \<Rightarrow> (path \<Rightarrow> file_entry option) \<Rightarrow> bool \<times> string option" where
  "backup_result v tx slot p W = (if W p = None then (False, None) else (True, Some (backup_ref v tx slot)))"

definition backup_view :: "os_env \<Rightarrow> string \<Rightarrow> string \<Rightarrow> path \<Rightarrow> (path \<Rightarrow> file_entry option) \<Rightarrow> path \<Rightarrow> file_entry option" where
  "backup_view v tx slot p W = (if W p = None then W else replaced p (backup_path v tx slot) W)"

lemma gives_backup_any:
  assumes "quiet s" and "apart p (oe_state_root v)" and "clear (backup_dir v tx) (sees s)"
    and "depth_below (oe_max_depth v) p (sees s)" and "fwd_slashes slot = slot"
  shows "gives (backup_workspace_path v tx slot p) s (backup_result v tx slot p (sees s)) (backup_view v tx slot p (sees s))"
  using gives_backup [OF assms(1) _ assms(2-5)] gives_backup_none [of s p v tx slot]
  by (auto simp: backup_result_def backup_view_def)

section \<open>Restoring\<close>

lemma restore_ref:
  assumes "oe_truth_job v = oe_job v" and "plain_name tx" and "plain_name slot"
  shows "restore_tx_backup n (oe_truth_job v) (oe_state_root v) (backup_ref v tx slot) p =
     copy_path_recursive n (backup_path v tx slot) p"
proof -
  have "backup_ref v tx slot = (''txbackup://'' @ oe_truth_job v @ ''/'') @ (tx @ ''/'' @ slot)"
    by (simp add: backup_ref_def assms(1))
  then have strip: "strip_prefix (backup_ref v tx slot) (''txbackup://'' @ oe_truth_job v @ ''/'') = Some (tx @ ''/'' @ slot)"
    by (simp only: strip_prefix_Some)
  have "unix_components (tx @ ''/'' @ slot) = map Normal [tx, slot]"
    using unix_components_join [of "[tx, slot]"] assms by simp
  then have "resolve_below (oe_state_root v @ [''tx_backups'', oe_truth_job v]) (unix_components (tx @ ''/'' @ slot)) =
      Some (backup_path v tx slot)"
    by (simp add: resolve_below_iff normals_def List.map_filter_simps backup_path_def backup_dir_def assms(1))
  with strip show ?thesis by (simp add: restore_tx_backup_def)
qed

lemma gives_restore_side:
  assumes "quiet s" and r: "resolve_workspace_path (oe_root v) (unix_components rel) = Inr p"
    and ap: "apart p (oe_state_root v)" and "oe_truth_job v = oe_job v" and "plain_name tx" "plain_name slot"
    and "sees s (backup_path v tx slot) \<noteq> None" and "clear (butlast p) (sees s)"
    and "depth_below (oe_max_depth v) (backup_path v tx slot) (sees s)"
  shows "gives (restore_side v (Some rel) True (Some (backup_ref v tx slot))) s () (replaced (backup_path v tx slot) p (sees s))"
proof -
  let ?bk = "backup_path v tx slot"
  have apb: "apart ?bk p" using apart_backup [OF ap] by (simp add: apart_sym)
  have ne: "p \<noteq> []" using ap by auto
  have "gives (io_bind (if path_exists (os_tree s) p then remove_path_any p else io_return ()) (\<lambda>_.
     copy_path_recursive (oe_max_depth v) ?bk p)) s () (replaced ?bk p (sees s))"
  proof (rule gives_bind [OF gives_remove_if [OF assms(1) ne]])
    fix s1
    assume t: "tree_only s s1" and view: "sees s1 = without p (sees s)"
    have q1: "quiet s1" using t assms(1) by (simp add: tree_onlyD)
    have "sees s1 ?bk \<noteq> None" using assms(7) apart_not_below(1) [OF apb, of "[]"] by (simp add: view without_def)
    from gives_copy_over [OF q1 apb this view assms(8,9)]
    show "gives (copy_path_recursive (oe_max_depth v) ?bk p) s1 () (replaced ?bk p (sees s))" .
  qed
  then show ?thesis
    by (simp only: restore_side_def resolve_path_def r restore_ref [OF assms(4-6)] option.case sum.case io_bind_return if_True)
      (rule gives_get)
qed

lemma gives_restore_side_fresh:
  assumes "quiet s" and r: "resolve_workspace_path (oe_root v) (unix_components rel) = Inr p" and "p \<noteq> []"
  shows "gives (restore_side v (Some rel) False backup) s () (without p (sees s))"
proof -
  have "gives (io_bind (if path_exists (os_tree s) p then remove_path_any p else io_return ()) (\<lambda>_. io_return ())) s ()
     (without p (sees s))"
    by (rule gives_bind [OF gives_remove_if [OF assms(1,3)]]) (simp add: gives_def io_simps)
  then show ?thesis
    by (simp only: restore_side_def resolve_path_def r option.case sum.case io_bind_return if_False) (rule gives_get)
qed

section \<open>The store\<close>

text \<open>Only the log, the clock and other blobs change.\<close>

definition store_only :: "os_state \<Rightarrow> os_state \<Rightarrow> bool" where
  "store_only s s' \<longleftrightarrow> os_tree s' = os_tree s \<and> w_files (os_world s') = w_files (os_world s)"

lemma store_only_refl [simp]: "store_only s s"
  by (simp add: store_only_def)

lemma store_only_trans: "store_only s t \<Longrightarrow> store_only t u \<Longrightarrow> store_only s u"
  by (simp add: store_only_def)

lemma yields_append: "quiet s \<Longrightarrow> yields (os_append v ty d) s (\<lambda>_ s'. store_only s s')"
proof -
  assume q: "quiet s"
  then have "no_faults (os_world s)" by (simp add: quiet_def)
  then obtain e w where a: "append_event (oe_truth_job v) (Some (oe_pid v)) ty d (os_world s) = (Inr e, w)" "no_faults w"
    by (rule append_no_faults)
  then have "w_files w = w_files (os_world s)" by (blast dest: append_event_frame)
  with a show ?thesis by (simp add: yields_def os_append_def on_world_def io_simps quiet_def store_only_def)
qed

lemma yields_emit: "quiet s \<Longrightarrow> yields (emit_receipt v ty r) s (\<lambda>_ s'. store_only s s')"
  by (simp add: emit_receipt_def yields_append yields_return)

lemma yields_success:
  "quiet s \<Longrightarrow> yields (os_success v capability_id kvs) s
     (\<lambda>r s'. r = os_receipt v capability_id ''success'' kvs \<and> store_only s s')"
  unfolding os_success_def Let_def
  by (rule yields_bind [OF yields_emit]) (auto intro: yields_return)

lemma yields_write_blob:
  "quiet s \<Longrightarrow> yields (on_world (write_blob job name c)) s (\<lambda>r s'. os_tree s' = os_tree s \<and>
     w_files (os_world s') = (w_files (os_world s))(blob_root job @ normals (unix_components name) \<mapsto> c))"
  by (simp add: yields_def on_world_def write_blob_def io_bind_def sys_op_def put_world_def io_return_def
      quiet_def no_faults_def Let_def)

definition tx_name :: "string \<Rightarrow> os_state \<Rightarrow> string" where
  "tx_name prefix s = prefix @ ''_'' @ dec (w_clock (os_world s) (w_ticks (os_world s))) @ ''_'' @ dec (unat (os_tx_counter s))"

lemma yields_tx_id: "quiet s \<Longrightarrow> yields (new_tx_id prefix) s (\<lambda>x s'. x = tx_name prefix s \<and> store_only s s')"
  by (simp add: yields_def new_tx_id_def Let_def on_world_def now_ms_def io_simps quiet_def no_faults_def
      tx_name_def store_only_def)

lemma tx_name_tree_only: "tree_only s s' \<Longrightarrow> tx_name prefix s' = tx_name prefix s"
  by (simp add: tx_name_def tree_onlyD)

section \<open>Transaction records\<close>

lemma opt_str_field_jobj [simp]:
  "opt_str_field (jobj kvs) k = (case map_of (rev kvs) k of None \<Rightarrow> Some None | Some Null \<Rightarrow> Some None
     | Some (JString s) \<Rightarrow> Some (Some s) | _ \<Rightarrow> None)"
  by (simp add: opt_str_field_def)

lemma case_jopt [simp]:
  "(case jopt x of Null \<Rightarrow> Some None | Bool b \<Rightarrow> None | Number n \<Rightarrow> None | JString s \<Rightarrow> Some (Some s)
    | Array a \<Rightarrow> None | Object m \<Rightarrow> None) = Some x"
  by (cases x) (simp_all add: jopt_def)

lemma os_tx_record_roundtrip: "os_tx_record_of_json (os_tx_record_json r) = Some r"
  by (simp add: os_tx_record_of_json_def os_tx_record_json_def)

definition prints_and_parses :: "json_codec \<Rightarrow> bool" where
  "prints_and_parses cd \<longleftrightarrow> (\<forall>x. from_str cd (to_string cd x) = Some x)"

text \<open>Where the record of a transaction is stored.\<close>

definition record_path :: "os_env \<Rightarrow> string \<Rightarrow> path" where
  "record_path v tx_id = blob_root (oe_truth_job v) @ [''tx'', tx_id @ ''.json'']"

text \<open>The names of transactions keep their characters in blob names and paths.\<close>

definition id_char :: "char \<Rightarrow> bool" where
  "id_char c \<longleftrightarrow> (is_ascii_alphanumeric c \<or> c = CHR ''_'') \<and> \<not> is_continuation c \<and> c \<noteq> CHR ''/'' \<and> c \<noteq> CHR ''.'' \<and> c \<noteq> CHR 0x5C"

lemma dec_id_char: "list_all id_char (dec n)"
proof -
  have "id_char c" if "c \<in> set (dec n)" for c
  proof -
    from dec_chars [OF that] obtain d where "d < 10" "c = digit_char d" by blast
    then have "d \<in> {0,1,2,3,4,5,6,7,8,9}" by auto
    with \<open>c = digit_char d\<close> show ?thesis
      by (auto simp: digit_char_def id_char_def is_ascii_alphanumeric_def is_continuation_def)
  qed
  then show ?thesis by (simp add: list_all_iff)
qed

lemma tx_name_chars: "list_all id_char prefix \<Longrightarrow> list_all id_char (tx_name prefix s)"
  using dec_id_char by (simp add: tx_name_def id_char_def is_ascii_alphanumeric_def is_continuation_def)

lemma safe_id: "list_all id_char x \<Longrightarrow> safe_blob_name x = x"
  by (induction x) (auto simp: safe_blob_name_def fwd_slashes_def slash_char_def id_char_def safe_char_def)

lemma plain_id: "list_all id_char x \<Longrightarrow> x \<noteq> [] \<Longrightarrow> CHR ''/'' \<notin> set y \<Longrightarrow> plain_name (x @ y)"
proof -
  assume x: "list_all id_char x" "x \<noteq> []" and that: "CHR ''/'' \<notin> set y"
  then obtain c cs where "x = c # cs" by (cases x) auto
  with x(1) that show "plain_name (x @ y)" by (auto simp: plain_name_def list_all_iff id_char_def)
qed

lemma record_path_written:
  assumes "list_all id_char tx" and "tx \<noteq> []"
  shows "blob_root job @ normals (unix_components (''tx/'' @ safe_blob_name tx @ ''.json'')) = blob_root job @ [''tx'', tx @ ''.json'']"
    and "resolve_blob_ref job (''blob://'' @ job @ ''/tx/'' @ safe_blob_name tx @ ''.json'') = Inr (blob_root job @ [''tx'', tx @ ''.json''])"
proof -
  have "plain_name ''tx''" by (simp add: plain_name_def)
  moreover have "plain_name (tx @ ''.json'')" using assms by (intro plain_id) simp_all
  ultimately have c: "unix_components (''tx/'' @ tx @ ''.json'') = [Normal ''tx'', Normal (tx @ ''.json'')]"
    using unix_components_join [of "[''tx'', tx @ ''.json'']"] by simp
  then show "blob_root job @ normals (unix_components (''tx/'' @ safe_blob_name tx @ ''.json'')) = blob_root job @ [''tx'', tx @ ''.json'']"
    by (simp add: safe_id assms normals_def List.map_filter_simps)
  have "strip_prefix (''blob://'' @ job @ ''/tx/'' @ tx @ ''.json'') (''blob://'' @ job @ ''/'') = Some (''tx/'' @ tx @ ''.json'')"
    by (simp add: strip_prefix_Some)
  moreover have "resolve_below (blob_root job) [Normal ''tx'', Normal (tx @ ''.json'')] = Some (blob_root job @ [''tx'', tx @ ''.json''])"
    by (simp add: resolve_below_iff normals_def List.map_filter_simps)
  ultimately show "resolve_blob_ref job (''blob://'' @ job @ ''/tx/'' @ safe_blob_name tx @ ''.json'') = Inr (blob_root job @ [''tx'', tx @ ''.json''])"
    using c by (simp add: safe_id assms resolve_blob_ref_def)
qed

lemma yields_record:
  assumes "quiet s" and "list_all id_char (ox_tx_id r)" and "ox_tx_id r \<noteq> []"
  shows "yields (record_tx v r) s (\<lambda>_ s'. os_tree s' = os_tree s \<and> w_files (os_world s') =
     (w_files (os_world s))(record_path v (ox_tx_id r) \<mapsto> to_string (oe_codec v) (os_tx_record_json r)))"
proof -
  note blob = yields_write_blob [OF assms(1), of "oe_truth_job v" "''tx/'' @ safe_blob_name (ox_tx_id r) @ ''.json''",
      unfolded record_path_written(1) [OF assms(2,3)]]
  show ?thesis unfolding record_tx_def
    by (rule yields_bind [OF blob], rule yields_bind [where P = "\<lambda>_. store_only s'" for s'])
      (auto intro: yields_append yields_return simp: store_only_def record_path_def)
qed

text \<open>Rolling back a recorded transaction runs \<open>restore_tx_record\<close> on its record.\<close>

lemma yields_rollback:
  assumes "quiet s" and "''os.rollback_tx'' \<in> set (oe_capabilities v)" and "oe_truth_job v = oe_job v"
    and "prints_and_parses (oe_codec v)" and "list_all id_char tx" and "tx \<noteq> []"
    and rec: "w_files (os_world s) (record_path v tx) = Some (to_string (oe_codec v) (os_tx_record_json r))"
    and restore: "gives (restore_tx_record v r) (tick s) () V"
  shows "yields (rollback_tx v tx) s (\<lambda>rc s'. rc_status rc = ''success'' \<and> sees s' = V)"
proof -
  let ?rest = "\<lambda>record. io_bind (restore_tx_record v record) (\<lambda>_.
            let receipt = os_receipt v ''os.rollback_tx'' ''success''
                  [(''tx_id'', JString tx), (''rolled_back_operation'', JString (ox_operation record))]
            in io_bind (emit_receipt v ''tx_rollback'' receipt) (\<lambda>_.
               io_bind (emit_receipt v ''capability_receipt'' receipt) (\<lambda>_. io_return receipt)))"
  have reads: "on_world (Process_Truth.read_file (record_path v tx)) s =
      (Inr (to_string (oe_codec v) (os_tx_record_json r)), tick s)"
    using assms(1) rec by (simp add: on_world_def read_file_def io_bind_def sys_op_def io_get_def io_return_def
        quiet_def no_faults_def tick_def Let_def)
  have decodes: "Option.bind (from_str (oe_codec v) (to_string (oe_codec v) (os_tx_record_json r))) os_tx_record_of_json = Some r"
    using assms(4) by (simp add: prints_and_parses_def os_tx_record_roundtrip)
  have ref: "resolve_blob_ref (oe_truth_job v) (''blob://'' @ oe_job v @ ''/tx/'' @ safe_blob_name tx @ ''.json'') = Inr (record_path v tx)"
    using record_path_written(2) [OF assms(5,6), of "oe_job v"] by (simp add: assms(3) record_path_def)
  have "rollback_tx v tx s = ?rest r (tick s)"
    unfolding rollback_tx_def ensure_capability_def
    by (simp only: ref assms(2) if_True io_bind_def io_lift_def io_get_apply prod.case sum.case rec reads decodes option.case
        option.distinct if_False)
  moreover have "yields (?rest r) (tick s) (\<lambda>rc s'. rc_status rc = ''success'' \<and> sees s' = V)"
  proof -
    from restore have "yields (restore_tx_record v r) (tick s) (\<lambda>_ s'. sees s' = V)"
      using assms(1) by (auto intro: yields_weaken [OF yields_gives])
    then show ?thesis
    proof (rule yields_bind)
      fix s'
      assume "quiet s'" "sees s' = V"
      then show "yields (let receipt = os_receipt v ''os.rollback_tx'' ''success''
                  [(''tx_id'', JString tx), (''rolled_back_operation'', JString (ox_operation r))]
            in io_bind (emit_receipt v ''tx_rollback'' receipt) (\<lambda>_.
               io_bind (emit_receipt v ''capability_receipt'' receipt) (\<lambda>_. io_return receipt))) s'
          (\<lambda>rc s'. rc_status rc = ''success'' \<and> sees s' = V)"
        unfolding Let_def
        by (intro yields_bind [OF yields_emit] yields_return) (auto simp: store_only_def os_receipt_def)
    qed
  qed
  ultimately show ?thesis by (simp add: yields_def)
qed

end
