(* ===== verification/Os_Claims.thy ===== *)
theory Os_Claims
  imports Os_Rollback
begin

text \<open>
  What the OS runtime promises: rolling back a change restores the workspace, locked paths are not
  touched, and where it fails to keep its promises.
\<close>

section \<open>Zones\<close>

text \<open>Outside the state root, where the workspace is.\<close>

definition outside :: "os_env \<Rightarrow> path \<Rightarrow> bool" where
  "outside v q \<longleftrightarrow> \<not> path_starts_with q (oe_state_root v)"

text \<open>The state root is usable, and the runtime belongs to the store's job.\<close>

definition os_ready :: "os_env \<Rightarrow> os_state \<Rightarrow> bool" where
  "os_ready v s \<longleftrightarrow> quiet s \<and> sees s (oe_state_root v) = Some Directory \<and> clear (lock_dir v) (sees s) \<and>
     (\<forall>tx. clear (backup_dir v tx) (sees s)) \<and> oe_truth_job v = oe_job v \<and> prints_and_parses (oe_codec v) \<and>
     ''os.rollback_tx'' \<in> set (oe_capabilities v)"

lemma state_dirs_below:
  "path_starts_with (lock_dir v) (oe_state_root v)" "path_starts_with (backup_dir v tx) (oe_state_root v)"
  "path_starts_with (backup_path v tx slot) (oe_state_root v)"
  by (auto simp: lock_dir_def backup_dir_def backup_path_def path_starts_with_iff)

lemma locks_not_backups:
  "\<not> path_starts_with (backup_dir v tx) (lock_dir v)" "\<not> path_starts_with (backup_path v tx slot @ r) (lock_dir v)"
  "path_starts_with q (lock_dir v) \<Longrightarrow> \<not> path_starts_with (backup_dir v tx) q"
  "path_starts_with q (lock_dir v) \<Longrightarrow> \<not> path_starts_with q (backup_path v tx slot)"
  by (auto simp: lock_dir_def backup_dir_def backup_path_def path_starts_with_iff)

text \<open>Making directories of the state root does not show outside of it.\<close>

lemma outside_with_dirs:
  assumes "outside v q" and "path_starts_with d (oe_state_root v)" and "W q = sees s q"
    and "sees s (oe_state_root v) = Some Directory"
  shows "with_dirs d W q = sees s q"
proof (cases "path_starts_with d q")
  case True
  with assms(2) have "path_starts_with q (oe_state_root v) \<or> path_starts_with (oe_state_root v) q"
    by (auto simp: path_starts_with_iff append_eq_append_conv2)
  with assms(1) have "path_starts_with (oe_state_root v) q" by (simp add: outside_def)
  with assms(4) have "sees s q = Some Directory" using sees_above [of "os_tree s" "oe_state_root v" q] by (cases "q = oe_state_root v") auto
  with assms(3) show ?thesis by (simp add: with_dirs_def)
qed (simp add: with_dirs_def assms(3))

lemma outside_below: "apart p (oe_state_root v) \<Longrightarrow> outside v (p @ r)"
  using apart_not_below(1) by (simp add: outside_def)

lemma outside_above: "outside v p \<Longrightarrow> path_starts_with p q \<Longrightarrow> outside v q"
  by (auto simp: outside_def dest: path_starts_with_trans)

lemma apart_outside: "apart p (oe_state_root v) \<Longrightarrow> outside v p"
  by (simp add: outside_def apart_def)

text \<open>The state in which a locked body starts.\<close>

lemma locked_start:
  assumes "os_ready v s" and "\<And>q. \<not> path_starts_with q (lock_dir v) \<Longrightarrow> sees s1 q = with_dirs (lock_dir v) (sees s) q"
  shows "outside v q \<Longrightarrow> sees s1 q = sees s q" and "clear (backup_dir v tx) (sees s1)"
    and "sees s1 (oe_state_root v) = Some Directory"
proof -
  from assms(1) have dir: "sees s (oe_state_root v) = Some Directory" and cl: "clear (backup_dir v tx) (sees s)"
    by (auto simp: os_ready_def)
  show "sees s1 q = sees s q" if "outside v q" for q
  proof -
    have "\<not> path_starts_with q (lock_dir v)"
      using that state_dirs_below(1) by (auto simp: outside_def dest: path_starts_with_trans)
    moreover have "with_dirs (lock_dir v) (sees s) q = sees s q"
      using that state_dirs_below(1) refl dir by (rule outside_with_dirs)
    ultimately show ?thesis using assms(2) by simp
  qed
  show "clear (backup_dir v tx) (sees s1)"
    unfolding clear_def
  proof (intro allI impI)
    fix q b
    assume q: "path_starts_with (backup_dir v tx) q"
    then have "\<not> path_starts_with q (lock_dir v)"
      by (auto simp: lock_dir_def backup_dir_def path_starts_with_iff)
    with assms(2) cl q show "sees s1 q \<noteq> Some (Bytes b)" by (auto simp: clear_def with_dirs_def)
  qed
  have "\<not> path_starts_with (oe_state_root v) (lock_dir v)" by (auto simp: lock_dir_def path_starts_with_iff)
  with assms(2) dir show "sees s1 (oe_state_root v) = Some Directory" by (simp add: with_dirs_def)
qed

text \<open>What a backup leaves: the copy, and the same view outside and in the lock directory.\<close>

lemma backup_view_facts:
  assumes "apart p (oe_state_root v)" and dir: "sees s (oe_state_root v) = Some Directory"
    and out: "\<And>q. outside v q \<Longrightarrow> W q = sees s q"
  shows "W p \<noteq> None \<Longrightarrow> backup_view v tx slot p W (backup_path v tx slot @ r) = W (p @ r)"
    and "outside v q \<Longrightarrow> backup_view v tx slot p W q = sees s q"
    and "path_starts_with q (lock_dir v) \<Longrightarrow> backup_view v tx slot p W q = W q"
    and "slot' \<noteq> slot \<Longrightarrow> W (backup_dir v tx) = Some Directory \<Longrightarrow>
       backup_view v tx slot p W (backup_path v tx slot' @ r) = W (backup_path v tx slot' @ r)"
proof -
  show "backup_view v tx slot p W (backup_path v tx slot @ r) = W (p @ r)" if "W p \<noteq> None"
    using that by (auto simp: backup_view_def replaced_def)
  show "backup_view v tx slot p W q = sees s q" if "outside v q"
  proof -
    have "\<not> path_starts_with q (backup_path v tx slot)"
      using that path_starts_with_trans [OF _ state_dirs_below(3)] by (auto simp: outside_def)
    moreover have "with_dirs (backup_dir v tx) W q = sees s q"
      using that state_dirs_below(2) out [OF that] dir by (rule outside_with_dirs)
    ultimately show ?thesis by (simp add: backup_view_def replaced_def out [OF that])
  qed
  show "backup_view v tx slot p W q = W q" if "path_starts_with q (lock_dir v)"
    using locks_not_backups(3,4) [OF that] by (simp add: backup_view_def replaced_def with_dirs_def)
  show "backup_view v tx slot p W (backup_path v tx slot' @ r) = W (backup_path v tx slot' @ r)"
    if "slot' \<noteq> slot" "W (backup_dir v tx) = Some Directory"
    using that by (auto simp: backup_view_def replaced_def with_dirs_def backup_path_def path_starts_with_iff)
qed

lemma state_apart:
  assumes "apart p (oe_state_root v)"
  shows "\<not> path_starts_with (backup_path v tx slot @ r) p" "path_starts_with q (lock_dir v) \<Longrightarrow> \<not> path_starts_with q p"
proof -
  show "\<not> path_starts_with (backup_path v tx slot @ r) p"
    using apart_not_below(1) [of "backup_path v tx slot" p r] apart_backup [OF assms] by (simp add: apart_sym)
  assume "path_starts_with q (lock_dir v)"
  then obtain r where "q = oe_state_root v @ [''workspace_file_locks''] @ r" by (auto simp: lock_dir_def path_starts_with_iff)
  moreover have "apart (oe_state_root v) p" using assms by (simp add: apart_sym)
  ultimately show "\<not> path_starts_with q p" using apart_not_below(1) by blast
qed

section \<open>Restoring one side\<close>

lemma restore_side_facts:
  assumes "quiet s3" and "os_ready v s" and r: "resolve_workspace_path (oe_root v) (unix_components rel) = Inr p"
    and ap: "apart p (oe_state_root v)" and names: "list_all id_char tx" "tx \<noteq> []" "plain_name slot"
    and depth: "depth_below (oe_max_depth v) p (sees s)"
    and held: "sees s p \<noteq> None \<Longrightarrow> (\<And>r. sees s3 (backup_path v tx slot @ r) = sees s (p @ r))"
    and cl: "clear (butlast p) (sees s3)"
    and e: "(e, ref) = backup_result v tx slot p (sees s)"
  shows "\<exists>V. gives (restore_side v (Some rel) e ref) s3 () V \<and>
     (\<forall>q. path_starts_with q p \<longrightarrow> V q = sees s q) \<and>
     (\<forall>q. \<not> path_starts_with q p \<longrightarrow> V q = (if e then with_dirs (butlast p) (sees s3) q else sees s3 q))"
proof (cases "sees s p = None")
  case True
  with e have e: "\<not> e" by (simp add: backup_result_def)
  have "p \<noteq> []" using ap by auto
  from gives_restore_side_fresh [OF assms(1) r this] have "gives (restore_side v (Some rel) e ref) s3 () (without p (sees s3))"
    using e by simp
  moreover have "without p (sees s3) q = sees s q" if "path_starts_with q p" for q
    using that sees_below [OF True that] by (simp add: without_def)
  ultimately show ?thesis using e by (auto simp: without_def)
next
  case False
  with e have e: "e" "ref = Some (backup_ref v tx slot)" by (simp_all add: backup_result_def)
  have plain: "plain_name tx" using plain_id [of tx "[]"] names by simp
  have "gives (restore_side v (Some rel) True (Some (backup_ref v tx slot))) s3 ()
     (replaced (backup_path v tx slot) p (sees s3))"
  proof (rule gives_restore_side [OF assms(1) r ap _ plain names(3) _ cl])
    show "oe_truth_job v = oe_job v" using assms(2) by (simp add: os_ready_def)
    show "sees s3 (backup_path v tx slot) \<noteq> None" using held [OF False, of "[]"] False by simp
    show "depth_below (oe_max_depth v) (backup_path v tx slot) (sees s3)"
      using depth held [OF False] by (simp add: depth_below_def)
  qed
  moreover have "replaced (backup_path v tx slot) p (sees s3) q = sees s q" if "path_starts_with q p" for q
    using that held [OF False] by (auto simp: replaced_def path_starts_with_iff)
  ultimately show ?thesis using e by (auto simp: replaced_def)
qed

section \<open>Deletion\<close>

lemma id_prefixes:
  "list_all id_char ''os_delete''" "list_all id_char ''os_write''" "list_all id_char ''os_mutation''"
  by (simp_all add: id_char_def is_ascii_alphanumeric_def is_continuation_def)

lemma tx_name_ok: "list_all id_char prefix \<Longrightarrow> list_all id_char (tx_name prefix s)" "tx_name prefix s \<noteq> []"
  by (rule tx_name_chars) (simp_all add: tx_name_def)

lemma slots: "plain_name ''source''" "plain_name ''destination''"
  "fwd_slashes ''source'' = ''source''" "fwd_slashes ''destination'' = ''destination''"
  by (simp_all add: plain_name_def fwd_slashes_def slash_char_def)

definition delete_record :: "os_env \<Rightarrow> string \<Rightarrow> string \<Rightarrow> os_tx_record" where
  "delete_record v tx rel =
     \<lparr>ox_tx_id = tx, ox_operation = ''os.delete_path'', ox_source_path = Some rel, ox_destination_path = None,
      ox_write_kind = Some ''source_mutation'', ox_source_before_exists = True, ox_destination_before_exists = False,
      ox_source_backup_ref = Some (backup_ref v tx ''source''), ox_destination_backup_ref = None\<rparr>"

definition recorded :: "os_env \<Rightarrow> os_tx_record \<Rightarrow> os_state \<Rightarrow> bool" where
  "recorded v r s \<longleftrightarrow> w_files (os_world s) (record_path v (ox_tx_id r)) = Some (to_string (oe_codec v) (os_tx_record_json r))"

lemma yields_delete_locked:
  assumes ready: "os_ready v s" and ap: "apart p (oe_state_root v)" and "sees s p \<noteq> None"
    and depth: "depth_below (oe_max_depth v) p (sees s)" and tx: "tx = tx_name ''os_delete'' s"
    and s1: "quiet s1" "tree_only s s1" "\<And>q. \<not> path_starts_with q (lock_dir v) \<Longrightarrow> sees s1 q = with_dirs (lock_dir v) (sees s) q"
  shows "yields (delete_locked v p rel) s1 (\<lambda>rc s2.
     (rc_status rc = ''success'' \<and> get_str (rc_data rc) ''tx_id'' = Some tx \<and> recorded v (delete_record v tx rel) s2 \<and>
      (\<forall>r. sees s2 (backup_path v tx ''source'' @ r) = sees s (p @ r)) \<and>
      (\<forall>q. outside v q \<longrightarrow> sees s2 q = (if path_starts_with q p then None else sees s q))) \<and>
     (\<forall>q. path_starts_with q (lock_dir v) \<longrightarrow> sees s2 q = sees s1 q))"
proof -
  note start = locked_start [OF ready s1(3)]
  have dir: "sees s (oe_state_root v) = Some Directory" using ready by (simp add: os_ready_def)
  have sub: "sees s1 (p @ r) = sees s (p @ r)" for r using start(1) outside_below [OF ap] by blast
  have ex: "sees s1 p \<noteq> None" using sub [of "[]"] assms(3) by simp
  have depth1: "depth_below (oe_max_depth v) p (sees s1)" using depth by (simp add: depth_below_def sub)
  let ?V = "backup_view v tx ''source'' p (sees s1)"
  have off: "?V (p @ r) = sees s (p @ r)" "outside v q \<Longrightarrow> ?V q = sees s q"
    "?V (backup_path v tx ''source'' @ r) = sees s (p @ r)" "path_starts_with q (lock_dir v) \<Longrightarrow> ?V q = sees s1 q" for q r
    using backup_view_facts [OF ap dir start(1), where tx = tx and slot = "''source''"] outside_below [OF ap] ex sub by simp_all
  have away: "\<not> path_starts_with (backup_path v tx ''source'' @ r) p" "path_starts_with q (lock_dir v) \<Longrightarrow> \<not> path_starts_with q p" for r q
    using apart_outside [OF ap] state_apart [OF ap] by blast+
  have ids: "list_all id_char tx" "tx \<noteq> []" using tx_name_ok id_prefixes tx by simp_all
  from yields_tx_id [OF s1(1), of "''os_delete''"] tx_name_tree_only [OF s1(2)] tx obtain s2 where
    e1: "new_tx_id ''os_delete'' s1 = (Inr tx, s2)" "quiet s2" and v2: "sees s2 = sees s1"
    by (auto simp: yields_def store_only_def)
  have "gives (backup_workspace_path v tx ''source'' p) s2 (True, Some (backup_ref v tx ''source'')) ?V"
    using gives_backup_any [OF e1(2) ap, where tx = tx and slot = "''source''"] start(2) depth1 ex
    by (simp add: v2 slots backup_result_def)
  then obtain s3 where e2: "backup_workspace_path v tx ''source'' p s2 = (Inr (True, Some (backup_ref v tx ''source'')), s3)"
    "quiet s3" and v3: "sees s3 = ?V" using e1(2) by (auto elim!: givesE simp: tree_onlyD)
  have "sees s3 p \<noteq> None" "p \<noteq> []" using v3 off(1) [of "[]"] assms(3) ap by auto
  from gives_remove [OF e2(2) this] e2(2) obtain s4 where e3: "remove_path_any p s3 = (Inr (), s4)" "quiet s4"
    and v4: "sees s4 = without p ?V" by (auto elim!: givesE simp: tree_onlyD v3)
  obtain ref s5 where e4: "record_tx v (delete_record v tx rel) s4 = (Inr ref, s5)" "quiet s5"
    and v5: "sees s5 = sees s4" and rec: "recorded v (delete_record v tx rel) s5"
    using yields_record [OF e3(2), of "delete_record v tx rel" v] ids
    by (auto simp: yields_def delete_record_def recorded_def)
  let ?kvs = "[(''target_path'', JString rel), (''tx_id'', JString tx), (''tx_ref'', JString ref)]"
  from yields_success [OF e4(2), of v "''os.delete_path''" ?kvs] obtain s6 where
    e5: "os_success v ''os.delete_path'' ?kvs s5 = (Inr (os_receipt v ''os.delete_path'' ''success'' ?kvs), s6)" "quiet s6"
    and s6: "store_only s5 s6" by (auto simp: yields_def)
  have "delete_locked v p rel s1 = (Inr (os_receipt v ''os.delete_path'' ''success'' ?kvs), s6)"
    using e4(1) by (simp add: delete_locked_def delete_record_def e1 e2 e3 e5 io_simps)
  moreover have "sees s6 q = (if path_starts_with q p then None else ?V q)" for q
    using s6 by (simp add: store_only_def v5 v4 without_def)
  moreover have "recorded v (delete_record v tx rel) s6" using rec s6 by (simp add: recorded_def store_only_def)
  ultimately show ?thesis
    using e5(2) off away by (simp add: yields_def os_receipt_def)
qed

definition deleted :: "os_env \<Rightarrow> os_state \<Rightarrow> path \<Rightarrow> string \<Rightarrow> string \<Rightarrow> capability_receipt \<Rightarrow> os_state \<Rightarrow> bool" where
  "deleted v s p tx rel rc s2 \<longleftrightarrow>
     rc_status rc = ''success'' \<and> get_str (rc_data rc) ''tx_id'' = Some tx \<and> recorded v (delete_record v tx rel) s2 \<and>
     (\<forall>r. sees s2 (backup_path v tx ''source'' @ r) = sees s (p @ r)) \<and>
     (\<forall>q. outside v q \<longrightarrow> sees s2 q = (if path_starts_with q p then None else sees s q))"

lemma single_lock: "distinct (map (lock_path v) (sort_dedup [rel]))"
  by (simp add: sort_dedup_def)

lemma off_locks:
  "outside v q \<Longrightarrow> \<not> path_starts_with q (lock_dir v)"
  using state_dirs_below(1) [of v] path_starts_with_trans [of q "lock_dir v" "oe_state_root v"] by (auto simp: outside_def)

lemma delete_path_yields:
  assumes ready: "os_ready v s" and "''os.delete_path'' \<in> set (oe_capabilities v)" and slash: "fwd_slashes rel = rel"
    and r: "resolve_workspace_path (oe_root v) (unix_components rel) = Inr p" and ap: "apart p (oe_state_root v)"
    and ex: "sees s p \<noteq> None" and depth: "depth_below (oe_max_depth v) p (sees s)" and free: "sees s (lock_path v rel) = None"
  shows "yields (delete_path v rel) s (\<lambda>rc s1. deleted v s p (tx_name ''os_delete'' s) rel rc s1 \<and> sees s1 (lock_path v rel) = None)"
proof -
  have body: "yields (delete_locked v p rel) s1 (\<lambda>rc s2. deleted v s p (tx_name ''os_delete'' s) rel rc s2 \<and>
      (\<forall>q. path_starts_with q (lock_dir v) \<longrightarrow> sees s2 q = sees s1 q))"
    if "quiet s1" "tree_only s s1" "\<And>q. \<not> path_starts_with q (lock_dir v) \<Longrightarrow> sees s1 q = with_dirs (lock_dir v) (sees s) q" for s1
    unfolding deleted_def using yields_delete_locked [OF ready ap ex depth refl that] .
  have stable: "deleted v s p tx rel rc s3" if "deleted v s p tx rel rc s2" "tree_only s2 s3"
    "\<And>q. \<not> path_starts_with q (lock_dir v) \<Longrightarrow> sees s3 q = sees s2 q" for tx rc s2 s3
    using that(1) that(3) [OF locks_not_backups(2)] that(3) [OF off_locks] tree_onlyD(2) [OF that(2)]
    by (simp add: deleted_def recorded_def)
  have "yields (with_mutation_locks v ''os.delete_path'' [rel] (delete_locked v p rel)) s
     (\<lambda>rc s1. deleted v s p (tx_name ''os_delete'' s) rel rc s1 \<and> (\<forall>q \<in> set [rel]. sees s1 (lock_path v q) = None))"
    using ready free
    by (intro yields_locked [OF _ _ _ single_lock _ body stable]) (auto simp: os_ready_def)
  moreover have "delete_path v rel s = with_mutation_locks v ''os.delete_path'' [rel] (delete_locked v p rel) s"
    using assms(2) ex by (cases "sees s p") (simp_all add: delete_path_def ensure_capability_def resolve_path_def r io_simps path_exists_def slash)
  ultimately show ?thesis by (simp add: yields_def)
qed

text \<open>
  C15: a deletion is undone by rolling it back. In a run without faults, deleting an existing file or
  directory of the workspace succeeds, takes it away and releases its lock; rolling back the
  transaction named in the receipt succeeds and leaves every path outside the state root with
  the entry, and every file with the bytes, it had before.
\<close>

theorem rollback_undoes_delete:
  assumes "os_ready v s" and "''os.delete_path'' \<in> set (oe_capabilities v)" and "fwd_slashes rel = rel"
    and "resolve_workspace_path (oe_root v) (unix_components rel) = Inr p" and "apart p (oe_state_root v)"
    and "sees s p \<noteq> None" and "depth_below (oe_max_depth v) p (sees s)" and "sees s (lock_path v rel) = None"
  shows "\<exists>rc s1 tx rc2 s2. delete_path v rel s = (Inr rc, s1) \<and> rc_status rc = ''success'' \<and>
     get_str (rc_data rc) ''tx_id'' = Some tx \<and> sees s1 p = None \<and> sees s1 (lock_path v rel) = None \<and>
     rollback_tx v tx s1 = (Inr rc2, s2) \<and> rc_status rc2 = ''success'' \<and>
     (\<forall>q. sees s2 q \<noteq> sees s q \<longrightarrow> path_starts_with q (oe_state_root v))"
proof -
  let ?tx = "tx_name ''os_delete'' s"
  note ap = assms(5)
  from delete_path_yields [OF assms] obtain rc s1 where d: "delete_path v rel s = (Inr rc, s1)" "quiet s1"
    "deleted v s p ?tx rel rc s1" "sees s1 (lock_path v rel) = None" by (auto simp: yields_def)
  have gone: "sees s1 p = None" using d(3) apart_outside [OF ap] by (simp add: deleted_def)
  have ids: "list_all id_char ?tx" "?tx \<noteq> []" using tx_name_ok id_prefixes by simp_all
  have ready: "''os.rollback_tx'' \<in> set (oe_capabilities v)" "oe_truth_job v = oe_job v" "prints_and_parses (oe_codec v)"
    using assms(1) by (simp_all add: os_ready_def)
  have "clear (butlast p) (sees s1)"
    unfolding clear_def
  proof (intro allI impI)
    fix q b
    assume q: "path_starts_with (butlast p) q"
    moreover have "p \<noteq> []" using ap by auto
    ultimately have "path_starts_with p q" "q \<noteq> p" using proper_above by blast+
    then have "outside v q" "sees s q = Some Directory"
      using outside_above [OF apart_outside [OF ap]] sees_above [OF assms(6)] by auto
    then show "sees s1 q \<noteq> Some (Bytes b)" using d(3) by (simp add: deleted_def)
  qed
  then have restore: "\<exists>V. gives (restore_side v (Some rel) True (Some (backup_ref v ?tx ''source''))) s3 () V \<and>
     (\<forall>q. path_starts_with q p \<longrightarrow> V q = sees s q) \<and>
     (\<forall>q. \<not> path_starts_with q p \<longrightarrow> V q = (if True then with_dirs (butlast p) (sees s3) q else sees s3 q))"
    if "tree_only s1 s3" "sees s3 = sees s1" for s3
    using that d assms ids slots
    by (intro restore_side_facts [OF _ assms(1,4,5)]) (auto simp: tree_onlyD deleted_def backup_result_def)
  define V where "V q = (if path_starts_with q p then sees s q else with_dirs (butlast p) (sees s1) q)" for q
  have undo: "gives (restore_tx_record v (delete_record v ?tx rel)) s3 () V" if "tree_only s1 s3" "sees s3 = sees s1" for s3
  proof -
    from restore [OF that] obtain V' where V': "gives (restore_side v (Some rel) True (Some (backup_ref v ?tx ''source''))) s3 () V'"
      "\<forall>q. path_starts_with q p \<longrightarrow> V' q = sees s q"
      "\<forall>q. \<not> path_starts_with q p \<longrightarrow> V' q = with_dirs (butlast p) (sees s3) q" by auto
    then have "V' = V" by (auto simp: V_def that(2))
    with V'(1) show ?thesis by (simp add: restore_tx_record_def delete_record_def restore_side_def [of v None])
  qed
  have "w_files (os_world s1) (record_path v ?tx) = Some (to_string (oe_codec v) (os_tx_record_json (delete_record v ?tx rel)))"
    using d(3) by (simp add: deleted_def recorded_def delete_record_def)
  from yields_rollback [OF d(2) ready ids this undo [OF tree_only_tick(1)]] obtain rc2 s2 where r: "rollback_tx v ?tx s1 = (Inr rc2, s2)" "rc_status rc2 = ''success''" "sees s2 = V"
    by (auto simp: yields_def)
  have "V q = sees s q" if "\<not> path_starts_with q (oe_state_root v)" for q
  proof (cases "path_starts_with (butlast p) q")
    case True
    moreover have "p \<noteq> []" using ap by auto
    ultimately have "sees s q = Some Directory" using proper_above sees_above [OF assms(6)] by blast
    with that d(3) show ?thesis by (auto simp: V_def with_dirs_def deleted_def outside_def)
  next
    case False
    with that d(3) show ?thesis by (auto simp: V_def with_dirs_def deleted_def outside_def)
  qed
  with d gone r show ?thesis by (auto simp: deleted_def)
qed

section \<open>Writing\<close>

text \<open>The steps of a write that only look.\<close>

lemma gives_generated:
  "quiet s \<Longrightarrow> \<exists>b. gives (on_world (artifact_path_generated_by_current_job job path)) s b (sees s)"
proof -
  assume q: "quiet s"
  then have "read_events job (os_world s) = (Inr (log_of (os_world s) job), (os_world s)\<lparr>w_ops := Suc (w_ops (os_world s))\<rparr>)"
    by (simp add: read_no_faults quiet_def)
  then obtain b where "on_world (artifact_path_generated_by_current_job job path) s = (Inr b, tick s)"
    by (simp add: on_world_def artifact_path_generated_by_current_job_def io_simps Let_def tick_def)
  then show ?thesis unfolding gives_def by (intro exI [of _ b] exI [of _ "tick s"]) simp
qed

lemma gives_hash: "quiet s \<Longrightarrow> sees s p = Some (Bytes b) \<Longrightarrow> gives (path_hash p) s (file_fingerprint [b]) (sees s)"
  unfolding path_hash_def by (rule gives_bind [OF gives_read]) (auto simp: gives_def io_simps)

lemma gives_when:
  assumes "c \<Longrightarrow> \<exists>x. gives m s x (sees s)"
  shows "\<exists>y. gives (io_when c m) s y (sees s)"
proof (cases c)
  case True
  from assms [OF True] obtain x where "gives m s x (sees s)" ..
  then have "gives (io_bind m (\<lambda>x. io_return (Some x))) s (Some x) (sees s)"
    by (rule gives_bind) (simp add: gives_def io_simps)
  with True show ?thesis by (auto simp: io_when_def)
next
  case False
  then have "gives (io_when c m) s None (sees s)" by (simp add: io_when_def)
  then show ?thesis ..
qed

lemma versions_not_records:
  "blob_root job @ normals (unix_components (''artifact_versions/'' @ x)) \<noteq> record_path v tx"
proof -
  have "split_char CHR ''/'' (''artifact_versions'' @ CHR ''/'' # x) = ''artifact_versions'' # split_char CHR ''/'' x"
    by (rule split_char_append) simp
  then have "unix_components (''artifact_versions/'' @ x) =
      Normal ''artifact_versions'' # concat (map unix_part (split_char CHR ''/'' x))"
    by (simp add: unix_components_def unix_part_def)
  then show ?thesis by (simp add: normals_def List.map_filter_simps record_path_def blob_root_def)
qed

lemma yields_blob_event:
  assumes "quiet s"
  shows "yields (io_bind (on_world (write_blob job name c)) (\<lambda>ref.
     io_bind (if b then os_append v ty (d ref) else io_return ()) (\<lambda>_. io_return ref))) s
   (\<lambda>_ s'. os_tree s' = os_tree s \<and>
     w_files (os_world s') = (w_files (os_world s))(blob_root job @ normals (unix_components name) \<mapsto> c))"
proof (rule yields_bind [OF yields_write_blob [OF assms]])
  fix ref s1
  assume s1: "quiet s1" "os_tree s1 = os_tree s \<and>
     w_files (os_world s1) = (w_files (os_world s))(blob_root job @ normals (unix_components name) \<mapsto> c)"
  have "yields (if b then os_append v ty (d ref) else io_return ()) s1 (\<lambda>_. store_only s1)"
    using s1(1) by (auto intro: yields_append yields_return)
  then show "yields (io_bind (if b then os_append v ty (d ref) else io_return ()) (\<lambda>_. io_return ref)) s1
     (\<lambda>_ s'. os_tree s' = os_tree s \<and>
       w_files (os_world s') = (w_files (os_world s))(blob_root job @ normals (unix_components name) \<mapsto> c))"
    by (rule yields_bind) (use s1(2) in \<open>auto intro: yields_return simp: store_only_def\<close>)
qed

lemma yields_version:
  assumes "quiet s"
  shows "yields (record_version v capability_id path tx h1 h2) s
     (\<lambda>_ s'. os_tree s' = os_tree s \<and> (\<forall>t. w_files (os_world s') (record_path v t) = w_files (os_world s) (record_path v t)))"
proof -
  have count: "yields (artifact_revision_count v path) s (\<lambda>_ s'. os_tree s' = os_tree s \<and> w_files (os_world s') = w_files (os_world s))"
    using assms by (simp add: yields_def artifact_revision_count_def on_world_def read_no_faults quiet_def no_faults_def io_simps)
  show ?thesis unfolding record_version_def Let_def
    by (rule yields_bind [OF count], rule yields_weaken [OF yields_blob_event])
      (auto simp: versions_not_records [symmetric, simplified])
qed

definition write_record :: "os_env \<Rightarrow> string \<Rightarrow> string \<Rightarrow> string \<Rightarrow> string \<Rightarrow> bool \<times> string option \<Rightarrow> os_tx_record" where
  "write_record v capability_id tx rel write_kind backup =
     \<lparr>ox_tx_id = tx, ox_operation = capability_id, ox_source_path = None, ox_destination_path = Some rel,
      ox_write_kind = Some write_kind, ox_source_before_exists = False, ox_destination_before_exists = fst backup,
      ox_source_backup_ref = None, ox_destination_backup_ref = snd backup\<rparr>"

text \<open>What a successful write of a file leaves.\<close>

definition written ::
  "os_env \<Rightarrow> os_state \<Rightarrow> string \<Rightarrow> path \<Rightarrow> string \<Rightarrow> string \<Rightarrow> string \<Rightarrow> string \<Rightarrow> capability_receipt \<Rightarrow> os_state \<Rightarrow> bool" where
  "written v s capability_id p tx rel content write_kind rc s2 \<longleftrightarrow>
     rc_status rc = ''success'' \<and> get_str (rc_data rc) ''tx_id'' = Some tx \<and>
     recorded v (write_record v capability_id tx rel write_kind (backup_result v tx ''destination'' p (sees s))) s2 \<and>
     (sees s p \<noteq> None \<longrightarrow> (\<forall>r. sees s2 (backup_path v tx ''destination'' @ r) = sees s (p @ r))) \<and>
     (\<forall>q. outside v q \<longrightarrow> sees s2 q = (if q = p then Some (Bytes content) else with_dirs (butlast p) (sees s) q))"

lemma gives_quiet: "gives m s x V \<Longrightarrow> quiet s \<Longrightarrow> \<exists>s'. m s = (Inr x, s') \<and> quiet s' \<and> tree_only s s' \<and> sees s' = V"
  by (auto simp: gives_def tree_onlyD)

lemma revision_check:
  assumes "quiet s"
  shows "\<exists>c. gives (if b \<and> path_exists (os_tree s) p then on_world (artifact_path_generated_by_current_job job rel)
       else io_return False) s c (sees s) \<and> (c \<longrightarrow> sees s p \<noteq> None)"
proof (cases "b \<and> path_exists (os_tree s) p")
  case True
  with gives_generated [OF assms, of job rel] show ?thesis by (auto simp: path_exists_def)
next
  case False
  have "gives (io_return False) s False (sees s)" by (rule gives_return)
  with False show ?thesis by (intro exI [of _ False]) auto
qed

lemma yields_when:
  assumes "quiet s" and "c \<Longrightarrow> yields m s (\<lambda>_. P)" and "P s"
  shows "yields (io_when c m) s (\<lambda>_. P)"
proof (cases c)
  case True
  have "yields (io_bind m (\<lambda>x. io_return (Some x))) s (\<lambda>_. P)"
    by (rule yields_bind [OF assms(2) [OF True]]) (rule yields_return)
  with True show ?thesis by (simp add: io_when_def)
next
  case False
  with assms show ?thesis by (simp add: io_when_def yields_return)
qed

lemma depth_of_file:
  assumes "sees s p \<noteq> Some Directory" and "0 < n"
  shows "depth_below n p (sees s)"
  unfolding depth_below_def
proof (intro allI impI)
  fix r
  assume ex: "sees s (p @ r) \<noteq> None"
  have "r = []"
  proof (rule ccontr)
    assume "r \<noteq> []"
    with ex view_parent have "sees s p = Some Directory" by blast
    with assms(1) show False ..
  qed
  with assms(2) show "length r < n" by simp
qed

lemma yields_write_locked:
  assumes ready: "os_ready v s" and ap: "apart p (oe_state_root v)" and nodir: "sees s p \<noteq> Some Directory"
    and cl: "clear p (without p (sees s))" and "0 < oe_max_depth v" and tx: "tx = tx_name ''os_write'' s"
    and s1: "quiet s1" "tree_only s s1" "\<And>q. \<not> path_starts_with q (lock_dir v) \<Longrightarrow> sees s1 q = with_dirs (lock_dir v) (sees s) q"
  shows "yields (write_locked v capability_id p rel content write_kind) s1 (\<lambda>rc s2.
     written v s capability_id p tx rel content write_kind rc s2 \<and>
     (\<forall>q. path_starts_with q (lock_dir v) \<longrightarrow> sees s2 q = sees s1 q))"
proof -
  note start = locked_start [OF ready s1(3)]
  have dir: "sees s (oe_state_root v) = Some Directory" using ready by (simp add: os_ready_def)
  have ne: "p \<noteq> []" using ap by auto
  have sub: "sees s1 (p @ r) = sees s (p @ r)" for r using start(1) outside_below [OF ap] by blast
  have here: "sees s1 p = sees s p" using sub [of "[]"] by simp
  have isfile: "\<exists>b. sees s p = Some (Bytes b)" if "sees s p \<noteq> None"
    using that nodir by (cases "sees s p") (auto intro: file_entry.exhaust)
  have depth: "depth_below (oe_max_depth v) p (sees s1)"
    using depth_of_file [OF nodir assms(5)] by (simp add: depth_below_def sub)
  let ?r = "backup_result v tx ''destination'' p (sees s)" and ?V = "backup_view v tx ''destination'' p (sees s1)"
  have off: "sees s p \<noteq> None \<Longrightarrow> ?V (backup_path v tx ''destination'' @ r) = sees s (p @ r)" "outside v q \<Longrightarrow> ?V q = sees s q"
    "path_starts_with q (lock_dir v) \<Longrightarrow> ?V q = sees s1 q" for q r
    using backup_view_facts [OF ap dir start(1), where tx = tx and slot = "''destination''"] here sub by simp_all
  have ids: "list_all id_char tx" "tx \<noteq> []" using tx_name_ok id_prefixes tx by simp_all
  from yields_tx_id [OF s1(1), of "''os_write''"] tx_name_tree_only [OF s1(2)] tx obtain s2 where
    e1: "new_tx_id ''os_write'' s1 = (Inr tx, s2)" "quiet s2" and v2: "sees s2 = sees s1"
    by (auto simp: yields_def store_only_def)
  let ?look = "if write_kind = ''artifact'' \<and> path_exists (os_tree s2) p
     then on_world (artifact_path_generated_by_current_job (oe_truth_job v) rel) else io_return False"
  from revision_check [OF e1(2), of "write_kind = ''artifact''" p "oe_truth_job v" rel] obtain c where
    c: "gives ?look s2 c (sees s2)" "c \<Longrightarrow> sees s p \<noteq> None" by (auto simp: v2 here)
  from gives_quiet [OF c(1) e1(2)] obtain s3 where e2: "?look s2 = (Inr c, s3)" "quiet s3" and v3: "sees s3 = sees s1"
    by (auto simp: v2)
  have "\<exists>x. gives (path_hash p) s3 x (sees s3)" if c
    using isfile [OF c(2) [OF that]] gives_hash [OF e2(2), of p] by (auto simp: v3 here)
  from gives_when [OF this] obtain h1 where "gives (io_when c (path_hash p)) s3 h1 (sees s3)" by blast
  from gives_quiet [OF this e2(2)] obtain s4 where e3: "io_when c (path_hash p) s3 = (Inr h1, s4)" "quiet s4"
    and v4: "sees s4 = sees s1" by (auto simp: v3)
  have "gives (backup_workspace_path v tx ''destination'' p) s4 ?r ?V"
    using gives_backup_any [OF e3(2) ap, where tx = tx and slot = "''destination''"] start(2) depth
    by (simp add: v4 slots backup_result_def here)
  from gives_quiet [OF this e3(2)] obtain s5 where e4: "backup_workspace_path v tx ''destination'' p s4 = (Inr ?r, s5)" "quiet s5"
    and v5: "sees s5 = ?V" by blast
  have at5: "sees s5 p = sees s p" using off(2) [OF apart_outside [OF ap]] by (simp add: v5)
  have cl5: "clear (butlast p) (sees s5)"
    unfolding clear_def
  proof (intro allI impI)
    fix q b
    assume "path_starts_with (butlast p) q"
    with ne have "path_starts_with p q" "q \<noteq> p" using proper_above by blast+
    moreover from this have "\<not> path_starts_with q p" using path_starts_with_antisym by blast
    ultimately show "sees s5 q \<noteq> Some (Bytes b)"
      using cl outside_above [OF apart_outside [OF ap]] by (auto simp: clear_def v5 off(2) without_def)
  qed
  have "gives (create_parent p) s5 () (with_dirs (butlast p) (sees s5))"
    using gives_create_dir_all [OF e4(2) cl5] ne by (simp add: create_parent_def)
  from gives_quiet [OF this e4(2)] obtain s6 where e5: "create_parent p s5 = (Inr (), s6)" "quiet s6"
    and v6: "sees s6 = with_dirs (butlast p) ?V" by (auto simp: v5)
  have parent: "sees s6 (butlast p) = Some Directory"
    using cl5 by (cases "?V (butlast p)") (auto simp: v6 v5 clear_def with_dirs_def intro: file_entry.exhaust)
  have "\<not> path_starts_with (butlast p) p" using ne proper_above [of p p] by blast
  then have "sees s6 p = sees s p" using at5 by (simp add: v6 v5 with_dirs_def)
  with gives_write [OF e5(2) _ parent] nodir have "gives (fs_write p content) s6 () ((sees s6)(p := Some (Bytes content)))" by simp
  from gives_quiet [OF this e5(2)] obtain s7 where e6: "fs_write p content s6 = (Inr (), s7)" "quiet s7"
    and v7: "sees s7 = (sees s6)(p := Some (Bytes content))" by blast
  have "\<exists>x. gives (path_hash p) s7 x (sees s7)" using gives_hash [OF e6(2), of p] by (auto simp: v7)
  from gives_when [OF this] obtain h2 where "gives (io_when c (path_hash p)) s7 h2 (sees s7)" by blast
  from gives_quiet [OF this e6(2)] obtain s8 where e7: "io_when c (path_hash p) s7 = (Inr h2, s8)" "quiet s8"
    and v8: "sees s8 = sees s7" by blast
  let ?rec = "write_record v capability_id tx rel write_kind ?r"
  obtain ref s9 where e8: "record_tx v ?rec s8 = (Inr ref, s9)" "quiet s9" and v9: "sees s9 = sees s8" and rec9: "recorded v ?rec s9"
    using yields_record [OF e7(2), of ?rec v] ids by (auto simp: yields_def write_record_def recorded_def)
  have "yields (io_when c (record_version v capability_id rel tx h1 h2)) s9 (\<lambda>_ s'. os_tree s' = os_tree s9 \<and>
      (\<forall>t. w_files (os_world s') (record_path v t) = w_files (os_world s9) (record_path v t)))"
    by (rule yields_when [OF e8(2) yields_version [OF e8(2)]]) simp
  then obtain ver s10 where e9: "io_when c (record_version v capability_id rel tx h1 h2) s9 = (Inr ver, s10)" "quiet s10"
    and v10: "sees s10 = sees s9" and rec10: "recorded v ?rec s10" using rec9 by (auto simp: yields_def recorded_def)
  let ?kvs = "[(''artifact_ref'', JString (''artifact://'' @ rel)), (''artifact_path'', JString rel),
        (''size_bytes'', jsize (length content)), (''write_kind'', JString write_kind), (''tx_id'', JString tx),
        (''tx_ref'', JString ref), (''artifact_version_tx_ref'', jopt ver)]"
  from yields_success [OF e9(2), of v capability_id ?kvs] obtain s11 where
    e10: "os_success v capability_id ?kvs s10 = (Inr (os_receipt v capability_id ''success'' ?kvs), s11)" "quiet s11"
    and s11: "store_only s10 s11" by (auto simp: yields_def)
  have "write_locked v capability_id p rel content write_kind s1 = (Inr (os_receipt v capability_id ''success'' ?kvs), s11)"
    unfolding write_locked_def
    by (simp only: io_bind_def io_get_apply prod.case sum.case e1(1) e2(1) e3(1) e4(1) e5(1) e6(1) e7(1)
        e8(1) [unfolded write_record_def] e9(1) e10(1))
  moreover have v11: "sees s11 = (with_dirs (butlast p) ?V)(p := Some (Bytes content))"
    using s11 by (simp add: store_only_def v10 v9 v8 v7 v6)
  moreover have view: "sees s11 q = (if q = p then Some (Bytes content) else with_dirs (butlast p) (sees s) q)" if "outside v q" for q
    using off(2) [OF that] by (simp add: v11 with_dirs_def)
  moreover have low: "sees s11 q = ?V q" if "path_starts_with q (oe_state_root v)" for q
  proof -
    from that ap have "q \<noteq> p" "\<not> path_starts_with p q" by (auto simp: apart_def dest: path_starts_with_trans)
    with ne have "\<not> path_starts_with (butlast p) q" using proper_above by blast
    with \<open>q \<noteq> p\<close> show ?thesis by (simp add: v11 with_dirs_def)
  qed
  moreover have bk: "sees s11 (backup_path v tx ''destination'' @ r) = ?V (backup_path v tx ''destination'' @ r)" for r
    by (rule low) (rule backup_path_below)
  moreover have "sees s11 q = ?V q" if "path_starts_with q (lock_dir v)" for q
    using that state_dirs_below(1) by (intro low) (rule path_starts_with_trans)
  moreover have "recorded v ?rec s11" using rec10 s11 by (simp add: recorded_def store_only_def)
  ultimately show ?thesis
    using e10(2) off(1,3) low bk view unfolding written_def by (auto simp: yields_def os_receipt_def)
qed

lemma write_yields:
  assumes ready: "os_ready v s" and "capability_id \<in> set (oe_capabilities v)" and "is_valid_write_kind write_kind"
    and slash: "fwd_slashes rel = rel"
    and r: "resolve_workspace_path (oe_root v) (unix_components rel) = Inr p" and ap: "apart p (oe_state_root v)"
    and nodir: "sees s p \<noteq> Some Directory" and cl: "clear p (without p (sees s))" and depth: "0 < oe_max_depth v"
    and free: "sees s (lock_path v rel) = None"
  shows "yields (write_file_with_capability v capability_id rel content write_kind) s (\<lambda>rc s1.
     written v s capability_id p (tx_name ''os_write'' s) rel content write_kind rc s1 \<and> sees s1 (lock_path v rel) = None)"
proof -
  let ?P = "written v s capability_id p (tx_name ''os_write'' s) rel content write_kind"
  have body: "yields (write_locked v capability_id p rel content write_kind) s1 (\<lambda>rc s2. ?P rc s2 \<and>
      (\<forall>q. path_starts_with q (lock_dir v) \<longrightarrow> sees s2 q = sees s1 q))"
    if "quiet s1" "tree_only s s1" "\<And>q. \<not> path_starts_with q (lock_dir v) \<Longrightarrow> sees s1 q = with_dirs (lock_dir v) (sees s) q" for s1
    using yields_write_locked [OF ready ap nodir cl depth refl that] .
  have stable: "?P rc s3" if "?P rc s2" "tree_only s2 s3"
    "\<And>q. \<not> path_starts_with q (lock_dir v) \<Longrightarrow> sees s3 q = sees s2 q" for rc s2 s3
    using that(1) that(3) [OF locks_not_backups(2)] that(3) [OF off_locks] tree_onlyD(2) [OF that(2)]
    by (simp add: written_def recorded_def)
  have "yields (with_mutation_locks v capability_id [rel] (write_locked v capability_id p rel content write_kind)) s
     (\<lambda>rc s1. ?P rc s1 \<and> (\<forall>q \<in> set [rel]. sees s1 (lock_path v q) = None))"
    using ready free
    by (intro yields_locked [OF _ _ _ single_lock _ body stable]) (auto simp: os_ready_def)
  moreover have "write_file_with_capability v capability_id rel content write_kind s =
      with_mutation_locks v capability_id [rel] (write_locked v capability_id p rel content write_kind) s"
    using assms(2,3) by (simp add: write_file_with_capability_def ensure_capability_def resolve_path_def r slash)
  ultimately show ?thesis by (simp add: yields_def)
qed

text \<open>
  C16: a write is undone by rolling it back. In a run without faults, writing a file of the workspace
  succeeds, leaves exactly the new bytes there and releases its lock; rolling back the transaction
  named in the receipt succeeds and leaves every path outside the state root as it was before, the
  old file with its bytes or no file, except that directories made for the file stay.
\<close>

theorem rollback_undoes_write:
  assumes "os_ready v s" and "capability_id \<in> set (oe_capabilities v)" and "is_valid_write_kind write_kind"
    and "fwd_slashes rel = rel"
    and "resolve_workspace_path (oe_root v) (unix_components rel) = Inr p" and "apart p (oe_state_root v)"
    and "sees s p \<noteq> Some Directory" and "clear p (without p (sees s))" and "0 < oe_max_depth v"
    and "sees s (lock_path v rel) = None"
  shows "\<exists>rc s1 tx rc2 s2. write_file_with_capability v capability_id rel content write_kind s = (Inr rc, s1) \<and>
     rc_status rc = ''success'' \<and> get_str (rc_data rc) ''tx_id'' = Some tx \<and> sees s1 p = Some (Bytes content) \<and>
     sees s1 (lock_path v rel) = None \<and> rollback_tx v tx s1 = (Inr rc2, s2) \<and> rc_status rc2 = ''success'' \<and>
     (\<forall>q. sees s2 q \<noteq> sees s q \<longrightarrow> path_starts_with q (oe_state_root v) \<or>
        path_starts_with (butlast p) q \<and> sees s q = None \<and> sees s2 q = Some Directory)"
proof -
  let ?tx = "tx_name ''os_write'' s"
  note ap = assms(6)
  let ?b = "backup_result v ?tx ''destination'' p (sees s)"
  from write_yields [OF assms, of content] obtain rc s1 where d: "write_file_with_capability v capability_id rel content write_kind s = (Inr rc, s1)"
    "quiet s1" "written v s capability_id p ?tx rel content write_kind rc s1" "sees s1 (lock_path v rel) = None"
    by (auto simp: yields_def)
  have there: "sees s1 p = Some (Bytes content)" using d(3) apart_outside [OF ap] by (simp add: written_def)
  have ids: "list_all id_char ?tx" "?tx \<noteq> []" using tx_name_ok id_prefixes by simp_all
  have ne: "p \<noteq> []" using ap by auto
  have ready: "''os.rollback_tx'' \<in> set (oe_capabilities v)" "oe_truth_job v = oe_job v" "prints_and_parses (oe_codec v)"
    using assms(1) by (simp_all add: os_ready_def)
  have "sees s1 (butlast p) = Some Directory" using sees_above [of "os_tree s1" p "butlast p"] there ne
    by (cases p rule: rev_cases) auto
  then have cl: "clear (butlast p) (sees s1)" by (rule clear_existing)
  have restore: "\<exists>V. gives (restore_side v (Some rel) (fst ?b) (snd ?b)) s3 () V \<and>
     (\<forall>q. path_starts_with q p \<longrightarrow> V q = sees s q) \<and>
     (\<forall>q. \<not> path_starts_with q p \<longrightarrow> V q = (if fst ?b then with_dirs (butlast p) (sees s3) q else sees s3 q))"
    if "tree_only s1 s3" "sees s3 = sees s1" for s3
    using that d ids slots cl depth_of_file [OF assms(7,9)]
    by (intro restore_side_facts [OF _ assms(1,5,6)]) (auto simp: tree_onlyD written_def)
  define V where "V q = (if path_starts_with q p then sees s q else if fst ?b then with_dirs (butlast p) (sees s1) q else sees s1 q)" for q
  have undo: "gives (restore_tx_record v (write_record v capability_id ?tx rel write_kind ?b)) s3 () V"
    if "tree_only s1 s3" "sees s3 = sees s1" for s3
  proof -
    from restore [OF that] obtain V' where V': "gives (restore_side v (Some rel) (fst ?b) (snd ?b)) s3 () V'"
      "\<forall>q. path_starts_with q p \<longrightarrow> V' q = sees s q"
      "\<forall>q. \<not> path_starts_with q p \<longrightarrow> V' q = (if fst ?b then with_dirs (butlast p) (sees s3) q else sees s3 q)" by auto
    then have "V' = V" by (auto simp: V_def that(2))
    with V'(1) have "gives (io_bind (restore_side v (Some rel) (fst ?b) (snd ?b)) (\<lambda>_. restore_side v None False None)) s3 () V"
      by (intro gives_bind [where f = "\<lambda>_. restore_side v None False None"]) (auto simp: restore_side_def gives_def io_simps)
    then show ?thesis by (simp add: restore_tx_record_def write_record_def)
  qed
  have "w_files (os_world s1) (record_path v ?tx) =
      Some (to_string (oe_codec v) (os_tx_record_json (write_record v capability_id ?tx rel write_kind ?b)))"
    using d(3) by (simp add: written_def recorded_def write_record_def)
  from yields_rollback [OF d(2) ready ids this undo [OF tree_only_tick(1)]] obtain rc2 s2 where
    r: "rollback_tx v ?tx s1 = (Inr rc2, s2)" "rc_status rc2 = ''success''" "sees s2 = V" by (auto simp: yields_def)
  have "V q = with_dirs (butlast p) (sees s) q" if "\<not> path_starts_with q (oe_state_root v)" for q
  proof (cases "path_starts_with q p")
    case True
    then have "\<not> path_starts_with (butlast p) q" using proper_above [OF ne] path_starts_with_antisym by blast
    with True show ?thesis by (simp add: V_def with_dirs_def)
  next
    case False
    with that d(3) show ?thesis by (auto simp: V_def written_def outside_def with_dirs_def)
  qed
  then have "V q \<noteq> sees s q \<longrightarrow> path_starts_with q (oe_state_root v) \<or>
        path_starts_with (butlast p) q \<and> sees s q = None \<and> V q = Some Directory" for q
    by (cases "path_starts_with q (oe_state_root v)") (auto simp: with_dirs_def)
  with d there r show ?thesis by (auto simp: written_def)
qed

end
