(* ===== verification/Os_Move.thy ===== *)
theory Os_Move
  imports Os_Claims
begin

text \<open>Copies and moves of the OS runtime, and their rollback.\<close>

definition copy_record :: "os_env \<Rightarrow> string \<Rightarrow> string \<Rightarrow> string \<Rightarrow> string \<Rightarrow> bool \<times> string option \<Rightarrow> bool \<times> string option \<Rightarrow> os_tx_record" where
  "copy_record v capability_id tx source_rel destination_rel source_backup destination_backup =
     \<lparr>ox_tx_id = tx, ox_operation = capability_id, ox_source_path = Some source_rel,
      ox_destination_path = Some destination_rel, ox_write_kind = Some ''source_mutation'',
      ox_source_before_exists = fst source_backup, ox_destination_before_exists = fst destination_backup,
      ox_source_backup_ref = snd source_backup, ox_destination_backup_ref = snd destination_backup\<rparr>"

text \<open>The view outside the state root after a copy or a move.\<close>

definition copy_view :: "path \<Rightarrow> path \<Rightarrow> bool \<Rightarrow> (path \<Rightarrow> file_entry option) \<Rightarrow> path \<Rightarrow> file_entry option" where
  "copy_view source destination remove_source W q =
     (if remove_source \<and> path_starts_with q source then None
      else if path_starts_with q destination then W (source @ drop (length destination) q)
      else with_dirs (butlast destination) W q)"

definition transferred ::
  "os_env \<Rightarrow> os_state \<Rightarrow> string \<Rightarrow> path \<Rightarrow> path \<Rightarrow> string \<Rightarrow> string \<Rightarrow> string \<Rightarrow> bool \<Rightarrow> capability_receipt \<Rightarrow> os_state \<Rightarrow> bool" where
  "transferred v s capability_id source destination tx source_rel destination_rel remove_source rc s2 \<longleftrightarrow>
     rc_status rc = ''success'' \<and> get_str (rc_data rc) ''tx_id'' = Some tx \<and>
     recorded v (copy_record v capability_id tx source_rel destination_rel
       (backup_result v tx ''source'' source (sees s)) (backup_result v tx ''destination'' destination (sees s))) s2 \<and>
     (\<forall>r. sees s2 (backup_path v tx ''source'' @ r) = sees s (source @ r)) \<and>
     (sees s destination \<noteq> None \<longrightarrow> (\<forall>r. sees s2 (backup_path v tx ''destination'' @ r) = sees s (destination @ r))) \<and>
     (\<forall>q. outside v q \<longrightarrow> sees s2 q = copy_view source destination remove_source (sees s) q)"

text \<open>What a transfer needs: both paths in the workspace, apart, and no file in the way.\<close>

definition transfer_ready :: "os_env \<Rightarrow> os_state \<Rightarrow> path \<Rightarrow> path \<Rightarrow> bool" where
  "transfer_ready v s source destination \<longleftrightarrow>
     os_ready v s \<and> apart source (oe_state_root v) \<and> apart destination (oe_state_root v) \<and> apart source destination \<and>
     sees s source \<noteq> None \<and> clear destination (without destination (sees s)) \<and>
     depth_below (oe_max_depth v) source (sees s) \<and> depth_below (oe_max_depth v) destination (sees s)"

lemma transfer_readyD:
  assumes "transfer_ready v s source destination"
  shows "os_ready v s" "apart source (oe_state_root v)" "apart destination (oe_state_root v)" "apart source destination"
    "sees s source \<noteq> None" "clear destination (without destination (sees s))"
    "depth_below (oe_max_depth v) source (sees s)" "depth_below (oe_max_depth v) destination (sees s)"
    "source \<noteq> []" "destination \<noteq> []"
  using assms by (auto simp: transfer_ready_def)

lemma proper_not_below: "p \<noteq> [] \<Longrightarrow> path_starts_with (butlast p) q \<Longrightarrow> \<not> path_starts_with q p"
  using proper_above path_starts_with_antisym by blast

lemma apart_not_above: "apart p d \<Longrightarrow> \<not> path_starts_with (butlast d) (p @ r)"
  using apart_not_below(2) [of p d r] proper_above [of d "p @ r"] by (cases "d = []") auto

lemma apart_zone: "apart p d \<Longrightarrow> path_starts_with q d \<Longrightarrow> \<not> path_starts_with q p \<and> \<not> path_starts_with p q"
proof -
  assume a: "apart p d" and "path_starts_with q d"
  then obtain r where q: "q = d @ r" by (auto simp: path_starts_with_iff)
  have "apart d p" using a by (simp add: apart_sym)
  from apart_not_below [OF this, of r] q show ?thesis by simp
qed

lemma clear_parent:
  assumes "clear p (without p (sees s))" and "outside v p" and "p \<noteq> []" and "\<And>q. outside v q \<Longrightarrow> W q = sees s q"
  shows "clear (butlast p) W"
  unfolding clear_def
proof (intro allI impI)
  fix q b
  assume "path_starts_with (butlast p) q"
  with assms(3) have "path_starts_with p q" "\<not> path_starts_with q p" using proper_above proper_not_below by blast+
  with assms(1,2,4) outside_above show "W q \<noteq> Some (Bytes b)" by (auto simp: clear_def without_def)
qed

lemma without_parent: "p \<noteq> [] \<Longrightarrow> clear (butlast p) W \<Longrightarrow> clear (butlast p) (with_dirs d W)"
  by (auto simp: clear_def with_dirs_def)

text \<open>Making the parent, removing the destination, copying, removing the source.\<close>

lemma gives_transfer:
  assumes q: "quiet s1" and ready: "transfer_ready v s source destination"
    and out: "\<And>q. outside v q \<Longrightarrow> sees s1 q = sees s q"
  shows "\<exists>V. gives (io_bind (create_parent destination) (\<lambda>_. io_bind io_get (\<lambda>s.
     io_bind (if path_exists (os_tree s) destination then remove_path_any destination else io_return ()) (\<lambda>_.
     io_bind (copy_path_recursive (oe_max_depth v) source destination) (\<lambda>_.
     if remove_source then remove_path_any source else io_return ()))))) s1 () V \<and>
     (\<forall>q. outside v q \<longrightarrow> V q = copy_view source destination remove_source (sees s) q) \<and>
     (\<forall>q. path_starts_with q (oe_state_root v) \<longrightarrow> V q = sees s1 q)"
proof -
  note r = transfer_readyD [OF ready]
  have cl: "clear (butlast destination) (sees s1)" using r(6) apart_outside [OF r(3)] r(10) out by (rule clear_parent)
  let ?C = "with_dirs (butlast destination) (sees s1)"
  let ?D = "replaced source destination ?C"
  let ?V = "if remove_source then without source ?D else ?D"
  have src: "?C (source @ x) = sees s (source @ x)" for x
    using apart_not_above [OF r(4)] out [OF outside_below [OF r(2)]] by (simp add: with_dirs_def)
  have src_off: "\<not> path_starts_with (source @ x) destination" for x using r(4) by (rule apart_not_below)
  have "gives (create_parent destination) s1 () ?C"
    using gives_create_dir_all [OF q cl] r(10) by (simp add: create_parent_def)
  from gives_quiet [OF this q] obtain s2 where e1: "create_parent destination s1 = (Inr (), s2)" "quiet s2" "tree_only s1 s2"
    and v2: "sees s2 = ?C" by blast
  from gives_quiet [OF gives_remove_if [OF e1(2) r(10)] e1(2)] obtain s3 where
    e2: "(if path_exists (os_tree s2) destination then remove_path_any destination else io_return ()) s2 = (Inr (), s3)"
      "quiet s3" "tree_only s2 s3" and v3: "sees s3 = without destination ?C" by (auto simp: v2)
  have "gives (copy_path_recursive (oe_max_depth v) source destination) s3 () ?D"
  proof (rule gives_copy_over [OF e2(2) r(4) _ v3])
    show "sees s3 source \<noteq> None" using r(5) src [of "[]"] src_off [of "[]"] by (simp add: v3 without_def)
    show "clear (butlast destination) ?C" using r(10) cl by (rule without_parent)
    show "depth_below (oe_max_depth v) source ?C" using r(7) by (simp add: depth_below_def src)
  qed
  from gives_quiet [OF this e2(2)] obtain s4 where e3: "copy_path_recursive (oe_max_depth v) source destination s3 = (Inr (), s4)"
    "quiet s4" "tree_only s3 s4" and v4: "sees s4 = ?D" by blast
  have at_source: "?D (source @ x) = sees s (source @ x)" for x
    using src_off [of x] apart_not_above [OF r(4)] src by (simp add: replaced_def with_dirs_off)
  have "gives (if remove_source then remove_path_any source else io_return ()) s4 () ?V"
    using gives_remove [OF e3(2), of source] at_source [of "[]"] r(5,9) gives_return [of "()" s4] by (simp add: v4)
  from gives_quiet [OF this e3(2)] obtain s5 where
    e4: "(if remove_source then remove_path_any source else io_return ()) s4 = (Inr (), s5)" "tree_only s4 s5" and v5: "sees s5 = ?V" by blast
  have "gives (io_bind (create_parent destination) (\<lambda>_. io_bind io_get (\<lambda>s.
     io_bind (if path_exists (os_tree s) destination then remove_path_any destination else io_return ()) (\<lambda>_.
     io_bind (copy_path_recursive (oe_max_depth v) source destination) (\<lambda>_.
     if remove_source then remove_path_any source else io_return ()))))) s1 () ?V"
    unfolding gives_def
    by (intro exI [of _ s5] conjI v5 tree_only_trans [OF e1(3)] tree_only_trans [OF e2(3)] tree_only_trans [OF e3(3)] e4(2))
      (simp only: io_bind_def io_get_apply prod.case sum.case e1(1) e2(1) e3(1) e4(1))
  moreover have "?V q = copy_view source destination remove_source (sees s) q" if "outside v q" for q
  proof (cases "path_starts_with q destination")
    case True
    then show ?thesis using src_off by (auto simp: copy_view_def without_def replaced_def src path_starts_with_iff)
  next
    case False
    then show ?thesis using out [OF that] by (simp add: copy_view_def without_def replaced_def with_dirs_def)
  qed
  moreover have "?V q = sees s1 q" if "path_starts_with q (oe_state_root v)" for q
  proof -
    have "\<not> path_starts_with q source" "\<not> path_starts_with q destination" "\<not> path_starts_with destination q"
      using apart_zone [OF r(2) that] apart_zone [OF r(3) that] by simp_all
    moreover from this r(10) have "\<not> path_starts_with (butlast destination) q" using proper_above by blast
    ultimately show ?thesis by (simp add: without_def replaced_def with_dirs_def)
  qed
  ultimately show ?thesis by blast
qed

lemma yields_copy_locked:
  assumes ready: "transfer_ready v s source destination" and tx: "tx = tx_name ''os_mutation'' s"
    and s1: "quiet s1" "tree_only s s1" "\<And>q. \<not> path_starts_with q (lock_dir v) \<Longrightarrow> sees s1 q = with_dirs (lock_dir v) (sees s) q"
  shows "yields (copy_locked v capability_id source destination source_rel destination_rel remove_source) s1 (\<lambda>rc s2.
     transferred v s capability_id source destination tx source_rel destination_rel remove_source rc s2 \<and>
     (\<forall>q. path_starts_with q (lock_dir v) \<longrightarrow> sees s2 q = sees s1 q))"
proof -
  note r = transfer_readyD [OF ready]
  note start = locked_start [OF r(1) s1(3)]
  have dir: "sees s (oe_state_root v) = Some Directory" using r(1) by (simp add: os_ready_def)
  let ?A = "backup_view v tx ''source'' source (sees s1)"
  let ?B = "backup_view v tx ''destination'' destination ?A"
  let ?rs = "backup_result v tx ''source'' source (sees s)" and ?rd = "backup_result v tx ''destination'' destination (sees s)"
  have sub: "sees s1 (source @ x) = sees s (source @ x)" "sees s1 (destination @ x) = sees s (destination @ x)" for x
    using start(1) outside_below [OF r(2)] outside_below [OF r(3)] by blast+
  have here: "sees s1 source = sees s source" "sees s1 destination = sees s destination" using sub [of "[]"] by simp_all
  have A: "?A (backup_path v tx ''source'' @ x) = sees s (source @ x)" "outside v q \<Longrightarrow> ?A q = sees s q"
    "path_starts_with q (lock_dir v) \<Longrightarrow> ?A q = sees s1 q" for q x
    using backup_view_facts [OF r(2) dir start(1), where tx = tx and slot = "''source''"] here r(5) sub by simp_all
  have ids: "list_all id_char tx" "tx \<noteq> []" using tx_name_ok id_prefixes tx by simp_all
  from yields_tx_id [OF s1(1), of "''os_mutation''"] tx_name_tree_only [OF s1(2)] tx obtain s2 where
    e1: "new_tx_id ''os_mutation'' s1 = (Inr tx, s2)" "quiet s2" and v2: "sees s2 = sees s1"
    by (auto simp: yields_def store_only_def)
  have "depth_below (oe_max_depth v) source (sees s1)" using r(7) by (simp add: depth_below_def sub)
  then have "gives (backup_workspace_path v tx ''source'' source) s2 ?rs ?A"
    using gives_backup_any [OF e1(2) r(2), where tx = tx and slot = "''source''"] start(2)
    by (simp add: v2 slots backup_result_def here)
  from gives_quiet [OF this e1(2)] obtain s3 where e2: "backup_workspace_path v tx ''source'' source s2 = (Inr ?rs, s3)" "quiet s3"
    and v3: "sees s3 = ?A" by blast
  have "sees s3 (backup_path v tx ''source'') \<noteq> None" using A(1) [of "[]"] r(5) by (simp add: v3)
  then have bdir: "?A (backup_dir v tx) = Some Directory"
    using sees_above [of "os_tree s3" "backup_path v tx ''source''" "backup_dir v tx"] by (simp add: backup_path_def v3)
  have B: "?B (backup_path v tx ''source'' @ x) = sees s (source @ x)" "outside v q \<Longrightarrow> ?B q = sees s q"
    "path_starts_with q (lock_dir v) \<Longrightarrow> ?B q = sees s1 q"
    "sees s destination \<noteq> None \<Longrightarrow> ?B (backup_path v tx ''destination'' @ x) = sees s (destination @ x)" for q x
    using backup_view_facts [OF r(3) dir A(2), where tx = tx and slot = "''destination''"] A bdir outside_below [OF r(3)]
      apart_outside [OF r(3)] by simp_all
  have sub3: "sees s3 (destination @ x) = sees s (destination @ x)" for x
    using A(2) [OF outside_below [OF r(3)]] by (simp add: v3)
  have "clear (backup_dir v tx) (sees s3)" using bdir clear_existing [of "os_tree s3"] by (simp add: v3)
  moreover have "depth_below (oe_max_depth v) destination (sees s3)" using r(8) by (simp add: depth_below_def sub3)
  moreover have "sees s3 destination = sees s destination" using sub3 [of "[]"] by simp
  ultimately have "gives (backup_workspace_path v tx ''destination'' destination) s3 ?rd ?B"
    using gives_backup_any [OF e2(2) r(3), where tx = tx and slot = "''destination''"]
    by (simp add: slots backup_result_def v3)
  from gives_quiet [OF this e2(2)] obtain s4 where e3: "backup_workspace_path v tx ''destination'' destination s3 = (Inr ?rd, s4)"
    "quiet s4" and v4: "sees s4 = ?B" by blast
  let ?t = "io_bind (create_parent destination) (\<lambda>_. io_bind io_get (\<lambda>s.
     io_bind (if path_exists (os_tree s) destination then remove_path_any destination else io_return ()) (\<lambda>_.
     io_bind (copy_path_recursive (oe_max_depth v) source destination) (\<lambda>_.
     if remove_source then remove_path_any source else io_return ()))))"
  from gives_transfer [OF e3(2) ready, of remove_source] B(2) obtain V where g: "gives ?t s4 () V"
    and V: "\<And>q. outside v q \<Longrightarrow> V q = copy_view source destination remove_source (sees s) q"
      "\<And>q. path_starts_with q (oe_state_root v) \<Longrightarrow> V q = ?B q" by (auto simp: v4)
  from gives_quiet [OF g e3(2)] obtain s5 where e4: "?t s4 = (Inr (), s5)" "quiet s5" and v5: "sees s5 = V" by blast
  let ?rec = "copy_record v capability_id tx source_rel destination_rel ?rs ?rd"
  obtain ref s6 where e5: "record_tx v ?rec s5 = (Inr ref, s6)" "quiet s6" and v6: "sees s6 = V" and rec6: "recorded v ?rec s6"
    using yields_record [OF e4(2), of ?rec v] ids by (auto simp: yields_def copy_record_def recorded_def v5)
  let ?kvs = "[(''source_path'', JString source_rel), (''destination_path'', JString destination_rel),
        (''tx_id'', JString tx), (''tx_ref'', JString ref)]"
  from yields_success [OF e5(2), of v capability_id ?kvs] obtain s7 where
    e6: "os_success v capability_id ?kvs s6 = (Inr (os_receipt v capability_id ''success'' ?kvs), s7)" "quiet s7"
    and s7: "store_only s6 s7" by (auto simp: yields_def)
  have "copy_locked v capability_id source destination source_rel destination_rel remove_source s1 =
      io_bind ?t (\<lambda>_. io_bind (record_tx v ?rec) (\<lambda>tx_ref. os_success v capability_id
       [(''source_path'', JString source_rel), (''destination_path'', JString destination_rel),
        (''tx_id'', JString tx), (''tx_ref'', JString tx_ref)])) s4"
    unfolding copy_locked_def io_bind_assoc
    by (simp only: io_bind_Inr [where m = "new_tx_id ''os_mutation''", OF e1(1)]
        io_bind_Inr [where m = "backup_workspace_path v tx ''source'' source", OF e2(1)]
        io_bind_Inr [where m = "backup_workspace_path v tx ''destination'' destination", OF e3(1)] copy_record_def)
  also have "\<dots> = (Inr (os_receipt v capability_id ''success'' ?kvs), s7)"
    by (simp only: io_bind_Inr [where m = ?t, OF e4(1)] io_bind_Inr [where m = "record_tx v ?rec", OF e5(1)] e6(1))
  finally have run: "copy_locked v capability_id source destination source_rel destination_rel remove_source s1 =
     (Inr (os_receipt v capability_id ''success'' ?kvs), s7)" .
  have v7: "sees s7 = V" using s7 by (simp add: store_only_def v6)
  have "sees s7 q = ?B q" if "path_starts_with q (lock_dir v)" for q
    using that state_dirs_below(1) V(2) path_starts_with_trans unfolding v7 by blast
  moreover have "sees s7 (backup_path v tx slot @ x) = ?B (backup_path v tx slot @ x)" for slot x
    using V(2) [OF backup_path_below] by (simp add: v7)
  moreover have "recorded v ?rec s7" using rec6 s7 by (simp add: recorded_def store_only_def)
  ultimately show ?thesis
    using run e6(2) B V(1) unfolding transferred_def by (auto simp: yields_def os_receipt_def v7)
qed

lemma two_locks:
  assumes "safe_blob_name a \<noteq> safe_blob_name b"
  shows "distinct (map (lock_path v) (sort_dedup [a, b]))"
proof -
  have "distinct (sort_dedup [a, b])" using sorted_sort_dedup [of "[a, b]"] by (simp add: strict_sorted_iff)
  then show ?thesis using assms by (auto simp: distinct_map inj_on_def lock_path_def)
qed

lemma transfer_yields:
  assumes ready: "transfer_ready v s source destination" and "capability_id \<in> set (oe_capabilities v)"
    and slash: "fwd_slashes source_rel = source_rel" "fwd_slashes destination_rel = destination_rel"
    and res: "resolve_workspace_path (oe_root v) (unix_components source_rel) = Inr source"
      "resolve_workspace_path (oe_root v) (unix_components destination_rel) = Inr destination"
    and free: "sees s (lock_path v source_rel) = None" "sees s (lock_path v destination_rel) = None"
    and two: "safe_blob_name source_rel \<noteq> safe_blob_name destination_rel"
  shows "yields (copy_like v capability_id source_rel destination_rel remove_source) s (\<lambda>rc s1.
     transferred v s capability_id source destination (tx_name ''os_mutation'' s) source_rel destination_rel remove_source rc s1 \<and>
     sees s1 (lock_path v source_rel) = None \<and> sees s1 (lock_path v destination_rel) = None)"
proof -
  let ?P = "transferred v s capability_id source destination (tx_name ''os_mutation'' s) source_rel destination_rel remove_source"
  let ?body = "copy_locked v capability_id source destination source_rel destination_rel remove_source"
  note r = transfer_readyD [OF ready]
  have body: "yields ?body s1 (\<lambda>rc s2. ?P rc s2 \<and> (\<forall>q. path_starts_with q (lock_dir v) \<longrightarrow> sees s2 q = sees s1 q))"
    if "quiet s1" "tree_only s s1" "\<And>q. \<not> path_starts_with q (lock_dir v) \<Longrightarrow> sees s1 q = with_dirs (lock_dir v) (sees s) q" for s1
    using yields_copy_locked [OF ready refl that] .
  have stable: "?P rc s3" if "?P rc s2" "tree_only s2 s3"
    "\<And>q. \<not> path_starts_with q (lock_dir v) \<Longrightarrow> sees s3 q = sees s2 q" for rc s2 s3
    using that(1) that(3) [OF locks_not_backups(2)] that(3) [OF off_locks] tree_onlyD(2) [OF that(2)]
    by (simp add: transferred_def recorded_def)
  have "yields (with_mutation_locks v capability_id [source_rel, destination_rel] ?body) s
     (\<lambda>rc s1. ?P rc s1 \<and> (\<forall>q \<in> set [source_rel, destination_rel]. sees s1 (lock_path v q) = None))"
    using r(1) free
    by (intro yields_locked [OF _ _ _ two_locks [OF two] _ body stable]) (auto simp: os_ready_def)
  moreover have "copy_like v capability_id source_rel destination_rel remove_source s =
      with_mutation_locks v capability_id [source_rel, destination_rel] ?body s"
    using assms(2) r(5) by (cases "sees s source")
      (simp_all add: copy_like_def ensure_capability_def resolve_path_def res io_simps path_exists_def slash)
  ultimately show ?thesis by (simp add: yields_def)
qed

text \<open>What the two restored sides leave, outside the state root.\<close>

lemma gives_restore_transfer:
  assumes ready: "transfer_ready v s source destination" and names: "list_all id_char tx" "tx \<noteq> []"
    and res: "resolve_workspace_path (oe_root v) (unix_components source_rel) = Inr source"
      "resolve_workspace_path (oe_root v) (unix_components destination_rel) = Inr destination"
    and t: "transferred v s capability_id source destination tx source_rel destination_rel remove_source rc s1" and q: "quiet s1"
  shows "\<exists>V. gives (restore_tx_record v (copy_record v capability_id tx source_rel destination_rel
       (backup_result v tx ''source'' source (sees s)) (backup_result v tx ''destination'' destination (sees s)))) s1 () V \<and>
     (\<forall>q. outside v q \<longrightarrow> V q = with_dirs (butlast destination) (sees s) q)"
proof -
  note r = transfer_readyD [OF ready]
  let ?rs = "backup_result v tx ''source'' source (sees s)" and ?rd = "backup_result v tx ''destination'' destination (sees s)"
  have out: "sees s1 q = copy_view source destination remove_source (sees s) q" if "outside v q" for q
    using t that by (simp add: transferred_def)
  have ap': "apart destination source" using r(4) by (simp add: apart_sym)
  have "\<not> (remove_source \<and> path_starts_with destination source)" "copy_view source destination remove_source (sees s) destination = sees s source"
    using apart_not_below(1) [OF ap', of "[]"] by (simp_all add: copy_view_def)
  then have "sees s1 destination \<noteq> None" using out [OF apart_outside [OF r(3)]] r(5) by simp
  then have "sees s1 (butlast destination) = Some Directory"
    using sees_above [of "os_tree s1" destination "butlast destination"] r(10) by (cases destination rule: rev_cases) auto
  then have cl: "clear (butlast destination) (sees s1)" by (rule clear_existing)
  have "\<exists>V. gives (restore_side v (Some destination_rel) (fst ?rd) (snd ?rd)) s1 () V \<and>
     (\<forall>q. path_starts_with q destination \<longrightarrow> V q = sees s q) \<and>
     (\<forall>q. \<not> path_starts_with q destination \<longrightarrow> V q = (if fst ?rd then with_dirs (butlast destination) (sees s1) q else sees s1 q))"
    using t names slots cl r(8) by (intro restore_side_facts [OF q r(1) res(2) r(3)]) (auto simp: transferred_def)
  then obtain V1 where V1: "gives (restore_side v (Some destination_rel) (fst ?rd) (snd ?rd)) s1 () V1"
     "\<And>q. path_starts_with q destination \<Longrightarrow> V1 q = sees s q"
     "\<And>q. \<not> path_starts_with q destination \<Longrightarrow> V1 q = (if fst ?rd then with_dirs (butlast destination) (sees s1) q else sees s1 q)"
    by blast
  from gives_quiet [OF V1(1) q] obtain s2 where e1: "restore_side v (Some destination_rel) (fst ?rd) (snd ?rd) s1 = (Inr (), s2)"
    "quiet s2" "tree_only s1 s2" and v2: "sees s2 = V1" by blast
  have held: "V1 (backup_path v tx ''source'' @ x) = sees s (source @ x)" for x
  proof -
    have z: "\<not> path_starts_with (backup_path v tx ''source'' @ x) destination"
      "\<not> path_starts_with destination (backup_path v tx ''source'' @ x)"
      using apart_zone [OF r(3) backup_path_below] by simp_all
    with r(10) have "\<not> path_starts_with (butlast destination) (backup_path v tx ''source'' @ x)" using proper_above by blast
    with z V1(3) t show ?thesis by (simp add: with_dirs_def transferred_def)
  qed
  have V1_out: "V1 q = with_dirs (butlast destination) (sees s) q" if "outside v q" "\<not> path_starts_with q source" for q
  proof (cases "path_starts_with q destination")
    case True
    with proper_not_below [OF r(10), of q] have "\<not> path_starts_with (butlast destination) q" by blast
    with True V1(2) show ?thesis by (simp add: with_dirs_def)
  next
    case False
    with V1(3) out [OF that(1)] that(2) show ?thesis by (simp add: copy_view_def with_dirs_def)
  qed
  have above: "sees s q = Some Directory" "outside v q" "\<not> path_starts_with q source" if "path_starts_with (butlast source) q" for q
    using proper_above [OF r(9) that] proper_not_below [OF r(9) that] sees_above [OF r(5)]
      outside_above [OF apart_outside [OF r(2)]] by blast+
  have "clear (butlast source) V1"
    using above V1_out by (auto simp: clear_def with_dirs_def)
  then have "\<exists>V. gives (restore_side v (Some source_rel) (fst ?rs) (snd ?rs)) s2 () V \<and>
     (\<forall>q. path_starts_with q source \<longrightarrow> V q = sees s q) \<and>
     (\<forall>q. \<not> path_starts_with q source \<longrightarrow> V q = (if fst ?rs then with_dirs (butlast source) (sees s2) q else sees s2 q))"
    using names slots r(7) held by (intro restore_side_facts [OF e1(2) r(1) res(1) r(2)]) (auto simp: v2)
  then obtain V2 where V2: "gives (restore_side v (Some source_rel) (fst ?rs) (snd ?rs)) s2 () V2"
     "\<And>q. path_starts_with q source \<Longrightarrow> V2 q = sees s q"
     "\<And>q. \<not> path_starts_with q source \<Longrightarrow> V2 q = (if fst ?rs then with_dirs (butlast source) V1 q else V1 q)"
    unfolding v2 by blast
  have "gives (restore_tx_record v (copy_record v capability_id tx source_rel destination_rel ?rs ?rd)) s1 () V2"
    unfolding restore_tx_record_def copy_record_def os_tx_record.simps
    by (rule gives_after [where m = "restore_side v (Some destination_rel) (fst ?rd) (snd ?rd)", OF e1(1,3) V2(1)])
  moreover have "V2 q = with_dirs (butlast destination) (sees s) q" if "outside v q" for q
  proof (cases "path_starts_with q source")
    case True
    then obtain x where "q = source @ x" by (auto simp: path_starts_with_iff)
    with apart_not_above [OF r(4)] have "\<not> path_starts_with (butlast destination) q" by simp
    with True V2(2) show ?thesis by (simp add: with_dirs_def)
  next
    case False
    then show ?thesis using V2(3) V1_out [OF that] above(1) by (auto simp: with_dirs_def)
  qed
  ultimately show ?thesis by blast
qed

text \<open>
  C17: a copy or move is undone by rolling it back. In a run without faults, copying or moving an
  existing path of the workspace to a path apart from it succeeds and puts the source's files at
  the destination; rolling back the transaction named in the receipt succeeds and leaves every path
  outside the state root as it was before, both the source and whatever was at the destination,
  except that directories made for the destination stay.
\<close>

theorem rollback_undoes_transfer:
  assumes "transfer_ready v s source destination" and "capability_id \<in> set (oe_capabilities v)"
    and "fwd_slashes source_rel = source_rel" and "fwd_slashes destination_rel = destination_rel"
    and "resolve_workspace_path (oe_root v) (unix_components source_rel) = Inr source"
    and "resolve_workspace_path (oe_root v) (unix_components destination_rel) = Inr destination"
    and "sees s (lock_path v source_rel) = None" and "sees s (lock_path v destination_rel) = None"
    and "safe_blob_name source_rel \<noteq> safe_blob_name destination_rel"
  shows "\<exists>rc s1 tx rc2 s2. copy_like v capability_id source_rel destination_rel remove_source s = (Inr rc, s1) \<and>
     rc_status rc = ''success'' \<and> get_str (rc_data rc) ''tx_id'' = Some tx \<and>
     (\<forall>r. sees s1 (destination @ r) = sees s (source @ r)) \<and>
     (\<forall>r. sees s1 (source @ r) = (if remove_source then None else sees s (source @ r))) \<and>
     rollback_tx v tx s1 = (Inr rc2, s2) \<and> rc_status rc2 = ''success'' \<and>
     (\<forall>q. sees s2 q \<noteq> sees s q \<longrightarrow> path_starts_with q (oe_state_root v) \<or>
        path_starts_with (butlast destination) q \<and> sees s q = None \<and> sees s2 q = Some Directory)"
proof -
  let ?tx = "tx_name ''os_mutation'' s"
  note r = transfer_readyD [OF assms(1)]
  from transfer_yields [OF assms, of remove_source] obtain rc s1 where
    d: "copy_like v capability_id source_rel destination_rel remove_source s = (Inr rc, s1)" "quiet s1"
    and t: "transferred v s capability_id source destination ?tx source_rel destination_rel remove_source rc s1"
    by (auto simp: yields_def)
  have ids: "list_all id_char ?tx" "?tx \<noteq> []" using tx_name_ok id_prefixes by simp_all
  have ready: "''os.rollback_tx'' \<in> set (oe_capabilities v)" "oe_truth_job v = oe_job v" "prints_and_parses (oe_codec v)"
    using r(1) by (simp_all add: os_ready_def)
  have ap': "apart destination source" using r(4) by (simp add: apart_sym)
  have arrived: "sees s1 (destination @ x) = sees s (source @ x)"
      "sees s1 (source @ x) = (if remove_source then None else sees s (source @ x))" for x
    using t outside_below [OF r(2)] outside_below [OF r(3)] apart_not_below(1) [OF ap'] apart_not_below(1) [OF r(4)]
      apart_not_above [OF r(4)] by (simp_all add: transferred_def copy_view_def with_dirs_def)
  let ?rec = "copy_record v capability_id ?tx source_rel destination_rel
       (backup_result v ?tx ''source'' source (sees s)) (backup_result v ?tx ''destination'' destination (sees s))"
  have rec: "w_files (os_world s1) (record_path v ?tx) = Some (to_string (oe_codec v) (os_tx_record_json ?rec))"
    using t by (simp add: transferred_def recorded_def copy_record_def)
  have t': "transferred v s capability_id source destination ?tx source_rel destination_rel remove_source rc (tick s1)"
    using t by (simp add: transferred_def recorded_def tick_def)
  from gives_restore_transfer [OF assms(1) ids assms(5,6) t'] d(2) obtain V where
    V: "gives (restore_tx_record v ?rec) (tick s1) () V" "\<forall>q. outside v q \<longrightarrow> V q = with_dirs (butlast destination) (sees s) q"
    by auto
  from yields_rollback [OF d(2) ready ids rec V(1)] obtain rc2 s2 where
    u: "rollback_tx v ?tx s1 = (Inr rc2, s2)" "rc_status rc2 = ''success''" "sees s2 = V" by (auto simp: yields_def)
  have "V q \<noteq> sees s q \<longrightarrow> path_starts_with q (oe_state_root v) \<or>
        path_starts_with (butlast destination) q \<and> sees s q = None \<and> V q = Some Directory" for q
    using V(2) by (cases "path_starts_with q (oe_state_root v)") (auto simp: with_dirs_def outside_def)
  with d(1) t arrived u show ?thesis by (auto simp: transferred_def)
qed

end
