(* ===== verification/Os_Safety.thy ===== *)
theory Os_Safety
  imports Os_Move
begin

text \<open>
  What holds of the OS runtime whatever fails: it changes nothing outside the workspace and the state
  root. Then the lock discipline, and two operations that lose data.
\<close>

section \<open>Confinement\<close>

text \<open>Nothing changes except below, or above, the directories \<open>ds\<close>.\<close>

definition within :: "path set \<Rightarrow> os_state \<Rightarrow> os_state \<Rightarrow> bool" where
  "within ds s s' \<longleftrightarrow> (\<forall>q. (\<forall>d \<in> ds. apart q d) \<longrightarrow> sees s' q = sees s q)"

abbreviation stays_within :: "path set \<Rightarrow> (os_state, 'a) io \<Rightarrow> bool" where
  "stays_within ds m \<equiv> io_keeps (within ds) m"

lemma within_refl [simp]: "reflp (within ds)"
  by (simp add: reflp_def within_def)

lemma within_trans [simp]: "transp (within ds)"
  by (simp add: transp_def within_def)

lemma within_pure [simp]:
  "stays_within ds (io_return x)" "stays_within ds (io_fail e)" "stays_within ds (io_lift r)" "stays_within ds io_get"
  by (rule io_keeps_pure [OF within_refl])+

lemma within_bind: "stays_within ds m \<Longrightarrow> (\<And>x. stays_within ds (f x)) \<Longrightarrow> stays_within ds (io_bind m f)"
  by (rule io_keeps_bind [OF within_trans])

text \<open>A step that depends on the state it starts in.\<close>

lemma within_get: "(\<And>s. stays_within ds (f s)) \<Longrightarrow> stays_within ds (io_bind io_get f)"
  by (rule within_bind) simp_all

lemma within_world [simp]: "stays_within ds (on_world m)"
  by (simp add: io_keeps_def on_world_def within_def split: prod.split)

lemma within_if: "stays_within ds m \<Longrightarrow> stays_within ds n \<Longrightarrow> stays_within ds (if b then m else n)"
  by simp

lemma within_ignore: "stays_within ds m \<Longrightarrow> stays_within ds (ignore_error m)"
  by (simp add: io_keeps_def ignore_error_def)

lemma within_finally: "stays_within ds m \<Longrightarrow> stays_within ds c \<Longrightarrow> stays_within ds (finally_do m c)"
  unfolding io_keeps_def finally_do_def
  by (auto simp: within_def split: prod.split) (metis snd_conv)

text \<open>The directories hold every changed path.\<close>

definition covered :: "path set \<Rightarrow> path \<Rightarrow> bool" where
  "covered ds p \<longleftrightarrow> (\<exists>d \<in> ds. path_starts_with p d)"

lemma covered_append: "covered ds p \<Longrightarrow> covered ds (p @ r)"
  by (meson covered_def path_starts_with_append path_starts_with_trans)

lemma covered_apart: "covered ds p \<Longrightarrow> \<forall>d \<in> ds. apart q d \<Longrightarrow> apart q p"
  by (auto simp: covered_def path_starts_with_iff intro: apart_append(2))

lemma alter_apart: "apart q p \<Longrightarrow> view (alter p f t) q = view t q"
  by (simp add: view_def look_alter_apart apart_sym)

lemma within_tree_op: "covered ds p \<Longrightarrow> stays_within ds (tree_op p f)"
  by (auto simp: io_keeps_def tree_op_def within_def Let_def alter_apart covered_apart split: prod.split sum.split)

lemma within_put: "covered ds p \<Longrightarrow> within ds s (s\<lparr>os_tree := alter p f (os_tree s)\<rparr>)"
  by (simp add: within_def alter_apart covered_apart)

lemma mkdirs_apart: "mkdirs p t = Some n \<Longrightarrow> apart q p \<Longrightarrow> view (Some n) q = view t q"
  by (simp add: view_mkdirs apart_def)

text \<open>Making directories up to a covered path.\<close>

lemma within_mkdirs:
  assumes "covered ds p \<or> (\<exists>x. covered ds (p @ [x]))"
  shows "stays_within ds (fs_create_dir_all p)"
proof -
  have "view (Some n) q = view t q" if n: "mkdirs p t = Some n" and q: "\<forall>d \<in> ds. apart q d" for n t q
  proof (cases "covered ds p")
    case True
    then show ?thesis using mkdirs_apart [OF n covered_apart [OF True q]] by simp
  next
    case False
    with assms obtain x where "covered ds (p @ [x])" by blast
    then have "apart q (p @ [x])" using q by (rule covered_apart)
    then have "\<not> path_starts_with p q" by (auto simp: apart_def path_starts_with_iff)
    then show ?thesis by (simp add: view_mkdirs [OF n])
  qed
  then have "within ds s (s\<lparr>os_tree := Some n\<rparr>)" if "mkdirs p (os_tree s) = Some n" for s n
    using that by (simp add: within_def)
  then have "stays_within ds (io_bind io_get (\<lambda>s. case mkdirs p (os_tree s) of
      None \<Rightarrow> io_fail (IoError AlreadyExists ''File exists'') | Some n \<Rightarrow> put_tree (Some n)))"
    unfolding io_keeps_def by (simp add: io_simps split: option.split) (simp add: within_def)
  then show ?thesis unfolding fs_create_dir_all_def by (rule within_bind [OF within_world])
qed

lemma within_parent: "covered ds p \<Longrightarrow> stays_within ds (create_parent p)"
proof (cases p rule: rev_cases)
  case (snoc r x)
  assume "covered ds p"
  with snoc show ?thesis by (auto simp: create_parent_def intro: within_mkdirs)
qed (simp add: create_parent_def)

lemma within_write: "covered ds p \<Longrightarrow> stays_within ds (fs_write p content)"
  unfolding fs_write_def by (intro within_get within_if within_tree_op within_pure)

lemma within_read [simp]: "stays_within ds (fs_read p)"
  unfolding fs_read_def by (intro within_bind [OF within_world] within_get) (auto split: option.split file_entry.split)

lemma within_read_dir [simp]: "stays_within ds (fs_read_dir p)"
  unfolding fs_read_dir_def by (intro within_bind [OF within_world] within_get within_if within_pure)

lemma within_alter: "covered ds p \<Longrightarrow> stays_within ds (io_bind io_get (\<lambda>s. put_tree (alter p f (os_tree s))))"
  by (simp add: io_keeps_def io_simps within_put)

lemma within_remove_file: "covered ds p \<Longrightarrow> stays_within ds (fs_remove_file p)"
proof -
  assume c: "covered ds p"
  have "stays_within ds (io_bind io_get (\<lambda>s. if is_file (os_tree s) p then put_tree (alter p (\<lambda>_. None) (os_tree s))
       else io_fail (IoError NotFound ''No such file or directory'')))"
    using within_put [OF c] by (simp add: io_keeps_def io_simps) (simp add: within_def)
  then show ?thesis unfolding fs_remove_file_def by (rule within_bind [OF within_world])
qed

lemma within_create_new: "covered ds p \<Longrightarrow> stays_within ds (fs_create_new p)"
proof -
  assume c: "covered ds p"
  have "stays_within ds (io_bind io_get (\<lambda>s.
       if path_exists (os_tree s) p then io_return False
       else if \<not> is_dir (os_tree s) (butlast p) then io_fail (IoError NotFound ''No such file or directory'')
       else io_bind (put_tree (alter p (\<lambda>_. Some (FileNode [])) (os_tree s))) (\<lambda>_. io_return True)))"
    using within_put [OF c] by (simp add: io_keeps_def io_bind_def io_simps) (simp add: within_def)
  then show ?thesis unfolding fs_create_new_def by (rule within_bind [OF within_world])
qed

lemma within_remove: "covered ds p \<Longrightarrow> stays_within ds (remove_path_any p)"
  unfolding remove_path_any_def fs_remove_dir_all_def
  by (intro within_get within_if within_tree_op within_remove_file within_pure)

lemma within_each: "(\<And>x. stays_within ds (f x)) \<Longrightarrow> stays_within ds (io_each f xs)"
  by (induction xs) (auto intro: within_bind)

lemma within_copy: "covered ds destination \<Longrightarrow> stays_within ds (copy_path_recursive n source destination)"
proof (induction n arbitrary: source destination)
  case (Suc n)
  have "stays_within ds (fs_copy source destination)"
    unfolding fs_copy_def using Suc.prems by (intro within_bind within_read within_write)
  then show ?case unfolding copy_path_recursive.simps
    using Suc.prems Suc.IH [OF covered_append [OF Suc.prems]]
    by (intro within_get within_if within_bind within_mkdirs within_each within_parent within_read_dir within_pure) auto
qed simp

section \<open>The operations\<close>

lemma within_append [simp]: "stays_within ds (os_append v ty d)"
  unfolding os_append_def by (rule within_bind [OF within_world within_pure(1)])

lemma within_emit [simp]: "stays_within ds (emit_receipt v ty r)"
  by (simp add: emit_receipt_def)

lemma within_success [simp]: "stays_within ds (os_success v capability_id kvs)"
  unfolding os_success_def Let_def by (rule within_bind [OF within_emit within_pure(1)])

lemma within_blocked_data [simp]: "stays_within ds (blocked_receipt_with_data v capability_id kvs)"
  unfolding blocked_receipt_with_data_def Let_def
  by (intro within_bind within_if within_ignore within_append within_pure)

lemma within_blocked [simp]: "stays_within ds (blocked_receipt v capability_id reason)"
  by (simp add: blocked_receipt_def)

lemma within_ensure: "stays_within ds m \<Longrightarrow> stays_within ds (ensure_capability v capability_id m)"
  by (simp add: ensure_capability_def)

lemma within_resolve:
  "(\<And>p. resolve_workspace_path (oe_root v) (unix_components rel) = Inr p \<Longrightarrow> stays_within ds (f p)) \<Longrightarrow>
   stays_within ds (io_bind (resolve_path v rel) f)"
  by (simp add: resolve_path_def split: sum.split)

lemma within_tx_id [simp]: "stays_within ds (new_tx_id prefix)"
  by (simp add: io_keeps_def new_tx_id_def Let_def io_bind_def io_return_def on_world_def now_ms_def within_def)

lemma within_when: "stays_within ds m \<Longrightarrow> stays_within ds (io_when b m)"
  by (auto simp: io_when_def intro: within_bind)

lemma within_hash [simp]: "stays_within ds (path_hash p)"
  unfolding path_hash_def by (rule within_bind [OF within_read within_pure(1)])

lemma within_record [simp]: "stays_within ds (record_tx v r)"
  unfolding record_tx_def by (intro within_bind within_world within_if within_append within_pure)

lemma within_version [simp]: "stays_within ds (record_version v capability_id p tx h1 h2)"
  unfolding record_version_def artifact_revision_count_def Let_def
  by (intro within_bind within_world within_if within_append within_pure)

lemma within_try_acquire: "covered ds (oe_state_root v) \<Longrightarrow> stays_within ds (try_acquire v p)"
  unfolding try_acquire_def lock_path_def lock_dir_def
  by (intro within_bind within_if within_mkdirs within_create_new within_write within_pure covered_append disjI1)

lemma within_release: "\<forall>l \<in> set locks. covered ds l \<Longrightarrow> stays_within ds (release_locks locks)"
  unfolding release_locks_def
  by (induction locks) (auto intro: within_bind within_ignore within_remove_file)

lemma try_acquire_path: "try_acquire v p s = (Inr (Some l), s') \<Longrightarrow> l = lock_path v p"
  by (auto simp: try_acquire_def io_simps elim!: io_bindE split: if_splits)

lemma covered_lock: "covered ds (oe_state_root v) \<Longrightarrow> covered ds (lock_path v p)"
  by (simp add: lock_path_def lock_dir_def covered_append)

lemma within_acquire:
  assumes "covered ds (oe_state_root v)" and "\<forall>l \<in> set locks. covered ds l"
  shows "within ds s (snd (acquire_locks v ps locks s))" and
    "acquire_locks v ps locks s = (Inr (Inr ls), s') \<Longrightarrow> \<forall>l \<in> set ls. covered ds l"
proof -
  have "within ds s (snd (acquire_locks v ps locks s)) \<and>
    (\<forall>ls s'. acquire_locks v ps locks s = (Inr (Inr ls), s') \<longrightarrow> (\<forall>l \<in> set ls. covered ds l))"
    using assms(2)
  proof (induction ps arbitrary: s locks)
    case (Cons p ps)
    obtain r s1 where t: "try_acquire v p s = (r, s1)" by (cases "try_acquire v p s")
    have w: "within ds s s1" using io_keepsD [OF within_try_acquire [OF assms(1)] t] .
    have drop: "within ds s1 (snd (release_locks locks s1))"
      using within_release [OF Cons.prems] by (simp add: io_keeps_def)
    note trans = transpD [OF within_trans w]
    consider e where "r = Inl e" | "r = Inr None" | l where "r = Inr (Some l)" by (metis option.exhaust sum.exhaust)
    then show ?case
    proof cases
      case 3
      then have "l = lock_path v p" using t try_acquire_path by blast
      then have "\<forall>l' \<in> set (locks @ [l]). covered ds l'" using Cons.prems covered_lock [OF assms(1)] by simp
      from Cons.IH [OF this, of s1] t 3 trans show ?thesis by auto
    qed (use t trans [OF drop] in auto)
  qed (simp add: io_simps within_def)
  then show "within ds s (snd (acquire_locks v ps locks s))"
    "acquire_locks v ps locks s = (Inr (Inr ls), s') \<Longrightarrow> \<forall>l \<in> set ls. covered ds l" by auto
qed

lemma within_locks:
  assumes "covered ds (oe_state_root v)" and "stays_within ds m"
  shows "stays_within ds (with_mutation_locks v capability_id paths m)"
  unfolding io_keeps_def
proof
  fix s
  obtain r s1 where a: "acquire_locks v (sort_dedup paths) [] s = (r, s1)" by (cases "acquire_locks v (sort_dedup paths) [] s")
  have w: "within ds s s1" using within_acquire(1) [OF assms(1), of "[]" s "sort_dedup paths"] a by simp
  note trans = transpD [OF within_trans w]
  consider e where "r = Inl e" | c where "r = Inr (Inl c)" | ls where "r = Inr (Inr ls)" by (metis sum.exhaust)
  then show "within ds s (snd (with_mutation_locks v capability_id paths m s))"
  proof cases
    case 1
    with a w show ?thesis by (simp add: with_mutation_locks_def Let_def io_bind_def)
  next
    case (2 c)
    have "within ds s1 (snd (blocked_receipt_with_data v capability_id kvs s1))" for kvs
      using within_blocked_data by (simp add: io_keeps_def)
    with 2 a trans show ?thesis by (simp add: with_mutation_locks_def Let_def io_bind_def)
  next
    case (3 ls)
    with a within_acquire(2) [OF assms(1), of "[]"] have "\<forall>l \<in> set ls. covered ds l" by simp
    then have "within ds s1 (snd (finally_do m (release_locks ls) s1))"
      using within_finally [OF assms(2) within_release] by (simp add: io_keeps_def)
    with 3 a trans show ?thesis by (simp add: with_mutation_locks_def Let_def io_bind_def)
  qed
qed

lemma within_backup: "covered ds (oe_state_root v) \<Longrightarrow> stays_within ds (backup_workspace_path v tx slot p)"
  unfolding backup_workspace_path_def Let_def
  by (intro within_bind within_get within_if within_mkdirs within_remove within_copy within_pure covered_append disjI1)

lemma within_write_locked:
  "covered ds (oe_state_root v) \<Longrightarrow> covered ds p \<Longrightarrow> stays_within ds (write_locked v capability_id p rel content write_kind)"
  unfolding write_locked_def
  by (intro within_bind within_get within_if within_when within_tx_id within_world within_hash within_backup within_parent
      within_write within_record within_version within_success within_pure)

lemma within_write_op:
  assumes "covered ds (oe_state_root v)"
    and "\<And>p. resolve_workspace_path (oe_root v) (unix_components rel) = Inr p \<Longrightarrow> covered ds p"
  shows "stays_within ds (write_file_with_capability v capability_id rel content write_kind)"
  unfolding write_file_with_capability_def Let_def
  by (intro within_ensure within_if within_blocked_data within_resolve within_locks within_write_locked assms)

lemma within_delete_op:
  assumes "covered ds (oe_state_root v)"
    and "\<And>p. resolve_workspace_path (oe_root v) (unix_components rel) = Inr p \<Longrightarrow> covered ds p"
  shows "stays_within ds (delete_path v rel)"
  unfolding delete_path_def delete_locked_def
  by (intro within_ensure within_if within_blocked within_resolve within_get within_locks within_bind within_tx_id
      within_backup within_remove within_record within_success assms)

lemma within_copy_op:
  assumes "covered ds (oe_state_root v)"
    and "\<And>p. resolve_workspace_path (oe_root v) (unix_components source) = Inr p \<Longrightarrow> covered ds p"
    and "\<And>p. resolve_workspace_path (oe_root v) (unix_components destination) = Inr p \<Longrightarrow> covered ds p"
  shows "stays_within ds (copy_like v capability_id source destination remove_source)"
  unfolding copy_like_def copy_locked_def
  by (intro within_ensure within_if within_blocked within_resolve within_get within_locks within_bind within_tx_id
      within_backup within_parent within_remove within_copy within_record within_success within_pure assms)

lemma within_resolve_all: "stays_within ds (resolve_all v ps)"
  by (induction ps) (auto intro!: within_resolve within_bind)

lemma within_zip_op:
  assumes "covered ds (oe_state_root v)"
    and "\<And>p. resolve_workspace_path (oe_root v) (unix_components destination) = Inr p \<Longrightarrow> covered ds p"
  shows "stays_within ds (zip_paths v sources destination)"
  unfolding zip_paths_def os_write_store_zip_def Let_def
  by (intro within_ensure within_bind within_tx_id within_resolve within_backup within_resolve_all within_parent
      within_world within_get within_write within_record within_success within_pure assms)

lemma covered_archive: "covered ds destination \<Longrightarrow> resolve_archive_entry destination name = Inr t \<Longrightarrow> covered ds t"
  by (auto simp: resolve_archive_entry_def resolve_below_iff covered_append split: option.splits)

lemma within_unzip_loop: "covered ds destination \<Longrightarrow> stays_within ds (os_read_zip_loop bytes destination offset n)"
proof (induction bytes destination offset n rule: os_read_zip_loop.induct)
  case (1 bytes destination offset n)
  have "stays_within ds (os_extract_entry destination name content)" for name content
  proof (cases "resolve_archive_entry destination name")
    case (Inl e)
    then have "os_extract_entry destination name content = io_fail e"
      by (simp add: os_extract_entry_def fun_eq_iff io_lift_def io_bind_def io_fail_def)
    then show ?thesis by simp
  next
    case (Inr t)
    then have "os_extract_entry destination name content = io_bind (create_parent t) (\<lambda>_. fs_write t content)"
      by (simp add: os_extract_entry_def fun_eq_iff io_lift_def io_bind_def)
    with covered_archive [OF 1(2) Inr] show ?thesis by (auto intro: within_bind within_parent within_write)
  qed
  with 1 show ?case
    by (subst os_read_zip_loop.simps) (auto intro!: within_bind split: sum.split option.split)
qed

lemma within_unzip_op:
  assumes "covered ds (oe_state_root v)"
    and "\<And>p. resolve_workspace_path (oe_root v) (unix_components destination) = Inr p \<Longrightarrow> covered ds p"
  shows "stays_within ds (unzip_archive v archive destination)"
  unfolding unzip_archive_def os_read_store_zip_def
  by (intro within_ensure within_bind within_tx_id within_resolve within_backup within_mkdirs within_unzip_loop
      within_if within_blocked within_get within_read within_record within_success assms disjI1)

lemma within_restore_side:
  assumes "\<And>rel p. resolve_workspace_path (oe_root v) (unix_components rel) = Inr p \<Longrightarrow> covered ds p"
  shows "stays_within ds (restore_side v side before ref)"
proof -
  have "stays_within ds (restore_tx_backup n j st r p)" if "covered ds p" for n j st r p
    using that within_copy by (auto simp: restore_tx_backup_def split: option.split)
  then show ?thesis unfolding restore_side_def
    using assms by (auto intro!: within_resolve within_get within_bind within_remove split: option.split)
qed

lemma within_rollback_op:
  assumes "\<And>rel p. resolve_workspace_path (oe_root v) (unix_components rel) = Inr p \<Longrightarrow> covered ds p"
  shows "stays_within ds (rollback_tx v tx)"
proof -
  have decoded: "stays_within ds (case x of None \<Rightarrow> io_fail e | Some record \<Rightarrow> m record)"
    if "\<And>record. stays_within ds (m record)" for x e and m :: "os_tx_record \<Rightarrow> (os_state, capability_receipt) io"
    using that by (simp split: option.split)
  show ?thesis unfolding rollback_tx_def restore_tx_record_def Let_def
    by (intro within_ensure within_bind within_get within_if within_blocked within_world within_emit within_pure
        within_restore_side assms decoded)
qed

text \<open>
  C18: whatever fails, a change of the workspace stays where it was asked for. Writing, deleting,
  copying or moving, and packing an archive leave the entry at every path unchanged, except at
  paths below or above the resolved arguments and the state root; no fault of the system, taken
  lock or error on the way breaks this.
\<close>

theorem changes_stay_at_their_paths:
  assumes "resolve_workspace_path (oe_root v) (unix_components a) = Inr p"
    and "resolve_workspace_path (oe_root v) (unix_components b) = Inr q"
    and "apart x p" and "apart x q" and "apart x (oe_state_root v)"
  shows "sees (snd (write_file_with_capability v c a content k s)) x = sees s x \<and>
     sees (snd (delete_path v a s)) x = sees s x \<and>
     sees (snd (copy_like v c a b r s)) x = sees s x \<and>
     sees (snd (zip_paths v sources a s)) x = sees s x"
proof -
  let ?ds = "{p, q, oe_state_root v}"
  have c: "covered ?ds p" "covered ?ds q" "covered ?ds (oe_state_root v)" by (auto simp: covered_def)
  have "sees (snd (m s)) x = sees s x" if "stays_within ?ds m" for m :: "(os_state, capability_receipt) io"
    using that assms(3-5) by (simp add: io_keeps_def within_def)
  moreover have "stays_within ?ds (write_file_with_capability v c a content k)"
    by (rule within_write_op [OF c(3)]) (simp add: assms c)
  moreover have "stays_within ?ds (delete_path v a)" by (rule within_delete_op [OF c(3)]) (simp add: assms c)
  moreover have "stays_within ?ds (copy_like v c a b r)" by (rule within_copy_op [OF c(3)]) (simp_all add: assms c)
  moreover have "stays_within ?ds (zip_paths v sources a)" by (rule within_zip_op [OF c(3)]) (simp add: assms c)
  ultimately show ?thesis by blast
qed

text \<open>
  C19: the OS runtime never leaves its directories. Whatever the arguments, the faults of the system
  and the records or archives it reads, each operation that changes files leaves every path
  that is neither below nor above the workspace root or the state root as it was.
\<close>

theorem os_runtime_confined:
  assumes "apart x (oe_root v)" and "apart x (oe_state_root v)"
  shows "sees (snd (write_file_with_capability v c a content k s)) x = sees s x \<and>
     sees (snd (delete_path v a s)) x = sees s x \<and>
     sees (snd (copy_like v c a b r s)) x = sees s x \<and>
     sees (snd (zip_paths v sources a s)) x = sees s x \<and>
     sees (snd (unzip_archive v a b s)) x = sees s x \<and>
     sees (snd (rollback_tx v tx s)) x = sees s x"
proof -
  let ?ds = "{oe_root v, oe_state_root v}"
  have st: "covered ?ds (oe_state_root v)" by (auto simp: covered_def)
  have p: "covered ?ds p" if "resolve_workspace_path (oe_root v) (unix_components rel) = Inr p" for rel p
  proof -
    from that obtain q where "p = oe_root v @ q" by (auto simp: resolve_refines_walk)
    then show ?thesis by (auto simp: covered_def)
  qed
  have "sees (snd (m s)) x = sees s x" if "stays_within ?ds m" for m :: "(os_state, capability_receipt) io"
    using that assms by (simp add: io_keeps_def within_def)
  moreover have "stays_within ?ds (write_file_with_capability v c a content k)" using st p by (rule within_write_op)
  moreover have "stays_within ?ds (delete_path v a)" using st p by (rule within_delete_op)
  moreover have "stays_within ?ds (copy_like v c a b r)" using st p p by (rule within_copy_op)
  moreover have "stays_within ?ds (zip_paths v sources a)" using st p by (rule within_zip_op)
  moreover have "stays_within ?ds (unzip_archive v a b)" using st p by (rule within_unzip_op)
  moreover have "stays_within ?ds (rollback_tx v tx)" using p by (rule within_rollback_op)
  ultimately show ?thesis by blast
qed

end
