(* ===== verification/Os_Hazards.thy ===== *)
theory Os_Hazards
  imports Os_Safety
begin

text \<open>
  Conflicts over lock files, and two ways in which the OS runtime loses data: the rollback of an
  extraction removes the archive, and a move of a path onto itself removes the path.
\<close>

section \<open>Conflicts\<close>

lemma acquire_conflict:
  assumes "quiet s" and "clear (lock_dir v) (sees s)" and "\<forall>l \<in> set locks. l \<noteq> [] \<and> (\<exists>b. sees s l = Some (Bytes b))"
    and "(\<exists>p \<in> set ps. sees s (lock_path v p) \<noteq> None) \<or> \<not> distinct (map (lock_path v) ps)"
  shows "\<exists>p s'. acquire_locks v ps locks s = (Inr (Inl p), s') \<and> tree_only s s' \<and>
     (\<forall>q. sees s' q = (if q \<in> set locks then None else with_dirs (lock_dir v) (sees s) q))"
  using assms
proof (induction ps arbitrary: s locks)
  case Nil
  then show ?case by simp
next
  case (Cons p ps)
  show ?case
  proof (cases "sees s (lock_path v p) = None")
    case False
    from gives_quiet [OF gives_try_acquire_taken [OF Cons.prems(1) False] Cons.prems(1)] obtain s1 where
      t: "try_acquire v p s = (Inr None, s1)" "quiet s1" "tree_only s s1" "sees s1 = sees s" by blast
    have "\<forall>l \<in> set locks. l \<noteq> [] \<and> sees s1 l \<noteq> Some Directory" using Cons.prems(3) t(4) by auto
    from gives_quiet [OF gives_release [OF t(2) this] t(2)] obtain s2 where
      u: "release_locks locks s1 = (Inr (), s2)" "tree_only s1 s2" "sees s2 = (\<lambda>q. if q \<in> set locks then None else sees s1 q)" by blast
    have "sees s (lock_dir v) = Some Directory"
      using False sees_above [of "os_tree s" "lock_path v p" "lock_dir v"] by (simp add: lock_path_below)
    then have "with_dirs (lock_dir v) (sees s) = sees s" by (rule with_dirs_existing)
    with t u show ?thesis by (auto intro: tree_only_trans)
  next
    case True
    let ?l = "lock_path v p"
    from gives_quiet [OF gives_try_acquire [OF Cons.prems(1,2) True] Cons.prems(1)] obtain s1 where
      t: "try_acquire v p s = (Inr (Some ?l), s1)" "quiet s1" "tree_only s s1"
        "sees s1 = (with_dirs (lock_dir v) (sees s))(?l := Some (Bytes (lock_text v p)))" by blast
    have off: "\<not> path_starts_with (lock_dir v) (lock_path v r)" for r by (auto simp: lock_path_below path_starts_with_iff)
    have cl: "clear (lock_dir v) (sees s1)"
      using Cons.prems(2) off by (auto simp: clear_def t(4) with_dirs_def split: if_splits)
    have held: "\<forall>l \<in> set (locks @ [?l]). l \<noteq> [] \<and> (\<exists>b. sees s1 l = Some (Bytes b))"
      using Cons.prems(3) by (auto simp: t(4) with_dirs_def lock_path_below)
    have "(\<exists>r \<in> set ps. sees s1 (lock_path v r) \<noteq> None) \<or> \<not> distinct (map (lock_path v) ps)"
    proof (cases "?l \<in> lock_path v ` set ps")
      case True
      then obtain r where "r \<in> set ps" "lock_path v r = ?l" by auto
      then show ?thesis by (auto simp: t(4))
    next
      case False
      with Cons.prems(4) True show ?thesis by (auto simp: t(4) with_dirs_def)
    qed
    from Cons.IH [OF t(2) cl held this] obtain r s2 where
      u: "acquire_locks v ps (locks @ [?l]) s1 = (Inr (Inl r), s2)" "tree_only s1 s2"
        "\<forall>q. sees s2 q = (if q \<in> set (locks @ [?l]) then None else with_dirs (lock_dir v) (sees s1) q)" by blast
    have "sees s2 q = (if q \<in> set locks then None else with_dirs (lock_dir v) (sees s) q)" for q
      using u(3) True off by (auto simp: t(4) with_dirs_def)
    with t u show ?thesis by (auto intro: tree_only_trans)
  qed
qed

lemma blocked_quiet:
  assumes "quiet s"
  shows "yields (blocked_receipt_with_data v capability_id kvs) s (\<lambda>rc s'. rc = os_receipt v capability_id ''blocked'' kvs \<and> store_only s s')"
proof -
  have ign: "yields (ignore_error (os_append v ty d)) s (\<lambda>_. store_only s)" if "quiet s" for s ty d
    using yields_append [OF that, of v ty d] by (auto simp: yields_def ignore_error_def)
  show ?thesis unfolding blocked_receipt_with_data_def Let_def
    by (rule yields_bind [where P = "\<lambda>_. store_only s"])
      (auto intro!: yields_return assms yields_bind [OF ign [OF assms]] yields_weaken [OF ign] elim: store_only_trans)
qed

text \<open>A conflict: the body does not run, what was taken is dropped, the tree is as before.\<close>

lemma locks_conflict:
  assumes "quiet s" and "clear (lock_dir v) (sees s)"
    and "(\<exists>p \<in> set paths. sees s (lock_path v p) \<noteq> None) \<or> \<not> distinct (map (lock_path v) (sort_dedup paths))"
  shows "yields (with_mutation_locks v capability_id paths rest) s (\<lambda>rc s'. rc_status rc = ''blocked'' \<and>
     get_str (rc_data rc) ''reason'' = Some ''workspace_file_lock_conflict'' \<and> sees s' = with_dirs (lock_dir v) (sees s))"
proof -
  from acquire_conflict [OF assms(1,2), of "[]" "sort_dedup paths"] assms(3) obtain p s1 where
    a: "acquire_locks v (sort_dedup paths) [] s = (Inr (Inl p), s1)" "tree_only s s1" "sees s1 = with_dirs (lock_dir v) (sees s)"
    by auto
  have q: "quiet s1" using a(2) assms(1) by (simp add: tree_onlyD)
  have "with_mutation_locks v capability_id paths rest s = blocked_receipt_with_data v capability_id
          [(''reason'', JString ''workspace_file_lock_conflict''),
           (''message'', JString ''target path is locked by another active run''),
           (''target_paths'', jstrings (sort_dedup paths)), (''conflict_path'', JString p),
           (''no_file_written'', Bool True), (''recoverable_by_task_agent'', Bool True)] s1"
    using a(1) by (simp add: with_mutation_locks_def Let_def io_bind_def)
  moreover have "yields (blocked_receipt_with_data v capability_id
          [(''reason'', JString ''workspace_file_lock_conflict''),
           (''message'', JString ''target path is locked by another active run''),
           (''target_paths'', jstrings (sort_dedup paths)), (''conflict_path'', JString p),
           (''no_file_written'', Bool True), (''recoverable_by_task_agent'', Bool True)]) s1
     (\<lambda>rc s'. rc_status rc = ''blocked'' \<and>
     get_str (rc_data rc) ''reason'' = Some ''workspace_file_lock_conflict'' \<and> sees s' = with_dirs (lock_dir v) (sees s))"
    by (rule yields_weaken [OF blocked_quiet [OF q]]) (auto simp: store_only_def os_receipt_def a(3))
  ultimately show ?thesis by (simp only: yields_def)
qed

lemma lock_dir_exists:
  "sees s (lock_path v p) \<noteq> None \<Longrightarrow> with_dirs (lock_dir v) (sees s) = sees s \<and> clear (lock_dir v) (sees s)"
  using sees_above [of "os_tree s" "lock_path v p" "lock_dir v"]
  by (simp add: lock_path_below with_dirs_existing clear_existing)

text \<open>The blocked receipt of a lock conflict.\<close>

definition lock_conflict :: "capability_receipt \<Rightarrow> bool" where
  "lock_conflict rc \<longleftrightarrow> rc_status rc = ''blocked'' \<and> get_str (rc_data rc) ''reason'' = Some ''workspace_file_lock_conflict''"

lemma taken_lock_blocks:
  assumes "quiet s" and "a \<in> set ps" and "sees s (lock_path v a) \<noteq> None"
  shows "\<exists>rc s'. with_mutation_locks v c ps rest s = (Inr rc, s') \<and> lock_conflict rc \<and> sees s' = sees s"
proof -
  have dir: "with_dirs (lock_dir v) (sees s) = sees s" "clear (lock_dir v) (sees s)"
    using lock_dir_exists [OF assms(3)] by simp_all
  have "(\<exists>p \<in> set ps. sees s (lock_path v p) \<noteq> None) \<or> \<not> distinct (map (lock_path v) (sort_dedup ps))"
    using assms(2,3) by blast
  from locks_conflict [OF assms(1) dir(2) this, of c rest] show ?thesis
    by (auto simp: yields_def lock_conflict_def dir(1))
qed

text \<open>
  C20: a path whose lock is held is not touched. While the lock file of a path exists, a write or a
  deletion of it, a copy or move from it, and a copy or move to it from any existing path, answer with
  the blocked receipt of a lock conflict and leave the whole file system as it was, locks of other runs
  included. The lock belongs to the path as it is spelled in the request.
\<close>

theorem held_lock_blocks_changes:
  assumes "quiet s" and "capability_id \<in> set (oe_capabilities v)" and "''os.delete_path'' \<in> set (oe_capabilities v)"
    and "is_valid_write_kind write_kind"
    and "resolve_workspace_path (oe_root v) (unix_components a) = Inr p" and "sees s p \<noteq> None"
    and "resolve_workspace_path (oe_root v) (unix_components b) = Inr q"
    and "sees s (lock_path v (fwd_slashes a)) \<noteq> None"
  shows "(\<exists>r s1. write_file_with_capability v capability_id a content write_kind s = (Inr r, s1) \<and> lock_conflict r \<and> sees s1 = sees s) \<and>
     (\<exists>r s1. delete_path v a s = (Inr r, s1) \<and> lock_conflict r \<and> sees s1 = sees s) \<and>
     (\<exists>r s1. copy_like v capability_id a b remove_source s = (Inr r, s1) \<and> lock_conflict r \<and> sees s1 = sees s) \<and>
     (sees s q \<noteq> None \<longrightarrow>
       (\<exists>r s1. copy_like v capability_id b a remove_source s = (Inr r, s1) \<and> lock_conflict r \<and> sees s1 = sees s))"
proof -
  have ex: "path_exists (os_tree s) x \<longleftrightarrow> sees s x \<noteq> None" for x by (simp add: path_exists_def)
  have "write_file_with_capability v capability_id a content write_kind s =
      with_mutation_locks v capability_id [fwd_slashes a] (write_locked v capability_id p (fwd_slashes a) content write_kind) s"
    "delete_path v a s = with_mutation_locks v ''os.delete_path'' [fwd_slashes a] (delete_locked v p (fwd_slashes a)) s"
    "copy_like v capability_id a b remove_source s = with_mutation_locks v capability_id [fwd_slashes a, fwd_slashes b]
      (copy_locked v capability_id p q (fwd_slashes a) (fwd_slashes b) remove_source) s"
    "sees s q \<noteq> None \<Longrightarrow> copy_like v capability_id b a remove_source s = with_mutation_locks v capability_id [fwd_slashes b, fwd_slashes a]
      (copy_locked v capability_id q p (fwd_slashes b) (fwd_slashes a) remove_source) s"
    using assms(2-7)
    by (simp_all add: write_file_with_capability_def delete_path_def copy_like_def ensure_capability_def resolve_path_def io_simps Let_def ex)
  with taken_lock_blocks [OF assms(1) _ assms(8)] show ?thesis by simp
qed

text \<open>
  The lock of a path is not its own. The lock's name is the path with every character but
  letters, digits, dots, dashes and underscores made an underscore; a copy or move between two
  different paths with the same lock name is blocked by itself, although no run holds a lock.
\<close>

theorem transfer_blocks_itself:
  assumes "quiet s" and "clear (lock_dir v) (sees s)" and "capability_id \<in> set (oe_capabilities v)"
    and "fwd_slashes a = a" and "fwd_slashes b = b" and "a \<noteq> b" and "safe_blob_name a = safe_blob_name b"
    and "resolve_workspace_path (oe_root v) (unix_components a) = Inr p" and "sees s p \<noteq> None"
    and "resolve_workspace_path (oe_root v) (unix_components b) = Inr q"
  shows "\<exists>rc s1. copy_like v capability_id a b remove_source s = (Inr rc, s1) \<and> rc_status rc = ''blocked'' \<and>
     get_str (rc_data rc) ''reason'' = Some ''workspace_file_lock_conflict'' \<and> sees s1 = with_dirs (lock_dir v) (sees s)"
proof -
  have "\<not> distinct (map (lock_path v) (sort_dedup [a, b]))"
  proof
    assume "distinct (map (lock_path v) (sort_dedup [a, b]))"
    then have "inj_on (lock_path v) (set [a, b])" by (simp add: distinct_map)
    with assms(6,7) show False by (auto simp: inj_on_def lock_path_def)
  qed
  with locks_conflict [OF assms(1,2), where paths = "[a, b]"]
  have "yields (with_mutation_locks v capability_id [a, b] (copy_locked v capability_id p q a b remove_source)) s
     (\<lambda>rc s'. rc_status rc = ''blocked'' \<and> get_str (rc_data rc) ''reason'' = Some ''workspace_file_lock_conflict'' \<and>
       sees s' = with_dirs (lock_dir v) (sees s))" by blast
  moreover have "path_exists (os_tree s) p" using assms(9) by (simp add: path_exists_def)
  then have "copy_like v capability_id a b remove_source s =
     with_mutation_locks v capability_id [a, b] (copy_locked v capability_id p q a b remove_source) s"
    using assms by (simp add: copy_like_def ensure_capability_def resolve_path_def io_simps)
  ultimately show ?thesis by (auto simp: yields_def)
qed

section \<open>The rollback of an extraction\<close>

definition unzip_record :: "string \<Rightarrow> string \<Rightarrow> string \<Rightarrow> bool \<times> string option \<Rightarrow> os_tx_record" where
  "unzip_record tx archive destination backup =
     \<lparr>ox_tx_id = tx, ox_operation = ''os.unzip'', ox_source_path = Some archive, ox_destination_path = Some destination,
      ox_write_kind = Some ''artifact'', ox_source_before_exists = True, ox_destination_before_exists = fst backup,
      ox_source_backup_ref = None, ox_destination_backup_ref = snd backup\<rparr>"

lemma append_store: "os_append v ty d s = (Inr x, s') \<Longrightarrow> store_only s s'"
proof -
  assume a: "os_append v ty d s = (Inr x, s')"
  obtain r w where r: "append_event (oe_truth_job v) (Some (oe_pid v)) ty d (os_world s) = (r, w)"
    by (cases "append_event (oe_truth_job v) (Some (oe_pid v)) ty d (os_world s)")
  have "w_files w = w_files (os_world s)" using append_event_frame [OF r] by simp
  with a r show ?thesis
    by (cases r) (auto simp: os_append_def on_world_def io_bind_def io_simps store_only_def)
qed

lemma emit_store: "emit_receipt v ty r s = (Inr x, s') \<Longrightarrow> store_only s s'"
  by (cases "oe_emit_events v") (simp_all add: emit_receipt_def append_store io_simps)

lemma success_store:
  "os_success v c kvs s = (Inr rc, s') \<Longrightarrow> store_only s s' \<and> rc = os_receipt v c ''success'' kvs"
  by (auto simp: os_success_def Let_def io_simps elim!: io_bindE dest: emit_store)

lemma blocked_status: "blocked_receipt v c reason s = (Inr rc, s') \<Longrightarrow> rc_status rc = ''blocked''"
  by (auto simp: blocked_receipt_def blocked_receipt_with_data_def Let_def io_simps os_receipt_def elim!: io_bindE)

lemma tx_id_name: "new_tx_id prefix s = (Inr tx, s') \<Longrightarrow> \<exists>u. tx = tx_name prefix u"
  by (auto simp: new_tx_id_def Let_def io_bind_def on_world_def now_ms_def io_return_def tx_name_def)

lemma record_stored:
  assumes "record_tx v r s = (Inr ref, s')" and "list_all id_char (ox_tx_id r)" and "ox_tx_id r \<noteq> []"
  shows "recorded v r s'"
proof -
  from assms(1) obtain s1 x where b: "on_world (write_blob (oe_truth_job v) (''tx/'' @ safe_blob_name (ox_tx_id r) @ ''.json'')
      (to_string (oe_codec v) (os_tx_record_json r))) s = (Inr x, s1)"
    and e: "store_only s1 s'"
    unfolding record_tx_def by (auto simp: io_simps elim!: io_bindE split: if_splits dest!: append_store)
  from b have "w_files (os_world s1) (blob_root (oe_truth_job v) @ normals (unix_components (''tx/'' @ safe_blob_name (ox_tx_id r) @ ''.json''))) =
      Some (to_string (oe_codec v) (os_tx_record_json r))"
    by (auto simp: on_world_def write_blob_def io_bind_def put_world_def io_return_def sys_op_def Let_def
        split: prod.splits sum.splits if_splits)
  then have "w_files (os_world s1) (record_path v (ox_tx_id r)) = Some (to_string (oe_codec v) (os_tx_record_json r))"
    by (simp only: record_path_written(1) [OF assms(2,3)] record_path_def)
  with e show ?thesis by (simp add: recorded_def store_only_def)
qed

lemma unzip_recorded:
  assumes "unzip_archive v a d s = (Inr rc, s1)" and "rc_status rc = ''success''"
  shows "\<exists>tx backup. get_str (rc_data rc) ''tx_id'' = Some tx \<and> list_all id_char tx \<and> tx \<noteq> [] \<and>
     recorded v (unzip_record tx (fwd_slashes a) (fwd_slashes d) backup) s1"
proof -
  have nb: "blocked_receipt v c reason s0 \<noteq> (Inr rc, s1)" for c reason s0
    using blocked_status assms(2) by fastforce
  from assms(1) obtain tx s2 backup n s3 ref s4 where tx: "new_tx_id ''os_unzip'' s = (Inr tx, s2)"
    and r: "record_tx v (unzip_record tx (fwd_slashes a) (fwd_slashes d) backup) s3 = (Inr ref, s4)"
    and f: "os_success v ''os.unzip''
          [(''archive_path'', JString (fwd_slashes a)), (''destination_dir'', JString (fwd_slashes d)), (''entry_count'', jsize n),
           (''tx_id'', JString tx), (''tx_ref'', JString ref)] s4 = (Inr rc, s1)"
    unfolding unzip_archive_def ensure_capability_def unzip_record_def
    by (auto simp: nb io_simps resolve_path_def elim!: io_bindE split: if_splits sum.splits)
  have ids: "list_all id_char tx" "tx \<noteq> []"
    using tx_id_name [OF tx] tx_name_ok [of "''os_unzip''"] by (auto simp: id_char_def is_ascii_alphanumeric_def is_continuation_def)
  from success_store [OF f] have u: "store_only s4 s1" "get_str (rc_data rc) ''tx_id'' = Some tx"
    by (simp_all add: os_receipt_def)
  have "recorded v (unzip_record tx (fwd_slashes a) (fwd_slashes d) backup) s4"
    using record_stored [OF r] ids by (simp add: unzip_record_def)
  with u(1) have "recorded v (unzip_record tx (fwd_slashes a) (fwd_slashes d) backup) s1"
    by (simp add: recorded_def store_only_def)
  with u ids show ?thesis by blast
qed

lemma look_alter_None: "look (alter p (\<lambda>_. None) t) p = None"
  by (induction p "\<lambda>_ :: file_node option. None :: file_node option" t rule: alter.induct) simp_all

lemma world_tree: "on_world m s = (r, s') \<Longrightarrow> os_tree s' = os_tree s"
  by (auto simp: on_world_def split: prod.splits)

lemma removed: "remove_path_any p s = (Inr x, s') \<Longrightarrow> sees s' p = None"
  by (auto simp: remove_path_any_def fs_remove_dir_all_def fs_remove_file_def tree_op_def Let_def io_simps path_exists_def
      view_def look_alter_None split: if_splits prod.splits sum.splits elim!: io_bindE)

lemma removed_side:
  assumes "restore_side v (Some rel) True None s = (Inr x, s')"
    and "resolve_workspace_path (oe_root v) (unix_components rel) = Inr p"
  shows "sees s' p = None"
  using assms by (auto simp: restore_side_def resolve_path_def io_simps path_exists_def dest: removed split: if_splits elim!: io_bindE)

lemma rollback_runs_record:
  assumes "rollback_tx v tx s = (Inr rc, s')" and "rc_status rc = ''success''"
    and "oe_truth_job v = oe_job v" and "prints_and_parses (oe_codec v)" and ids: "list_all id_char tx" "tx \<noteq> []"
    and rec: "w_files (os_world s) (record_path v tx) = Some (to_string (oe_codec v) (os_tx_record_json r))"
  shows "\<exists>s1 s2 u. restore_tx_record v r s1 = (Inr u, s2) \<and> os_tree s1 = os_tree s \<and> os_tree s' = os_tree s2"
proof -
  have ref: "resolve_blob_ref (oe_truth_job v) (''blob://'' @ oe_job v @ ''/tx/'' @ safe_blob_name tx @ ''.json'') = Inr (record_path v tx)"
    using record_path_written(2) [OF ids, of "oe_job v"] by (simp add: assms(3) record_path_def)
  have nb: "blocked_receipt v c reason s0 \<noteq> (Inr rc, s')" for c reason s0
    using blocked_status assms(2) by fastforce
  have reads: "raw = to_string (oe_codec v) (os_tx_record_json r)"
    if "on_world (Process_Truth.read_file (record_path v tx)) s = (Inr raw, s1)" for raw s1
    using that rec by (auto simp: on_world_def read_file_def io_bind_def io_get_def io_return_def sys_op_def Let_def
        split: prod.splits sum.splits if_splits)
  have decodes: "Option.bind (from_str (oe_codec v) (to_string (oe_codec v) (os_tx_record_json r))) os_tx_record_of_json = Some r"
    using assms(4) by (simp add: prints_and_parses_def os_tx_record_roundtrip)
  from assms(1) obtain raw s1 where t: "on_world (Process_Truth.read_file (record_path v tx)) s = (Inr raw, s1)"
    and rest: "(case Option.bind (from_str (oe_codec v) raw) os_tx_record_of_json of
          None \<Rightarrow> io_fail (IoError InvalidData ''invalid tx record'')
        | Some record \<Rightarrow>
            io_bind (restore_tx_record v record) (\<lambda>_.
            let receipt = os_receipt v ''os.rollback_tx'' ''success''
                  [(''tx_id'', JString tx), (''rolled_back_operation'', JString (ox_operation record))]
            in io_bind (emit_receipt v ''tx_rollback'' receipt) (\<lambda>_.
               io_bind (emit_receipt v ''capability_receipt'' receipt) (\<lambda>_. io_return receipt)))) s1 = (Inr rc, s')"
    unfolding rollback_tx_def ensure_capability_def ref
    by (auto simp: nb io_simps rec elim!: io_bindE split: if_splits)
  have "raw = to_string (oe_codec v) (os_tx_record_json r)" using t by (rule reads)
  with rest decodes obtain u s2 where "restore_tx_record v r s1 = (Inr u, s2)" "store_only s2 s'"
    by (auto simp: Let_def io_simps elim!: io_bindE dest!: emit_store) (blast intro: store_only_trans)
  with world_tree [OF t] show ?thesis by (auto simp: store_only_def)
qed

text \<open>
  Rolling back an extraction destroys the archive. The record of an extraction names the archive
  as its source, existing before, but holds no backup of it; when the extraction succeeded and its
  rollback succeeds, the archive is gone, whatever else happened in between in the workspace.
\<close>

theorem rollback_of_unzip_removes_archive:
  assumes "unzip_archive v archive destination s = (Inr rc, s1)" and "rc_status rc = ''success''"
    and "get_str (rc_data rc) ''tx_id'' = Some tx"
    and "w_files (os_world s2) = w_files (os_world s1)"
    and "rollback_tx v tx s2 = (Inr rc2, s3)" and "rc_status rc2 = ''success''"
    and "oe_truth_job v = oe_job v" and "prints_and_parses (oe_codec v)"
    and "resolve_workspace_path (oe_root v) (unix_components (fwd_slashes archive)) = Inr p"
  shows "sees s3 p = None"
proof -
  from unzip_recorded [OF assms(1,2)] assms(3) obtain backup where ids: "list_all id_char tx" "tx \<noteq> []"
    and rec: "recorded v (unzip_record tx (fwd_slashes archive) (fwd_slashes destination) backup) s1" by auto
  then have "w_files (os_world s2) (record_path v tx) = Some (to_string (oe_codec v)
      (os_tx_record_json (unzip_record tx (fwd_slashes archive) (fwd_slashes destination) backup)))"
    using assms(4) by (simp add: recorded_def unzip_record_def)
  from rollback_runs_record [OF assms(5-8) ids this] obtain t1 t2 u where
    "restore_tx_record v (unzip_record tx (fwd_slashes archive) (fwd_slashes destination) backup) t1 = (Inr u, t2)"
    "os_tree s3 = os_tree t2" by blast
  then have "sees t2 p = None"
    by (auto simp: restore_tx_record_def unzip_record_def elim!: io_bindE dest: removed_side [OF _ assms(9)])
  with \<open>os_tree s3 = os_tree t2\<close> show ?thesis by simp
qed

section \<open>A path moved onto itself\<close>

lemma copy_missing:
  "sees s p = None \<Longrightarrow> 0 < n \<Longrightarrow> copy_path_recursive n p d s = (Inl (IoError InvalidInput ''unsupported path type''), s)"
  by (cases n) (simp_all add: io_simps is_dir_def is_file_def)

lemma copy_locked_onto_itself:
  assumes q1: "quiet s1" and ap: "apart p (oe_state_root v)" and ex: "sees s1 p \<noteq> None"
    and cl: "\<And>tx. clear (backup_dir v tx) (sees s1)" and dir: "sees s1 (oe_state_root v) = Some Directory"
    and depth: "depth_below (oe_max_depth v) p (sees s1)"
  shows "\<exists>s2. copy_locked v capability_id p p a b remove_source s1 = (Inl (IoError InvalidInput ''unsupported path type''), s2) \<and>
     quiet s2 \<and> sees s2 p = None \<and> w_files (os_world s2) = w_files (os_world s1) \<and>
     (\<forall>q. path_starts_with q (lock_dir v) \<longrightarrow> sees s2 q = sees s1 q)"
proof -
  have ne: "p \<noteq> []" using ap by auto
  let ?tx = "tx_name ''os_mutation'' s1"
  let ?A = "backup_view v ?tx ''source'' p (sees s1)"
  let ?B = "backup_view v ?tx ''destination'' p ?A"
  have A: "?A (backup_path v ?tx ''source'' @ x) = sees s1 (p @ x)" "outside v q \<Longrightarrow> ?A q = sees s1 q"
    "path_starts_with q (lock_dir v) \<Longrightarrow> ?A q = sees s1 q" for q x
    using backup_view_facts [OF ap dir refl, where tx = ?tx and slot = "''source''"] ex by simp_all
  have B: "outside v q \<Longrightarrow> ?B q = sees s1 q" "path_starts_with q (lock_dir v) \<Longrightarrow> ?B q = sees s1 q" for q
    using backup_view_facts [OF ap dir A(2), where tx = ?tx and slot = "''destination''"] A(3) by simp_all
  from yields_tx_id [OF q1, of "''os_mutation''"] obtain s2 where
    e1: "new_tx_id ''os_mutation'' s1 = (Inr ?tx, s2)" "quiet s2" and v2: "sees s2 = sees s1" "w_files (os_world s2) = w_files (os_world s1)"
    by (auto simp: yields_def store_only_def)
  have "gives (backup_workspace_path v ?tx ''source'' p) s2 (backup_result v ?tx ''source'' p (sees s1)) ?A"
    using gives_backup_any [OF e1(2) ap, where tx = ?tx and slot = "''source''"] cl depth by (simp add: v2 slots)
  from gives_quiet [OF this e1(2)] obtain r1 s3 where e2: "backup_workspace_path v ?tx ''source'' p s2 = (Inr r1, s3)" "quiet s3"
    "tree_only s2 s3" and v3: "sees s3 = ?A" by blast
  have "sees s3 (backup_path v ?tx ''source'') \<noteq> None" using A(1) [of "[]"] ex by (simp add: v3)
  then have "?A (backup_dir v ?tx) = Some Directory"
    using sees_above [of "os_tree s3" "backup_path v ?tx ''source''" "backup_dir v ?tx"] by (simp add: backup_path_def v3)
  then have "clear (backup_dir v ?tx) (sees s3)" using clear_existing [of "os_tree s3"] by (simp add: v3)
  moreover have "depth_below (oe_max_depth v) p (sees s3)"
    using depth A(2) [OF outside_below [OF ap]] by (simp add: depth_below_def v3)
  ultimately have "gives (backup_workspace_path v ?tx ''destination'' p) s3 (backup_result v ?tx ''destination'' p ?A) ?B"
    using gives_backup_any [OF e2(2) ap, where tx = ?tx and slot = "''destination''"] by (simp add: slots v3)
  from gives_quiet [OF this e2(2)] obtain r2 s4 where e3: "backup_workspace_path v ?tx ''destination'' p s3 = (Inr r2, s4)"
    "quiet s4" "tree_only s3 s4" and v4: "sees s4 = ?B" by blast
  have ex4: "sees s4 p \<noteq> None" using B(1) [OF apart_outside [OF ap]] ex by (simp add: v4)
  then have par: "sees s4 (butlast p) = Some Directory"
    using sees_above [of "os_tree s4" p "butlast p"] ne by (cases p rule: rev_cases) auto
  then have "gives (create_parent p) s4 () (sees s4)"
    using gives_create_dir_all [OF e3(2) clear_existing] ne by (simp add: create_parent_def with_dirs_existing)
  from gives_quiet [OF this e3(2)] obtain s5 where e4: "create_parent p s4 = (Inr (), s5)" "quiet s5" "tree_only s4 s5"
    and v5: "sees s5 = ?B" by (auto simp: v4)
  from gives_quiet [OF gives_remove_if [OF e4(2) ne] e4(2)] obtain s6 where
    e5: "(if path_exists (os_tree s5) p then remove_path_any p else io_return ()) s5 = (Inr (), s6)" "quiet s6" "tree_only s5 s6"
    and v6: "sees s6 = without p ?B" by (auto simp: v5)
  have "sees s6 p = None" by (simp add: v6 without_def)
  moreover from this have "copy_path_recursive (oe_max_depth v) p p s6 = (Inl (IoError InvalidInput ''unsupported path type''), s6)"
  proof (rule copy_missing)
    show "0 < oe_max_depth v" using depth ex by (auto simp: depth_below_def dest: spec [of _ "[]"])
  qed
  then have "copy_locked v capability_id p p a b remove_source s1 = (Inl (IoError InvalidInput ''unsupported path type''), s6)"
    unfolding copy_locked_def
    by (simp only: io_bind_def io_get_apply prod.case sum.case e1(1) e2(1) e3(1) e4(1) e5(1))
  moreover have "w_files (os_world s6) = w_files (os_world s1)"
    using tree_onlyD(2) [OF e2(3)] tree_onlyD(2) [OF e3(3)] tree_onlyD(2) [OF e4(3)] tree_onlyD(2) [OF e5(3)] v2(2) by simp
  moreover have "sees s6 q = sees s1 q" if "path_starts_with q (lock_dir v)" for q
    using state_apart(2) [OF ap that] B(2) [OF that] by (simp add: v6 without_def)
  ultimately show ?thesis using e5(2) by blast
qed

text \<open>
  A move or copy of a path onto itself destroys it. When two spellings of one existing path are
  given as source and destination, the operation, in a run without faults, removes the
  path, then fails because the source does not exist any more, and writes no transaction record,
  so that nothing can be rolled back.
\<close>

theorem transfer_onto_itself_destroys:
  assumes ready: "os_ready v s" and "capability_id \<in> set (oe_capabilities v)"
    and slash: "fwd_slashes a = a" "fwd_slashes b = b" and two: "safe_blob_name a \<noteq> safe_blob_name b"
    and res: "resolve_workspace_path (oe_root v) (unix_components a) = Inr p"
      "resolve_workspace_path (oe_root v) (unix_components b) = Inr p"
    and ap: "apart p (oe_state_root v)" and ex: "sees s p \<noteq> None" and depth: "depth_below (oe_max_depth v) p (sees s)"
    and free: "sees s (lock_path v a) = None" "sees s (lock_path v b) = None"
  shows "\<exists>s1. copy_like v capability_id a b remove_source s = (Inl (IoError InvalidInput ''unsupported path type''), s1) \<and>
     sees s1 p = None \<and> w_files (os_world s1) = w_files (os_world s)"
proof -
  have q: "quiet s" and cl: "clear (lock_dir v) (sees s)" and dir: "sees s (oe_state_root v) = Some Directory"
    using ready by (simp_all add: os_ready_def)
  have ne: "p \<noteq> []" using ap by auto
  let ?ls = "map (lock_path v) (sort_dedup [a, b])"
  from acquire_free [OF q cl _ two_locks [OF two], of "[]"] free obtain s1 where
    a: "acquire_locks v (sort_dedup [a, b]) [] s = (Inr (Inr ?ls), s1)" "tree_only s s1"
    and held: "\<forall>l \<in> set ?ls. \<exists>b. sees s1 l = Some (Bytes b)"
    and view: "\<And>q. q \<notin> set ?ls \<Longrightarrow> sees s1 q = with_dirs (lock_dir v) (sees s) q"
    by (auto simp flip: set_empty)
  have off: "sees s1 q = with_dirs (lock_dir v) (sees s) q" if "\<not> path_starts_with q (lock_dir v)" for q
  proof (rule view)
    show "q \<notin> set ?ls" using that by (auto simp: lock_path_below)
  qed
  note start = locked_start [OF ready off]
  have q1: "quiet s1" using a(2) q by (simp add: tree_onlyD)
  have sub: "sees s1 (p @ r) = sees s (p @ r)" for r using start(1) outside_below [OF ap] by blast
  have "sees s1 p \<noteq> None" "depth_below (oe_max_depth v) p (sees s1)"
    using sub [of "[]"] ex depth by (simp_all add: depth_below_def sub)
  from copy_locked_onto_itself [OF q1 ap this(1) start(2,3) this(2)] obtain s2 where
    c: "copy_locked v capability_id p p a b remove_source s1 = (Inl (IoError InvalidInput ''unsupported path type''), s2)"
      "quiet s2" "sees s2 p = None" "w_files (os_world s2) = w_files (os_world s1)"
      "\<forall>q. path_starts_with q (lock_dir v) \<longrightarrow> sees s2 q = sees s1 q" by blast
  have "\<forall>l \<in> set ?ls. l \<noteq> [] \<and> sees s2 l \<noteq> Some Directory"
    using held c(5) by (fastforce simp: lock_path_below)
  from gives_quiet [OF gives_release [OF c(2) this] c(2)] obtain s3 where
    r: "release_locks ?ls s2 = (Inr (), s3)" "tree_only s2 s3" "sees s3 = (\<lambda>q. if q \<in> set ?ls then None else sees s2 q)" by blast
  have "copy_like v capability_id a b remove_source s = with_mutation_locks v capability_id [a, b]
      (copy_locked v capability_id p p a b remove_source) s"
    using assms(2) ex by (cases "sees s p") (simp_all add: copy_like_def ensure_capability_def resolve_path_def res slash io_simps path_exists_def)
  also have "\<dots> = (Inl (IoError InvalidInput ''unsupported path type''), s3)"
    using a(1) c(1) r(1) by (simp add: with_mutation_locks_def Let_def io_bind_def finally_do_def)
  finally have "copy_like v capability_id a b remove_source s = (Inl (IoError InvalidInput ''unsupported path type''), s3)" .
  moreover have "w_files (os_world s3) = w_files (os_world s)"
    using c(4) tree_onlyD(2) [OF r(2)] tree_onlyD(2) [OF a(2)] by simp
  ultimately show ?thesis using c(3) r(3) by auto
qed

end
