(* ===== verification/Os_Witnesses.thy ===== *)
theory Os_Witnesses
  imports Os_Hazards Json_Codec
begin

text \<open>The theorems on the OS runtime applied to a small workspace with one file, one directory and one archive.\<close>

definition demo_tree :: file_node where
  "demo_tree = DirNode [(''ws'', DirNode [(''a'', FileNode ''x''), (''d'', DirNode [(''a'', FileNode ''y'')]), (''z'', FileNode [])]), (''st'', DirNode [])]"

definition demo_os :: os_state where
  "demo_os = \<lparr>os_world = demo_world, os_tree = Some demo_tree, os_tx_counter = 1, os_torn = (\<lambda>n t. t)\<rparr>"

definition demo_env :: os_env where
  "demo_env = \<lparr>oe_root = [''ws''], oe_state_root = [''st''], oe_job = ''j'', oe_pid = ''p'',
     oe_capabilities = [''os.write_artifact'', ''os.delete_path'', ''os.copy_path'', ''os.move_path'', ''os.unzip'', ''os.rollback_tx''],
     oe_truth_job = ''j'', oe_emit_events = True, oe_codec = demo_codec, oe_max_depth = 5\<rparr>"

lemma demo_env_simps [simp]:
  "oe_root demo_env = [''ws'']" "oe_state_root demo_env = [''st'']" "oe_job demo_env = ''j''" "oe_truth_job demo_env = ''j''"
  "oe_codec demo_env = demo_codec" "oe_max_depth demo_env = 5"
  "oe_capabilities demo_env = [''os.write_artifact'', ''os.delete_path'', ''os.copy_path'', ''os.move_path'', ''os.unzip'', ''os.rollback_tx'']"
  by (simp_all add: demo_env_def)

lemma demo_sees:
  "sees demo_os [''st''] = Some Directory" "sees demo_os [''ws'', ''a''] = Some (Bytes ''x'')"
  "sees demo_os [''ws'', ''z''] = Some (Bytes [])" "sees demo_os [''ws'', ''b''] = None"
  "sees demo_os [''ws'', ''d'', ''a''] = Some (Bytes ''y'')" "sees demo_os [''ws'', ''out''] = None" "sees demo_os [''ws''] = Some Directory" "sees demo_os (''st'' # q # r) = None"
  by (simp_all add: demo_os_def demo_tree_def view_def)

lemma demo_quiet: "quiet demo_os"
  by (simp add: quiet_def demo_os_def demo_no_faults)

text \<open>New names below an existing directory are clear.\<close>

lemma clear_new:
  assumes "view t d = Some Directory" and "view t (d @ [x]) = None"
  shows "clear (d @ x # r) (view t)"
  unfolding clear_def
proof (intro allI impI)
  fix q b
  assume "path_starts_with (d @ x # r) q"
  then obtain u where u: "d @ x # r = q @ u" by (auto simp: path_starts_with_iff)
  show "view t q \<noteq> Some (Bytes b)"
  proof (cases "path_starts_with d q")
    case True
    then show ?thesis using assms(1) sees_above [of t d q] by (cases "q = d") auto
  next
    case False
    with u have "path_starts_with q (d @ [x])"
      by (auto simp: path_starts_with_iff append_eq_append_conv2 Cons_eq_append_conv)
    then have "view t q = None" using sees_below [OF assms(2)] by blast
    then show ?thesis by simp
  qed
qed

lemma clear_parents: "view t d = Some Directory \<Longrightarrow> clear (d @ [x]) (without (d @ [x]) (view t))"
  using sees_above [of t d] by (auto simp: clear_def without_def path_starts_with_snoc dest: clear_existing)

lemma demo_codec_prints: "prints_and_parses demo_codec"
  using run_json [where rest = "[]" and st = "[]"] by (simp add: prints_and_parses_def demo_codec_def)

lemma demo_ready: "os_ready demo_env demo_os"
proof -
  have "clear ([''st''] @ q # r) (sees demo_os)" for q r
    by (rule clear_new) (simp_all add: demo_sees)
  then show ?thesis
    by (simp add: os_ready_def demo_quiet demo_sees demo_codec_prints lock_dir_def backup_dir_def)
qed

lemma demo_resolves:
  "resolve_workspace_path [''ws''] (unix_components ''a'') = Inr [''ws'', ''a'']"
  "resolve_workspace_path [''ws''] (unix_components ''b'') = Inr [''ws'', ''b'']"
  "resolve_workspace_path [''ws''] (unix_components ''./a'') = Inr [''ws'', ''a'']"
  "resolve_workspace_path [''ws''] (unix_components ''d/a'') = Inr [''ws'', ''d'', ''a'']"
  "resolve_workspace_path [''ws''] (unix_components ''d_a'') = Inr [''ws'', ''d_a'']"
  "resolve_workspace_path [''ws''] (unix_components ''z'') = Inr [''ws'', ''z'']"
  "resolve_workspace_path [''ws''] (unix_components ''out'') = Inr [''ws'', ''out'']"
  by (simp_all add: resolve_workspace_path_def unix_components_def unix_part_def is_absolute_def)

lemma demo_depth: "sees demo_os [''ws'', x] \<noteq> Some Directory \<Longrightarrow> depth_below 5 [''ws'', x] (sees demo_os)"
  by (rule depth_of_file) simp_all

lemma demo_lock_free: "sees demo_os (lock_path demo_env p) = None"
  by (simp add: lock_path_def lock_dir_def demo_sees)

lemma demo_slashes: "fwd_slashes ''a'' = ''a''" "fwd_slashes ''b'' = ''b''" "fwd_slashes ''./a'' = ''./a''"
  "fwd_slashes ''d/a'' = ''d/a''" "fwd_slashes ''d_a'' = ''d_a''" "fwd_slashes ''z'' = ''z''" "fwd_slashes ''out'' = ''out''"
  by (simp_all add: fwd_slashes_def slash_char_def)

lemma demo_caps: "''os.delete_path'' \<in> set (oe_capabilities demo_env)" "''os.write_artifact'' \<in> set (oe_capabilities demo_env)"
  "''os.copy_path'' \<in> set (oe_capabilities demo_env)" "''os.move_path'' \<in> set (oe_capabilities demo_env)"
  by simp_all

lemma demo_apart: "apart [''ws'', x] (oe_state_root demo_env)" "apart [''ws'', x, y] (oe_state_root demo_env)"
  by simp_all

lemma demo_resolves_env:
  "resolve_workspace_path [''ws''] cs = r \<Longrightarrow> resolve_workspace_path (oe_root demo_env) cs = r"
  by simp

lemma demo_depth_env: "sees demo_os [''ws'', x] \<noteq> Some Directory \<Longrightarrow> depth_below (oe_max_depth demo_env) [''ws'', x] (sees demo_os)"
  using demo_depth by simp

lemma demo_kept:
  assumes "\<forall>q. V q \<noteq> W q \<longrightarrow> path_starts_with q (oe_state_root demo_env) \<or> P q" and "\<not> P [''ws'', x]"
  shows "V [''ws'', x] = W [''ws'', x]"
  using assms(1) [rule_format, of "[''ws'', x]"] assms(2) by auto

theorem rollback_undoes_delete_witness:
  "\<exists>rc s1 tx rc2 s2. delete_path demo_env ''a'' demo_os = (Inr rc, s1) \<and> sees s1 [''ws'', ''a''] = None \<and>
     rollback_tx demo_env tx s1 = (Inr rc2, s2) \<and> sees s2 [''ws'', ''a''] = Some (Bytes ''x'')"
proof -
  have "sees demo_os [''ws'', ''a''] \<noteq> None" "sees demo_os [''ws'', ''a''] \<noteq> Some Directory" by (simp_all add: demo_sees)
  from rollback_undoes_delete [OF demo_ready demo_caps(1) demo_slashes(1) demo_resolves_env [OF demo_resolves(1)] demo_apart(1)
      this(1) demo_depth_env [OF this(2)] demo_lock_free]
  obtain rc s1 tx rc2 s2 where r: "delete_path demo_env ''a'' demo_os = (Inr rc, s1)" "sees s1 [''ws'', ''a''] = None"
    "rollback_tx demo_env tx s1 = (Inr rc2, s2)" "\<forall>q. sees s2 q \<noteq> sees demo_os q \<longrightarrow> path_starts_with q (oe_state_root demo_env)" by blast
  from r(4) have "sees s2 [''ws'', ''a''] = Some (Bytes ''x'')" using demo_kept [of "sees s2" "sees demo_os" "\<lambda>_. False" "''a''"]
    by (simp add: demo_sees)
  with r show ?thesis by blast
qed

theorem rollback_undoes_write_witness:
  "\<exists>rc s1 tx rc2 s2. write_file_with_capability demo_env ''os.write_artifact'' ''a'' ''new'' ''artifact'' demo_os = (Inr rc, s1) \<and>
     sees s1 [''ws'', ''a''] = Some (Bytes ''new'') \<and>
     rollback_tx demo_env tx s1 = (Inr rc2, s2) \<and> sees s2 [''ws'', ''a''] = Some (Bytes ''x'')"
proof -
  have k: "is_valid_write_kind ''artifact''" by (simp add: is_valid_write_kind_def)
  have d: "sees demo_os [''ws'', ''a''] \<noteq> Some Directory" by (simp add: demo_sees)
  have c: "clear [''ws'', ''a''] (without [''ws'', ''a''] (sees demo_os))"
    using clear_parents [of "os_tree demo_os" "[''ws'']" "''a''"] by (simp add: demo_sees)
  have "0 < oe_max_depth demo_env" by simp
  from rollback_undoes_write [OF demo_ready demo_caps(2) k demo_slashes(1) demo_resolves_env [OF demo_resolves(1)] demo_apart(1)
      d c this demo_lock_free, of "''new''"]
  obtain rc s1 tx rc2 s2 where r: "write_file_with_capability demo_env ''os.write_artifact'' ''a'' ''new'' ''artifact'' demo_os = (Inr rc, s1)"
    "sees s1 [''ws'', ''a''] = Some (Bytes ''new'')"
    "rollback_tx demo_env tx s1 = (Inr rc2, s2)" "\<forall>q. sees s2 q \<noteq> sees demo_os q \<longrightarrow> path_starts_with q (oe_state_root demo_env) \<or>
        path_starts_with (butlast [''ws'', ''a'']) q \<and> sees demo_os q = None \<and> sees s2 q = Some Directory" by blast
  have "sees s2 [''ws'', ''a''] = sees demo_os [''ws'', ''a'']" using r(4) by (rule demo_kept) (simp add: demo_sees)
  with r show ?thesis by (auto simp: demo_sees)
qed

theorem rollback_undoes_transfer_witness:
  "\<exists>rc s1 tx rc2 s2. copy_like demo_env ''os.move_path'' ''a'' ''b'' True demo_os = (Inr rc, s1) \<and>
     sees s1 [''ws'', ''b''] = Some (Bytes ''x'') \<and> sees s1 [''ws'', ''a''] = None \<and>
     rollback_tx demo_env tx s1 = (Inr rc2, s2) \<and> sees s2 [''ws'', ''a''] = Some (Bytes ''x'')"
proof -
  have "clear [''ws'', ''b''] (without [''ws'', ''b''] (sees demo_os))"
    using clear_parents [of "os_tree demo_os" "[''ws'']" "''b''"] by (simp add: demo_sees)
  then have t: "transfer_ready demo_env demo_os [''ws'', ''a''] [''ws'', ''b'']"
    using demo_ready demo_depth [of "''a''"] demo_depth [of "''b''"] by (simp add: transfer_ready_def demo_sees)
  have two: "safe_blob_name ''a'' \<noteq> safe_blob_name ''b''"
    by (simp add: safe_blob_name_def safe_char_def fwd_slashes_def slash_char_def is_continuation_def is_ascii_alphanumeric_def)
  from rollback_undoes_transfer [OF t demo_caps(4) demo_slashes(1,2) demo_resolves_env [OF demo_resolves(1)]
      demo_resolves_env [OF demo_resolves(2)] demo_lock_free demo_lock_free two, of True]
  obtain rc s1 tx rc2 s2 where r: "copy_like demo_env ''os.move_path'' ''a'' ''b'' True demo_os = (Inr rc, s1)"
    "\<forall>r. sees s1 ([''ws'', ''b''] @ r) = sees demo_os ([''ws'', ''a''] @ r)"
    "\<forall>r. sees s1 ([''ws'', ''a''] @ r) = (if True then None else sees demo_os ([''ws'', ''a''] @ r))"
    "rollback_tx demo_env tx s1 = (Inr rc2, s2)" "\<forall>q. sees s2 q \<noteq> sees demo_os q \<longrightarrow> path_starts_with q (oe_state_root demo_env) \<or>
        path_starts_with (butlast [''ws'', ''b'']) q \<and> sees demo_os q = None \<and> sees s2 q = Some Directory" by blast
  have "sees s2 [''ws'', ''a''] = sees demo_os [''ws'', ''a'']" using r(5) by (rule demo_kept) (simp add: demo_sees)
  with r(1,4) r(2) [rule_format, of "[]"] r(3) [rule_format, of "[]"] show ?thesis by (auto simp: demo_sees)
qed

theorem changes_stay_at_their_paths_witness:
  "sees (snd (copy_like demo_env ''os.move_path'' ''a'' ''b'' True demo_os)) [''ws'', ''z''] = Some (Bytes [])"
  using changes_stay_at_their_paths [OF demo_resolves_env [OF demo_resolves(1)] demo_resolves_env [OF demo_resolves(2)],
      of "[''ws'', ''z'']" "''os.move_path''" "[]" "[]" demo_os True "[]"]
  by (simp add: demo_sees)

theorem os_runtime_confined_witness:
  "sees (snd (rollback_tx demo_env ''t'' demo_os)) [''etc''] = None"
proof -
  have "sees demo_os [''etc''] = None" by (simp add: demo_os_def demo_tree_def view_def)
  then show ?thesis using os_runtime_confined [of "[''etc'']" demo_env] by simp
qed

text \<open>A run that holds the lock of \<open>a\<close>.\<close>

definition locked_os :: os_state where
  "locked_os = demo_os\<lparr>os_tree := Some (DirNode [(''ws'', DirNode [(''a'', FileNode ''x''), (''b'', FileNode ''y'')]),
     (''st'', DirNode [(''workspace_file_locks'', DirNode [(''a.lock'', FileNode [])])])])\<rparr>"

lemma safe_names: "safe_blob_name ''a'' = ''a''" "safe_blob_name ''./a'' = ''._a''" "safe_blob_name ''d/a'' = ''d_a''"
  "safe_blob_name ''d_a'' = ''d_a''"
  by (simp_all add: safe_blob_name_def safe_char_def fwd_slashes_def slash_char_def is_continuation_def is_ascii_alphanumeric_def)

theorem held_lock_blocks_changes_witness:
  "\<exists>r1 s1 r2 s2. delete_path demo_env ''a'' locked_os = (Inr r1, s1) \<and> lock_conflict r1 \<and> sees s1 [''ws'', ''a''] = Some (Bytes ''x'') \<and>
     copy_like demo_env ''os.copy_path'' ''b'' ''a'' False locked_os = (Inr r2, s2) \<and> lock_conflict r2 \<and>
     sees s2 [''ws'', ''a''] = Some (Bytes ''x'')"
proof -
  have q: "quiet locked_os" using demo_quiet by (simp add: quiet_def locked_os_def)
  have ab: "sees locked_os [''ws'', ''a''] = Some (Bytes ''x'')" "sees locked_os [''ws'', ''b''] = Some (Bytes ''y'')"
    by (simp_all add: locked_os_def view_def)
  have l: "sees locked_os (lock_path demo_env (fwd_slashes ''a'')) \<noteq> None"
    by (simp add: locked_os_def view_def lock_path_def lock_dir_def demo_slashes safe_names)
  have k: "is_valid_write_kind ''artifact''" by (simp add: is_valid_write_kind_def)
  have "sees locked_os [''ws'', ''a''] \<noteq> None" by (simp add: ab)
  from held_lock_blocks_changes [OF q demo_caps(3,1) k demo_resolves_env [OF demo_resolves(1)] this
      demo_resolves_env [OF demo_resolves(2)] l, of "[]" False] ab
  show ?thesis by auto
qed

theorem transfer_blocks_itself_witness:
  "\<exists>rc s1. copy_like demo_env ''os.copy_path'' ''d/a'' ''d_a'' False demo_os = (Inr rc, s1) \<and> rc_status rc = ''blocked''"
proof -
  have cl: "clear (lock_dir demo_env) (sees demo_os)" using demo_ready by (simp add: os_ready_def)
  have n: "''d/a'' \<noteq> ''d_a''" by simp
  have same: "safe_blob_name ''d/a'' = safe_blob_name ''d_a''" by (simp add: safe_names)
  have ex: "sees demo_os [''ws'', ''d'', ''a''] \<noteq> None" by (simp add: demo_sees)
  from transfer_blocks_itself [OF demo_quiet cl demo_caps(3) demo_slashes(4,5) n same demo_resolves_env [OF demo_resolves(4)] ex
      demo_resolves_env [OF demo_resolves(5)], of False]
  show ?thesis by blast
qed

theorem transfer_onto_itself_destroys_witness:
  "\<exists>e s1. copy_like demo_env ''os.move_path'' ''a'' ''./a'' True demo_os = (Inl e, s1) \<and> sees s1 [''ws'', ''a''] = None"
proof -
  have two: "safe_blob_name ''a'' \<noteq> safe_blob_name ''./a''" by (simp add: safe_names)
  have "sees demo_os [''ws'', ''a''] \<noteq> None" "sees demo_os [''ws'', ''a''] \<noteq> Some Directory" by (simp_all add: demo_sees)
  from transfer_onto_itself_destroys [OF demo_ready demo_caps(4) demo_slashes(1,3) two demo_resolves_env [OF demo_resolves(1)]
      demo_resolves_env [OF demo_resolves(3)] demo_apart(1) this(1) demo_depth_env [OF this(2)] demo_lock_free demo_lock_free]
  show ?thesis by blast
qed

lemma demo_unzips:
  "\<exists>rc s1 tx. unzip_archive demo_env ''z'' ''out'' demo_os = (Inr rc, s1) \<and> rc_status rc = ''success'' \<and>
     get_str (rc_data rc) ''tx_id'' = Some tx \<and> list_all id_char tx \<and> tx \<noteq> [] \<and> quiet s1 \<and>
     recorded demo_env (unzip_record tx ''z'' ''out'' (False, None)) s1 \<and> sees s1 = with_dirs [''ws'', ''out''] (sees demo_os)"
proof -
  let ?tx = "tx_name ''os_unzip'' demo_os"
  have ids: "list_all id_char ?tx" "?tx \<noteq> []"
    using tx_name_ok [of "''os_unzip''"] by (simp_all add: id_char_def is_ascii_alphanumeric_def is_continuation_def)
  from yields_tx_id [OF demo_quiet, of "''os_unzip''"] obtain s2 where e1: "new_tx_id ''os_unzip'' demo_os = (Inr ?tx, s2)" "quiet s2"
    and v2: "sees s2 = sees demo_os" by (auto simp: yields_def store_only_def)
  have "sees s2 [''ws'', ''out''] = None" by (simp add: v2 demo_sees)
  from gives_quiet [OF gives_backup_none [OF this, of demo_env ?tx "''destination''"] e1(2)] obtain s3 where
    e2: "backup_workspace_path demo_env ?tx ''destination'' [''ws'', ''out''] s2 = (Inr (False, None), s3)" "quiet s3"
    and v3: "sees s3 = sees demo_os" by (auto simp: v2)
  have "clear ([''ws''] @ [''out'']) (sees s3)" unfolding v3 by (rule clear_new) (simp_all add: demo_sees)
  then have "clear [''ws'', ''out''] (sees s3)" by simp
  from gives_quiet [OF gives_create_dir_all [OF e2(2) this] e2(2)] obtain s4 where
    e3: "fs_create_dir_all [''ws'', ''out''] s3 = (Inr (), s4)" "quiet s4" and v4: "sees s4 = with_dirs [''ws'', ''out''] (sees demo_os)"
    by (auto simp: v3)
  have "sees s4 [''ws'', ''z''] = Some (Bytes [])" by (simp add: v4 with_dirs_def demo_sees)
  then have "gives (os_read_store_zip [''ws'', ''z''] [''ws'', ''out'']) s4 0 (sees s4)"
    unfolding os_read_store_zip_def by (intro gives_bind [OF gives_read [OF e3(2)]]) (auto simp: os_read_zip_loop.simps gives_def io_simps)
  from gives_quiet [OF this e3(2)] obtain s5 where e4: "os_read_store_zip [''ws'', ''z''] [''ws'', ''out''] s4 = (Inr 0, s5)" "quiet s5"
    and v5: "sees s5 = sees s4" by blast
  let ?rec = "unzip_record ?tx ''z'' ''out'' (False, None)"
  obtain ref s6 where e5: "record_tx demo_env ?rec s5 = (Inr ref, s6)" "quiet s6" and v6: "sees s6 = sees s5" and rec: "recorded demo_env ?rec s6"
    using yields_record [OF e4(2), of ?rec demo_env] ids by (auto simp: yields_def unzip_record_def recorded_def)
  let ?kvs = "[(''archive_path'', JString (fwd_slashes ''z'')), (''destination_dir'', JString (fwd_slashes ''out'')),
     (''entry_count'', jsize 0), (''tx_id'', JString ?tx), (''tx_ref'', JString ref)]"
  from yields_success [OF e5(2), of demo_env "''os.unzip''" ?kvs] obtain s7 where
    e6: "os_success demo_env ''os.unzip'' ?kvs s6 = (Inr (os_receipt demo_env ''os.unzip'' ''success'' ?kvs), s7)" "quiet s7"
    and s7: "store_only s6 s7" by (auto simp: yields_def)
  have "''os.unzip'' \<in> set (oe_capabilities demo_env)" "is_file (os_tree demo_os) [''ws'', ''z'']"
    by (simp_all add: is_file_def demo_sees)
  then have "unzip_archive demo_env ''z'' ''out'' demo_os = (Inr (os_receipt demo_env ''os.unzip'' ''success'' ?kvs), s7)"
    using e5(1) unfolding unzip_archive_def ensure_capability_def resolve_path_def unzip_record_def demo_slashes(6,7)
    by (simp add: demo_resolves io_bind_def io_return_def io_get_apply e1 e2 e3 e4 e6(1) [unfolded demo_slashes(6,7)])
  moreover have "recorded demo_env ?rec s7" "sees s7 = with_dirs [''ws'', ''out''] (sees demo_os)"
    using rec s7 by (simp_all add: recorded_def store_only_def v6 v5 v4)
  ultimately show ?thesis using e6(2) ids by (auto simp: os_receipt_def)
qed

theorem rollback_of_unzip_removes_archive_witness:
  "\<exists>rc s1 tx rc2 s3. unzip_archive demo_env ''z'' ''out'' demo_os = (Inr rc, s1) \<and> rc_status rc = ''success'' \<and>
     rollback_tx demo_env tx s1 = (Inr rc2, s3) \<and> rc_status rc2 = ''success'' \<and> sees s3 [''ws'', ''z''] = None"
proof -
  from demo_unzips obtain rc s1 tx where u: "unzip_archive demo_env ''z'' ''out'' demo_os = (Inr rc, s1)" "rc_status rc = ''success''"
    "get_str (rc_data rc) ''tx_id'' = Some tx" "list_all id_char tx" "tx \<noteq> []" "quiet s1"
    "recorded demo_env (unzip_record tx ''z'' ''out'' (False, None)) s1" "sees s1 = with_dirs [''ws'', ''out''] (sees demo_os)" by blast
  have q: "quiet (tick s1)" using u(6) by simp
  have "gives (restore_side demo_env (Some ''out'') False None) (tick s1) () (without [''ws'', ''out''] (sees s1))"
    using gives_restore_side_fresh [OF q demo_resolves_env [OF demo_resolves(7)]] by simp
  from gives_quiet [OF this q] obtain s2 where r1: "restore_side demo_env (Some ''out'') False None (tick s1) = (Inr (), s2)"
    "quiet s2" "tree_only (tick s1) s2" and v2: "sees s2 = without [''ws'', ''out''] (sees s1)" by blast
  have z: "sees s2 [''ws'', ''z''] \<noteq> None" by (simp add: v2 u(8) without_def with_dirs_def demo_sees)
  have "gives (remove_path_any [''ws'', ''z'']) s2 () (without [''ws'', ''z''] (sees s2))"
    using r1(2) z by (rule gives_remove) simp
  then have "gives (restore_side demo_env (Some ''z'') True None) s2 () (without [''ws'', ''z''] (sees s2))"
    using z by (simp add: restore_side_def resolve_path_def demo_resolves gives_def io_simps path_exists_def)
  then have "gives (restore_tx_record demo_env (unzip_record tx ''z'' ''out'' (False, None))) (tick s1) () (without [''ws'', ''z''] (sees s2))"
    unfolding restore_tx_record_def unzip_record_def
    by (auto intro: gives_after [where m = "restore_side demo_env (Some ''out'') False None", OF r1(1,3)])
  moreover have "w_files (os_world s1) (record_path demo_env tx) =
      Some (to_string (oe_codec demo_env) (os_tx_record_json (unzip_record tx ''z'' ''out'' (False, None))))"
    using u(7) by (simp add: recorded_def unzip_record_def)
  moreover have "''os.rollback_tx'' \<in> set (oe_capabilities demo_env)" by simp
  moreover have job: "oe_truth_job demo_env = oe_job demo_env" "prints_and_parses (oe_codec demo_env)" by (simp_all add: demo_codec_prints)
  ultimately obtain rc2 s3 where r: "rollback_tx demo_env tx s1 = (Inr rc2, s3)" "rc_status rc2 = ''success''"
    using yields_rollback [OF u(6) _ _ _ u(4,5), of demo_env "unzip_record tx ''z'' ''out'' (False, None)"
      "without [''ws'', ''z''] (sees s2)"] by (auto simp: yields_def)
  have "resolve_workspace_path (oe_root demo_env) (unix_components (fwd_slashes ''z'')) = Inr [''ws'', ''z'']"
    by (simp add: demo_slashes demo_resolves)
  from rollback_of_unzip_removes_archive [OF u(1-3) refl r job this] u r show ?thesis by blast
qed

end
