(* ===== verification/Task_Context.thy ===== *)
theory Task_Context
  imports Closure_Gate Model_Budget
begin

text \<open>
  \<open>process_kernel/src/task_context_state.rs\<close>: what a task agent knows of its job, replayed from the
  events of the log. Turn indices are 64-bit words; the maps and sets of the replay are sorted lists.
\<close>

section \<open>State\<close>

record pending_user_decision =
  pu_decision_type :: string
  pu_preview_id :: "string option"
  pu_user_input_ref :: "string option"
  pu_status :: string

record preview_operation_state =
  po_capability_id :: string
  po_target_paths :: "string list"
  po_human_description :: "string option"
  po_rollback_policy :: "string option"

record preview_tx_state =
  ptx_tx_id :: string
  ptx_preview_id :: string
  ptx_status :: string
  ptx_preview_ref :: "string option"
  ptx_executable_operations :: "preview_operation_state list"
  ptx_proposed_actions :: "string list"
  ptx_target_paths :: "string list"
  ptx_approval_token_id :: "string option"
  ptx_applied_capability_id :: "string option"
  ptx_applied_event_id :: "nat option"
  ptx_closed_event_id :: "nat option"

record approval_token_state =
  ats_approval_token_id :: string
  ats_tx_id :: string
  ats_preview_id :: string
  ats_status :: string
  ats_approved_operation_scope :: "string list"
  ats_approved_action_scope :: "string list"
  ats_approved_path_scope :: "string list"
  ats_issued_event_id :: nat
  ats_consumed_event_id :: "nat option"
  ats_used_capability_id :: "string option"

record artifact_context_entry =
  ac_path :: string
  ac_last_event_id :: nat
  ac_producing_capability_id :: "string option"
  ac_verified :: bool
  ac_audited :: bool
  ac_local_audit_completed :: bool
  ac_local_audit_hard_risk_pass :: "bool option"
  ac_model_audited :: bool

record verification_context_entry =
  vc_artifact_path :: "string option"
  vc_capability_id :: string
  vc_status :: string
  vc_event_id :: nat

record closure_context_state =
  cs_status :: string
  cs_last_attempt_event_id :: "nat option"
  cs_last_blocked_event_id :: "nat option"
  cs_last_completed_event_id :: "nat option"
  cs_open_gaps :: "string list"

record task_context_state =
  ts_job_id :: string
  ts_root_pid :: string
  ts_task_agent_session_id :: string
  ts_current_turn_index :: "64 word"
  ts_next_turn_index :: "64 word"
  ts_goal_ref :: "string option"
  ts_system_prompt_ref :: "string option"
  ts_conversation_refs :: "string list"
  ts_transcript_refs :: "string list"
  ts_provider_transcript_refs :: "string list"
  ts_provider_transcript_ref :: "string option"
  ts_provider_transcript_summary_ref :: "string option"
  ts_working_memory_ref :: "string option"
  ts_latest_observation_ref :: "string option"
  ts_pending_user_decision :: "pending_user_decision option"
  ts_preview_tx_table :: "preview_tx_state list"
  ts_approval_token_table :: "approval_token_state list"
  ts_capability_receipt_cursor :: nat
  ts_artifact_table :: "artifact_context_entry list"
  ts_verification_table :: "verification_context_entry list"
  ts_closure_state :: closure_context_state
  ts_last_error_summary :: "string option"
  ts_last_model_protocol_error :: "json option"
  ts_context_status :: string
  ts_waiting_for :: "string option"
  ts_started :: bool
  ts_start_event_count :: "64 word"
  ts_last_turn_id :: "string option"
  ts_last_decision_id :: "string option"
  ts_updated_at_ms :: nat

definition initial_context :: "string \<Rightarrow> string \<Rightarrow> string \<Rightarrow> nat \<Rightarrow> task_context_state" where
  "initial_context job_id root_pid session_id now =
     \<lparr>ts_job_id = job_id, ts_root_pid = root_pid, ts_task_agent_session_id = session_id,
      ts_current_turn_index = 0, ts_next_turn_index = 1, ts_goal_ref = None, ts_system_prompt_ref = None,
      ts_conversation_refs = [], ts_transcript_refs = [], ts_provider_transcript_refs = [],
      ts_provider_transcript_ref = None, ts_provider_transcript_summary_ref = None, ts_working_memory_ref = None,
      ts_latest_observation_ref = None, ts_pending_user_decision = None, ts_preview_tx_table = [],
      ts_approval_token_table = [], ts_capability_receipt_cursor = 0, ts_artifact_table = [],
      ts_verification_table = [],
      ts_closure_state = \<lparr>cs_status = ''open'', cs_last_attempt_event_id = None, cs_last_blocked_event_id = None,
        cs_last_completed_event_id = None, cs_open_gaps = []\<rparr>,
      ts_last_error_summary = None, ts_last_model_protocol_error = None, ts_context_status = ''created'',
      ts_waiting_for = None, ts_started = False, ts_start_event_count = 0, ts_last_turn_id = None,
      ts_last_decision_id = None, ts_updated_at_ms = now\<rparr>"

text \<open>The local variables of the replay loop.\<close>

record context_replay =
  cx_state :: task_context_state
  cx_preview_txs :: "(string \<times> preview_tx_state) list"
  cx_tokens :: "(string \<times> approval_token_state) list"
  cx_artifacts :: "(string \<times> artifact_context_entry) list"
  cx_verifications :: "verification_context_entry list"
  cx_transcript_refs :: "string list"
  cx_provider_refs :: "string list"

section \<open>Fields of events\<close>

definition context_payloads :: "process_event \<Rightarrow> json list" where
  "context_payloads e =
     data e # (case jget (data e) ''data'' of None \<Rightarrow> []
       | Some d \<Rightarrow> d # (case jget d ''data'' of None \<Rightarrow> [] | Some nested \<Rightarrow> [nested]))"

definition event_runtime_id :: "process_event \<Rightarrow> string option" where
  "event_runtime_id e = get_str (data e) ''runtime_id''"

definition event_session_id :: "process_event \<Rightarrow> string option" where
  "event_session_id e =
     or_else (get_str (data e) ''task_agent_session_id'')
       (or_else (get_str (data e) ''session_id'') (event_runtime_id e))"

definition event_capability_id :: "process_event \<Rightarrow> string option" where
  "event_capability_id e =
     or_else (get_str (data e) ''capability_id'')
       (Option.bind (jget (data e) ''data'') (\<lambda>d. get_str d ''capability_id''))"

definition event_tx_id :: "process_event \<Rightarrow> string option" where
  "event_tx_id e = get_str (data e) ''tx_id''"

definition turn_index_from_event :: "process_event \<Rightarrow> 64 word option" where
  "turn_index_from_event e = get_u64 (data e) ''turn_index''"

definition string_field :: "json \<Rightarrow> string \<Rightarrow> string" where
  "string_field v key = unwrap_or [] (get_str v key)"

definition strings_field :: "json \<Rightarrow> string \<Rightarrow> string list" where
  "strings_field v key =
     (case get_array v key of None \<Rightarrow> []
      | Some items \<Rightarrow> filter (\<lambda>item. trim item \<noteq> []) (map fwd_slashes (strings_of items)))"

definition preview_operation_of :: "json \<Rightarrow> preview_operation_state option" where
  "preview_operation_of item =
     map_option (\<lambda>capability_id.
       \<lparr>po_capability_id = capability_id, po_target_paths = strings_field item ''target_paths'',
        po_human_description = get_str item ''human_description'',
        po_rollback_policy = get_str item ''rollback_policy''\<rparr>) (get_str item ''capability_id'')"

definition preview_operations_state :: "json \<Rightarrow> preview_operation_state list" where
  "preview_operations_state v =
     (case get_array v ''executable_operations'' of None \<Rightarrow> [] | Some items \<Rightarrow> List.map_filter preview_operation_of items)"

definition waiting_for_status :: "string \<Rightarrow> string option" where
  "waiting_for_status status =
     (if status = ''waiting_approval'' then Some ''approval''
      else if status = ''waiting_user'' then Some ''user_input'' else None)"

definition receipt_status :: "process_event \<Rightarrow> json \<Rightarrow> string option" where
  "receipt_status e payload = or_else (get_str payload ''status'') (get_str (data e) ''status'')"

definition event_error_summary :: "process_event \<Rightarrow> string option" where
  "event_error_summary e =
     or_else (Option.bind (jget (data e) ''error'') (\<lambda>err. or_else (get_str err ''message'') (get_str err ''code'')))
       (or_else (get_str (data e) ''message'') (get_str (data e) ''reason''))"

definition latest_open_preview_id :: "(string \<times> preview_tx_state) list \<Rightarrow> string option" where
  "latest_open_preview_id previews =
     map_option ptx_preview_id
       (find (\<lambda>item. ptx_status item \<in> {''created'', ''approved''}) (rev (map snd previews)))"

definition gap_keys :: "string list" where
  "gap_keys = [''audit_gaps'', ''coverage_gaps'', ''failed_verifications'', ''missing_artifacts'',
     ''model_audit_gaps'', ''pending_approvals'', ''pending_mutations'', ''typed_artifact_verifier_gaps'',
     ''unresolved_required_failures'']"

definition closure_gaps :: "json \<Rightarrow> string list" where
  "closure_gaps d =
     concat (map (\<lambda>key.
       case Option.bind (or_else (Option.bind (jget d ''data'') (\<lambda>inner. jget inner key)) (jget d key)) as_array of
         None \<Rightarrow> [] | Some items \<Rightarrow> map (\<lambda>text. key @ '': '' @ text) (strings_of items)) gap_keys)"

section \<open>Artifacts and verifications\<close>

definition new_artifact_entry :: "string \<Rightarrow> nat \<Rightarrow> string option \<Rightarrow> artifact_context_entry" where
  "new_artifact_entry path i capability_id =
     \<lparr>ac_path = path, ac_last_event_id = i, ac_producing_capability_id = capability_id,
      ac_verified = False, ac_audited = False, ac_local_audit_completed = False,
      ac_local_audit_hard_risk_pass = None, ac_model_audited = False\<rparr>"

text \<open>A field of the receipt's data, or of the receipt itself.\<close>

definition data_or_self :: "json \<Rightarrow> string \<Rightarrow> json option" where
  "data_or_self payload key =
     or_else (Option.bind (jget payload ''data'') (\<lambda>d. jget d key)) (jget payload key)"

definition update_artifact_entry ::
  "process_event \<Rightarrow> string option \<Rightarrow> json \<Rightarrow> artifact_context_entry \<Rightarrow> artifact_context_entry" where
  "update_artifact_entry e capability_id payload entry0 =
     (let success = (receipt_status e payload = Some ''success'');
          entry1 = entry0\<lparr>ac_last_event_id := event_id e\<rparr>;
          entry2 = (if capability_id = Some ''os.verify_artifact'' \<and> success
                    then entry1\<lparr>ac_verified := True\<rparr> else entry1);
          entry3 = (if capability_id = Some ''artifact.audit_quality''
                    then entry2\<lparr>ac_audited := True,
                      ac_local_audit_completed :=
                        unwrap_or True (Option.bind (data_or_self payload ''local_mechanical_audit_completed'') as_bool),
                      ac_local_audit_hard_risk_pass :=
                        Option.bind (data_or_self payload ''hard_risk_pass'') as_bool\<rparr>
                    else entry2)
      in if (capability_id = Some ''model.audit_artifact_quality'' \<or> event_type e = ''artifact_model_audit_receipt'') \<and> success
         then entry3\<lparr>ac_model_audited := True\<rparr> else entry3)"

definition verification_capabilities :: "string list" where
  "verification_capabilities = [''os.verify_artifact'', ''artifact.audit_quality'', ''artifact.verify_coverage'',
     ''artifact.verify_typed'', ''model.audit_artifact_quality'']"

definition collect_payload ::
  "process_event \<Rightarrow> json \<Rightarrow> (string \<times> artifact_context_entry) list \<times> verification_context_entry list \<Rightarrow>
   (string \<times> artifact_context_entry) list \<times> verification_context_entry list" where
  "collect_payload e payload s =
     (case s of (artifacts, verifications) \<Rightarrow>
      let capability_id = event_capability_id e;
          artifacts1 = (case get_str payload ''artifact_path'' of None \<Rightarrow> artifacts
            | Some path \<Rightarrow>
                bmap_insert path (update_artifact_entry e capability_id payload
                  (unwrap_or (new_artifact_entry path (event_id e) capability_id) (map_of artifacts path))) artifacts);
          artifacts2 = (case get_str payload ''archive_path'' of None \<Rightarrow> artifacts1
            | Some path \<Rightarrow>
                if map_of artifacts1 path = None
                then bmap_insert path (new_artifact_entry path (event_id e) capability_id) artifacts1 else artifacts1);
          is_check = ((case capability_id of None \<Rightarrow> False | Some c \<Rightarrow> c \<in> set verification_capabilities) \<or>
            event_type e = ''artifact_model_audit_receipt'')
      in (artifacts2,
          if is_check
          then verifications @ [\<lparr>vc_artifact_path = get_str payload ''artifact_path'',
                 vc_capability_id = unwrap_or (event_type e) capability_id,
                 vc_status = unwrap_or ''unknown'' (receipt_status e payload), vc_event_id = event_id e\<rparr>]
          else verifications))"

definition collect_artifacts_and_verifications :: "process_event \<Rightarrow> context_replay \<Rightarrow> context_replay" where
  "collect_artifacts_and_verifications e r =
     (let (artifacts, verifications) =
            fold (collect_payload e) (context_payloads e) (cx_artifacts r, cx_verifications r)
      in r\<lparr>cx_artifacts := artifacts, cx_verifications := verifications\<rparr>)"

section \<open>The events\<close>

definition set_state :: "(task_context_state \<Rightarrow> task_context_state) \<Rightarrow> context_replay \<Rightarrow> context_replay" where
  "set_state f r = r\<lparr>cx_state := f (cx_state r)\<rparr>"

text \<open>\<open>BTreeMap::get_mut\<close>.\<close>

definition bmap_update :: "'k \<Rightarrow> ('v \<Rightarrow> 'v) \<Rightarrow> ('k \<times> 'v) list \<Rightarrow> ('k \<times> 'v) list" where
  "bmap_update k f m = map (\<lambda>(i, v). if i = k then (i, f v) else (i, v)) m"

definition opt_update :: "('a \<Rightarrow> 's \<Rightarrow> 's) \<Rightarrow> 'a option \<Rightarrow> 's \<Rightarrow> 's" where
  "opt_update f x s = (case x of None \<Rightarrow> s | Some v \<Rightarrow> f v s)"

definition with_status :: "string \<Rightarrow> task_context_state \<Rightarrow> task_context_state" where
  "with_status status s = s\<lparr>ts_context_status := status, ts_waiting_for := waiting_for_status status\<rparr>"

definition apply_context_update :: "json \<Rightarrow> task_context_state \<Rightarrow> task_context_state" where
  "apply_context_update d s0 =
     (let s1 = opt_update (\<lambda>v s. s\<lparr>ts_current_turn_index := v\<rparr>) (get_u64 d ''current_turn_index'') s0;
          s2 = opt_update (\<lambda>v s. s\<lparr>ts_next_turn_index := v\<rparr>) (get_u64 d ''next_turn_index'') s1;
          s3 = opt_update (\<lambda>v s. s\<lparr>ts_last_turn_id := Some v\<rparr>) (get_str d ''last_turn_id'') s2;
          s4 = opt_update (\<lambda>v s. s\<lparr>ts_last_decision_id := Some v\<rparr>) (get_str d ''last_decision_id'') s3;
          s5 = opt_update (\<lambda>v s. s\<lparr>ts_latest_observation_ref := Some v\<rparr>) (get_str d ''latest_observation_ref'') s4;
          s6 = opt_update (\<lambda>v s. s\<lparr>ts_provider_transcript_ref := Some v\<rparr>) (get_str d ''provider_transcript_ref'') s5;
          s7 = opt_update (\<lambda>v s. s\<lparr>ts_provider_transcript_summary_ref := Some v\<rparr>)
                 (get_str d ''provider_transcript_summary_ref'') s6;
          s8 = opt_update (\<lambda>v s. s\<lparr>ts_working_memory_ref := Some v\<rparr>) (get_str d ''working_memory_ref'') s7
      in opt_update with_status (get_str d ''status'') s8)"

definition on_session_started :: "process_event \<Rightarrow> task_context_state \<Rightarrow> task_context_state" where
  "on_session_started e s =
     s\<lparr>ts_started := True, ts_start_event_count := sat_add (ts_start_event_count s) 1,
       ts_context_status := ''running'', ts_waiting_for := None,
       ts_goal_ref := or_else (get_str (data e) ''goal_ref'') (ts_goal_ref s),
       ts_system_prompt_ref := or_else (get_str (data e) ''system_prompt_ref'') (ts_system_prompt_ref s)\<rparr>"

definition on_observation_built :: "process_event \<Rightarrow> task_context_state \<Rightarrow> task_context_state" where
  "on_observation_built e s =
     opt_update (\<lambda>v s. s\<lparr>ts_goal_ref := Some v\<rparr>) (get_str (data e) ''goal_ref'')
       (s\<lparr>ts_latest_observation_ref := or_else (get_str (data e) ''observation_frame_ref'') (ts_latest_observation_ref s)\<rparr>)"

definition at_turn :: "64 word \<Rightarrow> process_event \<Rightarrow> task_context_state \<Rightarrow> task_context_state" where
  "at_turn turn_index e s =
     s\<lparr>ts_current_turn_index := max (ts_current_turn_index s) turn_index,
       ts_next_turn_index := max (ts_next_turn_index s) (sat_add turn_index 1),
       ts_last_turn_id := or_else (get_str (data e) ''turn_id'') (ts_last_turn_id s)\<rparr>"

definition on_turn_started :: "process_event \<Rightarrow> task_context_state \<Rightarrow> task_context_state" where
  "on_turn_started e s =
     (at_turn (unwrap_or (ts_next_turn_index s) (turn_index_from_event e)) e s)
       \<lparr>ts_context_status := ''running'', ts_waiting_for := None\<rparr>"

definition turn_decision :: "string \<Rightarrow> (string \<times> preview_tx_state) list \<Rightarrow> pending_user_decision option \<Rightarrow> pending_user_decision option" where
  "turn_decision status previews old =
     (if status = ''waiting_approval''
      then Some \<lparr>pu_decision_type = ''approval'', pu_preview_id = latest_open_preview_id previews,
        pu_user_input_ref = None, pu_status = ''pending''\<rparr>
      else if status = ''waiting_user''
      then Some \<lparr>pu_decision_type = ''user_input'', pu_preview_id = None, pu_user_input_ref = None,
        pu_status = ''pending''\<rparr>
      else old)"

definition on_turn_completed ::
  "process_event \<Rightarrow> (string \<times> preview_tx_state) list \<Rightarrow> task_context_state \<Rightarrow> task_context_state" where
  "on_turn_completed e previews s0 =
     (let s1 = at_turn (unwrap_or (ts_current_turn_index s0) (turn_index_from_event e)) e s0;
          s2 = s1\<lparr>ts_last_decision_id := or_else (get_str (data e) ''decision_id'') (ts_last_decision_id s1)\<rparr>
      in opt_update (\<lambda>status s.
           (with_status status s)\<lparr>ts_pending_user_decision :=
              turn_decision status previews (ts_pending_user_decision s)\<rparr>) (get_str (data e) ''status'') s2)"

definition on_preview_created :: "process_event \<Rightarrow> context_replay \<Rightarrow> context_replay" where
  "on_preview_created e r =
     (let tx_id = string_field (data e) ''tx_id''; preview_id = string_field (data e) ''preview_id''
      in if tx_id = [] \<or> preview_id = [] then r
         else r\<lparr>cx_preview_txs := bmap_insert tx_id
           \<lparr>ptx_tx_id = tx_id, ptx_preview_id = preview_id, ptx_status = ''created'',
            ptx_preview_ref = get_str (data e) ''preview_ref'',
            ptx_executable_operations = preview_operations_state (data e),
            ptx_proposed_actions = strings_field (data e) ''proposed_actions'',
            ptx_target_paths = strings_field (data e) ''target_paths'',
            ptx_approval_token_id = None, ptx_applied_capability_id = None, ptx_applied_event_id = None,
            ptx_closed_event_id = None\<rparr> (cx_preview_txs r)\<rparr>)"

text \<open>An approval resolves the decision the agent waits for.\<close>

definition resolve_approval :: "task_context_state \<Rightarrow> task_context_state" where
  "resolve_approval s =
     s\<lparr>ts_pending_user_decision := map_option (\<lambda>p.
         if pu_decision_type p = ''approval'' then p\<lparr>pu_status := ''resolved''\<rparr> else p) (ts_pending_user_decision s)\<rparr>"

definition update_preview :: "string option \<Rightarrow> (preview_tx_state \<Rightarrow> preview_tx_state) \<Rightarrow> context_replay \<Rightarrow> context_replay" where
  "update_preview tx_id f r =
     opt_update (\<lambda>i r. r\<lparr>cx_preview_txs := bmap_update i f (cx_preview_txs r)\<rparr>) tx_id r"

definition on_preview_approved :: "process_event \<Rightarrow> context_replay \<Rightarrow> context_replay" where
  "on_preview_approved e r =
     set_state resolve_approval
       (update_preview (event_tx_id e)
         (\<lambda>tx. tx\<lparr>ptx_status := ''approved'', ptx_approval_token_id := get_str (data e) ''approval_token_id''\<rparr>) r)"

definition on_token_issued :: "process_event \<Rightarrow> context_replay \<Rightarrow> context_replay" where
  "on_token_issued e r =
     (let token_id = string_field (data e) ''approval_token_id''; tx_id = string_field (data e) ''tx_id''
      in if token_id = [] then r
         else update_preview (Some tx_id) (\<lambda>tx. tx\<lparr>ptx_status := ''approved'', ptx_approval_token_id := Some token_id\<rparr>)
          (r\<lparr>cx_tokens := bmap_insert token_id
             \<lparr>ats_approval_token_id = token_id, ats_tx_id = tx_id,
              ats_preview_id = string_field (data e) ''preview_id'', ats_status = ''active'',
              ats_approved_operation_scope = strings_field (data e) ''approved_operation_scope'',
              ats_approved_action_scope = strings_field (data e) ''approved_action_scope'',
              ats_approved_path_scope = strings_field (data e) ''approved_path_scope'',
              ats_issued_event_id = event_id e, ats_consumed_event_id = None,
              ats_used_capability_id = None\<rparr> (cx_tokens r)\<rparr>))"

definition on_token_consumed :: "process_event \<Rightarrow> context_replay \<Rightarrow> context_replay" where
  "on_token_consumed e r =
     (let token_id = string_field (data e) ''approval_token_id'';
          capability_id = string_field (data e) ''capability_id'';
          used = (if capability_id = [] then None else Some capability_id)
      in case map_of (cx_tokens r) token_id of
           None \<Rightarrow> r
         | Some token \<Rightarrow>
             update_preview (Some (ats_tx_id token))
               (\<lambda>tx. tx\<lparr>ptx_status := ''applied'', ptx_applied_capability_id := used,
                         ptx_applied_event_id := Some (event_id e)\<rparr>)
               (r\<lparr>cx_tokens := bmap_update token_id
                  (\<lambda>t. t\<lparr>ats_status := ''consumed'', ats_consumed_event_id := Some (event_id e),
                          ats_used_capability_id := used\<rparr>) (cx_tokens r)\<rparr>))"

definition on_preview_closed :: "process_event \<Rightarrow> context_replay \<Rightarrow> context_replay" where
  "on_preview_closed e r =
     update_preview (event_tx_id e)
       (\<lambda>tx. tx\<lparr>ptx_status := unwrap_or ''closed'' (get_str (data e) ''status''),
                 ptx_closed_event_id := Some (event_id e)\<rparr>) r"

definition set_closure :: "(closure_context_state \<Rightarrow> closure_context_state) \<Rightarrow> task_context_state \<Rightarrow> task_context_state" where
  "set_closure f s = s\<lparr>ts_closure_state := f (ts_closure_state s)\<rparr>"

definition on_receipt :: "process_event \<Rightarrow> context_replay \<Rightarrow> context_replay" where
  "on_receipt e r =
     (let r1 = collect_artifacts_and_verifications e r
      in if event_capability_id e = Some ''process.complete''
         then set_state (set_closure (\<lambda>c. c\<lparr>cs_last_attempt_event_id := Some (event_id e)\<rparr>)) r1 else r1)"

definition on_transcript :: "process_event \<Rightarrow> context_replay \<Rightarrow> context_replay" where
  "on_transcript e r =
     opt_update (\<lambda>v r. (set_state (\<lambda>s. s\<lparr>ts_provider_transcript_summary_ref := Some v\<rparr>) r)
         \<lparr>cx_provider_refs := bset_insert v (cx_provider_refs r)\<rparr>) (get_str (data e) ''summary_ref'')
       (opt_update (\<lambda>v r. (set_state (\<lambda>s. s\<lparr>ts_provider_transcript_ref := Some v\<rparr>) r)
         \<lparr>cx_provider_refs := bset_insert v (cx_provider_refs r)\<rparr>) (get_str (data e) ''messages_ref'') r)"

definition on_job_ended :: "string \<Rightarrow> process_event \<Rightarrow> task_context_state \<Rightarrow> task_context_state" where
  "on_job_ended status e s =
     s\<lparr>ts_context_status := status, ts_waiting_for := None,
       ts_last_error_summary := or_else (event_error_summary e) (ts_last_error_summary s)\<rparr>"

definition on_job_completed :: "process_event \<Rightarrow> task_context_state \<Rightarrow> task_context_state" where
  "on_job_completed e s =
     set_closure (\<lambda>c. c\<lparr>cs_status := ''completed'', cs_last_completed_event_id := Some (event_id e)\<rparr>)
       (s\<lparr>ts_context_status := ''completed'', ts_waiting_for := None, ts_pending_user_decision := None\<rparr>)"

definition on_user_input :: "process_event \<Rightarrow> task_context_state \<Rightarrow> task_context_state" where
  "on_user_input e s =
     s\<lparr>ts_pending_user_decision := Some \<lparr>pu_decision_type = ''user_input'', pu_preview_id = None,
       pu_user_input_ref = get_str (data e) ''input_ref'', pu_status = ''received''\<rparr>\<rparr>"

definition context_event :: "string \<Rightarrow> process_event \<Rightarrow> context_replay \<Rightarrow> context_replay" where
  "context_event session_id e r =
     (let ty = event_type e; own = (event_runtime_id e = Some session_id)
      in if ty = ''task_agent_session_started'' \<and> own then set_state (on_session_started e) r
         else if ty = ''task_context_state_updated'' \<and> event_session_id e = Some session_id
         then set_state (apply_context_update (data e)) r
         else if ty = ''task_agent_observation_built'' \<and> own then set_state (on_observation_built e) r
         else if ty = ''task_agent_turn_started'' \<and> own then set_state (on_turn_started e) r
         else if ty = ''task_agent_turn_completed'' \<and> own then set_state (on_turn_completed e (cx_preview_txs r)) r
         else if ty = ''preview_tx_created'' then on_preview_created e r
         else if ty = ''preview_tx_approved'' then on_preview_approved e r
         else if ty = ''approval_token_issued'' then on_token_issued e r
         else if ty = ''approval_token_consumed'' \<or> ty = ''approval_token_used'' then on_token_consumed e r
         else if ty = ''preview_tx_closed'' then on_preview_closed e r
         else if ty = ''capability_receipt'' \<or> ty = ''model_call_receipt'' then on_receipt e r
         else if ty = ''artifact_model_audit_receipt'' then collect_artifacts_and_verifications e r
         else if ty = ''provider_transcript_appended'' \<or> ty = ''provider_transcript_compacted'' then on_transcript e r
         else if ty = ''closure_gate_blocked'' then
           set_state (set_closure (\<lambda>c. c\<lparr>cs_status := ''blocked'', cs_last_blocked_event_id := Some (event_id e),
             cs_open_gaps := closure_gaps (data e)\<rparr>)) r
         else if ty = ''job_completed'' then set_state (on_job_completed e) r
         else if ty = ''job_blocked'' then set_state (on_job_ended ''blocked'' e) r
         else if ty = ''job_failed'' then set_state (on_job_ended ''failed'' e) r
         else if ty = ''job_interrupted_by_model_protocol_error'' then
           set_state (\<lambda>s. (on_job_ended ''interrupted'' e s)\<lparr>ts_last_model_protocol_error := Some (data e)\<rparr>) r
         else if ty = ''job_status_changed'' then
           set_state (opt_update with_status (get_str (data e) ''status'')) r
         else if ty = ''user_approval_received'' then set_state resolve_approval r
         else if ty = ''user_input_received'' then set_state (on_user_input e) r
         else if ty = ''process_action_failed'' then
           set_state (\<lambda>s. s\<lparr>ts_last_error_summary := event_error_summary e\<rparr>) r
         else r)"

definition replay_context_event :: "string \<Rightarrow> process_event \<Rightarrow> context_replay \<Rightarrow> context_replay" where
  "replay_context_event session_id e r0 =
     (let r1 = set_state (\<lambda>s. s\<lparr>ts_capability_receipt_cursor := max (ts_capability_receipt_cursor s) (event_id e)\<rparr>) r0;
          r2 = context_event session_id e r1
      in opt_update (\<lambda>v r. r\<lparr>cx_transcript_refs := bset_insert v (cx_transcript_refs r)\<rparr>)
           (or_else (get_str (data e) ''output_ref'') (get_str (data e) ''state_ref'')) r2)"

definition context_replay_start :: "string \<Rightarrow> string \<Rightarrow> string \<Rightarrow> nat \<Rightarrow> context_replay" where
  "context_replay_start job_id root_pid session_id now =
     \<lparr>cx_state = initial_context job_id root_pid session_id now, cx_preview_txs = [], cx_tokens = [],
      cx_artifacts = [], cx_verifications = [], cx_transcript_refs = [], cx_provider_refs = []\<rparr>"

definition replay_context :: "string \<Rightarrow> string \<Rightarrow> string \<Rightarrow> nat \<Rightarrow> process_event list \<Rightarrow> context_replay" where
  "replay_context job_id root_pid session_id now events =
     fold (replay_context_event session_id) events (context_replay_start job_id root_pid session_id now)"

definition replay_task_context_state_from_events ::
  "string \<Rightarrow> string \<Rightarrow> string \<Rightarrow> nat \<Rightarrow> nat \<Rightarrow> process_event list \<Rightarrow> task_context_state" where
  "replay_task_context_state_from_events job_id root_pid session_id now later events =
     (let r = replay_context job_id root_pid session_id now events
      in (cx_state r)\<lparr>ts_preview_tx_table := map snd (cx_preview_txs r),
           ts_approval_token_table := map snd (cx_tokens r), ts_artifact_table := map snd (cx_artifacts r),
           ts_verification_table := cx_verifications r, ts_transcript_refs := cx_transcript_refs r,
           ts_provider_transcript_refs := cx_provider_refs r, ts_updated_at_ms := later\<rparr>)"

definition replay_task_context_state :: "string \<Rightarrow> string \<Rightarrow> string \<Rightarrow> (world, task_context_state) io" where
  "replay_task_context_state job_id root_pid session_id =
     io_bind (read_events job_id) (\<lambda>events. io_bind now_ms (\<lambda>now. io_bind now_ms (\<lambda>later.
     io_return (replay_task_context_state_from_events job_id root_pid session_id now later events))))"

definition active_preview_ids :: "task_context_state \<Rightarrow> string list" where
  "active_preview_ids s = map ptx_preview_id (filter (\<lambda>item. ptx_status item = ''created'') (ts_preview_tx_table s))"

definition active_approval_token_ids :: "task_context_state \<Rightarrow> string list" where
  "active_approval_token_ids s =
     map ats_approval_token_id (filter (\<lambda>item. ats_status item = ''active'') (ts_approval_token_table s))"

end
