(* ===== verification/Task_Context_Claims.thy ===== *)
theory Task_Context_Claims
  imports Task_Context Closure_Claims
begin

text \<open>
  What the replayed task context tells of approval tokens and previews. The table of tokens and the
  table of previews depend on a few kinds of events only (\<open>token_step\<close>), so a token is listed as
  active exactly when it was issued and not consumed afterwards; this agrees with the approval
  runtime and with the closure gate.
\<close>

section \<open>The token table\<close>

definition token_of :: "process_event \<Rightarrow> string" where
  "token_of e = string_field (data e) ''approval_token_id''"

definition issue_event :: "string \<Rightarrow> process_event \<Rightarrow> bool" where
  "issue_event t e \<longleftrightarrow> event_type e = ''approval_token_issued'' \<and> token_of e = t"

definition use_event :: "string \<Rightarrow> process_event \<Rightarrow> bool" where
  "use_event t e \<longleftrightarrow> event_type e \<in> {''approval_token_consumed'', ''approval_token_used''} \<and> token_of e = t"

lemma map_of_bmap_update: "map_of (bmap_update k f m) = (map_of m)(k := map_option f (map_of m k))"
  by (induction m) (auto simp: bmap_update_def fun_eq_iff)

lemma keys_bmap_update [simp]: "map fst (bmap_update k f m) = map fst m"
  by (induction m) (auto simp: bmap_update_def)

lemma ok_bmap_update [simp]: "bmap_ok (bmap_update k f m) = bmap_ok m"
  by (simp add: bmap_ok_def)

lemma tokens_set_state [simp]: "cx_tokens (set_state f r) = cx_tokens r" "cx_preview_txs (set_state f r) = cx_preview_txs r"
  by (simp_all add: set_state_def)

lemma tokens_update_preview [simp]: "cx_tokens (update_preview i f r) = cx_tokens r"
  by (simp add: update_preview_def opt_update_def split: option.splits)

lemma tokens_collect [simp]: "cx_tokens (collect_artifacts_and_verifications e r) = cx_tokens r"
  "cx_preview_txs (collect_artifacts_and_verifications e r) = cx_preview_txs r"
  by (simp_all add: collect_artifacts_and_verifications_def split: prod.splits)

lemma tokens_transcript [simp]: "cx_tokens (on_transcript e r) = cx_tokens r" "cx_preview_txs (on_transcript e r) = cx_preview_txs r"
  by (simp_all add: on_transcript_def opt_update_def split: option.splits)

lemma tokens_other [simp]: "cx_tokens (on_preview_created e r) = cx_tokens r" "cx_tokens (on_preview_approved e r) = cx_tokens r"
  "cx_tokens (on_preview_closed e r) = cx_tokens r" "cx_tokens (on_receipt e r) = cx_tokens r"
  by (simp_all add: on_preview_created_def on_preview_approved_def on_preview_closed_def on_receipt_def Let_def)

lemma tokens_issued: "cx_tokens (on_token_issued e r) = (if token_of e = [] then cx_tokens r else bmap_insert (token_of e)
    \<lparr>ats_approval_token_id = token_of e, ats_tx_id = string_field (data e) ''tx_id'',
     ats_preview_id = string_field (data e) ''preview_id'', ats_status = ''active'',
     ats_approved_operation_scope = strings_field (data e) ''approved_operation_scope'',
     ats_approved_action_scope = strings_field (data e) ''approved_action_scope'',
     ats_approved_path_scope = strings_field (data e) ''approved_path_scope'',
     ats_issued_event_id = event_id e, ats_consumed_event_id = None, ats_used_capability_id = None\<rparr> (cx_tokens r))"
  by (simp add: on_token_issued_def token_of_def Let_def)

definition spent :: "process_event \<Rightarrow> approval_token_state \<Rightarrow> approval_token_state" where
  "spent e t = t\<lparr>ats_status := ''consumed'', ats_consumed_event_id := Some (event_id e),
     ats_used_capability_id := (if string_field (data e) ''capability_id'' = [] then None
       else Some (string_field (data e) ''capability_id''))\<rparr>"

lemma tokens_consumed: "cx_tokens (on_token_consumed e r) = bmap_update (token_of e) (spent e) (cx_tokens r)"
proof (cases "map_of (cx_tokens r) (token_of e)")
  case None
  then have "token_of e \<notin> fst ` set (cx_tokens r)" by (simp add: map_of_eq_None_iff)
  then have "bmap_update (token_of e) (spent e) (cx_tokens r) = cx_tokens r"
    unfolding bmap_update_def by (intro map_idI) (auto simp: image_iff split: prod.splits)
  with None show ?thesis by (simp add: on_token_consumed_def token_of_def Let_def)
next
  case (Some token)
  then show ?thesis by (simp add: on_token_consumed_def token_of_def spent_def [abs_def] Let_def)
qed

text \<open>What one event does to the token table.\<close>

lemma tokens_event: "cx_tokens (replay_context_event session_id e r) =
    (if event_type e = ''approval_token_issued'' then cx_tokens (on_token_issued e r)
     else if event_type e \<in> {''approval_token_consumed'', ''approval_token_used''}
     then bmap_update (token_of e) (spent e) (cx_tokens r) else cx_tokens r)"
proof -
  have "cx_tokens (replay_context_event session_id e r) =
      cx_tokens (context_event session_id e (set_state (\<lambda>s. s\<lparr>ts_capability_receipt_cursor :=
        max (ts_capability_receipt_cursor s) (event_id e)\<rparr>) r))"
    by (simp add: replay_context_event_def opt_update_def Let_def split: option.splits)
  then show ?thesis
    by (simp add: context_event_def Let_def tokens_consumed tokens_issued)
qed

definition replayed :: "string \<Rightarrow> process_event list \<Rightarrow> context_replay \<Rightarrow> context_replay" where
  "replayed session_id = fold (replay_context_event session_id)"

lemma replayed_snoc: "replayed session_id (es @ [e]) r = replay_context_event session_id e (replayed session_id es r)"
  by (simp add: replayed_def)

definition token_entry_ok :: "string \<times> approval_token_state \<Rightarrow> bool" where
  "token_entry_ok = (\<lambda>(k, t). k \<noteq> [] \<and> ats_approval_token_id t = k \<and>
     (ats_status t = ''active'' \<and> ats_consumed_event_id t = None \<or>
      ats_status t = ''consumed'' \<and> ats_consumed_event_id t \<noteq> None))"

lemma set_bmap_insert: "set (bmap_insert k v m) \<subseteq> insert (k, v) (set m)"
  by (induction k v m rule: bmap_insert.induct) auto

lemma entries_updated: "list_all token_entry_ok m \<Longrightarrow> list_all token_entry_ok (bmap_update k (spent e) m)"
  by (auto simp: list_all_iff bmap_update_def token_entry_ok_def spent_def split: prod.splits)

lemma entries_inserted:
  "list_all token_entry_ok m \<Longrightarrow> token_entry_ok (k, v) \<Longrightarrow> list_all token_entry_ok (bmap_insert k v m)"
  unfolding list_all_iff using set_bmap_insert [of k v m] by blast

lemma token_table_event:
  assumes "bmap_ok (cx_tokens r)" and "list_all token_entry_ok (cx_tokens r)"
  shows "bmap_ok (cx_tokens (replay_context_event sid e r)) \<and> list_all token_entry_ok (cx_tokens (replay_context_event sid e r))"
  using assms entries_updated [OF assms(2)]
  by (auto simp: tokens_event tokens_issued bmap_ok_insert intro!: entries_inserted) (simp add: token_entry_ok_def)

lemma token_table_ok:
  assumes "bmap_ok (cx_tokens r)" and "list_all token_entry_ok (cx_tokens r)"
  shows "bmap_ok (cx_tokens (replayed sid es r))" and "list_all token_entry_ok (cx_tokens (replayed sid es r))"
proof (induction es rule: rev_induct)
  case Nil
  case 1 show ?case using assms by (simp add: replayed_def)
  case 2 show ?case using assms by (simp add: replayed_def)
next
  case (snoc e es)
  case 1 show ?case using token_table_event [OF snoc] by (simp add: replayed_snoc)
  case 2 show ?case using token_table_event [OF snoc] by (simp add: replayed_snoc)
qed

text \<open>Issued, and not used since.\<close>

definition issued_unused :: "string \<Rightarrow> process_event list \<Rightarrow> bool" where
  "issued_unused t es \<longleftrightarrow> (\<exists>before e since. es = before @ e # since \<and> issue_event t e \<and> \<not> list_ex (use_event t) since)"

lemma issued_unused_snoc: "issued_unused t (es @ [e]) \<longleftrightarrow> issue_event t e \<or> issued_unused t es \<and> \<not> use_event t e"
proof
  assume "issued_unused t (es @ [e])"
  then obtain b x s where h: "es @ [e] = b @ x # s" "issue_event t x" "\<not> list_ex (use_event t) s"
    by (auto simp: issued_unused_def)
  then show "issue_event t e \<or> issued_unused t es \<and> \<not> use_event t e"
    by (cases s rule: rev_cases) (auto simp: issued_unused_def)
next
  assume "issue_event t e \<or> issued_unused t es \<and> \<not> use_event t e"
  then show "issued_unused t (es @ [e])"
  proof (elim disjE conjE)
    assume "issue_event t e"
    then show ?thesis unfolding issued_unused_def by (intro exI [of _ es] exI [of _ e] exI [of _ "[]"]) simp
  next
    assume "issued_unused t es" "\<not> use_event t e"
    then obtain b x s where "es = b @ x # s" "issue_event t x" "\<not> list_ex (use_event t) (s @ [e])"
      by (auto simp: issued_unused_def)
    then show ?thesis unfolding issued_unused_def by (intro exI [of _ b] exI [of _ x] exI [of _ "s @ [e]"]) simp
  qed
qed

definition active_in :: "(string \<times> approval_token_state) list \<Rightarrow> string \<Rightarrow> bool" where
  "active_in m t \<longleftrightarrow> (case map_of m t of None \<Rightarrow> False | Some s \<Rightarrow> ats_status s = ''active'')"

lemma active_event:
  assumes "bmap_ok (cx_tokens r)"
  shows "active_in (cx_tokens (replay_context_event sid e r)) t \<longleftrightarrow>
    t \<noteq> [] \<and> issue_event t e \<or> active_in (cx_tokens r) t \<and> \<not> use_event t e"
  using assms
  by (auto simp: tokens_event tokens_issued active_in_def issue_event_def use_event_def map_of_bmap_insert map_of_bmap_update
      spent_def split: option.splits if_splits)

lemma active_replayed:
  assumes "cx_tokens r = []"
  shows "active_in (cx_tokens (replayed sid es r)) t \<longleftrightarrow> t \<noteq> [] \<and> issued_unused t es"
proof (induction es rule: rev_induct)
  case Nil
  then show ?case using assms by (simp add: replayed_def active_in_def issued_unused_def)
next
  case (snoc e es)
  have "bmap_ok (cx_tokens (replayed sid es r))" by (rule token_table_ok) (simp_all add: assms bmap_ok_def)
  from active_event [OF this] snoc show ?case by (auto simp: replayed_snoc issued_unused_snoc)
qed

lemma active_ids_replayed:
  "t \<in> set (active_approval_token_ids (replay_task_context_state_from_events job pid sid now later es)) \<longleftrightarrow>
     active_in (cx_tokens (replay_context job pid sid now es)) t"
proof -
  let ?r = "context_replay_start job pid sid now"
  let ?m = "cx_tokens (replayed sid es ?r)"
  have r: "replay_context job pid sid now es = replayed sid es ?r" by (simp add: replay_context_def replayed_def)
  have "bmap_ok ?m" "list_all token_entry_ok ?m"
    by (rule token_table_ok; simp add: context_replay_start_def bmap_ok_def)+
  then have entry: "(t, s) \<in> set ?m \<longleftrightarrow> map_of ?m t = Some s" for s by (simp add: bmap_ok_distinct)
  then have "active_in ?m t \<longleftrightarrow> (\<exists>s. (t, s) \<in> set ?m \<and> ats_status s = ''active'')"
    by (simp add: active_in_def entry split: option.splits)
  also have "\<dots> \<longleftrightarrow> (\<exists>s \<in> snd ` set ?m. ats_status s = ''active'' \<and> ats_approval_token_id s = t)"
    using \<open>list_all token_entry_ok ?m\<close> by (force simp: list_all_iff token_entry_ok_def)
  finally show ?thesis
    by (auto simp: active_approval_token_ids_def replay_task_context_state_from_events_def r Let_def)
qed

lemma active_ids_iff:
  "t \<in> set (active_approval_token_ids (replay_task_context_state_from_events job pid sid now later es)) \<longleftrightarrow>
     t \<noteq> [] \<and> issued_unused t es"
  using active_replayed [of "context_replay_start job pid sid now" sid es t]
  by (simp add: active_ids_replayed replay_context_def replayed_def context_replay_start_def)

text \<open>
  The task context lists a token as active exactly when the log issued it and no later event
  consumed or used it.
\<close>

theorem active_tokens_exact:
  "t \<in> set (active_approval_token_ids (replay_task_context_state_from_events job pid sid now later events)) \<longleftrightarrow>
     t \<noteq> [] \<and> (\<exists>earlier e since. events = earlier @ e # since \<and> issue_event t e \<and> \<not> list_ex (use_event t) since)"
  by (simp add: active_ids_iff issued_unused_def)

section \<open>Agreement with the approval runtime and the gate\<close>

lemma validate_keeps_log: "io_keeps (\<lambda>w w'. w_events w' = w_events w) (validate_token sd job t cap targets)"
proof -
  let ?R = "\<lambda>w w'. w_events w' = w_events w"
  have read: "io_keeps ?R (read_events job)" unfolding io_keeps_def using read_events_world [of job] by (metis prod.collapse)
  have clock: "io_keeps ?R now_ms" by (simp add: io_keeps_def now_ms_def)
  have bind: "io_keeps ?R m \<Longrightarrow> (\<And>x. io_keeps ?R (f x)) \<Longrightarrow> io_keeps ?R (io_bind m f)" for m f
    by (rule io_keeps_bind) (simp_all add: transp_def)
  have pure: "io_keeps ?R (io_return x)" for x by (simp add: io_keeps_def io_return_def)
  have "io_keeps ?R (case get_u64 (data e) ''expires_at_ms'' of None \<Rightarrow> io_return True
      | Some expires \<Rightarrow> io_bind now_ms (\<lambda>now. io_return (now \<le> unat expires)))" for e
    by (cases "get_u64 (data e) ''expires_at_ms''") (simp_all add: pure bind [OF clock pure])
  note expiry = bind [OF this pure]
  have check: "io_keeps ?R (case x of None \<Rightarrow> io_return False | Some e \<Rightarrow>
      if b then io_return False else io_bind (case get_u64 (data e) ''expires_at_ms'' of None \<Rightarrow> io_return True
      | Some expires \<Rightarrow> io_bind now_ms (\<lambda>now. io_return (now \<le> unat expires))) (\<lambda>ok. io_return (f e ok)))"
    for x b and f :: "process_event \<Rightarrow> bool \<Rightarrow> bool"
    by (cases x; cases b) (simp_all add: pure expiry)
  show ?thesis unfolding validate_token_def Let_def
    by (rule io_keeps_if [OF pure]) (rule bind [OF read check])
qed

lemma validated_open:
  assumes "validate_token sd job t cap targets w = (Inr True, w')"
  shows "\<exists>e \<in> set (log_of w job). issue_event t e \<and> token_open (log_of w job) e"
    and "\<not> list_ex (use_event t) (log_of w job)" and "t \<noteq> []" and "log_of w' job = log_of w job"
proof -
  from assms have "trim t \<noteq> []" by (auto simp: validate_token_def io_return_def)
  then show t: "t \<noteq> []" by auto
  from validate_token_sound [OF assms] obtain e where e: "e \<in> set (log_of w job)" "issues_token t e"
    "\<not> token_is_consumed (log_of w job) t" by (auto simp: token_authorizes_def)
  then show "\<exists>e \<in> set (log_of w job). issue_event t e \<and> token_open (log_of w job) e"
    using t by (auto simp: issues_token_def issue_event_def token_of_def string_field_def token_open_def)
  from e(3) t show "\<not> list_ex (use_event t) (log_of w job)"
    by (auto simp: token_is_consumed_def use_event_def token_of_def string_field_def list_ex_iff unwrap_or_def split: option.splits)
  from validate_keeps_log [THEN io_keepsD, OF assms] show "log_of w' job = log_of w job" by simp
qed

text \<open>
  A token the approval runtime accepts is listed as active by the task context replayed right
  after, and it keeps the closure gate shut: the three readers of the log agree on it.
\<close>

theorem accepted_token_is_listed:
  assumes "validate_token sd job t cap targets w = (Inr True, w1)"
    and "replay_task_context_state job pid sid w1 = (Inr context, w2)"
  shows "t \<in> set (active_approval_token_ids context) \<and>
    \<not> cg_can_complete (gate_on_events root fs sd' (job_events job (w_events w2)) refs)"
proof -
  note v = validated_open [OF assms(1)]
  from assms(2) obtain now later where c: "context = replay_task_context_state_from_events job pid sid now later (log_of w1 job)"
    and e: "w_events w2 = w_events w1"
    by (auto simp: replay_task_context_state_def io_bind_success io_return_def now_ms_def dest!: read_events_result)
  from v(1) obtain x earlier since where "log_of w job = earlier @ x # since" "issue_event t x" by (meson split_list)
  with v(2-4) have "t \<in> set (active_approval_token_ids context)"
    unfolding c active_ids_iff issued_unused_def by (intro conjI exI [of _ earlier] exI [of _ x] exI [of _ since]) simp_all
  moreover from v(1,4) have "\<not> cg_can_complete (gate_on_events root fs sd' (job_events job (w_events w2)) refs)"
    by (auto simp: e gate_decision nothing_open_def)
  ultimately show ?thesis ..
qed

section \<open>Witness\<close>

lemma runs_replay_context: "runs (replay_task_context_state job pid sid)"
  unfolding replay_task_context_state_def by (intro runs_intros)

theorem accepted_token_is_listed_witness:
  "\<exists>t w w1 context w2. validate_token demo_serde ''j'' t ''workspace.delete'' [''docs/a''] w = (Inr True, w1) \<and>
     replay_task_context_state ''j'' ''p'' ''s'' w1 = (Inr context, w2) \<and> t \<in> set (active_approval_token_ids context)"
proof -
  obtain px w1 tok w2 where r:
    "create_preview_tx demo_serde ''j'' ''p'' ''md'' [demo_operation] ''high'' demo_world = (Inr px, w1)"
    "issue_token_for_latest_preview demo_serde ''j'' ''p'' ''ok'' w1 = (Inr tok, w2)"
    "px_tx_id px \<notin> set (closed_or_approved_tx (log_of demo_world ''j''))"
    "px_executable_operations px = [demo_operation]" "no_faults w2"
    "\<not> token_is_consumed (log_of w2 ''j'') (at_approval_token_id tok)"
    "w_clock w2 (w_ticks w2) \<le> at_expires_at_ms tok" by (rule demo_run)
  have "fst (validate_token demo_serde ''j'' (at_approval_token_id tok) ''workspace.delete'' [''docs/a''] w2) = Inr True"
    by (rule created_token_validates [OF r(1,3,2,5,6,7)])
      (use demo_capability demo_target in \<open>simp_all add: r(4)\<close>)
  with runsE [OF runs_validate_token r(5)] obtain w3 where
    v: "validate_token demo_serde ''j'' (at_approval_token_id tok) ''workspace.delete'' [''docs/a''] w2 = (Inr True, w3)"
    and "no_faults w3" by (metis fst_conv)
  with runsE [OF runs_replay_context] obtain ctx w4 where c: "replay_task_context_state ''j'' ''p'' ''s'' w3 = (Inr ctx, w4)" by metis
  from accepted_token_is_listed [OF v c] v c show ?thesis by blast
qed

end
