(* ===== verification/Provider_Tool.thy ===== *)
theory Provider_Tool
  imports Transcript_Protocol Model_Budget Capability_Registry Process_Truth
begin

text \<open>
  The tools offered to a model provider (\<open>provider_tool.rs\<close>): the name a capability goes by, the
  registry that binds names to capabilities, and the decoding of a call into a decision of the
  agent. Of a tool definition only the name is kept; descriptions and parameter schemas are text for
  the provider. Decisions (\<open>reasoning.rs\<close>) come first.
\<close>

section \<open>Decisions\<close>

datatype task_agent_decision_kind = DkDecideNextAction | DkVerifyArtifact | DkRunCapability | DkRequestPreview
  | DkClarify | DkComplete | DkInterrupted | DkFail

record next_action_decision =
  nd_decision_id :: string
  nd_kind :: task_agent_decision_kind
  nd_reason :: string
  nd_capability_id :: string
  nd_artifact_path :: "string option"
  nd_input_refs :: "string list"
  nd_output_spec :: json
  nd_model_operation :: "model_operation option"
  nd_retry_limit :: "32 word"

fun decision_kind_name :: "task_agent_decision_kind \<Rightarrow> string" where
  "decision_kind_name DkDecideNextAction = ''decide_next_action''"
| "decision_kind_name DkVerifyArtifact = ''verify_artifact''"
| "decision_kind_name DkRunCapability = ''run_capability''"
| "decision_kind_name DkRequestPreview = ''request_preview''"
| "decision_kind_name DkClarify = ''clarify''"
| "decision_kind_name DkComplete = ''complete''"
| "decision_kind_name DkInterrupted = ''interrupted''"
| "decision_kind_name DkFail = ''fail''"

definition decision_json :: "next_action_decision \<Rightarrow> json" where
  "decision_json d = jobj
     [(''decision_id'', JString (nd_decision_id d)), (''kind'', JString (decision_kind_name (nd_kind d))),
      (''reason'', JString (nd_reason d)), (''capability_id'', JString (nd_capability_id d)),
      (''artifact_path'', jopt (nd_artifact_path d)), (''input_refs'', jstrings (nd_input_refs d)),
      (''output_spec'', nd_output_spec d), (''model_operation'', jopt (map_option operation_as_str (nd_model_operation d))),
      (''retry_limit'', Number (PosInt (ucast (nd_retry_limit d))))]"

definition decision :: "task_agent_decision_kind \<Rightarrow> string \<Rightarrow> string \<Rightarrow> (world, next_action_decision) io" where
  "decision kind capability_id reason =
     io_bind now_ms (\<lambda>now. io_return
       \<lparr>nd_decision_id = ''decision_'' @ dec now, nd_kind = kind, nd_reason = reason,
        nd_capability_id = capability_id, nd_artifact_path = None, nd_input_refs = [],
        nd_output_spec = jobj [], nd_model_operation = None, nd_retry_limit = 0\<rparr>)"

section \<open>Tools and their registry\<close>

record provider_tool_binding =
  tb_provider_tool_name :: string
  tb_capability_id :: string
  tb_phase :: string
  tb_read_only_or_process_control :: bool

record provider_tool_registry =
  pg_tools :: "string list"
  pg_bindings :: "(string \<times> provider_tool_binding) list"

record provider_tool_protocol_error =
  pe_error_code :: string
  pe_message :: string
  pe_provider_tool_name :: "string option"
  pe_provider_tool_call_id :: "string option"
  pe_capability_id :: "string option"

definition phase4_provider_tool_capabilities :: "string list" where
  "phase4_provider_tool_capabilities =
     [''os.list_tree'', ''os.workspace_inventory'', ''os.stat_path'', ''os.read_file'', ''process.read_ref'',
      ''process.query_events'', ''process.toolset.select'', ''process.clarify'', ''process.fail'', ''process.complete'']"

definition phase5_preview_provider_tool_capabilities :: "string list" where
  "phase5_preview_provider_tool_capabilities = []"

definition phase5_mutation_apply_provider_tool_capabilities :: "string list" where
  "phase5_mutation_apply_provider_tool_capabilities =
     [''os.move_path'', ''os.rename_path'', ''os.delete_path'', ''office.docx.rewrite_in_place'']"

definition chat_runtime_provider_tool_capabilities :: "string list" where
  "chat_runtime_provider_tool_capabilities =
     [''chat.answer'', ''chat.clarify'', ''chat.needs_task'', ''os.list_tree'', ''os.workspace_inventory'',
      ''os.stat_path'', ''os.read_file'', ''os.hash_path'', ''os.diff'', ''os.verify_artifact'', ''source_set.create'',
      ''source_set.read_page'', ''source_set.coverage_verify'', ''workspace.batch_hash'', ''workspace.find_duplicates'',
      ''workspace.recent_changes'', ''workspace.recent_changes_snapshot'', ''dataset.read_page'',
      ''data.csv.read_dataset'', ''dataset.coverage_verify'', ''artifact.inspect'', ''artifact.audit_readonly'',
      ''client_env.scan_overview'', ''client_env.scan_device'', ''client_env.scan_storage'',
      ''client_env.scan_network'', ''client_env.scan_runtimes'', ''client_env.read_snapshot'',
      ''client_env.request_sensitive_disclosure'', ''process.read_ref'', ''tool.result.page'',
      ''tool.result.search'', ''tool.result.inspect_schema'', ''office.inspect_workbook'',
      ''office.workbook.read_cells'', ''office.workbook.read_text'', ''office.docx.read_text'',
      ''document.pdf.extract_text'', ''office.docx.batch_read_text'', ''office.docx.batch_extract_metadata'',
      ''office.docx.batch_validate'', ''office.docx.diff_summary'', ''office.docx.validate'']"

definition provider_tool_name_for_capability :: "string \<Rightarrow> string" where
  "provider_tool_name_for_capability capability_id =
     ''cap_'' @ map (\<lambda>c. if is_ascii_alphanumeric c then c else CHR ''_'') (filter (\<lambda>c. \<not> is_continuation c) capability_id)"

definition provider_tool_capability_is_exposable :: "string \<Rightarrow> bool" where
  "provider_tool_capability_is_exposable capability_id = (\<not> starts_with capability_id ''model.'')"

definition provider_tool_capability_is_task_runtime_exposable :: "string \<Rightarrow> bool" where
  "provider_tool_capability_is_task_runtime_exposable capability_id =
     (provider_tool_capability_is_exposable capability_id \<and> \<not> starts_with capability_id ''chat.'' \<and>
      capability_id \<notin> {''process.approval.record'', ''process.request_preview'', ''process.preview.create'',
        ''process.pending_approvals'', ''workspace.rename_batch_preview'', ''os.write_source_mutation_preview'',
        ''office.docx.rewrite_in_place_preview''})"

definition provider_tool_is_mutation_apply_capability :: "string \<Rightarrow> bool" where
  "provider_tool_is_mutation_apply_capability capability_id =
     (capability_id \<in> set phase5_mutation_apply_provider_tool_capabilities \<or>
      capability_id \<in> {''os.write_file'', ''os.write_source_mutation_apply'', ''os.move_path'', ''os.rename_path'',
        ''os.delete_path'', ''os.rollback_tx'', ''workspace.apply_organize_tx'', ''workspace.rename_batch_apply'',
        ''office.docx.rewrite_in_place''})"

definition tool_binding :: "string \<Rightarrow> string \<Rightarrow> provider_tool_binding" where
  "tool_binding phase capability_id =
     \<lparr>tb_provider_tool_name = provider_tool_name_for_capability capability_id, tb_capability_id = capability_id,
      tb_phase = phase,
      tb_read_only_or_process_control = (\<not> provider_tool_is_mutation_apply_capability capability_id)\<rparr>"

fun bind_tools ::
  "string list \<Rightarrow> string \<Rightarrow> nat option \<Rightarrow> capability_descriptor list \<Rightarrow> provider_tool_registry \<Rightarrow> provider_tool_registry" where
  "bind_tools known phase limit [] g = g"
| "bind_tools known phase limit (d # ds) g =
     (let c = cd_capability_id d; name = provider_tool_name_for_capability c in
      if c \<notin> set known \<or> \<not> provider_tool_capability_is_exposable c then bind_tools known phase limit ds g
      else if (case limit of None \<Rightarrow> False | Some m \<Rightarrow> m \<le> length (pg_tools g)) then g
      else bind_tools known phase limit ds
        \<lparr>pg_tools = pg_tools g @ [name], pg_bindings = bmap_insert name (tool_binding phase c) (pg_bindings g)\<rparr>)"

definition from_capability_descriptors ::
  "capability_descriptor list \<Rightarrow> capability_descriptor list \<Rightarrow> string \<Rightarrow> nat option \<Rightarrow> provider_tool_registry" where
  "from_capability_descriptors registry descriptors phase limit =
     bind_tools (map cd_capability_id registry) phase limit descriptors \<lparr>pg_tools = [], pg_bindings = []\<rparr>"

definition from_capability_ids_with_limit ::
  "capability_descriptor list \<Rightarrow> string list \<Rightarrow> string \<Rightarrow> nat option \<Rightarrow> provider_tool_registry" where
  "from_capability_ids_with_limit registry capability_ids phase limit =
     from_capability_descriptors registry (filter (\<lambda>d. cd_capability_id d \<in> set capability_ids) registry) phase limit"

text \<open>The argument \<open>max_tools\<close> stands for \<open>config.tool_calling.max_provider_tools_per_request\<close>.\<close>

definition phase4_readonly :: "capability_descriptor list \<Rightarrow> nat \<Rightarrow> provider_tool_registry" where
  "phase4_readonly registry max_tools = from_capability_ids_with_limit registry
     phase4_provider_tool_capabilities ''phase4_readonly_mvp'' (Some max_tools)"

definition phase5_approval_aware :: "capability_descriptor list \<Rightarrow> nat \<Rightarrow> provider_tool_registry" where
  "phase5_approval_aware registry max_tools = from_capability_ids_with_limit registry
     (phase4_provider_tool_capabilities @ phase5_preview_provider_tool_capabilities @
      phase5_mutation_apply_provider_tool_capabilities) ''phase5_approval_aware_mutation_mvp'' (Some max_tools)"

definition provider_tool_phase6_full_coverage :: string where
  "provider_tool_phase6_full_coverage = ''phase6_full_schema_coverage''"

definition phase6_full_coverage :: "capability_descriptor list \<Rightarrow> provider_tool_registry" where
  "phase6_full_coverage registry = from_capability_descriptors registry
     (filter (\<lambda>d. provider_tool_capability_is_task_runtime_exposable (cd_capability_id d)) registry)
     provider_tool_phase6_full_coverage None"

definition phase6_schema_coverage :: "capability_descriptor list \<Rightarrow> provider_tool_registry" where
  "phase6_schema_coverage registry = from_capability_descriptors registry
     (filter (\<lambda>d. provider_tool_capability_is_exposable (cd_capability_id d)) registry)
     provider_tool_phase6_full_coverage None"

definition phase6_selected :: "capability_descriptor list \<Rightarrow> string list \<Rightarrow> string \<Rightarrow> provider_tool_registry" where
  "phase6_selected registry capability_ids phase = from_capability_ids_with_limit registry capability_ids phase None"

definition chat_runtime_readonly :: "capability_descriptor list \<Rightarrow> nat \<Rightarrow> provider_tool_registry" where
  "chat_runtime_readonly registry max_tools = from_capability_ids_with_limit registry
     chat_runtime_provider_tool_capabilities ''chat_runtime_readonly'' (Some max_tools)"

definition binding_for_tool_name :: "provider_tool_registry \<Rightarrow> string \<Rightarrow> provider_tool_binding option" where
  "binding_for_tool_name g name = map_of (pg_bindings g) name"

section \<open>Decoding a call\<close>

definition provider_tool_call_name :: "provider_tool_call \<Rightarrow> provider_tool_protocol_error + string" where
  "provider_tool_call_name call =
     (case get_str (tc_function call) ''name'' of
        Some name \<Rightarrow> if trim name \<noteq> [] then Inr name else Inl
          \<lparr>pe_error_code = ''PROVIDER_TOOL_FUNCTION_NAME_MISSING'',
           pe_message = ''provider tool_call.function.name is missing'', pe_provider_tool_name = None,
           pe_provider_tool_call_id = Some (tc_id call), pe_capability_id = None\<rparr>
      | None \<Rightarrow> Inl
          \<lparr>pe_error_code = ''PROVIDER_TOOL_FUNCTION_NAME_MISSING'',
           pe_message = ''provider tool_call.function.name is missing'', pe_provider_tool_name = None,
           pe_provider_tool_call_id = Some (tc_id call), pe_capability_id = None\<rparr>)"

text \<open>\<open>provider_tool_call_name(call).ok()\<close>.\<close>

definition call_name_ok :: "provider_tool_call \<Rightarrow> string option" where
  "call_name_ok call = (case provider_tool_call_name call of Inl _ \<Rightarrow> None | Inr name \<Rightarrow> Some name)"

text \<open>\<open>parse_error\<close> is the text of the parser's error, a parameter like the parser.\<close>

definition provider_tool_call_arguments ::
  "json_codec \<Rightarrow> (string \<Rightarrow> string) \<Rightarrow> provider_tool_call \<Rightarrow> provider_tool_protocol_error + json" where
  "provider_tool_call_arguments cd parse_error call =
     (case jget (tc_function call) ''arguments'' of
        None \<Rightarrow> Inr (jobj [])
      | Some (Object m) \<Rightarrow> Inr (Object m)
      | Some (JString text) \<Rightarrow>
          if trim text = [] then Inr (jobj [])
          else (case from_str cd text of
            Some v \<Rightarrow> Inr v
          | None \<Rightarrow> Inl \<lparr>pe_error_code = ''PROVIDER_TOOL_ARGUMENTS_JSON_INVALID'',
              pe_message = ''provider tool_call.function.arguments is not valid JSON: '' @ parse_error text,
              pe_provider_tool_name = get_str (tc_function call) ''name'',
              pe_provider_tool_call_id = Some (tc_id call), pe_capability_id = None\<rparr>)
      | Some _ \<Rightarrow> Inl \<lparr>pe_error_code = ''PROVIDER_TOOL_ARGUMENTS_TYPE_INVALID'',
          pe_message = ''provider tool_call.function.arguments must be a JSON string or object'',
          pe_provider_tool_name = get_str (tc_function call) ''name'',
          pe_provider_tool_call_id = Some (tc_id call), pe_capability_id = None\<rparr>)"

definition forbidden_model_capability :: "string \<Rightarrow> string option" where
  "forbidden_model_capability function_name =
     map_option (\<lambda>tail. ''model.'' @ map (\<lambda>c. if c = CHR ''_'' then CHR ''.'' else c) tail)
       (strip_prefix function_name ''cap_model_'')"

definition unregistered_tool_error :: "provider_tool_call \<Rightarrow> string \<Rightarrow> provider_tool_protocol_error" where
  "unregistered_tool_error call function_name =
     (case forbidden_model_capability function_name of
        Some model_capability \<Rightarrow> \<lparr>pe_error_code = ''PROVIDER_TOOL_MODEL_CAPABILITY_FORBIDDEN'',
          pe_message = ''provider-native tool call attempted forbidden model capability: '' @ model_capability,
          pe_provider_tool_name = Some function_name, pe_provider_tool_call_id = Some (tc_id call),
          pe_capability_id = Some model_capability\<rparr>
      | None \<Rightarrow> \<lparr>pe_error_code = ''PROVIDER_TOOL_FUNCTION_UNREGISTERED'',
          pe_message = ''provider-native tool function is not registered: '' @ function_name,
          pe_provider_tool_name = Some function_name, pe_provider_tool_call_id = Some (tc_id call),
          pe_capability_id = None\<rparr>)"

definition decision_kind_for :: "string \<Rightarrow> task_agent_decision_kind" where
  "decision_kind_for capability_id =
     (if capability_id = ''process.request_preview'' then DkRequestPreview
      else if capability_id = ''process.clarify'' then DkClarify
      else if capability_id = ''process.complete'' then DkComplete
      else if capability_id = ''process.fail'' then DkFail
      else DkRunCapability)"

definition call_reason :: "json \<Rightarrow> string" where
  "call_reason arguments =
     (case get_str arguments ''reason'' of
        Some r \<Rightarrow> if trim r \<noteq> [] then r else ''DeepSeek provider-native tool call requested this capability.''
      | None \<Rightarrow> ''DeepSeek provider-native tool call requested this capability.'')"

definition decision_for_tool_call ::
  "json_codec \<Rightarrow> (string \<Rightarrow> string) \<Rightarrow> provider_tool_registry \<Rightarrow> provider_tool_call \<Rightarrow>
   (world, provider_tool_protocol_error + next_action_decision) io" where
  "decision_for_tool_call cd parse_error g call =
     (case provider_tool_call_name call of
        Inl e \<Rightarrow> io_return (Inl e)
      | Inr function_name \<Rightarrow>
         (case binding_for_tool_name g function_name of
            None \<Rightarrow> io_return (Inl (unregistered_tool_error call function_name))
          | Some binding \<Rightarrow>
             (case provider_tool_call_arguments cd parse_error call of
                Inl e \<Rightarrow> io_return (Inl e)
              | Inr arguments \<Rightarrow>
                  io_bind (decision (decision_kind_for (tb_capability_id binding)) (tb_capability_id binding)
                    (call_reason arguments)) (\<lambda>next_decision.
                  io_return (Inr (next_decision\<lparr>nd_output_spec := arguments\<rparr>))))))"

end
