(* ===== verification/Tool_Loop.thy ===== *)
theory Tool_Loop
  imports Provider_Tool Approval_Runtime
begin

text \<open>
  The budget of a tool call loop (\<open>provider_tool_loop_executor.rs\<close>): how many model calls a turn may
  make, how many tool calls one answer may ask for, and how many a task may run in all. Sizes are 64
  bit words, as \<open>usize\<close>.
\<close>

datatype runtime_kind = RkChat | RkTask

fun runtime_kind_name :: "runtime_kind \<Rightarrow> string" where
  "runtime_kind_name RkChat = ''chat''"
| "runtime_kind_name RkTask = ''task''"

record provider_tool_loop_policy =
  lp_max_provider_subturns :: "64 word"
  lp_max_tool_calls_per_subturn :: "64 word"
  lp_max_tool_calls_total :: "64 word"
  lp_allow_parallel_readonly :: bool
  lp_mutation_allowed :: bool

definition normalized :: "provider_tool_loop_policy \<Rightarrow> provider_tool_loop_policy" where
  "normalized p = p\<lparr>lp_max_provider_subturns := max (lp_max_provider_subturns p) 1,
     lp_max_tool_calls_per_subturn := max (lp_max_tool_calls_per_subturn p) 1,
     lp_max_tool_calls_total := max (lp_max_tool_calls_total p) 1\<rparr>"

datatype budget_error_kind = PerSubturnToolCallLimit | TotalToolCallLimit

record provider_tool_loop_budget_error =
  be_kind :: budget_error_kind
  be_requested_tool_calls :: "64 word"
  be_limit :: "64 word"
  be_executed_tool_calls_before :: "64 word"
  be_all_read_only_or_control :: bool
  be_message :: string

definition budget_error_code :: string where
  "budget_error_code = ''MODEL_TOOL_LOOP_BUDGET_EXCEEDED''"

fun budget_kind :: "budget_error_kind \<Rightarrow> string" where
  "budget_kind PerSubturnToolCallLimit = ''per_subturn_tool_call_limit''"
| "budget_kind TotalToolCallLimit = ''total_tool_call_limit''"

record provider_tool_loop_subturn =
  sb_runtime_kind :: runtime_kind
  sb_subturn_index :: nat
  sb_model_call_id :: string
  sb_provider_tool_batch_id :: string
  sb_tool_call_count :: nat
  sb_max_tool_calls_per_subturn :: "64 word"
  sb_max_tool_calls_total :: "64 word"
  sb_executed_tool_calls_before_subturn :: "64 word"
  sb_all_read_only_or_control :: bool
  sb_mutation_allowed :: bool
  sb_allow_parallel_readonly :: bool

definition jword :: "64 word \<Rightarrow> json" where
  "jword n = Number (PosInt n)"

definition subturn_json :: "provider_tool_loop_subturn \<Rightarrow> json" where
  "subturn_json s = jobj
     [(''runtime_kind'', JString (runtime_kind_name (sb_runtime_kind s))),
      (''subturn_index'', jword (word_of_nat (sb_subturn_index s))),
      (''model_call_id'', JString (sb_model_call_id s)),
      (''provider_tool_batch_id'', JString (sb_provider_tool_batch_id s)),
      (''tool_call_count'', jword (word_of_nat (sb_tool_call_count s))),
      (''max_tool_calls_per_subturn'', jword (sb_max_tool_calls_per_subturn s)),
      (''max_tool_calls_total'', jword (sb_max_tool_calls_total s)),
      (''executed_tool_calls_before_subturn'', jword (sb_executed_tool_calls_before_subturn s)),
      (''all_read_only_or_control'', Bool (sb_all_read_only_or_control s)),
      (''mutation_allowed'', Bool (sb_mutation_allowed s)),
      (''allow_parallel_readonly'', Bool (sb_allow_parallel_readonly s))]"

record provider_tool_loop_executor =
  le_policy :: provider_tool_loop_policy
  le_executed_tool_calls :: "64 word"

definition loop_executor :: "provider_tool_loop_policy \<Rightarrow> provider_tool_loop_executor" where
  "loop_executor p = \<lparr>le_policy = normalized p, le_executed_tool_calls = 0\<rparr>"

definition mark_executed :: "64 word \<Rightarrow> provider_tool_loop_executor \<Rightarrow> provider_tool_loop_executor" where
  "mark_executed n_calls e = e\<lparr>le_executed_tool_calls := sat_add (le_executed_tool_calls e) n_calls\<rparr>"

definition seed_executed_tool_calls :: "64 word \<Rightarrow> provider_tool_loop_executor \<Rightarrow> provider_tool_loop_executor" where
  "seed_executed_tool_calls n_calls e = e\<lparr>le_executed_tool_calls := n_calls\<rparr>"

definition batch_id :: "string \<Rightarrow> nat \<Rightarrow> string" where
  "batch_id model_call_id subturn_index = ''ptbatch_'' @ safe_blob_name model_call_id @ ''_'' @ dec subturn_index"

definition check_subturn_budget ::
  "provider_tool_loop_executor \<Rightarrow> provider_tool_call list \<Rightarrow> bool \<Rightarrow> provider_tool_loop_budget_error + unit" where
  "check_subturn_budget e tool_calls all_read_only_or_control =
     (let requested = word_of_nat (length tool_calls); per_subturn = lp_max_tool_calls_per_subturn (le_policy e);
          total_limit = lp_max_tool_calls_total (le_policy e);
          total = sat_add (le_executed_tool_calls e) requested
      in if requested > per_subturn \<and> \<not> all_read_only_or_control
         then Inl \<lparr>be_kind = PerSubturnToolCallLimit, be_requested_tool_calls = requested, be_limit = per_subturn,
           be_executed_tool_calls_before = le_executed_tool_calls e,
           be_all_read_only_or_control = all_read_only_or_control,
           be_message = ''provider tool loop returned '' @ dec (unat requested) @
             '' non-read-only tool calls in one subturn, exceeding limit '' @ dec (unat per_subturn)\<rparr>
         else if total > total_limit
         then Inl \<lparr>be_kind = TotalToolCallLimit, be_requested_tool_calls = requested, be_limit = total_limit,
           be_executed_tool_calls_before = le_executed_tool_calls e,
           be_all_read_only_or_control = all_read_only_or_control,
           be_message = ''provider tool loop would execute '' @ dec (unat total) @
             '' total tool calls, exceeding limit '' @ dec (unat total_limit)\<rparr>
         else Inr ())"

text \<open>The adapter is given by its kind and by its answer for the calls.\<close>

definition begin_subturn ::
  "provider_tool_loop_executor \<Rightarrow> runtime_kind \<Rightarrow> bool \<Rightarrow> string \<Rightarrow> nat \<Rightarrow> provider_tool_call list \<Rightarrow>
   provider_tool_loop_budget_error + provider_tool_loop_subturn" where
  "begin_subturn e kind all_read_only_or_control model_call_id subturn_index tool_calls =
     (case check_subturn_budget e tool_calls all_read_only_or_control of
        Inl err \<Rightarrow> Inl err
      | Inr _ \<Rightarrow> Inr
          \<lparr>sb_runtime_kind = kind, sb_subturn_index = subturn_index, sb_model_call_id = model_call_id,
           sb_provider_tool_batch_id = batch_id model_call_id subturn_index,
           sb_tool_call_count = length tool_calls,
           sb_max_tool_calls_per_subturn = lp_max_tool_calls_per_subturn (le_policy e),
           sb_max_tool_calls_total = lp_max_tool_calls_total (le_policy e),
           sb_executed_tool_calls_before_subturn = le_executed_tool_calls e,
           sb_all_read_only_or_control = all_read_only_or_control,
           sb_mutation_allowed = lp_mutation_allowed (le_policy e),
           sb_allow_parallel_readonly = lp_allow_parallel_readonly (le_policy e)\<rparr>)"

definition validate_subturn ::
  "provider_tool_loop_executor \<Rightarrow> provider_tool_call list \<Rightarrow> bool \<Rightarrow> unit res" where
  "validate_subturn e tool_calls all_read_only_or_control =
     (case check_subturn_budget e tool_calls all_read_only_or_control of
        Inl err \<Rightarrow> Inl (IoError InvalidInput (be_message err)) | Inr _ \<Rightarrow> Inr ())"

definition skipped_result :: "provider_tool_call \<Rightarrow> string \<Rightarrow> string \<Rightarrow> nat \<Rightarrow> json" where
  "skipped_result call reason batch index = jobj
     [(''status'', JString ''skipped''), (''reason'', JString reason), (''provider_tool_batch_id'', JString batch),
      (''provider_tool_call_id'', JString (tc_id call)), (''provider_tool_call_index'', jword (word_of_nat index)),
      (''provider_tool_name'', jopt (call_name_ok call))]"

text \<open>\<open>provider_tool_calls_are_limit_exempt\<close> of the task adapter.\<close>

definition provider_tool_calls_are_limit_exempt :: "provider_tool_registry \<Rightarrow> provider_tool_call list \<Rightarrow> bool" where
  "provider_tool_calls_are_limit_exempt g tool_calls = list_all (\<lambda>call.
     case Option.bind (call_name_ok call) (binding_for_tool_name g) of
       None \<Rightarrow> False | Some binding \<Rightarrow> tb_read_only_or_process_control binding) tool_calls"

section \<open>What the budget promises\<close>

text \<open>A subturn that begins keeps the executed calls below the limit, even if all its calls are run.\<close>

lemma subturn_within_budget:
  assumes "begin_subturn e kind ro mc i calls = Inr s" and "length calls < 2 ^ 64"
  shows "unat (le_executed_tool_calls e) + length calls \<le> unat (lp_max_tool_calls_total (le_policy e)) \<or>
    lp_max_tool_calls_total (le_policy e) = - 1"
proof -
  have u: "unat (word_of_nat (length calls) :: 64 word) = length calls" using assms(2) by (simp add: unat_of_nat take_bit_nat_eq_self)
  from assms(1) have "sat_add (le_executed_tool_calls e) (word_of_nat (length calls)) \<le> lp_max_tool_calls_total (le_policy e)"
    by (auto simp: begin_subturn_def check_subturn_budget_def Let_def split: if_splits)
  then have "min (unat (le_executed_tool_calls e) + length calls) (2 ^ 64 - 1) \<le> unat (lp_max_tool_calls_total (le_policy e))"
    by (simp add: word_le_nat_alt unat_sat_add u)
  moreover have "unat (lp_max_tool_calls_total (le_policy e)) = 2 ^ 64 - 1 \<Longrightarrow> lp_max_tool_calls_total (le_policy e) = - 1"
    by (simp add: word_unat_eq_iff unsigned_minus_1_eq_mask mask_eq_exp_minus_1)
  moreover have "unat (lp_max_tool_calls_total (le_policy e)) \<le> 2 ^ 64 - 1"
    using unsigned_less [of "lp_max_tool_calls_total (le_policy e)", where 'a = nat] by simp
  ultimately show ?thesis by (cases "unat (le_executed_tool_calls e) + length calls \<le> 2 ^ 64 - 1") (auto simp: min_def split: if_splits)
qed

end
