(* ===== verification/Task_Agent.thy ===== *)
theory Task_Agent
  imports Tool_Loop Closure_Gate Provider_Transcript Replay
begin

text \<open>
  The operations of a task agent that change the state of its job (\<open>task_agent.rs\<close>, \<open>action.rs\<close>): actions
  and their validation, completion through the closure gate, failure, clarification, interruption,
  and the receipts around them.
\<close>

record task_agent =
  ta_root :: path
  ta_state_root :: path
  ta_job :: string
  ta_pid :: string
  ta_token_id :: string
  ta_capabilities :: "string list"
  ta_runtime_id :: string
  ta_registry :: "capability_descriptor list"
  ta_policy :: provider_tool_loop_policy
  ta_codec :: json_codec
  ta_parse_error :: "string \<Rightarrow> string"
  ta_probe :: file_probe
  ta_max_depth :: nat
  ta_tool_calls_enabled :: bool

definition agent_event :: "task_agent \<Rightarrow> string \<Rightarrow> (string \<times> json) list \<Rightarrow> (world, unit) io" where
  "agent_event ag ty kvs = io_bind (append_event (ta_job ag) (Some (ta_pid ag)) ty (jobj kvs)) (\<lambda>_. io_return ())"

definition agent_event_of :: "task_agent \<Rightarrow> string \<Rightarrow> json \<Rightarrow> (world, unit) io" where
  "agent_event_of ag ty d = io_bind (append_event (ta_job ag) (Some (ta_pid ag)) ty d) (\<lambda>_. io_return ())"

definition jopt_json :: "json option \<Rightarrow> json" where
  "jopt_json v = unwrap_or Null v"

section \<open>Actions\<close>

datatype process_action_kind = AkRunCapability | AkModelCall | AkForkProcess | AkRequestPreview | AkCommit
  | AkVerify | AkAudit | AkClarify | AkComplete | AkFail

fun action_kind_name :: "process_action_kind \<Rightarrow> string" where
  "action_kind_name AkRunCapability = ''run_capability''"
| "action_kind_name AkModelCall = ''model_call''"
| "action_kind_name AkForkProcess = ''fork_process''"
| "action_kind_name AkRequestPreview = ''request_preview''"
| "action_kind_name AkCommit = ''commit''"
| "action_kind_name AkVerify = ''verify''"
| "action_kind_name AkAudit = ''audit''"
| "action_kind_name AkClarify = ''clarify''"
| "action_kind_name AkComplete = ''complete''"
| "action_kind_name AkFail = ''fail''"

record process_action =
  pn_action_id :: string
  pn_job_id :: string
  pn_pid :: string
  pn_reasoning_step_id :: string
  pn_action_kind :: process_action_kind
  pn_capability_id :: string
  pn_input_refs :: "string list"
  pn_output_spec :: json
  pn_policy :: json
  pn_verify_plan :: json
  pn_reason :: string

definition action_json :: "process_action \<Rightarrow> json" where
  "action_json a = jobj
     [(''action_id'', JString (pn_action_id a)), (''job_id'', JString (pn_job_id a)), (''pid'', JString (pn_pid a)),
      (''reasoning_step_id'', JString (pn_reasoning_step_id a)),
      (''action_kind'', JString (action_kind_name (pn_action_kind a))),
      (''capability_id'', JString (pn_capability_id a)), (''input_refs'', jstrings (pn_input_refs a)),
      (''output_spec'', pn_output_spec a), (''policy'', pn_policy a), (''verify_plan'', pn_verify_plan a),
      (''reason'', JString (pn_reason a))]"

definition validate_action :: "string list \<Rightarrow> process_action \<Rightarrow> task_agent \<Rightarrow> string list" where
  "validate_action capability_ids a ag =
     (if pn_job_id a \<noteq> ta_job ag then [''action job_id does not match capability token''] else []) @
     (if pn_pid a \<noteq> ta_pid ag then [''action pid does not match capability token''] else []) @
     (if pn_capability_id a \<notin> set capability_ids then [''unknown capability: '' @ pn_capability_id a] else []) @
     (if pn_capability_id a \<notin> set (ta_capabilities ag)
      then [''capability token does not grant '' @ pn_capability_id a] else []) @
     (if trim (pn_action_id a) = [] then [''action_id is required''] else []) @
     (if trim (pn_reasoning_step_id a) = [] then [''reasoning_step_id is required''] else [])"

definition validate_or_err :: "string list \<Rightarrow> process_action \<Rightarrow> task_agent \<Rightarrow> unit res" where
  "validate_or_err capability_ids a ag =
     (let errors = validate_action capability_ids a ag in
      if errors = [] then Inr () else Inl (IoError PermissionDenied (join ''; '' errors)))"

definition agent_action ::
  "task_agent \<Rightarrow> string \<Rightarrow> process_action_kind \<Rightarrow> string \<Rightarrow> string list \<Rightarrow> json \<Rightarrow> string \<Rightarrow> (world, process_action) io" where
  "agent_action ag reasoning_step_id action_kind capability_id input_refs output_spec reason =
     io_bind now_ms (\<lambda>now. io_return
       \<lparr>pn_action_id = ''act_'' @ safe_blob_name reasoning_step_id @ ''_'' @ dec now, pn_job_id = ta_job ag,
        pn_pid = ta_pid ag, pn_reasoning_step_id = reasoning_step_id, pn_action_kind = action_kind,
        pn_capability_id = capability_id, pn_input_refs = input_refs, pn_output_spec = output_spec,
        pn_policy = jobj [(''capability_token'', JString (ta_token_id ag)), (''fail_closed'', Bool True)],
        pn_verify_plan = jobj [(''runtime_verify_required'', Bool True), (''no_silent_fallback'', Bool True)],
        pn_reason = reason\<rparr>)"

definition emit_and_validate_action :: "task_agent \<Rightarrow> process_action \<Rightarrow> (world, unit) io" where
  "emit_and_validate_action ag a =
     io_bind (agent_event_of ag ''process_action_emitted'' (action_json a)) (\<lambda>_.
     case validate_or_err (map cd_capability_id (ta_registry ag)) a ag of
       Inr _ \<Rightarrow>
         io_bind (agent_event ag ''process_action_validated''
           [(''action_id'', JString (pn_action_id a)), (''capability_id'', JString (pn_capability_id a))]) (\<lambda>_.
         agent_event ag ''agent_tool_action_validated''
           [(''runtime_id'', JString (ta_runtime_id ag)), (''action_id'', JString (pn_action_id a)),
            (''capability_id'', JString (pn_capability_id a))])
     | Inl err \<Rightarrow>
         io_bind (agent_event ag ''process_action_blocked''
           [(''action_id'', JString (pn_action_id a)), (''capability_id'', JString (pn_capability_id a)),
            (''error'', JString (err_msg err))]) (\<lambda>_. io_fail err))"

section \<open>Receipts\<close>

definition record_capability_execution :: "task_agent \<Rightarrow> next_action_decision \<Rightarrow> capability_receipt \<Rightarrow> (world, unit) io" where
  "record_capability_execution ag d receipt = agent_event ag ''agent_tool_action_executed''
     [(''runtime_id'', JString (ta_runtime_id ag)), (''decision_id'', JString (nd_decision_id d)),
      (''capability_id'', JString (rc_capability_id receipt)), (''status'', JString (rc_status receipt)),
      (''receipt_data'', rc_data receipt)]"

definition process_capability_receipt ::
  "task_agent \<Rightarrow> string \<Rightarrow> string \<Rightarrow> json \<Rightarrow> (world, capability_receipt) io" where
  "process_capability_receipt ag capability_id status d =
     (let receipt = \<lparr>rc_capability_id = capability_id, rc_job_id = ta_job ag, rc_pid = ta_pid ag,
            rc_status = status, rc_data = d\<rparr> in
      io_bind (agent_event_of ag ''capability_receipt'' (receipt_json receipt)) (\<lambda>_. io_return receipt))"

section \<open>Ends of a job\<close>

definition error_json :: "string \<Rightarrow> string \<Rightarrow> json" where
  "error_json code message = jobj [(''code'', JString code), (''message'', JString message)]"

definition fail_job :: "task_agent \<Rightarrow> string \<Rightarrow> string \<Rightarrow> (world, unit) io" where
  "fail_job ag code message =
     io_bind (update_job_status (ta_job ag) ''failed'') (\<lambda>_.
     io_bind (agent_event ag ''job_failed''
       [(''error'', error_json code message), (''runtime_id'', JString (ta_runtime_id ag))]) (\<lambda>_.
     agent_event ag ''task_agent_session_failed''
       [(''runtime_id'', JString (ta_runtime_id ag)), (''session_id'', JString (ta_runtime_id ag)),
        (''error'', error_json code message)]))"

definition block_job :: "task_agent \<Rightarrow> string \<Rightarrow> string \<Rightarrow> (world, unit) io" where
  "block_job ag code message =
     io_bind (update_job_status (ta_job ag) ''blocked'') (\<lambda>_.
     io_bind (agent_event ag ''job_blocked''
       [(''error'', error_json code message), (''runtime_id'', JString (ta_runtime_id ag))]) (\<lambda>_.
     agent_event ag ''task_agent_session_blocked''
       [(''runtime_id'', JString (ta_runtime_id ag)), (''session_id'', JString (ta_runtime_id ag)),
        (''error'', error_json code message)]))"

definition fail_max_steps :: "task_agent \<Rightarrow> (world, unit) io" where
  "fail_max_steps ag = fail_job ag ''TASK_AGENT_MAX_TURNS'' ''Task Agent Session exceeded max turns.''"

definition agent_fail :: "task_agent \<Rightarrow> string \<Rightarrow> next_action_decision \<Rightarrow> (world, unit) io" where
  "agent_fail ag reasoning_step_id d =
     io_bind (agent_action ag reasoning_step_id AkFail ''process.fail'' []
       (jobj [(''reason'', JString (nd_reason d))]) (nd_reason d)) (\<lambda>a.
     io_bind (emit_and_validate_action ag a) (\<lambda>_.
     fail_job ag (unwrap_or ''TASK_AGENT_FAILED'' (get_str (nd_output_spec d) ''error_code'')) (nd_reason d)))"

definition clarify :: "task_agent \<Rightarrow> string \<Rightarrow> next_action_decision \<Rightarrow> (world, unit) io" where
  "clarify ag reasoning_step_id d =
     io_bind (agent_action ag reasoning_step_id AkClarify ''process.clarify'' []
       (jobj [(''missing_fact'', JString ''explicit_paths_and_operation'')]) (nd_reason d)) (\<lambda>a.
     io_bind (emit_and_validate_action ag a) (\<lambda>_.
     io_bind (update_job_status (ta_job ag) ''waiting_user'') (\<lambda>_.
     agent_event ag ''job_waiting_user''
       [(''reason'', JString (nd_reason d)),
        (''question'', JString ''Please provide explicit paths and the intended operation before this destructive task can continue.'')])))"

definition interrupt_by_model_protocol_error ::
  "task_agent \<Rightarrow> string \<Rightarrow> next_action_decision \<Rightarrow> (world, string) io" where
  "interrupt_by_model_protocol_error ag reasoning_step_id d =
     io_bind (update_job_status (ta_job ag) ''interrupted'') (\<lambda>_.
     let error_code = unwrap_or ''MODEL_PROTOCOL_INTERRUPTED'' (get_str (nd_output_spec d) ''error_code'');
         reason = unwrap_or (nd_reason d) (get_str (nd_output_spec d) ''reason'')
     in io_bind (agent_event ag ''job_interrupted_by_model_protocol_error''
       [(''status'', JString ''interrupted''), (''runtime_id'', JString (ta_runtime_id ag)),
        (''turn_id'', JString reasoning_step_id), (''error'', error_json error_code reason),
        (''model_output_ref'', jopt_json (jget (nd_output_spec d) ''model_output_ref'')),
        (''already_materialized_artifacts'',
          unwrap_or (Array []) (jget (nd_output_spec d) ''already_materialized_artifacts'')),
        (''user_visible_artifact_candidates'',
          unwrap_or (Array []) (jget (nd_output_spec d) ''user_visible_artifact_candidates'')),
        (''runtime_note'', JString ''model decision protocol failed after user-visible artifacts were materialized; execution is fail-closed but artifact facts are preserved for user/runner review'')]) (\<lambda>_.
     io_bind (agent_event ag ''task_agent_session_interrupted''
       [(''runtime_id'', JString (ta_runtime_id ag)), (''session_id'', JString (ta_runtime_id ag)),
        (''status'', JString ''interrupted''), (''turn_id'', JString reasoning_step_id),
        (''error_code'', JString error_code)]) (\<lambda>_. io_return ''interrupted'')))"

section \<open>Completion\<close>

text \<open>Splitting at a comma, a line end, a semicolon or a full-width semicolon (three bytes).\<close>

fun split_claims :: "string \<Rightarrow> string \<Rightarrow> string list" where
  "split_claims acc [] = [acc]"
| "split_claims acc (c # s) =
     (if c \<in> {CHR '','', CHR 0x0A, CHR '';''} then acc # split_claims [] s
      else if c = CHR 0xEF \<and> take 2 s = [CHR 0xBC, CHR 0x9B] then acc # split_claims [] (drop 2 s)
      else split_claims (acc @ [c]) s)"

definition string_or_array_values :: "json option \<Rightarrow> string list" where
  "string_or_array_values v =
     (case v of
        Some (Array items) \<Rightarrow> filter (\<lambda>item. item \<noteq> []) (map trim (List.map_filter (\<lambda>item.
          or_else (as_str item) (Option.bind (or_else (jget item ''path'') (jget item ''artifact_path'')) as_str)) items))
      | Some (JString text) \<Rightarrow> filter (\<lambda>item. item \<noteq> []) (map trim (split_claims [] text))
      | _ \<Rightarrow> [])"

definition completion_statement :: "next_action_decision \<Rightarrow> string" where
  "completion_statement d =
     (case get_str (nd_output_spec d) ''completion_statement'' of
        Some s \<Rightarrow> if trim s \<noteq> [] then s else nd_reason d | None \<Rightarrow> nd_reason d)"

definition claimed_artifacts :: "next_action_decision \<Rightarrow> string list" where
  "claimed_artifacts d =
     (let claimed = string_or_array_values (jget (nd_output_spec d) ''claimed_artifacts'');
          artifacts = (if claimed = [] then string_or_array_values (jget (nd_output_spec d) ''artifacts'') else claimed)
      in bset_collect (filter (\<lambda>item. item \<noteq> []) (map (\<lambda>item. fwd_slashes (trim item)) artifacts)))"

definition is_internal_artifact_claim :: "string \<Rightarrow> bool" where
  "is_internal_artifact_claim path =
     (let lower = to_ascii_lowercase (trim path) in
      starts_with lower ''blob://'' \<or> starts_with lower ''dataset://'' \<or> starts_with lower ''artifact://'' \<or>
      starts_with lower ''artifact_ref://'' \<or> starts_with lower ''source_set://'' \<or>
      starts_with lower ''raw_document_set://'' \<or> starts_with lower ''model_ledger://'' \<or>
      str_contains lower ''.supernova_v2'')"

definition missing_claim :: "task_agent \<Rightarrow> string \<Rightarrow> string option" where
  "missing_claim ag artifact_path =
     (let trimmed = trim artifact_path in
      if trimmed = [] \<or> is_internal_artifact_claim trimmed then Some artifact_path
      else (case resolve_workspace_path (ta_root ag) (unix_components trimmed) of
              Inl err \<Rightarrow> Some (trimmed @ '':'' @ err)
            | Inr p \<Rightarrow> if unreadable (ta_probe ag) p then Some trimmed else None))"

definition agent_missing_artifacts :: "task_agent \<Rightarrow> string list \<Rightarrow> string list" where
  "agent_missing_artifacts ag artifact_refs = List.map_filter (missing_claim ag) artifact_refs"

definition completion_fields :: "next_action_decision \<Rightarrow> (string \<times> json) list" where
  "completion_fields d =
     [(''completion_statement'', JString (completion_statement d)),
      (''claimed_artifacts'', jstrings (claimed_artifacts d)),
      (''key_sources'', jstrings (string_or_array_values (jget (nd_output_spec d) ''key_sources''))),
      (''known_limitations'', jstrings (string_or_array_values (jget (nd_output_spec d) ''known_limitations''))),
      (''user_review_notes'', jstrings (string_or_array_values (jget (nd_output_spec d) ''user_review_notes'')))]"

definition closure_gate_json :: "closure_gate_result \<Rightarrow> json" where
  "closure_gate_json g = jobj
     [(''can_complete'', Bool (cg_can_complete g)), (''hard_blocks'', Array (map closure_block_json (cg_hard_blocks g))),
      (''advisory_findings'', Array (map closure_finding_json (cg_advisory_findings g))),
      (''completion_facts'', Array (map closure_fact_json (cg_completion_facts g))),
      (''artifact_roles'', Array (map artifact_role_json (cg_artifact_roles g))),
      (''missing_artifacts'', jstrings (cg_missing_artifacts g)),
      (''failed_verifications'', jstrings (cg_failed_verifications g)),
      (''pending_mutations'', jstrings (cg_pending_mutations g)),
      (''pending_approvals'', jstrings (cg_pending_approvals g)), (''coverage_gaps'', jstrings (cg_coverage_gaps g)),
      (''audit_gaps'', jstrings (cg_audit_gaps g)), (''model_audit_gaps'', jstrings (cg_model_audit_gaps g)),
      (''typed_artifact_verifier_gaps'', jstrings (cg_typed_artifact_verifier_gaps g)),
      (''unresolved_required_failures'', jstrings (cg_unresolved_required_failures g)),
      (''human_review_required'', Bool (cg_human_review_required g))]"

definition turn_fields :: "task_agent \<Rightarrow> string \<Rightarrow> (string \<times> json) list" where
  "turn_fields ag turn_id = [(''runtime_id'', JString (ta_runtime_id ag)), (''turn_id'', JString turn_id)]"

text \<open>The hard blocks before the gate is asked: they leave the task running.\<close>

definition refuse_internal_refs :: "task_agent \<Rightarrow> string \<Rightarrow> next_action_decision \<Rightarrow> (world, string) io" where
  "refuse_internal_refs ag turn_id d =
     io_bind (agent_event ag ''completion_blocked'' (turn_fields ag turn_id @
       [(''reason'', JString ''internal_data_refs_are_not_user_visible_artifacts''),
        (''input_refs'', jstrings (nd_input_refs d)),
        (''runtime_note'', JString ''internal data refs are not user-visible artifacts'')])) (\<lambda>_.
     io_bind (process_capability_receipt ag ''process.complete'' ''blocked'' (jobj
       [(''reason'', JString ''internal_data_refs_are_not_user_visible_artifacts''),
        (''completion_recoverable'', Bool True), (''input_refs'', jstrings (nd_input_refs d))])) (\<lambda>_.
     io_return ''running''))"

definition refuse_claims ::
  "task_agent \<Rightarrow> string \<Rightarrow> string list \<Rightarrow> string list \<Rightarrow> string list \<Rightarrow> string \<Rightarrow> (world, string) io" where
  "refuse_claims ag turn_id claimed missing internal statement_ref =
     io_bind (agent_event ag ''completion_blocked'' (turn_fields ag turn_id @
       [(''reason'', JString ''claimed_artifact_hard_block''), (''claimed_artifacts'', jstrings claimed),
        (''missing_artifacts'', jstrings missing), (''internal_claimed_artifacts'', jstrings internal),
        (''completion_statement_ref'', JString statement_ref), (''completion_recoverable'', Bool True),
        (''runtime_note'', JString ''process.complete checks claimed artifact file facts only; TaskAgent remains responsible for task judgment'')])) (\<lambda>_.
     io_bind (process_capability_receipt ag ''process.complete'' ''blocked'' (jobj
       [(''reason'', JString ''claimed_artifact_hard_block''), (''completion_recoverable'', Bool True),
        (''claimed_artifacts'', jstrings claimed), (''missing_artifacts'', jstrings missing),
        (''internal_claimed_artifacts'', jstrings internal), (''completion_statement_ref'', JString statement_ref)]))
      (\<lambda>_. io_return ''running''))"

text \<open>A refusal by the gate, and the completion once it has passed.\<close>

definition refuse_by_gate :: "task_agent \<Rightarrow> closure_gate_result \<Rightarrow> (world, string) io" where
  "refuse_by_gate ag gate =
     (let receipt = receipt_json (closure_block_receipt (ta_job ag) (ta_pid ag) gate) in
      io_bind (agent_event_of ag ''closure_gate_blocked'' receipt) (\<lambda>_.
      io_bind (agent_event_of ag ''capability_receipt'' receipt) (\<lambda>_. io_return ''running'')))"

definition record_completion ::
  "task_agent \<Rightarrow> string \<Rightarrow> next_action_decision \<Rightarrow> string list \<Rightarrow> string \<Rightarrow> closure_gate_result \<Rightarrow> (world, string) io" where
  "record_completion ag turn_id d all_artifacts statement_ref gate =
     io_bind (if cg_advisory_findings gate = [] then io_return ()
       else agent_event ag ''completion_advisory_findings'' (turn_fields ag turn_id @
         [(''advisory_findings'', Array (map closure_finding_json (cg_advisory_findings gate))),
          (''completion_facts'', Array (map closure_fact_json (cg_completion_facts gate))),
          (''runtime_note'', JString ''advisory findings are recorded for TaskAgent/user review and did not block hard runtime completion'')])) (\<lambda>_.
     io_bind (agent_event ag ''completion_statement_recorded'' (turn_fields ag turn_id @
       [(''completion_statement_ref'', JString statement_ref)] @ completion_fields d @
       [(''runtime_note'', JString ''completion statement is the TaskAgent-owned delivery ledger recorded by process.complete'')])) (\<lambda>_.
     io_bind (update_job_status (ta_job ag) ''completed'') (\<lambda>_.
     io_bind (agent_event ag ''job_completed''
       ([(''status'', JString ''completed''), (''artifacts'', jstrings (claimed_artifacts d)),
         (''all_artifacts'', jstrings all_artifacts)] @ turn_fields ag turn_id @
        [(''completion_statement_ref'', JString statement_ref)] @ completion_fields d @
        [(''completion_advisory_count'', jnat (length (cg_advisory_findings gate))),
         (''completion_hard_block_count'', jnat (length (cg_hard_blocks gate)))])) (\<lambda>_.
     io_bind (agent_event ag ''task_agent_session_completed''
       [(''runtime_id'', JString (ta_runtime_id ag)), (''session_id'', JString (ta_runtime_id ag)),
        (''status'', JString ''completed'')]) (\<lambda>_. io_return ''completed'')))))"

definition agent_complete :: "task_agent \<Rightarrow> string \<Rightarrow> next_action_decision \<Rightarrow> (world, string) io" where
  "agent_complete ag turn_id d =
     io_bind (replay (ta_job ag)) (\<lambda>replayed.
     let claimed = claimed_artifacts d in
     io_bind (write_blob (ta_job ag) (''completion/'' @ safe_blob_name turn_id @ ''_statement.json'')
       (to_pretty (ta_codec ag) (jobj (completion_fields d)))) (\<lambda>statement_ref.
     io_bind (agent_action ag turn_id AkComplete ''process.complete'' (nd_input_refs d)
       (jobj ((''completion_statement_ref'', JString statement_ref) # completion_fields d)) (nd_reason d)) (\<lambda>a.
     io_bind (emit_and_validate_action ag a) (\<lambda>_.
     if claimed = [] \<and> list_ex is_internal_artifact_claim (nd_input_refs d)
     then refuse_internal_refs ag turn_id d
     else
       io_bind (if claimed = [] \<and> rp_artifact_refs replayed \<noteq> []
         then agent_event ag ''completion_claimed_artifacts_empty_warning'' (turn_fields ag turn_id @
           [(''materialized_artifacts'', jstrings (rp_artifact_refs replayed)),
            (''completion_statement_ref'', JString statement_ref),
            (''runtime_note'', JString ''TaskAgent submitted process.complete without claimed_artifacts even though user-visible artifact facts already exist; this is an advisory fact warning, not a hard completion block.'')])
         else io_return ()) (\<lambda>_.
       let missing = agent_missing_artifacts ag claimed; internal = filter is_internal_artifact_claim claimed in
       if missing \<noteq> [] \<or> internal \<noteq> [] then refuse_claims ag turn_id claimed missing internal statement_ref
       else
         io_bind (check_closure_gate_for_claimed_artifacts (ta_root ag) (ta_probe ag) (serde.truncate (ta_codec ag))
           (ta_job ag) claimed) (\<lambda>gate.
         io_bind (agent_event_of ag ''closure_gate_checked'' (closure_gate_json gate)) (\<lambda>_.
         if \<not> cg_can_complete gate then refuse_by_gate ag gate
         else record_completion ag turn_id d (rp_artifact_refs replayed) statement_ref gate)))))))"

end
