(* ===== verification/Tool_Recovery.thy ===== *)
theory Tool_Recovery
  imports Task_Agent Os_Files
begin

text \<open>
  What a task agent answers to the provider for a tool call: the result of a receipt, and the corrective
  hints for a call the kernel rejected (\<open>task_agent.rs\<close>). The summary of a tool's schema is a parameter.
\<close>

section \<open>Rejected calls\<close>

definition workspace_path_fields :: "string list" where
  "workspace_path_fields =
     [''path'', ''root_path'', ''input_path'', ''output_path'', ''artifact_path'', ''source_path'', ''destination_path'',
      ''left_path'', ''right_path'', ''archive_path'', ''destination_dir'', ''destination_zip_path'', ''tree_path'',
      ''manifest_path'', ''checksums_path'', ''perf_notes_path'']"

definition raw_tool_result_path :: "string \<Rightarrow> bool" where
  "raw_tool_result_path v =
     (let p = fwd_slashes (trim v) in
      p = ''raw_tool_results'' \<or> starts_with p ''raw_tool_results/'' \<or> starts_with p ''/raw_tool_results/'' \<or>
      str_contains p ''/raw_tool_results/'' \<or> (str_contains p ''blob://'' \<and> str_contains p ''/raw_tool_results/''))"

definition raw_tool_result_path_field :: "next_action_decision \<Rightarrow> (string \<times> string) option" where
  "raw_tool_result_path_field d =
     find (\<lambda>(field, v). raw_tool_result_path v)
       (List.map_filter (\<lambda>field. map_option (Pair field) (get_str (nd_output_spec d) field)) workspace_path_fields)"

definition blocked_artifact_extension :: "string \<Rightarrow> string option" where
  "blocked_artifact_extension path =
     (let p = to_ascii_lowercase (fwd_slashes (trim path)) in
      if ends_with p ''.zip'' then Some ''.zip'' else if ends_with p ''.docx'' then Some ''.docx'' else None)"

definition write_artifact_inline_text :: "next_action_decision \<Rightarrow> string option" where
  "write_artifact_inline_text d =
     or_else (get_str (nd_output_spec d) ''content'') (get_str (nd_output_spec d) ''text'')"

text \<open>The Chinese words are given by their UTF-8 bytes.\<close>

definition completion_claims :: "string list" where
  "completion_claims =
     [[CHR 0xE5, CHR 0xB7, CHR 0xB2, CHR 0xE6, CHR 0x89, CHR 0xA7, CHR 0xE8, CHR 0xA1, CHR 0x8C],
      [CHR 0xE6, CHR 0x89, CHR 0xA7, CHR 0xE8, CHR 0xA1, CHR 0x8C, CHR 0xE5, CHR 0xAE, CHR 0x8C, CHR 0xE6, CHR 0x88, CHR 0x90],
      [CHR 0xE5, CHR 0xB7, CHR 0xB2, CHR 0xE5, CHR 0xAE, CHR 0x8C, CHR 0xE6, CHR 0x88, CHR 0x90],
      [CHR 0xE6, CHR 0x88, CHR 0x90, CHR 0xE5, CHR 0x8A, CHR 0x9F, CHR 0xE5, CHR 0x88, CHR 0xA0, CHR 0xE9, CHR 0x99, CHR 0xA4],
      [CHR 0xE6, CHR 0x88, CHR 0x90, CHR 0xE5, CHR 0x8A, CHR 0x9F, CHR 0xE7, CHR 0xA7, CHR 0xBB, CHR 0xE5, CHR 0x8A, CHR 0xA8],
      [CHR 0xE6, CHR 0x88, CHR 0x90, CHR 0xE5, CHR 0x8A, CHR 0x9F, CHR 0xE9, CHR 0x87, CHR 0x8D, CHR 0xE5, CHR 0x91, CHR 0xBD, CHR 0xE5, CHR 0x90, CHR 0x8D],
      [CHR 0xE5, CHR 0xB7, CHR 0xB2, CHR 0xE5, CHR 0x88, CHR 0xA0, CHR 0xE9, CHR 0x99, CHR 0xA4],
      [CHR 0xE5, CHR 0xB7, CHR 0xB2, CHR 0xE7, CHR 0xA7, CHR 0xBB, CHR 0xE5, CHR 0x8A, CHR 0xA8],
      [CHR 0xE5, CHR 0xB7, CHR 0xB2, CHR 0xE9, CHR 0x87, CHR 0x8D, CHR 0xE5, CHR 0x91, CHR 0xBD, CHR 0xE5, CHR 0x90, CHR 0x8D],
      ''status: completed'', ''status\": \"completed'', ''completed'', ''executed'', ''deleted'', ''moved'',
      ''renamed'']"

definition mutation_claims :: "string list" where
  "mutation_claims =
     [[CHR 0xE5, CHR 0x88, CHR 0xA0, CHR 0xE9, CHR 0x99, CHR 0xA4],
      [CHR 0xE7, CHR 0xA7, CHR 0xBB, CHR 0xE5, CHR 0x8A, CHR 0xA8],
      [CHR 0xE9, CHR 0x87, CHR 0x8D, CHR 0xE5, CHR 0x91, CHR 0xBD, CHR 0xE5, CHR 0x90, CHR 0x8D],
      [CHR 0xE6, CHR 0xB8, CHR 0x85, CHR 0xE7, CHR 0x90, CHR 0x86],
      [CHR 0xE5, CHR 0xBD, CHR 0x92, CHR 0xE6, CHR 0xA1, CHR 0xA3], ''rename'', ''renamed'', ''move'',
      ''moved'', ''delete'', ''deleted'', ''cleanup'', ''archive'', ''organize'']"

definition claims_workspace_mutation :: "next_action_decision \<Rightarrow> bool" where
  "claims_workspace_mutation d =
     (case write_artifact_inline_text d of None \<Rightarrow> False
      | Some text \<Rightarrow> let lower = to_ascii_lowercase text in
          list_ex (str_contains lower) completion_claims \<and> list_ex (str_contains lower) mutation_claims)"

definition rooted_or_absolute :: "string \<Rightarrow> bool" where
  "rooted_or_absolute v =
     (let t = trim v in
      starts_with t ''/'' \<or> starts_with t [CHR 0x5C] \<or>
      (3 \<le> length t \<and> t ! 1 = CHR '':'' \<and> t ! 2 \<in> {CHR ''/'', CHR 0x5C}))"

definition root_path_argument_is_rooted :: "next_action_decision \<Rightarrow> bool" where
  "root_path_argument_is_rooted d =
     (case get_str (nd_output_spec d) ''root_path'' of None \<Rightarrow> False | Some v \<Rightarrow> rooted_or_absolute v)"

definition rename_batch_preview_error_is_recoverable :: "string \<Rightarrow> bool" where
  "rename_batch_preview_error_is_recoverable raw_error =
     (let lower = to_ascii_lowercase raw_error in
      str_contains lower ''mappings missing'' \<or> str_contains lower ''mappings must be an array'' \<or>
      str_contains lower ''source_path missing'' \<or> str_contains lower ''destination_path missing'')"

definition source_set_ref_consumer :: "string \<Rightarrow> bool" where
  "source_set_ref_consumer capability_id \<longleftrightarrow> capability_id \<in>
     {''source_set.read_page'', ''source_set.coverage_verify'', ''workspace.batch_hash'', ''workspace.find_duplicates'',
      ''workspace.recent_changes'', ''workspace.recent_changes_snapshot'', ''workspace.plan_organize'',
      ''workspace.tree_index'', ''workspace.perf_inventory'', ''dataset.coverage_verify'',
      ''artifact.copy_source_set'', ''artifact.source_coverage_verify'', ''office.docx.batch_read_text'',
      ''office.docx.batch_extract_metadata'', ''office.docx.batch_validate'', ''package.build_zip''}"

definition source_set_ref_error_is_recoverable :: "next_action_decision \<Rightarrow> string \<Rightarrow> bool" where
  "source_set_ref_error_is_recoverable d raw_error =
     (case get_str (nd_output_spec d) ''source_set_ref'' of None \<Rightarrow> False
      | Some source_set_ref \<Rightarrow>
         (let r = fwd_slashes (trim source_set_ref); lower = to_ascii_lowercase raw_error in
          (r = [] \<or> \<not> starts_with r ''blob://'' \<or> \<not> str_contains r ''/source_sets/'' \<or>
           str_contains r ''/raw_tool_results/'' \<or> str_contains r ''source_set_tree'' \<or>
           str_contains r ''workspace_map'' \<or> str_contains r ''document_index'') \<or>
          (str_contains lower ''blob ref does not belong to this job'' \<or>
           str_contains lower ''blob ref has no relative path'' \<or>
           str_contains lower ''blob ref leaves blob store boundary'' \<or>
           str_contains lower ''cannot find the file'' \<or> str_contains lower ''no such file'' \<or>
           str_contains lower ''os error 2'' \<or> str_contains lower ''expected value at line 1 column 1'' \<or>
           str_contains lower ''eof while parsing'')))"

record recovery_hint =
  rh_recovery_kind :: string
  rh_error_code :: string
  rh_instruction :: string
  rh_retry_example :: json

definition hint :: "string \<Rightarrow> string \<Rightarrow> string \<Rightarrow> json \<Rightarrow> recovery_hint" where
  "hint kind code instruction example = \<lparr>rh_recovery_kind = kind, rh_error_code = code,
     rh_instruction = instruction, rh_retry_example = example\<rparr>"

definition call_example :: "string \<Rightarrow> json \<Rightarrow> json" where
  "call_example capability_id arguments = jobj [(''capability_id'', JString capability_id), (''arguments'', arguments)]"

definition raw_path_hint :: recovery_hint where
  "raw_path_hint = hint ''raw_tool_result_path_used_as_workspace_path''
     ''PROVIDER_NATIVE_RAW_TOOL_RESULT_PATH_USED_AS_WORKSPACE_PATH''
     ''raw_tool_results live in the ProcessTruth/blob data plane, not the workspace filesystem. Do not pass /raw_tool_results/... or blob raw-result refs to os.* path arguments; read them with process.read_ref or tool.result.page using the exact ref from the previous tool result.''
     (call_example ''process.read_ref'' (jobj [(''ref'', JString ''blob://<job_id>/raw_tool_results/...'')]))"

definition binary_target_hint :: "string \<Rightarrow> recovery_hint" where
  "binary_target_hint extension = hint ''binary_or_compound_artifact_requires_native_capability''
     ''PROVIDER_NATIVE_WRITE_ARTIFACT_BINARY_TARGET_REJECTED''
     ''os.write_artifact is for text user artifacts such as markdown, csv, json, and txt. Do not create .zip or .docx by writing raw text, placeholder bytes, or inline content. Compound artifacts must be produced by a real package/office Kernel capability receipt.''
     (jobj [(''zip'', call_example ''package.build_zip''
        (jobj [(''source_set_ref'', JString ''<source_set_ref from source_set.create>''),
          (''destination_zip_path'', JString ''deliverable.zip'')])),
       (''docx'', call_example ''office.docx.rewrite_save_as''
        (jobj [(''input_path'', JString ''<workspace-relative source .docx>''),
          (''output_path'', JString ''deliverables/output.docx'')])),
       (''rejected_extension'', JString extension)])"

definition mutation_report_hint :: recovery_hint where
  "mutation_report_hint = hint ''workspace_mutation_report_requires_receipt''
     ''PROVIDER_NATIVE_MUTATION_REPORT_WITHOUT_RECEIPT_REJECTED''
     ''Do not use os.write_artifact to claim workspace mutations were executed unless ProcessTruth already contains a successful real mutation receipt. First execute the approved os/workspace/office/package mutation capability; otherwise write only a preview or analysis that does not claim completion.''
     (jobj [(''required_order'', jstrings [''call the real mutation capability as provider-visible intent'',
        ''wait for Kernel-owned preview approval if approval is required'',
        ''let Kernel execute the original pending tool call after approval'',
        ''write a report only after the mutation receipt exists''])])"

definition root_path_hint :: recovery_hint where
  "root_path_hint = hint ''source_set_root_path_not_workspace_scoped''
     ''PROVIDER_NATIVE_SOURCE_SET_ROOT_PATH_NOT_WORKSPACE_SCOPED''
     ''source_set.create root_path must be workspace-relative. Use \".\" for the workspace root or a relative subdirectory; never use \"/\", rooted paths, absolute paths, or paths outside the workspace.''
     (call_example ''source_set.create'' (jobj [(''root_path'', JString ''.'')]))"

definition rename_mappings_hint :: recovery_hint where
  "rename_mappings_hint = hint ''rename_batch_preview_mappings_invalid''
     ''PROVIDER_NATIVE_RENAME_BATCH_PREVIEW_MAPPINGS_INVALID''
     ''workspace.rename_batch_preview requires mappings to be an array of objects with exactly source_path and destination_path workspace-relative strings. Do not use from/to, old/new, source/destination, or nested arguments.''
     (call_example ''workspace.rename_batch_preview'' (jobj [(''mappings'', Array [jobj
        [(''source_path'', JString ''relative/source.ext''),
         (''destination_path'', JString ''relative/destination.ext'')]])]))"

definition source_set_ref_hint :: "string \<Rightarrow> recovery_hint" where
  "source_set_ref_hint capability_id = hint ''source_set_ref_invalid_or_fabricated''
     ''PROVIDER_NATIVE_SOURCE_SET_REF_INVALID_OR_FABRICATED''
     ''source_set_ref must be copied exactly from a successful source_set.create tool result. Do not synthesize blob:// refs from a job id, and do not pass workspace maps, document indexes, source_set_tree text blobs, or raw_tool_results as source_set_ref.''
     (call_example capability_id
       (jobj [(''source_set_ref'', JString ''<copy exact source_set_ref from prior source_set.create receipt>'')]))"

definition recoverable_error_hint :: "next_action_decision \<Rightarrow> string \<Rightarrow> recovery_hint option" where
  "recoverable_error_hint d raw_error =
     (let binary = (if nd_capability_id d = ''os.write_artifact''
            then Option.bind (get_str (nd_output_spec d) ''path'') blocked_artifact_extension else None) in
      if raw_tool_result_path_field d \<noteq> None then Some raw_path_hint
      else case binary of Some extension \<Rightarrow> Some (binary_target_hint extension)
      | None \<Rightarrow>
          if nd_capability_id d = ''os.write_artifact'' \<and> claims_workspace_mutation d then Some mutation_report_hint
          else if nd_capability_id d = ''source_set.create'' \<and>
            (root_path_argument_is_rooted d \<or> str_contains raw_error ''rooted paths are not workspace-scoped'' \<or>
             str_contains raw_error ''absolute paths are not workspace-scoped'')
          then Some root_path_hint
          else if nd_capability_id d = ''workspace.rename_batch_preview'' \<and>
            rename_batch_preview_error_is_recoverable raw_error
          then Some rename_mappings_hint
          else if source_set_ref_consumer (nd_capability_id d) \<and> source_set_ref_error_is_recoverable d raw_error
          then Some (source_set_ref_hint (nd_capability_id d))
          else None)"

definition generic_recoverable_error_hint :: "next_action_decision \<Rightarrow> recovery_hint" where
  "generic_recoverable_error_hint d = hint ''provider_tool_argument_or_runtime_validation_failed''
     ''PROVIDER_NATIVE_TOOL_ARGUMENTS_INVALID''
     ''The Process Kernel rejected this provider tool_call. Treat the rejection as authoritative, inspect kernel_error and tool_schema_summary, then retry only if the task still requires this same capability with schema-valid top-level arguments.''
     (call_example (nd_capability_id d)
       (JString ''<retry with top-level JSON fields from tool_schema_summary; do not wrap inside arguments>''))"

text \<open>The last \<open>limit\<close> source sets created, oldest first.\<close>

definition source_set_entry :: "process_event \<Rightarrow> json option" where
  "source_set_entry e =
     (if event_type e \<noteq> ''capability_receipt'' \<or> get_str (data e) ''capability_id'' \<noteq> Some ''source_set.create'' \<or>
         get_str (data e) ''status'' \<noteq> Some ''success'' then None
      else map_option (\<lambda>r. jobj [(''source_set_ref'', JString r), (''event_id'', jnat (event_id e)),
          (''file_count'', jopt_json (or_else (Option.bind (jget (data e) ''data'') (\<lambda>v. jget v ''file_count''))
             (jget (data e) ''file_count'')))])
        (or_else (Option.bind (jget (data e) ''data'') (\<lambda>v. get_str v ''source_set_ref''))
          (get_str (data e) ''source_set_ref'')))"

definition latest_source_set_refs :: "task_agent \<Rightarrow> nat \<Rightarrow> (world, json list) io" where
  "latest_source_set_refs ag limit =
     io_bind (read_events (ta_job ag)) (\<lambda>events.
     io_return (rev (take (max limit 1) (List.map_filter source_set_entry (rev events)))))"

record provider_native_recovery =
  ra_recovery_kind :: string
  ra_protocol_error :: provider_tool_protocol_error
  ra_corrective_message :: json
  ra_tool_result_extra :: json

definition recoverable_action_error ::
  "task_agent \<Rightarrow> (string option \<Rightarrow> string \<Rightarrow> json) \<Rightarrow> next_action_decision \<Rightarrow> io_error \<Rightarrow> string option \<Rightarrow> string option \<Rightarrow>
   (world, provider_native_recovery option) io" where
  "recoverable_action_error ag schema_summary d err tool_name call_id =
     (let raw_error = err_msg err;
          h = unwrap_or (generic_recoverable_error_hint d) (recoverable_error_hint d raw_error) in
      io_bind (latest_source_set_refs ag 5) (\<lambda>refs.
      let summary = schema_summary tool_name (nd_capability_id d) in
      io_return (Some
        \<lparr>ra_recovery_kind = rh_recovery_kind h,
         ra_protocol_error = \<lparr>pe_error_code = rh_error_code h,
           pe_message = rh_instruction h @ '' Kernel error: '' @ raw_error, pe_provider_tool_name = tool_name,
           pe_provider_tool_call_id = call_id, pe_capability_id = Some (nd_capability_id d)\<rparr>,
         ra_corrective_message = jobj
           [(''event'', JString ''provider_native_corrective_instruction''),
            (''correction_kind'', JString (rh_recovery_kind h)), (''error_code'', JString (rh_error_code h)),
            (''capability_id'', JString (nd_capability_id d)), (''provider_tool_name'', jopt tool_name),
            (''provider_tool_call_id'', jopt call_id), (''failed_arguments'', nd_output_spec d),
            (''kernel_error'', JString raw_error), (''instruction'', JString (rh_instruction h)),
            (''retry_example'', rh_retry_example h), (''tool_schema_summary'', summary),
            (''latest_valid_source_set_refs'', Array refs),
            (''process_authority'', JString ''The Process Kernel rejection remains authoritative; this provider message only helps the model retry with corrected arguments.'')],
         ra_tool_result_extra = jobj
           [(''recoverable'', Bool True), (''recovery_kind'', JString (rh_recovery_kind h)),
            (''corrective_instruction'', JString (rh_instruction h)), (''retry_example'', rh_retry_example h),
            (''tool_schema_summary'', summary), (''latest_valid_source_set_refs'', Array refs)]\<rparr>)))"

text \<open>In this release the scope of preview operations is never an error.\<close>

definition preview_operation_scope_error ::
  "next_action_decision \<Rightarrow> string option \<Rightarrow> string option \<Rightarrow> (world, provider_native_recovery option) io" where
  "preview_operation_scope_error d tool_name call_id = io_return None"

definition real_workspace_mutation_receipt :: "string \<Rightarrow> bool" where
  "real_workspace_mutation_receipt capability_id \<longleftrightarrow>
     provider_tool_is_mutation_apply_capability capability_id \<and> capability_id \<notin>
       {''os.write_artifact'', ''os.write_temp_dataset'', ''dataset.export_csv'', ''dataset.export_markdown'',
        ''artifact.copy_source_set''}"

definition has_successful_workspace_mutation_receipt :: "process_event list \<Rightarrow> bool" where
  "has_successful_workspace_mutation_receipt events = list_ex (\<lambda>e.
     event_type e = ''capability_receipt'' \<and>
     (case get_str (data e) ''capability_id'' of None \<Rightarrow> False
      | Some c \<Rightarrow> unwrap_or [] (get_str (data e) ''status'') \<in> {''success'', ''completed''} \<and>
          real_workspace_mutation_receipt c)) events"

definition write_artifact_policy_error :: "task_agent \<Rightarrow> next_action_decision \<Rightarrow> (world, io_error option) io" where
  "write_artifact_policy_error ag d =
     (if nd_capability_id d \<noteq> ''os.write_artifact'' then io_return None
      else case get_str (nd_output_spec d) ''path'' of None \<Rightarrow> io_return None
      | Some path \<Rightarrow>
         (case blocked_artifact_extension path of
            Some extension \<Rightarrow> io_return (Some (IoError InvalidInput
              (''provider-native os.write_artifact cannot create `'' @ extension @
               ''` targets; binary/compound artifacts require their native Kernel capability receipt'')))
          | None \<Rightarrow>
              if claims_workspace_mutation d
              then io_bind (read_events (ta_job ag)) (\<lambda>events. io_return
                (if has_successful_workspace_mutation_receipt events then None else Some (IoError InvalidInput
                  ''provider-native os.write_artifact cannot claim workspace mutations were executed before a real mutation capability receipt exists'')))
              else io_return None))"

section \<open>Results of receipts\<close>

definition object_insert :: "string \<Rightarrow> json \<Rightarrow> json \<Rightarrow> json" where
  "object_insert k v target = (case target of Object m \<Rightarrow> Object (bmap_insert k v m) | _ \<Rightarrow> target)"

definition merge_json_object :: "json \<Rightarrow> json \<Rightarrow> json" where
  "merge_json_object target extra =
     (case (target, extra) of
        (Object m, Object kvs) \<Rightarrow> Object (fold (\<lambda>(k, v). bmap_insert k v) kvs m)
      | _ \<Rightarrow> target)"

definition receipt_recoverable :: "capability_receipt \<Rightarrow> bool" where
  "receipt_recoverable r \<longleftrightarrow> rc_status r = ''blocked'' \<or>
     (rc_status r = ''failed'' \<and>
      (unwrap_or False (get_bool (rc_data r) ''schema_error'') \<or>
       unwrap_or False (get_bool (rc_data r) ''recoverable_by_task_agent'')))"

definition receipt_recovery_kind :: "capability_receipt \<Rightarrow> string" where
  "receipt_recovery_kind r = (if rc_status r = ''blocked'' then ''provider_tool_kernel_block_recoverable''
     else ''provider_tool_receipt_validation_failed'')"

definition receipt_error_code :: "capability_receipt \<Rightarrow> string" where
  "receipt_error_code r = (if rc_status r = ''blocked'' then ''PROVIDER_NATIVE_KERNEL_BLOCKED_TOOL_CALL''
     else ''PROVIDER_NATIVE_TOOL_ARGUMENTS_INVALID'')"

definition receipt_corrective_instruction :: "capability_receipt \<Rightarrow> string" where
  "receipt_corrective_instruction r = (if rc_status r = ''blocked''
     then ''The Kernel blocked this provider tool_call. Treat the block as authoritative; retry only with workspace-scoped paths and schema-valid top-level arguments for the same provider tool if the task still requires it.''
     else ''The Kernel returned a recoverable validation receipt for this provider tool_call. Inspect the receipt facts and tool_schema_summary, then retry only with corrected top-level arguments if the task still requires this capability.'')"

definition receipt_blob_text :: "task_agent \<Rightarrow> capability_receipt \<Rightarrow> string \<Rightarrow> (world, string option) io" where
  "receipt_blob_text ag receipt ref_key =
     (case get_str (rc_data receipt) ref_key of None \<Rightarrow> io_return None
      | Some blob \<Rightarrow>
          io_bind (io_lift (resolve_blob_ref (ta_job ag) blob)) (\<lambda>p.
          io_bind (Process_Truth.read_file p) (\<lambda>bytes. io_return (Some (from_utf8_lossy bytes)))))"

definition result_keys :: "string list" where
  "result_keys = [''waiting_for_approval'', ''preview_id'', ''preview_tx_id'', ''preview_ref'', ''target_paths'',
     ''proposed_actions'', ''executable_operations'', ''approval_required'', ''mutation_policy_blocked'', ''reason'']"

definition waits_for_approval :: "capability_receipt \<Rightarrow> bool" where
  "waits_for_approval receipt = unwrap_or False (get_bool (rc_data receipt) ''waiting_for_approval'')"

definition terminal_metadata :: "json \<Rightarrow> json" where
  "terminal_metadata d = jobj
     [(''exit_code'', jopt_json (jget d ''exit_code'')), (''timed_out'', jopt_json (jget d ''timed_out'')),
      (''stdout_bytes'', jopt_json (jget d ''stdout_bytes'')), (''stderr_bytes'', jopt_json (jget d ''stderr_bytes''))]"

definition insert_text :: "string \<Rightarrow> string option \<Rightarrow> json \<Rightarrow> json" where
  "insert_text k t v = (case t of None \<Rightarrow> v | Some s \<Rightarrow> object_insert k (JString s) v)"

definition provider_tool_result_from_receipt :: "task_agent \<Rightarrow> string \<Rightarrow> capability_receipt \<Rightarrow> (world, json) io" where
  "provider_tool_result_from_receipt ag turn_id receipt =
     io_bind now_ms (\<lambda>now.
     io_bind (write_blob (ta_job ag) (''provider_tool_results/'' @ safe_blob_name (ta_runtime_id ag) @ ''/'' @
         safe_blob_name turn_id @ ''_'' @ dec now @ ''_receipt.json'')
       (to_pretty (ta_codec ag) (receipt_json receipt))) (\<lambda>receipt_ref.
     let base = jobj
           [(''status'', JString (if waits_for_approval receipt then ''waiting_approval'' else rc_status receipt)),
            (''receipt_status'', JString (rc_status receipt)), (''capability_id'', JString (rc_capability_id receipt)),
            (''receipt_ref'', JString receipt_ref), (''receipt'', receipt_json receipt)];
         copied = fold (\<lambda>k v. case jget (rc_data receipt) k of None \<Rightarrow> v | Some x \<Rightarrow> object_insert k x v)
           result_keys base
     in if rc_capability_id receipt = ''terminal.run_command''
        then io_bind (receipt_blob_text ag receipt ''stdout_ref'') (\<lambda>stdout.
             io_bind (receipt_blob_text ag receipt ''stderr_ref'') (\<lambda>stderr.
             io_return (object_insert ''terminal_output_metadata'' (terminal_metadata (rc_data receipt))
               (insert_text ''stderr_text'' stderr (insert_text ''stdout_text'' stdout copied)))))
        else io_return copied))"

definition recoverable_tool_result_from_receipt ::
  "task_agent \<Rightarrow> (string option \<Rightarrow> string \<Rightarrow> json) \<Rightarrow> string \<Rightarrow> next_action_decision \<Rightarrow> capability_receipt \<Rightarrow> (world, json) io" where
  "recoverable_tool_result_from_receipt ag schema_summary turn_id d receipt =
     io_bind (provider_tool_result_from_receipt ag turn_id receipt) (\<lambda>result.
     let tool_name = provider_tool_name_for_capability (nd_capability_id d);
         summary = schema_summary (Some tool_name) (nd_capability_id d);
         kind = receipt_recovery_kind receipt; code = receipt_error_code receipt;
         instruction = receipt_corrective_instruction receipt;
         corrective = jobj
           [(''event'', JString ''provider_native_corrective_instruction''), (''correction_kind'', JString kind),
            (''error_code'', JString code), (''capability_id'', JString (nd_capability_id d)),
            (''provider_tool_name'', JString tool_name), (''failed_arguments'', nd_output_spec d),
            (''kernel_receipt_status'', JString (rc_status receipt)),
            (''kernel_receipt_reason'', jopt_json (jget (rc_data receipt) ''reason'')),
            (''instruction'', JString instruction), (''tool_schema_summary'', summary),
            (''process_authority'', JString ''The Kernel receipt remains the execution fact. The provider adapter marks this tool result recoverable only so the model can retry with corrected arguments under Kernel hard boundaries.'')]
     in io_return (fold (\<lambda>(k, v). object_insert k v)
       [(''status'', JString ''recoverable_error''), (''recoverable'', Bool True), (''recovery_kind'', JString kind),
        (''error_code'', JString code), (''corrective_instruction'', JString instruction),
        (''corrective_control_message'', corrective), (''tool_schema_summary'', summary),
        (''next_model_request_should_self_correct'', Bool True)] result))"

text \<open>The receipt of the latest \<open>process.complete\<close> among the events after the first \<open>n\<close>.\<close>

definition receipt_of_json :: "json \<Rightarrow> capability_receipt option" where
  "receipt_of_json v =
     Option.bind (get_str v ''capability_id'') (\<lambda>c. Option.bind (get_str v ''job_id'') (\<lambda>j.
     Option.bind (get_str v ''pid'') (\<lambda>p. Option.bind (get_str v ''status'') (\<lambda>st.
     map_option (\<lambda>d. \<lparr>rc_capability_id = c, rc_job_id = j, rc_pid = p, rc_status = st, rc_data = d\<rparr>)
       (jget v ''data'')))))"

fun complete_receipt_in :: "process_event list \<Rightarrow> capability_receipt option res" where
  "complete_receipt_in [] = Inr None"
| "complete_receipt_in (e # es) =
     (if event_type e \<noteq> ''capability_receipt'' then complete_receipt_in es
      else case receipt_of_json (data e) of
        None \<Rightarrow> Inl (IoError InvalidData ''invalid capability receipt'')
      | Some receipt \<Rightarrow> if rc_capability_id receipt = ''process.complete'' then Inr (Some receipt)
          else complete_receipt_in es)"

definition latest_process_complete_receipt_since :: "task_agent \<Rightarrow> nat \<Rightarrow> (world, capability_receipt option) io" where
  "latest_process_complete_receipt_since ag n =
     io_bind (read_events (ta_job ag)) (\<lambda>events. io_lift (complete_receipt_in (rev (drop n events))))"

definition provider_complete_tool_result ::
  "task_agent \<Rightarrow> string \<Rightarrow> string \<Rightarrow> next_action_decision \<Rightarrow> nat \<Rightarrow> (world, json) io" where
  "provider_complete_tool_result ag turn_id status d event_count_before =
     io_bind (latest_process_complete_receipt_since ag event_count_before) (\<lambda>found.
     case found of
       Some receipt \<Rightarrow>
         io_bind (provider_tool_result_from_receipt ag turn_id receipt) (\<lambda>result.
         let r1 = object_insert ''process_complete_status'' (JString status)
               (object_insert ''task_status'' (JString status) result)
         in io_return (if jget r1 ''reason'' = None then object_insert ''reason'' (JString (nd_reason d)) r1 else r1))
     | None \<Rightarrow> io_return (jobj [(''status'', JString status), (''capability_id'', JString ''process.complete''),
         (''reason'', JString (nd_reason d))]))"

end
