(* ===== verification/Task_Dispatch.thy ===== *)
theory Task_Dispatch
  imports Tool_Recovery Capability_Kernel Os_Runtime
begin

text \<open>
  A capability call of a task agent (\<open>run_registered_capability\<close> of \<open>task_agent.rs\<close>): the action is
  validated, the approval prepared, the capability dispatched, the approval finalised. The branches
  of the OS runtime are its modelled operations; those of the other runtimes are the parameter
  \<open>other\<close>.
\<close>

section \<open>Arguments\<close>

definition missing :: "string \<Rightarrow> io_error" where
  "missing key = IoError InvalidInput (key @ '' missing'')"

text \<open>\<open>path_arg(decision, key)?\<close> and \<open>string_arg(decision, key)?\<close> before the rest.\<close>

definition with_arg ::
  "next_action_decision \<Rightarrow> string \<Rightarrow> (string \<Rightarrow> (os_state, 'a) io) \<Rightarrow> (os_state, 'a) io" where
  "with_arg d key rest =
     (case get_str (nd_output_spec d) key of None \<Rightarrow> io_fail (missing key) | Some v \<Rightarrow> rest v)"

definition string_array_arg :: "next_action_decision \<Rightarrow> string \<Rightarrow> string list" where
  "string_array_arg d key =
     (case get_array (nd_output_spec d) key of None \<Rightarrow> [] | Some items \<Rightarrow> strings_of items)"

definition depth_arg :: "next_action_decision \<Rightarrow> nat \<Rightarrow> nat" where
  "depth_arg d default_depth =
     (case get_u64 (nd_output_spec d) ''max_depth'' of None \<Rightarrow> default_depth | Some v \<Rightarrow> unat v)"

definition approval_id_arg :: "next_action_decision \<Rightarrow> string option" where
  "approval_id_arg d =
     (case get_str (nd_output_spec d) ''approval_id'' of
        Some v \<Rightarrow> if trim v \<noteq> [] then Some v else None | None \<Rightarrow> None)"

definition descriptor_for :: "task_agent \<Rightarrow> string \<Rightarrow> capability_descriptor res" where
  "descriptor_for ag capability_id =
     (case find (\<lambda>d. cd_capability_id d = capability_id) (ta_registry ag) of
        None \<Rightarrow> Inl (IoError InvalidInput (''capability descriptor not found: '' @ capability_id))
      | Some d \<Rightarrow> Inr d)"

definition process_action_kind_for_capability :: "string \<Rightarrow> process_action_kind" where
  "process_action_kind_for_capability c =
     (if starts_with c ''model.'' then AkModelCall
      else if list_ex (starts_with c) [''terminal.'', ''client_env.'', ''process.'', ''tool.result.''] then AkRunCapability
      else if c = ''os.verify_artifact'' \<or> ends_with c ''.validate'' \<or> starts_with c ''artifact.'' \<or>
        c = ''office.docx.batch_validate'' then AkVerify
      else if str_contains c ''preview'' then AkRequestPreview
      else if list_ex (starts_with c) [''os.'', ''office.'', ''data.'', ''document.'', ''source_set.'', ''workspace.'',
        ''dataset.'', ''artifact.'', ''package.''] \<or> c = ''process.fork_child'' then AkCommit
      else AkFail)"

section \<open>Content of a write\<close>

text \<open>\<open>fs::read_to_string\<close> of a blob.\<close>

definition read_blob_string :: "string \<Rightarrow> string \<Rightarrow> (world, string) io" where
  "read_blob_string job blob =
     io_bind (io_lift (resolve_blob_ref job blob)) (\<lambda>p.
     io_bind (Process_Truth.read_file p) (\<lambda>bytes.
     if valid_utf8 bytes then io_return bytes
     else io_fail (IoError InvalidData ''stream did not contain valid UTF-8'')))"

definition read_content_ref_text :: "task_agent \<Rightarrow> string \<Rightarrow> (world, string) io" where
  "read_content_ref_text ag content_ref =
     io_bind (read_blob_string (ta_job ag) content_ref) (\<lambda>raw. io_return
       (case from_str (ta_codec ag) raw of None \<Rightarrow> raw
        | Some v \<Rightarrow> unwrap_or raw (or_else (or_else (get_str v ''text'') (get_str v ''content''))
            (get_str v ''rewritten_text''))))"

definition content_missing :: io_error where
  "content_missing = IoError InvalidInput ''content/text/content_ref/text_ref missing; pass literal content/text or a blob ref containing plain text or a JSON object with text/content/rewritten_text''"

text \<open>The content and the name of the field it came from.\<close>

definition content_value_arg :: "task_agent \<Rightarrow> json \<Rightarrow> (world, string \<times> string) io" where
  "content_value_arg ag arguments =
     (case get_str arguments ''content'' of Some c \<Rightarrow> io_return (c, ''content'')
      | None \<Rightarrow>
     (case get_str arguments ''text'' of Some t \<Rightarrow> io_return (t, ''text'')
      | None \<Rightarrow>
     (case get_str arguments ''content_ref'' of
        Some r \<Rightarrow> io_bind (read_content_ref_text ag r) (\<lambda>c. io_return (c, ''content_ref''))
      | None \<Rightarrow>
     (case get_str arguments ''text_ref'' of
        Some r \<Rightarrow> io_bind (read_content_ref_text ag r) (\<lambda>c. io_return (c, ''text_ref''))
      | None \<Rightarrow> io_fail content_missing))))"

definition content_arg :: "task_agent \<Rightarrow> next_action_decision \<Rightarrow> (world, string) io" where
  "content_arg ag d = io_bind (content_value_arg ag (nd_output_spec d)) (\<lambda>x. io_return (fst x))"

definition content_arg_field_present :: "json \<Rightarrow> bool" where
  "content_arg_field_present arguments =
     list_ex (\<lambda>f. jget arguments f \<noteq> None) [''content'', ''text'', ''content_ref'', ''text_ref'']"

definition normalize_preview_target_path :: "string \<Rightarrow> string" where
  "normalize_preview_target_path path = fwd_slashes (trim path)"

definition operation_target_paths_include :: "executable_preview_operation \<Rightarrow> string \<Rightarrow> bool" where
  "operation_target_paths_include p target_path =
     list_ex (\<lambda>path. normalize_preview_target_path path = normalize_preview_target_path target_path) (op_target_paths p)"

text \<open>The operation of the approved preview, with the transaction and the preview it belongs to.\<close>

definition approved_operation ::
  "process_event list \<Rightarrow> string \<Rightarrow> string \<Rightarrow> string \<Rightarrow> (executable_preview_operation \<times> string \<times> string) res" where
  "approved_operation events approval_id capability_id target_path =
     (case find (issues_token approval_id) (rev events) of
        None \<Rightarrow> Inl (IoError NotFound ''approval_token_issued not found for provider-native content hydration'')
      | Some token_event \<Rightarrow>
     (case get_str (data token_event) ''tx_id'' of
        None \<Rightarrow> Inl (IoError InvalidData ''approval token missing tx_id for provider-native content hydration'')
      | Some tx_id \<Rightarrow>
         if trim tx_id = []
         then Inl (IoError InvalidData ''approval token missing tx_id for provider-native content hydration'')
         else
     (case find (\<lambda>e. event_type e = ''preview_tx_created'' \<and> get_str (data e) ''tx_id'' = Some tx_id) (rev events) of
        None \<Rightarrow> Inl (IoError NotFound ''preview_tx_created not found for provider-native content hydration'')
      | Some preview_event \<Rightarrow>
     (case jget (data preview_event) ''executable_operations'' of
        None \<Rightarrow> Inl (IoError InvalidData ''preview tx missing executable_operations for provider-native content hydration'')
      | Some v \<Rightarrow>
     (case (case v of Array items \<Rightarrow> those (map preview_operation items) | _ \<Rightarrow> None) of
        None \<Rightarrow> Inl (IoError InvalidData ''invalid executable preview operations'')
      | Some operations \<Rightarrow>
     (case filter (\<lambda>p. op_capability_id p = capability_id \<and> operation_target_paths_include p target_path) operations of
        [] \<Rightarrow> Inl (IoError InvalidInput ''no approved preview operation matches provider-native write capability and target path'')
      | [p] \<Rightarrow> Inr (p, tx_id, unwrap_or ''preview_unknown'' (get_str (data token_event) ''preview_id''))
      | _ \<Rightarrow> Inl (IoError InvalidInput ''multiple approved preview operations match provider-native write capability and target path'')))))))"

definition provider_native_write_intent_capability :: "string \<Rightarrow> bool" where
  "provider_native_write_intent_capability c \<longleftrightarrow> c = ''os.write_artifact'' \<or> c = ''os.write_temp_dataset''"

definition content_arg_or_approved_preview_content ::
  "task_agent \<Rightarrow> string \<Rightarrow> next_action_decision \<Rightarrow> string \<Rightarrow> (world, string) io" where
  "content_arg_or_approved_preview_content ag turn_id d target_path =
     (if content_arg_field_present (nd_output_spec d) \<or> \<not> ta_tool_calls_enabled ag \<or>
         \<not> provider_native_write_intent_capability (nd_capability_id d)
      then content_arg ag d
      else case approval_id_arg d of None \<Rightarrow> content_arg ag d
      | Some approval_id \<Rightarrow>
          io_bind (read_events (ta_job ag)) (\<lambda>events.
          io_bind (io_lift (approved_operation events approval_id (nd_capability_id d) target_path))
            (\<lambda>(p, tx_id, preview_id).
          io_bind (content_value_arg ag (op_arguments p)) (\<lambda>(content, source_field).
          io_bind (agent_event ag ''provider_native_hydrated_content_from_preview'' (turn_fields ag turn_id @
            [(''decision_id'', JString (nd_decision_id d)), (''capability_id'', JString (nd_capability_id d)),
             (''approval_id'', JString approval_id), (''tx_id'', JString tx_id), (''preview_id'', JString preview_id),
             (''target_path'', JString (fwd_slashes target_path)), (''content_source_field'', JString source_field),
             (''content_bytes'', jnat (length content)), (''raw_content_logged'', Bool False),
             (''runtime_note'', JString ''Provider-native approved write apply omitted content; TaskAgent reused the content/text/content_ref/text_ref from the exact approved preview operation after Kernel approval validation.'')])) (\<lambda>_.
          io_return content)))))"

section \<open>Previews\<close>

text \<open>
  \<open>preview_operations_from_decision\<close>. A filter on the capability id keeps it when it is neither empty
  nor a wildcard.
\<close>

definition operation_paths_arg :: "next_action_decision \<Rightarrow> json \<Rightarrow> string list" where
  "operation_paths_arg d item =
     (case map_option strings_of (get_array item ''target_paths'') of
        Some ps \<Rightarrow> if ps \<noteq> [] then ps else string_array_arg d ''target_paths''
      | None \<Rightarrow> string_array_arg d ''target_paths'')"

definition first_str :: "json option \<Rightarrow> string \<Rightarrow> string" where
  "first_str v def = unwrap_or def (Option.bind v as_str)"

definition preview_operation_arg ::
  "task_agent \<Rightarrow> next_action_decision \<Rightarrow> nat \<Rightarrow> json \<Rightarrow> executable_preview_operation res" where
  "preview_operation_arg ag d index item =
     (case map_option trim (get_str item ''capability_id'') of
        None \<Rightarrow> Inl (IoError InvalidInput (''operations['' @ dec index @ ''].capability_id missing''))
      | Some capability_id \<Rightarrow>
          if capability_id = [] \<or> capability_id = ''*''
          then Inl (IoError InvalidInput (''operations['' @ dec index @ ''].capability_id missing''))
          else res_bind (descriptor_for ag capability_id) (\<lambda>_.
            let target_paths = expand_preview_target_paths_for_actions [capability_id] (operation_paths_arg d item) in
            if target_paths = [] \<or> list_ex (\<lambda>p. trim p = ''*'') target_paths
            then Inl (IoError InvalidInput (''operations['' @ dec index @ ''].target_paths missing or wildcard''))
            else Inr
              \<lparr>op_capability_id = capability_id,
               op_arguments = unwrap_or (jobj []) (or_else (jget item ''arguments'') (jget (nd_output_spec d) ''arguments'')),
               op_target_paths = target_paths,
               op_human_description = first_str (or_else (or_else (jget item ''human_description'')
                 (jget item ''description'')) (jget (nd_output_spec d) ''human_description'')) capability_id,
               op_rollback_policy = Option.bind (or_else (jget item ''rollback_policy'')
                 (jget (nd_output_spec d) ''rollback_policy'')) as_str\<rparr>))"

fun preview_operation_args ::
  "task_agent \<Rightarrow> next_action_decision \<Rightarrow> nat \<Rightarrow> json list \<Rightarrow> executable_preview_operation list res" where
  "preview_operation_args ag d index [] = Inr []"
| "preview_operation_args ag d index (item # items) =
     res_bind (preview_operation_arg ag d index item) (\<lambda>p.
     res_bind (preview_operation_args ag d (Suc index) items) (\<lambda>ps. Inr (p # ps)))"

definition proposed_actions_arg :: "next_action_decision \<Rightarrow> string list" where
  "proposed_actions_arg d =
     (let ids = string_array_arg d ''capability_ids'';
          named = (case get_str (nd_output_spec d) ''capability_id'' of
            Some c \<Rightarrow> if trim c \<noteq> [] then [c] else [] | None \<Rightarrow> [])
      in if ids \<noteq> [] then ids else if named \<noteq> [] then named else string_array_arg d ''proposed_actions'')"

definition preview_operations_from_scope_arg ::
  "task_agent \<Rightarrow> next_action_decision \<Rightarrow> executable_preview_operation list res" where
  "preview_operations_from_scope_arg ag d =
     (let proposed_actions = proposed_actions_arg d;
          target_paths = expand_preview_target_paths_for_actions proposed_actions (string_array_arg d ''target_paths'');
          operations = executable_preview_operations_from_scope proposed_actions target_paths
            (Option.bind (or_else (jget (nd_output_spec d) ''human_description'')
               (jget (nd_output_spec d) ''description'')) as_str)
            (unwrap_or (jobj []) (jget (nd_output_spec d) ''arguments''))
            (get_str (nd_output_spec d) ''rollback_policy'')
      in if operations = []
         then Inl (IoError InvalidInput ''preview tx requires operations[].capability_id or exact canonical capability_ids; natural-language proposed_actions belong in human_description'')
         else (case find (\<lambda>p. \<not> (case descriptor_for ag (op_capability_id p) of Inl _ \<Rightarrow> False | Inr _ \<Rightarrow> True))
             operations of
           Some p \<Rightarrow> Inl (IoError InvalidInput (''capability descriptor not found: '' @ op_capability_id p))
         | None \<Rightarrow> Inr operations))"

definition preview_operations_from_decision ::
  "task_agent \<Rightarrow> next_action_decision \<Rightarrow> executable_preview_operation list res" where
  "preview_operations_from_decision ag d =
     (case get_array (nd_output_spec d) ''operations'' of
        None \<Rightarrow> preview_operations_from_scope_arg ag d
      | Some items \<Rightarrow>
          res_bind (preview_operation_args ag d 0 items) (\<lambda>operations.
          if operations \<noteq> [] then Inr operations else preview_operations_from_scope_arg ag d))"

definition preview_disabled_fields :: "json \<Rightarrow> (string \<times> json) list" where
  "preview_disabled_fields operations =
     [(''preview_disabled'', Bool True), (''no_preview_created'', Bool True), (''approval_required'', Bool False),
      (''waiting_for_approval'', Bool False), (''executable_operations'', operations)]"

definition request_preview_receipt ::
  "task_agent \<Rightarrow> string \<Rightarrow> next_action_decision \<Rightarrow> (world, capability_receipt) io" where
  "request_preview_receipt ag turn_id d =
     (let operations = (case preview_operations_from_decision ag d of Inl _ \<Rightarrow> Null | Inr ps \<Rightarrow> operations_json ps) in
      io_bind (agent_action ag turn_id AkRequestPreview ''process.request_preview'' []
        (jobj (preview_disabled_fields operations)) (nd_reason d)) (\<lambda>a.
      io_bind (emit_and_validate_action ag a) (\<lambda>_.
      process_capability_receipt ag ''process.request_preview'' ''success''
        (jobj (preview_disabled_fields operations @ [(''runtime_note'', JString ''Preview/approve/reject/edit blocking flow is disabled for RC0 run-through. Execute the intended capability directly under Kernel hard boundaries and receipts.'')])))))"

end
