(* ===== verification/Task_Capability.thy ===== *)
theory Task_Capability
  imports Task_Dispatch
begin

text \<open>
  \<open>run_registered_capability\<close> of \<open>task_agent.rs\<close>. The approval gate of this release never blocks, so its
  blocking branch does not run; it is modelled as it stands, without the markdown text of a preview,
  which nothing reads.
\<close>

section \<open>A blocked capability\<close>

definition io_ok :: "('s, 'e, 'a) fallible \<Rightarrow> ('s, 'e, 'a option) fallible" where
  "io_ok m = (\<lambda>s. case m s of (Inl _, s') \<Rightarrow> (Inr None, s') | (Inr x, s') \<Rightarrow> (Inr (Some x), s'))"

definition record_kernel_blocked_capability :: "task_agent \<Rightarrow> capability_receipt \<Rightarrow> (world, unit) io" where
  "record_kernel_blocked_capability ag receipt =
     io_bind (agent_event_of ag ''capability_blocked'' (receipt_json receipt)) (\<lambda>_.
     agent_event_of ag ''capability_receipt'' (receipt_json receipt))"

definition preview_scope ::
  "task_agent \<Rightarrow> (path \<Rightarrow> bool) \<Rightarrow> next_action_decision \<Rightarrow> (world, string list \<times> string) io" where
  "preview_scope ag exists d =
     (case descriptor_for ag (nd_capability_id d) of
        Inl _ \<Rightarrow> io_return ([], ''unknown'')
      | Inr desc \<Rightarrow>
          io_bind (io_ok (build_capability_approval_request (ta_root ag) exists (from_str (ta_codec ag)) (ta_job ag) desc
            (nd_output_spec d) None)) (\<lambda>request.
          io_return (case request of None \<Rightarrow> ([], ''unknown'')
            | Some r \<Rightarrow> (ra_target_paths r, ra_target_path_schema r))))"

definition arguments_without_approval_id :: "json \<Rightarrow> json" where
  "arguments_without_approval_id arguments =
     (case arguments of Object m \<Rightarrow> Object (filter (\<lambda>(k, v). k \<noteq> ''approval_id'') m) | v \<Rightarrow> v)"

definition preview_operation_spec :: "string \<Rightarrow> json \<Rightarrow> string list \<Rightarrow> string \<Rightarrow> json" where
  "preview_operation_spec capability_id arguments target_paths human_description =
     Array [jobj [(''capability_id'', JString capability_id), (''arguments'', arguments),
       (''target_paths'', jstrings target_paths), (''human_description'', JString human_description)]]"

definition with_data :: "(string \<times> json) list \<Rightarrow> capability_receipt \<Rightarrow> capability_receipt" where
  "with_data kvs receipt = receipt\<lparr>rc_data := fold (\<lambda>(k, v). object_insert k v) kvs (rc_data receipt)\<rparr>"

definition auto_preview_receipt ::
  "task_agent \<Rightarrow> (path \<Rightarrow> bool) \<Rightarrow> string \<Rightarrow> next_action_decision \<Rightarrow> json \<Rightarrow> string \<Rightarrow> string \<Rightarrow> (world, capability_receipt) io" where
  "auto_preview_receipt ag exists turn_id d arguments noun runtime_note =
     (let c = nd_capability_id d in
      io_bind (preview_scope ag exists d) (\<lambda>(target_paths, target_path_schema).
      io_bind (decision DkRequestPreview ''process.request_preview''
        (''Provider-native '' @ c @ '' tool_call requires Kernel approval; creating Kernel preview before apply.'')) (\<lambda>pd.
      io_bind (request_preview_receipt ag turn_id (pd\<lparr>nd_output_spec := jobj
        [(''operations'', preview_operation_spec c arguments target_paths
           (''Apply provider-native '' @ c @ '' '' @ noun @ '' after approval.'')),
         (''provider_native_auto_preview'', Bool True), (''original_capability_id'', JString c),
         (''target_path_schema'', JString target_path_schema)]\<rparr>)) (\<lambda>receipt.
      io_return (with_data [(''provider_native_auto_preview'', Bool True), (''original_capability_id'', JString c),
        (''runtime_note'', JString runtime_note)] receipt)))))"

definition write_intent_preview_receipt ::
  "task_agent \<Rightarrow> (path \<Rightarrow> bool) \<Rightarrow> string \<Rightarrow> next_action_decision \<Rightarrow> (world, capability_receipt) io" where
  "write_intent_preview_receipt ag exists turn_id d =
     auto_preview_receipt ag exists turn_id d (nd_output_spec d) ''write intent''
       ''Provider adapter converted a write intent into a Kernel approval preview. After the frontend approval decision, RootAgentProcessController executes or rejects the original provider tool_call and records the tool result in the provider transcript.''"

definition mutation_auto_preview_receipt ::
  "task_agent \<Rightarrow> (path \<Rightarrow> bool) \<Rightarrow> string \<Rightarrow> next_action_decision \<Rightarrow> (world, capability_receipt) io" where
  "mutation_auto_preview_receipt ag exists turn_id d =
     auto_preview_receipt ag exists turn_id d (arguments_without_approval_id (nd_output_spec d)) ''mutation''
       ''Provider adapter converted a mutation/apply intent into a Kernel approval preview. After the frontend approval decision, RootAgentProcessController executes or rejects the original provider tool_call and records the tool result in the provider transcript.''"

definition terminal_approval_preview_receipt ::
  "task_agent \<Rightarrow> string \<Rightarrow> next_action_decision \<Rightarrow> capability_receipt \<Rightarrow> (world, capability_receipt) io" where
  "terminal_approval_preview_receipt ag turn_id d blocked =
     (let target_paths = (case get_array (rc_data blocked) ''target_paths'' of None \<Rightarrow> [] | Some items \<Rightarrow> strings_of items);
          command = jobj
            [(''argv'', jstrings (string_array_arg d ''argv'')),
             (''target_paths'', unwrap_or (Array []) (jget (rc_data blocked) ''target_paths'')),
             (''approval_policy'', jopt_json (jget (rc_data blocked) ''approval_policy'')),
             (''risk_reason'', JString (unwrap_or ''capability_requires_preview_approval'' (get_str (rc_data blocked) ''reason'')))]
      in io_bind (decision DkRequestPreview ''process.request_preview''
        ''Provider-native terminal command requires Kernel approval before execution.'') (\<lambda>pd.
      io_bind (request_preview_receipt ag turn_id (pd\<lparr>nd_output_spec := jobj
        [(''risk_level'', JString ''high''),
         (''operations'', preview_operation_spec ''terminal.run_command'' (nd_output_spec d) target_paths
           ''Execute the pending terminal command after approval.''),
         (''provider_native_terminal_preview'', Bool True),
         (''original_capability_id'', JString ''terminal.run_command''), (''terminal_command'', command)]\<rparr>)) (\<lambda>receipt.
      io_return (with_data [(''provider_native_terminal_preview'', Bool True),
        (''original_capability_id'', JString ''terminal.run_command''), (''terminal_command'', command),
        (''runtime_note'', JString ''Provider adapter converted a terminal command requiring approval into a Kernel preview. User approval will issue an approval token; the command executes only through the Capability Kernel path.'')] receipt))))"

definition blocked_capability ::
  "task_agent \<Rightarrow> (path \<Rightarrow> bool) \<Rightarrow> string \<Rightarrow> next_action_decision \<Rightarrow> capability_receipt \<Rightarrow> (world, capability_receipt) io" where
  "blocked_capability ag exists turn_id d receipt =
     (let c = nd_capability_id d;
          asks = unwrap_or False (get_bool (rc_data receipt) ''approval_required'') \<and> approval_id_arg d = None in
      io_bind
        (if provider_native_write_intent_capability c \<and> asks then write_intent_preview_receipt ag exists turn_id d
         else if c = ''terminal.run_command'' \<and> asks then terminal_approval_preview_receipt ag turn_id d receipt
         else if asks then mutation_auto_preview_receipt ag exists turn_id d
         else io_return receipt) (\<lambda>r.
      io_bind (record_kernel_blocked_capability ag r) (\<lambda>_. io_return r)))"

section \<open>Dispatch\<close>

definition os_env_of :: "task_agent \<Rightarrow> os_env" where
  "os_env_of ag = \<lparr>oe_root = ta_root ag, oe_state_root = ta_state_root ag, oe_job = ta_job ag, oe_pid = ta_pid ag,
     oe_capabilities = ta_capabilities ag, oe_truth_job = ta_job ag, oe_emit_events = True, oe_codec = ta_codec ag,
     oe_max_depth = ta_max_depth ag\<rparr>"

text \<open>
  The branches of the OS runtime; \<open>None\<close> for any other capability, and for the branches of
  \<open>os.write_file\<close> that only report an argument error.
\<close>

definition write_file_branch ::
  "task_agent \<Rightarrow> (os_state, capability_receipt) io option \<Rightarrow> next_action_decision \<Rightarrow> (os_state, capability_receipt) io option" where
  "write_file_branch ag argument_error d =
     (case (get_str (nd_output_spec d) ''path'', get_str (nd_output_spec d) ''write_kind'') of
        (None, _) \<Rightarrow> Some (io_fail (missing ''path''))
      | (Some path, None) \<Rightarrow> argument_error
      | (Some path, Some write_kind) \<Rightarrow>
          if \<not> is_valid_write_kind write_kind then argument_error
          else Some (io_bind (on_world (content_arg ag d)) (\<lambda>content.
            os_write_file (os_env_of ag) path content write_kind)))"

definition os_capability ::
  "task_agent \<Rightarrow> (os_state, capability_receipt) io option \<Rightarrow> string \<Rightarrow> next_action_decision \<Rightarrow>
   (os_state, capability_receipt) io option" where
  "os_capability ag other turn_id d =
     (let c = nd_capability_id d; v = os_env_of ag;
          write = (\<lambda>f. with_arg d ''path'' (\<lambda>path. io_bind (on_world (content_arg ag d)) (f v path)));
          hydrated = (\<lambda>f. with_arg d ''path'' (\<lambda>path.
            io_bind (on_world (content_arg_or_approved_preview_content ag turn_id d path)) (f v path)));
          one = (\<lambda>f. with_arg d ''path'' (f v));
          two = (\<lambda>f k1 k2. with_arg d k1 (\<lambda>x. with_arg d k2 (f v x)))
      in if c = ''os.list_tree'' then Some (list_tree v (depth_arg d 8))
         else if c = ''os.stat_path'' then Some (one stat_path)
         else if c = ''os.read_file'' then Some (one os_read_file)
         else if c = ''os.write_file'' then write_file_branch ag other d
         else if c = ''os.write_artifact'' then Some (hydrated write_artifact)
         else if c = ''os.write_temp_dataset'' then Some (hydrated write_temp_dataset)
         else if c = ''os.write_source_mutation_preview'' then Some (write write_source_mutation_preview)
         else if c = ''os.write_source_mutation_apply'' then Some (write write_source_mutation_apply)
         else if c = ''os.copy_path'' then Some (two copy_path ''source_path'' ''destination_path'')
         else if c = ''os.move_path'' then Some (two move_path ''source_path'' ''destination_path'')
         else if c = ''os.rename_path'' then Some (two rename_path ''source_path'' ''destination_path'')
         else if c = ''os.delete_path'' then Some (one delete_path)
         else if c = ''os.hash_path'' then Some (one hash_path)
         else if c = ''os.diff'' then Some (two diff_files ''left_path'' ''right_path'')
         else if c = ''os.zip'' then Some (case get_array (nd_output_spec d) ''source_paths'' of
             None \<Rightarrow> io_fail (missing ''source_paths'')
           | Some items \<Rightarrow> with_arg d ''destination_zip_path'' (zip_paths v (strings_of items)))
         else if c = ''os.unzip'' then Some (two unzip_archive ''archive_path'' ''destination_dir'')
         else if c = ''os.rollback_tx'' then Some (with_arg d ''tx_id'' (rollback_tx v))
         else if c = ''os.verify_artifact'' then Some (one verify_artifact)
         else other)"

definition not_dispatchable :: "task_agent \<Rightarrow> string \<Rightarrow> capability_receipt" where
  "not_dispatchable ag c = \<lparr>rc_capability_id = c, rc_job_id = ta_job ag, rc_pid = ta_pid ag, rc_status = ''blocked'',
     rc_data = jobj [(''reason'', JString ''registered capability is not yet dispatchable by TaskAgent''),
       (''capability_id'', JString c)]\<rparr>"

type_synonym other_runtimes = "string \<Rightarrow> next_action_decision \<Rightarrow> (os_state, capability_receipt) io option"

definition dispatch :: "task_agent \<Rightarrow> other_runtimes \<Rightarrow> string \<Rightarrow> next_action_decision \<Rightarrow> (os_state, capability_receipt) io" where
  "dispatch ag other turn_id d =
     (case os_capability ag (other turn_id d) turn_id d of
        Some m \<Rightarrow> m | None \<Rightarrow> io_return (not_dispatchable ag (nd_capability_id d)))"

section \<open>Running a capability\<close>

definition preview_data :: "preview_tx \<Rightarrow> (string \<times> json) list" where
  "preview_data preview =
     [(''waiting_for_approval'', Bool True), (''preview_tx_id'', JString (px_tx_id preview)),
      (''preview_id'', JString (px_preview_id preview)), (''preview_ref'', JString (px_preview_ref preview)),
      (''proposed_actions'', jstrings (px_proposed_actions preview)),
      (''target_paths'', jstrings (px_target_paths preview)),
      (''executable_operations'', operations_json (px_executable_operations preview))]"

definition finish_capability ::
  "task_agent \<Rightarrow> capability_descriptor \<Rightarrow> capability_approval_guard option \<Rightarrow> capability_receipt \<Rightarrow>
   (world, capability_receipt) io" where
  "finish_capability ag desc guard receipt =
     io_bind (finalize_capability_approval (ta_job ag) (ta_pid ag) guard receipt) (\<lambda>_.
     io_bind (bind_preview_capability_receipt_to_tx (ta_job ag) (ta_pid ag) desc receipt) (\<lambda>bound.
     case bound of None \<Rightarrow> io_return receipt
     | Some preview \<Rightarrow>
         io_bind (update_job_status (ta_job ag) ''waiting_approval'') (\<lambda>_.
         io_return (with_data (preview_data preview) receipt))))"

definition emit_capability_action :: "task_agent \<Rightarrow> string \<Rightarrow> next_action_decision \<Rightarrow> (world, unit) io" where
  "emit_capability_action ag turn_id d =
     io_bind (agent_action ag turn_id (process_action_kind_for_capability (nd_capability_id d)) (nd_capability_id d)
       (nd_input_refs d) (nd_output_spec d) (nd_reason d)) (emit_and_validate_action ag)"

definition run_registered_capability ::
  "task_agent \<Rightarrow> other_runtimes \<Rightarrow> string \<Rightarrow> next_action_decision \<Rightarrow> (os_state, capability_receipt) io" where
  "run_registered_capability ag other turn_id d =
     io_bind (on_world (emit_capability_action ag turn_id d)) (\<lambda>_.
     io_bind (io_lift (descriptor_for ag (nd_capability_id d))) (\<lambda>desc.
     io_bind io_get (\<lambda>s. let exists = path_exists (os_tree s) in
     io_bind (on_world (build_capability_approval_request (ta_root ag) exists (from_str (ta_codec ag)) (ta_job ag) desc
       (nd_output_spec d) (approval_id_arg d))) (\<lambda>request.
     io_bind (on_world (prepare_capability_approval (ta_job ag) (ta_pid ag) request)) (\<lambda>prepared.
     case prepared of
       Inl receipt \<Rightarrow> on_world (blocked_capability ag exists turn_id d receipt)
     | Inr guard \<Rightarrow>
         io_bind (dispatch ag other turn_id d) (\<lambda>receipt.
         on_world (finish_capability ag desc guard receipt)))))))"

end
