(* ===== verification/Task_Tools.thy ===== *)
theory Task_Tools
  imports Task_Capability
begin

text \<open>
  What the provider tool call loop of a task agent does with one decoded call (\<open>task_agent.rs\<close>): run the
  decision, and record the errors and results the provider is answered with.
\<close>

section \<open>Services\<close>

text \<open>The fields of a \<open>ModelCallReceipt\<close> the loop reads.\<close>

record model_call_receipt =
  mcr_model_call_id :: string
  mcr_capability_id :: string
  mcr_operation :: model_operation
  mcr_status :: string
  mcr_provider :: string
  mcr_output_ref :: "string option"
  mcr_finish_reason :: "string option"
  mcr_provider_transcript_ref :: "string option"
  mcr_provider_assistant_message_ref :: "string option"
  mcr_provider_tool_calls :: "provider_tool_call list"
  mcr_provider_toolset_ref :: "string option"
  mcr_error :: "model_provider_failure option"

text \<open>
  What the loop calls and this development does not model: \<open>invoke_next_action_model\<close> for a turn and a
  decision, the runtimes other than the OS runtime, the parser of a recorded toolset (its selected
  capabilities), and the summary of a tool's schema.
\<close>

record task_services =
  sv_input_refs :: "string list"
  sv_invoke :: "string \<Rightarrow> next_action_decision \<Rightarrow> (world, model_call_receipt) io"
  sv_other :: other_runtimes
  sv_toolset :: "string \<Rightarrow> string list option"
  sv_schema_summary :: "string option \<Rightarrow> string \<Rightarrow> json"

definition io_try :: "('s, 'e, 'a) fallible \<Rightarrow> ('s, 'e, 'e + 'a) fallible" where
  "io_try m = (\<lambda>s. case m s of (r, s') \<Rightarrow> (Inr r, s'))"

definition task_provider_protocol :: "string \<Rightarrow> string" where
  "task_provider_protocol provider =
     (if provider = ''deepseek'' then ''deepseek_chat_completions'' else ''model_provider_transcript'')"

text \<open>What the closure gate sees of the file system.\<close>

definition tree_probe :: "file_node option \<Rightarrow> file_probe" where
  "tree_probe t = \<lparr>fp_exists = path_exists t, fp_is_file = is_file t, fp_opens = is_file t, fp_is_dir = is_dir t,
     fp_lists = is_dir t\<rparr>"

definition provider_tool_calls_executed_for_task :: "task_agent \<Rightarrow> (world, nat) io" where
  "provider_tool_calls_executed_for_task ag =
     io_bind (read_events (ta_job ag)) (\<lambda>events. io_return (length (filter (\<lambda>e.
       event_type e = ''provider_tool_call_loop_tool_completed'' \<and>
       get_str (data e) ''runtime_id'' = Some (ta_runtime_id ag)) events)))"

definition provider_tool_registry_for_receipt ::
  "task_agent \<Rightarrow> task_services \<Rightarrow> model_call_receipt \<Rightarrow> (world, provider_tool_registry) io" where
  "provider_tool_registry_for_receipt ag sv receipt =
     (case mcr_provider_toolset_ref receipt of
        None \<Rightarrow> io_return (phase6_full_coverage (ta_registry ag))
      | Some toolset_ref \<Rightarrow>
          io_bind (io_ok (io_bind (io_lift (resolve_blob_ref (ta_job ag) toolset_ref)) Process_Truth.read_file)) (\<lambda>bytes.
          io_return (case Option.bind bytes (sv_toolset sv) of
              Some selected \<Rightarrow> phase6_selected (ta_registry ag) selected ''phase6_recorded_request_toolset''
            | None \<Rightarrow> phase6_full_coverage (ta_registry ag))))"

definition provider_tool_decision ::
  "task_agent \<Rightarrow> task_services \<Rightarrow> model_call_receipt \<Rightarrow> provider_tool_call \<Rightarrow>
   (world, provider_tool_protocol_error + next_action_decision) io" where
  "provider_tool_decision ag sv receipt call =
     io_bind (provider_tool_registry_for_receipt ag sv receipt) (\<lambda>g.
     decision_for_tool_call (ta_codec ag) (ta_parse_error ag) g call)"

section \<open>Executing a decision\<close>

text \<open>The common end of the two branches that have a receipt: the status and the result of the tool.\<close>

definition receipt_outcome ::
  "task_agent \<Rightarrow> task_services \<Rightarrow> string \<Rightarrow> next_action_decision \<Rightarrow> capability_receipt \<Rightarrow> (world, string \<times> json) io" where
  "receipt_outcome ag sv turn_id d receipt =
     io_bind (record_capability_execution ag d receipt) (\<lambda>_.
     if waits_for_approval receipt
     then io_bind (provider_tool_result_from_receipt ag turn_id receipt) (\<lambda>r. io_return (''waiting_approval'', r))
     else if receipt_recoverable receipt
     then io_bind (recoverable_tool_result_from_receipt ag (sv_schema_summary sv) turn_id d receipt) (\<lambda>r.
       io_return (''recoverable_error'', r))
     else io_bind (provider_tool_result_from_receipt ag turn_id receipt) (\<lambda>r. io_return (''running'', r)))"

definition ended_result :: "string \<Rightarrow> string \<Rightarrow> next_action_decision \<Rightarrow> string \<times> json" where
  "ended_result status capability_id d = (status, jobj [(''status'', JString status),
     (''capability_id'', JString capability_id), (''reason'', JString (nd_reason d))])"

definition execute_provider_tool_decision ::
  "task_agent \<Rightarrow> task_services \<Rightarrow> string \<Rightarrow> next_action_decision \<Rightarrow> (os_state, string \<times> json) io" where
  "execute_provider_tool_decision ag sv turn_id d =
     (case nd_kind d of
        DkRunCapability \<Rightarrow>
          io_bind (on_world (write_artifact_policy_error ag d)) (\<lambda>err.
          case err of Some e \<Rightarrow> io_fail e | None \<Rightarrow>
          io_bind (run_registered_capability ag (sv_other sv) turn_id d) (\<lambda>receipt.
          on_world (receipt_outcome ag sv turn_id d receipt)))
      | DkRequestPreview \<Rightarrow> on_world (io_bind (request_preview_receipt ag turn_id d) (receipt_outcome ag sv turn_id d))
      | DkClarify \<Rightarrow> on_world (io_bind (clarify ag turn_id d) (\<lambda>_.
          io_return (ended_result ''waiting_user'' ''process.clarify'' d)))
      | DkComplete \<Rightarrow>
          io_bind io_get (\<lambda>s. on_world (
          io_bind (read_events (ta_job ag)) (\<lambda>events.
          io_bind (agent_complete (ag\<lparr>ta_probe := tree_probe (os_tree s)\<rparr>) turn_id d) (\<lambda>status.
          io_bind (provider_complete_tool_result ag turn_id status d (length events)) (\<lambda>r.
          io_return (status, r))))))
      | DkFail \<Rightarrow> on_world (io_bind (agent_fail ag turn_id d) (\<lambda>_.
          io_return (ended_result ''failed'' ''process.fail'' d)))
      | _ \<Rightarrow> io_fail (IoError InvalidInput ''provider-native tool call decoded to unsupported decision kind''))"

section \<open>Recording errors\<close>

definition jopt_nat_of :: "nat option \<Rightarrow> json" where
  "jopt_nat_of i = (case i of None \<Rightarrow> Null | Some n \<Rightarrow> jnat n)"

text \<open>Where in its batch a call stands: the batch, the index and the call.\<close>

record call_place =
  cp_batch :: string
  cp_index :: nat
  cp_call :: provider_tool_call

definition record_provider_tool_protocol_error ::
  "task_agent \<Rightarrow> string \<Rightarrow> (model_call_receipt \<times> call_place) option \<Rightarrow> provider_tool_protocol_error \<Rightarrow> (world, unit) io" where
  "record_provider_tool_protocol_error ag turn_id place e =
     agent_event ag ''provider_tool_protocol_error'' (turn_fields ag turn_id @
       [(''model_call_id'', jopt (map_option (mcr_model_call_id \<circ> fst) place)),
        (''provider_tool_call_id'', jopt (or_else (map_option (tc_id \<circ> cp_call \<circ> snd) place) (pe_provider_tool_call_id e))),
        (''provider_tool_call_index'', jopt_nat_of (map_option (cp_index \<circ> snd) place)),
        (''provider_tool_batch_id'', jopt (map_option (cp_batch \<circ> snd) place)),
        (''provider_tool_name'', jopt (pe_provider_tool_name e)), (''capability_id'', jopt (pe_capability_id e)),
        (''error_code'', JString (pe_error_code e)), (''message'', JString (pe_message e)), (''blocked'', Bool True)])"

definition budget_exceeded_fields :: "string \<Rightarrow> 64 word \<Rightarrow> 64 word \<Rightarrow> 64 word \<Rightarrow> (string \<times> json) list" where
  "budget_exceeded_fields kind requested limit executed_before =
     [(''budget_kind'', JString kind), (''error_code'', JString ''MODEL_TOOL_LOOP_BUDGET_EXCEEDED''),
      (''requested_tool_calls'', jword requested), (''limit'', jword limit),
      (''executed_tool_calls_before'', jword executed_before)]"

definition record_provider_tool_loop_budget_exceeded ::
  "task_agent \<Rightarrow> string \<Rightarrow> model_call_receipt \<Rightarrow> string \<Rightarrow> string \<Rightarrow> provider_tool_loop_budget_error \<Rightarrow> (world, unit) io" where
  "record_provider_tool_loop_budget_exceeded ag turn_id receipt batch kind e =
     agent_event ag ''provider_tool_loop_budget_exceeded'' (turn_fields ag turn_id @
       [(''model_call_id'', JString (mcr_model_call_id receipt)), (''provider_tool_batch_id'', JString batch)] @
       budget_exceeded_fields kind (be_requested_tool_calls e) (be_limit e) (be_executed_tool_calls_before e) @
       [(''tool_call_count'', jnat (length (mcr_provider_tool_calls receipt))), (''blocked'', Bool True)])"

definition record_budget_exceeded_without_receipt ::
  "task_agent \<Rightarrow> string \<Rightarrow> string \<Rightarrow> 64 word \<Rightarrow> 64 word \<Rightarrow> 64 word \<Rightarrow> (world, unit) io" where
  "record_budget_exceeded_without_receipt ag turn_id kind requested limit executed_before =
     agent_event ag ''provider_tool_loop_budget_exceeded'' (turn_fields ag turn_id @
       [(''model_call_id'', Null), (''provider_tool_batch_id'', Null)] @
       budget_exceeded_fields kind requested limit executed_before @ [(''blocked'', Bool True)])"

definition append_tool_result ::
  "task_agent \<Rightarrow> string \<Rightarrow> call_place \<Rightarrow> json \<Rightarrow> (world, unit) io" where
  "append_tool_result ag provider place result =
     io_bind (record_provider_tool_result_with_metadata (ta_codec ag) (ta_job ag) (ta_pid ag) provider
       (task_provider_protocol provider) (tc_id (cp_call place)) result
       \<lparr>rm_provider_tool_call_index = Some (cp_index place), rm_provider_tool_batch_id = Some (cp_batch place)\<rparr>)
     (\<lambda>_. io_return ())"

definition error_result_json :: "provider_tool_protocol_error \<Rightarrow> json" where
  "error_result_json e = jobj
     [(''status'', JString ''blocked''), (''error_code'', JString (pe_error_code e)),
      (''message'', JString (pe_message e)), (''provider_tool_name'', jopt (pe_provider_tool_name e)),
      (''capability_id'', jopt (pe_capability_id e))]"

definition append_provider_tool_error_result ::
  "task_agent \<Rightarrow> string \<Rightarrow> call_place \<Rightarrow> provider_tool_protocol_error \<Rightarrow> (world, unit) io" where
  "append_provider_tool_error_result ag provider place e = append_tool_result ag provider place (error_result_json e)"

definition recoverable_result_json :: "provider_native_recovery \<Rightarrow> json" where
  "recoverable_result_json recovery =
     (let e = ra_protocol_error recovery in merge_json_object (jobj
       [(''status'', JString ''blocked''), (''receipt_status'', JString ''blocked''),
        (''error_code'', JString (pe_error_code e)), (''message'', JString (pe_message e)),
        (''provider_tool_name'', jopt (pe_provider_tool_name e)), (''capability_id'', jopt (pe_capability_id e)),
        (''recoverable'', Bool True), (''corrective_control_message'', ra_corrective_message recovery)])
       (ra_tool_result_extra recovery))"

definition named_error :: "provider_tool_call \<Rightarrow> provider_tool_protocol_error \<Rightarrow> provider_tool_protocol_error" where
  "named_error call e = e\<lparr>pe_provider_tool_call_id := Some (tc_id call),
     pe_provider_tool_name := or_else (pe_provider_tool_name e) (call_name_ok call)\<rparr>"

fun append_error_results_from ::
  "task_agent \<Rightarrow> string \<Rightarrow> provider_tool_protocol_error \<Rightarrow> string \<Rightarrow> nat \<Rightarrow> provider_tool_call list \<Rightarrow> (world, unit) io" where
  "append_error_results_from ag provider e batch index [] = io_return ()"
| "append_error_results_from ag provider e batch index (call # calls) =
     io_bind (append_provider_tool_error_result ag provider \<lparr>cp_batch = batch, cp_index = index, cp_call = call\<rparr>
       (named_error call e)) (\<lambda>_. append_error_results_from ag provider e batch (Suc index) calls)"

definition append_error_results_for_remaining ::
  "task_agent \<Rightarrow> string \<Rightarrow> provider_tool_call list \<Rightarrow> nat \<Rightarrow> provider_tool_protocol_error \<Rightarrow> string \<Rightarrow> (world, unit) io" where
  "append_error_results_for_remaining ag provider tool_calls start_index e batch =
     append_error_results_from ag provider e batch start_index (drop start_index tool_calls)"

definition bare_error :: "string \<Rightarrow> string \<Rightarrow> provider_tool_protocol_error" where
  "bare_error code message = \<lparr>pe_error_code = code, pe_message = message, pe_provider_tool_name = None,
     pe_provider_tool_call_id = None, pe_capability_id = None\<rparr>"

definition protocol_error_json :: "provider_tool_protocol_error \<Rightarrow> json" where
  "protocol_error_json e = jobj
     [(''error_code'', JString (pe_error_code e)), (''message'', JString (pe_message e)),
      (''provider_tool_name'', jopt (pe_provider_tool_name e)),
      (''provider_tool_call_id'', jopt (pe_provider_tool_call_id e)), (''capability_id'', jopt (pe_capability_id e))]"

definition provider_tool_protocol_interrupted ::
  "task_agent \<Rightarrow> string \<Rightarrow> string \<Rightarrow> string \<Rightarrow> string option \<Rightarrow> provider_tool_protocol_error option \<Rightarrow>
   (world, next_action_decision \<times> string) io" where
  "provider_tool_protocol_interrupted ag turn_id error_code message model_output_ref err =
     io_bind (decision DkInterrupted ''process.interrupt'' message) (\<lambda>d0.
     let d = d0\<lparr>nd_output_spec := jobj ([(''error_code'', JString error_code), (''reason'', JString message),
           (''model_output_ref'', jopt model_output_ref), (''already_materialized_artifacts'', Array []),
           (''user_visible_artifact_candidates'', Array [])] @
           (case err of None \<Rightarrow> [] | Some e \<Rightarrow> [(''provider_tool_error'', protocol_error_json e)]))\<rparr> in
     io_bind (record_provider_tool_protocol_error ag turn_id None (bare_error error_code message)) (\<lambda>_.
     io_bind (interrupt_by_model_protocol_error ag turn_id d) (\<lambda>status. io_return (d, status))))"

end
