(* ===== verification/Task_Loop.thy ===== *)
theory Task_Loop
  imports Task_Tools Transcript_Laws
begin

text \<open>
  The provider tool call loop of a task agent (\<open>run_provider_tool_call_loop\<close> of \<open>task_agent.rs\<close>): a turn
  asks the model, runs the tool calls of its answer one after another and records a result for each,
  until a call ends the turn or the subturns run out. The debug trace (\<open>append_provider_native_debug\<close>),
  whose errors the code ignores, is left out.
\<close>

section \<open>One call\<close>

text \<open>
  The variables of the loop, and how the handling of a call ends: the next call of the batch, the
  next subturn (\<open>continue 'provider_subturns\<close>), or \<open>return\<close>.
\<close>

record loop_vars =
  lv_decision :: next_action_decision
  lv_exec :: provider_tool_loop_executor
  lv_successes :: nat

datatype call_outcome = NextCall loop_vars | NextSubturn loop_vars | LoopReturns next_action_decision string

text \<open>The call a step is about, in its turn and its answer of the model.\<close>

record call_context =
  cc_turn :: string
  cc_receipt :: model_call_receipt
  cc_place :: call_place

definition cc_call :: "call_context \<Rightarrow> provider_tool_call" where
  "cc_call c = cp_call (cc_place c)"

definition cc_provider :: "call_context \<Rightarrow> string" where
  "cc_provider c = mcr_provider (cc_receipt c)"

definition call_fields :: "task_agent \<Rightarrow> call_context \<Rightarrow> (string \<times> json) list" where
  "call_fields ag c = turn_fields ag (cc_turn c) @
     [(''model_call_id'', JString (mcr_model_call_id (cc_receipt c))),
      (''provider_tool_batch_id'', JString (cp_batch (cc_place c))),
      (''provider_tool_call_id'', JString (tc_id (cc_call c))),
      (''provider_tool_call_index'', jnat (cp_index (cc_place c)))]"

definition named_call_fields :: "task_agent \<Rightarrow> call_context \<Rightarrow> (string \<times> json) list" where
  "named_call_fields ag c = call_fields ag c @ [(''provider_tool_name'', jopt (call_name_ok (cc_call c)))]"

definition record_call_error :: "task_agent \<Rightarrow> call_context \<Rightarrow> provider_tool_protocol_error \<Rightarrow> (world, unit) io" where
  "record_call_error ag c e =
     record_provider_tool_protocol_error ag (cc_turn c) (Some (cc_receipt c, cc_place c)) e"

text \<open>The calls behind this one, answered with an error and not run.\<close>

definition skip_remaining :: "task_agent \<Rightarrow> call_context \<Rightarrow> provider_tool_protocol_error \<Rightarrow> (world, unit) io" where
  "skip_remaining ag c e = append_error_results_for_remaining ag (cc_provider c)
     (mcr_provider_tool_calls (cc_receipt c)) (Suc (cp_index (cc_place c))) e (cp_batch (cc_place c))"

definition skipped_recoverable :: provider_tool_protocol_error where
  "skipped_recoverable = bare_error ''PROVIDER_TOOL_CALL_SKIPPED_DUE_TO_RECOVERABLE_ERROR''
     ''A previous provider tool_call in the same assistant message returned a recoverable validation error; remaining tool_calls were not executed.''"

definition skipped_terminal :: "string \<Rightarrow> provider_tool_protocol_error" where
  "skipped_terminal status = bare_error ''PROVIDER_TOOL_CALL_SKIPPED_DUE_TO_TERMINAL_STATUS''
     (''A previous provider tool_call in the same assistant message returned terminal status `'' @ status @
      ''`; remaining tool_calls were not executed.'')"

definition control_message :: "task_agent \<Rightarrow> call_context \<Rightarrow> json \<Rightarrow> (world, bool) io" where
  "control_message ag c message =
     io_bind (record_provider_user_control_message (ta_codec ag) (ta_job ag) (ta_pid ag) (cc_provider c)
       (task_provider_protocol (cc_provider c)) ''recoverable_tool_error_correction'' message) (\<lambda>r.
     io_return (r \<noteq> None))"

definition tool_completed :: "task_agent \<Rightarrow> call_context \<Rightarrow> next_action_decision \<Rightarrow> string \<Rightarrow> loop_vars \<Rightarrow> (world, unit) io" where
  "tool_completed ag c d status v = agent_event ag ''provider_tool_call_loop_tool_completed'' (call_fields ag c @
     [(''capability_id'', JString (nd_capability_id d)), (''status'', JString status),
      (''executed_tool_calls_total'', jword (le_executed_tool_calls (lv_exec v))),
      (''successful_tool_results_this_loop'', jnat (lv_successes v)), (''parallel_execution'', Bool False)])"

definition executed_one :: "loop_vars \<Rightarrow> loop_vars" where
  "executed_one v = v\<lparr>lv_exec := mark_executed 1 (lv_exec v)\<rparr>"

text \<open>A call that does not decode is answered with the error and not counted.\<close>

definition undecodable_call :: "task_agent \<Rightarrow> call_context \<Rightarrow> provider_tool_protocol_error \<Rightarrow> (world, unit) io" where
  "undecodable_call ag c e =
     io_bind (record_call_error ag c e) (\<lambda>_.
     io_bind (append_provider_tool_error_result ag (cc_provider c) (cc_place c) e) (\<lambda>_.
     agent_event ag ''provider_tool_call_recoverable_error'' (named_call_fields ag c @
       [(''error_code'', JString (pe_error_code e)), (''message'', JString (pe_message e)),
        (''provider_transcript_appended'', Bool True), (''next_model_request_should_self_correct'', Bool True)])))"

text \<open>A rejected call: answered with a corrective result, the rest of its batch with errors.\<close>

definition recover_call ::
  "task_agent \<Rightarrow> call_context \<Rightarrow> next_action_decision \<Rightarrow> provider_native_recovery \<Rightarrow> loop_vars \<Rightarrow> (world, call_outcome) io" where
  "recover_call ag c d recovery v0 =
     (let e = ra_protocol_error recovery; v = executed_one v0 in
      io_bind (record_call_error ag c e) (\<lambda>_.
      io_bind (append_tool_result ag (cc_provider c) (cc_place c) (recoverable_result_json recovery)) (\<lambda>_.
      io_bind (agent_event ag ''provider_tool_call_recoverable_error'' (named_call_fields ag c @
        [(''capability_id'', JString (nd_capability_id d)), (''error_code'', JString (pe_error_code e)),
         (''message'', JString (pe_message e)), (''recovery_kind'', JString (ra_recovery_kind recovery)),
         (''provider_transcript_appended'', Bool True), (''corrective_control_message_appended'', Bool True),
         (''next_model_request_should_self_correct'', Bool True)])) (\<lambda>_.
      io_bind (tool_completed ag c d ''recoverable_error'' v) (\<lambda>_.
      io_bind (skip_remaining ag c skipped_recoverable) (\<lambda>_.
      io_bind (control_message ag c (ra_corrective_message recovery)) (\<lambda>_.
      io_return (NextSubturn (v\<lparr>lv_decision := d\<rparr>)))))))))"

definition failed_call ::
  "task_agent \<Rightarrow> task_services \<Rightarrow> call_context \<Rightarrow> next_action_decision \<Rightarrow> io_error \<Rightarrow> loop_vars \<Rightarrow> (world, call_outcome) io" where
  "failed_call ag sv c d err v =
     io_bind (recoverable_action_error ag (sv_schema_summary sv) d err (call_name_ok (cc_call c))
       (Some (tc_id (cc_call c)))) (\<lambda>recovery.
     case recovery of Some r \<Rightarrow> recover_call ag c d r v
     | None \<Rightarrow>
        (let e = \<lparr>pe_error_code = ''PROVIDER_TOOL_ACTION_VALIDATION_FAILED'', pe_message = err_msg err,
               pe_provider_tool_name = call_name_ok (cc_call c), pe_provider_tool_call_id = Some (tc_id (cc_call c)),
               pe_capability_id = Some (nd_capability_id d)\<rparr> in
         io_bind (record_call_error ag c e) (\<lambda>_.
         io_bind (append_provider_tool_error_result ag (cc_provider c) (cc_place c) e) (\<lambda>_.
         io_bind (provider_tool_protocol_interrupted ag (cc_turn c) (pe_error_code e) (pe_message e)
           (mcr_output_ref (cc_receipt c)) (Some e)) (\<lambda>(di, status). io_return (LoopReturns di status))))))"

definition waiting_call :: "task_agent \<Rightarrow> call_context \<Rightarrow> next_action_decision \<Rightarrow> json \<Rightarrow> (world, call_outcome) io" where
  "waiting_call ag c d result =
     io_bind (agent_event ag ''provider_tool_call_waiting_approval'' (named_call_fields ag c @
       [(''capability_id'', JString (nd_capability_id d)), (''arguments'', nd_output_spec d),
        (''tool_result_preview'', result), (''preview_id'', jopt_json (jget result ''preview_id'')),
        (''preview_tx_id'', jopt_json (jget result ''preview_tx_id'')),
        (''preview_ref'', jopt_json (jget result ''preview_ref'')),
        (''target_paths'', jopt_json (jget result ''target_paths'')), (''pending_provider_tool_result'', Bool True),
        (''approval_execution_mode'', JString ''approve_executes_original_provider_tool_call'')])) (\<lambda>_.
     io_return (LoopReturns d ''waiting_approval''))"

definition result_success :: "json \<Rightarrow> bool" where
  "result_success result \<longleftrightarrow>
     Option.bind (or_else (jget result ''receipt_status'') (jget result ''status'')) as_str = Some ''success''"

definition terminal_status :: "string \<Rightarrow> bool" where
  "terminal_status status \<longleftrightarrow>
     status \<in> {''completed'', ''failed'', ''blocked'', ''interrupted'', ''waiting_user'', ''waiting_approval''}"

definition correct_after_result ::
  "task_agent \<Rightarrow> call_context \<Rightarrow> next_action_decision \<Rightarrow> json \<Rightarrow> (world, unit) io" where
  "correct_after_result ag c d result =
     io_bind (skip_remaining ag c skipped_recoverable) (\<lambda>_.
     io_bind (case jget result ''corrective_control_message'' of
         None \<Rightarrow> io_return False | Some message \<Rightarrow> control_message ag c message) (\<lambda>appended.
     agent_event ag ''provider_tool_call_recoverable_error'' (named_call_fields ag c @
       [(''capability_id'', JString (nd_capability_id d)), (''error_code'', jopt_json (jget result ''error_code'')),
        (''message'', jopt_json (jget result ''corrective_instruction'')),
        (''recovery_kind'', jopt_json (jget result ''recovery_kind'')),
        (''provider_transcript_appended'', Bool True), (''corrective_control_message_appended'', Bool appended),
        (''next_model_request_should_self_correct'', Bool True)])))"

definition answered_call ::
  "task_agent \<Rightarrow> call_context \<Rightarrow> next_action_decision \<Rightarrow> string \<Rightarrow> json \<Rightarrow> loop_vars \<Rightarrow> (world, call_outcome) io" where
  "answered_call ag c d status result v0 =
     (let v = (executed_one v0)\<lparr>lv_successes := lv_successes v0 + (if result_success result then 1 else 0)\<rparr> in
      io_bind (append_tool_result ag (cc_provider c) (cc_place c) result) (\<lambda>_.
      io_bind (tool_completed ag c d status v) (\<lambda>_.
      if status = ''recoverable_error''
      then io_bind (correct_after_result ag c d result) (\<lambda>_. io_return (NextSubturn (v\<lparr>lv_decision := d\<rparr>)))
      else if terminal_status status
      then io_bind (skip_remaining ag c (skipped_terminal status)) (\<lambda>_. io_return (LoopReturns d status))
      else io_return (NextCall (v\<lparr>lv_decision := d\<rparr>)))))"

definition decoded_call ::
  "task_agent \<Rightarrow> task_services \<Rightarrow> call_context \<Rightarrow> next_action_decision \<Rightarrow> loop_vars \<Rightarrow> (os_state, call_outcome) io" where
  "decoded_call ag sv c d v =
     io_bind (on_world (agent_event ag ''provider_tool_call_decoded'' (call_fields ag c @ [(''decision'', decision_json d)]))) (\<lambda>_.
     io_bind (on_world (preview_operation_scope_error d (call_name_ok (cc_call c)) (Some (tc_id (cc_call c))))) (\<lambda>scope.
     case scope of Some recovery \<Rightarrow> on_world (recover_call ag c d recovery v)
     | None \<Rightarrow>
         io_bind (io_try (execute_provider_tool_decision ag sv (cc_turn c) d)) (\<lambda>outcome.
         on_world (case outcome of
             Inl err \<Rightarrow> failed_call ag sv c d err v
           | Inr (status, result) \<Rightarrow>
               if status = ''waiting_approval'' then waiting_call ag c d result
               else answered_call ag c d status result v))))"

definition handle_call ::
  "task_agent \<Rightarrow> task_services \<Rightarrow> call_context \<Rightarrow> loop_vars \<Rightarrow> (os_state, call_outcome) io" where
  "handle_call ag sv c v =
     io_bind (on_world (provider_tool_decision ag sv (cc_receipt c) (cc_call c))) (\<lambda>decoded.
     case decoded of
       Inl e \<Rightarrow> io_bind (on_world (undecodable_call ag c e)) (\<lambda>_. io_return (NextCall v))
     | Inr d \<Rightarrow> decoded_call ag sv c d v)"

fun handle_calls ::
  "task_agent \<Rightarrow> task_services \<Rightarrow> string \<Rightarrow> model_call_receipt \<Rightarrow> string \<Rightarrow> nat \<Rightarrow> provider_tool_call list \<Rightarrow> loop_vars \<Rightarrow>
   (os_state, call_outcome) io" where
  "handle_calls ag sv turn_id receipt batch index [] v = io_return (NextSubturn v)"
| "handle_calls ag sv turn_id receipt batch index (call # calls) v =
     io_bind (handle_call ag sv \<lparr>cc_turn = turn_id, cc_receipt = receipt,
       cc_place = \<lparr>cp_batch = batch, cp_index = index, cp_call = call\<rparr>\<rparr> v) (\<lambda>outcome.
     case outcome of
       NextCall v' \<Rightarrow> handle_calls ag sv turn_id receipt batch (Suc index) calls v'
     | other \<Rightarrow> io_return other)"

section \<open>One subturn\<close>

definition record_model_execution :: "task_agent \<Rightarrow> next_action_decision \<Rightarrow> model_call_receipt \<Rightarrow> (world, unit) io" where
  "record_model_execution ag d receipt = agent_event ag ''agent_tool_action_executed''
     [(''runtime_id'', JString (ta_runtime_id ag)), (''decision_id'', JString (nd_decision_id d)),
      (''capability_id'', JString (mcr_capability_id receipt)),
      (''model_call_id'', JString (mcr_model_call_id receipt)),
      (''operation'', JString (operation_as_str (mcr_operation receipt))), (''status'', JString (mcr_status receipt)),
      (''output_ref'', jopt (mcr_output_ref receipt))]"

definition model_call_failed :: "task_agent \<Rightarrow> string \<Rightarrow> model_call_receipt \<Rightarrow> (world, call_outcome) io" where
  "model_call_failed ag turn_id receipt =
     (let error_code = (case mcr_error receipt of None \<Rightarrow> ''MODEL_DECIDE_NEXT_ACTION_FAILED'' | Some e \<Rightarrow> mf_error_code e);
          message = (case mcr_error receipt of None \<Rightarrow> ''model call failed'' | Some e \<Rightarrow> mf_message e)
      in if error_code \<noteq> ''DEEPSEEK_RESPONSE_CONTENT_MISSING'' \<and> error_code \<noteq> ''MODEL_OUTPUT_SCHEMA_INVALID''
         then io_bind (decision DkFail ''process.fail'' message) (\<lambda>d0.
              let d = d0\<lparr>nd_output_spec := jobj [(''error_code'', JString error_code)]\<rparr> in
              io_bind (agent_fail ag turn_id d) (\<lambda>_. io_return (LoopReturns d ''failed'')))
         else io_bind (provider_tool_protocol_interrupted ag turn_id ''MODEL_TOOL_CALL_REQUIRED_BUT_MISSING''
                (''Provider-native tool decision did not return executable tool_calls: '' @ message)
                (mcr_output_ref receipt) None) (\<lambda>(d, status). io_return (LoopReturns d status)))"

definition content_yielded :: "task_agent \<Rightarrow> string \<Rightarrow> model_call_receipt \<Rightarrow> (world, unit) io" where
  "content_yielded ag turn_id receipt =
     io_bind (case mcr_output_ref receipt of None \<Rightarrow> io_return None
       | Some r \<Rightarrow> io_ok (read_blob_string (ta_job ag) r)) (\<lambda>assistant_content.
     agent_event ag ''provider_native_assistant_content_yielded'' (turn_fields ag turn_id @
       [(''model_call_id'', JString (mcr_model_call_id receipt)), (''output_ref'', jopt (mcr_output_ref receipt)),
        (''assistant_content'', jopt assistant_content), (''finish_reason'', jopt (mcr_finish_reason receipt)),
        (''provider_transcript_ref'', jopt (mcr_provider_transcript_ref receipt)),
        (''provider_assistant_message_ref'', jopt (mcr_provider_assistant_message_ref receipt)),
        (''task_status'', JString ''running''), (''closure_allowed'', Bool False),
        (''required_closure_tool'', JString ''process.complete'')]))"

definition task_budget_kind :: "budget_error_kind \<Rightarrow> string" where
  "task_budget_kind k = (if budget_kind k = ''total_tool_call_limit'' then ''per_task_tool_call_limit'' else budget_kind k)"

definition subturn_refused ::
  "task_agent \<Rightarrow> string \<Rightarrow> model_call_receipt \<Rightarrow> string \<Rightarrow> provider_tool_loop_budget_error \<Rightarrow> (world, call_outcome) io" where
  "subturn_refused ag turn_id receipt batch e =
     io_bind (record_provider_tool_loop_budget_exceeded ag turn_id receipt batch (task_budget_kind (be_kind e)) e) (\<lambda>_.
     io_bind (append_error_results_for_remaining ag (mcr_provider receipt) (mcr_provider_tool_calls receipt) 0
       (bare_error budget_error_code (be_message e)) batch) (\<lambda>_.
     io_bind (provider_tool_protocol_interrupted ag turn_id budget_error_code (be_message e) (mcr_output_ref receipt) None)
       (\<lambda>(d, status). io_return (LoopReturns d status))))"

definition subturn_started ::
  "task_agent \<Rightarrow> string \<Rightarrow> model_call_receipt \<Rightarrow> string \<Rightarrow> 64 word \<Rightarrow> loop_vars \<Rightarrow> provider_tool_loop_subturn \<Rightarrow> (world, unit) io" where
  "subturn_started ag turn_id receipt batch before_loop v sub =
     agent_event ag ''provider_tool_call_loop_subturn_started'' (turn_fields ag turn_id @
       [(''subturn'', subturn_json sub), (''subturn_index'', jnat (sb_subturn_index sub)),
        (''model_call_id'', JString (mcr_model_call_id receipt)), (''provider_tool_batch_id'', JString batch),
        (''tool_call_count'', jnat (length (mcr_provider_tool_calls receipt))),
        (''max_tool_calls_per_subturn'', jword (lp_max_tool_calls_per_subturn (le_policy (lv_exec v)))),
        (''max_tool_calls_per_task'', jword (lp_max_tool_calls_total (le_policy (lv_exec v)))),
        (''executed_tool_calls_before_subturn'', jword (le_executed_tool_calls (lv_exec v))),
        (''executed_tool_calls_before_loop'', jword before_loop), (''parallel_execution'', Bool False),
        (''parallel_readonly_requested'', Bool (lp_allow_parallel_readonly (le_policy (lv_exec v)))),
        (''all_read_only_or_process_control'', Bool (sb_all_read_only_or_control sub)),
        (''tool_call_count_exempt_from_per_subturn_limit'', Bool (sb_all_read_only_or_control sub)),
        (''mutation_parallel_execution_allowed'', Bool False),
        (''ordering_basis'', JString ''provider_tool_call.index_or_array_order''),
        (''serialized_multi_tool_calls'', Bool (length (mcr_provider_tool_calls receipt) > 1))])"

definition run_batch ::
  "task_agent \<Rightarrow> task_services \<Rightarrow> string \<Rightarrow> model_call_receipt \<Rightarrow> nat \<Rightarrow> 64 word \<Rightarrow> loop_vars \<Rightarrow> (os_state, call_outcome) io" where
  "run_batch ag sv turn_id receipt subturn_index before_loop v =
     (let calls = mcr_provider_tool_calls receipt; batch = batch_id (mcr_model_call_id receipt) subturn_index in
      io_bind (on_world (provider_tool_registry_for_receipt ag sv receipt)) (\<lambda>g.
      case begin_subturn (lv_exec v) RkTask (provider_tool_calls_are_limit_exempt g calls) (mcr_model_call_id receipt)
          subturn_index calls of
        Inl e \<Rightarrow> on_world (subturn_refused ag turn_id receipt batch e)
      | Inr sub \<Rightarrow>
          io_bind (on_world (subturn_started ag turn_id receipt batch before_loop v sub)) (\<lambda>_.
          handle_calls ag sv turn_id receipt batch 0 calls v)))"

definition run_subturn ::
  "task_agent \<Rightarrow> task_services \<Rightarrow> string \<Rightarrow> nat \<Rightarrow> 64 word \<Rightarrow> loop_vars \<Rightarrow> (os_state, call_outcome) io" where
  "run_subturn ag sv turn_id subturn_index before_loop v =
     io_bind (on_world (sv_invoke sv turn_id (lv_decision v))) (\<lambda>receipt.
     io_bind (on_world (record_model_execution ag (lv_decision v) receipt)) (\<lambda>_.
     if mcr_status receipt \<noteq> ''success'' then on_world (model_call_failed ag turn_id receipt)
     else if mcr_provider_tool_calls receipt = []
     then io_bind (on_world (content_yielded ag turn_id receipt)) (\<lambda>_. io_return (NextSubturn v))
     else run_batch ag sv turn_id receipt subturn_index before_loop v))"

section \<open>The loop\<close>

definition loop_exhausted ::
  "task_agent \<Rightarrow> string \<Rightarrow> 64 word \<Rightarrow> loop_vars \<Rightarrow> (world, next_action_decision \<times> string) io" where
  "loop_exhausted ag turn_id before_loop v =
     (let max_subturns = lp_max_provider_subturns (le_policy (lv_exec v)); executed = le_executed_tool_calls (lv_exec v) in
      if lv_successes v > 0
      then io_bind (agent_event ag ''provider_tool_loop_soft_yield'' (turn_fields ag turn_id @
        [(''budget_kind'', JString ''max_provider_subturns''), (''max_provider_subturns'', jword max_subturns),
         (''executed_tool_calls_before_loop'', jword before_loop), (''executed_tool_calls_total'', jword executed),
         (''successful_tool_results_this_loop'', jnat (lv_successes v)), (''status'', JString ''running''),
         (''checkpoint_expected'', Bool True), (''provider_transcript_continues'', Bool True),
         (''reason'', JString ''max_provider_subturns reached after successful provider tool results; yielding to the next TaskAgent turn instead of interrupting the task'')]))
        (\<lambda>_. io_return (lv_decision v, ''running''))
      else io_bind (record_budget_exceeded_without_receipt ag turn_id ''max_provider_subturns'' max_subturns max_subturns executed)
        (\<lambda>_. provider_tool_protocol_interrupted ag turn_id ''MODEL_TOOL_LOOP_BUDGET_EXCEEDED''
          ''Provider-native tool call loop exceeded max_provider_subturns.'' None None))"

fun run_subturns ::
  "task_agent \<Rightarrow> task_services \<Rightarrow> string \<Rightarrow> 64 word \<Rightarrow> nat \<Rightarrow> nat \<Rightarrow> loop_vars \<Rightarrow>
   (os_state, next_action_decision \<times> string) io" where
  "run_subturns ag sv turn_id before_loop 0 subturn_index v = on_world (loop_exhausted ag turn_id before_loop v)"
| "run_subturns ag sv turn_id before_loop (Suc left) subturn_index v =
     io_bind (run_subturn ag sv turn_id subturn_index before_loop v) (\<lambda>outcome.
     case outcome of
       LoopReturns d status \<Rightarrow> io_return (d, status)
     | NextSubturn v' \<Rightarrow> run_subturns ag sv turn_id before_loop left (Suc subturn_index) v'
     | NextCall v' \<Rightarrow> run_subturns ag sv turn_id before_loop left (Suc subturn_index) v')"

definition run_provider_tool_call_loop ::
  "task_agent \<Rightarrow> task_services \<Rightarrow> string \<Rightarrow> (os_state, next_action_decision \<times> string) io" where
  "run_provider_tool_call_loop ag sv turn_id =
     io_bind (on_world (decision DkDecideNextAction ''model.decide_next_action''
       ''DeepSeek provider-native tool call loop requested the next action.'')) (\<lambda>d0.
     io_bind (on_world (provider_tool_calls_executed_for_task ag)) (\<lambda>before_loop.
     let executor = seed_executed_tool_calls (word_of_nat before_loop) (loop_executor (ta_policy ag));
         v = \<lparr>lv_decision = d0\<lparr>nd_input_refs := sv_input_refs sv\<rparr>, lv_exec = executor, lv_successes = 0\<rparr>
     in run_subturns ag sv turn_id (word_of_nat before_loop)
          (unat (lp_max_provider_subturns (le_policy executor))) 0 v))"

end
