(* ===== verification/Loop_Laws.thy ===== *)
theory Loop_Laws
  imports Task_Loop
begin

text \<open>
  What the operations a task agent calls add to the log: \<open>adds P job m\<close> is that \<open>m\<close> only appends events to
  the log of \<open>job\<close> whose types satisfy \<open>P\<close>, whatever fails. The recordings that the proofs about the
  loop count are set apart; every other event is \<open>calm\<close>.
\<close>

section \<open>Appended events\<close>

definition appended :: "(string \<Rightarrow> bool) \<Rightarrow> string \<Rightarrow> world \<Rightarrow> world \<Rightarrow> bool" where
  "appended P job w w' \<longleftrightarrow>
     (\<exists>es. log_of w' job = log_of w job @ es \<and> list_all (\<lambda>e. P (event_type e)) es)"

abbreviation adds :: "(string \<Rightarrow> bool) \<Rightarrow> string \<Rightarrow> (world, 'a) io \<Rightarrow> bool" where
  "adds P job m \<equiv> io_keeps (appended P job) m"

definition calm :: "string \<Rightarrow> bool" where
  "calm ty \<longleftrightarrow> ty \<notin> {''closure_gate_checked'', ''provider_tool_call_loop_tool_completed'',
     ''provider_tool_call_requested'', ''provider_tool_result_recorded''}"

text \<open>The types of events that no result and no completed call is recorded with.\<close>

abbreviation no_gate :: "string \<Rightarrow> bool" where
  "no_gate ty \<equiv> ty \<noteq> ''closure_gate_checked''"

abbreviation no_count :: "string \<Rightarrow> bool" where
  "no_count ty \<equiv> ty \<noteq> ''provider_tool_call_loop_tool_completed''"

lemma appended_refl: "reflp (appended P job)"
  by (simp add: reflp_def appended_def)

lemma appended_trans: "transp (appended P job)"
  unfolding transp_def appended_def by (metis append.assoc list_all_append)

lemma appended_mono: "appended P job w w' \<Longrightarrow> (\<And>ty. P ty \<Longrightarrow> Q ty) \<Longrightarrow> appended Q job w w'"
  unfolding appended_def by (auto simp: list_all_iff)

lemma adds_mono: "adds P job m \<Longrightarrow> (\<And>ty. P ty \<Longrightarrow> Q ty) \<Longrightarrow> adds Q job m"
  unfolding io_keeps_def using appended_mono by blast

lemma calm_mono:
  "adds calm job m \<Longrightarrow> adds no_gate job m" "adds calm job m \<Longrightarrow> adds no_count job m" "adds calm job m \<Longrightarrow> adds (\<lambda>_. True) job m"
  by (auto elim: adds_mono simp: calm_def)

lemmas adds_pure [intro!] = io_keeps_pure [OF appended_refl]
lemmas adds_bind = io_keeps_bind [OF appended_trans]

lemma adds_same: "(\<And>w. w_events (snd (m w)) = w_events w) \<Longrightarrow> adds P job m"
  by (simp add: io_keeps_def appended_def)

lemma adds_append: "P ty \<Longrightarrow> adds P job (append_event j pid ty d)"
  unfolding io_keeps_def
proof
  fix w assume p: "P ty"
  obtain r w' where a: "append_event j pid ty d w = (r, w')" by (cases "append_event j pid ty d w")
  show "appended P job w (snd (append_event j pid ty d w))"
  proof (cases "j = job")
    case False
    with truth.add_other [OF a, of job] a show ?thesis by (simp add: appended_def)
  next
    case True
    with a p show ?thesis
      by (cases r) (auto simp: appended_def dest!: truth.add_err truth.add_ok)
  qed
qed

lemma adds_sys [simp]: "adds P job sys_op"
  by (rule adds_same) (simp add: sys_op_def Let_def)

lemma adds_now [simp]: "adds P job now_ms"
  by (rule adds_same) (simp add: now_ms_def Let_def)

lemma adds_put: "(\<And>w. w_events (f w) = w_events w) \<Longrightarrow> adds P job (put_world f)"
  by (rule adds_same) (simp add: put_world_def)

lemma adds_get: "(\<And>s. adds P job (f s)) \<Longrightarrow> adds P job (io_bind io_get f)"
  by (rule adds_bind) auto

lemma adds_read_events [simp]: "adds P job (read_events j)"
  unfolding read_events_def by (auto intro!: adds_bind)

lemma adds_write_blob [simp]: "adds P job (write_blob j name c)"
  unfolding write_blob_def by (auto intro!: adds_bind adds_put)

lemma adds_read_file [simp]: "adds P job (Process_Truth.read_file p)"
  unfolding Process_Truth.read_file_def by (auto intro!: adds_bind split: option.split)

lemma adds_replay [simp]: "adds P job (replay j)"
  unfolding replay_def by (auto intro!: adds_bind)

lemma adds_ok: "adds P job m \<Longrightarrow> adds P job (io_ok m)"
  by (auto simp: io_keeps_def io_ok_def split: prod.split sum.split) (metis snd_conv)+

lemma adds_status: "P ''job_status_changed'' \<Longrightarrow> adds P job (update_job_status j st)"
  unfolding update_job_status_def by (auto intro!: adds_bind adds_put adds_append)

section \<open>The operations of a task agent\<close>

lemma adds_event: "P ty \<Longrightarrow> adds P job (agent_event ag ty kvs)" "P ty \<Longrightarrow> adds P job (agent_event_of ag ty d)"
  by (auto simp: agent_event_def agent_event_of_def intro!: adds_bind adds_append)

lemma calm_event [intro!]: "calm ty \<Longrightarrow> adds calm job (agent_event ag ty kvs)" "calm ty \<Longrightarrow> adds calm job (agent_event_of ag ty d)"
  by (simp_all add: adds_event)

lemma calm_append [intro!]: "calm ty \<Longrightarrow> adds calm job (append_event j pid ty d)"
  by (simp add: adds_append)

lemma calm_status [simp]: "adds calm job (update_job_status j st)"
  by (rule adds_status) (simp add: calm_def)

lemma calm_action [simp]: "adds calm job (agent_action ag r k c i out why)"
  unfolding agent_action_def by (auto intro!: adds_bind)

lemma calm_emit [simp]: "adds calm job (emit_and_validate_action ag a)"
  unfolding emit_and_validate_action_def
  by (auto intro!: adds_bind split: sum.split) (simp_all add: calm_def)

lemma calm_receipt [simp]: "adds calm job (process_capability_receipt ag c st d)" "adds calm job (record_capability_execution ag nd r)"
  by (auto simp: process_capability_receipt_def record_capability_execution_def Let_def calm_def intro!: adds_bind)

lemma calm_fail_job [simp]: "adds calm job (fail_job ag c m)"
  unfolding fail_job_def by (auto intro!: adds_bind) (simp_all add: calm_def)

lemma calm_agent_fail [simp]: "adds calm job (agent_fail ag t d)" "adds calm job (clarify ag t d)"
  by (auto simp: agent_fail_def clarify_def intro!: adds_bind) (simp_all add: calm_def)

lemma calm_interrupt [simp]: "adds calm job (interrupt_by_model_protocol_error ag t d)"
  unfolding interrupt_by_model_protocol_error_def Let_def by (auto intro!: adds_bind) (simp_all add: calm_def)

lemma calm_record_completion [simp]: "adds calm job (record_completion ag t d refs st gate)"
  unfolding record_completion_def by (auto intro!: adds_bind) (simp_all add: calm_def)

lemma calm_refuse [simp]: "adds calm job (refuse_internal_refs ag t d)" "adds calm job (refuse_claims ag t cl mi ir r)"
  "adds calm job (refuse_by_gate ag gate)"
  by (auto simp: refuse_internal_refs_def refuse_claims_def refuse_by_gate_def Let_def intro!: adds_bind)
    (simp_all add: calm_def)


section \<open>Results and recordings\<close>

lemma adds_transcript [simp]: "adds P job (replay_provider_transcript_state j p q)" "adds P job (read_provider_messages cd j st)"
  "adds P job (write_summary cd j f p q t r ms l n refs lim c)"
  by (auto simp: replay_provider_transcript_state_def read_provider_messages_def write_summary_def Let_def intro!: adds_bind)

lemma calm_store [simp]: "adds calm job (store_messages cd j pid p q t ms)"
  unfolding store_messages_def Let_def by (auto intro!: adds_bind) (simp_all add: calm_def)

lemma calm_control [simp]: "adds calm job (record_provider_user_control_message cd j pid p q k m)"
  unfolding record_provider_user_control_message_def Let_def
  by (auto intro!: adds_bind split: option.split prod.split) (simp_all add: calm_def)

text \<open>The recording of a result adds one event that is not calm.\<close>

definition calm_or_result :: "string \<Rightarrow> bool" where
  "calm_or_result ty \<longleftrightarrow> calm ty \<or> ty = ''provider_tool_result_recorded''"

lemma result_mono: "adds calm job m \<Longrightarrow> adds calm_or_result job m"
  by (erule adds_mono) (simp add: calm_or_result_def)

lemma adds_tool_result: "adds calm_or_result job (record_provider_tool_result_with_metadata cd j pid p q c r md)"
proof -
  have "adds calm_or_result job (append_event j pid ty d)" if "calm_or_result ty" for ty pid d
    using that by (rule adds_append)
  then show ?thesis unfolding record_provider_tool_result_with_metadata_def Let_def
    by (auto intro!: adds_bind split: option.split prod.split simp: result_mono) (simp_all add: calm_or_result_def calm_def)
qed

lemma result_tool_result: "adds calm_or_result job (append_tool_result ag p c r)"
  unfolding append_tool_result_def by (auto intro!: adds_bind adds_tool_result)

lemma result_errors: "adds calm_or_result job (append_error_results_from ag p e b i calls)"
  by (induction calls arbitrary: i)
    (auto intro!: adds_bind result_tool_result simp: append_provider_tool_error_result_def)

lemma result_skip: "adds calm_or_result job (skip_remaining ag c e)"
  "adds calm_or_result job (append_error_results_for_remaining ag p calls i e b)"
  by (simp_all add: skip_remaining_def append_error_results_for_remaining_def result_errors)

lemma calm_protocol_error [simp]: "adds calm job (record_provider_tool_protocol_error ag t pl e)"
  "adds calm job (record_call_error ag c e)"
  by (auto simp: record_provider_tool_protocol_error_def record_call_error_def) (simp_all add: calm_def)

lemma calm_decision [simp]: "adds calm job (decision k c r)"
  unfolding decision_def by (auto intro!: adds_bind)

lemma calm_interrupted [simp]: "adds calm job (provider_tool_protocol_interrupted ag t c m r e)"
  unfolding provider_tool_protocol_interrupted_def Let_def by (auto intro!: adds_bind)

lemma calm_control_message [simp]: "adds calm job (control_message ag c m)"
  unfolding control_message_def by (auto intro!: adds_bind)

end
