(* ===== verification/Agent_Laws.thy ===== *)
theory Agent_Laws
  imports Loop_Laws Closure_Claims
begin

text \<open>
  What a task agent leaves alone: the file tree in every step but the dispatch of a granted capability,
  and how a decoded call and a completed task came about.
\<close>

section \<open>The file tree\<close>

abbreviation keeps_tree :: "(os_state, 'a) io \<Rightarrow> bool" where
  "keeps_tree m \<equiv> io_keeps (\<lambda>s s'. os_tree s' = os_tree s) m"

lemma tree_refl: "reflp (\<lambda>s s'. os_tree s' = os_tree s)" and tree_trans: "transp (\<lambda>s s'. os_tree s' = os_tree s)"
  by (auto simp: reflp_def transp_def)

lemmas tree_pure [intro!] = io_keeps_pure [OF tree_refl]
lemmas tree_bind = io_keeps_bind [OF tree_trans]

lemma tree_world [simp]: "keeps_tree (on_world m)"
  by (simp add: io_keeps_def on_world_def split: prod.split)

lemma tree_try: "keeps_tree m \<Longrightarrow> keeps_tree (io_try m)"
  by (auto simp: io_keeps_def io_try_def split: prod.split) (metis snd_conv)

text \<open>A step that cannot succeed ends the computation.\<close>

lemma tree_never: "keeps_tree m \<Longrightarrow> (\<And>s x s'. m s \<noteq> (Inr x, s')) \<Longrightarrow> keeps_tree (io_bind m f)"
  unfolding io_keeps_def io_bind_def by (auto split: prod.split sum.split) (metis snd_conv)

section \<open>Granted capabilities\<close>

definition granted :: "task_agent \<Rightarrow> string \<Rightarrow> bool" where
  "granted ag c \<longleftrightarrow> c \<in> set (ta_capabilities ag) \<and> c \<in> cd_capability_id ` set (ta_registry ag)"

lemma validated_granted: "validate_or_err (map cd_capability_id (ta_registry ag)) a ag = Inr u \<Longrightarrow> granted ag (pn_capability_id a)"
  by (auto simp: validate_or_err_def validate_action_def granted_def Let_def split: if_splits)

lemma emitted_granted: "emit_and_validate_action ag a w = (Inr u, w') \<Longrightarrow> granted ag (pn_capability_id a)"
  unfolding emit_and_validate_action_def
  by (erule io_bindE) (auto simp: io_fail_def elim!: io_bindE dest: validated_granted split: sum.splits)

lemma action_capability: "agent_action ag t k c refs out why w = (Inr a, w') \<Longrightarrow> pn_capability_id a = c"
  by (auto simp: agent_action_def io_return_def elim!: io_bindE)

lemma emit_capability_granted: "emit_capability_action ag t d w = (Inr u, w') \<Longrightarrow> granted ag (nd_capability_id d)"
  unfolding emit_capability_action_def by (erule io_bindE) (metis action_capability emitted_granted)

lemma on_world_Inr: "on_world m s = (Inr x, s') \<longleftrightarrow> (\<exists>w. m (os_world s) = (Inr x, w) \<and> s' = s\<lparr>os_world := w\<rparr>)"
  by (auto simp: on_world_def split: prod.split)

lemma ungranted_tree: "\<not> granted ag (nd_capability_id d) \<Longrightarrow> keeps_tree (run_registered_capability ag other t d)"
  unfolding run_registered_capability_def
  by (rule tree_never) (auto simp: on_world_Inr dest: emit_capability_granted)

lemma execute_tree:
  assumes "\<not> (nd_kind d = DkRunCapability \<and> granted ag (nd_capability_id d))"
  shows "keeps_tree (execute_provider_tool_decision ag sv t d)"
proof (cases "nd_kind d")
  case DkRunCapability
  with assms have "keeps_tree (run_registered_capability ag (sv_other sv) t d)" by (simp add: ungranted_tree)
  with DkRunCapability show ?thesis
    by (auto simp: execute_provider_tool_decision_def intro!: tree_bind split: option.split)
qed (auto simp: execute_provider_tool_decision_def intro!: tree_bind)

lemma decoded_tree: "keeps_tree (execute_provider_tool_decision ag sv (cc_turn c) d) \<Longrightarrow> keeps_tree (decoded_call ag sv c d v)"
  unfolding decoded_call_def by (auto intro!: tree_bind tree_try split: option.split)

section \<open>Decoded calls\<close>

lemma map_of_inserted: "map_of (bmap_insert k v m) x = Some b \<Longrightarrow> map_of m x = Some b \<or> (x = k \<and> b = v)"
  by (induction m rule: bmap_insert.induct) (auto split: if_splits)

lemma bound_tool:
  assumes "map_of (pg_bindings (bind_tools known phase limit ds g)) name = Some b"
  shows "map_of (pg_bindings g) name = Some b \<or>
    (\<exists>c. b = tool_binding phase c \<and> name = provider_tool_name_for_capability c \<and> c \<in> set known \<and>
       provider_tool_capability_is_exposable c)"
  using assms
proof (induction ds arbitrary: g)
  case (Cons d ds)
  let ?c = "cd_capability_id d"
  let ?g = "\<lparr>pg_tools = pg_tools g @ [provider_tool_name_for_capability ?c],
    pg_bindings = bmap_insert (provider_tool_name_for_capability ?c) (tool_binding phase ?c) (pg_bindings g)\<rparr>"
  consider "bind_tools known phase limit (d # ds) g = bind_tools known phase limit ds g"
    | "bind_tools known phase limit (d # ds) g = g"
    | "bind_tools known phase limit (d # ds) g = bind_tools known phase limit ds ?g" "?c \<in> set known"
      "provider_tool_capability_is_exposable ?c"
    by (cases "?c \<notin> set known \<or> \<not> provider_tool_capability_is_exposable ?c";
        cases "case limit of None \<Rightarrow> False | Some m \<Rightarrow> m \<le> length (pg_tools g)") (simp_all add: Let_def)
  then show ?case
  proof cases
    case 3
    with Cons.prems Cons.IH [of ?g] have "map_of (pg_bindings ?g) name = Some b \<or>
      (\<exists>c. b = tool_binding phase c \<and> name = provider_tool_name_for_capability c \<and> c \<in> set known \<and>
        provider_tool_capability_is_exposable c)" by simp
    with 3(2,3) show ?thesis by (auto dest!: map_of_inserted)
  qed (use Cons in auto)
qed simp

lemma selected_tool:
  assumes "binding_for_tool_name (from_capability_descriptors registry ds phase limit) name = Some b"
  shows "name = provider_tool_name_for_capability (tb_capability_id b) \<and> provider_tool_capability_is_exposable (tb_capability_id b)"
proof -
  obtain c where "b = tool_binding phase c" "name = provider_tool_name_for_capability c" "provider_tool_capability_is_exposable c"
    using bound_tool [OF assms [unfolded binding_for_tool_name_def from_capability_descriptors_def]] by auto
  then show ?thesis by (simp add: tool_binding_def)
qed

lemma receipt_tool:
  assumes "provider_tool_registry_for_receipt ag sv receipt w = (Inr g, w')" and "binding_for_tool_name g name = Some b"
  shows "name = provider_tool_name_for_capability (tb_capability_id b) \<and> provider_tool_capability_is_exposable (tb_capability_id b)"
proof -
  from assms(1) obtain ds phase limit where "g = from_capability_descriptors (ta_registry ag) ds phase limit"
    by (auto simp: provider_tool_registry_for_receipt_def phase6_full_coverage_def phase6_selected_def
        from_capability_ids_with_limit_def io_return_def split: option.splits elim!: io_bindE)
  with assms(2) show ?thesis using selected_tool by blast
qed

lemma decision_result: "decision k c why w = (Inr d, w') \<Longrightarrow> nd_kind d = k \<and> nd_capability_id d = c"
  by (auto simp: decision_def io_return_def elim!: io_bindE)

lemma decoded_decision:
  assumes "provider_tool_decision ag sv receipt call w = (Inr (Inr d), w')"
  shows "call_name_ok call = Some (provider_tool_name_for_capability (nd_capability_id d)) \<and>
    provider_tool_capability_is_exposable (nd_capability_id d) \<and> nd_kind d = decision_kind_for (nd_capability_id d)"
  using assms unfolding provider_tool_decision_def
proof (elim io_bindE)
  fix g w1
  assume g: "provider_tool_registry_for_receipt ag sv receipt w = (Inr g, w1)"
    and "decision_for_tool_call (ta_codec ag) (ta_parse_error ag) g call w1 = (Inr (Inr d), w')"
  then show ?thesis
    by (auto simp: decision_for_tool_call_def call_name_ok_def io_return_def elim!: io_bindE
        dest!: receipt_tool [OF g] decision_result split: sum.splits option.splits)
qed

end
