(* ===== verification/Observation.thy ===== *)
theory Observation
  imports Task_Context Provider_Transcript
begin

text \<open>
  What a task agent observes before a turn (\<open>process_kernel/src/observation.rs\<close>): the log, the receipts,
  the latest raw tool results and the task context, written as blobs the model call refers to. The
  derived serializations of the task context and of the registry are parameters.
\<close>

section \<open>Receipts and raw results\<close>

record observed_receipt =
  ov_event_id :: nat
  ov_event_type :: string
  ov_capability_id :: string
  ov_status :: string
  ov_data :: json

record raw_tool_result =
  rr_event_id :: nat
  rr_event_type :: string
  rr_capability_id :: string
  rr_status :: string
  rr_raw_result_ref :: string
  rr_raw_event :: json

definition process_event_json :: "process_event \<Rightarrow> json" where
  "process_event_json e = jobj
     [(''schema_version'', JString ''supernova_process_truth_event.v2''), (''event_id'', jnat (event_id e)),
      (''timestamp_ms'', jnat (timestamp_ms e)), (''job_id'', JString (ev_job_id e)), (''pid'', jopt (ev_pid e)),
      (''event_type'', JString (event_type e)), (''data'', data e)]"

definition raw_tool_result_identity :: "process_event \<Rightarrow> (string \<times> string) option" where
  "raw_tool_result_identity e =
     (let c = unwrap_or [] (get_str (data e) ''capability_id''); identified = (\<lambda>st. if c = [] then None else Some (c, st)) in
      if event_type e \<in> {''capability_receipt'', ''command_receipt'', ''office_receipt'', ''verify_event'', ''model_call_receipt''}
      then identified (unwrap_or ''unknown'' (get_str (data e) ''status''))
      else if event_type e = ''process_action_failed'' then identified ''failed''
      else if event_type e = ''capability_blocked'' then identified ''blocked''
      else None)"

definition event_to_receipt :: "process_event \<Rightarrow> observed_receipt option" where
  "event_to_receipt e =
     (let v = (if event_type e = ''model_call_receipt''
            then jobj [(''capability_id'', unwrap_or Null (jget (data e) ''capability_id'')),
              (''status'', unwrap_or Null (jget (data e) ''status'')), (''data'', data e)]
            else data e);
          c = unwrap_or [] (get_str v ''capability_id'')
      in if c = [] then None
         else Some \<lparr>ov_event_id = event_id e, ov_event_type = event_type e, ov_capability_id = c,
           ov_status = unwrap_or ''success'' (get_str v ''status''), ov_data = unwrap_or v (jget v ''data'')\<rparr>)"

definition observed_receipts :: "process_event list \<Rightarrow> observed_receipt list" where
  "observed_receipts events = List.map_filter (\<lambda>e.
     if event_type e \<in> {''capability_receipt'', ''verify_event'', ''model_call_receipt'', ''command_receipt'', ''office_receipt''}
     then event_to_receipt e else None) events"

definition raw_result_blob :: "json_codec \<Rightarrow> string \<Rightarrow> process_event \<Rightarrow> string \<times> string \<Rightarrow> (world, raw_tool_result) io" where
  "raw_result_blob cd job e identity =
     io_bind (write_blob job (''raw_tool_results/event_'' @ dec (event_id e) @ ''_'' @ safe_blob_name (fst identity) @ ''.json'')
       (to_pretty cd (process_event_json e))) (\<lambda>raw_result_ref.
     io_return \<lparr>rr_event_id = event_id e, rr_event_type = event_type e, rr_capability_id = fst identity,
       rr_status = snd identity, rr_raw_result_ref = raw_result_ref, rr_raw_event = process_event_json e\<rparr>)"

text \<open>The loop from the newest event back; \<open>limit\<close> counts the results still wanted.\<close>

fun raw_results_loop :: "json_codec \<Rightarrow> string \<Rightarrow> nat \<Rightarrow> process_event list \<Rightarrow> (world, raw_tool_result list) io" where
  "raw_results_loop cd job limit [] = io_return []"
| "raw_results_loop cd job limit (e # es) =
     (if limit = 0 then io_return []
      else case raw_tool_result_identity e of
        None \<Rightarrow> raw_results_loop cd job limit es
      | Some identity \<Rightarrow>
          if fst identity = ''model.decide_next_action'' then raw_results_loop cd job limit es
          else io_bind (raw_result_blob cd job e identity) (\<lambda>r.
            io_bind (raw_results_loop cd job (limit - 1) es) (\<lambda>rs. io_return (r # rs))))"

definition recent_raw_tool_results :: "json_codec \<Rightarrow> string \<Rightarrow> process_event list \<Rightarrow> nat \<Rightarrow> (world, raw_tool_result list) io" where
  "recent_raw_tool_results cd job events limit =
     io_bind (raw_results_loop cd job limit (rev events)) (\<lambda>rs. io_return (rev rs))"

definition raw_tool_result_json :: "raw_tool_result \<Rightarrow> json" where
  "raw_tool_result_json r = jobj
     [(''event_id'', jnat (rr_event_id r)), (''event_type'', JString (rr_event_type r)),
      (''capability_id'', JString (rr_capability_id r)), (''status'', JString (rr_status r)),
      (''raw_result_ref'', JString (rr_raw_result_ref r)), (''raw_event'', rr_raw_event r)]"

section \<open>The observation\<close>

record task_observation =
  tn_observation_id :: string
  tn_job_id :: string
  tn_root_pid :: string
  tn_runtime_id :: string
  tn_goal_ref :: string
  tn_observation_frame_ref :: string
  tn_task_context_ref :: string
  tn_provider_transcript_ref :: "string option"
  tn_provider_transcript_summary_ref :: "string option"
  tn_recent_raw_result_refs :: "string list"
  tn_process_events_ref :: string
  tn_capability_registry_ref :: string
  tn_latest_receipts :: "observed_receipt list"
  tn_artifact_refs :: "string list"
  tn_pending_approvals :: "string list"
  tn_approval_tokens :: "string list"
  tn_waiting_user :: bool
  tn_approved :: bool
  tn_cancelled :: bool
  tn_event_count :: nat

definition latest_raw_result_ref :: "task_observation \<Rightarrow> string option" where
  "latest_raw_result_ref ob =
     (if tn_recent_raw_result_refs ob = [] then None else Some (last (tn_recent_raw_result_refs ob)))"

definition decision_model_input_refs :: "task_observation \<Rightarrow> string list" where
  "decision_model_input_refs ob = [tn_goal_ref ob, tn_observation_frame_ref ob]"

definition has_event :: "string \<Rightarrow> process_event list \<Rightarrow> bool" where
  "has_event ty events = list_ex (\<lambda>e. event_type e = ty) events"

definition frame_json :: "task_observation \<Rightarrow> json \<Rightarrow> raw_tool_result list \<Rightarrow> json" where
  "frame_json ob task_context raw = jobj
     [(''observation_id'', JString (tn_observation_id ob)), (''job_id'', JString (tn_job_id ob)),
      (''root_pid'', JString (tn_root_pid ob)), (''runtime_id'', JString (tn_runtime_id ob)),
      (''goal_ref'', JString (tn_goal_ref ob)), (''task_context_ref'', JString (tn_task_context_ref ob)),
      (''task_context_state'', task_context), (''provider_transcript_ref'', jopt (tn_provider_transcript_ref ob)),
      (''provider_transcript_summary_ref'', jopt (tn_provider_transcript_summary_ref ob)),
      (''capability_registry_ref'', JString (tn_capability_registry_ref ob)),
      (''process_events_ref'', JString (tn_process_events_ref ob)),
      (''recent_raw_results'', Array (map raw_tool_result_json raw)), (''artifact_refs'', jstrings (tn_artifact_refs ob)),
      (''pending_approvals'', jstrings (tn_pending_approvals ob)), (''approval_tokens'', jstrings (tn_approval_tokens ob)),
      (''waiting_user'', Bool (tn_waiting_user ob)), (''approved'', Bool (tn_approved ob)),
      (''cancelled'', Bool (tn_cancelled ob)), (''event_count'', jnat (tn_event_count ob))]"

definition built_fields :: "task_observation \<Rightarrow> (string \<times> json) list" where
  "built_fields ob =
     [(''observation_id'', JString (tn_observation_id ob)), (''runtime_id'', JString (tn_runtime_id ob)),
      (''goal_ref'', JString (tn_goal_ref ob)), (''observation_frame_ref'', JString (tn_observation_frame_ref ob)),
      (''task_context_ref'', JString (tn_task_context_ref ob)),
      (''provider_transcript_ref'', jopt (tn_provider_transcript_ref ob)),
      (''provider_transcript_summary_ref'', jopt (tn_provider_transcript_summary_ref ob)),
      (''latest_raw_result_ref'', jopt (latest_raw_result_ref ob)),
      (''recent_raw_result_refs'', jstrings (tn_recent_raw_result_refs ob)),
      (''process_events_ref'', JString (tn_process_events_ref ob)),
      (''capability_registry_ref'', JString (tn_capability_registry_ref ob)),
      (''receipt_count'', jnat (length (tn_latest_receipts ob))), (''artifact_count'', jnat (length (tn_artifact_refs ob))),
      (''pending_approvals'', jstrings (tn_pending_approvals ob)), (''approval_tokens'', jstrings (tn_approval_tokens ob)),
      (''approved'', Bool (tn_approved ob)), (''cancelled'', Bool (tn_cancelled ob))]"

definition build_observation ::
  "json_codec \<Rightarrow> (task_context_state \<Rightarrow> json) \<Rightarrow> json \<Rightarrow> string \<Rightarrow> string \<Rightarrow> string \<Rightarrow> string \<Rightarrow> (world, task_observation) io" where
  "build_observation cd context_json registry_json job root_pid runtime_id user_goal =
     io_bind (read_events job) (\<lambda>events.
     let observation_id = ''obs_'' @ safe_blob_name runtime_id @ ''_'' @ dec (length events);
         blob = (\<lambda>suffix content. write_blob job (''observations/'' @ observation_id @ suffix) content)
     in io_bind (blob ''_goal.txt'' user_goal) (\<lambda>goal_ref.
     io_bind (replay_task_context_state job root_pid runtime_id) (\<lambda>task_context.
     io_bind (blob ''_task_context_state.json'' (to_pretty cd (context_json task_context))) (\<lambda>task_context_ref.
     io_bind (blob ''_process_events.json'' (to_pretty cd (Array (map process_event_json events)))) (\<lambda>process_events_ref.
     io_bind (blob ''_capabilities.json'' (to_pretty cd registry_json)) (\<lambda>registry_ref.
     io_bind (replay job) (\<lambda>replayed.
     io_bind (recent_raw_tool_results cd job events 8) (\<lambda>raw.
     io_bind (replay_task_context_state job root_pid runtime_id) (\<lambda>context_for_lists.
     let ob0 = \<lparr>tn_observation_id = observation_id, tn_job_id = job, tn_root_pid = root_pid, tn_runtime_id = runtime_id,
           tn_goal_ref = goal_ref, tn_observation_frame_ref = [], tn_task_context_ref = task_context_ref,
           tn_provider_transcript_ref = ts_provider_transcript_ref task_context,
           tn_provider_transcript_summary_ref = ts_provider_transcript_summary_ref task_context,
           tn_recent_raw_result_refs = map rr_raw_result_ref raw, tn_process_events_ref = process_events_ref,
           tn_capability_registry_ref = registry_ref, tn_latest_receipts = observed_receipts events,
           tn_artifact_refs = rp_artifact_refs replayed, tn_pending_approvals = active_preview_ids context_for_lists,
           tn_approval_tokens = active_approval_token_ids context_for_lists,
           tn_waiting_user = has_event ''job_waiting_user'' events,
           tn_approved = has_event ''user_approval_received'' events,
           tn_cancelled = has_event ''user_cancel_requested'' events, tn_event_count = length events\<rparr>
     in io_bind (blob ''_raw_frame.json'' (to_pretty cd (frame_json ob0 (context_json task_context) raw))) (\<lambda>frame_ref.
     let ob = ob0\<lparr>tn_observation_frame_ref := frame_ref\<rparr> in
     io_bind (append_event job (Some root_pid) ''task_agent_observation_built'' (jobj (built_fields ob))) (\<lambda>_.
     io_return ob)))))))))))"

end
