(* ===== verification/Agent_Session.thy ===== *)
theory Agent_Session
  imports Task_Loop Observation
begin

text \<open>
  The session of a task agent (\<open>process_kernel/src/task_agent_session.rs\<close>): turns are run until one of
  them ends the job or the turns of this invocation are used up.
\<close>

section \<open>The steps of a turn\<close>

record session_services =
  ss_tools :: task_services
  ss_context_json :: "task_context_state \<Rightarrow> json"
  ss_registry_json :: json
  ss_system_prompt :: string
  ss_goal :: string

definition session_fields :: "task_agent \<Rightarrow> (string \<times> json) list" where
  "session_fields ag =
     [(''runtime_id'', JString (ta_runtime_id ag)), (''session_id'', JString (ta_runtime_id ag)),
      (''task_agent_session_id'', JString (ta_runtime_id ag))]"

definition task_context :: "task_agent \<Rightarrow> (world, task_context_state) io" where
  "task_context ag = replay_task_context_state (ta_job ag) (ta_pid ag) (ta_runtime_id ag)"

definition start_session :: "task_agent \<Rightarrow> session_services \<Rightarrow> (world, unit) io" where
  "start_session ag ss =
     io_bind (write_blob (ta_job ag) (''task_agent/'' @ safe_blob_name (ta_runtime_id ag) @ ''/system_prompt.txt'')
       (ss_system_prompt ss)) (\<lambda>prompt_ref.
     io_bind (write_blob (ta_job ag) (''task_agent/'' @ safe_blob_name (ta_runtime_id ag) @ ''/goal.txt'') (ss_goal ss)) (\<lambda>goal_ref.
     agent_event ag ''task_agent_session_started'' (session_fields ag @
       [(''agent_kind'', JString ''task_scoped_temporary_agent''),
        (''reasoner'', JString ''interactive_task_agent_session''),
        (''checkpoint_strategy'', JString ''process_truth_refs_only''), (''goal_ref'', JString goal_ref),
        (''system_prompt_ref'', JString prompt_ref)])))"

definition record_task_context_state ::
  "task_agent \<Rightarrow> session_services \<Rightarrow> task_context_state \<Rightarrow> string \<Rightarrow> (world, string) io" where
  "record_task_context_state ag ss c reason =
     io_bind now_ms (\<lambda>now.
     io_bind (write_blob (ta_job ag) (''task_context/'' @ safe_blob_name (ta_runtime_id ag) @ ''_turn_'' @
         dec (unat (ts_current_turn_index c)) @ ''_'' @ safe_blob_name reason @ ''_'' @ dec now @ ''_state.json'')
       (to_pretty (ta_codec ag) (object_insert ''record_reason'' (JString reason) (ss_context_json ss c)))) (\<lambda>state_ref.
     io_bind (agent_event ag ''task_context_state_updated'' (session_fields ag @
       [(''root_pid'', JString (ta_pid ag)), (''state_ref'', JString state_ref), (''reason'', JString reason),
        (''current_turn_index'', jword (ts_current_turn_index c)), (''next_turn_index'', jword (ts_next_turn_index c)),
        (''status'', JString (ts_context_status c)), (''waiting_for'', jopt (ts_waiting_for c)),
        (''latest_observation_ref'', jopt (ts_latest_observation_ref c)), (''last_turn_id'', jopt (ts_last_turn_id c)),
        (''last_decision_id'', jopt (ts_last_decision_id c)), (''started'', Bool (ts_started c))])) (\<lambda>_.
     io_return state_ref)))"

definition start_or_resume_session ::
  "task_agent \<Rightarrow> session_services \<Rightarrow> task_context_state \<Rightarrow> (world, task_context_state) io" where
  "start_or_resume_session ag ss ctx =
     io_bind (if ts_started ctx
       then agent_event ag ''task_agent_session_resumed'' (session_fields ag @
         [(''root_pid'', JString (ta_pid ag)), (''next_turn_index'', jword (ts_next_turn_index ctx)),
          (''current_turn_index'', jword (ts_current_turn_index ctx)),
          (''resume_strategy'', JString ''continue_existing_task_context_state'')])
       else start_session ag ss) (\<lambda>_.
     io_bind (task_context ag) (\<lambda>c.
     io_bind (record_task_context_state ag ss c (if ts_started ctx then ''session_resumed'' else ''session_started''))
       (\<lambda>_. io_return c)))"

definition turn_id_of :: "task_agent \<Rightarrow> 64 word \<Rightarrow> string" where
  "turn_id_of ag turn_index = ''turn_'' @ ta_runtime_id ag @ ''_'' @ dec (unat turn_index)"

definition start_turn :: "task_agent \<Rightarrow> 64 word \<Rightarrow> (world, string) io" where
  "start_turn ag turn_index =
     (let turn_id = turn_id_of ag turn_index in
      io_bind (agent_event ag ''task_agent_turn_started'' (session_fields ag @
        [(''turn_id'', JString turn_id), (''turn_index'', jword turn_index)])) (\<lambda>_. io_return turn_id))"

definition observed_receipt_json :: "observed_receipt \<Rightarrow> json" where
  "observed_receipt_json r = jobj
     [(''event_id'', jnat (ov_event_id r)), (''event_type'', JString (ov_event_type r)),
      (''capability_id'', JString (ov_capability_id r)), (''status'', JString (ov_status r)), (''data'', ov_data r)]"

definition observation_json :: "task_observation \<Rightarrow> json" where
  "observation_json ob = jobj
     [(''observation_id'', JString (tn_observation_id ob)), (''job_id'', JString (tn_job_id ob)),
      (''root_pid'', JString (tn_root_pid ob)), (''runtime_id'', JString (tn_runtime_id ob)),
      (''goal_ref'', JString (tn_goal_ref ob)), (''acceptance_contract_ref'', Null),
      (''observation_frame_ref'', JString (tn_observation_frame_ref ob)),
      (''task_context_ref'', JString (tn_task_context_ref ob)),
      (''provider_transcript_ref'', jopt (tn_provider_transcript_ref ob)),
      (''provider_transcript_summary_ref'', jopt (tn_provider_transcript_summary_ref ob)),
      (''latest_raw_result_ref'', jopt (latest_raw_result_ref ob)),
      (''recent_raw_result_refs'', jstrings (tn_recent_raw_result_refs ob)),
      (''process_events_ref'', JString (tn_process_events_ref ob)),
      (''capability_registry_ref'', JString (tn_capability_registry_ref ob)),
      (''latest_receipts'', Array (map observed_receipt_json (tn_latest_receipts ob))),
      (''artifact_refs'', jstrings (tn_artifact_refs ob)), (''pending_approvals'', jstrings (tn_pending_approvals ob)),
      (''approval_tokens'', jstrings (tn_approval_tokens ob)), (''waiting_user'', Bool (tn_waiting_user ob)),
      (''approved'', Bool (tn_approved ob)), (''cancelled'', Bool (tn_cancelled ob)),
      (''event_count'', jnat (tn_event_count ob))]"

definition agent_checkpoint ::
  "task_agent \<Rightarrow> string \<Rightarrow> json \<Rightarrow> string list \<Rightarrow> string list \<Rightarrow> (world, checkpoint_ref) io" where
  "agent_checkpoint ag kind st input_refs output_refs =
     save_checkpoint (to_string (ta_codec ag)) (ta_job ag) (ta_pid ag) (Some (ta_runtime_id ag)) kind st input_refs output_refs"

definition observe_and_checkpoint ::
  "task_agent \<Rightarrow> session_services \<Rightarrow> string \<Rightarrow> (world, task_observation \<times> checkpoint_ref) io" where
  "observe_and_checkpoint ag ss turn_id =
     io_bind (build_observation (ta_codec ag) (ss_context_json ss) (ss_registry_json ss) (ta_job ag) (ta_pid ag)
       (ta_runtime_id ag) (ss_goal ss)) (\<lambda>ob.
     io_bind (agent_checkpoint ag ''task_observation'' (jobj (turn_fields ag turn_id @ [(''observation'', observation_json ob)]))
       [tn_observation_frame_ref ob, tn_task_context_ref ob] [tn_goal_ref ob]) (\<lambda>c. io_return (ob, c)))"

definition checkpoint_after_action ::
  "task_agent \<Rightarrow> string \<Rightarrow> task_observation \<Rightarrow> next_action_decision \<Rightarrow> string \<Rightarrow> (world, checkpoint_ref) io" where
  "checkpoint_after_action ag turn_id ob d status =
     agent_checkpoint ag ''after_action'' (jobj (turn_fields ag turn_id @
       [(''decision'', decision_json d), (''status'', JString status)])) [tn_observation_frame_ref ob] []"

definition complete_turn :: "task_agent \<Rightarrow> 64 word \<Rightarrow> string \<Rightarrow> string \<Rightarrow> string \<Rightarrow> (world, unit) io" where
  "complete_turn ag turn_index turn_id decision_id status =
     agent_event ag ''task_agent_turn_completed'' (session_fields ag @
       [(''turn_id'', JString turn_id), (''turn_index'', jword turn_index), (''decision_id'', JString decision_id),
        (''status'', JString status)])"

section \<open>Turns until the job ends\<close>

record task_agent_run_result =
  ar_job_id :: string
  ar_root_pid :: string
  ar_runtime_id :: string
  ar_status :: string
  ar_artifacts :: "string list"
  ar_checkpoints :: "checkpoint_ref list"
  ar_turn_count :: "64 word"
  ar_waiting_for :: "string option"
  ar_last_error :: "json option"

definition agent_result ::
  "task_agent \<Rightarrow> string \<Rightarrow> checkpoint_ref list \<Rightarrow> 64 word \<Rightarrow> string option \<Rightarrow> json option \<Rightarrow> (world, task_agent_run_result) io" where
  "agent_result ag status checkpoints turn_count waiting_for last_error =
     io_bind (replay (ta_job ag)) (\<lambda>replayed. io_return
       \<lparr>ar_job_id = ta_job ag, ar_root_pid = ta_pid ag, ar_runtime_id = ta_runtime_id ag,
        ar_status = status, ar_artifacts = rp_artifact_refs replayed, ar_checkpoints = checkpoints,
        ar_turn_count = turn_count, ar_waiting_for = waiting_for, ar_last_error = last_error\<rparr>)"

record session_vars =
  sx_context :: task_context_state
  sx_checkpoints :: "checkpoint_ref list"
  sx_turn_count :: "64 word"
  sx_turn_index :: "64 word"
  sx_turns_run :: "64 word"

text \<open>The arms of the \<open>match\<close> on the status of a turn: \<open>None\<close> goes on.\<close>

definition session_end :: "string \<Rightarrow> task_context_state \<Rightarrow> (string option \<times> json option) option" where
  "session_end status c =
     (let code = (\<lambda>s. jobj [(''code'', JString s)]) in
      if status = ''completed'' then Some (None, None)
      else if status = ''failed'' then Some (None, Some (code ''TASK_AGENT_FAILED''))
      else if status = ''blocked'' then Some (None, Some (code ''TASK_AGENT_BLOCKED''))
      else if status = ''interrupted''
      then Some (None, or_else (ts_last_model_protocol_error c) (Some (code ''MODEL_PROTOCOL_INTERRUPTED'')))
      else if status = ''waiting_user'' then Some (Some ''user_input'', None)
      else if status = ''waiting_approval'' then Some (Some ''approval'', None)
      else None)"

text \<open>One turn: the status it ends with and the variables after it.\<close>

definition session_turn ::
  "task_agent \<Rightarrow> session_services \<Rightarrow> session_vars \<Rightarrow> (os_state, string \<times> session_vars) io" where
  "session_turn ag ss v =
     (let turn_index = sx_turn_index v in
      io_bind (on_world (start_turn ag turn_index)) (\<lambda>turn_id.
      io_bind (on_world (observe_and_checkpoint ag ss turn_id)) (\<lambda>(ob, before).
      io_bind (run_provider_tool_call_loop ag ((ss_tools ss)\<lparr>sv_input_refs := decision_model_input_refs ob\<rparr>) turn_id)
        (\<lambda>(d, status).
      io_bind (on_world (checkpoint_after_action ag turn_id ob d status)) (\<lambda>after.
      io_bind (on_world (complete_turn ag turn_index turn_id (nd_decision_id d) status)) (\<lambda>_.
      io_bind (on_world (task_context ag)) (\<lambda>c.
      io_bind (on_world (record_task_context_state ag ss c ''turn_completed'')) (\<lambda>_.
      io_return (status, v\<lparr>sx_context := c, sx_checkpoints := sx_checkpoints v @ [before, after],
        sx_turn_count := turn_index, sx_turns_run := sat_add (sx_turns_run v) 1\<rparr>)))))))))"

text \<open>
  The loop, with fuel: \<open>max_turns\<close> of zero is no limit, and then the code may turn forever; \<open>None\<close> is
  that the fuel ran out.
\<close>

fun session_turns ::
  "task_agent \<Rightarrow> session_services \<Rightarrow> 64 word \<Rightarrow> nat \<Rightarrow> session_vars \<Rightarrow> (os_state, task_agent_run_result option) io" where
  "session_turns ag ss max_turns 0 v = io_return None"
| "session_turns ag ss max_turns (Suc fuel) v =
     (if max_turns \<noteq> 0 \<and> max_turns \<le> sx_turns_run v
      then on_world (io_bind (fail_max_steps ag) (\<lambda>_.
        io_bind (agent_result ag ''failed'' (sx_checkpoints v) (max (sx_turn_count v) (ts_current_turn_index (sx_context v)))
          None (Some (jobj [(''code'', JString ''TASK_AGENT_MAX_TURNS'')]))) (\<lambda>r. io_return (Some r))))
      else io_bind (session_turn ag ss v) (\<lambda>(status, v').
        case session_end status (sx_context v') of
          Some (waiting_for, last_error) \<Rightarrow>
            on_world (io_bind (agent_result ag status (sx_checkpoints v') (ts_current_turn_index (sx_context v')) waiting_for
              last_error) (\<lambda>r. io_return (Some r)))
        | None \<Rightarrow> session_turns ag ss max_turns fuel
            (v'\<lparr>sx_turn_index := max (ts_next_turn_index (sx_context v')) (sat_add (sx_turn_index v') 1)\<rparr>)))"

definition run_session ::
  "task_agent \<Rightarrow> session_services \<Rightarrow> 64 word \<Rightarrow> nat \<Rightarrow> (os_state, task_agent_run_result option) io" where
  "run_session ag ss max_turns fuel =
     io_bind (on_world (task_context ag)) (\<lambda>initial.
     io_bind (on_world (start_or_resume_session ag ss initial)) (\<lambda>c.
     session_turns ag ss max_turns fuel
       \<lparr>sx_context = c, sx_checkpoints = [], sx_turn_count = ts_current_turn_index c,
        sx_turn_index = max (ts_next_turn_index c) 1, sx_turns_run = 0\<rparr>))"

end
