(* ===== verification/Completion_Laws.thy ===== *)
theory Completion_Laws
  imports Agent_Laws Agent_Session
begin

text \<open>
  How a task gets completed: the only way to the status \<open>completed\<close>, from the closure gate through the
  tool call and the loop to the session.
\<close>

section \<open>Passing the gate\<close>

definition gate_facts :: "path \<Rightarrow> file_probe \<Rightarrow> serde \<Rightarrow> process_event list \<Rightarrow> string list \<Rightarrow> bool" where
  "gate_facts root probe sd log refs \<longleftrightarrow> list_all (artifact_present root probe) refs \<and> verification_passes log \<and>
     audits_pass sd log \<and> nothing_open log"

text \<open>The last check of the gate in a log, and the facts that held in front of it.\<close>

definition gate_passed :: "path \<Rightarrow> file_probe \<Rightarrow> serde \<Rightarrow> string list \<Rightarrow> process_event list \<Rightarrow> bool" where
  "gate_passed root probe sd refs log \<longleftrightarrow> (\<exists>pre e post. log = pre @ e # post \<and> event_type e = ''closure_gate_checked'' \<and>
     list_all (\<lambda>x. no_gate (event_type x)) post \<and> gate_facts root probe sd pre refs)"

lemma gate_passed_later: "gate_passed root probe sd refs (log_of w job) \<Longrightarrow> appended no_gate job w w' \<Longrightarrow>
   gate_passed root probe sd refs (log_of w' job)"
proof -
  assume "gate_passed root probe sd refs (log_of w job)" and "appended no_gate job w w'"
  then obtain pre e post es where "log_of w job = pre @ e # post" "log_of w' job = log_of w job @ es"
    "event_type e = ''closure_gate_checked''" "list_all (\<lambda>x. no_gate (event_type x)) (post @ es)" "gate_facts root probe sd pre refs"
    unfolding gate_passed_def appended_def by auto
  then show ?thesis unfolding gate_passed_def
    by (intro exI [of _ pre] exI [of _ e] exI [of _ "post @ es"]) simp
qed

lemma checked_passed:
  assumes "check_closure_gate_for_claimed_artifacts root probe sd job refs w = (Inr gate, w1)" and "cg_can_complete gate"
    and "agent_event_of ag ''closure_gate_checked'' j w1 = (Inr u, w2)" and "ta_job ag = job"
  shows "gate_passed root probe sd refs (log_of w2 job)"
proof -
  from assms(1) obtain events where rd: "read_events job w = (Inr events, w1)"
    and "gate = gate_on_events root probe sd events refs"
    unfolding check_closure_gate_for_claimed_artifacts_def check_closure_gate_for_artifacts_def
    by (elim io_bindE) (auto simp: io_return_apply)
  with read_events_result [OF rd] assms(2) have facts: "gate_facts root probe sd (log_of w job) refs" "log_of w1 job = log_of w job"
    by (simp_all add: gate_decision gate_facts_def)
  from assms(3,4) obtain e where "append_event job (Some (ta_pid ag)) ''closure_gate_checked'' j w1 = (Inr e, w2)"
    by (auto simp: agent_event_of_def io_return_def elim!: io_bindE)
  from truth.add_ok [OF this] facts show ?thesis unfolding gate_passed_def
    by (intro exI [of _ "log_of w job"] exI [of _ e] exI [of _ "[]"]) simp
qed

lemma record_completion_status: "record_completion ag t d refs st gate w = (Inr x, w') \<Longrightarrow> x = ''completed''"
  by (auto simp: record_completion_def io_return_def elim!: io_bindE)

lemma refused_status: "refuse_internal_refs ag t d w = (Inr x, w') \<Longrightarrow> x = ''running''"
  "refuse_claims ag t cl mi ir r w = (Inr x, w') \<Longrightarrow> x = ''running''" "refuse_by_gate ag gate w = (Inr x, w') \<Longrightarrow> x = ''running''"
  by (auto simp: refuse_internal_refs_def refuse_claims_def refuse_by_gate_def Let_def io_return_def elim!: io_bindE)

text \<open>Computations that answer \<open>completed\<close> only when the gate has passed.\<close>

definition through_gate :: "task_agent \<Rightarrow> next_action_decision \<Rightarrow> (world, string) io \<Rightarrow> bool" where
  "through_gate ag d m \<longleftrightarrow> (\<forall>w w'. m w = (Inr ''completed'', w') \<longrightarrow>
     gate_passed (ta_root ag) (ta_probe ag) (serde.truncate (ta_codec ag)) (claimed_artifacts d) (log_of w' (ta_job ag)))"

lemma through_bind: "(\<And>x. through_gate ag d (f x)) \<Longrightarrow> through_gate ag d (io_bind m f)"
  unfolding through_gate_def by (blast elim: io_bindE)

lemma through_if: "through_gate ag d m \<Longrightarrow> through_gate ag d n \<Longrightarrow> through_gate ag d (if b then m else n)"
  by simp

lemma through_refuse: "through_gate ag d (refuse_internal_refs ag t d)" "through_gate ag d (refuse_claims ag t cl mi ir r)"
  by (auto simp: through_gate_def dest!: refused_status)

lemma through_check:
  "through_gate ag d (io_bind (check_closure_gate_for_claimed_artifacts (ta_root ag) (ta_probe ag)
     (serde.truncate (ta_codec ag)) (ta_job ag) (claimed_artifacts d)) (\<lambda>gate.
   io_bind (agent_event_of ag ''closure_gate_checked'' (closure_gate_json gate)) (\<lambda>_.
   if \<not> cg_can_complete gate then refuse_by_gate ag gate else record_completion ag t d refs st gate)))"
  unfolding through_gate_def
proof (intro allI impI, elim io_bindE, goal_cases)
  case (1 w w' gate w6 u w7)
  show ?case
  proof (cases "cg_can_complete gate")
    case True
    with 1(3) have r: "record_completion ag t d refs st gate w7 = (Inr ''completed'', w')" by simp
    have "adds no_gate (ta_job ag) (record_completion ag t d refs st gate)"
      by (intro calm_mono calm_record_completion)
    from io_keepsD [OF this r] checked_passed [OF 1(1) True 1(2) refl] show ?thesis by (blast intro: gate_passed_later)
  next
    case False
    with 1(3) refused_status(3) [of ag gate w7 "''completed''" w'] show ?thesis by simp
  qed
qed

lemma complete_through_gate: "through_gate ag d (agent_complete ag t d)"
  unfolding agent_complete_def Let_def by (intro through_bind through_if through_refuse through_check)

section \<open>Statuses\<close>

lemma interrupted_status: "interrupt_by_model_protocol_error ag t d w = (Inr x, w') \<Longrightarrow> x = ''interrupted''"
  "provider_tool_protocol_interrupted ag t c m r e w = (Inr (d', y), w') \<Longrightarrow> y = ''interrupted''"
proof -
  show i: "interrupt_by_model_protocol_error ag t d w = (Inr x, w') \<Longrightarrow> x = ''interrupted''" for d w x w'
    by (auto simp: interrupt_by_model_protocol_error_def Let_def io_return_def elim!: io_bindE)
  show "provider_tool_protocol_interrupted ag t c m r e w = (Inr (d', y), w') \<Longrightarrow> y = ''interrupted''"
    by (auto simp: provider_tool_protocol_interrupted_def Let_def io_return_def elim!: io_bindE dest: i)
qed

lemma receipt_status_open: "receipt_outcome ag sv t d r w = (Inr (st, x), w') \<Longrightarrow> st \<in> {''waiting_approval'', ''recoverable_error'', ''running''}"
  by (auto simp: receipt_outcome_def io_return_def elim!: io_bindE split: if_splits)


text \<open>A decision answers \<open>completed\<close> only through the gate, on the files as they are then.\<close>

definition closed_by_gate :: "task_agent \<Rightarrow> next_action_decision \<Rightarrow> os_state \<Rightarrow> bool" where
  "closed_by_gate ag d s \<longleftrightarrow> gate_passed (ta_root ag) (tree_probe (os_tree s)) (serde.truncate (ta_codec ag))
     (claimed_artifacts d) (log_of (os_world s) (ta_job ag))"

lemma closed_later:
  assumes "closed_by_gate ag d s" and "on_world m s = (r, s')" and "adds no_gate (ta_job ag) m"
  shows "closed_by_gate ag d s'"
proof -
  from assms(2) obtain w where "m (os_world s) = (r, w)" and s': "s' = s\<lparr>os_world := w\<rparr>"
    by (auto simp: on_world_def split: prod.splits)
  with io_keepsD [OF assms(3)] assms(1) show ?thesis by (auto simp: closed_by_gate_def intro: gate_passed_later)
qed

lemma calm_complete_result [simp]: "adds P job (provider_complete_tool_result ag t st d n)"
proof -
  have "adds P job (provider_tool_result_from_receipt ag t r)" for r
    unfolding provider_tool_result_from_receipt_def receipt_blob_text_def Let_def
    by (auto intro!: adds_bind split: option.split)
  then show ?thesis
    unfolding provider_complete_tool_result_def latest_process_complete_receipt_since_def Let_def
    by (auto intro!: adds_bind split: option.split)
qed

lemma execute_completed:
  assumes "execute_provider_tool_decision ag sv t d s = (Inr (''completed'', r), s')"
  shows "closed_by_gate ag d s'"
proof (cases "nd_kind d")
  case DkComplete
  with assms obtain w1 n w2 where c: "agent_complete (ag\<lparr>ta_probe := tree_probe (os_tree s)\<rparr>) t d w1 = (Inr ''completed'', w2)"
    and p: "provider_complete_tool_result ag t ''completed'' d n w2 = (Inr r, os_world s')" and s': "os_tree s' = os_tree s"
    by (auto simp: execute_provider_tool_decision_def io_return_def io_get_apply on_world_Inr io_bind_Inr elim!: io_bindE)
  have "appended no_gate (ta_job ag) w2 (os_world s')"
    by (rule io_keepsD [OF calm_complete_result p])
  moreover have "gate_passed (ta_root ag) (tree_probe (os_tree s)) (serde.truncate (ta_codec ag)) (claimed_artifacts d)
    (log_of w2 (ta_job ag))"
    using complete_through_gate [of "ag\<lparr>ta_probe := tree_probe (os_tree s)\<rparr>" d t] c by (simp add: through_gate_def)
  ultimately show ?thesis using s' by (auto simp: closed_by_gate_def intro: gate_passed_later)
qed (use assms in \<open>auto simp: execute_provider_tool_decision_def ended_result_def io_return_def io_fail_def on_world_Inr
    elim!: io_bindE dest!: receipt_status_open split: option.splits\<close>)

section \<open>The loop\<close>

lemma loop_answers:
  "recover_call ag c d rec v w \<noteq> (Inr (LoopReturns e ''completed''), w')"
  "failed_call ag sv c d err v w \<noteq> (Inr (LoopReturns e ''completed''), w')"
  "waiting_call ag c d res w \<noteq> (Inr (LoopReturns e ''completed''), w')"
  "subturn_refused ag t receipt b be w \<noteq> (Inr (LoopReturns e ''completed''), w')"
  "model_call_failed ag t receipt w \<noteq> (Inr (LoopReturns e ''completed''), w')"
proof -
  show r: "recover_call ag c d rec v w \<noteq> (Inr (LoopReturns e ''completed''), w')" for rec w
    by (auto simp: recover_call_def Let_def io_return_def elim!: io_bindE)
  show "failed_call ag sv c d err v w \<noteq> (Inr (LoopReturns e ''completed''), w')"
    by (auto simp: failed_call_def Let_def io_return_def r dest!: interrupted_status(2) elim!: io_bindE split: option.splits)
  show "waiting_call ag c d res w \<noteq> (Inr (LoopReturns e ''completed''), w')"
    by (auto simp: waiting_call_def io_return_def elim!: io_bindE)
  show "subturn_refused ag t receipt b be w \<noteq> (Inr (LoopReturns e ''completed''), w')"
    by (auto simp: subturn_refused_def io_return_def dest!: interrupted_status(2) elim!: io_bindE)
  show "model_call_failed ag t receipt w \<noteq> (Inr (LoopReturns e ''completed''), w')"
    by (auto simp: model_call_failed_def Let_def io_return_def dest!: interrupted_status(2) elim!: io_bindE split: if_splits)
qed

lemma no_gate_result: "adds calm_or_result job m \<Longrightarrow> adds no_gate job m"
  by (erule adds_mono) (auto simp: calm_or_result_def calm_def)

lemma no_gate_answer: "adds no_gate job (answered_call ag c d st r v)"
proof -
  have "adds no_gate job (tool_completed ag c d st v)" for st v by (simp add: tool_completed_def adds_event)
  moreover have "adds no_gate job (agent_event ag ''provider_tool_call_recoverable_error'' kvs)" for kvs
    by (simp add: adds_event)
  moreover have "adds no_gate job (control_message ag c m)" for m by (rule calm_mono) simp
  ultimately show ?thesis
    unfolding answered_call_def correct_after_result_def Let_def
    by (auto intro!: adds_bind no_gate_result [OF result_tool_result] no_gate_result [OF result_skip(1)]
        split: option.split)
qed

lemma answered_completed: "answered_call ag c d st r v w = (Inr (LoopReturns e ''completed''), w') \<Longrightarrow> e = d \<and> st = ''completed''"
  by (auto simp: answered_call_def Let_def io_return_def elim!: io_bindE split: if_splits)

lemma decoded_completed:
  assumes "decoded_call ag sv c d v s = (Inr (LoopReturns e ''completed''), s')"
  shows "closed_by_gate ag e s'"
  using assms unfolding decoded_call_def
proof (elim io_bindE, goal_cases)
  case (1 u s1 scope s2)
  then have "scope = None" by (auto simp: on_world_Inr loop_answers split: option.splits)
  with 1(3) show ?case
  proof (simp only: option.case, elim io_bindE, goal_cases)
    case (1 outcome s3)
    then obtain st r where o: "outcome = Inr (st, r)" "st \<noteq> ''waiting_approval''"
      and a: "on_world (answered_call ag c d st r v) s3 = (Inr (LoopReturns e ''completed''), s')"
      by (auto simp: on_world_Inr loop_answers split: sum.splits if_splits)
    then have e: "e = d" "st = ''completed''" by (auto simp: on_world_Inr dest: answered_completed)
    from 1 o have "execute_provider_tool_decision ag sv (cc_turn c) d s2 = (Inr (st, r), s3)"
      by (auto simp: io_try_def split: prod.splits)
    then show ?case using closed_later [OF _ a no_gate_answer] execute_completed e by blast
  qed
qed

lemma call_completed: "handle_call ag sv c v s = (Inr (LoopReturns e ''completed''), s') \<Longrightarrow> closed_by_gate ag e s'"
  unfolding handle_call_def by (auto simp: io_return_def elim!: io_bindE split: sum.splits dest: decoded_completed)

lemma calls_completed: "handle_calls ag sv t receipt b i calls v s = (Inr (LoopReturns e ''completed''), s') \<Longrightarrow> closed_by_gate ag e s'"
proof (induction calls arbitrary: i v s)
  case (Cons call calls)
  from Cons.prems show ?case
    by (auto simp: io_return_def elim!: io_bindE split: call_outcome.splits dest: Cons.IH call_completed)
qed (simp add: io_return_def)

lemma subturn_completed: "run_subturn ag sv t i b v s = (Inr (LoopReturns e ''completed''), s') \<Longrightarrow> closed_by_gate ag e s'"
  unfolding run_subturn_def run_batch_def Let_def
  by (auto simp: on_world_Inr io_return_def loop_answers elim!: io_bindE split: if_splits sum.splits)
    (blast dest: calls_completed)

lemma subturns_completed: "run_subturns ag sv t b n i v s = (Inr (e, ''completed''), s') \<Longrightarrow> closed_by_gate ag e s'"
proof (induction n arbitrary: i v s)
  case 0
  then show ?case
    by (auto simp: on_world_Inr loop_exhausted_def Let_def io_return_def elim!: io_bindE dest!: interrupted_status(2) split: if_splits)
next
  case (Suc n)
  from Suc.prems show ?case
    by (auto simp: io_return_def elim!: io_bindE split: call_outcome.splits dest: Suc.IH subturn_completed)
qed

lemma loop_completed: "run_provider_tool_call_loop ag sv t s = (Inr (e, ''completed''), s') \<Longrightarrow> closed_by_gate ag e s'"
  unfolding run_provider_tool_call_loop_def Let_def by (auto elim!: io_bindE dest: subturns_completed)

section \<open>The session\<close>

lemma adds_task_context [simp]: "adds P job (task_context ag)"
  unfolding task_context_def replay_task_context_state_def by (auto intro!: adds_bind)

lemma adds_checkpoint [simp]: "P ''checkpoint_saved'' \<Longrightarrow> adds P job (agent_checkpoint ag k st ir out)"
  unfolding agent_checkpoint_def save_checkpoint_def Let_def by (auto intro!: adds_bind adds_put adds_append)

lemma adds_turn_end [simp]:
  "P ''checkpoint_saved'' \<Longrightarrow> adds P job (checkpoint_after_action ag t ob d st)"
  "P ''task_agent_turn_completed'' \<Longrightarrow> adds P job (complete_turn ag i t did st)"
  "P ''task_context_state_updated'' \<Longrightarrow> adds P job (record_task_context_state ag ss c why)"
  "adds P job (agent_result ag st cps n wt le)"
  by (auto simp: checkpoint_after_action_def complete_turn_def record_task_context_state_def agent_result_def
      intro!: adds_bind adds_event)

lemma turn_completed:
  assumes "session_turn ag ss v s = (Inr (''completed'', v'), s')"
  shows "\<exists>d. closed_by_gate ag d s'"
  using assms unfolding session_turn_def Let_def
  by (auto simp: io_return_def elim!: io_bindE)
    (drule loop_completed, (drule closed_later, assumption, simp)+, blast)

lemma result_status: "agent_result ag st cps n wt le w = (Inr r, w') \<Longrightarrow> ar_status r = st"
  by (auto simp: agent_result_def io_return_def elim!: io_bindE)

definition session_statuses :: "string set" where
  "session_statuses = {''completed'', ''failed'', ''blocked'', ''interrupted'', ''waiting_user'', ''waiting_approval''}"

text \<open>A result of the session whose gate has passed if it says completed.\<close>

definition well_ended :: "task_agent \<Rightarrow> task_agent_run_result \<Rightarrow> os_state \<Rightarrow> bool" where
  "well_ended ag r s \<longleftrightarrow> ar_status r \<in> session_statuses \<and>
     (ar_status r = ''completed'' \<longrightarrow> (\<exists>d. closed_by_gate ag d s))"

lemma ended_turn:
  assumes "session_turn ag ss v s = (Inr (st, v'), s1)" and "session_end st (sx_context v') = Some e"
    and "on_world (agent_result ag st cps n wt le) s1 = (Inr r, s')"
  shows "well_ended ag r s'"
proof -
  have r: "ar_status r = st" using assms(3) by (auto simp: on_world_Inr dest: result_status)
  have "st \<in> session_statuses" using assms(2) by (auto simp: session_end_def Let_def session_statuses_def split: if_splits)
  moreover have "\<exists>d. closed_by_gate ag d s'" if "st = ''completed''"
    using turn_completed [OF assms(1) [unfolded that]] closed_later [OF _ assms(3)] by auto
  ultimately show ?thesis using r by (auto simp: well_ended_def)
qed

lemma turns_end: "session_turns ag ss n fuel v s = (Inr (Some r), s') \<Longrightarrow> well_ended ag r s'"
proof (induction fuel arbitrary: v s)
  case (Suc fuel)
  show ?case
  proof (cases "n \<noteq> 0 \<and> n \<le> sx_turns_run v")
    case True
    with Suc.prems have "ar_status r = ''failed''"
      by (auto simp: on_world_Inr io_return_def elim!: io_bindE dest!: result_status)
    then show ?thesis by (simp add: well_ended_def session_statuses_def)
  next
    case False
    with Suc.prems obtain st v1 s1 where t: "session_turn ag ss v s = (Inr (st, v1), s1)"
      and "(\<exists>v2. session_turns ag ss n fuel v2 s1 = (Inr (Some r), s')) \<or>
        (\<exists>e cps k wt le. session_end st (sx_context v1) = Some e \<and> on_world (agent_result ag st cps k wt le) s1 = (Inr r, s'))"
      by (auto elim!: io_bindE simp: on_world_Inr io_return_def split: option.splits if_splits) blast+
    then show ?thesis using Suc.IH ended_turn [OF t] by blast
  qed
qed (simp add: io_return_def)

end
