(* ===== verification/Agent_Claims.thy ===== *)
theory Agent_Claims
  imports Completion_Laws Json_Codec
begin

text \<open>
  What the task agent promises: how a session ends and that it does, that a task is completed through
  the closure gate only, that a tool call changes no file without a grant, and that the budget of the
  tool loop holds.
\<close>

section \<open>Sessions\<close>

text \<open>
  C5: A session that returns has one of the six final statuses, and if it says completed, the closure gate
  was checked last on a log that met its conditions: the claimed files were present, the last
  verification passed, the audits passed, and no approval was open.
\<close>

theorem session_ends_well:
  "case run_session ag ss max_turns fuel s of
     (Inr (Some r), s') \<Rightarrow> well_ended ag r s' | (Inr None, _) \<Rightarrow> True | (Inl _, _) \<Rightarrow> True"
  unfolding run_session_def
  by (auto simp: io_bind_def dest: turns_end split: prod.split sum.split option.split)

text \<open>Turns are counted without wrapping as long as there are fewer than the limit.\<close>

lemma turn_counted: "session_turn ag ss v s = (Inr (st, v'), s') \<Longrightarrow> sx_turns_run v' = sat_add (sx_turns_run v) 1"
  unfolding session_turn_def Let_def by (auto simp: io_return_def elim!: io_bindE)

lemma counted_below:
  fixes n :: "64 word"
  assumes "k < n"
  shows "unat (sat_add k 1) = Suc (unat k)"
proof -
  have "unat k < unat n" using assms by (simp add: word_less_nat_alt)
  moreover have "unat n < 2 ^ 64" using unsigned_less [of n, where 'a = nat] by simp
  ultimately show ?thesis by (simp add: unat_sat_add)
qed

lemma turns_within_fuel:
  assumes "max_turns \<noteq> 0" and "unat max_turns - unat (sx_turns_run v) < fuel"
  shows "session_turns ag ss max_turns fuel v s \<noteq> (Inr None, s')"
  using assms(2)
proof (induction fuel arbitrary: v s)
  case (Suc fuel)
  show ?case
  proof (cases "max_turns \<le> sx_turns_run v")
    case True
    with assms(1) show ?thesis by (auto simp: on_world_Inr io_return_def elim!: io_bindE)
  next
    case False
    have "session_turns ag ss max_turns fuel v' s1 \<noteq> (Inr None, s')" if "sx_turns_run v' = sat_add (sx_turns_run v) 1" for v' s1
      using that Suc.prems False counted_below [of "sx_turns_run v" max_turns]
      by (intro Suc.IH) (auto simp: not_le word_less_nat_alt)
    with False show ?thesis
      by (auto simp: on_world_Inr io_return_def elim!: io_bindE dest!: turn_counted split: option.splits)
  qed
qed simp

text \<open>
  C8: A session with a limit on its turns returns: one more unit of fuel than the limit is enough. (A limit of
  zero is no limit.)
\<close>

theorem limited_session_returns:
  assumes "max_turns \<noteq> 0"
  shows "fst (run_session ag ss max_turns (Suc (unat max_turns)) s) \<noteq> Inr None"
proof
  assume "fst (run_session ag ss max_turns (Suc (unat max_turns)) s) = Inr None"
  then obtain s' where "run_session ag ss max_turns (Suc (unat max_turns)) s = (Inr None, s')" by (metis prod.collapse)
  then show False unfolding run_session_def
    by (elim io_bindE) (simp add: turns_within_fuel [OF assms] del: session_turns.simps)
qed

theorem limited_session_returns_witness:
  "\<forall>ag ss s. fst (run_session ag ss 3 4 s) \<noteq> Inr None"
  using limited_session_returns [of 3] by simp

section \<open>Tool calls\<close>

text \<open>
  C7: A tool call changes no file unless its name is the tool of an exposed capability that runs a tool, is in
  the token of the agent and is registered, whatever the call says and however it ends.
\<close>

theorem ungranted_call_changes_no_file:
  assumes "\<nexists>capability. granted ag capability \<and> decision_kind_for capability = DkRunCapability \<and>
     provider_tool_capability_is_exposable capability \<and>
     call_name_ok (cc_call c) = Some (provider_tool_name_for_capability capability)"
  shows "os_tree (snd (handle_call ag sv c v s)) = os_tree s"
proof -
  obtain r s1 where d: "on_world (provider_tool_decision ag sv (cc_receipt c) (cc_call c)) s = (r, s1)" by force
  then have t: "os_tree s1 = os_tree s" by (rule io_keepsD [OF tree_world])
  show ?thesis
  proof (cases "\<exists>d. r = Inr (Inr d)")
    case True
    then obtain x where r: "r = Inr (Inr x)" by blast
    with d obtain w where "provider_tool_decision ag sv (cc_receipt c) (cc_call c) (os_world s) = (Inr (Inr x), w)"
      by (auto simp: on_world_Inr)
    with decoded_decision [OF this] assms have "\<not> (nd_kind x = DkRunCapability \<and> granted ag (nd_capability_id x))" by auto
    then have "keeps_tree (decoded_call ag sv c x v)" by (intro decoded_tree execute_tree)
    then have "os_tree (snd (decoded_call ag sv c x v s1)) = os_tree s1" by (simp add: io_keeps_def)
    with d r t show ?thesis by (simp add: handle_call_def io_bind_def)
  next
    case False
    have "keeps_tree (io_bind (on_world (undecodable_call ag c e)) (\<lambda>_. io_return (NextCall v)))" for e
      by (auto intro!: tree_bind)
    then have "os_tree (snd (io_bind (on_world (undecodable_call ag c e)) (\<lambda>_. io_return (NextCall v)) s1)) = os_tree s1" for e
      by (simp add: io_keeps_def)
    with d False t show ?thesis
      by (auto simp: handle_call_def io_bind_def [of "on_world (provider_tool_decision _ _ _ _)"] split: sum.split)
  qed
qed

text \<open>An agent allowed to delete whose model asks to write.\<close>

definition demo_agent :: task_agent where
  "demo_agent = \<lparr>ta_root = [''ws''], ta_state_root = [''st''], ta_job = ''j'', ta_pid = ''p'', ta_token_id = ''t'',
     ta_capabilities = [''process.complete'', ''os.delete_path''], ta_runtime_id = ''r'',
     ta_registry = default_capability_registry,
     ta_policy = \<lparr>lp_max_provider_subturns = 2, lp_max_tool_calls_per_subturn = 4, lp_max_tool_calls_total = 9,
       lp_allow_parallel_readonly = False, lp_mutation_allowed = True\<rparr>,
     ta_codec = demo_codec, ta_parse_error = (\<lambda>s. s), ta_probe = tree_probe None, ta_max_depth = 3,
     ta_tool_calls_enabled = True\<rparr>"

definition demo_tool_call :: "string \<Rightarrow> provider_tool_call" where
  "demo_tool_call name = \<lparr>tc_id = ''c'', tc_type = ''function'',
     tc_function = jobj [(''name'', JString name), (''arguments'', JString [])]\<rparr>"

definition demo_answer :: "string list \<Rightarrow> model_call_receipt" where
  "demo_answer names = \<lparr>mcr_model_call_id = ''m'', mcr_capability_id = ''model.decide_next_action'',
     mcr_operation = DecideNextAction, mcr_status = ''success'', mcr_provider = ''deepseek'', mcr_output_ref = None,
     mcr_finish_reason = None, mcr_provider_transcript_ref = None, mcr_provider_assistant_message_ref = None,
     mcr_provider_tool_calls = map demo_tool_call names, mcr_provider_toolset_ref = None, mcr_error = None\<rparr>"

definition demo_place :: "string \<Rightarrow> call_context" where
  "demo_place name = \<lparr>cc_turn = ''t'', cc_receipt = demo_answer [name],
     cc_place = \<lparr>cp_batch = ''b'', cp_index = 0, cp_call = demo_tool_call name\<rparr>\<rparr>"

lemma demo_tool_name: "trim name \<noteq> [] \<Longrightarrow> call_name_ok (demo_tool_call name) = Some name"
  by (simp add: call_name_ok_def provider_tool_call_name_def demo_tool_call_def)

theorem ungranted_call_changes_no_file_witness:
  "\<forall>sv v s. os_tree (snd (handle_call demo_agent sv (demo_place ''cap_os_write_artifact'') v s)) = os_tree s"
proof -
  have "call_name_ok (demo_tool_call ''cap_os_write_artifact'') = Some ''cap_os_write_artifact''"
    by (rule demo_tool_name) code_simp
  moreover have "provider_tool_name_for_capability ''os.delete_path'' = ''cap_os_delete_path''"
    "provider_tool_name_for_capability ''process.complete'' = ''cap_process_complete''" by code_simp+
  ultimately show ?thesis
    by (intro allI ungranted_call_changes_no_file) (auto simp: granted_def demo_agent_def demo_place_def cc_call_def)
qed

section \<open>The budget of the loop\<close>

abbreviation completed_calls :: "string \<Rightarrow> os_state \<Rightarrow> process_event list" where
  "completed_calls job s \<equiv>
     filter (\<lambda>e. event_type e = ''provider_tool_call_loop_tool_completed'') (log_of (os_world s) job)"

lemma same_completed:
  assumes "adds no_count job m" and "on_world m s = (r, s')"
  shows "completed_calls job s' = completed_calls job s"
proof -
  from assms(2) obtain w where m: "m (os_world s) = (r, w)" and s': "s' = s\<lparr>os_world := w\<rparr>"
    by (auto simp: on_world_def split: prod.splits)
  from io_keepsD [OF assms(1) m] obtain es where "log_of w job = log_of (os_world s) job @ es"
    "list_all (\<lambda>e. no_count (event_type e)) es" by (auto simp: appended_def)
  with s' show ?thesis by (simp add: list_all_iff filter_empty_conv)
qed

lemma no_count_refused: "adds no_count job (subturn_refused ag t receipt b e)"
proof -
  have r: "adds no_count job (append_error_results_for_remaining ag p calls i e' b)" for p calls i e'
    by (rule adds_mono [OF result_skip(2)]) (auto simp: calm_or_result_def calm_def)
  have b: "adds no_count job (record_provider_tool_loop_budget_exceeded ag t receipt b k e)" for k
    by (simp add: record_provider_tool_loop_budget_exceeded_def adds_event)
  show ?thesis unfolding subturn_refused_def by (auto intro!: adds_bind b r intro: calm_mono(2) [OF calm_interrupted])
qed

lemma no_count_registry [simp]: "adds P job (provider_tool_registry_for_receipt ag sv receipt)"
  unfolding provider_tool_registry_for_receipt_def by (auto intro!: adds_bind adds_ok split: option.split)

lemma over_total:
  assumes "lp_max_tool_calls_total (le_policy e) \<noteq> - 1" and "length calls < 2 ^ 64"
    and "unat (lp_max_tool_calls_total (le_policy e)) < unat (le_executed_tool_calls e) + length calls"
  shows "\<exists>err. begin_subturn e k ro mc i calls = Inl err"
  using subturn_within_budget [OF _ assms(2), of e k ro mc i] assms by (cases "begin_subturn e k ro mc i calls") fastforce+

text \<open>
  C9: A batch that would exceed the total of tool calls of a task is refused as a whole: no file
  changes, no call of it completes, and the turn ends interrupted unless recording that fails. (The
  limit is below the largest 64-bit number, where the saturating sum stops.)
\<close>

theorem over_budget_batch_refused:
  assumes "run_batch ag sv t receipt i before v s = (r, s')"
    and "unat (lp_max_tool_calls_total (le_policy (lv_exec v))) <
      unat (le_executed_tool_calls (lv_exec v)) + length (mcr_provider_tool_calls receipt)"
    and "lp_max_tool_calls_total (le_policy (lv_exec v)) \<noteq> - 1" and "length (mcr_provider_tool_calls receipt) < 2 ^ 64"
  shows "os_tree s' = os_tree s \<and> completed_calls job s' = completed_calls job s \<and>
    ((\<exists>e. r = Inl e) \<or> (\<exists>d. r = Inr (LoopReturns d ''interrupted'')))"
proof -
  let ?b = "batch_id (mcr_model_call_id receipt) i"
  have "(\<exists>e. on_world (provider_tool_registry_for_receipt ag sv receipt) s = (Inl e, s') \<and> r = Inl e) \<or>
    (\<exists>g s1 err. on_world (provider_tool_registry_for_receipt ag sv receipt) s = (Inr g, s1) \<and>
      on_world (subturn_refused ag t receipt ?b err) s1 = (r, s'))"
    using assms(1) over_total [OF assms(3,4,2), where k = RkTask and mc = "mcr_model_call_id receipt" and i = i]
    unfolding run_batch_def Let_def by (auto simp: io_bind_def split: prod.splits sum.splits) (metis sum.simps(4))+
  then show ?thesis
  proof (elim disjE exE conjE)
    fix e assume e: "on_world (provider_tool_registry_for_receipt ag sv receipt) s = (Inl e, s')" "r = Inl e"
    show ?thesis using io_keepsD [OF tree_world e(1)] same_completed [OF no_count_registry e(1)] e(2) by simp
  next
    fix g s1 err
    assume g: "on_world (provider_tool_registry_for_receipt ag sv receipt) s = (Inr g, s1)"
      and f: "on_world (subturn_refused ag t receipt ?b err) s1 = (r, s')"
    have "(\<exists>e. r = Inl e) \<or> (\<exists>d. r = Inr (LoopReturns d ''interrupted''))"
      using f by (cases r) (auto simp: subturn_refused_def on_world_Inr io_return_def elim!: io_bindE dest!: interrupted_status(2))
    then show ?thesis
      using io_keepsD [OF tree_world g] same_completed [OF no_count_registry g] io_keepsD [OF tree_world f]
        same_completed [OF no_count_refused f] by simp
  qed
qed

definition demo_used :: provider_tool_loop_executor where
  "demo_used = seed_executed_tool_calls 8 (loop_executor (ta_policy demo_agent))"

theorem over_budget_batch_refused_witness:
  "\<forall>sv d s. \<exists>r s'. run_batch demo_agent sv ''t'' (demo_answer [''a'', ''b'']) 0 8 \<lparr>lv_decision = d, lv_exec = demo_used, lv_successes = 0\<rparr> s =
     (r, s') \<and> os_tree s' = os_tree s \<and> completed_calls ''j'' s' = completed_calls ''j'' s"
proof (intro allI)
  fix sv d s
  let ?v = "\<lparr>lv_decision = d, lv_exec = demo_used, lv_successes = 0\<rparr>"
  obtain r s' where b: "run_batch demo_agent sv ''t'' (demo_answer [''a'', ''b'']) 0 8 ?v s = (r, s')" by force
  have "lp_max_tool_calls_total (le_policy demo_used) = 9" "le_executed_tool_calls demo_used = 8"
    by (simp_all add: demo_used_def demo_agent_def loop_executor_def seed_executed_tool_calls_def normalized_def)
  with over_budget_batch_refused [OF b, of "''j''"] b
  show "\<exists>r s'. run_batch demo_agent sv ''t'' (demo_answer [''a'', ''b'']) 0 8 ?v s = (r, s') \<and>
      os_tree s' = os_tree s \<and> completed_calls ''j'' s' = completed_calls ''j'' s"
    by (simp add: demo_answer_def)
qed

section \<open>Names of tools\<close>

text \<open>The tools of a registry whose capabilities have different tool names.\<close>

lemma map_of_inserts: "map_of (bmap_insert k v m) x = (if x = k then Some v else map_of m x)"
  by (induction k v m rule: bmap_insert.induct) auto

lemma bind_tools_later:
  "name \<notin> provider_tool_name_for_capability ` cd_capability_id ` set ds \<Longrightarrow>
   map_of (pg_bindings (bind_tools known phase None ds g)) name = map_of (pg_bindings g) name"
  by (induction ds arbitrary: g) (auto simp: Let_def map_of_inserts)

lemma bind_tools_binds:
  assumes "d \<in> set ds" and "cd_capability_id d \<in> set known" and "provider_tool_capability_is_exposable (cd_capability_id d)"
    and "distinct (map (\<lambda>d. provider_tool_name_for_capability (cd_capability_id d)) ds)"
  shows "map_of (pg_bindings (bind_tools known phase None ds g)) (provider_tool_name_for_capability (cd_capability_id d)) =
    Some (tool_binding phase (cd_capability_id d))"
  using assms
proof (induction ds arbitrary: g)
  case (Cons x ds)
  then show ?case
    by (cases "d = x") (auto simp: Let_def map_of_inserts bind_tools_later image_image)
qed simp

text \<open>The ids of the registry have only letters, dots and underscores.\<close>

definition plain_char :: "char \<Rightarrow> bool" where
  "plain_char c \<longleftrightarrow> c \<in> set ''._abcdefghijklmnopqrstuvwxyz''"

lemma plain_chars:
  "plain_char (CHR ''.'')" "plain_char (CHR ''_'')" "plain_char (CHR ''a'')" "plain_char (CHR ''b'')"
  "plain_char (CHR ''c'')" "plain_char (CHR ''d'')" "plain_char (CHR ''e'')" "plain_char (CHR ''f'')"
  "plain_char (CHR ''g'')" "plain_char (CHR ''h'')" "plain_char (CHR ''i'')" "plain_char (CHR ''j'')"
  "plain_char (CHR ''k'')" "plain_char (CHR ''l'')" "plain_char (CHR ''m'')" "plain_char (CHR ''n'')"
  "plain_char (CHR ''o'')" "plain_char (CHR ''p'')" "plain_char (CHR ''q'')" "plain_char (CHR ''r'')"
  "plain_char (CHR ''s'')" "plain_char (CHR ''t'')" "plain_char (CHR ''u'')" "plain_char (CHR ''v'')"
  "plain_char (CHR ''w'')" "plain_char (CHR ''x'')" "plain_char (CHR ''y'')" "plain_char (CHR ''z'')"
  by (simp_all add: plain_char_def)

lemma plain_char_facts: "plain_char c \<Longrightarrow> \<not> is_continuation c \<and> (is_ascii_alphanumeric c \<longleftrightarrow> c \<notin> set ''._'')"
  unfolding plain_char_def by (simp only: list.set insert_iff empty_iff, elim disjE) (simp_all, code_simp+)

lemma plain_name: "list_all plain_char c \<Longrightarrow> provider_tool_name_for_capability c = ''cap_'' @ dots_to_underscores c"
  by (induction c) (auto simp: provider_tool_name_for_capability_def dest!: plain_char_facts)

lemma registry_plain: "list_all (\<lambda>d. list_all plain_char (cd_capability_id d)) default_capability_registry"
  by (simp add: registry_table plain_chars)

lemma registry_names_distinct:
  "distinct (map (\<lambda>d. provider_tool_name_for_capability (cd_capability_id d)) default_capability_registry)"
proof -
  have "map (\<lambda>d. provider_tool_name_for_capability (cd_capability_id d)) default_capability_registry =
    map (append ''cap_'') (map dots_to_underscores (map cd_capability_id default_capability_registry))"
    using registry_plain by (simp add: list_all_iff plain_name)
  then show ?thesis using underscored_ids_distinct
    by (simp add: distinct_map inj_on_def)
qed

lemma exposed_exposable: "provider_tool_capability_is_task_runtime_exposable c \<Longrightarrow> provider_tool_capability_is_exposable c"
  by (simp add: provider_tool_capability_is_task_runtime_exposable_def)

end
