(* ===== verification/Completion_Claims.thy ===== *)
theory Completion_Claims
  imports Agent_Claims Truth_Claims
begin

text \<open>
  How a claim of completion is decided when the store does not fail: by the claimed files and by the
  conditions of the closure gate on the log as it was before the claim, whose own events have no say.
\<close>

section \<open>Events without a say\<close>

definition unseen :: "process_event \<Rightarrow> bool" where
  "unseen e \<longleftrightarrow> event_type e \<notin> {''preview_tx_created'', ''approval_token_issued'', ''preview_tx_closed'',
     ''approval_token_consumed'', ''approval_token_used'', ''capability_blocked'', ''model_call_failed'',
     ''model_call_completed'', ''artifact_model_audit_receipt''} \<and> list_all (\<lambda>p. verification_entry p = None) (gate_payloads e)"

lemma unseen_events_of:
  "list_all unseen es \<Longrightarrow> set types \<subseteq> {''preview_tx_created'', ''approval_token_issued'', ''preview_tx_closed'',
     ''approval_token_consumed'', ''approval_token_used'', ''capability_blocked'', ''model_call_failed'',
     ''model_call_completed'', ''artifact_model_audit_receipt''} \<Longrightarrow> events_of types (es0 @ es) = events_of types es0"
  by (auto simp: events_of_def filter_empty_conv list_all_iff unseen_def)

lemma unseen_verifications: "list_all unseen es \<Longrightarrow> latest_verifications (es0 @ es) = latest_verifications es0"
proof -
  assume u: "list_all unseen es"
  have "List.map_filter verification_entry (all_payloads es) = []"
    using u by (auto simp: map_filter_Nil all_payloads_def list_all_iff unseen_def)
  then show ?thesis by (simp add: latest_verifications_def all_payloads_def map_filter_append)
qed

lemma unseen_audits: "list_all unseen es \<Longrightarrow> latest_model_artifact_audits (es0 @ es) = latest_model_artifact_audits es0"
  using unseen_events_of [of es "[''artifact_model_audit_receipt'']" es0]
  by (simp add: latest_model_artifact_audits_def events_of_def)

lemma unseen_required: "list_all unseen es \<Longrightarrow> unresolved_required_failures (es0 @ es) = unresolved_required_failures es0"
proof -
  assume u: "list_all unseen es"
  then have "List.map_filter (required_failure n) es = []" for n
    by (auto simp: map_filter_Nil required_failure_def list_all_iff unseen_def)
  with u show ?thesis
    by (simp add: unresolved_required_failures_def last_success_event_id_def unseen_events_of map_filter_append)
qed

lemma unseen_gate:
  assumes "list_all unseen es"
  shows "cg_can_complete (gate_on_events root probe sd (es0 @ es) refs) \<longleftrightarrow> gate_facts root probe sd es0 refs"
proof -
  have "cg_can_complete (gate_on_events root probe sd (es0 @ es) refs) \<longleftrightarrow> cg_can_complete (gate_on_events root probe sd es0 refs)"
    unfolding gate_fields
    by (simp add: pending_approvals_def pending_mutations_def hard_failed_verifications_def verification_failures_def
        hard_model_audit_failures_def unseen_events_of [OF assms] unseen_verifications [OF assms] unseen_audits [OF assms]
        unseen_required [OF assms])
  then show ?thesis by (simp add: gate_decision gate_facts_def)
qed

section \<open>Runs without faults\<close>

text \<open>A computation that returns when nothing fails and adds only events without a say.\<close>

definition runs_unseen :: "string \<Rightarrow> (world, 'a) io \<Rightarrow> bool" where
  "runs_unseen job m \<longleftrightarrow> (\<forall>w. no_faults w \<longrightarrow> (\<exists>x w' es. m w = (Inr x, w') \<and> no_faults w' \<and>
     log_of w' job = log_of w job @ es \<and> list_all unseen es))"

lemma runs_unseenE:
  assumes "runs_unseen job m" and "no_faults w"
  obtains x w' es where "m w = (Inr x, w')" "no_faults w'" "log_of w' job = log_of w job @ es" "list_all unseen es"
  using assms unfolding runs_unseen_def by blast

lemma runs_unseen_bind:
  assumes "runs_unseen job m" and "\<And>x w w'. m w = (Inr x, w') \<Longrightarrow> runs_unseen job (f x)"
  shows "runs_unseen job (io_bind m f)"
  unfolding runs_unseen_def
proof (intro allI impI)
  fix w assume "no_faults w"
  from runs_unseenE [OF assms(1) this] obtain x w1 es where 1: "m w = (Inr x, w1)" "no_faults w1"
    "log_of w1 job = log_of w job @ es" "list_all unseen es" .
  from runs_unseenE [OF assms(2) [OF 1(1)] 1(2)] obtain y w2 es' where "f x w1 = (Inr y, w2)" "no_faults w2"
    "log_of w2 job = log_of w1 job @ es'" "list_all unseen es'" .
  with 1 show "\<exists>y w' es. io_bind m f w = (Inr y, w') \<and> no_faults w' \<and> log_of w' job = log_of w job @ es \<and> list_all unseen es"
    by (intro exI [of _ y] exI [of _ w2] exI [of _ "es @ es'"]) (simp add: io_bind_def)
qed

lemma runs_unseen_of: "runs m \<Longrightarrow> adds (\<lambda>_. False) job m \<Longrightarrow> runs_unseen job m"
proof -
  assume r: "runs m" and a: "adds (\<lambda>_. False) job m"
  show "runs_unseen job m" unfolding runs_unseen_def
  proof (intro allI impI)
    fix w assume "no_faults w"
    from runsE [OF r this] obtain x w' where m: "m w = (Inr x, w')" "no_faults w'" by blast
    from io_keepsD [OF a m(1)] have "log_of w' job = log_of w job" by (auto simp: appended_def list_all_iff)
    with m show "\<exists>x w' es. m w = (Inr x, w') \<and> no_faults w' \<and> log_of w' job = log_of w job @ es \<and> list_all unseen es"
      by (intro exI [of _ x] exI [of _ w'] exI [of _ "[]"]) simp
  qed
qed

lemma runs_unseen_event:
  assumes "\<And>e. event_type e = ty \<Longrightarrow> data e = d \<Longrightarrow> unseen e"
  shows "runs_unseen (ta_job ag) (agent_event_of ag ty d)"
  unfolding runs_unseen_def
proof (intro allI impI)
  fix w assume "no_faults w"
  from append_no_faults [OF this] obtain e w' where "append_event (ta_job ag) (Some (ta_pid ag)) ty d w = (Inr e, w')"
    "log_of w' (ta_job ag) = log_of w (ta_job ag) @ [e]" "event_type e = ty" "data e = d" "no_faults w'" by metis
  with assms [of e] show "\<exists>x w' es. agent_event_of ag ty d w = (Inr x, w') \<and> no_faults w' \<and>
      log_of w' (ta_job ag) = log_of w (ta_job ag) @ es \<and> list_all unseen es"
    by (intro exI [of _ "()"] exI [of _ w'] exI [of _ "[e]"]) (simp add: agent_event_of_def io_bind_def io_return_def)
qed

lemma agent_event_is_of: "agent_event ag ty kvs = agent_event_of ag ty (jobj kvs)"
  by (simp add: agent_event_def agent_event_of_def)

lemma runs_event: "runs (agent_event_of ag ty d)"
  unfolding agent_event_of_def by (intro runs_intros)

lemma runs_replay: "runs (replay job)"
  unfolding replay_def by (intro runs_intros)

text \<open>An event about the capability \<open>process.complete\<close> or about none at all has no say.\<close>

lemma unseen_completion:
  assumes "event_type e \<in> {''process_action_emitted'', ''process_action_validated'', ''agent_tool_action_validated'',
      ''completion_claimed_artifacts_empty_warning''}"
    and "jget (data e) ''capability_id'' = Some (JString ''process.complete'') \<or>
      jget (data e) ''capability_id'' = None \<and> jget (data e) ''receipt'' = None"
  shows "unseen e"
  using assms by (auto simp: unseen_def gate_payloads_def verification_entry_def verifier_capability_def get_str_def)

section \<open>The claim of completion\<close>

lemma action_granted:
  assumes "granted ag c" and "trim t \<noteq> []" and "agent_action ag t k c refs out why w = (Inr a, w')"
  shows "validate_or_err (map cd_capability_id (ta_registry ag)) a ag = Inr () \<and> pn_capability_id a = c"
proof -
  from assms(3) obtain n where a: "pn_action_id a = ''act_'' @ n" "pn_job_id a = ta_job ag" "pn_pid a = ta_pid ag"
    "pn_reasoning_step_id a = t" "pn_capability_id a = c" by (auto simp: agent_action_def io_return_def elim!: io_bindE)
  have "trim (''act_'' @ n) \<noteq> []" by (rule trim_visible) (simp_all add: ws_seqs_def)
  with a assms(1,2) show ?thesis by (auto simp: validate_or_err_def validate_action_def granted_def)
qed

lemma emit_unseen:
  assumes "granted ag ''process.complete''" and "trim t \<noteq> []"
  shows "runs_unseen (ta_job ag) (io_bind (agent_action ag t k ''process.complete'' refs out why) (emit_and_validate_action ag))"
proof (rule runs_unseen_bind)
  show "runs_unseen (ta_job ag) (agent_action ag t k ''process.complete'' refs out why)"
    by (rule runs_unseen_of) (auto simp: agent_action_def intro!: runs_intros adds_bind)
  fix a w w' assume "agent_action ag t k ''process.complete'' refs out why w = (Inr a, w')"
  from action_granted [OF assms this] show "runs_unseen (ta_job ag) (emit_and_validate_action ag a)"
    by (auto simp: emit_and_validate_action_def agent_event_is_of action_json_def
        intro!: runs_unseen_bind runs_unseen_event unseen_completion)
qed

text \<open>
  What decides: a claim that names files names present workspace files, one that names none rests on no
  internal reference, and the conditions of the gate hold.
\<close>

definition completion_holds :: "task_agent \<Rightarrow> next_action_decision \<Rightarrow> process_event list \<Rightarrow> bool" where
  "completion_holds ag d log \<longleftrightarrow>
     (claimed_artifacts d \<noteq> [] \<or> \<not> list_ex is_internal_artifact_claim (nd_input_refs d)) \<and>
     agent_missing_artifacts ag (claimed_artifacts d) = [] \<and>
     filter is_internal_artifact_claim (claimed_artifacts d) = [] \<and>
     gate_facts (ta_root ag) (ta_probe ag) (serde.truncate (ta_codec ag)) log (claimed_artifacts d)"

lemma runs_refusals: "runs (refuse_internal_refs ag t d)" "runs (refuse_claims ag t cl mi ir r)" "runs (refuse_by_gate ag gate)"
  by (auto simp: refuse_internal_refs_def refuse_claims_def refuse_by_gate_def process_capability_receipt_def
      agent_event_is_of Let_def intro!: runs_intros runs_event)

lemma runs_record_completion: "runs (record_completion ag t d refs st gate)"
  unfolding record_completion_def agent_event_is_of
  by (auto intro!: runs_intros runs_event runs_update_job_status simp: JOB_STATUSES_def)

lemma ends_run:
  assumes "no_faults w"
  shows "\<exists>w'. refuse_internal_refs ag t d w = (Inr ''running'', w')"
    and "\<exists>w'. refuse_claims ag t cl mi ir r w = (Inr ''running'', w')"
    and "\<exists>w'. refuse_by_gate ag gate w = (Inr ''running'', w')"
    and "\<exists>w'. record_completion ag t d refs st gate w = (Inr ''completed'', w')"
  using runsE [OF runs_refusals(1) assms] runsE [OF runs_refusals(2) assms] runsE [OF runs_refusals(3) assms]
    runsE [OF runs_record_completion assms] refused_status record_completion_status by metis+

text \<open>The parts of \<open>agent_complete\<close>: its action, its warning, and the claim after them.\<close>

definition claim_action :: "task_agent \<Rightarrow> string \<Rightarrow> next_action_decision \<Rightarrow> string \<Rightarrow> (world, unit) io" where
  "claim_action ag t d statement_ref =
     io_bind (agent_action ag t AkComplete ''process.complete'' (nd_input_refs d)
       (jobj ((''completion_statement_ref'', JString statement_ref) # completion_fields d)) (nd_reason d)) (emit_and_validate_action ag)"

definition claim_warning ::
  "task_agent \<Rightarrow> string \<Rightarrow> next_action_decision \<Rightarrow> replay_state \<Rightarrow> string \<Rightarrow> (world, unit) io" where
  "claim_warning ag t d replayed statement_ref =
     (if claimed_artifacts d = [] \<and> rp_artifact_refs replayed \<noteq> []
      then agent_event ag ''completion_claimed_artifacts_empty_warning'' (turn_fields ag t @
        [(''materialized_artifacts'', jstrings (rp_artifact_refs replayed)),
         (''completion_statement_ref'', JString statement_ref),
         (''runtime_note'', JString ''TaskAgent submitted process.complete without claimed_artifacts even though user-visible artifact facts already exist; this is an advisory fact warning, not a hard completion block.'')])
      else io_return ())"

definition decide_claim ::
  "task_agent \<Rightarrow> string \<Rightarrow> next_action_decision \<Rightarrow> replay_state \<Rightarrow> string \<Rightarrow> (world, string) io" where
  "decide_claim ag t d replayed statement_ref =
     (let claimed = claimed_artifacts d; missing = agent_missing_artifacts ag claimed;
          internal = filter is_internal_artifact_claim claimed in
      if missing \<noteq> [] \<or> internal \<noteq> [] then refuse_claims ag t claimed missing internal statement_ref
      else
        io_bind (check_closure_gate_for_claimed_artifacts (ta_root ag) (ta_probe ag) (serde.truncate (ta_codec ag))
          (ta_job ag) claimed) (\<lambda>gate.
        io_bind (agent_event_of ag ''closure_gate_checked'' (closure_gate_json gate)) (\<lambda>_.
        if \<not> cg_can_complete gate then refuse_by_gate ag gate
        else record_completion ag t d (rp_artifact_refs replayed) statement_ref gate)))"

lemma claim_decided:
  assumes "no_faults w" and "log_of w (ta_job ag) = log @ es" and "list_all unseen es"
    and "claimed_artifacts d \<noteq> [] \<or> \<not> list_ex is_internal_artifact_claim (nd_input_refs d)"
  shows "\<exists>w'. decide_claim ag t d replayed sr w = (Inr (if completion_holds ag d log then ''completed'' else ''running''), w')"
proof (cases "agent_missing_artifacts ag (claimed_artifacts d) \<noteq> [] \<or> filter is_internal_artifact_claim (claimed_artifacts d) \<noteq> []")
  case True
  with ends_run(2) [OF assms(1)] show ?thesis
    by (auto simp: decide_claim_def completion_holds_def Let_def)
next
  case False
  let ?gate = "gate_on_events (ta_root ag) (ta_probe ag) (serde.truncate (ta_codec ag)) (log @ es) (claimed_artifacts d)"
  let ?w = "w\<lparr>w_ops := Suc (w_ops w)\<rparr>"
  have c: "check_closure_gate_for_claimed_artifacts (ta_root ag) (ta_probe ag) (serde.truncate (ta_codec ag)) (ta_job ag)
      (claimed_artifacts d) w = (Inr ?gate, ?w)"
    using read_no_faults [OF assms(1), of "ta_job ag"] assms(2)
    by (simp add: check_closure_gate_for_claimed_artifacts_def check_closure_gate_for_artifacts_def io_bind_def io_return_def)
  have "no_faults ?w" using assms(1) by (simp add: no_faults_def)
  then obtain u w2 where e: "agent_event_of ag ''closure_gate_checked'' (closure_gate_json ?gate) ?w = (Inr u, w2)" "no_faults w2"
    by (metis runsE runs_event)
  have g: "cg_can_complete ?gate \<longleftrightarrow> completion_holds ag d log"
    using False assms(4) by (simp add: unseen_gate [OF assms(3)] completion_holds_def)
  have "decide_claim ag t d replayed sr w = (if \<not> cg_can_complete ?gate then refuse_by_gate ag ?gate
      else record_completion ag t d (rp_artifact_refs replayed) sr ?gate) w2"
    using False c e(1) by (simp add: decide_claim_def Let_def io_bind_def)
  with g ends_run(3,4) [OF e(2)] show ?thesis by auto
qed

lemma agent_complete_parts:
  "agent_complete ag t d =
     io_bind (replay (ta_job ag)) (\<lambda>replayed.
     io_bind (write_blob (ta_job ag) (''completion/'' @ safe_blob_name t @ ''_statement.json'')
       (to_pretty (ta_codec ag) (jobj (completion_fields d)))) (\<lambda>statement_ref.
     io_bind (claim_action ag t d statement_ref) (\<lambda>_.
     if claimed_artifacts d = [] \<and> list_ex is_internal_artifact_claim (nd_input_refs d)
     then refuse_internal_refs ag t d
     else io_bind (claim_warning ag t d replayed statement_ref) (\<lambda>_. decide_claim ag t d replayed statement_ref))))"
  unfolding agent_complete_def claim_action_def claim_warning_def decide_claim_def Let_def io_bind_assoc ..

text \<open>
  C6: In a store that does not fail, a claim of completion by an agent allowed to make it is decided: the task
  is completed exactly when the claimed files are present workspace files, a claim without files rests
  on no internal reference, and the conditions of the closure gate hold on the log in front of the
  claim; otherwise it keeps running.
\<close>

theorem completion_decided:
  assumes "no_faults w" and "granted ag ''process.complete''" and "trim t \<noteq> []"
  shows "\<exists>w'. agent_complete ag t d w =
    (Inr (if completion_holds ag d (log_of w (ta_job ag)) then ''completed'' else ''running''), w')"
proof -
  let ?job = "ta_job ag"
  have q: "runs_unseen ?job (replay ?job)" "runs_unseen ?job (write_blob ?job n c)" for n c
    by (auto intro!: runs_unseen_of runs_replay runs_write_blob)
  from runs_unseenE [OF q(1) assms(1)] obtain replayed w1 es1 where 1: "replay ?job w = (Inr replayed, w1)" "no_faults w1"
    "log_of w1 ?job = log_of w ?job @ es1" "list_all unseen es1" .
  from runs_unseenE [OF q(2) 1(2)] obtain sr w2 es2 where
    2: "write_blob ?job (''completion/'' @ safe_blob_name t @ ''_statement.json'')
       (to_pretty (ta_codec ag) (jobj (completion_fields d))) w1 = (Inr sr, w2)" "no_faults w2"
    "log_of w2 ?job = log_of w1 ?job @ es2" "list_all unseen es2" .
  have "runs_unseen ?job (claim_action ag t d sr)" unfolding claim_action_def by (rule emit_unseen [OF assms(2,3)])
  from runs_unseenE [OF this 2(2)] obtain u w3 es3 where 3: "claim_action ag t d sr w2 = (Inr u, w3)" "no_faults w3"
    "log_of w3 ?job = log_of w2 ?job @ es3" "list_all unseen es3" .
  have c: "agent_complete ag t d w = (if claimed_artifacts d = [] \<and> list_ex is_internal_artifact_claim (nd_input_refs d)
      then refuse_internal_refs ag t d else io_bind (claim_warning ag t d replayed sr) (\<lambda>_. decide_claim ag t d replayed sr)) w3"
    using 1(1) 2(1) 3(1) by (simp only: agent_complete_parts io_bind_Inr)
  show ?thesis
  proof (cases "claimed_artifacts d = [] \<and> list_ex is_internal_artifact_claim (nd_input_refs d)")
    case True
    with c ends_run(1) [OF 3(2), of ag t d] show ?thesis by (simp add: completion_holds_def)
  next
    case False
    have "runs_unseen ?job (claim_warning ag t d replayed sr)"
      by (auto simp: claim_warning_def agent_event_is_of turn_fields_def
          intro!: runs_unseen_event unseen_completion runs_unseen_of runs_basic)
    from runs_unseenE [OF this 3(2)] obtain v w4 es4 where 4: "claim_warning ag t d replayed sr w3 = (Inr v, w4)" "no_faults w4"
      "log_of w4 ?job = log_of w3 ?job @ es4" "list_all unseen es4" .
    have "log_of w4 ?job = log_of w ?job @ es1 @ es2 @ es3 @ es4" using 1 2 3 4 by simp
    moreover have "list_all unseen (es1 @ es2 @ es3 @ es4)" using 1 2 3 4 by simp
    ultimately have "\<exists>w'. decide_claim ag t d replayed sr w4 =
        (Inr (if completion_holds ag d (log_of w ?job) then ''completed'' else ''running''), w')"
      using False by (intro claim_decided [OF 4(2)]) auto
    moreover have "agent_complete ag t d w = decide_claim ag t d replayed sr w4"
      using 4(1) by (simp only: c if_not_P [OF False] io_bind_Inr)
    ultimately show ?thesis by simp
  qed
qed

text \<open>A claim that names no file in an empty store, and one with an internal reference.\<close>

definition demo_claim :: "string list \<Rightarrow> next_action_decision" where
  "demo_claim refs = \<lparr>nd_decision_id = ''d'', nd_kind = DkComplete, nd_reason = ''r'', nd_capability_id = ''process.complete'',
     nd_artifact_path = None, nd_input_refs = refs, nd_output_spec = jobj [], nd_model_operation = None, nd_retry_limit = 0\<rparr>"

lemma demo_complete_granted: "granted demo_agent ''process.complete''"
  by (simp add: granted_def demo_agent_def default_capability_registry_def registry_part_5_def)

lemma demo_claims:
  "completion_holds demo_agent (demo_claim []) []" "\<not> completion_holds demo_agent (demo_claim [''blob://x'']) []"
proof -
  have "claimed_artifacts (demo_claim refs) = []" for refs
    by (simp add: claimed_artifacts_def demo_claim_def string_or_array_values_def bset_collect_def)
  moreover have "is_internal_artifact_claim ''blob://x''" by code_simp
  ultimately show "completion_holds demo_agent (demo_claim []) []" "\<not> completion_holds demo_agent (demo_claim [''blob://x'']) []"
    by (simp_all add: completion_holds_def demo_claim_def agent_missing_artifacts_def map_filter_def gate_facts_def
        verification_passes_def audits_pass_def nothing_open_def names_preview_def latest_verification_def latest_audit_def all_payloads_def)
qed

theorem completion_decided_witness:
  "(\<exists>w'. agent_complete demo_agent ''t'' (demo_claim []) demo_world = (Inr ''completed'', w')) \<and>
   (\<exists>w'. agent_complete demo_agent ''t'' (demo_claim [''blob://x'']) demo_world = (Inr ''running'', w'))"
proof -
  have "trim ''t'' \<noteq> []" by code_simp
  note decided = completion_decided [OF demo_no_faults demo_complete_granted this, unfolded demo_log]
  show ?thesis using decided [of "demo_claim []"] decided [of "demo_claim [''blob://x'']"] by (simp add: demo_claims)
qed

end
