(* ===== verification/Toolset.thy ===== *)
theory Toolset
  imports Task_Tools
begin

text \<open>
  The planner of the tools a task agent offers (\<open>provider_toolset.rs\<close>): which capabilities are selected for a
  model call, by the mode of the configuration, the latest selection of the model and the approvals still open
  in the log; and the record of the selection that the decoder of the calls reads back.
\<close>

section \<open>Groups of tools\<close>

record provider_tool_group_descriptor =
  gd_group_id :: string
  gd_title :: string
  gd_description :: string
  gd_capability_ids :: "string list"
  gd_always_on :: bool
  gd_approval_gated :: bool

definition group :: "string \<Rightarrow> string \<Rightarrow> string \<Rightarrow> string list \<Rightarrow> bool \<Rightarrow> bool \<Rightarrow> provider_tool_group_descriptor" where
  "group group_id title description capability_ids always_on approval_gated =
     \<lparr>gd_group_id = group_id, gd_title = title, gd_description = description, gd_capability_ids = capability_ids,
      gd_always_on = always_on, gd_approval_gated = approval_gated\<rparr>"

definition tool_groups_1 :: "provider_tool_group_descriptor list" where
  "tool_groups_1 =
  [group ''core_control'' ''Core control''
     ''Task completion, failure, clarification, ref/result navigation, ProcessTruth query, and toolset selection.''
     [''process.toolset.select'', ''process.complete'', ''process.fail'', ''process.clarify'', ''process.read_ref'',
      ''process.query_events'', ''tool.result.page'', ''tool.result.search'', ''tool.result.inspect_schema'']
     True False,
   group ''read_workspace'' ''Read workspace''
     ''Inspect workspace files, paths, hashes, diffs, inventories, and artifact facts without applying mutations.''
     [''os.list_tree'', ''os.workspace_inventory'', ''os.stat_path'', ''os.read_file'', ''os.hash_path'',
      ''os.diff'', ''os.verify_artifact'', ''data.csv.read_dataset'', ''office.workbook.read_cells'',
      ''office.workbook.read_text'', ''document.pdf.extract_text'']
     True False,
   group ''ref_result_navigation'' ''Ref and result navigation''
     ''Read ProcessTruth refs and page/search/inspect raw tool results.''
     [''process.read_ref'', ''tool.result.page'', ''tool.result.search'', ''tool.result.inspect_schema'']
     True False,
   group ''source_set_batch'' ''SourceSet and batch workspace analysis''
     ''Create/read SourceSets and run batch hash, duplicate, recent-change, and SourceSet coverage analysis.''
     [''source_set.create'', ''source_set.read_page'', ''source_set.coverage_verify'', ''workspace.batch_hash'',
      ''workspace.find_duplicates'', ''workspace.recent_changes'', ''workspace.recent_changes_snapshot'']
     True False,
   group ''dataset_ops'' ''Dataset operations''
     ''Verify and export dataset refs into user-visible CSV or Markdown artifacts.''
     [''dataset.coverage_verify'', ''data.csv.read_dataset'', ''dataset.export_csv'', ''dataset.export_markdown'']
     True False,
   group ''artifact_write'' ''Artifact writing''
     ''Create or materialize user-visible artifacts without mutating user source files.''
     [''os.write_artifact'', ''os.write_temp_dataset'', ''workspace.tree_index'', ''workspace.perf_inventory'',
      ''dataset.export_csv'', ''dataset.export_markdown'', ''artifact.copy_source_set'', ''office.docx.create'',
      ''office.docx.rewrite_save_as'']
     False False,
   group ''artifact_quality'' ''Artifact quality checks''
     ''Run local typed artifact verification and mechanical quality audit.''
     [''artifact.verify_typed'', ''artifact.audit_quality'']
     True False,
   group ''mutation_preview'' ''Mutation preview''
     ''Draft native source/workspace mutation plans when a plan ref is useful. Preview approval blocking is disabled on the RC0 run-through path.''
     [''workspace.plan_organize'']
     False False,
   group ''mutation_apply'' ''Mutation intent''
     ''Request workspace/source mutations. The Kernel executes directly under workspace boundaries, receipts, and rollback evidence.''
     [''os.write_file'', ''os.write_source_mutation_apply'', ''os.copy_path'', ''os.move_path'', ''os.rename_path'',
      ''os.delete_path'', ''os.unzip'', ''workspace.apply_organize_tx'', ''workspace.rename_batch_apply'',
      ''office.docx.rewrite_in_place'']
     False False]"

definition tool_groups_2 :: "provider_tool_group_descriptor list" where
  "tool_groups_2 =
  [group ''office_docx'' ''Office DOCX''
     ''Read, validate, diff, create, and rewrite DOCX files through the Office runtime.''
     [''office.docx.read_text'', ''office.workbook.read_cells'', ''office.workbook.read_text'',
      ''document.pdf.extract_text'', ''office.docx.batch_read_text'', ''office.docx.batch_extract_metadata'',
      ''office.docx.batch_validate'', ''office.docx.rewrite_preview'', ''office.docx.diff_summary'',
      ''office.docx.validate'', ''office.docx.create'', ''office.docx.rewrite_save_as'',
      ''office.docx.rewrite_in_place'']
     True False,
   group ''package_release'' ''Package and release artifacts''
     ''Build zip packages, manifests, checksums, and related release-supporting artifacts.''
     [''package.build_zip'', ''os.zip'']
     False False,
   group ''client_environment_overview'' ''Client environment overview''
     ''Inspect the sanitized local desktop environment overview. Detailed device, storage, network, runtime, and sensitive disclosure tools are selectable through the client_environment group.''
     [''client_env.scan_overview'']
     True False,
   group ''client_environment'' ''Client environment''
     ''Inspect sanitized local desktop environment facts such as locale, device, storage, network readiness, and runtime availability. Sensitive fields require explicit user authorization.''
     [''client_env.scan_overview'', ''client_env.scan_device'', ''client_env.scan_storage'',
      ''client_env.scan_network'', ''client_env.scan_runtimes'', ''client_env.read_snapshot'',
      ''client_env.request_sensitive_disclosure'']
     False False,
   group ''terminal_fallback'' ''Terminal fallback''
     ''Use controlled terminal execution only when no native capability fits. Use run_command for bounded foreground commands and start_service/stop_service/service_status for long-running servers or dev services.''
     [''terminal.run_command'', ''terminal.start_service'', ''terminal.stop_service'', ''terminal.service_status'']
     False True,
   group ''process_structure'' ''Process structure''
     ''Fork child processes for explicit process-structure workflows.''
     [''process.fork_child'']
     False False,
   group ''rollback_recovery'' ''Rollback and recovery''
     ''Rollback recorded transactions when recovery is required.''
     [''os.rollback_tx'']
     False True]"

definition provider_tool_group_descriptors :: "provider_tool_group_descriptor list" where
  "provider_tool_group_descriptors = tool_groups_1 @ tool_groups_2"

definition process_control_capabilities :: "string list" where
  "process_control_capabilities =
     [''process.complete'', ''process.fail'', ''process.clarify'', ''process.toolset.select'', ''process.read_ref'',
      ''process.query_events'', ''tool.result.page'', ''tool.result.search'', ''tool.result.inspect_schema'']"

definition read_context_capabilities :: "string list" where
  "read_context_capabilities =
     [''os.list_tree'', ''os.workspace_inventory'', ''os.stat_path'', ''os.read_file'', ''os.hash_path'',
      ''os.diff'', ''os.verify_artifact'', ''data.csv.read_dataset'', ''office.workbook.read_cells'',
      ''office.workbook.read_text'', ''document.pdf.extract_text'', ''client_env.scan_overview'',
      ''source_set.create'', ''source_set.read_page'', ''source_set.coverage_verify'', ''workspace.batch_hash'',
      ''workspace.find_duplicates'', ''workspace.recent_changes'', ''workspace.recent_changes_snapshot'',
      ''dataset.coverage_verify'', ''artifact.verify_typed'', ''artifact.audit_quality'', ''office.docx.read_text'',
      ''office.workbook.read_cells'', ''office.workbook.read_text'', ''document.pdf.extract_text'',
      ''office.docx.batch_read_text'', ''office.docx.batch_extract_metadata'', ''office.docx.batch_validate'',
      ''office.docx.rewrite_preview'', ''office.docx.diff_summary'', ''office.docx.validate'']"

definition artifact_write_always_on_capabilities :: "string list" where
  "artifact_write_always_on_capabilities = [''os.write_artifact'', ''os.write_temp_dataset'']"

definition minimal_decision_capabilities :: "string list" where
  "minimal_decision_capabilities =
     process_control_capabilities @ read_context_capabilities @ artifact_write_always_on_capabilities"

definition domain_scoped_capabilities :: "string list" where
  "domain_scoped_capabilities =
     process_control_capabilities @ read_context_capabilities @ artifact_write_always_on_capabilities"

definition always_on_group_ids :: "string list" where
  "always_on_group_ids = map gd_group_id (filter gd_always_on provider_tool_group_descriptors)"

fun dedupe_from :: "string list \<Rightarrow> string list \<Rightarrow> string list" where
  "dedupe_from seen [] = []"
| "dedupe_from seen (x # xs) = (if x \<in> set seen then dedupe_from seen xs else x # dedupe_from (x # seen) xs)"

definition dedupe_strings :: "string list \<Rightarrow> string list" where
  "dedupe_strings items = dedupe_from [] items"

text \<open>\<open>indexed_capability_allowed\<close> lets every capability through.\<close>

definition indexed_capability_allowed :: "string \<Rightarrow> string list \<Rightarrow> bool" where
  "indexed_capability_allowed capability_id active_approval_capabilities = True"

definition indexed_group_capabilities :: "string list \<Rightarrow> string list \<Rightarrow> string list \<Rightarrow> string list" where
  "indexed_group_capabilities active_group_ids selected_capability_ids active_approval_capabilities =
     dedupe_strings
       (concat (map (\<lambda>g. filter (\<lambda>c. indexed_capability_allowed c active_approval_capabilities) (gd_capability_ids g))
          (filter (\<lambda>g. gd_group_id g \<in> set active_group_ids) provider_tool_group_descriptors)) @
        filter (\<lambda>c. indexed_capability_allowed c active_approval_capabilities) selected_capability_ids @
        artifact_write_always_on_capabilities)"

section \<open>What the log says\<close>

definition string_array_field :: "json \<Rightarrow> string \<Rightarrow> string list" where
  "string_array_field v key = (case get_array v key of None \<Rightarrow> [] | Some items \<Rightarrow> strings_of items)"

definition field_set :: "(process_event \<Rightarrow> bool) \<Rightarrow> string \<Rightarrow> process_event list \<Rightarrow> string list" where
  "field_set P key es = List.map_filter (\<lambda>e. get_str (data e) key) (filter P es)"

definition active_approval_scope :: "process_event list \<Rightarrow> process_event \<Rightarrow> string list" where
  "active_approval_scope es e =
     (let consumed = field_set (\<lambda>e. event_type e \<in> {''approval_token_consumed'', ''approval_token_used''}) ''approval_token_id'' es;
          closed_txs = field_set (\<lambda>e. event_type e = ''preview_tx_closed'') ''tx_id'' es
      in if event_type e \<noteq> ''approval_token_issued'' then []
         else case get_str (data e) ''approval_token_id'' of
             None \<Rightarrow> []
           | Some token_id \<Rightarrow>
               if token_id \<in> set consumed then []
               else if (case get_str (data e) ''tx_id'' of None \<Rightarrow> False | Some tx_id \<Rightarrow> tx_id \<in> set closed_txs) then []
               else string_array_field (data e) ''approved_operation_scope'')"

definition active_approval_operation_capabilities :: "string \<Rightarrow> (world, string list) io" where
  "active_approval_operation_capabilities job =
     io_bind (io_ok (read_events job)) (\<lambda>events. io_return (case events of
         None \<Rightarrow> []
       | Some es \<Rightarrow> bset_collect (concat (map (active_approval_scope es) es))))"

record latest_toolset_selection =
  ls_selection_id :: string
  ls_accepted_groups :: "string list"
  ls_accepted_capability_ids :: "string list"
  ls_ttl_model_calls :: "64 word"
  ls_event_id :: nat

text \<open>A selection lasts for as many model calls as it asked for, between one and six.\<close>

definition selection_ttl :: "json \<Rightarrow> 64 word" where
  "selection_ttl d = min (max (unwrap_or 4 (get_u64 d ''ttl_model_calls'')) 1) 6"

definition selection_in :: "process_event list \<Rightarrow> latest_toolset_selection option" where
  "selection_in es =
     (case List.find (\<lambda>e. event_type e = ''provider_toolset_selection_recorded'') (rev es) of
        None \<Rightarrow> None
      | Some e \<Rightarrow>
         (let ttl = selection_ttl (data e);
              calls = length (filter (\<lambda>c. event_id c > event_id e \<and> event_type c = ''model_call_started'') es)
          in if unat ttl \<le> calls then None
             else Some \<lparr>ls_selection_id = unwrap_or ''toolset_selection_unknown'' (get_str (data e) ''selection_id''),
               ls_accepted_groups = string_array_field (data e) ''accepted_groups'',
               ls_accepted_capability_ids = string_array_field (data e) ''accepted_capability_ids'',
               ls_ttl_model_calls = ttl, ls_event_id = event_id e\<rparr>))"

definition latest_toolset_selection_of :: "string \<Rightarrow> (world, latest_toolset_selection option) io" where
  "latest_toolset_selection_of job =
     io_bind (io_ok (read_events job)) (\<lambda>events. io_return (Option.bind events selection_in))"

section \<open>The selection\<close>

datatype provider_toolset_mode = MinimalDecision | DomainScoped | StateAwareExpanded | IndexedGroups
  | Rc0FullVisible | FullRegistered

fun mode_name :: "provider_toolset_mode \<Rightarrow> string" where
  "mode_name MinimalDecision = ''minimal_decision''"
| "mode_name DomainScoped = ''domain_scoped''"
| "mode_name StateAwareExpanded = ''state_aware_expanded''"
| "mode_name IndexedGroups = ''indexed_groups''"
| "mode_name Rc0FullVisible = ''rc0_full_visible''"
| "mode_name FullRegistered = ''full_registered''"

fun mode_debug :: "provider_toolset_mode \<Rightarrow> string" where
  "mode_debug MinimalDecision = ''MinimalDecision''"
| "mode_debug DomainScoped = ''DomainScoped''"
| "mode_debug StateAwareExpanded = ''StateAwareExpanded''"
| "mode_debug IndexedGroups = ''IndexedGroups''"
| "mode_debug Rc0FullVisible = ''Rc0FullVisible''"
| "mode_debug FullRegistered = ''FullRegistered''"

record provider_toolset_omission =
  om_capability_id :: string
  om_domain :: string
  om_reason :: string

text \<open>The record of a plan, but for the guides and schemas, which are text made from the descriptions of the tools,
  and the counts per domain.\<close>

record provider_toolset_record =
  tr_model_call_id :: string
  tr_operation :: string
  tr_requested_mode :: provider_toolset_mode
  tr_effective_mode :: provider_toolset_mode
  tr_lifecycle_stage :: string
  tr_selection_id :: "string option"
  tr_active_group_ids :: "string list"
  tr_latest_selected_group_ids :: "string list"
  tr_latest_selected_capability_ids :: "string list"
  tr_provider_limit :: nat
  tr_schema_coverage_count :: nat
  tr_model_capability_excluded_count :: nat
  tr_selected_count :: nat
  tr_selected_capability_ids :: "string list"
  tr_selected_tools :: "string list"
  tr_omitted_tools :: "provider_toolset_omission list"
  tr_truncated_by_provider_limit :: bool
  tr_downgraded_for_provider_limit :: bool
  tr_progressive_disclosure :: bool
  tr_created_at_ms :: nat

record provider_toolset_plan =
  tq_provider_toolset_ref :: string
  tq_registry :: provider_tool_registry
  tq_record :: provider_toolset_record

record provider_toolset_plan_error =
  te_error_code :: string
  te_message :: string
  te_requested_mode :: provider_toolset_mode
  te_provider_limit :: nat
  te_schema_coverage_count :: nat

text \<open>The planner with its configuration. The text of a record is what the serializer makes of it.\<close>

record provider_toolset_planner =
  pl_registry :: "capability_descriptor list"
  pl_toolset_mode :: provider_toolset_mode
  pl_max_provider_tools :: nat
  pl_record_text :: "provider_toolset_record \<Rightarrow> string"

definition DEEPSEEK_MAX_PROVIDER_TOOLS :: nat where
  "DEEPSEEK_MAX_PROVIDER_TOOLS = 128"

definition planner_limit :: "provider_toolset_planner \<Rightarrow> nat" where
  "planner_limit pl = max (min (pl_max_provider_tools pl) DEEPSEEK_MAX_PROVIDER_TOOLS) 1"

definition coverage_capability_ids :: "capability_descriptor list \<Rightarrow> string list" where
  "coverage_capability_ids registry =
     map cd_capability_id (filter (\<lambda>d. provider_tool_capability_is_task_runtime_exposable (cd_capability_id d)) registry)"

definition full_mode :: "provider_toolset_mode \<Rightarrow> bool" where
  "full_mode m \<longleftrightarrow> m = FullRegistered \<or> m = Rc0FullVisible"

text \<open>The six values \<open>select_capabilities\<close> returns.\<close>

record capability_selection =
  cp_selected :: "string list"
  cp_effective_mode :: provider_toolset_mode
  cp_downgraded :: bool
  cp_active_groups :: "string list"
  cp_latest_groups :: "string list"
  cp_latest_capabilities :: "string list"

definition mode_capabilities ::
  "provider_toolset_mode \<Rightarrow> string list \<Rightarrow> string list \<Rightarrow> string list \<Rightarrow> string list \<Rightarrow> string list" where
  "mode_capabilities requested coverage_ids active_groups latest_capabilities approvals =
     (if requested = MinimalDecision then minimal_decision_capabilities
      else if requested = DomainScoped then domain_scoped_capabilities
      else if requested = StateAwareExpanded \<or> requested = IndexedGroups
      then indexed_group_capabilities active_groups latest_capabilities approvals
      else coverage_ids)"

definition add_groups :: "string list \<Rightarrow> string list \<Rightarrow> string list" where
  "add_groups groups active = fold (\<lambda>g active. if g \<in> set active then active else active @ [g]) groups active"

definition capabilities_selected ::
  "provider_toolset_planner \<Rightarrow> string list \<Rightarrow> latest_toolset_selection option \<Rightarrow> string list \<Rightarrow> capability_selection" where
  "capabilities_selected pl coverage_ids latest approvals =
     (let requested = pl_toolset_mode pl;
          latest_groups = (case latest of None \<Rightarrow> [] | Some l \<Rightarrow> ls_accepted_groups l);
          latest_capabilities = (case latest of None \<Rightarrow> [] | Some l \<Rightarrow> ls_accepted_capability_ids l);
          active_groups = add_groups latest_groups always_on_group_ids;
          selected = mode_capabilities requested coverage_ids active_groups latest_capabilities approvals @
            (if full_mode requested then [] else approvals);
          deduped = dedupe_strings (filter (\<lambda>c. c \<in> set coverage_ids) selected)
      in if full_mode requested then \<lparr>cp_selected = deduped, cp_effective_mode = requested, cp_downgraded = False,
           cp_active_groups = [mode_name requested], cp_latest_groups = latest_groups,
           cp_latest_capabilities = latest_capabilities\<rparr>
         else \<lparr>cp_selected = deduped,
           cp_effective_mode = (if requested = StateAwareExpanded \<or> requested = IndexedGroups then IndexedGroups else requested),
           cp_downgraded = (length coverage_ids > planner_limit pl), cp_active_groups = active_groups,
           cp_latest_groups = latest_groups, cp_latest_capabilities = latest_capabilities\<rparr>)"

definition select_capabilities ::
  "provider_toolset_planner \<Rightarrow> string \<Rightarrow> string list \<Rightarrow> latest_toolset_selection option \<Rightarrow> (world, capability_selection) io" where
  "select_capabilities pl job coverage_ids latest =
     io_bind (active_approval_operation_capabilities job) (\<lambda>approvals.
     io_return (capabilities_selected pl coverage_ids latest approvals))"

section \<open>The plan\<close>

definition provider_tool_domain :: "string \<Rightarrow> string" where
  "provider_tool_domain capability_id =
     (if capability_id = ''process.fork_child'' then ''child_process''
      else if CHR ''.'' \<in> set capability_id then takeWhile (\<lambda>c. c \<noteq> CHR ''.'') capability_id
      else ''process'')"

definition omissions :: "string list \<Rightarrow> string list \<Rightarrow> string list \<Rightarrow> provider_toolset_omission list" where
  "omissions coverage_ids before_limit after_limit =
     map (\<lambda>c. \<lparr>om_capability_id = c, om_domain = provider_tool_domain c,
        om_reason = (if c \<in> set before_limit then ''provider_limit_trimmed'' else ''indexed_group_not_selected'')\<rparr>)
       (filter (\<lambda>c. c \<notin> set after_limit) coverage_ids)"

definition plan_error :: "provider_toolset_planner \<Rightarrow> string \<Rightarrow> string \<Rightarrow> provider_toolset_plan_error" where
  "plan_error pl code message =
     \<lparr>te_error_code = code, te_message = message, te_requested_mode = pl_toolset_mode pl,
      te_provider_limit = planner_limit pl, te_schema_coverage_count = length (coverage_capability_ids (pl_registry pl))\<rparr>"

definition plan_error_json :: "provider_toolset_plan_error \<Rightarrow> json" where
  "plan_error_json e = jobj
     [(''error_code'', JString (te_error_code e)), (''message'', JString (te_message e)),
      (''requested_mode'', JString (mode_name (te_requested_mode e))), (''provider_limit'', jnat (te_provider_limit e)),
      (''schema_coverage_count'', jnat (te_schema_coverage_count e))]"

definition limit_exceeded :: "provider_toolset_planner \<Rightarrow> string list \<Rightarrow> provider_toolset_plan_error" where
  "limit_exceeded pl selected = plan_error pl ''PROVIDER_TOOLSET_LIMIT_EXCEEDED''
     (mode_debug (pl_toolset_mode pl) @ '' provider toolset requested '' @ dec (length selected) @
      '' tools, exceeding provider limit '' @ dec (planner_limit pl))"

definition selection_phase :: "provider_toolset_mode \<Rightarrow> string" where
  "selection_phase m = (if full_mode m then mode_name m else ''phase6_progressive_disclosure'')"

definition plan_record ::
  "provider_toolset_planner \<Rightarrow> string \<Rightarrow> model_operation \<Rightarrow> latest_toolset_selection option \<Rightarrow> capability_selection \<Rightarrow> nat \<Rightarrow>
   provider_toolset_record" where
  "plan_record pl model_call_id operation latest s now =
     (let coverage_ids = coverage_capability_ids (pl_registry pl); limit = planner_limit pl;
          selected = take limit (cp_selected s)
      in \<lparr>tr_model_call_id = model_call_id, tr_operation = operation_as_str operation,
          tr_requested_mode = pl_toolset_mode pl, tr_effective_mode = cp_effective_mode s,
          tr_lifecycle_stage = mode_name (cp_effective_mode s), tr_selection_id = map_option ls_selection_id latest,
          tr_active_group_ids = cp_active_groups s, tr_latest_selected_group_ids = cp_latest_groups s,
          tr_latest_selected_capability_ids = cp_latest_capabilities s, tr_provider_limit = limit,
          tr_schema_coverage_count = length coverage_ids,
          tr_model_capability_excluded_count =
            length (filter (\<lambda>d. starts_with (cd_capability_id d) ''model.'') (pl_registry pl)),
          tr_selected_count = length selected, tr_selected_capability_ids = selected,
          tr_selected_tools = pg_tools (phase6_selected (pl_registry pl) selected (selection_phase (cp_effective_mode s))),
          tr_omitted_tools = omissions coverage_ids (cp_selected s) selected,
          tr_truncated_by_provider_limit = (length (cp_selected s) > limit),
          tr_downgraded_for_provider_limit = cp_downgraded s,
          tr_progressive_disclosure = (pl_toolset_mode pl = IndexedGroups \<or> pl_toolset_mode pl = StateAwareExpanded),
          tr_created_at_ms = now\<rparr>)"

definition planned_fields :: "string \<Rightarrow> provider_toolset_record \<Rightarrow> json" where
  "planned_fields toolset_ref r = jobj
     [(''model_call_id'', JString (tr_model_call_id r)), (''provider_toolset_ref'', JString toolset_ref),
      (''requested_mode'', JString (mode_name (tr_requested_mode r))),
      (''effective_mode'', JString (mode_name (tr_effective_mode r))),
      (''lifecycle_stage'', JString (tr_lifecycle_stage r)), (''selection_id'', jopt (tr_selection_id r)),
      (''active_group_ids'', jstrings (tr_active_group_ids r)),
      (''latest_selected_group_ids'', jstrings (tr_latest_selected_group_ids r)),
      (''latest_selected_capability_ids'', jstrings (tr_latest_selected_capability_ids r)),
      (''schema_coverage_count'', jnat (tr_schema_coverage_count r)), (''selected_count'', jnat (tr_selected_count r)),
      (''omitted_count'', jnat (length (tr_omitted_tools r))), (''provider_limit'', jnat (tr_provider_limit r)),
      (''truncated_by_provider_limit'', Bool (tr_truncated_by_provider_limit r)),
      (''downgraded_for_provider_limit'', Bool (tr_downgraded_for_provider_limit r)),
      (''model_capability_excluded_count'', jnat (tr_model_capability_excluded_count r))]"

text \<open>The events of a plan; their errors are dropped.\<close>

definition record_plan_events :: "string \<Rightarrow> string \<Rightarrow> string \<Rightarrow> provider_toolset_record \<Rightarrow> (world, unit) io" where
  "record_plan_events job pid toolset_ref r =
     io_bind (ignore_error (append_event job (Some pid) ''provider_toolset_planned'' (planned_fields toolset_ref r))) (\<lambda>_.
     io_bind (if tr_truncated_by_provider_limit r
       then ignore_error (append_event job (Some pid) ''provider_toolset_trimmed'' (jobj
         [(''model_call_id'', JString (tr_model_call_id r)), (''provider_toolset_ref'', JString toolset_ref),
          (''provider_limit'', jnat (tr_provider_limit r)), (''omitted_count'', jnat (length (tr_omitted_tools r)))]))
       else io_return ()) (\<lambda>_.
     if tr_downgraded_for_provider_limit r
     then ignore_error (append_event job (Some pid) ''provider_toolset_downgraded'' (jobj
         [(''model_call_id'', JString (tr_model_call_id r)), (''provider_toolset_ref'', JString toolset_ref),
          (''requested_mode'', JString (mode_name (tr_requested_mode r))),
          (''effective_mode'', JString (mode_name (tr_effective_mode r))),
          (''reason'', JString ''schema_coverage_exceeds_provider_limit'')]))
     else io_return ()))"

definition record_plan ::
  "provider_toolset_planner \<Rightarrow> string \<Rightarrow> string \<Rightarrow> string \<Rightarrow> model_operation \<Rightarrow> latest_toolset_selection option \<Rightarrow>
   capability_selection \<Rightarrow> (world, provider_toolset_plan_error + provider_toolset_plan) io" where
  "record_plan pl job pid model_call_id operation latest s =
     io_bind now_ms (\<lambda>created. io_bind now_ms (\<lambda>now.
     let r = plan_record pl model_call_id operation latest s created in
     io_bind (io_try (write_blob job (''provider_toolsets/'' @ safe_blob_name model_call_id @ ''_'' @ dec now @ ''.json'')
       (pl_record_text pl r))) (\<lambda>written.
     case written of
       Inl e \<Rightarrow> io_return (Inl (plan_error pl ''PROVIDER_TOOLSET_RECORD_WRITE_FAILED'' (err_msg e)))
     | Inr toolset_ref \<Rightarrow>
         io_bind (record_plan_events job pid toolset_ref r) (\<lambda>_.
         io_return (Inr \<lparr>tq_provider_toolset_ref = toolset_ref,
           tq_registry = phase6_selected (pl_registry pl) (tr_selected_capability_ids r) (selection_phase (tr_effective_mode r)),
           tq_record = r\<rparr>)))))"

definition plan_and_record ::
  "provider_toolset_planner \<Rightarrow> string \<Rightarrow> string \<Rightarrow> string \<Rightarrow> model_operation \<Rightarrow>
   (world, provider_toolset_plan_error + provider_toolset_plan) io" where
  "plan_and_record pl job pid model_call_id operation =
     io_bind (latest_toolset_selection_of job) (\<lambda>latest.
     io_bind (select_capabilities pl job (coverage_capability_ids (pl_registry pl)) latest) (\<lambda>s.
     if full_mode (pl_toolset_mode pl) \<and> length (cp_selected s) > planner_limit pl
     then io_bind (ignore_error (append_event job (Some pid) ''provider_toolset_planning_failed'' (jobj
           [(''model_call_id'', JString model_call_id), (''error'', plan_error_json (limit_exceeded pl (cp_selected s))),
            (''fail_closed'', Bool True)]))) (\<lambda>_.
          io_return (Inl (limit_exceeded pl (cp_selected s))))
     else record_plan pl job pid model_call_id operation latest s))"

end
