(* ===== verification/Toolset_Claims.thy ===== *)
theory Toolset_Claims
  imports Toolset Agent_Claims
begin

text \<open>
  The tools a plan offers and the decoding of a call: what is offered is a subset of the schema coverage, the
  record of the plan is found again under its reference, and both registries the decoder may use bind an
  offered name to the capability it was offered for.
\<close>

section \<open>What is selected\<close>

lemma dedupe_from_set: "set (dedupe_from seen xs) = set xs - set seen"
  by (induction seen xs rule: dedupe_from.induct) auto

lemma dedupe_from_distinct: "distinct (dedupe_from seen xs)"
  by (induction seen xs rule: dedupe_from.induct) (auto simp: dedupe_from_set)

lemma dedupe_strings_set [simp]: "set (dedupe_strings xs) = set xs" "distinct (dedupe_strings xs)"
  by (simp_all add: dedupe_strings_def dedupe_from_set dedupe_from_distinct)

lemma selected_covered: "set (cp_selected (capabilities_selected pl coverage_ids latest approvals)) \<subseteq> set coverage_ids"
  by (auto simp: capabilities_selected_def Let_def)

lemma select_capabilities_covered:
  "select_capabilities pl job coverage_ids latest w = (Inr s, w') \<Longrightarrow> set (cp_selected s) \<subseteq> set coverage_ids"
  by (auto simp: select_capabilities_def io_return_def elim!: io_bindE dest!: subsetD [OF selected_covered])

lemma registry_coverage:
  "c \<in> set (coverage_capability_ids registry) \<longleftrightarrow>
     c \<in> cd_capability_id ` set registry \<and> provider_tool_capability_is_task_runtime_exposable c"
  by (auto simp: coverage_capability_ids_def)

section \<open>The record of a plan\<close>

definition toolset_names :: "string \<Rightarrow> nat \<Rightarrow> string list" where
  "toolset_names model_call_id now = [''provider_toolsets'', safe_blob_name model_call_id @ ''_'' @ dec now @ ''.json'']"

lemma toolset_names_plain: "\<forall>n \<in> set (toolset_names mid now). plain_name n \<and> CHR 0x5C \<notin> set n"
proof -
  have "safe_blob_name mid @ ''_'' @ x \<noteq> ''.''" "safe_blob_name mid @ ''_'' @ x \<noteq> ''..''" for x
    by (auto simp: append_eq_Cons_conv)
  then show ?thesis
    using safe_blob_name_plain [of _ mid] dec_clean [of now] by (auto simp: toolset_names_def plain_name_def)
qed

lemma append_event_files [simp]: "w_files (snd (append_event job pid ty d w)) = w_files w"
  using append_event_keeps_files by (metis prod.collapse)

lemma record_plan_events_files: "record_plan_events job pid ref r w = (x, w') \<Longrightarrow> w_files w' = w_files w"
  by (auto simp: record_plan_events_def io_bind_def ignore_error_def io_return_def
      split: if_splits)

lemma record_plan_result:
  assumes "record_plan pl job pid mid op latest s w = (Inr (Inr plan), w')"
  obtains p where "resolve_blob_ref job (tq_provider_toolset_ref plan) = Inr p"
    and "w_files w' p = Some (pl_record_text pl (tq_record plan))"
    and "tr_selected_capability_ids (tq_record plan) = take (planner_limit pl) (cp_selected s)"
    and "\<exists>phase. tq_registry plan = phase6_selected (pl_registry pl) (tr_selected_capability_ids (tq_record plan)) phase"
  using assms unfolding record_plan_def Let_def
proof (elim io_bindE)
  fix created w1 now w2 written w3
  let ?r = "plan_record pl mid op latest s created"
  assume wr: "io_try (write_blob job (''provider_toolsets/'' @ safe_blob_name mid @ ''_'' @ dec now @ ''.json'')
      (pl_record_text pl ?r)) w2 = (Inr written, w3)"
    and rest: "(case written of Inl e \<Rightarrow> io_return (Inl (plan_error pl ''PROVIDER_TOOLSET_RECORD_WRITE_FAILED'' (err_msg e)))
      | Inr toolset_ref \<Rightarrow> io_bind (record_plan_events job pid toolset_ref ?r) (\<lambda>_. io_return (Inr
          \<lparr>tq_provider_toolset_ref = toolset_ref, tq_registry = phase6_selected (pl_registry pl)
             (tr_selected_capability_ids ?r) (selection_phase (tr_effective_mode ?r)), tq_record = ?r\<rparr>))) w3 =
        (Inr (Inr plan), w')"
  from rest obtain ref where ref: "written = Inr ref" by (cases written) (simp_all add: io_return_def)
  with rest have plan: "tq_provider_toolset_ref plan = ref" "tq_record plan = ?r"
      "tq_registry plan = phase6_selected (pl_registry pl) (tr_selected_capability_ids ?r) (selection_phase (tr_effective_mode ?r))"
    and files: "w_files w' = w_files w3"
    by (auto simp: io_return_def elim!: io_bindE dest!: record_plan_events_files)
  from wr ref have "write_blob job (join ''/'' (toolset_names mid now)) (pl_record_text pl ?r) w2 = (Inr ref, w3)"
    by (auto simp: io_try_def toolset_names_def split: prod.splits)
  with blob_written_found [OF _ toolset_names_plain]
  have "resolve_blob_ref job ref = Inr (blob_root job @ toolset_names mid now)"
    "w_files w3 (blob_root job @ toolset_names mid now) = Some (pl_record_text pl ?r)"
    by (metis (no_types) list.distinct(1) toolset_names_def)+
  with plan files show ?thesis by (intro that) (auto simp: plan_record_def Let_def)
qed

lemma plan_and_record_result:
  assumes "plan_and_record pl job pid mid op w = (Inr (Inr plan), w')"
  obtains p where "resolve_blob_ref job (tq_provider_toolset_ref plan) = Inr p"
    and "w_files w' p = Some (pl_record_text pl (tq_record plan))"
    and "set (tr_selected_capability_ids (tq_record plan)) \<subseteq> set (coverage_capability_ids (pl_registry pl))"
    and "\<exists>phase. tq_registry plan = phase6_selected (pl_registry pl) (tr_selected_capability_ids (tq_record plan)) phase"
proof -
  from assms obtain latest s w1 w2 where s: "select_capabilities pl job (coverage_capability_ids (pl_registry pl)) latest w1 = (Inr s, w2)"
    and r: "record_plan pl job pid mid op latest s w2 = (Inr (Inr plan), w')"
    by (auto simp: plan_and_record_def io_return_def split: if_splits elim!: io_bindE)
  from record_plan_result [OF r] obtain p where p: "resolve_blob_ref job (tq_provider_toolset_ref plan) = Inr p"
    "w_files w' p = Some (pl_record_text pl (tq_record plan))"
    "tr_selected_capability_ids (tq_record plan) = take (planner_limit pl) (cp_selected s)"
    "\<exists>phase. tq_registry plan = phase6_selected (pl_registry pl) (tr_selected_capability_ids (tq_record plan)) phase" by metis
  with select_capabilities_covered [OF s] show ?thesis
    by (intro that [OF p(1,2) _ p(4)]) (auto dest: in_set_takeD)
qed

section \<open>Decoding\<close>

lemma offered_names:
  "name \<in> set (pg_tools (bind_tools known phase limit ds g)) \<Longrightarrow>
     name \<in> set (pg_tools g) \<or> (\<exists>d \<in> set ds. name = provider_tool_name_for_capability (cd_capability_id d))"
proof (induction ds arbitrary: g)
  case (Cons d ds)
  let ?n = "provider_tool_name_for_capability (cd_capability_id d)"
  from Cons.prems have "name \<in> set (pg_tools g) \<or> name \<in> set (pg_tools (bind_tools known phase limit ds g)) \<or>
    name \<in> set (pg_tools (bind_tools known phase limit ds \<lparr>pg_tools = pg_tools g @ [?n],
      pg_bindings = bmap_insert ?n (tool_binding phase (cd_capability_id d)) (pg_bindings g)\<rparr>))"
    by (auto simp: Let_def split: if_splits)
  then show ?case by (elim disjE) (auto dest: Cons.IH)
qed simp

lemma selected_names:
  "name \<in> set (pg_tools (phase6_selected registry ids phase)) \<Longrightarrow>
     \<exists>c \<in> set ids. name = provider_tool_name_for_capability c"
  unfolding phase6_selected_def from_capability_ids_with_limit_def from_capability_descriptors_def
  by (drule offered_names) auto

lemma covered_bound:
  assumes "d \<in> set default_capability_registry" and "P d" and "provider_tool_capability_is_exposable (cd_capability_id d)"
  shows "binding_for_tool_name (from_capability_descriptors default_capability_registry (filter P default_capability_registry) phase None)
      (provider_tool_name_for_capability (cd_capability_id d)) = Some (tool_binding phase (cd_capability_id d))"
  unfolding binding_for_tool_name_def from_capability_descriptors_def
  using assms registry_names_distinct
  by (intro bind_tools_binds) (auto simp: distinct_map intro: inj_on_subset)

lemma receipt_binds:
  assumes "resolve_blob_ref (ta_job ag) ref = Inr p" and "mcr_provider_toolset_ref receipt = Some ref"
    and "w_files w p = Some bytes" and "sv_toolset sv bytes = Some ids" and "ta_registry ag = default_capability_registry"
    and "c \<in> set ids" and "c \<in> set (coverage_capability_ids default_capability_registry)"
  obtains g w' phase where "provider_tool_registry_for_receipt ag sv receipt w = (Inr g, w')"
    and "binding_for_tool_name g (provider_tool_name_for_capability c) = Some (tool_binding phase c)"
proof -
  let ?full = "phase6_full_coverage default_capability_registry"
  let ?selected = "phase6_selected default_capability_registry ids ''phase6_recorded_request_toolset''"
  have "\<exists>g w'. provider_tool_registry_for_receipt ag sv receipt w = (Inr g, w') \<and> g \<in> {?full, ?selected}"
    using assms(1-5)
    by (auto simp: provider_tool_registry_for_receipt_def io_bind_def io_ok_def io_lift_def Process_Truth.read_file_def
        sys_op_def io_get_def io_return_def io_fail_def Let_def split: prod.splits sum.splits)
  then obtain g w' where g: "provider_tool_registry_for_receipt ag sv receipt w = (Inr g, w')" "g \<in> {?full, ?selected}" by blast
  from assms(7) obtain d where d: "d \<in> set default_capability_registry" "cd_capability_id d = c"
      "provider_tool_capability_is_task_runtime_exposable (cd_capability_id d)"
    by (auto simp: registry_coverage)
  note e = exposed_exposable [OF d(3)]
  have "binding_for_tool_name ?full (provider_tool_name_for_capability c) = Some (tool_binding provider_tool_phase6_full_coverage c)"
    using covered_bound [OF d(1) _ e, of "\<lambda>d. provider_tool_capability_is_task_runtime_exposable (cd_capability_id d)"] d
    by (simp add: phase6_full_coverage_def)
  moreover have "binding_for_tool_name ?selected (provider_tool_name_for_capability c) =
      Some (tool_binding ''phase6_recorded_request_toolset'' c)"
    using covered_bound [OF d(1) _ e, of "\<lambda>d. cd_capability_id d \<in> set ids"] d(2) assms(6)
    by (simp add: phase6_selected_def from_capability_ids_with_limit_def)
  ultimately show ?thesis using g that by blast
qed

lemma bound_call_decodes:
  assumes "binding_for_tool_name g (provider_tool_name_for_capability c) = Some (tool_binding phase c)"
    and "get_str (tc_function call) ''name'' = Some (provider_tool_name_for_capability c)"
    and "provider_tool_call_arguments cd parse_error call = Inr arguments"
  obtains x w' where "decision_for_tool_call cd parse_error g call w = (Inr (Inr x), w')"
    and "nd_capability_id x = c" and "nd_output_spec x = arguments" and "nd_kind x = decision_kind_for c"
proof -
  have "trim (''cap_'' @ n) \<noteq> []" for n
    by (rule trim_visible) (simp_all add: ws_seqs_def)
  then have "provider_tool_call_name call = Inr (provider_tool_name_for_capability c)"
    using assms(2) by (simp add: provider_tool_call_name_def provider_tool_name_for_capability_def)
  then show ?thesis
    using assms(1,3) that
    by (simp add: decision_for_tool_call_def decision_def tool_binding_def io_bind_def now_ms_def io_return_def)
qed

text \<open>
  C10: Every tool that a plan offers the provider decodes to the capability it was offered for. Whatever the mode
  of the planner, the log and the selection of the model: when \<open>plan_and_record\<close> succeeds, a call that names one
  of the plan's tools and whose arguments the parser reads becomes, with the receipt that carries the plan's
  reference, the decision to run a selected capability of that tool name with these arguments. This holds too when
  the record cannot be read and the decoder falls back to the full coverage. The file of the record is as the plan
  left it, and the parser of a record reads back its list of selected capabilities.
\<close>

theorem offered_tool_decodes:
  assumes "plan_and_record pl (ta_job ag) pid model_call_id operation w = (Inr (Inr plan), w1)"
    and "pl_registry pl = default_capability_registry" and "ta_registry ag = default_capability_registry"
    and "name \<in> set (pg_tools (tq_registry plan))"
    and "mcr_provider_toolset_ref receipt = Some (tq_provider_toolset_ref plan)"
    and "\<And>p. resolve_blob_ref (ta_job ag) (tq_provider_toolset_ref plan) = Inr p \<Longrightarrow> w_files w2 p = w_files w1 p"
    and "\<And>r. sv_toolset sv (pl_record_text pl r) = Some (tr_selected_capability_ids r)"
    and "get_str (tc_function call) ''name'' = Some name"
    and "provider_tool_call_arguments (ta_codec ag) (ta_parse_error ag) call = Inr arguments"
  shows "\<exists>x w3. provider_tool_decision ag sv receipt call w2 = (Inr (Inr x), w3) \<and>
    nd_capability_id x \<in> set (tr_selected_capability_ids (tq_record plan)) \<and>
    provider_tool_name_for_capability (nd_capability_id x) = name \<and>
    nd_output_spec x = arguments \<and> nd_kind x = decision_kind_for (nd_capability_id x)"
proof -
  from plan_and_record_result [OF assms(1)] obtain p phase where
    p: "resolve_blob_ref (ta_job ag) (tq_provider_toolset_ref plan) = Inr p"
      "w_files w1 p = Some (pl_record_text pl (tq_record plan))"
    and cov: "set (tr_selected_capability_ids (tq_record plan)) \<subseteq> set (coverage_capability_ids default_capability_registry)"
    and reg: "tq_registry plan = phase6_selected default_capability_registry (tr_selected_capability_ids (tq_record plan)) phase"
    using assms(2) by metis
  from selected_names [OF assms(4) [unfolded reg]] obtain c
    where c: "c \<in> set (tr_selected_capability_ids (tq_record plan))" "name = provider_tool_name_for_capability c" by blast
  have "w_files w2 p = Some (pl_record_text pl (tq_record plan))" using assms(6) [OF p(1)] p(2) by simp
  from receipt_binds [OF p(1) assms(5) this assms(7,3) c(1)] c(1) cov obtain g w' ph
    where g: "provider_tool_registry_for_receipt ag sv receipt w2 = (Inr g, w')"
      "binding_for_tool_name g (provider_tool_name_for_capability c) = Some (tool_binding ph c)" by blast
  from bound_call_decodes [OF g(2) assms(8) [unfolded c(2)] assms(9)] obtain x w3
    where "decision_for_tool_call (ta_codec ag) (ta_parse_error ag) g call w' = (Inr (Inr x), w3)"
      "nd_capability_id x = c" "nd_output_spec x = arguments" "nd_kind x = decision_kind_for c" by blast
  with g(1) c show ?thesis by (simp add: provider_tool_decision_def io_bind_Inr)
qed

section \<open>A plan\<close>

lemma length_dedupe_from: "length (dedupe_from seen xs) \<le> length xs"
  by (induction seen xs rule: dedupe_from.induct) auto

lemma tools_grow: "name \<in> set (pg_tools g) \<Longrightarrow> name \<in> set (pg_tools (bind_tools known phase limit ds g))"
  by (induction ds arbitrary: g) (auto simp: Let_def)

lemma bind_tools_offers:
  assumes "d \<in> set ds" and "cd_capability_id d \<in> set known" and "provider_tool_capability_is_exposable (cd_capability_id d)"
  shows "provider_tool_name_for_capability (cd_capability_id d) \<in> set (pg_tools (bind_tools known phase None ds g))"
  using assms by (induction ds arbitrary: g) (auto simp: Let_def intro: tools_grow)

lemma selected_offered:
  assumes "c \<in> set ids" and "c \<in> set (coverage_capability_ids registry)"
  shows "provider_tool_name_for_capability c \<in> set (pg_tools (phase6_selected registry ids phase))"
proof -
  from assms(2) obtain d where "d \<in> set registry" "cd_capability_id d = c" "provider_tool_capability_is_exposable c"
    by (auto simp: registry_coverage exposed_exposable)
  with assms(1) show ?thesis
    unfolding phase6_selected_def from_capability_ids_with_limit_def from_capability_descriptors_def
    by (auto intro: bind_tools_offers)
qed

text \<open>The strings of a list, one after the other, and read back.\<close>

fun pack :: "string list \<Rightarrow> string" where
  "pack [] = []"
| "pack ([] # ss) = CHR ''.'' # pack ss"
| "pack ((c # s) # ss) = CHR ''c'' # c # pack (s # ss)"

fun unpack :: "string \<Rightarrow> string list" where
  "unpack [] = []"
| "unpack [x] = [[]]"
| "unpack (x # c # r) = (if x = CHR ''.'' then [] # unpack (c # r)
     else case unpack r of [] \<Rightarrow> [] | s # ss \<Rightarrow> (c # s) # ss)"

lemma unpack_pack: "unpack (pack ss) = ss"
proof (induction ss rule: pack.induct)
  case (2 ss)
  then show ?case by (cases "pack ss") auto
qed simp_all

definition demo_planner :: provider_toolset_planner where
  "demo_planner = \<lparr>pl_registry = default_capability_registry, pl_toolset_mode = MinimalDecision,
     pl_max_provider_tools = 128, pl_record_text = (\<lambda>r. pack (tr_selected_capability_ids r))\<rparr>"

lemma record_plan_runs:
  assumes "no_faults w"
  obtains plan w' where "record_plan pl job pid mid op latest s w = (Inr (Inr plan), w')"
proof -
  obtain ts w1 where 1: "now_ms w = (Inr ts, w1)" "no_faults w1" using now_no_faults [OF assms] by metis
  obtain now w2 where 2: "now_ms w1 = (Inr now, w2)" "no_faults w2" using now_no_faults [OF 1(2)] by metis
  let ?r = "plan_record pl mid op latest s ts"
  obtain ref w3 where 3: "write_blob job (''provider_toolsets/'' @ safe_blob_name mid @ ''_'' @ dec now @ ''.json'')
      (pl_record_text pl ?r) w2 = (Inr ref, w3)" "no_faults w3" using write_blob_no_faults [OF 2(2)] by metis
  have "runs (ignore_error (append_event job (Some pid) ty d))" for ty d
    using runs_append [of job "Some pid" ty d] by (auto simp: runs_def ignore_error_def split: prod.splits)
  then have "runs (record_plan_events job pid ref ?r)"
    unfolding record_plan_events_def by (intro runs_intros)
  then obtain x w4 where "record_plan_events job pid ref ?r w3 = (Inr x, w4)" using 3(2) by (rule runsE)
  with 1 2 3 show ?thesis
    by (intro that) (simp add: record_plan_def Let_def io_bind_def io_try_def io_return_def)
qed

lemma demo_planner_facts:
  "planner_limit demo_planner = 128" "pl_registry demo_planner = default_capability_registry"
  "pl_record_text demo_planner r = pack (tr_selected_capability_ids r)" "pl_toolset_mode demo_planner = MinimalDecision"
  by (simp_all add: planner_limit_def demo_planner_def DEEPSEEK_MAX_PROVIDER_TOOLS_def)

lemma demo_selected:
  "''os.list_tree'' \<in> set (take 128 (cp_selected (capabilities_selected demo_planner
     (coverage_capability_ids default_capability_registry) latest [])))" (is "?c \<in> set (take 128 ?s)")
proof -
  let ?cov = "coverage_capability_ids default_capability_registry"
  have s: "?s = dedupe_strings (filter (\<lambda>c. c \<in> set ?cov) minimal_decision_capabilities)"
    by (simp add: capabilities_selected_def demo_planner_def full_mode_def mode_capabilities_def Let_def)
  have "length minimal_decision_capabilities \<le> 128"
    by (simp add: minimal_decision_capabilities_def process_control_capabilities_def read_context_capabilities_def
        artifact_write_always_on_capabilities_def)
  then have "length ?s \<le> 128"
    using length_dedupe_from [of "[]" "filter (\<lambda>c. c \<in> set ?cov) minimal_decision_capabilities"]
      length_filter_le [of "\<lambda>c. c \<in> set ?cov" minimal_decision_capabilities]
    by (simp only: s dedupe_strings_def)
  moreover have "?c \<in> set ?cov"
  proof -
    have "?c \<in> cd_capability_id ` set default_capability_registry"
      by (simp add: default_capability_registry_def registry_part_1_def)
    moreover have "provider_tool_capability_is_task_runtime_exposable ?c" by code_simp
    ultimately show ?thesis by (simp add: registry_coverage)
  qed
  moreover have "?c \<in> set minimal_decision_capabilities"
    by (simp add: minimal_decision_capabilities_def read_context_capabilities_def)
  ultimately show ?thesis by (simp add: s)
qed

lemma demo_plan:
  obtains plan w1 where "plan_and_record demo_planner job pid mid operation demo_world = (Inr (Inr plan), w1)"
    and "''os.list_tree'' \<in> set (tr_selected_capability_ids (tq_record plan))"
proof -
  let ?cov = "coverage_capability_ids default_capability_registry"
  let ?w1 = "demo_world\<lparr>w_ops := 1\<rparr>" and ?w2 = "demo_world\<lparr>w_ops := 2\<rparr>"
  have read: "read_events job demo_world = (Inr [], ?w1)" "read_events job ?w1 = (Inr [], ?w2)"
    by (simp_all add: read_events_def io_bind_def sys_op_def io_get_def io_return_def demo_world_def job_events_def Let_def)
  have 1: "latest_toolset_selection_of job demo_world = (Inr None, ?w1)"
    using read(1) by (simp add: latest_toolset_selection_of_def io_bind_def io_ok_def io_return_def selection_in_def)
  have 2: "active_approval_operation_capabilities job ?w1 = (Inr [], ?w2)"
    using read(2) by (simp add: active_approval_operation_capabilities_def io_bind_def io_ok_def io_return_def bset_collect_def)
  let ?s = "capabilities_selected demo_planner ?cov None []"
  have "no_faults ?w2" by (simp add: no_faults_def demo_world_def)
  then obtain plan w3 where 3: "record_plan demo_planner job pid mid operation None ?s ?w2 = (Inr (Inr plan), w3)"
    by (rule record_plan_runs)
  have "plan_and_record demo_planner job pid mid operation demo_world = (Inr (Inr plan), w3)"
    using 1 2 3 by (simp add: plan_and_record_def select_capabilities_def io_bind_def io_return_def full_mode_def demo_planner_facts)
  moreover have "tr_selected_capability_ids (tq_record plan) = take 128 (cp_selected ?s)"
    using record_plan_result [OF 3] by (metis demo_planner_facts(1))
  ultimately show ?thesis using demo_selected that by metis
qed

theorem offered_tool_decodes_witness:
  "\<forall>sv. \<exists>plan w1 receipt x w2. plan_and_record demo_planner ''j'' ''p'' ''m'' DecideNextAction demo_world = (Inr (Inr plan), w1) \<and>
     ''cap_os_list_tree'' \<in> set (pg_tools (tq_registry plan)) \<and> mcr_provider_toolset_ref receipt = Some (tq_provider_toolset_ref plan) \<and>
     provider_tool_decision demo_agent (sv\<lparr>sv_toolset := \<lambda>s. Some (unpack s)\<rparr>) receipt (demo_tool_call ''cap_os_list_tree'') w1 =
       (Inr (Inr x), w2) \<and>
     provider_tool_name_for_capability (nd_capability_id x) = ''cap_os_list_tree'' \<and> nd_output_spec x = jobj []"
  (is "\<forall>sv. ?goal sv")
proof
  fix sv
  let ?name = "''cap_os_list_tree''"
  obtain plan w1 where p: "plan_and_record demo_planner ''j'' ''p'' ''m'' DecideNextAction demo_world = (Inr (Inr plan), w1)"
    "''os.list_tree'' \<in> set (tr_selected_capability_ids (tq_record plan))" by (rule demo_plan)
  from plan_and_record_result [OF p(1)] obtain phase where
    cov: "set (tr_selected_capability_ids (tq_record plan)) \<subseteq> set (coverage_capability_ids default_capability_registry)"
    and reg: "tq_registry plan = phase6_selected default_capability_registry (tr_selected_capability_ids (tq_record plan)) phase"
    by (auto simp: demo_planner_def)
  have "provider_tool_name_for_capability ''os.list_tree'' = ?name" by code_simp
  with selected_offered [OF p(2) subsetD [OF cov p(2)]] reg have name: "?name \<in> set (pg_tools (tq_registry plan))" by simp
  define receipt where "receipt = (demo_answer [])\<lparr>mcr_provider_toolset_ref := Some (tq_provider_toolset_ref plan)\<rparr>"
  have r: "mcr_provider_toolset_ref receipt = Some (tq_provider_toolset_ref plan)" by (simp add: receipt_def)
  have p': "plan_and_record demo_planner (ta_job demo_agent) ''p'' ''m'' DecideNextAction demo_world = (Inr (Inr plan), w1)"
    using p(1) by (simp add: demo_agent_def)
  have "\<exists>x w3. provider_tool_decision demo_agent (sv\<lparr>sv_toolset := \<lambda>s. Some (unpack s)\<rparr>) receipt (demo_tool_call ?name) w1 = (Inr (Inr x), w3) \<and>
    nd_capability_id x \<in> set (tr_selected_capability_ids (tq_record plan)) \<and>
    provider_tool_name_for_capability (nd_capability_id x) = ?name \<and>
    nd_output_spec x = jobj [] \<and> nd_kind x = decision_kind_for (nd_capability_id x)"
    by (rule offered_tool_decodes [OF p' demo_planner_facts(2) _ name r])
      (simp_all add: demo_agent_def demo_planner_facts unpack_pack demo_tool_call_def provider_tool_call_arguments_def)
  with p(1) name r show "?goal sv" by blast
qed

end
