(* ===== verification/Chat_Truth.thy ===== *)
theory Chat_Truth
  imports Task_Tools
begin

text \<open>
  The store of the chats (\<open>process_kernel/src/chat_truth.rs\<close>): the tables of \<open>chat_truth.sqlite3\<close>, the
  blobs below \<open>blobs/chat\<close> of the state root, and the references that read them back. The tables are lists of rows;
  opening the database and each of its statements may fail. Blobs are files of the tree of \<open>Os_Files\<close>.
  The directories and the schema that opening a store makes are not modelled.
\<close>

section \<open>Rows and state\<close>

record chat_thread =
  th_chat_thread_id :: string
  th_container_id :: string
  th_title :: "string option"
  th_status :: string
  th_created_at_ms :: nat
  th_updated_at_ms :: nat

text \<open>An event, and the row that stores it: the row holds the payload as text.\<close>

record chat_event =
  ce_event_id :: string
  ce_chat_thread_id :: string
  ce_container_id :: string
  ce_event_seq :: nat
  ce_event_type :: string
  ce_payload :: json
  ce_blob_ref :: "string option"
  ce_created_at_ms :: nat

record chat_event_row =
  cw_event_id :: string
  cw_chat_thread_id :: string
  cw_container_id :: string
  cw_event_seq :: nat
  cw_event_type :: string
  cw_payload_json :: string
  cw_blob_ref :: "string option"
  cw_created_at_ms :: nat

record chat_provider_transcript =
  cq_transcript_id :: string
  cq_chat_thread_id :: string
  cq_provider :: string
  cq_model :: string
  cq_messages_ref :: string
  cq_summary_ref :: "string option"
  cq_live_suffix_ref :: "string option"
  cq_compacted_until_seq :: "64 word option"
  cq_updated_at_ms :: nat

text \<open>\<open>ch_id_counter\<close> is \<open>CHAT_ID_COUNTER\<close>, shared by the stores of a process.\<close>

record chat_state =
  ch_os :: os_state
  ch_threads :: "chat_thread list"
  ch_events :: "chat_event_row list"
  ch_transcripts :: "chat_provider_transcript list"
  ch_id_counter :: "64 word"

record chat_store =
  cs_state_root :: path
  cs_codec :: json_codec
  cs_process :: nat

definition on_os :: "(os_state, 'a) io \<Rightarrow> (chat_state, 'a) io" where
  "on_os m = (\<lambda>s. case m (ch_os s) of (r, w) \<Rightarrow> (r, s\<lparr>ch_os := w\<rparr>))"

definition on_kernel :: "(world, 'a) io \<Rightarrow> (chat_state, 'a) io" where
  "on_kernel m = on_os (on_world m)"

definition put_chat :: "(chat_state \<Rightarrow> chat_state) \<Rightarrow> (chat_state, unit) io" where
  "put_chat f = (\<lambda>s. (Inr (), f s))"

text \<open>\<open>connect\<close> and one statement.\<close>

definition connect :: "(chat_state, unit) io" where
  "connect = on_kernel sys_op"

definition statement :: "(chat_state \<Rightarrow> chat_state) \<Rightarrow> (chat_state, unit) io" where
  "statement f = io_bind (on_kernel sys_op) (\<lambda>_. put_chat f)"

definition selected :: "(chat_state \<Rightarrow> 'a) \<Rightarrow> (chat_state, 'a) io" where
  "selected f = io_bind connect (\<lambda>_. io_bind (on_kernel sys_op) (\<lambda>_. io_bind io_get (\<lambda>s. io_return (f s))))"

definition unique_failed :: io_error where
  "unique_failed = IoError OtherKind ''UNIQUE constraint failed''"

definition now_ms_i64 :: "(chat_state, nat) io" where
  "now_ms_i64 = io_bind (on_kernel now_ms) (\<lambda>now. io_return (min now (2 ^ 63 - 1)))"

definition next_id :: "chat_store \<Rightarrow> string \<Rightarrow> (chat_state, string) io" where
  "next_id cs p =
     io_bind (on_kernel now_ms) (\<lambda>now. io_bind io_get (\<lambda>s.
     io_bind (put_chat (\<lambda>s. s\<lparr>ch_id_counter := ch_id_counter s + 1\<rparr>)) (\<lambda>_.
     io_return (p @ ''_'' @ dec now @ ''_'' @ dec (cs_process cs) @ ''_'' @ dec (unat (ch_id_counter s))))))"

section \<open>Threads and events\<close>

definition create_thread :: "chat_store \<Rightarrow> string \<Rightarrow> string option \<Rightarrow> (chat_state, chat_thread) io" where
  "create_thread cs container_id title =
     io_bind now_ms_i64 (\<lambda>now. io_bind (next_id cs ''chat'') (\<lambda>i.
     let th = \<lparr>th_chat_thread_id = i, th_container_id = container_id, th_title = title,
               th_status = ''active'', th_created_at_ms = now, th_updated_at_ms = now\<rparr>
     in io_bind connect (\<lambda>_. io_bind (on_kernel sys_op) (\<lambda>_. io_bind io_get (\<lambda>s.
        if i \<in> th_chat_thread_id ` set (ch_threads s) then io_fail unique_failed
        else io_bind (put_chat (\<lambda>s. s\<lparr>ch_threads := ch_threads s @ [th]\<rparr>)) (\<lambda>_. io_return th))))))"

definition get_thread :: "string \<Rightarrow> (chat_state, chat_thread) io" where
  "get_thread chat_thread_id =
     io_bind (selected (\<lambda>s. find (\<lambda>t. th_chat_thread_id t = chat_thread_id) (ch_threads s))) (\<lambda>row.
     case row of None \<Rightarrow> io_fail (IoError OtherKind ''Query returned no rows'') | Some t \<Rightarrow> io_return t)"

text \<open>\<open>ORDER BY updated_at_ms DESC, created_at_ms DESC\<close>.\<close>

definition list_threads_for_container :: "string \<Rightarrow> (chat_state, chat_thread list) io" where
  "list_threads_for_container container_id = selected (\<lambda>s.
     sort_key (\<lambda>t. - int (th_updated_at_ms t)) (sort_key (\<lambda>t. - int (th_created_at_ms t))
       (filter (\<lambda>t. th_container_id t = container_id) (ch_threads s))))"

definition next_event_seq :: "string \<Rightarrow> chat_event_row list \<Rightarrow> nat" where
  "next_event_seq chat_thread_id rows =
     Suc (foldr max (map cw_event_seq (filter (\<lambda>r. cw_chat_thread_id r = chat_thread_id) rows)) 0)"

definition event_row_of :: "chat_store \<Rightarrow> chat_event \<Rightarrow> chat_event_row" where
  "event_row_of cs e = \<lparr>cw_event_id = ce_event_id e, cw_chat_thread_id = ce_chat_thread_id e,
     cw_container_id = ce_container_id e, cw_event_seq = ce_event_seq e, cw_event_type = ce_event_type e,
     cw_payload_json = to_string (cs_codec cs) (ce_payload e), cw_blob_ref = ce_blob_ref e,
     cw_created_at_ms = ce_created_at_ms e\<rparr>"

definition chat_append_event ::
  "chat_store \<Rightarrow> string \<Rightarrow> string \<Rightarrow> string \<Rightarrow> json \<Rightarrow> string option \<Rightarrow> (chat_state, chat_event) io" where
  "chat_append_event cs chat_thread_id container_id ty payload blob_ref =
     io_bind (selected (\<lambda>s. next_event_seq chat_thread_id (ch_events s))) (\<lambda>next_seq.
     io_bind (next_id cs ''chat_event'') (\<lambda>i. io_bind now_ms_i64 (\<lambda>now.
     let e = \<lparr>ce_event_id = i, ce_chat_thread_id = chat_thread_id, ce_container_id = container_id,
              ce_event_seq = next_seq, ce_event_type = ty, ce_payload = payload, ce_blob_ref = blob_ref,
              ce_created_at_ms = now\<rparr>
     in io_bind (on_kernel sys_op) (\<lambda>_. io_bind io_get (\<lambda>s.
        if i \<in> cw_event_id ` set (ch_events s) then io_fail unique_failed
        else io_bind (put_chat (\<lambda>s. s\<lparr>ch_events := ch_events s @ [event_row_of cs e]\<rparr>)) (\<lambda>_.
             io_bind (statement (\<lambda>s. s\<lparr>ch_threads := map (\<lambda>t.
               if th_chat_thread_id t = chat_thread_id then t\<lparr>th_updated_at_ms := now\<rparr> else t) (ch_threads s)\<rparr>)) (\<lambda>_.
             io_return e)))))))"

definition row_to_event :: "chat_store \<Rightarrow> chat_event_row \<Rightarrow> chat_event res" where
  "row_to_event cs r =
     (case from_str (cs_codec cs) (cw_payload_json r) of
        None \<Rightarrow> Inl (IoError OtherKind ''Conversion error from type Text at index: 0'')
      | Some v \<Rightarrow> Inr \<lparr>ce_event_id = cw_event_id r, ce_chat_thread_id = cw_chat_thread_id r,
          ce_container_id = cw_container_id r, ce_event_seq = cw_event_seq r, ce_event_type = cw_event_type r,
          ce_payload = v, ce_blob_ref = cw_blob_ref r, ce_created_at_ms = cw_created_at_ms r\<rparr>)"

text \<open>\<open>for row in rows { values.push(row?); }\<close>.\<close>

fun all_rows :: "('r \<Rightarrow> 'a res) \<Rightarrow> 'r list \<Rightarrow> 'a list res" where
  "all_rows f [] = Inr []"
| "all_rows f (r # rs) =
     (case f r of Inl e \<Rightarrow> Inl e
      | Inr x \<Rightarrow> (case all_rows f rs of Inl e \<Rightarrow> Inl e | Inr xs \<Rightarrow> Inr (x # xs)))"

definition chat_rows :: "string \<Rightarrow> chat_event_row list \<Rightarrow> chat_event_row list" where
  "chat_rows chat_thread_id rows = sort_key cw_event_seq (filter (\<lambda>r. cw_chat_thread_id r = chat_thread_id) rows)"

definition chat_read_events :: "chat_store \<Rightarrow> string \<Rightarrow> (chat_state, chat_event list) io" where
  "chat_read_events cs chat_thread_id =
     io_bind (selected (\<lambda>s. chat_rows chat_thread_id (ch_events s))) (\<lambda>rows.
     io_lift (all_rows (row_to_event cs) rows))"

section \<open>Provider transcripts\<close>

text \<open>\<open>ON CONFLICT(transcript_id) DO UPDATE\<close>: a known transcript keeps its thread.\<close>

definition upsert_transcript ::
  "chat_provider_transcript \<Rightarrow> chat_provider_transcript list \<Rightarrow> chat_provider_transcript list" where
  "upsert_transcript t rows =
     (if cq_transcript_id t \<in> cq_transcript_id ` set rows
      then map (\<lambda>r. if cq_transcript_id r = cq_transcript_id t
        then t\<lparr>cq_chat_thread_id := cq_chat_thread_id r\<rparr> else r) rows
      else rows @ [t])"

definition upsert_provider_transcript ::
  "chat_provider_transcript \<Rightarrow> (chat_state, chat_provider_transcript) io" where
  "upsert_provider_transcript t =
     io_bind connect (\<lambda>_. io_bind (statement (\<lambda>s. s\<lparr>ch_transcripts := upsert_transcript t (ch_transcripts s)\<rparr>)) (\<lambda>_.
     io_return t))"

definition list_provider_transcripts :: "string \<Rightarrow> (chat_state, chat_provider_transcript list) io" where
  "list_provider_transcripts chat_thread_id = selected (\<lambda>s.
     sort_key (\<lambda>t. - int (cq_updated_at_ms t)) (filter (\<lambda>t. cq_chat_thread_id t = chat_thread_id) (ch_transcripts s)))"

section \<open>Blobs\<close>

text \<open>The names of a relative path; \<open>Prefix\<close> and \<open>RootDir\<close> cannot follow the first test on Unix.\<close>

definition checked_relative_path :: "string \<Rightarrow> string list res" where
  "checked_relative_path v =
     (if v = [] \<or> is_absolute (unix_components v)
      then Inl (IoError InvalidInput ''chat blob path must be a non-empty relative path'')
      else (case push_names [] (unix_components v) of
          None \<Rightarrow> Inl (IoError InvalidInput ''chat blob path must stay inside chat blob root'')
        | Some names \<Rightarrow> Inr names))"

text \<open>
  \<open>state_root.join("blobs").join("chat").join(thread).join(names)\<close>, where the system starts to follow
  it and its components: an absolute thread id replaces the root, and its other components are followed as they
  are.
\<close>

definition chat_blob_parts :: "chat_store \<Rightarrow> string \<Rightarrow> string list \<Rightarrow> path \<times> path_component list" where
  "chat_blob_parts cs chat_thread_id names =
     (let t = unix_components chat_thread_id in
      if is_absolute t then ([], t @ map Normal names)
      else (cs_state_root cs, [Normal ''blobs'', Normal ''chat''] @ t @ map Normal names))"

text \<open>The entry a path leads to: every component but the last is a directory.\<close>

fun follow :: "file_node option \<Rightarrow> path \<Rightarrow> path_component list \<Rightarrow> path option" where
  "follow t p [] = Some p"
| "follow t p (Normal x # cs) = (if is_dir t p then follow t (p @ [x]) cs else None)"
| "follow t p (ParentDir # cs) = (if is_dir t p then follow t (butlast p) cs else None)"
| "follow t p (CurDir # cs) = (if is_dir t p then follow t p cs else None)"
| "follow t p (_ # cs) = follow t [] cs"

text \<open>\<open>create_dir_all\<close> on such a path.\<close>

fun make_path :: "path \<Rightarrow> path_component list \<Rightarrow> (os_state, path) io" where
  "make_path p [] = io_bind (fs_create_dir_all p) (\<lambda>_. io_return p)"
| "make_path p (Normal x # cs) = make_path (p @ [x]) cs"
| "make_path p (ParentDir # cs) = io_bind (fs_create_dir_all p) (\<lambda>_. make_path (butlast p) cs)"
| "make_path p (CurDir # cs) = make_path p cs"
| "make_path p (_ # cs) = make_path [] cs"

definition is_directory_error :: io_error where
  "is_directory_error = IoError OtherKind ''Is a directory''"

text \<open>A name like \<open>.\<close> leaves no component: the path is then the directory of the thread.\<close>

definition write_chat_blob :: "chat_store \<Rightarrow> string \<Rightarrow> string \<Rightarrow> string \<Rightarrow> (chat_state, string) io" where
  "write_chat_blob cs chat_thread_id blob_name content =
     io_bind (io_lift (checked_relative_path blob_name)) (\<lambda>names.
     case chat_blob_parts cs chat_thread_id names of (start, parts) \<Rightarrow>
     io_bind (on_os (make_path start (butlast parts))) (\<lambda>dir.
     if names = [] then io_fail is_directory_error
     else io_bind (on_os (fs_write (dir @ [last names]) content)) (\<lambda>_.
       io_return (''chat_blob://'' @ chat_thread_id @ ''/'' @ fwd_slashes (join ''/'' names)))))"

definition split_once :: "char \<Rightarrow> string \<Rightarrow> (string \<times> string) option" where
  "split_once c s =
     (if c \<in> set s then Some (takeWhile (\<lambda>x. x \<noteq> c) s, tl (dropWhile (\<lambda>x. x \<noteq> c) s)) else None)"

definition parse_chat_blob_ref :: "string \<Rightarrow> (string \<times> string) res" where
  "parse_chat_blob_ref blob_ref =
     (case strip_prefix blob_ref ''chat_blob://'' of
        None \<Rightarrow> Inl (IoError InvalidInput ''chat blob ref must use chat_blob://'')
      | Some raw \<Rightarrow>
         (case split_once CHR ''/'' raw of
            None \<Rightarrow> Inl (IoError InvalidInput ''chat blob ref must include thread and path'')
          | Some (chat_thread_id, relative) \<Rightarrow>
              if chat_thread_id = [] \<or> relative = []
              then Inl (IoError InvalidInput ''chat blob ref must include non-empty thread and path'')
              else Inr (chat_thread_id, relative)))"

text \<open>\<open>fs::read_to_string\<close>.\<close>

definition read_text :: "path \<Rightarrow> path_component list \<Rightarrow> (os_state, string) io" where
  "read_text start parts =
     io_bind io_get (\<lambda>s.
     case follow (os_tree s) start parts of
       None \<Rightarrow> io_fail (IoError NotFound ''No such file or directory'')
     | Some p \<Rightarrow> io_bind (fs_read p) (\<lambda>b.
         if valid_utf8 b then io_return b
         else io_fail (IoError InvalidData ''stream did not contain valid UTF-8'')))"

definition read_chat_blob_text :: "chat_store \<Rightarrow> string \<Rightarrow> (chat_state, string) io" where
  "read_chat_blob_text cs blob_ref =
     io_bind (io_lift (parse_chat_blob_ref blob_ref)) (\<lambda>(chat_thread_id, relative).
     io_bind (io_lift (checked_relative_path relative)) (\<lambda>names.
     if names = [] then io_fail is_directory_error
     else case chat_blob_parts cs chat_thread_id names of (start, parts) \<Rightarrow> on_os (read_text start parts)))"

section \<open>References\<close>

datatype chat_ref_target = ThreadRef string | TurnRef "string option" string

definition non_empty_ref :: "string \<Rightarrow> string \<Rightarrow> string res" where
  "non_empty_ref v kind =
     (let v' = trim v in if v' = [] then Inl (IoError InvalidInput (kind @ '' is empty'')) else Inr v')"

definition map_res :: "('a \<Rightarrow> 'b) \<Rightarrow> 'a res \<Rightarrow> 'b res" where
  "map_res f r = (case r of Inl e \<Rightarrow> Inl e | Inr x \<Rightarrow> Inr (f x))"

definition parse_turn_ref :: "string \<Rightarrow> chat_ref_target res" where
  "parse_turn_ref raw0 =
     (let raw = trim_end_char CHR ''/'' (trim_start_char CHR ''/'' raw0) in
      case split_once CHR ''/'' raw of
        Some (chat_thread_id, turn_id) \<Rightarrow>
          (case non_empty_ref chat_thread_id ''chat thread ref'' of
             Inl e \<Rightarrow> Inl e
           | Inr th \<Rightarrow> map_res (TurnRef (Some th)) (non_empty_ref turn_id ''chat turn ref''))
      | None \<Rightarrow> map_res (TurnRef None) (non_empty_ref raw ''chat turn ref''))"

definition parse_chat_ref :: "string \<Rightarrow> chat_ref_target res" where
  "parse_chat_ref target_ref =
     (case strip_prefix target_ref ''chat://'' of
        Some th \<Rightarrow> map_res ThreadRef (non_empty_ref th ''chat thread ref'')
      | None \<Rightarrow> case strip_prefix target_ref ''chat_thread://'' of
        Some th \<Rightarrow> map_res ThreadRef (non_empty_ref th ''chat thread ref'')
      | None \<Rightarrow> case strip_prefix target_ref ''chat_turn://'' of
        Some raw \<Rightarrow> parse_turn_ref raw
      | None \<Rightarrow>
          if starts_with target_ref ''chat_turn_'' then Inr (TurnRef None target_ref)
          else if starts_with target_ref ''chat_'' then Inr (ThreadRef target_ref)
          else Inl (IoError InvalidInput ''unsupported chat ref scheme''))"

definition event_turn_id :: "chat_event \<Rightarrow> string option" where
  "event_turn_id e = get_str (ce_payload e) ''turn_id''"

definition chat_thread_json :: "chat_thread \<Rightarrow> json" where
  "chat_thread_json t = jobj
     [(''chat_thread_id'', JString (th_chat_thread_id t)), (''container_id'', JString (th_container_id t)),
      (''title'', jopt (th_title t)), (''status'', JString (th_status t)),
      (''created_at_ms'', jnat (th_created_at_ms t)), (''updated_at_ms'', jnat (th_updated_at_ms t))]"

definition render_chat_events :: "chat_event list \<Rightarrow> json list" where
  "render_chat_events es = map (\<lambda>e. jobj
     [(''event_id'', JString (ce_event_id e)), (''event_seq'', jnat (ce_event_seq e)),
      (''event_type'', JString (ce_event_type e)), (''payload'', ce_payload e),
      (''blob_ref'', jopt (ce_blob_ref e)), (''created_at_ms'', jnat (ce_created_at_ms e))]) es"

text \<open>\<open>content_ref.and_then(|value| self.read_chat_blob_text(value).ok())\<close>.\<close>

definition content_of :: "chat_store \<Rightarrow> string option \<Rightarrow> (chat_state, string option) io" where
  "content_of cs r = (case r of None \<Rightarrow> io_return None | Some v \<Rightarrow> io_ok (read_chat_blob_text cs v))"

definition message_fields :: "string \<Rightarrow> chat_event \<Rightarrow> (string \<times> json) list" where
  "message_fields role e = [(''role'', JString role), (''turn_id'', jopt (event_turn_id e)),
     (''event_seq'', jnat (ce_event_seq e))]"

definition message_from_event :: "chat_store \<Rightarrow> chat_event \<Rightarrow> (chat_state, json list) io" where
  "message_from_event cs e =
     (let d = ce_payload e; ty = ce_event_type e in
      if ty = ''chat_user_message_recorded'' then
        (let r = get_str d ''message_ref'' in
         io_bind (content_of cs r) (\<lambda>content. io_return [jobj (message_fields ''user'' e @
           [(''content_ref'', jopt r), (''content'', jopt content)])]))
      else if ty = ''chat_assistant_answered'' then
        (let r = get_str d ''assistant_content_ref'' in
         io_bind (content_of cs r) (\<lambda>content. io_return [jobj (message_fields ''assistant'' e @
           [(''content_ref'', jopt r), (''content'', jopt (or_else content (get_str d ''content'')))])]))
      else if ty = ''chat_clarification_requested'' then
        io_return [jobj (message_fields ''assistant'' e @
          [(''content'', jopt (get_str d ''question'')), (''message_kind'', JString ''clarification'')])]
      else if ty = ''chat_needs_task_suggested'' then
        io_return [jobj (message_fields ''assistant'' e @
          [(''content'', unwrap_or Null (jget d ''suggested_task'')), (''message_kind'', JString ''needs_task'')])]
      else io_return [])"

definition messages_from_events :: "chat_store \<Rightarrow> chat_event list \<Rightarrow> (chat_state, json list) io" where
  "messages_from_events cs es = io_collect (message_from_event cs) es"

definition render_chat_thread_ref :: "chat_store \<Rightarrow> string \<Rightarrow> string \<Rightarrow> (chat_state, json) io" where
  "render_chat_thread_ref cs target_ref chat_thread_id =
     io_bind (get_thread chat_thread_id) (\<lambda>th.
     io_bind (chat_read_events cs chat_thread_id) (\<lambda>es.
     io_bind (messages_from_events cs es) (\<lambda>ms. io_return (jobj
       [(''schema'', JString ''supernova_chat_truth_ref_read.v1''), (''ref'', JString target_ref),
        (''resolution'', JString ''chat_thread''), (''chat_thread'', chat_thread_json th),
        (''event_count'', jnat (length es)), (''messages'', Array ms),
        (''events'', Array (render_chat_events es))]))))"

text \<open>
  \<open>payload_json LIKE ?1\<close>: \<open>%\<close> stands for any characters, \<open>_\<close> for one, and ASCII letters match in either
  case.
\<close>

function sql_like :: "string \<Rightarrow> string \<Rightarrow> bool" where
  "sql_like [] s = (s = [])"
| "sql_like (p # ps) [] = (p = CHR ''%'' \<and> sql_like ps [])"
| "sql_like (p # ps) (c # s) =
     (if p = CHR ''%'' then sql_like ps (c # s) \<or> sql_like (p # ps) (dropWhile is_continuation s)
      else if p = CHR ''_'' then sql_like ps (dropWhile is_continuation s)
      else ascii_lower_char p = ascii_lower_char c \<and> sql_like ps s)"
  by pat_completeness auto
termination
  by (relation "measure (\<lambda>(p, s). length p + length s)") (auto intro: le_less_trans [OF length_dropWhile_le])

definition read_events_for_turn :: "chat_store \<Rightarrow> string \<Rightarrow> (chat_state, chat_thread \<times> chat_event list) io" where
  "read_events_for_turn cs turn_id =
     io_bind (selected (\<lambda>s. sort_key cw_chat_thread_id (sort_key cw_event_seq
       (filter (\<lambda>r. sql_like (''%'' @ turn_id @ ''%'') (cw_payload_json r)) (ch_events s))))) (\<lambda>rows.
     io_bind (io_lift (all_rows (row_to_event cs) rows)) (\<lambda>all_events.
     let es = filter (\<lambda>e. event_turn_id e = Some turn_id) all_events in
     case es of
       [] \<Rightarrow> io_fail (IoError NotFound ''chat turn ref not found'')
     | e # _ \<Rightarrow> io_bind (get_thread (ce_chat_thread_id e)) (\<lambda>th. io_return (th, es))))"

definition render_chat_turn_ref :: "chat_store \<Rightarrow> string \<Rightarrow> string option \<Rightarrow> string \<Rightarrow> (chat_state, json) io" where
  "render_chat_turn_ref cs target_ref chat_thread_id turn_id =
     io_bind (case chat_thread_id of
         Some i \<Rightarrow> io_bind (get_thread i) (\<lambda>th. io_bind (chat_read_events cs i) (\<lambda>es.
           io_return (th, filter (\<lambda>e. event_turn_id e = Some turn_id) es)))
       | None \<Rightarrow> read_events_for_turn cs turn_id) (\<lambda>(th, es).
     if es = [] then io_fail (IoError NotFound ''chat turn ref has no ChatTruth events'')
     else io_bind (messages_from_events cs es) (\<lambda>ms. io_return (jobj
       [(''schema'', JString ''supernova_chat_truth_ref_read.v1''), (''ref'', JString target_ref),
        (''resolution'', JString ''chat_turn''), (''chat_thread'', chat_thread_json th),
        (''turn_id'', JString turn_id), (''event_count'', jnat (length es)), (''messages'', Array ms),
        (''events'', Array (render_chat_events es))])))"

definition read_chat_ref_text :: "chat_store \<Rightarrow> string \<Rightarrow> (chat_state, string) io" where
  "read_chat_ref_text cs target_ref0 =
     (let target_ref = trim target_ref0 in
      if starts_with target_ref ''chat_blob://'' then read_chat_blob_text cs target_ref
      else io_bind (io_lift (parse_chat_ref target_ref)) (\<lambda>target.
        io_bind (case target of
            ThreadRef i \<Rightarrow> render_chat_thread_ref cs target_ref i
          | TurnRef i turn_id \<Rightarrow> render_chat_turn_ref cs target_ref i turn_id) (\<lambda>payload.
        io_return (to_pretty (cs_codec cs) payload))))"

end
