(* ===== verification/Chat_Runtime.thy ===== *)
theory Chat_Runtime
  imports Chat_Truth Tool_Loop
begin

text \<open>
  The provider tool call loop of a chat turn (\<open>chat_runtime.rs\<close>): the model is asked, the calls of its
  answer are run one after another, each is answered in the transcript, and the turn ends with an
  answer, a question, a suggested task or a failure. The calls are read-only: capabilities that change the
  workspace are answered with a suggested task. The planning of the toolset, the model call and the
  read-only executor are parameters.
\<close>

section \<open>The turn and its services\<close>

text \<open>\<open>ModelCallReceipt\<close> with the fields only the chat runtime reads.\<close>

record chat_model_receipt = model_call_receipt +
  mcr_model :: string
  mcr_provider_transcript_id :: "string option"
  mcr_provider_transcript_summary_ref :: "string option"

text \<open>What a turn keeps fixed. \<open>cv_truth\<close> is the id of the log its model calls are recorded in.\<close>

record chat_turn =
  cv_store :: chat_store
  cv_thread :: string
  cv_container :: string
  cv_turn_id :: string
  cv_user_message :: string
  cv_truth :: string
  cv_pid :: string
  cv_policy :: provider_tool_loop_policy
  cv_max_read_bytes :: "64 word"
  cv_max_read_tokens :: "64 word"
  cv_registry :: provider_tool_registry

record toolset_plan =
  tp_toolset_ref :: string
  tp_tool_count :: nat
  tp_omitted_count :: nat

record chat_services =
  hs_parse_error :: "string \<Rightarrow> string"
  hs_plan :: "string \<Rightarrow> (world, string + toolset_plan) io"
  hs_chat_model :: "nat \<Rightarrow> string \<Rightarrow> toolset_plan \<Rightarrow> (world, chat_model_receipt) io"
  hs_execute :: "next_action_decision \<Rightarrow> (os_state, capability_receipt) io"
  hs_tool_result :: "string \<Rightarrow> capability_receipt \<Rightarrow> (os_state, json) io"
  hs_receipt_json :: "chat_model_receipt \<Rightarrow> json"
  hs_failure_json :: "model_provider_failure \<Rightarrow> json"

definition CHAT_TRUTH_SCHEMA_VERSION :: string where
  "CHAT_TRUTH_SCHEMA_VERSION = ''supernova_chat_truth.v1''"

text \<open>The fields of every event of the turn, and an event of its thread.\<close>

definition chat_fields :: "chat_turn \<Rightarrow> (string \<times> json) list \<Rightarrow> json" where
  "chat_fields cv kvs = jobj ([(''schema_version'', JString CHAT_TRUTH_SCHEMA_VERSION),
     (''turn_id'', JString (cv_turn_id cv))] @ kvs)"

definition chat_event_of :: "chat_turn \<Rightarrow> string \<Rightarrow> (string \<times> json) list \<Rightarrow> string option \<Rightarrow> (chat_state, unit) io" where
  "chat_event_of cv ty kvs blob_ref =
     io_bind (chat_append_event (cv_store cv) (cv_thread cv) (cv_container cv) ty (chat_fields cv kvs) blob_ref)
       (\<lambda>_. io_return ())"

section \<open>Results of a turn\<close>

datatype chat_turn_status = CtAnswered | CtClarifying | CtNeedsTask | CtBlocked | CtFailed

record suggested_task_request =
  sg_goal :: string
  sg_reason :: string
  sg_context_pack_id :: "string option"

record chat_turn_result =
  cu_chat_thread_id :: string
  cu_turn_id :: string
  cu_status :: chat_turn_status
  cu_assistant_content :: "string option"
  cu_suggested_task :: "suggested_task_request option"
  cu_cited_refs :: "string list"
  cu_tool_receipt_refs :: "string list"
  cu_context_window_receipt_ref :: "string option"
  cu_events :: "chat_event list"

datatype provider_tool_loop_status = LsContinue | LsAnswered | LsClarifying | LsNeedsTask | LsRunning
  | LsWaitingUser | LsWaitingApproval | LsBlocked | LsFailed | LsInterrupted

fun loop_status_name :: "provider_tool_loop_status \<Rightarrow> string" where
  "loop_status_name LsContinue = ''continue''"
| "loop_status_name LsAnswered = ''answered''"
| "loop_status_name LsClarifying = ''clarifying''"
| "loop_status_name LsNeedsTask = ''needs_task''"
| "loop_status_name LsRunning = ''running''"
| "loop_status_name LsWaitingUser = ''waiting_user''"
| "loop_status_name LsWaitingApproval = ''waiting_approval''"
| "loop_status_name LsBlocked = ''blocked''"
| "loop_status_name LsFailed = ''failed''"
| "loop_status_name LsInterrupted = ''interrupted''"

record provider_tool_execution =
  xe_batch_id :: string
  xe_call_id :: string
  xe_call_index :: nat
  xe_tool_name :: "string option"
  xe_capability :: "string option"
  xe_status :: provider_tool_loop_status
  xe_tool_result :: json

text \<open>The variables of the loop.\<close>

record chat_vars =
  hv_exec :: provider_tool_loop_executor
  hv_receipts :: "chat_model_receipt list"
  hv_executions :: "provider_tool_execution list"
  hv_cited_refs :: "string list"
  hv_tool_receipt_refs :: "string list"
  hv_read_bytes :: "64 word"
  hv_read_tokens :: "64 word"

definition model_call_ids :: "chat_vars \<Rightarrow> json" where
  "model_call_ids v = jstrings (map mcr_model_call_id (hv_receipts v))"

text \<open>Every result ends with a read of the thread.\<close>

definition turn_result ::
  "chat_turn \<Rightarrow> chat_turn_status \<Rightarrow> string option \<Rightarrow> suggested_task_request option \<Rightarrow> string list \<Rightarrow> string list \<Rightarrow>
   (chat_state, chat_turn_result) io" where
  "turn_result cv status content suggested cited receipts =
     io_bind (chat_read_events (cv_store cv) (cv_thread cv)) (\<lambda>events. io_return
       \<lparr>cu_chat_thread_id = cv_thread cv, cu_turn_id = cv_turn_id cv, cu_status = status,
        cu_assistant_content = content, cu_suggested_task = suggested, cu_cited_refs = cited,
        cu_tool_receipt_refs = receipts, cu_context_window_receipt_ref = None, cu_events = events\<rparr>)"

definition chat_answer_result :: "chat_turn \<Rightarrow> string \<Rightarrow> chat_vars \<Rightarrow> (chat_state, chat_turn_result) io" where
  "chat_answer_result cv content v =
     io_bind (write_chat_blob (cv_store cv) (cv_thread cv) (''turns/'' @ cv_turn_id cv @ ''_assistant.txt'') content) (\<lambda>content_ref.
     io_bind (chat_event_of cv ''chat_assistant_answered''
       [(''assistant_content_ref'', JString content_ref), (''cited_refs'', jstrings (hv_cited_refs v)),
        (''tool_receipt_refs'', jstrings (hv_tool_receipt_refs v)), (''model_call_ids'', model_call_ids v),
        (''provider_tool_execution_count'', jnat (length (hv_executions v)))] None) (\<lambda>_.
     turn_result cv CtAnswered (Some content) None (hv_cited_refs v) (hv_tool_receipt_refs v)))"

definition chat_clarifying_result :: "chat_turn \<Rightarrow> json \<Rightarrow> chat_vars \<Rightarrow> (chat_state, chat_turn_result) io" where
  "chat_clarifying_result cv payload v =
     (let question = unwrap_or [] (get_str payload ''question'') in
      io_bind (chat_event_of cv ''chat_clarification_requested''
        [(''question'', JString question), (''payload'', payload)] None) (\<lambda>_.
      turn_result cv CtClarifying (Some question) None (hv_cited_refs v) (hv_tool_receipt_refs v)))"

definition no_task_reason :: string where
  "no_task_reason = ''ChatRuntime determined this requires TaskRuntime.''"

definition task_of :: "json \<Rightarrow> suggested_task_request option" where
  "task_of d =
     (let goal = trim (unwrap_or [] (get_str d ''goal'')) in
      if goal = [] then None
      else Some \<lparr>sg_goal = goal, sg_reason = unwrap_or no_task_reason (get_str d ''reason''),
        sg_context_pack_id = get_str d ''context_pack_id''\<rparr>)"

definition suggested_task_from_payload :: "json \<Rightarrow> suggested_task_request option" where
  "suggested_task_from_payload payload =
     or_else (Option.bind (jget payload ''suggested_task'') task_of) (task_of payload)"

definition suggested_json :: "suggested_task_request option \<Rightarrow> json" where
  "suggested_json t = (case t of None \<Rightarrow> Null | Some g \<Rightarrow> jobj
     [(''goal'', JString (sg_goal g)), (''reason'', JString (sg_reason g)),
      (''context_pack_id'', jopt (sg_context_pack_id g))])"

definition chat_needs_task_result :: "chat_turn \<Rightarrow> json \<Rightarrow> chat_vars \<Rightarrow> (chat_state, chat_turn_result) io" where
  "chat_needs_task_result cv payload v =
     (let suggested = suggested_task_from_payload payload in
      io_bind (chat_event_of cv ''chat_needs_task_suggested''
        [(''suggested_task'', suggested_json suggested), (''payload'', payload)] None) (\<lambda>_.
      turn_result cv CtNeedsTask None suggested (hv_cited_refs v) (hv_tool_receipt_refs v)))"

definition failure_json_of :: "chat_services \<Rightarrow> chat_model_receipt \<Rightarrow> json" where
  "failure_json_of sv receipt = (case mcr_error receipt of None \<Rightarrow> Null | Some e \<Rightarrow> hs_failure_json sv e)"

definition chat_failed_result :: "chat_turn \<Rightarrow> chat_services \<Rightarrow> chat_model_receipt \<Rightarrow> (chat_state, chat_turn_result) io" where
  "chat_failed_result cv sv receipt =
     io_bind (chat_event_of cv ''chat_turn_failed''
       [(''model_call_id'', JString (mcr_model_call_id receipt)), (''model_call_status'', JString (mcr_status receipt)),
        (''error'', failure_json_of sv receipt)] None) (\<lambda>_.
     turn_result cv CtFailed None None [] [])"

section \<open>Recording the model calls\<close>

definition record_chat_model_receipt_projection ::
  "chat_turn \<Rightarrow> chat_services \<Rightarrow> nat \<Rightarrow> chat_model_receipt \<Rightarrow> (chat_state, unit) io" where
  "record_chat_model_receipt_projection cv sv subturn_index receipt =
     io_bind (write_chat_blob (cv_store cv) (cv_thread cv)
       (''model_receipts/'' @ safe_blob_name (cv_turn_id cv) @ ''_'' @ dec subturn_index @ ''_'' @
        safe_blob_name (mcr_model_call_id receipt) @ ''.json'')
       (to_pretty (cs_codec (cv_store cv)) (hs_receipt_json sv receipt))) (\<lambda>receipt_ref.
     chat_event_of cv ''chat_model_receipt_recorded''
       [(''subturn_index'', jnat subturn_index), (''model_call_id'', JString (mcr_model_call_id receipt)),
        (''status'', JString (mcr_status receipt)), (''provider'', JString (mcr_provider receipt)),
        (''model'', JString (mcr_model receipt)), (''operation'', JString (operation_as_str (mcr_operation receipt))),
        (''output_ref'', jopt (mcr_output_ref receipt)),
        (''provider_transcript_ref'', jopt (mcr_provider_transcript_ref receipt)),
        (''provider_transcript_summary_ref'', jopt (mcr_provider_transcript_summary_ref receipt)),
        (''provider_tool_call_count'', jnat (length (mcr_provider_tool_calls receipt))),
        (''receipt_ref'', JString receipt_ref), (''truth_layer'', JString ''chat_truth_projection'')] (Some receipt_ref))"

definition jopt_u64 :: "64 word option \<Rightarrow> json" where
  "jopt_u64 n = (case n of None \<Rightarrow> Null | Some i \<Rightarrow> jword i)"

definition sync_chat_provider_transcript ::
  "chat_turn \<Rightarrow> chat_model_receipt \<Rightarrow> string option \<Rightarrow> 64 word option \<Rightarrow> (chat_state, unit) io" where
  "sync_chat_provider_transcript cv receipt live_suffix_ref compacted_until_seq =
     (case (mcr_provider_transcript_id receipt, mcr_provider_transcript_ref receipt) of
        (Some transcript_id, Some messages_ref) \<Rightarrow>
          io_bind (on_kernel now_ms) (\<lambda>now.
          io_bind (upsert_provider_transcript
            \<lparr>cq_transcript_id = transcript_id, cq_chat_thread_id = cv_thread cv, cq_provider = mcr_provider receipt,
             cq_model = mcr_model receipt, cq_messages_ref = messages_ref,
             cq_summary_ref = mcr_provider_transcript_summary_ref receipt, cq_live_suffix_ref = live_suffix_ref,
             cq_compacted_until_seq = compacted_until_seq, cq_updated_at_ms = now\<rparr>) (\<lambda>_.
          chat_event_of cv ''chat_provider_transcript_updated''
            [(''model_call_id'', JString (mcr_model_call_id receipt)), (''transcript_id'', JString transcript_id),
             (''provider'', JString (mcr_provider receipt)), (''model'', JString (mcr_model receipt)),
             (''messages_ref'', JString messages_ref),
             (''summary_ref'', jopt (mcr_provider_transcript_summary_ref receipt)),
             (''live_suffix_ref'', jopt live_suffix_ref), (''compacted_until_seq'', jopt_u64 compacted_until_seq)] None))
      | _ \<Rightarrow> io_return ())"

definition provider_protocol :: "string \<Rightarrow> string" where
  "provider_protocol provider =
     (if provider = ''deepseek'' then ''deepseek_chat_completions'' else ''model_provider_transcript'')"

text \<open>A missing reference, an unreadable file and a file that is not UTF-8 all give the empty text.\<close>

definition model_output_text :: "string \<Rightarrow> chat_model_receipt \<Rightarrow> (world, string) io" where
  "model_output_text truth receipt =
     (case mcr_output_ref receipt of
        None \<Rightarrow> io_return []
      | Some output_ref \<Rightarrow>
          io_bind (io_ok (io_bind (io_lift (resolve_blob_ref truth output_ref)) Process_Truth.read_file)) (\<lambda>text.
          io_return (case text of Some t \<Rightarrow> if valid_utf8 t then t else [] | None \<Rightarrow> [])))"

section \<open>How much a result has read\<close>

definition usage_of_text :: "string option \<Rightarrow> 64 word \<times> 64 word \<Rightarrow> 64 word \<times> 64 word" where
  "usage_of_text text u = (case text of None \<Rightarrow> u | Some s \<Rightarrow>
     (sat_add (fst u) (word_of_nat (length s)), sat_add (snd u) (word_of_nat (estimate_text_tokens_conservative s))))"

definition usage_of_fields :: "json \<Rightarrow> 64 word \<times> 64 word \<Rightarrow> 64 word \<times> 64 word" where
  "usage_of_fields d u =
     (let sizes = List.map_filter (get_u64 d) [''bytes'', ''size_bytes'', ''content_bytes'', ''total_size_bytes''];
          bytes = fold (\<lambda>n b. sat_add b n) sizes (fst u);
          tokens = (case get_u64 d ''tokens_estimated'' of None \<Rightarrow> snd u | Some n \<Rightarrow> sat_add (snd u) n)
      in usage_of_text (get_str d ''page'') (usage_of_text (get_str d ''content'') (bytes, tokens)))"

fun collect_read_usage :: "json \<Rightarrow> 64 word \<times> 64 word \<Rightarrow> 64 word \<times> 64 word" where
  "collect_read_usage (Object m) u =
     fold (\<lambda>kv. collect_read_usage (snd kv)) m (usage_of_fields (Object m) u)"
| "collect_read_usage (Array items) u = fold collect_read_usage items u"
| "collect_read_usage _ u = u"

definition chat_tool_result_read_usage :: "json \<Rightarrow> 64 word \<times> 64 word" where
  "chat_tool_result_read_usage tool_result = collect_read_usage tool_result (0, 0)"

section \<open>One call\<close>

definition record_chat_result ::
  "chat_turn \<Rightarrow> chat_model_receipt \<Rightarrow> call_place \<Rightarrow> json \<Rightarrow> (chat_state, unit) io" where
  "record_chat_result cv receipt place tool_result =
     io_bind (on_kernel (record_provider_tool_result_with_metadata (cs_codec (cv_store cv)) (cv_truth cv) (cv_pid cv)
       (mcr_provider receipt) (provider_protocol (mcr_provider receipt)) (tc_id (cp_call place)) tool_result
       \<lparr>rm_provider_tool_call_index = Some (cp_index place), rm_provider_tool_batch_id = Some (cp_batch place)\<rparr>))
     (\<lambda>_. io_return ())"

definition place_fields :: "chat_model_receipt \<Rightarrow> call_place \<Rightarrow> (string \<times> json) list" where
  "place_fields receipt place =
     [(''model_call_id'', JString (mcr_model_call_id receipt)), (''provider_tool_batch_id'', JString (cp_batch place)),
      (''provider_tool_call_id'', JString (tc_id (cp_call place))),
      (''provider_tool_call_index'', jnat (cp_index place)),
      (''provider_tool_name'', jopt (call_name_ok (cp_call place)))]"

definition execution ::
  "call_place \<Rightarrow> string option \<Rightarrow> provider_tool_loop_status \<Rightarrow> json \<Rightarrow> provider_tool_execution" where
  "execution place capability status tool_result =
     \<lparr>xe_batch_id = cp_batch place, xe_call_id = tc_id (cp_call place), xe_call_index = cp_index place,
      xe_tool_name = call_name_ok (cp_call place), xe_capability = capability, xe_status = status,
      xe_tool_result = tool_result\<rparr>"

text \<open>The first \<open>Some\<close> of a chain of \<open>or_else\<close>; \<open>and_then(as_str)\<close> comes after it.\<close>

definition answer_content :: "json \<Rightarrow> string" where
  "answer_content out = unwrap_or []
     (Option.bind (or_else (jget out ''content'') (or_else (jget out ''answer'') (jget out ''message''))) as_str)"

definition string_array_value :: "json \<Rightarrow> string \<Rightarrow> string list" where
  "string_array_value v key = (case get_array v key of None \<Rightarrow> [] | Some items \<Rightarrow> strings_of items)"

definition control_result :: "next_action_decision \<Rightarrow> json" where
  "control_result d =
     (let capability = (''capability_id'', JString (nd_capability_id d)); out = nd_output_spec d;
          why = (''reason'', JString (nd_reason d))
      in if nd_capability_id d = ''chat.answer'' then jobj
           [(''status'', JString ''answered''), capability, (''content'', JString (answer_content out)),
            (''cited_refs'', jstrings (string_array_value out ''cited_refs'')), why]
         else if nd_capability_id d = ''chat.clarify'' then jobj
           [(''status'', JString ''clarifying''), capability,
            (''question'', JString (unwrap_or [] (get_str out ''question''))),
            (''missing_fact'', jopt (get_str out ''missing_fact'')), why]
         else if nd_capability_id d = ''chat.needs_task'' then jobj
           [(''status'', JString ''needs_task''), capability, (''goal'', JString (unwrap_or [] (get_str out ''goal''))),
            (''context_pack_id'', jopt (get_str out ''context_pack_id'')), why]
         else jobj [(''status'', JString ''blocked''), capability,
            (''reason'', JString ''unsupported chat control capability'')])"

definition chat_control_execution ::
  "chat_turn \<Rightarrow> chat_model_receipt \<Rightarrow> call_place \<Rightarrow> next_action_decision \<Rightarrow> provider_tool_loop_status \<Rightarrow>
   (chat_state, provider_tool_execution) io" where
  "chat_control_execution cv receipt place d status =
     io_bind (record_chat_result cv receipt place (control_result d)) (\<lambda>_.
     io_return (execution place (Some (nd_capability_id d)) status (control_result d)))"

text \<open>What the chat runtime does not run.\<close>

definition chat_forbidden :: "string \<Rightarrow> bool" where
  "chat_forbidden capability_id \<longleftrightarrow>
     provider_tool_is_mutation_apply_capability capability_id \<or> starts_with capability_id ''process.preview'' \<or>
     capability_id \<in> {''process.request_preview'', ''terminal.run_command'', ''process.complete''}"

definition undecodable_result :: "chat_turn \<Rightarrow> provider_tool_protocol_error \<Rightarrow> json" where
  "undecodable_result cv e = jobj
     [(''status'', JString ''needs_task''), (''error_code'', JString (pe_error_code e)),
      (''message'', JString (pe_message e)), (''provider_tool_name'', jopt (pe_provider_tool_name e)),
      (''provider_tool_call_id'', jopt (pe_provider_tool_call_id e)),
      (''suggested_task'', jobj [(''goal'', JString (cv_user_message cv)),
        (''reason'', JString ''ChatRuntime can only call read-only tools. Use TaskRuntime for mutation, approval, terminal execution, or artifact delivery.'')]),
      (''mutation_forbidden'', Bool True)]"

definition forbidden_result :: "chat_turn \<Rightarrow> string \<Rightarrow> json" where
  "forbidden_result cv capability_id = jobj
     [(''status'', JString ''needs_task''), (''capability_id'', JString capability_id),
      (''suggested_task'', jobj [(''goal'', JString (cv_user_message cv)),
        (''reason'', JString ''ChatRuntime can only call read-only tools. Use TaskRuntime for mutation, approval, terminal execution, process completion, or artifact delivery.'')]),
      (''mutation_forbidden'', Bool True)]"

definition failed_receipt ::
  "chat_turn \<Rightarrow> chat_model_receipt \<Rightarrow> call_place \<Rightarrow> string \<Rightarrow> io_error \<Rightarrow> capability_receipt" where
  "failed_receipt cv receipt place capability_id err =
     \<lparr>rc_capability_id = capability_id, rc_job_id = cv_truth cv, rc_pid = cv_pid cv, rc_status = ''failed'',
      rc_data = jobj [(''reason'', JString ''read-only capability execution failed''), (''error'', JString (err_msg err)),
        (''model_call_id'', JString (mcr_model_call_id receipt)),
        (''provider_tool_batch_id'', JString (cp_batch place)), (''provider_tool_call_id'', JString (tc_id (cp_call place))),
        (''provider_tool_name'', jopt (call_name_ok (cp_call place))), (''no_workspace_mutation'', Bool True)]\<rparr>"

text \<open>A read-only capability: its receipt, its result for the provider, and two events.\<close>

definition read_only_call ::
  "chat_turn \<Rightarrow> chat_services \<Rightarrow> chat_model_receipt \<Rightarrow> call_place \<Rightarrow> next_action_decision \<Rightarrow>
   (chat_state, provider_tool_execution) io" where
  "read_only_call cv sv receipt place d =
     io_bind (io_try (on_os (hs_execute sv d))) (\<lambda>executed.
     let rc = (case executed of Inl err \<Rightarrow> failed_receipt cv receipt place (nd_capability_id d) err | Inr r \<Rightarrow> r);
         capability = (''capability_id'', JString (rc_capability_id rc));
         status = (''receipt_status'', JString (rc_status rc))
     in io_bind (on_os (hs_tool_result sv (cv_turn_id cv) rc)) (\<lambda>tool_result.
        io_bind (record_chat_result cv receipt place tool_result) (\<lambda>_.
        io_bind (chat_event_of cv ''chat_readonly_tool_executed'' (place_fields receipt place @
          [capability, status,
           (''execution_error'', if rc_status rc = ''failed'' then jopt_json (jget (rc_data rc) ''error'') else Null),
           (''mutation_allowed'', Bool False), (''receipt_ref'', jopt_json (jget tool_result ''receipt_ref''))]) None) (\<lambda>_.
        io_bind (chat_event_of cv ''chat_readonly_capability_receipt'' (place_fields receipt place @
          [capability, status, (''receipt_data'', rc_data rc), (''mutation_allowed'', Bool False),
           (''receipt_ref'', jopt_json (jget tool_result ''receipt_ref''))]) None) (\<lambda>_.
        io_return (execution place (Some (rc_capability_id rc)) LsContinue tool_result))))))"

definition execute_chat_tool_call ::
  "chat_turn \<Rightarrow> chat_services \<Rightarrow> chat_model_receipt \<Rightarrow> call_place \<Rightarrow> (chat_state, provider_tool_execution) io" where
  "execute_chat_tool_call cv sv receipt place =
     io_bind (on_kernel (decision_for_tool_call (cs_codec (cv_store cv)) (hs_parse_error sv) (cv_registry cv) (cp_call place))) (\<lambda>decoded.
     case decoded of
       Inl e \<Rightarrow>
         io_bind (record_chat_result cv receipt place (undecodable_result cv e)) (\<lambda>_.
         io_bind (chat_event_of cv ''chat_mutation_or_unknown_tool_blocked''
           [(''model_call_id'', JString (mcr_model_call_id receipt)),
            (''provider_tool_batch_id'', JString (cp_batch place)),
            (''provider_tool_call_id'', JString (tc_id (cp_call place))),
            (''provider_tool_name'', jopt (call_name_ok (cp_call place))), (''mutation_allowed'', Bool False),
            (''error'', undecodable_result cv e)] None) (\<lambda>_.
         io_return (execution place (pe_capability_id e) LsNeedsTask (undecodable_result cv e))))
     | Inr d \<Rightarrow>
         let c = nd_capability_id d in
         if chat_forbidden c then
           io_bind (record_chat_result cv receipt place (forbidden_result cv c)) (\<lambda>_.
           io_return (execution place (Some c) LsNeedsTask (forbidden_result cv c)))
         else if c = ''chat.answer'' then chat_control_execution cv receipt place d LsAnswered
         else if c = ''chat.clarify'' then chat_control_execution cv receipt place d LsClarifying
         else if c = ''chat.needs_task'' then chat_control_execution cv receipt place d LsNeedsTask
         else read_only_call cv sv receipt place d)"

end
