(* ===== verification/Chat_Loop.thy ===== *)
theory Chat_Loop
  imports Chat_Runtime
begin

text \<open>
  The loop of a chat turn (\<open>run_provider_loop\<close> of \<open>chat_runtime.rs\<close>): subturns of one model call each, the
  calls of its answer in order, the budgets of calls and of what the calls read, and the four ends of a
  turn.
\<close>

section \<open>Calls that are not run\<close>

text \<open>\<open>append_chat_provider_tool_skipped_results_from\<close>: how many calls it has answered.\<close>

fun append_skipped ::
  "chat_turn \<Rightarrow> chat_model_receipt \<Rightarrow> string \<Rightarrow> string \<Rightarrow> nat \<Rightarrow> provider_tool_call list \<Rightarrow> (chat_state, nat) io" where
  "append_skipped cv receipt batch reason index [] = io_return 0"
| "append_skipped cv receipt batch reason index (call # calls) =
     (let place = \<lparr>cp_batch = batch, cp_index = index, cp_call = call\<rparr> in
      io_bind (record_chat_result cv receipt place (skipped_result call reason batch index)) (\<lambda>_.
      io_bind (chat_event_of cv ''chat_provider_tool_result_appended'' (place_fields receipt place @
        [(''status'', JString ''skipped''), (''tool_result_status'', JString ''skipped''),
         (''reason'', JString reason), (''tool_result_completeness'', JString ''provider_tool_call_answered'')]) None) (\<lambda>_.
      io_bind (append_skipped cv receipt batch reason (Suc index) calls) (\<lambda>n. io_return (Suc n)))))"

definition skipped_results_from ::
  "chat_turn \<Rightarrow> chat_model_receipt \<Rightarrow> string \<Rightarrow> nat \<Rightarrow> string \<Rightarrow> (chat_state, nat) io" where
  "skipped_results_from cv receipt batch start_index reason =
     append_skipped cv receipt batch reason start_index (drop start_index (mcr_provider_tool_calls receipt))"

section \<open>After a call\<close>

datatype chat_outcome = ChatNextCall chat_vars | ChatNextSubturn chat_vars | ChatReturns chat_turn_result

definition after_execution :: "provider_tool_execution \<Rightarrow> chat_vars \<Rightarrow> chat_vars" where
  "after_execution x v =
     (let u = chat_tool_result_read_usage (xe_tool_result x) in
      v\<lparr>hv_exec := mark_executed 1 (hv_exec v), hv_executions := hv_executions v @ [x],
        hv_cited_refs := hv_cited_refs v @ string_array_value (xe_tool_result x) ''cited_refs'',
        hv_tool_receipt_refs := hv_tool_receipt_refs v @
          (case get_str (xe_tool_result x) ''receipt_ref'' of None \<Rightarrow> [] | Some r \<Rightarrow> [r]),
        hv_read_bytes := sat_add (hv_read_bytes v) (fst u), hv_read_tokens := sat_add (hv_read_tokens v) (snd u)\<rparr>)"

definition read_budget_exceeded :: "chat_turn \<Rightarrow> chat_vars \<Rightarrow> bool" where
  "read_budget_exceeded cv v \<longleftrightarrow> hv_read_bytes v > cv_max_read_bytes cv \<or> hv_read_tokens v > cv_max_read_tokens cv"

definition skipped_over_budget :: string where
  "skipped_over_budget = ''ChatRuntime read-only provider tool loop exceeded per-turn read budget before executing the remaining provider tool calls.''"

definition read_budget_ends_batch ::
  "chat_turn \<Rightarrow> chat_model_receipt \<Rightarrow> call_place \<Rightarrow> chat_vars \<Rightarrow> (chat_state, chat_outcome) io" where
  "read_budget_ends_batch cv receipt place v =
     io_bind (skipped_results_from cv receipt (cp_batch place) (Suc (cp_index place)) skipped_over_budget) (\<lambda>skipped.
     io_bind (chat_event_of cv ''chat_readonly_budget_exceeded'' [(''payload'', jobj
       [(''status'', JString ''recoverable_error''), (''error_code'', JString ''CHAT_READONLY_BUDGET_EXCEEDED''),
        (''message'', JString ''ChatRuntime read-only provider tool loop exceeded per-turn read budget.''),
        (''provider_tool_batch_id'', JString (cp_batch place)),
        (''executed_provider_tool_call_id'', JString (tc_id (cp_call place))),
        (''executed_provider_tool_call_index'', jnat (cp_index place)),
        (''remaining_skipped_tool_call_count'', jnat skipped),
        (''tool_result_completeness'', JString (if skipped > 0
           then ''remaining_provider_tool_calls_answered_with_skipped_results'' else ''all_provider_tool_calls_answered'')),
        (''read_bytes_used'', jword (hv_read_bytes v)), (''read_tokens_used'', jword (hv_read_tokens v)),
        (''max_read_bytes'', jword (cv_max_read_bytes cv)), (''max_read_tokens'', jword (cv_max_read_tokens cv))])] None) (\<lambda>_.
     io_return (ChatNextSubturn v)))"

definition act_on_status ::
  "chat_turn \<Rightarrow> provider_tool_execution \<Rightarrow> chat_vars \<Rightarrow> (chat_state, chat_outcome) io" where
  "act_on_status cv x v =
     (let payload = xe_tool_result x; status = xe_status x;
          ends = (\<lambda>m. io_bind m (\<lambda>r. io_return (ChatReturns r)))
      in if status = LsAnswered then ends (chat_answer_result cv (unwrap_or [] (get_str payload ''content'')) v)
         else if status = LsClarifying then ends (chat_clarifying_result cv payload v)
         else if status = LsNeedsTask then ends (chat_needs_task_result cv payload v)
         else if status = LsBlocked \<or> status = LsFailed then
           io_bind (chat_event_of cv ''chat_provider_tool_status_recoverable''
             [(''status'', JString (loop_status_name status)), (''payload'', payload)] None) (\<lambda>_.
           io_return (ChatNextSubturn v))
         else io_return (ChatNextCall v))"

section \<open>One call of a batch\<close>

definition handle_chat_call ::
  "chat_turn \<Rightarrow> chat_services \<Rightarrow> chat_model_receipt \<Rightarrow> call_place \<Rightarrow> chat_vars \<Rightarrow> (chat_state, chat_outcome) io" where
  "handle_chat_call cv sv receipt place v0 =
     io_bind (on_kernel (decision_for_tool_call (cs_codec (cv_store cv)) (hs_parse_error sv) (cv_registry cv) (cp_call place))) (\<lambda>decoded.
     io_bind (chat_event_of cv ''chat_provider_tool_call_decoded'' (place_fields receipt place @
       [(''capability_id'', case decoded of Inl _ \<Rightarrow> Null | Inr d \<Rightarrow> JString (nd_capability_id d))]) None) (\<lambda>_.
     io_bind (execute_chat_tool_call cv sv receipt place) (\<lambda>x.
     io_bind (chat_event_of cv ''chat_provider_tool_result_appended'' (place_fields receipt place @
       [(''capability_id'', jopt (xe_capability x)), (''status'', JString (loop_status_name (xe_status x))),
        (''tool_result_status'', jopt (get_str (xe_tool_result x) ''status''))]) None) (\<lambda>_.
     let v = after_execution x v0 in
     if read_budget_exceeded cv v then read_budget_ends_batch cv receipt place v
     else act_on_status cv x v))))"

fun handle_chat_calls ::
  "chat_turn \<Rightarrow> chat_services \<Rightarrow> chat_model_receipt \<Rightarrow> string \<Rightarrow> nat \<Rightarrow> provider_tool_call list \<Rightarrow> chat_vars \<Rightarrow>
   (chat_state, chat_outcome) io" where
  "handle_chat_calls cv sv receipt batch index [] v = io_return (ChatNextSubturn v)"
| "handle_chat_calls cv sv receipt batch index (call # calls) v =
     io_bind (handle_chat_call cv sv receipt \<lparr>cp_batch = batch, cp_index = index, cp_call = call\<rparr> v) (\<lambda>outcome.
     case outcome of
       ChatNextCall v' \<Rightarrow> handle_chat_calls cv sv receipt batch (Suc index) calls v'
     | _ \<Rightarrow> io_return outcome)"

section \<open>One subturn\<close>

definition chat_batch_refused ::
  "chat_turn \<Rightarrow> chat_model_receipt \<Rightarrow> string \<Rightarrow> provider_tool_loop_budget_error \<Rightarrow> (chat_state, unit) io" where
  "chat_batch_refused cv receipt batch e =
     io_bind (skipped_results_from cv receipt batch 0 (be_message e)) (\<lambda>_.
     chat_event_of cv ''chat_provider_tool_loop_budget_exceeded''
       [(''model_call_id'', JString (mcr_model_call_id receipt)), (''payload'', jobj
         [(''status'', JString ''recoverable_error''), (''error_code'', JString budget_error_code),
          (''budget_kind'', JString (budget_kind (be_kind e))), (''message'', JString (be_message e)),
          (''requested_tool_calls'', jword (be_requested_tool_calls e)), (''limit'', jword (be_limit e)),
          (''executed_tool_calls_before'', jword (be_executed_tool_calls_before e)),
          (''all_read_only_or_control'', Bool (be_all_read_only_or_control e)),
          (''provider_tool_batch_id'', JString batch),
          (''tool_result_completeness'', JString ''all_provider_tool_calls_answered_with_skipped_results'')])] None)"

text \<open>The chat adapter calls every batch exempt from the limit of a subturn.\<close>

definition run_chat_batch ::
  "chat_turn \<Rightarrow> chat_services \<Rightarrow> nat \<Rightarrow> chat_model_receipt \<Rightarrow> chat_vars \<Rightarrow> (chat_state, chat_outcome) io" where
  "run_chat_batch cv sv subturn_index receipt v =
     (let calls = mcr_provider_tool_calls receipt; batch = batch_id (mcr_model_call_id receipt) subturn_index in
      case begin_subturn (hv_exec v) RkChat True (mcr_model_call_id receipt) subturn_index calls of
        Inl e \<Rightarrow> io_bind (chat_batch_refused cv receipt batch e) (\<lambda>_. io_return (ChatNextSubturn v))
      | Inr sub \<Rightarrow>
          io_bind (chat_event_of cv ''chat_provider_tool_subturn_started'' [(''subturn'', subturn_json sub)] None) (\<lambda>_.
          handle_chat_calls cv sv receipt batch 0 calls v))"

definition subturn_fields :: "nat \<Rightarrow> string \<Rightarrow> (string \<times> json) list" where
  "subturn_fields subturn_index model_call_id =
     [(''subturn_index'', jnat subturn_index), (''model_call_id'', JString model_call_id)]"

text \<open>The model call of a subturn, with everything recorded about it.\<close>

definition call_chat_model :: "chat_turn \<Rightarrow> chat_services \<Rightarrow> nat \<Rightarrow> (chat_state, chat_model_receipt) io" where
  "call_chat_model cv sv subturn_index =
     io_bind (on_kernel now_ms) (\<lambda>now.
     let model_call_id = ''mcall_'' @ cv_turn_id cv @ ''_chat_'' @ dec subturn_index @ ''_'' @ dec now
     in io_bind (on_kernel (hs_plan sv model_call_id)) (\<lambda>planned.
     case planned of Inl message \<Rightarrow> io_fail (IoError InvalidInput message)
     | Inr plan \<Rightarrow>
         io_bind (chat_event_of cv ''chat_provider_toolset_planned'' (subturn_fields subturn_index model_call_id @
           [(''provider_toolset_ref'', JString (tp_toolset_ref plan)), (''provider_tool_count'', jnat (tp_tool_count plan)),
            (''omitted_count'', jnat (tp_omitted_count plan))]) None) (\<lambda>_.
         io_bind (chat_event_of cv ''chat_model_call_started'' (subturn_fields subturn_index model_call_id @
           [(''operation'', JString ''model.chat_turn''), (''provider_toolset_ref'', JString (tp_toolset_ref plan))]) None) (\<lambda>_.
         io_bind (on_kernel (hs_chat_model sv subturn_index model_call_id plan)) (\<lambda>receipt.
         io_bind (sync_chat_provider_transcript cv receipt None None) (\<lambda>_.
         io_bind (chat_event_of cv ''chat_model_call_completed'' (subturn_fields subturn_index (mcr_model_call_id receipt) @
           [(''status'', JString (mcr_status receipt)),
            (''provider_tool_call_count'', jnat (length (mcr_provider_tool_calls receipt))),
            (''provider_toolset_ref'', jopt (mcr_provider_toolset_ref receipt)),
            (''provider_transcript_ref'', jopt (mcr_provider_transcript_ref receipt)),
            (''provider_transcript_summary_ref'', jopt (mcr_provider_transcript_summary_ref receipt))]) None) (\<lambda>_.
         io_bind (record_chat_model_receipt_projection cv sv subturn_index receipt) (\<lambda>_.
         io_return receipt))))))))"

definition run_chat_subturn ::
  "chat_turn \<Rightarrow> chat_services \<Rightarrow> nat \<Rightarrow> chat_vars \<Rightarrow> (chat_state, chat_outcome) io" where
  "run_chat_subturn cv sv subturn_index v0 =
     io_bind (call_chat_model cv sv subturn_index) (\<lambda>receipt.
     let v = v0\<lparr>hv_receipts := hv_receipts v0 @ [receipt]\<rparr> in
     if mcr_status receipt \<noteq> ''success''
     then io_bind (chat_failed_result cv sv receipt) (\<lambda>r. io_return (ChatReturns r))
     else if mcr_provider_tool_calls receipt = []
     then io_bind (on_kernel (model_output_text (cv_truth cv) receipt)) (\<lambda>content.
          io_bind (chat_answer_result cv content v) (\<lambda>r. io_return (ChatReturns r)))
     else run_chat_batch cv sv subturn_index receipt v)"

section \<open>The loop\<close>

definition no_answer_content :: string where
  "no_answer_content = ''ChatRuntime returned the read-only tool results to the model, but the model did not produce a final answer within the tool-loop limit. Narrow the question or use TASK for work that needs more tool steps.''"

definition chat_loop_exhausted :: "chat_turn \<Rightarrow> chat_vars \<Rightarrow> (chat_state, chat_turn_result) io" where
  "chat_loop_exhausted cv v =
     io_bind (chat_event_of cv ''chat_tool_loop_recovered_without_model_answer''
       [(''status'', JString ''answered''), (''runtime_generated'', Bool True),
        (''provider_tool_execution_count'', jnat (length (hv_executions v))), (''model_call_ids'', model_call_ids v),
        (''message'', JString no_answer_content)] None) (\<lambda>_.
     chat_answer_result cv no_answer_content v)"

fun run_chat_subturns ::
  "chat_turn \<Rightarrow> chat_services \<Rightarrow> nat \<Rightarrow> nat \<Rightarrow> chat_vars \<Rightarrow> (chat_state, chat_turn_result) io" where
  "run_chat_subturns cv sv 0 subturn_index v = chat_loop_exhausted cv v"
| "run_chat_subturns cv sv (Suc left) subturn_index v =
     io_bind (run_chat_subturn cv sv subturn_index v) (\<lambda>outcome.
     case outcome of
       ChatReturns r \<Rightarrow> io_return r
     | ChatNextSubturn v' \<Rightarrow> run_chat_subturns cv sv left (Suc subturn_index) v'
     | ChatNextCall v' \<Rightarrow> run_chat_subturns cv sv left (Suc subturn_index) v')"

definition chat_start :: "chat_turn \<Rightarrow> chat_vars" where
  "chat_start cv = \<lparr>hv_exec = loop_executor (cv_policy cv), hv_receipts = [], hv_executions = [],
     hv_cited_refs = [], hv_tool_receipt_refs = [], hv_read_bytes = 0, hv_read_tokens = 0\<rparr>"

definition run_provider_loop :: "chat_turn \<Rightarrow> chat_services \<Rightarrow> (chat_state, chat_turn_result) io" where
  "run_provider_loop cv sv =
     run_chat_subturns cv sv (unat (lp_max_provider_subturns (normalized (cv_policy cv)))) 0 (chat_start cv)"

end
