(* ===== verification/Chat_Laws.thy ===== *)
theory Chat_Laws
  imports Chat_Truth Os_Laws Truth_Log
begin

text \<open>
  What the operations of the chat store change: the tables of events and threads, and the tree of files.
  An append adds one numbered event to its thread or nothing; writing a blob changes one file and
  makes the directories above it.
\<close>

section \<open>Frames\<close>

lemma io_bind_lift [simp]: "io_bind (io_lift (Inr x)) f = f x" "io_bind (io_lift (Inl e)) f = io_fail e"
  by (simp_all add: io_bind_def io_lift_def io_fail_def fun_eq_iff)

text \<open>A step whose continuation relies on what the step returned.\<close>

lemma io_keeps_bind_when:
  assumes "transp R" and m: "io_keeps R m" and P: "\<And>s x s'. m s = (Inr x, s') \<Longrightarrow> P x"
    and f: "\<And>x. P x \<Longrightarrow> io_keeps R (f x)"
  shows "io_keeps R (io_bind m f)"
  unfolding io_keeps_def
proof
  fix s
  obtain r s' where ms: "m s = (r, s')" by force
  with m have s': "R s s'" by (rule io_keepsD)
  show "R s (snd (io_bind m f s))"
  proof (cases r)
    case (Inl e)
    with ms s' show ?thesis by (simp add: io_bind_def)
  next
    case (Inr x)
    with f [OF P [OF ms [unfolded Inr]]] have "R s' (snd (f x s'))" by (simp add: io_keeps_def)
    with assms(1) s' have "R s (snd (f x s'))" by (blast dest: transpD)
    with ms Inr show ?thesis by (simp add: io_bind_def)
  qed
qed

definition same_chats :: "chat_state \<Rightarrow> chat_state \<Rightarrow> bool" where
  "same_chats s s' \<longleftrightarrow> ch_events s' = ch_events s \<and> ch_threads s' = ch_threads s \<and> ch_transcripts s' = ch_transcripts s"

lemma same_chats_refl: "reflp same_chats" and same_chats_trans: "transp same_chats"
  by (auto simp: reflp_def transp_def same_chats_def)

lemma keeps_on_os [simp]: "io_keeps same_chats (on_os m)"
  by (auto simp: io_keeps_def on_os_def same_chats_def split: prod.split)

lemma keeps_on_kernel [simp]: "io_keeps same_chats (on_kernel m)"
  by (simp add: on_kernel_def)

lemma keeps_connect [simp]: "io_keeps same_chats connect"
  by (simp add: connect_def)

lemmas keeps_chats_bind = io_keeps_bind [OF same_chats_trans]
lemmas keeps_chats_pure [intro!] = io_keeps_pure [OF same_chats_refl]

lemma keeps_put: "(\<And>s. same_chats s (f s)) \<Longrightarrow> io_keeps same_chats (put_chat f)"
  by (simp add: io_keeps_def put_chat_def)

lemma keeps_selected [simp]: "io_keeps same_chats (selected f)"
  unfolding selected_def by (auto intro!: keeps_chats_bind)

lemma keeps_now [simp]: "io_keeps same_chats now_ms_i64"
  unfolding now_ms_i64_def by (auto intro!: keeps_chats_bind)

lemma keeps_next_id [simp]: "io_keeps same_chats (next_id cs p)"
  unfolding next_id_def
  by (auto intro!: keeps_chats_bind keeps_put simp: same_chats_def)

lemma keeps_read_events [simp]: "io_keeps same_chats (chat_read_events cs th)"
  unfolding chat_read_events_def by (auto intro!: keeps_chats_bind)

lemma keeps_get_thread [simp]: "io_keeps same_chats (get_thread th)"
  unfolding get_thread_def by (auto intro!: keeps_chats_bind split: option.split)

lemma keeps_write_blob [simp]: "io_keeps same_chats (write_chat_blob cs th n c)"
  unfolding write_chat_blob_def by (auto intro!: keeps_chats_bind split: prod.split)

lemma keeps_read_blob [simp]: "io_keeps same_chats (read_chat_blob_text cs r)"
  unfolding read_chat_blob_text_def by (auto intro!: keeps_chats_bind split: prod.split)

lemma same_chatsD:
  assumes "io_keeps same_chats m" and "m s = (r, s')"
  shows "ch_events s' = ch_events s" "ch_threads s' = ch_threads s" "ch_transcripts s' = ch_transcripts s"
  using io_keepsD [OF assms] by (simp_all add: same_chats_def)

lemma same_chats_step: "same_chats s t \<Longrightarrow> io_keeps same_chats m \<Longrightarrow> m t = (q, t') \<Longrightarrow> same_chats s t'"
  using same_chats_trans unfolding transp_def by (blast dest: io_keepsD)

section \<open>Appending an event\<close>

lemma selected_Inr: "selected f s = (Inr x, s') \<Longrightarrow> x = f s' \<and> same_chats s s'"
  using io_keepsD [OF keeps_selected, of f s "Inr x" s']
  by (auto simp: selected_def io_bind_success io_get_def io_return_def)

lemma put_chat_apply [io_simps]: "put_chat f s = (Inr (), f s)"
  by (simp add: put_chat_def)

text \<open>The row of the event is written before the thread's time is: the second statement may fail alone.\<close>

lemma chat_append_cases:
  assumes "chat_append_event cs th c ty d b s = (r, s')"
  obtains (nothing) x where "r = Inl x" "same_chats s s'"
    | (recorded) e where "ch_events s' = ch_events s @ [event_row_of cs e]"
      "ce_event_seq e = next_event_seq th (ch_events s)" "ce_chat_thread_id e = th" "ce_container_id e = c"
      "ce_event_type e = ty" "ce_payload e = d" "ce_blob_ref e = b" "r = Inr e \<or> (\<exists>x. r = Inl x)"
      "ce_event_id e \<notin> cw_event_id ` set (ch_events s)" "map th_chat_thread_id (ch_threads s') = map th_chat_thread_id (ch_threads s)"
      "ch_transcripts s' = ch_transcripts s"
proof -
  note run = assms [unfolded chat_append_event_def Let_def]
  obtain q1 s1 where 1: "selected (\<lambda>s. next_event_seq th (ch_events s)) s = (q1, s1)" by force
  note k1 = io_keepsD [OF keeps_selected 1]
  show thesis
  proof (cases q1)
    case (Inl x)
    with run 1 have "r = Inl x" "same_chats s s'" using k1 by (simp_all add: io_bind_def)
    then show thesis by (rule nothing)
  next
    case seq: (Inr n)
    note run = run [unfolded io_bind_Inr [of "selected (\<lambda>s. next_event_seq th (ch_events s))" s n s1, OF 1 [unfolded seq]]]
    obtain q2 s2 where 2: "next_id cs ''chat_event'' s1 = (q2, s2)" by force
    note k2 = same_chats_step [OF k1 keeps_next_id 2]
    show thesis
    proof (cases q2)
      case (Inl x)
      with run 2 have "r = Inl x" "same_chats s s'" using k2 by (simp_all add: io_bind_def)
      then show thesis by (rule nothing)
    next
      case i: (Inr i)
      note run = run [unfolded io_bind_Inr [of "next_id cs ''chat_event''" s1 i s2, OF 2 [unfolded i]]]
      obtain q3 s3 where 3: "now_ms_i64 s2 = (q3, s3)" by force
      note k3 = same_chats_step [OF k2 keeps_now 3]
      show thesis
      proof (cases q3)
        case (Inl x)
        with run 3 have "r = Inl x" "same_chats s s'" using k3 by (simp_all add: io_bind_def)
        then show thesis by (rule nothing)
      next
        case now: (Inr now)
        note run = run [unfolded io_bind_Inr [of now_ms_i64 s2 now s3, OF 3 [unfolded now]]]
        obtain q4 s4 where 4: "on_kernel sys_op s3 = (q4, s4)" by force
        note k4 = same_chats_step [OF k3 keeps_on_kernel 4]
        show thesis
        proof (cases "(\<exists>x. q4 = Inl x) \<or> i \<in> cw_event_id ` set (ch_events s4)")
          case True
          with run 4 have "(\<exists>x. r = Inl x) \<and> s' = s4"
            by (cases q4) (auto simp: io_bind_def io_get_def io_fail_def)
          with k4 have "(\<exists>x. r = Inl x) \<and> same_chats s s'" by simp
          then show thesis by (elim exE conjE) (rule nothing)
        next
          case False
          let ?e = "\<lparr>ce_event_id = i, ce_chat_thread_id = th, ce_container_id = c, ce_event_seq = n, ce_event_type = ty,
            ce_payload = d, ce_blob_ref = b, ce_created_at_ms = now\<rparr>"
          let ?t = "s4\<lparr>ch_events := ch_events s4 @ [event_row_of cs ?e]\<rparr>"
          from False obtain u where u: "q4 = Inr u" by (cases q4) auto
          obtain q5 s5 where 5: "on_kernel sys_op ?t = (q5, s5)" by force
          have k5: "same_chats ?t s5" by (rule io_keepsD [OF keeps_on_kernel 5])
          have n: "n = next_event_seq th (ch_events s)" using selected_Inr [OF 1 [unfolded seq]] by (simp add: same_chats_def)
          have "(r = Inr ?e \<or> (\<exists>x. r = Inl x)) \<and> ch_events s' = ch_events s5 \<and>
              map th_chat_thread_id (ch_threads s') = map th_chat_thread_id (ch_threads s5) \<and> ch_transcripts s' = ch_transcripts s5"
            using run False u 4 5
            by (cases q5) (auto simp: io_bind_def io_get_def put_chat_def statement_def io_return_def split: if_splits)
          with k4 k5 n False show thesis by (intro recorded [of ?e]) (auto simp: same_chats_def)
        qed
      qed
    qed
  qed
qed

section \<open>The numbers of the events\<close>

definition chat_log_ok :: "chat_event_row list \<Rightarrow> bool" where
  "chat_log_ok rows \<longleftrightarrow> distinct (map cw_event_id rows) \<and>
     (\<forall>th. map cw_event_seq (filter (\<lambda>r. cw_chat_thread_id r = th) rows)
       = [1..<Suc (length (filter (\<lambda>r. cw_chat_thread_id r = th) rows))])"

lemma chat_log_okD:
  "chat_log_ok rows \<Longrightarrow> map cw_event_seq (filter (\<lambda>r. cw_chat_thread_id r = th) rows)
     = [1..<Suc (length (filter (\<lambda>r. cw_chat_thread_id r = th) rows))]"
  unfolding chat_log_ok_def by blast

lemma next_event_seq_ok:
  "chat_log_ok rows \<Longrightarrow> next_event_seq th rows = Suc (length (filter (\<lambda>r. cw_chat_thread_id r = th) rows))"
  unfolding next_event_seq_def by (simp only: chat_log_okD foldr_max_upt)

lemma chat_rows_ok: "chat_log_ok rows \<Longrightarrow> chat_rows th rows = filter (\<lambda>r. cw_chat_thread_id r = th) rows"
  unfolding chat_rows_def by (rule sort_key_id_if_sorted) (simp only: chat_log_okD sorted_upt)

lemma chat_log_ok_snoc:
  assumes "chat_log_ok rows" and "cw_event_seq r = next_event_seq (cw_chat_thread_id r) rows"
    and "cw_event_id r \<notin> cw_event_id ` set rows"
  shows "chat_log_ok (rows @ [r])"
  using assms next_event_seq_ok [OF assms(1)] unfolding chat_log_ok_def by auto

lemma chat_log_ok_append:
  assumes "chat_append_event cs th c ty d b s = (r, s')" and "chat_log_ok (ch_events s)"
  shows "chat_log_ok (ch_events s')"
  using assms by (cases rule: chat_append_cases) (auto simp: same_chats_def event_row_of_def intro!: chat_log_ok_snoc)

lemma all_rows_append:
  "all_rows f (xs @ ys) = (case all_rows f xs of Inl e \<Rightarrow> Inl e
     | Inr us \<Rightarrow> (case all_rows f ys of Inl e \<Rightarrow> Inl e | Inr vs \<Rightarrow> Inr (us @ vs)))"
  by (induction xs) (auto split: sum.splits)

lemma length_all_rows: "all_rows f xs = Inr us \<Longrightarrow> length us = length xs"
  by (induction xs arbitrary: us) (auto split: sum.splits)

section \<open>Blobs\<close>

lemma follow_names: "is_dir t (p @ butlast names) \<or> names = [] \<Longrightarrow> follow t p (map Normal names) = Some (p @ names)"
proof (induction names arbitrary: p)
  case (Cons x xs)
  have d: "is_dir t (p @ q)" if "path_starts_with (butlast (x # xs)) q" for q
  proof (cases "q = butlast (x # xs)")
    case False
    from Cons.prems have v: "view t (p @ butlast (x # xs)) = Some Directory" by (simp add: is_dir_def)
    from that False obtain z where "butlast (x # xs) = q @ z" "z \<noteq> []" by (auto simp: path_starts_with_iff)
    with v view_parent [of t "p @ q" z] show ?thesis by (simp add: is_dir_def)
  qed (use Cons.prems in simp)
  from d [of "[]"] have here: "is_dir t p" by simp
  moreover have "is_dir t ((p @ [x]) @ butlast xs) \<or> xs = []"
    using Cons.prems by (cases xs) auto
  ultimately show ?case using Cons.IH [of "p @ [x]"] by simp
qed simp

lemma chat_parts_plain:
  "plain_name th \<Longrightarrow> chat_blob_parts cs th names = (cs_state_root cs, map Normal ([''blobs'', ''chat'', th] @ names))"
  using unix_components_join [of "[th]"] by (simp add: chat_blob_parts_def is_absolute_def)

lemma make_path_names: "make_path p (map Normal names) = io_bind (fs_create_dir_all (p @ names)) (\<lambda>_. io_return (p @ names))"
  by (induction names arbitrary: p) simp_all

lemma create_dir_all_Inr:
  assumes "fs_create_dir_all p s = (Inr u, s')"
  shows "sees s' = with_dirs p (sees s)" "view (os_tree s') p = Some Directory"
proof -
  from assms obtain n where n: "mkdirs p (os_tree s) = Some n" "os_tree s' = Some n"
    by (auto simp: fs_create_dir_all_def io_bind_success io_get_def io_fail_def put_tree_def on_world_def
        split: option.splits prod.splits)
  then show v: "sees s' = with_dirs p (sees s)" by (auto simp: view_mkdirs with_dirs_def)
  have "view (os_tree s) p \<noteq> Some (Bytes c)" for c
    using mkdirs_blocked [of p "os_tree s"] n(1) path_starts_with_refl [of p] by fastforce
  then show "view (os_tree s') p = Some Directory"
    unfolding v with_dirs_def by (cases "view (os_tree s) p" rule: option.exhaust) (auto, metis file_entry.exhaust)
qed

lemma fs_write_Inr:
  assumes "fs_write p c s = (Inr u, s')"
  shows "sees s' = (sees s)(p := Some (Bytes c))"
proof -
  from assms have d: "sees s (butlast p) = Some Directory" "sees s p \<noteq> Some Directory"
    and t: "os_tree s' = alter p (\<lambda>_. Some (FileNode c)) (os_tree s)"
    by (auto simp: fs_write_def io_bind_success io_get_def io_fail_def is_dir_def tree_op_def Let_def
        split: if_splits prod.splits sum.splits)
  have ne: "p \<noteq> []" using d by auto
  have below: "sees s q = None" if "path_starts_with q p" "q \<noteq> p" for q
    using that d(2) sees_above [of "os_tree s" q p] by (cases "sees s q") simp_all
  show ?thesis
  proof
    fix q
    show "sees s' q = ((sees s)(p := Some (Bytes c))) q"
      using below [of q] by (auto simp: t view_alter [OF d(1) ne] view_FileNode path_starts_with_iff)
  qed
qed

end
