(* ===== verification/Chat_Loop_Laws.thy ===== *)
theory Chat_Loop_Laws
  imports Chat_Loop Chat_Laws
begin

text \<open>
  What the loop of a chat turn can change. The locale \<open>chat_invariant\<close> takes a relation that the steps of
  the loop keep and gives it for the whole turn; it is interpreted on the numbers of the events and on
  the files a turn may touch.
\<close>

section \<open>Decoded capabilities\<close>

definition bound_capabilities :: "provider_tool_registry \<Rightarrow> string set" where
  "bound_capabilities g = (tb_capability_id \<circ> snd) ` set (pg_bindings g)"

lemma decision_bound:
  assumes "decision_for_tool_call cd pe g call w = (Inr (Inr d), w')"
  shows "nd_capability_id d \<in> bound_capabilities g"
proof -
  from assms obtain name b where b: "map_of (pg_bindings g) name = Some b" "nd_capability_id d = tb_capability_id b"
    by (auto simp: decision_for_tool_call_def io_return_def decision_def binding_for_tool_name_def
        split: sum.splits option.splits elim!: io_bindE)
  from b(1) have "(name, b) \<in> set (pg_bindings g)" by (rule map_of_SomeD)
  with b(2) show ?thesis by (force simp: bound_capabilities_def)
qed

lemma bmap_insert_values: "x \<in> set (bmap_insert k v m) \<Longrightarrow> snd x = v \<or> x \<in> set m"
  by (induction m) (auto split: if_splits)

lemma bind_tools_bound:
  "bound_capabilities (bind_tools known phase limit ds g) \<subseteq> bound_capabilities g \<union> cd_capability_id ` set ds"
proof (induction ds arbitrary: g)
  case (Cons d ds)
  let ?c = "cd_capability_id d" and ?n = "provider_tool_name_for_capability (cd_capability_id d)"
  let ?g = "\<lparr>pg_tools = pg_tools g @ [?n], pg_bindings = bmap_insert ?n (tool_binding phase ?c) (pg_bindings g)\<rparr>"
  have "bound_capabilities ?g \<subseteq> insert ?c (bound_capabilities g)"
    by (auto simp: bound_capabilities_def tool_binding_def dest!: bmap_insert_values)
  with Cons.IH [of ?g] Cons.IH [of g] show ?case
    by (auto simp: Let_def)
qed simp

text \<open>The tools of a chat are bound to the capabilities of its list, none of which it is forbidden to run.\<close>

lemma chat_registry_bound:
  "bound_capabilities (chat_runtime_readonly registry n) \<subseteq> set chat_runtime_provider_tool_capabilities"
  using bind_tools_bound [of "map cd_capability_id registry" "''chat_runtime_readonly''" "Some n"
      "filter (\<lambda>d. cd_capability_id d \<in> set chat_runtime_provider_tool_capabilities) registry" "\<lparr>pg_tools = [], pg_bindings = []\<rparr>"]
  by (auto simp: chat_runtime_readonly_def from_capability_ids_with_limit_def from_capability_descriptors_def
      bound_capabilities_def)

section \<open>Relations the loop keeps\<close>

definition chat_controls :: "string set" where
  "chat_controls = {''chat.answer'', ''chat.clarify'', ''chat.needs_task''}"

locale chat_invariant =
  fixes R :: "chat_turn \<Rightarrow> chat_state \<Rightarrow> chat_state \<Rightarrow> bool" and good :: "chat_turn \<Rightarrow> chat_services \<Rightarrow> bool"
  assumes refl: "reflp (R cv)" and trans: "transp (R cv)"
    and event: "good cv sv \<Longrightarrow> io_keeps (R cv) (chat_append_event (cv_store cv) (cv_thread cv) (cv_container cv) ty p b)"
    and blob: "good cv sv \<Longrightarrow> io_keeps (R cv) (write_chat_blob (cv_store cv) (cv_thread cv) n c)"
    and transcripts: "good cv sv \<Longrightarrow> io_keeps (R cv) (upsert_provider_transcript tr)"
    and reads: "good cv sv \<Longrightarrow> io_keeps (R cv) (chat_read_events (cv_store cv) (cv_thread cv))"
    and kernel: "good cv sv \<Longrightarrow> R cv s (s\<lparr>ch_os := (ch_os s)\<lparr>os_world := w\<rparr>\<rparr>)"
    and executes: "good cv sv \<Longrightarrow> nd_capability_id d \<in> bound_capabilities (cv_registry cv) - chat_controls \<Longrightarrow>
      \<not> chat_forbidden (nd_capability_id d) \<Longrightarrow> io_keeps (R cv) (on_os (hs_execute sv d))"
    and results: "good cv sv \<Longrightarrow> io_keeps (R cv) (on_os (hs_tool_result sv t rc))"
begin

lemmas pure [intro!] = io_keeps_pure [OF refl]
lemmas bind = io_keeps_bind [OF trans]

lemma kernel_step: "good cv sv \<Longrightarrow> io_keeps (R cv) (on_kernel m)"
  by (auto simp: io_keeps_def on_kernel_def on_os_def on_world_def intro: kernel split: prod.split)

lemma event_of: "good cv sv \<Longrightarrow> io_keeps (R cv) (chat_event_of cv ty kvs b)"
  unfolding chat_event_of_def by (auto intro!: bind event)

lemmas steps = bind event_of blob reads kernel_step

lemma ends:
  assumes "good cv sv"
  shows "io_keeps (R cv) (chat_answer_result cv content v)" "io_keeps (R cv) (chat_clarifying_result cv payload v)"
    "io_keeps (R cv) (chat_needs_task_result cv payload v)" "io_keeps (R cv) (chat_failed_result cv sv receipt)"
    "io_keeps (R cv) (chat_loop_exhausted cv v)"
  using assms unfolding chat_loop_exhausted_def chat_answer_result_def chat_clarifying_result_def chat_needs_task_result_def
    chat_failed_result_def turn_result_def Let_def
  by (auto intro!: steps)

lemma result_step: "good cv sv \<Longrightarrow> io_keeps (R cv) (record_chat_result cv receipt place r)"
  unfolding record_chat_result_def by (auto intro!: steps)

lemma skipped: "good cv sv \<Longrightarrow> io_keeps (R cv) (append_skipped cv receipt batch reason index calls)"
  by (induction calls arbitrary: index) (auto simp: Let_def intro!: steps result_step)

lemma skipped_from: "good cv sv \<Longrightarrow> io_keeps (R cv) (skipped_results_from cv receipt batch i reason)"
  unfolding skipped_results_from_def by (rule skipped)

lemma read_only:
  assumes "good cv sv" and "nd_capability_id d \<in> bound_capabilities (cv_registry cv) - chat_controls"
    and "\<not> chat_forbidden (nd_capability_id d)"
  shows "io_keeps (R cv) (read_only_call cv sv receipt place d)"
proof -
  have "io_keeps (R cv) (io_try (on_os (hs_execute sv d)))"
    using executes [OF assms] by (auto simp: io_keeps_def io_try_def split: prod.split) (metis snd_conv)
  with assms(1) show ?thesis
    unfolding read_only_call_def Let_def by (auto intro!: steps result_step results)
qed

text \<open>A step that depends on what decoding gave: the decision is bound in the registry.\<close>

lemma decoded:
  assumes "good cv sv" and "\<And>e. io_keeps (R cv) (f (Inl e))"
    and "\<And>d. nd_capability_id d \<in> bound_capabilities (cv_registry cv) \<Longrightarrow> io_keeps (R cv) (f (Inr d))"
  shows "io_keeps (R cv) (io_bind (on_kernel (decision_for_tool_call cd pe (cv_registry cv) call)) f)"
proof (rule io_keeps_bind_when [OF trans kernel_step [OF assms(1)]])
  show "case y of Inl e \<Rightarrow> True | Inr d \<Rightarrow> nd_capability_id d \<in> bound_capabilities (cv_registry cv)"
    if "on_kernel (decision_for_tool_call cd pe (cv_registry cv) call) s = (Inr y, s')" for s y s'
    using that by (auto simp: on_kernel_def on_os_def on_world_def split: prod.splits sum.splits intro: decision_bound)
  show "io_keeps (R cv) (f y)"
    if "case y of Inl e \<Rightarrow> True | Inr d \<Rightarrow> nd_capability_id d \<in> bound_capabilities (cv_registry cv)" for y
    using that assms(2,3) by (cases y) auto
qed

lemma execute_call: "good cv sv \<Longrightarrow> io_keeps (R cv) (execute_chat_tool_call cv sv receipt place)"
  unfolding execute_chat_tool_call_def Let_def
  by (rule decoded)
    (auto simp: chat_control_execution_def chat_controls_def intro!: steps result_step read_only)

lemma call: "good cv sv \<Longrightarrow> io_keeps (R cv) (handle_chat_call cv sv receipt place v)"
  unfolding handle_chat_call_def Let_def
  by (auto simp: read_budget_ends_batch_def act_on_status_def Let_def
      intro!: steps execute_call skipped_from ends)

lemma calls: "good cv sv \<Longrightarrow> io_keeps (R cv) (handle_chat_calls cv sv receipt batch index cs v)"
  by (induction cs arbitrary: index v) (auto intro!: bind call split: chat_outcome.split)

lemma batch: "good cv sv \<Longrightarrow> io_keeps (R cv) (run_chat_batch cv sv i receipt v)"
  unfolding run_chat_batch_def Let_def
  by (auto simp: chat_batch_refused_def intro!: steps calls skipped_from split: sum.split)

lemma model_call: "good cv sv \<Longrightarrow> io_keeps (R cv) (call_chat_model cv sv i)"
  unfolding call_chat_model_def Let_def sync_chat_provider_transcript_def record_chat_model_receipt_projection_def
  by (auto intro!: steps transcripts split: sum.split option.split prod.split)

lemma subturn: "good cv sv \<Longrightarrow> io_keeps (R cv) (run_chat_subturn cv sv i v)"
  unfolding run_chat_subturn_def Let_def by (auto intro!: steps model_call batch ends)

lemma subturns: "good cv sv \<Longrightarrow> io_keeps (R cv) (run_chat_subturns cv sv left i v)"
  by (induction left arbitrary: i v) (auto intro!: bind subturn ends split: chat_outcome.split)

lemma loop: "good cv sv \<Longrightarrow> io_keeps (R cv) (run_provider_loop cv sv)"
  unfolding run_provider_loop_def by (rule subturns)

end

section \<open>The files of a chat\<close>

definition chat_dir :: "chat_turn \<Rightarrow> path" where
  "chat_dir cv = cs_state_root (cv_store cv) @ [''blobs'', ''chat'', cv_thread cv]"

text \<open>Outside the directory of the chat's blobs only missing directories above it are made.\<close>

definition chat_files_only :: "chat_turn \<Rightarrow> chat_state \<Rightarrow> chat_state \<Rightarrow> bool" where
  "chat_files_only cv s s' \<longleftrightarrow> (\<forall>q. \<not> path_starts_with q (chat_dir cv) \<longrightarrow>
     sees (ch_os s') q = sees (ch_os s) q \<or>
     path_starts_with (chat_dir cv) q \<and> sees (ch_os s) q = None \<and> sees (ch_os s') q = Some Directory)"

definition keeps_sight :: "(os_state, 'a) io \<Rightarrow> bool" where
  "keeps_sight m \<longleftrightarrow> (\<forall>t. sees (snd (m t)) = sees t)"

definition reads_only :: "chat_turn \<Rightarrow> chat_services \<Rightarrow> bool" where
  "reads_only cv sv \<longleftrightarrow> plain_name (cv_thread cv) \<and> bound_capabilities (cv_registry cv) \<subseteq> set chat_runtime_provider_tool_capabilities \<and>
     (\<forall>d. nd_capability_id d \<in> set chat_runtime_provider_tool_capabilities - chat_controls \<longrightarrow> keeps_sight (hs_execute sv d)) \<and>
     (\<forall>turn rc. keeps_sight (hs_tool_result sv turn rc))"

lemma chat_files_refl: "reflp (chat_files_only cv)"
  by (simp add: reflp_def chat_files_only_def)

lemma chat_files_trans: "transp (chat_files_only cv)"
  unfolding transp_def
proof (intro allI impI)
  fix s t u
  assume st: "chat_files_only cv s t" and tu: "chat_files_only cv t u"
  show "chat_files_only cv s u"
    unfolding chat_files_only_def
  proof (intro allI impI)
    fix q
    assume "\<not> path_starts_with q (chat_dir cv)"
    with st tu show "sees (ch_os u) q = sees (ch_os s) q \<or>
        path_starts_with (chat_dir cv) q \<and> sees (ch_os s) q = None \<and> sees (ch_os u) q = Some Directory"
      unfolding chat_files_only_def by (metis option.distinct(1))
  qed
qed

lemma same_sight: "sees (ch_os s') = sees (ch_os s) \<Longrightarrow> chat_files_only cv s s'"
  by (simp add: chat_files_only_def)

lemma keeps_sight_files: "keeps_sight m \<Longrightarrow> io_keeps (chat_files_only cv) (on_os m)"
  by (auto simp: io_keeps_def on_os_def keeps_sight_def intro!: same_sight split: prod.split) (metis snd_conv)

lemma keeps_sight_world: "keeps_sight (on_world m)"
  by (auto simp: keeps_sight_def on_world_def split: prod.split)

lemma files_kernel [simp]: "io_keeps (chat_files_only cv) (on_kernel m)"
  unfolding on_kernel_def by (rule keeps_sight_files [OF keeps_sight_world])

lemmas files_bind = io_keeps_bind [OF chat_files_trans]
lemmas files_pure [intro!] = io_keeps_pure [OF chat_files_refl]

lemma files_put: "(\<And>s. ch_os (f s) = ch_os s) \<Longrightarrow> io_keeps (chat_files_only cv) (put_chat f)"
  by (auto simp: io_keeps_def put_chat_def intro: same_sight)

lemma files_tables:
  "io_keeps (chat_files_only cv) (chat_append_event cs th c ty p b)"
  "io_keeps (chat_files_only cv) (upsert_provider_transcript tr)"
  "io_keeps (chat_files_only cv) (chat_read_events cs th)"
  unfolding chat_append_event_def upsert_provider_transcript_def chat_read_events_def selected_def connect_def statement_def
    next_id_def now_ms_i64_def Let_def
  by (auto intro!: files_bind files_put)

lemma dirs_above:
  assumes "sees t' = with_dirs (chat_dir cv @ r) (sees t) \<or> (\<exists>p x. chat_dir cv = p @ x \<and> sees t' = with_dirs p (sees t))"
    and "\<not> path_starts_with q (chat_dir cv)"
  shows "sees t' q = sees t q \<or> path_starts_with (chat_dir cv) q \<and> sees t q = None \<and> sees t' q = Some Directory"
proof -
  have "path_starts_with (chat_dir cv @ r) q \<Longrightarrow> path_starts_with (chat_dir cv) q"
    using assms(2) by (auto simp: path_starts_with_iff append_eq_append_conv2)
  moreover have "chat_dir cv = p @ x \<Longrightarrow> path_starts_with p q \<Longrightarrow> path_starts_with (chat_dir cv) q" for p x
    by (auto simp: path_starts_with_iff)
  ultimately show ?thesis using assms(1) by (auto simp: with_dirs_def split: if_splits)
qed

lemma files_write:
  "io_keeps (chat_files_only cv) (on_os (fs_write (chat_dir cv @ r) c))"
  unfolding io_keeps_def
proof
  fix s :: chat_state
  let ?p = "chat_dir cv @ r" and ?t = "ch_os s"
  have ne: "?p \<noteq> []" by (simp add: chat_dir_def)
  have "sees (snd (fs_write ?p c ?t)) q = sees ?t q" if "\<not> path_starts_with q (chat_dir cv)" for q
  proof (cases "is_dir (os_tree ?t) ?p \<or> \<not> is_dir (os_tree ?t) (butlast ?p)")
    case True
    then show ?thesis by (auto simp: fs_write_def io_simps)
  next
    case False
    then have parent: "view (os_tree ?t) (butlast ?p) = Some Directory" by (simp add: is_dir_def)
    have "\<not> path_starts_with q ?p" using that by (auto simp: path_starts_with_iff)
    then have "view (alter ?p f (os_tree ?t)) q = sees ?t q" for f by (simp add: view_alter [OF parent ne])
    with False show ?thesis by (auto simp: fs_write_def io_simps tree_op_def Let_def split: prod.split sum.split)
  qed
  then show "chat_files_only cv s (snd (on_os (fs_write ?p c) s))"
    by (auto simp: chat_files_only_def on_os_def split: prod.split)
qed

lemma files_mkdirs:
  assumes "p = chat_dir cv @ r \<or> (\<exists>x. chat_dir cv = p @ x)"
  shows "io_keeps (chat_files_only cv) (on_os (io_bind (fs_create_dir_all p) (\<lambda>_. io_return p)))"
  unfolding io_keeps_def
proof
  fix s :: chat_state
  obtain q t where m: "fs_create_dir_all p (ch_os s) = (q, t)" by force
  have "chat_files_only cv s (s\<lparr>ch_os := t\<rparr>)"
  proof (cases q)
    case (Inl e)
    with m have "sees t = sees (ch_os s)"
      by (auto simp: fs_create_dir_all_def io_bind_def io_get_def io_fail_def put_tree_def on_world_def
          split: prod.splits sum.splits option.splits)
    then show ?thesis by (auto intro: same_sight)
  next
    case (Inr u)
    from create_dir_all_Inr(1) [OF m [unfolded Inr]] have v: "sees t = with_dirs p (sees (ch_os s))" .
    show ?thesis
      unfolding chat_files_only_def using assms v dirs_above [of t cv r "ch_os s"] by fastforce
  qed
  with m show "chat_files_only cv s (snd (on_os (io_bind (fs_create_dir_all p) (\<lambda>_. io_return p)) s))"
    by (cases q) (simp_all add: on_os_def io_bind_def io_return_def)
qed

lemma files_blob:
  assumes "plain_name (cv_thread cv)"
  shows "io_keeps (chat_files_only cv) (write_chat_blob (cv_store cv) (cv_thread cv) n c)"
proof (cases "checked_relative_path n")
  case (Inl e)
  then show ?thesis by (auto simp: write_chat_blob_def)
next
  case (Inr names)
  let ?d = "cs_state_root (cv_store cv) @ butlast ([''blobs'', ''chat'', cv_thread cv] @ names)"
  have bl: "butlast (map Normal ([''blobs'', ''chat'', cv_thread cv] @ names)) = map Normal (butlast ([''blobs'', ''chat'', cv_thread cv] @ names))"
    by (rule map_butlast [symmetric])
  have d: "?d = chat_dir cv @ butlast names \<or> (\<exists>x. chat_dir cv = ?d @ x)"
    by (cases "names = []") (auto simp: chat_dir_def butlast_append)
  have last: "names \<noteq> [] \<Longrightarrow> ?d @ [last names] = chat_dir cv @ names"
    by (simp add: chat_dir_def butlast_append)
  have w: "io_keeps (chat_files_only cv) (on_os (fs_write (?d @ [last names]) c))" if "names \<noteq> []"
    unfolding last [OF that] by (rule files_write)
  have dir: "io_keeps (chat_files_only cv) (io_bind (on_os (io_bind (fs_create_dir_all ?d) (\<lambda>_. io_return ?d))) f)"
    if "io_keeps (chat_files_only cv) (f ?d)" for f :: "path \<Rightarrow> (chat_state, string) io"
    using that by (intro io_keeps_bind_when [where P = "\<lambda>x. x = ?d", OF chat_files_trans files_mkdirs [OF d]])
      (auto simp: on_os_def io_bind_def io_return_def split: prod.splits sum.splits)
  show ?thesis
    unfolding write_chat_blob_def Inr io_bind_lift chat_parts_plain [OF assms] prod.case bl make_path_names
    using w by (intro dir) (auto intro!: files_bind)
qed

text \<open>The relation on the numbers of the events.\<close>

definition chat_numbered :: "chat_turn \<Rightarrow> chat_state \<Rightarrow> chat_state \<Rightarrow> bool" where
  "chat_numbered cv s s' \<longleftrightarrow> (chat_log_ok (ch_events s) \<longrightarrow> chat_log_ok (ch_events s'))"

lemma chat_numbered_refl: "reflp (chat_numbered cv)" and chat_numbered_trans: "transp (chat_numbered cv)"
  by (auto simp: reflp_def transp_def chat_numbered_def)

lemma chat_numbered_same: "io_keeps same_chats m \<Longrightarrow> io_keeps (chat_numbered cv) m"
  by (auto simp: io_keeps_def same_chats_def chat_numbered_def)

lemma chat_numbered_append: "io_keeps (chat_numbered cv) (chat_append_event cs th c ty p b)"
  by (auto simp: io_keeps_def chat_numbered_def) (metis chat_log_ok_append prod.collapse)

lemma chat_numbered_put: "(\<And>s. ch_events (f s) = ch_events s) \<Longrightarrow> io_keeps (chat_numbered cv) (put_chat f)"
  by (simp add: io_keeps_def put_chat_def chat_numbered_def)

lemma chat_numbered_upsert: "io_keeps (chat_numbered cv) (upsert_provider_transcript tr)"
  unfolding upsert_provider_transcript_def statement_def
  by (intro io_keeps_bind [OF chat_numbered_trans] io_keeps_pure [OF chat_numbered_refl] chat_numbered_put)
    (simp_all add: chat_numbered_same)

interpretation numbers: chat_invariant chat_numbered "\<lambda>cv sv. True"
  by unfold_locales
    (auto intro: chat_numbered_refl chat_numbered_trans chat_numbered_append chat_numbered_upsert chat_numbered_same simp: chat_numbered_def)

interpretation files: chat_invariant chat_files_only reads_only
proof
  fix cv
  show "reflp (chat_files_only cv)" "transp (chat_files_only cv)" by (rule chat_files_refl chat_files_trans)+
next
  fix cv sv ty p b n c t rc and d :: next_action_decision and tr :: chat_provider_transcript and s :: chat_state and w
  assume good: "reads_only cv sv"
  show "io_keeps (chat_files_only cv) (chat_append_event (cv_store cv) (cv_thread cv) (cv_container cv) ty p b)"
    "io_keeps (chat_files_only cv) (upsert_provider_transcript tr)"
    "io_keeps (chat_files_only cv) (chat_read_events (cv_store cv) (cv_thread cv))"
    by (rule files_tables)+
  show "io_keeps (chat_files_only cv) (write_chat_blob (cv_store cv) (cv_thread cv) n c)"
    using good by (intro files_blob) (simp add: reads_only_def)
  show "chat_files_only cv s (s\<lparr>ch_os := (ch_os s)\<lparr>os_world := w\<rparr>\<rparr>)" by (rule same_sight) simp
  show "io_keeps (chat_files_only cv) (on_os (hs_tool_result sv t rc))"
    using good by (intro keeps_sight_files) (simp add: reads_only_def)
  assume "nd_capability_id d \<in> bound_capabilities (cv_registry cv) - chat_controls"
  with good show "io_keeps (chat_files_only cv) (on_os (hs_execute sv d))"
    by (intro keeps_sight_files) (auto simp: reads_only_def)
qed

end
