(* ===== verification/Chat_Truth_Claims.thy ===== *)
theory Chat_Truth_Claims
  imports Chat_Laws Os_Witnesses
begin

text \<open>
  The promises of the chat store: events are numbered and read back, blobs are read back under their
  reference, and where a reference can lead outside the chats.
\<close>

section \<open>Runs without faults\<close>

lemma on_kernel_quiet [io_simps]:
  "quiet (ch_os s) \<Longrightarrow> on_kernel sys_op s = (Inr (), s\<lparr>ch_os := tick (ch_os s)\<rparr>)"
  by (simp add: on_kernel_def on_os_def io_simps)

definition clock_read :: "chat_state \<Rightarrow> chat_state" where
  "clock_read s = s\<lparr>ch_os := (ch_os s)\<lparr>os_world := (os_world (ch_os s))\<lparr>w_ticks := Suc (w_ticks (os_world (ch_os s)))\<rparr>\<rparr>\<rparr>"

lemma clock_read_simps [simp]:
  "quiet (ch_os (clock_read s)) = quiet (ch_os s)" "ch_events (clock_read s) = ch_events s"
  "ch_threads (clock_read s) = ch_threads s" "ch_id_counter (clock_read s) = ch_id_counter s"
  by (simp_all add: clock_read_def quiet_def no_faults_def)

lemma on_kernel_now [io_simps]: "on_kernel now_ms s = (Inr (w_clock (os_world (ch_os s)) (w_ticks (os_world (ch_os s)))), clock_read s)"
  by (simp add: on_kernel_def on_os_def on_world_def now_ms_def clock_read_def)

lemmas chat_simps = io_simps selected_def connect_def statement_def next_id_def now_ms_i64_def

lemma selected_quiet: "quiet (ch_os s) \<Longrightarrow> \<exists>s'. selected f s = (Inr (f s'), s') \<and> quiet (ch_os s') \<and> same_chats s s'"
  by (simp add: chat_simps same_chats_def)

lemma chat_read_quiet:
  assumes "quiet (ch_os s)"
  shows "\<exists>s'. chat_read_events cs th s = (all_rows (row_to_event cs) (chat_rows th (ch_events s)), s') \<and> quiet (ch_os s')"
  using assms by (simp add: chat_read_events_def chat_simps)

lemma chat_append_quiet:
  assumes "quiet (ch_os s)" and "\<And>n. ''chat_event_'' @ n \<notin> cw_event_id ` set (ch_events s)"
  shows "\<exists>e s'. chat_append_event cs th c ty d b s = (Inr e, s') \<and> quiet (ch_os s')"
  using assms by (simp add: chat_append_event_def chat_simps Let_def del: image_iff)

section \<open>The history of a thread\<close>

lemma chat_read_Inr:
  "chat_read_events cs th s = (Inr es, s') \<Longrightarrow> all_rows (row_to_event cs) (chat_rows th (ch_events s)) = Inr es"
  by (auto simp: chat_read_events_def io_bind_success io_lift_def dest!: selected_Inr) (simp add: same_chats_def)

lemma all_rows_seq: "all_rows (row_to_event cs) rows = Inr es \<Longrightarrow> map ce_event_seq es = map cw_event_seq rows"
  by (induction rows arbitrary: es) (auto simp: row_to_event_def split: sum.splits option.splits)

lemma chat_row_round_trip:
  "from_str (cs_codec cs) (to_string (cs_codec cs) (ce_payload e)) = Some (ce_payload e) \<Longrightarrow>
     row_to_event cs (event_row_of cs e) = Inr e"
  by (simp add: row_to_event_def event_row_of_def)

text \<open>
  C14: What is recorded in a chat is read back at its end. When an append succeeds, a fault-free read of
  the thread gives the events a read gave before, followed by the new one; the events of the thread carry the numbers
  1, 2, 3, ... in that order, and the histories of the other threads stay as they are.
\<close>

theorem recorded_chat_event_is_read_back:
  assumes "chat_log_ok (ch_events s)"
    and "chat_append_event cs th c ty d b s = (Inr e, s')"
    and "from_str (cs_codec cs) (to_string (cs_codec cs) d) = Some d"
    and "chat_read_events cs th s = (Inr es, s0)"
    and "quiet (ch_os s')"
  shows "fst (chat_read_events cs th s') = Inr (es @ [e]) \<and> ce_payload e = d \<and> ce_event_type e = ty \<and>
    map ce_event_seq (es @ [e]) = [1..<Suc (Suc (length es))] \<and>
    chat_log_ok (ch_events s') \<and>
    (\<forall>other. other \<noteq> th \<longrightarrow> chat_rows other (ch_events s') = chat_rows other (ch_events s))"
proof -
  from assms(2) obtain e' where new: "ch_events s' = ch_events s @ [event_row_of cs e']"
    and e: "ce_chat_thread_id e = th" "ce_payload e = d" "ce_event_type e = ty" and ee: "e' = e"
    by (cases rule: chat_append_cases) auto
  have ok: "chat_log_ok (ch_events s')" by (rule chat_log_ok_append [OF assms(2,1)])
  have rows: "chat_rows th (ch_events s') = chat_rows th (ch_events s) @ [event_row_of cs e]"
    using e(1) by (simp add: chat_rows_ok [OF ok] chat_rows_ok [OF assms(1)]) (simp add: new ee event_row_of_def)
  have others: "other \<noteq> th \<Longrightarrow> chat_rows other (ch_events s') = chat_rows other (ch_events s)" for other
    using e(1) by (simp add: new ee chat_rows_def event_row_of_def)
  have "all_rows (row_to_event cs) (chat_rows th (ch_events s')) = Inr (es @ [e])"
    using assms(3) e(2) by (simp add: rows all_rows_append chat_read_Inr [OF assms(4)] chat_row_round_trip)
  moreover from all_rows_seq [OF this] have "map ce_event_seq (es @ [e]) = [1..<Suc (length (chat_rows th (ch_events s')))]"
    by (simp only: chat_rows_ok [OF ok] chat_log_okD [OF ok])
  moreover have "length (chat_rows th (ch_events s')) = Suc (length es)"
    using length_all_rows [OF chat_read_Inr [OF assms(4)]] rows by simp
  ultimately show ?thesis
    using chat_read_quiet [OF assms(5), of cs th] e ok others by auto
qed

text \<open>A chat store in the demonstration tree, and its first event.\<close>

definition demo_chat :: chat_state where
  "demo_chat = \<lparr>ch_os = demo_os, ch_threads = [], ch_events = [], ch_transcripts = [], ch_id_counter = 1\<rparr>"

definition demo_chats :: chat_store where
  "demo_chats = \<lparr>cs_state_root = [''st''], cs_codec = demo_codec, cs_process = 7\<rparr>"

lemma demo_codec_text: "from_str demo_codec (to_string demo_codec v) = Some v"
  using demo_codec_reads by (simp add: demo_codec_def)

lemma demo_chat_simps [simp]:
  "quiet (ch_os demo_chat)" "ch_events demo_chat = []" "chat_log_ok []" "cs_codec demo_chats = demo_codec"
  by (simp_all add: demo_chat_def demo_quiet chat_log_ok_def demo_chats_def)

theorem recorded_chat_event_is_read_back_witness:
  "\<exists>e s'. chat_append_event demo_chats ''chat_1'' ''c'' ''chat_turn_started'' Null None demo_chat = (Inr e, s') \<and>
     fst (chat_read_events demo_chats ''chat_1'' s') = Inr [e]"
proof -
  obtain e s' where a: "chat_append_event demo_chats ''chat_1'' ''c'' ''chat_turn_started'' Null None demo_chat = (Inr e, s')"
    and q: "quiet (ch_os s')"
    using chat_append_quiet [of demo_chat demo_chats "''chat_1''" "''c''" "''chat_turn_started''" Null None] by auto
  obtain s0 where r: "chat_read_events demo_chats ''chat_1'' demo_chat = (Inr [], s0)"
    using chat_read_quiet [of demo_chat demo_chats "''chat_1''"] by (auto simp: chat_rows_def)
  from recorded_chat_event_is_read_back [OF _ a _ r q] a show ?thesis by (auto simp: demo_codec_text)
qed

section \<open>Blobs\<close>

lemma on_os_Inr: "on_os m s = (Inr x, s') \<longleftrightarrow> (\<exists>t. m (ch_os s) = (Inr x, t) \<and> s' = s\<lparr>ch_os := t\<rparr>)"
  by (auto simp: on_os_def split: prod.split)

lemma checked_names:
  assumes "names \<noteq> []" and "\<forall>p \<in> set names. plain_name p"
  shows "checked_relative_path (join ''/'' names) = Inr names"
proof -
  have "push_names [] (map Normal names) = Some names" by (simp add: push_names_iff)
  then show ?thesis
    using join_plain_nonempty [OF assms] by (simp add: checked_relative_path_def unix_components_join [OF assms] is_absolute_def image_iff)
qed

lemma parse_blob_ref: "CHR ''/'' \<notin> set th \<Longrightarrow> th \<noteq> [] \<Longrightarrow> rel \<noteq> [] \<Longrightarrow>
    parse_chat_blob_ref (''chat_blob://'' @ th @ ''/'' @ rel) = Inr (th, rel)"
proof -
  assume th: "CHR ''/'' \<notin> set th" "th \<noteq> []" "rel \<noteq> []"
  have "strip_prefix (''chat_blob://'' @ th @ ''/'' @ rel) ''chat_blob://'' = Some (th @ ''/'' @ rel)"
    by (simp only: strip_prefix_Some)
  moreover have "split_once CHR ''/'' (th @ ''/'' @ rel) = Some (th, rel)"
  proof -
    have "takeWhile (\<lambda>x. x \<noteq> CHR ''/'') (th @ ''/'' @ rel) = th \<and> dropWhile (\<lambda>x. x \<noteq> CHR ''/'') (th @ ''/'' @ rel) = CHR ''/'' # rel"
      using th(1) by (induction th) auto
    then show ?thesis by (simp add: split_once_def)
  qed
  ultimately show ?thesis using th by (simp add: parse_chat_blob_ref_def)
qed

lemma read_plain_blob:
  assumes "plain_name th" and "names \<noteq> []" and "\<forall>p \<in> set names. plain_name p"
  shows "read_chat_blob_text cs (''chat_blob://'' @ th @ ''/'' @ join ''/'' names) =
     on_os (read_text (cs_state_root cs) (map Normal ([''blobs'', ''chat'', th] @ names)))"
proof -
  have th: "CHR ''/'' \<notin> set th" "th \<noteq> []" using assms(1) by (simp_all add: plain_name_def)
  show ?thesis
    unfolding read_chat_blob_text_def parse_blob_ref [OF th join_plain_nonempty [OF assms(2,3)]]
    using assms(2) by (simp only: io_bind_lift prod.case checked_names [OF assms(2,3)] chat_parts_plain [OF assms(1)] if_False)
qed

lemma read_text_there:
  assumes "follow (os_tree (ch_os s)) start parts = Some p" and "sees (ch_os s) p = Some (Bytes c)"
    and "valid_utf8 c" and "quiet (ch_os s)"
  shows "fst (on_os (read_text start parts) s) = Inr c"
  using assms by (simp add: on_os_def read_text_def fs_read_def io_simps)

definition chat_blob_path :: "chat_store \<Rightarrow> string \<Rightarrow> string list \<Rightarrow> path" where
  "chat_blob_path cs th names = cs_state_root cs @ [''blobs'', ''chat'', th] @ names"

lemma write_plain_blob:
  assumes "plain_name th" and "names \<noteq> []" and "\<forall>p \<in> set names. plain_name p"
  shows "write_chat_blob cs th (join ''/'' names) content =
      io_bind (on_os (io_bind (fs_create_dir_all (butlast (chat_blob_path cs th names))) (\<lambda>_. io_return (butlast (chat_blob_path cs th names))))) (\<lambda>dir.
      io_bind (on_os (fs_write (dir @ [last names]) content)) (\<lambda>_.
      io_return (''chat_blob://'' @ th @ ''/'' @ fwd_slashes (join ''/'' names))))"
proof -
  have bl: "butlast (chat_blob_path cs th names) = cs_state_root cs @ [''blobs'', ''chat'', th] @ butlast names"
    using assms(2) by (simp add: chat_blob_path_def butlast_append)
  have "butlast (map Normal ([''blobs'', ''chat'', th] @ names)) = map Normal ([''blobs'', ''chat'', th] @ butlast names)"
    using assms(2) by (simp add: map_butlast)
  then have mk: "make_path (cs_state_root cs) (butlast (map Normal ([''blobs'', ''chat'', th] @ names))) =
      io_bind (fs_create_dir_all (butlast (chat_blob_path cs th names))) (\<lambda>_. io_return (butlast (chat_blob_path cs th names)))"
    by (simp only: make_path_names bl)
  show ?thesis
    using assms(2) by (simp only: write_chat_blob_def checked_names [OF assms(2,3)] io_bind_lift
        chat_parts_plain [OF assms(1)] prod.case mk if_False)
qed

lemma written_blob:
  assumes "plain_name th" and "names \<noteq> []" and "\<forall>p \<in> set names. plain_name p \<and> CHR 0x5C \<notin> set p"
    and "write_chat_blob cs th (join ''/'' names) content s = (Inr r, s')"
  shows "r = ''chat_blob://'' @ th @ ''/'' @ join ''/'' names"
    and "sees (ch_os s') = (with_dirs (butlast (chat_blob_path cs th names)) (sees (ch_os s)))(chat_blob_path cs th names := Some (Bytes content))"
    and "is_dir (os_tree (ch_os s')) (butlast (chat_blob_path cs th names))"
proof -
  have plain: "\<forall>p \<in> set names. plain_name p" using assms(3) by simp
  have "CHR 0x5C \<notin> set (join ''/'' names)" using assms(3) by (induction names rule: induct_list012) auto
  note f = fwd_slashes_id [OF this]
  have last: "butlast (chat_blob_path cs th names) @ [last names] = chat_blob_path cs th names"
    using assms(2) by (simp add: chat_blob_path_def butlast_append)
  obtain o1 o2 where 1: "fs_create_dir_all (butlast (chat_blob_path cs th names)) (ch_os s) = (Inr (), o1)"
    and 2: "fs_write (chat_blob_path cs th names) content o1 = (Inr (), o2)" and s': "ch_os s' = o2"
    and r: "r = ''chat_blob://'' @ th @ ''/'' @ fwd_slashes (join ''/'' names)"
    using assms(4)
    by (auto simp: write_plain_blob [OF assms(1,2) plain] on_os_Inr io_bind_success io_return_def last)
  from r f show "r = ''chat_blob://'' @ th @ ''/'' @ join ''/'' names" by simp
  show v: "sees (ch_os s') = (with_dirs (butlast (chat_blob_path cs th names)) (sees (ch_os s)))(chat_blob_path cs th names := Some (Bytes content))"
    using create_dir_all_Inr(1) [OF 1] fs_write_Inr [OF 2] by (simp add: s')
  have "butlast (chat_blob_path cs th names) \<noteq> chat_blob_path cs th names" using last by (metis append_self_conv not_Cons_self2)
  then show "is_dir (os_tree (ch_os s')) (butlast (chat_blob_path cs th names))"
    using create_dir_all_Inr(2) [OF 1] fs_write_Inr [OF 2] by (simp add: s' is_dir_def)
qed

text \<open>
  C39: A chat blob is read back under the reference its writing returned. For a thread id and a
  name made of plain path components, without a backslash, a fault-free read gives exactly the content
  written, if it is UTF-8; apart from that one file only missing directories above it have changed.
\<close>

theorem chat_blob_round_trip:
  assumes "plain_name th" and "names \<noteq> []" and "\<forall>p \<in> set names. plain_name p \<and> CHR 0x5C \<notin> set p"
    and "write_chat_blob cs th (join ''/'' names) content s = (Inr r, s')"
    and "valid_utf8 content" and "quiet (ch_os s')"
  shows "fst (read_chat_blob_text cs r s') = Inr content \<and>
    sees (ch_os s') = (with_dirs (butlast (chat_blob_path cs th names)) (sees (ch_os s)))(chat_blob_path cs th names := Some (Bytes content)) \<and>
    ch_events s' = ch_events s \<and> ch_threads s' = ch_threads s"
proof -
  note w = written_blob [OF assms(1-4)]
  have plain: "\<forall>p \<in> set names. plain_name p" using assms(3) by simp
  have th: "CHR ''/'' \<notin> set th" "th \<noteq> []" using assms(1) by (simp_all add: plain_name_def)
  have "follow (os_tree (ch_os s')) (cs_state_root cs) (map Normal ([''blobs'', ''chat'', th] @ names)) = Some (chat_blob_path cs th names)"
    using w(3) by (subst follow_names) (simp_all add: chat_blob_path_def butlast_append)
  moreover have "sees (ch_os s') (chat_blob_path cs th names) = Some (Bytes content)" by (simp add: w(2))
  ultimately have "fst (on_os (read_text (cs_state_root cs) (map Normal ([''blobs'', ''chat'', th] @ names))) s') = Inr content"
    using assms(5,6) by (intro read_text_there)
  then have "fst (read_chat_blob_text cs r s') = Inr content"
    by (simp only: w(1) read_plain_blob [OF assms(1,2) plain])
  with w(2) same_chatsD [OF keeps_write_blob assms(4)] show ?thesis by simp
qed

theorem chat_blob_round_trip_witness:
  "\<exists>r s'. write_chat_blob demo_chats ''chat_1'' ''turns/a.txt'' ''hi'' demo_chat = (Inr r, s') \<and>
     fst (read_chat_blob_text demo_chats r s') = Inr ''hi''"
proof -
  let ?n = "[''turns'', ''a.txt'']"
  have j: "join ''/'' ?n = ''turns/a.txt''" and p: "\<forall>p \<in> set ?n. plain_name p \<and> CHR 0x5C \<notin> set p" "plain_name ''chat_1''"
    by (simp_all add: plain_name_def)
  have bp: "chat_blob_path demo_chats ''chat_1'' ?n = [''st'', ''blobs'', ''chat'', ''chat_1'', ''turns'', ''a.txt'']"
    by (simp add: chat_blob_path_def demo_chats_def)
  let ?d = "[''st'', ''blobs'', ''chat'', ''chat_1'', ''turns'']"
  have c: "clear ([''st''] @ ''blobs'' # [''chat'', ''chat_1'', ''turns'']) (sees demo_os)"
    by (rule clear_new) (simp_all add: demo_sees)
  from gives_create_dir_all [OF demo_quiet c] obtain o1 where 1: "fs_create_dir_all ?d demo_os = (Inr (), o1)" "tree_only demo_os o1"
      "sees o1 = with_dirs ?d (sees demo_os)" by (auto elim: givesE)
  have "gives (fs_write (?d @ [''a.txt'']) ''hi'') o1 () ((sees o1)(?d @ [''a.txt''] := Some (Bytes ''hi'')))"
    using tree_onlyD(1) [OF 1(2)] demo_quiet
    by (intro gives_write) (simp_all add: 1(3) with_dirs_def demo_sees)
  then obtain o2 where 2: "fs_write (?d @ [''a.txt'']) ''hi'' o1 = (Inr (), o2)" "tree_only o1 o2" by (auto elim: givesE)
  have q: "quiet o2" using tree_onlyD(1) [OF 1(2)] tree_onlyD(1) [OF 2(2)] demo_quiet by simp
  obtain r where run: "write_chat_blob demo_chats ''chat_1'' (join ''/'' ?n) ''hi'' demo_chat = (Inr r, demo_chat\<lparr>ch_os := o2\<rparr>)"
    using p 1(1) 2(1) by (simp add: write_plain_blob bp on_os_def io_simps demo_chat_def del: join.simps)
  have "valid_utf8 ''hi''" by code_simp
  from chat_blob_round_trip [OF p(2) _ p(1) run this] q have "fst (read_chat_blob_text demo_chats r (demo_chat\<lparr>ch_os := o2\<rparr>)) = Inr ''hi''"
    by simp
  with run show ?thesis unfolding j by blast
qed

text \<open>
  The thread part of a blob reference is not checked: with \<open>..\<close> for the thread, a reference reads any text file
  below the blobs of the state root, those of every job among them.
\<close>

theorem chat_reference_leaves_the_chats:
  assumes "names \<noteq> []" and "\<forall>p \<in> set names. plain_name p"
    and "sees (ch_os s) (cs_state_root cs @ [''blobs'', ''chat'']) = Some Directory"
    and "sees (ch_os s) (cs_state_root cs @ ''blobs'' # names) = Some (Bytes content)"
    and "valid_utf8 content" and "quiet (ch_os s)"
  shows "fst (read_chat_blob_text cs (''chat_blob://../'' @ join ''/'' names) s) = Inr content"
proof -
  let ?t = "os_tree (ch_os s)" and ?b = "cs_state_root cs @ [''blobs'']"
  have ref: "''chat_blob://../'' @ join ''/'' names = ''chat_blob://'' @ ''..'' @ ''/'' @ join ''/'' names" by simp
  have parse: "parse_chat_blob_ref (''chat_blob://../'' @ join ''/'' names) = Inr (''..'', join ''/'' names)"
    unfolding ref by (rule parse_blob_ref [OF _ _ join_plain_nonempty [OF assms(1,2)]]) simp_all
  have parts: "chat_blob_parts cs ''..'' names = (cs_state_root cs, [Normal ''blobs'', Normal ''chat'', ParentDir] @ map Normal names)"
    by (simp add: chat_blob_parts_def unix_components_def unix_part_def is_absolute_def)
  have dirs: "is_dir ?t (cs_state_root cs)" "is_dir ?t ?b" "is_dir ?t (?b @ [''chat''])"
    using assms(3) view_parent [of ?t "cs_state_root cs" "[''blobs'', ''chat'']"] view_parent [of ?t ?b "[''chat'']"]
    by (simp_all add: is_dir_def)
  have "is_dir ?t (?b @ butlast names)"
    using assms(1,4) view_parent [of ?t "?b @ butlast names" "[last names]"] by (simp add: is_dir_def)
  then have "follow ?t (cs_state_root cs) ([Normal ''blobs'', Normal ''chat'', ParentDir] @ map Normal names) = Some (?b @ names)"
    using dirs follow_names [of ?t ?b names] by (simp add: butlast_append)
  then have "fst (on_os (read_text (cs_state_root cs) ([Normal ''blobs'', Normal ''chat'', ParentDir] @ map Normal names)) s) = Inr content"
    by (rule read_text_there) (use assms(4-6) in simp_all)
  with assms(1) show ?thesis
    by (simp only: read_chat_blob_text_def parse io_bind_lift prod.case checked_names [OF assms(1,2)] parts if_False)
qed

end
