(* ===== verification/Chat_Calls.thy ===== *)
theory Chat_Calls
  imports Chat_Loop_Laws Chat_Truth_Claims Loop_Laws
begin

text \<open>
  What a chat turn may touch and what it answers: it changes no file but the blobs of its chat, and every
  batch of calls it goes on from has been answered completely.
\<close>

section \<open>What a turn runs\<close>

text \<open>The decisions a chat may run, and two executors that agree on them: no step of the loop tells them apart.\<close>

definition chat_may_run :: "next_action_decision \<Rightarrow> bool" where
  "chat_may_run d \<longleftrightarrow> nd_capability_id d \<in> set chat_runtime_provider_tool_capabilities \<and>
     nd_capability_id d \<notin> chat_controls \<and> \<not> chat_forbidden (nd_capability_id d)"

lemma io_bind_on_results:
  "(\<And>s x s'. m s = (Inr x, s') \<Longrightarrow> f x = g x) \<Longrightarrow> io_bind m f = io_bind m g"
  by (auto simp: io_bind_def fun_eq_iff split: prod.splits sum.splits)

lemma decision_runnable:
  assumes "on_kernel (decision_for_tool_call cd pe g call) s = (Inr (Inr d), s')"
    and "bound_capabilities g \<subseteq> set chat_runtime_provider_tool_capabilities"
    and "\<not> chat_forbidden (nd_capability_id d)" and "nd_capability_id d \<notin> chat_controls"
  shows "chat_may_run d"
proof -
  have "nd_capability_id d \<in> bound_capabilities g"
    using assms(1) by (auto simp: on_kernel_def on_os_def on_world_def split: prod.splits intro: decision_bound)
  with assms(2-4) show ?thesis by (auto simp: chat_may_run_def)
qed

text \<open>Services with executors that agree on what a chat may run, for a turn whose tools are the listed ones.\<close>

definition same_executors :: "chat_turn \<Rightarrow> chat_services \<Rightarrow> chat_services \<Rightarrow> bool" where
  "same_executors cv sv sv' \<longleftrightarrow> bound_capabilities (cv_registry cv) \<subseteq> set chat_runtime_provider_tool_capabilities \<and>
     (\<exists>other. sv' = sv\<lparr>hs_execute := other\<rparr> \<and> (\<forall>d. chat_may_run d \<longrightarrow> other d = hs_execute sv d))"

lemma read_only_same:
  "same_executors cv sv sv' \<Longrightarrow> chat_may_run d \<Longrightarrow> read_only_call cv sv' receipt place d = read_only_call cv sv receipt place d"
  by (auto simp: same_executors_def read_only_call_def)

lemma execute_same:
  assumes "same_executors cv sv sv'"
  shows "execute_chat_tool_call cv sv' receipt place = execute_chat_tool_call cv sv receipt place"
proof -
  have pe: "hs_parse_error sv' = hs_parse_error sv" using assms by (auto simp: same_executors_def)
  show ?thesis
    unfolding execute_chat_tool_call_def pe
  proof (rule io_bind_on_results, goal_cases)
    case (1 s decoded s')
    with assms have "read_only_call cv sv' receipt place d = read_only_call cv sv receipt place d"
      if "decoded = Inr d" "\<not> chat_forbidden (nd_capability_id d)" "nd_capability_id d \<notin> chat_controls" for d
      using that by (intro read_only_same decision_runnable) (auto simp: same_executors_def)
    then show ?case by (cases decoded) (auto simp: Let_def chat_controls_def)
  qed
qed

lemma other_steps_same:
  assumes "same_executors cv sv sv'"
  shows "call_chat_model cv sv' i = call_chat_model cv sv i"
    and "chat_failed_result cv sv' = chat_failed_result cv sv"
    and "hs_parse_error sv' = hs_parse_error sv"
  using assms
  by (auto simp: same_executors_def call_chat_model_def record_chat_model_receipt_projection_def chat_failed_result_def
      failure_json_of_def fun_eq_iff cong: option.case_cong)

lemma calls_same:
  assumes "same_executors cv sv sv'"
  shows "handle_chat_calls cv sv' receipt batch index calls v = handle_chat_calls cv sv receipt batch index calls v"
proof (induction calls arbitrary: index v)
  case (Cons call calls)
  then show ?case
    by (simp add: handle_chat_call_def execute_same [OF assms] other_steps_same(3) [OF assms] Cons.IH cong: chat_outcome.case_cong)
qed simp

lemma subturns_same:
  assumes "same_executors cv sv sv'"
  shows "run_chat_subturns cv sv' left i v = run_chat_subturns cv sv left i v"
proof (induction left arbitrary: i v)
  case (Suc left)
  have "run_chat_subturn cv sv' i v = run_chat_subturn cv sv i v" for i v
    by (simp add: run_chat_subturn_def run_chat_batch_def Let_def calls_same [OF assms] other_steps_same [OF assms]
        cong: sum.case_cong if_cong)
  moreover have "run_chat_subturns cv sv' left i = run_chat_subturns cv sv left i" for i
    by (rule ext) (rule Suc.IH)
  ultimately show ?case by simp
qed simp

text \<open>
  C13: A chat turn runs only capabilities of the chat's list that are neither the controls of the chat nor forbidden to
  it (mutations, previews, the terminal, the completion of a process), whatever the model asks for. What the executor
  would do with any other decision has no influence: exchanged for an arbitrary other behaviour there, the
  turn gives the same result and the same state, file tree and logs included, from every state and under every fault.
\<close>

theorem chat_runs_only_listed_capabilities:
  assumes "cv_registry cv = chat_runtime_readonly registry n"
    and "\<forall>d. chat_may_run d \<longrightarrow> other d = hs_execute sv d"
  shows "run_provider_loop cv (sv\<lparr>hs_execute := other\<rparr>) s = run_provider_loop cv sv s"
proof -
  have "same_executors cv sv (sv\<lparr>hs_execute := other\<rparr>)"
    using assms chat_registry_bound by (auto simp: same_executors_def)
  then show ?thesis by (simp add: run_provider_loop_def subturns_same)
qed

section \<open>The files of a turn\<close>

text \<open>
  What the loop itself does to the tree: if the runs of the listed read-only capabilities and the rendering of
  their results leave it alone, a chat turn changes no file outside the directory of the blobs of its own thread,
  whatever the model asks for and whatever system call fails or tears.
\<close>

theorem chat_turn_changes_no_file:
  assumes "plain_name (cv_thread cv)" and "cv_registry cv = chat_runtime_readonly registry n"
    and "\<forall>d. nd_capability_id d \<in> set chat_runtime_provider_tool_capabilities - chat_controls \<longrightarrow> keeps_sight (hs_execute sv d)"
    and "\<forall>turn rc. keeps_sight (hs_tool_result sv turn rc)"
    and "run_provider_loop cv sv s = (r, s')"
    and "\<not> path_starts_with q (chat_dir cv)" and "sees (ch_os s) q \<noteq> None"
  shows "sees (ch_os s') q = sees (ch_os s) q"
proof -
  have "reads_only cv sv"
    using assms(1-4) chat_registry_bound by (auto simp: reads_only_def)
  from io_keepsD [OF files.loop [OF this] assms(5)] assms(6,7) show ?thesis
    by (auto simp: chat_files_only_def)
qed

section \<open>Calls and their results\<close>

definition results_of :: "string \<Rightarrow> world \<Rightarrow> string list" where
  "results_of job w = List.map_filter (\<lambda>e.
     if event_type e = ''provider_tool_result_recorded'' then get_str (data e) ''provider_tool_call_id'' else None) (log_of w job)"

lemma results_appended: "appended P job w w' \<Longrightarrow> \<not> P ''provider_tool_result_recorded'' \<Longrightarrow> results_of job w' = results_of job w"
proof -
  assume "appended P job w w'" and P: "\<not> P ''provider_tool_result_recorded''"
  then obtain es where es: "log_of w' job = log_of w job @ es" "list_all (\<lambda>e. P (event_type e)) es"
    by (auto simp: appended_def)
  have "List.map_filter (\<lambda>e. if event_type e = ''provider_tool_result_recorded'' then get_str (data e) ''provider_tool_call_id'' else None) es = []"
    using es(2) P by (induction es) (auto simp: List.map_filter_simps)
  with es(1) show "results_of job w' = results_of job w"
    by (simp add: results_of_def List.map_filter_def)
qed

lemma results_calm: "adds calm job m \<Longrightarrow> m w = (r, w') \<Longrightarrow> results_of job w' = results_of job w"
  by (rule results_appended [of calm]) (auto dest: io_keepsD simp: calm_def)

lemma results_event:
  assumes "append_event job pid ''provider_tool_result_recorded'' d w = (Inr e, w')"
    and "get_str d ''provider_tool_call_id'' = Some i"
  shows "results_of job w' = results_of job w @ [i]"
  using truth.add_ok [OF assms(1)] assms(2) by (simp add: results_of_def List.map_filter_def)

lemma results_recorded:
  assumes "record_provider_tool_result_with_metadata cd job pid p q call_id result md w = (Inr res, w')"
  shows "results_of job w' = results_of job w @ [call_id]"
  using assms unfolding record_provider_tool_result_with_metadata_def Let_def
proof (elim io_bindE, goal_cases)
  case (1 replayed w1)
  then obtain previous where p: "replayed = Some previous" by (cases replayed) (auto simp: io_fail_apply)
  have listed: "(\<not> list_ex (\<lambda>item. ts_provider_tool_call_id item = call_id) (pt_pending_tool_calls previous)) = False"
    using 1(2) by (auto simp: p io_fail_apply split: if_splits)
  have c1: "results_of job w1 = results_of job w" by (rule results_calm [OF adds_transcript(1) 1(1)])
  from 1(2) [unfolded p option.case listed if_False] show ?case
  proof (elim io_bindE, goal_cases)
    case (1 old w2 tref w3 st w4)
    obtain ms mref c where st: "st = (ms, mref, c)" by (cases st)
    have c2: "results_of job w4 = results_of job w1"
      using results_calm [OF adds_transcript(2) 1(1), of job] results_calm [OF adds_write_blob 1(2), of job]
        results_calm [OF calm_store 1(3), of job] by simp
    from 1(4) [unfolded st prod.case] show ?case
    proof (elim io_bindE, goal_cases)
      case (1 sref w5 e1 w6 e2 w7)
      have "results_of job w5 = results_of job w4" by (rule results_calm [OF adds_transcript(3) 1(1)])
      moreover have "results_of job w6 = results_of job w5 @ [call_id]"
        by (rule results_event [OF 1(2)]) simp
      moreover have "results_of job w7 = results_of job w6"
        by (rule results_calm [OF adds_append 1(3)]) (simp add: calm_def)
      moreover from 1(4) have "w' = w7" by (simp add: io_return_apply)
      ultimately show ?case using c1 c2 by simp
    qed
  qed
qed

text \<open>The results recorded in the log of a turn, and a step that records a list of results when it succeeds.\<close>

definition answered_ids :: "chat_turn \<Rightarrow> chat_state \<Rightarrow> string list" where
  "answered_ids cv s = results_of (cv_truth cv) (os_world (ch_os s))"

definition answers :: "chat_turn \<Rightarrow> string list \<Rightarrow> (chat_state, 'a) io \<Rightarrow> bool" where
  "answers cv ids m \<longleftrightarrow> (\<forall>s x s'. m s = (Inr x, s') \<longrightarrow> answered_ids cv s' = answered_ids cv s @ ids)"

lemma answersD: "answers cv ids m \<Longrightarrow> m s = (Inr x, s') \<Longrightarrow> answered_ids cv s' = answered_ids cv s @ ids"
  unfolding answers_def by blast

lemma answers_bind: "answers cv a m \<Longrightarrow> (\<And>x. answers cv b (f x)) \<Longrightarrow> answers cv (a @ b) (io_bind m f)"
  unfolding answers_def io_bind_success by (metis append.assoc)

lemma answers_then: "answers cv [] m \<Longrightarrow> (\<And>x. answers cv b (f x)) \<Longrightarrow> answers cv b (io_bind m f)"
  using answers_bind [of cv "[]" m b f] by simp

lemma answers_pure [intro!]: "answers cv [] (io_return x)" "answers cv ids (io_fail e)" "answers cv [] io_get"
  by (auto simp: answers_def io_return_def io_fail_def io_get_def)

lemma answers_kernel: "adds calm (cv_truth cv) m \<Longrightarrow> answers cv [] (on_kernel m)"
  by (auto simp: answers_def answered_ids_def on_kernel_def on_os_def on_world_def dest: results_calm split: prod.splits)

lemma answers_put: "(\<And>s. ch_os (f s) = ch_os s) \<Longrightarrow> answers cv [] (put_chat f)"
  by (auto simp: answers_def answered_ids_def put_chat_def)

lemma answers_tables: "answers cv [] (chat_append_event cs th c ty p b)" "answers cv [] (chat_read_events cs th)"
  unfolding chat_append_event_def chat_read_events_def selected_def connect_def statement_def next_id_def now_ms_i64_def Let_def
  by (auto intro!: answers_then answers_kernel answers_put) (auto simp: answers_def io_lift_def)

lemma answers_event: "answers cv [] (chat_event_of cv ty kvs b)"
  unfolding chat_event_of_def by (auto intro!: answers_then answers_tables)

lemma answers_result: "answers cv [tc_id (cp_call place)] (record_chat_result cv receipt place r)"
proof -
  have "answers cv [tc_id (cp_call place)] (on_kernel (record_provider_tool_result_with_metadata cd (cv_truth cv) pid p q
      (tc_id (cp_call place)) r md))" for cd pid p q md
    by (auto simp: answers_def answered_ids_def on_kernel_def on_os_def on_world_def dest: results_recorded split: prod.splits)
  from answers_bind [OF this answers_pure(1)] show ?thesis by (simp add: record_chat_result_def)
qed

text \<open>What follows a recorded result in an operation adds none.\<close>

lemma answers_first: "answers cv ids m \<Longrightarrow> (\<And>x. answers cv [] (f x)) \<Longrightarrow> answers cv ids (io_bind m f)"
  using answers_bind [of cv ids m "[]" f] by simp

lemmas answers_rules = answers_result answers_event answers_tables

lemma answers_skipped: "answers cv (map tc_id calls) (append_skipped cv receipt batch reason index calls)"
proof (induction calls arbitrary: index)
  case (Cons call calls)
  let ?p = "\<lparr>cp_batch = batch, cp_index = index, cp_call = call\<rparr>"
  have "answers cv ([tc_id (cp_call ?p)] @ map tc_id calls) (append_skipped cv receipt batch reason index (call # calls))"
    unfolding append_skipped.simps Let_def
    by (rule answers_bind [OF answers_result]) (intro answers_then [OF answers_event] answers_first [OF Cons.IH] answers_pure)
  then show ?case by simp
qed auto

text \<open>The executor and the rendering of its receipts record no results of their own.\<close>

definition quiet_services :: "chat_turn \<Rightarrow> chat_services \<Rightarrow> bool" where
  "quiet_services cv sv \<longleftrightarrow>
     (\<forall>d t. results_of (cv_truth cv) (os_world (snd (hs_execute sv d t))) = results_of (cv_truth cv) (os_world t)) \<and>
     (\<forall>turn rc t. results_of (cv_truth cv) (os_world (snd (hs_tool_result sv turn rc t))) = results_of (cv_truth cv) (os_world t))"

lemma answers_services:
  assumes "quiet_services cv sv"
  shows "answers cv [] (io_try (on_os (hs_execute sv d)))" "answers cv [] (on_os (hs_tool_result sv turn rc))"
  using assms unfolding quiet_services_def answers_def answered_ids_def
  by (auto simp: io_try_def on_os_def split: prod.splits) (metis snd_conv)+

lemma answers_decoding: "answers cv [] (on_kernel (decision_for_tool_call cd pe g call))"
  by (rule answers_kernel) (auto simp: decision_for_tool_call_def intro!: adds_bind split: sum.split option.split)

lemma answers_execution:
  assumes "quiet_services cv sv"
  shows "answers cv [tc_id (cp_call place)] (execute_chat_tool_call cv sv receipt place)"
  unfolding execute_chat_tool_call_def Let_def chat_control_execution_def read_only_call_def
  by (rule answers_then [OF answers_decoding])
    (auto intro!: answers_first [OF answers_result] answers_then [OF answers_services(1) [OF assms]]
      answers_then [OF answers_services(2) [OF assms]] answers_then [OF answers_event] answers_event split: sum.split)

lemma execution_status:
  assumes "execute_chat_tool_call cv sv receipt place s = (Inr x, s')"
  shows "xe_status x \<in> {LsContinue, LsAnswered, LsClarifying, LsNeedsTask}"
  using assms unfolding execute_chat_tool_call_def Let_def chat_control_execution_def read_only_call_def
  by (auto simp: io_return_def execution_def elim!: io_bindE split: sum.splits if_splits)

text \<open>What a handled call has recorded, by how it ends.\<close>

definition answered_by :: "chat_turn \<Rightarrow> provider_tool_call list \<Rightarrow> chat_outcome \<Rightarrow> chat_state \<Rightarrow> chat_state \<Rightarrow> bool" where
  "answered_by cv calls out s s' \<longleftrightarrow> (case out of
     ChatNextSubturn v \<Rightarrow> answered_ids cv s' = answered_ids cv s @ map tc_id calls
   | ChatReturns r \<Rightarrow> \<exists>k. 0 < k \<and> k \<le> length calls \<and> answered_ids cv s' = answered_ids cv s @ map tc_id (take k calls)
   | ChatNextCall v \<Rightarrow> False)"

definition same_log :: "os_state \<Rightarrow> os_state \<Rightarrow> bool" where
  "same_log t t' \<longleftrightarrow> w_events (os_world t') = w_events (os_world t)"

lemma same_log_refl: "reflp same_log" and same_log_trans: "transp same_log"
  by (auto simp: reflp_def transp_def same_log_def)

lemma same_log_answers: "io_keeps same_log m \<Longrightarrow> answers cv [] (on_os m)"
  by (auto simp: answers_def answered_ids_def on_os_def results_of_def same_log_def dest!: io_keepsD split: prod.splits)

lemma same_log_sys: "io_keeps same_log (on_world sys_op)"
  by (auto simp: io_keeps_def on_world_def sys_op_def same_log_def Let_def)

lemma same_log_mkdirs: "io_keeps same_log (fs_create_dir_all p)"
  unfolding fs_create_dir_all_def
  by (auto intro!: io_keeps_bind [OF same_log_trans] io_keeps_pure [OF same_log_refl] same_log_sys split: option.split)
    (auto simp: io_keeps_def put_tree_def same_log_def)

lemma same_log_path: "io_keeps same_log (make_path p cs)"
  by (induction p cs rule: make_path.induct)
    (auto intro!: io_keeps_bind [OF same_log_trans] io_keeps_pure [OF same_log_refl] same_log_mkdirs)

lemma same_log_write: "io_keeps same_log (fs_write p c)"
  unfolding fs_write_def
  by (auto intro!: io_keeps_bind [OF same_log_trans] io_keeps_pure [OF same_log_refl])
    (auto simp: io_keeps_def tree_op_def same_log_def sys_op_def Let_def)

lemma answers_lift: "answers cv [] (io_lift r)"
  by (auto simp: answers_def io_lift_def)

lemmas answers_path = same_log_answers [OF same_log_path]
lemmas answers_write = same_log_answers [OF same_log_write]

lemma answers_ends:
  "answers cv [] (chat_answer_result cv content v)" "answers cv [] (chat_clarifying_result cv payload v)"
  "answers cv [] (chat_needs_task_result cv payload v)"
proof -
  have "answers cv [] (write_chat_blob cs th n c)" for cs th n c
    unfolding write_chat_blob_def by (auto intro!: answers_then answers_lift answers_path answers_write split: prod.split)
  then show "answers cv [] (chat_answer_result cv content v)" "answers cv [] (chat_clarifying_result cv payload v)"
    "answers cv [] (chat_needs_task_result cv payload v)"
    unfolding chat_answer_result_def chat_clarifying_result_def chat_needs_task_result_def turn_result_def Let_def
    by (auto intro!: answers_then answers_event answers_tables)
qed

text \<open>One call: the last of its batch to be answered, unless the next one follows.\<close>

lemma act_on_status_outcome:
  assumes "act_on_status cv x v s = (Inr out, s')" and "xe_status x \<in> {LsContinue, LsAnswered, LsClarifying, LsNeedsTask}"
  shows "answered_ids cv s' = answered_ids cv s \<and> (out = ChatNextCall v \<and> s' = s \<or> (\<exists>r. out = ChatReturns r))"
  using assms unfolding act_on_status_def Let_def
  by (auto simp: io_return_def elim!: io_bindE dest: answersD [OF answers_ends(1)] answersD [OF answers_ends(2)]
      answersD [OF answers_ends(3)] split: if_splits)

lemma handled_call:
  assumes "quiet_services cv sv" and "handle_chat_call cv sv receipt place v s = (Inr out, s')"
    and "mcr_provider_tool_calls receipt = before @ cp_call place # rest" and "cp_index place = length before"
  shows "case out of
      ChatNextCall v' \<Rightarrow> answered_ids cv s' = answered_ids cv s @ [tc_id (cp_call place)]
    | ChatNextSubturn v' \<Rightarrow> answered_ids cv s' = answered_ids cv s @ map tc_id (cp_call place # rest)
    | ChatReturns r \<Rightarrow> answered_ids cv s' = answered_ids cv s @ [tc_id (cp_call place)]"
  using assms(2) unfolding handle_chat_call_def Let_def
proof (elim io_bindE, goal_cases)
  case (1 dec s1 u s2 x s3 u' s4)
  have a: "answered_ids cv s4 = answered_ids cv s @ [tc_id (cp_call place)]"
    using answersD [OF answers_decoding 1(1)] answersD [OF answers_event 1(2)]
      answersD [OF answers_execution [OF assms(1)] 1(3)] answersD [OF answers_event 1(4)] by simp
  show ?case
  proof (cases "read_budget_exceeded cv (after_execution x v)")
    case True
    have "drop (Suc (length before)) (mcr_provider_tool_calls receipt) = rest" by (simp add: assms(3))
    then have sk: "answers cv (map tc_id rest) (skipped_results_from cv receipt batch (Suc (cp_index place)) reason)" for batch reason
      using answers_skipped [of cv rest] by (simp add: skipped_results_from_def assms(4))
    have "answers cv (map tc_id rest) (read_budget_ends_batch cv receipt place (after_execution x v))"
      unfolding read_budget_ends_batch_def by (intro answers_first [OF sk] answers_then [OF answers_event] answers_pure)
    moreover have "out = ChatNextSubturn (after_execution x v)"
      using 1(5) True by (auto simp: read_budget_ends_batch_def io_return_def elim!: io_bindE)
    ultimately show ?thesis using 1(5) True a by (auto dest: answersD)
  next
    case False
    with 1(5) have "act_on_status cv x (after_execution x v) s4 = (Inr out, s')" by simp
    from act_on_status_outcome [OF this execution_status [OF 1(3)]] a show ?thesis by auto
  qed
qed

lemma handled_calls:
  assumes "quiet_services cv sv" and "handle_chat_calls cv sv receipt batch index calls v s = (Inr out, s')"
    and "mcr_provider_tool_calls receipt = before @ calls" and "index = length before"
  shows "answered_by cv calls out s s'"
  using assms(2-4)
proof (induction calls arbitrary: index before v s)
  case Nil
  then show ?case by (auto simp: io_return_def answered_by_def)
next
  case (Cons call calls)
  let ?p = "\<lparr>cp_batch = batch, cp_index = index, cp_call = call\<rparr>"
  from Cons.prems(1) obtain o1 s1 where 1: "handle_chat_call cv sv receipt ?p v s = (Inr o1, s1)"
    and 2: "(case o1 of ChatNextCall v' \<Rightarrow> handle_chat_calls cv sv receipt batch (Suc index) calls v' | _ \<Rightarrow> io_return o1) s1 = (Inr out, s')"
    by (auto elim: io_bindE)
  note h = handled_call [OF assms(1) 1, of before calls]
  show ?case
  proof (cases o1)
    case (ChatNextCall v')
    with 2 Cons.IH [of "Suc index" v' s1 "before @ [call]"] Cons.prems(2,3) have "answered_by cv calls out s1 s'" by simp
    with h Cons.prems(2,3) ChatNextCall show ?thesis
      by (auto simp: answered_by_def split: chat_outcome.splits)
  next
    case (ChatNextSubturn v')
    with 2 h Cons.prems(2,3) show ?thesis by (auto simp: answered_by_def io_return_def)
  next
    case (ChatReturns r)
    with 2 h Cons.prems(2,3) show ?thesis
      by (auto simp: answered_by_def io_return_def intro!: exI [of _ 1])
  qed
qed

text \<open>
  C12: A chat turn answers the calls of the model in order, each once. A batch the turn goes on from
  has one recorded result for every call: its own, or the note that it was skipped by the budget of calls or of what was
  read. When a call ends the turn, the calls up to that one are answered, and no later one.
\<close>

theorem every_chat_call_answered:
  assumes "quiet_services cv sv"
    and "run_chat_batch cv sv subturn_index receipt v s = (Inr out, s')"
  shows "answered_by cv (mcr_provider_tool_calls receipt) out s s'"
proof (cases "begin_subturn (hv_exec v) RkChat True (mcr_model_call_id receipt) subturn_index (mcr_provider_tool_calls receipt)")
  case (Inl e)
  have sk: "answers cv (map tc_id (mcr_provider_tool_calls receipt)) (skipped_results_from cv receipt batch 0 reason)" for batch reason
    using answers_skipped by (simp add: skipped_results_from_def)
  have b: "answers cv (map tc_id (mcr_provider_tool_calls receipt)) (chat_batch_refused cv receipt batch e)" for batch
    unfolding chat_batch_refused_def by (intro answers_first [OF sk] answers_event)
  from assms(2) Inl show ?thesis
    by (auto simp: run_chat_batch_def Let_def io_return_def answered_by_def elim!: io_bindE dest: answersD [OF b])
next
  case (Inr sub)
  with assms(2) obtain u s1 where 1: "chat_event_of cv ''chat_provider_tool_subturn_started'' [(''subturn'', subturn_json sub)] None s = (Inr u, s1)"
    and 2: "handle_chat_calls cv sv receipt (batch_id (mcr_model_call_id receipt) subturn_index) 0 (mcr_provider_tool_calls receipt) v s1 = (Inr out, s')"
    by (auto simp: run_chat_batch_def Let_def elim!: io_bindE)
  from handled_calls [OF assms(1) 2, of "[]"] answersD [OF answers_event 1] show ?thesis
    by (simp add: answered_by_def split: chat_outcome.splits)
qed

end
