(* ===== verification/Chat_Claims.thy ===== *)
theory Chat_Claims
  imports Chat_Calls
begin

text \<open>
  How a chat turn ends: with the event that fits its status and with its answer stored, and what the budget
  of its reads does to an answer.
\<close>

section \<open>The end of a turn\<close>

fun end_event :: "chat_turn_status \<Rightarrow> string" where
  "end_event CtAnswered = ''chat_assistant_answered''"
| "end_event CtClarifying = ''chat_clarification_requested''"
| "end_event CtNeedsTask = ''chat_needs_task_suggested''"
| "end_event _ = ''chat_turn_failed''"

text \<open>The stored answer of a turn.\<close>

definition answer_path :: "chat_turn \<Rightarrow> path" where
  "answer_path cv = chat_blob_path (cv_store cv) (cv_thread cv) [''turns'', cv_turn_id cv @ ''_assistant.txt'']"

definition ended :: "chat_turn \<Rightarrow> chat_turn_result \<Rightarrow> chat_state \<Rightarrow> bool" where
  "ended cv r s \<longleftrightarrow> cu_status r \<noteq> CtBlocked \<and> cu_events r \<noteq> [] \<and>
     ce_event_type (last (cu_events r)) = end_event (cu_status r) \<and> ce_chat_thread_id (last (cu_events r)) = cv_thread cv \<and>
     (cu_status r = CtAnswered \<longrightarrow>
       (\<exists>c. cu_assistant_content r = Some c \<and> sees (ch_os s) (answer_path cv) = Some (Bytes c)))"

lemma same_tree_tables:
  "io_keeps (\<lambda>s s'. os_tree (ch_os s') = os_tree (ch_os s)) (chat_append_event cs th c ty p b)"
  "io_keeps (\<lambda>s s'. os_tree (ch_os s') = os_tree (ch_os s)) (chat_read_events cs th)"
proof -
  let ?R = "\<lambda>s s'. os_tree (ch_os s') = os_tree (ch_os s)"
  have r: "reflp ?R" "transp ?R" by (auto simp: reflp_def transp_def)
  have k: "io_keeps ?R (on_kernel m)" for m :: "(world, 'z) io"
    by (auto simp: io_keeps_def on_kernel_def on_os_def on_world_def split: prod.split)
  have p: "(\<And>s. ch_os (f s) = ch_os s) \<Longrightarrow> io_keeps ?R (put_chat f)" for f
    by (simp add: io_keeps_def put_chat_def)
  show "io_keeps ?R (chat_append_event cs th c ty p b)" "io_keeps ?R (chat_read_events cs th)"
    unfolding chat_append_event_def chat_read_events_def selected_def connect_def statement_def next_id_def now_ms_i64_def Let_def
    by (auto intro!: io_keeps_bind [OF r(2)] io_keeps_pure [OF r(1)] k p)
qed

text \<open>An event, and the read of the thread that follows it.\<close>

lemma event_then_result:
  assumes "io_bind (chat_event_of cv ty kvs b) (\<lambda>_. turn_result cv st content task cited refs) s = (Inr r, s')"
    and "chat_log_ok (ch_events s)"
  shows "cu_status r = st \<and> cu_assistant_content r = content \<and> os_tree (ch_os s') = os_tree (ch_os s) \<and>
    cu_events r \<noteq> [] \<and> ce_event_type (last (cu_events r)) = ty \<and> ce_chat_thread_id (last (cu_events r)) = cv_thread cv"
proof -
  from assms(1) obtain e s1 es where 1: "chat_append_event (cv_store cv) (cv_thread cv) (cv_container cv) ty (chat_fields cv kvs) b s = (Inr e, s1)"
    and 2: "chat_read_events (cv_store cv) (cv_thread cv) s1 = (Inr es, s')"
    and r: "cu_status r = st" "cu_assistant_content r = content" "cu_events r = es"
    by (auto simp: chat_event_of_def turn_result_def io_return_def elim!: io_bindE)
  from 1 obtain e' where new: "ch_events s1 = ch_events s @ [event_row_of (cv_store cv) e']"
    and e: "ce_chat_thread_id e' = cv_thread cv" "ce_event_type e' = ty"
    by (cases rule: chat_append_cases) auto
  have ok: "chat_log_ok (ch_events s1)" by (rule chat_log_ok_append [OF 1 assms(2)])
  have rows: "chat_rows (cv_thread cv) (ch_events s1) =
      filter (\<lambda>r. cw_chat_thread_id r = cv_thread cv) (ch_events s) @ [event_row_of (cv_store cv) e']"
    unfolding chat_rows_ok [OF ok] using e(1) by (simp add: new event_row_of_def)
  from chat_read_Inr [OF 2] obtain us u where es: "es = us @ [u]" and u: "row_to_event (cv_store cv) (event_row_of (cv_store cv) e') = Inr u"
    by (auto simp: rows all_rows_append split: sum.splits)
  from u e have "ce_event_type u = ty" "ce_chat_thread_id u = cv_thread cv"
    by (auto simp: row_to_event_def event_row_of_def split: option.splits)
  with es r io_keepsD [OF same_tree_tables(1) 1] io_keepsD [OF same_tree_tables(2) 2] show ?thesis by simp
qed

lemma answer_ends:
  assumes "chat_answer_result cv content v s = (Inr r, s')" and "chat_log_ok (ch_events s)"
    and "plain_name (cv_thread cv)" and "plain_name (cv_turn_id cv @ ''_assistant.txt'')" and "CHR 0x5C \<notin> set (cv_turn_id cv)"
  shows "ended cv r s'"
proof -
  let ?n = "[''turns'', cv_turn_id cv @ ''_assistant.txt'']"
  have j: "''turns/'' @ cv_turn_id cv @ ''_assistant.txt'' = join ''/'' ?n" by simp
  have p: "?n \<noteq> []" "\<forall>p \<in> set ?n. plain_name p \<and> CHR 0x5C \<notin> set p"
    using assms(4,5) by (simp_all add: plain_name_def)
  from assms(1) obtain ref s1 where 1: "write_chat_blob (cv_store cv) (cv_thread cv) (join ''/'' ?n) content s = (Inr ref, s1)"
    and 2: "io_bind (chat_event_of cv ''chat_assistant_answered''
       [(''assistant_content_ref'', JString ref), (''cited_refs'', jstrings (hv_cited_refs v)),
        (''tool_receipt_refs'', jstrings (hv_tool_receipt_refs v)), (''model_call_ids'', model_call_ids v),
        (''provider_tool_execution_count'', jnat (length (hv_executions v)))] None)
       (\<lambda>_. turn_result cv CtAnswered (Some content) None (hv_cited_refs v) (hv_tool_receipt_refs v)) s1 = (Inr r, s')"
    unfolding chat_answer_result_def j by (rule io_bindE)
  have ok: "chat_log_ok (ch_events s1)" using same_chatsD [OF keeps_write_blob 1] assms(2) by simp
  from event_then_result [OF 2 ok] written_blob(2) [OF assms(3) p 1] show ?thesis
    by (simp add: ended_def answer_path_def)
qed

lemma other_ends:
  assumes "chat_log_ok (ch_events s)"
  shows "chat_clarifying_result cv payload v s = (Inr r, s') \<Longrightarrow> ended cv r s'"
    "chat_needs_task_result cv payload v s = (Inr r, s') \<Longrightarrow> ended cv r s'"
    "chat_failed_result cv sv receipt s = (Inr r, s') \<Longrightarrow> ended cv r s'"
  unfolding chat_clarifying_result_def chat_needs_task_result_def chat_failed_result_def Let_def
  by (drule event_then_result [OF _ assms]; simp add: ended_def)+

text \<open>A step that ends the turn only with a result that fits its history.\<close>

definition ends_turn :: "chat_turn \<Rightarrow> (chat_state, chat_turn_result) io \<Rightarrow> bool" where
  "ends_turn cv m \<longleftrightarrow> (\<forall>s r s'. chat_log_ok (ch_events s) \<longrightarrow> m s = (Inr r, s') \<longrightarrow> ended cv r s')"

definition ends_well :: "chat_turn \<Rightarrow> (chat_state, chat_outcome) io \<Rightarrow> bool" where
  "ends_well cv m \<longleftrightarrow> (\<forall>s r s'. chat_log_ok (ch_events s) \<longrightarrow> m s = (Inr (ChatReturns r), s') \<longrightarrow> ended cv r s')"

lemma chat_numbered_step: "io_keeps (chat_numbered cv) m \<Longrightarrow> m s = (q, s') \<Longrightarrow> chat_log_ok (ch_events s) \<Longrightarrow> chat_log_ok (ch_events s')"
  by (auto dest: io_keepsD simp: chat_numbered_def)

lemma ends_turn_bind: "io_keeps (chat_numbered cv) m \<Longrightarrow> (\<And>x. ends_turn cv (f x)) \<Longrightarrow> ends_turn cv (io_bind m f)"
  unfolding ends_turn_def io_bind_success by (metis chat_numbered_step)

lemma ends_well_bind: "io_keeps (chat_numbered cv) m \<Longrightarrow> (\<And>x. ends_well cv (f x)) \<Longrightarrow> ends_well cv (io_bind m f)"
  unfolding ends_well_def io_bind_success by (metis chat_numbered_step)

lemma ends_well_next: "(\<And>r. out \<noteq> ChatReturns r) \<Longrightarrow> ends_well cv (io_return out)"
  by (auto simp: ends_well_def io_return_def)

lemma ends_well_ends: "ends_turn cv m \<Longrightarrow> ends_well cv (io_bind m (\<lambda>r. io_return (ChatReturns r)))"
  by (auto simp: ends_turn_def ends_well_def io_bind_success io_return_def)

text \<open>An operation that goes on after some outcomes and returns the others.\<close>

lemma ends_well_after:
  assumes "io_keeps (chat_numbered cv) m" and "ends_well cv m" and "\<And>r. f (ChatReturns r) = io_return (ChatReturns r)"
    and "\<And>out. (\<And>r. out \<noteq> ChatReturns r) \<Longrightarrow> ends_well cv (f out)"
  shows "ends_well cv (io_bind m f)"
  unfolding ends_well_def io_bind_success
proof (intro allI impI, elim exE conjE)
  fix s r s' out s1
  assume ok: "chat_log_ok (ch_events s)" and 1: "m s = (Inr out, s1)" and 2: "f out s1 = (Inr (ChatReturns r), s')"
  show "ended cv r s'"
  proof (cases "\<exists>r'. out = ChatReturns r'")
    case True
    with 1 2 assms(2) ok show ?thesis by (auto simp: assms(3) io_return_def ends_well_def)
  next
    case False
    with assms(4) [of out] chat_numbered_step [OF assms(1) 1 ok] 2 show ?thesis by (auto simp: ends_well_def)
  qed
qed

definition plain_turn :: "chat_turn \<Rightarrow> bool" where
  "plain_turn cv \<longleftrightarrow> plain_name (cv_thread cv) \<and> plain_name (cv_turn_id cv @ ''_assistant.txt'') \<and> CHR 0x5C \<notin> set (cv_turn_id cv)"

lemma ends_of_turn:
  "plain_turn cv \<Longrightarrow> ends_turn cv (chat_answer_result cv content v)"
  "ends_turn cv (chat_clarifying_result cv payload v)" "ends_turn cv (chat_needs_task_result cv payload v)"
  "ends_turn cv (chat_failed_result cv sv receipt)"
  by (simp_all add: ends_turn_def plain_turn_def answer_ends other_ends)

lemma act_on_status_ends: "plain_turn cv \<Longrightarrow> ends_well cv (act_on_status cv x v)"
  unfolding act_on_status_def Let_def
  by (auto intro!: ends_well_ends ends_of_turn ends_well_next ends_well_bind numbers.event_of)

lemma handle_chat_call_ends: "plain_turn cv \<Longrightarrow> ends_well cv (handle_chat_call cv sv receipt place v)"
  unfolding handle_chat_call_def Let_def read_budget_ends_batch_def
  by (auto intro!: ends_well_bind numbers.kernel_step numbers.event_of numbers.execute_call numbers.skipped_from
      act_on_status_ends ends_well_next)

lemma handle_chat_calls_ends: "plain_turn cv \<Longrightarrow> ends_well cv (handle_chat_calls cv sv receipt batch index calls v)"
  by (induction calls arbitrary: index v)
    (auto intro!: ends_well_next ends_well_after numbers.call handle_chat_call_ends split: chat_outcome.split)

lemma run_chat_subturn_ends:
  assumes "plain_turn cv"
  shows "ends_well cv (run_chat_subturn cv sv i v)"
proof -
  have "ends_well cv (run_chat_batch cv sv i receipt v)" for receipt v
    unfolding run_chat_batch_def Let_def chat_batch_refused_def
    by (auto intro!: ends_well_bind numbers.event_of numbers.skipped_from ends_well_next numbers.bind
        handle_chat_calls_ends [OF assms] split: sum.split)
  then show ?thesis
    unfolding run_chat_subturn_def Let_def
    by (auto intro!: ends_well_bind numbers.model_call numbers.kernel_step ends_well_ends ends_of_turn assms)
qed

lemma run_chat_subturns_end:
  assumes "plain_turn cv"
  shows "ends_turn cv (run_chat_subturns cv sv left i v)"
proof (induction left arbitrary: i v)
  case 0
  show ?case
    by (simp add: chat_loop_exhausted_def) (rule ends_turn_bind [OF numbers.event_of ends_of_turn(1) [OF assms]], simp)
next
  case (Suc left)
  show ?case
    unfolding ends_turn_def
  proof (intro allI impI)
    fix s r s'
    assume ok: "chat_log_ok (ch_events s)" and run: "run_chat_subturns cv sv (Suc left) i v s = (Inr r, s')"
    from run obtain out s1 where 1: "run_chat_subturn cv sv i v s = (Inr out, s1)"
      and 2: "(case out of ChatReturns r \<Rightarrow> io_return r | ChatNextSubturn v' \<Rightarrow> run_chat_subturns cv sv left (Suc i) v'
        | ChatNextCall v' \<Rightarrow> run_chat_subturns cv sv left (Suc i) v') s1 = (Inr r, s')"
      by (auto elim: io_bindE)
    have ok1: "chat_log_ok (ch_events s1)" by (rule chat_numbered_step [OF numbers.subturn 1 ok]) simp
    from 1 2 run_chat_subturn_ends [OF assms] ok Suc ok1 show "ended cv r s'"
      unfolding ends_turn_def ends_well_def by (cases out) (auto simp: io_return_def)
  qed
qed

text \<open>
  C11: A chat turn that returns has ended in its history. The last event the turn returns belongs to its thread
  and is the one of its status: answered, question, suggested task or failure. An answered turn returns its answer, and the file
  the event refers to holds exactly that text, also when the loop gave up and wrote the answer itself.
\<close>

theorem chat_turn_ends_recorded:
  assumes "plain_name (cv_thread cv)" and "plain_name (cv_turn_id cv @ ''_assistant.txt'')"
    and "CHR 0x5C \<notin> set (cv_turn_id cv)" and "chat_log_ok (ch_events s)"
    and "run_provider_loop cv sv s = (Inr r, s')"
  shows "cu_status r \<in> {CtAnswered, CtClarifying, CtNeedsTask, CtFailed} \<and> cu_events r \<noteq> [] \<and>
    ce_event_type (last (cu_events r)) = end_event (cu_status r) \<and> ce_chat_thread_id (last (cu_events r)) = cv_thread cv \<and>
    (cu_status r = CtAnswered \<longrightarrow>
      (\<exists>c. cu_assistant_content r = Some c \<and> sees (ch_os s') (answer_path cv) = Some (Bytes c)))"
proof -
  have "ended cv r s'"
    using run_chat_subturns_end [of cv] assms unfolding run_provider_loop_def ends_turn_def plain_turn_def by blast
  then show ?thesis by (cases "cu_status r") (auto simp: ended_def)
qed

section \<open>The read budget\<close>

lemma sat_add_ge: "a \<le> sat_add a (b :: 64 word)"
proof -
  have "unat a < 2 ^ LENGTH(64)" by (rule unsigned_less)
  then show ?thesis by (simp add: word_le_nat_alt unat_sat_add)
qed

lemma read_budget_stays: "read_budget_exceeded cv v \<Longrightarrow> read_budget_exceeded cv (after_execution x v)"
  unfolding read_budget_exceeded_def after_execution_def Let_def using sat_add_ge less_le_trans by (auto, blast+)

text \<open>
  Once a turn has read more than its budget no call can end it: the budget is tested before the status of the call,
  so an answer, a question or a suggested task of a later batch is recorded as the result of its call and then dropped.
\<close>

theorem no_answer_over_the_read_budget:
  assumes "read_budget_exceeded cv v" and "run_chat_batch cv sv i receipt v s = (Inr out, s')"
  shows "\<exists>v'. out = ChatNextSubturn v' \<and> read_budget_exceeded cv v'"
proof -
  have call: "\<exists>v'. out = ChatNextSubturn v' \<and> read_budget_exceeded cv v'"
    if "handle_chat_call cv sv receipt place v s = (Inr out, s')" for place out s s'
    using that read_budget_stays [OF assms(1)]
    by (auto simp: handle_chat_call_def read_budget_ends_batch_def Let_def io_return_def elim!: io_bindE)
  have "\<exists>v'. out = ChatNextSubturn v' \<and> read_budget_exceeded cv v'"
    if "handle_chat_calls cv sv receipt batch index calls v s = (Inr out, s')" for batch index calls s
    using that assms(1) by (cases calls) (auto simp: io_return_def elim!: io_bindE dest!: call)
  with assms show ?thesis
    by (auto simp: run_chat_batch_def Let_def io_return_def elim!: io_bindE split: sum.splits)
qed

end
