(* ===== verification/Chat_Witnesses.thy ===== *)
theory Chat_Witnesses
  imports Chat_Claims Transcript_Claims
begin

text \<open>
  Total correctness of the steps of a chat turn on a machine without faults (\<open>works\<close>), and the witnesses
  of the properties of a turn: a turn answered by the model in plain text, and a batch that is refused.
\<close>

section \<open>Fresh ids\<close>

lemma dec_nonempty: "dec n \<noteq> []"
  by (subst dec.simps) simp

lemma dec_inj: "dec m = dec n \<Longrightarrow> m = n"
proof (induction m arbitrary: n rule: dec.induct)
  case (1 m)
  show ?case
  proof (cases "m < 10 \<or> n < 10")
    case True
    with "1.prems" show ?thesis
      using dec_nonempty dec_nonempty [symmetric] by (auto simp: dec.simps [of m] dec.simps [of n] append_eq_Cons_conv split: if_splits dest: digit_char_inj [rotated 2])
  next
    case False
    with "1.prems" have "dec (m div 10) = dec (n div 10)" "digit_char (m mod 10) = digit_char (n mod 10)"
      by (simp_all add: dec.simps [of m] dec.simps [of n])
    moreover from this(2) have "m mod 10 = n mod 10" by (rule digit_char_inj [rotated 2]) (rule less_trans [where y = 10], simp, simp)+
    ultimately have "m div 10 = n div 10" "m mod 10 = n mod 10" using "1.IH" False by auto
    then show ?thesis by (metis div_mult_mod_eq)
  qed
qed

lemma dec_no_underscore: "CHR ''_'' \<notin> set (dec n)"
proof
  assume "CHR ''_'' \<in> set (dec n)"
  then obtain k where k: "k < 10" "CHR ''_'' = digit_char k" using dec_chars by blast
  from k(1) have "k \<in> {0, 1, 2, 3, 4, 5, 6, 7, 8, 9}" by auto
  with k(2) show False by (auto simp: digit_char_def)
qed

lemma numbered_id_inj: "p @ ''_'' @ dec m = q @ ''_'' @ dec n \<Longrightarrow> m = n"
proof -
  assume e: "p @ ''_'' @ dec m = q @ ''_'' @ dec n"
  have "takeWhile (\<lambda>c. c \<noteq> CHR ''_'') (rev (x @ ''_'' @ dec k)) = rev (dec k)" for x k
    using dec_no_underscore [of k] by (subst rev_append) (simp add: takeWhile_tail takeWhile_append2 takeWhile_append)
  from this [of p m] this [of q n] have "rev (dec m) = rev (dec n)" by (simp only: e)
  then have "dec m = dec n" by simp
  then show "m = n" by (rule dec_inj)
qed

section \<open>Steps that succeed\<close>

definition works :: "('s, 'a) io \<Rightarrow> 's \<Rightarrow> ('a \<Rightarrow> 's \<Rightarrow> bool) \<Rightarrow> bool" where
  "works m s Q \<longleftrightarrow> (\<exists>x s'. m s = (Inr x, s') \<and> Q x s')"

lemma works_return [simp]: "works (io_return x) s Q = Q x s"
  by (simp add: works_def io_return_def)

lemma works_bind: "works m s (\<lambda>x s'. works (f x) s' Q) \<Longrightarrow> works (io_bind m f) s Q"
  by (auto simp: works_def io_bind_Inr)

lemma works_weaken: "works m s P \<Longrightarrow> (\<And>x s'. P x s' \<Longrightarrow> Q x s') \<Longrightarrow> works m s Q"
  by (auto simp: works_def)

text \<open>
  A chat that can take \<open>k\<close> more events: no call fails, the numbers of the ids are below the counter,
  and every row can be read.
\<close>

definition fit :: "nat \<Rightarrow> (path \<Rightarrow> file_entry option) \<Rightarrow> chat_state \<Rightarrow> bool" where
  "fit k T s \<longleftrightarrow> quiet (ch_os s) \<and> sees (ch_os s) = T \<and> unat (ch_id_counter s) + k < 2 ^ 64 \<and> chat_log_ok (ch_events s) \<and>
     (\<forall>r \<in> set (ch_events s). (\<exists>p n. cw_event_id r = p @ ''_'' @ dec n \<and> n < unat (ch_id_counter s)) \<and>
       (\<exists>e. row_to_event demo_chats r = Inr e))"

lemma fit_simple:
  assumes "fit k T s" and "ch_events s' = ch_events s" and "ch_id_counter s' = ch_id_counter s"
    and "quiet (ch_os s')" and "sees (ch_os s') = T'"
  shows "fit k T' s'"
  using assms by (simp add: fit_def)

lemma works_event:
  assumes "fit (Suc k) T s" and "cv_store cv = demo_chats" and "\<And>s'. fit k T s' \<Longrightarrow> Q () s'"
  shows "works (chat_event_of cv ty kvs b) s Q"
proof -
  note fit = assms(1) [unfolded fit_def]
  let ?c = "unat (ch_id_counter s)"
  have c: "unat (ch_id_counter s + 1) = Suc ?c"
    using fit by (simp add: unat_word_ariths)
  have fresh: "''chat_event_'' @ n @ ''_'' @ m @ ''_'' @ dec ?c \<notin> cw_event_id ` set (ch_events s)" for n m
  proof
    assume "''chat_event_'' @ n @ ''_'' @ m @ ''_'' @ dec ?c \<in> cw_event_id ` set (ch_events s)"
    with fit obtain p j where "(''chat_event_'' @ n @ ''_'' @ m) @ ''_'' @ dec ?c = p @ ''_'' @ dec j" "j < ?c" by auto
    from numbered_id_inj [OF this(1)] this(2) show False by simp
  qed
  have tree: "os_tree (ch_os (clock_read t)) = os_tree (ch_os t)" "os_tree (tick t') = os_tree t'" for t t'
    by (simp_all add: clock_read_def tick_def)
  obtain e s' where a: "chat_append_event demo_chats (cv_thread cv) (cv_container cv) ty (chat_fields cv kvs) b s = (Inr e, s')"
    and s': "ch_id_counter s' = ch_id_counter s + 1" "quiet (ch_os s')" "os_tree (ch_os s') = os_tree (ch_os s)"
    and i: "\<exists>p. ce_event_id e = p @ ''_'' @ dec ?c"
    using fit fresh by (simp add: chat_append_event_def chat_simps Let_def tree del: image_iff)
  from a obtain e' where new: "ch_events s' = ch_events s @ [event_row_of demo_chats e']" and "e' = e"
    by (cases rule: chat_append_cases) auto
  moreover have "row_to_event demo_chats (event_row_of demo_chats e) = Inr e"
    by (rule chat_row_round_trip) (simp add: demo_codec_text)
  moreover have "cw_event_id (event_row_of demo_chats e) = ce_event_id e" by (simp add: event_row_of_def)
  ultimately have "fit k T s'"
    unfolding fit_def using fit i s' c chat_log_ok_append [OF a] by (fastforce intro: less_SucI)
  with a show ?thesis by (simp add: works_def chat_event_of_def assms(2,3) io_bind_Inr io_return_def)
qed

lemma works_now: "fit k T s \<Longrightarrow> (\<And>x s'. fit k T s' \<Longrightarrow> Q x s') \<Longrightarrow> works (on_kernel now_ms) s Q"
  unfolding works_def on_kernel_now by (simp add: fit_def clock_read_def quiet_def no_faults_def)

lemma works_kernel: "Q x s \<Longrightarrow> works (on_kernel (io_return x)) s Q"
  by (simp add: works_def on_kernel_def on_os_def on_world_def io_return_def)

lemma works_read:
  assumes "fit k T s" and "\<And>es s'. fit k T s' \<Longrightarrow> Q es s'"
  shows "works (chat_read_events demo_chats th) s Q"
proof -
  note fit = assms(1) [unfolded fit_def]
  have rows: "\<exists>es. all_rows (row_to_event demo_chats) rows = Inr es"
    if "\<forall>r \<in> set rows. \<exists>e. row_to_event demo_chats r = Inr e" for rows
    using that by (induction rows) auto
  have "set (chat_rows th (ch_events s)) \<subseteq> set (ch_events s)" using fit by (auto simp: chat_rows_ok)
  with fit rows [of "chat_rows th (ch_events s)"] obtain es where "all_rows (row_to_event demo_chats) (chat_rows th (ch_events s)) = Inr es"
    by blast
  with fit have "\<exists>s'. chat_read_events demo_chats th s = (Inr es, s') \<and> fit k T s'"
    by (simp add: chat_read_events_def chat_simps io_lift_def fit_def)
  with assms(2) show ?thesis by (auto simp: works_def)
qed

lemma works_blob:
  assumes "fit k T s" and "plain_name th" and "names \<noteq> []" and "\<forall>p \<in> set names. plain_name p"
    and "clear (butlast (chat_blob_path demo_chats th names)) T" and "T (chat_blob_path demo_chats th names) \<noteq> Some Directory"
    and "\<And>r s'. fit k ((with_dirs (butlast (chat_blob_path demo_chats th names)) T)(chat_blob_path demo_chats th names := Some (Bytes c))) s' \<Longrightarrow> Q r s'"
  shows "works (write_chat_blob demo_chats th (join ''/'' names) c) s Q"
proof -
  let ?p = "chat_blob_path demo_chats th names"
  have q: "quiet (ch_os s)" "sees (ch_os s) = T" using assms(1) by (simp_all add: fit_def)
  have last: "butlast ?p @ [last names] = ?p" using assms(3) by (simp add: chat_blob_path_def butlast_append)
  from gives_create_dir_all [OF q(1), of "butlast ?p"] assms(5) q(2) obtain o1 where
    1: "fs_create_dir_all (butlast ?p) (ch_os s) = (Inr (), o1)" "tree_only (ch_os s) o1" "sees o1 = with_dirs (butlast ?p) T"
    by (auto elim: givesE)
  have "?p \<noteq> butlast ?p" using last by (metis append_self_conv not_Cons_self2)
  moreover have "with_dirs (butlast ?p) T (butlast ?p) = Some Directory"
    using assms(5) by (cases "T (butlast ?p)"; cases "the (T (butlast ?p))") (auto simp: with_dirs_def clear_def)
  ultimately have "gives (fs_write ?p c) o1 () ((sees o1)(?p := Some (Bytes c)))"
    using tree_onlyD(1) [OF 1(2)] q(1) assms(6) last by (intro gives_write) (auto simp: 1(3) with_dirs_def path_starts_with_iff)
  then obtain o2 where 2: "fs_write ?p c o1 = (Inr (), o2)" "tree_only o1 o2" "sees o2 = (sees o1)(?p := Some (Bytes c))"
    by (auto elim: givesE)
  have "fit k ((with_dirs (butlast ?p) T)(?p := Some (Bytes c))) (s\<lparr>ch_os := o2\<rparr>)"
    using tree_onlyD(1) [OF 1(2)] tree_onlyD(1) [OF 2(2)] q(1) by (intro fit_simple [OF assms(1)]) (simp_all add: 1(3) 2(3))
  with assms(7) 1(1) 2(1) last show ?thesis
    by (simp add: works_def write_plain_blob [OF assms(2-4)] on_os_def io_simps)
qed

section \<open>A turn answered in plain text\<close>

definition demo_turn :: chat_turn where
  "demo_turn = \<lparr>cv_store = demo_chats, cv_thread = ''chat_1'', cv_container = ''c'', cv_turn_id = ''turn_1'',
     cv_user_message = ''hi'', cv_truth = ''j'', cv_pid = ''p'',
     cv_policy = \<lparr>lp_max_provider_subturns = 1, lp_max_tool_calls_per_subturn = 4, lp_max_tool_calls_total = 1,
       lp_allow_parallel_readonly = True, lp_mutation_allowed = False\<rparr>,
     cv_max_read_bytes = 100, cv_max_read_tokens = 100,
     cv_registry = chat_runtime_readonly default_capability_registry 9\<rparr>"

definition demo_chat_receipt :: "provider_tool_call list \<Rightarrow> chat_model_receipt" where
  "demo_chat_receipt calls = \<lparr>mcr_model_call_id = ''m'', mcr_capability_id = ''model.chat_turn'',
     mcr_operation = DecideNextAction, mcr_status = ''success'', mcr_provider = ''deepseek'', mcr_output_ref = None,
     mcr_finish_reason = None, mcr_provider_transcript_ref = None, mcr_provider_assistant_message_ref = None,
     mcr_provider_tool_calls = calls, mcr_provider_toolset_ref = None, mcr_error = None,
     mcr_model = ''model'', mcr_provider_transcript_id = None, mcr_provider_transcript_summary_ref = None\<rparr>"

definition demo_chat_services :: chat_services where
  "demo_chat_services = \<lparr>hs_parse_error = (\<lambda>s. s),
     hs_plan = (\<lambda>_. io_return (Inr \<lparr>tp_toolset_ref = ''t'', tp_tool_count = 9, tp_omitted_count = 0\<rparr>)),
     hs_chat_model = (\<lambda>_ _ _. io_return (demo_chat_receipt [])), hs_execute = (\<lambda>_. io_fail (IoError OtherKind [])),
     hs_tool_result = (\<lambda>_ _. io_return Null), hs_receipt_json = (\<lambda>_. Null), hs_failure_json = (\<lambda>_. Null)\<rparr>"

lemma demo_turn_simps [simp]:
  "cv_store demo_turn = demo_chats" "cv_thread demo_turn = ''chat_1''" "cv_turn_id demo_turn = ''turn_1''"
  "hs_plan demo_chat_services i = io_return (Inr \<lparr>tp_toolset_ref = ''t'', tp_tool_count = 9, tp_omitted_count = 0\<rparr>)"
  "hs_chat_model demo_chat_services n i pl = io_return (demo_chat_receipt [])"
  "mcr_provider_transcript_id (demo_chat_receipt calls) = None" "mcr_model_call_id (demo_chat_receipt calls) = ''m''"
  "mcr_status (demo_chat_receipt calls) = ''success''" "mcr_provider_tool_calls (demo_chat_receipt calls) = calls"
  "mcr_output_ref (demo_chat_receipt calls) = None" "mcr_provider (demo_chat_receipt calls) = ''deepseek''"
  by (simp_all add: demo_turn_def demo_chat_services_def demo_chat_receipt_def)

lemma demo_fit: "fit (Suc (Suc (Suc (Suc (Suc 0))))) (sees demo_os) demo_chat"
  by (simp add: fit_def demo_chat_def demo_quiet chat_log_ok_def)

abbreviation receipt_file :: "string list" where
  "receipt_file \<equiv> [''model_receipts'', ''turn_1_0_m.json'']"

abbreviation answer_file :: "string list" where
  "answer_file \<equiv> [''turns'', ''turn_1_assistant.txt'']"

lemma demo_files:
  "chat_blob_path demo_chats ''chat_1'' names = [''st'', ''blobs'', ''chat'', ''chat_1''] @ names"
  "\<forall>p \<in> set receipt_file. plain_name p" "\<forall>p \<in> set answer_file. plain_name p" "plain_name ''chat_1''"
  by (simp_all add: chat_blob_path_def demo_chats_def plain_name_def)

lemma receipt_file_name:
  "''model_receipts/'' @ safe_blob_name ''turn_1'' @ ''_'' @ dec 0 @ ''_'' @ safe_blob_name ''m'' @ ''.json'' = join ''/'' receipt_file"
  by code_simp

lemma demo_clear: "clear (''st'' # ''blobs'' # r) (sees demo_os)"
  using clear_new [of "os_tree demo_os" "[''st'']" "''blobs''" r] by (simp add: demo_sees)

lemma demo_model_call:
  assumes "\<And>T s. fit (Suc 0) T s \<Longrightarrow> clear [''st'', ''blobs'', ''chat'', ''chat_1'', ''turns''] T \<Longrightarrow>
    T [''st'', ''blobs'', ''chat'', ''chat_1'', ''turns'', ''turn_1_assistant.txt''] = None \<Longrightarrow> Q (demo_chat_receipt []) s"
  shows "works (call_chat_model demo_turn demo_chat_services 0) demo_chat Q"
proof -
  let ?d = "[''st'', ''blobs'', ''chat'', ''chat_1'', ''model_receipts'']"
  let ?T = "\<lambda>c. (with_dirs ?d (sees demo_os))(?d @ [''turn_1_0_m.json''] := Some (Bytes c))"
  have "clear [''st'', ''blobs'', ''chat'', ''chat_1'', ''turns''] (?T c)" for c
    using demo_clear [of "[''chat'', ''chat_1'', ''turns'']"]
    by (auto simp: clear_def with_dirs_def path_starts_with_iff append_eq_Cons_conv Cons_eq_append_conv)
  moreover have "?T c [''st'', ''blobs'', ''chat'', ''chat_1'', ''turns'', ''turn_1_assistant.txt''] = None" for c
    by (simp add: with_dirs_def demo_sees path_starts_with_iff)
  ultimately have Q: "fit (Suc 0) (?T c) s \<Longrightarrow> Q (demo_chat_receipt []) s" for c s using assms by blast
  have blob: "works (write_chat_blob demo_chats ''chat_1'' (join ''/'' receipt_file) c) s P"
    if "fit (Suc (Suc 0)) (sees demo_os) s" "\<And>r s'. fit (Suc (Suc 0)) (?T c) s' \<Longrightarrow> P r s'" for c s P
    using that demo_clear by (intro works_blob [OF that(1)]) (simp_all add: demo_files demo_sees)
  have projection: "works (record_chat_model_receipt_projection demo_turn demo_chat_services 0 (demo_chat_receipt [])) s
      (\<lambda>_ s'. \<exists>c. fit (Suc 0) (?T c) s')" if "fit (Suc (Suc 0)) (sees demo_os) s" for s
    unfolding record_chat_model_receipt_projection_def demo_turn_simps receipt_file_name
    by (intro works_bind blob that works_event [where k = "Suc 0" and T = "?T _"]) auto
  show ?thesis
    unfolding call_chat_model_def Let_def
    apply (rule works_bind, rule works_now [OF demo_fit])
    apply (rule works_bind, unfold demo_turn_simps, rule works_kernel, unfold sum.case)
    apply (rule works_bind, erule works_event, rule demo_turn_simps(1))
    apply (rule works_bind, erule works_event, rule demo_turn_simps(1))
    apply (rule works_bind, rule works_kernel)
    apply (rule works_bind, simp add: sync_chat_provider_transcript_def)
    apply (rule works_bind, erule works_event, rule demo_turn_simps(1))
    apply (rule works_bind, rule works_weaken, erule projection)
    apply (auto intro: Q)
    done
qed

lemma demo_answered: "works (run_provider_loop demo_turn demo_chat_services) demo_chat (\<lambda>r s'. cu_status r = CtAnswered)"
proof -
  have answer: "works (chat_answer_result demo_turn [] v) s (\<lambda>r s'. cu_status r = CtAnswered)"
    if "fit (Suc 0) T s" "clear [''st'', ''blobs'', ''chat'', ''chat_1'', ''turns''] T"
      "T [''st'', ''blobs'', ''chat'', ''chat_1'', ''turns'', ''turn_1_assistant.txt''] = None" for T s v
  proof -
    have j: "''turns/'' @ ''turn_1'' @ ''_assistant.txt'' = join ''/'' answer_file" by simp
    show ?thesis
      unfolding chat_answer_result_def turn_result_def demo_turn_simps j
      apply (rule works_bind, rule works_blob [OF that(1)])
           apply (simp_all add: demo_files that(2,3) del: join.simps)
      apply (rule works_bind, erule works_event, simp)
      apply (rule works_bind, erule works_read, simp)
      done
  qed
  have "unat (lp_max_provider_subturns (normalized (cv_policy demo_turn))) = Suc 0"
    by (simp add: demo_turn_def normalized_def)
  then show ?thesis
    unfolding run_provider_loop_def
    apply (simp add: run_chat_subturn_def Let_def)
    apply (rule works_bind, rule works_bind, rule demo_model_call)
    apply (simp add: model_output_text_def)
    apply (rule works_bind, rule works_kernel)
    apply (rule works_bind, rule works_weaken, erule (2) answer)
    apply simp
    done
qed

theorem chat_turn_ends_recorded_witness:
  "\<exists>r s'. run_provider_loop demo_turn demo_chat_services demo_chat = (Inr r, s') \<and> cu_status r = CtAnswered \<and>
     ce_event_type (last (cu_events r)) = ''chat_assistant_answered'' \<and>
     (\<exists>c. cu_assistant_content r = Some c \<and> sees (ch_os s') (answer_path demo_turn) = Some (Bytes c))"
proof -
  from demo_answered obtain r s' where run: "run_provider_loop demo_turn demo_chat_services demo_chat = (Inr r, s')"
    and st: "cu_status r = CtAnswered" by (auto simp: works_def)
  have "plain_name (cv_thread demo_turn)" "plain_name (cv_turn_id demo_turn @ ''_assistant.txt'')"
    "CHR 0x5C \<notin> set (cv_turn_id demo_turn)" "chat_log_ok (ch_events demo_chat)"
    by (simp_all add: plain_name_def)
  from chat_turn_ends_recorded [OF this run] st run show ?thesis by simp
qed

theorem chat_turn_changes_no_file_witness:
  "\<exists>r s'. run_provider_loop demo_turn demo_chat_services demo_chat = (Inr r, s') \<and>
     sees (ch_os s') [''ws'', ''a''] = Some (Bytes ''x'')"
proof -
  from demo_answered obtain r s' where run: "run_provider_loop demo_turn demo_chat_services demo_chat = (Inr r, s')"
    by (auto simp: works_def)
  have "sees (ch_os s') [''ws'', ''a''] = sees (ch_os demo_chat) [''ws'', ''a'']"
    by (rule chat_turn_changes_no_file [OF _ _ _ _ run])
      (simp_all add: demo_turn_def plain_name_def keeps_sight_def demo_chat_services_def io_fail_def io_return_def chat_dir_def
        demo_chats_def demo_chat_def demo_sees path_starts_with_iff)
  with run show ?thesis by (auto simp: demo_chat_def demo_sees)
qed

text \<open>A model that asks to delete a file, and an executor that would do it.\<close>

definition deleting_services :: chat_services where
  "deleting_services = demo_chat_services\<lparr>hs_chat_model := (\<lambda>_ _ _. io_return (demo_chat_receipt
     [\<lparr>tc_id = ''c1'', tc_type = ''function'', tc_function = jobj [(''name'', JString ''cap_os_delete_path'')]\<rparr>]))\<rparr>"

definition deleting_executor :: "next_action_decision \<Rightarrow> (os_state, capability_receipt) io" where
  "deleting_executor d = (if chat_may_run d then hs_execute deleting_services d
     else io_bind (fs_remove_file [''ws'', ''a'']) (\<lambda>_. io_fail (IoError OtherKind [])))"

theorem chat_runs_only_listed_capabilities_witness:
  "\<forall>s. run_provider_loop demo_turn (deleting_services\<lparr>hs_execute := deleting_executor\<rparr>) s =
     run_provider_loop demo_turn deleting_services s"
proof
  fix s
  show "run_provider_loop demo_turn (deleting_services\<lparr>hs_execute := deleting_executor\<rparr>) s =
     run_provider_loop demo_turn deleting_services s"
    by (rule chat_runs_only_listed_capabilities) (simp_all add: demo_turn_def deleting_executor_def)
qed

section \<open>A batch that is refused\<close>

text \<open>A chat whose transcript has one open call, and a turn that has used up its budget of calls.\<close>

definition demo_chat_used :: chat_vars where
  "demo_chat_used = (chat_start demo_turn)\<lparr>hv_exec := seed_executed_tool_calls 1 (loop_executor (cv_policy demo_turn))\<rparr>"

lemma works_world:
  assumes "fit k T s" and "m (os_world (ch_os s)) = (Inr x, w)" and "no_faults w" and "\<And>s'. fit k T s' \<Longrightarrow> Q x s'"
  shows "works (on_kernel m) s Q"
proof -
  have "fit k T (s\<lparr>ch_os := (ch_os s)\<lparr>os_world := w\<rparr>\<rparr>)"
    using assms(1,3) by (intro fit_simple [OF assms(1)]) (simp_all add: quiet_def fit_def)
  with assms(2,4) show ?thesis by (simp add: works_def on_kernel_def on_os_def on_world_def)
qed

lemma demo_refused:
  obtains s where "works (run_chat_batch demo_turn demo_chat_services 0 (demo_chat_receipt [demo_call]) demo_chat_used) s
    (\<lambda>out s1. \<exists>v. out = ChatNextSubturn v)"
proof -
  let ?q = "''deepseek_chat_completions''"
  obtain w where w: "no_faults w" "transcript_ok demo_codec ''j'' ''deepseek'' ?q w"
    "visible_messages demo_codec ''j'' ''deepseek'' ?q w = Some demo_messages" by (rule demo_transcript)
  have "''c1'' \<in> set (open_calls demo_messages)" by (simp add: demo_open)
  with pending_iff_open [OF w(2,3)] obtain st where st: "replayed_state ''j'' ''deepseek'' ?q w = Some st"
    "''c1'' \<in> ts_provider_tool_call_id ` set (pt_pending_tool_calls st)" by blast
  let ?s = "demo_chat\<lparr>ch_os := (ch_os demo_chat)\<lparr>os_world := w\<rparr>\<rparr>"
  have fit: "fit (Suc (Suc 0)) (sees demo_os) ?s"
    using w(1) demo_fit by (auto simp: fit_def quiet_def demo_chat_def)
  have skipped: "works (skipped_results_from demo_turn (demo_chat_receipt [demo_call]) batch 0 reason) ?s
      (\<lambda>n s'. fit (Suc 0) (sees demo_os) s')" for batch reason
  proof -
    let ?p = "\<lparr>cp_batch = batch, cp_index = 0, cp_call = demo_call\<rparr>"
    have recorded: "works (record_chat_result demo_turn (demo_chat_receipt [demo_call]) ?p r) ?s (\<lambda>_ s'. fit (Suc (Suc 0)) (sees demo_os) s')" for r
    proof -
      from record_tool_succeeds [OF w(1,3) st, of "''p''" r "\<lparr>rm_provider_tool_call_index = Some 0, rm_provider_tool_batch_id = Some batch\<rparr>"]
      obtain res w' where "record_provider_tool_result_with_metadata demo_codec ''j'' ''p'' ''deepseek'' ?q ''c1'' r
        \<lparr>rm_provider_tool_call_index = Some 0, rm_provider_tool_batch_id = Some batch\<rparr> w = (Inr res, w')" "no_faults w'" by blast
      then show ?thesis
        by (auto simp: record_chat_result_def provider_protocol_def demo_turn_def demo_call_def intro!: works_bind works_world [OF fit])
    qed
    show ?thesis
      by (auto simp: skipped_results_from_def Let_def intro!: works_bind works_weaken [OF recorded] works_event)
  qed
  have budget: "lp_max_tool_calls_total (le_policy (hv_exec demo_chat_used)) = 1" "le_executed_tool_calls (hv_exec demo_chat_used) = 1"
    by (simp_all add: demo_chat_used_def demo_turn_def loop_executor_def seed_executed_tool_calls_def normalized_def)
  have "sat_add 1 (1 :: 64 word) = 2" by (simp add: sat_add_def)
  then obtain e where "begin_subturn (hv_exec demo_chat_used) RkChat True ''m'' 0 [demo_call] = Inl e"
    by (auto simp: begin_subturn_def check_subturn_budget_def Let_def budget)
  then show ?thesis
    by (intro that [of ?s])
      (auto simp: run_chat_batch_def chat_batch_refused_def Let_def intro!: works_bind works_weaken [OF skipped] works_event)
qed

theorem every_chat_call_answered_witness:
  "\<exists>s out s'. run_chat_batch demo_turn demo_chat_services 0 (demo_chat_receipt [demo_call]) demo_chat_used s = (Inr out, s') \<and>
     answered_ids demo_turn s' = answered_ids demo_turn s @ [''c1'']"
proof -
  obtain s where "works (run_chat_batch demo_turn demo_chat_services 0 (demo_chat_receipt [demo_call]) demo_chat_used) s
    (\<lambda>out s'. \<exists>v. out = ChatNextSubturn v)" by (rule demo_refused)
  then obtain v s' where run: "run_chat_batch demo_turn demo_chat_services 0 (demo_chat_receipt [demo_call]) demo_chat_used s =
    (Inr (ChatNextSubturn v), s')" by (auto simp: works_def)
  have "quiet_services demo_turn demo_chat_services"
    by (simp add: quiet_services_def demo_chat_services_def io_fail_def io_return_def)
  from every_chat_call_answered [OF this run] run show ?thesis by (auto simp: answered_by_def demo_call_def)
qed

end
