(* ===== verification/Spec2Isabelle.thy ===== *)
theory Spec2Isabelle
  imports Approval_Claims Truth_Claims Capability_Registry Hashing Workspace_Guard Closure_Claims Kernel_Claims
    Terminal_Policy Store_Zip Transcript_Claims Model_Budget Run_Claims Message_Claims
    Os_Witnesses Task_Context_Claims Completion_Claims Toolset_Claims Chat_Witnesses
begin

text \<open>
  The SuperNova agent: a process kernel (\<open>process_kernel/src\<close>) that runs agent jobs in a workspace,
  and a product runtime (\<open>crates/product_runtime/src\<close>) that keeps the runs, messages and events
  the user interface shows.

  The program. A job of the kernel is a log of events in a database with registry tables and blob
  files beside it (the process truth). Capabilities act on the workspace; the ones that change it
  are described in a registry, classified by an approval policy, and go through previews and tokens of
  the approval runtime, all of it recorded in the log. A task may end only when the closure gate finds
  no open fact in the log. Conversations with a model provider are kept as a transcript, again as
  events and blobs. The task agent runs a job: turn by turn it builds an observation from the log, asks the
  model, decodes the tool calls of its answer, validates each as an action against its capability token,
  dispatches it to a runtime, and records the result in the transcript. The product runtime starts kernel workers as processes, follows their events, and
  keeps its own database: runs, runtime events, messages, and one shard database per task job or chat
  thread, from which clients read pages.

  Theories, in the order they build on each other.

  \<^item> \<open>Prelude\<close>: strings as byte lists and the string operations of the Rust library; lemma collections.
    \<open>Btree\<close>: ordered sets and maps as sorted lists, behind locales with interpretations.
    \<open>Io_Result\<close>: computations on a state that may fail (\<open>fallible\<close>), and the errors of \<open>io\<close>.
    \<open>Json\<close>: \<open>serde_json\<close> values, and the record of a serializer and parser.
    \<open>Paging\<close>: the contract of a feed read page by page and the reader that follows its cursors.

  \<^item> \<open>Process_Truth\<close>, \<open>Truth_Log\<close>, \<open>Replay\<close>, \<open>Fault_Free\<close>, \<open>Truth_Claims\<close>: the process truth of \<open>lib.rs\<close>
    (events, registry tables, blobs, checkpoints), its replay, and their properties. The state is the
    record \<open>world\<close>: tables as row lists, files as a map, a clock and a table of the operations that fail.

  \<^item> \<open>Approval_Runtime\<close>, \<open>Approval_Laws\<close>, \<open>Approval_Policy\<close>, \<open>Approval_Claims\<close>: \<open>approval_runtime.rs\<close> and the
    policies of \<open>capability_kernel.rs\<close>. \<open>Capability_Kernel\<close>, \<open>Kernel_Claims\<close>: requests, scopes and guards
    of \<open>capability_kernel.rs\<close>. \<open>Closure_Gate\<close>, \<open>Closure_Claims\<close>: \<open>closure_gate.rs\<close>.

  \<^item> \<open>Capability_Registry\<close>: the table of capabilities and verifiers of \<open>lib.rs\<close>. \<open>Workspace_Guard\<close>: path
    resolution. \<open>Hashing\<close>: FNV-1a and CRC-32 on machine words. \<open>Store_Zip\<close>: the archive writer and
    reader, byte by byte. \<open>Terminal_Policy\<close>: the classification of command lines and the snapshot diff of
    \<open>terminal_runtime.rs\<close>.

  \<^item> \<open>Model_Budget\<close>: \<open>model_retry.rs\<close>, \<open>context_budget.rs\<close> and the token estimate, on words of their width.
    \<open>Transcript_Protocol\<close>: the validator of \<open>context_compaction.rs\<close> and the live suffix of
    \<open>provider_transcript.rs\<close>. \<open>Provider_Transcript\<close>: recording, replaying, compacting and replacing a
    transcript. \<open>Transcript_Laws\<close>, \<open>Transcript_Claims\<close>: their properties; \<open>Json_Codec\<close>: one codec that
    reads back what it writes, for the witnesses.

  \<^item> \<open>Product_Db\<close>: the state \<open>product\<close> of the product runtime and its statements; \<open>retry_sqlite_busy\<close>.
    \<open>Run_Registry\<close>: \<open>run_registry.rs\<close> and \<open>runtime_event_log.rs\<close>. \<open>Message_Feed\<close>: \<open>message_feed.rs\<close>.
    \<open>Projection_Shards\<close>: \<open>projection_shards.rs\<close>. \<open>Message_Pages\<close>: the selections of pages of both, and the pages
    merged from them. \<open>Run_Manager\<close>: \<open>run_manager.rs\<close>. \<open>Run_Laws\<close>, \<open>Run_Claims\<close>,
    \<open>Message_Claims\<close>: their properties.

  \<^item> \<open>File_Tree\<close>: a file system as a tree, looked at through \<open>view\<close>. \<open>Os_Files\<close>: the calls of \<open>std::fs\<close> on it and
    the recursive file helpers of \<open>lib.rs\<close>. \<open>Os_Runtime\<close>: \<open>os_runtime.rs\<close>. \<open>Os_Laws\<close> (what each call does to
    the view when none fails), \<open>Os_Locks\<close>, \<open>Os_Rollback\<close>: its lemmas; \<open>Os_Claims\<close>, \<open>Os_Move\<close>, \<open>Os_Safety\<close>,
    \<open>Os_Hazards\<close>, \<open>Os_Witnesses\<close>: its properties.

  \<^item> \<open>Task_Context\<close>, \<open>Task_Context_Claims\<close>: \<open>task_context_state.rs\<close>, the replay of the log into what a task
    agent is told of its own job.

  \<^item> \<open>Provider_Tool\<close>: \<open>provider_tool.rs\<close> (registries of tools, decoding of calls) and the decisions of
    \<open>reasoning.rs\<close>. \<open>Toolset\<close>, \<open>Toolset_Claims\<close>: the planner of \<open>provider_toolset.rs\<close>, which selects and records the
    tools a model call is offered. \<open>Tool_Loop\<close>: the budgets of \<open>provider_tool_loop_executor.rs\<close>. \<open>Task_Agent\<close>: \<open>action.rs\<close>, and of
    \<open>task_agent.rs\<close> actions, receipts and the ends of a job, completion among them. \<open>Tool_Recovery\<close>: the
    errors a model can correct. \<open>Task_Dispatch\<close>, \<open>Task_Capability\<close>: arguments, previews and
    \<open>run_registered_capability\<close>. \<open>Task_Tools\<close>, \<open>Task_Loop\<close>: the execution of a decision and the provider tool
    call loop. \<open>Observation\<close>: \<open>observation.rs\<close>. \<open>Agent_Session\<close>: \<open>task_agent_session.rs\<close>. \<open>Loop_Laws\<close> (what each step
    adds to the log), \<open>Agent_Laws\<close> (what it leaves of the files, and where a decision comes from),
    \<open>Completion_Laws\<close> (how a job gets completed), \<open>Agent_Claims\<close>, \<open>Completion_Claims\<close>: their properties.

  \<^item> \<open>Chat_Truth\<close>: \<open>chat_truth.rs\<close>, the threads, events, transcripts and blobs of chats, in a state that has the
    three tables beside that of the OS runtime. \<open>Chat_Runtime\<close>, \<open>Chat_Loop\<close>: the provider tool call loop of a
    chat turn (\<open>chat_runtime.rs\<close>), its one call and its loop. \<open>Chat_Laws\<close>, \<open>Chat_Loop_Laws\<close> (the relations a turn
    keeps, by a locale), \<open>Chat_Truth_Claims\<close>, \<open>Chat_Calls\<close>, \<open>Chat_Claims\<close>, \<open>Chat_Witnesses\<close>: their properties.
\<close>

text \<open>
  What the properties say, by component.

  \<^item> Process truth: event ids of a job are 1, 2, 3, ... whatever fails and however the two halves of the appends of
    several connections interleave;
    a replay is a fold of the log and agrees with the registry tables after a status change; streaming
    resumes without loss; checkpoints and blobs are complete and read back.

  \<^item> Approvals: an issued token validates exactly for what was approved, never after it was used, and one
    transaction is approved once; a request has exactly the targets its
    call names, in its arguments, in the plans it refers to or by default. The closure gate is equivalent to
    its specification, and an unused token blocks it; in this release the kernel never consumes a token,
    so an approved call blocks its task (a finding).

  \<^item> Files: path resolution is exact, archives round-trip, extraction stays below its destination,
    fingerprints detect a changed byte, the snapshot diff is exact.

  \<^item> Transcript: the validator decides an independent statement of the protocol; over every sequence of
    recordings the visible messages keep it and their open calls are the pending calls of the replayed
    log; the live suffix never separates a call from its answer; a result needs a pending call; a result
    interrupted by a fault is repeated by its retry (a finding).

  \<^item> Runs: the tables stay well-formed over every sequence of operations, failed ones included;
    cancelling marks exactly the unfinished runs; a worker that ends after a cancellation ends its run
    as cancelled; a retried statement runs at most eight times; appending an event twice is appending
    it once; pages of events read the log.

  \<^item> Messages: a stored message keeps its place; a merged page holds the latest of each message; the pages of a
    container, cut selections of its own table and its shards merged, read its whole feed when the cursors follow
    its order and the shards are at most 64, and an update can make them skip a message (a finding).

  \<^item> OS runtime: whatever fails, no operation changes a path outside the workspace and the state directory,
    and a change touches its own paths and their parents only; when nothing fails, rolling back a delete,
    a write, a copy or a move restores what was there; a held lock blocks every change of the path it is named
    after, copies and moves to it included.
    Rolling back an extraction removes the archive, a transfer between two spellings of a path destroys
    it, and two paths with one lock name block each other (findings).

  \<^item> Task context: a token is listed as active exactly when it was issued and not used since, so the
    approval runtime, the closure gate and the context agree on it.

  \<^item> Task agent: whatever fails, a session that returns completed has passed the closure gate, no tool call
    changes a file without a grant, and a batch over the budget runs nothing; with a limit of turns a
    session returns. When nothing fails, a claim of completion is decided by the claimed files and the
    gate on the log in front of it. Every tool that a plan offers the provider decodes, by the
    record of the plan, to its capability.

  \<^item> Chats: an event and a blob are read back as recorded. Whatever fails, a turn gives the executor
    only the listed read-only capabilities, answers the calls of a batch in order and each once, and ends with the event of its
    status and with its answer stored. A reference may name blobs outside the chats, and an answer over the
    read budget is dropped (findings).

  The invariants \<open>log_ok\<close>, \<open>transcript_ok\<close>, \<open>product_ok\<close> and \<open>chat_log_ok\<close> are preserved per operation and then, by rule
  induction, over all sequences of steps.
\<close>

text \<open>
  Conventions. A Rust \<open>String\<close> is the list of its bytes, a \<open>BTreeMap\<close> or \<open>BTreeSet\<close> a sorted list, a
  database table the list of its rows in insertion order, an \<open>io::Result\<close> or \<open>rusqlite::Result\<close> a sum whose
  left side is the error. Every statement of a database and every file operation may fail: the states carry
  a function from the number of the operation to the error it gives, and the theorems hold for all such
  functions unless they assume there is no failure. The clock is a function from the number of readings.
  Millisecond times are natural numbers (the code casts between 64 and 128 bits; a time is far below both);
  cursors saturate at 64 bits as written; budgets, hashes and archive fields are words.

  The state \<open>os_state\<close> of the OS runtime is a file tree with absolute paths (lists of names) beside the world
  of the process truth; the two share the table of failing operations. The blobs of the process truth stay
  in its own map of files, while locks and backups are in the tree, below \<open>oe_state_root\<close>. A write that fails
  may leave any prefix or other content: \<open>os_torn\<close> says which. There are no links and no permissions.

  The task agent is the record \<open>task_agent\<close> of its token, registry, policy and codec; the model is a parameter
  that answers a turn with a receipt after any computation on the world, and the runtimes of capabilities
  outside the OS runtime are arbitrary computations. The properties hold for all of them. The chat runtime is
  the record \<open>chat_turn\<close> with its services \<open>chat_services\<close>: the planner of the toolset, the model and the read-only
  executor, arbitrary too, except where a property says that the executor records no results of its own. The planner of the task
  agent's tools has the text of its record as a parameter, and the decoder of calls the parser of that text.

  Parameters stand for code that is not in the repository: the JSON serializer and parser (\<open>serde_json\<close>,
  with the law that it reads back what it wrote, where a property needs it; \<open>Json_Codec.demo_codec\<close> is an
  instance), what the file system answers about a path, the environment variables, the texts of database
  errors, and a worker process (whether it starts, the lines it writes, how it exits). Callbacks of the
  worker loop are arbitrary computations on the state.

  Bounds. \<open>close_suffix\<close> terminates because its start decreases; \<open>close_suffix_rounds\<close> has one round of fuel
  more than the start. \<open>read_pages\<close> and \<open>read_feed\<close> are given as many pages as there are rows, each page but the
  last holding at least one. \<open>retry_loop\<close> makes the eight attempts of the code. The archive reader recurses on the bytes
  left. \<open>copy_path_recursive\<close> descends \<open>oe_max_depth\<close> levels and then fails, as the system does for a path that
  is too long; the rollback theorems assume the copied tree is not that deep. \<open>session_turns\<close> has fuel, because
  a session without a limit of turns may go on for ever; one more unit than the limit is enough when there
  is one (\<open>limited_session_returns\<close>). The loops of a turn recurse on the subturns and calls left.
\<close>

text \<open>
  Not modelled. The model runtime with its HTTP calls and the building of prompts, the start of a chat turn and
  the compaction of its context, the JSON schemas of tools, the capability runtimes behind the registry (office, data, package, environment; of the
  OS runtime the report \<open>workspace_inventory\<close>; the read-only executor of the chats only dispatches to them), the services above the run manager, the HTTP layer and the
  desktop shell: input and output, or text. Of the modelled files: the guides and schemas
  in the record of a plan, the registries planned for chats and domains, the debug trace
  of a transcript and of the tool loop, the markdown of previews, the
  model audit of artifacts and the helpers that page and search earlier results (\<open>task_agent.rs\<close>),
  spawning and waiting for processes, poisoned locks. The next parts would be the
  event projection, the start of a chat turn, and the container store.
\<close>

end
